(* ===== verification/WanPrelude.thy ===== *)
theory WanPrelude
  imports Main "HOL-Library.Word" "HOL-Library.Monad_Syntax" "HOL-Library.Sublist"
begin

text \<open>
  Shared vocabulary of the development: the C integer types, the flow of a C loop body, the
  loop combinator used for every \<open>for\<close> statement of the sources, and the generic lemmas about
  it.  A computation returns \<open>'a option\<close>; \<open>None\<close> is the one outcome the C program has no
  branch for: a dereference of a NULL pointer or of an element beyond an array.
\<close>

unbundle bit_operations_syntax

named_theorems lock_simps \<open>normal forms of lock and unlock around reads and writes\<close>
named_theorems frame_simps \<open>what an operation leaves unchanged\<close>

type_synonym uint = "32 word"   \<comment> \<open>\<open>UINT\<close>\<close>
type_synonym time = int         \<comment> \<open>\<open>tv_sec\<close> of a \<open>struct timespec\<close>\<close>

subsection \<open>Strings\<close>

text \<open>\<open>strstr(haystack, needle) != NULL\<close>.\<close>

definition strstr :: "string \<Rightarrow> string \<Rightarrow> bool" where
  "strstr haystack needle \<longleftrightarrow> sublist needle haystack"

text \<open>A character without its case, for \<open>strncasecmp\<close>.\<close>

definition lower_c :: "char \<Rightarrow> char" where
  "lower_c ch = (if 65 \<le> (of_char ch :: nat) \<and> of_char ch \<le> (90 :: nat) then char_of (of_char ch + 32 :: nat) else ch)"

text \<open>\<open>sprintf("%u")\<close>: the decimal digits of a natural number.\<close>

fun show_nat :: "nat \<Rightarrow> string" where
  "show_nat n =
     (if n < 10 then [char_of (48 + n)] else show_nat (n div 10) @ [char_of (48 + n mod 10)])"

declare show_nat.simps [simp del]

lemma show_nat_not_Nil [simp]: "show_nat n \<noteq> []"
  by (subst show_nat.simps) simp

text \<open>\<open>sprintf("%d")\<close>.\<close>

definition show_int :: "int \<Rightarrow> string" where
  "show_int n = (if n < 0 then CHR ''-'' # show_nat (nat (- n)) else show_nat (nat n))"

subsection \<open>Loops\<close>

text \<open>What one execution of a loop body does: go on, or leave the loop (\<open>break\<close>).\<close>

datatype 's flow = Continue 's | Break 's

fun for_each :: "'i list \<Rightarrow> ('i \<Rightarrow> 's \<Rightarrow> 's flow option) \<Rightarrow> 's \<Rightarrow> 's option" where
  "for_each [] body s = Some s"
| "for_each (i # is) body s =
     (case body i s of
        None \<Rightarrow> None
      | Some (Continue s') \<Rightarrow> for_each is body s'
      | Some (Break s') \<Rightarrow> Some s')"

text \<open>\<open>for (i = 0; i < n; i++)\<close>.\<close>

definition for_upto :: "nat \<Rightarrow> (nat \<Rightarrow> 's \<Rightarrow> 's flow option) \<Rightarrow> 's \<Rightarrow> 's option" where
  "for_upto n = for_each [0..<n]"

text \<open>
  The proof rule of a loop that is left early only through states that satisfy the
  postcondition: total correctness, no iteration dereferences a bad pointer.
\<close>

lemma for_each_rule:
  assumes start: "I [] s"
    and body: "\<And>pre i s. \<lbrakk>I pre s; \<exists>todo. xs = pre @ i # todo\<rbrakk> \<Longrightarrow>
        (\<exists>s'. body i s = Some (Continue s') \<and> I (pre @ [i]) s')
      \<or> (\<exists>s'. body i s = Some (Break s') \<and> Q s')"
    and exit: "\<And>s. I xs s \<Longrightarrow> Q s"
  shows "\<exists>s'. for_each xs body s = Some s' \<and> Q s'"
proof -
  have "\<lbrakk>I pre s; xs = pre @ rest\<rbrakk> \<Longrightarrow> \<exists>s'. for_each rest body s = Some s' \<and> Q s'"
    for pre rest s
  proof (induction rest arbitrary: pre s)
    case Nil
    then show ?case using exit by auto
  next
    case (Cons i rest)
    then have "\<exists>todo. xs = pre @ i # todo" by blast
    from body [OF Cons.prems(1) this] show ?case
    proof
      assume "\<exists>s'. body i s = Some (Continue s') \<and> I (pre @ [i]) s'"
      then obtain s' where b: "body i s = Some (Continue s')" and I': "I (pre @ [i]) s'" by blast
      from Cons.IH [OF I'] Cons.prems(2) have "\<exists>t. for_each rest body s' = Some t \<and> Q t" by simp
      with b show ?thesis by simp
    next
      assume "\<exists>s'. body i s = Some (Break s') \<and> Q s'"
      then show ?thesis by auto
    qed
  qed
  from this [OF start, of xs] show ?thesis by simp
qed

text \<open>An invariant that every iteration keeps, whichever way it leaves the body.\<close>

lemma for_each_invariant:
  assumes res: "for_each xs body s = Some t" and start: "I s"
    and body: "\<And>i s f. \<lbrakk>i \<in> set xs; I s; body i s = Some f\<rbrakk> \<Longrightarrow>
        (case f of Continue s' \<Rightarrow> I s' | Break s' \<Rightarrow> I s')"
  shows "I t"
  using assms
proof (induction xs arbitrary: s)
  case Nil
  then show ?case by simp
next
  case (Cons i xs)
  then show ?case
    by (fastforce split: option.splits flow.splits)
qed

text \<open>A body that always succeeds and never breaks is a left fold.\<close>

lemma for_each_fold:
  assumes "\<And>i s. i \<in> set xs \<Longrightarrow> body i s = Some (Continue (f i s))"
  shows "for_each xs body s = Some (fold f xs s)"
  using assms by (induction xs arbitrary: s) auto

lemma for_each_cong [fundef_cong]:
  assumes "xs = js" "s = t" and "\<And>i s. i \<in> set js \<Longrightarrow> body i s = body' i s"
  shows "for_each xs body s = for_each js body' t"
  using assms(3) unfolding assms(1,2)
  by (induction js arbitrary: t) (auto split: option.splits flow.splits)

subsection \<open>Lists read and written by index\<close>

definition nth_opt :: "'a list \<Rightarrow> nat \<Rightarrow> 'a option" where
  "nth_opt xs i = (if i < length xs then Some (xs ! i) else None)"

lemma nth_opt_Some_iff [simp]: "nth_opt xs i = Some x \<longleftrightarrow> i < length xs \<and> xs ! i = x"
  by (auto simp: nth_opt_def)

lemma nth_opt_None_iff [simp]: "nth_opt xs i = None \<longleftrightarrow> length xs \<le> i"
  by (auto simp: nth_opt_def)

lemma nth_opt_in [simp]: "i < length xs \<Longrightarrow> nth_opt xs i = Some (xs ! i)"
  by simp

definition map_nth :: "nat \<Rightarrow> ('a \<Rightarrow> 'a) \<Rightarrow> 'a list \<Rightarrow> 'a list" where
  "map_nth i f xs = (if i < length xs then xs[i := f (xs ! i)] else xs)"

lemma length_map_nth [simp]: "length (map_nth i f xs) = length xs"
  by (simp add: map_nth_def)

lemma nth_map_nth [simp]:
  "j < length xs \<Longrightarrow> map_nth i f xs ! j = (if i = j then f (xs ! j) else xs ! j)"
  by (simp add: map_nth_def)

lemma nth_opt_map_nth [simp]:
  "nth_opt (map_nth i f xs) j = (if i = j then map_option f (nth_opt xs j) else nth_opt xs j)"
  by (auto simp: nth_opt_def)

lemma map_map_nth:
  "(\<And>x. g (f x) = g x) \<Longrightarrow> map g (map_nth i f xs) = map g xs"
  by (rule nth_equalityI) auto

lemma list_all_map_nth:
  "list_all P xs \<Longrightarrow> (\<And>x. P x \<Longrightarrow> P (f x)) \<Longrightarrow> list_all P (map_nth i f xs)"
  by (auto simp: list_all_length)

subsection \<open>Words\<close>

lemma unat_pred_lt:
  fixes g :: uint
  assumes "g \<noteq> 0"
  shows "unat (g - 1) = unat g - 1"
  using assms by (simp add: unat_minus_one)

text \<open>Instance numbers start at 1: instance 0 never denotes an element.\<close>

lemma uint_pred_less_iff:
  fixes g n :: uint
  shows "g - 1 < n \<longleftrightarrow> g \<noteq> 0 \<and> g \<le> n"
proof (cases "g = 0")
  case True
  then show ?thesis by (simp add: leD)
next
  case False
  then have "unat (g - 1) = unat g - 1" "0 < unat g"
    by (simp_all add: unat_minus_one unat_gt_0)
  then have "unat (g - 1) < unat n \<longleftrightarrow> unat g \<le> unat n" by linarith
  with False show ?thesis by (simp add: word_less_nat_alt word_le_nat_alt)
qed

text \<open>The instance number of the element at index \<open>i\<close> of a table: the \<open>(i + 1)\<close> of the C loops.\<close>

definition inst_of :: "nat \<Rightarrow> uint" where
  "inst_of i = of_nat i + 1"

lemma inst_of_pred [simp]: "inst_of i - 1 = of_nat i"
  by (simp add: inst_of_def)

lemma index_bound:
  assumes "i < unat (n :: uint)"
  shows "unat (of_nat i :: uint) = i" "of_nat i < n" "unat (inst_of i) = i + 1" "inst_of i \<le> n"
    "inst_of i \<noteq> 0"
proof -
  have n: "unat n < 2 ^ 32" using unsigned_less [of n] by simp
  with assms show u: "unat (of_nat i :: uint) = i" by (simp add: unat_of_nat)
  from n assms have "unat (of_nat (i + 1) :: uint) = i + 1"
    by (simp only: unat_of_nat) simp
  then show v: "unat (inst_of i) = i + 1" by (simp add: inst_of_def add.commute)
  from u assms show "of_nat i < n" by (simp add: word_less_nat_alt)
  from v assms show "inst_of i \<le> n" by (simp add: word_le_nat_alt)
  show "inst_of i \<noteq> 0" using v by auto
qed

lemma inst_of_inject: "\<lbrakk>inst_of i = inst_of j; i < unat (n :: uint); j < unat n\<rbrakk> \<Longrightarrow> i = j"
  by (metis add_right_cancel index_bound(3))

text \<open>Every instance number that names an element comes from an index.\<close>

lemma inst_of_unat:
  fixes g n :: uint
  assumes "g \<noteq> 0" "g \<le> n"
  shows "g = inst_of (unat g - 1)" "unat g - 1 < unat n"
proof -
  have "0 < unat g" using assms(1) by (simp add: unat_gt_0)
  then show "unat g - 1 < unat n" using assms(2) by (simp add: word_le_nat_alt)
  show "g = inst_of (unat g - 1)"
    using unat_pred_lt [OF assms(1)] by (metis diff_add_cancel inst_of_def of_nat_unat ucast_id)
qed

text \<open>A position in the list of the first numbers.\<close>

lemma upt_split: "[0..<n] = pre @ i # todo \<Longrightarrow> i = length pre \<and> i < n"
proof -
  assume s: "[0..<n] = pre @ i # todo"
  then have "length pre < n" by (metis append_eq_conv_conj length_append length_upt
      diff_zero less_add_same_cancel1 length_greater_0_conv list.distinct(1))
  with arg_cong [OF s, of "\<lambda>xs. xs ! length pre"] show ?thesis by simp
qed

end
