(* ===== verification/WanTypes.thy ===== *)
theory WanTypes
  imports WanPrelude
begin

text \<open>
  The data model of \<open>source/TR-181/include/wanmgr_dml.h\<close>: the enumerations as datatypes, the
  structures as records (field names carry the structure's prefix, since record fields are global
  constants), the linked list of virtual interfaces as a list, the arrays of interfaces and groups
  as lists behind a pointer that may be NULL.  Enumerations whose value the program reads from
  the persistent store with \<open>sscanf\<close> or \<open>strtol\<close> (the policy of a group, the fail-over type, the
  connectivity check type) are integers, since nothing keeps the stored number in range.

  The last part is the world the threads share: the data base with its recursive mutex, the
  persistent stores, and the log of the calls that leave the program; and the environment that
  answers those calls.
\<close>

subsection \<open>Enumerations\<close>

datatype WANMGR_IFACE_SELECTION =
    WAN_IFACE_UNKNOWN | WAN_IFACE_NOT_SELECTED | WAN_IFACE_VALIDATING
  | WAN_IFACE_SELECTED | WAN_IFACE_ACTIVE

datatype DEVICE_NETWORKING_MODE = GATEWAY_MODE | MODEM_MODE

datatype DML_WAN_IFACE_OPER_STATUS =
    WAN_OPERSTATUS_UNKNOWN | WAN_OPERSTATUS_OPERATIONAL | WAN_OPERSTATUS_NOT_OPERATIONAL

datatype DML_WAN_IFACE_STATUS =
    WAN_IFACE_STATUS_DISABLED | WAN_IFACE_STATUS_INITIALISING | WAN_IFACE_STATUS_VALIDATING
  | WAN_IFACE_STATUS_VALID | WAN_IFACE_STATUS_UP | WAN_IFACE_STATUS_INVALID
  | WAN_IFACE_STATUS_STANDBY

datatype DML_WAN_IFACE_SCAN_STATUS = WAN_IFACE_STATUS_NOT_SCANNED | WAN_IFACE_STATUS_SCANNED

datatype DML_WAN_IFACE_LINKSTATUS =
    WAN_IFACE_LINKSTATUS_DOWN | WAN_IFACE_LINKSTATUS_CONFIGURING | WAN_IFACE_LINKSTATUS_UP

datatype DML_WAN_IFACE_PHY_STATUS =
    WAN_IFACE_PHY_STATUS_DOWN | WAN_IFACE_PHY_STATUS_INITIALIZING | WAN_IFACE_PHY_STATUS_UP
  | WAN_IFACE_PHY_STATUS_UNKNOWN

datatype DML_WAN_IFACE_TYPE =
    WAN_IFACE_TYPE_UNCONFIGURED | WAN_IFACE_TYPE_PRIMARY | WAN_IFACE_TYPE_SECONDARY

datatype DML_WAN_IFACE_IPV4_STATUS =
    WAN_IFACE_IPV4_STATE_UP | WAN_IFACE_IPV4_STATE_DOWN | WAN_IFACE_IPV4_STATE_UNKNOWN

datatype DML_WAN_IFACE_IPV6_STATUS =
    WAN_IFACE_IPV6_STATE_UP | WAN_IFACE_IPV6_STATE_DOWN | WAN_IFACE_IPV6_STATE_UNKNOWN

datatype DML_WAN_IFACE_MAPT_STATUS = WAN_IFACE_MAPT_STATE_UP | WAN_IFACE_MAPT_STATE_DOWN

datatype DML_WAN_IFACE_DSLITE_STATUS = WAN_IFACE_DSLITE_STATE_UP | WAN_IFACE_DSLITE_STATE_DOWN

datatype DML_WAN_IP_SOURCE =
    DML_WAN_IP_SOURCE_STATIC | DML_WAN_IP_SOURCE_DHCP | DML_WAN_IP_SOURCE_PPP

datatype DML_WAN_IP_MODE =
    DML_WAN_IP_MODE_IPV4_ONLY | DML_WAN_IP_MODE_IPV6_ONLY | DML_WAN_IP_MODE_DUAL_STACK
  | DML_WAN_IP_MODE_NO_IP

datatype DML_WAN_IP_PREFERRED_MODE = DUAL_STACK_MODE | MAPT_MODE | MAPE_MODE | DSLITE_MODE

datatype WANMGR_DHCPC_STATUS = DHCPC_STATE_UNKNOWN | DHCPC_STARTED | DHCPC_STOPPED | DHCPC_FAILED

datatype TIMER_STATUS = NOTSTARTED | EXPIRED | RUNNING | COMPLETE

datatype DML_WAN_IFACE_IPCP_STATUS = WAN_IFACE_IPCP_STATUS_DOWN | WAN_IFACE_IPCP_STATUS_UP

datatype DML_WAN_IFACE_IPV6CP_STATUS = WAN_IFACE_IPV6CP_STATUS_DOWN | WAN_IFACE_IPV6CP_STATUS_UP

datatype DML_WAN_IFACE_PPP_LINK_STATUS =
    WAN_IFACE_PPP_LINK_STATUS_DOWN | WAN_IFACE_PPP_LINK_STATUS_CONFIGURING
  | WAN_IFACE_PPP_LINK_STATUS_UP

datatype IFACE_TYPE = LOCAL_IFACE | REMOTE_IFACE

datatype WAN_IFACE_GROUP_STATUS =
    STATE_GROUP_UNKNOWN | STATE_GROUP_RUNNING | STATE_GROUP_STOPPED | STATE_GROUP_DEACTIVATED

datatype CONNECTIVITY_STATUS = WAN_CONNECTION_UNKNOWN | WAN_CONNECTIVITY_UP | WAN_CONNECTIVITY_DOWN

datatype eWanState_t =
    WAN_STATE_EXIT | WAN_STATE_VLAN_CONFIGURING | WAN_STATE_PPP_CONFIGURING
  | WAN_STATE_VALIDATING_WAN | WAN_STATE_OBTAINING_IP_ADDRESSES | WAN_STATE_IPV4_LEASED
  | WAN_STATE_IPV6_LEASED | WAN_STATE_DUAL_STACK_ACTIVE | WAN_STATE_MAPT_ACTIVE
  | WAN_STATE_REFRESHING_WAN | WAN_STATE_DECONFIGURING_WAN | WAN_STATE_STANDBY

datatype TelemetryEvent_t =
    WAN_FAILOVER_SUCCESS | WAN_FAILOVER_FAIL | WAN_RESTORE_SUCCESS | WAN_RESTORE_FAIL

datatype ANSC_STATUS = ANSC_STATUS_SUCCESS | ANSC_STATUS_FAILURE

text \<open>\<open>DML_WAN_POLICY\<close>, \<open>FAILOVER_TYPE\<close> and \<open>CONNECTIVITY_CHECK_TYPE\<close>: the named values.\<close>

abbreviation (input) "AUTOWAN_MODE \<equiv> (6 :: int)"
abbreviation (input) "PARALLEL_SCAN \<equiv> (7 :: int)"
abbreviation (input) "HOTSWAP \<equiv> (1 :: int)"
abbreviation (input) "COLDSWAP \<equiv> (2 :: int)"
abbreviation (input) "WAN_CONNECTIVITY_TYPE_NO_CHECK \<equiv> (0 :: int)"
abbreviation (input) "WAN_CONNECTIVITY_TYPE_IHC \<equiv> (1 :: int)"
abbreviation (input) "WAN_CONNECTIVITY_TYPE_TAD \<equiv> (2 :: int)"

abbreviation (input) "DML_WAN_IFACE_PRIORITY_MAX \<equiv> (255 :: int)"
abbreviation (input) "REMOTE_INTERFACE_NAME \<equiv> ''brRWAN''"
abbreviation (input) "REMOTE_INTERFACE_GROUP \<equiv> (2 :: uint)"
abbreviation (input) "MAX_INTERFACE_GROUP \<equiv> (2 :: uint)"
abbreviation (input) "MAX_WAN_INTERFACE_ENTRY \<equiv> (32 :: uint)"

text \<open>C compares the physical status of interfaces by the number of the enumerator.\<close>

primrec phy_code :: "DML_WAN_IFACE_PHY_STATUS \<Rightarrow> nat" where
  "phy_code WAN_IFACE_PHY_STATUS_DOWN = 1"
| "phy_code WAN_IFACE_PHY_STATUS_INITIALIZING = 2"
| "phy_code WAN_IFACE_PHY_STATUS_UP = 3"
| "phy_code WAN_IFACE_PHY_STATUS_UNKNOWN = 4"

lemma phy_code_inject: "phy_code p = phy_code q \<Longrightarrow> p = q"
  by (cases p; cases q) auto

instantiation DML_WAN_IFACE_PHY_STATUS :: linorder
begin

definition less_eq_DML_WAN_IFACE_PHY_STATUS where
  "(p :: DML_WAN_IFACE_PHY_STATUS) \<le> q \<longleftrightarrow> phy_code p \<le> phy_code q"

definition less_DML_WAN_IFACE_PHY_STATUS where
  "(p :: DML_WAN_IFACE_PHY_STATUS) < q \<longleftrightarrow> phy_code p < phy_code q"

instance
  by standard
    (auto simp: less_eq_DML_WAN_IFACE_PHY_STATUS_def less_DML_WAN_IFACE_PHY_STATUS_def
      intro: phy_code_inject)

end

subsection \<open>Structures\<close>

record DATAMODEL_PPP =
  PPP_Enable :: bool
  PPP_Interface :: string
  PPP_IPCPStatus :: DML_WAN_IFACE_IPCP_STATUS
  PPP_IPV6CPStatus :: DML_WAN_IFACE_IPV6CP_STATUS
  PPP_IPCPStatusChanged :: bool
  PPP_IPV6CPStatusChanged :: bool
  PPP_LinkStatus :: DML_WAN_IFACE_PPP_LINK_STATUS

record WANMGR_IPV4_DATA =
  V4_ifname :: string
  V4_ip :: string
  V4_mask :: string
  V4_gateway :: string
  V4_dnsServer :: string
  V4_dnsServer1 :: string
  V4_mtuSize :: uint
  V4_leaseReceivedTime :: uint

record WANMGR_IPV6_DATA =
  V6_ifname :: string
  V6_address :: string
  V6_pdIfAddress :: string
  V6_nameserver :: string
  V6_nameserver1 :: string
  V6_domainName :: string
  V6_sitePrefix :: string
  V6_prefixPltime :: uint
  V6_prefixVltime :: uint
  V6_sitePrefixOld :: string
  V6_ipv6_TimeOffset :: uint

record WANMGR_IPV6_RA_DATA =
  RA_defaultRoute :: string
  RA_defRouteLifeTime :: uint

text \<open>
  The messages of the DHCP clients.  Their types are declared outside the repository; these are the
  fields the program reads and writes.
\<close>

record ipc_dhcpv4_data_t =
  I4_dhcpcInterface :: string
  I4_addressAssigned :: bool
  I4_isExpired :: bool
  I4_ip :: string
  I4_mask :: string
  I4_gateway :: string
  I4_dnsServer :: string
  I4_dnsServer1 :: string
  I4_mtuAssigned :: bool
  I4_mtuSize :: uint
  I4_isTimeOffsetAssigned :: bool
  I4_timeOffset :: int
  I4_timeZone :: string
  I4_upstreamCurrRate :: int
  I4_downstreamCurrRate :: int
  I4_dhcpServerId :: string
  I4_dhcpState :: string
  I4_leaseTime :: uint

record ipc_dhcpv6_data_t =
  I6_ifname :: string
  I6_isExpired :: bool
  I6_addrAssigned :: bool
  I6_addrCmd :: uint
  I6_address :: string
  I6_prefixAssigned :: bool
  I6_prefixCmd :: uint
  I6_sitePrefix :: string
  I6_pdIfAddress :: string
  I6_prefixPltime :: uint
  I6_prefixVltime :: uint
  I6_sitePrefixOld :: string
  I6_nameserver :: string
  I6_nameserver1 :: string
  I6_domainNameAssigned :: bool
  I6_domainName :: string

record DML_WANIFACE_IP =
  IP_Interface :: string
  IP_DHCPv4Iface :: string
  IP_DHCPv6Iface :: string
  IP_Ipv4Status :: DML_WAN_IFACE_IPV4_STATUS
  IP_Ipv6Status :: DML_WAN_IFACE_IPV6_STATUS
  IP_ConnectivityCheckType :: int
  IP_Ipv4ConnectivityStatus :: CONNECTIVITY_STATUS
  IP_Ipv6ConnectivityStatus :: CONNECTIVITY_STATUS
  IP_IPv4Source :: DML_WAN_IP_SOURCE
  IP_IPv6Source :: DML_WAN_IP_SOURCE
  IP_ConnectivityCheckRunning :: bool
  IP_RestartConnectivityCheck :: bool
  IP_WCC_TypeChanged :: bool
  IP_RefreshDHCP :: bool
  IP_Mode :: DML_WAN_IP_MODE
  IP_PreferredMode :: DML_WAN_IP_PREFERRED_MODE
  IP_SelectedMode :: DML_WAN_IP_PREFERRED_MODE
  IP_SelectedModeTimerStart :: time
  IP_SelectedModeTimerStatus :: TIMER_STATUS
  IP_ModeForceEnable :: bool
  IP_Ipv4Changed :: bool
  IP_Ipv6Changed :: bool
  IP_Ipv4Renewed :: bool
  IP_Ipv6Renewed :: bool
  IP_Ipv4Data :: WANMGR_IPV4_DATA
  IP_Ipv6Data :: WANMGR_IPV6_DATA
  IP_Ipv6Route :: WANMGR_IPV6_RA_DATA
  IP_pIpcIpv4Data :: "ipc_dhcpv4_data_t option"   \<comment> \<open>a message that waits for the interface's machine\<close>
  IP_pIpcIpv6Data :: "ipc_dhcpv6_data_t option"
  IP_Dhcp4cPid :: int
  IP_Dhcp4cStatus :: WANMGR_DHCPC_STATUS
  IP_Dhcp6cPid :: int
  IP_Dhcp6cStatus :: WANMGR_DHCPC_STATUS

record DML_WANIFACE_MAP =
  MAP_MaptStatus :: DML_WAN_IFACE_MAPT_STATUS
  MAP_Path :: string
  MAP_MaptChanged :: bool

record DML_WANIFACE_DSLITE =
  DSL_Path :: string
  DSL_Status :: DML_WAN_IFACE_DSLITE_STATUS
  DSL_Changed :: bool

record DML_VIRTIF_MARKING =
  VM_VirtMarkingInstanceNumber :: nat   \<comment> \<open>\<open>ULONG\<close>\<close>
  VM_VirIfIdx :: uint
  VM_baseIfIdx :: uint
  VM_Entry :: uint

record DML_VLAN_IFACE_TABLE =
  VT_Index :: nat   \<comment> \<open>\<open>ULONG\<close>\<close>
  VT_VirIfIdx :: uint
  VT_baseIfIdx :: uint
  VT_Interface :: string

record DML_VIRTUALIF_VLAN =
  VLAN_Enable :: bool
  VLAN_VLANInUse :: string
  VLAN_ActiveIndex :: uint
  VLAN_Timeout :: uint
  VLAN_NoOfInterfaceEntries :: uint
  VLAN_InterfaceList :: "DML_VLAN_IFACE_TABLE list"
  VLAN_NoOfMarkingEntries :: uint
  VLAN_VirtMarking :: "DML_VIRTIF_MARKING list"
  VLAN_Status :: DML_WAN_IFACE_LINKSTATUS
  VLAN_Expired :: bool
  VLAN_Reset :: bool
  VLAN_TimerStart :: time

record DML_VIRTUAL_IFACE =
  VI_VirIfIdx :: uint
  VI_baseIfIdx :: uint
  VI_Name :: string
  VI_Alias :: string
  VI_Enable :: bool
  VI_EnableMAPT :: bool
  VI_EnableDSLite :: bool
  VI_Status :: DML_WAN_IFACE_STATUS
  VI_RemoteStatus :: DML_WAN_IFACE_STATUS
  VI_VLAN :: DML_VIRTUALIF_VLAN
  VI_Reset :: bool
  VI_OperationalStatus :: DML_WAN_IFACE_OPER_STATUS
  VI_IP :: DML_WANIFACE_IP
  VI_PPP :: DATAMODEL_PPP
  VI_MAP :: DML_WANIFACE_MAP
  VI_DSLite :: DML_WANIFACE_DSLITE
  VI_eCurrentState :: eWanState_t
  VI_Interface_SM_Running :: bool

record DML_IFACE_SELECTION =
  Sel_Enable :: bool
  Sel_Priority :: int
  Sel_Timeout :: uint
  Sel_Status :: WANMGR_IFACE_SELECTION
  Sel_ActiveLink :: bool
  Sel_Group :: uint
  Sel_RequiresReboot :: bool
  Sel_RebootTriggerStatus :: bool

record DML_WAN_IFACE =
  If_uiIfaceIdx :: uint
  If_uiInstanceNumber :: uint
  If_Name :: string
  If_DisplayName :: string
  If_AliasName :: string
  If_MonitorOperStatus :: bool
  If_WanConfigEnabled :: bool
  If_VirtIfChanged :: bool
  If_CustomConfigEnable :: bool
  If_CustomConfigPath :: string
  If_InterfaceScanStatus :: DML_WAN_IFACE_SCAN_STATUS
  If_RemoteCPEMac :: string
  If_BaseInterface :: string
  If_Type :: DML_WAN_IFACE_TYPE
  If_BaseInterfaceStatus :: DML_WAN_IFACE_PHY_STATUS
  If_Selection :: DML_IFACE_SELECTION
  If_IfaceType :: IFACE_TYPE
  If_BaseInterfaceStatusSub :: uint    \<comment> \<open>the members of \<open>Sub\<close>: the numbers of subscribers\<close>
  If_WanStatusSub :: uint
  If_WanLinkStatusSub :: uint
  If_WanEnableSub :: uint
  If_NoOfVirtIfs :: uint
  If_VirtIfList :: "DML_VIRTUAL_IFACE list"

record WANMGR_IFACE_GROUP =
  G_ThreadId :: nat
  G_State :: WAN_IFACE_GROUP_STATUS
  G_groupIdx :: uint
  G_InterfaceAvailable :: uint
  G_SelectedInterface :: uint
  G_SelectionTimeOut :: uint
  G_ActivationCount :: uint
  G_PersistSelectedIface :: bool
  G_Policy :: int
  G_ConfigChanged :: bool
  G_ResetSelectedInterface :: bool
  G_InitialScanComplete :: bool

record DML_WANMGR_CONFIG =
  Cfg_Enable :: bool
  Cfg_DeviceNwMode :: DEVICE_NETWORKING_MODE
  Cfg_DeviceNwModeChanged :: bool
  Cfg_ResetFailOverScan :: bool
  Cfg_AllowRemoteInterfaces :: bool
  Cfg_BootToWanUp :: bool
  Cfg_InterfaceAvailableStatus :: string
  Cfg_InterfaceActiveStatus :: string
  Cfg_CurrentActiveInterface :: string
  Cfg_CurrentStatus :: string
  Cfg_CurrentStandbyInterface :: string
  Cfg_RestorationDelay :: uint
  Cfg_CurrentActiveDNS :: string
  Cfg_BackupWanDnsSupport :: bool
  Cfg_IPv6EUI64FormatSupport :: bool
  Cfg_ConfigureWANIPv6OnLANBridgeSupport :: bool
  Cfg_UseWANMACForManagementServices :: bool
  Cfg_InterfaceVLANMarkingSupport :: bool

record WanMgr_IfaceCtrl_Data_t =
  IC_ulTotalNumbWanInterfaces :: uint
  IC_pIface :: "DML_WAN_IFACE list option"
  IC_update :: uint

record WanMgr_IfaceGroup_t =
  IG_ulTotalNumbWanIfaceGroup :: uint
  IG_Group :: "WANMGR_IFACE_GROUP list option"

text \<open>
  \<open>gDataMutex\<close> is a recursive mutex: \<open>None\<close> before \<open>pthread_mutex_init\<close> and after
  \<open>pthread_mutex_destroy\<close>, \<open>Some n\<close> when the running thread holds it \<open>n\<close> times.
\<close>

record WANMGR_DATA_ST =
  gDataMutex :: "nat option"
  Config :: DML_WANMGR_CONFIG
  IfaceCtrl :: WanMgr_IfaceCtrl_Data_t
  IfaceGroup :: WanMgr_IfaceGroup_t

subsection \<open>The world and the environment\<close>

text \<open>The order to the connectivity checker that a short-lived thread passes on.\<close>

datatype WCC_EVENT = WCC_START | WCC_RESTART | WCC_STOP

record TAD_WCC_Event =
  WCC_Event :: WCC_EVENT
  WCC_IfaceName :: string
  WCC_Alias :: string
  WCC_IPv4_DNS_Servers :: string
  WCC_IPv4_Gateway :: string
  WCC_IPv6_DNS_Servers :: string
  WCC_IPv6_Gateway :: string

datatype thread =
    AutoWanSelectionProcess uint        \<comment> \<open>the selection thread of a group\<close>
  | ParallelScanSelectionProcess uint
  | InterfaceSMThread int int           \<comment> \<open>base interface and virtual interface\<close>
  | WanMgr_Configure_WCC_Thread TAD_WCC_Event
  | WanMgr_WanRemoteIfaceConfigure_thread string bool  \<comment> \<open>address of the remote device, available\<close>

datatype IDM_MSG_OPERATION = IDM_SET | IDM_GET | IDM_SUBS | IDM_REQUEST

datatype effect =
    SyseventSet string string
  | TelemetryEvent "string option"      \<comment> \<open>\<open>t2_event_d\<close>; \<open>None\<close> is a NULL marker\<close>
  | TelemetryElapsed string time        \<comment> \<open>a marker with a number of seconds\<close>
  | PsmSet string string
  | SyscfgSet string string
  | BusSet string string
  | BusGet string
  | ThreadCreate thread
  | Reboot
  | System string                       \<comment> \<open>a shell command\<close>
  | WriteFile string string
  | RbusPublish string string
  | RbusPublishBool string bool
  | RbusSubscribe string
  | RbusUnsubscribe string
  | RbusInvoke string TAD_WCC_Event       \<comment> \<open>a method of the connectivity checker\<close>
  | RbusRegisterRow string nat string     \<comment> \<open>table, instance number, alias\<close>
  | RbusUnregisterRow string
  | IdmInvoke string string IDM_MSG_OPERATION  \<comment> \<open>address of the remote device, parameter\<close>
  | StartDhcpv4 string string IFACE_TYPE  \<comment> \<open>interface, base interface\<close>
  | StopDhcpv4 string bool                \<comment> \<open>with a release of the lease\<close>
  | StartDhcpv6 string IFACE_TYPE
  | StopDhcpv6 string

record world =
  gWanMgrDataBase :: WANMGR_DATA_ST
  psm :: "string \<rightharpoonup> string"
  syscfg :: "string \<rightharpoonup> string"
  remotePriority :: int                    \<comment> \<open>the static variable of \<open>WanMgr_Remote_IfaceData_Update\<close>\<close>
  lastEvent :: "TelemetryEvent_t option"   \<comment> \<open>the static variable of \<open>WanMgr_TelemetryEventTrigger\<close>; \<open>None\<close> is 0\<close>
  PrevWanStatus :: "DML_WAN_IFACE_STATUS option"  \<comment> \<open>the static variable of \<open>WanMgr_Publish_WanStatus\<close>; \<open>None\<close> is 0\<close>
  isDefaultGatewayAdded :: bool            \<comment> \<open>the static variable of \<open>wanmgr_sysevents.c\<close>\<close>
  wan_ready_to_go :: bool
  out :: "effect list"                     \<comment> \<open>newest first\<close>

text \<open>
  What the world outside the program answers.  An answer may depend on everything the program has
  emitted before, so two calls need not get the same answer.
\<close>

record env =
  clock :: "nat \<Rightarrow> time"                   \<comment> \<open>the n-th reading of the monotonic clock in this pass\<close>
  psm_set_ok :: "effect list \<Rightarrow> bool"      \<comment> \<open>\<open>PSM_Set_Record_Value2\<close> returns \<open>CCSP_SUCCESS\<close>\<close>
  bus_set_ok :: "effect list \<Rightarrow> bool"      \<comment> \<open>\<open>CcspBaseIf_setParameterValues\<close> succeeds\<close>
  bus_get :: "effect list \<Rightarrow> string \<rightharpoonup> string"  \<comment> \<open>the value \<open>CcspBaseIf_getParameterValues\<close> gives\<close>
  thread_create :: "effect list \<Rightarrow> nat option"  \<comment> \<open>\<open>pthread_create\<close> returns 0 and this thread id\<close>
  malloc_ok :: "effect list \<Rightarrow> bool"       \<comment> \<open>\<open>malloc\<close> of a thread's argument succeeds\<close>
  alloc_VirtIf :: "nat \<Rightarrow> DML_VIRTUAL_IFACE option"  \<comment> \<open>the n-th block \<open>AnscAllocateMemory\<close> returns\<close>
  select_ok :: bool                         \<comment> \<open>\<open>select\<close> was not interrupted\<close>
  sysevent_fd_open :: bool                  \<comment> \<open>\<open>sysevent_fd != -1\<close>\<close>
  sysevent_get :: "effect list \<Rightarrow> string \<Rightarrow> string"  \<comment> \<open>empty when there is no value\<close>
  system_ok :: "effect list \<Rightarrow> bool"        \<comment> \<open>the command just issued has status 0\<close>
  open_ok :: "effect list \<Rightarrow> string \<Rightarrow> bool" \<comment> \<open>\<open>fopen\<close> for writing succeeds\<close>
  read_file :: "effect list \<Rightarrow> string \<rightharpoonup> string"
  popen_lines :: "effect list \<Rightarrow> string \<rightharpoonup> string list"  \<comment> \<open>what \<open>fgets\<close> reads from a command\<close>
  dhcpc_pid :: "effect list \<Rightarrow> int"         \<comment> \<open>the process id of the client just started, 0 on failure\<close>
  dhcpc_stop :: "effect list \<Rightarrow> ANSC_STATUS"
  pid_running :: "effect list \<Rightarrow> int \<Rightarrow> bool"
  inet_addr :: "string \<Rightarrow> uint"            \<comment> \<open>\<open>inet_addr\<close>, most significant byte first\<close>
  inet_pton6 :: "string \<Rightarrow> bool"            \<comment> \<open>\<open>inet_pton(AF_INET6)\<close> accepts the address\<close>
  uptime :: "effect list \<Rightarrow> nat"
  access_ok :: "effect list \<Rightarrow> string \<Rightarrow> bool"  \<comment> \<open>the file exists\<close>
  rbus_ok :: "effect list \<Rightarrow> bool"         \<comment> \<open>the call to the message bus just made returned success\<close>
  rbus_getUint :: "effect list \<Rightarrow> string \<rightharpoonup> uint"

text \<open>The compile-time switches the modelled code depends on.\<close>

record build =
  XB6_PRODUCT :: bool                \<comment> \<open>\<open>_XB6_PRODUCT_REQ_\<close> or \<open>_CBR2_PRODUCT_REQ_\<close>\<close>
  PLATFORM_RASPBERRYPI :: bool
  CONFIGURABLE_WAN_INTERFACE :: bool \<comment> \<open>\<open>FEATURE_RDKB_CONFIGURABLE_WAN_INTERFACE\<close>\<close>
  LED_MANAGER :: bool                \<comment> \<open>\<open>FEATURE_RDKB_LED_MANAGER\<close>\<close>
  TELEMETRY2 :: bool                 \<comment> \<open>\<open>ENABLE_FEATURE_TELEMETRY2_0\<close>\<close>
  AUTOWAN_ENABLE :: bool
  SCAN_TIMEOUT_DISABLE :: bool       \<comment> \<open>\<open>WAN_MANAGER_SELECTION_SCAN_TIMEOUT_DISABLE\<close>\<close>

end
