(* ===== verification/WanBus.thy ===== *)
theory WanBus
  imports WanTypes
begin

text \<open>
  Access to the persistent store (PSM), to the parameters of the other RDK components over the
  message bus, and to sysevent: the helpers of \<open>wanmgr_rdkbus_utils.c\<close>, \<open>wanmgr_rdkbus_apis.c\<close>,
  \<open>wanmgr_net_utils.c\<close> and \<open>wanmgr_sysevents.c\<close> that the state machines call.  The stores
  themselves, the bus and sysevent are outside the program: reads look into the world's stores,
  writes are recorded in the log and answered by the environment.
\<close>

definition emit :: "effect \<Rightarrow> world \<Rightarrow> world" where
  "emit e w = w\<lparr>out := e # out w\<rparr>"

lemma emit_simps [simp]:
  "gWanMgrDataBase (emit e w) = gWanMgrDataBase w"
  "psm (emit e w) = psm w"
  "syscfg (emit e w) = syscfg w"
  "remotePriority (emit e w) = remotePriority w"
  "lastEvent (emit e w) = lastEvent w" "PrevWanStatus (emit e w) = PrevWanStatus w"
  "isDefaultGatewayAdded (emit e w) = isDefaultGatewayAdded w"
  "out (emit e w) = e # out w"
  by (simp_all add: emit_def)

subsection \<open>Scanning numbers\<close>

definition isspace_c :: "char \<Rightarrow> bool" where
  "isspace_c c \<longleftrightarrow> of_char c \<in> {9, 10, 11, 12, 13, 32 :: nat}"

definition isdigit_c :: "char \<Rightarrow> bool" where
  "isdigit_c c \<longleftrightarrow> 48 \<le> (of_char c :: nat) \<and> of_char c \<le> (57 :: nat)"

definition digits_value :: "string \<Rightarrow> int" where
  "digits_value ds = fold (\<lambda>c v. 10 * v + (of_char c - 48)) ds 0"

text \<open>
  \<open>sscanf(s, "%d", &x)\<close>: skip white space, an optional sign, then digits; no digit, no
  conversion.
\<close>

definition sscanf_d :: "string \<Rightarrow> int option" where
  "sscanf_d s =
     (let t = dropWhile isspace_c s;
          neg = (t \<noteq> [] \<and> hd t = CHR ''-'');
          u = (if t \<noteq> [] \<and> (hd t = CHR ''-'' \<or> hd t = CHR ''+'') then tl t else t);
          ds = takeWhile isdigit_c u
      in if ds = [] then None
         else Some (if neg then - digits_value ds else digits_value ds))"

text \<open>\<open>strtol(s, NULL, 10)\<close> and \<open>atoi\<close>: 0 when there is no number.\<close>

definition strtol10 :: "string \<Rightarrow> int" where
  "strtol10 s = (case sscanf_d s of None \<Rightarrow> 0 | Some v \<Rightarrow> v)"

lemma digits_value_append:
  "digits_value (xs @ [c]) = 10 * digits_value xs + (of_char c - 48)"
  by (simp add: digits_value_def)

lemma of_char_digit:
  "n < 10 \<Longrightarrow> (of_char (char_of (48 + n)) :: nat) = 48 + n"
  by (simp add: of_char_of)

lemma digits_value_show_nat: "digits_value (show_nat n) = int n"
proof (induction n rule: show_nat.induct)
  case (1 n)
  show ?case
  proof (cases "n < 10")
    case True
    then have "(of_char (char_of (48 + n)) :: int) = int (48 + n)"
      by (metis of_char_digit of_nat_of_char)
    with True show ?thesis by (subst show_nat.simps) (simp add: digits_value_def)
  next
    case False
    have "(of_char (char_of (48 + n mod 10)) :: int) = int (48 + n mod 10)"
      by (metis of_char_digit of_nat_of_char mod_less_divisor zero_less_numeral)
    with False "1.IH" show ?thesis
      by (subst show_nat.simps) (simp add: digits_value_append, presburger)
  qed
qed

lemma isdigit_show_nat: "c \<in> set (show_nat n) \<Longrightarrow> isdigit_c c"
proof (induction n arbitrary: c rule: show_nat.induct)
  case (1 n)
  have "isdigit_c (char_of (48 + k))" if "k < 10" for k :: nat
    using that by (simp add: isdigit_c_def of_char_digit)
  with "1" show ?case
    by (subst (asm) show_nat.simps) (auto split: if_splits)
qed

lemma isdigit_not_space: "isdigit_c c \<Longrightarrow> \<not> isspace_c c"
  by (auto simp: isdigit_c_def isspace_c_def)

lemma isdigit_not_sign: "isdigit_c c \<Longrightarrow> c \<noteq> CHR ''-'' \<and> c \<noteq> CHR ''+''"
  by (auto simp: isdigit_c_def)

lemma sscanf_d_show_nat: "sscanf_d (show_nat n) = Some (int n)"
proof -
  obtain c cs where s: "show_nat n = c # cs" by (cases "show_nat n") auto
  have all: "\<forall>x \<in> set (show_nat n). isdigit_c x" by (simp add: isdigit_show_nat)
  with s have c: "isdigit_c c" by simp
  have "dropWhile isspace_c (show_nat n) = show_nat n"
    using s isdigit_not_space [OF c] by simp
  moreover have "takeWhile isdigit_c (show_nat n) = show_nat n"
    using all by (simp add: takeWhile_eq_all_conv)
  ultimately show ?thesis
    using s isdigit_not_sign [OF c] digits_value_show_nat [of n] by (simp add: sscanf_d_def)
qed

subsection \<open>The persistent store\<close>

text \<open>\<open>WanMgr_RdkBus_GetParamValuesFromDB\<close>: the value, cut to the caller's buffer.\<close>

definition WanMgr_RdkBus_GetParamValuesFromDB :: "string \<Rightarrow> nat \<Rightarrow> world \<Rightarrow> string option" where
  "WanMgr_RdkBus_GetParamValuesFromDB pParamName returnValLength w =
     (if returnValLength = 0 then None
      else map_option (take (returnValLength - 1)) (psm w pParamName))"

definition WanMgr_RdkBus_SetParamValuesToDB ::
  "env \<Rightarrow> string \<Rightarrow> string \<Rightarrow> world \<Rightarrow> bool \<times> world" where
  "WanMgr_RdkBus_SetParamValuesToDB e pParamName pParamVal w =
     (let w' = emit (PsmSet pParamName pParamVal) w
      in if psm_set_ok e (out w) then (True, w'\<lparr>psm := (psm w')(pParamName \<mapsto> pParamVal)\<rparr>)
         else (False, w'))"

definition PSM_IF_SELECTION_ACTIVELINK :: "uint \<Rightarrow> string" where
  "PSM_IF_SELECTION_ACTIVELINK inst =
     ''dmsb.wanmanager.if.'' @ show_nat (unat inst) @ ''.Selection.ActiveLink''"

definition DmlSetWanActiveLinkInPSMDB ::
  "env \<Rightarrow> uint \<Rightarrow> bool \<Rightarrow> world \<Rightarrow> ANSC_STATUS \<times> world" where
  "DmlSetWanActiveLinkInPSMDB e uiInterfaceIdx storeValue w =
     (let param_value = (if storeValue then ''TRUE'' else ''FALSE'');
          param_name = PSM_IF_SELECTION_ACTIVELINK (uiInterfaceIdx + 1);
          (ok, w') = WanMgr_RdkBus_SetParamValuesToDB e param_name param_value w
      in (if ok then ANSC_STATUS_SUCCESS else ANSC_STATUS_FAILURE, w'))"

text \<open>
  \<open>DmlGetTotalNoOfGroups(int *if_count)\<close>: the caller's variable is written only when the store
  has a non-empty value that scans as a number.
\<close>

definition DmlGetTotalNoOfGroups :: "uint \<Rightarrow> world \<Rightarrow> ANSC_STATUS \<times> uint" where
  "DmlGetTotalNoOfGroups if_count w =
     (case WanMgr_RdkBus_GetParamValuesFromDB ''dmsb.wanmanager.group.Count'' 64 w of
        None \<Rightarrow> (ANSC_STATUS_FAILURE, if_count)
      | Some param_value \<Rightarrow>
          (ANSC_STATUS_SUCCESS,
           if param_value \<noteq> []
           then (case sscanf_d param_value of None \<Rightarrow> if_count | Some v \<Rightarrow> word_of_int v)
           else if_count))"

definition PSM_WANMANAGER_GROUP_POLICY :: "uint \<Rightarrow> string" where
  "PSM_WANMANAGER_GROUP_POLICY inst =
     ''dmsb.wanmanager.group.'' @ show_nat (unat inst) @ ''.policy''"

text \<open>
  \<open>WanMgr_Read_GroupConf_FromPSM\<close> reads the policy; the stored PersistSelectedInterface is read
  and ignored.
\<close>

definition WanMgr_Read_GroupConf_FromPSM ::
  "WANMGR_IFACE_GROUP \<Rightarrow> uint \<Rightarrow> world \<Rightarrow> WANMGR_IFACE_GROUP" where
  "WanMgr_Read_GroupConf_FromPSM pGroup groupId w =
     (case WanMgr_RdkBus_GetParamValuesFromDB (PSM_WANMANAGER_GROUP_POLICY (groupId + 1)) 256 w of
        None \<Rightarrow> pGroup
      | Some param_value \<Rightarrow>
          if param_value \<noteq> [] then pGroup\<lparr>G_Policy := strtol10 param_value\<rparr> else pGroup)"

definition PSM_WANMANAGER_CONNECTIVITY_CHECK_TYPE :: "nat \<Rightarrow> nat \<Rightarrow> string" where
  "PSM_WANMANAGER_CONNECTIVITY_CHECK_TYPE i v =
     ''dmsb.wanmanager.if.'' @ show_nat i @ ''.VirtualInterface.'' @ show_nat v @
     ''.IP.ConnectivityCheckType''"

definition get_Remote_Virtual_Interface_FromPSM ::
  "nat \<Rightarrow> nat \<Rightarrow> DML_VIRTUAL_IFACE \<Rightarrow> world \<Rightarrow> DML_VIRTUAL_IFACE" where
  "get_Remote_Virtual_Interface_FromPSM instancenum virtInsNum pVirtIf w =
     (case WanMgr_RdkBus_GetParamValuesFromDB
             (PSM_WANMANAGER_CONNECTIVITY_CHECK_TYPE instancenum (virtInsNum + 1)) 256 w of
        None \<Rightarrow> pVirtIf
      | Some param_value \<Rightarrow>
          (case sscanf_d param_value of
             None \<Rightarrow> pVirtIf
           | Some v \<Rightarrow> pVirtIf\<lparr>VI_IP := (VI_IP pVirtIf)\<lparr>IP_ConnectivityCheckType := v\<rparr>\<rparr>))"

subsection \<open>Parameters of other components\<close>

definition WanMgr_RdkBus_SetParamValues ::
  "env \<Rightarrow> string \<Rightarrow> string \<Rightarrow> world \<Rightarrow> ANSC_STATUS \<times> world" where
  "WanMgr_RdkBus_SetParamValues e pParamName pParamVal w =
     (if bus_set_ok e (out w) then ANSC_STATUS_SUCCESS else ANSC_STATUS_FAILURE,
      emit (BusSet (take 254 pParamName) (take 126 pParamVal)) w)"

text \<open>The retry loop \<open>while (retry_count--)\<close> of \<open>WanMgr_RdkBus_AddIntfToLanBridge\<close>.\<close>

fun set_param_retry :: "env \<Rightarrow> nat \<Rightarrow> string \<Rightarrow> string \<Rightarrow> world \<Rightarrow> ANSC_STATUS \<times> world" where
  "set_param_retry e 0 param_name param_value w = (ANSC_STATUS_FAILURE, w)"
| "set_param_retry e (Suc retry_count) param_name param_value w =
     (case WanMgr_RdkBus_SetParamValues e param_name param_value w of
        (ANSC_STATUS_SUCCESS, w') \<Rightarrow> (ANSC_STATUS_SUCCESS, w')
      | (ANSC_STATUS_FAILURE, w') \<Rightarrow> set_param_retry e retry_count param_name param_value w')"

definition WanMgr_RdkBus_GetParamValues ::
  "env \<Rightarrow> string \<Rightarrow> world \<Rightarrow> string option \<times> world" where
  "WanMgr_RdkBus_GetParamValues e pParamName w =
     (bus_get e (out w) pParamName, emit (BusGet pParamName) w)"

abbreviation (input) "SET_MAX_RETRY_COUNT \<equiv> (10 :: nat)"

definition WanMgr_RdkBus_AddIntfToLanBridge ::
  "env \<Rightarrow> string \<Rightarrow> bool \<Rightarrow> world \<Rightarrow> ANSC_STATUS \<times> world" where
  "WanMgr_RdkBus_AddIntfToLanBridge e PhyPath AddToBridge w =
     (if \<not> strstr PhyPath ''Ethernet'' then (ANSC_STATUS_SUCCESS, w)
      else set_param_retry e SET_MAX_RETRY_COUNT (take 255 PhyPath @ ''.AddToLanBridge'')
             (if AddToBridge then ''true'' else ''false'') w)"

subsection \<open>Sysevents\<close>

definition sysevent_set :: "string \<Rightarrow> string \<Rightarrow> world \<Rightarrow> world" where
  "sysevent_set name val = emit (SyseventSet name val)"

abbreviation (input) "WAN_LINK_UP_STATE \<equiv> ''rdkb_wan_link_up''"
abbreviation (input) "WAN_LINK_DOWN_STATE \<equiv> ''rdkb_wan_link_down''"
abbreviation (input) "DSL_TRAINING \<equiv> ''rdkb_dsl_training''"

definition wanmgr_sysevents_setWanState :: "env \<Rightarrow> string \<Rightarrow> world \<Rightarrow> world" where
  "wanmgr_sysevents_setWanState e LedState w =
     (if \<not> sysevent_fd_open e then w else sysevent_set ''led_event'' LedState w)"

text \<open>
  The IPv4, IPv6 and MAP-T lamps of each interface state; \<open>None\<close> for the states that leave the
  lamps alone.  The flag says that the link is reported up as well.
\<close>

fun led_flags :: "eWanState_t \<Rightarrow> (bool \<times> bool \<times> bool \<times> bool) option" where
  "led_flags WAN_STATE_DUAL_STACK_ACTIVE = Some (True, True, False, False)"
| "led_flags WAN_STATE_IPV6_LEASED = Some (False, True, False, False)"
| "led_flags WAN_STATE_IPV4_LEASED = Some (True, False, False, False)"
| "led_flags WAN_STATE_MAPT_ACTIVE = Some (False, True, True, False)"
| "led_flags WAN_STATE_OBTAINING_IP_ADDRESSES = Some (False, False, False, True)"
| "led_flags WAN_STATE_EXIT = Some (False, False, False, False)"
| "led_flags _ = None"

definition updown :: "bool \<Rightarrow> string" where
  "updown b = (if b then ''up'' else ''down'')"

definition wanmgr_setWanLedState :: "env \<Rightarrow> eWanState_t \<Rightarrow> world \<Rightarrow> world" where
  "wanmgr_setWanLedState e state w =
     (if \<not> sysevent_fd_open e then w
      else case led_flags state of
        None \<Rightarrow> w
      | Some (ipv4_state, ipv6_state, mapt_state, SetLinkUp) \<Rightarrow>
          let w' = sysevent_set ''rdkb_wan_status''
                     (''ipv4_state:'' @ updown ipv4_state @ '',ipv6_state:'' @ updown ipv6_state @
                      '',mapt_state:'' @ updown mapt_state) w
          in if SetLinkUp then wanmgr_sysevents_setWanState e WAN_LINK_UP_STATE w' else w')"

definition syscfg_set_commit :: "string \<Rightarrow> string \<Rightarrow> world \<Rightarrow> world" where
  "syscfg_set_commit name val w =
     (emit (SyscfgSet name val) w)\<lparr>syscfg := (syscfg w)(name \<mapsto> val)\<rparr>"

text \<open>\<open>Wanmgr_TriggerReboot\<close>: keep the last reboot reason, announce the reboot, ask for it.\<close>

definition Wanmgr_TriggerReboot :: "env \<Rightarrow> world \<Rightarrow> world" where
  "Wanmgr_TriggerReboot e w =
     (let w1 = (case syscfg w ''X_RDKCENTRAL-COM_LastRebootReason'' of
                  None \<Rightarrow> w
                | Some reason \<Rightarrow>
                    if take 63 reason \<noteq> []
                    then syscfg_set_commit ''X_RDKCENTRAL-COM_LastRebootCounter'' ''1''
                           (syscfg_set_commit ''X_RDKCENTRAL-COM_LastRebootReason'' (take 63 reason) w)
                    else w);
          w2 = (if sysevent_fd_open e then sysevent_set ''wanmanager_reboot_status'' ''1'' w1 else w1)
      in snd (WanMgr_RdkBus_SetParamValues e
               ''Device.X_CISCO_COM_DeviceControl.RebootDevice'' ''Device'' w2))"

subsection \<open>What these calls leave alone\<close>

text \<open>
  None of them touches the data base, whatever the environment answers: the state machines may
  call them while they hold a pointer into it.
\<close>

lemma set_param_retry_db [frame_simps]:
  "gWanMgrDataBase (snd (set_param_retry e n nm v w)) = gWanMgrDataBase w"
  by (induction n arbitrary: w)
    (auto simp: WanMgr_RdkBus_SetParamValues_def split: ANSC_STATUS.splits)

lemma bus_frame [frame_simps]:
  "gWanMgrDataBase (snd (WanMgr_RdkBus_SetParamValuesToDB e n v w)) = gWanMgrDataBase w"
  "gWanMgrDataBase (snd (DmlSetWanActiveLinkInPSMDB e i b w)) = gWanMgrDataBase w"
  "gWanMgrDataBase (snd (WanMgr_RdkBus_SetParamValues e n v w)) = gWanMgrDataBase w"
  "gWanMgrDataBase (snd (WanMgr_RdkBus_GetParamValues e n w)) = gWanMgrDataBase w"
  "gWanMgrDataBase (snd (WanMgr_RdkBus_AddIntfToLanBridge e n b w)) = gWanMgrDataBase w"
  "gWanMgrDataBase (sysevent_set n v w) = gWanMgrDataBase w"
  "gWanMgrDataBase (syscfg_set_commit n v w) = gWanMgrDataBase w"
  by (simp_all add: WanMgr_RdkBus_SetParamValuesToDB_def DmlSetWanActiveLinkInPSMDB_def
      WanMgr_RdkBus_SetParamValues_def WanMgr_RdkBus_GetParamValues_def
      WanMgr_RdkBus_AddIntfToLanBridge_def sysevent_set_def syscfg_set_commit_def
      set_param_retry_db Let_def split: prod.split)

lemma led_frame [frame_simps]:
  "gWanMgrDataBase (wanmgr_sysevents_setWanState e s w) = gWanMgrDataBase w"
  "gWanMgrDataBase (wanmgr_setWanLedState e st w) = gWanMgrDataBase w"
  "gWanMgrDataBase (Wanmgr_TriggerReboot e w) = gWanMgrDataBase w"
  by (auto simp: wanmgr_sysevents_setWanState_def wanmgr_setWanLedState_def
      Wanmgr_TriggerReboot_def Let_def bus_frame split: option.split)

end
