(* ===== verification/WanData.thy ===== *)
theory WanData
  imports WanBus
begin

text \<open>
  The data base of \<open>wanmgr_data.c\<close>: its recursive mutex, the accessors that return a pointer with
  the mutex held, the initialisers, the lists of virtual interfaces, and the creation of a remote
  interface.  A pointer into the table of interfaces or groups is the index of the element; NULL
  is \<open>None\<close>.  Dereferencing (\<open>iface_at\<close>, \<open>group_at\<close>, \<open>head_virtif\<close>) yields \<open>None\<close> where the C
  program would read through NULL or beyond the table.

  The theory ends with the well-formedness of the data base and the interface (\<open>locale\<close>) that the
  threads rely on: a guarded access gives the element exactly when the index is in range, leaves the
  mutex as it found it, and keeps the data base well-formed.
\<close>

subsection \<open>Reading and writing the data base\<close>

definition upd_db :: "(WANMGR_DATA_ST \<Rightarrow> WANMGR_DATA_ST) \<Rightarrow> world \<Rightarrow> world" where
  "upd_db f w = w\<lparr>gWanMgrDataBase := f (gWanMgrDataBase w)\<rparr>"

abbreviation config :: "world \<Rightarrow> DML_WANMGR_CONFIG" where
  "config w \<equiv> Config (gWanMgrDataBase w)"

abbreviation total_ifaces :: "world \<Rightarrow> uint" where
  "total_ifaces w \<equiv> IC_ulTotalNumbWanInterfaces (IfaceCtrl (gWanMgrDataBase w))"

abbreviation total_groups :: "world \<Rightarrow> uint" where
  "total_groups w \<equiv> IG_ulTotalNumbWanIfaceGroup (IfaceGroup (gWanMgrDataBase w))"

abbreviation pIface :: "world \<Rightarrow> DML_WAN_IFACE list option" where
  "pIface w \<equiv> IC_pIface (IfaceCtrl (gWanMgrDataBase w))"

abbreviation Groups :: "world \<Rightarrow> WANMGR_IFACE_GROUP list option" where
  "Groups w \<equiv> IG_Group (IfaceGroup (gWanMgrDataBase w))"

abbreviation mutex :: "world \<Rightarrow> nat option" where
  "mutex w \<equiv> gDataMutex (gWanMgrDataBase w)"

definition iface_at :: "nat \<Rightarrow> world \<Rightarrow> DML_WAN_IFACE option" where
  "iface_at k w = Option.bind (pIface w) (\<lambda>l. nth_opt l k)"

definition group_at :: "nat \<Rightarrow> world \<Rightarrow> WANMGR_IFACE_GROUP option" where
  "group_at k w = Option.bind (Groups w) (\<lambda>l. nth_opt l k)"

definition upd_iface :: "nat \<Rightarrow> (DML_WAN_IFACE \<Rightarrow> DML_WAN_IFACE) \<Rightarrow> world \<Rightarrow> world" where
  "upd_iface k f = upd_db (\<lambda>d. d\<lparr>IfaceCtrl := (IfaceCtrl d)
     \<lparr>IC_pIface := map_option (map_nth k f) (IC_pIface (IfaceCtrl d))\<rparr>\<rparr>)"

definition upd_group :: "nat \<Rightarrow> (WANMGR_IFACE_GROUP \<Rightarrow> WANMGR_IFACE_GROUP) \<Rightarrow> world \<Rightarrow> world" where
  "upd_group k f = upd_db (\<lambda>d. d\<lparr>IfaceGroup := (IfaceGroup d)
     \<lparr>IG_Group := map_option (map_nth k f) (IG_Group (IfaceGroup d))\<rparr>\<rparr>)"

definition upd_config :: "(DML_WANMGR_CONFIG \<Rightarrow> DML_WANMGR_CONFIG) \<Rightarrow> world \<Rightarrow> world" where
  "upd_config f = upd_db (\<lambda>d. d\<lparr>Config := f (Config d)\<rparr>)"

text \<open>\<open>pWanIfaceData->VirtIfList->\<dots>\<close> reads and writes the first virtual interface.\<close>

definition head_virtif :: "DML_WAN_IFACE \<Rightarrow> DML_VIRTUAL_IFACE option" where
  "head_virtif i = (case If_VirtIfList i of [] \<Rightarrow> None | v # _ \<Rightarrow> Some v)"

definition upd_head_virtif :: "(DML_VIRTUAL_IFACE \<Rightarrow> DML_VIRTUAL_IFACE) \<Rightarrow> DML_WAN_IFACE \<Rightarrow> DML_WAN_IFACE" where
  "upd_head_virtif f i = i\<lparr>If_VirtIfList := map_nth 0 f (If_VirtIfList i)\<rparr>"

definition upd_Selection ::
  "(DML_IFACE_SELECTION \<Rightarrow> DML_IFACE_SELECTION) \<Rightarrow> DML_WAN_IFACE \<Rightarrow> DML_WAN_IFACE" where
  "upd_Selection f i = i\<lparr>If_Selection := f (If_Selection i)\<rparr>"

subsection \<open>The mutex\<close>

definition mlock :: "world \<Rightarrow> world" where
  "mlock = upd_db (\<lambda>d. d\<lparr>gDataMutex := map_option Suc (gDataMutex d)\<rparr>)"

definition pthread_mutex_unlock :: "world \<Rightarrow> world" where
  "pthread_mutex_unlock = upd_db (\<lambda>d. d\<lparr>gDataMutex := map_option (\<lambda>n. n - 1) (gDataMutex d)\<rparr>)"

text \<open>\<open>pthread_mutex_lock\<close> returns 0 on an initialised recursive mutex.\<close>

definition pthread_mutex_lock :: "world \<Rightarrow> bool \<times> world" where
  "pthread_mutex_lock w = (if mutex w = None then (False, w) else (True, mlock w))"

definition WanMgr_GetConfigData_locked :: "world \<Rightarrow> bool \<times> world" where
  "WanMgr_GetConfigData_locked w = pthread_mutex_lock w"

definition WanMgrDml_GetConfigData_release :: "world \<Rightarrow> world" where
  "WanMgrDml_GetConfigData_release = pthread_mutex_unlock"

definition WanMgrDml_GetIfaceData_release :: "world \<Rightarrow> world" where
  "WanMgrDml_GetIfaceData_release = pthread_mutex_unlock"

definition WanMgr_VirtualIfaceData_release :: "world \<Rightarrow> world" where
  "WanMgr_VirtualIfaceData_release = pthread_mutex_unlock"

definition WanMgrDml_GetIfaceGroup_release :: "world \<Rightarrow> world" where
  "WanMgrDml_GetIfaceGroup_release = pthread_mutex_unlock"

subsection \<open>Accessors\<close>

definition WanMgr_IfaceData_GetTotalWanIface :: "world \<Rightarrow> uint \<times> world" where
  "WanMgr_IfaceData_GetTotalWanIface w =
     (case pthread_mutex_lock w of
        (True, w1) \<Rightarrow> (total_ifaces w1, WanMgrDml_GetIfaceData_release w1)
      | (False, w1) \<Rightarrow> (0, w1))"

definition WanMgr_GetTotalNoOfGroups :: "world \<Rightarrow> uint \<times> world" where
  "WanMgr_GetTotalNoOfGroups w =
     (case pthread_mutex_lock w of
        (True, w1) \<Rightarrow> (total_groups w1, WanMgrDml_GetIfaceData_release w1)
      | (False, w1) \<Rightarrow> (MAX_INTERFACE_GROUP, w1))"

definition WanMgr_GetIfaceData_locked :: "uint \<Rightarrow> world \<Rightarrow> nat option \<times> world" where
  "WanMgr_GetIfaceData_locked iface_index w =
     (case pthread_mutex_lock w of
        (True, w1) \<Rightarrow>
          if iface_index < total_ifaces w1 \<and> pIface w1 \<noteq> None then (Some (unat iface_index), w1)
          else (None, WanMgrDml_GetIfaceData_release w1)
      | (False, w1) \<Rightarrow> (None, w1))"

definition WanMgr_GetIfaceGroup_locked :: "uint \<Rightarrow> world \<Rightarrow> nat option \<times> world" where
  "WanMgr_GetIfaceGroup_locked iface_index w =
     (case pthread_mutex_lock w of
        (True, w1) \<Rightarrow>
          if iface_index < total_groups w1 \<and> Groups w1 \<noteq> None then (Some (unat iface_index), w1)
          else (None, WanMgrDml_GetIfaceData_release w1)
      | (False, w1) \<Rightarrow> (None, w1))"

text \<open>
  \<open>WanMgr_getVirtualIfaceById\<close> walks the list; the result is the position of the first node with
  the wanted instance.
\<close>

fun virtif_position :: "DML_VIRTUAL_IFACE list \<Rightarrow> uint \<Rightarrow> nat option" where
  "virtif_position [] inst = None"
| "virtif_position (v # vs) inst =
     (if VI_VirIfIdx v = inst then Some 0 else map_option Suc (virtif_position vs inst))"

definition WanMgr_getVirtualIfaceById :: "DML_VIRTUAL_IFACE list \<Rightarrow> uint \<Rightarrow> DML_VIRTUAL_IFACE option" where
  "WanMgr_getVirtualIfaceById virIface inst =
     Option.bind (virtif_position virIface inst) (nth_opt virIface)"

text \<open>
  \<open>WanMgr_getVirtualIface_locked\<close> returns what \<open>WanMgr_getVirtualIfaceById\<close> found, with the mutex
  held, also when it found nothing.  A pointer is the base interface and the position.
\<close>

definition WanMgr_getVirtualIface_locked ::
  "uint \<Rightarrow> uint \<Rightarrow> world \<Rightarrow> ((nat \<times> nat) option \<times> world) option" where
  "WanMgr_getVirtualIface_locked baseIfidx virtIfIdx w =
     (case pthread_mutex_lock w of
        (True, w1) \<Rightarrow>
          if baseIfidx < total_ifaces w1 \<and> pIface w1 \<noteq> None
          then do {
            i \<leftarrow> iface_at (unat baseIfidx) w1;
            Some (map_option (Pair (unat baseIfidx)) (virtif_position (If_VirtIfList i) virtIfIdx), w1)
          }
          else Some (None, WanMgrDml_GetIfaceData_release w1)
      | (False, w1) \<Rightarrow> Some (None, w1))"

definition virtif_at :: "nat \<times> nat \<Rightarrow> world \<Rightarrow> DML_VIRTUAL_IFACE option" where
  "virtif_at p w = Option.bind (iface_at (fst p) w) (\<lambda>i. nth_opt (If_VirtIfList i) (snd p))"

definition upd_virtif :: "nat \<times> nat \<Rightarrow> (DML_VIRTUAL_IFACE \<Rightarrow> DML_VIRTUAL_IFACE) \<Rightarrow> world \<Rightarrow> world" where
  "upd_virtif p f = upd_iface (fst p) (\<lambda>i. i\<lparr>If_VirtIfList := map_nth (snd p) f (If_VirtIfList i)\<rparr>)"

text \<open>
  The searches over all interfaces; \<open>search_virtif P k is\<close> scans the table from entry \<open>k\<close> on.
\<close>

fun position :: "('a \<Rightarrow> bool) \<Rightarrow> 'a list \<Rightarrow> nat option" where
  "position P [] = None"
| "position P (x # xs) = (if P x then Some 0 else map_option Suc (position P xs))"

fun search_virtif :: "(DML_VIRTUAL_IFACE \<Rightarrow> bool) \<Rightarrow> nat \<Rightarrow> DML_WAN_IFACE list \<Rightarrow> (nat \<times> nat) option" where
  "search_virtif P k [] = None"
| "search_virtif P k (i # is) =
     (case position P (If_VirtIfList i) of
        Some j \<Rightarrow> Some (k, j)
      | None \<Rightarrow> search_virtif P (Suc k) is)"

definition find_virtif_locked :: "(DML_VIRTUAL_IFACE \<Rightarrow> bool) \<Rightarrow> world \<Rightarrow> (nat \<times> nat) option \<times> world" where
  "find_virtif_locked P w =
     (case pthread_mutex_lock w of
        (False, w1) \<Rightarrow> (None, w1)
      | (True, w1) \<Rightarrow>
          (case pIface w1 of
             None \<Rightarrow> (None, WanMgrDml_GetIfaceData_release w1)
           | Some l \<Rightarrow>
               (case search_virtif P 0 (take (unat (total_ifaces w1)) l) of
                  None \<Rightarrow> (None, WanMgrDml_GetIfaceData_release w1)
                | Some p \<Rightarrow> (Some p, w1))))"

definition WanMgr_GetVirtualIfaceByName_locked :: "string \<Rightarrow> world \<Rightarrow> (nat \<times> nat) option \<times> world" where
  "WanMgr_GetVirtualIfaceByName_locked iface_name w =
     (if iface_name = [] then (None, w)
      else find_virtif_locked (\<lambda>v. VI_Name v = iface_name) w)"

definition WanMgr_GetVIfByName_VISM_running_locked :: "string \<Rightarrow> world \<Rightarrow> (nat \<times> nat) option \<times> world" where
  "WanMgr_GetVIfByName_VISM_running_locked iface_name w =
     (if iface_name = [] then (None, w)
      else find_virtif_locked (\<lambda>v. VI_Name v = iface_name \<and> VI_Interface_SM_Running v) w)"

definition WanMgr_GetVirtIfDataByAlias_locked :: "string \<Rightarrow> world \<Rightarrow> (nat \<times> nat) option \<times> world" where
  "WanMgr_GetVirtIfDataByAlias_locked Alias w = find_virtif_locked (\<lambda>v. VI_Alias v = Alias) w"

text \<open>
  \<open>WanMgr_GetActiveVirtIfData_locked\<close>: the first virtual interface of the first active interface;
  its list may be empty, then NULL is returned with the mutex held.
\<close>

definition WanMgr_GetActiveVirtIfData_locked :: "world \<Rightarrow> (nat \<times> nat) option \<times> world" where
  "WanMgr_GetActiveVirtIfData_locked w =
     (case pthread_mutex_lock w of
        (False, w1) \<Rightarrow> (None, w1)
      | (True, w1) \<Rightarrow>
          (case pIface w1 of
             None \<Rightarrow> (None, WanMgrDml_GetIfaceData_release w1)
           | Some l \<Rightarrow>
               (case position (\<lambda>i. Sel_Status (If_Selection i) = WAN_IFACE_ACTIVE)
                       (take (unat (total_ifaces w1)) l) of
                  None \<Rightarrow> (None, WanMgrDml_GetIfaceData_release w1)
                | Some k \<Rightarrow> (if If_VirtIfList (l ! k) = [] then None else Some (k, 0), w1))))"

text \<open>
  \<open>WanMgr_GetIfaceIndexByAliasName\<close>: the instance number of the last interface whose alias occurs in
  the given string, 0 if there is none.
\<close>

fun last_alias_match :: "string \<Rightarrow> nat \<Rightarrow> DML_WAN_IFACE list \<Rightarrow> nat \<Rightarrow> nat" where
  "last_alias_match a k [] r = r"
| "last_alias_match a k (i # is) r =
     last_alias_match a (Suc k) is
       (if If_AliasName i \<noteq> [] \<and> strstr a (If_AliasName i) then k + 1 else r)"

definition WanMgr_GetIfaceIndexByAliasName :: "string \<Rightarrow> world \<Rightarrow> uint \<times> world" where
  "WanMgr_GetIfaceIndexByAliasName AliasName w =
     (if AliasName = [] then (0, w)
      else case pthread_mutex_lock w of
        (False, w1) \<Rightarrow> (0, w1)
      | (True, w1) \<Rightarrow>
          (case pIface w1 of
             None \<Rightarrow> (0, WanMgrDml_GetIfaceData_release w1)
           | Some l \<Rightarrow>
               (of_nat (last_alias_match AliasName 0 (take (unat (total_ifaces w1)) l) 0),
                WanMgrDml_GetIfaceData_release w1)))"

text \<open>
  \<open>WanMgr_GetIfaceDataByName_locked\<close> compares the name of the first virtual interface of every
  entry, through \<open>VirtIfList\<close> without a test for NULL.
\<close>

fun search_first_name :: "string \<Rightarrow> nat \<Rightarrow> DML_WAN_IFACE list \<Rightarrow> nat option option" where
  "search_first_name n k [] = Some None"
| "search_first_name n k (i # is) = do {
     v \<leftarrow> head_virtif i;
     if VI_Name v = n then Some (Some k) else search_first_name n (Suc k) is
   }"

definition WanMgr_GetIfaceDataByName_locked :: "string \<Rightarrow> world \<Rightarrow> (nat option \<times> world) option" where
  "WanMgr_GetIfaceDataByName_locked iface_name w =
     (case pthread_mutex_lock w of
        (False, w1) \<Rightarrow> Some (None, w1)
      | (True, w1) \<Rightarrow>
          (case pIface w1 of
             None \<Rightarrow> Some (None, WanMgrDml_GetIfaceData_release w1)
           | Some l \<Rightarrow> do {
               r \<leftarrow> search_first_name iface_name 0 (take (unat (total_ifaces w1)) l);
               Some (if r = None then (None, WanMgrDml_GetIfaceData_release w1) else (r, w1))
             }))"

subsection \<open>Initialisers\<close>

definition WanMgr_SetConfigData_Default :: "DML_WANMGR_CONFIG \<Rightarrow> DML_WANMGR_CONFIG" where
  "WanMgr_SetConfigData_Default c = c
     \<lparr>Cfg_Enable := True, Cfg_ResetFailOverScan := False, Cfg_AllowRemoteInterfaces := False,
      Cfg_InterfaceAvailableStatus := [], Cfg_InterfaceActiveStatus := [],
      Cfg_CurrentStatus := ''Down'', Cfg_CurrentActiveInterface := [], Cfg_CurrentActiveDNS := [],
      Cfg_DeviceNwMode := GATEWAY_MODE, Cfg_DeviceNwModeChanged := False, Cfg_BootToWanUp := False,
      Cfg_BackupWanDnsSupport := True, Cfg_IPv6EUI64FormatSupport := True,
      Cfg_ConfigureWANIPv6OnLANBridgeSupport := False, Cfg_UseWANMACForManagementServices := False,
      Cfg_InterfaceVLANMarkingSupport := False\<rparr>"

definition WanMgr_SetIfaceGroup_Default :: "WanMgr_IfaceGroup_t \<Rightarrow> WanMgr_IfaceGroup_t" where
  "WanMgr_SetIfaceGroup_Default g = g\<lparr>IG_ulTotalNumbWanIfaceGroup := MAX_INTERFACE_GROUP\<rparr>"

definition WanMgr_SetIfaceCtrl_Default :: "WanMgr_IfaceCtrl_Data_t \<Rightarrow> WanMgr_IfaceCtrl_Data_t" where
  "WanMgr_SetIfaceCtrl_Default c = c\<lparr>IC_ulTotalNumbWanInterfaces := 0, IC_pIface := None\<rparr>"

definition WanMgr_IfaceCtrl_Delete :: "WanMgr_IfaceCtrl_Data_t \<Rightarrow> WanMgr_IfaceCtrl_Data_t" where
  "WanMgr_IfaceCtrl_Delete c = c\<lparr>IC_ulTotalNumbWanInterfaces := 0, IC_pIface := None\<rparr>"

definition WanMgr_Data_Init :: "world \<Rightarrow> world" where
  "WanMgr_Data_Init = upd_db (\<lambda>d. d
     \<lparr>Config := WanMgr_SetConfigData_Default (Config d),
      IfaceCtrl := WanMgr_SetIfaceCtrl_Default (IfaceCtrl d),
      IfaceGroup := WanMgr_SetIfaceGroup_Default (IfaceGroup d),
      gDataMutex := Some 0\<rparr>)"

definition WanMgr_Data_Delete :: "world \<Rightarrow> ANSC_STATUS \<times> world" where
  "WanMgr_Data_Delete w =
     (ANSC_STATUS_FAILURE,
      upd_db (\<lambda>d. d\<lparr>IfaceCtrl := WanMgr_IfaceCtrl_Delete (IfaceCtrl d), gDataMutex := None\<rparr>) w)"

text \<open>The body of the loop of \<open>WanMgr_Group_Configure\<close>: one element of the new array.\<close>

definition group_init :: "uint \<Rightarrow> world \<Rightarrow> WANMGR_IFACE_GROUP" where
  "group_init i w = WanMgr_Read_GroupConf_FromPSM
     \<lparr>G_ThreadId = 0, G_State = STATE_GROUP_STOPPED, G_groupIdx = i, G_InterfaceAvailable = 0,
      G_SelectedInterface = 0, G_SelectionTimeOut = 0, G_ActivationCount = 0,
      G_PersistSelectedIface = False, G_Policy = AUTOWAN_MODE, G_ConfigChanged = False,
      G_ResetSelectedInterface = False, G_InitialScanComplete = False\<rparr> i w"

text \<open>
  \<open>WanMgr_Group_Configure\<close>; \<open>alloc_ok\<close> says whether the array could be allocated.  On failure the
  function returns with the mutex held.
\<close>

definition WanMgr_Group_Configure :: "bool \<Rightarrow> world \<Rightarrow> ANSC_STATUS \<times> world" where
  "WanMgr_Group_Configure alloc_ok w =
     (case pthread_mutex_lock w of
        (False, w1) \<Rightarrow> (ANSC_STATUS_SUCCESS, w1)
      | (True, w1) \<Rightarrow>
          let n = snd (DmlGetTotalNoOfGroups (total_groups w1) w1);
              w2 = upd_db (\<lambda>d. d\<lparr>IfaceGroup := (IfaceGroup d)\<lparr>IG_ulTotalNumbWanIfaceGroup := n\<rparr>\<rparr>) w1
          in if \<not> alloc_ok
             then (ANSC_STATUS_FAILURE,
                   upd_db (\<lambda>d. d\<lparr>IfaceGroup := (IfaceGroup d)\<lparr>IG_Group := None\<rparr>\<rparr>) w2)
             else (ANSC_STATUS_SUCCESS,
                   WanMgrDml_GetIfaceData_release
                     (upd_db (\<lambda>d. d\<lparr>IfaceGroup := (IfaceGroup d)
                        \<lparr>IG_Group := Some (map (\<lambda>i. group_init (of_nat i) w2) [0..<unat n])\<rparr>\<rparr>) w2)))"

definition WanMgr_IfaceData_Init :: "uint \<Rightarrow> DML_WAN_IFACE \<Rightarrow> DML_WAN_IFACE" where
  "WanMgr_IfaceData_Init iface_index d = d
     \<lparr>If_MonitorOperStatus := False, If_WanConfigEnabled := False, If_CustomConfigEnable := False,
      If_CustomConfigPath := [], If_RemoteCPEMac := [], If_uiIfaceIdx := iface_index,
      If_uiInstanceNumber := iface_index + 1, If_Name := [], If_DisplayName := [],
      If_AliasName := [], If_BaseInterface := [],
      If_BaseInterfaceStatus := WAN_IFACE_PHY_STATUS_DOWN, If_VirtIfChanged := False,
      If_Selection := (If_Selection d)
        \<lparr>Sel_Enable := False, Sel_Priority := -1, Sel_Timeout := 0, Sel_ActiveLink := False,
         Sel_Status := WAN_IFACE_NOT_SELECTED, Sel_RequiresReboot := False,
         Sel_RebootTriggerStatus := False, Sel_Group := 1\<rparr>,
      If_IfaceType := LOCAL_IFACE, If_InterfaceScanStatus := WAN_IFACE_STATUS_NOT_SCANNED,
      If_BaseInterfaceStatusSub := 0, If_WanStatusSub := 0, If_WanLinkStatusSub := 0,
      If_NoOfVirtIfs := 1, If_Type := WAN_IFACE_TYPE_UNCONFIGURED\<rparr>"

definition zero_Ipv4Data :: WANMGR_IPV4_DATA where
  "zero_Ipv4Data = \<lparr>V4_ifname = [], V4_ip = [], V4_mask = [], V4_gateway = [], V4_dnsServer = [],
     V4_dnsServer1 = [], V4_mtuSize = 0, V4_leaseReceivedTime = 0\<rparr>"

definition zero_Ipv6Data :: WANMGR_IPV6_DATA where
  "zero_Ipv6Data = \<lparr>V6_ifname = [], V6_address = [], V6_pdIfAddress = [], V6_nameserver = [],
     V6_nameserver1 = [], V6_domainName = [], V6_sitePrefix = [], V6_prefixPltime = 0,
     V6_prefixVltime = 0, V6_sitePrefixOld = [], V6_ipv6_TimeOffset = 0\<rparr>"

definition WanMgr_VirtIface_Init :: "uint \<Rightarrow> DML_VIRTUAL_IFACE \<Rightarrow> DML_VIRTUAL_IFACE" where
  "WanMgr_VirtIface_Init iface_index v = v
     \<lparr>VI_VirIfIdx := iface_index, VI_Name := [], VI_Alias := [],
      VI_OperationalStatus := WAN_OPERSTATUS_UNKNOWN, VI_EnableMAPT := False,
      VI_EnableDSLite := False, VI_Status := WAN_IFACE_STATUS_DISABLED,
      VI_RemoteStatus := WAN_IFACE_STATUS_DISABLED, VI_Reset := False,
      VI_VLAN := (VI_VLAN v)
        \<lparr>VLAN_Status := WAN_IFACE_LINKSTATUS_DOWN, VLAN_Enable := False,
         VLAN_NoOfMarkingEntries := 0, VLAN_Timeout := 0, VLAN_ActiveIndex := -1,
         VLAN_NoOfInterfaceEntries := 0, VLAN_VLANInUse := []\<rparr>,
      VI_IP := (VI_IP v)
        \<lparr>IP_RefreshDHCP := False, IP_Interface := [], IP_DHCPv4Iface := [], IP_DHCPv6Iface := [],
         IP_Ipv4Status := WAN_IFACE_IPV4_STATE_DOWN, IP_Ipv6Status := WAN_IFACE_IPV6_STATE_DOWN,
         IP_IPv4Source := DML_WAN_IP_SOURCE_DHCP, IP_IPv6Source := DML_WAN_IP_SOURCE_DHCP,
         IP_ConnectivityCheckType := WAN_CONNECTIVITY_TYPE_NO_CHECK,
         IP_Ipv4ConnectivityStatus := WAN_CONNECTIVITY_DOWN,
         IP_Ipv6ConnectivityStatus := WAN_CONNECTIVITY_DOWN,
         IP_Mode := DML_WAN_IP_MODE_DUAL_STACK, IP_Ipv4Changed := False, IP_Ipv6Changed := False,
         IP_PreferredMode := DUAL_STACK_MODE, IP_SelectedMode := DUAL_STACK_MODE,
         IP_ModeForceEnable := False, IP_SelectedModeTimerStatus := NOTSTARTED,
         IP_SelectedModeTimerStart := 0, IP_Ipv4Renewed := False, IP_Ipv6Renewed := False,
         IP_Dhcp4cStatus := DHCPC_STATE_UNKNOWN, IP_Dhcp6cStatus := DHCPC_STATE_UNKNOWN,
         IP_Ipv4Data := zero_Ipv4Data, IP_Ipv6Data := zero_Ipv6Data,
         IP_pIpcIpv4Data := None, IP_pIpcIpv6Data := None\<rparr>,
      VI_MAP := \<lparr>MAP_MaptStatus = WAN_IFACE_MAPT_STATE_DOWN, MAP_Path = [], MAP_MaptChanged = False\<rparr>,
      VI_DSLite := \<lparr>DSL_Path = [], DSL_Status = WAN_IFACE_DSLITE_STATE_DOWN, DSL_Changed = False\<rparr>,
      VI_PPP := \<lparr>PPP_Enable = False, PPP_Interface = [],
         PPP_IPCPStatus = WAN_IFACE_IPCP_STATUS_DOWN,
         PPP_IPV6CPStatus = WAN_IFACE_IPV6CP_STATUS_DOWN, PPP_IPCPStatusChanged = False,
         PPP_IPV6CPStatusChanged = False, PPP_LinkStatus = WAN_IFACE_PPP_LINK_STATUS_DOWN\<rparr>\<rparr>"

text \<open>\<open>WanMgr_AddVirtualToList\<close> appends the node at the end of the list.\<close>

fun WanMgr_AddVirtualToList :: "DML_VIRTUAL_IFACE list \<Rightarrow> DML_VIRTUAL_IFACE \<Rightarrow> DML_VIRTUAL_IFACE list" where
  "WanMgr_AddVirtualToList [] newNode = [newNode]"
| "WanMgr_AddVirtualToList (v # vs) newNode = v # WanMgr_AddVirtualToList vs newNode"

fun WanMgr_AddVirtVlanIfToList ::
  "DML_VLAN_IFACE_TABLE list \<Rightarrow> DML_VLAN_IFACE_TABLE \<Rightarrow> DML_VLAN_IFACE_TABLE list" where
  "WanMgr_AddVirtVlanIfToList [] newNode = [newNode]"
| "WanMgr_AddVirtVlanIfToList (v # vs) newNode = v # WanMgr_AddVirtVlanIfToList vs newNode"

fun WanMgr_getVirtVlanIfById :: "DML_VLAN_IFACE_TABLE list \<Rightarrow> uint \<Rightarrow> DML_VLAN_IFACE_TABLE option" where
  "WanMgr_getVirtVlanIfById [] inst = None"
| "WanMgr_getVirtVlanIfById (v # vs) inst =
     (if VT_Index v = unat inst then Some v else WanMgr_getVirtVlanIfById vs inst)"

fun WanMgr_AddVirtMarkingToList ::
  "DML_VIRTIF_MARKING list \<Rightarrow> DML_VIRTIF_MARKING \<Rightarrow> DML_VIRTIF_MARKING list" where
  "WanMgr_AddVirtMarkingToList [] newNode = [newNode]"
| "WanMgr_AddVirtMarkingToList (v # vs) newNode = v # WanMgr_AddVirtMarkingToList vs newNode"

fun WanMgr_getVirtMakingById :: "DML_VIRTIF_MARKING list \<Rightarrow> uint \<Rightarrow> DML_VIRTIF_MARKING option" where
  "WanMgr_getVirtMakingById [] inst = None"
| "WanMgr_getVirtMakingById (v # vs) inst =
     (if VM_VirtMarkingInstanceNumber v = unat inst then Some v else WanMgr_getVirtMakingById vs inst)"

subsection \<open>Remote interfaces\<close>

text \<open>
  \<open>WanMgr_Remote_IfaceData_Update\<close> on table entry \<open>k\<close>, called with the mutex held: what it writes
  into the entry, what it writes into the group of remote interfaces, and the function itself.
\<close>

definition remote_entry :: "int \<Rightarrow> DML_WAN_IFACE \<Rightarrow> DML_WAN_IFACE" where
  "remote_entry priority d = d
     \<lparr>If_Name := REMOTE_INTERFACE_NAME, If_DisplayName := ''REMOTE'',
      If_Selection := (If_Selection d)\<lparr>Sel_Enable := True, Sel_Priority := priority,
         Sel_Group := REMOTE_INTERFACE_GROUP\<rparr>,
      If_IfaceType := REMOTE_IFACE\<rparr>"

definition remote_group :: "uint \<Rightarrow> WANMGR_IFACE_GROUP \<Rightarrow> WANMGR_IFACE_GROUP" where
  "remote_group uiIfaceIdx g = g
     \<lparr>G_InterfaceAvailable := G_InterfaceAvailable g OR push_bit (unat uiIfaceIdx) 1,
      G_ConfigChanged :=
        (if G_State g \<noteq> STATE_GROUP_DEACTIVATED then True else G_ConfigChanged g)\<rparr>"

definition WanMgr_Remote_IfaceData_Update :: "nat \<Rightarrow> world \<Rightarrow> world option" where
  "WanMgr_Remote_IfaceData_Update k w = do {
     let w1 = upd_iface k (remote_entry (remotePriority w)) w;
     d \<leftarrow> iface_at k w1;
     let w2 = (case WanMgr_GetIfaceGroup_locked (Sel_Group (If_Selection d) - 1) w1 of
                 (None, w') \<Rightarrow> w'
               | (Some g, w') \<Rightarrow>
                   WanMgrDml_GetIfaceGroup_release (upd_group g (remote_group (If_uiIfaceIdx d)) w'));
     Some (w2\<lparr>remotePriority := remotePriority w2 + 1\<rparr>)
   }"

text \<open>The virtual interface of a new remote interface, before its check type is read.\<close>

definition remote_virtif :: "uint \<Rightarrow> DML_VIRTUAL_IFACE \<Rightarrow> DML_VIRTUAL_IFACE" where
  "remote_virtif base mem =
     (let v = WanMgr_VirtIface_Init 0 mem
      in v\<lparr>VI_baseIfIdx := base, VI_Enable := True,
           VI_IP := (VI_IP v)\<lparr>IP_IPv6Source := DML_WAN_IP_SOURCE_STATIC\<rparr>,
           VI_Name := REMOTE_INTERFACE_NAME\<rparr>)"

definition grow_table :: "world \<Rightarrow> world" where
  "grow_table = upd_db (\<lambda>d. d\<lparr>IfaceCtrl := (IfaceCtrl d)
     \<lparr>IC_ulTotalNumbWanInterfaces := IC_ulTotalNumbWanInterfaces (IfaceCtrl d) + 1,
      IC_update := 0\<rparr>\<rparr>)"

text \<open>
  \<open>WanMgr_Remote_IfaceData_configure\<close>: the new entry has one virtual interface, since
  \<open>WanMgr_IfaceData_Init\<close> sets their number to 1.  The result is the status, the value written
  through \<open>iface_index\<close>, and the world.  The branch for a full table and the one for a failed
  allocation return with the mutex held.
\<close>

definition WanMgr_Remote_IfaceData_configure ::
  "env \<Rightarrow> string \<Rightarrow> int \<Rightarrow> world \<Rightarrow> (ANSC_STATUS \<times> int \<times> world) option" where
  "WanMgr_Remote_IfaceData_configure e remoteCPEMac iface_index w =
     (case pthread_mutex_lock w of
        (False, w1) \<Rightarrow> Some (ANSC_STATUS_FAILURE, iface_index, w1)
      | (True, w1) \<Rightarrow>
          if \<not> total_ifaces w1 < MAX_WAN_INTERFACE_ENTRY
          then Some (ANSC_STATUS_FAILURE, iface_index, w1)
          else do {
            let k = unat (total_ifaces w1);
            _ \<leftarrow> iface_at k w1;
            let w2 = upd_iface k (WanMgr_IfaceData_Init (total_ifaces w1)) w1;
            case alloc_VirtIf e 0 of
              None \<Rightarrow> Some (ANSC_STATUS_FAILURE, iface_index, w2)
            | Some mem \<Rightarrow> do {
                let v = get_Remote_Virtual_Interface_FromPSM 1 0 (remote_virtif (total_ifaces w2) mem) w2;
                let w3 = upd_iface k (\<lambda>d. d\<lparr>If_VirtIfList :=
                           WanMgr_AddVirtualToList (If_VirtIfList d) v\<rparr>) w2;
                w4 \<leftarrow> WanMgr_Remote_IfaceData_Update k w3;
                let w5 = upd_iface k (\<lambda>d. d\<lparr>If_RemoteCPEMac := remoteCPEMac\<rparr>) w4;
                Some (ANSC_STATUS_SUCCESS, int k, WanMgrDml_GetIfaceData_release (grow_table w5))
              }
          })"

subsection \<open>Guarded access\<close>

text \<open>
  The shape of every critical section of the program: take the pointer with the mutex held; if it
  is not NULL run the block and release the mutex.  \<open>d\<close> is the result when the pointer is NULL.
\<close>

definition with_iface ::
  "uint \<Rightarrow> 'r \<Rightarrow> (nat \<Rightarrow> world \<Rightarrow> ('r \<times> world) option) \<Rightarrow> world \<Rightarrow> ('r \<times> world) option" where
  "with_iface i d body w =
     (case WanMgr_GetIfaceData_locked i w of
        (None, w1) \<Rightarrow> Some (d, w1)
      | (Some k, w1) \<Rightarrow> do {
          (r, w2) \<leftarrow> body k w1;
          Some (r, WanMgrDml_GetIfaceData_release w2)
        })"

definition with_group ::
  "uint \<Rightarrow> 'r \<Rightarrow> (nat \<Rightarrow> world \<Rightarrow> ('r \<times> world) option) \<Rightarrow> world \<Rightarrow> ('r \<times> world) option" where
  "with_group i d body w =
     (case WanMgr_GetIfaceGroup_locked i w of
        (None, w1) \<Rightarrow> Some (d, w1)
      | (Some k, w1) \<Rightarrow> do {
          (r, w2) \<leftarrow> body k w1;
          Some (r, WanMgrDml_GetIfaceGroup_release w2)
        })"

definition with_config :: "'r \<Rightarrow> (world \<Rightarrow> 'r \<times> world) \<Rightarrow> world \<Rightarrow> 'r \<times> world" where
  "with_config d body w =
     (case WanMgr_GetConfigData_locked w of
        (False, w1) \<Rightarrow> (d, w1)
      | (True, w1) \<Rightarrow> (case body w1 of (r, w2) \<Rightarrow> (r, WanMgrDml_GetConfigData_release w2)))"

subsection \<open>Locking normal forms\<close>

text \<open>
  Locking commutes with every read and write of the tables, and releasing undoes it; with these
  rules the simplifier reduces a critical section to the block it protects.
\<close>

lemmas release_defs = WanMgrDml_GetConfigData_release_def WanMgrDml_GetIfaceData_release_def
  WanMgr_VirtualIfaceData_release_def WanMgrDml_GetIfaceGroup_release_def

lemma unlock_mlock [lock_simps, simp]: "pthread_mutex_unlock (mlock w) = w"
  by (cases "mutex w") (simp_all add: pthread_mutex_unlock_def mlock_def upd_db_def)

lemma mlock_reads [lock_simps, simp]:
  "config (mlock w) = config w" "total_ifaces (mlock w) = total_ifaces w"
  "total_groups (mlock w) = total_groups w" "pIface (mlock w) = pIface w"
  "Groups (mlock w) = Groups w" "mutex (mlock w) = map_option Suc (mutex w)"
  "psm (mlock w) = psm w" "syscfg (mlock w) = syscfg w" "out (mlock w) = out w"
  "remotePriority (mlock w) = remotePriority w" "lastEvent (mlock w) = lastEvent w"
  by (simp_all add: mlock_def upd_db_def)

lemma unlock_reads [lock_simps, simp]:
  "config (pthread_mutex_unlock w) = config w"
  "total_ifaces (pthread_mutex_unlock w) = total_ifaces w"
  "total_groups (pthread_mutex_unlock w) = total_groups w"
  "pIface (pthread_mutex_unlock w) = pIface w"
  "Groups (pthread_mutex_unlock w) = Groups w"
  "mutex (pthread_mutex_unlock w) = map_option (\<lambda>n. n - 1) (mutex w)"
  "psm (pthread_mutex_unlock w) = psm w" "syscfg (pthread_mutex_unlock w) = syscfg w"
  "out (pthread_mutex_unlock w) = out w"
  "remotePriority (pthread_mutex_unlock w) = remotePriority w"
  "lastEvent (pthread_mutex_unlock w) = lastEvent w"
  by (simp_all add: pthread_mutex_unlock_def upd_db_def)

lemma lock_at [lock_simps, simp]:
  "iface_at k (mlock w) = iface_at k w" "group_at k (mlock w) = group_at k w"
  "iface_at k (pthread_mutex_unlock w) = iface_at k w"
  "group_at k (pthread_mutex_unlock w) = group_at k w"
  by (simp_all add: iface_at_def group_at_def)

lemma lock_upd [lock_simps, simp]:
  "upd_iface k f (mlock w) = mlock (upd_iface k f w)"
  "upd_group k g (mlock w) = mlock (upd_group k g w)"
  "upd_config h (mlock w) = mlock (upd_config h w)"
  "emit e (mlock w) = mlock (emit e w)"
  by (simp_all add: upd_iface_def upd_group_def upd_config_def mlock_def upd_db_def emit_def)

lemma upd_iface_reads [frame_simps, simp]:
  "config (upd_iface k f w) = config w" "total_ifaces (upd_iface k f w) = total_ifaces w"
  "total_groups (upd_iface k f w) = total_groups w" "Groups (upd_iface k f w) = Groups w"
  "mutex (upd_iface k f w) = mutex w" "group_at j (upd_iface k f w) = group_at j w"
  "pIface (upd_iface k f w) = map_option (map_nth k f) (pIface w)"
  "out (upd_iface k f w) = out w" "psm (upd_iface k f w) = psm w"
  "syscfg (upd_iface k f w) = syscfg w"
  "remotePriority (upd_iface k f w) = remotePriority w" "lastEvent (upd_iface k f w) = lastEvent w"
  by (simp_all add: upd_iface_def upd_db_def group_at_def)

lemma upd_group_reads [frame_simps, simp]:
  "config (upd_group k f w) = config w" "total_ifaces (upd_group k f w) = total_ifaces w"
  "total_groups (upd_group k f w) = total_groups w" "pIface (upd_group k f w) = pIface w"
  "mutex (upd_group k f w) = mutex w" "iface_at j (upd_group k f w) = iface_at j w"
  "Groups (upd_group k f w) = map_option (map_nth k f) (Groups w)"
  "out (upd_group k f w) = out w" "psm (upd_group k f w) = psm w"
  "syscfg (upd_group k f w) = syscfg w"
  "remotePriority (upd_group k f w) = remotePriority w" "lastEvent (upd_group k f w) = lastEvent w"
  by (simp_all add: upd_group_def upd_db_def iface_at_def)

lemma upd_config_reads [frame_simps, simp]:
  "config (upd_config f w) = f (config w)" "total_ifaces (upd_config f w) = total_ifaces w"
  "total_groups (upd_config f w) = total_groups w" "pIface (upd_config f w) = pIface w"
  "Groups (upd_config f w) = Groups w" "mutex (upd_config f w) = mutex w"
  "iface_at j (upd_config f w) = iface_at j w" "group_at j (upd_config f w) = group_at j w"
  "out (upd_config f w) = out w" "psm (upd_config f w) = psm w"
  "syscfg (upd_config f w) = syscfg w"
  by (simp_all add: upd_config_def upd_db_def iface_at_def group_at_def)

lemma iface_at_upd_iface [simp]:
  "iface_at j (upd_iface k f w) = (if j = k then map_option f (iface_at j w) else iface_at j w)"
  by (cases "pIface w") (auto simp: iface_at_def)

lemma group_at_upd_group [simp]:
  "group_at j (upd_group k f w) = (if j = k then map_option f (group_at j w) else group_at j w)"
  by (cases "Groups w") (auto simp: group_at_def)

lemma iface_at_emit [simp]: "iface_at k (emit e w) = iface_at k w"
  and group_at_emit [simp]: "group_at k (emit e w) = group_at k w"
  by (simp_all add: iface_at_def group_at_def)

text \<open>A call that leaves the data base alone leaves every read of it alone.\<close>

lemma same_db_reads:
  assumes "gWanMgrDataBase w' = gWanMgrDataBase w"
  shows "iface_at k w' = iface_at k w" "group_at k w' = group_at k w" "config w' = config w"
    "total_ifaces w' = total_ifaces w" "total_groups w' = total_groups w" "pIface w' = pIface w"
    "Groups w' = Groups w" "mutex w' = mutex w"
  using assms by (simp_all add: iface_at_def group_at_def)

lemma head_virtif_upd_Selection [simp]: "head_virtif (upd_Selection f i) = head_virtif i"
  by (simp add: head_virtif_def upd_Selection_def)

lemma upd_Selection_fields [simp]:
  "If_Selection (upd_Selection f i) = f (If_Selection i)"
  "If_VirtIfList (upd_Selection f i) = If_VirtIfList i"
  "If_NoOfVirtIfs (upd_Selection f i) = If_NoOfVirtIfs i"
  "If_uiIfaceIdx (upd_Selection f i) = If_uiIfaceIdx i"
  "If_BaseInterface (upd_Selection f i) = If_BaseInterface i"
  "If_BaseInterfaceStatus (upd_Selection f i) = If_BaseInterfaceStatus i"
  "If_IfaceType (upd_Selection f i) = If_IfaceType i"
  by (simp_all add: upd_Selection_def)

lemma upd_head_virtif_fields [simp]:
  "If_Selection (upd_head_virtif f i) = If_Selection i"
  "If_VirtIfList (upd_head_virtif f i) = map_nth 0 f (If_VirtIfList i)"
  "If_NoOfVirtIfs (upd_head_virtif f i) = If_NoOfVirtIfs i"
  "If_uiIfaceIdx (upd_head_virtif f i) = If_uiIfaceIdx i"
  "If_BaseInterface (upd_head_virtif f i) = If_BaseInterface i"
  "If_BaseInterfaceStatus (upd_head_virtif f i) = If_BaseInterfaceStatus i"
  "If_IfaceType (upd_head_virtif f i) = If_IfaceType i"
  "head_virtif (upd_head_virtif f i) = map_option f (head_virtif i)"
  by (simp_all add: upd_head_virtif_def head_virtif_def map_nth_def split: list.split)

subsection \<open>The contract of a guarded access\<close>

definition valid_iface :: "uint \<Rightarrow> world \<Rightarrow> bool" where
  "valid_iface i w \<longleftrightarrow> mutex w \<noteq> None \<and> i < total_ifaces w \<and> pIface w \<noteq> None"

definition valid_group :: "uint \<Rightarrow> world \<Rightarrow> bool" where
  "valid_group i w \<longleftrightarrow> mutex w \<noteq> None \<and> i < total_groups w \<and> Groups w \<noteq> None"

text \<open>
  What the clients of the data base rely on: the block runs exactly when the pointer is not NULL, with
  the mutex held once more, and the mutex is released after it.
\<close>

locale guarded_access =
  fixes access :: "uint \<Rightarrow> 'r \<Rightarrow> (nat \<Rightarrow> world \<Rightarrow> ('r \<times> world) option) \<Rightarrow> world \<Rightarrow> ('r \<times> world) option"
    and valid :: "uint \<Rightarrow> world \<Rightarrow> bool"
  assumes access_null: "\<not> valid i w \<Longrightarrow> access i d body w = Some (d, w)"
    and access_run: "valid i w \<Longrightarrow>
      access i d body w = map_option (apsnd pthread_mutex_unlock) (body (unat i) (mlock w))"
begin

text \<open>If the block returns, so does the access, and then the mutex is as it was.\<close>

lemma access_balanced:
  assumes "access i d body w = Some (r, w')"
    and "\<And>k w1 r1 w2. body k w1 = Some (r1, w2) \<Longrightarrow> mutex w2 = mutex w1"
  shows "mutex w' = mutex w"
proof (cases "valid i w")
  case True
  with assms(1) obtain w2 where "body (unat i) (mlock w) = Some (r, w2)"
    and "w' = pthread_mutex_unlock w2"
    by (auto simp: access_run)
  with assms(2) [of "unat i" "mlock w" r w2] show ?thesis
    by (cases "mutex w") auto
next
  case False
  with assms(1) show ?thesis by (simp add: access_null)
qed

lemma access_total:
  assumes "valid i w \<Longrightarrow> \<exists>r w2. body (unat i) (mlock w) = Some (r, w2)"
  shows "\<exists>r w'. access i d body w = Some (r, w')"
proof (cases "valid i w")
  case True
  with assms obtain r w2 where "body (unat i) (mlock w) = Some (r, w2)" by blast
  with True show ?thesis by (simp add: access_run)
next
  case False
  then show ?thesis by (simp add: access_null)
qed

text \<open>A block that commutes with locking makes the access a plain state transformer.\<close>

lemma access_pure:
  assumes "body (unat i) (mlock w) = Some (r, mlock w')"
  shows "access i d body w = Some (if valid i w then (r, w') else (d, w))"
  using assms by (simp add: access_run access_null)

end

interpretation ifc: guarded_access with_iface valid_iface
proof
  show "with_iface i d body w = Some (d, w)" if "\<not> valid_iface i w"
    for i d and body :: "nat \<Rightarrow> world \<Rightarrow> ('a \<times> world) option" and w
    using that by (auto simp: with_iface_def WanMgr_GetIfaceData_locked_def pthread_mutex_lock_def
        valid_iface_def release_defs)
  show "with_iface i d body w =
      map_option (apsnd pthread_mutex_unlock) (body (unat i) (mlock w))" if "valid_iface i w"
    for i d and body :: "nat \<Rightarrow> world \<Rightarrow> ('a \<times> world) option" and w
    using that by (cases "body (unat i) (mlock w)")
      (auto simp: with_iface_def WanMgr_GetIfaceData_locked_def pthread_mutex_lock_def
        valid_iface_def release_defs)
qed

interpretation grp: guarded_access with_group valid_group
proof
  show "with_group i d body w = Some (d, w)" if "\<not> valid_group i w"
    for i d and body :: "nat \<Rightarrow> world \<Rightarrow> ('a \<times> world) option" and w
    using that by (auto simp: with_group_def WanMgr_GetIfaceGroup_locked_def pthread_mutex_lock_def
        valid_group_def release_defs)
  show "with_group i d body w =
      map_option (apsnd pthread_mutex_unlock) (body (unat i) (mlock w))" if "valid_group i w"
    for i d and body :: "nat \<Rightarrow> world \<Rightarrow> ('a \<times> world) option" and w
    using that by (cases "body (unat i) (mlock w)")
      (auto simp: with_group_def WanMgr_GetIfaceGroup_locked_def pthread_mutex_lock_def
        valid_group_def release_defs)
qed

subsection \<open>Well-formedness of the data base\<close>

text \<open>
  The shape of a table entry: its index, the number of virtual interfaces it claims, and the instance
  numbers in the list.  In a well-formed data base the mutex is initialised, the table of interfaces
  has its \<open>MAX_WAN_INTERFACE_ENTRY\<close> slots, every entry in use has the virtual interfaces
  \<open>0, 1, \<dots>\<close> in order and at least one of them, the unused slots have none, and the array of
  groups is as long as its counter says.
\<close>

definition iface_shape :: "DML_WAN_IFACE \<Rightarrow> uint \<times> uint \<times> uint list" where
  "iface_shape i = (If_uiIfaceIdx i, If_NoOfVirtIfs i, map VI_VirIfIdx (If_VirtIfList i))"

fun wf_shape :: "nat \<Rightarrow> uint \<times> uint \<times> uint list \<Rightarrow> bool" where
  "wf_shape k (idx, n, vs) \<longleftrightarrow>
     idx = of_nat k \<and> vs \<noteq> [] \<and> unat n = length vs \<and> vs = map of_nat [0..<length vs]"

definition wf_ifaces :: "nat \<Rightarrow> (uint \<times> uint \<times> uint list) list \<Rightarrow> bool" where
  "wf_ifaces n ss \<longleftrightarrow> length ss = 32 \<and> n \<le> 32 \<and>
     (\<forall>k \<in> {0..<n}. wf_shape k (ss ! k)) \<and> (\<forall>k \<in> {n..<32}. snd (snd (ss ! k)) = [])"

definition wf_db :: "world \<Rightarrow> bool" where
  "wf_db w \<longleftrightarrow> mutex w \<noteq> None \<and>
     (case pIface w of None \<Rightarrow> False
      | Some l \<Rightarrow> wf_ifaces (unat (total_ifaces w)) (map iface_shape l)) \<and>
     (case Groups w of None \<Rightarrow> False | Some g \<Rightarrow> unat (total_groups w) = length g)"

lemma wf_db_mutex: "wf_db w \<Longrightarrow> mutex w \<noteq> None"
  by (simp add: wf_db_def)

lemma wf_db_valid_iface: "wf_db w \<Longrightarrow> valid_iface i w \<longleftrightarrow> i < total_ifaces w"
  by (auto simp: wf_db_def valid_iface_def split: option.splits)

lemma wf_db_valid_group: "wf_db w \<Longrightarrow> valid_group i w \<longleftrightarrow> i < total_groups w"
  by (auto simp: wf_db_def valid_group_def split: option.splits)

lemma wf_db_total_le: "wf_db w \<Longrightarrow> unat (total_ifaces w) \<le> 32"
  by (auto simp: wf_db_def wf_ifaces_def split: option.splits)

lemma wf_db_iface_at:
  assumes "wf_db w" "k < unat (total_ifaces w)"
  obtains x where "iface_at k w = Some x" "wf_shape k (iface_shape x)"
  using assms by (auto simp: wf_db_def wf_ifaces_def iface_at_def split: option.splits)

lemma wf_shape_head: "wf_shape k (iface_shape x) \<Longrightarrow> \<exists>v. head_virtif x = Some v"
  by (cases "If_VirtIfList x") (auto simp: iface_shape_def head_virtif_def)

lemma wf_db_iface_head:
  assumes "wf_db w" "i < total_ifaces w"
  obtains x v where "iface_at (unat i) w = Some x" "head_virtif x = Some v"
  using assms wf_db_iface_at [of w "unat i"] wf_shape_head
  by (metis word_less_nat_alt)

lemma wf_db_group_at:
  assumes "wf_db w" "i < total_groups w"
  obtains g where "group_at (unat i) w = Some g"
  using assms by (auto simp: wf_db_def group_at_def word_less_nat_alt split: option.splits)

lemma wf_db_lock [simp]:
  "wf_db (mlock w) = wf_db w" "wf_db (pthread_mutex_unlock w) = wf_db w"
  by (simp_all add: wf_db_def split: option.split)

lemma wf_db_upd_group [simp]: "wf_db (upd_group k f w) = wf_db w"
  by (simp add: wf_db_def option.case_eq_if option.map_sel)

lemma wf_db_upd_config [simp]: "wf_db (upd_config f w) = wf_db w"
  by (simp add: wf_db_def split: option.split)

lemma wf_db_same:
  assumes "gWanMgrDataBase w' = gWanMgrDataBase w"
  shows "wf_db w' = wf_db w"
  by (simp add: wf_db_def assms split: option.split)

lemma wf_db_emit [simp]: "wf_db (emit e w) = wf_db w"
  by (rule wf_db_same) simp

lemma wf_db_upd_iface:
  assumes "\<And>x. iface_shape (f x) = iface_shape x"
  shows "wf_db (upd_iface k f w) = wf_db w"
proof -
  have "map iface_shape (map_nth k f l) = map iface_shape l" for l
    using assms by (rule map_map_nth)
  then show ?thesis
    by (cases "pIface w") (simp_all add: wf_db_def split: option.split)
qed

lemma iface_shape_upd_Selection [simp]: "iface_shape (upd_Selection f i) = iface_shape i"
  by (simp add: iface_shape_def)

lemma iface_shape_upd_head_virtif:
  "(\<And>v. VI_VirIfIdx (f v) = VI_VirIfIdx v) \<Longrightarrow> iface_shape (upd_head_virtif f i) = iface_shape i"
  by (simp add: iface_shape_def map_map_nth)

subsection \<open>The list of virtual interfaces\<close>

lemma WanMgr_AddVirtualToList_eq: "WanMgr_AddVirtualToList vs v = vs @ [v]"
  by (induction vs) auto

lemma virtif_position_Some:
  "virtif_position vs inst = Some j \<longleftrightarrow>
     j < length vs \<and> VI_VirIfIdx (vs ! j) = inst \<and> (\<forall>i < j. VI_VirIfIdx (vs ! i) \<noteq> inst)"
proof (induction vs arbitrary: j)
  case Nil
  then show ?case by simp
next
  case (Cons v vs)
  show ?case
    by (cases j) (auto simp: Cons.IH less_Suc_eq_0_disj)
qed

lemma virtif_position_None: "virtif_position vs inst = None \<longleftrightarrow> inst \<notin> VI_VirIfIdx ` set vs"
  by (induction vs) auto

lemma position_Some:
  "position P xs = Some j \<longleftrightarrow> j < length xs \<and> P (xs ! j) \<and> (\<forall>i < j. \<not> P (xs ! i))"
proof (induction xs arbitrary: j)
  case Nil
  then show ?case by simp
next
  case (Cons x xs)
  show ?case
    by (cases j) (auto simp: Cons.IH less_Suc_eq_0_disj)
qed

lemma position_None: "position P xs = None \<longleftrightarrow> (\<forall>x \<in> set xs. \<not> P x)"
  by (induction xs) auto

lemma search_virtif_Some:
  "search_virtif P k is = Some (a, j) \<Longrightarrow>
     k \<le> a \<and> a - k < length is \<and> position P (If_VirtIfList (is ! (a - k))) = Some j \<and>
     (\<forall>b < a - k. \<forall>v \<in> set (If_VirtIfList (is ! b)). \<not> P v)"
proof (induction "is" arbitrary: k)
  case Nil
  then show ?case by simp
next
  case (Cons i "is")
  show ?case
  proof (cases "position P (If_VirtIfList i)")
    case None
    with Cons.prems Cons.IH [of "Suc k"]
    have IH: "Suc k \<le> a \<and> a - Suc k < length is \<and>
        position P (If_VirtIfList (is ! (a - Suc k))) = Some j \<and>
        (\<forall>b < a - Suc k. \<forall>v \<in> set (If_VirtIfList (is ! b)). \<not> P v)" by simp
    then have a: "a - k = Suc (a - Suc k)" by linarith
    have "\<not> P v" if "b < a - k" "v \<in> set (If_VirtIfList ((i # is) ! b))" for b v
      using that a IH None by (cases b) (auto simp: position_None)
    with IH a show ?thesis by simp
  next
    case (Some j')
    with Cons.prems show ?thesis by simp
  qed
qed

lemma search_virtif_None:
  "search_virtif P k is = None \<longleftrightarrow> (\<forall>i \<in> set is. \<forall>v \<in> set (If_VirtIfList i). \<not> P v)"
  by (induction "is" arbitrary: k) (auto simp: position_None position_Some split: option.split)

lemma valid_frame [simp]:
  "valid_group i (upd_iface k f w) = valid_group i w" "valid_group i (mlock w) = valid_group i w"
  "valid_group i (upd_group k g w) = valid_group i w"
  "valid_iface i (upd_group k g w) = valid_iface i w" "valid_iface i (mlock w) = valid_iface i w"
  "valid_iface i (upd_iface k f w) = valid_iface i w"
  by (simp_all add: valid_group_def valid_iface_def)

subsection \<open>Creating a remote interface\<close>

lemma grow_table_reads [simp]:
  "mutex (grow_table w) = mutex w" "Groups (grow_table w) = Groups w"
  "total_groups (grow_table w) = total_groups w" "pIface (grow_table w) = pIface w"
  "total_ifaces (grow_table w) = total_ifaces w + 1" "config (grow_table w) = config w"
  "remotePriority (grow_table w) = remotePriority w"
  by (simp_all add: grow_table_def upd_db_def)

lemma upd_remotePriority_reads [simp]:
  "gWanMgrDataBase (w\<lparr>remotePriority := p\<rparr>) = gWanMgrDataBase w"
  "iface_at k (w\<lparr>remotePriority := p\<rparr>) = iface_at k w"
  "group_at k (w\<lparr>remotePriority := p\<rparr>) = group_at k w"
  by (simp_all add: iface_at_def group_at_def)

lemma get_Remote_frame [simp]:
  "get_Remote_Virtual_Interface_FromPSM i v vi (upd_iface k f w) =
     get_Remote_Virtual_Interface_FromPSM i v vi w"
  "get_Remote_Virtual_Interface_FromPSM i v vi (mlock w) =
     get_Remote_Virtual_Interface_FromPSM i v vi w"
  by (simp_all add: get_Remote_Virtual_Interface_FromPSM_def WanMgr_RdkBus_GetParamValuesFromDB_def)

lemma map_nth_map_nth [simp]: "map_nth k f (map_nth k g l) = map_nth k (\<lambda>x. f (g x)) l"
  by (simp add: map_nth_def)

lemma WanMgr_Remote_IfaceData_Update_eq:
  assumes "iface_at k w = Some d"
  shows "WanMgr_Remote_IfaceData_Update k w = Some
    ((if valid_group 1 w then upd_group 1 (remote_group (If_uiIfaceIdx d)) else id)
       (upd_iface k (remote_entry (remotePriority w)) w)\<lparr>remotePriority := remotePriority w + 1\<rparr>)"
proof -
  have "(case WanMgr_GetIfaceGroup_locked 1 u of (None, w') \<Rightarrow> w'
      | (Some g, w') \<Rightarrow> WanMgrDml_GetIfaceGroup_release (upd_group g f w'))
    = (if valid_group 1 u then upd_group 1 f u else u)" for u f
    by (auto simp: WanMgr_GetIfaceGroup_locked_def pthread_mutex_lock_def valid_group_def
        release_defs)
  with assms show ?thesis
    by (simp add: WanMgr_Remote_IfaceData_Update_def remote_entry_def Let_def)
qed

text \<open>The table entry that a successful \<open>WanMgr_Remote_IfaceData_configure\<close> leaves behind.\<close>

definition new_remote_iface ::
  "string \<Rightarrow> DML_VIRTUAL_IFACE \<Rightarrow> world \<Rightarrow> DML_WAN_IFACE \<Rightarrow> DML_WAN_IFACE" where
  "new_remote_iface mac mem w d =
     (remote_entry (remotePriority w)
       ((WanMgr_IfaceData_Init (total_ifaces w) d)\<lparr>If_VirtIfList :=
          If_VirtIfList d @
            [get_Remote_Virtual_Interface_FromPSM 1 0 (remote_virtif (total_ifaces w) mem) w]\<rparr>))
     \<lparr>If_RemoteCPEMac := mac\<rparr>"

lemma wf_db_slot:
  assumes "wf_db w" "total_ifaces w < MAX_WAN_INTERFACE_ENTRY"
  obtains d where "iface_at (unat (total_ifaces w)) w = Some d" "If_VirtIfList d = []"
  using assms by (auto simp: wf_db_def wf_ifaces_def iface_at_def iface_shape_def word_less_nat_alt
      split: option.splits)

lemma WanMgr_IfaceData_Init_fields [simp]:
  "If_uiIfaceIdx (WanMgr_IfaceData_Init i d) = i"
  "If_VirtIfList (WanMgr_IfaceData_Init i d) = If_VirtIfList d"
  "If_NoOfVirtIfs (WanMgr_IfaceData_Init i d) = 1"
  by (simp_all add: WanMgr_IfaceData_Init_def)

lemma remote_configure_effect:
  assumes wf: "wf_db w" and room: "total_ifaces w < MAX_WAN_INTERFACE_ENTRY"
    and mem: "alloc_VirtIf e 0 = Some mem"
  shows "\<exists>w'. WanMgr_Remote_IfaceData_configure e mac idx w =
      Some (ANSC_STATUS_SUCCESS, int (unat (total_ifaces w)), w') \<and>
    total_ifaces w' = total_ifaces w + 1 \<and> mutex w' = mutex w \<and>
    total_groups w' = total_groups w \<and> remotePriority w' = remotePriority w + 1 \<and>
    pIface w' =
      map_option (map_nth (unat (total_ifaces w)) (new_remote_iface mac mem w)) (pIface w) \<and>
    Groups w' = (if valid_group 1 w
                 then map_option (map_nth 1 (remote_group (total_ifaces w))) (Groups w)
                 else Groups w)"
proof -
  obtain d where d: "iface_at (unat (total_ifaces w)) w = Some d" "If_VirtIfList d = []"
    using wf_db_slot [OF wf room] .
  from wf obtain n where n: "mutex w = Some n" by (auto dest: wf_db_mutex)
  show ?thesis
    using room mem d n
    by (simp add: WanMgr_Remote_IfaceData_configure_def pthread_mutex_lock_def Let_def
        WanMgr_Remote_IfaceData_Update_eq release_defs WanMgr_AddVirtualToList_eq option.map_comp
        comp_def new_remote_iface_def [abs_def])
qed

lemma new_remote_iface_shape:
  assumes "If_VirtIfList d = []"
  shows "iface_shape (new_remote_iface mac mem w d) = (total_ifaces w, 1, [0])"
proof -
  have "VI_VirIfIdx (get_Remote_Virtual_Interface_FromPSM i v (remote_virtif b mem) w) = 0" for i v b
    by (simp add: get_Remote_Virtual_Interface_FromPSM_def remote_virtif_def Let_def
        WanMgr_VirtIface_Init_def split: option.split)
  with assms show ?thesis
    by (simp add: iface_shape_def new_remote_iface_def remote_entry_def)
qed

lemma wf_ifaces_grow:
  assumes "wf_ifaces n ss" "n < 32"
  shows "wf_ifaces (Suc n) (ss[n := (of_nat n, 1, [0])])"
  unfolding wf_ifaces_def
proof (intro conjI ballI)
  show "length (ss[n := (of_nat n, 1, [0])]) = 32" "Suc n \<le> 32"
    using assms by (simp_all add: wf_ifaces_def)
  show "wf_shape k (ss[n := (of_nat n, 1, [0])] ! k)" if "k \<in> {0..<Suc n}" for k
    using that assms by (cases "k = n") (auto simp: wf_ifaces_def)
  show "snd (snd (ss[n := (of_nat n, 1, [0])] ! k)) = []" if "k \<in> {Suc n..<32}" for k
    using that assms by (auto simp: wf_ifaces_def)
qed

lemma remote_configure_wf:
  assumes wf: "wf_db w" and room: "total_ifaces w < MAX_WAN_INTERFACE_ENTRY"
    and t: "total_ifaces w' = total_ifaces w + 1" "mutex w' = mutex w"
      "total_groups w' = total_groups w"
    and p: "pIface w' =
      map_option (map_nth (unat (total_ifaces w)) (new_remote_iface mac mem w)) (pIface w)"
    and g: "map_option length (Groups w') = map_option length (Groups w)"
  shows "wf_db w'"
proof -
  let ?n = "unat (total_ifaces w)"
  from wf obtain l where l: "pIface w = Some l" "wf_ifaces ?n (map iface_shape l)"
    by (auto simp: wf_db_def split: option.splits)
  from room have n: "?n < 32" by (simp add: word_less_nat_alt)
  have "unat (total_ifaces w + 1) = Suc ?n"
    using n by (simp add: unat_word_ariths)
  moreover have "map iface_shape (map_nth ?n (new_remote_iface mac mem w) l) =
      (map iface_shape l)[?n := (of_nat ?n, 1, [0])]"
  proof -
    have "length l = 32" "If_VirtIfList (l ! ?n) = []"
      using l(2) n by (auto simp: wf_ifaces_def iface_shape_def)
    then show ?thesis
      using n by (simp add: map_nth_def map_update new_remote_iface_shape)
  qed
  ultimately show ?thesis
    using wf l t p g wf_ifaces_grow [OF l(2) n]
    by (auto simp: wf_db_def split: option.splits)
qed

end
