(* ===== verification/WanSamples.thy ===== *)
theory WanSamples
  imports WanData
begin

text \<open>
  Concrete data bases, on which the witnesses of the properties evaluate the model: two base
  interfaces (a DOCSIS line in group 1 and an Ethernet line in group 2), each with one virtual
  interface, two groups, and an environment in which every call succeeds.
\<close>

definition blank_virtif :: DML_VIRTUAL_IFACE where
  "blank_virtif =
     \<lparr>VI_VirIfIdx = 0, VI_baseIfIdx = 0, VI_Name = [], VI_Alias = [], VI_Enable = True,
      VI_EnableMAPT = False, VI_EnableDSLite = False, VI_Status = WAN_IFACE_STATUS_DISABLED,
      VI_RemoteStatus = WAN_IFACE_STATUS_DISABLED,
      VI_VLAN = \<lparr>VLAN_Enable = False, VLAN_VLANInUse = [], VLAN_ActiveIndex = -1, VLAN_Timeout = 0,
         VLAN_NoOfInterfaceEntries = 0, VLAN_InterfaceList = [], VLAN_NoOfMarkingEntries = 0,
         VLAN_VirtMarking = [], VLAN_Status = WAN_IFACE_LINKSTATUS_DOWN, VLAN_Expired = False,
         VLAN_Reset = False, VLAN_TimerStart = 0\<rparr>,
      VI_Reset = False, VI_OperationalStatus = WAN_OPERSTATUS_UNKNOWN,
      VI_IP = \<lparr>IP_Interface = [], IP_DHCPv4Iface = [], IP_DHCPv6Iface = [],
         IP_Ipv4Status = WAN_IFACE_IPV4_STATE_DOWN, IP_Ipv6Status = WAN_IFACE_IPV6_STATE_DOWN,
         IP_ConnectivityCheckType = 0, IP_Ipv4ConnectivityStatus = WAN_CONNECTIVITY_DOWN,
         IP_Ipv6ConnectivityStatus = WAN_CONNECTIVITY_DOWN,
         IP_IPv4Source = DML_WAN_IP_SOURCE_DHCP, IP_IPv6Source = DML_WAN_IP_SOURCE_DHCP,
         IP_ConnectivityCheckRunning = False, IP_RestartConnectivityCheck = False,
         IP_WCC_TypeChanged = False, IP_RefreshDHCP = False,
         IP_Mode = DML_WAN_IP_MODE_DUAL_STACK, IP_PreferredMode = DUAL_STACK_MODE,
         IP_SelectedMode = DUAL_STACK_MODE, IP_SelectedModeTimerStart = 0,
         IP_SelectedModeTimerStatus = NOTSTARTED, IP_ModeForceEnable = False,
         IP_Ipv4Changed = False, IP_Ipv6Changed = False, IP_Ipv4Renewed = False,
         IP_Ipv6Renewed = False, IP_Ipv4Data = zero_Ipv4Data, IP_Ipv6Data = zero_Ipv6Data,
         IP_Ipv6Route = \<lparr>RA_defaultRoute = [], RA_defRouteLifeTime = 0\<rparr>,
         IP_pIpcIpv4Data = None, IP_pIpcIpv6Data = None, IP_Dhcp4cPid = 0,
         IP_Dhcp4cStatus = DHCPC_STATE_UNKNOWN, IP_Dhcp6cPid = 0,
         IP_Dhcp6cStatus = DHCPC_STATE_UNKNOWN\<rparr>,
      VI_PPP = \<lparr>PPP_Enable = False, PPP_Interface = [],
         PPP_IPCPStatus = WAN_IFACE_IPCP_STATUS_DOWN,
         PPP_IPV6CPStatus = WAN_IFACE_IPV6CP_STATUS_DOWN, PPP_IPCPStatusChanged = False,
         PPP_IPV6CPStatusChanged = False, PPP_LinkStatus = WAN_IFACE_PPP_LINK_STATUS_DOWN\<rparr>,
      VI_MAP = \<lparr>MAP_MaptStatus = WAN_IFACE_MAPT_STATE_DOWN, MAP_Path = [], MAP_MaptChanged = False\<rparr>,
      VI_DSLite = \<lparr>DSL_Path = [], DSL_Status = WAN_IFACE_DSLITE_STATE_DOWN, DSL_Changed = False\<rparr>,
      VI_eCurrentState = WAN_STATE_EXIT, VI_Interface_SM_Running = False\<rparr>"

definition blank_iface :: DML_WAN_IFACE where
  "blank_iface =
     \<lparr>If_uiIfaceIdx = 0, If_uiInstanceNumber = 0, If_Name = [], If_DisplayName = [],
      If_AliasName = [], If_MonitorOperStatus = False, If_WanConfigEnabled = False,
      If_VirtIfChanged = False, If_CustomConfigEnable = False, If_CustomConfigPath = [],
      If_InterfaceScanStatus = WAN_IFACE_STATUS_NOT_SCANNED, If_RemoteCPEMac = [],
      If_BaseInterface = [], If_Type = WAN_IFACE_TYPE_UNCONFIGURED,
      If_BaseInterfaceStatus = WAN_IFACE_PHY_STATUS_DOWN,
      If_Selection = \<lparr>Sel_Enable = False, Sel_Priority = 0, Sel_Timeout = 0,
         Sel_Status = WAN_IFACE_UNKNOWN, Sel_ActiveLink = False, Sel_Group = 0,
         Sel_RequiresReboot = False, Sel_RebootTriggerStatus = False\<rparr>,
      If_IfaceType = LOCAL_IFACE, If_BaseInterfaceStatusSub = 0, If_WanStatusSub = 0,
      If_WanLinkStatusSub = 0, If_WanEnableSub = 0, If_NoOfVirtIfs = 0, If_VirtIfList = []\<rparr>"

text \<open>
  \<open>sample_iface k base gr prio sel st\<close>: entry \<open>k\<close> with selection status \<open>sel\<close>, whose virtual
  interface has status \<open>st\<close> and IPv4 connectivity.
\<close>

definition sample_iface ::
  "nat \<Rightarrow> string \<Rightarrow> uint \<Rightarrow> int \<Rightarrow> WANMGR_IFACE_SELECTION \<Rightarrow> DML_WAN_IFACE_STATUS \<Rightarrow> DML_WAN_IFACE" where
  "sample_iface k base gr prio sel st = blank_iface
     \<lparr>If_uiIfaceIdx := of_nat k, If_uiInstanceNumber := of_nat k + 1, If_BaseInterface := base,
      If_BaseInterfaceStatus := WAN_IFACE_PHY_STATUS_UP,
      If_Selection := \<lparr>Sel_Enable = True, Sel_Priority = prio, Sel_Timeout = 20,
         Sel_Status = sel, Sel_ActiveLink = False, Sel_Group = gr,
         Sel_RequiresReboot = False, Sel_RebootTriggerStatus = False\<rparr>,
      If_NoOfVirtIfs := 1,
      If_VirtIfList := [blank_virtif\<lparr>VI_baseIfIdx := of_nat k, VI_Status := st,
         VI_Name := ''erouter0'',
         VI_IP := (VI_IP blank_virtif)\<lparr>IP_Ipv4ConnectivityStatus := WAN_CONNECTIVITY_UP\<rparr>\<rparr>]\<rparr>"

definition sample_group :: "uint \<Rightarrow> uint \<Rightarrow> WANMGR_IFACE_GROUP" where
  "sample_group idx selected =
     \<lparr>G_ThreadId = 1, G_State = STATE_GROUP_RUNNING, G_groupIdx = idx,
      G_InterfaceAvailable = push_bit (unat idx) 1, G_SelectedInterface = selected,
      G_SelectionTimeOut = 20, G_ActivationCount = 1, G_PersistSelectedIface = False,
      G_Policy = AUTOWAN_MODE, G_ConfigChanged = False, G_ResetSelectedInterface = False,
      G_InitialScanComplete = True\<rparr>"

definition sample_config :: DML_WANMGR_CONFIG where
  "sample_config =
     \<lparr>Cfg_Enable = True, Cfg_DeviceNwMode = GATEWAY_MODE, Cfg_DeviceNwModeChanged = False,
      Cfg_ResetFailOverScan = False, Cfg_AllowRemoteInterfaces = False, Cfg_BootToWanUp = False,
      Cfg_InterfaceAvailableStatus = [], Cfg_InterfaceActiveStatus = [],
      Cfg_CurrentActiveInterface = [], Cfg_CurrentStatus = ''Down'',
      Cfg_CurrentStandbyInterface = [], Cfg_RestorationDelay = 30, Cfg_CurrentActiveDNS = [],
      Cfg_BackupWanDnsSupport = True, Cfg_IPv6EUI64FormatSupport = True,
      Cfg_ConfigureWANIPv6OnLANBridgeSupport = False,
      Cfg_UseWANMACForManagementServices = False, Cfg_InterfaceVLANMarkingSupport = False\<rparr>"

definition mk_world :: "DML_WAN_IFACE list \<Rightarrow> WANMGR_IFACE_GROUP list \<Rightarrow> world" where
  "mk_world is gs =
     \<lparr>gWanMgrDataBase =
        \<lparr>gDataMutex = Some 0, Config = sample_config,
         IfaceCtrl = \<lparr>IC_ulTotalNumbWanInterfaces = of_nat (length is),
            IC_pIface = Some (is @ replicate (32 - length is) blank_iface), IC_update = 0\<rparr>,
         IfaceGroup = \<lparr>IG_ulTotalNumbWanIfaceGroup = of_nat (length gs), IG_Group = Some gs\<rparr>\<rparr>,
      psm = Map.empty, syscfg = Map.empty, remotePriority = 100, lastEvent = None,
      PrevWanStatus = None, isDefaultGatewayAdded = False, wan_ready_to_go = False, out = []\<rparr>"

definition docsis :: "WANMGR_IFACE_SELECTION \<Rightarrow> DML_WAN_IFACE_STATUS \<Rightarrow> DML_WAN_IFACE" where
  "docsis = sample_iface 0 ''Device.X_RDK_CableModem'' 1 1"

definition ethwan :: "WANMGR_IFACE_SELECTION \<Rightarrow> DML_WAN_IFACE_STATUS \<Rightarrow> DML_WAN_IFACE" where
  "ethwan = sample_iface 1 ''Device.Ethernet.Interface.1'' 2 2"

definition sample_world :: world where
  "sample_world = mk_world
     [docsis WAN_IFACE_SELECTED WAN_IFACE_STATUS_STANDBY,
      ethwan WAN_IFACE_SELECTED WAN_IFACE_STATUS_STANDBY]
     [sample_group 0 1, sample_group 1 2]"

definition sample_env :: env where
  "sample_env =
     \<lparr>clock = (\<lambda>_. 1000), psm_set_ok = (\<lambda>_. True), bus_set_ok = (\<lambda>_. True),
      bus_get = (\<lambda>_ _. Some ''false''), thread_create = (\<lambda>h. Some (length h + 1)), malloc_ok = (\<lambda>_. True),
      alloc_VirtIf = (\<lambda>_. Some blank_virtif), select_ok = True, sysevent_fd_open = True,
      sysevent_get = (\<lambda>_ _. []), system_ok = (\<lambda>_. True), open_ok = (\<lambda>_ _. True),
      read_file = (\<lambda>_ _. None), popen_lines = (\<lambda>_ _. None), dhcpc_pid = (\<lambda>_. 4711),
      dhcpc_stop = (\<lambda>_. ANSC_STATUS_SUCCESS), pid_running = (\<lambda>_ _. True), inet_addr = (\<lambda>_. 0), inet_pton6 = (\<lambda>_. False),
      uptime = (\<lambda>_. 100), access_ok = (\<lambda>_ _. True), rbus_ok = (\<lambda>_. True), rbus_getUint = (\<lambda>_ _. None)\<rparr>"

lemma wf_db_mk_world:
  assumes "length is \<le> 32" "\<And>k. k < length is \<Longrightarrow> wf_shape k (iface_shape (is ! k))"
    and "length gs < 2 ^ 32"
  shows "wf_db (mk_world is gs)"
proof -
  have "unat (of_nat (length is) :: uint) = length is"
    using assms(1) by (simp add: unat_of_nat)
  moreover have "unat (of_nat (length gs) :: uint) = length gs"
    using assms(3) by (simp add: unat_of_nat)
  moreover have "wf_ifaces (length is) (map iface_shape (is @ replicate (32 - length is) blank_iface))"
    unfolding wf_ifaces_def using assms(1,2)
    by (auto simp: nth_append iface_shape_def blank_iface_def)
  ultimately show ?thesis
    by (simp add: wf_db_def mk_world_def del: unsigned_of_nat of_nat_take_bit)
qed

lemma wf_shape_sample: "wf_shape k (iface_shape (sample_iface k base g p sel st))"
  by (simp add: iface_shape_def sample_iface_def blank_virtif_def)

lemmas sample_defs = sample_world_def docsis_def ethwan_def

lemma wf_sample_world: "wf_db sample_world"
  unfolding sample_defs
  by (rule wf_db_mk_world) (auto simp: less_Suc_eq wf_shape_sample)

definition sample_build :: build where
  "sample_build = \<lparr>XB6_PRODUCT = False, PLATFORM_RASPBERRYPI = False,
     CONFIGURABLE_WAN_INTERFACE = True, LED_MANAGER = True, TELEMETRY2 = True,
     AUTOWAN_ENABLE = False, SCAN_TIMEOUT_DISABLE = False\<rparr>"

subsection \<open>Concrete reads\<close>

lemma mk_world_reads:
  "config (mk_world is gs) = sample_config" "mutex (mk_world is gs) = Some 0"
  "total_ifaces (mk_world is gs) = of_nat (length is)"
  "total_groups (mk_world is gs) = of_nat (length gs)"
  "iface_at k (mk_world is gs) = nth_opt (is @ replicate (32 - length is) blank_iface) k"
  "group_at k (mk_world is gs) = nth_opt gs k"
  "out (mk_world is gs) = []" "psm (mk_world is gs) = Map.empty" "lastEvent (mk_world is gs) = None"
  by (simp_all add: mk_world_def iface_at_def group_at_def)

lemma sample_reads:
  "total_ifaces sample_world = 2" "total_groups sample_world = 2"
  "iface_at 0 sample_world = Some (docsis WAN_IFACE_SELECTED WAN_IFACE_STATUS_STANDBY)"
  "iface_at (Suc 0) sample_world = Some (ethwan WAN_IFACE_SELECTED WAN_IFACE_STATUS_STANDBY)"
  "group_at 0 sample_world = Some (sample_group 0 1)"
  "group_at (Suc 0) sample_world = Some (sample_group 1 2)" "out sample_world = []"
  by (simp_all add: sample_world_def mk_world_reads)

lemma sample_iface_reads:
  "Sel_Status (If_Selection (sample_iface k base gr prio sel st)) = sel"
  "Sel_Timeout (If_Selection (sample_iface k base gr prio sel st)) = 20"
  "Sel_Group (If_Selection (sample_iface k base gr prio sel st)) = gr"
  "head_virtif (sample_iface k base gr prio sel st) = Some (blank_virtif
     \<lparr>VI_baseIfIdx := of_nat k, VI_Status := st, VI_Name := ''erouter0'',
      VI_IP := (VI_IP blank_virtif)\<lparr>IP_Ipv4ConnectivityStatus := WAN_CONNECTIVITY_UP\<rparr>\<rparr>)"
  "If_IfaceType (sample_iface k base gr prio sel st) = LOCAL_IFACE"
  by (simp_all add: sample_iface_def head_virtif_def blank_iface_def)

lemma lt_2_cases: "(k :: nat) < 2 \<Longrightarrow> k = 0 \<or> k = Suc 0"
  by auto

end
