(* ===== verification/WanDataProps.thy ===== *)
theory WanDataProps
  imports WanSamples
begin

text \<open>
  Properties of the data base: what the accessors and searches return and how they leave the mutex,
  and what the creation of a remote interface does to a well-formed data base.
\<close>

subsection \<open>Accessors\<close>

lemma iface_locked_iff:
  "WanMgr_GetIfaceData_locked i w =
     (if valid_iface i w then (Some (unat i), mlock w) else (None, w))"
  by (auto simp: WanMgr_GetIfaceData_locked_def pthread_mutex_lock_def valid_iface_def release_defs)

lemma virtif_at_mlock [simp]: "virtif_at p (mlock w) = virtif_at p w"
  by (simp add: virtif_at_def)

text \<open>
  A pointer to a table entry is handed out exactly for the indices below the number of
  interfaces, it can be dereferenced, its list of virtual interfaces is not empty, and the mutex is
  held once more exactly when the pointer is not NULL.
\<close>

theorem GetIfaceData_locked_sound:
  assumes "wf_db w"
  shows "case WanMgr_GetIfaceData_locked i w of
      (None, w') \<Rightarrow> \<not> i < total_ifaces w \<and> w' = w
    | (Some k, w') \<Rightarrow> i < total_ifaces w \<and> k = unat i \<and> w' = mlock w \<and>
        (\<exists>x v. iface_at k w' = Some x \<and> head_virtif x = Some v)"
proof (cases "i < total_ifaces w")
  case True
  with assms obtain x v where "iface_at (unat i) w = Some x" "head_virtif x = Some v"
    by (rule wf_db_iface_head)
  with True assms show ?thesis by (simp add: iface_locked_iff wf_db_valid_iface)
next
  case False
  with assms show ?thesis by (simp add: iface_locked_iff wf_db_valid_iface)
qed

theorem GetIfaceData_locked_sound_witness:
  "wf_db sample_world \<and> (case WanMgr_GetIfaceData_locked 1 sample_world of
      (None, w') \<Rightarrow> \<not> 1 < total_ifaces sample_world \<and> w' = sample_world
    | (Some k, w') \<Rightarrow> 1 < total_ifaces sample_world \<and> k = unat (1 :: uint) \<and>
        w' = mlock sample_world \<and> (\<exists>x v. iface_at k w' = Some x \<and> head_virtif x = Some v))"
  using wf_sample_world GetIfaceData_locked_sound [OF wf_sample_world, of 1] by (rule conjI)

lemma find_virtif_locked_first:
  assumes "wf_db w"
  shows "case find_virtif_locked P w of
      (None, w') \<Rightarrow> w' = w \<and>
        (\<forall>k x. k < unat (total_ifaces w) \<longrightarrow> iface_at k w = Some x \<longrightarrow>
           (\<forall>v \<in> set (If_VirtIfList x). \<not> P v))
    | (Some (k, j), w') \<Rightarrow> w' = mlock w \<and> k < unat (total_ifaces w) \<and>
        (\<exists>x. iface_at k w = Some x \<and> position P (If_VirtIfList x) = Some j) \<and>
        (\<forall>b x. b < k \<longrightarrow> iface_at b w = Some x \<longrightarrow> (\<forall>v \<in> set (If_VirtIfList x). \<not> P v))"
proof -
  let ?n = "unat (total_ifaces w)"
  from assms obtain m l where m: "mutex w = Some m" and l: "pIface w = Some l" and "?n \<le> length l"
    by (auto simp: wf_db_def wf_ifaces_def split: option.splits)
  then have at: "iface_at k w = Some x \<longleftrightarrow> l ! k = x" if "k < ?n" for k x
    using that by (auto simp: iface_at_def)
  show ?thesis
  proof (cases "search_virtif P 0 (take ?n l)")
    case None
    then have "\<forall>i \<in> set (take ?n l). \<forall>v \<in> set (If_VirtIfList i). \<not> P v"
      by (simp add: search_virtif_None)
    then have "\<not> P v" if "k < ?n" "v \<in> set (If_VirtIfList (l ! k))" for k v
      using that \<open>?n \<le> length l\<close> by (metis in_set_conv_nth length_take min.absorb2 nth_take)
    with None m l at show ?thesis
      by (auto simp: find_virtif_locked_def pthread_mutex_lock_def release_defs)
  next
    case (Some p)
    obtain k j where p: "p = (k, j)" by (cases p)
    from search_virtif_Some [OF Some [unfolded p]] \<open>?n \<le> length l\<close>
    have k: "k < ?n" "position P (If_VirtIfList (l ! k)) = Some j"
      and before: "\<forall>b < k. \<forall>v \<in> set (If_VirtIfList (l ! b)). \<not> P v"
      by auto
    from before k(1) at have "\<forall>b x. b < k \<longrightarrow> iface_at b w = Some x \<longrightarrow>
        (\<forall>v \<in> set (If_VirtIfList x). \<not> P v)"
      by (metis order.strict_trans)
    with Some m l k at [OF k(1)] p show ?thesis
      by (simp add: find_virtif_locked_def pthread_mutex_lock_def)
  qed
qed

text \<open>Sizes of the sample data base.\<close>

lemma sample_total [simp]: "total_ifaces sample_world = 2" "total_groups sample_world = 2"
  by (simp_all add: sample_world_def mk_world_def)

text \<open>
  \<open>WanMgr_GetVIfByName_VISM_running_locked\<close> searches the whole table: for a non-empty name the
  result is the first virtual interface, in table order and then in list order, that has the name
  and whose state machine runs; NULL exactly when there is none; and the mutex is held exactly when
  the result is not NULL.
\<close>

theorem GetVIfByName_VISM_running_first:
  assumes "wf_db w" "name \<noteq> []"
  shows "case WanMgr_GetVIfByName_VISM_running_locked name w of
      (None, w') \<Rightarrow> w' = w \<and>
        (\<forall>k x. k < unat (total_ifaces w) \<longrightarrow> iface_at k w = Some x \<longrightarrow>
           (\<forall>v \<in> set (If_VirtIfList x). \<not> (VI_Name v = name \<and> VI_Interface_SM_Running v)))
    | (Some (k, j), w') \<Rightarrow> w' = mlock w \<and> k < unat (total_ifaces w) \<and>
        (\<exists>x. iface_at k w = Some x \<and>
           position (\<lambda>v. VI_Name v = name \<and> VI_Interface_SM_Running v) (If_VirtIfList x) = Some j) \<and>
        (\<forall>b x. b < k \<longrightarrow> iface_at b w = Some x \<longrightarrow>
           (\<forall>v \<in> set (If_VirtIfList x). \<not> (VI_Name v = name \<and> VI_Interface_SM_Running v)))"
  unfolding WanMgr_GetVIfByName_VISM_running_locked_def
  using assms find_virtif_locked_first [OF assms(1)] by simp

theorem GetVIfByName_VISM_running_first_witness:
  "WanMgr_GetVIfByName_VISM_running_locked ''erouter0'' sample_world = (None, sample_world)"
proof -
  have none: "\<not> VI_Interface_SM_Running v" if "iface_at k sample_world = Some x" "k < 2"
    "v \<in> set (If_VirtIfList x)" for k x v
    using that by (auto simp: sample_defs mk_world_def iface_at_def less_2_cases_iff
        sample_iface_def blank_virtif_def)
  have pos: "v \<in> set xs \<and> P v" if "position P xs = Some j" "v = xs ! j" for P xs j and v :: 'a
    using that by (simp add: position_Some)
  show ?thesis
    using GetVIfByName_VISM_running_first [OF wf_sample_world, of "''erouter0''"]
    by (auto split: prod.splits option.splits dest!: none pos [OF _ refl])
qed

text \<open>
  A caller of \<open>WanMgr_getVirtualIface_locked\<close> that asks for an instance the base interface does
  not have gets NULL while the mutex stays locked: the accessor releases it only when the base
  interface itself does not exist, and no caller releases a pointer it did not get.
\<close>

theorem getVirtualIface_locked_leaks:
  assumes "wf_db w" "b < total_ifaces w" "mutex w = Some n"
    and "iface_at (unat b) w = Some x" "virtif_position (If_VirtIfList x) v = None"
  shows "\<exists>w'. WanMgr_getVirtualIface_locked b v w = Some (None, w') \<and> mutex w' = Some (Suc n)"
  using assms wf_db_valid_iface [OF assms(1), of b]
  by (auto simp: WanMgr_getVirtualIface_locked_def pthread_mutex_lock_def valid_iface_def)

theorem getVirtualIface_locked_leaks_witness:
  "\<exists>w'. WanMgr_getVirtualIface_locked 0 5 sample_world = Some (None, w') \<and> mutex w' = Some (Suc 0)"
proof (rule getVirtualIface_locked_leaks [OF wf_sample_world])
  show "mutex sample_world = Some 0" by (simp add: sample_world_def mk_world_def)
  show "iface_at (unat 0) sample_world =
      Some (docsis WAN_IFACE_SELECTED WAN_IFACE_STATUS_STANDBY)"
    by (simp add: sample_world_def mk_world_def iface_at_def)
  show "virtif_position (If_VirtIfList (docsis WAN_IFACE_SELECTED WAN_IFACE_STATUS_STANDBY)) 5 = None"
    by (simp add: docsis_def sample_iface_def blank_virtif_def)
qed simp

subsection \<open>Remote interfaces\<close>

text \<open>What lies outside the data base: everything but the next remote priority.\<close>

definition outside :: "world \<Rightarrow> WANMGR_DATA_ST \<Rightarrow> int \<Rightarrow> world" where
  "outside w db priority = w\<lparr>gWanMgrDataBase := db, remotePriority := priority\<rparr>"

lemma outside_simps:
  "outside (upd_iface k f w) = outside w" "outside (upd_group j g w) = outside w" "outside (mlock w) = outside w"
  "outside (pthread_mutex_unlock w) = outside w" "outside (grow_table w) = outside w"
  "outside (w\<lparr>remotePriority := i\<rparr>) = outside w"
  by (auto simp: fun_eq_iff outside_def upd_iface_def upd_group_def upd_db_def mlock_def pthread_mutex_unlock_def grow_table_def
      split: option.split nat.split)

lemma grow_table_rest: "config (grow_table w) = config w" "IC_update (IfaceCtrl (gWanMgrDataBase (grow_table w))) = 0"
  by (simp_all add: grow_table_def upd_db_def)

lemma unlock_update: "IC_update (IfaceCtrl (gWanMgrDataBase (pthread_mutex_unlock w))) = IC_update (IfaceCtrl (gWanMgrDataBase w))"
  by (simp add: pthread_mutex_unlock_def upd_db_def split: option.split nat.split)

lemma remote_configure_rest:
  assumes wf: "wf_db w" and room: "total_ifaces w < MAX_WAN_INTERFACE_ENTRY"
    and mem: "alloc_VirtIf e 0 = Some mem"
    and run: "WanMgr_Remote_IfaceData_configure e mac idx w = Some (st, i, w')"
  shows "config w' = config w" "IC_update (IfaceCtrl (gWanMgrDataBase w')) = 0" "outside w' = outside w"
proof -
  obtain d where d: "iface_at (unat (total_ifaces w)) w = Some d" "If_VirtIfList d = []"
    using wf_db_slot [OF wf room] .
  from wf obtain n where n: "mutex w = Some n" by (auto dest: wf_db_mutex)
  show "config w' = config w" "IC_update (IfaceCtrl (gWanMgrDataBase w')) = 0" "outside w' = outside w"
    using room mem d n run
    by (auto simp: WanMgr_Remote_IfaceData_configure_def pthread_mutex_lock_def Let_def outside_simps grow_table_rest
        unlock_update WanMgr_Remote_IfaceData_Update_eq release_defs)
qed

text \<open>
  C11. Creating a remote interface in a well-formed data base that has a free slot, when memory for its virtual
  interface is found: the call succeeds, returns the index of the new entry, keeps the data base well-formed and the mutex as it was; the
  new entry is an enabled remote interface of group 2, not selected, with the given MAC, the next remote
  priority and one virtual interface; group 2, when there is one, has the bit of the new entry set besides the
  bits it had, and is marked as changed unless it is deactivated.  It writes nothing else: every other entry, every
  other group and the other fields of group 2, the configuration, the persistent store, the log and all other
  variables are as before, but for the number of interfaces, the next remote priority and the mark of an update.
\<close>

theorem remote_configure_ok:
  assumes wf: "wf_db w" and room: "total_ifaces w < MAX_WAN_INTERFACE_ENTRY"
    and mem: "alloc_VirtIf e 0 = Some mem"
  shows "\<exists>w' x. WanMgr_Remote_IfaceData_configure e mac idx w =
      Some (ANSC_STATUS_SUCCESS, int (unat (total_ifaces w)), w') \<and>
    wf_db w' \<and> mutex w' = mutex w \<and> total_ifaces w' = total_ifaces w + 1 \<and>
    total_groups w' = total_groups w \<and> remotePriority w' = remotePriority w + 1 \<and> config w' = config w \<and>
    IC_update (IfaceCtrl (gWanMgrDataBase w')) = 0 \<and>
    iface_at (unat (total_ifaces w)) w' = Some x \<and>
    If_IfaceType x = REMOTE_IFACE \<and> Sel_Enable (If_Selection x) \<and>
    Sel_Group (If_Selection x) = REMOTE_INTERFACE_GROUP \<and> Sel_Status (If_Selection x) = WAN_IFACE_NOT_SELECTED \<and>
    Sel_Priority (If_Selection x) = remotePriority w \<and> If_RemoteCPEMac x = mac \<and>
    If_uiIfaceIdx x = total_ifaces w \<and> If_NoOfVirtIfs x = 1 \<and> length (If_VirtIfList x) = 1 \<and>
    (\<forall>k. k \<noteq> unat (total_ifaces w) \<longrightarrow> iface_at k w' = iface_at k w) \<and>
    (\<forall>k. group_at k w' = (if k = 1 then map_option (\<lambda>g. g
        \<lparr>G_InterfaceAvailable := G_InterfaceAvailable g OR push_bit (unat (total_ifaces w)) 1,
         G_ConfigChanged := (G_State g \<noteq> STATE_GROUP_DEACTIVATED \<or> G_ConfigChanged g)\<rparr>) (group_at k w)
      else group_at k w)) \<and>
    w'\<lparr>gWanMgrDataBase := gWanMgrDataBase w, remotePriority := remotePriority w\<rparr> = w"
proof -
  let ?n = "unat (total_ifaces w)"
  from remote_configure_effect [OF wf room mem, of mac idx] obtain w' where
    run': "WanMgr_Remote_IfaceData_configure e mac idx w = Some (ANSC_STATUS_SUCCESS, int ?n, w')"
    and t: "total_ifaces w' = total_ifaces w + 1" "mutex w' = mutex w"
      "total_groups w' = total_groups w" "remotePriority w' = remotePriority w + 1"
    and p: "pIface w' = map_option (map_nth ?n (new_remote_iface mac mem w)) (pIface w)"
    and g: "Groups w' = (if valid_group 1 w
        then map_option (map_nth 1 (remote_group (total_ifaces w))) (Groups w) else Groups w)"
    by blast
  obtain d where d: "iface_at ?n w = Some d" "If_VirtIfList d = []"
    using wf_db_slot [OF wf room] .
  have at: "iface_at k w' = (if k = ?n then Some (new_remote_iface mac mem w d) else iface_at k w)"
    for k using d(1) p by (cases "pIface w") (auto simp: iface_at_def)
  have wf': "wf_db w'"
    by (rule remote_configure_wf [OF wf room t(1-3) p]) (use g in \<open>cases "Groups w"; simp\<close>)
  have one: "valid_group 1 w" if "group_at 1 w = Some gr" for gr
    using that wf by (auto simp: group_at_def valid_group_def wf_db_def word_less_nat_alt split: option.splits)
  have groups: "group_at k w' = (if k = 1 then map_option (remote_group (total_ifaces w)) (group_at k w) else group_at k w)" for k
  proof (cases "valid_group 1 w")
    case True
    with g show ?thesis by (cases "Groups w") (auto simp: group_at_def)
  next
    case False
    with one have "group_at 1 w = None" by (cases "group_at 1 w") auto
    with False g show ?thesis by (auto simp: group_at_def)
  qed
  note rest = remote_configure_rest [OF wf room mem run']
  from rest(3) have "outside w' (gWanMgrDataBase w) (remotePriority w) = outside w (gWanMgrDataBase w) (remotePriority w)" by simp
  then have out: "w'\<lparr>gWanMgrDataBase := gWanMgrDataBase w, remotePriority := remotePriority w\<rparr> = w" by (simp add: outside_def)
  have x: "If_IfaceType (new_remote_iface mac mem w d) = REMOTE_IFACE" "Sel_Enable (If_Selection (new_remote_iface mac mem w d))"
    "Sel_Group (If_Selection (new_remote_iface mac mem w d)) = REMOTE_INTERFACE_GROUP"
    "Sel_Status (If_Selection (new_remote_iface mac mem w d)) = WAN_IFACE_NOT_SELECTED"
    "Sel_Priority (If_Selection (new_remote_iface mac mem w d)) = remotePriority w"
    "If_RemoteCPEMac (new_remote_iface mac mem w d) = mac" "If_uiIfaceIdx (new_remote_iface mac mem w d) = total_ifaces w"
    "If_NoOfVirtIfs (new_remote_iface mac mem w d) = 1" "length (If_VirtIfList (new_remote_iface mac mem w d)) = 1"
    using d(2) by (simp_all add: new_remote_iface_def remote_entry_def) (simp add: WanMgr_IfaceData_Init_def)
  have change: "remote_group (total_ifaces w) = (\<lambda>g. g
      \<lparr>G_InterfaceAvailable := G_InterfaceAvailable g OR push_bit ?n 1,
       G_ConfigChanged := (G_State g \<noteq> STATE_GROUP_DEACTIVATED \<or> G_ConfigChanged g)\<rparr>)"
    by (auto simp: fun_eq_iff remote_group_def)
  show ?thesis
    by (intro exI [of _ w'] exI [of _ "new_remote_iface mac mem w d"])
      (use run' wf' t at rest(1,2) out x groups in \<open>simp add: change\<close>)
qed

theorem remote_configure_ok_witness:
  "\<exists>w' x. WanMgr_Remote_IfaceData_configure sample_env ''02:00:00:00:00:01'' 0 sample_world =
      Some (ANSC_STATUS_SUCCESS, 2, w') \<and>
    wf_db w' \<and> total_ifaces w' = 3 \<and> iface_at 2 w' = Some x \<and> If_IfaceType x = REMOTE_IFACE \<and>
    If_RemoteCPEMac x = ''02:00:00:00:00:01'' \<and>
    group_at 1 w' = Some ((sample_group 1 2)\<lparr>G_InterfaceAvailable := 6, G_ConfigChanged := True\<rparr>)"
proof -
  have mem: "alloc_VirtIf sample_env 0 = Some blank_virtif" by (simp add: sample_env_def)
  have room: "total_ifaces sample_world < MAX_WAN_INTERFACE_ENTRY" by simp
  have g: "group_at 1 sample_world = Some (sample_group 1 2)" using sample_reads(6) by simp
  from remote_configure_ok [OF wf_sample_world room mem, of "''02:00:00:00:00:01''" 0] obtain w' x where
    "WanMgr_Remote_IfaceData_configure sample_env ''02:00:00:00:00:01'' 0 sample_world = Some (ANSC_STATUS_SUCCESS, 2, w')"
    "wf_db w'" "total_ifaces w' = 3" "iface_at 2 w' = Some x" "If_IfaceType x = REMOTE_IFACE"
    "If_RemoteCPEMac x = ''02:00:00:00:00:01''"
    "group_at 1 w' = map_option (\<lambda>g. g\<lparr>G_InterfaceAvailable := G_InterfaceAvailable g OR push_bit (unat (total_ifaces sample_world)) 1,
       G_ConfigChanged := (G_State g \<noteq> STATE_GROUP_DEACTIVATED \<or> G_ConfigChanged g)\<rparr>) (group_at 1 sample_world)" by auto
  then show ?thesis unfolding g by (simp add: sample_group_def sample_reads)
qed

text \<open>
  When the table is full the request fails and nothing but the mutex changes: the function
  returns without releasing it, so the calling thread keeps the data base locked.
\<close>

theorem remote_configure_full_leaks:
  assumes "mutex w = Some n" "\<not> total_ifaces w < MAX_WAN_INTERFACE_ENTRY"
  shows "WanMgr_Remote_IfaceData_configure e mac idx w = Some (ANSC_STATUS_FAILURE, idx, mlock w) \<and>
    mutex (mlock w) = Some (Suc n)"
  using assms by (simp add: WanMgr_Remote_IfaceData_configure_def pthread_mutex_lock_def)

definition full_world :: world where
  "full_world = mk_world
     (map (\<lambda>k. sample_iface k ''Device.Ethernet.Interface.1'' 1 1 WAN_IFACE_NOT_SELECTED
        WAN_IFACE_STATUS_DISABLED) [0..<32]) [sample_group 0 0, sample_group 1 0]"

theorem remote_configure_full_leaks_witness:
  "WanMgr_Remote_IfaceData_configure sample_env ''02:00:00:00:00:01'' 0 full_world =
      Some (ANSC_STATUS_FAILURE, 0, mlock full_world) \<and> mutex (mlock full_world) = Some (Suc 0)"
proof (rule remote_configure_full_leaks)
  show "mutex full_world = Some 0" by (simp add: full_world_def mk_world_def)
  show "\<not> total_ifaces full_world < MAX_WAN_INTERFACE_ENTRY"
    by (simp add: full_world_def mk_world_def)
qed

end
