(* ===== verification/WanSafe.thy ===== *)
theory WanSafe
  imports WanData
begin

text \<open>
  A small calculus for the code of the threads.  \<open>ok w m Q\<close> says that the computation \<open>m\<close>, started
  in \<open>w\<close>, returns (no dereference fails), leaves the data base well-formed, the mutex as often locked
  as before and the sizes of the tables unchanged, and that its result satisfies \<open>Q\<close>.  There is one
  rule per construct of the model; they are collected in \<open>ok_intros\<close>.

  The locale at the end states what a thread of the program is: a pass over a well-formed data base
  is \<open>ok\<close> and keeps the thread's own invariant; between two passes the other threads may change the
  data base within the limits of \<open>interference\<close>.  Its conclusion holds for every run.
\<close>

named_theorems ok_intros \<open>rules of the calculus\<close>

definition keeps :: "world \<Rightarrow> world \<Rightarrow> bool" where
  "keeps w w' \<longleftrightarrow> wf_db w' \<and> mutex w' = mutex w \<and> total_groups w' = total_groups w \<and>
     total_ifaces w' = total_ifaces w"

definition ok :: "world \<Rightarrow> ('r \<times> world) option \<Rightarrow> ('r \<Rightarrow> world \<Rightarrow> bool) \<Rightarrow> bool" where
  "ok w m Q \<longleftrightarrow> (\<exists>r w'. m = Some (r, w') \<and> keeps w w' \<and> Q r w')"

lemma keeps_trans: "keeps w w' \<Longrightarrow> keeps w' w'' \<Longrightarrow> keeps w w''"
  by (auto simp: keeps_def)

lemma keeps_wf: "keeps w w' \<Longrightarrow> wf_db w'"
  by (simp add: keeps_def)

lemma keeps_refl: "wf_db w \<Longrightarrow> keeps w w"
  by (simp add: keeps_def)

lemma okI: "\<lbrakk>m = Some (r, w'); keeps w w'; Q r w'\<rbrakk> \<Longrightarrow> ok w m Q"
  by (auto simp: ok_def)

lemma okE:
  assumes "ok w m Q"
  obtains r w' where "m = Some (r, w')" "keeps w w'" "Q r w'"
  using assms by (auto simp: ok_def)

lemma ok_mono: "ok w m Q \<Longrightarrow> (\<And>r w'. keeps w w' \<Longrightarrow> Q r w' \<Longrightarrow> R r w') \<Longrightarrow> ok w m R"
  by (auto simp: ok_def)

lemma ok_return [ok_intros]: "keeps w w' \<Longrightarrow> Q r w' \<Longrightarrow> ok w (Some (r, w')) Q"
  by (simp add: ok_def)

lemma ok_bind [ok_intros]:
  assumes "ok w m Q" and "\<And>r w'. keeps w w' \<Longrightarrow> Q r w' \<Longrightarrow> ok w (f (r, w')) R"
  shows "ok w (Option.bind m f) R"
  using assms by (auto elim!: okE)

text \<open>Re-basing: a computation that starts in a later state.\<close>

lemma ok_rebase: "keeps w w' \<Longrightarrow> ok w' m Q \<Longrightarrow> ok w m Q"
  by (auto simp: ok_def intro: keeps_trans)

lemma ok_if [ok_intros]:
  "\<lbrakk>b \<Longrightarrow> ok w m Q; \<not> b \<Longrightarrow> ok w n Q\<rbrakk> \<Longrightarrow> ok w (if b then m else n) Q"
  by simp

lemma ok_Let [ok_intros]: "ok w (f x) Q \<Longrightarrow> ok w (Let x f) Q"
  by (simp add: Let_def)

lemma keeps_upd_iface [ok_intros]:
  "\<lbrakk>keeps w w'; \<And>x. iface_shape (f x) = iface_shape x\<rbrakk> \<Longrightarrow> keeps w (upd_iface k f w')"
  by (auto simp: keeps_def wf_db_upd_iface)

lemma keeps_upd_group [ok_intros]: "keeps w w' \<Longrightarrow> keeps w (upd_group k f w')"
  by (auto simp: keeps_def)

lemma keeps_upd_config [ok_intros]: "keeps w w' \<Longrightarrow> keeps w (upd_config f w')"
  by (auto simp: keeps_def)

lemma keeps_same_db:
  assumes "gWanMgrDataBase w'' = gWanMgrDataBase w'" "keeps w w'"
  shows "keeps w w''"
  using assms wf_db_same [OF assms(1)] by (simp add: keeps_def)

lemma keeps_emit [ok_intros]: "keeps w w' \<Longrightarrow> keeps w (emit e w')"
  by (rule keeps_same_db) simp_all

lemma keeps_lock_iff: "keeps w w' \<Longrightarrow> keeps (mlock w) (mlock w')"
  by (simp add: keeps_def)

lemma keeps_unlock: "mutex w \<noteq> None \<Longrightarrow> keeps (mlock w) w' \<Longrightarrow> keeps w (pthread_mutex_unlock w')"
  by (auto simp: keeps_def)

text \<open>A dereference of a pointer the data base vouches for.\<close>

lemma ok_deref [ok_intros]:
  "\<lbrakk>p = Some x; ok w (f x) Q\<rbrakk> \<Longrightarrow> ok w (Option.bind p f) Q"
  by simp

text \<open>Counting the tables leaves the world as it is.\<close>

lemma total_wf [simp]:
  assumes "wf_db w"
  shows "WanMgr_GetTotalNoOfGroups w = (total_groups w, w)"
    "WanMgr_IfaceData_GetTotalWanIface w = (total_ifaces w, w)"
  using wf_db_mutex [OF assms]
  by (auto simp: WanMgr_GetTotalNoOfGroups_def WanMgr_IfaceData_GetTotalWanIface_def
      pthread_mutex_lock_def release_defs)

lemma with_config_wf [simp]:
  "wf_db w \<Longrightarrow> with_config d body w = apsnd pthread_mutex_unlock (body (mlock w))"
  by (auto simp: with_config_def WanMgr_GetConfigData_locked_def pthread_mutex_lock_def release_defs
      dest: wf_db_mutex split: prod.split)

text \<open>A critical section on a well-formed data base, as an equation.\<close>

lemma with_wf:
  assumes "wf_db w"
  shows "with_group i d body w = (if i < total_groups w
      then map_option (apsnd pthread_mutex_unlock) (body (unat i) (mlock w)) else Some (d, w))"
    and "with_iface i d body w = (if i < total_ifaces w
      then map_option (apsnd pthread_mutex_unlock) (body (unat i) (mlock w)) else Some (d, w))"
  using assms by (simp_all add: grp.access_run grp.access_null wf_db_valid_group
      ifc.access_run ifc.access_null wf_db_valid_iface)

text \<open>
  The rules for the critical sections.  Inside, the pointer can be dereferenced, and so can the first
  virtual interface of an interface in use.
\<close>

lemma ok_guarded:
  assumes run: "acc = (if vld then map_option (apsnd pthread_mutex_unlock) (body (mlock w)) else Some (d, w))"
    and wf: "wf_db w" and null: "\<not> vld \<Longrightarrow> Q d w"
    and body: "vld \<Longrightarrow> ok (mlock w) (body (mlock w)) (\<lambda>r w'. Q r (pthread_mutex_unlock w'))"
  shows "ok w acc Q"
proof (cases vld)
  case True
  with body obtain r w' where "body (mlock w) = Some (r, w')" "keeps (mlock w) w'"
    "Q r (pthread_mutex_unlock w')" by (auto elim: okE)
  with True run wf show ?thesis
    by (auto simp: ok_def dest: wf_db_mutex intro: keeps_unlock)
next
  case False
  with run wf null show ?thesis by (auto simp: ok_def intro: keeps_refl)
qed

lemma ok_with_iface:
  assumes wf: "wf_db w" and null: "\<not> i < total_ifaces w \<Longrightarrow> Q d w"
    and body: "\<And>x v. \<lbrakk>i < total_ifaces w; iface_at (unat i) w = Some x; head_virtif x = Some v;
        wf_shape (unat i) (iface_shape x)\<rbrakk> \<Longrightarrow>
      ok (mlock w) (body (unat i) (mlock w)) (\<lambda>r w'. Q r (pthread_mutex_unlock w'))"
  shows "ok w (with_iface i d body w) Q"
proof (rule ok_guarded [where vld = "valid_iface i w" and d = d and body = "body (unat i)"])
  show "with_iface i d body w = (if valid_iface i w
      then map_option (apsnd pthread_mutex_unlock) (body (unat i) (mlock w)) else Some (d, w))"
    by (simp add: ifc.access_run ifc.access_null)
  show "Q d w" if "\<not> valid_iface i w"
    using that null wf by (simp add: wf_db_valid_iface)
  show "ok (mlock w) (body (unat i) (mlock w)) (\<lambda>r w'. Q r (pthread_mutex_unlock w'))"
    if "valid_iface i w"
  proof -
    from that wf have i: "i < total_ifaces w" by (simp add: wf_db_valid_iface)
    then have "unat i < unat (total_ifaces w)" by (simp add: word_less_nat_alt)
    with wf obtain x where x: "iface_at (unat i) w = Some x" "wf_shape (unat i) (iface_shape x)"
      by (rule wf_db_iface_at)
    with wf_shape_head obtain v where "head_virtif x = Some v" by blast
    with i x body show ?thesis by blast
  qed
qed (rule wf)

lemma ok_with_group:
  assumes wf: "wf_db w" and null: "\<not> i < total_groups w \<Longrightarrow> Q d w"
    and body: "\<And>g. \<lbrakk>i < total_groups w; group_at (unat i) w = Some g\<rbrakk> \<Longrightarrow>
      ok (mlock w) (body (unat i) (mlock w)) (\<lambda>r w'. Q r (pthread_mutex_unlock w'))"
  shows "ok w (with_group i d body w) Q"
proof (rule ok_guarded [where vld = "valid_group i w" and d = d and body = "body (unat i)"])
  show "with_group i d body w = (if valid_group i w
      then map_option (apsnd pthread_mutex_unlock) (body (unat i) (mlock w)) else Some (d, w))"
    by (simp add: grp.access_run grp.access_null)
  show "Q d w" if "\<not> valid_group i w"
    using that null wf by (simp add: wf_db_valid_group)
  show "ok (mlock w) (body (unat i) (mlock w)) (\<lambda>r w'. Q r (pthread_mutex_unlock w'))"
    if "valid_group i w"
  proof -
    from that wf have i: "i < total_groups w" by (simp add: wf_db_valid_group)
    with wf obtain g where "group_at (unat i) w = Some g" by (rule wf_db_group_at)
    with i body show ?thesis by blast
  qed
qed (rule wf)

text \<open>
  Loops whose body is a computation that returns how it leaves the iteration.  \<open>for_loop\<close> is the C
  \<open>for\<close> statement with a thread-local state; \<open>continue\<close> marks a body that never breaks.
\<close>

definition loop_body :: "('s flow \<times> world) option \<Rightarrow> ('s \<times> world) flow option" where
  "loop_body m =
     map_option (\<lambda>(f, w). case f of Continue s \<Rightarrow> Continue (s, w) | Break s \<Rightarrow> Break (s, w)) m"

definition for_loop ::
  "'i list \<Rightarrow> ('i \<Rightarrow> 's \<Rightarrow> world \<Rightarrow> ('s flow \<times> world) option) \<Rightarrow> 's \<Rightarrow> world \<Rightarrow> ('s \<times> world) option" where
  "for_loop is body s w = for_each is (\<lambda>i (s, w). loop_body (body i s w)) (s, w)"

definition continue :: "('s \<times> world) option \<Rightarrow> ('s flow \<times> world) option" where
  "continue m = map_option (apfst Continue) m"

lemma for_loop_Nil [simp]: "for_loop [] body s w = Some (s, w)"
  by (simp add: for_loop_def)

lemma for_loop_Cons:
  "for_loop (i # is) body s w =
     (case body i s w of
        None \<Rightarrow> None
      | Some (Continue s', w') \<Rightarrow> for_loop is body s' w'
      | Some (Break s', w') \<Rightarrow> Some (s', w'))"
  by (auto simp: for_loop_def loop_body_def split: option.split flow.split)

lemma for_loop_append:
  "for_loop (is @ js) (\<lambda>i s w. continue (body i s w)) s w =
     Option.bind (for_loop is (\<lambda>i s w. continue (body i s w)) s w)
       (\<lambda>(s', w'). for_loop js (\<lambda>i s w. continue (body i s w)) s' w')"
  by (induction "is" arbitrary: s w)
    (auto simp: for_loop_Cons continue_def split: option.split flow.split)

lemma continue_Some [simp]: "continue (Some (s, w)) = Some (Continue s, w)"
  by (simp add: continue_def)

text \<open>A loop that never breaks and leaves the world alone is a fold.\<close>

lemma for_loop_fold:
  assumes "\<And>i s. i \<in> set is \<Longrightarrow> body i s w = Some (Continue (f i s), w)"
  shows "for_loop is body s w = Some (fold f is s, w)"
  using assms by (induction "is" arbitrary: s) (simp_all add: for_loop_Cons)

fun flow_val :: "'s flow \<Rightarrow> 's" where
  "flow_val (Continue s) = s"
| "flow_val (Break s) = s"

lemma ok_continue:
  "ok w m (\<lambda>s w'. Q (Continue s) w') \<Longrightarrow> ok w (continue m) Q"
  by (auto simp: ok_def continue_def)

text \<open>The loop rule: the invariant speaks about the iterations done so far.\<close>

lemma ok_for_loop:
  assumes start: "keeps w w0" "I [] s0 w0"
    and body: "\<And>pre i s w'. \<lbrakk>\<exists>todo. is = pre @ i # todo; keeps w w'; I pre s w'\<rbrakk> \<Longrightarrow>
      ok w (body i s w') (\<lambda>f w''. case f of Continue s' \<Rightarrow> I (pre @ [i]) s' w'' | Break s' \<Rightarrow> Q s' w'')"
    and exit: "\<And>s w'. \<lbrakk>keeps w w'; I is s w'\<rbrakk> \<Longrightarrow> Q s w'"
  shows "ok w (for_loop is body s0 w0) Q"
proof -
  have "\<exists>p. for_each is (\<lambda>i (s, w). loop_body (body i s w)) (s0, w0) = Some p \<and>
      (keeps w (snd p) \<and> Q (fst p) (snd p))"
  proof (rule for_each_rule [where I = "\<lambda>pre p. keeps w (snd p) \<and> I pre (fst p) (snd p)"])
    show "keeps w (snd (s0, w0)) \<and> I [] (fst (s0, w0)) (snd (s0, w0))" using start by simp
    show "keeps w (snd p) \<and> Q (fst p) (snd p)" if "keeps w (snd p) \<and> I is (fst p) (snd p)" for p
      using that exit by blast
    fix pre i p
    assume "keeps w (snd p) \<and> I pre (fst p) (snd p)" "\<exists>todo. is = pre @ i # todo"
    with body [of pre i "snd p" "fst p"] obtain f w''
      where f: "body i (fst p) (snd p) = Some (f, w'')" "keeps w w''"
        "case f of Continue s' \<Rightarrow> I (pre @ [i]) s' w'' | Break s' \<Rightarrow> Q s' w''"
      by (auto elim: okE)
    then show "(\<exists>q. (case p of (s, w) \<Rightarrow> loop_body (body i s w)) = Some (Continue q) \<and>
          keeps w (snd q) \<and> I (pre @ [i]) (fst q) (snd q)) \<or>
        (\<exists>q. (case p of (s, w) \<Rightarrow> loop_body (body i s w)) = Some (Break q) \<and>
          keeps w (snd q) \<and> Q (fst q) (snd q))"
      by (cases f) (auto simp: loop_body_def split: prod.splits)
  qed
  then show ?thesis by (auto simp: ok_def for_loop_def)
qed

text \<open>The same for an invariant that does not depend on the iteration.\<close>

lemma ok_loop:
  assumes "keeps w w0" "I s0 w0"
    and "\<And>i s w'. \<lbrakk>i \<in> set is; keeps w w'; I s w'\<rbrakk> \<Longrightarrow>
      ok w (body i s w') (\<lambda>f w''. I (flow_val f) w'')"
  shows "ok w (for_loop is body s0 w0) I"
proof (rule ok_for_loop [where I = "\<lambda>_. I"])
  fix pre i s w'
  assume "\<exists>todo. is = pre @ i # todo" "keeps w w'" "I s w'"
  then have "ok w (body i s w') (\<lambda>f w''. I (flow_val f) w'')" using assms(3) by auto
  then show "ok w (body i s w') (\<lambda>f w''. case f of Continue s' \<Rightarrow> I s' w'' | Break s' \<Rightarrow> I s' w'')"
    by (rule ok_mono) (auto split: flow.splits)
qed (use assms in auto)

text \<open>A loop that never breaks: each iteration is judged from the state it starts in.\<close>

lemma ok_loop_continue:
  assumes "wf_db w" "I s0 w"
    and body: "\<And>i s w'. \<lbrakk>i \<in> set is; keeps w w'; wf_db w'; I s w'\<rbrakk> \<Longrightarrow> ok w' (body i s w') I"
  shows "ok w (for_loop is (\<lambda>i s w. continue (body i s w)) s0 w) I"
proof (rule ok_loop [where I = I])
  fix i s w'
  assume "i \<in> set is" and kp: "keeps w w'" and "I s w'"
  with body have "ok w' (body i s w') I" by (blast dest: keeps_wf)
  then show "ok w (continue (body i s w')) (\<lambda>f w''. I (flow_val f) w'')"
    by (intro ok_continue ok_rebase [OF kp]) simp
qed (use assms in \<open>simp_all add: keeps_refl\<close>)

subsection \<open>Who is selected, who is active\<close>

text \<open>
  The part of the data base the fail-over controller and the selection policies negotiate over: the
  selection status of every interface and the selected interface of every group.
\<close>

definition sel_view ::
  "world \<Rightarrow> (nat \<Rightarrow> WANMGR_IFACE_SELECTION option) \<times> (nat \<Rightarrow> uint option)" where
  "sel_view w = ((\<lambda>k. map_option (\<lambda>x. Sel_Status (If_Selection x)) (iface_at k w)),
                 (\<lambda>k. map_option G_SelectedInterface (group_at k w)))"

lemma sel_view_frame [simp]:
  "sel_view (mlock w) = sel_view w" "sel_view (pthread_mutex_unlock w) = sel_view w"
  "sel_view (emit e w) = sel_view w" "sel_view (upd_config h w) = sel_view w"
  by (simp_all add: sel_view_def)

lemma sel_view_upd_group [simp]:
  "(\<And>g. G_SelectedInterface (f g) = G_SelectedInterface g) \<Longrightarrow> sel_view (upd_group k f w) = sel_view w"
  by (auto simp: sel_view_def option.map_comp comp_def)

lemma sel_view_upd_iface [simp]:
  "(\<And>x. Sel_Status (If_Selection (f x)) = Sel_Status (If_Selection x)) \<Longrightarrow>
     sel_view (upd_iface k f w) = sel_view w"
  by (auto simp: sel_view_def option.map_comp comp_def)

lemma sel_view_same_db:
  assumes "gWanMgrDataBase w' = gWanMgrDataBase w"
  shows "sel_view w' = sel_view w"
  using same_db_reads [OF assms] by (simp add: sel_view_def)

definition active_set :: "world \<Rightarrow> nat set" where
  "active_set w = {k. k < unat (total_ifaces w) \<and> fst (sel_view w) k = Some WAN_IFACE_ACTIVE}"

text \<open>The table index of the interface that group instance \<open>inst\<close> has selected.\<close>

definition group_selected :: "uint \<Rightarrow> world \<Rightarrow> nat option" where
  "group_selected inst w =
     (if inst - 1 < total_groups w
      then case snd (sel_view w) (unat (inst - 1)) of
             None \<Rightarrow> None
           | Some s \<Rightarrow> if s - 1 < total_ifaces w \<and> s \<noteq> 0 then Some (unat (s - 1)) else None
      else None)"

lemma group_selected_0 [simp]: "group_selected 0 w = None"
  by (auto simp: group_selected_def uint_pred_less_iff)

lemma active_frame:
  assumes "sel_view w' = sel_view w" "keeps w w'"
  shows "active_set w' = active_set w" "group_selected inst w' = group_selected inst w"
  using assms by (simp_all add: active_set_def group_selected_def keeps_def split: option.split)

text \<open>Writing the selection status of an interface.\<close>

definition set_status :: "nat \<Rightarrow> WANMGR_IFACE_SELECTION \<Rightarrow> world \<Rightarrow> world" where
  "set_status k st = upd_iface k (upd_Selection (\<lambda>s. s\<lparr>Sel_Status := st\<rparr>))"

definition status_of :: "nat \<Rightarrow> world \<Rightarrow> WANMGR_IFACE_SELECTION option" where
  "status_of k w = fst (sel_view w) k"

lemma set_status_simps [simp]:
  "wf_db (set_status k st w) = wf_db w" "keeps w' (set_status k st w) = keeps w' w"
  "total_ifaces (set_status k st w) = total_ifaces w"
  "total_groups (set_status k st w) = total_groups w"
  "mutex (set_status k st w) = mutex w"
  "snd (sel_view (set_status k st w)) = snd (sel_view w)"
  "group_at j (set_status k st w) = group_at j w"
  "config (set_status k st w) = config w" "out (set_status k st w) = out w"
  by (simp_all add: set_status_def wf_db_upd_iface keeps_def sel_view_def)

lemma status_of_set_status:
  "status_of j (set_status k st w) =
     (if j = k then map_option (\<lambda>_. st) (status_of j w) else status_of j w)"
  by (auto simp: status_of_def set_status_def sel_view_def option.map_comp comp_def)

lemma group_selected_set_status [simp]: "group_selected g (set_status k st w) = group_selected g w"
  by (simp add: group_selected_def split: option.split)

lemma mlock_set_status [simp]: "set_status k st (mlock w) = mlock (set_status k st w)"
  by (simp add: set_status_def)

lemma active_set_status_of: "active_set w = {k. k < unat (total_ifaces w) \<and> status_of k w = Some WAN_IFACE_ACTIVE}"
  by (simp add: active_set_def status_of_def)

lemma active_set_set_status:
  "active_set (set_status j st w) \<subseteq> (if st = WAN_IFACE_ACTIVE then insert j (active_set w) else active_set w - {j})"
  by (auto simp: active_set_status_of status_of_set_status split: if_splits)

subsection \<open>Effects\<close>

text \<open>
  \<open>okx eff w m R\<close>: the computation is \<open>ok\<close>, changes the world only as the relation \<open>eff\<close> allows, and
  its result satisfies \<open>R\<close>.  Every piece is judged from the state it starts in, so the pieces compose
  as long as \<open>eff\<close> is a preorder that does not look at the mutex.
\<close>

definition okx :: "(world \<Rightarrow> world \<Rightarrow> bool) \<Rightarrow> world \<Rightarrow> ('r \<times> world) option \<Rightarrow> ('r \<Rightarrow> bool) \<Rightarrow> bool" where
  "okx eff w m R \<longleftrightarrow> ok w m (\<lambda>r w'. eff w w' \<and> R r)"

lemma okxE:
  assumes "okx eff w m R"
  obtains r w' where "m = Some (r, w')" "keeps w w'" "wf_db w'" "eff w w'" "R r"
  using assms by (auto simp: okx_def elim!: okE dest: keeps_wf)

lemma okx_mono:
  "\<lbrakk>okx eff w m R; \<And>r. R r \<Longrightarrow> S r; \<And>w'. eff w w' \<Longrightarrow> eff' w w'\<rbrakk> \<Longrightarrow> okx eff' w m S"
  by (auto simp: okx_def ok_def)

lemma okx_if: "\<lbrakk>b \<Longrightarrow> okx eff w m R; \<not> b \<Longrightarrow> okx eff w n R\<rbrakk> \<Longrightarrow> okx eff w (if b then m else n) R"
  by simp

lemma okx_Some_if:
  "\<lbrakk>b \<Longrightarrow> okx eff w (Some p) R; \<not> b \<Longrightarrow> okx eff w (Some q) R\<rbrakk> \<Longrightarrow> okx eff w (Some (if b then p else q)) R"
  by simp

locale effects =
  fixes eff :: "world \<Rightarrow> world \<Rightarrow> bool"
  assumes eff_refl: "eff w w"
    and eff_trans: "\<lbrakk>eff w w'; eff w' w''\<rbrakk> \<Longrightarrow> eff w w''"
    and eff_lock: "eff (mlock w) w' = eff w w'" "eff w (pthread_mutex_unlock w') = eff w w'"
begin

lemma return: "\<lbrakk>keeps w w'; eff w w'; R r\<rbrakk> \<Longrightarrow> okx eff w (Some (r, w')) R"
  by (simp add: okx_def ok_def)

lemma return_same: "\<lbrakk>wf_db w; R r\<rbrakk> \<Longrightarrow> okx eff w (Some (r, w)) R"
  by (intro return keeps_refl eff_refl)

lemma bind:
  assumes "okx eff w m P"
    and "\<And>r w'. \<lbrakk>wf_db w'; keeps w w'; eff w w'; P r\<rbrakk> \<Longrightarrow> okx eff w' (f (r, w')) R"
  shows "okx eff w (Option.bind m f) R"
proof -
  from assms(1) obtain r w' where m: "m = Some (r, w')" "keeps w w'" "wf_db w'" "eff w w'" "P r"
    by (rule okxE)
  from assms(2) [OF m(3,2,4,5)] obtain r' w'' where f: "f (r, w') = Some (r', w'')" "keeps w' w''"
    "eff w' w''" "R r'" by (rule okxE)
  with m show ?thesis
    by (auto simp: okx_def ok_def intro: keeps_trans eff_trans)
qed

lemma bind_pair:
  assumes "okx eff w m P"
    and "\<And>r w'. \<lbrakk>wf_db w'; keeps w w'; eff w w'; P r\<rbrakk> \<Longrightarrow> okx eff w' (f r w') R"
  shows "okx eff w (Option.bind m (\<lambda>(r, w'). f r w')) R"
  using assms(1) by (rule bind) (simp add: assms(2))

text \<open>A computation that starts after a harmless step.\<close>

lemma step: "\<lbrakk>keeps w w'; eff w w'; okx eff w' m R\<rbrakk> \<Longrightarrow> okx eff w m R"
  by (auto simp: okx_def ok_def intro: keeps_trans eff_trans)

lemma iface:
  assumes wf: "wf_db w" and null: "R d"
    and body: "\<And>x v. \<lbrakk>i < total_ifaces w; iface_at (unat i) w = Some x; head_virtif x = Some v;
        wf_shape (unat i) (iface_shape x); wf_db (mlock w)\<rbrakk> \<Longrightarrow>
      okx eff (mlock w) (body (unat i) (mlock w)) R"
  shows "okx eff w (with_iface i d body w) R"
  unfolding okx_def
proof (rule ok_with_iface [OF wf])
  fix x v
  assume "i < total_ifaces w" "iface_at (unat i) w = Some x" "head_virtif x = Some v"
    "wf_shape (unat i) (iface_shape x)"
  with body wf have "okx eff (mlock w) (body (unat i) (mlock w)) R" by simp
  then show "ok (mlock w) (body (unat i) (mlock w)) (\<lambda>r w'. eff w (pthread_mutex_unlock w') \<and> R r)"
    by (simp add: okx_def eff_lock)
qed (simp add: null eff_refl)

lemma group:
  assumes wf: "wf_db w" and null: "R d"
    and body: "\<And>g. \<lbrakk>i < total_groups w; group_at (unat i) w = Some g; wf_db (mlock w)\<rbrakk> \<Longrightarrow>
      okx eff (mlock w) (body (unat i) (mlock w)) R"
  shows "okx eff w (with_group i d body w) R"
  unfolding okx_def
proof (rule ok_with_group [OF wf])
  fix g
  assume "i < total_groups w" "group_at (unat i) w = Some g"
  with body wf have "okx eff (mlock w) (body (unat i) (mlock w)) R" by simp
  then show "ok (mlock w) (body (unat i) (mlock w)) (\<lambda>r w'. eff w (pthread_mutex_unlock w') \<and> R r)"
    by (simp add: okx_def eff_lock)
qed (simp add: null eff_refl)

lemma loop:
  assumes wf: "wf_db w" and start: "R s0"
    and body: "\<And>i s w'. \<lbrakk>i \<in> set is; keeps w w'; wf_db w'; eff w w'; R s\<rbrakk> \<Longrightarrow>
      okx eff w' (body i s w') (\<lambda>f. R (flow_val f))"
  shows "okx eff w (for_loop is body s0 w) R"
  unfolding okx_def
proof (rule ok_loop [where I = "\<lambda>s w'. eff w w' \<and> R s"])
  fix i s w'
  assume "i \<in> set is" and kp: "keeps w w'" and "eff w w' \<and> R s"
  with body have "okx eff w (body i s w') (\<lambda>f. R (flow_val f))"
    by (blast intro: step keeps_wf)
  then show "ok w (body i s w') (\<lambda>f w''. eff w w'' \<and> R (flow_val f))" by (simp add: okx_def)
qed (use wf start in \<open>simp_all add: keeps_refl eff_refl\<close>)

lemma loop_continue:
  assumes wf: "wf_db w" and start: "R s0"
    and body: "\<And>i s w'. \<lbrakk>i \<in> set is; keeps w w'; wf_db w'; eff w w'; R s\<rbrakk> \<Longrightarrow> okx eff w' (body i s w') R"
  shows "okx eff w (for_loop is (\<lambda>i s w. continue (body i s w)) s0 w) R"
proof (rule loop [where R = R, OF wf start])
  fix i s w'
  assume "i \<in> set is" "keeps w w'" "wf_db w'" "eff w w'" "R s"
  with body have "okx eff w' (body i s w') R" by blast
  then show "okx eff w' (continue (body i s w')) (\<lambda>f. R (flow_val f))"
    by (auto simp: okx_def intro!: ok_continue)
qed

end

text \<open>Two effects: nothing of the selection changes; and anything.\<close>

definition same_sel :: "world \<Rightarrow> world \<Rightarrow> bool" where
  "same_sel w w' \<longleftrightarrow> sel_view w' = sel_view w"

interpretation sel: effects same_sel
  by unfold_locales (auto simp: same_sel_def)

subsection \<open>Threads\<close>

text \<open>
  What the other threads and the data-model handlers may do to the data base between two passes: they
  release the mutex as often as they lock it, never remove an interface or a group, and keep the data
  base well-formed.
\<close>

definition interference :: "world \<Rightarrow> world \<Rightarrow> bool" where
  "interference w w' \<longleftrightarrow> wf_db w' \<and> mutex w' = mutex w \<and> total_groups w' = total_groups w \<and>
     total_ifaces w \<le> total_ifaces w'"

lemma keeps_interference: "keeps w w' \<Longrightarrow> interference w w'"
  by (simp add: keeps_def interference_def)

lemma interference_trans: "interference w w' \<Longrightarrow> interference w' w'' \<Longrightarrow> interference w w''"
  by (auto simp: interference_def)

text \<open>
  A run of a thread: each pass is preceded by a change of the world by the others, and gets the
  environment of that pass.
\<close>

fun run_thread ::
  "(env \<Rightarrow> 's \<Rightarrow> world \<Rightarrow> ('s \<times> world) option) \<Rightarrow> ((world \<Rightarrow> world) \<times> env) list \<Rightarrow>
   's \<Rightarrow> world \<Rightarrow> ('s \<times> world) option" where
  "run_thread pass [] s w = Some (s, w)"
| "run_thread pass ((others, e) # rest) s w = do {
     (s', w') \<leftarrow> pass e s (others w);
     run_thread pass rest s' w'
   }"

text \<open>
  The contract of a thread: \<open>inv\<close> is its invariant, \<open>rely\<close> what it expects of the others, \<open>fine\<close> what it
  expects of the environment.
\<close>

locale wan_env_thread =
  fixes pass :: "env \<Rightarrow> 's \<Rightarrow> world \<Rightarrow> ('s \<times> world) option"
    and rely :: "world \<Rightarrow> world \<Rightarrow> bool"
    and inv :: "'s \<Rightarrow> world \<Rightarrow> bool"
    and fine :: "env \<Rightarrow> bool"
  assumes pass_ok: "\<lbrakk>wf_db w; inv s w; fine e\<rbrakk> \<Longrightarrow> ok w (pass e s w) inv"
    and rely_interference: "rely w w' \<Longrightarrow> interference w w'"
    and inv_stable: "\<lbrakk>inv s w; rely w w'\<rbrakk> \<Longrightarrow> inv s w'"
begin

text \<open>One step of a run: the others, then a pass.\<close>

lemma step_ok:
  assumes "wf_db w" "inv s w" "rely w w1" "fine e"
  obtains s' w' where "pass e s w1 = Some (s', w')" "wf_db w1" "inv s w1" "wf_db w'" "inv s' w'" "mutex w' = mutex w"
proof -
  from rely_interference [OF assms(3)] have wf: "wf_db w1" and m: "mutex w1 = mutex w" by (simp_all add: interference_def)
  from inv_stable [OF assms(2,3)] have i: "inv s w1" .
  from pass_ok [OF wf i assms(4)] obtain s' w' where p: "pass e s w1 = Some (s', w')" "keeps w1 w'" "inv s' w'"
    by (rule okE)
  from p(2) m have "wf_db w'" "mutex w' = mutex w" by (simp_all add: keeps_def)
  with p(1,3) wf i show thesis by (intro that)
qed

text \<open>Every run returns, whatever the others do within their limits, and the invariant holds.\<close>

lemma run_ok:
  assumes "wf_db w" "inv s w"
    and "\<And>others e s w. \<lbrakk>(others, e) \<in> set script; wf_db w; inv s w\<rbrakk> \<Longrightarrow> rely w (others w) \<and> fine e"
  shows "\<exists>s' w'. run_thread pass script s w = Some (s', w') \<and> wf_db w' \<and> inv s' w' \<and>
    mutex w' = mutex w"
  using assms
proof (induction script arbitrary: s w)
  case Nil
  then show ?case by simp
next
  case (Cons oe script)
  obtain others e where oe: "oe = (others, e)" by (cases oe)
  have "rely w (others w)" "fine e" using Cons.prems(3) [of others e w s] oe Cons.prems(1,2) by simp_all
  from step_ok [OF Cons.prems(1,2) this] obtain s' w' where p: "pass e s (others w) = Some (s', w')" "wf_db w'"
    "inv s' w'" "mutex w' = mutex w" .
  have "rely u (o' u) \<and> fine e'" if "(o', e') \<in> set script" "wf_db u" "inv s u" for o' e' s u
    using Cons.prems(3) [of o' e' u s] that by simp
  with Cons.IH [OF p(2,3)] p(4) have "\<exists>s'' w''. run_thread pass script s' w' = Some (s'', w'') \<and> wf_db w'' \<and>
      inv s'' w'' \<and> mutex w'' = mutex w" by simp
  with oe p(1) show ?case by simp
qed

text \<open>
  If the others leave the thread in a state \<open>calm\<close> in which every pass lowers \<open>left\<close>, a run lowers it by
  its length.
\<close>

lemma run_rank:
  fixes left :: "'s \<Rightarrow> nat" and calm :: "env \<Rightarrow> world \<Rightarrow> bool"
  assumes step: "\<And>e s w. \<lbrakk>wf_db w; inv s w; calm e w\<rbrakk> \<Longrightarrow> \<exists>s' w'. pass e s w = Some (s', w') \<and> left s' \<le> left s - 1"
  assumes "wf_db w" "inv s w"
    and "\<And>others e s u. \<lbrakk>(others, e) \<in> set script; wf_db u; inv s u\<rbrakk> \<Longrightarrow>
      rely u (others u) \<and> fine e \<and> calm e (others u)"
  shows "\<exists>s' w'. run_thread pass script s w = Some (s', w') \<and> wf_db w' \<and> inv s' w' \<and> mutex w' = mutex w \<and>
    left s' \<le> left s - length script"
  using assms(2-4)
proof (induction script arbitrary: s w)
  case Nil
  then show ?case by simp
next
  case (Cons oe script)
  obtain others e where oe: "oe = (others, e)" by (cases oe)
  have i: "rely w (others w)" "fine e" "calm e (others w)"
    using Cons.prems(3) [of others e w s] oe Cons.prems(1,2) by simp_all
  from step_ok [OF Cons.prems(1,2) i(1,2)] obtain s1 w1 where p: "pass e s (others w) = Some (s1, w1)"
    "wf_db (others w)" "inv s (others w)" "wf_db w1" "inv s1 w1" "mutex w1 = mutex w" .
  from step [OF p(2,3) i(3)] p(1) have l: "left s1 \<le> left s - 1" by auto
  have "rely u (o' u) \<and> fine e' \<and> calm e' (o' u)" if "(o', e') \<in> set script" "wf_db u" "inv s u" for o' e' s u
    using Cons.prems(3) [of o' e' u s] that by simp
  with Cons.IH [OF p(4,5)] obtain s2 w2 where "run_thread pass script s1 w1 = Some (s2, w2)" "wf_db w2" "inv s2 w2"
    "mutex w2 = mutex w1" "left s2 \<le> left s1 - length script" by auto
  with oe p(1,6) l show ?case by auto
qed

end

text \<open>A thread that expects nothing of its environment.\<close>

locale wan_thread =
  fixes pass :: "env \<Rightarrow> 's \<Rightarrow> world \<Rightarrow> ('s \<times> world) option"
    and rely :: "world \<Rightarrow> world \<Rightarrow> bool"
    and inv :: "'s \<Rightarrow> world \<Rightarrow> bool"
  assumes pass_ok: "\<lbrakk>wf_db w; inv s w\<rbrakk> \<Longrightarrow> ok w (pass e s w) inv"
    and rely_interference: "rely w w' \<Longrightarrow> interference w w'"
    and inv_stable: "\<lbrakk>inv s w; rely w w'\<rbrakk> \<Longrightarrow> inv s w'"

sublocale wan_thread \<subseteq> any: wan_env_thread pass rely inv "\<lambda>_. True"
  by unfold_locales (blast intro: pass_ok rely_interference inv_stable)+

context wan_thread begin

lemma run_ok:
  assumes "wf_db w" "inv s w" "\<And>others e w. (others, e) \<in> set script \<Longrightarrow> wf_db w \<Longrightarrow> rely w (others w)"
  shows "\<exists>s' w'. run_thread pass script s w = Some (s', w') \<and> wf_db w' \<and> inv s' w' \<and>
    mutex w' = mutex w"
  using assms by (intro any.run_ok) simp_all

lemma run_rank:
  fixes left :: "'s \<Rightarrow> nat" and calm :: "env \<Rightarrow> world \<Rightarrow> bool"
  assumes "\<And>e s w. \<lbrakk>wf_db w; inv s w; calm e w\<rbrakk> \<Longrightarrow> \<exists>s' w'. pass e s w = Some (s', w') \<and> left s' \<le> left s - 1"
    and "wf_db w" "inv s w"
    and "\<And>others e u. (others, e) \<in> set script \<Longrightarrow> wf_db u \<Longrightarrow> rely u (others u) \<and> calm e (others u)"
  shows "\<exists>s' w'. run_thread pass script s w = Some (s', w') \<and> wf_db w' \<and> inv s' w' \<and> mutex w' = mutex w \<and>
    left s' \<le> left s - length script"
  using assms by (intro any.run_rank [where calm = calm]) simp_all

end

end
