(* ===== verification/WanFailover.thy ===== *)
theory WanFailover
  imports WanSafe
begin

text \<open>
  The fail-over controller of \<open>wanmgr_wan_failover.c\<close>: it starts the selection threads of the
  groups, watches the interfaces they select, and activates the selected interface of the group with
  the highest priority that has connectivity.  Functions of this file whose names also occur in a
  selection policy carry the prefix \<open>FO_\<close>.

  The controller structure is passed by value and returned updated; the functions' tests for a NULL
  controller concern the address of a local variable of the thread and are left out.  A state or
  transition returns the next state, the controller and the world.
\<close>

datatype WcFailOverState_t =
    STATE_FAILOVER_SCANNING_GROUP | STATE_FAILOVER_GROUP_ACTIVE | STATE_FAILOVER_RESTORATION_WAIT
  | STATE_FAILOVER_DEACTIVATE_GROUP | STATE_FAILOVER_EXIT | STATE_FAILOVER_ERROR

record WanMgr_FailOver_Controller_t =
  FO_WanEnable :: bool
  FO_FailOverType :: int
  FO_CurrentActiveGroup :: uint
  FO_HighestValidGroup :: uint
  FO_GroupSelectionTimer :: time
  FO_FailOverTimer :: time
  FO_RestorationDelay :: uint
  FO_ResetScan :: bool
  FO_PhyState :: DML_WAN_IFACE_PHY_STATUS
  FO_ActiveIfaceState :: "eWanState_t option"        \<comment> \<open>\<open>None\<close> is -1\<close>
  FO_TelemetryEvent :: "TelemetryEvent_t option"     \<comment> \<open>\<open>None\<close> is 0\<close>
  FO_AllowRemoteInterfaces :: bool

type_synonym FO_step = "((WcFailOverState_t \<times> WanMgr_FailOver_Controller_t) \<times> world) option"

subsection \<open>Helpers\<close>

text \<open>The array \<open>TelemetryEventStr\<close>; its element 0 is NULL.\<close>

fun TelemetryEventStr :: "TelemetryEvent_t option \<Rightarrow> string option" where
  "TelemetryEventStr None = None"
| "TelemetryEventStr (Some WAN_FAILOVER_SUCCESS) = Some ''WAN_FAILOVER_SUCCESS_COUNT''"
| "TelemetryEventStr (Some WAN_FAILOVER_FAIL) = Some ''WAN_FAILOVER_FAIL_COUNT''"
| "TelemetryEventStr (Some WAN_RESTORE_SUCCESS) = Some ''WAN_RESTORE_SUCCESS_COUNT''"
| "TelemetryEventStr (Some WAN_RESTORE_FAIL) = Some ''WAN_RESTORE_FAIL_COUNT''"

text \<open>The elapsed time is logged in whole seconds; the code prints milliseconds.\<close>

definition WanMgr_TelemetryEventTrigger ::
  "build \<Rightarrow> env \<Rightarrow> WanMgr_FailOver_Controller_t \<Rightarrow> world \<Rightarrow> world" where
  "WanMgr_TelemetryEventTrigger b e c w =
     (if lastEvent w \<noteq> FO_TelemetryEvent c
      then let elapsedTime = clock e 0 - FO_FailOverTimer c;
               w1 = (if \<not> TELEMETRY2 b then w
                     else if FO_TelemetryEvent c = Some WAN_RESTORE_SUCCESS
                     then emit (TelemetryElapsed ''WFO_RESTORE_SUCCESS''
                                 (elapsedTime - int (unat (FO_RestorationDelay c)))) w
                     else if FO_TelemetryEvent c = Some WAN_FAILOVER_SUCCESS
                     then emit (TelemetryElapsed ''WFO_FAILOVER_SUCCESS'' elapsedTime) w
                     else w);
               w2 = w1\<lparr>lastEvent := FO_TelemetryEvent c\<rparr>
           in if TELEMETRY2 b
              then emit (TelemetryEvent (TelemetryEventStr (FO_TelemetryEvent c))) w2 else w2
      else w)"

abbreviation (input) "PSM_WANMANAGER_FAILOVER_TYPE \<equiv> ''dmsb.wanmanager.FailOverType''"

text \<open>
  The body of the loop of \<open>WanMgr_FailOverCtrlInit\<close>: interface \<open>k\<close> joins the mask of its group.
\<close>

definition FO_join_group :: "nat \<Rightarrow> nat \<Rightarrow> world \<Rightarrow> (unit \<times> world) option" where
  "FO_join_group i k w = do {
     d \<leftarrow> iface_at k w;
     with_group (Sel_Group (If_Selection d) - 1) () (\<lambda>g w.
       Some ((), upd_group g (\<lambda>G. G\<lparr>G_InterfaceAvailable :=
                                     G_InterfaceAvailable G OR push_bit i 1\<rparr>) w)) w
   }"

text \<open>
  \<open>WanMgr_FailOverCtrlInit\<close>: the fields it does not set keep what the caller's stack variable holds.
\<close>

definition WanMgr_FailOverCtrlInit ::
  "WanMgr_FailOver_Controller_t \<Rightarrow> world \<Rightarrow> (WanMgr_FailOver_Controller_t \<times> world) option" where
  "WanMgr_FailOverCtrlInit c w = do {
     let c = c\<lparr>FO_WanEnable := False, FO_FailOverType := HOTSWAP, FO_CurrentActiveGroup := 0,
               FO_HighestValidGroup := 0, FO_RestorationDelay := 0, FO_TelemetryEvent := None,
               FO_AllowRemoteInterfaces := False, FO_ActiveIfaceState := None,
               FO_PhyState := WAN_IFACE_PHY_STATUS_UNKNOWN\<rparr>;
     let (TotalIfaces, w) = WanMgr_IfaceData_GetTotalWanIface w;
     (_, w) \<leftarrow> for_loop [0..<unat TotalIfaces]
       (\<lambda>i u w. continue (with_iface (of_nat i) () (FO_join_group i) w)) () w;
     let c = (case WanMgr_RdkBus_GetParamValuesFromDB PSM_WANMANAGER_FAILOVER_TYPE 256 w of
                None \<Rightarrow> c
              | Some param_value \<Rightarrow>
                  (case sscanf_d param_value of None \<Rightarrow> c | Some t \<Rightarrow> c\<lparr>FO_FailOverType := t\<rparr>));
     Some (c, w)
   }"

definition WanMgr_UpdateFOControllerData ::
  "WanMgr_FailOver_Controller_t \<Rightarrow> world \<Rightarrow> WanMgr_FailOver_Controller_t \<times> world" where
  "WanMgr_UpdateFOControllerData c w =
     with_config c (\<lambda>w.
       (c\<lparr>FO_WanEnable := Cfg_Enable (config w), FO_RestorationDelay := Cfg_RestorationDelay (config w),
          FO_ResetScan := Cfg_ResetFailOverScan (config w),
          FO_AllowRemoteInterfaces := Cfg_AllowRemoteInterfaces (config w)\<rparr>,
        upd_config (\<lambda>d. d\<lparr>Cfg_ResetFailOverScan := False\<rparr>) w)) w"

definition WanMgr_SetGroupSelectedIface :: "uint \<Rightarrow> uint \<Rightarrow> world \<Rightarrow> (ANSC_STATUS \<times> world) option" where
  "WanMgr_SetGroupSelectedIface GroupInst IfaceInst =
     with_group (GroupInst - 1) ANSC_STATUS_SUCCESS (\<lambda>k w.
       Some (ANSC_STATUS_SUCCESS,
             upd_group k (\<lambda>g. g\<lparr>G_SelectedInterface := IfaceInst, G_InitialScanComplete := True\<rparr>) w))"

definition WanMgr_DeactivateGroup :: "uint \<Rightarrow> world \<Rightarrow> (ANSC_STATUS \<times> world) option" where
  "WanMgr_DeactivateGroup groupId =
     with_group (groupId - 1) ANSC_STATUS_SUCCESS (\<lambda>k w. do {
       g \<leftarrow> group_at k w;
       if G_SelectedInterface g \<noteq> 0
       then with_iface (G_SelectedInterface g - 1) ANSC_STATUS_SUCCESS (\<lambda>j w. do {
              d \<leftarrow> iface_at j w;
              Some (ANSC_STATUS_SUCCESS,
                    if Sel_Status (If_Selection d) = WAN_IFACE_ACTIVE
                    then upd_iface j (upd_Selection (\<lambda>s. s\<lparr>Sel_Status := WAN_IFACE_SELECTED\<rparr>)) w
                    else w)
            }) w
       else Some (ANSC_STATUS_SUCCESS, w)
     })"

definition WanMgr_ActivateGroup :: "uint \<Rightarrow> world \<Rightarrow> (ANSC_STATUS \<times> world) option" where
  "WanMgr_ActivateGroup groupId =
     with_group (groupId - 1) ANSC_STATUS_SUCCESS (\<lambda>k w. do {
       g \<leftarrow> group_at k w;
       if G_SelectedInterface g \<noteq> 0
       then with_iface (G_SelectedInterface g - 1) ANSC_STATUS_SUCCESS (\<lambda>j w. do {
              d \<leftarrow> iface_at j w;
              Some (ANSC_STATUS_SUCCESS,
                    if Sel_Status (If_Selection d) = WAN_IFACE_SELECTED
                    then upd_group k (\<lambda>g. g\<lparr>G_ActivationCount := G_ActivationCount g + 1\<rparr>)
                           (upd_iface j (upd_Selection (\<lambda>s. s\<lparr>Sel_Status := WAN_IFACE_ACTIVE\<rparr>)) w)
                    else w)
            }) w
       else Some (ANSC_STATUS_SUCCESS, w)
     })"

text \<open>
  \<open>WanMgr_FO_IfaceGroupMonitor\<close>: the time-out of the group's scan, the choice of the selection
  policy, the creation of its thread.
\<close>

definition FO_SelectionTimeOut :: "nat \<Rightarrow> nat \<Rightarrow> world \<Rightarrow> (unit \<times> world) option" where
  "FO_SelectionTimeOut i k w = do {
     let (TotalIfaces, w) = WanMgr_IfaceData_GetTotalWanIface w;
     for_loop [0..<unat TotalIfaces] (\<lambda>uiLoopCount u w. continue
       (with_iface (of_nat uiLoopCount) () (\<lambda>j w. do {
          d \<leftarrow> iface_at j w;
          g \<leftarrow> group_at k w;
          Some ((), if inst_of i = Sel_Group (If_Selection d) \<and>
                       G_SelectionTimeOut g < Sel_Timeout (If_Selection d)
                    then upd_group k (\<lambda>G. G\<lparr>G_SelectionTimeOut := Sel_Timeout (If_Selection d)\<rparr>) w
                    else w)
        }) w)) () w
   }"

definition FO_start_policy :: "build \<Rightarrow> env \<Rightarrow> nat \<Rightarrow> nat \<Rightarrow> world \<Rightarrow> (unit \<times> world) option" where
  "FO_start_policy b e i k w = do {
     g \<leftarrow> group_at k w;
     let (policy, w) = (if CONFIGURABLE_WAN_INTERFACE b \<and> G_Policy g = PARALLEL_SCAN
                        then (ParallelScanSelectionProcess (inst_of i), w)
                        else (AutoWanSelectionProcess (inst_of i),
                              upd_group k (\<lambda>G. G\<lparr>G_Policy := AUTOWAN_MODE\<rparr>) w));
     let ret = thread_create e (out w);
     let w = emit (ThreadCreate policy) w;
     Some ((), case ret of
                 None \<Rightarrow> w
               | Some tid \<Rightarrow>
                   upd_group k (\<lambda>G. G\<lparr>G_ThreadId := tid, G_State := STATE_GROUP_RUNNING\<rparr>) w)
   }"

definition FO_monitor_group :: "build \<Rightarrow> env \<Rightarrow> nat \<Rightarrow> nat \<Rightarrow> world \<Rightarrow> (unit \<times> world) option" where
  "FO_monitor_group b e i k w = do {
     g \<leftarrow> group_at k w;
     if G_InterfaceAvailable g \<noteq> 0 \<and> G_State g \<noteq> STATE_GROUP_RUNNING \<and>
        G_State g \<noteq> STATE_GROUP_DEACTIVATED
     then do {
       let w = upd_group k (\<lambda>G. G\<lparr>G_SelectionTimeOut := 0, G_InitialScanComplete := False,
                                  G_ActivationCount := 0\<rparr>) w;
       (_, w) \<leftarrow> FO_SelectionTimeOut i k w;
       let w = upd_group k (\<lambda>G. G\<lparr>G_ConfigChanged := False\<rparr>) w;
       FO_start_policy b e i k w
     }
     else Some ((), w)
   }"

definition WanMgr_FO_IfaceGroupMonitor :: "build \<Rightarrow> env \<Rightarrow> world \<Rightarrow> (unit \<times> world) option" where
  "WanMgr_FO_IfaceGroupMonitor b e w = do {
     let (TotalGroups, w) = WanMgr_GetTotalNoOfGroups w;
     for_loop [0..<unat TotalGroups]
       (\<lambda>i u w. continue (with_group (of_nat i) () (FO_monitor_group b e i) w)) () w
   }"

text \<open>\<open>UpdateLedStatus\<close>: the lamps follow the active group, or the physical links.\<close>

definition is_dsl :: "DML_WAN_IFACE \<Rightarrow> bool" where
  "is_dsl d \<longleftrightarrow> strstr (If_BaseInterface d) ''PTM'' \<or> strstr (If_BaseInterface d) ''ATM''"

definition best_phy :: "DML_WAN_IFACE \<Rightarrow> DML_WAN_IFACE_PHY_STATUS \<Rightarrow> DML_WAN_IFACE_PHY_STATUS" where
  "best_phy d st =
     (if st < If_BaseInterfaceStatus d \<and> If_BaseInterfaceStatus d \<noteq> WAN_IFACE_PHY_STATUS_UNKNOWN \<and>
         (If_BaseInterfaceStatus d \<noteq> WAN_IFACE_PHY_STATUS_INITIALIZING \<or> is_dsl d)
      then If_BaseInterfaceStatus d else st)"

definition FO_led_active ::
  "env \<Rightarrow> WanMgr_FailOver_Controller_t \<Rightarrow> nat \<Rightarrow> world \<Rightarrow> (WanMgr_FailOver_Controller_t \<times> world) option" where
  "FO_led_active e c j w = do {
     d \<leftarrow> iface_at j w;
     v \<leftarrow> head_virtif d;
     let st = VI_eCurrentState v;
     let phy = If_BaseInterfaceStatus d;
     if st \<noteq> WAN_STATE_EXIT \<and> FO_ActiveIfaceState c \<noteq> Some st
     then Some (c\<lparr>FO_ActiveIfaceState := Some st, FO_PhyState := WAN_IFACE_PHY_STATUS_UP\<rparr>,
                wanmgr_setWanLedState e st w)
     else if st = WAN_STATE_EXIT \<and> (FO_ActiveIfaceState c \<noteq> Some st \<or> phy \<noteq> FO_PhyState c)
     then Some (c\<lparr>FO_ActiveIfaceState := Some st, FO_PhyState := phy\<rparr>,
                wanmgr_sysevents_setWanState e
                  (if phy = WAN_IFACE_PHY_STATUS_UP then WAN_LINK_UP_STATE
                   else if phy = WAN_IFACE_PHY_STATUS_INITIALIZING \<and> is_dsl d then DSL_TRAINING
                   else WAN_LINK_DOWN_STATE)
                  (wanmgr_setWanLedState e st w))
     else Some (c, w)
   }"

definition UpdateLedStatus ::
  "env \<Rightarrow> WanMgr_FailOver_Controller_t \<Rightarrow> world \<Rightarrow> (WanMgr_FailOver_Controller_t \<times> world) option" where
  "UpdateLedStatus e c w =
     (if FO_CurrentActiveGroup c \<noteq> 0
      then with_group (FO_CurrentActiveGroup c - 1) c (\<lambda>k w. do {
             g \<leftarrow> group_at k w;
             if 0 < G_SelectedInterface g
             then with_iface (G_SelectedInterface g - 1) c (FO_led_active e c) w
             else Some (c, w)
           }) w
      else do {
        let (uiTotalIfaces, w) = WanMgr_IfaceData_GetTotalWanIface w;
        (st, w) \<leftarrow> for_loop [0..<unat uiTotalIfaces] (\<lambda>uiLoopCount st w. continue
             (with_iface (of_nat uiLoopCount) st (\<lambda>j w. do {
                d \<leftarrow> iface_at j w;
                Some (best_phy d st, w)
              }) w)) WAN_IFACE_PHY_STATUS_DOWN w;
        let w = (if st \<noteq> FO_PhyState c
                 then wanmgr_sysevents_setWanState e
                        (if st = WAN_IFACE_PHY_STATUS_UP then WAN_LINK_UP_STATE
                         else if st = WAN_IFACE_PHY_STATUS_INITIALIZING then DSL_TRAINING
                         else WAN_LINK_DOWN_STATE) w
                 else w);
        Some (c\<lparr>FO_PhyState := st\<rparr>, w)
      })"

subsection \<open>Transitions\<close>

definition FO_set_group_state :: "WAN_IFACE_GROUP_STATUS \<Rightarrow> uint \<Rightarrow> world \<Rightarrow> (unit \<times> world) option" where
  "FO_set_group_state st i =
     with_group i () (\<lambda>k w. Some ((), upd_group k (\<lambda>G. G\<lparr>G_State := st\<rparr>) w))"

definition FO_Transition_Start :: "env \<Rightarrow> WanMgr_FailOver_Controller_t \<Rightarrow> world \<Rightarrow> FO_step" where
  "FO_Transition_Start e c w = do {
     let c = c\<lparr>FO_CurrentActiveGroup := 0, FO_HighestValidGroup := 0,
               FO_GroupSelectionTimer := clock e 0\<rparr>;
     if FO_FailOverType c = COLDSWAP
     then do {
       let (TotalGroups, w) = WanMgr_GetTotalNoOfGroups w;
       (_, w) \<leftarrow> for_loop [0..<unat TotalGroups] (\<lambda>i u w. continue
            (FO_set_group_state STATE_GROUP_DEACTIVATED (of_nat i) w)) () w;
       Some ((STATE_FAILOVER_SCANNING_GROUP, c), w)
     }
     else Some ((STATE_FAILOVER_SCANNING_GROUP, c), w)
   }"

text \<open>
  \<open>MarkHighPriorityGroup\<close>.  \<open>iface_valid\<close> is the test on the selected interface of a group: ready,
  remotely ready if it is a remote interface, with connectivity for IPv4 or IPv6.
\<close>

definition iface_valid :: "DML_WAN_IFACE \<Rightarrow> DML_VIRTUAL_IFACE \<Rightarrow> bool" where
  "iface_valid d v \<longleftrightarrow>
     (VI_Status v = WAN_IFACE_STATUS_STANDBY \<or> VI_Status v = WAN_IFACE_STATUS_UP) \<and>
     \<not> (If_IfaceType d = REMOTE_IFACE \<and> VI_RemoteStatus v \<noteq> WAN_IFACE_STATUS_UP) \<and>
     (IP_Ipv4ConnectivityStatus (VI_IP v) = WAN_CONNECTIVITY_UP \<or>
      IP_Ipv6ConnectivityStatus (VI_IP v) = WAN_CONNECTIVITY_UP)"

text \<open>The first test of the loop body: does the selected interface make the group valid?\<close>

definition mark_selected ::
  "nat \<Rightarrow> WANMGR_IFACE_GROUP \<Rightarrow> WanMgr_FailOver_Controller_t \<Rightarrow> world \<Rightarrow>
   (WanMgr_FailOver_Controller_t \<times> world) option" where
  "mark_selected i g c w =
     (if G_SelectedInterface g \<noteq> 0 \<and> FO_HighestValidGroup c = 0
      then with_iface (G_SelectedInterface g - 1) c (\<lambda>j w. do {
             d \<leftarrow> iface_at j w;
             v \<leftarrow> head_virtif d;
             Some (if iface_valid d v then c\<lparr>FO_HighestValidGroup := inst_of i\<rparr>
                   else if FO_CurrentActiveGroup c = inst_of i \<and> VI_Reset v
                   then c\<lparr>FO_HighestValidGroup := FO_CurrentActiveGroup c\<rparr>
                   else c, w)
           }) w
      else Some (c, w))"

definition mark_body ::
  "env \<Rightarrow> bool \<Rightarrow> nat \<Rightarrow> WanMgr_FailOver_Controller_t \<Rightarrow> world \<Rightarrow>
   (WanMgr_FailOver_Controller_t flow \<times> world) option" where
  "mark_body e WaitForHigherGroup i c =
     with_group (of_nat i) (Continue c) (\<lambda>k w. do {
       g \<leftarrow> group_at k w;
       (c, w) \<leftarrow> mark_selected i g c w;
       let w = (if FO_FailOverType c = COLDSWAP \<and> FO_HighestValidGroup c = 0 \<and>
                   G_State g = STATE_GROUP_DEACTIVATED
                then upd_group k (\<lambda>G. G\<lparr>G_State := STATE_GROUP_STOPPED\<rparr>) w else w);
       if G_ConfigChanged g
       then Some (Break (c\<lparr>FO_HighestValidGroup := FO_CurrentActiveGroup c\<rparr>), w)
       else if WaitForHigherGroup \<and>
               (clock e (i + 1) - FO_GroupSelectionTimer c < int (unat (G_SelectionTimeOut g)) \<or>
                \<not> G_InitialScanComplete g)
       then Some (Break c, w)
       else Some (Continue c, w)
     })"

definition MarkHighPriorityGroup ::
  "env \<Rightarrow> bool \<Rightarrow> WanMgr_FailOver_Controller_t \<Rightarrow> world \<Rightarrow> (WanMgr_FailOver_Controller_t \<times> world) option" where
  "MarkHighPriorityGroup e WaitForHigherGroup c w = do {
     let (TotalGroups, w) = WanMgr_GetTotalNoOfGroups w;
     for_loop [0..<unat TotalGroups] (mark_body e WaitForHigherGroup)
       (c\<lparr>FO_HighestValidGroup := 0\<rparr>) w
   }"

definition FO_stop_group :: "uint \<Rightarrow> world \<Rightarrow> (unit \<times> world) option" where
  "FO_stop_group i =
     with_group i () (\<lambda>k w. do {
       g \<leftarrow> group_at k w;
       Some ((), if G_State g = STATE_GROUP_RUNNING
                 then upd_group k (\<lambda>G. G\<lparr>G_State := STATE_GROUP_DEACTIVATED, G_ConfigChanged := True\<rparr>) w
                 else w)
     })"

definition FO_activation_event :: "WanMgr_FailOver_Controller_t \<Rightarrow> TelemetryEvent_t option" where
  "FO_activation_event c =
     (if FO_CurrentActiveGroup c = 0 then FO_TelemetryEvent c
      else if FO_CurrentActiveGroup c < FO_HighestValidGroup c then Some WAN_FAILOVER_SUCCESS
      else if FO_HighestValidGroup c < FO_CurrentActiveGroup c then Some WAN_RESTORE_SUCCESS
      else FO_TelemetryEvent c)"

definition FO_Transition_ActivateGroup :: "WanMgr_FailOver_Controller_t \<Rightarrow> world \<Rightarrow> FO_step" where
  "FO_Transition_ActivateGroup c w =
     (if FO_HighestValidGroup c \<noteq> 0
      then do {
        let c = c\<lparr>FO_TelemetryEvent := FO_activation_event c\<rparr>;
        (ret, w) \<leftarrow> WanMgr_ActivateGroup (FO_HighestValidGroup c) w;
        if ret \<noteq> ANSC_STATUS_SUCCESS then Some ((STATE_FAILOVER_SCANNING_GROUP, c), w)
        else do {
          let c = c\<lparr>FO_CurrentActiveGroup := FO_HighestValidGroup c\<rparr>;
          if FO_FailOverType c = COLDSWAP
          then do {
            let (TotalGroups, w) = WanMgr_GetTotalNoOfGroups w;
            (_, w) \<leftarrow> for_loop [unat (FO_CurrentActiveGroup c)..<unat TotalGroups]
                 (\<lambda>i u w. continue (FO_stop_group (of_nat i) w)) () w;
            Some ((STATE_FAILOVER_GROUP_ACTIVE, c), w)
          }
          else Some ((STATE_FAILOVER_GROUP_ACTIVE, c), w)
        }
      }
      else Some ((STATE_FAILOVER_GROUP_ACTIVE, c), w))"

definition FO_Transition_DeactivateGroup :: "WanMgr_FailOver_Controller_t \<Rightarrow> world \<Rightarrow> FO_step" where
  "FO_Transition_DeactivateGroup c w =
     (if FO_CurrentActiveGroup c \<noteq> 0
      then do {
        (ret, w) \<leftarrow> WanMgr_DeactivateGroup (FO_CurrentActiveGroup c) w;
        Some ((if ret \<noteq> ANSC_STATUS_SUCCESS then STATE_FAILOVER_GROUP_ACTIVE
               else STATE_FAILOVER_DEACTIVATE_GROUP, c), w)
      }
      else Some ((STATE_FAILOVER_DEACTIVATE_GROUP, c), w))"

text \<open>\<open>n\<close> counts the readings of the clock so far in the pass.\<close>

definition FO_Transition_Restoration :: "env \<Rightarrow> nat \<Rightarrow> WanMgr_FailOver_Controller_t \<Rightarrow> world \<Rightarrow> FO_step" where
  "FO_Transition_Restoration e n c w =
     Some ((STATE_FAILOVER_RESTORATION_WAIT, c\<lparr>FO_GroupSelectionTimer := clock e n\<rparr>), w)"

definition FO_Transition_RestorationFail :: "WanMgr_FailOver_Controller_t \<Rightarrow> world \<Rightarrow> FO_step" where
  "FO_Transition_RestorationFail c w =
     Some ((STATE_FAILOVER_GROUP_ACTIVE, c\<lparr>FO_TelemetryEvent := Some WAN_RESTORE_FAIL\<rparr>), w)"

definition FO_Transition_ResetScan :: "env \<Rightarrow> WanMgr_FailOver_Controller_t \<Rightarrow> world \<Rightarrow> FO_step" where
  "FO_Transition_ResetScan e c w = do {
     (ret, w) \<leftarrow> (if FO_CurrentActiveGroup c \<noteq> 0 then WanMgr_DeactivateGroup (FO_CurrentActiveGroup c) w
                  else Some (ANSC_STATUS_SUCCESS, w));
     let w = wanmgr_setWanLedState e WAN_STATE_EXIT w;
     Some ((STATE_FAILOVER_SCANNING_GROUP,
            c\<lparr>FO_CurrentActiveGroup := 0, FO_HighestValidGroup := 0, FO_ResetScan := False,
              FO_ActiveIfaceState := None, FO_PhyState := WAN_IFACE_PHY_STATUS_UNKNOWN,
              FO_GroupSelectionTimer := clock e 1\<rparr>), w)
   }"

subsection \<open>States\<close>

definition FO_State_ScanningGroup :: "env \<Rightarrow> WanMgr_FailOver_Controller_t \<Rightarrow> world \<Rightarrow> FO_step" where
  "FO_State_ScanningGroup e c w =
     (if \<not> FO_WanEnable c then Some ((STATE_FAILOVER_EXIT, c), w)
      else do {
        (c, w) \<leftarrow> MarkHighPriorityGroup e True c w;
        if FO_HighestValidGroup c \<noteq> 0 then FO_Transition_ActivateGroup c w
        else Some ((STATE_FAILOVER_SCANNING_GROUP, c), w)
      })"

definition FO_State_GroupActive :: "env \<Rightarrow> WanMgr_FailOver_Controller_t \<Rightarrow> world \<Rightarrow> FO_step" where
  "FO_State_GroupActive e c w =
     (if \<not> FO_WanEnable c then FO_Transition_DeactivateGroup c w
      else if FO_ResetScan c then FO_Transition_ResetScan e c w
      else do {
        (c, w) \<leftarrow> MarkHighPriorityGroup e False c w;
        if FO_HighestValidGroup c \<noteq> 0
        then do {
          (HighestGrpActivationCount, w) \<leftarrow>
             with_group (FO_HighestValidGroup c - 1) (-1) (\<lambda>k w. do {
               g \<leftarrow> group_at k w;
               Some (G_ActivationCount g, w)
             }) w;
          if FO_CurrentActiveGroup c < FO_HighestValidGroup c \<or>
             (HighestGrpActivationCount = 0 \<and> FO_HighestValidGroup c < FO_CurrentActiveGroup c)
          then FO_Transition_DeactivateGroup (c\<lparr>FO_FailOverTimer := clock e 1\<rparr>) w
          else if FO_HighestValidGroup c < FO_CurrentActiveGroup c
          then FO_Transition_Restoration e 2 (c\<lparr>FO_FailOverTimer := clock e 1\<rparr>) w
          else Some ((STATE_FAILOVER_GROUP_ACTIVE, c), w)
        }
        else Some ((STATE_FAILOVER_GROUP_ACTIVE,
                    if FO_CurrentActiveGroup c = 1 \<and> FO_AllowRemoteInterfaces c
                    then c\<lparr>FO_TelemetryEvent := Some WAN_FAILOVER_FAIL\<rparr> else c), w)
      })"

text \<open>
  The test shared by the two waiting states: \<open>P\<close> on the status of the selected interface of the group;
  \<open>d\<close> when the group has none.
\<close>

definition FO_group_status ::
  "uint \<Rightarrow> bool \<Rightarrow> (DML_WAN_IFACE_STATUS \<Rightarrow> bool) \<Rightarrow> world \<Rightarrow> (bool \<times> world) option" where
  "FO_group_status inst d P =
     with_group (inst - 1) False (\<lambda>k w. do {
       g \<leftarrow> group_at k w;
       if G_SelectedInterface g \<noteq> 0
       then with_iface (G_SelectedInterface g - 1) False (\<lambda>j w. do {
              x \<leftarrow> iface_at j w;
              v \<leftarrow> head_virtif x;
              Some (P (VI_Status v), w)
            }) w
       else Some (d, w)
     })"

definition FO_State_RestorationWait :: "env \<Rightarrow> WanMgr_FailOver_Controller_t \<Rightarrow> world \<Rightarrow> FO_step" where
  "FO_State_RestorationWait e c w =
     (if \<not> FO_WanEnable c then FO_Transition_DeactivateGroup c w
      else do {
        (HighestValidGroup_Down, w) \<leftarrow> FO_group_status (FO_HighestValidGroup c) False
           (\<lambda>st. st \<noteq> WAN_IFACE_STATUS_STANDBY \<and> st \<noteq> WAN_IFACE_STATUS_UP) w;
        if HighestValidGroup_Down then FO_Transition_RestorationFail c w
        else if int (unat (FO_RestorationDelay c)) < clock e 1 - FO_GroupSelectionTimer c
        then FO_Transition_DeactivateGroup c w
        else Some ((STATE_FAILOVER_RESTORATION_WAIT, c), w)
      })"

definition FO_State_DeactivateGroup :: "WanMgr_FailOver_Controller_t \<Rightarrow> world \<Rightarrow> FO_step" where
  "FO_State_DeactivateGroup c w = do {
     (CurrentActiveGroup_Deactivated, w) \<leftarrow>
        (if FO_CurrentActiveGroup c = 0 then Some (True, w)
         else FO_group_status (FO_CurrentActiveGroup c) True (\<lambda>st. st \<noteq> WAN_IFACE_STATUS_UP) w);
     if CurrentActiveGroup_Deactivated
     then if \<not> FO_WanEnable c then Some ((STATE_FAILOVER_EXIT, c), w)
          else FO_Transition_ActivateGroup c w
     else Some ((STATE_FAILOVER_DEACTIVATE_GROUP, c), w)
   }"

subsection \<open>The thread\<close>

text \<open>
  \<open>WanMgr_FailOverThread\<close>: the state of the thread is the loop it is in, the state of the machine
  and the controller.  \<open>FO_LOOP\<close> is the main loop, \<open>FO_DRAIN\<close> the loop that waits for the selection
  threads, \<open>FO_RETURNED\<close> the end.
\<close>

datatype FO_phase = FO_LOOP | FO_DRAIN | FO_RETURNED

type_synonym FO_thread = "FO_phase \<times> WcFailOverState_t \<times> WanMgr_FailOver_Controller_t"

definition FO_init ::
  "build \<Rightarrow> env \<Rightarrow> WanMgr_FailOver_Controller_t \<Rightarrow> world \<Rightarrow> (FO_thread \<times> world) option" where
  "FO_init b e c w = do {
     (c, w) \<leftarrow> WanMgr_FailOverCtrlInit c w;
     let (c, w) = WanMgr_UpdateFOControllerData c w;
     ((st, c), w) \<leftarrow> FO_Transition_Start e c w;
     (_, w) \<leftarrow> WanMgr_FO_IfaceGroupMonitor b e w;
     Some ((FO_LOOP, st, c), w)
   }"

fun FO_dispatch :: "env \<Rightarrow> WcFailOverState_t \<Rightarrow> WanMgr_FailOver_Controller_t \<Rightarrow> world \<Rightarrow>
    (FO_thread \<times> world) option" where
  "FO_dispatch e STATE_FAILOVER_SCANNING_GROUP c w =
     map_option (apfst (Pair FO_LOOP)) (FO_State_ScanningGroup e c w)"
| "FO_dispatch e STATE_FAILOVER_GROUP_ACTIVE c w =
     map_option (apfst (Pair FO_LOOP)) (FO_State_GroupActive e c w)"
| "FO_dispatch e STATE_FAILOVER_RESTORATION_WAIT c w =
     map_option (apfst (Pair FO_LOOP)) (FO_State_RestorationWait e c w)"
| "FO_dispatch e STATE_FAILOVER_DEACTIVATE_GROUP c w =
     map_option (apfst (Pair FO_LOOP)) (FO_State_DeactivateGroup c w)"
| "FO_dispatch e STATE_FAILOVER_EXIT c w = Some ((FO_DRAIN, STATE_FAILOVER_EXIT, c), w)"
| "FO_dispatch e STATE_FAILOVER_ERROR c w = Some ((FO_DRAIN, STATE_FAILOVER_ERROR, c), w)"

text \<open>One round of the loop that waits for the selection threads.\<close>

definition FO_selectionThreadRunning :: "world \<Rightarrow> (bool \<times> world) option" where
  "FO_selectionThreadRunning w = do {
     let (TotalGroups, w) = WanMgr_GetTotalNoOfGroups w;
     for_loop [0..<unat TotalGroups] (\<lambda>i r w. continue
       (with_group (of_nat i) r (\<lambda>k w. do {
          g \<leftarrow> group_at k w;
          Some (if G_State g = STATE_GROUP_RUNNING then True else r, w)
        }) w)) False w
   }"

fun FO_pass :: "build \<Rightarrow> env \<Rightarrow> FO_thread \<Rightarrow> world \<Rightarrow> (FO_thread \<times> world) option" where
  "FO_pass b e (FO_LOOP, st, c) w =
     (if \<not> select_ok e then Some ((FO_LOOP, st, c), w)
      else do {
        let (c, w) = WanMgr_UpdateFOControllerData c w;
        (_, w) \<leftarrow> WanMgr_FO_IfaceGroupMonitor b e w;
        (c, w) \<leftarrow> (if LED_MANAGER b then UpdateLedStatus e c w else Some (c, w));
        let w = WanMgr_TelemetryEventTrigger b e c w;
        FO_dispatch e st c w
      })"
| "FO_pass b e (FO_DRAIN, st, c) w = do {
     (running, w) \<leftarrow> FO_selectionThreadRunning w;
     Some ((if running then FO_DRAIN else FO_RETURNED, st, c), w)
   }"
| "FO_pass b e (FO_RETURNED, st, c) w = Some ((FO_RETURNED, st, c), w)"

end
