(* ===== verification/WanFailoverLemmas.thy ===== *)
theory WanFailoverLemmas
  imports WanFailover
begin

text \<open>
  The library of lemmas about the fail-over controller: what each helper does to the world, and that
  every state of the machine is safe and keeps the controller's invariant.
\<close>

subsection \<open>Activation and deactivation\<close>

definition count_activation :: "uint \<Rightarrow> world \<Rightarrow> world" where
  "count_activation inst =
     upd_group (unat (inst - 1)) (\<lambda>g. g\<lparr>G_ActivationCount := G_ActivationCount g + 1\<rparr>)"

lemma count_activation_simps [simp]:
  "wf_db (count_activation g w) = wf_db w" "keeps w' (count_activation g w) = keeps w' w"
  "total_ifaces (count_activation g w) = total_ifaces w"
  "total_groups (count_activation g w) = total_groups w"
  "mutex (count_activation g w) = mutex w"
  "sel_view (count_activation g w) = sel_view w"
  "iface_at j (count_activation g w) = iface_at j w"
  by (simp_all add: count_activation_def keeps_def)

lemma group_selected_count [simp]: "group_selected g (count_activation h w) = group_selected g w"
  by (simp add: group_selected_def split: option.split)

lemma mlock_count_activation [simp]:
  "count_activation g (mlock w) = mlock (count_activation g w)"
  by (simp add: count_activation_def)

lemma group_selected_iface:
  assumes wf: "wf_db w" and sel: "group_selected inst w = Some j"
  obtains g x v where "inst - 1 < total_groups w" "group_at (unat (inst - 1)) w = Some g"
    "G_SelectedInterface g \<noteq> 0" "j = unat (G_SelectedInterface g - 1)"
    "G_SelectedInterface g - 1 < total_ifaces w" "j < unat (total_ifaces w)"
    "iface_at j w = Some x" "head_virtif x = Some v"
proof -
  from sel have lt: "inst - 1 < total_groups w" by (auto simp: group_selected_def split: if_splits)
  with wf obtain g where g: "group_at (unat (inst - 1)) w = Some g" by (rule wf_db_group_at)
  with sel lt have s: "G_SelectedInterface g \<noteq> 0" "j = unat (G_SelectedInterface g - 1)"
    "G_SelectedInterface g - 1 < total_ifaces w"
    by (auto simp: group_selected_def sel_view_def split: if_splits)
  with wf obtain x v where "iface_at j w = Some x" "head_virtif x = Some v"
    using wf_db_iface_head [OF wf s(3)] by metis
  with lt g s that show ?thesis by (auto simp: word_less_nat_alt)
qed

text \<open>
  The two nested critical sections by which the code reaches the selected interface of a group: they
  reach exactly \<open>group_selected\<close>.
\<close>

abbreviation with_selected ::
  "uint \<Rightarrow> 'r \<Rightarrow> 'r \<Rightarrow> (nat \<Rightarrow> nat \<Rightarrow> world \<Rightarrow> ('r \<times> world) option) \<Rightarrow> world \<Rightarrow> ('r \<times> world) option" where
  "with_selected inst d n body \<equiv> with_group (inst - 1) d (\<lambda>k w. Option.bind (group_at k w)
     (\<lambda>g. if G_SelectedInterface g \<noteq> 0 then with_iface (G_SelectedInterface g - 1) d (body k) w
          else Some (n, w)))"

lemma with_selected_Some:
  assumes "wf_db w" "group_selected inst w = Some j"
  shows "with_selected inst d n body w = map_option (apsnd pthread_mutex_unlock)
    (map_option (apsnd pthread_mutex_unlock) (body (unat (inst - 1)) j (mlock (mlock w))))"
proof -
  from assms obtain g where "inst - 1 < total_groups w" "group_at (unat (inst - 1)) w = Some g"
    "G_SelectedInterface g \<noteq> 0" "j = unat (G_SelectedInterface g - 1)"
    "G_SelectedInterface g - 1 < total_ifaces w" by (rule group_selected_iface)
  with assms(1) show ?thesis by (simp add: with_wf)
qed

lemma with_selected_None:
  assumes wf: "wf_db w" and "group_selected inst w = None"
  shows "\<exists>r \<in> {d, n}. with_selected inst d n body w = Some (r, w)"
proof (cases "inst - 1 < total_groups w")
  case True
  with wf obtain g where g: "group_at (unat (inst - 1)) w = Some g" by (rule wf_db_group_at)
  with True assms have "\<not> (G_SelectedInterface g - 1 < total_ifaces w \<and> G_SelectedInterface g \<noteq> 0)"
    by (auto simp: group_selected_def sel_view_def split: if_splits)
  with True g wf show ?thesis by (auto simp: with_wf)
next
  case False
  with wf show ?thesis by (simp add: with_wf)
qed

lemma activate_eq:
  assumes wf: "wf_db w"
  shows "WanMgr_ActivateGroup inst w = Some (ANSC_STATUS_SUCCESS,
    case group_selected inst w of
      None \<Rightarrow> w
    | Some j \<Rightarrow> if status_of j w = Some WAN_IFACE_SELECTED
               then count_activation inst (set_status j WAN_IFACE_ACTIVE w) else w)"
proof (cases "group_selected inst w")
  case None
  with with_selected_None [OF wf None, of ANSC_STATUS_SUCCESS ANSC_STATUS_SUCCESS] show ?thesis
    by (simp add: WanMgr_ActivateGroup_def)
next
  case (Some j)
  with wf obtain x where "iface_at j w = Some x" by (rule group_selected_iface)
  with Some show ?thesis unfolding WanMgr_ActivateGroup_def with_selected_Some [OF wf Some]
    by (simp add: status_of_def sel_view_def set_status_def count_activation_def)
qed

lemma deactivate_eq:
  assumes wf: "wf_db w"
  shows "WanMgr_DeactivateGroup inst w = Some (ANSC_STATUS_SUCCESS,
    case group_selected inst w of
      None \<Rightarrow> w
    | Some j \<Rightarrow> if status_of j w = Some WAN_IFACE_ACTIVE then set_status j WAN_IFACE_SELECTED w else w)"
proof (cases "group_selected inst w")
  case None
  with with_selected_None [OF wf None, of ANSC_STATUS_SUCCESS ANSC_STATUS_SUCCESS] show ?thesis
    by (simp add: WanMgr_DeactivateGroup_def)
next
  case (Some j)
  with wf obtain x where "iface_at j w = Some x" by (rule group_selected_iface)
  with Some show ?thesis unfolding WanMgr_DeactivateGroup_def with_selected_Some [OF wf Some]
    by (simp add: status_of_def sel_view_def set_status_def)
qed

definition virt_status :: "nat \<Rightarrow> world \<Rightarrow> DML_WAN_IFACE_STATUS option" where
  "virt_status j w = map_option VI_Status (Option.bind (iface_at j w) head_virtif)"

lemma group_status_Some:
  assumes wf: "wf_db w" and sel: "group_selected inst w = Some j"
  shows "\<exists>st. virt_status j w = Some st \<and> FO_group_status inst d P w = Some (P st, w)"
proof -
  from assms obtain x v where "iface_at j w = Some x" "head_virtif x = Some v"
    by (rule group_selected_iface)
  then show ?thesis unfolding FO_group_status_def with_selected_Some [OF wf sel]
    by (simp add: virt_status_def)
qed

lemma group_status_pure: "wf_db w \<Longrightarrow> \<exists>b. FO_group_status inst d P w = Some (b, w)"
proof (cases "group_selected inst w")
  case None
  assume wf: "wf_db w"
  have "\<exists>b \<in> {False, d}. FO_group_status inst d P w = Some (b, w)"
    unfolding FO_group_status_def by (rule with_selected_None [OF wf None])
  then show ?thesis by blast
qed (use group_status_Some in blast)

subsection \<open>Effect on the set of active interfaces\<close>

lemma active_set_count [simp]: "active_set (count_activation g w) = active_set w"
  by (simp add: active_set_def)

lemma deactivate_ok:
  assumes wf: "wf_db w"
  shows "ok w (WanMgr_DeactivateGroup inst w) (\<lambda>r w'. r = ANSC_STATUS_SUCCESS \<and>
    active_set w' = active_set w - set_option (group_selected inst w) \<and>
    (\<forall>g. group_selected g w' = group_selected g w))"
  using wf
  by (auto simp: deactivate_eq ok_def active_set_status_of status_of_set_status keeps_refl
      split: option.split if_splits)

lemma activate_ok:
  assumes wf: "wf_db w"
  shows "ok w (WanMgr_ActivateGroup inst w) (\<lambda>r w'. r = ANSC_STATUS_SUCCESS \<and>
    active_set w' \<subseteq> active_set w \<union> set_option (group_selected inst w) \<and>
    (\<forall>g. group_selected g w' = group_selected g w))"
  using wf active_set_set_status [of _ WAN_IFACE_ACTIVE w]
  by (auto simp: activate_eq ok_def keeps_refl split: option.split)

subsection \<open>The choice of the group\<close>

text \<open>
  The reference for \<open>MarkHighPriorityGroup\<close>, over the index of a group: the group is ready if its
  selected interface is valid, or if it is the active group and its interface is being reset; the
  scan of the groups stops at a group whose configuration changes and, in the initial scan, at one
  that still deserves to be waited for.
\<close>

definition iface_test :: "(DML_WAN_IFACE \<Rightarrow> DML_VIRTUAL_IFACE \<Rightarrow> bool) \<Rightarrow> nat \<Rightarrow> world \<Rightarrow> bool" where
  "iface_test P j w = (case iface_at j w of None \<Rightarrow> False
     | Some x \<Rightarrow> (case head_virtif x of None \<Rightarrow> False | Some v \<Rightarrow> P x v))"

definition group_ready :: "WanMgr_FailOver_Controller_t \<Rightarrow> world \<Rightarrow> nat \<Rightarrow> bool" where
  "group_ready c w i = (case group_selected (inst_of i) w of None \<Rightarrow> False
     | Some j \<Rightarrow> iface_test (\<lambda>d v. iface_valid d v \<or>
                    (FO_CurrentActiveGroup c = inst_of i \<and> VI_Reset v)) j w)"

definition group_test :: "(WANMGR_IFACE_GROUP \<Rightarrow> bool) \<Rightarrow> world \<Rightarrow> nat \<Rightarrow> bool" where
  "group_test P w i = (case group_at i w of None \<Rightarrow> False | Some g \<Rightarrow> P g)"

definition scan_pending :: "env \<Rightarrow> WanMgr_FailOver_Controller_t \<Rightarrow> world \<Rightarrow> nat \<Rightarrow> bool" where
  "scan_pending e c w i = group_test (\<lambda>g.
     clock e (i + 1) - FO_GroupSelectionTimer c < int (unat (G_SelectionTimeOut g)) \<or>
     \<not> G_InitialScanComplete g) w i"

definition scan_stops :: "env \<Rightarrow> bool \<Rightarrow> WanMgr_FailOver_Controller_t \<Rightarrow> world \<Rightarrow> nat \<Rightarrow> bool" where
  "scan_stops e wait c w i \<longleftrightarrow> group_test G_ConfigChanged w i \<or> (wait \<and> scan_pending e c w i)"

fun group_inst :: "nat option \<Rightarrow> uint" where
  "group_inst None = 0"
| "group_inst (Some i) = inst_of i"

definition mark_spec :: "env \<Rightarrow> bool \<Rightarrow> WanMgr_FailOver_Controller_t \<Rightarrow> world \<Rightarrow> uint" where
  "mark_spec e wait c w =
     (let groups = [0..<unat (total_groups w)]
      in case find (scan_stops e wait c w) groups of
           None \<Rightarrow> group_inst (find (group_ready c w) groups)
         | Some m \<Rightarrow> if group_test G_ConfigChanged w m then FO_CurrentActiveGroup c
                    else group_inst (find (group_ready c w) [0..<Suc m]))"

lemma find_snoc: "find P (xs @ [x]) = (case find P xs of None \<Rightarrow> (if P x then Some x else None) | Some y \<Rightarrow> Some y)"
  by (induction xs) auto

lemma find_upt_le: "find P [0..<n] = Some k \<Longrightarrow> k < n \<and> P k \<and> (\<forall>i<k. \<not> P i)"
  by (auto simp: find_Some_iff)

lemma iface_test_frame:
  "(\<And>k. iface_at k w' = iface_at k w) \<Longrightarrow> iface_test P j w' = iface_test P j w"
  by (simp add: iface_test_def)

lemma mark_selected_eq:
  assumes wf: "wf_db w" and i: "i < unat (total_groups w)" and g: "group_at i w = Some g"
  shows "mark_selected i g c w = Some
    (if FO_HighestValidGroup c = 0 \<and> group_ready c w i
     then c\<lparr>FO_HighestValidGroup := inst_of i\<rparr> else c, w)"
proof (cases "FO_HighestValidGroup c = 0 \<and> G_SelectedInterface g \<noteq> 0")
  case True
  show ?thesis
  proof (cases "group_selected (inst_of i) w")
    case None
    with True i g wf have "\<not> G_SelectedInterface g - 1 < total_ifaces w"
      by (auto simp: group_selected_def sel_view_def index_bound split: if_splits)
    with None wf True show ?thesis by (simp add: mark_selected_def with_wf group_ready_def)
  next
    case (Some j)
    with wf obtain x v where *: "iface_at j w = Some x" "head_virtif x = Some v"
      by (rule group_selected_iface)
    from Some i g have "j = unat (G_SelectedInterface g - 1)" "G_SelectedInterface g - 1 < total_ifaces w"
      by (auto simp: group_selected_def sel_view_def index_bound split: if_splits)
    with True wf Some * show ?thesis
      by (auto simp: mark_selected_def with_wf group_ready_def iface_test_def)
  qed
next
  case False
  with i g have "\<not> (FO_HighestValidGroup c = 0 \<and> group_ready c w i)"
    by (auto simp: group_ready_def group_selected_def sel_view_def index_bound split: if_splits)
  with False show ?thesis by (auto simp: mark_selected_def)
qed

lemma group_ready_frame [simp]:
  "group_ready (c\<lparr>FO_HighestValidGroup := h\<rparr>) w i = group_ready c w i"
  "group_ready c (mlock w) i = group_ready c w i"
  by (simp_all add: group_ready_def group_selected_def iface_test_def split: option.split)

lemma mark_body_eq:
  assumes wf: "wf_db w" and i: "i < unat (total_groups w)" and g: "group_at i w = Some g"
  shows "mark_body e wait i c w =
    (let c' = (if FO_HighestValidGroup c = 0 \<and> group_ready c w i
               then c\<lparr>FO_HighestValidGroup := inst_of i\<rparr> else c);
         w' = (if FO_FailOverType c = COLDSWAP \<and> FO_HighestValidGroup c' = 0 \<and>
                  G_State g = STATE_GROUP_DEACTIVATED
               then upd_group i (\<lambda>G. G\<lparr>G_State := STATE_GROUP_STOPPED\<rparr>) w else w)
     in Some (if group_test G_ConfigChanged w i
              then Break (c\<lparr>FO_HighestValidGroup := FO_CurrentActiveGroup c\<rparr>)
              else if scan_stops e wait c w i then Break c' else Continue c', w'))"
proof -
  have "mark_selected i g c (mlock w) = Some
    (if FO_HighestValidGroup c = 0 \<and> group_ready c w i
     then c\<lparr>FO_HighestValidGroup := inst_of i\<rparr> else c, mlock w)"
    using mark_selected_eq [of "mlock w" i g c] assms by simp
  with assms show ?thesis
    by (auto simp: mark_body_def with_wf index_bound Let_def scan_stops_def scan_pending_def group_test_def)
qed

text \<open>
  The world after the choice: the same but for the state of groups, and a state changes only from
  deactivated to stopped, in a cold swap, and only above the first group that is ready.
\<close>

definition group_core :: "WANMGR_IFACE_GROUP \<Rightarrow> WANMGR_IFACE_GROUP" where
  "group_core g = g\<lparr>G_State := STATE_GROUP_UNKNOWN\<rparr>"

definition group_state :: "nat \<Rightarrow> world \<Rightarrow> WAN_IFACE_GROUP_STATUS option" where
  "group_state k w = map_option G_State (group_at k w)"

definition mark_frame :: "WanMgr_FailOver_Controller_t \<Rightarrow> world \<Rightarrow> world \<Rightarrow> bool" where
  "mark_frame c w w' \<longleftrightarrow> (\<forall>k. iface_at k w' = iface_at k w) \<and>
     (\<forall>k. map_option group_core (group_at k w') = map_option group_core (group_at k w)) \<and>
     config w' = config w \<and> out w' = out w \<and>
     (\<forall>k. group_state k w' = group_state k w \<or>
        (FO_FailOverType c = COLDSWAP \<and> group_state k w = Some STATE_GROUP_DEACTIVATED \<and>
         group_state k w' = Some STATE_GROUP_STOPPED \<and> (\<forall>i \<le> k. \<not> group_ready c w i)))"

lemma mark_frame_core:
  assumes "mark_frame c w w'" "group_at k w' = Some g'"
  obtains g where "group_at k w = Some g" "group_core g' = group_core g"
  using assms by (cases "group_at k w") (auto simp: mark_frame_def dest: spec [of _ k])

lemma group_core_fields:
  assumes "group_core g' = group_core g"
  shows "G_SelectedInterface g' = G_SelectedInterface g" "G_ConfigChanged g' = G_ConfigChanged g"
    "G_SelectionTimeOut g' = G_SelectionTimeOut g" "G_InitialScanComplete g' = G_InitialScanComplete g"
    "G_ActivationCount g' = G_ActivationCount g"
  using assms by (cases g; cases g'; simp add: group_core_def)+

lemma map_core_field:
  assumes "map_option group_core o1 = map_option group_core o2"
    and "\<And>g g'. group_core g' = group_core g \<Longrightarrow> f g' = f g"
  shows "map_option f o1 = map_option f o2"
proof (cases o1)
  case (Some g)
  with assms(1) obtain g' where "o2 = Some g'" "group_core g = group_core g'" by (cases o2) auto
  with Some assms(2) [of g g'] show ?thesis by simp
qed (use assms(1) in simp)

lemma map_core_test:
  assumes "map_option group_core o1 = map_option group_core o2"
    and "\<And>g g'. group_core g' = group_core g \<Longrightarrow> P g' = P g"
  shows "(case o1 of None \<Rightarrow> False | Some g \<Rightarrow> P g) = (case o2 of None \<Rightarrow> False | Some g \<Rightarrow> P g)"
  using map_core_field [where f = P, OF assms] by (cases o1; cases o2) simp_all

lemma mark_frame_same:
  assumes "mark_frame c w w'" "keeps w w'"
  shows "sel_view w' = sel_view w" "group_ready c w' i = group_ready c w i"
    "group_test G_ConfigChanged w' i = group_test G_ConfigChanged w i"
    "scan_stops e wait c w' i = scan_stops e wait c w i"
proof -
  have core: "map_option group_core (group_at k w') = map_option group_core (group_at k w)"
    and ifc: "iface_at k w' = iface_at k w" for k
    using assms(1) by (auto simp: mark_frame_def)
  show sv: "sel_view w' = sel_view w"
    using map_core_field [OF core group_core_fields(1)] by (simp add: sel_view_def ifc)
  show "group_ready c w' i = group_ready c w i"
    using active_frame(2) [OF sv assms(2)]
    by (simp add: group_ready_def iface_test_def ifc split: option.split)
  show *: "group_test G_ConfigChanged w' i = group_test G_ConfigChanged w i"
    unfolding group_test_def by (rule map_core_test [OF core group_core_fields(2)])
  have "scan_pending e c w' i = scan_pending e c w i"
    unfolding scan_pending_def group_test_def
  proof (rule map_core_test [OF core])
    fix g g'
    assume "group_core g' = group_core g"
    from group_core_fields(3,4) [OF this]
    show "(clock e (i + 1) - FO_GroupSelectionTimer c < int (unat (G_SelectionTimeOut g')) \<or>
        \<not> G_InitialScanComplete g') = (clock e (i + 1) - FO_GroupSelectionTimer c <
          int (unat (G_SelectionTimeOut g)) \<or> \<not> G_InitialScanComplete g)" by simp
  qed
  with * show "scan_stops e wait c w' i = scan_stops e wait c w i"
    by (simp add: scan_stops_def)
qed

lemma find_upt_first:
  "\<lbrakk>\<forall>j<i. \<not> P j; P i; i < n\<rbrakk> \<Longrightarrow> find P [0..<n] = Some i"
  by (auto simp: find_Some_iff)

lemma find_upt_none: "\<forall>j<n. \<not> P j \<Longrightarrow> find P [0..<n] = None"
  by (auto simp: find_None_iff)

lemma group_inst_0_iff:
  assumes "i \<le> unat (n :: uint)"
  shows "group_inst (find P [0..<i]) = 0 \<longleftrightarrow> (\<forall>j<i. \<not> P j)"
proof (cases "find P [0..<i]")
  case (Some k)
  with assms have k: "k < unat n" "P k" "k < i" by (auto dest: find_upt_le)
  then show ?thesis using index_bound(5) [OF k(1)] Some by auto
qed (simp, auto simp: find_None_iff)

lemma group_inst_snoc:
  assumes "i < unat (n :: uint)"
  shows "group_inst (find P [0..<Suc i]) =
    (if group_inst (find P [0..<i]) = 0 \<and> P i then inst_of i else group_inst (find P [0..<i]))"
proof (cases "find P [0..<i]")
  case (Some k)
  with assms have k: "k < unat n" by (auto dest: find_upt_le)
  then show ?thesis using index_bound(5) [OF k] Some by (simp add: find_snoc)
qed (simp add: find_snoc)

lemma mark_frame_stop:
  assumes fr: "mark_frame c w w'" and g: "group_at i w' = Some g" "G_State g = STATE_GROUP_DEACTIVATED"
    and cold: "FO_FailOverType c = COLDSWAP" "\<forall>j\<le>i. \<not> group_ready c w j"
  shows "mark_frame c w (upd_group i (\<lambda>G. G\<lparr>G_State := STATE_GROUP_STOPPED\<rparr>) w')"
proof -
  let ?u = "upd_group i (\<lambda>G. G\<lparr>G_State := STATE_GROUP_STOPPED\<rparr>) w'"
  have core: "map_option group_core (group_at k ?u) = map_option group_core (group_at k w')" for k
    by (simp add: option.map_comp comp_def group_core_def [abs_def])
  have "group_state k ?u = group_state k w \<or>
      (group_state k w = Some STATE_GROUP_DEACTIVATED \<and> group_state k ?u = Some STATE_GROUP_STOPPED \<and>
       (\<forall>j\<le>k. \<not> group_ready c w j))" for k
  proof (cases "k = i")
    case True
    from fr have "group_state i w' = group_state i w \<or> group_state i w' = Some STATE_GROUP_STOPPED"
      unfolding mark_frame_def by blast
    with g have "group_state i w = Some STATE_GROUP_DEACTIVATED" by (auto simp: group_state_def)
    with True g cold show ?thesis by (simp add: group_state_def)
  next
    case False
    then have "group_state k ?u = group_state k w'" by (simp add: group_state_def)
    with fr show ?thesis by (auto simp: mark_frame_def)
  qed
  with fr cold core show ?thesis by (auto simp: mark_frame_def)
qed

lemma mark_body_ok:
  assumes wf: "wf_db w" and i: "i < unat (total_groups w)"
    and go: "\<forall>j<i. \<not> scan_stops e wait c w j"
    and c': "c' = c\<lparr>FO_HighestValidGroup := group_inst (find (group_ready c w) [0..<i])\<rparr>"
    and fr: "mark_frame c w w'" and kp: "keeps w w'"
  shows "ok w (mark_body e wait i c' w') (\<lambda>f w''. mark_frame c w w'' \<and> (case f of
      Continue c'' \<Rightarrow> \<not> scan_stops e wait c w i \<and>
        c'' = c\<lparr>FO_HighestValidGroup := group_inst (find (group_ready c w) [0..<Suc i])\<rparr>
    | Break c'' \<Rightarrow> c'' = c\<lparr>FO_HighestValidGroup := mark_spec e wait c w\<rparr>))"
proof -
  let ?r = "group_ready c w" and ?h = "group_inst (find (group_ready c w) [0..<i])"
  from kp have w': "wf_db w'" "total_groups w' = total_groups w" by (simp_all add: keeps_def)
  with i obtain g where g: "group_at i w' = Some g"
    using wf_db_group_at [of w' "of_nat i"] index_bound(1,2) [OF i] by auto
  note same = mark_frame_same [OF fr kp]
  note eq = mark_body_eq [of w' i g e wait c', OF w'(1) _ g]
  let ?c = "c\<lparr>FO_HighestValidGroup := group_inst (find ?r [0..<Suc i])\<rparr>"
  have next_c: "(if FO_HighestValidGroup c' = 0 \<and> group_ready c' w' i
      then c'\<lparr>FO_HighestValidGroup := inst_of i\<rparr> else c') = ?c"
    using group_inst_snoc [OF i, of ?r] by (auto simp: c' same)
  define w'' where "w'' = (if FO_FailOverType c' = COLDSWAP \<and> FO_HighestValidGroup ?c = 0 \<and>
      G_State g = STATE_GROUP_DEACTIVATED
    then upd_group i (\<lambda>G. G\<lparr>G_State := STATE_GROUP_STOPPED\<rparr>) w' else w')"
  have keep: "keeps w w''" using kp by (simp add: w''_def keeps_def)
  have frame: "mark_frame c w w''"
  proof (cases "w'' = w'")
    case False
    then have "w'' = upd_group i (\<lambda>G. G\<lparr>G_State := STATE_GROUP_STOPPED\<rparr>) w'"
      "FO_FailOverType c = COLDSWAP" "G_State g = STATE_GROUP_DEACTIVATED" "\<forall>j\<le>i. \<not> ?r j"
      using group_inst_0_iff [of "Suc i" "total_groups w" ?r] i
      by (auto simp: w''_def c' less_Suc_eq_le split: if_splits)
    with fr g show ?thesis by (simp add: mark_frame_stop)
  qed (simp add: fr)
  have stops: "scan_stops e wait c' w' i = scan_stops e wait c w i"
    using same(4) by (simp add: c' scan_stops_def scan_pending_def)
  have run: "mark_body e wait i c' w' = Some
     (if group_test G_ConfigChanged w i then Break (c\<lparr>FO_HighestValidGroup := FO_CurrentActiveGroup c\<rparr>)
      else if scan_stops e wait c w i then Break ?c else Continue ?c, w'')"
    using eq i w'(2) unfolding next_c Let_def stops same(3) w''_def by (simp add: c')
  have "mark_spec e wait c w = (if group_test G_ConfigChanged w i then FO_CurrentActiveGroup c
      else group_inst (find ?r [0..<Suc i]))" if "scan_stops e wait c w i"
    using find_upt_first [OF go that i] by (simp add: mark_spec_def)
  moreover have "scan_stops e wait c w i" if "group_test G_ConfigChanged w i"
    using that by (simp add: scan_stops_def)
  ultimately show ?thesis unfolding run using keep frame by (simp add: ok_def)
qed

lemma mark_ok:
  assumes wf: "wf_db w"
  shows "ok w (MarkHighPriorityGroup e wait c w)
    (\<lambda>c' w'. c' = c\<lparr>FO_HighestValidGroup := mark_spec e wait c w\<rparr> \<and> mark_frame c w w')"
proof -
  let ?n = "unat (total_groups w)"
  have "ok w (for_loop [0..<?n] (mark_body e wait) (c\<lparr>FO_HighestValidGroup := 0\<rparr>) w)
    (\<lambda>c' w'. c' = c\<lparr>FO_HighestValidGroup := mark_spec e wait c w\<rparr> \<and> mark_frame c w w')"
  proof (rule ok_for_loop [where I = "\<lambda>pre c' w'. mark_frame c w w' \<and>
      (\<forall>j<length pre. \<not> scan_stops e wait c w j) \<and>
      c' = c\<lparr>FO_HighestValidGroup := group_inst (find (group_ready c w) [0..<length pre])\<rparr>"])
    fix pre i c' w'
    assume "\<exists>todo. [0..<?n] = pre @ i # todo"
    then have i: "i = length pre" "i < ?n" by (auto dest: upt_split)
    assume "keeps w w'" and I: "mark_frame c w w' \<and> (\<forall>j<length pre. \<not> scan_stops e wait c w j) \<and>
      c' = c\<lparr>FO_HighestValidGroup := group_inst (find (group_ready c w) [0..<length pre])\<rparr>"
    with mark_body_ok [OF wf i(2), of e wait c c' w'] i(1)
    show "ok w (mark_body e wait i c' w') (\<lambda>f w''. case f of
        Continue s' \<Rightarrow> mark_frame c w w'' \<and> (\<forall>j<length (pre @ [i]). \<not> scan_stops e wait c w j) \<and>
          s' = c\<lparr>FO_HighestValidGroup := group_inst (find (group_ready c w) [0..<length (pre @ [i])])\<rparr>
      | Break s' \<Rightarrow> s' = c\<lparr>FO_HighestValidGroup := mark_spec e wait c w\<rparr> \<and> mark_frame c w w'')"
      by (auto elim!: ok_mono simp: less_Suc_eq split: flow.splits)
  qed (auto simp: keeps_refl wf mark_frame_def mark_spec_def Let_def dest!: find_upt_none)
  then show ?thesis using wf by (simp add: MarkHighPriorityGroup_def)
qed

lemma mark_spec_le:
  assumes "FO_CurrentActiveGroup c \<le> total_groups w"
  shows "mark_spec e wait c w \<le> total_groups w"
proof -
  have le: "group_inst (find P [0..<m]) \<le> total_groups w" if "m \<le> unat (total_groups w)" for P m
  proof (cases "find P [0..<m]")
    case (Some k)
    with that have "k < unat (total_groups w)" by (auto dest: find_upt_le)
    with Some show ?thesis by (simp add: index_bound)
  qed simp
  show ?thesis
    using assms le by (auto simp: mark_spec_def Let_def Suc_le_eq simp del: upt_Suc split: option.split
        dest: find_upt_le)
qed

subsection \<open>The other helpers\<close>

text \<open>
  None of the remaining helpers touches the interfaces, the configuration or the selected interfaces
  of the groups.
\<close>

definition fo_view ::
  "world \<Rightarrow> (nat \<Rightarrow> DML_WAN_IFACE option) \<times> (nat \<Rightarrow> uint option) \<times> DML_WANMGR_CONFIG" where
  "fo_view w = ((\<lambda>k. iface_at k w), (\<lambda>k. map_option G_SelectedInterface (group_at k w)), config w)"

lemma fo_view_frame [simp]:
  "fo_view (mlock w) = fo_view w" "fo_view (pthread_mutex_unlock w) = fo_view w"
  "fo_view (emit e w) = fo_view w"
  by (simp_all add: fo_view_def)

lemma fo_view_upd_group [simp]:
  "(\<And>g. G_SelectedInterface (f g) = G_SelectedInterface g) \<Longrightarrow> fo_view (upd_group k f w) = fo_view w"
  by (auto simp: fo_view_def option.map_comp comp_def)

lemma fo_view_same_db:
  assumes "gWanMgrDataBase w' = gWanMgrDataBase w"
  shows "fo_view w' = fo_view w"
  using same_db_reads [OF assms] assms by (simp add: fo_view_def)

lemma fo_view_D:
  assumes "fo_view w' = fo_view w"
  shows "iface_at k w' = iface_at k w" "config w' = config w" "sel_view w' = sel_view w"
    "virt_status k w' = virt_status k w"
proof -
  show i: "iface_at k w' = iface_at k w" and "config w' = config w" for k
    using assms by (auto simp: fo_view_def dest: fun_cong [of _ _ k])
  show "sel_view w' = sel_view w" using assms i by (simp add: fo_view_def sel_view_def)
  show "virt_status k w' = virt_status k w" by (simp add: virt_status_def i)
qed

lemma keeps_lock: "keeps w w' \<Longrightarrow> keeps w w'' \<Longrightarrow> mutex w'' = mutex w'"
  by (simp add: keeps_def)

lemma keeps_wfI: "wf_db w' \<Longrightarrow> mutex w' = mutex w \<Longrightarrow> total_groups w' = total_groups w \<Longrightarrow>
    total_ifaces w' = total_ifaces w \<Longrightarrow> keeps w w'"
  by (simp add: keeps_def)

lemma update_FO_eq:
  assumes "wf_db w"
  shows "WanMgr_UpdateFOControllerData c w =
    (c\<lparr>FO_WanEnable := Cfg_Enable (config w), FO_RestorationDelay := Cfg_RestorationDelay (config w),
       FO_ResetScan := Cfg_ResetFailOverScan (config w),
       FO_AllowRemoteInterfaces := Cfg_AllowRemoteInterfaces (config w)\<rparr>,
     upd_config (\<lambda>d. d\<lparr>Cfg_ResetFailOverScan := False\<rparr>) w)"
  using assms by (simp add: WanMgr_UpdateFOControllerData_def)

lemma telemetry_db [simp]: "gWanMgrDataBase (WanMgr_TelemetryEventTrigger b e c w) = gWanMgrDataBase w"
  by (simp add: WanMgr_TelemetryEventTrigger_def Let_def)

lemma start_policy_ok:
  assumes wf: "wf_db w" and g: "group_at k w = Some g"
  shows "ok w (FO_start_policy b e i k w) (\<lambda>_ w'. fo_view w' = fo_view w)"
  using assms
  by (cases "thread_create e (out w)") (auto simp: FO_start_policy_def ok_def keeps_def Let_def)

lemma SelectionTimeOut_ok:
  assumes wf: "wf_db w" and k: "group_at k w \<noteq> None"
  shows "ok w (FO_SelectionTimeOut i k w) (\<lambda>_ w'. fo_view w' = fo_view w \<and> group_at k w' \<noteq> None)"
  unfolding FO_SelectionTimeOut_def total_wf(2) [OF wf] Let_def prod.case
  by (rule ok_loop_continue, use assms in simp_all, rule ok_with_iface)
    (auto simp: ok_def keeps_def)

lemma monitor_group_ok:
  assumes wf: "wf_db w" and k: "group_at k w = Some g"
  shows "ok w (FO_monitor_group b e i k w) (\<lambda>_ w'. fo_view w' = fo_view w)"
proof -
  define w1 where "w1 = upd_group k (\<lambda>G. G\<lparr>G_SelectionTimeOut := 0, G_InitialScanComplete := False,
                                  G_ActivationCount := 0\<rparr>) w"
  have w1: "wf_db w1" "group_at k w1 \<noteq> None" "keeps w w1" "fo_view w1 = fo_view w"
    using assms by (simp_all add: w1_def keeps_def)
  from SelectionTimeOut_ok [OF w1(1,2), of i] obtain w2 where w2: "FO_SelectionTimeOut i k w1 = Some ((), w2)"
    "keeps w1 w2" "fo_view w2 = fo_view w1" "group_at k w2 \<noteq> None" by (auto elim: okE)
  define w3 where "w3 = upd_group k (\<lambda>G. G\<lparr>G_ConfigChanged := False\<rparr>) w2"
  from w2 obtain g3 where w3: "wf_db w3" "group_at k w3 = Some g3" "keeps w1 w3" "fo_view w3 = fo_view w1"
    by (auto simp: w3_def keeps_def)
  have "ok w (FO_start_policy b e i k w3) (\<lambda>_ w'. fo_view w' = fo_view w)"
    by (rule ok_rebase [OF keeps_trans [OF w1(3) w3(3)]])
      (use start_policy_ok [OF w3(1,2), of b e i] w1(4) w3(4) in simp)
  moreover have "FO_monitor_group b e i k w = (if G_InterfaceAvailable g \<noteq> 0 \<and>
      G_State g \<noteq> STATE_GROUP_RUNNING \<and> G_State g \<noteq> STATE_GROUP_DEACTIVATED
    then FO_start_policy b e i k w3 else Some ((), w))"
    using w2(1) k by (simp add: FO_monitor_group_def Let_def w1_def w3_def)
  ultimately show ?thesis using keeps_refl [OF wf] by (auto simp: ok_def)
qed

lemma monitor_ok:
  assumes wf: "wf_db w"
  shows "ok w (WanMgr_FO_IfaceGroupMonitor b e w) (\<lambda>_ w'. fo_view w' = fo_view w)"
  unfolding WanMgr_FO_IfaceGroupMonitor_def total_wf(1) [OF wf] Let_def prod.case
proof (rule ok_loop_continue, use wf in simp_all, rule ok_with_group)
  fix i :: nat and w' g
  assume w': "wf_db w'" "fo_view w' = fo_view w" "group_at (unat (of_nat i :: uint)) w' = Some g"
  show "ok (mlock w') (FO_monitor_group b e i (unat (of_nat i :: uint)) (mlock w'))
      (\<lambda>r w''. fo_view (pthread_mutex_unlock w'') = fo_view w)"
    using monitor_group_ok [of "mlock w'"] w' by (simp add: ok_def)
qed simp_all

lemma ok_return_same:
  assumes "wf_db w" "gWanMgrDataBase w' = gWanMgrDataBase w" "fo_view w' = fo_view w \<Longrightarrow> Q r w'"
  shows "ok w (Some (r, w')) Q"
  using assms fo_view_same_db [OF assms(2)] keeps_same_db [OF assms(2) keeps_refl [OF assms(1)]]
  by (simp add: ok_def)

definition led_only :: "WanMgr_FailOver_Controller_t \<Rightarrow> WanMgr_FailOver_Controller_t \<Rightarrow> bool" where
  "led_only c c' \<longleftrightarrow>
     c' = c\<lparr>FO_ActiveIfaceState := FO_ActiveIfaceState c', FO_PhyState := FO_PhyState c'\<rparr>"

lemma led_active_ok:
  assumes wf: "wf_db w" and j: "iface_at j w = Some x" "head_virtif x = Some v"
  shows "ok w (FO_led_active e c j w) (\<lambda>c' w'. fo_view w' = fo_view w \<and> led_only c c')"
  unfolding FO_led_active_def Let_def using assms
  by (auto intro!: ok_if ok_return_same simp: led_frame led_only_def)

lemma led_ok:
  assumes wf: "wf_db w"
  shows "ok w (UpdateLedStatus e c w) (\<lambda>c' w'. fo_view w' = fo_view w \<and> led_only c c')"
proof (cases "FO_CurrentActiveGroup c = 0")
  case True
  let ?loop = "for_loop [0..<unat (total_ifaces w)] (\<lambda>uiLoopCount st w. continue
             (with_iface (of_nat uiLoopCount) st (\<lambda>j w. do {
                d \<leftarrow> iface_at j w;
                Some (best_phy d st, w)
              }) w)) WAN_IFACE_PHY_STATUS_DOWN w"
  have "ok w ?loop (\<lambda>_ w'. w' = w)"
    by (rule ok_loop_continue, use wf in simp_all, rule ok_with_iface)
      (auto simp: ok_def keeps_def)
  then obtain st where "?loop = Some (st, w)" by (auto elim: okE)
  with True wf show ?thesis
    by (simp add: UpdateLedStatus_def) (auto intro!: ok_return_same simp: led_frame led_only_def)
next
  case False
  have "ok w (with_group (FO_CurrentActiveGroup c - 1) c (\<lambda>k w. do {
             g \<leftarrow> group_at k w;
             if 0 < G_SelectedInterface g
             then with_iface (G_SelectedInterface g - 1) c (FO_led_active e c) w
             else Some (c, w)
           }) w) (\<lambda>c' w'. fo_view w' = fo_view w \<and> led_only c c')"
  proof (rule ok_with_group [OF wf])
    show "fo_view w = fo_view w \<and> led_only c c" by (simp add: led_only_def)
    fix g
    assume g: "group_at (unat (FO_CurrentActiveGroup c - 1)) w = Some g"
    have "ok (mlock w) (with_iface (G_SelectedInterface g - 1) c (FO_led_active e c) (mlock w))
       (\<lambda>c' w'. fo_view w' = fo_view w \<and> led_only c c')"
      by (rule ok_with_iface) (use led_active_ok [of "mlock (mlock w)"] wf in
        \<open>auto simp: led_only_def ok_def\<close>)
    with g wf show "ok (mlock w) (do {
             g \<leftarrow> group_at (unat (FO_CurrentActiveGroup c - 1)) (mlock w);
             if 0 < G_SelectedInterface g
             then with_iface (G_SelectedInterface g - 1) c (FO_led_active e c) (mlock w)
             else Some (c, mlock w)
           }) (\<lambda>c' w'. fo_view (pthread_mutex_unlock w') = fo_view w \<and> led_only c c')"
      by (auto intro!: ok_return keeps_refl simp: led_only_def)
  qed
  with False show ?thesis by (simp add: UpdateLedStatus_def)
qed

lemma stop_group_ok:
  assumes wf: "wf_db w"
  shows "ok w (FO_stop_group i w) (\<lambda>_ w'. fo_view w' = fo_view w)"
  unfolding FO_stop_group_def
  by (rule ok_with_group [OF wf]) (auto simp: ok_def keeps_def wf)

lemma set_group_state_ok:
  assumes wf: "wf_db w"
  shows "ok w (FO_set_group_state st i w) (\<lambda>_ w'. fo_view w' = fo_view w)"
  unfolding FO_set_group_state_def
  by (rule ok_with_group [OF wf]) (auto simp: ok_def keeps_def wf)

lemma running_ok:
  assumes wf: "wf_db w"
  shows "ok w (FO_selectionThreadRunning w) (\<lambda>_ w'. w' = w)"
  unfolding FO_selectionThreadRunning_def total_wf(1) [OF wf] Let_def prod.case
  by (rule ok_loop_continue, use wf in simp_all, rule ok_with_group) (auto simp: ok_def keeps_def)

subsection \<open>The invariant of the controller\<close>

text \<open>
  Only the selected interface of the active group may be active, and no interface is active while
  the controller scans, after a deactivation, and when the machine stops.
\<close>

definition FO_inv :: "WcFailOverState_t \<times> WanMgr_FailOver_Controller_t \<Rightarrow> world \<Rightarrow> bool" where
  "FO_inv sc w \<longleftrightarrow> (case sc of (st, c) \<Rightarrow>
     FO_CurrentActiveGroup c \<le> total_groups w \<and> FO_HighestValidGroup c \<le> total_groups w \<and>
     active_set w \<subseteq> set_option (group_selected (FO_CurrentActiveGroup c) w) \<and>
     (st = STATE_FAILOVER_SCANNING_GROUP \<longrightarrow> FO_CurrentActiveGroup c = 0) \<and>
     (st \<in> {STATE_FAILOVER_DEACTIVATE_GROUP, STATE_FAILOVER_EXIT, STATE_FAILOVER_ERROR} \<longrightarrow>
       active_set w = {}))"

definition same_active :: "world \<Rightarrow> world \<Rightarrow> bool" where
  "same_active w w' \<longleftrightarrow> active_set w' = active_set w \<and> (\<forall>g. group_selected g w' = group_selected g w) \<and>
     total_groups w' = total_groups w"

lemma same_active_view: "sel_view w' = sel_view w \<Longrightarrow> keeps w w' \<Longrightarrow> same_active w w'"
  by (auto simp: same_active_def active_frame keeps_def)

lemma FO_inv_same:
  "same_active w w' \<Longrightarrow> FO_inv (st, c) w' = FO_inv (st, c) w"
  by (simp add: FO_inv_def same_active_def)

lemma FO_inv_cong:
  "\<lbrakk>FO_CurrentActiveGroup c' = FO_CurrentActiveGroup c; FO_HighestValidGroup c' = FO_HighestValidGroup c\<rbrakk>
    \<Longrightarrow> FO_inv (st, c') w = FO_inv (st, c) w"
  by (simp add: FO_inv_def)

lemma stop_loop_ok:
  assumes wf: "wf_db w"
  shows "ok w (for_loop is (\<lambda>i u w. continue (FO_stop_group (of_nat i) w)) () w)
    (\<lambda>_ w'. fo_view w' = fo_view w)"
proof (rule ok_loop_continue)
  fix i u w'
  assume "wf_db w'" "fo_view w' = fo_view w"
  with stop_group_ok [of w' "of_nat i"]
  show "ok w' (FO_stop_group (of_nat i) w') (\<lambda>_ w'. fo_view w' = fo_view w)" by simp
qed (use wf in simp_all)

lemma Transition_ActivateGroup_ok:
  assumes wf: "wf_db w" and h: "FO_HighestValidGroup c \<le> total_groups w"
    "FO_CurrentActiveGroup c \<le> total_groups w" and no: "active_set w = {}"
  shows "ok w (FO_Transition_ActivateGroup c w) FO_inv"
proof (cases "FO_HighestValidGroup c = 0")
  case True
  with assms show ?thesis
    by (auto simp: FO_Transition_ActivateGroup_def FO_inv_def intro!: ok_return keeps_refl)
next
  case False
  let ?h = "FO_HighestValidGroup c"
  let ?c = "c\<lparr>FO_TelemetryEvent := FO_activation_event c, FO_CurrentActiveGroup := ?h\<rparr>"
  from activate_ok [OF wf, of ?h] obtain w1 where
    a: "WanMgr_ActivateGroup ?h w = Some (ANSC_STATUS_SUCCESS, w1)" "keeps w w1"
      "active_set w1 \<subseteq> set_option (group_selected ?h w)" "\<forall>g. group_selected g w1 = group_selected g w"
    using no by (auto elim!: okE)
  then have wf1: "wf_db w1" "total_groups w1 = total_groups w" by (auto simp: keeps_def)
  have inv1: "FO_inv (STATE_FAILOVER_GROUP_ACTIVE, ?c) w1"
    using a h wf1 by (simp add: FO_inv_def)
  from stop_loop_ok [OF wf1(1), of "[unat ?h..<unat (total_groups w)]"] obtain w2 where
    s: "for_loop [unat ?h..<unat (total_groups w)]
         (\<lambda>i u w. continue (FO_stop_group (of_nat i) w)) () w1 = Some ((), w2)"
       "keeps w1 w2" "fo_view w2 = fo_view w1" by (auto elim!: okE)
  from s(2,3) inv1 have inv2: "FO_inv (STATE_FAILOVER_GROUP_ACTIVE, ?c) w2"
    using FO_inv_same [OF same_active_view [OF fo_view_D(3)]] by blast
  show ?thesis
    using False a(1,2) s(1,2) inv1 inv2 wf1
    by (auto simp: FO_Transition_ActivateGroup_def Let_def ok_def intro: keeps_trans)
qed

lemma Transition_DeactivateGroup_ok:
  assumes wf: "wf_db w" and inv: "FO_inv (st, c) w"
  shows "ok w (FO_Transition_DeactivateGroup c w)
    (\<lambda>r w'. FO_inv r w' \<and> r = (STATE_FAILOVER_DEACTIVATE_GROUP, c))"
proof (cases "FO_CurrentActiveGroup c = 0")
  case True
  with assms show ?thesis
    by (auto simp: FO_Transition_DeactivateGroup_def FO_inv_def intro!: ok_return keeps_refl)
next
  case False
  from deactivate_ok [OF wf, of "FO_CurrentActiveGroup c"] obtain w1 where
    "WanMgr_DeactivateGroup (FO_CurrentActiveGroup c) w = Some (ANSC_STATUS_SUCCESS, w1)" "keeps w w1"
    "active_set w1 = active_set w - set_option (group_selected (FO_CurrentActiveGroup c) w)"
    by (auto elim!: okE)
  with False inv show ?thesis
    by (auto simp: FO_Transition_DeactivateGroup_def FO_inv_def ok_def keeps_def)
qed

lemma Transition_ResetScan_ok:
  assumes wf: "wf_db w" and inv: "FO_inv (st, c) w"
  shows "ok w (FO_Transition_ResetScan e c w)
    (\<lambda>r w'. FO_inv r w' \<and> fst r = STATE_FAILOVER_SCANNING_GROUP \<and> active_set w' = {})"
proof -
  obtain w1 where w1: "(if FO_CurrentActiveGroup c \<noteq> 0
      then WanMgr_DeactivateGroup (FO_CurrentActiveGroup c) w
      else Some (ANSC_STATUS_SUCCESS, w)) = Some (ANSC_STATUS_SUCCESS, w1)" "keeps w w1"
    "active_set w1 = {}"
  proof (cases "FO_CurrentActiveGroup c = 0")
    case True
    with inv keeps_refl [OF wf] that [of w] show thesis by (simp add: FO_inv_def)
  next
    case False
    from deactivate_ok [OF wf, of "FO_CurrentActiveGroup c"] obtain w1 where
      "WanMgr_DeactivateGroup (FO_CurrentActiveGroup c) w = Some (ANSC_STATUS_SUCCESS, w1)" "keeps w w1"
      "active_set w1 = active_set w - set_option (group_selected (FO_CurrentActiveGroup c) w)"
      by (auto elim!: okE)
    with False inv that [of w1] show thesis by (auto simp: FO_inv_def)
  qed
  let ?w2 = "wanmgr_setWanLedState e WAN_STATE_EXIT w1"
  have db: "gWanMgrDataBase ?w2 = gWanMgrDataBase w1" by (rule led_frame)
  have "keeps w ?w2" by (rule keeps_same_db [OF db w1(2)])
  moreover have "active_set ?w2 = {}"
    using active_frame(1) [OF sel_view_same_db [OF db]] keeps_same_db [OF db] keeps_refl
      keeps_wf [OF w1(2)] w1(3) by metis
  ultimately have "keeps w ?w2" "active_set ?w2 = {}" by auto
  with w1(1) show ?thesis by (simp add: FO_Transition_ResetScan_def ok_def FO_inv_def)
qed

lemma mark_inv:
  assumes wf: "wf_db w" and inv: "FO_inv (st, c) w"
  obtains c' w' where "MarkHighPriorityGroup e wait c w = Some (c', w')" "keeps w w'" "wf_db w'"
    "c' = c\<lparr>FO_HighestValidGroup := mark_spec e wait c w\<rparr>" "mark_frame c w w'" "FO_inv (st, c') w'"
proof -
  from mark_ok [OF wf, of e wait c] obtain c' w' where m: "MarkHighPriorityGroup e wait c w = Some (c', w')"
    "keeps w w'" "c' = c\<lparr>FO_HighestValidGroup := mark_spec e wait c w\<rparr>" "mark_frame c w w'"
    by (auto elim!: okE)
  have "FO_inv (st, c') w"
    using inv mark_spec_le [of c w e wait] m(3) by (simp add: FO_inv_def)
  with m(2,4) have "FO_inv (st, c') w'"
    using FO_inv_same [OF same_active_view] mark_frame_same(1) by blast
  with m that keeps_wf show thesis by blast
qed

lemma State_ScanningGroup_ok:
  assumes wf: "wf_db w" and inv: "FO_inv (STATE_FAILOVER_SCANNING_GROUP, c) w"
  shows "ok w (FO_State_ScanningGroup e c w) FO_inv"
proof -
  obtain c' w' where m: "MarkHighPriorityGroup e True c w = Some (c', w')" "keeps w w'" "wf_db w'"
    "FO_inv (STATE_FAILOVER_SCANNING_GROUP, c') w'"
    using mark_inv [OF wf inv] by metis
  then have "ok w (FO_Transition_ActivateGroup c' w') FO_inv"
    by (intro ok_rebase [OF m(2)] Transition_ActivateGroup_ok) (auto simp: FO_inv_def)
  moreover have "FO_inv (STATE_FAILOVER_EXIT, c) w" using inv by (auto simp: FO_inv_def)
  ultimately show ?thesis
    using m keeps_refl [OF wf] by (simp add: FO_State_ScanningGroup_def ok_return)
qed

lemma read_group:
  assumes wf: "wf_db w"
  shows "with_group i d (\<lambda>k w. Option.bind (group_at k w) (\<lambda>g. Some (f g, w))) w =
    Some (case if i < total_groups w then group_at (unat i) w else None of None \<Rightarrow> d | Some g \<Rightarrow> f g, w)"
proof (cases "i < total_groups w")
  case True
  with wf obtain g where "group_at (unat i) w = Some g" by (rule wf_db_group_at)
  with True wf show ?thesis by (simp add: with_wf)
qed (simp add: with_wf wf)

lemma State_GroupActive_ok:
  assumes wf: "wf_db w" and inv: "FO_inv (STATE_FAILOVER_GROUP_ACTIVE, c) w"
  shows "ok w (FO_State_GroupActive e c w) FO_inv"
proof -
  obtain c' w' where m: "MarkHighPriorityGroup e False c w = Some (c', w')" "keeps w w'" "wf_db w'"
    "FO_inv (STATE_FAILOVER_GROUP_ACTIVE, c') w'"
    using mark_inv [OF wf inv] by metis
  let ?t = "c'\<lparr>FO_FailOverTimer := clock e 1\<rparr>"
  have "ok w (FO_Transition_DeactivateGroup ?t w') FO_inv"
    by (rule ok_rebase [OF m(2)], rule ok_mono,
        rule Transition_DeactivateGroup_ok [of _ STATE_FAILOVER_GROUP_ACTIVE])
      (use m(3,4) FO_inv_cong [of ?t c'] in auto)
  moreover have "ok w (FO_Transition_Restoration e 2 ?t w') FO_inv"
    using m by (auto simp: FO_Transition_Restoration_def FO_inv_def intro!: ok_return)
  moreover have "ok w (FO_Transition_DeactivateGroup c w) FO_inv"
    "ok w (FO_Transition_ResetScan e c w) FO_inv"
    using Transition_DeactivateGroup_ok [OF wf inv] Transition_ResetScan_ok [OF wf inv, of e]
    by (auto elim!: ok_mono)
  ultimately show ?thesis
    using m by (auto simp: FO_State_GroupActive_def FO_inv_def read_group intro!: ok_return)
qed

lemma State_RestorationWait_ok:
  assumes wf: "wf_db w" and inv: "FO_inv (STATE_FAILOVER_RESTORATION_WAIT, c) w"
  shows "ok w (FO_State_RestorationWait e c w) FO_inv"
proof -
  obtain b where "FO_group_status (FO_HighestValidGroup c) False
      (\<lambda>st. st \<noteq> WAN_IFACE_STATUS_STANDBY \<and> st \<noteq> WAN_IFACE_STATUS_UP) w = Some (b, w)"
    using group_status_pure [OF wf] by blast
  moreover have "ok w (FO_Transition_DeactivateGroup c w) FO_inv"
    using Transition_DeactivateGroup_ok [OF wf inv] by (auto elim!: ok_mono)
  moreover have "ok w (FO_Transition_RestorationFail c w) FO_inv"
    using inv wf
    by (auto simp: FO_Transition_RestorationFail_def FO_inv_def intro!: ok_return keeps_refl)
  ultimately show ?thesis
    using inv keeps_refl [OF wf] by (simp add: FO_State_RestorationWait_def ok_return)
qed

lemma State_DeactivateGroup_ok:
  assumes wf: "wf_db w" and inv: "FO_inv (STATE_FAILOVER_DEACTIVATE_GROUP, c) w"
  shows "ok w (FO_State_DeactivateGroup c w) FO_inv"
proof -
  obtain b where "FO_group_status (FO_CurrentActiveGroup c) True
      (\<lambda>st. st \<noteq> WAN_IFACE_STATUS_UP) w = Some (b, w)"
    using group_status_pure [OF wf] by blast
  moreover have "ok w (FO_Transition_ActivateGroup c w) FO_inv"
    using inv by (intro Transition_ActivateGroup_ok [OF wf]) (auto simp: FO_inv_def)
  moreover have "FO_inv (STATE_FAILOVER_EXIT, c) w" using inv by (simp add: FO_inv_def)
  ultimately show ?thesis
    using inv keeps_refl [OF wf] by (auto simp: FO_State_DeactivateGroup_def intro!: ok_return)
qed

lemmas FO_state_ok = State_ScanningGroup_ok State_GroupActive_ok State_RestorationWait_ok
  State_DeactivateGroup_ok

lemma FO_dispatch_ok:
  assumes wf: "wf_db w" and inv: "FO_inv (st, c) w"
  shows "ok w (FO_dispatch e st c w) (\<lambda>t w'. FO_inv (snd t) w')"
proof -
  have lift: "ok w m FO_inv \<Longrightarrow> ok w (map_option (apfst (Pair FO_LOOP)) m) (\<lambda>t w'. FO_inv (snd t) w')"
    for m by (auto simp: ok_def)
  show ?thesis
    using FO_state_ok [OF wf] inv keeps_refl [OF wf] by (cases st) (auto intro!: lift ok_return)
qed

definition FO_thread_inv :: "FO_thread \<Rightarrow> world \<Rightarrow> bool" where
  "FO_thread_inv t w \<longleftrightarrow> FO_inv (snd t) w"

text \<open>The prologue of a pass: everything the loop does before it looks at the state.\<close>

definition FO_prologue ::
  "build \<Rightarrow> env \<Rightarrow> WanMgr_FailOver_Controller_t \<Rightarrow> world \<Rightarrow> (WanMgr_FailOver_Controller_t \<times> world) option" where
  "FO_prologue b e c w = do {
     let (c, w) = WanMgr_UpdateFOControllerData c w;
     (_, w) \<leftarrow> WanMgr_FO_IfaceGroupMonitor b e w;
     (c, w) \<leftarrow> (if LED_MANAGER b then UpdateLedStatus e c w else Some (c, w));
     Some (c, WanMgr_TelemetryEventTrigger b e c w)
   }"

lemma FO_pass_prologue:
  "FO_pass b e (FO_LOOP, st, c) w =
     (if \<not> select_ok e then Some ((FO_LOOP, st, c), w)
      else do { (c, w) \<leftarrow> FO_prologue b e c w; FO_dispatch e st c w })"
  by (simp add: FO_prologue_def Let_def split: prod.split Option.bind_split)

text \<open>What the prologue leaves of the controller: all but the configuration and the lamps.\<close>

definition prologue_ctrl :: "DML_WANMGR_CONFIG \<Rightarrow> WanMgr_FailOver_Controller_t \<Rightarrow> WanMgr_FailOver_Controller_t \<Rightarrow> bool" where
  "prologue_ctrl d c c' \<longleftrightarrow> led_only (c\<lparr>FO_WanEnable := Cfg_Enable d,
       FO_RestorationDelay := Cfg_RestorationDelay d, FO_ResetScan := Cfg_ResetFailOverScan d,
       FO_AllowRemoteInterfaces := Cfg_AllowRemoteInterfaces d\<rparr>) c'"

lemma FO_prologue_ok:
  assumes wf: "wf_db w"
  shows "ok w (FO_prologue b e c w) (\<lambda>c' w'. prologue_ctrl (config w) c c' \<and>
    fo_view w' = fo_view (upd_config (\<lambda>d. d\<lparr>Cfg_ResetFailOverScan := False\<rparr>) w))"
proof -
  define c1 where "c1 = fst (WanMgr_UpdateFOControllerData c w)"
  define w1 where "w1 = snd (WanMgr_UpdateFOControllerData c w)"
  have c1: "led_only c1 c' = prologue_ctrl (config w) c c'" for c'
    using wf by (simp add: c1_def update_FO_eq prologue_ctrl_def)
  have w1: "wf_db w1" "keeps w w1" "w1 = upd_config (\<lambda>d. d\<lparr>Cfg_ResetFailOverScan := False\<rparr>) w"
    using wf by (simp_all add: w1_def update_FO_eq keeps_def)
  from monitor_ok [OF w1(1), of b e] obtain w2 where w2: "WanMgr_FO_IfaceGroupMonitor b e w1 = Some ((), w2)"
    "keeps w1 w2" "fo_view w2 = fo_view w1" by (auto elim!: okE)
  then have wf2: "wf_db w2" by (simp add: keeps_def)
  have "\<exists>c' w'. (if LED_MANAGER b then UpdateLedStatus e c1 w2 else Some (c1, w2)) = Some (c', w') \<and>
      keeps w2 w' \<and> fo_view w' = fo_view w2 \<and> led_only c1 c'"
    using led_ok [OF wf2, of e c1] keeps_refl [OF wf2] by (auto simp: led_only_def ok_def)
  then obtain c' w3 where w3: "(if LED_MANAGER b then UpdateLedStatus e c1 w2 else Some (c1, w2)) = Some (c', w3)"
    "keeps w2 w3" "fo_view w3 = fo_view w2" "led_only c1 c'" by blast
  let ?w4 = "WanMgr_TelemetryEventTrigger b e c' w3"
  have "FO_prologue b e c w = Some (c', ?w4)"
    using w2(1) w3(1) by (auto simp: FO_prologue_def c1_def w1_def split_beta split: if_splits)
  moreover have "keeps w ?w4"
    by (rule keeps_same_db [OF telemetry_db]) (use w1 w2 w3 keeps_trans in blast)
  moreover have "fo_view ?w4 = fo_view w1"
    using fo_view_same_db [OF telemetry_db] w2(3) w3(3) by simp
  ultimately show ?thesis using w3(4) c1 w1(3) by (simp add: ok_def)
qed

lemma prologue_ctrl_fields:
  assumes "prologue_ctrl d c c'"
  shows "FO_CurrentActiveGroup c' = FO_CurrentActiveGroup c"
    "FO_HighestValidGroup c' = FO_HighestValidGroup c" "FO_FailOverType c' = FO_FailOverType c"
    "FO_WanEnable c' = Cfg_Enable d" "FO_ResetScan c' = Cfg_ResetFailOverScan d"
  using assms unfolding prologue_ctrl_def led_only_def by (cases c; cases c'; simp)+

lemma FO_pass_ok:
  assumes wf: "wf_db w" and inv: "FO_thread_inv t w"
  shows "ok w (FO_pass b e t w) FO_thread_inv"
proof -
  obtain ph st c where t: "t = (ph, st, c)" by (cases t)
  show ?thesis
  proof (cases ph)
    case FO_LOOP
    from FO_prologue_ok [OF wf, of b e c] obtain c' w' where p: "FO_prologue b e c w = Some (c', w')"
      "keeps w w'" "fo_view w' = fo_view (upd_config (\<lambda>d. d\<lparr>Cfg_ResetFailOverScan := False\<rparr>) w)"
      "prologue_ctrl (config w) c c'" by (auto elim!: okE)
    have "FO_inv (st, c') w"
      using inv t FO_inv_cong [OF prologue_ctrl_fields(1,2) [OF p(4)]] by (simp add: FO_thread_inv_def)
    then have "FO_inv (st, c') w'"
      using FO_inv_same [OF same_active_view [OF _ p(2)]] fo_view_D(3) [OF p(3)] by simp
    with p have "ok w (FO_dispatch e st c' w') FO_thread_inv"
      unfolding FO_thread_inv_def by (intro ok_rebase [OF p(2)] FO_dispatch_ok) (auto simp: keeps_def)
    with t FO_LOOP p(1) show ?thesis
      using inv keeps_refl [OF wf] by (simp add: FO_pass_prologue ok_return del: FO_pass.simps)
  next
    case FO_DRAIN
    with t inv running_ok [OF wf] show ?thesis by (auto simp: FO_thread_inv_def ok_def)
  next
    case FO_RETURNED
    with t inv wf show ?thesis by (auto intro!: ok_return keeps_refl)
  qed
qed

lemma join_group_ok:
  assumes wf: "wf_db w" and "iface_at k w = Some x"
  shows "ok w (FO_join_group i k w) (\<lambda>_ w'. fo_view w' = fo_view w)"
proof -
  have "ok w (with_group (Sel_Group (If_Selection x) - 1) () (\<lambda>g w.
       Some ((), upd_group g (\<lambda>G. G\<lparr>G_InterfaceAvailable :=
                                     G_InterfaceAvailable G OR push_bit i 1\<rparr>) w)) w)
    (\<lambda>_ w'. fo_view w' = fo_view w)"
    by (rule ok_with_group [OF wf]) (auto simp: ok_def keeps_def wf)
  with assms show ?thesis by (simp add: FO_join_group_def)
qed

lemma CtrlInit_ok:
  assumes wf: "wf_db w"
  shows "ok w (WanMgr_FailOverCtrlInit c w) (\<lambda>c' w'. fo_view w' = fo_view w \<and>
    FO_CurrentActiveGroup c' = 0 \<and> FO_HighestValidGroup c' = 0)"
proof -
  have "ok w (for_loop [0..<unat (total_ifaces w)]
       (\<lambda>i u w. continue (with_iface (of_nat i) () (FO_join_group i) w)) () w)
     (\<lambda>_ w'. fo_view w' = fo_view w)"
  proof (rule ok_loop_continue, use wf in simp_all, rule ok_with_iface)
    fix i :: nat and w' x
    assume "wf_db w'" "fo_view w' = fo_view w" "iface_at (unat (of_nat i :: uint)) w' = Some x"
    with join_group_ok [of "mlock w'" "unat (of_nat i :: uint)" x i]
    show "ok (mlock w') (FO_join_group i (unat (of_nat i :: uint)) (mlock w'))
        (\<lambda>r w''. fo_view (pthread_mutex_unlock w'') = fo_view w)" by (simp add: ok_def)
  qed simp_all
  then show ?thesis
    using wf by (auto simp: WanMgr_FailOverCtrlInit_def ok_def Let_def split: option.split)
qed

lemma Transition_Start_ok:
  assumes wf: "wf_db w"
  shows "ok w (FO_Transition_Start e c w) (\<lambda>r w'. fo_view w' = fo_view w \<and>
    fst r = STATE_FAILOVER_SCANNING_GROUP \<and> FO_CurrentActiveGroup (snd r) = 0 \<and>
    FO_HighestValidGroup (snd r) = 0)"
proof -
  have "ok w (for_loop [0..<unat (total_groups w)] (\<lambda>i u w. continue
            (FO_set_group_state STATE_GROUP_DEACTIVATED (of_nat i) w)) () w)
     (\<lambda>_ w'. fo_view w' = fo_view w)"
  proof (rule ok_loop_continue)
    fix i u w'
    assume "wf_db w'" "fo_view w' = fo_view w"
    with set_group_state_ok [of w' STATE_GROUP_DEACTIVATED "of_nat i"]
    show "ok w' (FO_set_group_state STATE_GROUP_DEACTIVATED (of_nat i) w')
      (\<lambda>_ w'. fo_view w' = fo_view w)" by simp
  qed (use wf in simp_all)
  then show ?thesis
    using wf keeps_refl [OF wf] by (auto simp: FO_Transition_Start_def ok_def Let_def)
qed

lemma FO_init_ok:
  assumes wf: "wf_db w" and no: "active_set w = {}"
  shows "ok w (FO_init b e c w) FO_thread_inv"
proof -
  from CtrlInit_ok [OF wf, of c] obtain c1 w1 where 1: "WanMgr_FailOverCtrlInit c w = Some (c1, w1)"
    "keeps w w1" "fo_view w1 = fo_view w" by (auto elim!: okE)
  define c2 where "c2 = fst (WanMgr_UpdateFOControllerData c1 w1)"
  define w2 where "w2 = snd (WanMgr_UpdateFOControllerData c1 w1)"
  from 1(2) have 2: "wf_db w2" "keeps w1 w2" "sel_view w2 = sel_view w1"
    by (simp_all add: w2_def update_FO_eq keeps_def)
  from Transition_Start_ok [OF 2(1), of e c2] obtain c3 w3 where
    3: "FO_Transition_Start e c2 w2 = Some ((STATE_FAILOVER_SCANNING_GROUP, c3), w3)" "keeps w2 w3"
      "fo_view w3 = fo_view w2" "FO_CurrentActiveGroup c3 = 0" "FO_HighestValidGroup c3 = 0"
    by (auto elim!: okE)
  from monitor_ok [OF keeps_wf [OF 3(2)], of b e] obtain w4 where
    4: "WanMgr_FO_IfaceGroupMonitor b e w3 = Some ((), w4)" "keeps w3 w4" "fo_view w4 = fo_view w3"
    by (auto elim!: okE)
  have kp: "keeps w w4" using 1(2) 2(2) 3(2) 4(2) keeps_trans by blast
  moreover have "active_set w4 = {}"
    using active_frame(1) [OF _ kp] no fo_view_D(3) [OF 1(3)] 2(3) fo_view_D(3) [OF 3(3)]
      fo_view_D(3) [OF 4(3)] by simp
  ultimately show ?thesis
    using 1(1) 3 4(1) by (simp add: FO_init_def ok_def c2_def w2_def split_beta FO_thread_inv_def FO_inv_def)
qed

text \<open>
  What the controller relies on: the others make no interface active, and an interface that stays
  active stays the selected interface of its group.
\<close>

definition FO_rely :: "world \<Rightarrow> world \<Rightarrow> bool" where
  "FO_rely w w' \<longleftrightarrow> interference w w' \<and> active_set w' \<subseteq> active_set w \<and>
     (\<forall>k \<in> active_set w'. \<forall>g. group_selected g w = Some k \<longrightarrow> group_selected g w' = Some k)"

interpretation fo: wan_thread "FO_pass b" FO_rely FO_thread_inv for b
proof
  show "ok w (FO_pass b e s w) FO_thread_inv" if "wf_db w" "FO_thread_inv s w" for w s e
    using that by (rule FO_pass_ok)
  show "interference w w'" if "FO_rely w w'" for w w' using that by (simp add: FO_rely_def)
  show "FO_thread_inv s w'" if "FO_thread_inv s w" "FO_rely w w'" for s w w'
    using that unfolding FO_thread_inv_def FO_inv_def FO_rely_def interference_def
    by (auto 4 4 split: prod.splits)
qed

end
