(* ===== verification/WanFailoverProps.thy ===== *)
theory WanFailoverProps
  imports WanFailoverLemmas WanSamples
begin

text \<open>
  Properties of the fail-over controller: at most one interface is active whatever the other threads
  do, the choice of the group, the restoration delay, the swap types, and the bookkeeping.
\<close>

subsection \<open>Concrete reads\<close>

lemma sample_active: "active_set sample_world = {}"
  by (auto simp: active_set_def sel_view_def sample_reads docsis_def ethwan_def sample_iface_reads
      dest!: lt_2_cases)

definition sample_ctrl :: WanMgr_FailOver_Controller_t where
  "sample_ctrl = \<lparr>FO_WanEnable = True, FO_FailOverType = HOTSWAP, FO_CurrentActiveGroup = 0,
     FO_HighestValidGroup = 0, FO_GroupSelectionTimer = 0, FO_FailOverTimer = 0,
     FO_RestorationDelay = 30, FO_ResetScan = False, FO_PhyState = WAN_IFACE_PHY_STATUS_UNKNOWN,
     FO_ActiveIfaceState = None, FO_TelemetryEvent = None, FO_AllowRemoteInterfaces = False\<rparr>"

subsection \<open>At most one active interface\<close>

lemma active_set_finite: "finite (active_set w)"
  by (rule finite_subset [of _ "{..<unat (total_ifaces w)}"]) (auto simp: active_set_def)

text \<open>
  C1. The fail-over thread never makes two interfaces active: from a data base without an active
  interface, whatever the other threads do between its passes (as long as they make no interface
  active and keep an active interface selected), every run of the thread returns, dereferences no bad
  pointer, leaves the mutex as it was, and at most one interface is active, the selected interface of
  the group the controller regards as active; none is active while it scans or after it stopped.
\<close>

theorem failover_at_most_one_active:
  assumes "wf_db w" "active_set w = {}"
    and rely: "\<And>others e' u. (others, e') \<in> set script \<Longrightarrow> wf_db u \<Longrightarrow> FO_rely u (others u)"
  shows "\<exists>ph st c' w'.
    Option.bind (FO_init b e c w) (\<lambda>(t, w). run_thread (FO_pass b) script t w) = Some ((ph, st, c'), w') \<and>
    wf_db w' \<and> mutex w' = mutex w \<and> card (active_set w') \<le> 1 \<and>
    active_set w' \<subseteq> set_option (group_selected (FO_CurrentActiveGroup c') w') \<and>
    (st \<in> {STATE_FAILOVER_SCANNING_GROUP, STATE_FAILOVER_EXIT} \<longrightarrow> active_set w' = {})"
proof -
  from FO_init_ok [OF assms(1,2), of b e c] obtain t w1 where
    i: "FO_init b e c w = Some (t, w1)" "keeps w w1" "FO_thread_inv t w1" by (rule okE)
  from i(2) have wf1: "wf_db w1" and m1: "mutex w1 = mutex w" by (auto simp: keeps_def)
  from fo.run_ok [OF wf1 i(3), of script b] rely obtain t' w' where
    r: "run_thread (FO_pass b) script t w1 = Some (t', w')" "wf_db w'" "FO_thread_inv t' w'"
      "mutex w' = mutex w1" by blast
  obtain ph st c' where t': "t' = (ph, st, c')" by (cases t')
  with r(3) have inv: "FO_inv (st, c') w'" by (simp add: FO_thread_inv_def)
  then have sub: "active_set w' \<subseteq> set_option (group_selected (FO_CurrentActiveGroup c') w')"
    by (simp add: FO_inv_def)
  then have "card (active_set w') \<le> card (set_option (group_selected (FO_CurrentActiveGroup c') w'))"
    by (intro card_mono) auto
  moreover have "card (set_option x) \<le> 1" for x :: "nat option" by (cases x) auto
  ultimately have "card (active_set w') \<le> 1" using le_trans by blast
  with i(1) r t' inv sub m1 show ?thesis by (auto simp: FO_inv_def)
qed

theorem failover_at_most_one_active_witness:
  "\<exists>ph st c' w'.
    Option.bind (FO_init sample_build sample_env sample_ctrl sample_world)
      (\<lambda>(t, w). run_thread (FO_pass sample_build) [(id, sample_env), (id, sample_env)] t w) =
      Some ((ph, st, c'), w') \<and> wf_db w' \<and> card (active_set w') \<le> 1"
proof -
  have rely: "FO_rely u (others u)" if "(others, e') \<in> set [(id, sample_env), (id, sample_env)]" "wf_db u"
    for others e' u using that by (auto simp: FO_rely_def interference_def)
  show ?thesis
    using failover_at_most_one_active [where script = "[(id, sample_env), (id, sample_env)]" and
        b = sample_build and e = sample_env and c = sample_ctrl, OF wf_sample_world sample_active]
      rely by blast
qed

subsection \<open>The choice of the group\<close>

text \<open>
  C2. \<open>MarkHighPriorityGroup\<close> computes the reference choice: the first ready group among those it may
  look at, the active group while a group's configuration changes.  It leaves everything else as it
  was, except that in a cold swap it releases deactivated groups above the first ready one.
\<close>

theorem mark_refines_choice:
  assumes "wf_db w"
  shows "\<exists>w'. MarkHighPriorityGroup e wait c w =
      Some (c\<lparr>FO_HighestValidGroup := mark_spec e wait c w\<rparr>, w') \<and>
    wf_db w' \<and> mutex w' = mutex w \<and> mark_frame c w w'"
  using mark_ok [OF assms, of e wait c] by (auto elim!: okE simp: keeps_def)

theorem mark_refines_choice_witness:
  "\<exists>w'. MarkHighPriorityGroup sample_env True sample_ctrl sample_world =
      Some (sample_ctrl\<lparr>FO_HighestValidGroup := mark_spec sample_env True sample_ctrl sample_world\<rparr>, w') \<and>
    wf_db w' \<and> mutex w' = mutex sample_world \<and> mark_frame sample_ctrl sample_world w'"
  by (rule mark_refines_choice [OF wf_sample_world])

lemma stop_group_effect:
  assumes wf: "wf_db w" and i: "i < unat (total_groups w)"
  shows "ok w (FO_stop_group (of_nat i) w) (\<lambda>_ w'. sel_view w' = sel_view w \<and>
    (\<forall>k. group_state k w' = (if k = i \<and> group_state k w = Some STATE_GROUP_RUNNING
       then Some STATE_GROUP_DEACTIVATED else group_state k w)))"
  unfolding FO_stop_group_def
proof (rule ok_with_group [OF wf])
  fix g
  assume "group_at (unat (of_nat i :: uint)) w = Some g"
  with wf i show "ok (mlock w) (Option.bind (group_at (unat (of_nat i :: uint)) (mlock w)) (\<lambda>g.
       Some ((), if G_State g = STATE_GROUP_RUNNING
         then upd_group (unat (of_nat i :: uint))
            (\<lambda>G. G\<lparr>G_State := STATE_GROUP_DEACTIVATED, G_ConfigChanged := True\<rparr>) (mlock w)
         else mlock w)))
     (\<lambda>r w'. sel_view (pthread_mutex_unlock w') = sel_view w \<and>
       (\<forall>k. group_state k (pthread_mutex_unlock w') =
          (if k = i \<and> group_state k w = Some STATE_GROUP_RUNNING
           then Some STATE_GROUP_DEACTIVATED else group_state k w)))"
    by (auto simp: ok_def keeps_def group_state_def index_bound)
qed (use i in \<open>simp add: index_bound\<close>)

lemma stop_loop_effect:
  assumes wf: "wf_db w"
  shows "ok w (for_loop [m..<unat (total_groups w)] (\<lambda>i u w. continue (FO_stop_group (of_nat i) w)) () w)
    (\<lambda>_ w'. sel_view w' = sel_view w \<and> (\<forall>k. group_state k w' =
       (if k \<in> {m..<unat (total_groups w)} \<and> group_state k w = Some STATE_GROUP_RUNNING
        then Some STATE_GROUP_DEACTIVATED else group_state k w)))"
proof (rule ok_for_loop [where I = "\<lambda>pre _ w'. sel_view w' = sel_view w \<and> (\<forall>k. group_state k w' =
       (if k \<in> set pre \<and> group_state k w = Some STATE_GROUP_RUNNING
        then Some STATE_GROUP_DEACTIVATED else group_state k w))"])
  fix pre i u w'
  assume "\<exists>todo. [m..<unat (total_groups w)] = pre @ i # todo" and kp: "keeps w w'"
    and I: "sel_view w' = sel_view w \<and> (\<forall>k. group_state k w' =
       (if k \<in> set pre \<and> group_state k w = Some STATE_GROUP_RUNNING
        then Some STATE_GROUP_DEACTIVATED else group_state k w))"
  then have "i \<in> set [m..<unat (total_groups w)]" by (metis in_set_conv_decomp)
  with kp have "wf_db w'" "i < unat (total_groups w')" by (auto simp: keeps_def)
  from stop_group_effect [OF this] obtain w'' where "FO_stop_group (of_nat i) w' = Some ((), w'')"
    "keeps w' w''" "sel_view w'' = sel_view w'" "\<forall>k. group_state k w'' =
      (if k = i \<and> group_state k w' = Some STATE_GROUP_RUNNING
       then Some STATE_GROUP_DEACTIVATED else group_state k w')" by (auto elim!: okE)
  with kp I show "ok w (continue (FO_stop_group (of_nat i) w')) (\<lambda>f w''. case f of
      Continue s' \<Rightarrow> sel_view w'' = sel_view w \<and> (\<forall>k. group_state k w'' =
       (if k \<in> set (pre @ [i]) \<and> group_state k w = Some STATE_GROUP_RUNNING
        then Some STATE_GROUP_DEACTIVATED else group_state k w))
    | Break s' \<Rightarrow> sel_view w'' = sel_view w \<and> (\<forall>k. group_state k w'' =
       (if k \<in> {m..<unat (total_groups w)} \<and> group_state k w = Some STATE_GROUP_RUNNING
        then Some STATE_GROUP_DEACTIVATED else group_state k w)))"
    by (auto simp: ok_def intro: keeps_trans)
qed (use wf in \<open>auto simp: keeps_refl\<close>)

definition activated :: "uint \<Rightarrow> world \<Rightarrow> world" where
  "activated inst w = snd (the (WanMgr_ActivateGroup inst w))"

lemma activate_transition:
  assumes wf: "wf_db w" and h: "FO_HighestValidGroup c \<noteq> 0"
  shows "\<exists>w'. FO_Transition_ActivateGroup c w = Some ((STATE_FAILOVER_GROUP_ACTIVE,
      c\<lparr>FO_TelemetryEvent := FO_activation_event c, FO_CurrentActiveGroup := FO_HighestValidGroup c\<rparr>), w') \<and>
    keeps w w' \<and> sel_view w' = sel_view (activated (FO_HighestValidGroup c) w) \<and>
    (\<forall>k. group_state k w' = (if FO_FailOverType c = COLDSWAP \<and> unat (FO_HighestValidGroup c) \<le> k \<and>
         k < unat (total_groups w) \<and> group_state k w = Some STATE_GROUP_RUNNING
       then Some STATE_GROUP_DEACTIVATED else group_state k w))"
proof -
  let ?h = "FO_HighestValidGroup c"
  define w1 where "w1 = activated ?h w"
  from activate_ok [OF wf, of ?h] obtain w0 where "WanMgr_ActivateGroup ?h w = Some (ANSC_STATUS_SUCCESS, w0)"
    "keeps w w0" by (auto elim!: okE)
  then have a: "WanMgr_ActivateGroup ?h w = Some (ANSC_STATUS_SUCCESS, w1)" "keeps w w1"
    by (simp_all add: w1_def activated_def)
  have st: "group_state k w1 = group_state k w" for k
    using a(1) wf by (auto simp: activate_eq group_state_def count_activation_def set_status_def
        option.map_comp comp_def split: option.splits if_splits)
  from a(2) have w1: "wf_db w1" "total_groups w1 = total_groups w" by (auto simp: keeps_def)
  from stop_loop_effect [OF w1(1), of "unat ?h"] obtain w2 where
    "for_loop [unat ?h..<unat (total_groups w)] (\<lambda>i u w. continue (FO_stop_group (of_nat i) w)) () w1
       = Some ((), w2)" "keeps w1 w2" "sel_view w2 = sel_view w1"
    "\<forall>k. group_state k w2 = (if k \<in> {unat ?h..<unat (total_groups w)} \<and>
        group_state k w1 = Some STATE_GROUP_RUNNING then Some STATE_GROUP_DEACTIVATED
        else group_state k w1)"
    unfolding w1(2) by (auto elim!: okE)
  moreover from this(2) a(2) have "keeps w w2" by (blast intro: keeps_trans)
  ultimately show ?thesis
    using h a w1 st unfolding w1_def [symmetric]
    by (auto simp: FO_Transition_ActivateGroup_def Let_def)
qed

lemma mark_spec_wait:
  assumes "FO_CurrentActiveGroup c = 0" "mark_spec e wait c w \<noteq> 0"
  obtains k where "mark_spec e wait c w = inst_of k" "k < unat (total_groups w)" "group_ready c w k"
    "\<And>j. j < k \<Longrightarrow> \<not> group_ready c w j \<and> \<not> scan_stops e wait c w j"
proof -
  let ?n = "unat (total_groups w)"
  note goal = that
  have *: thesis if k: "mark_spec e wait c w = group_inst (find (group_ready c w) [0..<m])" "m \<le> ?n"
    and no: "\<And>j. Suc j < m \<Longrightarrow> \<not> scan_stops e wait c w j" for m
  proof -
    obtain k where f: "find (group_ready c w) [0..<m] = Some k"
      using assms(2) k(1) by (cases "find (group_ready c w) [0..<m]") auto
    from find_upt_le [OF f] k no f show thesis by (intro goal [of k]) auto
  qed
  show thesis
  proof (cases "find (scan_stops e wait c w) [0..<?n]")
    case None
    then have "mark_spec e wait c w = group_inst (find (group_ready c w) [0..<?n])"
      by (simp add: mark_spec_def)
    with None show thesis by (intro * [of ?n]) (auto simp: find_None_iff)
  next
    case (Some m)
    with assms have "mark_spec e wait c w = group_inst (find (group_ready c w) [0..<Suc m])"
      by (auto simp: mark_spec_def Let_def simp del: upt_Suc split: if_splits)
    with find_upt_le [OF Some] show thesis by (intro * [of "Suc m"]) (auto simp del: upt_Suc)
  qed
qed

text \<open>
  C6. In the initial scan a group is activated only if it is ready and no group of higher priority
  deserves to be waited for: each of those is not ready, is not being reconfigured, has completed its
  first scan, and its selection time-out has passed.
\<close>

theorem scanning_waits_for_higher_groups:
  assumes wf: "wf_db w" and cur: "FO_CurrentActiveGroup c = 0"
    and run: "FO_State_ScanningGroup e c w = Some ((STATE_FAILOVER_GROUP_ACTIVE, c'), w')"
  shows "\<exists>k < unat (total_groups w). FO_CurrentActiveGroup c' = inst_of k \<and> group_ready c w k \<and>
    (\<forall>j < k. \<not> group_ready c w j \<and> \<not> group_test G_ConfigChanged w j \<and> \<not> scan_pending e c w j)"
proof -
  from mark_ok [OF wf, of e True c] obtain w1 where m: "keeps w w1" "MarkHighPriorityGroup e True c w =
      Some (c\<lparr>FO_HighestValidGroup := mark_spec e True c w\<rparr>, w1)" by (auto elim!: okE)
  from run m(2) have h: "mark_spec e True c w \<noteq> 0"
    by (auto simp: FO_State_ScanningGroup_def split: if_splits)
  let ?c = "c\<lparr>FO_HighestValidGroup := mark_spec e True c w\<rparr>"
  from run m(2) h have t: "FO_Transition_ActivateGroup ?c w1 = Some ((STATE_FAILOVER_GROUP_ACTIVE, c'), w')"
    by (auto simp: FO_State_ScanningGroup_def split: if_splits)
  with h have "FO_CurrentActiveGroup c' = mark_spec e True c w"
    using activate_transition [OF keeps_wf [OF m(1)], of ?c] by auto
  moreover obtain k where "mark_spec e True c w = inst_of k" "k < unat (total_groups w)"
    "group_ready c w k" "\<And>j. j < k \<Longrightarrow> \<not> group_ready c w j \<and> \<not> scan_stops e True c w j"
    using mark_spec_wait [OF cur h] by metis
  ultimately show ?thesis by (auto simp: scan_stops_def)
qed

lemma sample_selected: "group_selected 1 sample_world = Some 0" "group_selected 2 sample_world = Some 1"
  by (simp_all add: group_selected_def sel_view_def sample_reads sample_group_def)

lemma sample_scan: "find (scan_stops sample_env wait sample_ctrl sample_world) [0..<2] = None"
  by (auto simp: find_None_iff scan_stops_def scan_pending_def group_test_def sample_env_def
      sample_ctrl_def sample_reads sample_group_def dest!: lt_2_cases)

lemma sample_ready: "group_ready c sample_world 0"
  by (simp add: group_ready_def inst_of_def sample_selected iface_test_def sample_reads docsis_def
      sample_iface_reads iface_valid_def)

lemma sample_mark: "mark_spec sample_env wait sample_ctrl sample_world = 1"
  using sample_scan [of wait] sample_ready [of sample_ctrl]
  by (simp add: mark_spec_def sample_reads upt_rec inst_of_def)

theorem scanning_waits_for_higher_groups_witness:
  "\<exists>c' w'. FO_State_ScanningGroup sample_env sample_ctrl sample_world =
      Some ((STATE_FAILOVER_GROUP_ACTIVE, c'), w') \<and>
    (\<exists>k < unat (total_groups sample_world). FO_CurrentActiveGroup c' = inst_of k \<and>
       group_ready sample_ctrl sample_world k)"
proof -
  from mark_ok [OF wf_sample_world, of sample_env True sample_ctrl] obtain w1 where
    m: "keeps sample_world w1" "MarkHighPriorityGroup sample_env True sample_ctrl sample_world =
      Some (sample_ctrl\<lparr>FO_HighestValidGroup := 1\<rparr>, w1)"
    by (auto elim!: okE simp: sample_mark)
  from activate_transition [OF keeps_wf [OF m(1)], of "sample_ctrl\<lparr>FO_HighestValidGroup := 1\<rparr>"]
  obtain c' w' where r: "FO_State_ScanningGroup sample_env sample_ctrl sample_world =
      Some ((STATE_FAILOVER_GROUP_ACTIVE, c'), w')"
    using m(2) by (auto simp: FO_State_ScanningGroup_def sample_ctrl_def)
  have "FO_CurrentActiveGroup sample_ctrl = 0" by (simp add: sample_ctrl_def)
  from scanning_waits_for_higher_groups [OF wf_sample_world this r] r show ?thesis by blast
qed

subsection \<open>Fail-over and restoration\<close>

text \<open>
  C5. What the controller does while a group is active: with \<open>h\<close> the group it should use now, it stays
  if there is none or it is the active one; it deactivates the active group at once if \<open>h\<close> has lower
  priority (the active group went down) or \<open>h\<close> was never activated before; and otherwise it starts the
  restoration timer and leaves the active group in place.
\<close>

theorem group_active_decision:
  assumes wf: "wf_db w" and on: "FO_WanEnable c" "\<not> FO_ResetScan c"
    and h: "h = mark_spec e False c w"
    and first: "first = (h - 1 < total_groups w \<and> group_test (\<lambda>g. G_ActivationCount g = 0) w (unat (h - 1)))"
  shows "\<exists>st c' w'. FO_State_GroupActive e c w = Some ((st, c'), w') \<and> FO_HighestValidGroup c' = h \<and>
    FO_CurrentActiveGroup c' = FO_CurrentActiveGroup c \<and>
    st = (if h = 0 \<or> h = FO_CurrentActiveGroup c then STATE_FAILOVER_GROUP_ACTIVE
          else if FO_CurrentActiveGroup c < h \<or> first then STATE_FAILOVER_DEACTIVATE_GROUP
          else STATE_FAILOVER_RESTORATION_WAIT) \<and>
    (st = STATE_FAILOVER_RESTORATION_WAIT \<longrightarrow> FO_GroupSelectionTimer c' = clock e 2) \<and>
    active_set w' = active_set w - (if st = STATE_FAILOVER_DEACTIVATE_GROUP
      then set_option (group_selected (FO_CurrentActiveGroup c) w) else {})"
proof -
  let ?c = "c\<lparr>FO_HighestValidGroup := h\<rparr>" and ?cur = "FO_CurrentActiveGroup c"
  let ?t = "?c\<lparr>FO_FailOverTimer := clock e 1\<rparr>"
  from mark_ok [OF wf, of e False c] obtain w1 where m: "keeps w w1" "mark_frame c w w1"
    "MarkHighPriorityGroup e False c w = Some (?c, w1)" by (auto elim!: okE simp: h)
  then have wf1: "wf_db w1" "total_groups w1 = total_groups w" by (auto simp: keeps_def)
  have same: "same_active w w1" by (rule same_active_view [OF mark_frame_same(1) [OF m(2,1)] m(1)])
  define n where "n = (case if h - 1 < total_groups w then group_at (unat (h - 1)) w1 else None of
      None \<Rightarrow> -1 | Some g \<Rightarrow> G_ActivationCount g)"
  have n: "n = 0 \<longleftrightarrow> first"
  proof -
    have "map_option group_core (group_at (unat (h - 1)) w1) = map_option group_core (group_at (unat (h - 1)) w)"
      using m(2) by (simp add: mark_frame_def)
    from map_core_field [where f = G_ActivationCount, OF this group_core_fields(5)]
    show ?thesis unfolding n_def first group_test_def
      by (cases "group_at (unat (h - 1)) w1"; cases "group_at (unat (h - 1)) w") auto
  qed
  have d: "\<exists>w'. FO_Transition_DeactivateGroup ?t w1 = Some ((STATE_FAILOVER_DEACTIVATE_GROUP, ?t), w') \<and>
      active_set w' = active_set w - set_option (group_selected ?cur w)"
    using deactivate_ok [OF wf1(1), of ?cur] same
    by (auto simp: FO_Transition_DeactivateGroup_def ok_def same_active_def)
  have r: "with_group (h - 1) (-1) (\<lambda>k w. Option.bind (group_at k w) (\<lambda>g. Some (G_ActivationCount g, w))) w1
      = Some (n, w1)"
    using read_group [OF wf1(1), of "h - 1" "-1" G_ActivationCount] by (simp add: n_def wf1(2))
  note run = FO_State_GroupActive_def m(3) on r FO_Transition_Restoration_def
  consider "h = 0" | "h \<noteq> 0" "h = ?cur" | "h \<noteq> 0" "?cur < h" | "h \<noteq> 0" "h < ?cur"
    using linorder_cases [of h ?cur] by metis
  then show ?thesis
  proof cases
    case 1
    with same show ?thesis by (simp add: run same_active_def)
  next
    case 2
    with same r show ?thesis by (simp add: FO_State_GroupActive_def m(3) on same_active_def)
  next
    case 3
    with d show ?thesis by (auto simp: run)
  next
    case 4
    with d n same show ?thesis by (auto simp: run same_active_def)
  qed
qed

theorem group_active_decision_witness:
  "\<exists>st c' w'. FO_State_GroupActive sample_env (sample_ctrl\<lparr>FO_CurrentActiveGroup := 2\<rparr>) sample_world =
      Some ((st, c'), w') \<and> st = STATE_FAILOVER_RESTORATION_WAIT \<and> FO_GroupSelectionTimer c' = 1000"
proof -
  let ?c = "sample_ctrl\<lparr>FO_CurrentActiveGroup := 2\<rparr>"
  have "find (scan_stops sample_env False ?c sample_world) [0..<2] = None"
    using sample_scan [of False] by (simp add: scan_stops_def [abs_def])
  then have h: "1 = mark_spec sample_env False ?c sample_world"
    using sample_ready [of ?c] by (simp add: mark_spec_def sample_reads upt_rec inst_of_def)
  have first: "False = ((1::uint) - 1 < total_groups sample_world \<and>
      group_test (\<lambda>g. G_ActivationCount g = 0) sample_world (unat ((1::uint) - 1)))"
    by (simp add: group_test_def sample_reads sample_group_def)
  have on: "FO_WanEnable ?c" "\<not> FO_ResetScan ?c" by (simp_all add: sample_ctrl_def)
  from group_active_decision [OF wf_sample_world on h first] show ?thesis
    by (auto simp: sample_ctrl_def sample_env_def)
qed

text \<open>
  C3. The restoration delay is respected: while the controller waits to restore a group of higher
  priority, the active interface stays active unless WAN is disabled or more seconds than
  \<open>RestorationDelay\<close> have passed since the timer started.
\<close>

theorem restoration_delay_respected:
  assumes wf: "wf_db w" and run: "FO_State_RestorationWait e c w = Some ((st, c'), w')"
    and moved: "active_set w' \<noteq> active_set w"
  shows "\<not> FO_WanEnable c \<or> int (unat (FO_RestorationDelay c)) < clock e 1 - FO_GroupSelectionTimer c"
proof (rule ccontr)
  assume "\<not> ?thesis"
  then have on: "FO_WanEnable c"
    "\<not> int (unat (FO_RestorationDelay c)) < clock e 1 - FO_GroupSelectionTimer c" by auto
  obtain b where "FO_group_status (FO_HighestValidGroup c) False
      (\<lambda>st. st \<noteq> WAN_IFACE_STATUS_STANDBY \<and> st \<noteq> WAN_IFACE_STATUS_UP) w = Some (b, w)"
    using group_status_pure [OF wf] by blast
  with on run have "w' = w"
    by (auto simp: FO_State_RestorationWait_def FO_Transition_RestorationFail_def split: if_splits)
  with moved show False by simp
qed

text \<open>The sample data base with the second interface active and waiting to restore the first.\<close>

definition restoring_world :: world where
  "restoring_world = set_status 1 WAN_IFACE_ACTIVE sample_world"

lemma restoring_world_reads:
  "wf_db restoring_world" "group_selected 2 restoring_world = Some 1"
  "group_selected 1 restoring_world = Some 0" "status_of 1 restoring_world = Some WAN_IFACE_ACTIVE"
  "virt_status 0 restoring_world = Some WAN_IFACE_STATUS_STANDBY"
  "active_set restoring_world = {1}" "total_groups restoring_world = 2"
proof -
  show "wf_db restoring_world" "group_selected 2 restoring_world = Some 1"
    "group_selected 1 restoring_world = Some 0" "total_groups restoring_world = 2"
    by (simp_all add: restoring_world_def wf_sample_world sample_selected sample_reads)
  show s: "status_of 1 restoring_world = Some WAN_IFACE_ACTIVE"
    by (simp add: restoring_world_def status_of_set_status) (simp add: status_of_def sel_view_def sample_reads)
  show "virt_status 0 restoring_world = Some WAN_IFACE_STATUS_STANDBY"
    by (simp add: restoring_world_def set_status_def virt_status_def sample_reads docsis_def
        sample_iface_reads)
  have "status_of 0 restoring_world = Some WAN_IFACE_SELECTED"
    by (simp add: restoring_world_def status_of_set_status)
      (simp add: status_of_def sel_view_def sample_reads docsis_def sample_iface_reads)
  with s show "active_set restoring_world = {1}"
    by (auto simp: active_set_status_of restoring_world_def sample_reads dest: lt_2_cases)
qed

theorem restoration_delay_respected_witness:
  "\<exists>st c' w'. FO_State_RestorationWait sample_env
      (sample_ctrl\<lparr>FO_CurrentActiveGroup := 2, FO_HighestValidGroup := 1\<rparr>) restoring_world =
      Some ((st, c'), w') \<and> active_set w' \<noteq> active_set restoring_world \<and>
    (\<not> FO_WanEnable sample_ctrl \<or>
     int (unat (FO_RestorationDelay sample_ctrl)) < clock sample_env 1 - FO_GroupSelectionTimer sample_ctrl)"
proof -
  let ?c = "sample_ctrl\<lparr>FO_CurrentActiveGroup := 2, FO_HighestValidGroup := 1\<rparr>"
  note w = restoring_world_reads
  have "FO_group_status 1 False (\<lambda>st. st \<noteq> WAN_IFACE_STATUS_STANDBY \<and> st \<noteq> WAN_IFACE_STATUS_UP)
      restoring_world = Some (False, restoring_world)"
    using group_status_Some [OF w(1) w(3)] w(5) by fastforce
  moreover obtain w' where "WanMgr_DeactivateGroup 2 restoring_world = Some (ANSC_STATUS_SUCCESS, w')"
    "active_set w' = {}"
    using deactivate_ok [OF w(1), of 2] w(2,6) by (auto elim!: okE)
  ultimately have r: "\<exists>st c'. FO_State_RestorationWait sample_env ?c restoring_world = Some ((st, c'), w') \<and>
      active_set w' \<noteq> active_set restoring_world"
    by (simp add: FO_State_RestorationWait_def FO_Transition_DeactivateGroup_def sample_ctrl_def
        sample_env_def w(6))
  then obtain st c' where r: "FO_State_RestorationWait sample_env ?c restoring_world = Some ((st, c'), w')"
    "active_set w' \<noteq> active_set restoring_world" by blast
  from restoration_delay_respected [OF w(1) r] r show ?thesis
    by (simp add: sample_ctrl_def)
qed

subsection \<open>Swap types\<close>

text \<open>
  C7. Activating a group in a cold swap leaves no group of lower priority running: each is
  deactivated, which stops its selection thread; the states of the groups from the activated one
  upwards do not change, and in a hot swap no state changes.
\<close>

theorem coldswap_stops_lower_groups:
  assumes wf: "wf_db w" and h: "FO_HighestValidGroup c \<noteq> 0"
    and run: "FO_Transition_ActivateGroup c w = Some ((st, c'), w')"
  shows "st = STATE_FAILOVER_GROUP_ACTIVE \<and> FO_CurrentActiveGroup c' = FO_HighestValidGroup c \<and>
    (if FO_FailOverType c = COLDSWAP
     then (\<forall>k. unat (FO_CurrentActiveGroup c') \<le> k \<longrightarrow> group_state k w' \<noteq> Some STATE_GROUP_RUNNING) \<and>
          (\<forall>k < unat (FO_CurrentActiveGroup c'). group_state k w' = group_state k w)
     else (\<forall>k. group_state k w' = group_state k w))"
proof -
  from activate_transition [OF wf h] run have c': "st = STATE_FAILOVER_GROUP_ACTIVE"
    "FO_CurrentActiveGroup c' = FO_HighestValidGroup c"
    and g: "group_state k w' = (if FO_FailOverType c = COLDSWAP \<and> unat (FO_HighestValidGroup c) \<le> k \<and>
         k < unat (total_groups w) \<and> group_state k w = Some STATE_GROUP_RUNNING
       then Some STATE_GROUP_DEACTIVATED else group_state k w)" for k
    by auto
  have "group_state k w = None" if "unat (total_groups w) \<le> k" for k
    using that wf by (auto simp: group_state_def group_at_def wf_db_def split: option.splits)
  with c' g show ?thesis by (auto simp: not_less [symmetric])
qed

theorem coldswap_stops_lower_groups_witness:
  "\<exists>st c' w'. FO_Transition_ActivateGroup
      (sample_ctrl\<lparr>FO_FailOverType := COLDSWAP, FO_HighestValidGroup := 1\<rparr>) sample_world =
      Some ((st, c'), w') \<and> FO_CurrentActiveGroup c' = 1 \<and>
    group_state 1 sample_world = Some STATE_GROUP_RUNNING \<and> group_state 1 w' \<noteq> Some STATE_GROUP_RUNNING"
proof -
  let ?c = "sample_ctrl\<lparr>FO_FailOverType := COLDSWAP, FO_HighestValidGroup := 1\<rparr>"
  have h: "FO_HighestValidGroup ?c \<noteq> 0" by simp
  from activate_transition [OF wf_sample_world h] obtain st c' w' where
    r: "FO_Transition_ActivateGroup ?c sample_world = Some ((st, c'), w')" by blast
  from coldswap_stops_lower_groups [OF wf_sample_world h r] r show ?thesis
    by (auto simp: group_state_def sample_reads sample_group_def)
qed

text \<open>
  C4. Deactivating a group undoes its activation: every interface has the selection status it had
  before, no other interface is touched by either call, and the group has counted one activation.
\<close>

theorem activate_deactivate_roundtrip:
  assumes wf: "wf_db w" and sel: "group_selected inst w = Some j"
    and st: "status_of j w = Some WAN_IFACE_SELECTED"
  shows "\<exists>w1 w2. WanMgr_ActivateGroup inst w = Some (ANSC_STATUS_SUCCESS, w1) \<and>
    WanMgr_DeactivateGroup inst w1 = Some (ANSC_STATUS_SUCCESS, w2) \<and>
    status_of j w1 = Some WAN_IFACE_ACTIVE \<and>
    (\<forall>k. k \<noteq> j \<longrightarrow> status_of k w1 = status_of k w) \<and> (\<forall>k. status_of k w2 = status_of k w) \<and>
    map_option G_ActivationCount (group_at (unat (inst - 1)) w2) =
      map_option (\<lambda>g. G_ActivationCount g + 1) (group_at (unat (inst - 1)) w)"
proof -
  let ?w1 = "count_activation inst (set_status j WAN_IFACE_ACTIVE w)"
  let ?w2 = "set_status j WAN_IFACE_SELECTED ?w1"
  have a: "WanMgr_ActivateGroup inst w = Some (ANSC_STATUS_SUCCESS, ?w1)"
    using wf sel st by (simp add: activate_eq)
  have s1: "status_of k ?w1 = (if k = j then Some WAN_IFACE_ACTIVE else status_of k w)" for k
    using st status_of_set_status [of k j WAN_IFACE_ACTIVE w] by (auto simp: status_of_def)
  have "WanMgr_DeactivateGroup inst ?w1 = Some (ANSC_STATUS_SUCCESS, ?w2)"
    using deactivate_eq [of ?w1 inst] wf sel s1 [of j] by simp
  moreover have "status_of k ?w2 = status_of k w" for k
    unfolding status_of_set_status s1 using st by simp
  moreover have "map_option G_ActivationCount (group_at (unat (inst - 1)) ?w2) =
      map_option (\<lambda>g. G_ActivationCount g + 1) (group_at (unat (inst - 1)) w)"
    by (simp add: count_activation_def option.map_comp comp_def)
  ultimately show ?thesis using a s1 by auto
qed

theorem activate_deactivate_roundtrip_witness:
  "\<exists>w1 w2. WanMgr_ActivateGroup 1 sample_world = Some (ANSC_STATUS_SUCCESS, w1) \<and>
    WanMgr_DeactivateGroup 1 w1 = Some (ANSC_STATUS_SUCCESS, w2) \<and>
    status_of 0 w1 = Some WAN_IFACE_ACTIVE \<and> (\<forall>k. status_of k w2 = status_of k sample_world)"
proof -
  have "status_of 0 sample_world = Some WAN_IFACE_SELECTED"
    by (simp add: status_of_def sel_view_def sample_reads docsis_def sample_iface_reads)
  from activate_deactivate_roundtrip [OF wf_sample_world sample_selected(1) this] show ?thesis by blast
qed

subsection \<open>Requests and reports\<close>

text \<open>
  C10. A request to restart the scan (\<open>ResetFailOverScan\<close>) that arrives while the controller waits to
  restore a group or for a deactivation is lost: the prologue of the pass takes it out of the
  configuration, and the two waiting states behave as without it, so that the next pass, which reads
  the configuration again, finds nothing.
\<close>

theorem reset_request_lost:
  assumes wf: "wf_db w" and st: "st \<in> {STATE_FAILOVER_RESTORATION_WAIT, STATE_FAILOVER_DEACTIVATE_GROUP}"
  shows "\<not> Cfg_ResetFailOverScan (config (snd (WanMgr_UpdateFOControllerData c w))) \<and>
    FO_ResetScan (fst (WanMgr_UpdateFOControllerData c w)) = Cfg_ResetFailOverScan (config w) \<and>
    FO_dispatch e st (c\<lparr>FO_ResetScan := True\<rparr>) w =
      map_option (apfst (apsnd (apsnd (\<lambda>c'. c'\<lparr>FO_ResetScan := True\<rparr>))))
        (FO_dispatch e st (c\<lparr>FO_ResetScan := False\<rparr>) w)"
proof -
  obtain b where b: "FO_group_status (FO_HighestValidGroup c) False
      (\<lambda>st. st \<noteq> WAN_IFACE_STATUS_STANDBY \<and> st \<noteq> WAN_IFACE_STATUS_UP) w = Some (b, w)"
    using group_status_pure [OF wf] by blast
  have d: "FO_Transition_DeactivateGroup (c\<lparr>FO_ResetScan := True\<rparr>) w =
      map_option (apfst (apsnd (\<lambda>c'. c'\<lparr>FO_ResetScan := True\<rparr>)))
        (FO_Transition_DeactivateGroup (c\<lparr>FO_ResetScan := False\<rparr>) w)"
    using deactivate_eq [OF wf] by (simp add: FO_Transition_DeactivateGroup_def)
  have rw: "FO_State_RestorationWait e (c\<lparr>FO_ResetScan := True\<rparr>) w =
      map_option (apfst (apsnd (\<lambda>c'. c'\<lparr>FO_ResetScan := True\<rparr>)))
        (FO_State_RestorationWait e (c\<lparr>FO_ResetScan := False\<rparr>) w)"
    using b d by (simp add: FO_State_RestorationWait_def FO_Transition_RestorationFail_def)
  obtain b' where b': "FO_group_status (FO_CurrentActiveGroup c) True
      (\<lambda>st. st \<noteq> WAN_IFACE_STATUS_UP) w = Some (b', w)" using group_status_pure [OF wf] by blast
  have a: "FO_Transition_ActivateGroup (c\<lparr>FO_ResetScan := True\<rparr>) w =
      map_option (apfst (apsnd (\<lambda>c'. c'\<lparr>FO_ResetScan := True\<rparr>)))
        (FO_Transition_ActivateGroup (c\<lparr>FO_ResetScan := False\<rparr>) w)"
    by (auto simp: FO_Transition_ActivateGroup_def FO_activation_event_def Let_def split_beta
        split: Option.bind_split)
  have dg: "FO_State_DeactivateGroup (c\<lparr>FO_ResetScan := True\<rparr>) w =
      map_option (apfst (apsnd (\<lambda>c'. c'\<lparr>FO_ResetScan := True\<rparr>)))
        (FO_State_DeactivateGroup (c\<lparr>FO_ResetScan := False\<rparr>) w)"
    using b' a by (simp add: FO_State_DeactivateGroup_def)
  show ?thesis
    using st by (auto simp: update_FO_eq [OF wf] rw dg option.map_comp comp_def apfst_def apsnd_def
        map_prod_def split_beta)
qed

theorem reset_request_lost_witness:
  "\<not> Cfg_ResetFailOverScan (config (snd (WanMgr_UpdateFOControllerData sample_ctrl restoring_world))) \<and>
    FO_dispatch sample_env STATE_FAILOVER_RESTORATION_WAIT (sample_ctrl\<lparr>FO_ResetScan := True\<rparr>) restoring_world =
      map_option (apfst (apsnd (apsnd (\<lambda>c'. c'\<lparr>FO_ResetScan := True\<rparr>))))
        (FO_dispatch sample_env STATE_FAILOVER_RESTORATION_WAIT (sample_ctrl\<lparr>FO_ResetScan := False\<rparr>)
          restoring_world)"
  using reset_request_lost [OF restoring_world_reads(1),
      of STATE_FAILOVER_RESTORATION_WAIT sample_ctrl sample_env] by blast

text \<open>
  A telemetry event is reported once: an event equal to the last one reported does nothing, so
  reporting twice is reporting once; a new event is remembered, and where telemetry is built in its
  counter is the last thing emitted.
\<close>

theorem telemetry_reported_once:
  "WanMgr_TelemetryEventTrigger b e' c (WanMgr_TelemetryEventTrigger b e c w) =
     WanMgr_TelemetryEventTrigger b e c w \<and>
   (if FO_TelemetryEvent c = lastEvent w then WanMgr_TelemetryEventTrigger b e c w = w
    else lastEvent (WanMgr_TelemetryEventTrigger b e c w) = FO_TelemetryEvent c \<and>
      (TELEMETRY2 b \<longrightarrow> hd (out (WanMgr_TelemetryEventTrigger b e c w)) =
         TelemetryEvent (TelemetryEventStr (FO_TelemetryEvent c))))"
  by (auto simp: WanMgr_TelemetryEventTrigger_def Let_def)

theorem telemetry_reported_once_witness:
  "out (WanMgr_TelemetryEventTrigger sample_build sample_env
      (sample_ctrl\<lparr>FO_TelemetryEvent := Some WAN_RESTORE_FAIL\<rparr>)
      (WanMgr_TelemetryEventTrigger sample_build sample_env
        (sample_ctrl\<lparr>FO_TelemetryEvent := Some WAN_RESTORE_FAIL\<rparr>) sample_world)) =
    [TelemetryEvent (Some ''WAN_RESTORE_FAIL_COUNT'')]"
  unfolding telemetry_reported_once [THEN conjunct1]
  by (simp add: WanMgr_TelemetryEventTrigger_def sample_world_def mk_world_reads sample_build_def)

subsection \<open>Lamps\<close>

lemma led_active_quiescent:
  assumes "FO_led_active e c j w = Some (c', w')"
  shows "\<exists>x v. iface_at j w = Some x \<and> head_virtif x = Some v \<and>
    (VI_eCurrentState v \<noteq> WAN_STATE_EXIT \<longrightarrow> FO_ActiveIfaceState c' = Some (VI_eCurrentState v)) \<and>
    (VI_eCurrentState v = WAN_STATE_EXIT \<longrightarrow> FO_ActiveIfaceState c' = Some WAN_STATE_EXIT \<and>
       FO_PhyState c' = If_BaseInterfaceStatus x)"
  using assms by (auto simp: FO_led_active_def Let_def split: Option.bind_splits if_splits)

lemma led_active_again:
  assumes "FO_led_active e c j w = Some (c', w')" and "iface_at j u = iface_at j w"
  shows "FO_led_active e' c' j u = Some (c', u)"
  using led_active_quiescent [OF assms(1)] assms(2)
  by (auto simp: FO_led_active_def Let_def)

lemma led_loop:
  assumes wf: "wf_db u" and "\<forall>k \<in> set ks. k < unat (total_ifaces u)"
  shows "for_loop ks (\<lambda>uiLoopCount st w. continue
           (with_iface (of_nat uiLoopCount) st (\<lambda>j w. do {
              d \<leftarrow> iface_at j w;
              Some (best_phy d st, w)
            }) w)) st u = Some (fold (\<lambda>k. best_phy (the (iface_at k u))) ks st, u)"
  using assms(2)
proof (induction ks arbitrary: st)
  case (Cons k ks)
  then have k: "k < unat (total_ifaces u)" by simp
  from wf_db_iface_at [OF wf k] obtain x where "iface_at k u = Some x" by blast
  with Cons k wf show ?case by (simp add: for_loop_Cons with_wf index_bound)
qed simp

lemma led_selected:
  assumes "FO_CurrentActiveGroup c \<noteq> 0"
  shows "UpdateLedStatus e c w = with_selected (FO_CurrentActiveGroup c) c c (\<lambda>_. FO_led_active e c) w"
  using assms by (simp add: UpdateLedStatus_def word_neq_0_conv)

text \<open>
  The lamps are quiet while nothing changes: a second update right after the first emits nothing
  and leaves the controller and the world as they are.
\<close>

theorem led_update_idempotent:
  assumes wf: "wf_db w" and run: "UpdateLedStatus e c w = Some (c', w')"
  shows "UpdateLedStatus e' c' w' = Some (c', w')"
proof -
  from led_ok [OF wf, of e c] run have kp: "keeps w w'" and v: "fo_view w' = fo_view w"
    and l: "led_only c c'" by (auto elim!: okE)
  from kp have wf': "wf_db w'" and tot: "total_ifaces w' = total_ifaces w" "total_groups w' = total_groups w"
    by (auto simp: keeps_def)
  from l have cur: "FO_CurrentActiveGroup c' = FO_CurrentActiveGroup c"
    unfolding led_only_def by (cases c; cases c'; simp)
  note at = fo_view_D(1) [OF v]
  show ?thesis
  proof (cases "FO_CurrentActiveGroup c = 0")
    case True
    from led_loop [OF wf, of "[0..<unat (total_ifaces w)]" WAN_IFACE_PHY_STATUS_DOWN]
      led_loop [OF wf', of "[0..<unat (total_ifaces w)]" WAN_IFACE_PHY_STATUS_DOWN]
    show ?thesis
      using True run unfolding UpdateLedStatus_def total_wf [OF wf] total_wf [OF wf'] tot cur at
      by (auto simp: Let_def tot)
  next
    case False
    show ?thesis
    proof (cases "group_selected (FO_CurrentActiveGroup c) w")
      case None
      with run have "c' = c" "w' = w"
        using with_selected_None [OF wf None, of c c] by (auto simp: led_selected [OF False])
      then show ?thesis
        using with_selected_None [OF wf None, of c c] by (auto simp: led_selected [OF False])
    next
      case (Some j)
      with run obtain w0 where l: "FO_led_active e c j (mlock (mlock w)) = Some (c', w0)"
        by (auto simp: led_selected [OF False] with_selected_Some [OF wf Some])
      have "group_selected (FO_CurrentActiveGroup c) w' = Some j"
        using Some active_frame(2) [OF fo_view_D(3) [OF v] kp] by simp
      from with_selected_Some [OF wf' this] have "UpdateLedStatus e' c' w' =
        map_option (apsnd pthread_mutex_unlock) (map_option (apsnd pthread_mutex_unlock)
          (FO_led_active e' c' j (mlock (mlock w'))))"
        using False cur by (simp add: led_selected)
      moreover have "FO_led_active e' c' j (mlock (mlock w')) = Some (c', mlock (mlock w'))"
        by (rule led_active_again [OF l]) (simp add: at)
      ultimately show ?thesis by simp
    qed
  qed
qed

theorem led_update_idempotent_witness:
  "\<exists>c' w'. UpdateLedStatus sample_env sample_ctrl sample_world = Some (c', w') \<and>
    UpdateLedStatus sample_env c' w' = Some (c', w')"
  using led_ok [OF wf_sample_world, of sample_env sample_ctrl]
    led_update_idempotent [OF wf_sample_world, of sample_env sample_ctrl] by (auto elim!: okE)

subsection \<open>Starting the selection threads\<close>

text \<open>The time-out of a group after the loop: an upper bound of its members' time-outs, and attained.\<close>

definition member :: "nat \<Rightarrow> nat \<Rightarrow> world \<Rightarrow> uint option" where
  "member i j w = (case iface_at j w of None \<Rightarrow> None
     | Some x \<Rightarrow> if Sel_Group (If_Selection x) = inst_of i then Some (Sel_Timeout (If_Selection x)) else None)"

definition scan_timeout :: "nat \<Rightarrow> nat \<Rightarrow> world \<Rightarrow> uint \<Rightarrow> bool" where
  "scan_timeout i n w t \<longleftrightarrow> (\<forall>j < n. \<forall>m. member i j w = Some m \<longrightarrow> m \<le> t) \<and>
     (t = 0 \<or> (\<exists>j < n. member i j w = Some t))"

lemma scan_timeout_step:
  assumes "scan_timeout i j w t" "iface_at j w = Some x"
  shows "scan_timeout i (Suc j) w (if inst_of i = Sel_Group (If_Selection x) \<and> t < Sel_Timeout (If_Selection x)
    then Sel_Timeout (If_Selection x) else t)"
proof -
  let ?new = "inst_of i = Sel_Group (If_Selection x) \<and> t < Sel_Timeout (If_Selection x)"
  have m: "member i j w = (if Sel_Group (If_Selection x) = inst_of i then Some (Sel_Timeout (If_Selection x))
      else None)" using assms(2) by (simp add: member_def)
  show ?thesis
  proof (cases ?new)
    case True
    then have "m' \<le> Sel_Timeout (If_Selection x)" if "m' \<le> t" for m'
      using that by (meson less_imp_le order_trans)
    with True assms(1) m show ?thesis by (auto simp: scan_timeout_def less_Suc_eq)
  next
    case False
    with m have "\<forall>m'. member i j w = Some m' \<longrightarrow> m' \<le> t" by (auto split: if_splits)
    with assms(1) have "scan_timeout i (Suc j) w t"
      unfolding scan_timeout_def less_Suc_eq by blast
    then show ?thesis unfolding if_not_P [OF False] .
  qed
qed

lemma SelectionTimeOut_effect:
  assumes wf: "wf_db w" and k: "group_at k w = Some g" "G_SelectionTimeOut g = 0"
  shows "ok w (FO_SelectionTimeOut i k w) (\<lambda>_ w'. fo_view w' = fo_view w \<and> out w' = out w \<and>
    (\<exists>t. group_at k w' = Some (g\<lparr>G_SelectionTimeOut := t\<rparr>) \<and> scan_timeout i (unat (total_ifaces w)) w t))"
  unfolding FO_SelectionTimeOut_def total_wf(2) [OF wf] Let_def prod.case
proof (rule ok_for_loop [where I = "\<lambda>pre _ w'. fo_view w' = fo_view w \<and> out w' = out w \<and>
    (\<exists>t. group_at k w' = Some (g\<lparr>G_SelectionTimeOut := t\<rparr>) \<and> scan_timeout i (length pre) w t)"])
  fix pre j u w'
  assume "\<exists>todo. [0..<unat (total_ifaces w)] = pre @ j # todo" and kp: "keeps w w'"
    and I: "fo_view w' = fo_view w \<and> out w' = out w \<and>
      (\<exists>t. group_at k w' = Some (g\<lparr>G_SelectionTimeOut := t\<rparr>) \<and> scan_timeout i (length pre) w t)"
  then have j: "j = length pre" "j < unat (total_ifaces w)" by (auto dest: upt_split)
  from kp have w': "wf_db w'" "total_ifaces w' = total_ifaces w" by (auto simp: keeps_def)
  from I obtain t where t: "group_at k w' = Some (g\<lparr>G_SelectionTimeOut := t\<rparr>)" "scan_timeout i j w t"
    using j by auto
  from wf_db_iface_at [OF wf j(2)] obtain x where x: "iface_at j w = Some x" by blast
  then have x': "iface_at j w' = Some x" using I fo_view_D(1) by metis
  let ?t = "if inst_of i = Sel_Group (If_Selection x) \<and> t < Sel_Timeout (If_Selection x)
    then Sel_Timeout (If_Selection x) else t"
  define w'' where "w'' = (if inst_of i = Sel_Group (If_Selection x) \<and> t < Sel_Timeout (If_Selection x)
    then upd_group k (\<lambda>G. G\<lparr>G_SelectionTimeOut := Sel_Timeout (If_Selection x)\<rparr>) w' else w')"
  have run: "with_iface (of_nat j) () (\<lambda>j w. do {
          d \<leftarrow> iface_at j w;
          g \<leftarrow> group_at k w;
          Some ((), if inst_of i = Sel_Group (If_Selection d) \<and>
                       G_SelectionTimeOut g < Sel_Timeout (If_Selection d)
                    then upd_group k (\<lambda>G. G\<lparr>G_SelectionTimeOut := Sel_Timeout (If_Selection d)\<rparr>) w
                    else w)
        }) w' = Some ((), w'')"
    using w' x' t(1) index_bound [OF j(2)] by (simp add: with_wf w''_def)
  have "keeps w w''" using kp by (simp add: w''_def keeps_def)
  moreover have "fo_view w'' = fo_view w" "out w'' = out w" using I by (simp_all add: w''_def)
  moreover have "group_at k w'' = Some (g\<lparr>G_SelectionTimeOut := ?t\<rparr>)"
    using t(1) by (simp add: w''_def)
  moreover have "scan_timeout i (length (pre @ [j])) w ?t"
    using scan_timeout_step [OF t(2) x] j(1) by simp
  ultimately show "ok w (continue (with_iface (of_nat j) () (\<lambda>j w. do {
          d \<leftarrow> iface_at j w;
          g \<leftarrow> group_at k w;
          Some ((), if inst_of i = Sel_Group (If_Selection d) \<and>
                       G_SelectionTimeOut g < Sel_Timeout (If_Selection d)
                    then upd_group k (\<lambda>G. G\<lparr>G_SelectionTimeOut := Sel_Timeout (If_Selection d)\<rparr>) w
                    else w)
        }) w')) (\<lambda>f w''. case f of
      Continue _ \<Rightarrow> fo_view w'' = fo_view w \<and> out w'' = out w \<and>
        (\<exists>t. group_at k w'' = Some (g\<lparr>G_SelectionTimeOut := t\<rparr>) \<and> scan_timeout i (length (pre @ [j])) w t)
    | Break _ \<Rightarrow> fo_view w'' = fo_view w \<and> out w'' = out w \<and>
        (\<exists>t. group_at k w'' = Some (g\<lparr>G_SelectionTimeOut := t\<rparr>) \<and>
          scan_timeout i (unat (total_ifaces w)) w t))"
    unfolding run continue_Some by (intro ok_return; simp only: flow.case; blast)
qed (use wf k in \<open>auto simp: keeps_refl scan_timeout_def intro!: exI [of _ 0]\<close>)

text \<open>The thread the policy of a group stands for.\<close>

definition FO_policy_thread :: "build \<Rightarrow> WANMGR_IFACE_GROUP \<Rightarrow> uint \<Rightarrow> thread" where
  "FO_policy_thread b g inst = (if CONFIGURABLE_WAN_INTERFACE b \<and> G_Policy g = PARALLEL_SCAN
     then ParallelScanSelectionProcess inst else AutoWanSelectionProcess inst)"

text \<open>
  C9. The monitor starts the selection thread of a group that has an interface and neither runs nor is
  deactivated: the group gets the largest selection time-out of its interfaces, a fresh scan and
  activation count, the policy the build supports, and is running;
  where the group needs no thread nothing changes at all.
\<close>

theorem monitor_starts_group:
  assumes wf: "wf_db w" and g: "group_at i w = Some g" and ok: "thread_create e (out w) = Some tid"
  shows "\<exists>w'. FO_monitor_group b e i i w = Some ((), w') \<and>
    (if G_InterfaceAvailable g \<noteq> 0 \<and> G_State g \<notin> {STATE_GROUP_RUNNING, STATE_GROUP_DEACTIVATED}
     then out w' = ThreadCreate (FO_policy_thread b g (inst_of i)) # out w \<and>
       (\<exists>t. scan_timeout i (unat (total_ifaces w)) w t \<and> group_at i w' = Some (g
          \<lparr>G_SelectionTimeOut := t, G_InitialScanComplete := False, G_ActivationCount := 0,
           G_ConfigChanged := False, G_State := STATE_GROUP_RUNNING, G_ThreadId := tid,
           G_Policy := (if CONFIGURABLE_WAN_INTERFACE b \<and> G_Policy g = PARALLEL_SCAN
                        then PARALLEL_SCAN else AUTOWAN_MODE)\<rparr>))
     else w' = w)"
proof -
  define w1 where "w1 = upd_group i (\<lambda>G. G\<lparr>G_SelectionTimeOut := 0, G_InitialScanComplete := False,
                                  G_ActivationCount := 0\<rparr>) w"
  let ?g1 = "g\<lparr>G_SelectionTimeOut := 0, G_InitialScanComplete := False, G_ActivationCount := 0\<rparr>"
  have w1: "wf_db w1" "group_at i w1 = Some ?g1" "total_ifaces w1 = total_ifaces w" "out w1 = out w"
    using wf g by (simp_all add: w1_def)
  have at1: "iface_at k w1 = iface_at k w" for k by (simp add: w1_def)
  have st: "scan_timeout i n w1 t = scan_timeout i n w t" for n t
    by (simp add: scan_timeout_def member_def at1)
  from SelectionTimeOut_effect [OF w1(1,2), of i] obtain w2 t where
    w2: "FO_SelectionTimeOut i i w1 = Some ((), w2)" "out w2 = out w"
      "group_at i w2 = Some (?g1\<lparr>G_SelectionTimeOut := t\<rparr>)" "scan_timeout i (unat (total_ifaces w)) w t"
    unfolding w1 st by (auto elim!: okE)
  show ?thesis
  proof (cases "G_InterfaceAvailable g \<noteq> 0 \<and> G_State g \<notin> {STATE_GROUP_RUNNING, STATE_GROUP_DEACTIVATED}")
    case True
    let ?w3 = "upd_group i (\<lambda>G. G\<lparr>G_ConfigChanged := False\<rparr>) w2"
    have "FO_monitor_group b e i i w = FO_start_policy b e i i ?w3"
      using True g w2(1) by (simp add: FO_monitor_group_def Let_def w1_def)
    moreover have "\<exists>w'. FO_start_policy b e i i ?w3 = Some ((), w') \<and>
        out w' = ThreadCreate (FO_policy_thread b g (inst_of i)) # out w \<and>
        group_at i w' = Some (g
          \<lparr>G_SelectionTimeOut := t, G_InitialScanComplete := False, G_ActivationCount := 0,
           G_ConfigChanged := False, G_State := STATE_GROUP_RUNNING, G_ThreadId := tid,
           G_Policy := (if CONFIGURABLE_WAN_INTERFACE b \<and> G_Policy g = PARALLEL_SCAN
                        then PARALLEL_SCAN else AUTOWAN_MODE)\<rparr>)"
      using w2(2,3) ok by (cases g) (auto simp: FO_start_policy_def FO_policy_thread_def Let_def)
    ultimately show ?thesis using True w2(4) by auto
  next
    case False
    with g show ?thesis by (auto simp: FO_monitor_group_def)
  qed
qed

theorem monitor_starts_group_witness:
  "\<exists>w'. FO_monitor_group sample_build sample_env 0 0
      (upd_group 0 (\<lambda>G. G\<lparr>G_State := STATE_GROUP_STOPPED\<rparr>) sample_world) = Some ((), w') \<and>
    out w' = [ThreadCreate (AutoWanSelectionProcess 1)]"
proof -
  let ?w = "upd_group 0 (\<lambda>G. G\<lparr>G_State := STATE_GROUP_STOPPED\<rparr>) sample_world"
  have w: "wf_db ?w" "group_at 0 ?w = Some (sample_group 0 1\<lparr>G_State := STATE_GROUP_STOPPED\<rparr>)"
    "out ?w = []" using wf_sample_world by (simp_all add: sample_reads)
  have t: "thread_create sample_env (out ?w) = Some 1" by (simp add: sample_reads sample_env_def)
  from monitor_starts_group [OF w(1,2) t, of sample_build] show ?thesis
    by (auto simp: sample_group_def FO_policy_thread_def inst_of_def sample_reads)
qed

lemma join_group_effect:
  assumes wf: "wf_db w" and j: "j < unat (total_ifaces w)" and x: "iface_at j w = Some x"
  shows "\<exists>w'. FO_join_group j j w = Some ((), w') \<and> keeps w w' \<and> fo_view w' = fo_view w \<and>
    (\<forall>k. map_option G_InterfaceAvailable (group_at k w') = map_option (\<lambda>g.
       if k < unat (total_groups w) \<and> Sel_Group (If_Selection x) = inst_of k
       then G_InterfaceAvailable g OR push_bit j 1 else G_InterfaceAvailable g) (group_at k w))"
proof -
  let ?s = "Sel_Group (If_Selection x)"
  have k: "k = unat (?s - 1) \<and> ?s - 1 < total_groups w \<longleftrightarrow> k < unat (total_groups w) \<and> ?s = inst_of k" for k
  proof
    assume "k = unat (?s - 1) \<and> ?s - 1 < total_groups w"
    then show "k < unat (total_groups w) \<and> ?s = inst_of k"
      by (auto simp: word_less_nat_alt inst_of_def)
  next
    assume "k < unat (total_groups w) \<and> ?s = inst_of k"
    then show "k = unat (?s - 1) \<and> ?s - 1 < total_groups w" by (auto simp: index_bound)
  qed
  define w' where "w' = (if ?s - 1 < total_groups w then upd_group (unat (?s - 1))
    (\<lambda>G. G\<lparr>G_InterfaceAvailable := G_InterfaceAvailable G OR push_bit j 1\<rparr>) w else w)"
  have "FO_join_group j j w = Some ((), w')"
    using wf x by (simp add: FO_join_group_def with_wf w'_def)
  moreover have "keeps w w'" "fo_view w' = fo_view w" using wf by (simp_all add: w'_def keeps_def)
  moreover have "map_option G_InterfaceAvailable (group_at k w') = map_option (\<lambda>g.
       if k < unat (total_groups w) \<and> ?s = inst_of k
       then G_InterfaceAvailable g OR push_bit j 1 else G_InterfaceAvailable g) (group_at k w)" for k
  proof (cases "k = unat (?s - 1) \<and> ?s - 1 < total_groups w")
    case True
    with k [of k] show ?thesis by (simp only: w'_def if_P) (simp add: option.map_comp comp_def)
  next
    case False
    then have "group_at k w' = group_at k w" by (auto simp: w'_def)
    with False k [of k] show ?thesis by (cases "group_at k w") auto
  qed
  ultimately show ?thesis by blast
qed

lemma init_loop_effect:
  assumes wf: "wf_db w"
  shows "ok w (for_loop [0..<unat (total_ifaces w)]
       (\<lambda>i u w. continue (with_iface (of_nat i) () (FO_join_group i) w)) () w)
    (\<lambda>_ w'. \<forall>k < unat (total_groups w). \<exists>g g'. group_at k w = Some g \<and> group_at k w' = Some g' \<and>
      (\<forall>j. bit (G_InterfaceAvailable g') j \<longleftrightarrow> bit (G_InterfaceAvailable g) j \<or>
        (j < unat (total_ifaces w) \<and> member k j w \<noteq> None)))"
proof -
  let ?n = "unat (total_ifaces w)" and ?m = "unat (total_groups w)"
  let ?I = "\<lambda>pre :: nat list. \<lambda>_ :: unit. \<lambda>w'. fo_view w' = fo_view w \<and>
    (\<forall>k < ?m. \<exists>g g'. group_at k w = Some g \<and> group_at k w' = Some g' \<and>
      (\<forall>j. bit (G_InterfaceAvailable g') j \<longleftrightarrow> bit (G_InterfaceAvailable g) j \<or>
        (j < length pre \<and> member k j w \<noteq> None)))"
  show ?thesis
  proof (rule ok_for_loop [where I = ?I])
    have "\<exists>g. group_at k w = Some g" if "k < ?m" for k
      using wf_db_group_at [OF wf, of "of_nat k"] index_bound(1,2) [OF that] by auto
    then show "?I [] () w" by fastforce
    fix pre i u w'
    assume "\<exists>todo. [0..<?n] = pre @ i # todo" and kp: "keeps w w'" and I: "?I pre u w'"
    then have i: "i = length pre" "i < ?n" by (auto dest: upt_split)
    from kp have w': "wf_db w'" "total_ifaces w' = total_ifaces w" "total_groups w' = total_groups w"
      by (auto simp: keeps_def)
    from wf_db_iface_at [OF wf i(2)] obtain x where x: "iface_at i w = Some x" by blast
    then have "iface_at i w' = Some x" using I fo_view_D(1) by metis
    with join_group_effect [of "mlock w'" i x] w' i obtain w2 where
      j: "FO_join_group i i (mlock w') = Some ((), w2)" "keeps (mlock w') w2" "fo_view w2 = fo_view w'"
        "\<forall>k. map_option G_InterfaceAvailable (group_at k w2) = map_option (\<lambda>g.
       if k < ?m \<and> Sel_Group (If_Selection x) = inst_of k
       then G_InterfaceAvailable g OR push_bit i 1 else G_InterfaceAvailable g) (group_at k w')"
      by auto
    have run: "with_iface (of_nat i) () (FO_join_group i) w' = Some ((), pthread_mutex_unlock w2)"
      using w' i j(1) by (simp add: with_wf index_bound)
    have kp2: "keeps w (pthread_mutex_unlock w2)"
      using keeps_unlock [OF wf_db_mutex j(2)] w' kp keeps_trans by blast
    have "?I (pre @ [i]) () (pthread_mutex_unlock w2)"
    proof (intro conjI allI impI)
      show "fo_view (pthread_mutex_unlock w2) = fo_view w" using j(3) I by simp
      fix k assume k: "k < ?m"
      with I obtain g g' where g: "group_at k w = Some g" "group_at k w' = Some g'"
        "\<And>j. bit (G_InterfaceAvailable g') j \<longleftrightarrow> bit (G_InterfaceAvailable g) j \<or>
          (j < length pre \<and> member k j w \<noteq> None)" by blast
      from j(4) g(2) k obtain g2 where g2: "group_at k w2 = Some g2" "G_InterfaceAvailable g2 =
        (if Sel_Group (If_Selection x) = inst_of k then G_InterfaceAvailable g' OR push_bit i 1
         else G_InterfaceAvailable g')"
        by (cases "group_at k w2") (auto dest: spec [of _ k])
      have "i < 32" using i(2) wf_db_total_le [OF wf] by simp
      then have b: "bit (G_InterfaceAvailable g2) j \<longleftrightarrow> bit (G_InterfaceAvailable g') j \<or>
          (Sel_Group (If_Selection x) = inst_of k \<and> j = i)" for j
        unfolding g2(2) by (auto simp: bit_or_iff bit_push_bit_iff bit_exp_iff)
      have "member k i w \<noteq> None \<longleftrightarrow> Sel_Group (If_Selection x) = inst_of k"
        by (simp add: member_def x)
      then have "bit (G_InterfaceAvailable g2) j \<longleftrightarrow> bit (G_InterfaceAvailable g) j \<or>
          (j < length (pre @ [i]) \<and> member k j w \<noteq> None)" for j
        unfolding b g(3) i(1) length_append list.size by (cases "j = length pre") auto
      with g(1) g2(1) show "\<exists>g g'. group_at k w = Some g \<and> group_at k (pthread_mutex_unlock w2) = Some g' \<and>
        (\<forall>j. bit (G_InterfaceAvailable g') j \<longleftrightarrow> bit (G_InterfaceAvailable g) j \<or>
          (j < length (pre @ [i]) \<and> member k j w \<noteq> None))" by auto
    qed
    with kp2 show "ok w (continue (with_iface (of_nat i) () (FO_join_group i) w'))
      (\<lambda>f w''. case f of Continue s' \<Rightarrow> ?I (pre @ [i]) s' w''
       | Break s' \<Rightarrow> \<forall>k < ?m. \<exists>g g'. group_at k w = Some g \<and> group_at k w'' = Some g' \<and>
      (\<forall>j. bit (G_InterfaceAvailable g') j \<longleftrightarrow> bit (G_InterfaceAvailable g) j \<or>
        (j < ?n \<and> member k j w \<noteq> None)))"
      unfolding run continue_Some by (intro ok_return; simp only: flow.case; blast)
  qed (use wf in \<open>simp_all add: keeps_refl\<close>)
qed

text \<open>
  The initialisation puts every interface into the mask of its group, and nothing else: bit \<open>j\<close> of
  \<open>InterfaceAvailable\<close> is set exactly if it was set or interface \<open>j\<close> belongs to the group.
\<close>

theorem init_groups_masks:
  assumes wf: "wf_db w"
  shows "\<exists>c' w'. WanMgr_FailOverCtrlInit c w = Some (c', w') \<and> wf_db w' \<and> mutex w' = mutex w \<and>
    (\<forall>k < unat (total_groups w). \<exists>g g'. group_at k w = Some g \<and> group_at k w' = Some g' \<and>
      (\<forall>j. bit (G_InterfaceAvailable g') j \<longleftrightarrow> bit (G_InterfaceAvailable g) j \<or>
        (j < unat (total_ifaces w) \<and> member k j w \<noteq> None)))"
  using init_loop_effect [OF wf] wf
  by (auto simp: WanMgr_FailOverCtrlInit_def Let_def keeps_def elim!: okE split: option.split)

theorem init_groups_masks_witness:
  "\<exists>c' w' g'. WanMgr_FailOverCtrlInit sample_ctrl sample_world = Some (c', w') \<and>
    group_at 1 w' = Some g' \<and> bit (G_InterfaceAvailable g') 1 \<and> \<not> bit (G_InterfaceAvailable g') 0"
proof -
  from init_groups_masks [OF wf_sample_world, of sample_ctrl] obtain c' w' where
    r: "WanMgr_FailOverCtrlInit sample_ctrl sample_world = Some (c', w')" and
    "\<forall>k < unat (total_groups sample_world). \<exists>g g'. group_at k sample_world = Some g \<and> group_at k w' = Some g' \<and>
      (\<forall>j. bit (G_InterfaceAvailable g') j \<longleftrightarrow> bit (G_InterfaceAvailable g) j \<or>
        (j < unat (total_ifaces sample_world) \<and> member k j sample_world \<noteq> None))" by blast
  moreover have "1 < unat (total_groups sample_world)" by (simp add: sample_reads)
  ultimately obtain g g' where g: "group_at 1 sample_world = Some g" "group_at 1 w' = Some g'"
    "\<And>j. bit (G_InterfaceAvailable g') j \<longleftrightarrow> bit (G_InterfaceAvailable g) j \<or>
        (j < unat (total_ifaces sample_world) \<and> member 1 j sample_world \<noteq> None)" by blast
  have m: "member 1 1 sample_world \<noteq> None" "member 1 0 sample_world = None"
    by (simp_all add: member_def sample_reads docsis_def ethwan_def sample_iface_reads inst_of_def)
  have "bit (G_InterfaceAvailable g') 1" using g(3) [of 1] m by (simp add: sample_reads)
  moreover have "\<not> bit (G_InterfaceAvailable g') 0"
    using g(3) [of 0] g(1) m by (auto simp: sample_reads sample_group_def bit_push_bit_iff)
  ultimately show ?thesis using r g(2) by blast
qed

subsection \<open>Stopping\<close>

text \<open>
  WAN is disabled, no interface reports that it is up, and the groups' selected interfaces exist.
\<close>

definition settled :: "world \<Rightarrow> bool" where
  "settled w \<longleftrightarrow> \<not> Cfg_Enable (config w) \<and> (\<forall>k. virt_status k w \<noteq> Some WAN_IFACE_STATUS_UP) \<and>
     (\<forall>k s. snd (sel_view w) k = Some s \<longrightarrow> s \<le> total_ifaces w)"

text \<open>An upper bound of the passes the main loop still makes once WAN is disabled.\<close>

fun FO_rank :: "WcFailOverState_t \<Rightarrow> nat" where
  "FO_rank STATE_FAILOVER_GROUP_ACTIVE = 3"
| "FO_rank STATE_FAILOVER_RESTORATION_WAIT = 3"
| "FO_rank STATE_FAILOVER_SCANNING_GROUP = 2"
| "FO_rank STATE_FAILOVER_DEACTIVATE_GROUP = 2"
| "FO_rank _ = 1"

fun FO_left :: "FO_thread \<Rightarrow> nat" where
  "FO_left (FO_LOOP, st, c) = FO_rank st"
| "FO_left _ = 0"

lemma settled_status:
  assumes wf: "wf_db w" and s: "settled w" and c: "FO_CurrentActiveGroup c \<le> total_groups w"
    "FO_CurrentActiveGroup c \<noteq> 0"
  shows "FO_group_status (FO_CurrentActiveGroup c) True (\<lambda>st. st \<noteq> WAN_IFACE_STATUS_UP) w = Some (True, w)"
proof (cases "group_selected (FO_CurrentActiveGroup c) w")
  case None
  let ?i = "FO_CurrentActiveGroup c - 1"
  have i: "?i < total_groups w" using c by (simp add: uint_pred_less_iff)
  with wf obtain g where g: "group_at (unat ?i) w = Some g" by (rule wf_db_group_at)
  with s have "G_SelectedInterface g \<le> total_ifaces w" by (auto simp: settled_def sel_view_def)
  with None i g have "G_SelectedInterface g = 0"
    by (auto simp: group_selected_def sel_view_def uint_pred_less_iff split: if_splits)
  with i g wf show ?thesis by (simp add: FO_group_status_def with_wf)
next
  case (Some j)
  from group_status_Some [OF wf Some, of True "\<lambda>st. st \<noteq> WAN_IFACE_STATUS_UP"] obtain st where
    "virt_status j w = Some st" "FO_group_status (FO_CurrentActiveGroup c) True
      (\<lambda>st. st \<noteq> WAN_IFACE_STATUS_UP) w = Some (st \<noteq> WAN_IFACE_STATUS_UP, w)" by blast
  with s show ?thesis by (auto simp: settled_def)
qed

lemma FO_dispatch_disabled:
  assumes wf: "wf_db w" and inv: "FO_inv (st, c) w" and s: "settled w" and off: "\<not> FO_WanEnable c"
  shows "\<exists>t w'. FO_dispatch e st c w = Some (t, w') \<and> FO_left t < FO_rank st"
proof -
  have d: "\<exists>c' w'. FO_Transition_DeactivateGroup c w = Some ((STATE_FAILOVER_DEACTIVATE_GROUP, c'), w')"
    using Transition_DeactivateGroup_ok [OF wf inv] by (auto elim!: okE)
  have x: "\<exists>b. (if FO_CurrentActiveGroup c = 0 then Some (True, w)
      else FO_group_status (FO_CurrentActiveGroup c) True (\<lambda>st. st \<noteq> WAN_IFACE_STATUS_UP) w) = Some (True, w)"
    using settled_status [OF wf s, of c] inv by (simp add: FO_inv_def)
  show ?thesis
    using d x off by (cases st) (auto simp: FO_State_ScanningGroup_def FO_State_GroupActive_def
        FO_State_RestorationWait_def FO_State_DeactivateGroup_def split: if_splits)
qed

lemma FO_pass_disabled:
  assumes wf: "wf_db w" and inv: "FO_thread_inv t w" and s: "settled w" and sel: "select_ok e"
  shows "\<exists>t' w'. FO_pass b e t w = Some (t', w') \<and> FO_left t' \<le> FO_left t - 1"
proof -
  obtain ph st c where t: "t = (ph, st, c)" by (cases t)
  show ?thesis
  proof (cases ph)
    case FO_LOOP
    from FO_prologue_ok [OF wf, of b e c] obtain c' w' where p: "FO_prologue b e c w = Some (c', w')"
      "keeps w w'" "fo_view w' = fo_view (upd_config (\<lambda>d. d\<lparr>Cfg_ResetFailOverScan := False\<rparr>) w)"
      "prologue_ctrl (config w) c c'" by (auto elim!: okE)
    have "FO_inv (st, c') w"
      using inv t FO_inv_cong [OF prologue_ctrl_fields(1,2) [OF p(4)]] by (simp add: FO_thread_inv_def)
    then have i': "FO_inv (st, c') w'"
      using FO_inv_same [OF same_active_view [OF _ p(2)]] fo_view_D(3) [OF p(3)] by simp
    have "virt_status k (upd_config h w) = virt_status k w" for k h by (simp add: virt_status_def)
    with s fo_view_D [OF p(3)] p(2) have "settled w'" by (simp add: settled_def keeps_def)
    moreover have "\<not> FO_WanEnable c'" using prologue_ctrl_fields(4) [OF p(4)] s by (simp add: settled_def)
    ultimately obtain t' w'' where "FO_dispatch e st c' w' = Some (t', w'')" "FO_left t' < FO_rank st"
      using FO_dispatch_disabled [OF keeps_wf [OF p(2)] i'] by blast
    with t FO_LOOP p(1) sel show ?thesis by (auto simp: FO_pass_prologue simp del: FO_pass.simps)
  next
    case FO_DRAIN
    with t wf running_ok [OF wf] show ?thesis by (auto elim!: okE)
  qed (use t in simp)
qed

text \<open>The drain loop: it ends in the first round in which no selection thread runs.\<close>

definition group_running :: "nat \<Rightarrow> world \<Rightarrow> bool" where
  "group_running i w \<longleftrightarrow> (case group_at i w of None \<Rightarrow> False | Some g \<Rightarrow> G_State g = STATE_GROUP_RUNNING)"

definition no_selection :: "world \<Rightarrow> bool" where
  "no_selection w \<longleftrightarrow> (\<forall>i < unat (total_groups w). \<not> group_running i w)"

lemma selection_running:
  assumes wf: "wf_db w"
  shows "FO_selectionThreadRunning w = Some (\<not> no_selection w, w)"
proof -
  have body: "continue (with_group (of_nat i) r (\<lambda>k w. do {
        g \<leftarrow> group_at k w; Some (if G_State g = STATE_GROUP_RUNNING then True else r, w) }) w) =
      Some (Continue (group_running i w \<or> r), w)" if "i < unat (total_groups w)" for i r
  proof -
    from wf index_bound(2) [OF that] obtain g where "group_at (unat (of_nat i :: uint)) w = Some g" by (rule wf_db_group_at)
    with index_bound [OF that] wf_db_mutex [OF wf] show ?thesis
      by (simp add: with_wf(1) [OF wf] continue_def group_running_def)
  qed
  have fold: "fold (\<lambda>i r. group_running i w \<or> r) is r \<longleftrightarrow> (\<exists>i \<in> set is. group_running i w) \<or> r" for "is" r
    by (induction "is" arbitrary: r) auto
  have "FO_selectionThreadRunning w = Some (fold (\<lambda>i r. group_running i w \<or> r) [0..<unat (total_groups w)] False, w)"
    unfolding FO_selectionThreadRunning_def total_wf(1) [OF wf] Let_def prod.case
    by (rule for_loop_fold) (simp add: body)
  then show ?thesis by (auto simp: fold no_selection_def)
qed

text \<open>A thread that has left its main loop has gone through one of the two final states, and does not come back.\<close>

definition FO_final :: "FO_thread \<Rightarrow> bool" where
  "FO_final t \<longleftrightarrow> fst t = FO_LOOP \<or> fst (snd t) \<in> {STATE_FAILOVER_EXIT, STATE_FAILOVER_ERROR}"

lemma FO_dispatch_final: "FO_dispatch e st c w = Some (t, w') \<Longrightarrow> FO_final t"
  by (cases st) (auto simp: FO_final_def)

lemma FO_pass_final:
  assumes run: "FO_pass b e t w = Some (t', w')" and fin: "FO_final t"
  shows "FO_final t'" "fst t \<noteq> FO_LOOP \<Longrightarrow> fst t' \<noteq> FO_LOOP"
proof -
  obtain ph st c where t: "t = (ph, st, c)" by (cases t)
  have "FO_final t' \<and> (fst t \<noteq> FO_LOOP \<longrightarrow> fst t' \<noteq> FO_LOOP)"
  proof (cases ph)
    case FO_LOOP
    with run t show ?thesis
      by (auto simp: FO_final_def Let_def bind_eq_Some_conv split: if_splits prod.splits dest: FO_dispatch_final)
  next
    case FO_DRAIN
    with run t fin show ?thesis by (auto simp: FO_final_def bind_eq_Some_conv split: if_splits)
  next
    case FO_RETURNED
    with run t fin show ?thesis by (auto simp: FO_final_def)
  qed
  then show "FO_final t'" "fst t \<noteq> FO_LOOP \<Longrightarrow> fst t' \<noteq> FO_LOOP" by auto
qed

interpretation fo_end: wan_thread "FO_pass b" FO_rely "\<lambda>t w. FO_thread_inv t w \<and> FO_final t \<and> (out_of_loop \<longrightarrow> fst t \<noteq> FO_LOOP)"
  for b out_of_loop
proof
  show "ok w (FO_pass b e t w) (\<lambda>t w. FO_thread_inv t w \<and> FO_final t \<and> (out_of_loop \<longrightarrow> fst t \<noteq> FO_LOOP))"
    if "wf_db w" "FO_thread_inv t w \<and> FO_final t \<and> (out_of_loop \<longrightarrow> fst t \<noteq> FO_LOOP)" for w t e
  proof -
    from that have "FO_thread_inv t w" by simp
    from okE [OF FO_pass_ok [OF that(1) this, of b e]] obtain t' w' where
      p: "FO_pass b e t w = Some (t', w')" "keeps w w'" "FO_thread_inv t' w'" .
    with FO_pass_final [OF p(1)] that(2) show ?thesis by (auto intro: okI)
  qed
  show "interference w w'" if "FO_rely w w'" for w w' using that by (rule fo.rely_interference)
  show "FO_thread_inv t w' \<and> FO_final t \<and> (out_of_loop \<longrightarrow> fst t \<noteq> FO_LOOP)"
    if "FO_thread_inv t w \<and> FO_final t \<and> (out_of_loop \<longrightarrow> fst t \<noteq> FO_LOOP)" "FO_rely w w'" for t w w'
    using that fo.inv_stable by blast
qed

lemma run_thread_append:
  "run_thread pass (xs @ ys) s w = Option.bind (run_thread pass xs s w) (\<lambda>(s', w'). run_thread pass ys s' w')"
  by (induction pass xs s w rule: run_thread.induct) (auto split: prod.split Option.bind_split)

text \<open>
  C8. Disabling WAN stops the fail-over thread.  While WAN is disabled, no interface reports that it is up, the selected
  interfaces of the groups are in the table and the \<open>select\<close> of the loop is not interrupted, the main loop is left
  after at most three passes, from whatever state.  After any number of further passes, with whatever the other threads do
  within their limits, the first pass in which no group is running ends the thread: it has returned, not only left its
  main loop.  No interface is active then, the data base is well-formed and the mutex is as it was.
\<close>

theorem disabled_thread_stops:
  assumes wf: "wf_db w" and inv: "FO_thread_inv t w" and fin: "FO_final t" and len: "3 \<le> length script"
    and others: "\<And>others e u. (others, e) \<in> set script \<Longrightarrow> wf_db u \<Longrightarrow>
      FO_rely u (others u) \<and> settled (others u) \<and> select_ok e"
    and rest: "\<And>others e u. (others, e) \<in> set waiting \<Longrightarrow> wf_db u \<Longrightarrow> FO_rely u (others u)"
    and stopped: "\<And>u. wf_db u \<Longrightarrow> FO_rely u (stop u) \<and> no_selection (stop u)"
  shows "\<exists>ph st c w1 st' c' w2. run_thread (FO_pass b) script t w = Some ((ph, st, c), w1) \<and> ph \<noteq> FO_LOOP \<and>
    run_thread (FO_pass b) (waiting @ [(stop, e)]) (ph, st, c) w1 = Some ((FO_RETURNED, st', c'), w2) \<and>
    wf_db w2 \<and> mutex w2 = mutex w \<and> active_set w2 = {}"
proof -
  have left: "FO_left u \<le> 3" for u by (cases u rule: FO_left.cases; cases "fst (snd u)") auto
  have "FO_thread_inv t w \<and> FO_final t \<and> (False \<longrightarrow> fst t \<noteq> FO_LOOP)" using inv fin by simp
  from fo_end.run_rank [where left = FO_left and calm = "\<lambda>e u. settled u \<and> select_ok e" and b = b,
      OF _ wf this, of script] FO_pass_disabled others
  obtain t1 w1 where r1: "run_thread (FO_pass b) script t w = Some (t1, w1)" "wf_db w1" "mutex w1 = mutex w"
    "FO_thread_inv t1 w1" "FO_final t1" "FO_left t1 \<le> FO_left t - length script" by blast
  obtain ph st c where t1: "t1 = (ph, st, c)" by (cases t1)
  from r1(6) left [of t] len t1 have loop: "ph \<noteq> FO_LOOP" by (cases st) auto
  with r1(4,5) t1 have "FO_thread_inv t1 w1 \<and> FO_final t1 \<and> (True \<longrightarrow> fst t1 \<noteq> FO_LOOP)" by simp
  from fo_end.run_ok [of w1 t1 True waiting b, OF r1(2) this] rest obtain t2 w2 where
    r2: "run_thread (FO_pass b) waiting t1 w1 = Some (t2, w2)" "wf_db w2" "mutex w2 = mutex w1" "FO_thread_inv t2 w2"
      "FO_final t2" "fst t2 \<noteq> FO_LOOP" by blast
  have s: "FO_rely w2 (stop w2)" "no_selection (stop w2)" using stopped r2(2) by blast+
  then have wf3: "wf_db (stop w2)" "mutex (stop w2) = mutex w" using r1(3) r2(3) by (simp_all add: FO_rely_def interference_def)
  from fo.inv_stable [OF r2(4) s(1)] have inv3: "FO_thread_inv t2 (stop w2)" .
  obtain ph2 st2 c2 where t2: "t2 = (ph2, st2, c2)" by (cases t2)
  have pass: "FO_pass b e t2 (stop w2) = Some ((FO_RETURNED, st2, c2), stop w2)"
    using r2(6) t2 s(2) selection_running [OF wf3(1)] by (cases ph2) simp_all
  have "active_set (stop w2) = {}" using inv3 r2(5,6) t2 by (auto simp: FO_thread_inv_def FO_inv_def FO_final_def)
  with r1(1) r2(1) t1 t2 loop pass wf3 show ?thesis
    by (intro exI [of _ ph] exI [of _ st] exI [of _ c] exI [of _ w1] exI [of _ st2] exI [of _ c2] exI [of _ "stop w2"])
      (simp add: run_thread_append)
qed

text \<open>What the other threads do in the witness: WAN is disabled and every interface goes down.\<close>

definition link_down :: "DML_WAN_IFACE \<Rightarrow> DML_WAN_IFACE" where
  "link_down i = i\<lparr>If_VirtIfList := map (\<lambda>v. v\<lparr>VI_Status := WAN_IFACE_STATUS_DISABLED\<rparr>) (If_VirtIfList i)\<rparr>"

definition bring_down :: "world \<Rightarrow> world" where
  "bring_down w = upd_config (\<lambda>d. d\<lparr>Cfg_Enable := False\<rparr>) (upd_db (\<lambda>d. d
     \<lparr>IfaceCtrl := (IfaceCtrl d)\<lparr>IC_pIface := map_option (map link_down) (IC_pIface (IfaceCtrl d))\<rparr>,
      IfaceGroup := (IfaceGroup d)\<lparr>IG_Group := map_option (map (\<lambda>g.
        if G_SelectedInterface g \<le> total_ifaces w then g else g\<lparr>G_SelectedInterface := 0\<rparr>))
        (IG_Group (IfaceGroup d))\<rparr>\<rparr>) w)"

lemma bring_down_reads:
  "total_ifaces (bring_down w) = total_ifaces w" "total_groups (bring_down w) = total_groups w"
  "mutex (bring_down w) = mutex w" "\<not> Cfg_Enable (config (bring_down w))"
  "iface_at k (bring_down w) = map_option link_down (iface_at k w)"
  "group_at k (bring_down w) = map_option (\<lambda>g.
     if G_SelectedInterface g \<le> total_ifaces w then g else g\<lparr>G_SelectedInterface := 0\<rparr>) (group_at k w)"
  "pIface (bring_down w) = map_option (map link_down) (pIface w)"
  "map_option length (Groups (bring_down w)) = map_option length (Groups w)"
  by (auto simp: bring_down_def upd_config_def upd_db_def iface_at_def group_at_def nth_opt_def
      option.map_comp comp_def split: Option.bind_split)

lemma bring_down_ok:
  assumes wf: "wf_db u"
  shows "FO_rely u (bring_down u)" "settled (bring_down u)"
proof -
  have "iface_shape \<circ> link_down = iface_shape"
    by (auto simp: fun_eq_iff iface_shape_def link_down_def)
  then have "wf_db (bring_down u)"
    using wf bring_down_reads(8) [of u]
    by (auto simp: wf_db_def bring_down_reads(1-4,7) split: option.splits)
  then have i: "interference u (bring_down u)" by (simp add: interference_def bring_down_reads)
  have v: "fst (sel_view (bring_down u)) k = fst (sel_view u) k" for k
    by (simp add: sel_view_def bring_down_reads option.map_comp comp_def link_down_def)
  have g: "group_selected h (bring_down u) = group_selected h u" for h
  proof -
    have "s \<le> total_ifaces u" if "s - 1 < total_ifaces u" "s \<noteq> 0" for s :: uint
      using that by (simp add: uint_pred_less_iff)
    then show ?thesis
      by (auto simp: group_selected_def sel_view_def bring_down_reads split: option.split)
  qed
  have "active_set (bring_down u) = active_set u" by (simp add: active_set_def v bring_down_reads)
  with i g show "FO_rely u (bring_down u)" by (simp add: FO_rely_def)
  have "virt_status k (bring_down u) \<noteq> Some WAN_IFACE_STATUS_UP" for k
    by (auto simp: virt_status_def bring_down_reads link_down_def head_virtif_def
        split: option.splits list.splits Option.bind_splits)
  moreover have "s \<le> total_ifaces u" if "snd (sel_view (bring_down u)) k = Some s" for k s
    using that by (cases "group_at k u") (simp_all add: sel_view_def bring_down_reads split: if_splits)
  ultimately show "settled (bring_down u)" by (simp add: settled_def bring_down_reads)
qed

text \<open>The selection threads have ended: no group is running.\<close>

definition groups_off :: "world \<Rightarrow> world" where
  "groups_off w = upd_db (\<lambda>d. d\<lparr>IfaceGroup := (IfaceGroup d)\<lparr>IG_Group :=
     map_option (map (\<lambda>g. g\<lparr>G_State := STATE_GROUP_STOPPED\<rparr>)) (IG_Group (IfaceGroup d))\<rparr>\<rparr>) w"

lemma groups_off_reads:
  "total_ifaces (groups_off w) = total_ifaces w" "total_groups (groups_off w) = total_groups w"
  "mutex (groups_off w) = mutex w" "pIface (groups_off w) = pIface w" "iface_at k (groups_off w) = iface_at k w"
  "group_at k (groups_off w) = map_option (\<lambda>g. g\<lparr>G_State := STATE_GROUP_STOPPED\<rparr>) (group_at k w)"
  "map_option length (Groups (groups_off w)) = map_option length (Groups w)"
  by (auto simp: groups_off_def upd_db_def iface_at_def group_at_def nth_opt_def option.map_comp comp_def
      split: Option.bind_split)

lemma groups_off_ok:
  assumes wf: "wf_db u"
  shows "FO_rely u (groups_off u) \<and> no_selection (groups_off u)"
proof -
  have "wf_db (groups_off u)"
    using wf groups_off_reads(7) [of u] by (auto simp: wf_db_def groups_off_reads(1-4) split: option.splits)
  then have i: "interference u (groups_off u)" by (simp add: interference_def groups_off_reads)
  have v: "sel_view (groups_off u) = sel_view u" by (simp add: sel_view_def groups_off_reads option.map_comp comp_def)
  then have "active_set (groups_off u) = active_set u" by (simp add: active_set_def groups_off_reads)
  moreover from v have "group_selected g (groups_off u) = group_selected g u" for g
    by (simp add: group_selected_def groups_off_reads split: option.split)
  ultimately show ?thesis using i
    by (simp add: FO_rely_def no_selection_def group_running_def groups_off_reads split: option.split)
qed

theorem disabled_thread_stops_witness:
  "\<exists>t w1 st' c' w2. run_thread (FO_pass sample_build) (replicate 3 (bring_down, sample_env))
      (FO_LOOP, STATE_FAILOVER_GROUP_ACTIVE, sample_ctrl\<lparr>FO_CurrentActiveGroup := 2\<rparr>) restoring_world = Some (t, w1) \<and>
    run_thread (FO_pass sample_build) [(id, sample_env), (groups_off, sample_env)] t w1 = Some ((FO_RETURNED, st', c'), w2) \<and>
    active_set w2 = {}"
proof -
  let ?t = "(FO_LOOP, STATE_FAILOVER_GROUP_ACTIVE, sample_ctrl\<lparr>FO_CurrentActiveGroup := 2\<rparr>)"
  have inv: "FO_thread_inv ?t restoring_world" "FO_final ?t"
    by (simp_all add: FO_thread_inv_def FO_inv_def restoring_world_reads sample_ctrl_def FO_final_def)
  have o: "FO_rely u (others u) \<and> settled (others u) \<and> select_ok e"
    if "(others, e) \<in> set (replicate 3 (bring_down, sample_env))" "wf_db u" for others e u
    using that bring_down_ok [of u] by (auto simp: sample_env_def)
  have i: "FO_rely u (others u)" if "(others, e) \<in> set [(id, sample_env)]" "wf_db u" for others e u
    using that by (auto simp: FO_rely_def interference_def)
  have len: "3 \<le> length (replicate 3 (bring_down, sample_env))" by simp
  have "\<exists>ph st c w1 st' c' w2. run_thread (FO_pass sample_build) (replicate 3 (bring_down, sample_env)) ?t restoring_world =
      Some ((ph, st, c), w1) \<and> ph \<noteq> FO_LOOP \<and>
    run_thread (FO_pass sample_build) ([(id, sample_env)] @ [(groups_off, sample_env)]) (ph, st, c) w1 =
      Some ((FO_RETURNED, st', c'), w2) \<and> wf_db w2 \<and> mutex w2 = mutex restoring_world \<and> active_set w2 = {}"
    by (rule disabled_thread_stops [OF restoring_world_reads(1) inv len]) (fact o i groups_off_ok)+
  then show ?thesis unfolding append.simps by blast
qed

end
