(* ===== verification/WanPolicy.thy ===== *)
theory WanPolicy
  imports WanSafe
begin

text \<open>
  What the selection policies share: their controller structure and its initialisation
  (\<open>wanmgr_controller.c\<close>), the test whether a state machine of an interface runs, and the start of
  such a machine (\<open>wanmgr_interface_sm.c\<close>).

  A policy thread keeps in its controller the index of the interface it works on, -1 for none; the
  pointer \<open>pWanActiveIfaceData\<close> is taken, with the mutex held, at the start of each pass.
\<close>

record WanMgr_Policy_Controller_t =
  PC_WanEnable :: bool
  PC_activeInterfaceIdx :: int
  PC_selSecondaryInterfaceIdx :: int
  PC_pWanActiveIfaceData :: "nat option"
  PC_SelectionTimeOutStart :: time
  PC_SelectionTimeOutEnd :: time
  PC_InterfaceSelectionTimeOut :: uint
  PC_TotalIfaces :: uint
  PC_WanOperationalMode :: int
  PC_GroupCfgChanged :: bool
  PC_GroupPersistSelectedIface :: bool
  PC_ResetSelectedInterface :: bool
  PC_AllowRemoteInterfaces :: bool
  PC_GroupIfaceList :: uint
  PC_GroupInst :: uint

definition WanMgr_Controller_PolicyCtrlInit :: "WanMgr_Policy_Controller_t \<Rightarrow> WanMgr_Policy_Controller_t" where
  "WanMgr_Controller_PolicyCtrlInit c = c
     \<lparr>PC_WanEnable := False, PC_activeInterfaceIdx := -1, PC_selSecondaryInterfaceIdx := -1,
      PC_pWanActiveIfaceData := None, PC_SelectionTimeOutStart := 0, PC_SelectionTimeOutEnd := 0,
      PC_InterfaceSelectionTimeOut := 0, PC_TotalIfaces := 0, PC_WanOperationalMode := -1,
      PC_GroupIfaceList := 0, PC_GroupInst := 0, PC_GroupCfgChanged := False,
      PC_ResetSelectedInterface := False\<rparr>"

text \<open>An \<open>INT\<close> index passed as a \<open>UINT\<close>: -1 becomes the largest index.\<close>

definition idx_uint :: "int \<Rightarrow> uint" where
  "idx_uint = word_of_int"

text \<open>
  \<open>WanMgr_Get_ISM_RunningStatus\<close>: the loop stops at the first running machine; a virtual interface
  that is not in the list is dereferenced all the same.
\<close>

fun ism_scan :: "DML_VIRTUAL_IFACE list \<Rightarrow> nat list \<Rightarrow> bool option" where
  "ism_scan VirtIfList [] = Some False"
| "ism_scan VirtIfList (virIf_id # ids) = do {
     v \<leftarrow> WanMgr_getVirtualIfaceById VirtIfList (of_nat virIf_id);
     if VI_Interface_SM_Running v then Some True else ism_scan VirtIfList ids
   }"

definition WanMgr_Get_ISM_RunningStatus :: "uint \<Rightarrow> world \<Rightarrow> (bool \<times> world) option" where
  "WanMgr_Get_ISM_RunningStatus ifaceIdx =
     with_iface ifaceIdx False (\<lambda>k w. do {
       d \<leftarrow> iface_at k w;
       status \<leftarrow> ism_scan (If_VirtIfList d) [0..<unat (If_NoOfVirtIfs d)];
       Some (status, w)
     })"

text \<open>
  \<open>WanMgr_StartInterfaceStateMachine\<close> on the controller \<open>WanMgr_IfaceSM_Init\<close> fills from the two
  indices: the result says whether it returned 0.
\<close>

definition WanMgr_StartInterfaceStateMachine :: "env \<Rightarrow> int \<Rightarrow> int \<Rightarrow> world \<Rightarrow> bool \<times> world" where
  "WanMgr_StartInterfaceStateMachine e interfaceIdx VirIfIdx w =
     (if \<not> malloc_ok e (out w) then (False, w)
      else (thread_create e (out w) \<noteq> None,
            emit (ThreadCreate (InterfaceSMThread interfaceIdx VirIfIdx)) w))"

end
