(* ===== verification/WanAutoPolicy.thy ===== *)
theory WanAutoPolicy
  imports WanPolicy WanFailover
begin

text \<open>
  The AutoWAN selection policy of \<open>wanmgr_policy_auto_impl.c\<close>: the thread of a group tries the
  interfaces of the group in the order of their priority, waits for the physical link, starts the
  interface's state machines, and watches the selected interface until it is told to stop.  The static
  functions of the file carry the prefix \<open>AW_\<close>, since the other policies use the same names.

  A pass reads the clock at most once (\<open>clock e 0\<close>).
\<close>

datatype WcAwPolicyState_t =
    STATE_AUTO_WAN_INTERFACE_SELECTING | STATE_AUTO_WAN_INTERFACE_WAITING
  | STATE_AUTO_WAN_INTERFACE_SCANNING | STATE_AUTO_WAN_INTERFACE_TEARDOWN
  | STATE_AUTO_WAN_INTERFACE_RECONFIGURATION | STATE_AUTO_WAN_REBOOT_PLATFORM
  | STATE_AUTO_WAN_INTERFACE_ACTIVE | STATE_AUTO_WAN_INTERFACE_DOWN | STATE_AUTO_WAN_ERROR
  | STATE_AUTO_WAN_TEARING_DOWN | STATE_AUTO_WAN_SM_EXIT

type_synonym policy_ctrl = WanMgr_Policy_Controller_t
type_synonym AW_step = "((WcAwPolicyState_t \<times> WanMgr_Policy_Controller_t) \<times> world) option"

subsection \<open>Helpers\<close>

text \<open>
  One iteration of \<open>WanMgr_RdkBus_AddAllIntfsToLanBridge\<close>: the path is copied out of the critical
  section and the bus is called after it.
\<close>

definition group_phy_path :: "policy_ctrl \<Rightarrow> nat \<Rightarrow> world \<Rightarrow> (string option \<times> world) option" where
  "group_phy_path c i =
     with_iface (of_nat i) None (\<lambda>k w. do {
       d \<leftarrow> iface_at k w;
       Some (if PC_GroupInst c \<noteq> Sel_Group (If_Selection d) then None
             else Some (take 127 (If_BaseInterface d)), w)
     })"

definition AW_AddAllIntfsToLanBridge ::
  "env \<Rightarrow> policy_ctrl \<Rightarrow> bool \<Rightarrow> world \<Rightarrow> (ANSC_STATUS \<times> world) option" where
  "AW_AddAllIntfsToLanBridge e c AddToBridge w =
     (if \<not> PC_WanEnable c \<or> PC_TotalIfaces c = 0 then Some (ANSC_STATUS_FAILURE, w)
      else do {
        (_, w) \<leftarrow> for_loop [0..<unat (PC_TotalIfaces c)] (\<lambda>i u w. continue (do {
             (p, w) \<leftarrow> group_phy_path c i w;
             Some ((), case p of None \<Rightarrow> w
                       | Some PhyPath \<Rightarrow>
                           if PhyPath \<noteq> [] then snd (WanMgr_RdkBus_AddIntfToLanBridge e PhyPath AddToBridge w)
                           else w)
           })) () w;
        Some (ANSC_STATUS_SUCCESS, w)
      })"

definition link_mode :: "DML_WAN_IFACE \<Rightarrow> uint" where
  "link_mode d = (if strstr (If_BaseInterface d) ''CableModem'' then 2
                  else if strstr (If_BaseInterface d) ''Ethernet'' then 1 else 2)"

definition isLastActiveLinkFromSysCfg :: "DML_WAN_IFACE \<Rightarrow> world \<Rightarrow> bool" where
  "isLastActiveLinkFromSysCfg d w =
     (case syscfg w ''last_wan_mode'' of None \<Rightarrow> False
      | Some buf \<Rightarrow> If_uiIfaceIdx d < 2 \<and> word_of_int (strtol10 (take 9 buf)) = link_mode d)"

definition setActiveLinkToSysCfg :: "policy_ctrl \<Rightarrow> world \<Rightarrow> world option" where
  "setActiveLinkToSysCfg c w = do {
     k \<leftarrow> PC_pWanActiveIfaceData c;
     d \<leftarrow> iface_at k w;
     let buf = show_nat (unat (link_mode d));
     Some (syscfg_set_commit ''curr_wan_mode'' buf (syscfg_set_commit ''last_wan_mode'' buf w))
   }"

definition reset_wan_mode :: "build \<Rightarrow> policy_ctrl \<Rightarrow> world \<Rightarrow> world" where
  "reset_wan_mode b c w =
     (if XB6_PRODUCT b \<and> PC_GroupInst c = 1
      then syscfg_set_commit ''curr_wan_mode'' ''0'' (syscfg_set_commit ''last_wan_mode'' ''0'' w)
      else w)"

definition set_ActiveLink :: "nat \<Rightarrow> bool \<Rightarrow> world \<Rightarrow> world" where
  "set_ActiveLink k v = upd_iface k (upd_Selection (\<lambda>s. s\<lparr>Sel_ActiveLink := v\<rparr>))"

definition AW_SetActiveLink ::
  "env \<Rightarrow> policy_ctrl \<Rightarrow> bool \<Rightarrow> world \<Rightarrow> (ANSC_STATUS \<times> world) option" where
  "AW_SetActiveLink e c storeValue w =
     (case PC_pWanActiveIfaceData c of
        None \<Rightarrow> Some (ANSC_STATUS_FAILURE, w)
      | Some k \<Rightarrow>
          if PC_activeInterfaceIdx c = -1 then Some (ANSC_STATUS_FAILURE, w)
          else do {
            d \<leftarrow> iface_at k w;
            Some (ANSC_STATUS_SUCCESS,
                  if Sel_ActiveLink (If_Selection d) \<noteq> storeValue
                  then snd (DmlSetWanActiveLinkInPSMDB e (idx_uint (PC_activeInterfaceIdx c)) storeValue
                              (set_ActiveLink k storeValue w))
                  else w)
          })"

definition AW_GetPrevSelectedInterface :: "env \<Rightarrow> policy_ctrl \<Rightarrow> world \<Rightarrow> (int \<times> world) option" where
  "AW_GetPrevSelectedInterface e c w =
     (if PC_TotalIfaces c = 0 then Some (-1, w)
      else for_loop [0..<unat (PC_TotalIfaces c)] (\<lambda>i r.
        with_iface (of_nat i) (Continue r) (\<lambda>k w. do {
          d \<leftarrow> iface_at k w;
          Some (if PC_GroupInst c = Sel_Group (If_Selection d) \<and> Sel_ActiveLink (If_Selection d)
                then if \<not> Sel_Enable (If_Selection d)
                     then (Break (-1), set_ActiveLink k False (snd (DmlSetWanActiveLinkInPSMDB e (of_nat i) False w)))
                     else (Break (int i), w)
                else (Continue r, w))
        })) (-1) w)"

text \<open>The candidates of \<open>WanMgr_Policy_Auto_GetHighPriorityIface\<close>.\<close>

definition AW_candidate :: "policy_ctrl \<Rightarrow> DML_WAN_IFACE \<Rightarrow> DML_VIRTUAL_IFACE \<Rightarrow> bool" where
  "AW_candidate c d v \<longleftrightarrow>
     PC_GroupInst c = Sel_Group (If_Selection d) \<and> Sel_Enable (If_Selection d) \<and>
     0 \<le> Sel_Priority (If_Selection d) \<and> VI_Status v = WAN_IFACE_STATUS_DISABLED \<and>
     \<not> (\<not> PC_AllowRemoteInterfaces c \<and> If_IfaceType d = REMOTE_IFACE)"

definition AW_GetHighPriorityIface ::
  "build \<Rightarrow> policy_ctrl \<Rightarrow> world \<Rightarrow> (policy_ctrl \<times> world) option" where
  "AW_GetHighPriorityIface b c w =
     (if \<not> PC_WanEnable c \<or> PC_TotalIfaces c = 0 then Some (c, w)
      else do {
        ((iSelInterface, iSelPriority), w) \<leftarrow> for_loop [0..<unat (PC_TotalIfaces c)] (\<lambda>i s w. continue
          (with_iface (of_nat i) s (\<lambda>k w. do {
             d \<leftarrow> iface_at k w;
             v \<leftarrow> head_virtif d;
             Some (if AW_candidate c d v \<and>
                      (Sel_Priority (If_Selection d) < snd s \<or>
                       (XB6_PRODUCT b \<and> isLastActiveLinkFromSysCfg d w))
                   then (int i, Sel_Priority (If_Selection d)) else s, w)
           }) w)) (-1, DML_WAN_IFACE_PRIORITY_MAX) w;
        Some (if iSelInterface \<noteq> -1 then c\<lparr>PC_activeInterfaceIdx := iSelInterface\<rparr> else c, w)
      })"

definition AW_UpdateControllerData :: "policy_ctrl \<Rightarrow> world \<Rightarrow> (policy_ctrl \<times> world) option" where
  "AW_UpdateControllerData c w = do {
     let (c, w) = with_config c (\<lambda>w.
       (c\<lparr>PC_WanEnable := Cfg_Enable (config w),
          PC_AllowRemoteInterfaces := Cfg_AllowRemoteInterfaces (config w)\<rparr>, w)) w;
     let (TotalIfaces, w) = WanMgr_IfaceData_GetTotalWanIface w;
     let c = c\<lparr>PC_TotalIfaces := TotalIfaces\<rparr>;
     with_group (PC_GroupInst c - 1) c (\<lambda>k w. do {
       g \<leftarrow> group_at k w;
       Some (c\<lparr>PC_GroupCfgChanged := G_ConfigChanged g,
               PC_GroupPersistSelectedIface := G_PersistSelectedIface g,
               PC_ResetSelectedInterface := G_ResetSelectedInterface g\<rparr>, w)
     }) w
   }"

definition AW_ResetActiveLinkOnAllIface :: "env \<Rightarrow> policy_ctrl \<Rightarrow> world \<Rightarrow> (ANSC_STATUS \<times> world) option" where
  "AW_ResetActiveLinkOnAllIface e c w =
     (if PC_TotalIfaces c = 0 then Some (ANSC_STATUS_FAILURE, w)
      else for_loop [0..<unat (PC_TotalIfaces c)] (\<lambda>i r.
        with_iface (of_nat i) (Continue r) (\<lambda>k w. do {
          d \<leftarrow> iface_at k w;
          Some (if PC_GroupInst c = Sel_Group (If_Selection d)
                then (case DmlSetWanActiveLinkInPSMDB e (of_nat i) False (set_ActiveLink k False w) of
                        (ANSC_STATUS_SUCCESS, w) \<Rightarrow> (Continue r, w)
                      | (ANSC_STATUS_FAILURE, w) \<Rightarrow> (Break ANSC_STATUS_FAILURE, w))
                else (Continue r, w))
        })) ANSC_STATUS_SUCCESS w)"

definition AW_ResetGroupSelectedIface :: "policy_ctrl \<Rightarrow> world \<Rightarrow> (ANSC_STATUS \<times> world) option" where
  "AW_ResetGroupSelectedIface c w =
     (if PC_TotalIfaces c = 0 then Some (ANSC_STATUS_FAILURE, w)
      else do {
        (_, w) \<leftarrow> WanMgr_SetGroupSelectedIface (PC_GroupInst c) 0 w;
        Some (ANSC_STATUS_SUCCESS, w)
      })"

definition set_VirtIf_Status :: "nat \<Rightarrow> DML_WAN_IFACE_STATUS \<Rightarrow> world \<Rightarrow> world" where
  "set_VirtIf_Status k st = upd_iface k (upd_head_virtif (\<lambda>v. v\<lparr>VI_Status := st\<rparr>))"

definition AW_ResetIfaceTable :: "policy_ctrl \<Rightarrow> world \<Rightarrow> (unit \<times> world) option" where
  "AW_ResetIfaceTable c w =
     (if PC_TotalIfaces c = 0 then Some ((), w)
      else for_loop [0..<unat (PC_TotalIfaces c)] (\<lambda>i u w. continue
        (with_iface (of_nat i) () (\<lambda>k w. do {
          d \<leftarrow> iface_at k w;
          if PC_GroupInst c = Sel_Group (If_Selection d)
          then do {
            v \<leftarrow> head_virtif d;
            Some ((), if VI_Status v = WAN_IFACE_STATUS_INVALID
                      then set_VirtIf_Status k WAN_IFACE_STATUS_DISABLED w else w)
          }
          else Some ((), w)
        }) w)) () w)"

definition AW_CheckOnlyPossibleWanLink :: "policy_ctrl \<Rightarrow> world \<Rightarrow> (bool \<times> world) option" where
  "AW_CheckOnlyPossibleWanLink c w =
     (if PC_activeInterfaceIdx c = -1 \<or> PC_TotalIfaces c = 0 then Some (False, w)
      else do {
        k \<leftarrow> PC_pWanActiveIfaceData c;
        d \<leftarrow> iface_at k w;
        if PC_GroupPersistSelectedIface c \<and> Sel_ActiveLink (If_Selection d) then Some (True, w)
        else for_loop [0..<unat (PC_TotalIfaces c)] (\<lambda>i r w.
          if of_nat i = idx_uint (PC_activeInterfaceIdx c) then Some (Continue r, w)
          else with_iface (of_nat i) (Continue r) (\<lambda>k w. do {
            d \<leftarrow> iface_at k w;
            Some (if PC_GroupInst c = Sel_Group (If_Selection d) \<and> Sel_Enable (If_Selection d)
                  then Break False else Continue r, w)
          }) w) True w
      })"

text \<open>
  \<open>WanMgr_StartIfaceStateMachine\<close>: a machine for every enabled virtual interface; a machine that
  cannot be started ends the loop and leaves \<open>VirtIfChanged\<close> as it is.
\<close>

definition AW_start_virtif ::
  "env \<Rightarrow> int \<Rightarrow> nat \<Rightarrow> bool \<Rightarrow> world \<Rightarrow> (bool flow \<times> world) option" where
  "AW_start_virtif e idx VirtId r w = do {
     (p, w) \<leftarrow> WanMgr_getVirtualIface_locked (idx_uint idx) (of_nat VirtId) w;
     (enabled, w) \<leftarrow> (case p of
         None \<Rightarrow> Some (True, w)
       | Some q \<Rightarrow> do {
           v \<leftarrow> virtif_at q w;
           Some (VI_Enable v, WanMgr_VirtualIfaceData_release w)
         });
     if \<not> enabled then Some (Continue r, w)
     else case WanMgr_StartInterfaceStateMachine e idx (int VirtId) w of
            (True, w) \<Rightarrow> Some (Continue r, w)
          | (False, w) \<Rightarrow> Some (Break False, w)
   }"

definition set_VirtIfChanged :: "nat \<Rightarrow> bool \<Rightarrow> world \<Rightarrow> world" where
  "set_VirtIfChanged k v = upd_iface k (\<lambda>d. d\<lparr>If_VirtIfChanged := v\<rparr>)"

definition AW_StartIfaceStateMachine :: "env \<Rightarrow> policy_ctrl \<Rightarrow> world \<Rightarrow> (ANSC_STATUS \<times> world) option" where
  "AW_StartIfaceStateMachine e c w =
     (case PC_pWanActiveIfaceData c of
        None \<Rightarrow> Some (ANSC_STATUS_FAILURE, w)
      | Some k \<Rightarrow> do {
          d \<leftarrow> iface_at k w;
          (all, w) \<leftarrow> for_loop [0..<unat (If_NoOfVirtIfs d)] (AW_start_virtif e (PC_activeInterfaceIdx c)) True w;
          if all then Some (ANSC_STATUS_SUCCESS, set_VirtIfChanged k False w)
          else Some (ANSC_STATUS_FAILURE, w)
        })"

subsection \<open>Transitions\<close>

definition AW_Transition_Start :: "build \<Rightarrow> env \<Rightarrow> policy_ctrl \<Rightarrow> world \<Rightarrow> AW_step" where
  "AW_Transition_Start b e c w =
     (if PC_WanEnable c
      then do {
        (prev, w) \<leftarrow> AW_GetPrevSelectedInterface e c w;
        let c = c\<lparr>PC_activeInterfaceIdx := prev\<rparr>;
        if prev \<noteq> -1
        then do {
          (p, w) \<leftarrow> with_iface (idx_uint prev) None (\<lambda>k w. do {
             d \<leftarrow> iface_at k w;
             Some (Some (take 127 (If_BaseInterface d)), w)
           }) w;
          (case p of
             None \<Rightarrow> Some ((STATE_AUTO_WAN_INTERFACE_SELECTING, c), w)
           | Some phyPath \<Rightarrow>
               if strstr phyPath ''Ethernet''
               then Some ((STATE_AUTO_WAN_INTERFACE_SELECTING, c),
                          snd (WanMgr_RdkBus_AddIntfToLanBridge e phyPath False w))
               else do {
                 (_, w) \<leftarrow> AW_AddAllIntfsToLanBridge e c False w;
                 Some ((STATE_AUTO_WAN_INTERFACE_SELECTING, c), w)
               })
        }
        else do {
          (_, w) \<leftarrow> AW_AddAllIntfsToLanBridge e c False w;
          (c, w) \<leftarrow> AW_GetHighPriorityIface b c w;
          Some ((STATE_AUTO_WAN_INTERFACE_SELECTING, c), w)
        }
      }
      else Some ((STATE_AUTO_WAN_INTERFACE_SELECTING, c), w))"

text \<open>The scan timer: it runs out at \<open>SelectionTimeOutStart\<close>.\<close>

definition start_scan_timer :: "env \<Rightarrow> DML_WAN_IFACE \<Rightarrow> policy_ctrl \<Rightarrow> policy_ctrl" where
  "start_scan_timer e d c = c\<lparr>PC_InterfaceSelectionTimeOut := Sel_Timeout (If_Selection d),
     PC_SelectionTimeOutStart := clock e 0 + int (unat (Sel_Timeout (If_Selection d)))\<rparr>"

abbreviation (input) "SELECTED_OPERATIONAL_MODE \<equiv> ''Device.X_RDKCENTRAL-COM_EthernetWAN.SelectedOperationalMode''"

definition AW_Transition_InterfaceSelected :: "build \<Rightarrow> env \<Rightarrow> policy_ctrl \<Rightarrow> world \<Rightarrow> AW_step" where
  "AW_Transition_InterfaceSelected b e c w =
     (case PC_pWanActiveIfaceData c of
        None \<Rightarrow> Some ((STATE_AUTO_WAN_ERROR, c), w)
      | Some k \<Rightarrow> do {
          d \<leftarrow> iface_at k w;
          let c = start_scan_timer e d c;
          if XB6_PRODUCT b \<and> (strstr (If_BaseInterface d) ''CableModem'' \<or> strstr (If_BaseInterface d) ''Ethernet'')
          then do {
            w \<leftarrow> setActiveLinkToSysCfg c w;
            if AUTOWAN_ENABLE b
            then (case WanMgr_RdkBus_SetParamValues e SELECTED_OPERATIONAL_MODE
                         (if strstr (If_BaseInterface d) ''CableModem'' then ''DOCSIS'' else ''Ethernet'') w of
                    (ANSC_STATUS_SUCCESS, w) \<Rightarrow> Some ((STATE_AUTO_WAN_INTERFACE_WAITING, c), w)
                  | (ANSC_STATUS_FAILURE, w) \<Rightarrow> Some ((STATE_AUTO_WAN_INTERFACE_SELECTING, c), w))
            else Some ((STATE_AUTO_WAN_INTERFACE_WAITING, c), w)
          }
          else Some ((STATE_AUTO_WAN_INTERFACE_WAITING, c), w)
        })"

definition AW_Transition_ScanningInterfaceDown :: "policy_ctrl \<Rightarrow> world \<Rightarrow> AW_step" where
  "AW_Transition_ScanningInterfaceDown c w =
     Some ((if PC_pWanActiveIfaceData c = None then STATE_AUTO_WAN_ERROR
            else STATE_AUTO_WAN_INTERFACE_WAITING, c), w)"

definition AW_Transition_InterfaceInvalid :: "env \<Rightarrow> policy_ctrl \<Rightarrow> world \<Rightarrow> AW_step" where
  "AW_Transition_InterfaceInvalid e c w =
     (case PC_pWanActiveIfaceData c of
        None \<Rightarrow> Some ((STATE_AUTO_WAN_ERROR, c), w)
      | Some k \<Rightarrow>
          if PC_activeInterfaceIdx c = -1 then Some ((STATE_AUTO_WAN_ERROR, c), w)
          else do {
            d \<leftarrow> iface_at k w;
            _ \<leftarrow> head_virtif d;
            let w = set_VirtIf_Status k WAN_IFACE_STATUS_INVALID w;
            (_, w) \<leftarrow> AW_SetActiveLink e c False w;
            Some ((STATE_AUTO_WAN_INTERFACE_SELECTING, c\<lparr>PC_activeInterfaceIdx := -1\<rparr>), w)
          })"

definition set_InitialScanComplete :: "uint \<Rightarrow> world \<Rightarrow> (unit \<times> world) option" where
  "set_InitialScanComplete inst =
     with_group (inst - 1) () (\<lambda>k w. Some ((), upd_group k (\<lambda>g. g\<lparr>G_InitialScanComplete := True\<rparr>) w))"

definition AW_Transition_TryingNextInterface :: "build \<Rightarrow> policy_ctrl \<Rightarrow> world \<Rightarrow> AW_step" where
  "AW_Transition_TryingNextInterface b c w = do {
     (c, w) \<leftarrow> AW_GetHighPriorityIface b c w;
     if PC_activeInterfaceIdx c = -1
     then do {
       (_, w) \<leftarrow> set_InitialScanComplete (PC_GroupInst c) w;
       (_, w) \<leftarrow> AW_ResetIfaceTable c w;
       Some ((STATE_AUTO_WAN_INTERFACE_SELECTING, c), reset_wan_mode b c w)
     }
     else Some ((STATE_AUTO_WAN_INTERFACE_SELECTING, c), w)
   }"

definition AW_Transition_InterfaceFound :: "build \<Rightarrow> env \<Rightarrow> policy_ctrl \<Rightarrow> world \<Rightarrow> AW_step" where
  "AW_Transition_InterfaceFound b e c w =
     (case PC_pWanActiveIfaceData c of
        None \<Rightarrow> Some ((STATE_AUTO_WAN_ERROR, c), w)
      | Some k \<Rightarrow> do {
          _ \<leftarrow> iface_at k w;
          let w = set_status k WAN_IFACE_SELECTED w;
          (_, w) \<leftarrow> AW_StartIfaceStateMachine e c w;
          d \<leftarrow> iface_at k w;
          Some ((STATE_AUTO_WAN_INTERFACE_SCANNING,
                 if SCAN_TIMEOUT_DISABLE b then start_scan_timer e d c else c), w)
        })"

text \<open>\<open>Transition_InterfaceDeselect\<close> and \<open>Transition_ResetSelectedInterface\<close> have the same body.\<close>

definition AW_Transition_InterfaceDeselect :: "policy_ctrl \<Rightarrow> world \<Rightarrow> AW_step" where
  "AW_Transition_InterfaceDeselect c w =
     (case PC_pWanActiveIfaceData c of
        None \<Rightarrow> Some ((STATE_AUTO_WAN_ERROR, c), w)
      | Some k \<Rightarrow> do {
          _ \<leftarrow> iface_at k w;
          Some ((STATE_AUTO_WAN_INTERFACE_TEARDOWN, c), set_status k WAN_IFACE_NOT_SELECTED w)
        })"

definition AW_Transition_ResetSelectedInterface :: "policy_ctrl \<Rightarrow> world \<Rightarrow> AW_step" where
  "AW_Transition_ResetSelectedInterface c w =
     (case PC_pWanActiveIfaceData c of
        None \<Rightarrow> Some ((STATE_AUTO_WAN_ERROR, c), w)
      | Some k \<Rightarrow> do {
          _ \<leftarrow> iface_at k w;
          Some ((STATE_AUTO_WAN_INTERFACE_TEARDOWN, c), set_status k WAN_IFACE_NOT_SELECTED w)
        })"

definition AW_Transition_InterfaceValidated :: "env \<Rightarrow> policy_ctrl \<Rightarrow> world \<Rightarrow> AW_step" where
  "AW_Transition_InterfaceValidated e c w =
     (if PC_pWanActiveIfaceData c = None then Some ((STATE_AUTO_WAN_ERROR, c), w)
      else do {
        (_, w) \<leftarrow> AW_SetActiveLink e c True w;
        (_, w) \<leftarrow> WanMgr_SetGroupSelectedIface (PC_GroupInst c) (idx_uint (PC_activeInterfaceIdx c + 1)) w;
        Some ((STATE_AUTO_WAN_INTERFACE_RECONFIGURATION, c\<lparr>PC_SelectionTimeOutStart := 0\<rparr>), w)
      })"

definition AW_Transition_RestartSelectionInterface :: "build \<Rightarrow> env \<Rightarrow> policy_ctrl \<Rightarrow> world \<Rightarrow> AW_step" where
  "AW_Transition_RestartSelectionInterface b e c w =
     (if PC_pWanActiveIfaceData c = None then Some ((STATE_AUTO_WAN_ERROR, c), w)
      else do {
        (ret, w) \<leftarrow> AW_ResetActiveLinkOnAllIface e c w;
        if ret \<noteq> ANSC_STATUS_SUCCESS then Some ((STATE_AUTO_WAN_ERROR, c), w)
        else do {
          (c, w) \<leftarrow> with_group (PC_GroupInst c - 1) c (\<lambda>k w.
             Some (c\<lparr>PC_ResetSelectedInterface := False\<rparr>,
                   upd_group k (\<lambda>g. g\<lparr>G_ResetSelectedInterface := False\<rparr>) w)) w;
          let (_, w) = with_config () (\<lambda>w. ((), upd_config (\<lambda>d. d\<lparr>Cfg_ResetFailOverScan := True\<rparr>) w)) w;
          let c = c\<lparr>PC_activeInterfaceIdx := -1\<rparr>;
          (_, w) \<leftarrow> AW_ResetIfaceTable c w;
          let w = reset_wan_mode b c w;
          (_, w) \<leftarrow> AW_AddAllIntfsToLanBridge e c False w;
          (ret, w) \<leftarrow> AW_ResetGroupSelectedIface c w;
          Some ((if ret \<noteq> ANSC_STATUS_SUCCESS then STATE_AUTO_WAN_ERROR
                 else STATE_AUTO_WAN_INTERFACE_SELECTING, c), w)
        }
      })"

definition AW_Transition_ReconfigurePlatform :: "policy_ctrl \<Rightarrow> world \<Rightarrow> AW_step" where
  "AW_Transition_ReconfigurePlatform c w =
     (case PC_pWanActiveIfaceData c of
        None \<Rightarrow> Some ((STATE_AUTO_WAN_ERROR, c), w)
      | Some k \<Rightarrow> do {
          _ \<leftarrow> iface_at k w;
          Some ((STATE_AUTO_WAN_REBOOT_PLATFORM, c),
                upd_iface k (upd_Selection (\<lambda>s. s\<lparr>Sel_RebootTriggerStatus := True\<rparr>))
                  (set_status k WAN_IFACE_NOT_SELECTED w))
        })"

definition AW_Transition_ActivatingInterface :: "policy_ctrl \<Rightarrow> world \<Rightarrow> AW_step" where
  "AW_Transition_ActivatingInterface c w = Some ((STATE_AUTO_WAN_INTERFACE_ACTIVE, c), w)"

definition AW_Transistion_WanInterfaceDown :: "policy_ctrl \<Rightarrow> world \<Rightarrow> AW_step" where
  "AW_Transistion_WanInterfaceDown c w = Some ((STATE_AUTO_WAN_INTERFACE_DOWN, c), w)"

definition AW_Transistion_WanInterfaceUp :: "env \<Rightarrow> policy_ctrl \<Rightarrow> world \<Rightarrow> AW_step" where
  "AW_Transistion_WanInterfaceUp e c w =
     (if PC_activeInterfaceIdx c = -1 \<or> PC_pWanActiveIfaceData c = None
      then Some ((STATE_AUTO_WAN_ERROR, c), w)
      else do {
        (running, w) \<leftarrow> WanMgr_Get_ISM_RunningStatus (idx_uint (PC_activeInterfaceIdx c)) w;
        if running then Some ((STATE_AUTO_WAN_INTERFACE_DOWN, c), w)
        else do {
          (_, w) \<leftarrow> AW_StartIfaceStateMachine e c w;
          Some ((STATE_AUTO_WAN_INTERFACE_ACTIVE, c), w)
        }
      })"

definition AW_Transition_RebootDevice :: "env \<Rightarrow> policy_ctrl \<Rightarrow> world \<Rightarrow> AW_step" where
  "AW_Transition_RebootDevice e c w = Some ((STATE_AUTO_WAN_SM_EXIT, c), Wanmgr_TriggerReboot e w)"

subsection \<open>States\<close>

definition AW_State_SelectingInterface :: "build \<Rightarrow> env \<Rightarrow> policy_ctrl \<Rightarrow> world \<Rightarrow> AW_step" where
  "AW_State_SelectingInterface b e c w =
     (if \<not> PC_WanEnable c \<or> PC_GroupCfgChanged c then Some ((STATE_AUTO_WAN_SM_EXIT, c), w)
      else if PC_activeInterfaceIdx c \<noteq> -1 then AW_Transition_InterfaceSelected b e c w
      else AW_Transition_TryingNextInterface b c w)"

definition AW_State_WaitForInterface :: "build \<Rightarrow> env \<Rightarrow> policy_ctrl \<Rightarrow> world \<Rightarrow> AW_step" where
  "AW_State_WaitForInterface b e c w =
     (case PC_pWanActiveIfaceData c of
        None \<Rightarrow> Some ((STATE_AUTO_WAN_ERROR, c), w)
      | Some k \<Rightarrow>
          if \<not> PC_WanEnable c \<or> PC_GroupCfgChanged c then Some ((STATE_AUTO_WAN_SM_EXIT, c), w)
          else do {
            d \<leftarrow> iface_at k w;
            if \<not> Sel_Enable (If_Selection d) then AW_Transition_InterfaceInvalid e c w
            else if If_BaseInterfaceStatus d = WAN_IFACE_PHY_STATUS_UP
            then AW_Transition_InterfaceFound b e
                   (if SCAN_TIMEOUT_DISABLE b then c\<lparr>PC_SelectionTimeOutStart := 0\<rparr> else c) w
            else do {
              (IfaceOnlyPossible, w) \<leftarrow> AW_CheckOnlyPossibleWanLink c w;
              let c = c\<lparr>PC_SelectionTimeOutEnd := clock e 0\<rparr>;
              if 0 < PC_SelectionTimeOutEnd c - PC_SelectionTimeOutStart c \<and> \<not> IfaceOnlyPossible
              then AW_Transition_InterfaceInvalid e c w
              else if IfaceOnlyPossible
              then do {
                (_, w) \<leftarrow> set_InitialScanComplete (PC_GroupInst c) w;
                Some ((STATE_AUTO_WAN_INTERFACE_WAITING, c), w)
              }
              else Some ((STATE_AUTO_WAN_INTERFACE_WAITING, c), w)
            }
          })"

definition AW_State_ScanningInterface :: "env \<Rightarrow> policy_ctrl \<Rightarrow> world \<Rightarrow> AW_step" where
  "AW_State_ScanningInterface e c w =
     (case PC_pWanActiveIfaceData c of
        None \<Rightarrow> Some ((STATE_AUTO_WAN_ERROR, c), w)
      | Some k \<Rightarrow>
          if \<not> PC_WanEnable c \<or> PC_GroupCfgChanged c then AW_Transition_InterfaceDeselect c w
          else do {
            d \<leftarrow> iface_at k w;
            (SelectedIfaceLastWanLink, w) \<leftarrow> AW_CheckOnlyPossibleWanLink c w;
            if SelectedIfaceLastWanLink then AW_Transition_InterfaceValidated e c w
            else if \<not> Sel_Enable (If_Selection d) then AW_Transition_InterfaceDeselect c w
            else do {
              (running, w) \<leftarrow> WanMgr_Get_ISM_RunningStatus (idx_uint (PC_activeInterfaceIdx c)) w;
              if \<not> running then AW_Transition_ScanningInterfaceDown c w
              else do {
                v \<leftarrow> head_virtif d;
                if VI_Status v \<in> {WAN_IFACE_STATUS_UP, WAN_IFACE_STATUS_STANDBY, WAN_IFACE_STATUS_VALID}
                then AW_Transition_InterfaceValidated e c w
                else if 0 < PC_SelectionTimeOutStart c
                then (let c = c\<lparr>PC_SelectionTimeOutEnd := clock e 0\<rparr>
                      in if 0 < PC_SelectionTimeOutEnd c - PC_SelectionTimeOutStart c
                         then AW_Transition_InterfaceDeselect c w
                         else Some ((STATE_AUTO_WAN_INTERFACE_SCANNING, c), w))
                else Some ((STATE_AUTO_WAN_INTERFACE_SCANNING, c), w)
              }
            }
          })"

definition AW_State_WaitingForIfaceTearDown :: "build \<Rightarrow> env \<Rightarrow> policy_ctrl \<Rightarrow> world \<Rightarrow> AW_step" where
  "AW_State_WaitingForIfaceTearDown b e c w =
     (if PC_pWanActiveIfaceData c = None then Some ((STATE_AUTO_WAN_ERROR, c), w)
      else do {
        (running, w) \<leftarrow> WanMgr_Get_ISM_RunningStatus (idx_uint (PC_activeInterfaceIdx c)) w;
        if running then Some ((STATE_AUTO_WAN_INTERFACE_TEARDOWN, c), w)
        else if \<not> PC_WanEnable c \<or> PC_GroupCfgChanged c then Some ((STATE_AUTO_WAN_TEARING_DOWN, c), w)
        else if PC_ResetSelectedInterface c then AW_Transition_RestartSelectionInterface b e c w
        else AW_Transition_InterfaceInvalid e c w
      })"

text \<open>
  \<open>State_InterfaceReconfiguration\<close>: the interfaces that are not selected go to the LAN bridge; then,
  where the platform has no operational mode, the WAN capability of every Ethernet interface of the
  group is set right.  \<open>hw_query\<close> is the data-model name of that capability: the number in the path of
  the interface is what \<open>sscanf\<close> finds after its first digits-free part.
\<close>

definition AW_bridge_others :: "env \<Rightarrow> policy_ctrl \<Rightarrow> world \<Rightarrow> (unit \<times> world) option" where
  "AW_bridge_others e c w =
     for_loop [0..<unat (PC_TotalIfaces c)] (\<lambda>i u w. continue
       (if of_nat i = idx_uint (PC_activeInterfaceIdx c) then Some ((), w)
        else do {
          (p, w) \<leftarrow> group_phy_path c i w;
          Some ((), case p of None \<Rightarrow> w
                    | Some PhyPath \<Rightarrow>
                        if PhyPath \<noteq> [] \<and> strstr PhyPath ''Ethernet''
                        then snd (WanMgr_RdkBus_AddIntfToLanBridge e PhyPath True w) else w)
        })) () w"

definition path_index :: "string \<Rightarrow> uint" where
  "path_index PhyPath =
     (let digits = dropWhile (\<lambda>ch. \<not> isdigit_c ch) PhyPath
      in if digits = PhyPath then 0
         else case sscanf_d digits of None \<Rightarrow> 0 | Some v \<Rightarrow> word_of_int v)"

definition hw_query :: "string \<Rightarrow> string" where
  "hw_query PhyPath = ''Device.Ethernet.Interface.'' @ show_int (sint (path_index PhyPath)) @ ''.Upstream''"

definition same_nocase :: "string \<Rightarrow> string \<Rightarrow> bool" where
  "same_nocase v lit \<longleftrightarrow> map lower_c (take (length lit) v) = lit"

definition AW_hw_config :: "env \<Rightarrow> policy_ctrl \<Rightarrow> nat \<Rightarrow> bool \<Rightarrow> world \<Rightarrow> (bool \<times> world) option" where
  "AW_hw_config e c i RebootRequired w = do {
     (q, w) \<leftarrow> with_iface (of_nat i) None (\<lambda>k w. do {
        d \<leftarrow> iface_at k w;
        Some (if \<not> strstr (If_BaseInterface d) ''Ethernet'' \<or> PC_GroupInst c \<noteq> Sel_Group (If_Selection d)
              then None
              else Some (Sel_RequiresReboot (If_Selection d), take 127 (If_BaseInterface d)), w)
     }) w;
     Some (case q of
        None \<Rightarrow> (RebootRequired, w)
      | Some (CurrIntfHwRebootConfig, PhyPath) \<Rightarrow>
          (case WanMgr_RdkBus_GetParamValues e (hw_query PhyPath) w of
             (None, w) \<Rightarrow> (RebootRequired, w)
           | (Some dmValue, w) \<Rightarrow>
               let want = (if of_nat i = idx_uint (PC_activeInterfaceIdx c) then ''true'' else ''false'')
               in if same_nocase dmValue want then (RebootRequired, w)
                  else case WanMgr_RdkBus_SetParamValues e (hw_query PhyPath) want w of
                         (ANSC_STATUS_SUCCESS, w) \<Rightarrow> (RebootRequired \<or> CurrIntfHwRebootConfig, w)
                       | (ANSC_STATUS_FAILURE, w) \<Rightarrow> (RebootRequired, w)))
   }"

definition AW_State_InterfaceReconfiguration :: "build \<Rightarrow> env \<Rightarrow> policy_ctrl \<Rightarrow> world \<Rightarrow> AW_step" where
  "AW_State_InterfaceReconfiguration b e c w =
     (if PC_pWanActiveIfaceData c = None then Some ((STATE_AUTO_WAN_ERROR, c), w)
      else do {
        (_, w) \<leftarrow> AW_bridge_others e c w;
        if XB6_PRODUCT b \<or> PLATFORM_RASPBERRYPI b then AW_Transition_ActivatingInterface c w
        else do {
          (RebootRequired, w) \<leftarrow> for_loop [0..<unat (PC_TotalIfaces c)]
             (\<lambda>i r w. continue (AW_hw_config e c i r w)) False w;
          if RebootRequired then AW_Transition_ReconfigurePlatform c w
          else do {
            (running, w) \<leftarrow> WanMgr_Get_ISM_RunningStatus (idx_uint (PC_activeInterfaceIdx c)) w;
            if \<not> running then AW_Transistion_WanInterfaceDown c w
            else AW_Transition_ActivatingInterface c w
          }
        }
      })"

definition AW_State_RebootingPlatform :: "env \<Rightarrow> policy_ctrl \<Rightarrow> world \<Rightarrow> AW_step" where
  "AW_State_RebootingPlatform e c w = do {
     (running, w) \<leftarrow> WanMgr_Get_ISM_RunningStatus (idx_uint (PC_activeInterfaceIdx c)) w;
     if running then Some ((STATE_AUTO_WAN_REBOOT_PLATFORM, c), w) else AW_Transition_RebootDevice e c w
   }"

text \<open>One round of the loop that starts the machines of changed virtual interfaces.\<close>

definition AW_restart_virtif :: "env \<Rightarrow> policy_ctrl \<Rightarrow> nat \<Rightarrow> world \<Rightarrow> (unit \<times> world) option" where
  "AW_restart_virtif e c VirtId w = do {
     (p, w) \<leftarrow> WanMgr_getVirtualIface_locked (idx_uint (PC_activeInterfaceIdx c)) (of_nat VirtId) w;
     (case p of
        None \<Rightarrow> Some ((), w)
      | Some q \<Rightarrow> do {
          v \<leftarrow> virtif_at q w;
          Some ((), WanMgr_VirtualIfaceData_release
                 (if VI_Enable v \<and> \<not> VI_Interface_SM_Running v
                  then snd (WanMgr_StartInterfaceStateMachine e (PC_activeInterfaceIdx c) (int VirtId) w)
                  else w))
        })
   }"

definition AW_State_WanInterfaceActive :: "env \<Rightarrow> policy_ctrl \<Rightarrow> world \<Rightarrow> AW_step" where
  "AW_State_WanInterfaceActive e c w =
     (case PC_pWanActiveIfaceData c of
        None \<Rightarrow> Some ((STATE_AUTO_WAN_ERROR, c), w)
      | Some k \<Rightarrow>
          if \<not> PC_WanEnable c \<or> PC_GroupCfgChanged c \<or> PC_ResetSelectedInterface c
          then AW_Transition_ResetSelectedInterface c w
          else do {
            d \<leftarrow> iface_at k w;
            (down, w) \<leftarrow>
               (if If_BaseInterfaceStatus d \<noteq> WAN_IFACE_PHY_STATUS_UP \<or> \<not> Sel_Enable (If_Selection d)
                then Some (True, w)
                else do {
                  (running, w) \<leftarrow> WanMgr_Get_ISM_RunningStatus (idx_uint (PC_activeInterfaceIdx c)) w;
                  Some (\<not> running, w)
                });
            if down
            then do {
              (_, w) \<leftarrow> WanMgr_SetGroupSelectedIface (PC_GroupInst c) (idx_uint (PC_activeInterfaceIdx c + 1)) w;
              AW_Transistion_WanInterfaceDown c w
            }
            else if If_VirtIfChanged d
            then do {
              (_, w) \<leftarrow> for_loop [0..<unat (If_NoOfVirtIfs d)]
                 (\<lambda>VirtId u w. continue (AW_restart_virtif e c VirtId w)) () w;
              Some ((STATE_AUTO_WAN_INTERFACE_ACTIVE, c), set_VirtIfChanged k False w)
            }
            else Some ((STATE_AUTO_WAN_INTERFACE_ACTIVE, c), w)
          })"

definition AW_State_WanInterfaceDown :: "env \<Rightarrow> policy_ctrl \<Rightarrow> world \<Rightarrow> AW_step" where
  "AW_State_WanInterfaceDown e c w =
     (case PC_pWanActiveIfaceData c of
        None \<Rightarrow> Some ((STATE_AUTO_WAN_ERROR, c), w)
      | Some k \<Rightarrow>
          if \<not> PC_WanEnable c \<or> PC_GroupCfgChanged c \<or> PC_ResetSelectedInterface c
          then AW_Transition_ResetSelectedInterface c w
          else do {
            d \<leftarrow> iface_at k w;
            if If_BaseInterfaceStatus d = WAN_IFACE_PHY_STATUS_UP \<and> Sel_Enable (If_Selection d)
            then do {
              (_, w) \<leftarrow> WanMgr_SetGroupSelectedIface (PC_GroupInst c) (idx_uint (PC_activeInterfaceIdx c + 1)) w;
              AW_Transistion_WanInterfaceUp e c w
            }
            else Some ((STATE_AUTO_WAN_INTERFACE_DOWN, c), w)
          })"

definition AW_State_WaitingForInterfaceSMExit :: "env \<Rightarrow> policy_ctrl \<Rightarrow> world \<Rightarrow> AW_step" where
  "AW_State_WaitingForInterfaceSMExit e c w =
     (case PC_pWanActiveIfaceData c of
        None \<Rightarrow> Some ((STATE_AUTO_WAN_TEARING_DOWN, c), w)
      | Some k \<Rightarrow> do {
          _ \<leftarrow> iface_at k w;
          let w = set_status k WAN_IFACE_NOT_SELECTED w;
          (running, w) \<leftarrow> WanMgr_Get_ISM_RunningStatus (idx_uint (PC_activeInterfaceIdx c)) w;
          if running then Some ((STATE_AUTO_WAN_TEARING_DOWN, c), w)
          else do {
            (_, w) \<leftarrow> AW_ResetIfaceTable c w;
            (_, w) \<leftarrow> AW_ResetGroupSelectedIface c w;
            (_, w) \<leftarrow> (if PC_GroupCfgChanged c then AW_ResetActiveLinkOnAllIface e c w
                       else Some (ANSC_STATUS_SUCCESS, w));
            Some ((STATE_AUTO_WAN_SM_EXIT, c), w)
          }
        })"

subsection \<open>The thread\<close>

text \<open>
  \<open>WanMgr_AutoWanSelectionProcess\<close>: the flag says whether the thread is still in its loop.  Leaving the
  loop and the epilogue belong to the pass that finds the machine in its exit or error state.
\<close>

type_synonym AW_thread = "bool \<times> WcAwPolicyState_t \<times> WanMgr_Policy_Controller_t"

definition AW_init :: "build \<Rightarrow> env \<Rightarrow> uint \<Rightarrow> policy_ctrl \<Rightarrow> world \<Rightarrow> (AW_thread \<times> world) option" where
  "AW_init b e arg c w = do {
     let c = (WanMgr_Controller_PolicyCtrlInit c)\<lparr>PC_GroupInst := arg\<rparr>;
     (c, w) \<leftarrow> AW_UpdateControllerData c w;
     ((st, c), w) \<leftarrow> AW_Transition_Start b e c w;
     Some ((True, st, c), w)
   }"

fun AW_state :: "build \<Rightarrow> env \<Rightarrow> WcAwPolicyState_t \<Rightarrow> policy_ctrl \<Rightarrow> world \<Rightarrow> AW_step" where
  "AW_state b e STATE_AUTO_WAN_INTERFACE_SELECTING c w = AW_State_SelectingInterface b e c w"
| "AW_state b e STATE_AUTO_WAN_INTERFACE_WAITING c w = AW_State_WaitForInterface b e c w"
| "AW_state b e STATE_AUTO_WAN_INTERFACE_SCANNING c w = AW_State_ScanningInterface e c w"
| "AW_state b e STATE_AUTO_WAN_INTERFACE_TEARDOWN c w = AW_State_WaitingForIfaceTearDown b e c w"
| "AW_state b e STATE_AUTO_WAN_INTERFACE_RECONFIGURATION c w = AW_State_InterfaceReconfiguration b e c w"
| "AW_state b e STATE_AUTO_WAN_REBOOT_PLATFORM c w = AW_State_RebootingPlatform e c w"
| "AW_state b e STATE_AUTO_WAN_INTERFACE_ACTIVE c w = AW_State_WanInterfaceActive e c w"
| "AW_state b e STATE_AUTO_WAN_INTERFACE_DOWN c w = AW_State_WanInterfaceDown e c w"
| "AW_state b e STATE_AUTO_WAN_TEARING_DOWN c w = AW_State_WaitingForInterfaceSMExit e c w"
| "AW_state b e STATE_AUTO_WAN_SM_EXIT c w = Some ((STATE_AUTO_WAN_SM_EXIT, c), w)"
| "AW_state b e STATE_AUTO_WAN_ERROR c w = Some ((STATE_AUTO_WAN_ERROR, c), w)"

definition AW_stops :: "WcAwPolicyState_t \<Rightarrow> bool" where
  "AW_stops st \<longleftrightarrow> st = STATE_AUTO_WAN_SM_EXIT \<or> st = STATE_AUTO_WAN_ERROR"

definition AW_epilogue :: "policy_ctrl \<Rightarrow> world \<Rightarrow> (unit \<times> world) option" where
  "AW_epilogue c w = do {
     let (_, w) = (if PC_GroupCfgChanged c
                   then with_config () (\<lambda>w. ((), upd_config (\<lambda>d. d\<lparr>Cfg_ResetFailOverScan := True\<rparr>) w)) w
                   else ((), w));
     with_group (PC_GroupInst c - 1) () (\<lambda>k w.
       Some ((), upd_group k (\<lambda>g. g\<lparr>G_ThreadId := 0, G_SelectedInterface := 0, G_ConfigChanged := False,
         G_State := (if G_State g \<noteq> STATE_GROUP_DEACTIVATED then STATE_GROUP_STOPPED else G_State g)\<rparr>) w)) w
   }"

text \<open>The update of the controller that follows taking the pointer to the selected interface.\<close>

definition AW_take_iface :: "policy_ctrl \<Rightarrow> world \<Rightarrow> (policy_ctrl \<times> world) option" where
  "AW_take_iface c w =
     (case WanMgr_GetIfaceData_locked (idx_uint (PC_activeInterfaceIdx c)) w of
        (None, w) \<Rightarrow> Some (c\<lparr>PC_pWanActiveIfaceData := None\<rparr>, w)
      | (Some k, w) \<Rightarrow> do {
          d \<leftarrow> iface_at k w;
          Some (c\<lparr>PC_pWanActiveIfaceData := Some k,
                  PC_InterfaceSelectionTimeOut := Sel_Timeout (If_Selection d),
                  PC_GroupInst := (if PC_GroupInst c = 0 then Sel_Group (If_Selection d) else PC_GroupInst c)\<rparr>, w)
        })"

fun AW_pass :: "build \<Rightarrow> env \<Rightarrow> AW_thread \<Rightarrow> world \<Rightarrow> (AW_thread \<times> world) option" where
  "AW_pass b e (True, st, c) w =
     (if \<not> select_ok e then Some ((True, st, c), w)
      else do {
        (c, w) \<leftarrow> AW_UpdateControllerData c w;
        (c, w) \<leftarrow> AW_take_iface c w;
        ((st', c), w) \<leftarrow> AW_state b e st c w;
        let w = (if PC_pWanActiveIfaceData c \<noteq> None then WanMgrDml_GetIfaceData_release w else w);
        if AW_stops st
        then do {
          (_, w) \<leftarrow> AW_epilogue c w;
          Some ((False, st', c), w)
        }
        else Some ((True, st', c), w)
      })"
| "AW_pass b e (False, st, c) w = Some ((False, st, c), w)"

end
