(* ===== verification/WanPolicyLemmas.thy ===== *)
theory WanPolicyLemmas
  imports WanPolicy
begin

text \<open>
  What the proofs about the selection policies share: the virtual interfaces of an entry of a
  well-formed data base can be looked up by their instance, the running test and the start of a state
  machine are harmless, and so is every write that leaves the selection alone.
\<close>

subsection \<open>Virtual interfaces of a well-formed entry\<close>

lemma wf_shape_lookup:
  assumes "wf_shape k (iface_shape d)" "i < unat (If_NoOfVirtIfs d)"
  shows "virtif_position (If_VirtIfList d) (of_nat i) = Some i" "i < length (If_VirtIfList d)"
    "(of_nat i :: uint) < If_NoOfVirtIfs d"
proof -
  let ?vs = "If_VirtIfList d"
  from assms(1) have len: "unat (If_NoOfVirtIfs d) = length ?vs"
    and ids: "map VI_VirIfIdx ?vs = map of_nat [0..<length ?vs]"
    by (simp_all add: iface_shape_def)
  from len assms(2) show i: "i < length ?vs" by simp
  have id: "VI_VirIfIdx (?vs ! j) = of_nat j" if "j < length ?vs" for j
    using arg_cong [where f = "\<lambda>l. l ! j", OF ids] that by simp
  have inj: "(of_nat j :: uint) \<noteq> of_nat i" if "j < i" for j
    using index_bound(1) [OF assms(2)] index_bound(1) [of j "If_NoOfVirtIfs d"] that assms(2) by force
  show "virtif_position ?vs (of_nat i) = Some i"
    unfolding virtif_position_Some using i id inj by simp
  show "(of_nat i :: uint) < If_NoOfVirtIfs d" using assms(2) by (rule index_bound(2))
qed

lemma wf_db_shape:
  assumes "wf_db w" "i < total_ifaces w" "iface_at (unat i) w = Some d"
  shows "wf_shape (unat i) (iface_shape d)"
proof -
  from assms(2) have "unat i < unat (total_ifaces w)" by (simp add: word_less_nat_alt)
  with assms(1) obtain x where "iface_at (unat i) w = Some x" "wf_shape (unat i) (iface_shape x)"
    by (rule wf_db_iface_at)
  with assms(3) show ?thesis by simp
qed

lemma getVirtualIface_locked_wf:
  assumes wf: "wf_db w" and i: "i < total_ifaces w" and d: "iface_at (unat i) w = Some d"
    and v: "v < unat (If_NoOfVirtIfs d)"
  shows "WanMgr_getVirtualIface_locked i (of_nat v) w = Some (Some (unat i, v), mlock w)"
    "virtif_at (unat i, v) (mlock w) = Some (If_VirtIfList d ! v)"
proof -
  from wf have lock: "pthread_mutex_lock w = (True, mlock w)" and p: "pIface w \<noteq> None"
    by (auto simp: wf_db_def pthread_mutex_lock_def split: option.splits)
  from wf_shape_lookup [OF wf_db_shape [OF wf i d] v]
  show "WanMgr_getVirtualIface_locked i (of_nat v) w = Some (Some (unat i, v), mlock w)"
    and "virtif_at (unat i, v) (mlock w) = Some (If_VirtIfList d ! v)"
    using lock p i d by (simp_all add: WanMgr_getVirtualIface_locked_def virtif_at_def)
qed

lemma ism_scan_total:
  assumes "wf_shape k (iface_shape d)" "set ids \<subseteq> {0..<unat (If_NoOfVirtIfs d)}"
  shows "ism_scan (If_VirtIfList d) ids =
    Some (\<exists>i \<in> set ids. VI_Interface_SM_Running (If_VirtIfList d ! i))"
  using assms(2)
proof (induction ids)
  case Nil
  then show ?case by simp
next
  case (Cons i ids)
  then have "i < unat (If_NoOfVirtIfs d)" by simp
  from wf_shape_lookup [OF assms(1) this]
  have "WanMgr_getVirtualIfaceById (If_VirtIfList d) (of_nat i) = Some (If_VirtIfList d ! i)"
    by (simp add: WanMgr_getVirtualIfaceById_def)
  with Cons show ?case by simp
qed

text \<open>Whether some state machine of interface \<open>k\<close> runs.\<close>

definition machine_running :: "nat \<Rightarrow> world \<Rightarrow> bool" where
  "machine_running k w = (case iface_at k w of None \<Rightarrow> False
     | Some d \<Rightarrow> \<exists>v \<in> set (If_VirtIfList d). VI_Interface_SM_Running v)"

lemma machine_running_lock [simp]:
  "machine_running k (mlock w) = machine_running k w"
  "machine_running k (pthread_mutex_unlock w) = machine_running k w"
  by (simp_all add: machine_running_def)

lemma ism_scan_all:
  assumes "wf_shape k (iface_shape d)"
  shows "ism_scan (If_VirtIfList d) [0..<unat (If_NoOfVirtIfs d)] =
    Some (\<exists>v \<in> set (If_VirtIfList d). VI_Interface_SM_Running v)"
proof -
  from assms have "unat (If_NoOfVirtIfs d) = length (If_VirtIfList d)" by (simp add: iface_shape_def)
  then show ?thesis
    by (subst ism_scan_total [OF assms]) (force simp: in_set_conv_nth Bex_def)+
qed

lemma Get_ISM_RunningStatus_eq:
  assumes "wf_db w"
  shows "WanMgr_Get_ISM_RunningStatus i w =
    Some (i < total_ifaces w \<and> machine_running (unat i) w, w)"
proof (cases "i < total_ifaces w")
  case True
  then have "unat i < unat (total_ifaces w)" by (simp add: word_less_nat_alt)
  with assms obtain d where d: "iface_at (unat i) w = Some d" "wf_shape (unat i) (iface_shape d)"
    by (rule wf_db_iface_at)
  with True show ?thesis
    by (simp add: WanMgr_Get_ISM_RunningStatus_def with_wf(2) [OF assms] ism_scan_all machine_running_def)
next
  case False
  then show ?thesis by (simp add: WanMgr_Get_ISM_RunningStatus_def with_wf(2) [OF assms])
qed

lemma StartInterfaceStateMachine_db [frame_simps]:
  "gWanMgrDataBase (snd (WanMgr_StartInterfaceStateMachine e i v w)) = gWanMgrDataBase w"
  by (simp add: WanMgr_StartInterfaceStateMachine_def)

subsection \<open>The index of the interface a policy works on\<close>

text \<open>Either none (-1) or an index into the table.\<close>

definition valid_idx :: "uint \<Rightarrow> int \<Rightarrow> bool" where
  "valid_idx n i \<longleftrightarrow> i = -1 \<or> (0 \<le> i \<and> nat i < unat n)"

lemma valid_idx_none [simp]: "valid_idx n (-1)"
  by (simp add: valid_idx_def)

lemma valid_idx_int [simp]: "i < unat n \<Longrightarrow> valid_idx n (int i)"
  by (simp add: valid_idx_def)

lemma idx_uint_in:
  assumes "valid_idx n i" "i \<noteq> -1"
  shows "idx_uint i < n" "unat (idx_uint i) = nat i" "nat i < unat n"
proof -
  from assms show n: "nat i < unat n" and "unat (idx_uint i) = nat i"
    using index_bound(1) [of "nat i" n] by (auto simp: valid_idx_def idx_uint_def)
  then show "idx_uint i < n" by (simp add: word_less_nat_alt)
qed

lemma idx_uint_none:
  assumes "wf_db w"
  shows "\<not> idx_uint (-1) < total_ifaces w"
proof -
  have "unat (idx_uint (-1)) = 4294967295" by (simp add: idx_uint_def unsigned_minus_1_eq_mask mask_eq_exp_minus_1)
  with wf_db_total_le [OF assms] show ?thesis by (simp add: word_less_nat_alt)
qed

subsection \<open>Writes that leave the selection alone\<close>

text \<open>
  \<open>quiet w w'\<close>: the data base is as well-formed as before, its tables are as long, the mutex is held as
  often, and nothing of the selection has changed.
\<close>

definition quiet :: "world \<Rightarrow> world \<Rightarrow> bool" where
  "quiet w w' \<longleftrightarrow> keeps w w' \<and> sel_view w' = sel_view w"

named_theorems quiet_intros \<open>harmless writes\<close>

lemma quiet_refl [quiet_intros]: "wf_db w \<Longrightarrow> quiet w w"
  by (simp add: quiet_def keeps_refl)

lemma quiet_trans: "quiet w w' \<Longrightarrow> quiet w' w'' \<Longrightarrow> quiet w w''"
  by (auto simp: quiet_def intro: keeps_trans)

lemma quiet_same_db:
  assumes db: "gWanMgrDataBase w'' = gWanMgrDataBase w'" and "quiet w w'"
  shows "quiet w w''"
  using assms(2) keeps_same_db [OF db] sel_view_same_db [OF db] by (simp only: quiet_def)

lemma quiet_upd_iface:
  "\<lbrakk>quiet w w'; \<And>x. iface_shape (f x) = iface_shape x;
    \<And>x. Sel_Status (If_Selection (f x)) = Sel_Status (If_Selection x)\<rbrakk> \<Longrightarrow> quiet w (upd_iface k f w')"
  by (simp add: quiet_def keeps_upd_iface)

lemma quiet_upd_group:
  "\<lbrakk>quiet w w'; \<And>g. G_SelectedInterface (f g) = G_SelectedInterface g\<rbrakk> \<Longrightarrow> quiet w (upd_group k f w')"
  by (simp add: quiet_def keeps_upd_group)

lemma quiet_upd_config [quiet_intros]: "quiet w w' \<Longrightarrow> quiet w (upd_config f w')"
  by (simp add: quiet_def keeps_upd_config)

lemma quiet_emit [quiet_intros]: "quiet w w' \<Longrightarrow> quiet w (emit e w')"
  by (rule quiet_same_db) simp_all

lemma quiet_bus [quiet_intros]:
  assumes "quiet w w'"
  shows "quiet w (snd (WanMgr_RdkBus_SetParamValuesToDB e n v w'))"
    "quiet w (snd (DmlSetWanActiveLinkInPSMDB e i b w'))"
    "quiet w (snd (WanMgr_RdkBus_SetParamValues e n v w'))"
    "quiet w (snd (WanMgr_RdkBus_GetParamValues e n w'))"
    "quiet w (snd (WanMgr_RdkBus_AddIntfToLanBridge e n b w'))"
    "quiet w (sysevent_set n v w')" "quiet w (syscfg_set_commit n v w')"
    "quiet w (snd (WanMgr_StartInterfaceStateMachine e j l w'))"
    "quiet w (Wanmgr_TriggerReboot e w')"
  using assms by (auto intro: quiet_same_db simp: frame_simps)

text \<open>
  The strongest of the effects: the tables and the configuration are untouched (the logs and stores may
  change).
\<close>

definition same_tables :: "world \<Rightarrow> world \<Rightarrow> bool" where
  "same_tables w w' \<longleftrightarrow> pIface w' = pIface w \<and> Groups w' = Groups w \<and> config w' = config w \<and>
     total_ifaces w' = total_ifaces w \<and> total_groups w' = total_groups w"

interpretation tab: effects same_tables
  by unfold_locales (simp_all add: same_tables_def)

lemma same_tables_db: "gWanMgrDataBase w' = gWanMgrDataBase w \<Longrightarrow> same_tables w w'"
  by (simp add: same_tables_def)

lemma same_tables_at:
  assumes "same_tables w w'"
  shows "iface_at k w' = iface_at k w" "group_at k w' = group_at k w" "config w' = config w"
    "total_ifaces w' = total_ifaces w" "total_groups w' = total_groups w" "sel_view w' = sel_view w"
  using assms by (simp_all add: same_tables_def iface_at_def group_at_def sel_view_def)

lemma okx_tables:
  assumes "okx same_tables w m R"
  obtains r w' where "m = Some (r, w')" "keeps w w'" "same_tables w w'" "quiet w w'" "R r"
  using assms by (auto simp: okx_def ok_def quiet_def same_tables_at(6))

lemma tab_db: "\<lbrakk>gWanMgrDataBase w' = gWanMgrDataBase w; wf_db w; R r\<rbrakk> \<Longrightarrow> okx same_tables w (Some (r, w')) R"
  by (rule tab.return) (simp_all add: same_tables_db keeps_same_db keeps_refl)

text \<open>
  A policy step may always do a quiet write.  The lemmas of this locale are proved once for all the
  effects the policies are held to.
\<close>

locale policy_effects = effects +
  assumes eff_quiet: "sel_view w' = sel_view w \<Longrightarrow> eff w w'"
begin

lemma quiet_return: "\<lbrakk>quiet w w'; R r\<rbrakk> \<Longrightarrow> okx eff w (Some (r, w')) R"
  by (rule return) (simp_all add: quiet_def eff_quiet)

lemma quiet_step: "\<lbrakk>quiet w w'; okx eff w' m R\<rbrakk> \<Longrightarrow> okx eff w m R"
  by (rule step [of w w']) (simp_all add: quiet_def eff_quiet)

lemma quiet_ok: "ok w m (\<lambda>r w'. sel_view w' = sel_view w \<and> R r) \<Longrightarrow> okx eff w m R"
  by (auto simp: okx_def ok_def eff_quiet)

lemma quiet_tables: "okx same_tables w m R \<Longrightarrow> okx eff w m R"
  by (erule okx_mono) (simp_all add: eff_quiet same_tables_at(6))

lemma deref: "\<lbrakk>p = Some x; okx eff w (f x) R\<rbrakk> \<Longrightarrow> okx eff w (Option.bind p f) R"
  by simp

lemma running:
  "wf_db w \<Longrightarrow> okx eff w (WanMgr_Get_ISM_RunningStatus i w)
    (\<lambda>r. r = (i < total_ifaces w \<and> machine_running (unat i) w))"
  by (simp add: Get_ISM_RunningStatus_eq) (rule return_same; simp)

end

interpretation sel: policy_effects same_sel
  by unfold_locales (simp add: same_sel_def)

end
