(* ===== verification/WanAutoLemmas.thy ===== *)
theory WanAutoLemmas
  imports WanAutoPolicy WanPolicyLemmas
begin

text \<open>
  The operations of the AutoWAN policy, judged by their effect on the selection: every helper but
  \<open>WanMgr_SetGroupSelectedIface\<close> is quiet; the transitions write the status of the interface the policy
  works on and the selected interface of its own group, nothing else.  Then the invariant of the
  thread.
\<close>

subsection \<open>Quiet helpers\<close>

lemma quiet_set_ActiveLink [quiet_intros]: "quiet w w' \<Longrightarrow> quiet w (set_ActiveLink k v w')"
  unfolding set_ActiveLink_def by (rule quiet_upd_iface) simp_all

lemma quiet_set_VirtIf_Status [quiet_intros]: "quiet w w' \<Longrightarrow> quiet w (set_VirtIf_Status k st w')"
  unfolding set_VirtIf_Status_def by (rule quiet_upd_iface) (simp_all add: iface_shape_upd_head_virtif)

lemma quiet_set_VirtIfChanged [quiet_intros]: "quiet w w' \<Longrightarrow> quiet w (set_VirtIfChanged k v w')"
  unfolding set_VirtIfChanged_def by (rule quiet_upd_iface) (simp_all add: iface_shape_def)

lemma quiet_reset_wan_mode [quiet_intros]: "quiet w w' \<Longrightarrow> quiet w (reset_wan_mode b c w')"
  by (simp add: reset_wan_mode_def quiet_intros)

text \<open>Starting the machines of an interface leaves the tables as they are.\<close>

lemma start_virtif:
  assumes wf: "wf_db w" and idx: "idx_uint j < total_ifaces w"
    and d: "iface_at (unat (idx_uint j)) w = Some d" "i < unat (If_NoOfVirtIfs d)"
  shows "okx same_tables w (AW_start_virtif e j i r w) (\<lambda>_. True)"
    "PC_activeInterfaceIdx c = j \<Longrightarrow> okx same_tables w (AW_restart_virtif e c i w) (\<lambda>_. True)"
proof -
  note get = getVirtualIface_locked_wf [OF wf idx d]
  note db = StartInterfaceStateMachine_db [of e j "int i" w]
  show "okx same_tables w (AW_start_virtif e j i r w) (\<lambda>_. True)"
    unfolding AW_start_virtif_def get(1)
    by (simp add: get(2) release_defs split: bool.split prod.split)
      (intro conjI impI allI tab_db; use wf db in simp)
  have "pthread_mutex_unlock (snd (WanMgr_StartInterfaceStateMachine e j (int i) (mlock w))) =
      snd (WanMgr_StartInterfaceStateMachine e j (int i) w)"
    by (simp add: WanMgr_StartInterfaceStateMachine_def)
  with wf db show "okx same_tables w (AW_restart_virtif e c i w) (\<lambda>_. True)"
    if "PC_activeInterfaceIdx c = j"
    unfolding AW_restart_virtif_def
    by (simp add: get that release_defs) (intro conjI impI tab_db; simp)
qed

lemma start_loop:
  assumes wf: "wf_db w" and idx: "idx_uint j < total_ifaces w"
    and d: "iface_at (unat (idx_uint j)) w = Some d"
  shows "okx same_tables w (for_loop [0..<unat (If_NoOfVirtIfs d)] (AW_start_virtif e j) r w) (\<lambda>_. True)"
    "PC_activeInterfaceIdx c = j \<Longrightarrow>
     okx same_tables w (for_loop [0..<unat (If_NoOfVirtIfs d)]
       (\<lambda>VirtId u w. continue (AW_restart_virtif e c VirtId w)) u w) (\<lambda>_. True)"
proof -
  have body: "idx_uint j < total_ifaces u" "iface_at (unat (idx_uint j)) u = Some d"
    if "same_tables w u" for u
    using that idx d by (simp_all add: same_tables_at)
  show "okx same_tables w (for_loop [0..<unat (If_NoOfVirtIfs d)] (AW_start_virtif e j) r w) (\<lambda>_. True)"
    by (rule tab.loop [OF wf]) (simp_all add: start_virtif body)
  show "okx same_tables w (for_loop [0..<unat (If_NoOfVirtIfs d)]
       (\<lambda>VirtId u w. continue (AW_restart_virtif e c VirtId w)) u w) (\<lambda>_. True)"
    if "PC_activeInterfaceIdx c = j"
    by (rule tab.loop_continue [where R = "\<lambda>_. True", OF wf]) (simp_all add: start_virtif(2) [OF _ _ _ _ that] body)
qed

context policy_effects
begin

lemma phy_path: "wf_db w \<Longrightarrow> okx eff w (group_phy_path c i w) (\<lambda>_. True)"
  unfolding group_phy_path_def
  by (rule iface, assumption, simp, rule deref, simp, rule return_same) simp_all

lemma AddAllIntfsToLanBridge:
  assumes wf: "wf_db w"
  shows "okx eff w (AW_AddAllIntfsToLanBridge e c v w) (\<lambda>_. True)"
proof -
  have body: "okx eff u (Option.bind (group_phy_path c i u) (\<lambda>(p, u). Some ((), case p of None \<Rightarrow> u
      | Some P \<Rightarrow> if P \<noteq> [] then snd (WanMgr_RdkBus_AddIntfToLanBridge e P v u) else u))) (\<lambda>_. True)"
    if "wf_db u" for i u
    by (rule bind_pair [OF phy_path [OF that]], rule quiet_return)
      (auto intro: quiet_intros split: option.split)
  show ?thesis
    unfolding AW_AddAllIntfsToLanBridge_def
    by (rule okx_if, rule return_same, use wf in simp_all, rule bind_pair,
        rule loop_continue [where R = "\<lambda>_. True"])
      (use wf body in \<open>simp_all add: return_same\<close>)
qed

lemma SetActiveLink:
  assumes wf: "wf_db w" and k: "\<And>k. PC_pWanActiveIfaceData c = Some k \<Longrightarrow> k < unat (total_ifaces w)"
  shows "okx eff w (AW_SetActiveLink e c v w) (\<lambda>_. True)"
proof (cases "PC_pWanActiveIfaceData c")
  case None
  with wf show ?thesis by (simp add: AW_SetActiveLink_def return_same)
next
  case (Some k)
  then have "k < unat (total_ifaces w)" by (rule k)
  with wf obtain d where "iface_at k w = Some d" by (rule wf_db_iface_at)
  with Some wf show ?thesis
    by (simp add: AW_SetActiveLink_def) (intro conjI impI quiet_return quiet_intros; simp)
qed

lemma GetPrevSelectedInterface:
  assumes wf: "wf_db w" and n: "PC_TotalIfaces c = total_ifaces w"
  shows "okx eff w (AW_GetPrevSelectedInterface e c w) (valid_idx (total_ifaces w))"
proof -
  let ?R = "valid_idx (total_ifaces w)"
  show ?thesis
    unfolding AW_GetPrevSelectedInterface_def
  proof (rule okx_if [OF return_same [OF wf]], simp, rule loop [OF wf])
    fix i r u
    assume i: "i \<in> set [0..<unat (PC_TotalIfaces c)]" and wfu: "wf_db u" and r: "?R r"
    from i n have ri: "?R (int i)" by simp
    show "okx eff u (with_iface (of_nat i) (Continue r) (\<lambda>k w. do {
          d \<leftarrow> iface_at k w;
          Some (if PC_GroupInst c = Sel_Group (If_Selection d) \<and> Sel_ActiveLink (If_Selection d)
                then if \<not> Sel_Enable (If_Selection d)
                     then (Break (-1), set_ActiveLink k False (snd (DmlSetWanActiveLinkInPSMDB e (of_nat i) False w)))
                     else (Break (int i), w)
                else (Continue r, w))
        }) u) (\<lambda>f. ?R (flow_val f))"
      by (rule iface [OF wfu], simp add: r, rule deref, simp only: lock_at,
          intro okx_Some_if quiet_return quiet_intros) (simp_all add: r ri)
  qed simp
qed

lemma GetHighPriorityIface:
  assumes wf: "wf_db w" and n: "PC_TotalIfaces c = total_ifaces w"
  shows "okx eff w (AW_GetHighPriorityIface b c w)
    (\<lambda>c'. \<exists>i. c' = c\<lparr>PC_activeInterfaceIdx := i\<rparr> \<and>
       (i = PC_activeInterfaceIdx c \<or> valid_idx (total_ifaces w) i))"
proof -
  let ?R = "\<lambda>s :: int \<times> int. valid_idx (total_ifaces w) (fst s)"
  let ?P = "\<lambda>c' :: policy_ctrl. \<exists>i. c' = c\<lparr>PC_activeInterfaceIdx := i\<rparr> \<and>
         (i = PC_activeInterfaceIdx c \<or> valid_idx (total_ifaces w) i)"
  show ?thesis
    unfolding AW_GetHighPriorityIface_def
  proof (rule okx_if [OF return_same [OF wf]], rule exI [of _ "PC_activeInterfaceIdx c"], simp,
      rule bind_pair, rule loop_continue [where R = ?R, OF wf], simp)
    fix i s u
    assume i: "i \<in> set [0..<unat (PC_TotalIfaces c)]" and wfu: "wf_db u" and s: "?R s"
    from i n have ri: "valid_idx (total_ifaces w) (int i)" by simp
    show "okx eff u (with_iface (of_nat i) s (\<lambda>k w. do {
             d \<leftarrow> iface_at k w;
             v \<leftarrow> head_virtif d;
             Some (if AW_candidate c d v \<and>
                      (Sel_Priority (If_Selection d) < snd s \<or>
                       (XB6_PRODUCT b \<and> isLastActiveLinkFromSysCfg d w))
                   then (int i, Sel_Priority (If_Selection d)) else s, w)
           }) u) ?R"
      by (rule iface [OF wfu], simp add: s, rule deref, simp only: lock_at, rule deref, assumption,
          rule return_same) (simp_all add: s ri)
  next
    fix r :: "int \<times> int" and w'
    assume wf': "wf_db w'" and r: "?R r"
    have "?P c" by (rule exI [of _ "PC_activeInterfaceIdx c"]) simp
    moreover have "?P (c\<lparr>PC_activeInterfaceIdx := fst r\<rparr>)" using r by blast
    ultimately show "okx eff w' ((case r of (i, p) \<Rightarrow>
        \<lambda>w. Some (if i \<noteq> -1 then c\<lparr>PC_activeInterfaceIdx := i\<rparr> else c, w)) w') ?P"
      by (cases r) (simp add: return_same [OF wf'])
  qed
qed

lemma ResetActiveLinkOnAllIface:
  assumes wf: "wf_db w"
  shows "okx eff w (AW_ResetActiveLinkOnAllIface e c w) (\<lambda>_. True)"
  unfolding AW_ResetActiveLinkOnAllIface_def
proof (rule okx_if [OF return_same [OF wf]], simp, rule loop [OF wf])
  fix i and r :: ANSC_STATUS and u
  assume wfu: "wf_db u"
  have run: "okx eff u' (Some (case DmlSetWanActiveLinkInPSMDB e j False (set_ActiveLink k False u') of
        (ANSC_STATUS_SUCCESS, w) \<Rightarrow> (Continue r, w)
      | (ANSC_STATUS_FAILURE, w) \<Rightarrow> (Break ANSC_STATUS_FAILURE, w))) (\<lambda>_. True)"
    if wf': "wf_db u'" for u' k j
  proof -
    have q: "quiet u' (snd (DmlSetWanActiveLinkInPSMDB e j False (set_ActiveLink k False u')))"
      using wf' by (intro quiet_intros)
    show ?thesis
      by (cases "DmlSetWanActiveLinkInPSMDB e j False (set_ActiveLink k False u')";
          cases "fst (DmlSetWanActiveLinkInPSMDB e j False (set_ActiveLink k False u'))")
        (use q in \<open>auto intro: quiet_return\<close>)
  qed
  show "okx eff u (with_iface (of_nat i) (Continue r) (\<lambda>k w. do {
          d \<leftarrow> iface_at k w;
          Some (if PC_GroupInst c = Sel_Group (If_Selection d)
                then (case DmlSetWanActiveLinkInPSMDB e (of_nat i) False (set_ActiveLink k False w) of
                        (ANSC_STATUS_SUCCESS, w) \<Rightarrow> (Continue r, w)
                      | (ANSC_STATUS_FAILURE, w) \<Rightarrow> (Break ANSC_STATUS_FAILURE, w))
                else (Continue r, w))
        }) u) (\<lambda>_. True)"
    by (rule iface [OF wfu], simp, rule deref, simp only: lock_at, rule okx_Some_if, rule run, simp,
        rule return_same) simp_all
qed simp

lemma ResetIfaceTable:
  assumes wf: "wf_db w"
  shows "okx eff w (AW_ResetIfaceTable c w) (\<lambda>_. True)"
  unfolding AW_ResetIfaceTable_def
proof (rule okx_if [OF return_same [OF wf]], simp, rule loop_continue [OF wf])
  fix i u
  assume wfu: "wf_db u"
  show "okx eff u (with_iface (of_nat i) () (\<lambda>k w. do {
          d \<leftarrow> iface_at k w;
          if PC_GroupInst c = Sel_Group (If_Selection d)
          then do {
            v \<leftarrow> head_virtif d;
            Some ((), if VI_Status v = WAN_IFACE_STATUS_INVALID
                      then set_VirtIf_Status k WAN_IFACE_STATUS_DISABLED w else w)
          }
          else Some ((), w)
        }) u) (\<lambda>_. True)"
    by (rule iface [OF wfu], simp, rule deref, simp only: lock_at, rule okx_if, rule deref, assumption,
        rule quiet_return) (simp_all add: quiet_intros return_same)
qed simp

lemma CheckOnlyPossibleWanLink:
  assumes wf: "wf_db w" and k: "PC_pWanActiveIfaceData c = Some k" "k < unat (total_ifaces w)"
  shows "okx eff w (AW_CheckOnlyPossibleWanLink c w) (\<lambda>_. True)"
proof -
  from wf k(2) obtain d where d: "iface_at k w = Some d" by (rule wf_db_iface_at)
  show ?thesis
    unfolding AW_CheckOnlyPossibleWanLink_def
  proof (rule okx_if [OF return_same [OF wf]], simp, rule deref [OF k(1)], rule deref [OF d],
      rule okx_if [OF return_same [OF wf]], simp, rule loop [OF wf])
    fix i r u
    assume wfu: "wf_db u"
    show "okx eff u (if of_nat i = idx_uint (PC_activeInterfaceIdx c) then Some (Continue r, u)
          else with_iface (of_nat i) (Continue r) (\<lambda>k w. do {
            d \<leftarrow> iface_at k w;
            Some (if PC_GroupInst c = Sel_Group (If_Selection d) \<and> Sel_Enable (If_Selection d)
                  then Break False else Continue r, w)
          }) u) (\<lambda>_. True)"
      by (rule okx_if, rule return_same [OF wfu], simp, rule iface [OF wfu], simp, rule deref,
          simp only: lock_at, rule return_same) simp_all
  qed simp
qed

lemma InitialScanComplete: "wf_db w \<Longrightarrow> okx eff w (set_InitialScanComplete inst w) (\<lambda>_. True)"
  unfolding set_InitialScanComplete_def
  by (rule group, assumption, simp, rule quiet_return, rule quiet_upd_group)
    (simp_all add: quiet_refl)

lemma StartIfaceStateMachine:
  assumes wf: "wf_db w" and j: "idx_uint (PC_activeInterfaceIdx c) < total_ifaces w"
    and k: "PC_pWanActiveIfaceData c = Some (unat (idx_uint (PC_activeInterfaceIdx c)))"
  shows "okx eff w (AW_StartIfaceStateMachine e c w) (\<lambda>_. True)"
proof -
  from wf j obtain d where d: "iface_at (unat (idx_uint (PC_activeInterfaceIdx c))) w = Some d"
    by (rule wf_db_iface_head)
  show ?thesis
    unfolding AW_StartIfaceStateMachine_def k option.case
    by (rule deref [OF d], rule bind_pair, rule quiet_tables, rule start_loop [OF wf j d],
        rule okx_if; rule quiet_return; simp add: quiet_intros)
qed

lemma bridge_others:
  assumes wf: "wf_db w"
  shows "okx eff w (AW_bridge_others e c w) (\<lambda>_. True)"
  unfolding AW_bridge_others_def
proof (rule loop_continue [where R = "\<lambda>_. True", OF wf])
  fix i s u
  assume wfu: "wf_db u"
  show "okx eff u (if of_nat i = idx_uint (PC_activeInterfaceIdx c) then Some ((), u)
        else do {
          (p, w) \<leftarrow> group_phy_path c i u;
          Some ((), case p of None \<Rightarrow> w
                    | Some PhyPath \<Rightarrow>
                        if PhyPath \<noteq> [] \<and> strstr PhyPath ''Ethernet''
                        then snd (WanMgr_RdkBus_AddIntfToLanBridge e PhyPath True w) else w)
        }) (\<lambda>_. True)"
    by (rule okx_if [OF return_same [OF wfu]], simp, rule bind_pair [OF phy_path [OF wfu]], rule quiet_return)
      (auto intro: quiet_intros split: option.split)
qed simp

lemma hw_config:
  assumes wf: "wf_db w"
  shows "okx eff w (AW_hw_config e c i r w) (\<lambda>_. True)"
proof -
  have get: "quiet u (snd (WanMgr_RdkBus_GetParamValues e q u))" if "wf_db u" for u q
    using that by (intro quiet_intros)
  have set: "quiet u (snd (WanMgr_RdkBus_SetParamValues e q v u'))" if "quiet u u'" for u u' q v
    using that by (intro quiet_intros)
  have tail: "okx eff u (Some (case q of
        None \<Rightarrow> (r, u)
      | Some (CurrIntfHwRebootConfig, PhyPath) \<Rightarrow>
          (case WanMgr_RdkBus_GetParamValues e (hw_query PhyPath) u of
             (None, w) \<Rightarrow> (r, w)
           | (Some dmValue, w) \<Rightarrow>
               let want = (if of_nat i = idx_uint (PC_activeInterfaceIdx c) then ''true'' else ''false'')
               in if same_nocase dmValue want then (r, w)
                  else case WanMgr_RdkBus_SetParamValues e (hw_query PhyPath) want w of
                         (ANSC_STATUS_SUCCESS, w) \<Rightarrow> (r \<or> CurrIntfHwRebootConfig, w)
                       | (ANSC_STATUS_FAILURE, w) \<Rightarrow> (r, w)))) (\<lambda>_. True)"
    if wfu: "wf_db u" for u q
  proof (cases q)
    case None
    then show ?thesis using wfu by (simp add: return_same)
  next
    case (Some p)
    obtain reboot path where p: "p = (reboot, path)" by (cases p)
    obtain g u1 where g: "WanMgr_RdkBus_GetParamValues e (hw_query path) u = (g, u1)" by fastforce
    with get [OF wfu, of "hw_query path"] have q1: "quiet u u1" by simp
    let ?want = "if of_nat i = idx_uint (PC_activeInterfaceIdx c) then ''true'' else ''false''"
    obtain st u2 where s: "WanMgr_RdkBus_SetParamValues e (hw_query path) ?want u1 = (st, u2)" by fastforce
    with set [OF q1, of "hw_query path" ?want] have q2: "quiet u u2" by simp
    show ?thesis
      using q1 q2 by (cases g; cases st; cases "same_nocase (the g) ?want")
        (simp_all add: Some p g s quiet_return Let_def)
  qed
  show ?thesis
    unfolding AW_hw_config_def
    by (rule bind_pair [where P = "\<lambda>_. True"], rule iface [OF wf], simp, rule deref, simp only: lock_at,
        rule return_same, simp, simp, rule tail)
qed

lemma UpdateControllerData:
  assumes wf: "wf_db w"
  shows "okx eff w (AW_UpdateControllerData c w)
    (\<lambda>c'. PC_TotalIfaces c' = total_ifaces w \<and> PC_activeInterfaceIdx c' = PC_activeInterfaceIdx c \<and>
       PC_GroupInst c' = PC_GroupInst c \<and> PC_WanEnable c' = Cfg_Enable (config w))"
  unfolding AW_UpdateControllerData_def with_config_wf [OF wf]
  apply (simp add: wf Let_def)
  apply (rule group [OF wf], simp)
  apply (rule deref, simp only: lock_at, rule return_same, use wf in simp_all)
  done

end

end
