(* ===== verification/WanAutoSpec.thy ===== *)
theory WanAutoSpec
  imports WanAutoLemmas
begin

text \<open>
  The state diagram of the AutoWAN policy as an abstract specification: which state may follow which,
  and what a step writes into the selection.  Every state function of the code is shown to take one of
  these steps; the invariants of the thread are proved on the diagram.
\<close>

subsection \<open>The diagram\<close>

text \<open>
  \<open>AW_spec k st S T st'\<close>: a policy that works on interface \<open>k\<close> may go from \<open>st\<close> to \<open>st'\<close>; it then writes
  \<open>S\<close> into the selected interface of its group and \<open>T\<close> into the status of interface \<open>k\<close>, where
  \<open>None\<close> leaves the place alone.
\<close>

inductive AW_spec ::
  "nat \<Rightarrow> WcAwPolicyState_t \<Rightarrow> uint option \<Rightarrow> WANMGR_IFACE_SELECTION option \<Rightarrow> WcAwPolicyState_t \<Rightarrow> bool"
  for k :: nat where
  SelectingIdle: "AW_spec k STATE_AUTO_WAN_INTERFACE_SELECTING None None STATE_AUTO_WAN_INTERFACE_SELECTING"
| SelectingPick: "AW_spec k STATE_AUTO_WAN_INTERFACE_SELECTING None None STATE_AUTO_WAN_INTERFACE_WAITING"
| SelectingExit: "AW_spec k STATE_AUTO_WAN_INTERFACE_SELECTING None None STATE_AUTO_WAN_SM_EXIT"
| WaitingStay: "AW_spec k STATE_AUTO_WAN_INTERFACE_WAITING None None STATE_AUTO_WAN_INTERFACE_WAITING"
| WaitingInvalid: "AW_spec k STATE_AUTO_WAN_INTERFACE_WAITING None None STATE_AUTO_WAN_INTERFACE_SELECTING"
| WaitingFound: "AW_spec k STATE_AUTO_WAN_INTERFACE_WAITING None (Some WAN_IFACE_SELECTED) STATE_AUTO_WAN_INTERFACE_SCANNING"
| WaitingExit: "AW_spec k STATE_AUTO_WAN_INTERFACE_WAITING None None STATE_AUTO_WAN_SM_EXIT"
| ScanningStay: "AW_spec k STATE_AUTO_WAN_INTERFACE_SCANNING None None STATE_AUTO_WAN_INTERFACE_SCANNING"
| ScanningLost: "AW_spec k STATE_AUTO_WAN_INTERFACE_SCANNING None None STATE_AUTO_WAN_INTERFACE_WAITING"
| ScanningDeselect: "AW_spec k STATE_AUTO_WAN_INTERFACE_SCANNING None (Some WAN_IFACE_NOT_SELECTED) STATE_AUTO_WAN_INTERFACE_TEARDOWN"
| ScanningValidated: "AW_spec k STATE_AUTO_WAN_INTERFACE_SCANNING (Some (inst_of k)) None STATE_AUTO_WAN_INTERFACE_RECONFIGURATION"
| TeardownStay: "AW_spec k STATE_AUTO_WAN_INTERFACE_TEARDOWN None None STATE_AUTO_WAN_INTERFACE_TEARDOWN"
| TeardownExit: "AW_spec k STATE_AUTO_WAN_INTERFACE_TEARDOWN None None STATE_AUTO_WAN_TEARING_DOWN"
| TeardownInvalid: "AW_spec k STATE_AUTO_WAN_INTERFACE_TEARDOWN None None STATE_AUTO_WAN_INTERFACE_SELECTING"
| TeardownRestart: "AW_spec k STATE_AUTO_WAN_INTERFACE_TEARDOWN (Some 0) None STATE_AUTO_WAN_INTERFACE_SELECTING"
| TeardownError: "AW_spec k STATE_AUTO_WAN_INTERFACE_TEARDOWN None None STATE_AUTO_WAN_ERROR"
| ReconfigActive: "AW_spec k STATE_AUTO_WAN_INTERFACE_RECONFIGURATION None None STATE_AUTO_WAN_INTERFACE_ACTIVE"
| ReconfigDown: "AW_spec k STATE_AUTO_WAN_INTERFACE_RECONFIGURATION None None STATE_AUTO_WAN_INTERFACE_DOWN"
| ReconfigReboot: "AW_spec k STATE_AUTO_WAN_INTERFACE_RECONFIGURATION None (Some WAN_IFACE_NOT_SELECTED) STATE_AUTO_WAN_REBOOT_PLATFORM"
| RebootStay: "AW_spec k STATE_AUTO_WAN_REBOOT_PLATFORM None None STATE_AUTO_WAN_REBOOT_PLATFORM"
| RebootExit: "AW_spec k STATE_AUTO_WAN_REBOOT_PLATFORM None None STATE_AUTO_WAN_SM_EXIT"
| ActiveStay: "AW_spec k STATE_AUTO_WAN_INTERFACE_ACTIVE None None STATE_AUTO_WAN_INTERFACE_ACTIVE"
| ActiveDown: "AW_spec k STATE_AUTO_WAN_INTERFACE_ACTIVE (Some (inst_of k)) None STATE_AUTO_WAN_INTERFACE_DOWN"
| ActiveReset: "AW_spec k STATE_AUTO_WAN_INTERFACE_ACTIVE None (Some WAN_IFACE_NOT_SELECTED) STATE_AUTO_WAN_INTERFACE_TEARDOWN"
| DownStay: "AW_spec k STATE_AUTO_WAN_INTERFACE_DOWN None None STATE_AUTO_WAN_INTERFACE_DOWN"
| DownRunning: "AW_spec k STATE_AUTO_WAN_INTERFACE_DOWN (Some (inst_of k)) None STATE_AUTO_WAN_INTERFACE_DOWN"
| DownUp: "AW_spec k STATE_AUTO_WAN_INTERFACE_DOWN (Some (inst_of k)) None STATE_AUTO_WAN_INTERFACE_ACTIVE"
| DownReset: "AW_spec k STATE_AUTO_WAN_INTERFACE_DOWN None (Some WAN_IFACE_NOT_SELECTED) STATE_AUTO_WAN_INTERFACE_TEARDOWN"
| TearingStay: "AW_spec k STATE_AUTO_WAN_TEARING_DOWN None (Some WAN_IFACE_NOT_SELECTED) STATE_AUTO_WAN_TEARING_DOWN"
| TearingExit: "AW_spec k STATE_AUTO_WAN_TEARING_DOWN (Some 0) (Some WAN_IFACE_NOT_SELECTED) STATE_AUTO_WAN_SM_EXIT"
| Exited: "AW_spec k STATE_AUTO_WAN_SM_EXIT None None STATE_AUTO_WAN_SM_EXIT"
| Failed: "AW_spec k STATE_AUTO_WAN_ERROR None None STATE_AUTO_WAN_ERROR"

text \<open>What such a write does to the selection.\<close>

fun sel_upd ::
  "uint \<Rightarrow> nat \<Rightarrow> uint option \<Rightarrow> WANMGR_IFACE_SELECTION option \<Rightarrow>
   (nat \<Rightarrow> WANMGR_IFACE_SELECTION option) \<times> (nat \<Rightarrow> uint option) \<Rightarrow>
   (nat \<Rightarrow> WANMGR_IFACE_SELECTION option) \<times> (nat \<Rightarrow> uint option)" where
  "sel_upd inst k S T (status, selected) =
     ((case T of None \<Rightarrow> status | Some t \<Rightarrow> status(k \<mapsto> t)),
      (case S of None \<Rightarrow> selected
       | Some s \<Rightarrow> selected(unat (inst - 1) := map_option (\<lambda>_. s) (selected (unat (inst - 1))))))"

lemma sel_upd_none [simp]: "sel_upd inst k None None v = v"
  by (cases v) simp

lemma sel_upd_compose:
  "sel_upd inst k None (Some t') (sel_upd inst k None (Some t) v) = sel_upd inst k None (Some t') v"
  "sel_upd inst k (Some s) None (sel_upd inst k None (Some t) v) = sel_upd inst k (Some s) (Some t) v"
  by (cases v; simp)+

lemma sel_view_set_status:
  assumes "iface_at k w = Some d"
  shows "sel_view (set_status k t w) = sel_upd inst k None (Some t) (sel_view w)"
  using assms by (auto simp: set_status_def sel_view_def)

subsection \<open>What a state function promises\<close>

text \<open>
  The controller at the start of a state function: the index of the interface is none or valid, and the
  pointer has been taken from it.
\<close>

definition AW_ready :: "policy_ctrl \<Rightarrow> world \<Rightarrow> bool" where
  "AW_ready c w \<longleftrightarrow> PC_TotalIfaces c = total_ifaces w \<and> valid_idx (total_ifaces w) (PC_activeInterfaceIdx c) \<and>
     PC_pWanActiveIfaceData c =
       (if PC_activeInterfaceIdx c = -1 then None else Some (nat (PC_activeInterfaceIdx c)))"

text \<open>The fields of the controller that no state function changes.\<close>

definition AW_frame :: "policy_ctrl \<Rightarrow> nat option \<times> uint \<times> uint \<times> bool \<times> bool" where
  "AW_frame c = (PC_pWanActiveIfaceData c, PC_GroupInst c, PC_TotalIfaces c, PC_WanEnable c, PC_GroupCfgChanged c)"

definition AW_post ::
  "policy_ctrl \<Rightarrow> WcAwPolicyState_t \<Rightarrow> world \<Rightarrow> WcAwPolicyState_t \<times> policy_ctrl \<Rightarrow> world \<Rightarrow> bool" where
  "AW_post c st w r w' \<longleftrightarrow> AW_frame (snd r) = AW_frame c \<and>
     valid_idx (total_ifaces w) (PC_activeInterfaceIdx (snd r)) \<and>
     (fst r \<notin> {STATE_AUTO_WAN_INTERFACE_SELECTING, STATE_AUTO_WAN_ERROR, STATE_AUTO_WAN_SM_EXIT} \<longrightarrow>
        PC_activeInterfaceIdx (snd r) = PC_activeInterfaceIdx c \<and> PC_activeInterfaceIdx c \<noteq> -1) \<and>
     (\<exists>S T. AW_spec (nat (PC_activeInterfaceIdx c)) st S T (fst r) \<and>
        sel_view w' = sel_upd (PC_GroupInst c) (nat (PC_activeInterfaceIdx c)) S T (sel_view w))"

text \<open>The timers of the controller are of no account.\<close>

lemma AW_timers [simp]:
  "AW_frame (c\<lparr>PC_SelectionTimeOutStart := x\<rparr>) = AW_frame c"
  "AW_frame (c\<lparr>PC_SelectionTimeOutEnd := x\<rparr>) = AW_frame c"
  "AW_frame (c\<lparr>PC_InterfaceSelectionTimeOut := y\<rparr>) = AW_frame c"
  "AW_frame (c\<lparr>PC_activeInterfaceIdx := i\<rparr>) = AW_frame c"
  "AW_frame (c\<lparr>PC_ResetSelectedInterface := v\<rparr>) = AW_frame c"
  "AW_frame (start_scan_timer e d c) = AW_frame c"
  "PC_activeInterfaceIdx (start_scan_timer e d c) = PC_activeInterfaceIdx c"
  "PC_pWanActiveIfaceData (start_scan_timer e d c) = PC_pWanActiveIfaceData c"
  by (simp_all add: AW_frame_def start_scan_timer_def)

lemma AW_post_timers [simp]:
  "AW_post (c\<lparr>PC_SelectionTimeOutStart := x\<rparr>) = AW_post c"
  "AW_post (c\<lparr>PC_SelectionTimeOutEnd := x\<rparr>) = AW_post c"
  "AW_post (c\<lparr>PC_ResetSelectedInterface := v\<rparr>) = AW_post c"
  by (simp_all add: AW_post_def AW_frame_def fun_eq_iff)

lemma AW_ready_timers [simp]:
  "AW_ready (c\<lparr>PC_SelectionTimeOutStart := x\<rparr>) = AW_ready c"
  "AW_ready (c\<lparr>PC_SelectionTimeOutEnd := x\<rparr>) = AW_ready c"
  by (simp_all add: AW_ready_def fun_eq_iff)

text \<open>A quiet computation before the step, and the step itself.\<close>

lemma AW_post_bind:
  assumes "okx same_sel w m P"
    and "\<And>r w'. \<lbrakk>wf_db w'; total_ifaces w' = total_ifaces w; P r\<rbrakk> \<Longrightarrow> ok w' (f r w') (AW_post c st w')"
  shows "ok w (Option.bind m (\<lambda>(r, w'). f r w')) (AW_post c st w)"
proof -
  from assms(1) obtain r w1 where 1: "m = Some (r, w1)" "keeps w w1" "wf_db w1" "same_sel w w1" "P r"
    by (rule okxE)
  from 1(2) have t: "total_ifaces w1 = total_ifaces w" by (simp add: keeps_def)
  from assms(2) [OF 1(3) t 1(5)] obtain q w2 where 2: "f r w1 = Some (q, w2)" "keeps w1 w2" "AW_post c st w1 q w2"
    by (rule okE)
  from 2(3) t 1(4) have "AW_post c st w q w2" by (simp add: AW_post_def same_sel_def)
  with 1 2 show ?thesis by (auto simp: ok_def intro: keeps_trans)
qed

lemma AW_post_step:
  assumes "keeps w w'" "AW_spec (nat (PC_activeInterfaceIdx c)) st S T st'"
    and "sel_view w' = sel_upd (PC_GroupInst c) (nat (PC_activeInterfaceIdx c)) S T (sel_view w)"
    and "AW_frame c' = AW_frame c" "valid_idx (total_ifaces w) (PC_activeInterfaceIdx c')"
    and "st' \<notin> {STATE_AUTO_WAN_INTERFACE_SELECTING, STATE_AUTO_WAN_ERROR, STATE_AUTO_WAN_SM_EXIT} \<Longrightarrow>
      PC_activeInterfaceIdx c' = PC_activeInterfaceIdx c \<and> PC_activeInterfaceIdx c \<noteq> -1"
  shows "ok w (Some ((st', c'), w')) (AW_post c st w)"
  using assms by (auto simp: ok_def AW_post_def)

lemma AW_post_quiet:
  assumes "quiet w w'" "AW_spec (nat (PC_activeInterfaceIdx c)) st None None st'"
    and "AW_frame c' = AW_frame c" "valid_idx (total_ifaces w) (PC_activeInterfaceIdx c')"
    and "st' \<notin> {STATE_AUTO_WAN_INTERFACE_SELECTING, STATE_AUTO_WAN_ERROR, STATE_AUTO_WAN_SM_EXIT} \<Longrightarrow>
      PC_activeInterfaceIdx c' = PC_activeInterfaceIdx c \<and> PC_activeInterfaceIdx c \<noteq> -1"
  shows "ok w (Some ((st', c'), w')) (AW_post c st w)"
  by (rule AW_post_step [where S = None and T = None]) (use assms in \<open>simp_all add: quiet_def\<close>)

subsection \<open>The writes\<close>

lemma sel_view_SelectedInterface:
  assumes "\<And>g. G_SelectedInterface (f g) = x"
  shows "sel_view (upd_group (unat (inst - 1)) f w) = sel_upd inst k (Some x) None (sel_view w)"
  using assms by (auto simp: sel_view_def option.map_comp comp_def)

lemma group_at_beyond:
  assumes wf: "wf_db w" and "\<not> i < total_groups w"
  shows "group_at (unat i) w = None"
proof -
  from wf obtain l where l: "Groups w = Some l" "unat (total_groups w) = length l"
    by (auto simp: wf_db_def split: option.splits)
  from assms(2) have "\<not> unat i < length l" by (simp add: word_less_nat_alt l)
  with l(1) show ?thesis by (simp add: group_at_def)
qed

lemma SetGroupSelectedIface:
  assumes wf: "wf_db w"
  shows "\<exists>w'. WanMgr_SetGroupSelectedIface inst x w = Some (ANSC_STATUS_SUCCESS, w') \<and> keeps w w' \<and>
    sel_view w' = sel_upd inst k (Some x) None (sel_view w)"
proof (cases "inst - 1 < total_groups w")
  case True
  let ?w = "upd_group (unat (inst - 1)) (\<lambda>g. g\<lparr>G_SelectedInterface := x, G_InitialScanComplete := True\<rparr>) w"
  have "WanMgr_SetGroupSelectedIface inst x w = Some (ANSC_STATUS_SUCCESS, ?w)"
    unfolding WanMgr_SetGroupSelectedIface_def with_wf(1) [OF wf] using True by simp
  moreover have "keeps w ?w" by (rule keeps_upd_group [OF keeps_refl [OF wf]])
  moreover have "sel_view ?w = sel_upd inst k (Some x) None (sel_view w)"
    by (rule sel_view_SelectedInterface) simp
  ultimately show ?thesis by blast
next
  case False
  then have "WanMgr_SetGroupSelectedIface inst x w = Some (ANSC_STATUS_SUCCESS, w)"
    unfolding WanMgr_SetGroupSelectedIface_def with_wf(1) [OF wf] by simp
  moreover have "sel_view w = sel_upd inst k (Some x) None (sel_view w)"
    using group_at_beyond [OF wf False] by (auto simp: sel_view_def)
  ultimately show ?thesis using keeps_refl [OF wf] by blast
qed

lemma idx_uint_inst:
  assumes "valid_idx n i" "i \<noteq> -1"
  shows "idx_uint (i + 1) = inst_of (nat i)"
proof -
  from assms obtain m where "i = int m" by (auto simp: valid_idx_def dest: zero_le_imp_eq_int)
  then show ?thesis by (simp add: idx_uint_def inst_of_def)
qed

text \<open>The pointer of a ready controller.\<close>

lemma AW_ready_none: "AW_ready c w \<Longrightarrow> PC_pWanActiveIfaceData c = None \<longleftrightarrow> PC_activeInterfaceIdx c = -1"
  by (simp add: AW_ready_def)

lemma AW_ready_some:
  assumes "wf_db w" "AW_ready c w" "PC_pWanActiveIfaceData c = Some k"
  obtains d v where "k = nat (PC_activeInterfaceIdx c)" "PC_activeInterfaceIdx c \<noteq> -1"
    "iface_at k w = Some d" "head_virtif d = Some v" "wf_shape k (iface_shape d)"
    "k < unat (total_ifaces w)" "idx_uint (PC_activeInterfaceIdx c) < total_ifaces w"
    "unat (idx_uint (PC_activeInterfaceIdx c)) = k"
proof -
  from assms(2,3) have k: "k = nat (PC_activeInterfaceIdx c)" "PC_activeInterfaceIdx c \<noteq> -1"
    "valid_idx (total_ifaces w) (PC_activeInterfaceIdx c)" by (auto simp: AW_ready_def split: if_splits)
  note idx = idx_uint_in [OF k(3,2)]
  from idx(3) k(1) have "k < unat (total_ifaces w)" by simp
  with assms(1) obtain d where d: "iface_at k w = Some d" "wf_shape k (iface_shape d)"
    by (rule wf_db_iface_at)
  from wf_shape_head [OF d(2)] obtain v where "head_virtif d = Some v" by blast
  with that k d idx show thesis by simp
qed

lemma AW_ready_total: "AW_ready c w \<Longrightarrow> total_ifaces w' = total_ifaces w \<Longrightarrow> AW_ready c w'"
  by (simp add: AW_ready_def)

subsection \<open>Transitions\<close>

text \<open>Marking the interface the policy works on.\<close>

lemma mark_post:
  assumes wf: "wf_db w" and c: "AW_ready c w" "PC_pWanActiveIfaceData c = Some k"
    and spec: "AW_spec (nat (PC_activeInterfaceIdx c)) st None (Some t) st'"
    and q: "quiet (set_status k t w) w'" and f: "AW_frame c' = AW_frame c" "PC_activeInterfaceIdx c' = PC_activeInterfaceIdx c"
  shows "ok w (Some ((st', c'), w')) (AW_post c st w)"
proof -
  from AW_ready_some [OF wf c] obtain d where k: "k = nat (PC_activeInterfaceIdx c)" "PC_activeInterfaceIdx c \<noteq> -1"
    and d: "iface_at k w = Some d" by metis
  show ?thesis
  proof (rule AW_post_step [OF _ spec])
    show "keeps w w'" using q keeps_refl [OF wf] by (auto simp: quiet_def keeps_def)
    show "sel_view w' = sel_upd (PC_GroupInst c) (nat (PC_activeInterfaceIdx c)) None (Some t) (sel_view w)"
      using q sel_view_set_status [OF d] k by (simp add: quiet_def)
  qed (use c f k in \<open>simp_all add: AW_ready_def\<close>)
qed

lemma Deselect_post:
  assumes wf: "wf_db w" and c: "AW_ready c w" "PC_activeInterfaceIdx c \<noteq> -1"
    and st: "st \<in> {STATE_AUTO_WAN_INTERFACE_SCANNING}"
  shows "ok w (AW_Transition_InterfaceDeselect c w) (AW_post c st w)"
proof -
  from c AW_ready_none obtain k where k: "PC_pWanActiveIfaceData c = Some k" by fastforce
  from AW_ready_some [OF wf c(1) k] obtain d where d: "iface_at k w = Some d" by metis
  show ?thesis
    unfolding AW_Transition_InterfaceDeselect_def k option.case
    by (rule ok_deref [OF d], rule mark_post [OF wf c(1) k])
      (use st wf in \<open>auto intro: AW_spec.intros quiet_refl\<close>)
qed

lemma ResetSelected_post:
  assumes wf: "wf_db w" and c: "AW_ready c w" "PC_activeInterfaceIdx c \<noteq> -1"
    and st: "st \<in> {STATE_AUTO_WAN_INTERFACE_ACTIVE, STATE_AUTO_WAN_INTERFACE_DOWN}"
  shows "ok w (AW_Transition_ResetSelectedInterface c w) (AW_post c st w)"
proof -
  from c AW_ready_none obtain k where k: "PC_pWanActiveIfaceData c = Some k" by fastforce
  from AW_ready_some [OF wf c(1) k] obtain d where d: "iface_at k w = Some d" by metis
  show ?thesis
    unfolding AW_Transition_ResetSelectedInterface_def k option.case
    by (rule ok_deref [OF d], rule mark_post [OF wf c(1) k])
      (use st wf in \<open>auto intro: AW_spec.intros quiet_refl\<close>)
qed

lemma Invalid_post:
  assumes wf: "wf_db w" and c: "AW_ready c w" "PC_activeInterfaceIdx c \<noteq> -1"
    and st: "st \<in> {STATE_AUTO_WAN_INTERFACE_WAITING, STATE_AUTO_WAN_INTERFACE_TEARDOWN}"
  shows "ok w (AW_Transition_InterfaceInvalid e c w) (AW_post c st w)"
proof -
  from c AW_ready_none obtain k where k: "PC_pWanActiveIfaceData c = Some k" by fastforce
  from AW_ready_some [OF wf c(1) k] obtain d v where d: "iface_at k w = Some d" "head_virtif d = Some v"
    and kn: "k < unat (total_ifaces w)" by metis
  have q: "quiet w (set_VirtIf_Status k WAN_IFACE_STATUS_INVALID w)"
    by (intro quiet_intros) (rule wf)
  then have wf1: "wf_db (set_VirtIf_Status k WAN_IFACE_STATUS_INVALID w)"
    and t1: "total_ifaces (set_VirtIf_Status k WAN_IFACE_STATUS_INVALID w) = total_ifaces w"
    by (simp_all add: quiet_def keeps_def)
  show ?thesis
    unfolding AW_Transition_InterfaceInvalid_def k option.case using c(2)
    by (simp add: d, intro AW_post_bind [OF sel.quiet_step [OF q sel.SetActiveLink [OF wf1]]])
      (use k kn t1 st in \<open>auto intro!: AW_post_quiet quiet_refl intro: AW_spec.intros\<close>)
qed

text \<open>The own interface as the selected one of the group.\<close>

lemma select_post:
  assumes wf: "wf_db w" and c: "valid_idx (total_ifaces w) (PC_activeInterfaceIdx c)" "PC_activeInterfaceIdx c \<noteq> -1"
    and spec: "AW_spec (nat (PC_activeInterfaceIdx c)) st (Some (inst_of (nat (PC_activeInterfaceIdx c)))) None st'"
    and tail: "\<And>w'. \<lbrakk>wf_db w'; total_ifaces w' = total_ifaces w\<rbrakk> \<Longrightarrow> okx same_sel w' (f w')
      (\<lambda>r. fst r = st' \<and> AW_frame (snd r) = AW_frame c \<and> PC_activeInterfaceIdx (snd r) = PC_activeInterfaceIdx c)"
  shows "ok w (do {
      (_, w) \<leftarrow> WanMgr_SetGroupSelectedIface (PC_GroupInst c) (idx_uint (PC_activeInterfaceIdx c + 1)) w;
      f w
    }) (AW_post c st w)"
proof -
  let ?k = "nat (PC_activeInterfaceIdx c)"
  from SetGroupSelectedIface [OF wf, of "PC_GroupInst c" "inst_of ?k" ?k] obtain w1 where
    1: "WanMgr_SetGroupSelectedIface (PC_GroupInst c) (inst_of ?k) w = Some (ANSC_STATUS_SUCCESS, w1)"
      "keeps w w1" "sel_view w1 = sel_upd (PC_GroupInst c) ?k (Some (inst_of ?k)) None (sel_view w)" by blast
  from 1(2) have w1: "wf_db w1" "total_ifaces w1 = total_ifaces w" by (simp_all add: keeps_def)
  from tail [OF w1] obtain r w2 where 2: "f w1 = Some (r, w2)" "keeps w1 w2" "same_sel w1 w2"
    "fst r = st'" "AW_frame (snd r) = AW_frame c" "PC_activeInterfaceIdx (snd r) = PC_activeInterfaceIdx c"
    by (auto elim!: okxE)
  have "ok w (Some ((st', snd r), w2)) (AW_post c st w)"
    by (rule AW_post_step [OF _ spec]) (use 1 2 c keeps_trans in \<open>auto simp: same_sel_def\<close>)
  with 1(1) 2(1,4) idx_uint_inst [OF c] show ?thesis by (cases r) simp
qed

lemma Validated_post:
  assumes wf: "wf_db w" and c: "AW_ready c w" "PC_activeInterfaceIdx c \<noteq> -1"
  shows "ok w (AW_Transition_InterfaceValidated e c w) (AW_post c STATE_AUTO_WAN_INTERFACE_SCANNING w)"
proof -
  from c AW_ready_none obtain k where k: "PC_pWanActiveIfaceData c = Some k" by fastforce
  from AW_ready_some [OF wf c(1) k] have kn: "k < unat (total_ifaces w)" by metis
  have v: "valid_idx (total_ifaces w) (PC_activeInterfaceIdx c)" using c(1) by (simp add: AW_ready_def)
  show ?thesis
    unfolding AW_Transition_InterfaceValidated_def
    apply (simp add: k)
    apply (rule AW_post_bind [OF sel.SetActiveLink [OF wf]], use k kn in simp)
    apply (rule select_post, assumption)
    using v c(2) by (auto intro: AW_spec.intros sel.return_same)
qed

lemma TryingNext_post:
  assumes wf: "wf_db w" and c: "AW_ready c w" "PC_activeInterfaceIdx c = -1"
  shows "ok w (AW_Transition_TryingNextInterface b c w) (AW_post c STATE_AUTO_WAN_INTERFACE_SELECTING w)"
  unfolding AW_Transition_TryingNextInterface_def
proof (rule AW_post_bind [OF sel.GetHighPriorityIface [OF wf]])
  show "PC_TotalIfaces c = total_ifaces w" using c(1) by (simp add: AW_ready_def)
  fix c' w'
  assume w': "wf_db w'" "total_ifaces w' = total_ifaces w"
    and c': "\<exists>i. c' = c\<lparr>PC_activeInterfaceIdx := i\<rparr> \<and> (i = PC_activeInterfaceIdx c \<or> valid_idx (total_ifaces w) i)"
  then have v: "AW_frame c' = AW_frame c" "valid_idx (total_ifaces w) (PC_activeInterfaceIdx c')"
    using c by (auto simp: AW_ready_def)
  show "ok w' (if PC_activeInterfaceIdx c' = -1
     then do {
       (_, w) \<leftarrow> set_InitialScanComplete (PC_GroupInst c') w';
       (_, w) \<leftarrow> AW_ResetIfaceTable c' w;
       Some ((STATE_AUTO_WAN_INTERFACE_SELECTING, c'), reset_wan_mode b c' w)
     }
     else Some ((STATE_AUTO_WAN_INTERFACE_SELECTING, c'), w')) (AW_post c STATE_AUTO_WAN_INTERFACE_SELECTING w')"
    by (intro ok_if AW_post_bind [OF sel.InitialScanComplete [OF w'(1)]] AW_post_bind [OF sel.ResetIfaceTable] AW_post_quiet)
      (use v w' in \<open>auto intro: quiet_intros AW_spec.intros\<close>)
qed

lemma Found_post:
  assumes wf: "wf_db w" and c: "AW_ready c w" "PC_activeInterfaceIdx c \<noteq> -1"
  shows "ok w (AW_Transition_InterfaceFound b e c w) (AW_post c STATE_AUTO_WAN_INTERFACE_WAITING w)"
proof -
  from c AW_ready_none obtain k where k: "PC_pWanActiveIfaceData c = Some k" by fastforce
  from AW_ready_some [OF wf c(1) k] obtain d where d: "iface_at k w = Some d" and kn: "k < unat (total_ifaces w)"
    and j: "idx_uint (PC_activeInterfaceIdx c) < total_ifaces w" "unat (idx_uint (PC_activeInterfaceIdx c)) = k" by metis
  let ?w = "set_status k WAN_IFACE_SELECTED w"
  have k': "PC_pWanActiveIfaceData c = Some (unat (idx_uint (PC_activeInterfaceIdx c)))" using k j by simp
  from sel.StartIfaceStateMachine [where w = ?w and e = e, OF _ _ k'] wf j obtain r w1
    where 1: "AW_StartIfaceStateMachine e c ?w = Some (r, w1)" "keeps ?w w1" "same_sel ?w w1" "wf_db w1"
    by (auto elim!: okxE)
  then have q: "quiet ?w w1" by (simp add: quiet_def same_sel_def)
  from 1(2) have "total_ifaces w1 = total_ifaces w" by (simp add: keeps_def)
  with kn 1(4) obtain d1 where d1: "iface_at k w1 = Some d1" by (metis wf_db_iface_at)
  show ?thesis
    unfolding AW_Transition_InterfaceFound_def k option.case
    by (simp add: d 1 d1) (intro conjI impI mark_post [OF wf c(1) k _ q]; auto intro: AW_spec.intros)
qed

text \<open>Giving up the selection of the group.\<close>

lemma ResetGroupSelectedIface:
  assumes wf: "wf_db w" and "PC_TotalIfaces c \<noteq> 0"
  shows "\<exists>w'. AW_ResetGroupSelectedIface c w = Some (ANSC_STATUS_SUCCESS, w') \<and> keeps w w' \<and>
    sel_view w' = sel_upd (PC_GroupInst c) k (Some 0) None (sel_view w)"
  using SetGroupSelectedIface [OF wf, of "PC_GroupInst c" 0 k] assms(2)
  by (auto simp: AW_ResetGroupSelectedIface_def)

lemma Restart_post:
  assumes wf: "wf_db w" and c: "AW_ready c w" "PC_activeInterfaceIdx c \<noteq> -1"
  shows "ok w (AW_Transition_RestartSelectionInterface b e c w) (AW_post c STATE_AUTO_WAN_INTERFACE_TEARDOWN w)"
proof -
  let ?post = "AW_post c STATE_AUTO_WAN_INTERFACE_TEARDOWN"
  from c AW_ready_none obtain k where k: "PC_pWanActiveIfaceData c = Some k" by fastforce
  from AW_ready_some [OF wf c(1) k] have kn: "k < unat (total_ifaces w)" by metis
  then have n: "PC_TotalIfaces c \<noteq> 0" using c(1) by (auto simp: AW_ready_def)
  have clear: "okx same_sel u (with_group (PC_GroupInst c - 1) c (\<lambda>k w.
             Some (c\<lparr>PC_ResetSelectedInterface := False\<rparr>,
                   upd_group k (\<lambda>g. g\<lparr>G_ResetSelectedInterface := False\<rparr>) w)) u)
      (\<lambda>c'. AW_frame c' = AW_frame c \<and> PC_activeInterfaceIdx c' = PC_activeInterfaceIdx c)"
    if "wf_db u" for u
    by (rule sel.group [OF that], simp, rule sel.quiet_return, rule quiet_upd_group)
      (use that in \<open>simp_all add: quiet_refl\<close>)
  have last: "ok u (do {
       (ret, w) \<leftarrow> AW_ResetGroupSelectedIface c' u;
       Some ((if ret \<noteq> ANSC_STATUS_SUCCESS then STATE_AUTO_WAN_ERROR
              else STATE_AUTO_WAN_INTERFACE_SELECTING, c'), w)
     }) (?post u)"
    if u: "wf_db u" "total_ifaces u = total_ifaces w" and c': "AW_frame c' = AW_frame c" "PC_activeInterfaceIdx c' = -1"
    for c' u
  proof -
    from c' n have n': "PC_TotalIfaces c' \<noteq> 0" "PC_GroupInst c' = PC_GroupInst c" by (auto simp: AW_frame_def)
    from ResetGroupSelectedIface [OF u(1) n'(1), of "nat (PC_activeInterfaceIdx c)"] obtain u' where
      "AW_ResetGroupSelectedIface c' u = Some (ANSC_STATUS_SUCCESS, u')" "keeps u u'"
      "sel_view u' = sel_upd (PC_GroupInst c) (nat (PC_activeInterfaceIdx c)) (Some 0) None (sel_view u)"
      using n'(2) by auto
    with c' show ?thesis
      by simp (rule AW_post_step [OF _ AW_spec.TeardownRestart]; simp)
  qed
  show ?thesis
    unfolding AW_Transition_RestartSelectionInterface_def
  proof (rule ok_if, use k in simp, rule AW_post_bind [OF sel.ResetActiveLinkOnAllIface [OF wf]],
      rule ok_if)
    fix ret u
    assume u: "wf_db u" "total_ifaces u = total_ifaces w"
    show "ok u (Some ((STATE_AUTO_WAN_ERROR, c), u)) (?post u)"
      by (rule AW_post_quiet) (use u c in \<open>auto intro: quiet_refl AW_spec.intros simp: AW_ready_def\<close>)
    show "ok u (do {
          (c, w) \<leftarrow> with_group (PC_GroupInst c - 1) c (\<lambda>k w.
             Some (c\<lparr>PC_ResetSelectedInterface := False\<rparr>,
                   upd_group k (\<lambda>g. g\<lparr>G_ResetSelectedInterface := False\<rparr>) w)) u;
          let (_, w) = with_config () (\<lambda>w. ((), upd_config (\<lambda>d. d\<lparr>Cfg_ResetFailOverScan := True\<rparr>) w)) w;
          let c = c\<lparr>PC_activeInterfaceIdx := -1\<rparr>;
          (_, w) \<leftarrow> AW_ResetIfaceTable c w;
          let w = reset_wan_mode b c w;
          (_, w) \<leftarrow> AW_AddAllIntfsToLanBridge e c False w;
          (ret, w) \<leftarrow> AW_ResetGroupSelectedIface c w;
          Some ((if ret \<noteq> ANSC_STATUS_SUCCESS then STATE_AUTO_WAN_ERROR
                 else STATE_AUTO_WAN_INTERFACE_SELECTING, c), w)
        }) (?post u)"
    proof (rule AW_post_bind [OF clear [OF u(1)]])
      fix c1 u1
      assume u1: "wf_db u1" "total_ifaces u1 = total_ifaces u"
        and c1: "AW_frame c1 = AW_frame c \<and> PC_activeInterfaceIdx c1 = PC_activeInterfaceIdx c"
      let ?c = "c1\<lparr>PC_activeInterfaceIdx := -1\<rparr>"
      let ?u = "upd_config (\<lambda>d. d\<lparr>Cfg_ResetFailOverScan := True\<rparr>) u1"
      have cfg: "okx same_sel u1 (Some ((), ?u)) (\<lambda>_. True)"
        by (rule sel.quiet_return) (use u1 in \<open>simp_all add: quiet_intros\<close>)
      have "ok u1 (do {
          (_, w) \<leftarrow> Some ((), ?u);
          (_, w) \<leftarrow> AW_ResetIfaceTable ?c w;
          (_, w) \<leftarrow> Some ((), reset_wan_mode b ?c w);
          (_, w) \<leftarrow> AW_AddAllIntfsToLanBridge e ?c False w;
          (ret, w) \<leftarrow> AW_ResetGroupSelectedIface ?c w;
          Some ((if ret \<noteq> ANSC_STATUS_SUCCESS then STATE_AUTO_WAN_ERROR
                 else STATE_AUTO_WAN_INTERFACE_SELECTING, ?c), w)
        }) (?post u1)"
        apply (rule AW_post_bind [OF cfg])
        apply (rule AW_post_bind [OF sel.ResetIfaceTable], assumption)
        apply (rule AW_post_bind [OF sel.quiet_return [where R = "\<lambda>_. True"]], rule quiet_intros, rule quiet_refl, assumption, simp)
        apply (rule AW_post_bind [OF sel.AddAllIntfsToLanBridge], assumption)
        apply (rule last)
        using c1 u u1 by simp_all
      with u1(1) show "ok u1 (let (_, w) = with_config () (\<lambda>w. ((), upd_config (\<lambda>d. d\<lparr>Cfg_ResetFailOverScan := True\<rparr>) w)) u1;
          c = c1\<lparr>PC_activeInterfaceIdx := -1\<rparr> in do {
          (_, w) \<leftarrow> AW_ResetIfaceTable c w;
          let w = reset_wan_mode b c w;
          (_, w) \<leftarrow> AW_AddAllIntfsToLanBridge e c False w;
          (ret, w) \<leftarrow> AW_ResetGroupSelectedIface c w;
          Some ((if ret \<noteq> ANSC_STATUS_SUCCESS then STATE_AUTO_WAN_ERROR
                 else STATE_AUTO_WAN_INTERFACE_SELECTING, c), w)
        }) (?post u1)"
        by (simp add: Let_def)
    qed
  qed
qed

lemma Selected_post:
  assumes wf: "wf_db w" and c: "AW_ready c w" "PC_activeInterfaceIdx c \<noteq> -1"
  shows "ok w (AW_Transition_InterfaceSelected b e c w) (AW_post c STATE_AUTO_WAN_INTERFACE_SELECTING w)"
proof -
  let ?post = "AW_post c STATE_AUTO_WAN_INTERFACE_SELECTING"
  from c AW_ready_none obtain k where k: "PC_pWanActiveIfaceData c = Some k" by fastforce
  from AW_ready_some [OF wf c(1) k] obtain d where d: "iface_at k w = Some d" by metis
  have v: "valid_idx (total_ifaces w) (PC_activeInterfaceIdx c)" using c(1) by (simp add: AW_ready_def)
  have stop: "ok w (Some ((st, start_scan_timer e d c), u)) (?post w)"
    if "quiet w u" "st \<in> {STATE_AUTO_WAN_INTERFACE_SELECTING, STATE_AUTO_WAN_INTERFACE_WAITING}" for st u
    by (rule AW_post_quiet [OF that(1)]) (use that(2) c v in \<open>auto intro: AW_spec.intros\<close>)
  let ?m = "show_nat (unat (link_mode d))"
  let ?w = "syscfg_set_commit ''curr_wan_mode'' ?m (syscfg_set_commit ''last_wan_mode'' ?m w)"
  have cfg: "setActiveLinkToSysCfg (start_scan_timer e d c) w = Some ?w"
    using k d by (simp add: setActiveLinkToSysCfg_def Let_def)
  have q: "quiet w ?w" by (intro quiet_intros) (rule wf)
  have bus: "quiet w u" if "WanMgr_RdkBus_SetParamValues e n p ?w = (r, u)" for n p r u
    using quiet_bus(3) [OF q, of e n p] that by simp
  show ?thesis
    unfolding AW_Transition_InterfaceSelected_def k option.case Let_def
    by (rule ok_deref [OF d], intro ok_if, unfold cfg bind.bind_lunit)
      (auto intro!: stop dest: bus simp: quiet_refl [OF wf] q split: prod.split ANSC_STATUS.split)
qed

lemma Reconfigure_post:
  assumes wf: "wf_db w" and c: "AW_ready c w" "PC_activeInterfaceIdx c \<noteq> -1"
  shows "ok w (AW_Transition_ReconfigurePlatform c w) (AW_post c STATE_AUTO_WAN_INTERFACE_RECONFIGURATION w)"
proof -
  from c AW_ready_none obtain k where k: "PC_pWanActiveIfaceData c = Some k" by fastforce
  from AW_ready_some [OF wf c(1) k] obtain d where d: "iface_at k w = Some d" by metis
  show ?thesis
    unfolding AW_Transition_ReconfigurePlatform_def k option.case
    by (rule ok_deref [OF d], rule mark_post [OF wf c(1) k _ quiet_upd_iface [OF quiet_refl]])
      (use wf in \<open>auto intro: AW_spec.intros\<close>)
qed

subsection \<open>States\<close>

lemma Selecting_post:
  assumes wf: "wf_db w" and c: "AW_ready c w"
  shows "ok w (AW_State_SelectingInterface b e c w) (AW_post c STATE_AUTO_WAN_INTERFACE_SELECTING w)"
proof -
  have "ok w (Some ((STATE_AUTO_WAN_SM_EXIT, c), w)) (AW_post c STATE_AUTO_WAN_INTERFACE_SELECTING w)"
    by (rule AW_post_quiet [OF quiet_refl [OF wf] AW_spec.SelectingExit]) (use c in \<open>simp_all add: AW_ready_def\<close>)
  then show ?thesis
    unfolding AW_State_SelectingInterface_def using Selected_post [OF wf c] TryingNext_post [OF wf c] by auto
qed

lemma Waiting_post:
  assumes wf: "wf_db w" and c: "AW_ready c w" "PC_activeInterfaceIdx c \<noteq> -1"
  shows "ok w (AW_State_WaitForInterface b e c w) (AW_post c STATE_AUTO_WAN_INTERFACE_WAITING w)"
proof -
  let ?post = "AW_post c STATE_AUTO_WAN_INTERFACE_WAITING"
  from c AW_ready_none obtain k where k: "PC_pWanActiveIfaceData c = Some k" by fastforce
  from AW_ready_some [OF wf c(1) k] obtain d where d: "iface_at k w = Some d" and kn: "k < unat (total_ifaces w)" by metis
  have v: "valid_idx (total_ifaces w) (PC_activeInterfaceIdx c)" using c(1) by (simp add: AW_ready_def)
  let ?c = "c\<lparr>PC_SelectionTimeOutStart := 0\<rparr>" and ?d = "c\<lparr>PC_SelectionTimeOutEnd := clock e 0\<rparr>"
  have stay: "ok u (Some ((STATE_AUTO_WAN_INTERFACE_WAITING, c'), u)) (?post u)"
    if "wf_db u" "total_ifaces u = total_ifaces w" "AW_frame c' = AW_frame c"
      "PC_activeInterfaceIdx c' = PC_activeInterfaceIdx c" for u c'
    by (rule AW_post_quiet [OF quiet_refl [OF that(1)] AW_spec.WaitingStay]) (use that v c in simp_all)
  have inv: "ok u (AW_Transition_InterfaceInvalid e c' u) (?post u)"
    if "wf_db u" "total_ifaces u = total_ifaces w" "c' \<in> {c, ?d}" for u c'
    using Invalid_post [where c = c' and st = STATE_AUTO_WAN_INTERFACE_WAITING and w = u] that c AW_ready_total [OF c(1) that(2)]
    by auto
  have found: "ok w (AW_Transition_InterfaceFound b e c' w) (?post w)" if "c' \<in> {c, ?c}" for c'
    using Found_post [OF wf, where c = c'] that c by auto
  show ?thesis
    unfolding AW_State_WaitForInterface_def k option.case
  proof (rule ok_if)
    show "ok w (Some ((STATE_AUTO_WAN_SM_EXIT, c), w)) (?post w)"
      by (rule AW_post_quiet [OF quiet_refl [OF wf] AW_spec.WaitingExit]) (use v in simp_all)
    show "ok w (do {
            d \<leftarrow> iface_at k w;
            if \<not> Sel_Enable (If_Selection d) then AW_Transition_InterfaceInvalid e c w
            else if If_BaseInterfaceStatus d = WAN_IFACE_PHY_STATUS_UP
            then AW_Transition_InterfaceFound b e
                   (if SCAN_TIMEOUT_DISABLE b then c\<lparr>PC_SelectionTimeOutStart := 0\<rparr> else c) w
            else do {
              (IfaceOnlyPossible, w) \<leftarrow> AW_CheckOnlyPossibleWanLink c w;
              let c = c\<lparr>PC_SelectionTimeOutEnd := clock e 0\<rparr>;
              if 0 < PC_SelectionTimeOutEnd c - PC_SelectionTimeOutStart c \<and> \<not> IfaceOnlyPossible
              then AW_Transition_InterfaceInvalid e c w
              else if IfaceOnlyPossible
              then do {
                (_, w) \<leftarrow> set_InitialScanComplete (PC_GroupInst c) w;
                Some ((STATE_AUTO_WAN_INTERFACE_WAITING, c), w)
              }
              else Some ((STATE_AUTO_WAN_INTERFACE_WAITING, c), w)
            }
          }) (?post w)"
      unfolding Let_def
      by (rule ok_deref [OF d], intro ok_if AW_post_bind [OF sel.CheckOnlyPossibleWanLink [OF wf k kn]]
          AW_post_bind [OF sel.InitialScanComplete] inv found stay) (use wf in auto)
  qed
qed

lemma Scanning_post:
  assumes wf: "wf_db w" and c: "AW_ready c w" "PC_activeInterfaceIdx c \<noteq> -1"
  shows "ok w (AW_State_ScanningInterface e c w) (AW_post c STATE_AUTO_WAN_INTERFACE_SCANNING w)"
proof -
  let ?post = "AW_post c STATE_AUTO_WAN_INTERFACE_SCANNING"
  from c AW_ready_none obtain k where k: "PC_pWanActiveIfaceData c = Some k" by fastforce
  from AW_ready_some [OF wf c(1) k] obtain d v where d: "iface_at k w = Some d" "head_virtif d = Some v"
    and kn: "k < unat (total_ifaces w)" by metis
  have valid: "valid_idx (total_ifaces w) (PC_activeInterfaceIdx c)" using c(1) by (simp add: AW_ready_def)
  have stay: "ok u (Some ((st, c'), u)) (?post u)"
    if "wf_db u" "total_ifaces u = total_ifaces w" "c' \<in> {c, c\<lparr>PC_SelectionTimeOutEnd := clock e 0\<rparr>}"
      "st \<in> {STATE_AUTO_WAN_INTERFACE_SCANNING, STATE_AUTO_WAN_INTERFACE_WAITING}" for u c' st
    by (rule AW_post_quiet [OF quiet_refl [OF that(1)]]) (use that valid c in \<open>auto intro: AW_spec.intros\<close>)
  have desel: "ok u (AW_Transition_InterfaceDeselect c' u) (?post u)"
    if "wf_db u" "total_ifaces u = total_ifaces w" "c' \<in> {c, c\<lparr>PC_SelectionTimeOutEnd := clock e 0\<rparr>}" for u c'
    using Deselect_post [where c = c' and st = STATE_AUTO_WAN_INTERFACE_SCANNING and w = u] that c
      AW_ready_total [OF c(1) that(2)] by auto
  have val: "ok u (AW_Transition_InterfaceValidated e c u) (?post u)"
    if "wf_db u" "total_ifaces u = total_ifaces w" for u
    using Validated_post [OF that(1)] c AW_ready_total [OF c(1) that(2)] by blast
  have lost: "ok u (AW_Transition_ScanningInterfaceDown c u) (?post u)"
    if "wf_db u" "total_ifaces u = total_ifaces w" for u
    using stay [OF that, of c STATE_AUTO_WAN_INTERFACE_WAITING] k by (simp add: AW_Transition_ScanningInterfaceDown_def)
  show ?thesis
    unfolding AW_State_ScanningInterface_def k option.case Let_def
    by (rule ok_if, rule desel, use wf in simp_all, rule ok_deref [OF d(1)],
        rule AW_post_bind [OF sel.CheckOnlyPossibleWanLink [OF wf k kn]],
        intro ok_if AW_post_bind [OF sel.running] ok_deref [OF d(2)] val desel lost stay) simp_all
qed

lemma TearDown_post:
  assumes wf: "wf_db w" and c: "AW_ready c w" "PC_activeInterfaceIdx c \<noteq> -1"
  shows "ok w (AW_State_WaitingForIfaceTearDown b e c w) (AW_post c STATE_AUTO_WAN_INTERFACE_TEARDOWN w)"
proof -
  let ?post = "AW_post c STATE_AUTO_WAN_INTERFACE_TEARDOWN"
  from c AW_ready_none have k: "PC_pWanActiveIfaceData c \<noteq> None" by fastforce
  have valid: "valid_idx (total_ifaces w) (PC_activeInterfaceIdx c)" using c(1) by (simp add: AW_ready_def)
  have stay: "ok u (Some ((st, c), u)) (?post u)"
    if "wf_db u" "total_ifaces u = total_ifaces w"
      "st \<in> {STATE_AUTO_WAN_INTERFACE_TEARDOWN, STATE_AUTO_WAN_TEARING_DOWN}" for u st
    by (rule AW_post_quiet [OF quiet_refl [OF that(1)]]) (use that valid c in \<open>auto intro: AW_spec.intros\<close>)
  show ?thesis
    unfolding AW_State_WaitingForIfaceTearDown_def
    by (rule ok_if, use k in simp, rule AW_post_bind [OF sel.running [OF wf]],
        intro ok_if stay Restart_post Invalid_post) (use c AW_ready_total in auto)
qed

lemma Reconfiguration_post:
  assumes wf: "wf_db w" and c: "AW_ready c w" "PC_activeInterfaceIdx c \<noteq> -1"
  shows "ok w (AW_State_InterfaceReconfiguration b e c w) (AW_post c STATE_AUTO_WAN_INTERFACE_RECONFIGURATION w)"
proof -
  let ?post = "AW_post c STATE_AUTO_WAN_INTERFACE_RECONFIGURATION"
  from c AW_ready_none have k: "PC_pWanActiveIfaceData c \<noteq> None" by fastforce
  have valid: "valid_idx (total_ifaces w) (PC_activeInterfaceIdx c)" using c(1) by (simp add: AW_ready_def)
  have go: "ok u (Some ((st, c), u)) (?post u)"
    if "wf_db u" "total_ifaces u = total_ifaces w"
      "st \<in> {STATE_AUTO_WAN_INTERFACE_ACTIVE, STATE_AUTO_WAN_INTERFACE_DOWN}" for u st
    by (rule AW_post_quiet [OF quiet_refl [OF that(1)]]) (use that valid c in \<open>auto intro: AW_spec.intros\<close>)
  have hw: "okx same_sel u (for_loop is (\<lambda>i r w. continue (AW_hw_config e c i r w)) False u) (\<lambda>_. True)"
    if "wf_db u" for u "is"
    by (rule sel.loop_continue [where R = "\<lambda>_. True", OF that]) (simp_all add: sel.hw_config)
  show ?thesis
    unfolding AW_State_InterfaceReconfiguration_def AW_Transition_ActivatingInterface_def
      AW_Transistion_WanInterfaceDown_def
    by (rule ok_if, use k in simp, rule AW_post_bind [OF sel.bridge_others [OF wf]],
        intro ok_if go AW_post_bind [OF hw] AW_post_bind [OF sel.running] Reconfigure_post)
      (use c AW_ready_total in auto)
qed

lemma Rebooting_post:
  assumes wf: "wf_db w" and c: "AW_ready c w" "PC_activeInterfaceIdx c \<noteq> -1"
  shows "ok w (AW_State_RebootingPlatform e c w) (AW_post c STATE_AUTO_WAN_REBOOT_PLATFORM w)"
proof -
  have valid: "valid_idx (total_ifaces w) (PC_activeInterfaceIdx c)" using c(1) by (simp add: AW_ready_def)
  show ?thesis
    unfolding AW_State_RebootingPlatform_def AW_Transition_RebootDevice_def
    by (rule AW_post_bind [OF sel.running [OF wf]], intro ok_if AW_post_quiet quiet_intros)
      (use c valid in \<open>auto intro: AW_spec.intros\<close>)
qed

lemma WanUp_tail:
  assumes wf: "wf_db w" and c: "AW_ready c w" "PC_activeInterfaceIdx c \<noteq> -1"
    and run: "machine_running (nat (PC_activeInterfaceIdx c)) w = r"
  shows "okx same_sel w (AW_Transistion_WanInterfaceUp e c w)
    (\<lambda>q. fst q = (if r then STATE_AUTO_WAN_INTERFACE_DOWN else STATE_AUTO_WAN_INTERFACE_ACTIVE) \<and> snd q = c)"
proof -
  from c AW_ready_none obtain k where k: "PC_pWanActiveIfaceData c = Some k" by fastforce
  from AW_ready_some [OF wf c(1) k] have j: "idx_uint (PC_activeInterfaceIdx c) < total_ifaces w"
    "unat (idx_uint (PC_activeInterfaceIdx c)) = k" "k = nat (PC_activeInterfaceIdx c)" by metis+
  have k': "PC_pWanActiveIfaceData c = Some (unat (idx_uint (PC_activeInterfaceIdx c)))" using k j by simp
  show ?thesis
    unfolding AW_Transistion_WanInterfaceUp_def Get_ISM_RunningStatus_eq [OF wf]
    using c(2) k run j wf
    by (auto intro!: sel.return_same sel.bind_pair [OF sel.StartIfaceStateMachine [OF wf j(1) k']])
qed

lemma Active_post:
  assumes wf: "wf_db w" and c: "AW_ready c w" "PC_activeInterfaceIdx c \<noteq> -1"
  shows "ok w (AW_State_WanInterfaceActive e c w) (AW_post c STATE_AUTO_WAN_INTERFACE_ACTIVE w)"
proof -
  let ?post = "AW_post c STATE_AUTO_WAN_INTERFACE_ACTIVE"
  from c AW_ready_none obtain k where k: "PC_pWanActiveIfaceData c = Some k" by fastforce
  from AW_ready_some [OF wf c(1) k] obtain d where d: "iface_at k w = Some d"
    and j: "idx_uint (PC_activeInterfaceIdx c) < total_ifaces w" "unat (idx_uint (PC_activeInterfaceIdx c)) = k" by metis
  have valid: "valid_idx (total_ifaces w) (PC_activeInterfaceIdx c)" using c(1) by (simp add: AW_ready_def)
  have down: "ok w (do {
        (_, w) \<leftarrow> WanMgr_SetGroupSelectedIface (PC_GroupInst c) (idx_uint (PC_activeInterfaceIdx c + 1)) w;
        AW_Transistion_WanInterfaceDown c w }) (?post w)"
    by (rule select_post [OF wf valid c(2) AW_spec.ActiveDown])
      (auto simp: AW_Transistion_WanInterfaceDown_def intro: sel.return_same)
  have stay: "ok w (Some ((STATE_AUTO_WAN_INTERFACE_ACTIVE, c), u)) (?post w)" if "quiet w u" for u
    by (rule AW_post_quiet [OF that AW_spec.ActiveStay]) (use c valid in simp_all)
  have restart: "ok w (do {
          (_, w) \<leftarrow> for_loop [0..<unat (If_NoOfVirtIfs d)]
                 (\<lambda>VirtId u w. continue (AW_restart_virtif e c VirtId w)) () w;
          Some ((STATE_AUTO_WAN_INTERFACE_ACTIVE, c), set_VirtIfChanged k False w)
        }) (?post w)"
  proof -
    have "okx same_tables w (for_loop [0..<unat (If_NoOfVirtIfs d)]
        (\<lambda>VirtId u w. continue (AW_restart_virtif e c VirtId w)) () w) (\<lambda>_. True)"
      by (rule start_loop(2) [OF wf j(1)]) (use d j(2) in simp_all)
    then obtain r u where
      "for_loop [0..<unat (If_NoOfVirtIfs d)] (\<lambda>VirtId u w. continue (AW_restart_virtif e c VirtId w)) () w = Some (r, u)"
      "quiet w u" by (rule okx_tables)
    then show ?thesis by (simp add: stay quiet_set_VirtIfChanged)
  qed
  have eq: "AW_State_WanInterfaceActive e c w =
     (if \<not> PC_WanEnable c \<or> PC_GroupCfgChanged c \<or> PC_ResetSelectedInterface c
      then AW_Transition_ResetSelectedInterface c w
      else if If_BaseInterfaceStatus d \<noteq> WAN_IFACE_PHY_STATUS_UP \<or> \<not> Sel_Enable (If_Selection d) \<or>
              \<not> machine_running k w
      then do {
        (_, w) \<leftarrow> WanMgr_SetGroupSelectedIface (PC_GroupInst c) (idx_uint (PC_activeInterfaceIdx c + 1)) w;
        AW_Transistion_WanInterfaceDown c w }
      else if If_VirtIfChanged d
      then do {
        (_, w) \<leftarrow> for_loop [0..<unat (If_NoOfVirtIfs d)]
               (\<lambda>VirtId u w. continue (AW_restart_virtif e c VirtId w)) () w;
        Some ((STATE_AUTO_WAN_INTERFACE_ACTIVE, c), set_VirtIfChanged k False w) }
      else Some ((STATE_AUTO_WAN_INTERFACE_ACTIVE, c), w))"
    unfolding AW_State_WanInterfaceActive_def Get_ISM_RunningStatus_eq [OF wf]
    by (simp add: k d j)
  show ?thesis
    unfolding eq by (intro ok_if down restart stay quiet_refl [OF wf] ResetSelected_post [OF wf c]) simp
qed

lemma Down_post:
  assumes wf: "wf_db w" and c: "AW_ready c w" "PC_activeInterfaceIdx c \<noteq> -1"
  shows "ok w (AW_State_WanInterfaceDown e c w) (AW_post c STATE_AUTO_WAN_INTERFACE_DOWN w)"
proof -
  let ?post = "AW_post c STATE_AUTO_WAN_INTERFACE_DOWN"
  from c AW_ready_none obtain k where k: "PC_pWanActiveIfaceData c = Some k" by fastforce
  from AW_ready_some [OF wf c(1) k] obtain d where d: "iface_at k w = Some d" by metis
  have valid: "valid_idx (total_ifaces w) (PC_activeInterfaceIdx c)" using c(1) by (simp add: AW_ready_def)
  have up: "ok w (do {
        (_, w) \<leftarrow> WanMgr_SetGroupSelectedIface (PC_GroupInst c) (idx_uint (PC_activeInterfaceIdx c + 1)) w;
        AW_Transistion_WanInterfaceUp e c w }) (?post w)"
  proof -
    from SetGroupSelectedIface [OF wf, of "PC_GroupInst c" "idx_uint (PC_activeInterfaceIdx c + 1)"] obtain w1 where
      1: "WanMgr_SetGroupSelectedIface (PC_GroupInst c) (idx_uint (PC_activeInterfaceIdx c + 1)) w = Some (ANSC_STATUS_SUCCESS, w1)"
        "keeps w w1" by blast
    let ?run = "machine_running (nat (PC_activeInterfaceIdx c)) w1"
    let ?st = "if ?run then STATE_AUTO_WAN_INTERFACE_DOWN else STATE_AUTO_WAN_INTERFACE_ACTIVE"
    have spec: "AW_spec (nat (PC_activeInterfaceIdx c)) STATE_AUTO_WAN_INTERFACE_DOWN
        (Some (inst_of (nat (PC_activeInterfaceIdx c)))) None ?st" by (simp add: AW_spec.intros)
    have tail: "okx same_sel w' (if w' = w1 then AW_Transistion_WanInterfaceUp e c w' else Some ((?st, c), w'))
        (\<lambda>r. fst r = ?st \<and> AW_frame (snd r) = AW_frame c \<and> PC_activeInterfaceIdx (snd r) = PC_activeInterfaceIdx c)"
      if "wf_db w'" "total_ifaces w' = total_ifaces w" for w'
    proof (rule okx_if)
      assume "w' = w1"
      then show "okx same_sel w' (AW_Transistion_WanInterfaceUp e c w')
        (\<lambda>r. fst r = ?st \<and> AW_frame (snd r) = AW_frame c \<and> PC_activeInterfaceIdx (snd r) = PC_activeInterfaceIdx c)"
        using WanUp_tail [OF that(1) AW_ready_total [OF c(1) that(2)] c(2) refl, of e]
        by (auto elim!: okx_mono)
    qed (use that in \<open>simp add: sel.return_same\<close>)
    from select_post [OF wf valid c(2) spec tail] 1(1) show ?thesis by simp
  qed
  have stay: "ok w (Some ((STATE_AUTO_WAN_INTERFACE_DOWN, c), w)) (?post w)"
    by (rule AW_post_quiet [OF quiet_refl [OF wf] AW_spec.DownStay]) (use c valid in simp_all)
  show ?thesis
    unfolding AW_State_WanInterfaceDown_def k option.case
    by (rule ok_if, rule ResetSelected_post [OF wf c], simp, rule ok_deref [OF d], rule ok_if, rule up, rule stay)
qed

lemma TearingDown_post:
  assumes wf: "wf_db w" and c: "AW_ready c w" "PC_activeInterfaceIdx c \<noteq> -1"
  shows "ok w (AW_State_WaitingForInterfaceSMExit e c w) (AW_post c STATE_AUTO_WAN_TEARING_DOWN w)"
proof -
  let ?post = "AW_post c STATE_AUTO_WAN_TEARING_DOWN" and ?k = "nat (PC_activeInterfaceIdx c)"
  from c AW_ready_none obtain k where k: "PC_pWanActiveIfaceData c = Some k" by fastforce
  from AW_ready_some [OF wf c(1) k] obtain d where d: "iface_at k w = Some d" "k = ?k" "k < unat (total_ifaces w)" by metis
  have valid: "valid_idx (total_ifaces w) (PC_activeInterfaceIdx c)" using c(1) by (simp add: AW_ready_def)
  from d(3) c(1) have n: "PC_TotalIfaces c \<noteq> 0" by (auto simp: AW_ready_def)
  let ?w = "set_status k WAN_IFACE_NOT_SELECTED w"
  have w': "wf_db ?w" "keeps w ?w" using wf by (simp_all add: keeps_refl)
  have view: "sel_view ?w = sel_upd (PC_GroupInst c) ?k None (Some WAN_IFACE_NOT_SELECTED) (sel_view w)"
    using sel_view_set_status [OF d(1)] d(2) by simp
  from sel.ResetIfaceTable [OF w'(1), of c] obtain u where u: "AW_ResetIfaceTable c ?w = Some ((), u)"
    "keeps ?w u" "wf_db u" "sel_view u = sel_view ?w" by (auto elim!: okxE simp: same_sel_def)
  from ResetGroupSelectedIface [OF u(3) n, of ?k] obtain v where v: "AW_ResetGroupSelectedIface c u = Some (ANSC_STATUS_SUCCESS, v)"
    "keeps u v" "sel_view v = sel_upd (PC_GroupInst c) ?k (Some 0) None (sel_view u)" by blast
  from v(2) have wfv: "wf_db v" by (rule keeps_wf)
  have "okx same_sel v (if PC_GroupCfgChanged c then AW_ResetActiveLinkOnAllIface e c v else Some (ANSC_STATUS_SUCCESS, v)) (\<lambda>_. True)"
    by (intro okx_if sel.ResetActiveLinkOnAllIface sel.return_same wfv) simp
  then obtain r x where x: "(if PC_GroupCfgChanged c then AW_ResetActiveLinkOnAllIface e c v else Some (ANSC_STATUS_SUCCESS, v)) = Some (r, x)"
    "keeps v x" "sel_view x = sel_view v" by (auto elim!: okxE simp: same_sel_def)
  have "keeps w x" using w'(2) u(2) v(2) x(2) keeps_trans by blast
  then have exit: "ok w (Some ((STATE_AUTO_WAN_SM_EXIT, c), x)) (?post w)"
    by (rule AW_post_step [OF _ AW_spec.TearingExit]) (use valid x(3) v(3) u(4) view sel_upd_compose(2) in simp_all)
  have stay: "ok w (Some ((STATE_AUTO_WAN_TEARING_DOWN, c), ?w)) (?post w)"
    by (rule AW_post_step [OF w'(2) AW_spec.TearingStay view]) (use valid c in simp_all)
  have eq: "AW_State_WaitingForInterfaceSMExit e c w =
    (if idx_uint (PC_activeInterfaceIdx c) < total_ifaces w \<and> machine_running (unat (idx_uint (PC_activeInterfaceIdx c))) ?w
     then Some ((STATE_AUTO_WAN_TEARING_DOWN, c), ?w) else Some ((STATE_AUTO_WAN_SM_EXIT, c), x))"
    unfolding AW_State_WaitingForInterfaceSMExit_def k option.case d(1) bind.bind_lunit Let_def
      Get_ISM_RunningStatus_eq [OF w'(1)] prod.case u(1) v(1) x(1) by simp
  show ?thesis unfolding eq by (intro ok_if stay exit)
qed

text \<open>Every state function takes a step of the diagram.\<close>

lemma AW_state_post:
  assumes wf: "wf_db w" and c: "AW_ready c w"
    and idx: "st \<notin> {STATE_AUTO_WAN_INTERFACE_SELECTING, STATE_AUTO_WAN_ERROR, STATE_AUTO_WAN_SM_EXIT} \<Longrightarrow>
      PC_activeInterfaceIdx c \<noteq> -1"
  shows "ok w (AW_state b e st c w) (AW_post c st w)"
proof -
  have valid: "valid_idx (total_ifaces w) (PC_activeInterfaceIdx c)" using c by (simp add: AW_ready_def)
  have stop: "ok w (Some ((st, c), w)) (AW_post c st w)"
    if "st = STATE_AUTO_WAN_SM_EXIT \<or> st = STATE_AUTO_WAN_ERROR"
    by (rule AW_post_quiet [OF quiet_refl [OF wf]]) (use that valid in \<open>auto intro: AW_spec.intros\<close>)
  show ?thesis
    by (cases st) (use wf c idx stop Selecting_post Waiting_post Scanning_post TearDown_post Reconfiguration_post
      Rebooting_post Active_post Down_post TearingDown_post in simp_all)
qed

subsection \<open>The thread\<close>

text \<open>
  The invariant of the thread of group \<open>inst\<close>: it works for its group, on no interface or on one of the
  table, and has an interface in every state in which it needs one.
\<close>

definition AW_inv :: "uint \<Rightarrow> AW_thread \<Rightarrow> world \<Rightarrow> bool" where
  "AW_inv inst t w \<longleftrightarrow> (case t of (running, st, c) \<Rightarrow>
     inst \<noteq> 0 \<and> PC_GroupInst c = inst \<and> valid_idx (total_ifaces w) (PC_activeInterfaceIdx c) \<and>
     (st \<notin> {STATE_AUTO_WAN_INTERFACE_SELECTING, STATE_AUTO_WAN_ERROR, STATE_AUTO_WAN_SM_EXIT} \<longrightarrow>
        PC_activeInterfaceIdx c \<noteq> -1))"

text \<open>
  One pass against the diagram: an interrupted pass and a thread that has left its loop do nothing; a pass
  in a final state leaves the loop and gives up the selection of the group; any other pass takes a step.
\<close>

definition AW_refines :: "env \<Rightarrow> AW_thread \<Rightarrow> world \<Rightarrow> AW_thread \<Rightarrow> world \<Rightarrow> bool" where
  "AW_refines e t w t' w' \<longleftrightarrow> (case (t, t') of ((running, st, c), (running', st', c')) \<Rightarrow>
     let upd = sel_upd (PC_GroupInst c) (nat (PC_activeInterfaceIdx c)) in
     if \<not> running \<or> \<not> select_ok e then t' = t \<and> w' = w
     else if AW_stops st then \<not> running' \<and> st' = st \<and> sel_view w' = upd (Some 0) None (sel_view w)
     else running' \<and>
       (st' \<notin> {STATE_AUTO_WAN_INTERFACE_SELECTING, STATE_AUTO_WAN_ERROR, STATE_AUTO_WAN_SM_EXIT} \<longrightarrow>
          PC_activeInterfaceIdx c' = PC_activeInterfaceIdx c) \<and>
       (\<exists>S T. AW_spec (nat (PC_activeInterfaceIdx c)) st S T st' \<and> sel_view w' = upd S T (sel_view w)))"

lemma take_iface:
  assumes wf: "wf_db w" and v: "valid_idx (total_ifaces w) (PC_activeInterfaceIdx c)"
    and n: "PC_TotalIfaces c = total_ifaces w" and g: "PC_GroupInst c \<noteq> 0"
  shows "\<exists>c'. AW_take_iface c w = Some (c', if PC_activeInterfaceIdx c = -1 then w else mlock w) \<and>
    AW_ready c' w \<and> PC_activeInterfaceIdx c' = PC_activeInterfaceIdx c \<and> PC_GroupInst c' = PC_GroupInst c \<and>
    PC_WanEnable c' = PC_WanEnable c \<and> PC_GroupCfgChanged c' = PC_GroupCfgChanged c \<and>
    PC_ResetSelectedInterface c' = PC_ResetSelectedInterface c"
proof (cases "PC_activeInterfaceIdx c = -1")
  case True
  have "\<not> valid_iface (idx_uint (-1)) w" using idx_uint_none [OF wf] by (simp add: wf_db_valid_iface [OF wf])
  then have "WanMgr_GetIfaceData_locked (idx_uint (-1)) w = (None, w)"
    by (auto simp: WanMgr_GetIfaceData_locked_def pthread_mutex_lock_def valid_iface_def release_defs)
  with True v n show ?thesis by (simp add: AW_take_iface_def AW_ready_def)
next
  case False
  note j = idx_uint_in [OF v False]
  from wf j(3) obtain d where d: "iface_at (nat (PC_activeInterfaceIdx c)) w = Some d" by (rule wf_db_iface_at)
  have "valid_iface (idx_uint (PC_activeInterfaceIdx c)) w" using j(1) by (simp add: wf_db_valid_iface [OF wf])
  then have "WanMgr_GetIfaceData_locked (idx_uint (PC_activeInterfaceIdx c)) w =
      (Some (nat (PC_activeInterfaceIdx c)), mlock w)"
    using j(2) by (auto simp: WanMgr_GetIfaceData_locked_def pthread_mutex_lock_def valid_iface_def release_defs)
  with False v n d g show ?thesis by (simp add: AW_take_iface_def AW_ready_def)
qed

lemma epilogue:
  assumes wf: "wf_db w"
  shows "\<exists>w'. AW_epilogue c w = Some ((), w') \<and> keeps w w' \<and>
    sel_view w' = sel_upd (PC_GroupInst c) k (Some 0) None (sel_view w)"
proof -
  define w1 where "w1 = (if PC_GroupCfgChanged c then upd_config (\<lambda>d. d\<lparr>Cfg_ResetFailOverScan := True\<rparr>) w else w)"
  have w1: "wf_db w1" "keeps w w1" "sel_view w1 = sel_view w" "total_groups w1 = total_groups w"
    using wf by (simp_all add: w1_def keeps_refl keeps_upd_config)
  let ?f = "\<lambda>g. g\<lparr>G_ThreadId := 0, G_SelectedInterface := 0, G_ConfigChanged := False,
         G_State := (if G_State g \<noteq> STATE_GROUP_DEACTIVATED then STATE_GROUP_STOPPED else G_State g)\<rparr>"
  have eq: "AW_epilogue c w = with_group (PC_GroupInst c - 1) () (\<lambda>k w. Some ((), upd_group k ?f w)) w1"
    using wf by (simp add: AW_epilogue_def w1_def)
  show ?thesis
  proof (cases "PC_GroupInst c - 1 < total_groups w1")
    case True
    have "sel_view (upd_group (unat (PC_GroupInst c - 1)) ?f w1) = sel_upd (PC_GroupInst c) k (Some 0) None (sel_view w1)"
      by (rule sel_view_SelectedInterface) simp
    with True w1 show ?thesis unfolding eq with_wf(1) [OF w1(1)] by (simp add: keeps_upd_group)
  next
    case False
    from group_at_beyond [OF w1(1) False] have "sel_view w1 = sel_upd (PC_GroupInst c) k (Some 0) None (sel_view w1)"
      by (auto simp: sel_view_def)
    with False w1 show ?thesis unfolding eq with_wf(1) [OF w1(1)] by simp
  qed
qed

lemma AW_pass_refines:
  assumes wf: "wf_db w" and inv: "AW_inv inst (running, st, c) w"
  shows "ok w (AW_pass b e (running, st, c) w) (\<lambda>t' w'. AW_inv inst t' w' \<and> AW_refines e (running, st, c) w t' w')"
proof (cases "running \<and> select_ok e")
  case False
  with wf inv show ?thesis
    by (cases running) (auto simp: ok_def AW_refines_def intro: keeps_refl)
next
  case True
  from inv have g: "inst \<noteq> 0" "PC_GroupInst c = inst" and v: "valid_idx (total_ifaces w) (PC_activeInterfaceIdx c)"
    and idx: "st \<notin> {STATE_AUTO_WAN_INTERFACE_SELECTING, STATE_AUTO_WAN_ERROR, STATE_AUTO_WAN_SM_EXIT} \<longrightarrow> PC_activeInterfaceIdx c \<noteq> -1"
    by (simp_all add: AW_inv_def)
  from sel.UpdateControllerData [OF wf, of c] obtain c1 w1 where 1: "AW_UpdateControllerData c w = Some (c1, w1)"
    "keeps w w1" "wf_db w1" "sel_view w1 = sel_view w" "PC_TotalIfaces c1 = total_ifaces w"
    "PC_activeInterfaceIdx c1 = PC_activeInterfaceIdx c" "PC_GroupInst c1 = PC_GroupInst c"
    by (auto elim!: okxE simp: same_sel_def)
  from 1(2) have t1: "total_ifaces w1 = total_ifaces w" by (simp add: keeps_def)
  have g1: "PC_GroupInst c1 \<noteq> 0" and v1: "valid_idx (total_ifaces w1) (PC_activeInterfaceIdx c1)"
    and n1: "PC_TotalIfaces c1 = total_ifaces w1" using 1 g v t1 by simp_all
  define w2 where "w2 = (if PC_activeInterfaceIdx c = -1 then w1 else mlock w1)"
  from take_iface [OF 1(3) v1 n1 g1] 1(6,7) obtain c2 where 2: "AW_take_iface c1 w1 = Some (c2, w2)"
    "AW_ready c2 w1" "PC_activeInterfaceIdx c2 = PC_activeInterfaceIdx c" "PC_GroupInst c2 = inst"
    using g by (auto simp: w2_def)
  have wf2: "wf_db w2" "total_ifaces w2 = total_ifaces w" "sel_view w2 = sel_view w"
    using 1 t1 by (simp_all add: w2_def)
  have r2: "AW_ready c2 w2" using AW_ready_total [OF 2(2)] wf2 t1 by simp
  have i2: "PC_activeInterfaceIdx c2 \<noteq> -1"
    if "st \<notin> {STATE_AUTO_WAN_INTERFACE_SELECTING, STATE_AUTO_WAN_ERROR, STATE_AUTO_WAN_SM_EXIT}"
    using that idx 2(3) by simp
  from AW_state_post [where st = st and b = b and e = e, OF wf2(1) r2 i2] obtain q w3 where 3: "AW_state b e st c2 w2 = Some (q, w3)"
    "keeps w2 w3" "AW_post c2 st w2 q w3" by (rule okE) auto
  obtain st' c' where q: "q = (st', c')" by (cases q)
  from 3(3) have f: "AW_frame c' = AW_frame c2" "valid_idx (total_ifaces w) (PC_activeInterfaceIdx c')"
    "st' \<notin> {STATE_AUTO_WAN_INTERFACE_SELECTING, STATE_AUTO_WAN_ERROR, STATE_AUTO_WAN_SM_EXIT} \<longrightarrow>
       PC_activeInterfaceIdx c' = PC_activeInterfaceIdx c \<and> PC_activeInterfaceIdx c \<noteq> -1"
    "\<exists>S T. AW_spec (nat (PC_activeInterfaceIdx c)) st S T st' \<and>
        sel_view w3 = sel_upd inst (nat (PC_activeInterfaceIdx c)) S T (sel_view w)"
    using q wf2 2 by (auto simp: AW_post_def)
  define w4 where "w4 = (if PC_pWanActiveIfaceData c' \<noteq> None then WanMgrDml_GetIfaceData_release w3 else w3)"
  have p: "PC_pWanActiveIfaceData c' = None \<longleftrightarrow> PC_activeInterfaceIdx c = -1"
    using f(1) r2 2(3) by (simp add: AW_frame_def AW_ready_def)
  have k4: "keeps w1 w4" "sel_view w4 = sel_view w3"
    using 3(2) p wf_db_mutex [OF 1(3)] by (auto simp: w4_def w2_def release_defs intro: keeps_unlock)
  have kw: "keeps w w4" "wf_db w4" using keeps_trans [OF 1(2) k4(1)] keeps_wf by blast+
  have inv': "AW_inv inst (r, st', c') w'" if "total_ifaces w' = total_ifaces w" for r w'
    using f 2(4) g that by (auto simp: AW_inv_def AW_frame_def)
  have pass: "AW_pass b e (running, st, c) w = (if AW_stops st then do {
          (_, w) \<leftarrow> AW_epilogue c' w4; Some ((False, st', c'), w) } else Some ((True, st', c'), w4))"
    using True by (simp add: 1(1) 2(1) 3(1) q w4_def Let_def)
  show ?thesis
  proof (cases "AW_stops st")
    case False
    have "AW_refines e (running, st, c) w (True, st', c') w4"
      using True False f(3,4) k4(2) g(2) by (simp add: AW_refines_def)
    with False kw inv' show ?thesis unfolding pass by (simp add: ok_def keeps_def)
  next
    case stop: True
    from f(4) stop have st': "st' = st" "sel_view w3 = sel_view w"
      by (auto simp: AW_stops_def elim: AW_spec.cases)
    from epilogue [OF kw(2), of c' "nat (PC_activeInterfaceIdx c)"] obtain w5 where 5: "AW_epilogue c' w4 = Some ((), w5)"
      "keeps w4 w5" "sel_view w5 = sel_upd (PC_GroupInst c') (nat (PC_activeInterfaceIdx c)) (Some 0) None (sel_view w4)" by blast
    from f(1) 2(4) have "PC_GroupInst c' = inst" by (simp add: AW_frame_def)
    with True stop st' 5(3) k4(2) g(2) have "AW_refines e (running, st, c) w (False, st', c') w5"
      by (simp add: AW_refines_def)
    with stop 5 keeps_trans [OF kw(1) 5(2)] inv' show ?thesis unfolding pass by (simp add: ok_def keeps_def)
  qed
qed

interpretation aw: wan_thread "AW_pass b" interference "AW_inv inst" for b inst
proof
  show "ok w (AW_pass b e s w) (AW_inv inst)" if "wf_db w" "AW_inv inst s w" for w s e
    using that AW_pass_refines by (cases s) (fastforce elim: ok_mono)
  show "interference w w'" if "interference w w'" for w w' using that .
  show "AW_inv inst s w'" if "AW_inv inst s w" "interference w w'" for s w w'
    using that by (auto simp: AW_inv_def interference_def valid_idx_def word_le_nat_alt split: prod.splits)
qed

text \<open>The thread starts without touching the selection, in a state that satisfies the invariant.\<close>

lemma Transition_Start_quiet:
  assumes wf: "wf_db w" and c: "PC_TotalIfaces c = total_ifaces w" "PC_activeInterfaceIdx c = -1"
  shows "okx same_sel w (AW_Transition_Start b e c w) (\<lambda>r. fst r = STATE_AUTO_WAN_INTERFACE_SELECTING \<and>
    PC_GroupInst (snd r) = PC_GroupInst c \<and> valid_idx (total_ifaces w) (PC_activeInterfaceIdx (snd r)))"
proof -
  let ?R = "\<lambda>r. fst r = STATE_AUTO_WAN_INTERFACE_SELECTING \<and>
    PC_GroupInst (snd r) = PC_GroupInst c \<and> valid_idx (total_ifaces w) (PC_activeInterfaceIdx (snd r))"
  have path: "okx same_sel u (with_iface i None (\<lambda>k w. do {
             d \<leftarrow> iface_at k w; Some (Some (take 127 (If_BaseInterface d)), w) }) u) (\<lambda>_. True)"
    if "wf_db u" for u i
    by (rule sel.iface [OF that], simp, rule sel.deref, simp only: lock_at, rule sel.return_same) simp_all
  have bridge: "okx same_sel u (Some ((STATE_AUTO_WAN_INTERFACE_SELECTING, c'),
      snd (WanMgr_RdkBus_AddIntfToLanBridge e p v u))) ?R"
    if "wf_db u" "PC_GroupInst c' = PC_GroupInst c" "valid_idx (total_ifaces w) (PC_activeInterfaceIdx c')" for u c' p v
    by (rule sel.quiet_return) (use that in \<open>auto intro: quiet_intros\<close>)
  have stop: "okx same_sel u (Some ((STATE_AUTO_WAN_INTERFACE_SELECTING, c'), u)) ?R"
    if "wf_db u" "PC_GroupInst c' = PC_GroupInst c" "valid_idx (total_ifaces w) (PC_activeInterfaceIdx c')" for u c'
    by (rule sel.return_same) (use that in auto)
  show ?thesis
    unfolding AW_Transition_Start_def
  proof (rule okx_if, rule sel.bind_pair [OF sel.GetPrevSelectedInterface [OF wf c(1)]])
    fix prev u
    assume u: "wf_db u" "keeps w u" and prev: "valid_idx (total_ifaces w) prev"
    let ?c = "c\<lparr>PC_activeInterfaceIdx := prev\<rparr>"
    have n: "PC_TotalIfaces ?c = total_ifaces u" using c u by (simp add: keeps_def)
    have t: "total_ifaces u = total_ifaces w" using u by (simp add: keeps_def)
    have first: "okx same_sel u (do {
          (p, w) \<leftarrow> with_iface (idx_uint prev) None (\<lambda>k w. do {
             d \<leftarrow> iface_at k w; Some (Some (take 127 (If_BaseInterface d)), w) }) u;
          (case p of
             None \<Rightarrow> Some ((STATE_AUTO_WAN_INTERFACE_SELECTING, ?c), w)
           | Some phyPath \<Rightarrow>
               if strstr phyPath ''Ethernet''
               then Some ((STATE_AUTO_WAN_INTERFACE_SELECTING, ?c),
                          snd (WanMgr_RdkBus_AddIntfToLanBridge e phyPath False w))
               else do {
                 (_, w) \<leftarrow> AW_AddAllIntfsToLanBridge e ?c False w;
                 Some ((STATE_AUTO_WAN_INTERFACE_SELECTING, ?c), w)
               })
        }) ?R"
    proof (rule sel.bind_pair [OF path [OF u(1)]])
      fix p v
      assume v: "wf_db v"
      show "okx same_sel v (case p of
             None \<Rightarrow> Some ((STATE_AUTO_WAN_INTERFACE_SELECTING, ?c), v)
           | Some phyPath \<Rightarrow>
               if strstr phyPath ''Ethernet''
               then Some ((STATE_AUTO_WAN_INTERFACE_SELECTING, ?c),
                          snd (WanMgr_RdkBus_AddIntfToLanBridge e phyPath False v))
               else do {
                 (_, w) \<leftarrow> AW_AddAllIntfsToLanBridge e ?c False v;
                 Some ((STATE_AUTO_WAN_INTERFACE_SELECTING, ?c), w)
               }) ?R"
        by (cases p) (auto intro!: stop bridge v sel.bind_pair [OF sel.AddAllIntfsToLanBridge [OF v]] simp: prev)
    qed
    have second: "okx same_sel u (do {
          (_, w) \<leftarrow> AW_AddAllIntfsToLanBridge e ?c False u;
          (c, w) \<leftarrow> AW_GetHighPriorityIface b ?c w;
          Some ((STATE_AUTO_WAN_INTERFACE_SELECTING, c), w)
        }) ?R"
    proof (rule sel.bind_pair [OF sel.AddAllIntfsToLanBridge [OF u(1)]])
      fix r v
      assume v: "wf_db v" "keeps u v"
      then have tv: "total_ifaces v = total_ifaces w" "PC_TotalIfaces ?c = total_ifaces v"
        using t n by (simp_all add: keeps_def)
      show "okx same_sel v (do {
          (c, w) \<leftarrow> AW_GetHighPriorityIface b ?c v;
          Some ((STATE_AUTO_WAN_INTERFACE_SELECTING, c), w)
        }) ?R"
        by (rule sel.bind_pair [OF sel.GetHighPriorityIface [OF v(1) tv(2)]], rule stop)
          (use tv prev in auto)
    qed
    show "okx same_sel u (let c = ?c in if prev \<noteq> -1
        then do {
          (p, w) \<leftarrow> with_iface (idx_uint prev) None (\<lambda>k w. do {
             d \<leftarrow> iface_at k w; Some (Some (take 127 (If_BaseInterface d)), w) }) u;
          (case p of
             None \<Rightarrow> Some ((STATE_AUTO_WAN_INTERFACE_SELECTING, c), w)
           | Some phyPath \<Rightarrow>
               if strstr phyPath ''Ethernet''
               then Some ((STATE_AUTO_WAN_INTERFACE_SELECTING, c),
                          snd (WanMgr_RdkBus_AddIntfToLanBridge e phyPath False w))
               else do {
                 (_, w) \<leftarrow> AW_AddAllIntfsToLanBridge e c False w;
                 Some ((STATE_AUTO_WAN_INTERFACE_SELECTING, c), w)
               })
        }
        else do {
          (_, w) \<leftarrow> AW_AddAllIntfsToLanBridge e c False u;
          (c, w) \<leftarrow> AW_GetHighPriorityIface b c w;
          Some ((STATE_AUTO_WAN_INTERFACE_SELECTING, c), w)
        }) ?R"
      unfolding Let_def by (rule okx_if [OF first second])
  qed (use wf c in \<open>simp add: sel.return_same\<close>)
qed

lemma AW_init_ok:
  assumes wf: "wf_db w" and inst: "inst \<noteq> 0"
  shows "ok w (AW_init b e inst c w) (\<lambda>t w'. AW_inv inst t w' \<and> sel_view w' = sel_view w)"
proof -
  let ?c = "(WanMgr_Controller_PolicyCtrlInit c)\<lparr>PC_GroupInst := inst\<rparr>"
  have c: "PC_activeInterfaceIdx ?c = -1" "PC_GroupInst ?c = inst"
    by (simp_all add: WanMgr_Controller_PolicyCtrlInit_def)
  from sel.UpdateControllerData [OF wf, of ?c] c obtain c1 w1 where 1: "AW_UpdateControllerData ?c w = Some (c1, w1)"
    "keeps w w1" "wf_db w1" "sel_view w1 = sel_view w" "PC_TotalIfaces c1 = total_ifaces w"
    "PC_activeInterfaceIdx c1 = -1" "PC_GroupInst c1 = inst" by (auto elim!: okxE simp: same_sel_def)
  from 1(2,5) have n: "PC_TotalIfaces c1 = total_ifaces w1" by (simp add: keeps_def)
  from Transition_Start_quiet [OF 1(3) n 1(6), of b e] obtain st c2 w2 where 2: "AW_Transition_Start b e c1 w1 = Some ((st, c2), w2)"
    "keeps w1 w2" "sel_view w2 = sel_view w1" "st = STATE_AUTO_WAN_INTERFACE_SELECTING" "PC_GroupInst c2 = inst"
    "valid_idx (total_ifaces w1) (PC_activeInterfaceIdx c2)" using 1(7) by (auto elim!: okxE simp: same_sel_def)
  from 2(2) have "total_ifaces w2 = total_ifaces w1" by (simp add: keeps_def)
  with 1 2 inst keeps_trans [OF 1(2) 2(2)] show ?thesis
    by (simp add: AW_init_def Let_def ok_def AW_inv_def)
qed

subsection \<open>The controller of a pass\<close>

text \<open>The controller after the update at the start of a pass, and the pass as its state function.\<close>

definition AW_refresh :: "policy_ctrl \<Rightarrow> world \<Rightarrow> policy_ctrl" where
  "AW_refresh c w =
     (let c = c\<lparr>PC_WanEnable := Cfg_Enable (config w),
                PC_AllowRemoteInterfaces := Cfg_AllowRemoteInterfaces (config w),
                PC_TotalIfaces := total_ifaces w\<rparr>
      in if PC_GroupInst c - 1 < total_groups w
         then case group_at (unat (PC_GroupInst c - 1)) w of
                None \<Rightarrow> c
              | Some g \<Rightarrow> c\<lparr>PC_GroupCfgChanged := G_ConfigChanged g,
                            PC_GroupPersistSelectedIface := G_PersistSelectedIface g,
                            PC_ResetSelectedInterface := G_ResetSelectedInterface g\<rparr>
         else c)"

lemma AW_refresh_fields [simp]:
  "PC_activeInterfaceIdx (AW_refresh c w) = PC_activeInterfaceIdx c"
  "PC_GroupInst (AW_refresh c w) = PC_GroupInst c" "PC_TotalIfaces (AW_refresh c w) = total_ifaces w"
  "PC_WanEnable (AW_refresh c w) = Cfg_Enable (config w)"
  "PC_SelectionTimeOutStart (AW_refresh c w) = PC_SelectionTimeOutStart c"
  by (simp_all add: AW_refresh_def Let_def split: option.split)

lemma AW_refresh_group:
  assumes "PC_GroupInst c - 1 < total_groups w" "group_at (unat (PC_GroupInst c - 1)) w = Some g"
  shows "PC_GroupCfgChanged (AW_refresh c w) = G_ConfigChanged g"
    "PC_GroupPersistSelectedIface (AW_refresh c w) = G_PersistSelectedIface g"
    "PC_ResetSelectedInterface (AW_refresh c w) = G_ResetSelectedInterface g"
  using assms by (simp_all add: AW_refresh_def Let_def)

lemma UpdateControllerData_eq:
  assumes wf: "wf_db w"
  shows "AW_UpdateControllerData c w = Some (AW_refresh c w, w)"
proof -
  have "group_at (unat (PC_GroupInst c - 1)) w \<noteq> None" if "PC_GroupInst c - 1 < total_groups w"
    using wf_db_group_at [OF wf that] by auto
  then show ?thesis
    using wf by (auto simp: AW_UpdateControllerData_def AW_refresh_def Let_def with_wf(1))
qed

lemma AW_pass_state:
  assumes wf: "wf_db w" and inv: "AW_inv inst (True, st, c) w" and e: "select_ok e" and st: "\<not> AW_stops st"
    and idx: "PC_activeInterfaceIdx c \<noteq> -1"
  obtains c2 where "AW_ready c2 w" "PC_activeInterfaceIdx c2 = PC_activeInterfaceIdx c" "PC_GroupInst c2 = inst"
    "PC_WanEnable c2 = Cfg_Enable (config w)" "PC_GroupCfgChanged c2 = PC_GroupCfgChanged (AW_refresh c w)"
    "PC_ResetSelectedInterface c2 = PC_ResetSelectedInterface (AW_refresh c w)"
    "\<And>st' c' w'. AW_state b e st c2 (mlock w) = Some ((st', c'), w') \<Longrightarrow>
       AW_pass b e (True, st, c) w = Some ((True, st', c'), pthread_mutex_unlock w')"
proof -
  from inv have g: "PC_GroupInst (AW_refresh c w) \<noteq> 0" "PC_GroupInst c = inst"
    and v: "valid_idx (total_ifaces w) (PC_activeInterfaceIdx (AW_refresh c w))"
    by (simp_all add: AW_inv_def)
  from take_iface [OF wf v _ g(1)] idx obtain c2 where c2: "AW_take_iface (AW_refresh c w) w = Some (c2, mlock w)"
    "AW_ready c2 w" "PC_activeInterfaceIdx c2 = PC_activeInterfaceIdx c" "PC_GroupInst c2 = PC_GroupInst c"
    "PC_WanEnable c2 = Cfg_Enable (config w)" "PC_GroupCfgChanged c2 = PC_GroupCfgChanged (AW_refresh c w)"
    "PC_ResetSelectedInterface c2 = PC_ResetSelectedInterface (AW_refresh c w)" by auto
  have pass: "AW_pass b e (True, st, c) w = Some ((True, st', c'), pthread_mutex_unlock w')"
    if s: "AW_state b e st c2 (mlock w) = Some ((st', c'), w')" for st' c' w'
  proof -
    have r: "AW_ready c2 (mlock w)" using AW_ready_total [OF c2(2)] by simp
    have "PC_activeInterfaceIdx c2 \<noteq> -1" using c2(3) idx by simp
    with AW_state_post [where b = b and e = e and st = st, OF _ r] wf s have "AW_frame c' = AW_frame c2"
      by (auto simp: ok_def AW_post_def)
    with r c2(3) idx have "PC_pWanActiveIfaceData c' \<noteq> None" by (simp add: AW_frame_def AW_ready_def)
    with e st s show ?thesis by (simp add: UpdateControllerData_eq [OF wf] c2(1) release_defs)
  qed
  from that [OF c2(2-3) _ c2(5-7) pass] c2(4) g(2) show thesis by simp
qed

end
