(* ===== verification/WanAutoProps.thy ===== *)
theory WanAutoProps
  imports WanAutoSpec WanFailoverLemmas WanSamples
begin

text \<open>
  Properties of the AutoWAN selection policy: every run is safe and follows the state diagram, the
  guarantee the fail-over controller relies on and the one way it can be broken, the choice of the next
  interface, the time-out of the scan, the restart of the selection, and the end of the thread.
\<close>

subsection \<open>The thread\<close>

text \<open>
  C12. The AutoWAN thread is safe: started for a group in a well-formed data base, whatever the other
  threads do to the data base within their limits, every run returns (no NULL or stale pointer is
  dereferenced in any pass), leaves the data base well-formed and the mutex as often locked as before,
  and the thread works for its group on no interface or on one of the table.
\<close>

theorem auto_thread_safe:
  assumes "wf_db w" "inst \<noteq> 0"
    and others: "\<And>others e' u. (others, e') \<in> set script \<Longrightarrow> wf_db u \<Longrightarrow> interference u (others u)"
  shows "\<exists>running st c' w'.
    Option.bind (AW_init b e inst c w) (\<lambda>(t, w). run_thread (AW_pass b) script t w) = Some ((running, st, c'), w') \<and>
    wf_db w' \<and> mutex w' = mutex w \<and> PC_GroupInst c' = inst \<and>
    (PC_activeInterfaceIdx c' = -1 \<or>
     (\<exists>k d v. PC_activeInterfaceIdx c' = int k \<and> iface_at k w' = Some d \<and> head_virtif d = Some v))"
proof -
  from AW_init_ok [OF assms(1,2), of b e c] obtain t w1 where
    i: "AW_init b e inst c w = Some (t, w1)" "keeps w w1" "AW_inv inst t w1" by (rule okE) blast
  from i(2) have wf1: "wf_db w1" "mutex w1 = mutex w" by (simp_all add: keeps_def)
  from aw.run_ok [OF wf1(1) i(3), of script b] others obtain t' w' where
    r: "run_thread (AW_pass b) script t w1 = Some (t', w')" "wf_db w'" "AW_inv inst t' w'" "mutex w' = mutex w1" by blast
  obtain running st c' where t': "t' = (running, st, c')" by (cases t')
  have "PC_activeInterfaceIdx c' = -1 \<or>
     (\<exists>k d v. PC_activeInterfaceIdx c' = int k \<and> iface_at k w' = Some d \<and> head_virtif d = Some v)"
  proof (cases "PC_activeInterfaceIdx c' = -1")
    case False
    with r(3) t' have "0 \<le> PC_activeInterfaceIdx c'" "nat (PC_activeInterfaceIdx c') < unat (total_ifaces w')"
      by (auto simp: AW_inv_def valid_idx_def)
    with wf_db_iface_at [OF r(2)] wf_shape_head show ?thesis by (metis int_nat_eq)
  qed simp
  with i(1) r t' wf1 show ?thesis by (simp add: AW_inv_def)
qed

theorem auto_thread_safe_witness:
  "\<exists>running st c' w'. Option.bind (AW_init sample_build sample_env 1 undefined sample_world)
      (\<lambda>(t, w). run_thread (AW_pass sample_build) [(id, sample_env), (id, sample_env)] t w) =
      Some ((running, st, c'), w') \<and> wf_db w' \<and> PC_GroupInst c' = 1"
proof -
  have "interference u (others u)" if "(others, e') \<in> set [(id, sample_env), (id, sample_env)]" "wf_db u"
    for others e' u using that by (auto simp: interference_def)
  then show ?thesis
    using auto_thread_safe [where script = "[(id, sample_env), (id, sample_env)]" and b = sample_build and
        e = sample_env and c = undefined and inst = 1, OF wf_sample_world] by fastforce
qed

text \<open>
  C13. Every pass of the AutoWAN thread against the state diagram.  A pass that is not interrupted and finds the policy in
  a state that is not final takes a step of the diagram: its next state is one the diagram allows, and all it changes in
  the selection of the whole data base is what the diagram says: the status of the interface it works on and the selected
  interface of its own group.  The last pass, which finds the policy in a final state, leaves the loop, and all it
  changes in the selection is that its own group has no selected interface any more.  An interrupted pass, and a thread
  that has left its loop, change nothing at all.
\<close>

theorem auto_pass_refines_diagram:
  assumes "wf_db w" "AW_inv inst (running, st, c) w"
  shows "\<exists>running' st' c' w'. AW_pass b e (running, st, c) w = Some ((running', st', c'), w') \<and>
    AW_inv inst (running', st', c') w' \<and>
    (if \<not> running \<or> \<not> select_ok e then (running', st', c') = (running, st, c) \<and> w' = w
     else if AW_stops st then \<not> running' \<and> st' = st \<and>
       sel_view w' = sel_upd inst (nat (PC_activeInterfaceIdx c)) (Some 0) None (sel_view w)
     else running' \<and> (\<exists>S T. AW_spec (nat (PC_activeInterfaceIdx c)) st S T st' \<and>
       sel_view w' = sel_upd inst (nat (PC_activeInterfaceIdx c)) S T (sel_view w)))"
proof -
  have inst: "PC_GroupInst c = inst" using assms(2) by (simp add: AW_inv_def)
  from AW_pass_refines [OF assms, of b e] obtain t' w' where
    p: "AW_pass b e (running, st, c) w = Some (t', w')" "AW_inv inst t' w'" "AW_refines e (running, st, c) w t' w'"
    by (auto elim: okE)
  obtain r st' c' where t': "t' = (r, st', c')" by (cases t')
  with p inst show ?thesis
    by (intro exI [of _ r] exI [of _ st'] exI [of _ c'] exI [of _ w']) (auto simp: AW_refines_def Let_def)
qed

definition sample_policy :: "int \<Rightarrow> policy_ctrl" where
  "sample_policy i = \<lparr>PC_WanEnable = True, PC_activeInterfaceIdx = i, PC_selSecondaryInterfaceIdx = -1,
     PC_pWanActiveIfaceData = None, PC_SelectionTimeOutStart = 500, PC_SelectionTimeOutEnd = 0,
     PC_InterfaceSelectionTimeOut = 20, PC_TotalIfaces = 2, PC_WanOperationalMode = -1,
     PC_GroupCfgChanged = False, PC_GroupPersistSelectedIface = False, PC_ResetSelectedInterface = False,
     PC_AllowRemoteInterfaces = False, PC_GroupIfaceList = 0, PC_GroupInst = 1\<rparr>"

lemma sample_policy_inv:
  assumes "i = -1 \<or> i = 0" "st \<notin> {STATE_AUTO_WAN_INTERFACE_SELECTING, STATE_AUTO_WAN_ERROR, STATE_AUTO_WAN_SM_EXIT} \<Longrightarrow> i = 0"
  shows "AW_inv 1 (r, st, sample_policy i) sample_world"
  using assms by (auto simp: AW_inv_def sample_policy_def valid_idx_def sample_reads)

theorem auto_pass_refines_diagram_witness:
  "(\<exists>st' c' w' S T. AW_pass sample_build sample_env (True, STATE_AUTO_WAN_INTERFACE_SCANNING, sample_policy 0) sample_world =
      Some ((True, st', c'), w') \<and> AW_spec 0 STATE_AUTO_WAN_INTERFACE_SCANNING S T st' \<and>
    sel_view w' = sel_upd 1 0 S T (sel_view sample_world)) \<and>
   (\<exists>c' w'. AW_pass sample_build sample_env (True, STATE_AUTO_WAN_SM_EXIT, sample_policy 0) sample_world =
      Some ((False, STATE_AUTO_WAN_SM_EXIT, c'), w') \<and>
    sel_view w' = sel_upd 1 0 (Some 0) None (sel_view sample_world))"
proof -
  have inv: "AW_inv 1 (True, st, sample_policy 0) sample_world" for st
    by (rule sample_policy_inv) simp_all
  have e: "select_ok sample_env" "nat (PC_activeInterfaceIdx (sample_policy 0)) = 0"
    by (simp_all add: sample_env_def sample_policy_def)
  have st: "\<not> AW_stops STATE_AUTO_WAN_INTERFACE_SCANNING" "AW_stops STATE_AUTO_WAN_SM_EXIT"
    by (simp_all add: AW_stops_def)
  from auto_pass_refines_diagram [OF wf_sample_world inv [of STATE_AUTO_WAN_INTERFACE_SCANNING], of sample_build sample_env]
    auto_pass_refines_diagram [OF wf_sample_world inv [of STATE_AUTO_WAN_SM_EXIT], of sample_build sample_env] e st
  show ?thesis by (fastforce simp del: AW_pass.simps)
qed

subsection \<open>What the fail-over controller relies on\<close>

text \<open>
  The group's selected interface may carry traffic only while the policy works on it: in every other state
  it is neither SELECTED nor ACTIVE.
\<close>

definition AW_sel_ok :: "AW_thread \<Rightarrow> world \<Rightarrow> bool" where
  "AW_sel_ok t w \<longleftrightarrow> (case t of (running, st, c) \<Rightarrow>
     \<forall>j. group_selected (PC_GroupInst c) w = Some j \<and> status_of j w \<in> {Some WAN_IFACE_SELECTED, Some WAN_IFACE_ACTIVE} \<longrightarrow>
       j = nat (PC_activeInterfaceIdx c) \<and> running \<and>
       st \<in> {STATE_AUTO_WAN_INTERFACE_SCANNING, STATE_AUTO_WAN_INTERFACE_RECONFIGURATION,
             STATE_AUTO_WAN_INTERFACE_ACTIVE, STATE_AUTO_WAN_INTERFACE_DOWN})"

lemma selection_upd:
  assumes "keeps w w'" "sel_view w' = sel_upd inst k S T (sel_view w)"
  shows "status_of j w' = (case T of None \<Rightarrow> status_of j w | Some t \<Rightarrow> if j = k then Some t else status_of j w)"
    and "group_selected g w' = (if g = inst \<and> inst - 1 < total_groups w \<and> snd (sel_view w) (unat (inst - 1)) \<noteq> None
       then (case S of None \<Rightarrow> group_selected g w
             | Some s \<Rightarrow> if s - 1 < total_ifaces w \<and> s \<noteq> 0 then Some (unat (s - 1)) else None)
       else group_selected g w)"
proof -
  obtain f h where v: "sel_view w = (f, h)" by fastforce
  from assms(1) have t: "total_groups w' = total_groups w" "total_ifaces w' = total_ifaces w"
    by (simp_all add: keeps_def)
  show "status_of j w' = (case T of None \<Rightarrow> status_of j w | Some t \<Rightarrow> if j = k then Some t else status_of j w)"
    using assms(2) v by (simp add: status_of_def split: option.split)
  have ne: "unat (g - 1) \<noteq> unat (inst - 1)" if "g \<noteq> inst"
    using that word_unat_eq_iff [of "g - 1" "inst - 1"] by auto
  show "group_selected g w' = (if g = inst \<and> inst - 1 < total_groups w \<and> snd (sel_view w) (unat (inst - 1)) \<noteq> None
       then (case S of None \<Rightarrow> group_selected g w
             | Some s \<Rightarrow> if s - 1 < total_ifaces w \<and> s \<noteq> 0 then Some (unat (s - 1)) else None)
       else group_selected g w)"
    using assms(2) v t ne by (auto simp: group_selected_def split: option.split)
qed

lemma inst_of_valid:
  assumes "valid_idx n i" "i \<noteq> -1"
  shows "inst_of (nat i) - 1 < n" "inst_of (nat i) \<noteq> 0" "unat (inst_of (nat i) - 1) = nat i"
  using idx_uint_in [OF assms] index_bound [of "nat i" n] by simp_all

text \<open>One step of the diagram keeps the promise to the controller.\<close>

lemma diagram_guarantee:
  assumes k: "keeps w w'" and spec: "AW_spec (nat (PC_activeInterfaceIdx c)) st S T st'"
    and view: "sel_view w' = sel_upd (PC_GroupInst c) (nat (PC_activeInterfaceIdx c)) S T (sel_view w)"
    and inv: "AW_inv inst (True, st, c) w" and sel: "AW_sel_ok (True, st, c) w"
  shows "FO_rely w w'"
proof -
  let ?k = "nat (PC_activeInterfaceIdx c)" and ?g = "PC_GroupInst c"
  note upd = selection_upd [OF k view]
  have t: "total_ifaces w' = total_ifaces w" using k by (simp add: keeps_def)
  have T: "T \<noteq> Some WAN_IFACE_ACTIVE" using spec by cases auto
  have sub: "active_set w' \<subseteq> active_set w"
    using T by (auto simp: active_set_status_of upd(1) t split: option.splits if_splits)
  have "group_selected g w' = Some j"
    if j: "j \<in> active_set w'" and g: "group_selected g w = Some j" for j g
  proof (cases "g = ?g \<and> S \<noteq> None")
    case False
    with g show ?thesis by (auto simp: upd(2))
  next
    case True
    from j sub have "status_of j w = Some WAN_IFACE_ACTIVE" by (auto simp: active_set_status_of)
    with sel g True have own: "j = ?k"
      "st \<in> {STATE_AUTO_WAN_INTERFACE_SCANNING, STATE_AUTO_WAN_INTERFACE_RECONFIGURATION,
             STATE_AUTO_WAN_INTERFACE_ACTIVE, STATE_AUTO_WAN_INTERFACE_DOWN}" by (auto simp: AW_sel_ok_def)
    with spec True have "S = Some (inst_of ?k)" by cases auto
    moreover have "PC_activeInterfaceIdx c \<noteq> -1" "valid_idx (total_ifaces w) (PC_activeInterfaceIdx c)"
      using inv own(2) by (auto simp: AW_inv_def)
    ultimately show ?thesis using g own(1) inst_of_valid by (simp add: upd(2))
  qed
  with sub keeps_interference [OF k] show ?thesis by (simp add: FO_rely_def)
qed

lemma diagram_sel_ok:
  assumes k: "keeps w w'" and spec: "AW_spec (nat (PC_activeInterfaceIdx c)) st S T st'"
    and view: "sel_view w' = sel_upd (PC_GroupInst c) (nat (PC_activeInterfaceIdx c)) S T (sel_view w)"
    and inv: "AW_inv inst (True, st, c) w" and sel: "AW_sel_ok (True, st, c) w"
    and succ: "PC_GroupInst c' = PC_GroupInst c"
      "st' \<notin> {STATE_AUTO_WAN_INTERFACE_SELECTING, STATE_AUTO_WAN_ERROR, STATE_AUTO_WAN_SM_EXIT} \<Longrightarrow>
         PC_activeInterfaceIdx c' = PC_activeInterfaceIdx c"
    and lost: "\<not> (st = STATE_AUTO_WAN_INTERFACE_SCANNING \<and> st' = STATE_AUTO_WAN_INTERFACE_WAITING)"
  shows "AW_sel_ok (True, st', c') w'"
proof -
  let ?k = "nat (PC_activeInterfaceIdx c)" and ?g = "PC_GroupInst c"
  note upd = selection_upd [OF k view]
  have kk: "unat (of_nat ?k :: uint) = ?k"
    using inv inst_of_valid(3) [of "total_ifaces w" "PC_activeInterfaceIdx c"]
    by (cases "PC_activeInterfaceIdx c = -1") (auto simp: AW_inv_def)
  have "j = nat (PC_activeInterfaceIdx c') \<and>
       st' \<in> {STATE_AUTO_WAN_INTERFACE_SCANNING, STATE_AUTO_WAN_INTERFACE_RECONFIGURATION,
             STATE_AUTO_WAN_INTERFACE_ACTIVE, STATE_AUTO_WAN_INTERFACE_DOWN}"
    if g: "group_selected ?g w' = Some j" and s: "status_of j w' \<in> {Some WAN_IFACE_SELECTED, Some WAN_IFACE_ACTIVE}" for j
  proof -
    have old: "j = ?k \<and> st \<in> {STATE_AUTO_WAN_INTERFACE_SCANNING, STATE_AUTO_WAN_INTERFACE_RECONFIGURATION,
             STATE_AUTO_WAN_INTERFACE_ACTIVE, STATE_AUTO_WAN_INTERFACE_DOWN}"
      if "group_selected ?g w = Some j" "status_of j w \<in> {Some WAN_IFACE_SELECTED, Some WAN_IFACE_ACTIVE}"
      using sel that by (auto simp: AW_sel_ok_def)
    show ?thesis
      using spec
      by cases (use g s old succ lost in \<open>auto simp: upd kk simp del: unsigned_of_nat split: if_splits\<close>)
  qed
  with succ(1) show ?thesis by (auto simp: AW_sel_ok_def)
qed

text \<open>What a pass gives the controller, with the thread's own invariant.\<close>

lemma auto_pass_promise:
  assumes wf: "wf_db w" and inv: "AW_inv inst (running, st, c) w" and sel: "AW_sel_ok (running, st, c) w"
  shows "\<exists>running' st' c' w'. AW_pass b e (running, st, c) w = Some ((running', st', c'), w') \<and> FO_rely w w' \<and>
    AW_inv inst (running', st', c') w' \<and>
    (AW_sel_ok (running', st', c') w' \<or>
     st = STATE_AUTO_WAN_INTERFACE_SCANNING \<and> st' = STATE_AUTO_WAN_INTERFACE_WAITING)"
proof -
  from AW_pass_refines [OF wf inv, of b e] obtain t' w' where
    p: "AW_pass b e (running, st, c) w = Some (t', w')" "keeps w w'" "AW_inv inst t' w'"
      "AW_refines e (running, st, c) w t' w'" by (auto elim: okE)
  obtain running' st' c' where t': "t' = (running', st', c')" by (cases t')
  have g: "PC_GroupInst c = inst" "PC_GroupInst c' = inst" using inv p(3) t' by (simp_all add: AW_inv_def)
  consider (idle) "\<not> running \<or> \<not> select_ok e" | (stop) "running" "select_ok e" "AW_stops st"
    | (step) "running" "select_ok e" "\<not> AW_stops st" by blast
  then show ?thesis
  proof cases
    case idle
    with p(4) t' have "t' = (running, st, c)" "w' = w" by (auto simp: AW_refines_def)
    moreover have "FO_rely w w" using wf by (simp add: FO_rely_def interference_def)
    ultimately show ?thesis using p(1,3) sel by auto
  next
    case stop
    with p(4) t' have r: "\<not> running'" "sel_view w' = sel_upd inst (nat (PC_activeInterfaceIdx c)) (Some 0) None (sel_view w)"
      by (simp_all add: AW_refines_def g)
    note upd = selection_upd [OF p(2) r(2)]
    have none: "group_selected inst w = Some j \<Longrightarrow> status_of j w \<notin> {Some WAN_IFACE_SELECTED, Some WAN_IFACE_ACTIVE}" for j
      using sel stop(3) g by (auto simp: AW_sel_ok_def AW_stops_def)
    have "active_set w' = active_set w" using p(2) by (simp add: active_set_status_of upd(1) keeps_def)
    with none keeps_interference [OF p(2)] have "FO_rely w w'"
      by (auto simp: FO_rely_def upd(2) active_set_status_of)
    moreover have "AW_sel_ok (running', st', c') w'" using none g by (auto simp: AW_sel_ok_def upd split: if_splits)
    ultimately show ?thesis using p(1,3) t' by auto
  next
    case step
    with p(4) t' obtain S T where r: "running'" "AW_spec (nat (PC_activeInterfaceIdx c)) st S T st'"
      "sel_view w' = sel_upd (PC_GroupInst c) (nat (PC_activeInterfaceIdx c)) S T (sel_view w)"
      by (auto simp: AW_refines_def Let_def)
    have i: "AW_inv inst (True, st, c) w" "AW_sel_ok (True, st, c) w" using inv sel step(1) by simp_all
    have succ: "PC_activeInterfaceIdx c' = PC_activeInterfaceIdx c"
      if "st' \<notin> {STATE_AUTO_WAN_INTERFACE_SELECTING, STATE_AUTO_WAN_ERROR, STATE_AUTO_WAN_SM_EXIT}"
      using p(4) t' step that by (auto simp: AW_refines_def Let_def)
    from diagram_guarantee [OF p(2) r(2,3) i] diagram_sel_ok [OF p(2) r(2,3) i _ succ] g p(1,3) t' r(1)
    show ?thesis by auto
  qed
qed

text \<open>
  C14. The AutoWAN thread keeps the promise the fail-over controller relies on: while the selected
  interface of its group is SELECTED or ACTIVE only if the thread works on it, every pass returns, makes
  no interface ACTIVE, keeps an interface that stays ACTIVE selected for its group, and leaves the same
  situation behind, with one exception: a scan that loses the interface's state machines and goes
  back to waiting.
\<close>

theorem auto_guarantee:
  assumes wf: "wf_db w" and inv: "AW_inv inst (running, st, c) w" and sel: "AW_sel_ok (running, st, c) w"
  shows "\<exists>running' st' c' w'. AW_pass b e (running, st, c) w = Some ((running', st', c'), w') \<and> FO_rely w w' \<and>
    (AW_sel_ok (running', st', c') w' \<or>
     st = STATE_AUTO_WAN_INTERFACE_SCANNING \<and> st' = STATE_AUTO_WAN_INTERFACE_WAITING)"
  using auto_pass_promise [OF assms, of b e] by blast

lemma sample_selected_ifaces: "group_selected 1 sample_world = Some 0" "group_selected 2 sample_world = Some 1"
  by (simp_all add: group_selected_def sel_view_def sample_reads sample_group_def)

lemma sample_sel_ok: "AW_sel_ok (True, STATE_AUTO_WAN_INTERFACE_ACTIVE, sample_policy 0) sample_world"
  by (simp add: AW_sel_ok_def sample_policy_def sample_selected_ifaces)

theorem auto_guarantee_witness:
  "\<exists>running' st' c' w'. AW_pass sample_build sample_env
      (True, STATE_AUTO_WAN_INTERFACE_ACTIVE, sample_policy 0) sample_world = Some ((running', st', c'), w') \<and>
    FO_rely sample_world w' \<and> AW_sel_ok (running', st', c') w'"
proof -
  have "AW_inv 1 (True, STATE_AUTO_WAN_INTERFACE_ACTIVE, sample_policy 0) sample_world"
    by (rule sample_policy_inv) simp_all
  from auto_guarantee [OF wf_sample_world this sample_sel_ok, of sample_build sample_env] show ?thesis by auto
qed

text \<open>
  C15. The exception of the guarantee: an interface that is ACTIVE and selected for its group while the
  policy waits for it is forgotten, not deselected, when the wait ends (here because the interface has
  been disabled): the policy goes on without an interface, and the interface stays ACTIVE and selected.
\<close>

theorem waiting_forgets_active:
  assumes wf: "wf_db w" and inv: "AW_inv inst (True, STATE_AUTO_WAN_INTERFACE_WAITING, c) w" and e: "select_ok e"
    and on: "Cfg_Enable (config w)" "group_at (unat (inst - 1)) w = Some g" "inst - 1 < total_groups w" "\<not> G_ConfigChanged g"
    and k: "PC_activeInterfaceIdx c = int k" "iface_at k w = Some d" "\<not> Sel_Enable (If_Selection d)"
    and active: "k \<in> active_set w" "group_selected inst w = Some k"
  shows "\<exists>c' w'. AW_pass b e (True, STATE_AUTO_WAN_INTERFACE_WAITING, c) w =
      Some ((True, STATE_AUTO_WAN_INTERFACE_SELECTING, c'), w') \<and> PC_activeInterfaceIdx c' = -1 \<and>
    k \<in> active_set w' \<and> group_selected inst w' = Some k"
proof -
  have st: "\<not> AW_stops STATE_AUTO_WAN_INTERFACE_WAITING" and idx: "PC_activeInterfaceIdx c \<noteq> -1"
    using k by (simp_all add: AW_stops_def)
  have ci: "PC_GroupInst c = inst" using inv by (simp add: AW_inv_def)
  obtain c2 where raw: "AW_ready c2 w" "PC_activeInterfaceIdx c2 = PC_activeInterfaceIdx c"
    "PC_GroupInst c2 = inst" "PC_WanEnable c2 = Cfg_Enable (config w)"
    "PC_GroupCfgChanged c2 = PC_GroupCfgChanged (AW_refresh c w)"
    "PC_ResetSelectedInterface c2 = PC_ResetSelectedInterface (AW_refresh c w)"
    and pass: "\<And>st' c' w'. AW_state b e STATE_AUTO_WAN_INTERFACE_WAITING c2 (mlock w) = Some ((st', c'), w') \<Longrightarrow>
       AW_pass b e (True, STATE_AUTO_WAN_INTERFACE_WAITING, c) w = Some ((True, st', c'), pthread_mutex_unlock w')"
    by (rule AW_pass_state [where b = b, OF wf inv e st idx]) (rule that)
  have cfg: "PC_GroupCfgChanged (AW_refresh c w) = G_ConfigChanged g"
    by (rule AW_refresh_group(1)) (simp_all only: ci on(2,3))
  have c2: "PC_activeInterfaceIdx c2 = int k" "PC_WanEnable c2" "\<not> PC_GroupCfgChanged c2"
    by (simp_all only: raw(2,4,5) k(1) cfg on(1,4) not_False_eq_True)
  have p: "PC_pWanActiveIfaceData c2 = Some k" using raw(1) c2(1) by (simp add: AW_ready_def)
  have kn: "k < unat (total_ifaces w)" using active(1) by (simp add: active_set_def)
  obtain x where x: "iface_at k w = Some x" "wf_shape k (iface_shape x)" by (rule wf_db_iface_at [OF wf kn])
  from x(1) k(2) have "x = d" by simp
  with wf_shape_head [OF x(2)] obtain v where v: "head_virtif d = Some v" by blast
  let ?w = "set_VirtIf_Status k WAN_IFACE_STATUS_INVALID (mlock w)"
  have q: "quiet (mlock w) ?w" by (intro quiet_intros) (simp add: wf)
  have kn': "k < unat (total_ifaces ?w)" using q kn by (simp add: quiet_def keeps_def)
  have wf': "wf_db ?w" using q by (simp add: quiet_def keeps_def)
  from sel.SetActiveLink [OF wf', of c2 e False] p kn' obtain r w1 where
    1: "AW_SetActiveLink e c2 False ?w = Some (r, w1)" "keeps ?w w1" "sel_view w1 = sel_view ?w"
    by (auto elim!: okxE simp: same_sel_def)
  have "AW_state b e STATE_AUTO_WAN_INTERFACE_WAITING c2 (mlock w) =
      Some ((STATE_AUTO_WAN_INTERFACE_SELECTING, c2\<lparr>PC_activeInterfaceIdx := -1\<rparr>), w1)"
    using c2 k v p 1 by (simp add: AW_State_WaitForInterface_def AW_Transition_InterfaceInvalid_def)
  note run = pass [OF this]
  let ?u = "pthread_mutex_unlock w1"
  have eqs: "sel_view ?u = sel_view w" "total_ifaces ?u = total_ifaces w" "total_groups ?u = total_groups w"
    using 1(2,3) q by (simp_all add: quiet_def keeps_def)
  have "active_set ?u = active_set w" "group_selected inst ?u = group_selected inst w"
    by (simp_all only: active_set_def group_selected_def eqs)
  with active have "k \<in> active_set ?u" "group_selected inst ?u = Some k" by simp_all
  with run show ?thesis by auto
qed

definition forgotten_world :: world where
  "forgotten_world = upd_iface 0 (upd_Selection (\<lambda>s. s\<lparr>Sel_Enable := False\<rparr>)) (mk_world
     [docsis WAN_IFACE_ACTIVE WAN_IFACE_STATUS_UP, ethwan WAN_IFACE_SELECTED WAN_IFACE_STATUS_STANDBY]
     [sample_group 0 1, sample_group 1 2])"

lemma forgotten_reads:
  "wf_db forgotten_world" "total_ifaces forgotten_world = 2" "total_groups forgotten_world = 2"
  "config forgotten_world = sample_config" "group_at 0 forgotten_world = Some (sample_group 0 1)"
  "iface_at 0 forgotten_world = Some (upd_Selection (\<lambda>s. s\<lparr>Sel_Enable := False\<rparr>) (docsis WAN_IFACE_ACTIVE WAN_IFACE_STATUS_UP))"
proof -
  have "wf_db (mk_world [docsis WAN_IFACE_ACTIVE WAN_IFACE_STATUS_UP, ethwan WAN_IFACE_SELECTED WAN_IFACE_STATUS_STANDBY]
     [sample_group 0 1, sample_group 1 2])"
    by (rule wf_db_mk_world) (auto simp: less_Suc_eq wf_shape_sample docsis_def ethwan_def)
  then show "wf_db forgotten_world" by (simp add: forgotten_world_def wf_db_upd_iface)
qed (simp_all add: forgotten_world_def mk_world_reads)

theorem waiting_forgets_active_witness:
  "\<exists>c' w'. AW_pass sample_build sample_env (True, STATE_AUTO_WAN_INTERFACE_WAITING, sample_policy 0) forgotten_world =
      Some ((True, STATE_AUTO_WAN_INTERFACE_SELECTING, c'), w') \<and> PC_activeInterfaceIdx c' = -1 \<and>
    0 \<in> active_set w' \<and> group_selected 1 w' = Some 0"
proof -
  have inv: "AW_inv 1 (True, STATE_AUTO_WAN_INTERFACE_WAITING, sample_policy 0) forgotten_world"
    by (simp add: AW_inv_def sample_policy_def valid_idx_def forgotten_reads)
  have sel: "select_ok sample_env" by (simp add: sample_env_def)
  have g: "group_at (unat (1 - 1 :: uint)) forgotten_world = Some (sample_group 0 1)" "(1 :: uint) - 1 < total_groups forgotten_world"
    "\<not> G_ConfigChanged (sample_group 0 1)" "Cfg_Enable (config forgotten_world)"
    by (simp_all add: forgotten_reads sample_group_def sample_config_def)
  have k: "PC_activeInterfaceIdx (sample_policy 0) = int 0" by (simp add: sample_policy_def)
  have a: "0 \<in> active_set forgotten_world" "group_selected 1 forgotten_world = Some 0"
    by (simp_all add: active_set_def group_selected_def sel_view_def forgotten_reads sample_group_def docsis_def
        sample_iface_reads)
  have d: "\<not> Sel_Enable (If_Selection (upd_Selection (\<lambda>s. s\<lparr>Sel_Enable := False\<rparr>) (docsis WAN_IFACE_ACTIVE WAN_IFACE_STATUS_UP)))"
    by simp
  show ?thesis
    by (rule waiting_forgets_active [OF forgotten_reads(1) inv sel g(4,1,2,3) k forgotten_reads(6) d a])
qed

subsection \<open>The end of the thread\<close>

lemma machine_running_set_status [simp]: "machine_running k (set_status j st w) = machine_running k w"
  by (auto simp: machine_running_def set_status_def option.map_comp split: option.split)

text \<open>The number of passes a thread has left once WAN is disabled and its machines have stopped.\<close>

fun AW_rank :: "WcAwPolicyState_t \<Rightarrow> nat" where
  "AW_rank STATE_AUTO_WAN_INTERFACE_RECONFIGURATION = 5"
| "AW_rank STATE_AUTO_WAN_INTERFACE_SCANNING = 4"
| "AW_rank STATE_AUTO_WAN_INTERFACE_ACTIVE = 4"
| "AW_rank STATE_AUTO_WAN_INTERFACE_DOWN = 4"
| "AW_rank STATE_AUTO_WAN_INTERFACE_TEARDOWN = 3"
| "AW_rank STATE_AUTO_WAN_SM_EXIT = 1"
| "AW_rank STATE_AUTO_WAN_ERROR = 1"
| "AW_rank _ = 2"

definition AW_left :: "AW_thread \<Rightarrow> nat" where
  "AW_left t = (if fst t then AW_rank (fst (snd t)) else 0)"

definition AW_calm :: "env \<Rightarrow> world \<Rightarrow> bool" where
  "AW_calm e w \<longleftrightarrow> select_ok e \<and> \<not> Cfg_Enable (config w) \<and> (\<forall>k. \<not> machine_running k w)"

lemma AW_state_rank:
  assumes wf: "wf_db w" and off: "\<not> PC_WanEnable c" "\<And>k. \<not> machine_running k w" and st: "\<not> AW_stops st"
    and ptr: "st \<noteq> STATE_AUTO_WAN_INTERFACE_SELECTING \<Longrightarrow> PC_pWanActiveIfaceData c \<noteq> None"
    and run: "AW_state b e st c w = Some ((st', c'), w')" and spec: "AW_spec k st S T st'"
  shows "AW_rank st' < AW_rank st"
proof (cases st)
  case STATE_AUTO_WAN_INTERFACE_RECONFIGURATION
  with spec show ?thesis by (auto elim: AW_spec.cases)
next
  case STATE_AUTO_WAN_TEARING_DOWN
  with run wf st ptr show ?thesis
    by (auto simp: AW_State_WaitingForInterfaceSMExit_def Get_ISM_RunningStatus_eq off(2) split: Option.bind_splits option.splits)
next
  case STATE_AUTO_WAN_INTERFACE_TEARDOWN
  with run wf off st show ?thesis
    by (auto simp: AW_State_WaitingForIfaceTearDown_def Get_ISM_RunningStatus_eq split: if_splits)
qed (use run off st wf in \<open>auto simp: AW_State_SelectingInterface_def AW_State_WaitForInterface_def AW_State_ScanningInterface_def
    AW_State_WaitingForIfaceTearDown_def AW_State_RebootingPlatform_def AW_Transition_RebootDevice_def AW_State_WanInterfaceActive_def
    AW_State_WanInterfaceDown_def AW_Transition_InterfaceDeselect_def AW_Transition_ResetSelectedInterface_def AW_stops_def
    Get_ISM_RunningStatus_eq split: option.splits Option.bind_splits\<close>)

lemma AW_pass_calm:
  assumes wf: "wf_db w" and inv: "AW_inv inst t w" and calm: "AW_calm e w"
  shows "\<exists>t' w'. AW_pass b e t w = Some (t', w') \<and> AW_left t' \<le> AW_left t - 1"
proof -
  obtain running st c where t: "t = (running, st, c)" by (cases t)
  have e: "select_ok e" and off: "\<not> Cfg_Enable (config w)" "\<And>k. \<not> machine_running k w"
    using calm by (simp_all add: AW_calm_def)
  consider (left) "\<not> running" | (stop) "running" "AW_stops st" | (step) "running" "\<not> AW_stops st" by blast
  then show ?thesis
  proof cases
    case left
    then show ?thesis by (simp add: t AW_left_def)
  next
    case stop
    from AW_pass_refines [OF wf inv [unfolded t], of b e] obtain t' w' where
      "AW_pass b e t w = Some (t', w')" "AW_refines e t w t' w'" by (auto simp: t elim: okE)
    moreover from this(2) have "AW_left t' = 0"
      using stop e by (cases t') (simp add: AW_refines_def t AW_left_def)
    ultimately show ?thesis by auto
  next
    case step
    from inv t have g: "PC_GroupInst (AW_refresh c w) \<noteq> 0"
      and v: "valid_idx (total_ifaces w) (PC_activeInterfaceIdx (AW_refresh c w))"
      and i: "st \<notin> {STATE_AUTO_WAN_INTERFACE_SELECTING, STATE_AUTO_WAN_ERROR, STATE_AUTO_WAN_SM_EXIT} \<Longrightarrow>
        PC_activeInterfaceIdx c \<noteq> -1" by (auto simp: AW_inv_def)
    define w2 where "w2 = (if PC_activeInterfaceIdx c = -1 then w else mlock w)"
    from take_iface [OF wf v _ g] obtain c2 where c2: "AW_take_iface (AW_refresh c w) w = Some (c2, w2)"
      "AW_ready c2 w" "PC_activeInterfaceIdx c2 = PC_activeInterfaceIdx c" "PC_WanEnable c2 = Cfg_Enable (config w)"
      by (auto simp: w2_def)
    have w2: "wf_db w2" "AW_ready c2 w2" "\<And>k. \<not> machine_running k w2"
      using wf off(2) AW_ready_total [OF c2(2)] by (simp_all add: w2_def)
    have ptr: "PC_pWanActiveIfaceData c2 \<noteq> None" if "st \<noteq> STATE_AUTO_WAN_INTERFACE_SELECTING"
      using i step(2) that c2(2,3) by (auto simp: AW_ready_def AW_stops_def)
    have "ok w2 (AW_state b e st c2 w2) (AW_post c2 st w2)"
      by (rule AW_state_post [OF w2(1,2)]) (simp add: i c2(3))
    then obtain q w3 where q: "AW_state b e st c2 w2 = Some (q, w3)" "AW_post c2 st w2 q w3" by (rule okE)
    obtain st' c' where q': "q = (st', c')" by (cases q)
    from q(2) obtain S T where "AW_spec (nat (PC_activeInterfaceIdx c2)) st S T st'"
      by (auto simp: AW_post_def q')
    note 3 = q(1) [unfolded q'] this
    have "AW_rank st' < AW_rank st"
      by (rule AW_state_rank [OF w2(1) _ w2(3) step(2) ptr 3]) (use c2(4) off in simp_all)
    moreover obtain w' where "AW_pass b e t w = Some ((True, st', c'), w')"
      using step e 3(1) c2(1) by (simp add: t UpdateControllerData_eq [OF wf] Let_def)
    ultimately show ?thesis using step(1) by (auto simp: AW_left_def t)
  qed
qed

text \<open>
  C16. Disabling WAN stops the selection thread: once WAN is disabled and the interface state machines
  have ended, the thread has left its loop after at most five passes, from whatever state it was in and
  whatever the other threads do meanwhile.
\<close>

theorem disabled_policy_stops:
  assumes wf: "wf_db w" and inv: "AW_inv inst t w" and len: "5 \<le> length script"
    and others: "\<And>others e u. (others, e) \<in> set script \<Longrightarrow> wf_db u \<Longrightarrow>
      interference u (others u) \<and> AW_calm e (others u)"
  shows "\<exists>st c w'. run_thread (AW_pass b) script t w = Some ((False, st, c), w') \<and>
    wf_db w' \<and> mutex w' = mutex w"
proof -
  have rank: "AW_rank st \<le> 5" "0 < AW_rank st" for st by (cases st; simp)+
  have left: "AW_left t \<le> 5" by (simp add: AW_left_def rank)
  have "\<exists>t' w'. run_thread (AW_pass b) script t w = Some (t', w') \<and> wf_db w' \<and> AW_inv inst t' w' \<and>
      mutex w' = mutex w \<and> AW_left t' \<le> AW_left t - length script"
    by (rule aw.run_rank [where calm = AW_calm, OF AW_pass_calm wf inv]) (use others in blast)+
  then obtain t' w' where r: "run_thread (AW_pass b) script t w = Some (t', w')" "wf_db w'" "mutex w' = mutex w"
    "AW_left t' \<le> AW_left t - length script" by blast
  with left len have l: "AW_left t' = 0" by simp
  obtain running st c where t': "t' = (running, st, c)" by (cases t')
  with l rank(2) [of st] have "\<not> running" by (simp add: AW_left_def split: if_splits)
  with r t' show ?thesis by auto
qed

text \<open>What the other threads do in the witness: WAN is disabled and every state machine ends.\<close>

definition machine_stopped :: "DML_WAN_IFACE \<Rightarrow> DML_WAN_IFACE" where
  "machine_stopped i = i\<lparr>If_VirtIfList := map (\<lambda>v. v\<lparr>VI_Interface_SM_Running := False\<rparr>) (If_VirtIfList i)\<rparr>"

definition stop_machines :: "world \<Rightarrow> world" where
  "stop_machines w = upd_config (\<lambda>d. d\<lparr>Cfg_Enable := False\<rparr>) (upd_db (\<lambda>d. d
     \<lparr>IfaceCtrl := (IfaceCtrl d)\<lparr>IC_pIface := map_option (map machine_stopped) (IC_pIface (IfaceCtrl d))\<rparr>\<rparr>) w)"

lemma stop_machines_ok:
  assumes wf: "wf_db u"
  shows "interference u (stop_machines u)" "\<not> Cfg_Enable (config (stop_machines u))"
    "\<not> machine_running k (stop_machines u)"
proof -
  have shape: "iface_shape \<circ> machine_stopped = iface_shape"
    by (auto simp: fun_eq_iff iface_shape_def machine_stopped_def)
  have reads: "total_ifaces (stop_machines u) = total_ifaces u" "total_groups (stop_machines u) = total_groups u"
    "mutex (stop_machines u) = mutex u" "Groups (stop_machines u) = Groups u"
    "pIface (stop_machines u) = map_option (map machine_stopped) (pIface u)"
    "iface_at k (stop_machines u) = map_option machine_stopped (iface_at k u)" for k
    by (auto simp: stop_machines_def upd_config_def upd_db_def iface_at_def nth_opt_def split: Option.bind_split)
  show "interference u (stop_machines u)"
    using wf shape by (auto simp: interference_def wf_db_def reads split: option.splits)
  show "\<not> Cfg_Enable (config (stop_machines u))" by (simp add: stop_machines_def upd_config_def upd_db_def)
  show "\<not> machine_running k (stop_machines u)"
    by (auto simp: machine_running_def reads machine_stopped_def split: option.splits)
qed

theorem disabled_policy_stops_witness:
  "\<exists>st c w'. run_thread (AW_pass sample_build) (replicate 5 (stop_machines, sample_env))
      (True, STATE_AUTO_WAN_INTERFACE_ACTIVE, sample_policy 0) sample_world = Some ((False, st, c), w')"
proof -
  have inv: "AW_inv 1 (True, STATE_AUTO_WAN_INTERFACE_ACTIVE, sample_policy 0) sample_world"
    by (rule sample_policy_inv) simp_all
  have o: "interference u (others u) \<and> AW_calm e (others u)"
    if "(others, e) \<in> set (replicate 5 (stop_machines, sample_env))" "wf_db u" for others e u
    using that stop_machines_ok [of u] by (auto simp: sample_env_def AW_calm_def)
  have len: "5 \<le> length (replicate 5 (stop_machines, sample_env))" by simp
  show ?thesis
    using disabled_policy_stops [where script = "replicate 5 (stop_machines, sample_env)" and
        b = sample_build, OF wf_sample_world inv len] o by blast
qed

end
