(* ===== verification/WanAutoChoice.thy ===== *)
theory WanAutoChoice
  imports WanAutoProps
begin

text \<open>
  What the AutoWAN policy chooses and what it leaves behind: the interface it tries next is the first of
  the best candidates of its group, an interface it has marked is found again after a restart, and a
  thread that ends gives its group back.
\<close>

subsection \<open>The first minimum\<close>

text \<open>The first element of a list whose key is least.\<close>

definition first_min :: "('a \<Rightarrow> int) \<Rightarrow> 'a list \<Rightarrow> 'a option" where
  "first_min p xs = find (\<lambda>x. \<forall>y \<in> set xs. p x \<le> p y) xs"

lemma first_min_Nil [simp]: "first_min p [] = None"
  by (simp add: first_min_def)

lemma first_min_split:
  assumes "\<And>u. u \<in> set us \<Longrightarrow> p x < p u" "\<And>v. v \<in> set vs \<Longrightarrow> p x \<le> p v"
  shows "first_min p (us @ x # vs) = Some x"
proof -
  have l: "\<And>y. y \<in> set (us @ x # vs) \<Longrightarrow> p x \<le> p y" using assms by fastforce
  have u: "find P (us @ x # vs) = Some x" if "P x" "\<And>u. u \<in> set us \<Longrightarrow> \<not> P u" for P
    using that by (induction us) auto
  show ?thesis
    unfolding first_min_def
  proof (rule u)
    show "\<forall>y \<in> set (us @ x # vs). p x \<le> p y" using l by blast
    show "\<not> (\<forall>y \<in> set (us @ x # vs). p u \<le> p y)" if "u \<in> set us" for u
      using assms(1) [OF that] by auto
  qed
qed

lemma first_min_obtain:
  assumes "first_min p xs = Some x"
  obtains us vs where "xs = us @ x # vs" "\<And>u. u \<in> set us \<Longrightarrow> p x < p u" "\<And>v. v \<in> set vs \<Longrightarrow> p x \<le> p v"
proof -
  from assms obtain i where i: "i < length xs" "\<forall>y \<in> set xs. p x \<le> p y" "x = xs ! i"
    "\<forall>j < i. \<not> (\<forall>y \<in> set xs. p (xs ! j) \<le> p y)"
    by (auto simp: first_min_def find_Some_iff)
  have "xs = take i xs @ x # drop (Suc i) xs" using i by (simp add: id_take_nth_drop)
  moreover have "p x < p u" if "u \<in> set (take i xs)" for u
  proof -
    from that i(1) obtain j where "j < i" "u = xs ! j" by (auto simp: in_set_conv_nth)
    with i(2,4) show ?thesis by (metis order_trans not_le)
  qed
  moreover have "p x \<le> p v" if "v \<in> set (drop (Suc i) xs)" for v
    using i(2) that by (meson in_set_dropD)
  ultimately show thesis by (rule that)
qed

lemma first_min_None: "first_min p xs = None \<longleftrightarrow> xs = []"
proof
  show "xs = []" if "first_min p xs = None"
  proof (rule ccontr)
    assume "xs \<noteq> []"
    then have f: "finite (p ` set xs)" "p ` set xs \<noteq> {}" by simp_all
    from Min_in [OF this] obtain x where x: "x \<in> set xs" "p x = Min (p ` set xs)" by auto
    with f have "\<forall>y \<in> set xs. p x \<le> p y" by simp
    with x(1) that show False by (auto simp: first_min_def find_None_iff)
  qed
qed simp

lemma first_min_snoc:
  "first_min p (xs @ [y]) = (case first_min p xs of None \<Rightarrow> Some y | Some x \<Rightarrow> Some (if p y < p x then y else x))"
proof (cases "first_min p xs")
  case None
  then have "xs = []" by (simp add: first_min_None)
  with first_min_split [of "[]" p y "[]"] show ?thesis by simp
next
  case (Some x)
  then obtain us vs where s: "xs = us @ x # vs" "\<And>u. u \<in> set us \<Longrightarrow> p x < p u" "\<And>v. v \<in> set vs \<Longrightarrow> p x \<le> p v"
    by (rule first_min_obtain) (rule that)
  show ?thesis
  proof (cases "p y < p x")
    case True
    with s have "\<And>u. u \<in> set xs \<Longrightarrow> p y < p u" by fastforce
    with first_min_split [of xs p y "[]"] Some True show ?thesis by simp
  next
    case False
    with s have "\<And>v. v \<in> set (vs @ [y]) \<Longrightarrow> p x \<le> p v" by auto
    with first_min_split [of us p x "vs @ [y]"] Some False s show ?thesis by simp
  qed
qed

text \<open>Keeping the best so far, starting from a bound that no accepted key reaches, finds the first minimum.\<close>

lemma fold_first_min:
  "fold (\<lambda>i s. if P i \<and> p i < snd s then (f i, p i) else s) xs (a, m) =
    (case first_min p (filter (\<lambda>i. P i \<and> p i < m) xs) of None \<Rightarrow> (a, m) | Some i \<Rightarrow> (f i, p i))"
proof (induction xs rule: rev_induct)
  case (snoc x xs)
  let ?ys = "filter (\<lambda>i. P i \<and> p i < m) xs"
  show ?case
  proof (cases "first_min p ?ys")
    case None
    with snoc show ?thesis by (simp add: first_min_snoc)
  next
    case (Some y)
    then obtain us vs where "?ys = us @ y # vs" by (rule first_min_obtain)
    then have "y \<in> set ?ys" by simp
    then have "p y < m" by simp
    with snoc Some show ?thesis by (auto simp: first_min_snoc)
  qed
qed simp

lemma for_loop_break:
  assumes "\<And>i. i \<in> set us \<Longrightarrow> body i s w = Some (Continue s, w)" "body x s w = Some (Break t, w')"
  shows "for_loop (us @ x # vs) body s w = Some (t, w')"
  using assms by (induction us) (simp_all add: for_loop_Cons)

subsection \<open>The interface to try next\<close>

text \<open>The candidates of a group, and their priorities, as the tables have them.\<close>

definition candidate_at :: "policy_ctrl \<Rightarrow> world \<Rightarrow> nat \<Rightarrow> bool" where
  "candidate_at c w i = (case Option.bind (iface_at i w) (\<lambda>d. map_option (Pair d) (head_virtif d)) of
     None \<Rightarrow> False | Some (d, v) \<Rightarrow> AW_candidate c d v)"

definition priority_at :: "world \<Rightarrow> nat \<Rightarrow> int" where
  "priority_at w i = (case iface_at i w of None \<Rightarrow> DML_WAN_IFACE_PRIORITY_MAX | Some d \<Rightarrow> Sel_Priority (If_Selection d))"

definition best_candidate :: "policy_ctrl \<Rightarrow> world \<Rightarrow> nat option" where
  "best_candidate c w = first_min (priority_at w)
     (filter (\<lambda>i. candidate_at c w i \<and> priority_at w i < DML_WAN_IFACE_PRIORITY_MAX) [0..<unat (total_ifaces w)])"

text \<open>
  C17. \<open>WanMgr_Policy_Auto_GetHighPriorityIface\<close> computes the first of the candidates of least priority
  number below \<open>DML_WAN_IFACE_PRIORITY_MAX\<close> (on platforms without the XB6 exception for the last link): it
  selects that interface, or keeps the index it had when there is no candidate, and changes nothing else.
\<close>

theorem high_priority_is_best:
  assumes wf: "wf_db w" and n: "PC_TotalIfaces c = total_ifaces w" and on: "PC_WanEnable c" and b: "\<not> XB6_PRODUCT b"
  shows "AW_GetHighPriorityIface b c w = Some (case best_candidate c w of None \<Rightarrow> c
    | Some i \<Rightarrow> c\<lparr>PC_activeInterfaceIdx := int i\<rparr>, w)"
proof (cases "PC_TotalIfaces c = 0")
  case True
  with n show ?thesis by (simp add: AW_GetHighPriorityIface_def best_candidate_def)
next
  case False
  let ?step = "\<lambda>i s. if candidate_at c w i \<and> priority_at w i < snd s then (int i, priority_at w i) else s"
  have "for_loop [0..<unat (total_ifaces w)] (\<lambda>i s w. continue
          (with_iface (of_nat i) s (\<lambda>k w. do {
             d \<leftarrow> iface_at k w;
             v \<leftarrow> head_virtif d;
             Some (if AW_candidate c d v \<and>
                      (Sel_Priority (If_Selection d) < snd s \<or>
                       (XB6_PRODUCT b \<and> isLastActiveLinkFromSysCfg d w))
                   then (int i, Sel_Priority (If_Selection d)) else s, w)
           }) w)) s w = Some (fold ?step [0..<unat (total_ifaces w)] s, w)" for s
  proof (rule for_loop_fold)
    fix i s
    assume "i \<in> set [0..<unat (total_ifaces w)]"
    then have i: "i < unat (total_ifaces w)" by simp
    from wf_db_iface_at [OF wf i] obtain d where d: "iface_at i w = Some d" "wf_shape i (iface_shape d)" .
    from wf_shape_head [OF d(2)] obtain v where v: "head_virtif d = Some v" ..
    show "continue (with_iface (of_nat i) s (\<lambda>k w. do {
             d \<leftarrow> iface_at k w;
             v \<leftarrow> head_virtif d;
             Some (if AW_candidate c d v \<and>
                      (Sel_Priority (If_Selection d) < snd s \<or>
                       (XB6_PRODUCT b \<and> isLastActiveLinkFromSysCfg d w))
                   then (int i, Sel_Priority (If_Selection d)) else s, w)
           }) w) = Some (Continue (?step i s), w)"
      using i b by (simp add: with_wf(2) [OF wf] index_bound d(1) v candidate_at_def priority_at_def continue_def)
  qed
  with False n on show ?thesis
    by (simp add: AW_GetHighPriorityIface_def fold_first_min best_candidate_def split: option.split)
qed

text \<open>In the witness three interfaces of the group have the priorities 5, 2 and 2.\<close>

definition choice_world :: world where
  "choice_world = mk_world
     [sample_iface 0 ''Device.Ethernet.Interface.1'' 1 5 WAN_IFACE_NOT_SELECTED WAN_IFACE_STATUS_DISABLED,
      sample_iface 1 ''Device.Ethernet.Interface.2'' 1 2 WAN_IFACE_NOT_SELECTED WAN_IFACE_STATUS_DISABLED,
      sample_iface 2 ''Device.X_RDK_CableModem'' 1 2 WAN_IFACE_NOT_SELECTED WAN_IFACE_STATUS_DISABLED]
     [sample_group 0 0]"

lemma wf_choice_world: "wf_db choice_world" "total_ifaces choice_world = 3"
proof -
  show "wf_db choice_world"
    unfolding choice_world_def
  proof (rule wf_db_mk_world)
    fix k :: nat
    assume "k < length [sample_iface 0 ''Device.Ethernet.Interface.1'' 1 5 WAN_IFACE_NOT_SELECTED WAN_IFACE_STATUS_DISABLED,
      sample_iface 1 ''Device.Ethernet.Interface.2'' 1 2 WAN_IFACE_NOT_SELECTED WAN_IFACE_STATUS_DISABLED,
      sample_iface 2 ''Device.X_RDK_CableModem'' 1 2 WAN_IFACE_NOT_SELECTED WAN_IFACE_STATUS_DISABLED]"
    then consider "k = 0" | "k = 1" | "k = 2" by fastforce
    then show "wf_shape k (iface_shape ([sample_iface 0 ''Device.Ethernet.Interface.1'' 1 5 WAN_IFACE_NOT_SELECTED WAN_IFACE_STATUS_DISABLED,
      sample_iface 1 ''Device.Ethernet.Interface.2'' 1 2 WAN_IFACE_NOT_SELECTED WAN_IFACE_STATUS_DISABLED,
      sample_iface 2 ''Device.X_RDK_CableModem'' 1 2 WAN_IFACE_NOT_SELECTED WAN_IFACE_STATUS_DISABLED] ! k))"
      by cases (simp_all add: wf_shape_sample)
  qed simp_all
qed (simp add: choice_world_def mk_world_reads)

theorem high_priority_is_best_witness:
  "AW_GetHighPriorityIface sample_build ((sample_policy (-1))\<lparr>PC_TotalIfaces := 3\<rparr>) choice_world =
     Some ((sample_policy 1)\<lparr>PC_TotalIfaces := 3\<rparr>, choice_world)"
proof -
  let ?c = "(sample_policy (-1))\<lparr>PC_TotalIfaces := 3\<rparr>"
  have "candidate_at ?c choice_world i" if "i < 3" for i
    using that by (auto simp: less_Suc_eq numeral_3_eq_3 candidate_at_def choice_world_def mk_world_reads sample_iface_reads
        AW_candidate_def sample_policy_def) (simp_all add: sample_iface_def)
  then have c: "filter (\<lambda>i. candidate_at ?c choice_world i \<and> priority_at choice_world i < DML_WAN_IFACE_PRIORITY_MAX) [0, 1, 2] =
      filter (\<lambda>i. priority_at choice_world i < DML_WAN_IFACE_PRIORITY_MAX) [0, 1, 2]"
    by simp
  have p: "priority_at choice_world 0 = 5" "priority_at choice_world 1 = 2" "priority_at choice_world 2 = 2"
    by (simp_all add: priority_at_def choice_world_def mk_world_reads sample_iface_def)
  have "unat (total_ifaces choice_world) = 3" "[0..<3] = [0, 1, 2 :: nat]"
    by (simp_all add: wf_choice_world upt_rec)
  with c p have best: "best_candidate ?c choice_world = Some 1"
    by (simp add: best_candidate_def first_min_def)
  show ?thesis
    using high_priority_is_best [of choice_world ?c sample_build] wf_choice_world best
    by (simp add: sample_policy_def sample_build_def)
qed

subsection \<open>The interface marked for the next start\<close>

text \<open>
  C18. The selection survives a restart of the thread: the interface that \<open>WanMgr_SetActiveLink\<close> marks, when
  it is enabled and no other interface of the group is marked, is the one that
  \<open>WanMgr_Policy_Auto_GetPrevSelectedInterface\<close> finds for a new thread of the same group, which reads the
  tables and changes nothing.
\<close>

theorem marked_interface_found_again:
  assumes wf: "wf_db w" and k: "PC_pWanActiveIfaceData c = Some k" "PC_activeInterfaceIdx c = int k" "k < unat (total_ifaces w)"
    and d: "iface_at k w = Some d" "Sel_Group (If_Selection d) = PC_GroupInst c" "Sel_Enable (If_Selection d)"
    and unique: "\<And>j x. \<lbrakk>j \<noteq> k; iface_at j w = Some x; Sel_Group (If_Selection x) = PC_GroupInst c\<rbrakk> \<Longrightarrow>
      \<not> Sel_ActiveLink (If_Selection x)"
    and c': "PC_GroupInst c' = PC_GroupInst c" "PC_TotalIfaces c' = total_ifaces w"
  shows "\<exists>w'. AW_SetActiveLink e c True w = Some (ANSC_STATUS_SUCCESS, w') \<and> wf_db w' \<and>
    AW_GetPrevSelectedInterface e c' w' = Some (int k, w')"
proof -
  define w' where "w' = (if Sel_ActiveLink (If_Selection d) then w else
    snd (DmlSetWanActiveLinkInPSMDB e (idx_uint (int k)) True (set_ActiveLink k True w)))"
  have link: "gWanMgrDataBase (snd (DmlSetWanActiveLinkInPSMDB e i v u)) = gWanMgrDataBase u" for i v u
    by (rule bus_frame)
  note reads = same_db_reads [OF link]
  have q: "quiet w w'" using wf by (auto simp: w'_def intro: quiet_intros)
  then have wf': "wf_db w'" and n: "total_ifaces w' = total_ifaces w" by (simp_all add: quiet_def keeps_def)
  obtain d' where d': "iface_at k w' = Some d'" "Sel_Group (If_Selection d') = PC_GroupInst c"
    "Sel_Enable (If_Selection d')" "Sel_ActiveLink (If_Selection d')"
    using d by (cases "Sel_ActiveLink (If_Selection d)") (simp_all add: w'_def set_ActiveLink_def reads)
  have other: "iface_at j w' = iface_at j w" if "j \<noteq> k" for j
    using that by (simp add: w'_def set_ActiveLink_def reads)
  let ?body = "\<lambda>i r. with_iface (of_nat i) (Continue r) (\<lambda>k w. do {
          d \<leftarrow> iface_at k w;
          Some (if PC_GroupInst c' = Sel_Group (If_Selection d) \<and> Sel_ActiveLink (If_Selection d)
                then if \<not> Sel_Enable (If_Selection d)
                     then (Break (-1), set_ActiveLink k False (snd (DmlSetWanActiveLinkInPSMDB e (of_nat i) False w)))
                     else (Break (int i), w)
                else (Continue r, w))
        })"
  have idx: "of_nat j < total_ifaces w'" "unat (of_nat j :: uint) = j" if "j < unat (total_ifaces w)" for j
    using index_bound [OF that] n by simp_all
  have before: "?body j r w' = Some (Continue r, w')" if "j < k" for j r
  proof -
    have j: "j < unat (total_ifaces w)" "j \<noteq> k" using that k(3) by simp_all
    from wf_db_iface_at [OF wf j(1)] obtain x where x: "iface_at j w = Some x" .
    show ?thesis
      using unique [OF j(2) x] x other [OF j(2)] idx [OF j(1)] c'
      by (auto simp: with_wf(2) [OF wf'])
  qed
  have at: "?body k r w' = Some (Break (int k), w')" for r
    using d' idx [OF k(3)] c' by (simp add: with_wf(2) [OF wf'])
  have split: "[0..<unat (total_ifaces w)] = [0..<k] @ k # [Suc k..<unat (total_ifaces w)]"
    using k(3) by (metis bot_nat_0.extremum less_imp_le_nat le_Suc_ex upt_add_eq_append upt_conv_Cons)
  have "for_loop [0..<unat (total_ifaces w)] ?body (-1) w' = Some (int k, w')"
    unfolding split by (rule for_loop_break [where body = ?body, OF before at]) simp
  moreover have "total_ifaces w \<noteq> 0" using k(3) by auto
  ultimately have "AW_GetPrevSelectedInterface e c' w' = Some (int k, w')"
    using c' by (simp add: AW_GetPrevSelectedInterface_def)
  moreover have "AW_SetActiveLink e c True w = Some (ANSC_STATUS_SUCCESS, w')"
    using k d by (simp add: AW_SetActiveLink_def w'_def)
  ultimately show ?thesis using wf' by blast
qed

theorem marked_interface_found_again_witness:
  "\<exists>w'. AW_SetActiveLink sample_env ((sample_policy 0)\<lparr>PC_pWanActiveIfaceData := Some 0\<rparr>) True sample_world =
      Some (ANSC_STATUS_SUCCESS, w') \<and> AW_GetPrevSelectedInterface sample_env (sample_policy (-1)) w' = Some (0, w')"
proof -
  let ?c = "(sample_policy 0)\<lparr>PC_pWanActiveIfaceData := Some 0\<rparr>"
  have c: "PC_pWanActiveIfaceData ?c = Some 0" "PC_activeInterfaceIdx ?c = int 0" "0 < unat (total_ifaces sample_world)"
    by (simp_all add: sample_policy_def sample_reads)
  have d: "Sel_Group (If_Selection (docsis WAN_IFACE_SELECTED WAN_IFACE_STATUS_STANDBY)) = PC_GroupInst ?c"
    "Sel_Enable (If_Selection (docsis WAN_IFACE_SELECTED WAN_IFACE_STATUS_STANDBY))"
    by (simp_all add: docsis_def sample_policy_def sample_iface_def)
  have u: "\<not> Sel_ActiveLink (If_Selection x)"
    if "j \<noteq> 0" "iface_at j sample_world = Some x" "Sel_Group (If_Selection x) = PC_GroupInst ?c" for j x
    using that by (auto simp: sample_world_def mk_world_reads nth_append nth_Cons' docsis_def ethwan_def
        sample_iface_def blank_iface_def sample_policy_def split: if_splits)
  have c': "PC_GroupInst (sample_policy (-1)) = PC_GroupInst ?c" "PC_TotalIfaces (sample_policy (-1)) = total_ifaces sample_world"
    by (simp_all add: sample_policy_def sample_reads)
  have "\<exists>w'. AW_SetActiveLink sample_env ?c True sample_world = Some (ANSC_STATUS_SUCCESS, w') \<and> wf_db w' \<and>
      AW_GetPrevSelectedInterface sample_env (sample_policy (-1)) w' = Some (int 0, w')"
    by (rule marked_interface_found_again [OF wf_sample_world c sample_reads(3) d _ c']) (rule u)
  then show ?thesis by auto
qed

subsection \<open>The end of the thread\<close>

text \<open>
  The pass that finds the machine in a final state (regular exit or error) gives the group back: the
  thread has left its loop, the group has no thread, no selected interface and no pending configuration
  change, it is STOPPED unless it has been DEACTIVATED, a pending change asks the fail-over controller to
  scan again, and nothing else of the data base changes.
\<close>

theorem policy_exit:
  assumes wf: "wf_db w" and inv: "AW_inv inst (True, st, c) w" and e: "select_ok e" and st: "AW_stops st"
    and g: "inst - 1 < total_groups w" "group_at (unat (inst - 1)) w = Some g"
  shows "\<exists>c' w'. AW_pass b e (True, st, c) w = Some ((False, st, c'), w') \<and> wf_db w' \<and> mutex w' = mutex w \<and>
    (\<forall>k. group_at k w' = (if k = unat (inst - 1)
       then Some (g\<lparr>G_ThreadId := 0, G_SelectedInterface := 0, G_ConfigChanged := False,
              G_State := (if G_State g = STATE_GROUP_DEACTIVATED then STATE_GROUP_DEACTIVATED else STATE_GROUP_STOPPED)\<rparr>)
       else group_at k w)) \<and>
    config w' = (if G_ConfigChanged g then (config w)\<lparr>Cfg_ResetFailOverScan := True\<rparr> else config w) \<and>
    (\<forall>k. iface_at k w' = iface_at k w)"
proof -
  from inv have ci: "PC_GroupInst (AW_refresh c w) = inst" and i0: "PC_GroupInst (AW_refresh c w) \<noteq> 0"
    and v: "valid_idx (total_ifaces w) (PC_activeInterfaceIdx (AW_refresh c w))"
    by (simp_all add: AW_inv_def)
  have gc: "PC_GroupCfgChanged (AW_refresh c w) = G_ConfigChanged g"
    by (rule AW_refresh_group(1)) (use g ci in simp_all)
  from take_iface [OF wf v _ i0] obtain c2 where c2:
    "AW_take_iface (AW_refresh c w) w = Some (c2, if PC_activeInterfaceIdx c = -1 then w else mlock w)"
    "AW_ready c2 w" "PC_activeInterfaceIdx c2 = PC_activeInterfaceIdx c" "PC_GroupInst c2 = inst"
    "PC_GroupCfgChanged c2 = G_ConfigChanged g" using ci gc by auto
  define w1 where "w1 = (if PC_activeInterfaceIdx c = -1 then w else pthread_mutex_unlock (mlock w))"
  have w1: "wf_db w1" "config w1 = config w" "total_groups w1 = total_groups w" "mutex w1 = mutex w"
    "\<And>k. group_at k w1 = group_at k w" "\<And>k. iface_at k w1 = iface_at k w"
    using wf wf_db_mutex [OF wf] by (auto simp: w1_def)
  have state: "AW_state b e st c2 u = Some ((st, c2), u)" for u
    using st by (auto simp: AW_stops_def)
  have ptr: "PC_pWanActiveIfaceData c2 = None \<longleftrightarrow> PC_activeInterfaceIdx c = -1"
    using c2(2,3) by (simp add: AW_ready_def)
  have pass: "AW_pass b e (True, st, c) w = do { (_, w) \<leftarrow> AW_epilogue c2 w1; Some ((False, st, c2), w) }"
    using e st ptr by (cases "PC_pWanActiveIfaceData c2")
      (simp_all add: UpdateControllerData_eq [OF wf] c2(1) state Let_def w1_def release_defs)
  define w2 where "w2 = (if G_ConfigChanged g then upd_config (\<lambda>d. d\<lparr>Cfg_ResetFailOverScan := True\<rparr>) w1 else w1)"
  have w2: "wf_db w2" using w1(1) by (simp add: w2_def)
  have "AW_epilogue c2 w1 = Some ((), pthread_mutex_unlock (upd_group (unat (inst - 1)) (\<lambda>g. g\<lparr>G_ThreadId := 0,
      G_SelectedInterface := 0, G_ConfigChanged := False,
      G_State := (if G_State g \<noteq> STATE_GROUP_DEACTIVATED then STATE_GROUP_STOPPED else G_State g)\<rparr>) (mlock w2)))"
    using g w1 c2(4,5) w2 by (simp add: AW_epilogue_def w2_def with_wf(1))
  with pass w1 w2 g show ?thesis by (auto simp: w2_def)
qed

theorem policy_exit_witness:
  "\<exists>c' w'. AW_pass sample_build sample_env (True, STATE_AUTO_WAN_SM_EXIT, sample_policy (-1)) sample_world =
      Some ((False, STATE_AUTO_WAN_SM_EXIT, c'), w') \<and>
    group_at 0 w' = Some ((sample_group 0 1)\<lparr>G_ThreadId := 0, G_SelectedInterface := 0, G_State := STATE_GROUP_STOPPED\<rparr>) \<and>
    group_at 1 w' = Some (sample_group 1 2) \<and> config w' = config sample_world"
proof -
  have inv: "AW_inv 1 (True, STATE_AUTO_WAN_SM_EXIT, sample_policy (-1)) sample_world"
    by (rule sample_policy_inv) simp_all
  have s: "select_ok sample_env" "AW_stops STATE_AUTO_WAN_SM_EXIT" by (simp_all add: sample_env_def AW_stops_def)
  have g: "1 - 1 < total_groups sample_world" "group_at (unat (1 - 1 :: uint)) sample_world = Some (sample_group 0 1)"
    by (simp_all add: sample_reads)
  have c: "\<not> G_ConfigChanged (sample_group 0 1)" "G_State (sample_group 0 1) = STATE_GROUP_RUNNING"
    "(sample_group 0 1)\<lparr>G_ConfigChanged := False\<rparr> = sample_group 0 1" by (simp_all add: sample_group_def)
  from policy_exit [OF wf_sample_world inv s g, of sample_build] c show ?thesis
    by (fastforce simp: sample_reads sample_group_def simp del: AW_pass.simps)
qed

end
