(* ===== verification/WanNet.thy ===== *)
theory WanNet
  imports WanPolicyLemmas
begin

text \<open>
  What the interface state machine does to the system around it: shell commands, sysevents, routes,
  name servers, DHCP clients, router solicitations, the connectivity checker, and the VLAN and PPP
  managers (\<open>wanmgr_net_utils.c\<close>, \<open>wanmgr_sysevents.c\<close>, \<open>wanmgr_rdkbus_utils.c\<close>,
  \<open>wanmgr_rbus_handler_apis.c\<close>, \<open>wanmgr_utils.c\<close>).  The build is the one without
  \<open>FEATURE_RDKB_DHCP_MANAGER\<close>, \<open>FEATURE_RDKB_CONFIGURABLE_WAN_INTERFACE\<close>, \<open>FEATURE_MAPT\<close>,
  \<open>FEATURE_IPOE_HEALTH_CHECK\<close>, \<open>SNMPV3_ENABLED\<close> and \<open>_CBR2_PRODUCT_REQ_\<close>.

  A function that takes a \<open>DML_VIRTUAL_IFACE*\<close> takes its position \<open>q\<close> in the data base.  Statuses that
  are constant, and those the code only writes to its trace, are dropped.  A NULL value of a sysevent is
  the empty string.
\<close>

type_synonym vptr = "nat \<times> nat"

definition modify_virtif :: "vptr \<Rightarrow> (DML_VIRTUAL_IFACE \<Rightarrow> DML_VIRTUAL_IFACE) \<Rightarrow> world \<Rightarrow> (unit \<times> world) option" where
  "modify_virtif q f w = do {
     _ \<leftarrow> virtif_at q w;
     Some ((), upd_virtif q f w)
   }"

definition upd_IP :: "(DML_WANIFACE_IP \<Rightarrow> DML_WANIFACE_IP) \<Rightarrow> DML_VIRTUAL_IFACE \<Rightarrow> DML_VIRTUAL_IFACE" where
  "upd_IP f v = v\<lparr>VI_IP := f (VI_IP v)\<rparr>"

definition upd_VLAN :: "(DML_VIRTUALIF_VLAN \<Rightarrow> DML_VIRTUALIF_VLAN) \<Rightarrow> DML_VIRTUAL_IFACE \<Rightarrow> DML_VIRTUAL_IFACE" where
  "upd_VLAN f v = v\<lparr>VI_VLAN := f (VI_VLAN v)\<rparr>"

definition upd_PPP :: "(DATAMODEL_PPP \<Rightarrow> DATAMODEL_PPP) \<Rightarrow> DML_VIRTUAL_IFACE \<Rightarrow> DML_VIRTUAL_IFACE" where
  "upd_PPP f v = v\<lparr>VI_PPP := f (VI_PPP v)\<rparr>"

definition upd_MAP :: "(DML_WANIFACE_MAP \<Rightarrow> DML_WANIFACE_MAP) \<Rightarrow> DML_VIRTUAL_IFACE \<Rightarrow> DML_VIRTUAL_IFACE" where
  "upd_MAP f v = v\<lparr>VI_MAP := f (VI_MAP v)\<rparr>"

subsection \<open>Commands, files and sysevents\<close>

definition v_secure_system :: "string \<Rightarrow> world \<Rightarrow> world" where
  "v_secure_system cmd = emit (System cmd)"

definition WanManager_DoSystemActionWithStatus :: "env \<Rightarrow> string \<Rightarrow> world \<Rightarrow> bool \<times> world" where
  "WanManager_DoSystemActionWithStatus e cmd w =
     (let w' = emit (System cmd) w in (system_ok e (out w'), w'))"

definition WanManager_DoSystemAction :: "env \<Rightarrow> string \<Rightarrow> world \<Rightarrow> world" where
  "WanManager_DoSystemAction e cmd w = snd (WanManager_DoSystemActionWithStatus e cmd w)"

definition sysctl_iface_set :: "string \<Rightarrow> string \<Rightarrow> string \<Rightarrow> string \<Rightarrow> world \<Rightarrow> world" where
  "sysctl_iface_set path_head ifname path_tail content =
     emit (WriteFile (take 127 (path_head @ ifname @ path_tail)) content)"

definition sysevents_set :: "(string \<times> string) list \<Rightarrow> world \<Rightarrow> world" where
  "sysevents_set evs = fold (\<lambda>(name, val). sysevent_set name val) evs"

text \<open>\<open>sysevent_get\<close> into a buffer of \<open>n\<close> characters.\<close>

definition sysevent_read :: "env \<Rightarrow> nat \<Rightarrow> string \<Rightarrow> world \<Rightarrow> string" where
  "sysevent_read e n name w = take (n - 1) (sysevent_get e (out w) name)"

abbreviation (input) "SYSEVENT_CURRENT_WAN_IFNAME \<equiv> ''current_wan_ifname''"
abbreviation (input) "SYSEVENT_CURRENT_WAN_IPADDR \<equiv> ''current_wan_ipaddr''"
abbreviation (input) "SYSEVENT_WAN_STATUS \<equiv> ''wan-status''"
abbreviation (input) "SYSEVENT_WAN_SERVICE_STATUS \<equiv> ''wan_service-status''"
abbreviation (input) "SYSEVENT_IPV4_CONNECTION_STATE \<equiv> ''ipv4_connection_state''"
abbreviation (input) "SYSEVENT_IPV6_CONNECTION_STATE \<equiv> ''ipv6_connection_state''"
abbreviation (input) "SYSEVENT_FIREWALL_RESTART \<equiv> ''firewall-restart''"
abbreviation (input) "SYSEVENT_DHCP_SERVER_RESTART \<equiv> ''dhcp_server-restart''"
abbreviation (input) "SYSEVENT_RADVD_RESTART \<equiv> ''radvd_restart''"
abbreviation (input) "SYSEVENT_ETH_WAN_MAC \<equiv> ''eth_wan_mac''"
abbreviation (input) "SYSEVENT_FIELD_IPV6_PREFIX \<equiv> ''ipv6_prefix''"
abbreviation (input) "SYSEVENT_FIELD_IPV6_PREFIXVLTIME \<equiv> ''ipv6_prefix_vldtime''"
abbreviation (input) "SYSEVENT_FIELD_IPV6_PREFIXPLTIME \<equiv> ''ipv6_prefix_prdtime''"
abbreviation (input) "SYSEVENT_FIELD_PREVIOUS_IPV6_PREFIX \<equiv> ''previous_ipv6_prefix''"
abbreviation (input) "SYSEVENT_FIELD_PREVIOUS_IPV6_PREFIXVLTIME \<equiv> ''previous_ipv6_prefix_vldtime''"
abbreviation (input) "SYSEVENT_FIELD_PREVIOUS_IPV6_PREFIXPLTIME \<equiv> ''previous_ipv6_prefix_prdtime''"
abbreviation (input) "SYSEVENT_FIELD_TR_EROUTER_DHCPV6_CLIENT_PREFIX \<equiv> ''tr_erouter0_dhcpv6_client_v6pref''"
abbreviation (input) "SYSCFG_WAN_INTERFACE_NAME \<equiv> ''wan_physical_ifname''"
abbreviation (input) "SYSCFG_FIELD_IPV6_PREFIX_ADDRESS \<equiv> ''ipv6_prefix_address''"
abbreviation (input) "WAN_STATUS_UP \<equiv> ''up''"
abbreviation (input) "WAN_STATUS_DOWN \<equiv> ''down''"
abbreviation (input) "WAN_STATUS_STARTED \<equiv> ''started''"
abbreviation (input) "WAN_STATUS_STOPPED \<equiv> ''stopped''"
abbreviation (input) "MESH_IFNAME \<equiv> ''br-home''"
abbreviation (input) "LAN_BRIDGE_NAME \<equiv> ''brlan0''"

text \<open>The sysevents of one interface, \<open>ipv4_%s_...\<close>, in a buffer of \<open>n\<close> characters.\<close>

definition ipv4_key :: "nat \<Rightarrow> string \<Rightarrow> string \<Rightarrow> string" where
  "ipv4_key n ifname field = take (n - 1) (''ipv4_'' @ ifname @ ''_'' @ field)"

definition WanManager_getUpTime :: "env \<Rightarrow> world \<Rightarrow> nat" where
  "WanManager_getUpTime e w = uptime e (out w)"

definition wanmgr_services_restart :: "world \<Rightarrow> world" where
  "wanmgr_services_restart = sysevent_set ''sshd-restart'' []"

text \<open>\<open>WanManager_PrintBootEvents\<close>: the events of the first start only.\<close>

datatype WanBootEventState = WAN_INIT_START | WAN_INIT_COMPLETE

definition WanManager_PrintBootEvents :: "WanBootEventState \<Rightarrow> world \<Rightarrow> world" where
  "WanManager_PrintBootEvents state w =
     (let (BootToWanUp, w) = with_config False (\<lambda>w.
            (Cfg_BootToWanUp (config w),
             if \<not> Cfg_BootToWanUp (config w) \<and> state = WAN_INIT_COMPLETE
             then upd_config (\<lambda>c. c\<lparr>Cfg_BootToWanUp := True\<rparr>) w else w)) w
      in if BootToWanUp then w
         else case state of
           WAN_INIT_START \<Rightarrow> v_secure_system ''print_uptime \"Waninit_start\"'' w
         | WAN_INIT_COMPLETE \<Rightarrow>
             v_secure_system ''print_uptime \"boot_to_wan_uptime\"''
               (v_secure_system ''print_uptime \"Waninit_complete\"'' w))"

subsection \<open>Reading text\<close>

definition first_line :: "nat \<Rightarrow> string \<Rightarrow> string" where
  "first_line n s =
     (let l = takeWhile (\<lambda>c. c \<noteq> CHR 0x0A) s
      in take (n - 1) (if l = s then l else l @ [CHR 0x0A]))"

text \<open>\<open>fgets\<close> with a buffer of \<open>n\<close> characters cuts a file into lines and pieces of lines.\<close>

lemma length_first_line: "\<lbrakk>s \<noteq> []; 2 \<le> n\<rbrakk> \<Longrightarrow> 0 < length (first_line n s)"
  by (cases s) (auto simp: first_line_def Let_def)

function fgets_lines :: "nat \<Rightarrow> string \<Rightarrow> string list" where
  "fgets_lines n s =
     (if s = [] \<or> n < 2 then []
      else first_line n s # fgets_lines n (drop (length (first_line n s)) s))"
  by pat_completeness auto
termination
  by (relation "measure (\<lambda>(n, s). length s)") (auto simp: length_first_line [simplified])

declare fgets_lines.simps [simp del]

text \<open>\<open>strtok(s, "c")\<close> with one delimiter: the token, and where the next call goes on.\<close>

definition strtok :: "char \<Rightarrow> string \<Rightarrow> (string \<times> string) option" where
  "strtok d s =
     (let t = dropWhile (\<lambda>c. c = d) s
      in if t = [] then None
         else Some (takeWhile (\<lambda>c. c \<noteq> d) t, drop 1 (dropWhile (\<lambda>c. c \<noteq> d) t)))"

subsection \<open>Addresses\<close>

text \<open>
  \<open>inet_pton(AF_INET)\<close>: four decimal numbers up to 255 without leading zeros, separated by dots.  The
  list holds the numbers read so far, newest first; the flag says that the last one has a digit.
\<close>

fun inet_pton4_scan :: "string \<Rightarrow> nat list \<Rightarrow> bool \<Rightarrow> nat list option" where
  "inet_pton4_scan [] octets saw_digit = (if length octets < 4 then None else Some (rev octets))"
| "inet_pton4_scan (ch # src) octets saw_digit =
     (if isdigit_c ch then
        (let d = of_char ch - 48
         in if saw_digit
            then (case octets of
                    [] \<Rightarrow> None
                  | t # ts \<Rightarrow> if t = 0 \<or> 255 < 10 * t + d then None
                              else inet_pton4_scan src ((10 * t + d) # ts) True)
            else if length octets = 4 then None else inet_pton4_scan src (d # octets) True)
      else if ch = CHR ''.'' \<and> saw_digit
      then (if length octets = 4 then None else inet_pton4_scan src octets False)
      else None)"

definition inet_pton4 :: "string \<Rightarrow> bool" where
  "inet_pton4 s \<longleftrightarrow> inet_pton4_scan s [] False \<noteq> None"

definition IsValidIpv4Address :: "string \<Rightarrow> bool" where
  "IsValidIpv4Address ipAddress \<longleftrightarrow> inet_pton4 ipAddress \<and> ipAddress \<noteq> ''0.0.0.0''"

text \<open>\<open>ParsePrefixAddress\<close>: the address before the slash and the length after it, 128 by default.\<close>

definition ParsePrefixAddress :: "env \<Rightarrow> string \<Rightarrow> world \<Rightarrow> (string \<times> uint) option" where
  "ParsePrefixAddress e prefixAddr w =
     (if \<not> malloc_ok e (out w) then None
      else let addr = takeWhile (\<lambda>c. c \<noteq> CHR ''/'') prefixAddr;
               plen = (if addr = prefixAddr then 128
                       else word_of_int (strtol10 (drop (length addr + 1) prefixAddr)))
           in if length addr < 40 \<and> plen \<le> 128 then Some (addr, plen) else None)"

definition IsValidIpAddress :: "env \<Rightarrow> bool \<Rightarrow> string \<Rightarrow> world \<Rightarrow> bool" where
  "IsValidIpAddress e ipv6 address w \<longleftrightarrow> address \<noteq> [] \<and>
     (if ipv6 then (case ParsePrefixAddress e address w of None \<Rightarrow> False | Some (addr, plen) \<Rightarrow> inet_pton6 e addr)
      else IsValidIpv4Address address)"

definition IsZeroIpvxAddress :: "bool \<Rightarrow> string \<Rightarrow> bool" where
  "IsZeroIpvxAddress ipv6 addr \<longleftrightarrow> addr = [] \<or>
     (if ipv6 then addr \<in> {''0:0:0:0:0:0:0:0'', ''::'', ''::/128'', ''::/0''} else addr = ''0.0.0.0'')"

definition IsValidDnsServer :: "env \<Rightarrow> bool \<Rightarrow> string \<Rightarrow> world \<Rightarrow> bool" where
  "IsValidDnsServer e ipv6 nameServer w \<longleftrightarrow> nameServer \<noteq> [] \<and>
     IsValidIpAddress e ipv6 nameServer w \<and> \<not> IsZeroIpvxAddress ipv6 nameServer \<and>
     (ipv6 \<or> \<not> prefix ''255.255.255.255'' nameServer \<and> \<not> prefix ''169.254'' nameServer \<and>
       \<not> prefix ''127'' nameServer)"

text \<open>\<open>inet_ntoa\<close>: four bytes, the most significant first.\<close>

definition inet_ntoa :: "uint \<Rightarrow> string" where
  "inet_ntoa a =
     (let byte = (\<lambda>i. show_nat (unat (drop_bit (8 * i) a AND 255)))
      in byte 3 @ ''.'' @ byte 2 @ ''.'' @ byte 1 @ ''.'' @ byte 0)"

definition WanManager_GetBCastFromIpSubnetMask :: "env \<Rightarrow> string \<Rightarrow> string \<Rightarrow> string" where
  "WanManager_GetBCastFromIpSubnetMask e inIpStr inSubnetMaskStr =
     inet_ntoa (inet_addr e inIpStr OR NOT (inet_addr e inSubnetMaskStr))"

text \<open>
  \<open>WanManager_get_interface_mac\<close>: the first line of the address file, unless it is empty or starts with
  the digit 0.
\<close>

definition WanManager_get_interface_mac :: "env \<Rightarrow> string \<Rightarrow> world \<Rightarrow> string option" where
  "WanManager_get_interface_mac e interfaceName w =
     (if interfaceName = [] then None
      else case read_file e (out w) (take 127 (''/sys/class/net/'' @ interfaceName @ ''/address'')) of
        None \<Rightarrow> None
      | Some contents \<Rightarrow>
          let fOutput = first_line 128 contents
          in if fOutput = [] \<or> hd fOutput = CHR ''0'' then None
             else let mac = takeWhile (\<lambda>c. c \<noteq> CHR 0x0A) fOutput
                  in if mac = [] then None else Some mac)"

definition set_eth_wan_mac :: "env \<Rightarrow> string \<Rightarrow> world \<Rightarrow> world" where
  "set_eth_wan_mac e ifname w =
     (case WanManager_get_interface_mac e ifname w of
        None \<Rightarrow> w
      | Some mac \<Rightarrow> sysevent_set SYSEVENT_ETH_WAN_MAC mac w)"

subsection \<open>Routes\<close>

definition WanManager_AddDefaultGatewayRoute :: "env \<Rightarrow> DEVICE_NETWORKING_MODE \<Rightarrow> WANMGR_IPV4_DATA \<Rightarrow> world \<Rightarrow> world" where
  "WanManager_AddDefaultGatewayRoute e DeviceNwMode d w =
     (case DeviceNwMode of
        GATEWAY_MODE \<Rightarrow>
          if IsValidIpv4Address (V4_gateway d) \<and> \<not> IsZeroIpvxAddress False (V4_gateway d)
          then WanManager_DoSystemAction e
                 (take 127 (''route add default gw '' @ V4_gateway d @ '' dev '' @ V4_ifname d)) w
          else w
      | MODEM_MODE \<Rightarrow>
          WanManager_DoSystemAction e ''ip route flush cache''
            (WanManager_DoSystemAction e
               (take 127 (''ip route add default via '' @ V4_gateway d @ '' dev '' @ V4_ifname d @ '' table MODEM''))
               (WanManager_DoSystemAction e ''ip rule add iif brWAN table MODEM'' w)))"

definition WanManager_DelDefaultGatewayRoute :: "env \<Rightarrow> DEVICE_NETWORKING_MODE \<Rightarrow> bool \<Rightarrow> world \<Rightarrow> world" where
  "WanManager_DelDefaultGatewayRoute e DeviceNwMode DeviceNwModeChange w =
     (let ModeConfigToDelete =
            (if DeviceNwModeChange then (if DeviceNwMode = GATEWAY_MODE then MODEM_MODE else GATEWAY_MODE)
             else DeviceNwMode)
      in if ModeConfigToDelete = GATEWAY_MODE
         then WanManager_DoSystemAction e ''route del default 2>/dev/null'' w
         else WanManager_DoSystemAction e ''ip route flush cache''
                (WanManager_DoSystemAction e ''ip ro flush table MODEM''
                   (WanManager_DoSystemAction e ''ip rule flush table MODEM'' w)))"

definition WanManager_AddGatewayRoute :: "env \<Rightarrow> WANMGR_IPV4_DATA \<Rightarrow> world \<Rightarrow> world" where
  "WanManager_AddGatewayRoute e d w =
     (let w = WanManager_DoSystemAction e
                (take 127 (''route del '' @ V4_gateway d @ '' dev '' @ V4_ifname d)) w
      in if IsValidIpv4Address (V4_gateway d) \<and> \<not> IsZeroIpvxAddress False (V4_gateway d)
         then WanManager_DoSystemAction e
                (take 127 (''ip route add '' @ V4_gateway d @ '' dev '' @ V4_ifname d)) w
         else w)"

subsection \<open>The sysevents of a lease\<close>

definition wanmgr_set_Ipv4Sysevent ::
  "build \<Rightarrow> env \<Rightarrow> WANMGR_IPV4_DATA \<Rightarrow> DEVICE_NETWORKING_MODE \<Rightarrow> world \<Rightarrow> world" where
  "wanmgr_set_Ipv4Sysevent b e d DeviceNwMode w =
     (let name = sysevent_read e 64 SYSEVENT_CURRENT_WAN_IFNAME w;
          current = (if DeviceNwMode = GATEWAY_MODE then V4_ifname d else MESH_IFNAME);
          w = (if (name = [] \<or> name \<noteq> current) \<and> current \<noteq> []
               then sysevent_set SYSEVENT_CURRENT_WAN_IFNAME current w else w);
          w = sysevent_set (ipv4_key 64 current ''ipaddr'') (V4_ip d) w;
          w = (if XB6_PRODUCT b then w else set_eth_wan_mac e (V4_ifname d) w)
      in sysevents_set
           [(''ipv4_wan_ipaddr'', V4_ip d),
            (ipv4_key 64 (V4_ifname d) ''subnet'', V4_mask d),
            (''ipv4_wan_subnet'', V4_mask d),
            (ipv4_key 64 (V4_ifname d) ''gw_number'', ''1''),
            (ipv4_key 64 (V4_ifname d) ''gw_0'', V4_gateway d),
            (''default_router'', V4_gateway d),
            (ipv4_key 64 (V4_ifname d) ''mtu'', show_nat (unat (V4_mtuSize d)))] w)"

definition wanmgr_sysevents_ipv4Info_set :: "ipc_dhcpv4_data_t \<Rightarrow> string \<Rightarrow> world \<Rightarrow> world" where
  "wanmgr_sysevents_ipv4Info_set m wanIfName =
     sysevents_set
       ([(ipv4_key 64 wanIfName ''ds_current_rate_0'', show_int (I4_downstreamCurrRate m)),
         (ipv4_key 64 wanIfName ''us_current_rate_0'', show_int (I4_upstreamCurrRate m))] @
        (if I4_isTimeOffsetAssigned m
         then [(''ipv4-timeoffset'', CHR ''@'' # show_int (I4_timeOffset m)), (''dhcpv4_time_offset'', ''set'')]
         else []) @
        [(''ipv4_timezone'', I4_timeZone m),
         (ipv4_key 64 (I4_dhcpcInterface m) ''dhcp_server'', I4_dhcpServerId m),
         (ipv4_key 64 (I4_dhcpcInterface m) ''dhcp_state'', I4_dhcpState m),
         (ipv4_key 64 (I4_dhcpcInterface m) ''lease_time'', show_nat (unat (I4_leaseTime m)))])"

definition zero_ipc4 :: ipc_dhcpv4_data_t where
  "zero_ipc4 = \<lparr>I4_dhcpcInterface = [], I4_addressAssigned = False, I4_isExpired = False, I4_ip = [],
     I4_mask = [], I4_gateway = [], I4_dnsServer = [], I4_dnsServer1 = [], I4_mtuAssigned = False,
     I4_mtuSize = 0, I4_isTimeOffsetAssigned = False, I4_timeOffset = 0, I4_timeZone = [],
     I4_upstreamCurrRate = 0, I4_downstreamCurrRate = 0, I4_dhcpServerId = [], I4_dhcpState = [],
     I4_leaseTime = 0\<rparr>"

abbreviation (input) "WANMNGR_INTERFACE_DEFAULT_MTU_SIZE \<equiv> (1500 :: uint)"

definition wanmgr_sysevents_ipv4Info_init ::
  "build \<Rightarrow> env \<Rightarrow> string \<Rightarrow> DEVICE_NETWORKING_MODE \<Rightarrow> world \<Rightarrow> world" where
  "wanmgr_sysevents_ipv4Info_init b e wanIfName DeviceNwMode w =
     (let ipv4Data = \<lparr>V4_ifname = take 63 wanIfName, V4_ip = ''0.0.0.0'', V4_mask = ''0.0.0.0'',
            V4_gateway = ''0.0.0.0'', V4_dnsServer = ''0.0.0.0'', V4_dnsServer1 = ''0.0.0.0'',
            V4_mtuSize = WANMNGR_INTERFACE_DEFAULT_MTU_SIZE, V4_leaseReceivedTime = 0\<rparr>;
          w = sysevents_set [(SYSEVENT_CURRENT_WAN_IPADDR, ''0.0.0.0''),
                             (ipv4_key 64 wanIfName ''start_time'', ''0'')] w;
          w = wanmgr_sysevents_ipv4Info_set (zero_ipc4\<lparr>I4_dhcpcInterface := take 63 wanIfName\<rparr>) wanIfName w
      in wanmgr_set_Ipv4Sysevent b e ipv4Data DeviceNwMode w)"

definition wanmgr_sysevents_ipv6Info_init :: "world \<Rightarrow> world" where
  "wanmgr_sysevents_ipv6Info_init w =
     syscfg_set_commit SYSCFG_FIELD_IPV6_PREFIX_ADDRESS []
       (sysevents_set [(''ipv6_domain'', []), (SYSEVENT_IPV6_CONNECTION_STATE, WAN_STATUS_DOWN),
                       (''ipv6-status'', ''down'')] w)"

subsection \<open>Router solicitation\<close>

text \<open>
  A \<open>sscanf\<close> format of literal text: a blank skips any white space, another character stands for itself.
  The rest of the input is returned when everything has matched.
\<close>

fun scanf_text :: "string \<Rightarrow> string \<Rightarrow> string option" where
  "scanf_text [] s = Some s"
| "scanf_text (f # fs) s =
     (if f = CHR '' '' then scanf_text fs (dropWhile isspace_c s)
      else case s of [] \<Rightarrow> None | c # cs \<Rightarrow> if c = f then scanf_text fs cs else None)"

definition scanf_word :: "string \<Rightarrow> string option" where
  "scanf_word s = (let t = takeWhile (\<lambda>c. \<not> isspace_c c) (dropWhile isspace_c s) in if t = [] then None else Some t)"

text \<open>
  The loop of \<open>WanManager_send_and_receive_rs\<close> over the output of \<open>rdisc6\<close>.  \<open>%s\<close> writes into an array of
  46 characters: a longer word runs over its end.
\<close>

definition scan_lifetime :: "string \<Rightarrow> WANMGR_IPV6_RA_DATA \<Rightarrow> WANMGR_IPV6_RA_DATA" where
  "scan_lifetime buffer r =
     (if strstr buffer ''Route lifetime''
      then (case Option.bind (scanf_text '' Route lifetime : '' buffer) sscanf_d of
              None \<Rightarrow> r
            | Some v \<Rightarrow> r\<lparr>RA_defRouteLifeTime := word_of_int v\<rparr>)
      else r)"

definition scan_router :: "string \<Rightarrow> WANMGR_IPV6_RA_DATA \<Rightarrow> WANMGR_IPV6_RA_DATA option" where
  "scan_router buffer r =
     (case Option.bind (scanf_text '' from '' buffer) scanf_word of
        None \<Rightarrow> Some r
      | Some a \<Rightarrow> if length a < 46 then Some (r\<lparr>RA_defaultRoute := a\<rparr>) else None)"

fun rs_scan :: "env \<Rightarrow> string list \<Rightarrow> WANMGR_IPV6_RA_DATA \<Rightarrow> (bool \<times> WANMGR_IPV6_RA_DATA) option" where
  "rs_scan e [] r = Some (False, r)"
| "rs_scan e (buffer # rest) r =
     (let r = scan_lifetime buffer r
      in if strstr buffer ''from''
         then (case scan_router buffer r of
                 None \<Rightarrow> None
               | Some r \<Rightarrow> if inet_pton6 e (RA_defaultRoute r) then Some (True, r) else rs_scan e rest r)
         else rs_scan e rest r)"

text \<open>\<open>True\<close> is the return value 0: a router has answered.\<close>

definition WanManager_send_and_receive_rs :: "env \<Rightarrow> vptr \<Rightarrow> world \<Rightarrow> (bool \<times> world) option" where
  "WanManager_send_and_receive_rs e q w = do {
     v \<leftarrow> virtif_at q w;
     let cmd = take 255 (''rdisc6 '' @ VI_Name v);
     let w = emit (System cmd) w;
     (case popen_lines e (out w) cmd of
        None \<Rightarrow> Some (False, w)
      | Some lines \<Rightarrow> do {
          (ok, r) \<leftarrow> rs_scan e lines (IP_Ipv6Route (VI_IP v));
          Some (ok, upd_virtif q (upd_IP (\<lambda>i. i\<lparr>IP_Ipv6Route := r\<rparr>)) w)
        })
   }"

definition CheckV6DefaultRule :: "env \<Rightarrow> string \<Rightarrow> world \<Rightarrow> bool \<times> world" where
  "CheckV6DefaultRule e wanInterface w =
     (let w = emit (System ''ip -6 ro'') w
      in (case popen_lines e (out w) ''ip -6 ro'' of
            None \<Rightarrow> False
          | Some lines \<Rightarrow> \<exists>l \<in> set lines. prefix ''default via '' l \<and> strstr l wanInterface, w))"

definition set_DefaultGatewayAdded :: "world \<Rightarrow> world" where
  "set_DefaultGatewayAdded w = w\<lparr>isDefaultGatewayAdded := True\<rparr>"

definition WanMgr_CheckDefaultRA :: "env \<Rightarrow> vptr \<Rightarrow> world \<Rightarrow> (unit \<times> world) option" where
  "WanMgr_CheckDefaultRA e q w =
     (if isDefaultGatewayAdded w then Some ((), w)
      else do {
        v \<leftarrow> virtif_at q w;
        let (rule, w) = CheckV6DefaultRule e (VI_Name v) w;
        (found, w) \<leftarrow> (if rule then Some (True, w) else WanManager_send_and_receive_rs e q w);
        Some ((), if found then set_DefaultGatewayAdded w else w)
      })"

definition Force_IPv6_toggle :: "string \<Rightarrow> world \<Rightarrow> world" where
  "Force_IPv6_toggle wanInterface w =
     set_DefaultGatewayAdded
       (sysctl_iface_set ''/proc/sys/net/ipv6/conf/'' wanInterface ''/disable_ipv6'' ''0''
         (sysctl_iface_set ''/proc/sys/net/ipv6/conf/'' wanInterface ''/disable_ipv6'' ''1'' w))"

definition WanMgr_Configure_accept_ra :: "vptr \<Rightarrow> bool \<Rightarrow> world \<Rightarrow> (unit \<times> world) option" where
  "WanMgr_Configure_accept_ra q EnableRa w = do {
     v \<leftarrow> virtif_at q w;
     let conf = (\<lambda>s. ''sysctl -w net.ipv6.conf.'' @ VI_Name v @ s);
     Some ((), if PPP_Enable (VI_PPP v) then w
               else fold v_secure_system
                 ([conf ''.accept_ra=2'', conf ''.accept_ra_pinfo=0''] @
                  (if EnableRa
                   then [conf ''.router_solicitations=3'', conf ''.forwarding=1'', conf ''.accept_ra_defrtr=1'',
                         ''sysctl -w net.ipv6.conf.all.forwarding=1'']
                   else [conf ''.router_solicitations=0'', conf ''.accept_ra_defrtr=0''])) w)
   }"

subsection \<open>DHCP clients\<close>

definition WanManager_StartDhcpv4Client ::
  "env \<Rightarrow> vptr \<Rightarrow> string \<Rightarrow> IFACE_TYPE \<Rightarrow> world \<Rightarrow> (unit \<times> world) option" where
  "WanManager_StartDhcpv4Client e q baseInterface IfaceType w = do {
     v \<leftarrow> virtif_at q w;
     let w = emit (StartDhcpv4 (VI_Name v) baseInterface IfaceType) w;
     let pid = dhcpc_pid e (out w);
     modify_virtif q (upd_IP (\<lambda>i. if pid = 0 then i\<lparr>IP_Dhcp4cPid := -1, IP_Dhcp4cStatus := DHCPC_FAILED\<rparr>
                                  else i\<lparr>IP_Dhcp4cStatus := DHCPC_STARTED, IP_Dhcp4cPid := pid\<rparr>)) w
   }"

definition WanManager_StopDhcpv4Client :: "env \<Rightarrow> vptr \<Rightarrow> bool \<Rightarrow> world \<Rightarrow> (ANSC_STATUS \<times> world) option" where
  "WanManager_StopDhcpv4Client e q IsReleaseNeeded w = do {
     v \<leftarrow> virtif_at q w;
     let w = emit (StopDhcpv4 (VI_Name v) IsReleaseNeeded) w;
     let ret = dhcpc_stop e (out w);
     (_, w) \<leftarrow> modify_virtif q (upd_IP (\<lambda>i. i\<lparr>IP_Dhcp4cStatus := DHCPC_STOPPED, IP_Dhcp4cPid := 0\<rparr>)) w;
     Some (ret, w)
   }"

definition WanManager_StartDhcpv6Client :: "env \<Rightarrow> vptr \<Rightarrow> IFACE_TYPE \<Rightarrow> world \<Rightarrow> (unit \<times> world) option" where
  "WanManager_StartDhcpv6Client e q IfaceType w = do {
     v \<leftarrow> virtif_at q w;
     (_, w) \<leftarrow> WanManager_send_and_receive_rs e q w;
     let w = emit (StartDhcpv6 (VI_Name v) IfaceType) w;
     let pid = dhcpc_pid e (out w);
     modify_virtif q (upd_IP (\<lambda>i. if pid = 0 then i\<lparr>IP_Dhcp6cStatus := DHCPC_FAILED, IP_Dhcp6cPid := -1\<rparr>
                                  else i\<lparr>IP_Dhcp6cPid := pid, IP_Dhcp6cStatus := DHCPC_STARTED\<rparr>)) w
   }"

definition WanManager_StopDhcpv6Client :: "env \<Rightarrow> vptr \<Rightarrow> bool \<Rightarrow> world \<Rightarrow> (ANSC_STATUS \<times> world) option" where
  "WanManager_StopDhcpv6Client e q is_release_required w = do {
     v \<leftarrow> virtif_at q w;
     let w = (if is_release_required then emit (WriteFile ''/tmp/dhcpv6_release'' []) w else w);
     let w = emit (StopDhcpv6 (VI_Name v)) w;
     let ret = dhcpc_stop e (out w);
     (_, w) \<leftarrow> modify_virtif q (upd_IP (\<lambda>i. i\<lparr>IP_Dhcp6cStatus := DHCPC_STOPPED, IP_Dhcp6cPid := 0\<rparr>)) w;
     Some (ret, w)
   }"

definition WanMgr_IsPIDRunning :: "env \<Rightarrow> int \<Rightarrow> world \<Rightarrow> bool" where
  "WanMgr_IsPIDRunning e pid w = pid_running e (out w) pid"

subsection \<open>The connectivity checker\<close>

text \<open>\<open>WanMgr_Configure_TAD_WCC\<close> writes into the block \<open>malloc\<close> returns without looking at it.\<close>

definition WanMgr_Configure_TAD_WCC :: "env \<Rightarrow> vptr \<Rightarrow> WCC_EVENT \<Rightarrow> world \<Rightarrow> (ANSC_STATUS \<times> world) option" where
  "WanMgr_Configure_TAD_WCC e q Event w = do {
     v \<leftarrow> virtif_at q w;
     let d4 = IP_Ipv4Data (VI_IP v);
     let d6 = IP_Ipv6Data (VI_IP v);
     if Event \<noteq> WCC_STOP \<and> V4_dnsServer d4 = [] \<and> V4_dnsServer1 d4 = [] \<and>
        V6_nameserver d6 = [] \<and> V6_nameserver1 d6 = []
     then Some (ANSC_STATUS_FAILURE, w)
     else if \<not> malloc_ok e (out w) then None
     else do {
       let arg = \<lparr>WCC_Event = Event, WCC_IfaceName = take 63 (VI_Name v), WCC_Alias = take 63 (VI_Alias v),
         WCC_IPv4_DNS_Servers = take 511 (V4_dnsServer d4 @ '','' @ V4_dnsServer1 d4),
         WCC_IPv4_Gateway = take 31 (V4_gateway d4),
         WCC_IPv6_DNS_Servers = take 511 (V6_nameserver d6 @ '','' @ V6_nameserver1 d6),
         WCC_IPv6_Gateway = take 255 (RA_defaultRoute (IP_Ipv6Route (VI_IP v)))\<rparr>;
       let created = thread_create e (out w);
       let w = emit (ThreadCreate (WanMgr_Configure_WCC_Thread arg)) w;
       if created = None then Some (ANSC_STATUS_FAILURE, w)
       else do {
         (_, w) \<leftarrow> modify_virtif q (upd_IP (\<lambda>i. i\<lparr>IP_RestartConnectivityCheck := False\<rparr>)) w;
         Some (ANSC_STATUS_SUCCESS, w)
       }
     }
   }"

subsection \<open>VLAN, PPP and the persistent store\<close>

text \<open>\<open>WanMgr_RdkBus_GetParamValueFromAnyComp\<close>: finding the component is part of the answer of the bus.\<close>

definition WanMgr_RdkBus_GetParamValueFromAnyComp :: "env \<Rightarrow> string \<Rightarrow> world \<Rightarrow> string option \<times> world" where
  "WanMgr_RdkBus_GetParamValueFromAnyComp e pQuery w = WanMgr_RdkBus_GetParamValues e pQuery w"

definition WanMgr_isBridgeModeEnabled :: "env \<Rightarrow> world \<Rightarrow> bool \<times> world" where
  "WanMgr_isBridgeModeEnabled e w =
     (case WanMgr_RdkBus_GetParamValues e ''Device.X_CISCO_COM_DeviceControl.LanManagementEntry.1.LanMode'' w of
        (None, w) \<Rightarrow> (False, w)
      | (Some dmlValue, w) \<Rightarrow> (dmlValue \<in> {''bridge-dhcp'', ''bridge-static'', ''full-bridge-static''}, w))"

definition WanMgr_RdkBus_ConfigureVlan :: "env \<Rightarrow> vptr \<Rightarrow> bool \<Rightarrow> world \<Rightarrow> (ANSC_STATUS \<times> world) option" where
  "WanMgr_RdkBus_ConfigureVlan e q VlanEnable w = do {
     v \<leftarrow> virtif_at q w;
     (_, w) \<leftarrow> (if VlanEnable \<and> 1 < VLAN_NoOfInterfaceEntries (VI_VLAN v)
                then modify_virtif q (upd_VLAN (\<lambda>l. l\<lparr>VLAN_TimerStart := clock e 1\<rparr>)) w
                else Some ((), w));
     Some (WanMgr_RdkBus_SetParamValues e (take 255 (VLAN_VLANInUse (VI_VLAN v) @ ''.Enable''))
             (if VlanEnable then ''true'' else ''false'') w)
   }"

definition WanManager_ConfigurePPPSession :: "env \<Rightarrow> vptr \<Rightarrow> bool \<Rightarrow> world \<Rightarrow> (ANSC_STATUS \<times> world) option" where
  "WanManager_ConfigurePPPSession e q PPPEnable w = do {
     v \<leftarrow> virtif_at q w;
     let w = syscfg_set_commit SYSCFG_WAN_INTERFACE_NAME (VI_Name v) w;
     Some (WanMgr_RdkBus_SetParamValues e (take 255 (PPP_Interface (VI_PPP v) @ ''.Enable''))
             (if PPPEnable then ''true'' else ''false'') w)
   }"

definition WanMgr_GetSelectedIPMode :: "vptr \<Rightarrow> world \<Rightarrow> (unit \<times> world) option" where
  "WanMgr_GetSelectedIPMode q w = modify_virtif q (upd_IP (\<lambda>i. i\<lparr>IP_SelectedMode :=
     (if \<not> IP_ModeForceEnable i \<and>
         WanMgr_RdkBus_GetParamValuesFromDB ''Device.DeviceInfo.X_RDKCENTRAL-COM_RFC.Feature.IPModeEnable'' 256 w = Some ''1''
      then IP_PreferredMode i else DUAL_STACK_MODE)\<rparr>)) w"

definition DmlSetVLANInUseToPSMDB :: "env \<Rightarrow> vptr \<Rightarrow> world \<Rightarrow> (unit \<times> world) option" where
  "DmlSetVLANInUseToPSMDB e q w = do {
     v \<leftarrow> virtif_at q w;
     Some ((), snd (WanMgr_RdkBus_SetParamValuesToDB e
       (''dmsb.wanmanager.if.'' @ show_int (sint (VI_baseIfIdx v + 1)) @ ''.VirtualInterface.'' @
        show_int (sint (VI_VirIfIdx v + 1)) @ ''.VlanInUse'') (VLAN_VLANInUse (VI_VLAN v)) w))
   }"

subsection \<open>The IPv6 prefix of the LAN\<close>

datatype Ipv6OperType = DEL_ADDR | SET_LFT uint uint  \<comment> \<open>preferred and valid lifetime\<close>

text \<open>
  The bridge on which the prefix lives.  In bridge mode the interface's own name is copied into an array
  of 16 characters with its full length.
\<close>

definition prefix_iface :: "env \<Rightarrow> string \<Rightarrow> world \<Rightarrow> (string \<times> world) option" where
  "prefix_iface e ifname w =
     (case WanMgr_isBridgeModeEnabled e w of
        (False, w) \<Rightarrow> Some (LAN_BRIDGE_NAME, w)
      | (True, w) \<Rightarrow> if length ifname < 16 then Some (ifname, w) else None)"

definition WanManager_Ipv6PrefixUtil ::
  "build \<Rightarrow> env \<Rightarrow> string \<Rightarrow> Ipv6OperType \<Rightarrow> world \<Rightarrow> (unit \<times> world) option" where
  "WanManager_Ipv6PrefixUtil b e ifname opr w = do {
     let pfx = sysevent_read e 48 SYSEVENT_FIELD_IPV6_PREFIX w;
     let prefixAddr = sysevent_read e 48 ''lan_prefix_set'' w;
     (IfaceName, w) \<leftarrow> prefix_iface e ifname w;
     Some ((), case opr of
        DEL_ADDR \<Rightarrow>
          if pfx \<noteq> []
          then fold (WanManager_DoSystemAction e)
                 ((if XB6_PRODUCT b \<or> PLATFORM_RASPBERRYPI b then []
                   else [take 127 (''ip -6 addr del '' @ prefixAddr @ ''/64 dev '' @ IfaceName)]) @
                  [take 127 (''ip -6 route flush '' @ pfx @ '' ''), ''ip -6 route delete default'']) w
          else w
      | SET_LFT preflft vallft \<Rightarrow>
          if prefixAddr \<noteq> []
          then WanManager_DoSystemAction e
                 (take 127 (''ip -6 addr change '' @ prefixAddr @ '' dev '' @ IfaceName @ '' valid_lft '' @
                    show_int (sint vallft) @ '' preferred_lft '' @ show_int (sint preflft) @ '' '')) w
          else w)
   }"

text \<open>\<open>setUpLanPrefixIPv6\<close>: the LAN prefix is the site prefix with the length 64.\<close>

definition setUpLanPrefixIPv6 :: "env \<Rightarrow> vptr \<Rightarrow> world \<Rightarrow> (unit \<times> world) option" where
  "setUpLanPrefixIPv6 e q w = do {
     v \<leftarrow> virtif_at q w;
     let d = IP_Ipv6Data (VI_IP v);
     let w = sysevent_set SYSEVENT_CURRENT_WAN_IFNAME (V6_ifname d) w;
     (_, w) \<leftarrow> WanMgr_Configure_accept_ra q True w;
     let base = takeWhile (\<lambda>c. c \<noteq> CHR ''/'') (V6_sitePrefix d);
     Some ((), if base \<noteq> V6_sitePrefix d \<and> length base < 45
               then let lanPrefix = base @ ''/64'';
                        previousPrefix = sysevent_read e 48 SYSEVENT_FIELD_IPV6_PREFIX w;
                        vldtime = sysevent_read e 48 SYSEVENT_FIELD_IPV6_PREFIXVLTIME w;
                        prdtime = sysevent_read e 48 SYSEVENT_FIELD_IPV6_PREFIXPLTIME w;
                        w = (if previousPrefix = lanPrefix
                             then sysevents_set [(SYSEVENT_FIELD_PREVIOUS_IPV6_PREFIX, []),
                                    (SYSEVENT_FIELD_PREVIOUS_IPV6_PREFIXVLTIME, ''0''),
                                    (SYSEVENT_FIELD_PREVIOUS_IPV6_PREFIXPLTIME, ''0'')] w
                             else if previousPrefix \<noteq> []
                             then sysevents_set [(SYSEVENT_FIELD_PREVIOUS_IPV6_PREFIX, previousPrefix),
                                    (SYSEVENT_FIELD_PREVIOUS_IPV6_PREFIXVLTIME, vldtime),
                                    (SYSEVENT_FIELD_PREVIOUS_IPV6_PREFIXPLTIME, prdtime)] w
                             else w)
                    in sysevents_set [(SYSEVENT_FIELD_IPV6_PREFIX, lanPrefix),
                         (SYSEVENT_FIELD_TR_EROUTER_DHCPV6_CLIENT_PREFIX, V6_sitePrefix d)] w
               else w)
   }"

end
