(* ===== verification/WanStatus.thy ===== *)
theory WanStatus
  imports WanNet
begin

text \<open>
  The status the daemon reports (\<open>wanmgr_rdkbus_apis.c\<close>): \<open>WanMgr_Publish_WanStatus\<close> announces the status
  of one virtual interface, \<open>Update_Interface_Status\<close> rebuilds the summary of all of them, sorted by
  priority, in buffers of fixed size.  The build is the one with \<open>RBUS_BUILD_FLAG_ENABLE\<close> and
  \<open>WAN_MANAGER_UNIFICATION_ENABLED\<close>.
\<close>

subsection \<open>The status of one interface\<close>

fun wan_status_string :: "DML_WAN_IFACE_STATUS \<Rightarrow> string" where
  "wan_status_string WAN_IFACE_STATUS_INITIALISING = ''Initialising''"
| "wan_status_string WAN_IFACE_STATUS_VALIDATING = ''Validating''"
| "wan_status_string WAN_IFACE_STATUS_UP = ''Up''"
| "wan_status_string WAN_IFACE_STATUS_STANDBY = ''Up''"
| "wan_status_string WAN_IFACE_STATUS_VALID = ''Standby''"
| "wan_status_string WAN_IFACE_STATUS_INVALID = ''Invalid''"
| "wan_status_string WAN_IFACE_STATUS_DISABLED = ''Disabled''"

text \<open>The name of the parameter, and its name in the older data model, which is announced as well.\<close>

definition wan_status_name :: "uint \<Rightarrow> uint \<Rightarrow> string" where
  "wan_status_name IfaceIndex VirId =
     ''Device.X_RDK_WanManager.Interface.'' @ show_int (sint (IfaceIndex + 1)) @
     ''.VirtualInterface.'' @ show_int (sint (VirId + 1)) @ ''.Status''"

definition wan_status_name_V1 :: "uint \<Rightarrow> string" where
  "wan_status_name_V1 IfaceIndex =
     ''Device.X_RDK_WanManager.CPEInterface.'' @ show_int (sint (IfaceIndex + 1)) @ ''.Wan.Status''"

definition announce_status :: "uint \<Rightarrow> uint \<Rightarrow> DML_WAN_IFACE_STATUS \<Rightarrow> world \<Rightarrow> world" where
  "announce_status IfaceIndex VirId st w =
     emit (RbusPublish (wan_status_name_V1 IfaceIndex) (wan_status_string st))
       (emit (RbusPublish (wan_status_name IfaceIndex VirId) (wan_status_string st)) w)"

lemma announce_status_frame [simp]:
  "gWanMgrDataBase (announce_status i n st w) = gWanMgrDataBase w"
  "PrevWanStatus (announce_status i n st w) = PrevWanStatus w"
  by (simp_all add: announce_status_def)

definition set_PrevWanStatus :: "DML_WAN_IFACE_STATUS \<Rightarrow> world \<Rightarrow> world" where
  "set_PrevWanStatus st w = w\<lparr>PrevWanStatus := Some st\<rparr>"

definition WanMgr_Publish_WanStatus :: "uint \<Rightarrow> uint \<Rightarrow> world \<Rightarrow> (unit \<times> world) option" where
  "WanMgr_Publish_WanStatus IfaceIndex VirId w = do {
     (r, w) \<leftarrow> with_iface IfaceIndex None (\<lambda>k w. do {
        d \<leftarrow> iface_at k w;
        v \<leftarrow> WanMgr_getVirtualIfaceById (If_VirtIfList d) VirId;
        Some (Some (VI_Status v, If_WanStatusSub d), w)
     }) w;
     Some ((), case r of None \<Rightarrow> w
       | Some (tmpCurrWanStatus, tmpWanStatusSub) \<Rightarrow>
           if Some tmpCurrWanStatus = PrevWanStatus w then w
           else let w = set_PrevWanStatus tmpCurrWanStatus w
                in if tmpWanStatusSub \<noteq> 0
                   then announce_status IfaceIndex VirId tmpCurrWanStatus w
                   else w)
   }"

subsection \<open>The summary\<close>

record IFACE_INFO =
  II_Priority :: int
  II_AvailableStatus :: string
  II_ActiveStatus :: string
  II_CurrentActive :: string
  II_CurrentStandby :: string

text \<open>\<open>SortedInsert\<close>: before the first node whose priority is not smaller.\<close>

fun SortedInsert :: "IFACE_INFO list \<Rightarrow> IFACE_INFO \<Rightarrow> IFACE_INFO list" where
  "SortedInsert [] new_node = [new_node]"
| "SortedInsert (h # t) new_node =
     (if II_Priority new_node \<le> II_Priority h then new_node # h # t else h # SortedInsert t new_node)"

definition iface_info :: "DEVICE_NETWORKING_MODE \<Rightarrow> DML_WAN_IFACE \<Rightarrow> DML_VIRTUAL_IFACE \<Rightarrow> IFACE_INFO" where
  "iface_info devMode d v =
     (let flag = (\<lambda>b. take 63 (If_DisplayName d @ (if b then '',1'' else '',0'')));
          active = (Sel_Status (If_Selection d) = WAN_IFACE_ACTIVE);
          selected = (Sel_Status (If_Selection d) = WAN_IFACE_SELECTED)
      in \<lparr>II_Priority = Sel_Priority (If_Selection d),
          II_AvailableStatus = flag (If_BaseInterfaceStatus d = WAN_IFACE_PHY_STATUS_UP),
          II_ActiveStatus = flag (active \<and> VI_Status v = WAN_IFACE_STATUS_UP \<and>
            (If_IfaceType d = REMOTE_IFACE \<longrightarrow> VI_RemoteStatus v = WAN_IFACE_STATUS_UP)),
          II_CurrentActive = (if active then take 63 (if devMode = GATEWAY_MODE then VI_Name v else MESH_IFNAME) else []),
          II_CurrentStandby = (if selected then take 63 (VI_Name v) else [])\<rparr>)"

text \<open>The virtual interfaces of one enabled interface, in the order of their instances.\<close>

fun add_virtifs ::
  "DEVICE_NETWORKING_MODE \<Rightarrow> DML_WAN_IFACE \<Rightarrow> nat list \<Rightarrow> IFACE_INFO list \<times> string \<Rightarrow> (IFACE_INFO list \<times> string) option" where
  "add_virtifs devMode d [] s = Some s"
| "add_virtifs devMode d (i # is) (head, CurrentWanStatus) = do {
     v \<leftarrow> WanMgr_getVirtualIfaceById (If_VirtIfList d) (of_nat i);
     add_virtifs devMode d is
       (SortedInsert head (iface_info devMode d v),
        if Sel_Status (If_Selection d) = WAN_IFACE_ACTIVE
        then (if VI_Status v = WAN_IFACE_STATUS_UP then ''Up'' else ''Down'') else CurrentWanStatus)
   }"

definition iface_infos ::
  "env \<Rightarrow> DEVICE_NETWORKING_MODE \<Rightarrow> uint \<Rightarrow> world \<Rightarrow> ((IFACE_INFO list \<times> string) \<times> world) option" where
  "iface_infos e devMode TotalIfaces w =
     for_loop [0..<unat TotalIfaces] (\<lambda>i s w. continue (with_iface (of_nat i) s (\<lambda>k w. do {
       d \<leftarrow> iface_at k w;
       if Sel_Enable (If_Selection d)
       then (if malloc_ok e (out w)
             then do {
               s \<leftarrow> add_virtifs devMode d [0..<unat (If_NoOfVirtIfs d)] s;
               Some (s, w)
             }
             else None)
       else Some (s, w)
     }) w)) ([], ''Down'') w"

text \<open>
  \<open>strcat\<close> of the entries of the list into an array of 64 characters; a longer text runs over the end of
  the array.
\<close>

fun strcat_all :: "string \<Rightarrow> string list \<Rightarrow> string \<Rightarrow> string option" where
  "strcat_all sep [] buf = Some buf"
| "strcat_all sep (s # ss) buf =
     (let buf = (if buf \<noteq> [] \<and> s \<noteq> [] then buf @ sep else buf) @ s
      in if length buf < 64 then strcat_all sep ss buf else None)"

text \<open>
  The loop of \<open>Update_Current_ActiveDNS\<close>: a line without a token, and \<open>nameserver\<close> without an address,
  are used through a NULL pointer; the addresses go into an array of 256 characters.
\<close>

fun dns_lines :: "string list \<Rightarrow> string \<Rightarrow> string option" where
  "dns_lines [] dns = Some dns"
| "dns_lines (buf # rest) dns = do {
     (token, s) \<leftarrow> strtok (CHR '' '') buf;
     if token = ''nameserver''
     then do {
       (token, _) \<leftarrow> strtok (CHR '' '') s;
       let addr = (if last token = CHR 0x0A then butlast token else token);
       let dns = (if dns \<noteq> [] then dns @ '','' else dns) @ addr;
       if length dns < 256 then dns_lines rest dns else None
     }
     else dns_lines rest dns
   }"

abbreviation (input) "RESOLV_CONF_FILE \<equiv> ''/etc/resolv.conf''"

definition Update_Current_ActiveDNS :: "env \<Rightarrow> world \<Rightarrow> string option option" where
  "Update_Current_ActiveDNS e w =
     (case read_file e (out w) RESOLV_CONF_FILE of
        None \<Rightarrow> Some None
      | Some contents \<Rightarrow> map_option Some (dns_lines (fgets_lines 64 contents) []))"

record summary =
  S_Available :: string
  S_Active :: string
  S_CurrentActive :: string
  S_CurrentStandby :: string
  S_Status :: string

definition summarise :: "IFACE_INFO list \<times> string \<Rightarrow> summary option" where
  "summarise s = do {
     a \<leftarrow> strcat_all '','' (map II_CurrentActive (fst s)) [];
     b \<leftarrow> strcat_all '','' (map II_CurrentStandby (fst s)) [];
     c \<leftarrow> strcat_all ''|'' (map II_AvailableStatus (fst s)) [];
     d \<leftarrow> strcat_all ''|'' (map II_ActiveStatus (fst s)) [];
     Some \<lparr>S_Available = c, S_Active = d, S_CurrentActive = a, S_CurrentStandby = b, S_Status = snd s\<rparr>
   }"

text \<open>The critical section that stores the summary, and what is to be published after it.\<close>

definition store_summary :: "build \<Rightarrow> summary \<Rightarrow> string option \<Rightarrow> world \<Rightarrow> (string \<times> string) list \<times> world" where
  "store_summary b s dns = with_config [] (\<lambda>w.
     let c = config w;
         dns_changed = (case dns of None \<Rightarrow> False | Some x \<Rightarrow> Cfg_CurrentActiveDNS c \<noteq> x);
         active_changed = (S_CurrentActive s \<noteq> [] \<and> Cfg_CurrentActiveInterface c \<noteq> S_CurrentActive s);
         w = (if dns_changed \<and> TELEMETRY2 b then emit (TelemetryEvent (Some ''SYS_INFO_DNS_updated'')) w else w);
         w = (if Cfg_CurrentStatus c \<noteq> S_Status s
              then emit (RbusPublish ''Device.X_RDK_WanManager.CurrentStatus'' (S_Status s)) w else w);
         w = upd_config (\<lambda>c. c\<lparr>Cfg_InterfaceAvailableStatus := S_Available s,
               Cfg_InterfaceActiveStatus := S_Active s,
               Cfg_CurrentActiveDNS := (case dns of None \<Rightarrow> Cfg_CurrentActiveDNS c | Some x \<Rightarrow> x),
               Cfg_CurrentActiveInterface :=
                 (if S_CurrentActive s \<noteq> [] then S_CurrentActive s else Cfg_CurrentActiveInterface c),
               Cfg_CurrentStatus := S_Status s,
               Cfg_CurrentStandbyInterface := S_CurrentStandby s\<rparr>) w
     in ((if active_changed then [(''Device.X_RDK_WanManager.CurrentActiveInterface'', S_CurrentActive s)] else []) @
         (if Cfg_CurrentStandbyInterface c \<noteq> S_CurrentStandby s
          then [(''Device.X_RDK_WanManager.CurrentStandbyInterface'', S_CurrentStandby s)] else []) @
         (if Cfg_InterfaceAvailableStatus c \<noteq> S_Available s
          then [(''Device.X_RDK_WanManager.InterfaceAvailableStatus'', S_Available s)] else []) @
         (if Cfg_InterfaceActiveStatus c \<noteq> S_Active s
          then [(''Device.X_RDK_WanManager.InterfaceActiveStatus'', S_Active s)] else []) @
         (if dns_changed then [(''Device.X_RDK_WanManager.CurrentActiveDNS'', the dns)] else []), w))"

definition Update_Interface_Status :: "build \<Rightarrow> env \<Rightarrow> world \<Rightarrow> (unit \<times> world) option" where
  "Update_Interface_Status b e w = do {
     let (devMode, w) = with_config GATEWAY_MODE (\<lambda>w. (Cfg_DeviceNwMode (config w), w)) w;
     let (TotalIfaces, w) = WanMgr_IfaceData_GetTotalWanIface w;
     (infos, w) \<leftarrow> iface_infos e devMode TotalIfaces w;
     s \<leftarrow> summarise infos;
     dns \<leftarrow> Update_Current_ActiveDNS e w;
     let (events, w) = store_summary b s dns w;
     Some ((), fold (\<lambda>(name, val). emit (RbusPublish name val)) events w)
   }"

end
