(* ===== verification/WanDhcpEvents.thy ===== *)
theory WanDhcpEvents
  imports WanStatus
begin

text \<open>
  The messages of the DHCP clients as the interface state machine consumes them:
  \<open>wanmgr_handle_dhcpv4_event_data\<close>, the two sources that make up an IPv4 message themselves (the
  cellular manager and the PPP manager, \<open>wanmgr_dhcpv4_apis.c\<close>), \<open>wanmgr_handle_dhcpv6_event_data\<close>
  (\<open>wanmgr_dhcpv6_apis.c\<close>), and \<open>WanManager_UpdateInterfaceStatus\<close> (\<open>wanmgr_interface_sm.c\<close>); the controller
  record of the machine and the access to its virtual interface.
\<close>

subsection \<open>The controller of an interface state machine\<close>

record WanMgr_IfaceSM_Controller_t =
  SC_WanEnable :: bool
  SC_interfaceIdx :: int
  SC_VirIfIdx :: int
  SC_pIfaceData :: "nat option"
  SC_eCurrentState :: eWanState_t
  SC_DeviceNwMode :: DEVICE_NETWORKING_MODE
  SC_DeviceNwModeChanged :: bool

type_synonym sm_ctrl = WanMgr_IfaceSM_Controller_t

text \<open>
  The start of the functions of the machine: they work on the virtual interface \<open>VirIfIdx\<close> of the
  interface \<open>pIfaceData\<close> points to, without a test that there is one; most of them return \<open>d\<close> when
  \<open>pIfaceData\<close> is NULL.  The body gets the interface, the pointer \<open>p_VirtIf\<close> and what it points to.
\<close>

definition sm_deref ::
  "(DML_WAN_IFACE \<Rightarrow> vptr \<Rightarrow> DML_VIRTUAL_IFACE \<Rightarrow> world \<Rightarrow> ('r \<times> world) option) \<Rightarrow>
   sm_ctrl \<Rightarrow> world \<Rightarrow> ('r \<times> world) option" where
  "sm_deref body c w = do {
     k \<leftarrow> SC_pIfaceData c;
     i \<leftarrow> iface_at k w;
     j \<leftarrow> virtif_position (If_VirtIfList i) (idx_uint (SC_VirIfIdx c));
     v \<leftarrow> virtif_at (k, j) w;
     body i (k, j) v w
   }"

definition sm_access ::
  "'r \<Rightarrow> (DML_WAN_IFACE \<Rightarrow> vptr \<Rightarrow> DML_VIRTUAL_IFACE \<Rightarrow> world \<Rightarrow> ('r \<times> world) option) \<Rightarrow>
   sm_ctrl \<Rightarrow> world \<Rightarrow> ('r \<times> world) option" where
  "sm_access d body c w = (if SC_pIfaceData c = None then Some (d, w) else sm_deref body c w)"

subsection \<open>The status of the connections\<close>

datatype wanmgr_iface_status_t =
    WANMGR_IFACE_LINK_UP | WANMGR_IFACE_LINK_DOWN | WANMGR_IFACE_CONNECTION_UP
  | WANMGR_IFACE_CONNECTION_DOWN | WANMGR_IFACE_CONNECTION_IPV6_UP | WANMGR_IFACE_CONNECTION_IPV6_DOWN
  | WANMGR_IFACE_MAPT_START | WANMGR_IFACE_MAPT_STOP | WANMGR_IFACE_STATUS_ERROR

definition connection_down :: "DML_VIRTUAL_IFACE \<Rightarrow> DML_VIRTUAL_IFACE" where
  "connection_down = upd_IP (\<lambda>i. i\<lparr>IP_Ipv4Status := WAN_IFACE_IPV4_STATE_DOWN, IP_Ipv4Changed := False,
     IP_Ipv4Renewed := False, IP_Ipv4Data := (IP_Ipv4Data i)\<lparr>V4_ip := []\<rparr>\<rparr>)"

definition connection_ipv6_down :: "DML_VIRTUAL_IFACE \<Rightarrow> DML_VIRTUAL_IFACE" where
  "connection_ipv6_down v =
     upd_MAP (\<lambda>m. m\<lparr>MAP_MaptStatus := WAN_IFACE_MAPT_STATE_DOWN, MAP_MaptChanged := False\<rparr>)
      (upd_IP (\<lambda>i. i\<lparr>IP_Ipv6Status := WAN_IFACE_IPV6_STATE_DOWN, IP_Ipv6Changed := False,
         IP_Ipv6Renewed := False, IP_Ipv6Data := (IP_Ipv6Data i)
           \<lparr>V6_address := [], V6_pdIfAddress := [], V6_sitePrefix := [], V6_nameserver := [],
            V6_nameserver1 := []\<rparr>\<rparr>) v)"

definition WanManager_UpdateInterfaceStatus ::
  "vptr \<Rightarrow> wanmgr_iface_status_t \<Rightarrow> world \<Rightarrow> (unit \<times> world) option" where
  "WanManager_UpdateInterfaceStatus q iface_status w =
     (case iface_status of
        WANMGR_IFACE_CONNECTION_UP \<Rightarrow>
          modify_virtif q (upd_IP (\<lambda>i. i\<lparr>IP_Ipv4Status := WAN_IFACE_IPV4_STATE_UP\<rparr>)) w
      | WANMGR_IFACE_CONNECTION_DOWN \<Rightarrow> modify_virtif q connection_down w
      | WANMGR_IFACE_CONNECTION_IPV6_UP \<Rightarrow>
          modify_virtif q (upd_IP (\<lambda>i. i\<lparr>IP_Ipv6Status := WAN_IFACE_IPV6_STATE_UP\<rparr>)) w
      | WANMGR_IFACE_CONNECTION_IPV6_DOWN \<Rightarrow> do {
          (_, w) \<leftarrow> modify_virtif q connection_ipv6_down w;
          Some ((), wanmgr_sysevents_ipv6Info_init w)
        }
      | _ \<Rightarrow> Some ((), w))"

text \<open>\<open>WanMgr_Rbus_EventPublishHandler\<close> on a parameter of a virtual interface.\<close>

definition publish_vif :: "DML_VIRTUAL_IFACE \<Rightarrow> string \<Rightarrow> string \<Rightarrow> world \<Rightarrow> world" where
  "publish_vif v param val = emit (RbusPublish
     (''Device.X_RDK_WanManager.Interface.'' @ show_int (sint (VI_baseIfIdx v + 1)) @ ''.VirtualInterface.'' @
      show_int (sint (VI_VirIfIdx v + 1)) @ param) val)"

subsection \<open>IPv4 messages\<close>

definition wanmgr_dchpv4_get_ipc_msg_info :: "WANMGR_IPV4_DATA \<Rightarrow> ipc_dhcpv4_data_t \<Rightarrow> WANMGR_IPV4_DATA" where
  "wanmgr_dchpv4_get_ipc_msg_info d m = d
     \<lparr>V4_ifname := I4_dhcpcInterface m, V4_ip := I4_ip m, V4_mask := I4_mask m, V4_gateway := I4_gateway m,
      V4_dnsServer := I4_dnsServer m, V4_dnsServer1 := I4_dnsServer1 m,
      V4_mtuSize := (if I4_mtuAssigned m \<and> I4_mtuSize m \<noteq> 0 then I4_mtuSize m
                     else WANMNGR_INTERFACE_DEFAULT_MTU_SIZE)\<rparr>"

definition ipv4_config_changed :: "WANMGR_IPV4_DATA \<Rightarrow> ipc_dhcpv4_data_t \<Rightarrow> bool" where
  "ipv4_config_changed d m \<longleftrightarrow> V4_ip d \<noteq> I4_ip m \<or> V4_mask d \<noteq> I4_mask m \<or> V4_gateway d \<noteq> I4_gateway m \<or>
     V4_dnsServer d \<noteq> I4_dnsServer m \<or> V4_dnsServer1 d \<noteq> I4_dnsServer1 m"

definition free_msg4 :: "DML_VIRTUAL_IFACE \<Rightarrow> DML_VIRTUAL_IFACE" where
  "free_msg4 = upd_IP (\<lambda>i. i\<lparr>IP_pIpcIpv4Data := None\<rparr>)"

definition ipv4_renewed_events :: "ipc_dhcpv4_data_t \<Rightarrow> world \<Rightarrow> world" where
  "ipv4_renewed_events m = sysevents_set
     ([(ipv4_key 64 (I4_dhcpcInterface m) ''ds_current_rate_0'', show_int (I4_downstreamCurrRate m)),
       (ipv4_key 64 (I4_dhcpcInterface m) ''us_current_rate_0'', show_int (I4_upstreamCurrRate m)),
       (ipv4_key 64 (I4_dhcpcInterface m) ''lease_time'', show_int (sint (I4_leaseTime m)))] @
      (if I4_isTimeOffsetAssigned m
       then [(''ipv4-timeoffset'', CHR ''@'' # show_int (I4_timeOffset m)), (''dhcpv4_time_offset'', ''set'')]
       else []) @
      [(''ipv4_timezone'', I4_timeZone m)])"

definition ifconfig_ipv4 :: "env \<Rightarrow> WANMGR_IPV4_DATA \<Rightarrow> string" where
  "ifconfig_ipv4 e d = take 255 (''ifconfig '' @ V4_ifname d @ '' '' @ V4_ip d @ '' netmask '' @ V4_mask d @
     '' broadcast '' @ WanManager_GetBCastFromIpSubnetMask e (V4_ip d) (V4_mask d) @ '' mtu '' @
     show_nat (unat (V4_mtuSize d)))"

text \<open>A message that assigns an address: the lease is stored, the address set on the interface.\<close>

definition ipv4_assigned ::
  "env \<Rightarrow> vptr \<Rightarrow> ipc_dhcpv4_data_t \<Rightarrow> bool \<Rightarrow> nat \<Rightarrow> world \<Rightarrow> (unit \<times> world) option" where
  "ipv4_assigned e q m IPv4ConfigChanged up_time w = do {
     (_, w) \<leftarrow> (if IPv4ConfigChanged
                then modify_virtif q (upd_IP (\<lambda>i. i\<lparr>IP_Ipv4Changed := True\<rparr>))
                       (wanmgr_sysevents_ipv4Info_set m (I4_dhcpcInterface m) w)
                else modify_virtif q (upd_IP (\<lambda>i. i\<lparr>IP_Ipv4Renewed := True\<rparr>)) (ipv4_renewed_events m w));
     (_, w) \<leftarrow> modify_virtif q (upd_IP (\<lambda>i. i\<lparr>IP_Ipv4Data :=
                 (wanmgr_dchpv4_get_ipc_msg_info (IP_Ipv4Data i) m)\<lparr>V4_leaseReceivedTime := of_nat up_time\<rparr>\<rparr>)) w;
     v \<leftarrow> virtif_at q w;
     let w = WanManager_DoSystemAction e (ifconfig_ipv4 e (IP_Ipv4Data (VI_IP v))) w;
     let w = (if PPP_Enable (VI_PPP v) then WanManager_AddGatewayRoute e (IP_Ipv4Data (VI_IP v)) w else w);
     WanManager_UpdateInterfaceStatus q WANMGR_IFACE_CONNECTION_UP w
   }"

definition wanmgr_handle_dhcpv4_event_data :: "env \<Rightarrow> vptr \<Rightarrow> world \<Rightarrow> (unit \<times> world) option" where
  "wanmgr_handle_dhcpv4_event_data e q w = do {
     v \<leftarrow> virtif_at q w;
     (case IP_pIpcIpv4Data (VI_IP v) of
        None \<Rightarrow> Some ((), w)
      | Some m \<Rightarrow>
          if I4_gateway m = ''0.0.0.0''
          then modify_virtif q (\<lambda>v. let v = free_msg4 v
                 in if VI_Status v \<noteq> WAN_IFACE_STATUS_STANDBY \<and> VI_Status v \<noteq> WAN_IFACE_STATUS_UP
                    then v\<lparr>VI_Status := WAN_IFACE_STATUS_VALID\<rparr> else v) w
          else do {
            let changed = ipv4_config_changed (IP_Ipv4Data (VI_IP v)) m;
            (_, w) \<leftarrow> modify_virtif q (upd_IP (\<lambda>i. if changed then i\<lparr>IP_RestartConnectivityCheck := True\<rparr> else i)) w;
            let up_time = WanManager_getUpTime e w;
            let w = sysevent_set (ipv4_key 64 (I4_dhcpcInterface m) ''start_time'') (show_nat up_time) w;
            (_, w) \<leftarrow> (if I4_addressAssigned m then ipv4_assigned e q m changed up_time w
                       else if I4_isExpired m
                       then do {
                         (_, w) \<leftarrow> modify_virtif q (upd_IP (\<lambda>i. i\<lparr>IP_Ipv4Data :=
                                     wanmgr_dchpv4_get_ipc_msg_info (IP_Ipv4Data i) m\<rparr>)) w;
                         WanManager_UpdateInterfaceStatus q WANMGR_IFACE_CONNECTION_DOWN w
                       }
                       else Some ((), w));
            v \<leftarrow> virtif_at q w;
            let w = (if changed then publish_vif v ''.IP.IPv4Address'' (V4_ip (IP_Ipv4Data (VI_IP v))) w else w);
            modify_virtif q free_msg4 w
          })
   }"

subsection \<open>The cellular manager\<close>

definition upd_msg4 :: "(ipc_dhcpv4_data_t \<Rightarrow> ipc_dhcpv4_data_t) \<Rightarrow> DML_VIRTUAL_IFACE \<Rightarrow> DML_VIRTUAL_IFACE" where
  "upd_msg4 f = upd_IP (\<lambda>i. i\<lparr>IP_pIpcIpv4Data := map_option f (IP_pIpcIpv4Data i)\<rparr>)"

definition no_address :: "ipc_dhcpv4_data_t \<Rightarrow> ipc_dhcpv4_data_t" where
  "no_address m = m\<lparr>I4_dhcpState := ''Down'', I4_addressAssigned := False\<rparr>"

text \<open>
  The queries one after the other: the parameter, what its value does to the message, and what an empty
  value does.  A failing query ends the function; the result says whether all of them were answered.
\<close>

type_synonym msg_query =
  "string \<times> (string \<Rightarrow> ipc_dhcpv4_data_t \<Rightarrow> ipc_dhcpv4_data_t) \<times> (ipc_dhcpv4_data_t \<Rightarrow> ipc_dhcpv4_data_t)"

fun fill_message :: "env \<Rightarrow> vptr \<Rightarrow> msg_query list \<Rightarrow> world \<Rightarrow> (bool \<times> world) option" where
  "fill_message e q [] w = Some (True, w)"
| "fill_message e q ((param, store, blank) # rest) w =
     (case WanMgr_RdkBus_GetParamValues e param w of
        (None, w) \<Rightarrow> Some (False, w)
      | (Some val, w) \<Rightarrow> do {
          (_, w) \<leftarrow> modify_virtif q (upd_msg4 (if val \<noteq> [] then store val else blank)) w;
          fill_message e q rest w
        })"

definition cellular_queries :: "string \<Rightarrow> string \<Rightarrow> msg_query list" where
  "cellular_queries BaseInterface Name =
     (let param = (\<lambda>s. take 255 (BaseInterface @ ''.X_RDK_ContextProfile.1.'' @ s)) in
      [(param ''Ipv4Adress'', \<lambda>s m. m\<lparr>I4_ip := take 32 s\<rparr>, no_address),
       (param ''Ipv4Gateway'', \<lambda>s m. m\<lparr>I4_gateway := take 32 s\<rparr>, no_address),
       (param ''Ipv4PrimaryDns'', \<lambda>s m. m\<lparr>I4_dnsServer := take 64 s\<rparr>, no_address),
       (param ''Ipv4SecondaryDns'', \<lambda>s m. m\<lparr>I4_dnsServer1 := take 64 s, I4_dhcpcInterface := Name\<rparr>,
          \<lambda>m. m\<lparr>I4_dhcpcInterface := Name\<rparr>),
       (param ''Ipv4SubnetMask'', \<lambda>s m. m\<lparr>I4_mask := take 32 s\<rparr>, no_address),
       (param ''MtuSize'', \<lambda>s m. m\<lparr>I4_mtuSize := word_of_int (strtol10 s), I4_mtuAssigned := True\<rparr>, no_address)])"

text \<open>The order that makes the DHCPv6 client take over the address the modem has got.\<close>

definition quoted :: "string \<Rightarrow> string" where
  "quoted s = CHR 0x27 # s @ [CHR 0x27]"

definition dibbler_add :: "string \<Rightarrow> string" where
  "dibbler_add addr =
     (let nul = quoted [CHR 0x5C, CHR ''0''] @ '' '' in
      take 511 (''dibbler-client add '' @ quoted (take 127 addr) @ '' '' @ quoted ''1'' @ '' '' @
        nul @ nul @ nul @ nul @ nul @ ''0 '' @ quoted ''1'' @ '' '' @ nul @ nul @ quoted ''3600'' @ '' '' @
        quoted ''7200'' @ '' '' @ quoted []))"

definition cellular_ipv6 :: "env \<Rightarrow> string \<Rightarrow> world \<Rightarrow> world" where
  "cellular_ipv6 e BaseInterface w =
     (case WanMgr_RdkBus_GetParamValues e (take 255 (BaseInterface @ ''.X_RDK_ContextProfile.1.Ipv6Address'')) w of
        (None, w) \<Rightarrow> w
      | (Some val, w) \<Rightarrow>
          if val \<noteq> [] \<and> open_ok e (out w) ''/tmp/ccsp_common_fifo''
          then emit (WriteFile ''/tmp/ccsp_common_fifo'' (dibbler_add val)) w else w)"

text \<open>
  \<open>WanMgr_UpdateIpFromCellularMgr\<close>.  A failing query leaves the message as far as it is filled in
  \<open>pIpcIpv4Data\<close>, with the flag that an address is assigned.
\<close>

definition WanMgr_UpdateIpFromCellularMgr :: "env \<Rightarrow> sm_ctrl \<Rightarrow> world \<Rightarrow> (unit \<times> world) option" where
  "WanMgr_UpdateIpFromCellularMgr e c w =
     sm_deref (\<lambda>d q v w. do {
          (go_on, w) \<leftarrow>
            (if IP_pIpcIpv4Data (VI_IP v) = None \<and> IP_Ipv4Status (VI_IP v) = WAN_IFACE_IPV4_STATE_DOWN \<and>
                malloc_ok e (out w)
             then do {
               (_, w) \<leftarrow> modify_virtif q (upd_IP (\<lambda>i. i\<lparr>IP_pIpcIpv4Data :=
                           Some (zero_ipc4\<lparr>I4_addressAssigned := True\<rparr>)\<rparr>)) w;
               (answered, w) \<leftarrow> fill_message e q (cellular_queries (If_BaseInterface d) (take 63 (VI_Name v))) w;
               if answered
               then do {
                 (_, w) \<leftarrow> wanmgr_handle_dhcpv4_event_data e q w;
                 Some (True, w)
               }
               else Some (False, w)
             }
             else Some (True, w));
          Some ((), if go_on then cellular_ipv6 e (If_BaseInterface d) w else w)
        }) c w"

subsection \<open>The PPP manager\<close>

text \<open>\<open>sscanf(s, "%*[^0-9]%d", &index)\<close> with \<open>index\<close> initially -1.\<close>

definition ppp_index :: "string \<Rightarrow> int" where
  "ppp_index s =
     (let digits = dropWhile (\<lambda>ch. \<not> isdigit_c ch) s
      in if digits = s then -1 else case sscanf_d digits of None \<Rightarrow> -1 | Some v \<Rightarrow> v)"

definition ppp_ipcp :: "int \<Rightarrow> string \<Rightarrow> string" where
  "ppp_ipcp index s = take 255 (''Device.PPP.Interface.'' @ show_int index @ ''.IPCP.'' @ s)"

text \<open>The name servers: the first entry as it is, the second only if it is an address.\<close>

definition ppp_dns :: "string \<Rightarrow> ipc_dhcpv4_data_t \<Rightarrow> ipc_dhcpv4_data_t" where
  "ppp_dns servers m =
     (case strtok (CHR '','') servers of
        None \<Rightarrow> m
      | Some (token, rest) \<Rightarrow>
          let m = m\<lparr>I4_dnsServer := take 63 token\<rparr>
          in case strtok (CHR '','') rest of
               None \<Rightarrow> m
             | Some (token, _) \<Rightarrow> if IsValidIpv4Address token then m\<lparr>I4_dnsServer1 := take 63 token\<rparr> else m)"

definition IPCPStateChangeHandler :: "env \<Rightarrow> vptr \<Rightarrow> world \<Rightarrow> (unit \<times> world) option" where
  "IPCPStateChangeHandler e q w = do {
     v \<leftarrow> virtif_at q w;
     if IP_pIpcIpv4Data (VI_IP v) \<noteq> None then Some ((), w)
     else do {
       let index = ppp_index (PPP_Interface (VI_PPP v));
       (case WanMgr_RdkBus_GetParamValues e (ppp_ipcp index ''LocalIPAddress'') w of
          (None, w) \<Rightarrow> Some ((), w)
        | (Some localIPAddr, w) \<Rightarrow>
            (case WanMgr_RdkBus_GetParamValues e (ppp_ipcp index ''RemoteIPAddress'') w of
               (None, w) \<Rightarrow> Some ((), w)
             | (Some remoteIPAddr, w) \<Rightarrow>
                 if \<not> IsValidIpv4Address localIPAddr \<or> \<not> IsValidIpv4Address remoteIPAddr
                 then modify_virtif q (upd_PPP (\<lambda>p. p\<lparr>PPP_IPCPStatus := WAN_IFACE_IPCP_STATUS_DOWN,
                        PPP_IPV6CPStatus := WAN_IFACE_IPV6CP_STATUS_DOWN\<rparr>)) w
                 else if \<not> malloc_ok e (out w) then None
                 else do {
                   (_, w) \<leftarrow> modify_virtif q (upd_IP (\<lambda>i. i\<lparr>IP_pIpcIpv4Data := Some (zero_ipc4
                               \<lparr>I4_addressAssigned := True, I4_dhcpState := ''Up'', I4_ip := take 31 localIPAddr,
                                I4_gateway := take 31 remoteIPAddr\<rparr>)\<rparr>)) w;
                   (_, w) \<leftarrow> modify_virtif q (upd_PPP (\<lambda>p. p\<lparr>PPP_IPCPStatus := WAN_IFACE_IPCP_STATUS_UP,
                               PPP_IPV6CPStatus := WAN_IFACE_IPV6CP_STATUS_UP\<rparr>)) w;
                   (case WanMgr_RdkBus_GetParamValues e (ppp_ipcp index ''DNSServers'') w of
                      (None, w) \<Rightarrow> Some ((), w)
                    | (Some servers, w) \<Rightarrow>
                        modify_virtif q (upd_msg4 (\<lambda>m. (ppp_dns servers m)
                          \<lparr>I4_dhcpcInterface := take 63 (VI_Name v), I4_mask := ''255.255.255.255''\<rparr>)) w)
                 }))
     }
   }"

subsection \<open>IPv6 addresses of an interface\<close>

text \<open>The tokens of a line: \<open>strtok_r\<close> again and again; \<open>acc\<close> is the token being read.\<close>

fun tokens :: "char \<Rightarrow> string \<Rightarrow> string \<Rightarrow> string list" where
  "tokens d [] acc = (if acc = [] then [] else [acc])"
| "tokens d (c # cs) acc =
     (if c = d then (if acc = [] then tokens d cs [] else acc # tokens d cs []) else tokens d cs (acc @ [c]))"

text \<open>\<open>strtoul(s, NULL, 16)\<close> of a string of hexadecimal digits.\<close>

definition hex_digit :: "char \<Rightarrow> nat option" where
  "hex_digit c =
     (let n = (of_char c :: nat)
      in if 48 \<le> n \<and> n \<le> 57 then Some (n - 48) else if 97 \<le> n \<and> n \<le> 102 then Some (n - 87)
         else if 65 \<le> n \<and> n \<le> 70 then Some (n - 55) else None)"

definition strtoul16 :: "string \<Rightarrow> nat" where
  "strtoul16 s = fold (\<lambda>c v. 16 * v + the (hex_digit c)) (takeWhile (\<lambda>c. hex_digit c \<noteq> None) s) 0"

text \<open>Four digits, a colon, four digits, and so on.\<close>

fun colons :: "nat \<Rightarrow> string \<Rightarrow> string" where
  "colons i [] = []"
| "colons i (c # cs) = (if i = 4 then CHR '':'' # c # colons 1 cs else c # colons (Suc i) cs)"

text \<open>
  \<open>getIfAddr6\<close> over the lines of \<open>/proc/net/if_inet6\<close>: the entry number \<open>addrIdx\<close> of the interface, as the
  address, the prefix length and the scope.  The last character of every line is cut off.
\<close>

fun if_addr6 :: "string \<Rightarrow> nat \<Rightarrow> nat \<Rightarrow> string list \<Rightarrow> (string \<times> nat \<times> nat) option" where
  "if_addr6 ifname addrIdx cnt [] = None"
| "if_addr6 ifname addrIdx cnt (line # lines) =
     (if \<not> strstr (butlast line) ifname then if_addr6 ifname addrIdx cnt lines
      else case tokens (CHR '' '') (butlast line) [] of
        addr # ifidx # plen # scp # flags # devname # _ \<Rightarrow>
          if devname \<noteq> ifname then if_addr6 ifname addrIdx cnt lines
          else if cnt = addrIdx then Some (colons 0 addr, strtoul16 plen, strtoul16 scp)
          else if_addr6 ifname addrIdx (Suc cnt) lines
      | _ \<Rightarrow> None)"

definition getIfAddr6 :: "env \<Rightarrow> string \<Rightarrow> nat \<Rightarrow> world \<Rightarrow> (string \<times> nat \<times> nat) option" where
  "getIfAddr6 e ifname addrIdx w =
     (case read_file e (out w) ''/proc/net/if_inet6'' of
        None \<Rightarrow> None
      | Some contents \<Rightarrow> if_addr6 ifname addrIdx 0 (fgets_lines 64 contents))"

text \<open>
  \<open>WanManager_getGloballyUniqueIfAddr6\<close> asks for entry 0, 1, \<open>\<dots>\<close> until there is none or one has the
  scope 0.  The list of the numbers to try is one longer than the file has lines, so it never runs out.
\<close>

fun global_addr6 :: "env \<Rightarrow> string \<Rightarrow> nat list \<Rightarrow> world \<Rightarrow> (string \<times> nat) option" where
  "global_addr6 e ifname [] w = None"
| "global_addr6 e ifname (addrIdx # rest) w =
     (case getIfAddr6 e ifname addrIdx w of
        None \<Rightarrow> None
      | Some (ipAddr, prefixLen, scope) \<Rightarrow>
          if scope = 0 then Some (ipAddr, prefixLen) else global_addr6 e ifname rest w)"

definition WanManager_getGloballyUniqueIfAddr6 :: "env \<Rightarrow> string \<Rightarrow> world \<Rightarrow> (string \<times> nat) option" where
  "WanManager_getGloballyUniqueIfAddr6 e ifname w =
     (let n = (case read_file e (out w) ''/proc/net/if_inet6'' of
                 None \<Rightarrow> 0 | Some contents \<Rightarrow> length (fgets_lines 64 contents))
      in global_addr6 e ifname [0..<n + 1] w)"

subsection \<open>IPv6 messages\<close>

abbreviation (input) "IFADDRCONF_ADD \<equiv> (0 :: uint)"
abbreviation (input) "SYSCFG_FIELD_IPV6_ADDRESS \<equiv> ''wan_ipv6addr''"
abbreviation (input) "SYSCFG_FIELD_IPV6_PREFIX \<equiv> ''ipv6_prefix''"
abbreviation (input) "SYSCFG_FIELD_PREVIOUS_IPV6_PREFIX \<equiv> ''previousipv6_prefix''"

definition wanmgr_dchpv6_get_ipc_msg_info :: "WANMGR_IPV6_DATA \<Rightarrow> ipc_dhcpv6_data_t \<Rightarrow> WANMGR_IPV6_DATA" where
  "wanmgr_dchpv6_get_ipc_msg_info d m = d
     \<lparr>V6_ifname := I6_ifname m, V6_address := I6_address m, V6_pdIfAddress := I6_pdIfAddress m,
      V6_nameserver := I6_nameserver m, V6_nameserver1 := I6_nameserver1 m, V6_domainName := I6_domainName m,
      V6_sitePrefix := I6_sitePrefix m, V6_prefixPltime := I6_prefixPltime m,
      V6_prefixVltime := I6_prefixVltime m, V6_sitePrefixOld := I6_sitePrefixOld m\<rparr>"

definition free_msg6 :: "DML_VIRTUAL_IFACE \<Rightarrow> DML_VIRTUAL_IFACE" where
  "free_msg6 = upd_IP (\<lambda>i. i\<lparr>IP_pIpcIpv6Data := None\<rparr>)"

text \<open>The address: the result says whether the message connects the interface.\<close>

definition ipv6_address :: "WANMGR_IPV6_DATA \<Rightarrow> ipc_dhcpv6_data_t \<Rightarrow> world \<Rightarrow> bool \<times> world" where
  "ipv6_address d m w =
     (if I6_addrAssigned m
      then if I6_addrCmd m = IFADDRCONF_ADD
           then (True, if V6_address d \<noteq> I6_address m
                       then syscfg_set_commit SYSCFG_FIELD_IPV6_ADDRESS (I6_address m) w else w)
           else (False, syscfg_set_commit SYSCFG_FIELD_IPV6_ADDRESS [] w)
      else (False, w))"

text \<open>
  The prefix of a message that adds one.  The site prefix lies in an array of 48 characters; the part
  before the slash gets a 1 for the address of the LAN bridge, and the length 64.
\<close>

definition ipv6_prefix_add :: "WANMGR_IPV6_DATA \<Rightarrow> ipc_dhcpv6_data_t \<Rightarrow> world \<Rightarrow> world" where
  "ipv6_prefix_add d m w =
     (let w = (if V6_prefixVltime d \<noteq> I6_prefixVltime m
               then sysevent_set SYSEVENT_FIELD_IPV6_PREFIXVLTIME (show_int (sint (I6_prefixVltime m))) w else w);
          w = (if V6_prefixPltime d \<noteq> I6_prefixPltime m
               then sysevent_set SYSEVENT_FIELD_IPV6_PREFIXPLTIME (show_int (sint (I6_prefixPltime m))) w else w);
          w = (if V6_sitePrefixOld d \<noteq> I6_sitePrefixOld m
               then syscfg_set_commit SYSCFG_FIELD_PREVIOUS_IPV6_PREFIX (I6_sitePrefixOld m) w else w);
          w = (if V6_sitePrefix d \<noteq> I6_sitePrefix m
               then syscfg_set_commit SYSCFG_FIELD_IPV6_PREFIX (I6_sitePrefix m) w else w);
          base = takeWhile (\<lambda>c. c \<noteq> CHR ''/'') (take 47 (I6_sitePrefix m));
          pdIfAddress = take 47 (base @ ''1/64'')
      in if base = take 47 (I6_sitePrefix m) then w
         else let w = (if V6_pdIfAddress d \<noteq> pdIfAddress
                       then sysevent_set ''tr_brlan0_dhcpv6_server_v6addr'' (base @ ''1'')
                              (syscfg_set_commit SYSCFG_FIELD_IPV6_PREFIX_ADDRESS pdIfAddress w) else w)
              in if V6_sitePrefix d \<noteq> I6_sitePrefix m
                 then sysevent_set SYSEVENT_FIELD_IPV6_PREFIX (base @ ''/64'') w else w)"

definition ipv6_prefix :: "vptr \<Rightarrow> WANMGR_IPV6_DATA \<Rightarrow> ipc_dhcpv6_data_t \<Rightarrow> world \<Rightarrow> (bool \<times> world) option" where
  "ipv6_prefix q d m w =
     (if I6_prefixAssigned m \<and> I6_sitePrefix m \<noteq> []
      then if I6_prefixCmd m = IFADDRCONF_ADD \<and> I6_prefixPltime m \<noteq> 0 \<and> I6_prefixVltime m \<noteq> 0
           then Some (True, ipv6_prefix_add d m w)
           else if V6_sitePrefix d = I6_sitePrefix m
           then do {
             let w = syscfg_set_commit SYSCFG_FIELD_IPV6_PREFIX_ADDRESS []
                       (syscfg_set_commit SYSCFG_FIELD_PREVIOUS_IPV6_PREFIX []
                         (syscfg_set_commit SYSCFG_FIELD_IPV6_PREFIX [] w));
             (_, w) \<leftarrow> WanManager_UpdateInterfaceStatus q WANMGR_IFACE_CONNECTION_IPV6_DOWN w;
             Some (False, w)
           }
           else Some (False, w)
      else Some (False, w))"

text \<open>
  Without an assigned address the kernel may have one from a router advertisement: its text with the
  prefix length is compared and stored, the address itself goes into the new lease.
\<close>

definition ipv6_slaac ::
  "env \<Rightarrow> string \<Rightarrow> WANMGR_IPV6_DATA \<Rightarrow> ipc_dhcpv6_data_t \<Rightarrow> WANMGR_IPV6_DATA \<Rightarrow> world \<Rightarrow>
   (bool \<times> WANMGR_IPV6_DATA) \<times> world" where
  "ipv6_slaac e Name d m new w =
     (if I6_addrAssigned m then ((False, new), w)
      else case WanManager_getGloballyUniqueIfAddr6 e Name w of
        None \<Rightarrow> ((False, new), w)
      | Some (guAddr, prefixLen) \<Rightarrow>
          let guAddrPrefix = guAddr @ ''/'' @ show_nat prefixLen
          in if V6_address d \<noteq> guAddrPrefix
             then ((True, new\<lparr>V6_address := take 47 guAddr\<rparr>),
                   syscfg_set_commit SYSCFG_FIELD_IPV6_ADDRESS guAddrPrefix w)
             else ((True, new), w))"

definition ipv6_changed :: "WANMGR_IPV6_DATA \<Rightarrow> WANMGR_IPV6_DATA \<Rightarrow> bool" where
  "ipv6_changed new d \<longleftrightarrow>
     (V6_address new \<noteq> [] \<and> V6_address new \<noteq> V6_address d) \<or>
     (V6_pdIfAddress new \<noteq> [] \<and> V6_pdIfAddress new \<noteq> V6_pdIfAddress d) \<or>
     (V6_sitePrefix new \<noteq> [] \<and> V6_sitePrefix new \<noteq> V6_sitePrefix d) \<or>
     V6_nameserver new \<noteq> V6_nameserver d \<or> V6_nameserver1 new \<noteq> V6_nameserver1 d"

definition ipv6_connected ::
  "build \<Rightarrow> env \<Rightarrow> vptr \<Rightarrow> ipc_dhcpv6_data_t \<Rightarrow> WANMGR_IPV6_DATA \<Rightarrow> world \<Rightarrow> (unit \<times> world) option" where
  "ipv6_connected b e q m new w = do {
     v \<leftarrow> virtif_at q w;
     (_, w) \<leftarrow>
       (if ipv6_changed new (IP_Ipv6Data (VI_IP v))
        then modify_virtif q (upd_IP (\<lambda>i. i\<lparr>IP_Ipv6Changed := True, IP_RestartConnectivityCheck := True\<rparr>))
               (publish_vif v ''.IP.IPv6Prefix'' (V6_sitePrefix new)
                 (publish_vif v ''.IP.IPv6Address'' (V6_address new) w))
        else do {
          (_, w) \<leftarrow>
            (if VI_Status v = WAN_IFACE_STATUS_UP \<and> 0 < I6_prefixPltime m \<and> 0 < I6_prefixVltime m \<and>
                \<not> XB6_PRODUCT b \<and> \<not> PLATFORM_RASPBERRYPI b
             then do {
               (_, w) \<leftarrow> WanManager_Ipv6PrefixUtil b e (VI_Name v) (SET_LFT (I6_prefixPltime m) (I6_prefixVltime m)) w;
               Some ((), sysevent_set SYSEVENT_RADVD_RESTART [] w)
             }
             else Some ((), w));
          modify_virtif q (upd_IP (\<lambda>i. i\<lparr>IP_Ipv6Renewed := True\<rparr>)) w
        });
     modify_virtif q (upd_IP (\<lambda>i. i\<lparr>IP_Ipv6Data := new, IP_Ipv6Status := WAN_IFACE_IPV6_STATE_UP\<rparr>)) w
   }"

text \<open>
  \<open>pDhcp6cInfoCur\<close> points into the virtual interface: what the removal of the prefix clears is compared
  as cleared afterwards.
\<close>

definition wanmgr_handle_dhcpv6_event_data :: "build \<Rightarrow> env \<Rightarrow> vptr \<Rightarrow> world \<Rightarrow> (unit \<times> world) option" where
  "wanmgr_handle_dhcpv6_event_data b e q w = do {
     v \<leftarrow> virtif_at q w;
     (case IP_pIpcIpv6Data (VI_IP v) of
        None \<Rightarrow> Some ((), w)
      | Some m \<Rightarrow>
          if I6_isExpired m
          then do {
            (_, w) \<leftarrow> WanManager_UpdateInterfaceStatus q WANMGR_IFACE_CONNECTION_IPV6_DOWN w;
            modify_virtif q free_msg6 w
          }
          else do {
            let new = wanmgr_dchpv6_get_ipc_msg_info zero_Ipv6Data m;
            let (addr, w) = ipv6_address (IP_Ipv6Data (VI_IP v)) m w;
            (pfx, w) \<leftarrow> ipv6_prefix q (IP_Ipv6Data (VI_IP v)) m w;
            v \<leftarrow> virtif_at q w;
            let d = IP_Ipv6Data (VI_IP v);
            let w = (if I6_domainNameAssigned m \<and> I6_domainName m \<noteq> [] \<and> V6_domainName d \<noteq> I6_domainName m
                     then sysevent_set ''ipv6_domain'' (I6_domainName m) w else w);
            let ((slaac, new), w) = ipv6_slaac e (VI_Name v) d m new w;
            (_, w) \<leftarrow> (if addr \<or> pfx \<or> slaac then ipv6_connected b e q m new w else Some ((), w));
            modify_virtif q free_msg6 w
          })
   }"

end
