(* ===== verification/WanConnection.thy ===== *)
theory WanConnection
  imports WanDhcpEvents
begin

text \<open>
  What the interface state machine does to bring a connection up and down (the helpers of
  \<open>wanmgr_interface_sm.c\<close>): the search for an existing link, the name servers, the IPv4 and IPv6 set-up and
  tear-down, the connectivity check, the supervision of the DHCP clients.  A status is a \<open>bool\<close>, true for
  \<open>RETURN_OK\<close>; results the callers ignore are dropped.
\<close>

abbreviation (input) "SYSEVENT_FIELD_IPV4_DNS_PRIMARY \<equiv> ''ipv4_dns_0''"
abbreviation (input) "SYSEVENT_FIELD_IPV4_DNS_SECONDARY \<equiv> ''ipv4_dns_1''"
abbreviation (input) "SYSEVENT_FIELD_IPV6_DNS_PRIMARY \<equiv> ''ipv6_dns_0''"
abbreviation (input) "SYSEVENT_FIELD_IPV6_DNS_SECONDARY \<equiv> ''ipv6_dns_1''"

subsection \<open>An existing link\<close>

text \<open>\<open>dmValue\<close> keeps the answer of the cellular manager when the last query fails.\<close>

definition WanMgr_RestartFindExistingLink :: "env \<Rightarrow> sm_ctrl \<Rightarrow> world \<Rightarrow> (unit \<times> world) option" where
  "WanMgr_RestartFindExistingLink e c w = sm_deref (\<lambda>d q v w. do {
     (dmValue, w) \<leftarrow>
       (if strstr (If_BaseInterface d) ''Cellular''
        then (case WanMgr_RdkBus_GetParamValueFromAnyComp e
                     (take 254 (If_BaseInterface d @ ''.X_RDK_LinkAvailableStatus'')) w of
                (None, w) \<Rightarrow> Some ([], w)
              | (Some dmValue, w) \<Rightarrow> do {
                  (_, w) \<leftarrow> (if dmValue = ''true''
                             then modify_virtif q (\<lambda>v. (upd_VLAN (\<lambda>l. l\<lparr>VLAN_Status := WAN_IFACE_LINKSTATUS_UP\<rparr>) v)
                                    \<lparr>VI_Name := ''wwan0''\<rparr>) w
                             else Some ((), w));
                  Some (dmValue, w)
                })
        else Some ([], w));
     (_, w) \<leftarrow>
       (if PPP_Enable (VI_PPP v) \<and> PPP_Interface (VI_PPP v) \<noteq> []
        then (case WanMgr_RdkBus_GetParamValueFromAnyComp e (take 254 (PPP_Interface (VI_PPP v) @ ''.Status'')) w of
                (None, w) \<Rightarrow> Some ((), w)
              | (Some ppp_Status, w) \<Rightarrow>
                  if ppp_Status = ''Up''
                  then modify_virtif q (upd_PPP (\<lambda>p. p\<lparr>PPP_LinkStatus := WAN_IFACE_PPP_LINK_STATUS_UP,
                         PPP_IPV6CPStatus := WAN_IFACE_IPV6CP_STATUS_UP\<rparr>)) w
                  else Some ((), w))
        else Some ((), w));
     if VLAN_Enable (VI_VLAN v) \<and> VLAN_VLANInUse (VI_VLAN v) \<noteq> []
     then do {
       let (answer, w) = WanMgr_RdkBus_GetParamValueFromAnyComp e
             (take 254 (VLAN_VLANInUse (VI_VLAN v) @ ''.Status'')) w;
       if (case answer of None \<Rightarrow> dmValue | Some x \<Rightarrow> x) = ''Up''
       then do {
         (_, w) \<leftarrow> modify_virtif q (upd_VLAN (\<lambda>l. l\<lparr>VLAN_Status := WAN_IFACE_LINKSTATUS_UP\<rparr>)) w;
         v \<leftarrow> virtif_at q w;
         Some ((), Force_IPv6_toggle (VI_Name v) w)
       }
       else Some ((), w)
     }
     else Some ((), w)
   }) c w"

subsection \<open>Name servers\<close>

definition nameserver_line :: "string \<Rightarrow> string" where
  "nameserver_line addr = ''nameserver '' @ addr @ [CHR 0x0A]"

abbreviation (input) "LOOPBACK_LINE \<equiv> nameserver_line ''127.0.0.1 ''"

text \<open>
  The two IPv4 name servers: the sysevents of the interface and of the router, the lines for
  \<open>resolv.conf\<close>.  Only when both are valid the number of servers is announced.
\<close>

definition dns_ipv4 :: "env \<Rightarrow> DML_VIRTUAL_IFACE \<Rightarrow> bool \<Rightarrow> world \<Rightarrow> string list \<times> world" where
  "dns_ipv4 e v addIPv4 w =
     (let key = ipv4_key 128 (VI_Name v);
          d = IP_Ipv4Data (VI_IP v);
          ok1 = (addIPv4 \<and> IsValidDnsServer e False (V4_dnsServer d) w);
          ok2 = (addIPv4 \<and> IsValidDnsServer e False (V4_dnsServer1 d) w);
          srv = (\<lambda>ok s. if ok then s else [])
      in (map nameserver_line ((if ok1 then [V4_dnsServer d] else []) @ (if ok2 then [V4_dnsServer1 d] else [])),
          sysevents_set
            ([(key ''dns_0'', srv ok1 (V4_dnsServer d)), (SYSEVENT_FIELD_IPV4_DNS_PRIMARY, srv ok1 (V4_dnsServer d)),
              (key ''dns_1'', srv ok2 (V4_dnsServer1 d)), (SYSEVENT_FIELD_IPV4_DNS_SECONDARY, srv ok2 (V4_dnsServer1 d))] @
             (if ok1 \<and> ok2 then [(key ''dns_number'', ''2'')] else [])) w))"

definition dns_ipv6_server :: "env \<Rightarrow> string \<Rightarrow> string \<Rightarrow> bool \<Rightarrow> world \<Rightarrow> string list \<times> world" where
  "dns_ipv6_server e field server addIPv6 w =
     (if addIPv6 \<and> IsValidDnsServer e True server w
      then ([nameserver_line server], sysevent_set field server w)
      else ([], sysevent_set field [] w))"

text \<open>\<open>resolv.conf\<close> has been opened for writing: its new contents appear when it is closed.\<close>

definition write_resolv_conf :: "bool \<Rightarrow> string \<Rightarrow> world \<Rightarrow> world" where
  "write_resolv_conf opened contents w = (if opened then emit (WriteFile RESOLV_CONF_FILE contents) w else w)"

definition wan_updateDNS :: "build \<Rightarrow> env \<Rightarrow> sm_ctrl \<Rightarrow> bool \<Rightarrow> bool \<Rightarrow> world \<Rightarrow> (bool \<times> world) option" where
  "wan_updateDNS b e c addIPv4 addIPv6 = sm_access False (\<lambda>d q v w.
     let opened = (SC_DeviceNwMode c = GATEWAY_MODE) in
     if XB6_PRODUCT b \<and> strstr (If_AliasName d) ''REMOTE'' then Some (True, w)
     else if opened \<and> \<not> open_ok e (out w) RESOLV_CONF_FILE then Some (False, w)
     else if \<not> addIPv4 \<and> \<not> addIPv6
     then do {
       let key = ipv4_key 128 (VI_Name v);
       let w = write_resolv_conf opened LOOPBACK_LINE (sysevents_set
             [(key ''dns_0'', []), (SYSEVENT_FIELD_IPV4_DNS_PRIMARY, []), (key ''dns_1'', []),
              (SYSEVENT_FIELD_IPV4_DNS_SECONDARY, []), (SYSEVENT_FIELD_IPV6_DNS_PRIMARY, []),
              (SYSEVENT_FIELD_IPV6_DNS_SECONDARY, [])] w);
       (_, w) \<leftarrow> (if opened then Update_Interface_Status b e w else Some ((), w));
       Some (True, sysevent_set SYSEVENT_DHCP_SERVER_RESTART [] w)
     }
     else do {
       let d4 = IP_Ipv4Data (VI_IP v);
       let d6 = IP_Ipv6Data (VI_IP v);
       let same = (V4_dnsServer d4 = sysevent_read e 64 SYSEVENT_FIELD_IPV4_DNS_PRIMARY w \<and>
             V4_dnsServer1 d4 = sysevent_read e 64 SYSEVENT_FIELD_IPV4_DNS_SECONDARY w \<and>
             V6_nameserver d6 = sysevent_read e 128 SYSEVENT_FIELD_IPV6_DNS_PRIMARY w \<and>
             V6_nameserver1 d6 = sysevent_read e 128 SYSEVENT_FIELD_IPV6_DNS_SECONDARY w);
       let (l4, w) = dns_ipv4 e v addIPv4 w;
       let (l6, w) = dns_ipv6_server e SYSEVENT_FIELD_IPV6_DNS_PRIMARY (V6_nameserver d6) addIPv6 w;
       let (l6', w) = dns_ipv6_server e SYSEVENT_FIELD_IPV6_DNS_SECONDARY (V6_nameserver1 d6) addIPv6 w;
       let lines = l4 @ l6 @ l6';
       let w = (if same then w else sysevent_set SYSEVENT_DHCP_SERVER_RESTART [] w);
       let w = write_resolv_conf opened (concat (if lines = [] then [LOOPBACK_LINE] else lines)) w;
       if opened
       then do {
         let (_, w) = with_config () (\<lambda>w. ((), if XB6_PRODUCT b then upd_config (\<lambda>c. c\<lparr>Cfg_CurrentActiveDNS := []\<rparr>) w
                                            else w)) w;
         (_, w) \<leftarrow> Update_Interface_Status b e w;
         Some (True, w)
       }
       else Some (True, w)
     }) c"

subsection \<open>Is the IPv6 address of the LAN ready?\<close>

text \<open>At most 15 looks at the tentative addresses of the bridge, a second apart.\<close>

fun dad_wait :: "env \<Rightarrow> string \<Rightarrow> nat \<Rightarrow> world \<Rightarrow> world" where
  "dad_wait e IfaceName 0 w = w"
| "dad_wait e IfaceName (Suc n) w =
     (let cmd = ''ip address show dev '' @ IfaceName @ '' tentative'';
          w = emit (System cmd) w
      in case popen_lines e (out w) cmd of
           None \<Rightarrow> dad_wait e IfaceName n w
         | Some lines \<Rightarrow> if lines = [] then w else dad_wait e IfaceName n w)"

definition checkIpv6LanAddressIsReadyToUse :: "env \<Rightarrow> vptr \<Rightarrow> world \<Rightarrow> (bool \<times> world) option" where
  "checkIpv6LanAddressIsReadyToUse e q w = do {
     v \<leftarrow> virtif_at q w;
     let (bridge, w) = WanMgr_isBridgeModeEnabled e w;
     let w = dad_wait e (if bridge then take 15 (VI_Name v) else LAN_BRIDGE_NAME) 15 w;
     let w = emit (System ''ip -6 ro | grep default'') w;
     if popen_lines e (out w) ''ip -6 ro | grep default'' \<in> {None, Some []}
     then do {
       (_, w) \<leftarrow> WanManager_send_and_receive_rs e q w;
       Some (False, w)
     }
     else Some (True, w)
   }"

subsection \<open>The voice manager\<close>

text \<open>Is there no \<open>VOIP\<close> interface among these?  A missing one is dereferenced.\<close>

fun no_voip :: "DML_VIRTUAL_IFACE list \<Rightarrow> nat list \<Rightarrow> bool option" where
  "no_voip vs [] = Some True"
| "no_voip vs (i # is) = do {
     v \<leftarrow> WanMgr_getVirtualIfaceById vs (of_nat i);
     if VI_Alias v = ''VOIP'' then Some False else no_voip vs is
   }"

definition updateInterfaceToVoiceManager :: "env \<Rightarrow> sm_ctrl \<Rightarrow> bool \<Rightarrow> world \<Rightarrow> (unit \<times> world) option" where
  "updateInterfaceToVoiceManager e c voip_started = sm_access () (\<lambda>d q v w. do {
     isUpdate \<leftarrow> (if VI_Alias v = ''VOIP'' then Some True
                  else if VI_Alias v = ''DATA'' then no_voip (If_VirtIfList d) [0..<unat (If_NoOfVirtIfs d)]
                  else Some False);
     Some ((), if isUpdate
               then snd (WanMgr_RdkBus_SetParamValues e ''Device.Services.VoiceService.1.X_RDK_BoundIfName''
                      (if voip_started then take 32 (VI_Name v) else []) w)
               else w)
   }) c"

subsection \<open>The connectivity check\<close>

definition WanMgr_StartConnectivityCheck :: "env \<Rightarrow> sm_ctrl \<Rightarrow> world \<Rightarrow> (unit \<times> world) option" where
  "WanMgr_StartConnectivityCheck e c = sm_access () (\<lambda>d q v w.
     let i = VI_IP v in
     if IP_ConnectivityCheckRunning i \<and> \<not> IP_RestartConnectivityCheck i then Some ((), w)
     else if IP_ConnectivityCheckType i = WAN_CONNECTIVITY_TYPE_TAD
     then do {
       (_, w) \<leftarrow> WanMgr_Configure_TAD_WCC e q
                  (if IP_ConnectivityCheckRunning i \<and> IP_RestartConnectivityCheck i then WCC_RESTART else WCC_START) w;
       modify_virtif q (upd_IP (\<lambda>i. i\<lparr>IP_ConnectivityCheckRunning := True\<rparr>)) w
     }
     else Some ((), w)) c"

definition WanMgr_StopConnectivityCheck :: "env \<Rightarrow> sm_ctrl \<Rightarrow> world \<Rightarrow> (unit \<times> world) option" where
  "WanMgr_StopConnectivityCheck e c = sm_access () (\<lambda>d q v w.
     if \<not> IP_ConnectivityCheckRunning (VI_IP v) then Some ((), w)
     else do {
       (_, w) \<leftarrow> (if IP_ConnectivityCheckType (VI_IP v) = WAN_CONNECTIVITY_TYPE_TAD
                  then do { (_, w) \<leftarrow> WanMgr_Configure_TAD_WCC e q WCC_STOP w; Some ((), w) }
                  else Some ((), w));
       modify_virtif q (upd_IP (\<lambda>i. i\<lparr>IP_ConnectivityCheckRunning := False\<rparr>)) w
     }) c"

definition WanMgr_SendMsgTo_ConnectivityCheck :: "env \<Rightarrow> sm_ctrl \<Rightarrow> world \<Rightarrow> (unit \<times> world) option" where
  "WanMgr_SendMsgTo_ConnectivityCheck e c = sm_access () (\<lambda>d q v w.
     if \<not> IP_ConnectivityCheckRunning (VI_IP v) then WanMgr_StartConnectivityCheck e c w else Some ((), w)) c"

subsection \<open>IPv4 up and down\<close>

definition wan_deconfigIPv4onInterface :: "env \<Rightarrow> sm_ctrl \<Rightarrow> world \<Rightarrow> (unit \<times> world) option" where
  "wan_deconfigIPv4onInterface e c = sm_access () (\<lambda>d q v w.
     Some ((), WanManager_DoSystemAction e (take 255 (''ifconfig '' @ VI_Name v @ '' 0.0.0.0'')) w)) c"

text \<open>The first connection starts the services of the router.\<close>

definition touch_wan_started :: "env \<Rightarrow> world \<Rightarrow> world" where
  "touch_wan_started e w =
     (let w = v_secure_system ''touch /var/wan_started'' w
      in if access_ok e (out w) ''/tmp/.postd_started'' then w
         else v_secure_system ''touch /tmp/.postd_started; execute_dir /etc/utopia/post.d/'' w)"

definition set_wan_physical_ifname :: "string \<Rightarrow> world \<Rightarrow> world" where
  "set_wan_physical_ifname ifname w =
     (if ifname \<noteq> [] then syscfg_set_commit SYSCFG_WAN_INTERFACE_NAME ifname w else w)"

definition wan_setUpIPv4 :: "build \<Rightarrow> env \<Rightarrow> sm_ctrl \<Rightarrow> world \<Rightarrow> (bool \<times> world) option" where
  "wan_setUpIPv4 b e c = sm_access False (\<lambda>d q v w. do {
     let v4 = IP_Ipv4Data (VI_IP v);
     let w = wanmgr_set_Ipv4Sysevent b e v4 (SC_DeviceNwMode c) w;
     (ret, w) \<leftarrow> wan_updateDNS b e c True (IP_Ipv6Status (VI_IP v) = WAN_IFACE_IPV6_STATE_UP) w;
     let w = WanManager_AddDefaultGatewayRoute e (SC_DeviceNwMode c) v4 w;
     let w = sysevents_set [(SYSEVENT_IPV4_CONNECTION_STATE, WAN_STATUS_UP),
           (''current_ipv4_link_state'', WAN_STATUS_UP), (SYSEVENT_CURRENT_WAN_IPADDR, V4_ip v4),
           (''current_wan_subnet'', V4_mask v4), (''current_wan_state'', WAN_STATUS_UP)] w;
     let w = sysevent_set ''wan_start_time'' (show_nat (WanManager_getUpTime e w)) w;
     let w = v_secure_system ''sysctl -w net.ipv4.ip_forward=1'' w;
     let w = (if strstr (If_BaseInterface d) ''Ethernet'' then sysevent_set ''ethwan-initialized'' ''1'' w else w);
     let w = (if sysevent_read e 32 SYSEVENT_WAN_STATUS w \<noteq> WAN_STATUS_STARTED \<and> If_IfaceType d \<noteq> REMOTE_IFACE
              then WanManager_PrintBootEvents WAN_INIT_COMPLETE
                     (wanmgr_services_restart (set_wan_physical_ifname (V4_ifname v4)
                       (sysevents_set [(SYSEVENT_WAN_SERVICE_STATUS, WAN_STATUS_STARTED),
                          (SYSEVENT_WAN_STATUS, WAN_STATUS_STARTED)] (touch_wan_started e w))))
              else w);
     let w = sysevent_set SYSEVENT_FIREWALL_RESTART [] w;
     (_, w) \<leftarrow> WanMgr_StartConnectivityCheck e c w;
     Some (ret, w)
   }) c"

text \<open>\<open>stop_wan_status\<close>: the last connection that goes down stops the services.\<close>

definition stop_wan_status :: "env \<Rightarrow> bool \<Rightarrow> world \<Rightarrow> world" where
  "stop_wan_status e other_down w =
     (if sysevent_read e 32 SYSEVENT_WAN_STATUS w \<noteq> WAN_STATUS_STOPPED \<and> other_down
      then sysevents_set [(SYSEVENT_WAN_STATUS, WAN_STATUS_STOPPED),
             (SYSEVENT_WAN_SERVICE_STATUS, WAN_STATUS_STOPPED)] w
      else w)"

definition wan_tearDownIPv4 :: "build \<Rightarrow> env \<Rightarrow> sm_ctrl \<Rightarrow> world \<Rightarrow> (bool \<times> world) option" where
  "wan_tearDownIPv4 b e c = sm_access False (\<lambda>d q v w. do {
     (ret, w) \<leftarrow>
       (if (XB6_PRODUCT b \<or> PLATFORM_RASPBERRYPI b) \<and>
           \<not> (MAP_MaptStatus (VI_MAP v) = WAN_IFACE_MAPT_STATE_UP \<and> \<not> strstr (If_BaseInterface d) ''Ethernet'')
        then Some (True, w)
        else wan_updateDNS b e c False (IP_Ipv6Status (VI_IP v) = WAN_IFACE_IPV6_STATE_UP) w);
     let w = WanManager_DelDefaultGatewayRoute e (SC_DeviceNwMode c) (SC_DeviceNwModeChanged c) w;
     let w = sysevents_set [(SYSEVENT_IPV4_CONNECTION_STATE, WAN_STATUS_DOWN),
           (''current_ipv4_link_state'', WAN_STATUS_DOWN), (''current_wan_state'', WAN_STATUS_DOWN),
           (''wan_start_time'', ''0''), (SYSEVENT_CURRENT_WAN_IPADDR, ''0.0.0.0''),
           (''current_wan_subnet'', ''255.255.255.0''), (SYSEVENT_FIREWALL_RESTART, [])] w;
     let w = (if strstr (If_BaseInterface d) ''Ethernet'' then sysevent_set ''ethwan-initialized'' ''0'' w else w);
     Some (ret, stop_wan_status e (IP_Ipv6Status (VI_IP v) = WAN_IFACE_IPV6_STATE_DOWN) w)
   }) c"

subsection \<open>IPv6 up and down\<close>

definition wan_setUpIPv6 :: "build \<Rightarrow> env \<Rightarrow> sm_ctrl \<Rightarrow> world \<Rightarrow> (bool \<times> world) option" where
  "wan_setUpIPv6 b e c = sm_access False (\<lambda>d q v w. do {
     let v6 = IP_Ipv6Data (VI_IP v);
     (ret, w) \<leftarrow> wan_updateDNS b e c (IP_Ipv4Status (VI_IP v) = WAN_IFACE_IPV4_STATE_UP) True w;
     let w = sysevents_set [(SYSEVENT_IPV6_CONNECTION_STATE, WAN_STATUS_UP), (SYSEVENT_RADVD_RESTART, []),
           (SYSEVENT_DHCP_SERVER_RESTART, []), (SYSEVENT_FIREWALL_RESTART, [])] w;
     let w = (if sysevent_read e 32 SYSEVENT_WAN_STATUS w \<noteq> WAN_STATUS_STARTED \<and> If_IfaceType d \<noteq> REMOTE_IFACE
              then let w = WanManager_PrintBootEvents WAN_INIT_COMPLETE (touch_wan_started e w);
                       w = sysevents_set
                             ([(SYSEVENT_WAN_SERVICE_STATUS, WAN_STATUS_STARTED),
                               (SYSEVENT_WAN_STATUS, WAN_STATUS_STARTED), (''ipv6-status'', WAN_STATUS_UP),
                               (''wan6_ipaddr'', V6_address v6),
                               (''ipv6_nameserver'', take 127 (V6_nameserver v6 @ '' '' @ V6_nameserver1 v6))] @
                              (if V6_ipv6_TimeOffset v6 \<noteq> 0
                               then [(''ipv6-timeoffset'', show_int (sint (V6_ipv6_TimeOffset v6)))] else []) @
                              [(SYSEVENT_CURRENT_WAN_IFNAME, V6_ifname v6)]) w;
                       w = wanmgr_services_restart (set_wan_physical_ifname (V6_ifname v6) w)
                   in if XB6_PRODUCT b \<or> PLATFORM_RASPBERRYPI b then w else set_eth_wan_mac e (V6_ifname v6) w
              else w);
     (_, w) \<leftarrow> WanMgr_StartConnectivityCheck e c w;
     Some (ret, w)
   }) c"

definition wan_tearDownIPv6 :: "build \<Rightarrow> env \<Rightarrow> sm_ctrl \<Rightarrow> world \<Rightarrow> (bool \<times> world) option" where
  "wan_tearDownIPv6 b e c = sm_access False (\<lambda>d q v w. do {
     (ret, w) \<leftarrow> (if XB6_PRODUCT b \<or> PLATFORM_RASPBERRYPI b then Some (True, w)
                   else wan_updateDNS b e c (IP_Ipv4Status (VI_IP v) = WAN_IFACE_IPV4_STATE_UP) False w);
     (_, w) \<leftarrow> WanManager_Ipv6PrefixUtil b e (VI_Name v) DEL_ADDR w;
     let previousPrefix = sysevent_read e 48 SYSEVENT_FIELD_IPV6_PREFIX w;
     let vldtime = sysevent_read e 48 SYSEVENT_FIELD_IPV6_PREFIXVLTIME w;
     let prdtime = sysevent_read e 48 SYSEVENT_FIELD_IPV6_PREFIXPLTIME w;
     let w = sysevents_set
           ((if previousPrefix \<noteq> []
             then [(SYSEVENT_FIELD_PREVIOUS_IPV6_PREFIX, previousPrefix),
                   (SYSEVENT_FIELD_PREVIOUS_IPV6_PREFIXVLTIME, vldtime),
                   (SYSEVENT_FIELD_PREVIOUS_IPV6_PREFIXPLTIME, prdtime)] else []) @
            [(SYSEVENT_FIELD_IPV6_PREFIX, []), (SYSEVENT_FIELD_TR_EROUTER_DHCPV6_CLIENT_PREFIX, []),
             (SYSEVENT_IPV6_CONNECTION_STATE, WAN_STATUS_DOWN), (''lan_prefix_set'', []),
             (SYSEVENT_FIREWALL_RESTART, [])]) w;
     Some (ret, stop_wan_status e (IP_Ipv4Status (VI_IP v) = WAN_IFACE_IPV4_STATE_DOWN \<and>
       MAP_MaptStatus (VI_MAP v) = WAN_IFACE_MAPT_STATE_DOWN) w)
   }) c"

subsection \<open>Supervision of the DHCP clients\<close>

text \<open>A client that could not be started, or one that was started and has died.\<close>

definition client_dead :: "env \<Rightarrow> int \<Rightarrow> world \<Rightarrow> bool" where
  "client_dead e pid w \<longleftrightarrow> pid = -1 \<or> 0 < pid \<and> \<not> WanMgr_IsPIDRunning e pid w"

text \<open>When a change of the configuration of the clients has been carried out.\<close>

definition refresh_done :: "DML_WANIFACE_IP \<Rightarrow> bool" where
  "refresh_done i \<longleftrightarrow>
     (let v4 = (IP_Dhcp4cStatus i = DHCPC_STARTED); v6 = (IP_Dhcp6cStatus i = DHCPC_STARTED)
      in (IP_IPv6Source i \<noteq> DML_WAN_IP_SOURCE_DHCP \<or> IP_Mode i = DML_WAN_IP_MODE_NO_IP) \<and> \<not> v4 \<and> \<not> v6 \<or>
         IP_Mode i = DML_WAN_IP_MODE_IPV6_ONLY \<and> \<not> v4 \<and> v6 \<or>
         IP_Mode i = DML_WAN_IP_MODE_IPV4_ONLY \<and> v4 \<and> \<not> v6 \<or>
         IP_Mode i = DML_WAN_IP_MODE_DUAL_STACK \<and> v4 \<and> v6)"

definition restart_dhcpv4 :: "env \<Rightarrow> DML_VIRTUAL_IFACE \<Rightarrow> world \<Rightarrow> bool" where
  "restart_dhcpv4 e v w \<longleftrightarrow> IP_Mode (VI_IP v) \<in> {DML_WAN_IP_MODE_IPV4_ONLY, DML_WAN_IP_MODE_DUAL_STACK} \<and>
     IP_IPv4Source (VI_IP v) = DML_WAN_IP_SOURCE_DHCP \<and> \<not> PPP_Enable (VI_PPP v) \<and>
     MAP_MaptStatus (VI_MAP v) = WAN_IFACE_MAPT_STATE_DOWN \<and> IP_SelectedModeTimerStatus (VI_IP v) \<noteq> RUNNING \<and>
     client_dead e (IP_Dhcp4cPid (VI_IP v)) w"

definition restart_dhcpv6 :: "env \<Rightarrow> DML_VIRTUAL_IFACE \<Rightarrow> world \<Rightarrow> bool" where
  "restart_dhcpv6 e v w \<longleftrightarrow> IP_Mode (VI_IP v) \<in> {DML_WAN_IP_MODE_IPV6_ONLY, DML_WAN_IP_MODE_DUAL_STACK} \<and>
     IP_IPv6Source (VI_IP v) = DML_WAN_IP_SOURCE_DHCP \<and> client_dead e (IP_Dhcp6cPid (VI_IP v)) w"

definition t2_event :: "build \<Rightarrow> string \<Rightarrow> world \<Rightarrow> world" where
  "t2_event b marker w = (if TELEMETRY2 b then emit (TelemetryEvent (Some marker)) w else w)"

text \<open>A new type of connectivity check: stop the old one, start the new one.\<close>

definition change_connectivity_check :: "env \<Rightarrow> sm_ctrl \<Rightarrow> vptr \<Rightarrow> world \<Rightarrow> (unit \<times> world) option" where
  "change_connectivity_check e c q w = do {
     v \<leftarrow> virtif_at q w;
     if IP_WCC_TypeChanged (VI_IP v)
     then do {
       (_, w) \<leftarrow>
         (if IP_ConnectivityCheckRunning (VI_IP v)
          then do {
            (_, w) \<leftarrow> WanMgr_Configure_TAD_WCC e q WCC_STOP w;
            modify_virtif q (upd_IP (\<lambda>i. i\<lparr>IP_ConnectivityCheckRunning := False,
              IP_Ipv4ConnectivityStatus := WAN_CONNECTIVITY_UP, IP_Ipv6ConnectivityStatus := WAN_CONNECTIVITY_UP\<rparr>)) w
          }
          else Some ((), w));
       (_, w) \<leftarrow> WanMgr_StartConnectivityCheck e c w;
       modify_virtif q (upd_IP (\<lambda>i. i\<lparr>IP_WCC_TypeChanged := False\<rparr>)) w
     }
     else Some ((), w)
   }"

definition WanMgr_MonitorDhcpApps :: "build \<Rightarrow> env \<Rightarrow> sm_ctrl \<Rightarrow> world \<Rightarrow> (unit \<times> world) option" where
  "WanMgr_MonitorDhcpApps b e c w =
     (if \<not> SC_WanEnable c then Some ((), w)
      else sm_deref (\<lambda>d q v w.
        if Sel_Status (If_Selection d) = WAN_IFACE_NOT_SELECTED \<or> \<not> Sel_Enable (If_Selection d)
        then Some ((), w)
        else if IP_RefreshDHCP (VI_IP v)
        then modify_virtif q (upd_IP (\<lambda>i. if refresh_done i then i\<lparr>IP_RefreshDHCP := False\<rparr> else i)) w
        else do {
          (_, w) \<leftarrow>
            (if restart_dhcpv4 e v w
             then do {
               (_, w) \<leftarrow> WanManager_StartDhcpv4Client e q (If_Name d) (If_IfaceType d) w;
               Some ((), t2_event b ''SYS_ERROR_DHCPV4Client_notrunning'' w)
             }
             else Some ((), w));
          (_, w) \<leftarrow>
            (if restart_dhcpv6 e v w
             then do {
               let w = (if IP_Dhcp6cPid (VI_IP v) = -1 then Force_IPv6_toggle (VI_Name v) w else w);
               (_, w) \<leftarrow> WanManager_StartDhcpv6Client e q (If_IfaceType d) w;
               Some ((), t2_event b ''SYS_ERROR_DHCPV6Client_notrunning'' w)
             }
             else Some ((), w));
          change_connectivity_check e c q w
        }) c w)"

definition WanManager_ClearDHCPData :: "vptr \<Rightarrow> world \<Rightarrow> (unit \<times> world) option" where
  "WanManager_ClearDHCPData q = modify_virtif q (upd_IP (\<lambda>i. i
     \<lparr>IP_Ipv4Status := WAN_IFACE_IPV4_STATE_DOWN, IP_Ipv4Changed := False, IP_Ipv4Renewed := False,
      IP_Ipv4Data := zero_Ipv4Data, IP_Dhcp4cPid := 0, IP_Dhcp4cStatus := DHCPC_STOPPED,
      IP_pIpcIpv4Data := None, IP_Ipv6Status := WAN_IFACE_IPV6_STATE_DOWN, IP_Ipv6Changed := False,
      IP_Ipv6Renewed := False, IP_Ipv6Data := zero_Ipv6Data,
      IP_Ipv6Route := \<lparr>RA_defaultRoute = [], RA_defRouteLifeTime = 0\<rparr>, IP_Dhcp6cPid := 0,
      IP_Dhcp6cStatus := DHCPC_STOPPED, IP_pIpcIpv6Data := None\<rparr>))"

end
