(* ===== verification/WanInterfaceSM.thy ===== *)
theory WanInterfaceSM
  imports WanConnection
begin

text \<open>
  The interface state machine (\<open>wanmgr_interface_sm.c\<close>): its transitions, its states and the loop of its
  thread.  One machine drives one virtual interface from the VLAN and PPP link over DHCP to a leased
  IPv4 or IPv6 connection, and tears it down again.  The thread holds the mutex of the data base from the
  start of a pass to its end, so a pass is one critical section.

  A function that returns \<open>ANSC_STATUS_FAILURE\<close> instead of a state, because \<open>pIfaceData\<close> is NULL, returns a
  number outside of the enumeration; the \<open>switch\<close> of the thread treats it like \<open>WAN_STATE_EXIT\<close>, and so does
  the model.
\<close>

abbreviation (input) "NO_STATE \<equiv> WAN_STATE_EXIT"

subsection \<open>Conditions of the states\<close>

text \<open>Nothing wants the interface up any more, or its line is down.\<close>

definition must_stop :: "sm_ctrl \<Rightarrow> DML_WAN_IFACE \<Rightarrow> DML_VIRTUAL_IFACE \<Rightarrow> bool" where
  "must_stop c d v \<longleftrightarrow> \<not> SC_WanEnable c \<or> \<not> Sel_Enable (If_Selection d) \<or> \<not> VI_Enable v \<or>
     Sel_Status (If_Selection d) = WAN_IFACE_NOT_SELECTED \<or> If_BaseInterfaceStatus d \<noteq> WAN_IFACE_PHY_STATUS_UP"

definition vlan_down :: "DML_VIRTUAL_IFACE \<Rightarrow> bool" where
  "vlan_down v \<longleftrightarrow> VLAN_Enable (VI_VLAN v) \<and> VLAN_Status (VI_VLAN v) = WAN_IFACE_LINKSTATUS_DOWN"

definition ppp_not_up :: "DML_VIRTUAL_IFACE \<Rightarrow> bool" where
  "ppp_not_up v \<longleftrightarrow> PPP_Enable (VI_PPP v) \<and> PPP_LinkStatus (VI_PPP v) \<noteq> WAN_IFACE_PPP_LINK_STATUS_UP"

text \<open>Several VLANs may be tried; the time for the present one is over, or it is to be reset.\<close>

definition vlan_expired :: "env \<Rightarrow> DML_VIRTUAL_IFACE \<Rightarrow> bool" where
  "vlan_expired e v \<longleftrightarrow> 1 < VLAN_NoOfInterfaceEntries (VI_VLAN v) \<and>
     (VLAN_Reset (VI_VLAN v) \<or> uint (VLAN_Timeout (VI_VLAN v)) < clock e 0 - VLAN_TimerStart (VI_VLAN v))"

text \<open>The configuration of the DHCP clients has changed and no longer includes one of the families.\<close>

definition ipv4_wanted :: "DML_WANIFACE_IP \<Rightarrow> bool" where
  "ipv4_wanted i \<longleftrightarrow> IP_IPv4Source i = DML_WAN_IP_SOURCE_DHCP \<and>
     IP_Mode i \<in> {DML_WAN_IP_MODE_IPV4_ONLY, DML_WAN_IP_MODE_DUAL_STACK}"

definition ipv6_wanted :: "DML_WANIFACE_IP \<Rightarrow> bool" where
  "ipv6_wanted i \<longleftrightarrow> IP_IPv6Source i = DML_WAN_IP_SOURCE_DHCP \<and>
     IP_Mode i \<in> {DML_WAN_IP_MODE_IPV6_ONLY, DML_WAN_IP_MODE_DUAL_STACK}"

definition ipv4_dropped :: "DML_VIRTUAL_IFACE \<Rightarrow> bool" where
  "ipv4_dropped v \<longleftrightarrow> IP_RefreshDHCP (VI_IP v) \<and> \<not> ipv4_wanted (VI_IP v)"

definition ipv6_dropped :: "DML_VIRTUAL_IFACE \<Rightarrow> bool" where
  "ipv6_dropped v \<longleftrightarrow> IP_RefreshDHCP (VI_IP v) \<and> \<not> ipv6_wanted (VI_IP v)"

text \<open>The lease is not given back when the link is gone or comes back at once.\<close>

definition release_needed :: "DML_WAN_IFACE \<Rightarrow> DML_VIRTUAL_IFACE \<Rightarrow> bool" where
  "release_needed d v \<longleftrightarrow> \<not> (If_BaseInterfaceStatus d \<noteq> WAN_IFACE_PHY_STATUS_UP \<or> VI_Reset v \<or> vlan_down v \<or>
     Sel_RebootTriggerStatus (If_Selection d))"

definition set_VI_Status :: "DML_WAN_IFACE_STATUS \<Rightarrow> DML_VIRTUAL_IFACE \<Rightarrow> DML_VIRTUAL_IFACE" where
  "set_VI_Status st v = v\<lparr>VI_Status := st\<rparr>"

text \<open>\<open>if (interfaceIdx != -1) WanMgr_Publish_WanStatus(\<dots>)\<close>\<close>

definition publish_status :: "sm_ctrl \<Rightarrow> world \<Rightarrow> (unit \<times> world) option" where
  "publish_status c w =
     (if SC_interfaceIdx c \<noteq> -1
      then WanMgr_Publish_WanStatus (idx_uint (SC_interfaceIdx c)) (idx_uint (SC_VirIfIdx c)) w
      else Some ((), w))"

subsection \<open>Start and links\<close>

definition wan_transition_start :: "build \<Rightarrow> env \<Rightarrow> sm_ctrl \<Rightarrow> world \<Rightarrow> (eWanState_t \<times> world) option" where
  "wan_transition_start b e c = sm_access NO_STATE (\<lambda>d q v w. do {
     (_, w) \<leftarrow> modify_virtif q (\<lambda>v. v\<lparr>
         VI_IP := (VI_IP v)\<lparr>IP_Ipv4Status := WAN_IFACE_IPV4_STATE_DOWN, IP_Ipv6Status := WAN_IFACE_IPV6_STATE_DOWN\<rparr>,
         VI_MAP := (VI_MAP v)\<lparr>MAP_MaptStatus := WAN_IFACE_MAPT_STATE_DOWN\<rparr>,
         VI_DSLite := (VI_DSLite v)\<lparr>DSL_Status := WAN_IFACE_DSLITE_STATE_DOWN\<rparr>,
         VI_Status := WAN_IFACE_STATUS_INITIALISING\<rparr>) w;
     (_, w) \<leftarrow> publish_status c w;
     (_, w) \<leftarrow> WanMgr_RestartFindExistingLink e c w;
     v \<leftarrow> virtif_at q w;
     (_, w) \<leftarrow>
       (if vlan_down v \<and> If_IfaceType d \<noteq> REMOTE_IFACE
        then do {
          (_, w) \<leftarrow>
            (if VLAN_VLANInUse (VI_VLAN v) = []
             then do {
               pVlanIf \<leftarrow> WanMgr_getVirtVlanIfById (VLAN_InterfaceList (VI_VLAN v)) 0;
               modify_virtif q (upd_VLAN (\<lambda>l. l\<lparr>VLAN_ActiveIndex := 0, VLAN_VLANInUse := VT_Interface pVlanIf\<rparr>)) w
             }
             else Some ((), w));
          (_, w) \<leftarrow> modify_virtif q (upd_VLAN (\<lambda>l. l\<lparr>VLAN_Status := WAN_IFACE_LINKSTATUS_CONFIGURING\<rparr>)) w;
          (_, w) \<leftarrow> WanMgr_RdkBus_ConfigureVlan e q True w;
          Some ((), w)
        }
        else Some ((), w));
     (_, w) \<leftarrow> Update_Interface_Status b e w;
     (_, w) \<leftarrow> modify_virtif q (\<lambda>v. v\<lparr>VI_Interface_SM_Running := True\<rparr>) w;
     (_, w) \<leftarrow> WanMgr_GetSelectedIPMode q w;
     Some (WAN_STATE_VLAN_CONFIGURING, WanManager_PrintBootEvents WAN_INIT_START w)
   }) c"

definition wan_transition_ppp_configure :: "env \<Rightarrow> sm_ctrl \<Rightarrow> world \<Rightarrow> (eWanState_t \<times> world) option" where
  "wan_transition_ppp_configure e c = sm_access NO_STATE (\<lambda>d q v w. do {
     (_, w) \<leftarrow>
       (if PPP_Enable (VI_PPP v) \<and> PPP_LinkStatus (VI_PPP v) = WAN_IFACE_PPP_LINK_STATUS_DOWN
        then do {
          (_, w) \<leftarrow> modify_virtif q (upd_PPP (\<lambda>p. p\<lparr>PPP_LinkStatus := WAN_IFACE_PPP_LINK_STATUS_CONFIGURING\<rparr>)) w;
          (_, w) \<leftarrow> WanManager_ConfigurePPPSession e q True w;
          Some ((), w)
        }
        else Some ((), w));
     Some (WAN_STATE_PPP_CONFIGURING, w)
   }) c"

definition wan_transition_wan_up :: "sm_ctrl \<Rightarrow> world \<Rightarrow> (eWanState_t \<times> world) option" where
  "wan_transition_wan_up c = sm_access NO_STATE (\<lambda>d q v w. do {
     (_, w) \<leftarrow> modify_virtif q (set_VI_Status WAN_IFACE_STATUS_VALIDATING) w;
     (_, w) \<leftarrow> publish_status c w;
     Some (WAN_STATE_VALIDATING_WAN, w)
   }) c"

text \<open>The next VLAN of the discovery: the first one after a reset, else the one after the active, cyclically.\<close>

fun vlan_after :: "DML_VLAN_IFACE_TABLE list \<Rightarrow> uint \<Rightarrow> DML_VLAN_IFACE_TABLE option" where
  "vlan_after [] inst = None"
| "vlan_after (v # vs) inst =
     (if VT_Index v = unat inst then (case vs of [] \<Rightarrow> None | x # _ \<Rightarrow> Some x) else vlan_after vs inst)"

definition next_vlan :: "DML_VIRTUALIF_VLAN \<Rightarrow> DML_VLAN_IFACE_TABLE option" where
  "next_vlan l =
     (let first = (case VLAN_InterfaceList l of [] \<Rightarrow> None | x # _ \<Rightarrow> Some x)
      in if VLAN_Reset l \<or> VLAN_ActiveIndex l = -1 then first
         else case vlan_after (VLAN_InterfaceList l) (VLAN_ActiveIndex l) of None \<Rightarrow> first | Some x \<Rightarrow> Some x)"

definition wan_transition_wan_refreshed :: "env \<Rightarrow> sm_ctrl \<Rightarrow> world \<Rightarrow> (eWanState_t \<times> world) option" where
  "wan_transition_wan_refreshed e c = sm_access NO_STATE (\<lambda>d q v w. do {
     (_, w) \<leftarrow>
       (if vlan_down v \<and> If_IfaceType d \<noteq> REMOTE_IFACE
        then do {
          (_, w) \<leftarrow>
            (if VLAN_Expired (VI_VLAN v) \<or> VLAN_Reset (VI_VLAN v)
             then do {
               pVlanIf \<leftarrow> next_vlan (VI_VLAN v);
               modify_virtif q (upd_VLAN (\<lambda>l. l\<lparr>VLAN_ActiveIndex := of_nat (VT_Index pVlanIf),
                 VLAN_VLANInUse := VT_Interface pVlanIf\<rparr>)) w
             }
             else Some ((), w));
          (_, w) \<leftarrow> modify_virtif q (upd_VLAN (\<lambda>l. l\<lparr>VLAN_Status := WAN_IFACE_LINKSTATUS_CONFIGURING\<rparr>)) w;
          (_, w) \<leftarrow> WanMgr_RdkBus_ConfigureVlan e q True w;
          Some ((), w)
        }
        else Some ((), w));
     let (_, w) = (if VI_Reset v
                   then with_config () (\<lambda>w. ((), upd_config (\<lambda>c. c\<lparr>Cfg_ResetFailOverScan := True\<rparr>) w)) w
                   else ((), w));
     (_, w) \<leftarrow> modify_virtif q (\<lambda>v. (upd_VLAN (\<lambda>l. l\<lparr>VLAN_Reset := False, VLAN_Expired := False\<rparr>) v)
                 \<lparr>VI_Reset := False\<rparr>) w;
     Some (WAN_STATE_VLAN_CONFIGURING, w)
   }) c"

text \<open>Start of the address acquisition.\<close>

definition start_dhcp_clients :: "env \<Rightarrow> DML_WAN_IFACE \<Rightarrow> vptr \<Rightarrow> world \<Rightarrow> (unit \<times> world) option" where
  "start_dhcp_clients e d q w = do {
     v \<leftarrow> virtif_at q w;
     if IP_SelectedMode (VI_IP v) = MAPT_MODE \<and> IP_SelectedModeTimerStatus (VI_IP v) \<noteq> EXPIRED
     then do {
       (_, w) \<leftarrow> WanMgr_Configure_accept_ra q False w;
       (_, w) \<leftarrow> WanManager_StartDhcpv6Client e q (If_IfaceType d) w;
       modify_virtif q (upd_IP (\<lambda>i. i\<lparr>IP_SelectedModeTimerStatus := RUNNING,
         IP_SelectedModeTimerStart := clock e 2\<rparr>)) w
     }
     else do {
       (_, w) \<leftarrow> (if ipv4_wanted (VI_IP v) then WanManager_StartDhcpv4Client e q (If_Name d) (If_IfaceType d) w
                  else Some ((), w));
       if ipv6_wanted (VI_IP v) \<and> IP_Dhcp6cStatus (VI_IP v) \<noteq> DHCPC_STARTED
       then do {
         (_, w) \<leftarrow> WanMgr_Configure_accept_ra q False w;
         WanManager_StartDhcpv6Client e q (If_IfaceType d) w
       }
       else Some ((), w)
     }
   }"

text \<open>A remote interface: its unique local address, without the prefix length.\<close>

definition remote_ula :: "env \<Rightarrow> vptr \<Rightarrow> world \<Rightarrow> (unit \<times> world) option" where
  "remote_ula e q w = modify_virtif q (upd_IP (\<lambda>i. i\<lparr>IP_Ipv6Data := (IP_Ipv6Data i)\<lparr>V6_address :=
     takeWhile (\<lambda>c. c \<noteq> CHR ''/'') (sysevent_read e 48 ''MeshRemoteWANInterface_UlaAddr'' w)\<rparr>\<rparr>)) w"

definition wan_transition_wan_validated :: "env \<Rightarrow> sm_ctrl \<Rightarrow> world \<Rightarrow> (eWanState_t \<times> world) option" where
  "wan_transition_wan_validated e c = sm_access NO_STATE (\<lambda>d q v w. do {
     (_, w) \<leftarrow> (if (IP_IPv4Source (VI_IP v) = DML_WAN_IP_SOURCE_DHCP \<or> IP_IPv6Source (VI_IP v) = DML_WAN_IP_SOURCE_DHCP) \<and>
                   IP_SelectedModeTimerStatus (VI_IP v) \<noteq> EXPIRED
                then WanManager_ClearDHCPData q w else Some ((), w));
     (_, w) \<leftarrow> modify_virtif q (upd_IP (\<lambda>i. i\<lparr>IP_Ipv4ConnectivityStatus := WAN_CONNECTIVITY_UP,
                 IP_Ipv6ConnectivityStatus := WAN_CONNECTIVITY_UP\<rparr>)) w;
     (_, w) \<leftarrow> start_dhcp_clients e d q w;
     (_, w) \<leftarrow> (if strstr (If_BaseInterface d) ''Cellular'' then WanMgr_UpdateIpFromCellularMgr e c w
                else Some ((), w));
     v \<leftarrow> virtif_at q w;
     if PPP_Enable (VI_PPP v) \<and> PPP_Interface (VI_PPP v) \<noteq> []
     then (case WanMgr_RdkBus_GetParamValueFromAnyComp e (take 254 (PPP_Interface (VI_PPP v) @ ''.ConnectionStatus'')) w of
             (None, w) \<Rightarrow> Some (WAN_STATE_OBTAINING_IP_ADDRESSES, w)
           | (Some ppp_ConnectionStatus, w) \<Rightarrow> do {
               (_, w) \<leftarrow> modify_virtif q (upd_PPP (\<lambda>p.
                   if ppp_ConnectionStatus = ''Connected''
                   then p\<lparr>PPP_IPCPStatusChanged := True, PPP_IPV6CPStatusChanged := True\<rparr>
                   else p\<lparr>PPP_IPCPStatus := WAN_IFACE_IPCP_STATUS_DOWN, PPP_IPV6CPStatus := WAN_IFACE_IPV6CP_STATUS_DOWN\<rparr>)) w;
               (_, w) \<leftarrow> (if If_IfaceType d = REMOTE_IFACE then remote_ula e q w else Some ((), w));
               Some (WAN_STATE_OBTAINING_IP_ADDRESSES, w)
             })
     else do {
       (_, w) \<leftarrow> (if If_IfaceType d = REMOTE_IFACE then remote_ula e q w else Some ((), w));
       Some (WAN_STATE_OBTAINING_IP_ADDRESSES, w)
     }
   }) c"

subsection \<open>Connections up\<close>

text \<open>\<open>wan_service-status\<close> is set when the start of the services has not done it.\<close>

definition start_wan_service :: "env \<Rightarrow> DML_WAN_IFACE \<Rightarrow> world \<Rightarrow> world" where
  "start_wan_service e d w =
     (if sysevent_read e 128 SYSEVENT_WAN_SERVICE_STATUS w \<noteq> WAN_STATUS_STARTED \<and> If_IfaceType d \<noteq> REMOTE_IFACE
      then sysevents_set [(SYSEVENT_WAN_SERVICE_STATUS, WAN_STATUS_STARTED), (SYSEVENT_FIREWALL_RESTART, [])] w
      else w)"

definition wan_transition_ipv4_up :: "build \<Rightarrow> env \<Rightarrow> sm_ctrl \<Rightarrow> world \<Rightarrow> (eWanState_t \<times> world) option" where
  "wan_transition_ipv4_up b e c = sm_access NO_STATE (\<lambda>d q v w. do {
     (_, w) \<leftarrow> modify_virtif q (set_VI_Status WAN_IFACE_STATUS_UP) w;
     (_, w) \<leftarrow> publish_status c w;
     (_, w) \<leftarrow> wan_setUpIPv4 b e c w;
     (_, w) \<leftarrow> WanMgr_SendMsgTo_ConnectivityCheck e c w;
     (_, w) \<leftarrow> modify_virtif q (upd_IP (\<lambda>i. i\<lparr>IP_Ipv4Changed := False, IP_Ipv4Renewed := False\<rparr>)) w;
     (_, w) \<leftarrow> Update_Interface_Status b e w;
     let w = start_wan_service e d w;
     if IP_Ipv6Status (VI_IP v) = WAN_IFACE_IPV6_STATE_UP \<and>
        sysevent_read e 128 SYSEVENT_IPV6_CONNECTION_STATE w = WAN_STATUS_UP
     then Some (WAN_STATE_DUAL_STACK_ACTIVE, w)
     else do {
       (_, w) \<leftarrow> DmlSetVLANInUseToPSMDB e q w;
       Some (WAN_STATE_IPV4_LEASED, w)
     }
   }) c"

definition wan_transition_ipv6_up :: "build \<Rightarrow> env \<Rightarrow> sm_ctrl \<Rightarrow> world \<Rightarrow> (eWanState_t \<times> world) option" where
  "wan_transition_ipv6_up b e c = sm_access NO_STATE (\<lambda>d q v w. do {
     (_, w) \<leftarrow> modify_virtif q (set_VI_Status WAN_IFACE_STATUS_UP) w;
     (_, w) \<leftarrow> publish_status c w;
     (_, w) \<leftarrow> wan_setUpIPv6 b e c w;
     (_, w) \<leftarrow> WanMgr_SendMsgTo_ConnectivityCheck e c w;
     (_, w) \<leftarrow> Update_Interface_Status b e w;
     let w = start_wan_service e d w;
     if IP_Ipv4Status (VI_IP v) = WAN_IFACE_IPV4_STATE_UP \<and>
        sysevent_read e 128 SYSEVENT_IPV4_CONNECTION_STATE w = WAN_STATUS_UP
     then Some (WAN_STATE_DUAL_STACK_ACTIVE, w)
     else do {
       (_, w) \<leftarrow> DmlSetVLANInUseToPSMDB e q w;
       Some (WAN_STATE_IPV6_LEASED, w)
     }
   }) c"

subsection \<open>Connections down\<close>

definition wan_transition_ipv4_down :: "build \<Rightarrow> env \<Rightarrow> sm_ctrl \<Rightarrow> world \<Rightarrow> (eWanState_t \<times> world) option" where
  "wan_transition_ipv4_down b e c = sm_access NO_STATE (\<lambda>d q v w. do {
     (_, w) \<leftarrow>
       (if must_stop c d v \<or> VI_Reset v \<or> VLAN_Reset (VI_VLAN v) \<or> vlan_down v \<or> ipv4_dropped v
        then (if IP_Dhcp4cStatus (VI_IP v) = DHCPC_STARTED
              then do {
                (_, w) \<leftarrow> WanManager_StopDhcpv4Client e q (release_needed d v) w;
                Some ((), w)
              }
              else Some ((), w))
        else if IP_Dhcp4cStatus (VI_IP v) \<noteq> DHCPC_STARTED \<and> \<not> PPP_Enable (VI_PPP v) \<and>
                \<not> (VI_EnableMAPT v \<and> Sel_Status (If_Selection d) = WAN_IFACE_ACTIVE \<and>
                   MAP_MaptStatus (VI_MAP v) = WAN_IFACE_MAPT_STATE_UP)
        then WanManager_StartDhcpv4Client e q (If_Name d) (If_IfaceType d) w
        else Some ((), w));
     (_, w) \<leftarrow> WanManager_UpdateInterfaceStatus q WANMGR_IFACE_CONNECTION_DOWN w;
     (_, w) \<leftarrow> wan_deconfigIPv4onInterface e c w;
     (_, w) \<leftarrow> (if VI_Status v = WAN_IFACE_STATUS_UP
                then do {
                  (_, w) \<leftarrow> wan_tearDownIPv4 b e c w;
                  Some ((), wanmgr_sysevents_ipv4Info_init b e (VI_Name v) (SC_DeviceNwMode c) w)
                }
                else Some ((), w));
     (_, w) \<leftarrow> WanMgr_SendMsgTo_ConnectivityCheck e c w;
     let w = publish_vif v ''.IP.IPv4Address'' [] w;
     (_, w) \<leftarrow> Update_Interface_Status b e w;
     if IP_Ipv6Status (VI_IP v) = WAN_IFACE_IPV6_STATE_UP \<and>
        sysevent_read e 128 SYSEVENT_IPV6_CONNECTION_STATE w = WAN_STATUS_UP
     then Some (WAN_STATE_IPV6_LEASED, w)
     else do {
       (_, w) \<leftarrow> (if IP_Ipv6Status (VI_IP v) = WAN_IFACE_IPV6_STATE_DOWN then WanMgr_Configure_accept_ra q False w
                  else Some ((), w));
       (_, w) \<leftarrow> modify_virtif q (set_VI_Status WAN_IFACE_STATUS_VALIDATING) w;
       (_, w) \<leftarrow> publish_status c w;
       Some (WAN_STATE_OBTAINING_IP_ADDRESSES, w)
     }
   }) c"

definition wan_transition_ipv6_down :: "build \<Rightarrow> env \<Rightarrow> sm_ctrl \<Rightarrow> world \<Rightarrow> (eWanState_t \<times> world) option" where
  "wan_transition_ipv6_down b e c = sm_access NO_STATE (\<lambda>d q v w. do {
     (_, w) \<leftarrow>
       (if must_stop c d v \<or> VI_Reset v \<or> VLAN_Reset (VI_VLAN v) \<or> vlan_down v \<or> ppp_not_up v \<or> ipv6_dropped v
        then do {
          (_, w) \<leftarrow> WanManager_StopDhcpv6Client e q (release_needed d v) w;
          Some ((), w)
        }
        else if IP_Dhcp6cStatus (VI_IP v) \<noteq> DHCPC_STARTED
        then WanManager_StartDhcpv6Client e q (If_IfaceType d) w
        else Some ((), w));
     let w = publish_vif v ''.IP.IPv6Prefix'' [] (publish_vif v ''.IP.IPv6Address'' [] w);
     (_, w) \<leftarrow> WanManager_UpdateInterfaceStatus q WANMGR_IFACE_CONNECTION_IPV6_DOWN w;
     (_, w) \<leftarrow> (if VI_Status v = WAN_IFACE_STATUS_UP
                then do { (_, w) \<leftarrow> wan_tearDownIPv6 b e c w; Some ((), w) }
                else Some ((), w));
     (_, w) \<leftarrow> WanMgr_SendMsgTo_ConnectivityCheck e c w;
     (_, w) \<leftarrow> Update_Interface_Status b e w;
     let ipv4_state = sysevent_read e 128 SYSEVENT_IPV4_CONNECTION_STATE w;
     (_, w) \<leftarrow> WanMgr_Configure_accept_ra q False w;
     if IP_Ipv4Status (VI_IP v) = WAN_IFACE_IPV4_STATE_UP \<and> ipv4_state = WAN_STATUS_UP
     then Some (WAN_STATE_IPV4_LEASED, w)
     else do {
       (_, w) \<leftarrow> modify_virtif q (set_VI_Status WAN_IFACE_STATUS_VALIDATING) w;
       (_, w) \<leftarrow> publish_status c w;
       Some (WAN_STATE_OBTAINING_IP_ADDRESSES, w)
     }
   }) c"

text \<open>No test for NULL here.  The status is no longer UP when the two connections are taken down.\<close>

definition wan_transition_dual_stack_down :: "build \<Rightarrow> env \<Rightarrow> sm_ctrl \<Rightarrow> world \<Rightarrow> (eWanState_t \<times> world) option" where
  "wan_transition_dual_stack_down b e c = sm_deref (\<lambda>d q v w. do {
     (_, w) \<leftarrow> modify_virtif q (set_VI_Status WAN_IFACE_STATUS_VALIDATING) w;
     (_, w) \<leftarrow> publish_status c w;
     (_, w) \<leftarrow> wan_transition_ipv4_down b e c w;
     (_, w) \<leftarrow> wan_transition_ipv6_down b e c w;
     Some (WAN_STATE_OBTAINING_IP_ADDRESSES, w)
   }) c"

text \<open>The loss of the physical interface: first the addresses, then the clients, the check and the links.\<close>

definition lose_addresses ::
  "build \<Rightarrow> env \<Rightarrow> sm_ctrl \<Rightarrow> DML_VIRTUAL_IFACE \<Rightarrow> world \<Rightarrow> (unit \<times> world) option" where
  "lose_addresses b e c v w = do {
     (_, w) \<leftarrow> (if IP_Ipv4Status (VI_IP v) = WAN_IFACE_IPV4_STATE_UP
                then do { (_, w) \<leftarrow> wan_transition_ipv4_down b e c w; Some ((), w) }
                else Some ((), w));
     (if IP_Ipv6Status (VI_IP v) = WAN_IFACE_IPV6_STATE_UP
      then do { (_, w) \<leftarrow> wan_transition_ipv6_down b e c w; Some ((), w) }
      else Some ((), w))
   }"

definition stop_clients :: "env \<Rightarrow> sm_ctrl \<Rightarrow> vptr \<Rightarrow> DML_VIRTUAL_IFACE \<Rightarrow> world \<Rightarrow> (unit \<times> world) option" where
  "stop_clients e c q v w = do {
     (_, w) \<leftarrow> (if IP_Dhcp4cStatus (VI_IP v) = DHCPC_STARTED
                then do { (_, w) \<leftarrow> WanManager_StopDhcpv4Client e q False w; Some ((), w) }
                else Some ((), w));
     (_, w) \<leftarrow> (if IP_Dhcp6cStatus (VI_IP v) = DHCPC_STARTED
                then do { (_, w) \<leftarrow> WanManager_StopDhcpv6Client e q False w; Some ((), w) }
                else Some ((), w));
     (_, w) \<leftarrow> modify_virtif q (upd_IP (\<lambda>i. i\<lparr>IP_SelectedModeTimerStatus := NOTSTARTED\<rparr>)) w;
     WanMgr_StopConnectivityCheck e c w
   }"

definition stop_links ::
  "env \<Rightarrow> vptr \<Rightarrow> DML_WAN_IFACE \<Rightarrow> DML_VIRTUAL_IFACE \<Rightarrow> world \<Rightarrow> (unit \<times> world) option" where
  "stop_links e q d v w = do {
     (_, w) \<leftarrow> (if PPP_Enable (VI_PPP v)
                then do {
                  (_, w) \<leftarrow> WanManager_ConfigurePPPSession e q False w;
                  modify_virtif q (upd_PPP (\<lambda>p. if PPP_LinkStatus p = WAN_IFACE_PPP_LINK_STATUS_CONFIGURING
                    then p\<lparr>PPP_LinkStatus := WAN_IFACE_PPP_LINK_STATUS_DOWN\<rparr> else p)) w
                }
                else Some ((), w));
     (if VLAN_Enable (VI_VLAN v) \<and> If_IfaceType d \<noteq> REMOTE_IFACE
      then do {
        (_, w) \<leftarrow> WanMgr_RdkBus_ConfigureVlan e q False w;
        modify_virtif q (upd_VLAN (\<lambda>l. if VLAN_Status l = WAN_IFACE_LINKSTATUS_CONFIGURING
          then l\<lparr>VLAN_Status := WAN_IFACE_LINKSTATUS_DOWN\<rparr> else l)) w
      }
      else Some ((), w))
   }"

definition wan_transition_physical_interface_down ::
  "build \<Rightarrow> env \<Rightarrow> sm_ctrl \<Rightarrow> world \<Rightarrow> (eWanState_t \<times> world) option" where
  "wan_transition_physical_interface_down b e c = sm_access NO_STATE (\<lambda>d q v w. do {
     (_, w) \<leftarrow> lose_addresses b e c v w;
     v \<leftarrow> virtif_at q w;
     (_, w) \<leftarrow> stop_clients e c q v w;
     (_, w) \<leftarrow> stop_links e q d v w;
     (_, w) \<leftarrow> Update_Interface_Status b e w;
     Some (if VI_Reset v \<or> VLAN_Reset (VI_VLAN v) \<or> VLAN_Expired (VI_VLAN v) then WAN_STATE_REFRESHING_WAN
           else WAN_STATE_DECONFIGURING_WAN, w)
   }) c"

subsection \<open>Standby and exit\<close>

definition wan_transition_exit :: "build \<Rightarrow> env \<Rightarrow> sm_ctrl \<Rightarrow> world \<Rightarrow> (eWanState_t \<times> world) option" where
  "wan_transition_exit b e c = sm_access NO_STATE (\<lambda>d q v w. do {
     (_, w) \<leftarrow> modify_virtif q (\<lambda>v. v\<lparr>VI_Status := WAN_IFACE_STATUS_DISABLED, VI_Reset := False\<rparr>) w;
     (_, w) \<leftarrow> publish_status c w;
     (_, w) \<leftarrow> Update_Interface_Status b e w;
     (_, w) \<leftarrow> modify_virtif q (\<lambda>v. v\<lparr>VI_Interface_SM_Running := False\<rparr>) w;
     Some (WAN_STATE_EXIT, w)
   }) c"

definition wan_transition_standby :: "build \<Rightarrow> env \<Rightarrow> sm_ctrl \<Rightarrow> world \<Rightarrow> (eWanState_t \<times> world) option" where
  "wan_transition_standby b e c = sm_access NO_STATE (\<lambda>d q v w. do {
     (_, w) \<leftarrow> modify_virtif q (set_VI_Status WAN_IFACE_STATUS_STANDBY) w;
     (_, w) \<leftarrow> publish_status c w;
     (_, w) \<leftarrow> WanMgr_StartConnectivityCheck e c w;
     (_, w) \<leftarrow> Update_Interface_Status b e w;
     (_, w) \<leftarrow> DmlSetVLANInUseToPSMDB e q w;
     Some (WAN_STATE_STANDBY, w)
   }) c"

definition wan_transition_standby_deconfig_ips ::
  "build \<Rightarrow> env \<Rightarrow> sm_ctrl \<Rightarrow> world \<Rightarrow> (eWanState_t \<times> world) option" where
  "wan_transition_standby_deconfig_ips b e c = sm_access NO_STATE (\<lambda>d q v w. do {
     (_, w) \<leftarrow> (if IP_ConnectivityCheckType (VI_IP v) = WAN_CONNECTIVITY_TYPE_IHC
                then WanMgr_StopConnectivityCheck e c w else Some ((), w));
     (_, w) \<leftarrow> (if IP_Ipv4Status (VI_IP v) = WAN_IFACE_IPV4_STATE_UP
                then do { (_, w) \<leftarrow> wan_tearDownIPv4 b e c w; Some ((), w) }
                else Some ((), w));
     (_, w) \<leftarrow> (if IP_Ipv6Status (VI_IP v) = WAN_IFACE_IPV6_STATE_UP
                then do {
                  (_, w) \<leftarrow> wan_tearDownIPv6 b e c w;
                  modify_virtif q (upd_IP (\<lambda>i. i\<lparr>IP_Ipv6Changed := True\<rparr>)) w
                }
                else Some ((), w));
     (_, w) \<leftarrow> WanMgr_Configure_accept_ra q False w;
     (_, w) \<leftarrow> modify_virtif q (set_VI_Status WAN_IFACE_STATUS_STANDBY) w;
     (_, w) \<leftarrow> publish_status c w;
     (_, w) \<leftarrow> Update_Interface_Status b e w;
     Some (WAN_STATE_STANDBY, w)
   }) c"

subsection \<open>States\<close>

text \<open>What the first three states share: stop, or try the next VLAN, or go on.\<close>

definition link_state ::
  "build \<Rightarrow> env \<Rightarrow> sm_ctrl \<Rightarrow> (DML_VIRTUAL_IFACE \<Rightarrow> world \<Rightarrow> (eWanState_t \<times> world) option) \<Rightarrow> world \<Rightarrow>
   (eWanState_t \<times> world) option" where
  "link_state b e c go_on = sm_access NO_STATE (\<lambda>d q v w.
     if must_stop c d v then wan_transition_physical_interface_down b e c w
     else if vlan_expired e v
     then do {
       (_, w) \<leftarrow> modify_virtif q (upd_VLAN (\<lambda>l. l\<lparr>VLAN_Expired := True\<rparr>)) w;
       wan_transition_physical_interface_down b e c w
     }
     else go_on v w) c"

definition wan_state_vlan_configuring :: "build \<Rightarrow> env \<Rightarrow> sm_ctrl \<Rightarrow> world \<Rightarrow> (eWanState_t \<times> world) option" where
  "wan_state_vlan_configuring b e c = link_state b e c (\<lambda>v w.
     if VLAN_Enable (VI_VLAN v) \<and> VLAN_Status (VI_VLAN v) \<noteq> WAN_IFACE_LINKSTATUS_UP
     then Some (WAN_STATE_VLAN_CONFIGURING, w) else wan_transition_ppp_configure e c w)"

definition wan_state_ppp_configuring :: "build \<Rightarrow> env \<Rightarrow> sm_ctrl \<Rightarrow> world \<Rightarrow> (eWanState_t \<times> world) option" where
  "wan_state_ppp_configuring b e c = link_state b e c (\<lambda>v w.
     if PPP_Enable (VI_PPP v)
     then (if PPP_LinkStatus (VI_PPP v) = WAN_IFACE_PPP_LINK_STATUS_UP \<and>
              \<not> (ipv6_wanted (VI_IP v) \<and> PPP_IPV6CPStatus (VI_PPP v) \<noteq> WAN_IFACE_IPV6CP_STATUS_UP)
           then wan_transition_wan_up c w else Some (WAN_STATE_PPP_CONFIGURING, w))
     else wan_transition_wan_up c w)"

definition wan_state_validating_wan :: "build \<Rightarrow> env \<Rightarrow> sm_ctrl \<Rightarrow> world \<Rightarrow> (eWanState_t \<times> world) option" where
  "wan_state_validating_wan b e c = link_state b e c (\<lambda>v w. wan_transition_wan_validated e c w)"

definition tell_voice_manager :: "env \<Rightarrow> sm_ctrl \<Rightarrow> DML_VIRTUAL_IFACE \<Rightarrow> world \<Rightarrow> (unit \<times> world) option" where
  "tell_voice_manager e c v w =
     (if VI_Alias v \<in> {''DATA'', ''VOIP''} then updateInterfaceToVoiceManager e c False w else Some ((), w))"

text \<open>The mode the device prefers (MAP-T) has a time limit; \<open>None\<close>: go on, with the timer set.\<close>

definition mapt_timer :: "env \<Rightarrow> DML_WANIFACE_IP \<Rightarrow> DML_WANIFACE_MAP \<Rightarrow> TIMER_STATUS" where
  "mapt_timer e i m =
     (if IP_SelectedMode i \<noteq> MAPT_MODE then IP_SelectedModeTimerStatus i
      else if MAP_MaptStatus m = WAN_IFACE_MAPT_STATE_UP then COMPLETE
      else if IP_SelectedModeTimerStatus i = RUNNING \<and>
              (10 < clock e 0 - IP_SelectedModeTimerStart i \<or> IP_Ipv6Status i = WAN_IFACE_IPV6_STATE_UP)
      then EXPIRED else IP_SelectedModeTimerStatus i)"

text \<open>A change of the DHCP configuration while no address is there: start and stop the clients.\<close>

definition refresh_dhcp :: "env \<Rightarrow> sm_ctrl \<Rightarrow> DML_WAN_IFACE \<Rightarrow> vptr \<Rightarrow> world \<Rightarrow> (unit \<times> world) option" where
  "refresh_dhcp e c d q w = do {
     v \<leftarrow> virtif_at q w;
     (_, w) \<leftarrow>
       (if ipv4_wanted (VI_IP v)
        then (if IP_Dhcp4cStatus (VI_IP v) \<noteq> DHCPC_STARTED
              then WanManager_StartDhcpv4Client e q (If_Name d) (If_IfaceType d) w else Some ((), w))
        else if IP_Dhcp4cStatus (VI_IP v) = DHCPC_STARTED
        then do { (_, w) \<leftarrow> WanManager_StopDhcpv4Client e q True w; Some ((), w) }
        else Some ((), w));
     (_, w) \<leftarrow>
       (if ipv6_wanted (VI_IP v)
        then (if IP_Dhcp6cStatus (VI_IP v) \<noteq> DHCPC_STARTED
              then WanManager_StartDhcpv6Client e q (If_IfaceType d) w else Some ((), w))
        else if IP_Dhcp6cStatus (VI_IP v) = DHCPC_STARTED
        then do { (_, w) \<leftarrow> WanManager_StopDhcpv6Client e q True w; Some ((), w) }
        else Some ((), w));
     v \<leftarrow> virtif_at q w;
     (_, w) \<leftarrow>
       (if IP_Dhcp4cStatus (VI_IP v) \<noteq> DHCPC_STARTED \<and> IP_Dhcp6cStatus (VI_IP v) \<noteq> DHCPC_STARTED
        then do {
          (_, w) \<leftarrow> modify_virtif q (set_VI_Status WAN_IFACE_STATUS_VALIDATING) w;
          publish_status c w
        }
        else Some ((), w));
     modify_virtif q (upd_IP (\<lambda>i. i\<lparr>IP_RefreshDHCP := False\<rparr>)) w
   }"

text \<open>An address is there: up if the interface is the active one, standby otherwise.\<close>

definition address_obtained :: "build \<Rightarrow> env \<Rightarrow> sm_ctrl \<Rightarrow> world \<Rightarrow> (eWanState_t \<times> world) option" where
  "address_obtained b e c = sm_access NO_STATE (\<lambda>d q v w.
     if IP_Ipv4Status (VI_IP v) = WAN_IFACE_IPV4_STATE_UP
     then (if Sel_Status (If_Selection d) = WAN_IFACE_ACTIVE then wan_transition_ipv4_up b e c w
           else wan_transition_standby b e c w)
     else if IP_Ipv6Status (VI_IP v) = WAN_IFACE_IPV6_STATE_UP
     then (if Sel_Status (If_Selection d) = WAN_IFACE_ACTIVE
           then (if IP_Ipv6Changed (VI_IP v)
                 then do {
                   (_, w) \<leftarrow> setUpLanPrefixIPv6 e q w;
                   (_, w) \<leftarrow> modify_virtif q (upd_IP (\<lambda>i. i\<lparr>IP_Ipv6Changed := False\<rparr>)) w;
                   Some (WAN_STATE_OBTAINING_IP_ADDRESSES, w)
                 }
                 else do {
                   (ready, w) \<leftarrow> checkIpv6LanAddressIsReadyToUse e q w;
                   if ready then wan_transition_ipv6_up b e c w else Some (WAN_STATE_OBTAINING_IP_ADDRESSES, w)
                 })
           else wan_transition_standby b e c w)
     else Some (WAN_STATE_OBTAINING_IP_ADDRESSES, w)) c"

definition wan_state_obtaining_ip_addresses :: "build \<Rightarrow> env \<Rightarrow> sm_ctrl \<Rightarrow> world \<Rightarrow> (eWanState_t \<times> world) option" where
  "wan_state_obtaining_ip_addresses b e c = sm_access NO_STATE (\<lambda>d q v w.
     if must_stop c d v \<or> VLAN_Status (VI_VLAN v) = WAN_IFACE_LINKSTATUS_CONFIGURING \<or>
        PPP_LinkStatus (VI_PPP v) = WAN_IFACE_PPP_LINK_STATUS_CONFIGURING \<or> VI_Reset v
     then do {
       (_, w) \<leftarrow> tell_voice_manager e c v w;
       wan_transition_physical_interface_down b e c w
     }
     else if vlan_expired e v \<or> vlan_down v \<or>
        PPP_Enable (VI_PPP v) \<and> PPP_LinkStatus (VI_PPP v) = WAN_IFACE_PPP_LINK_STATUS_DOWN
     then do {
       (_, w) \<leftarrow> modify_virtif q (upd_VLAN (\<lambda>l. l\<lparr>VLAN_Expired := True\<rparr>)) w;
       (_, w) \<leftarrow> tell_voice_manager e c v w;
       wan_transition_physical_interface_down b e c w
     }
     else do {
       let timer = mapt_timer e (VI_IP v) (VI_MAP v);
       (_, w) \<leftarrow> modify_virtif q (upd_IP (\<lambda>i. i\<lparr>IP_SelectedModeTimerStatus := timer\<rparr>)) w;
       if timer = EXPIRED \<and> IP_SelectedModeTimerStatus (VI_IP v) = RUNNING
       then wan_transition_wan_validated e c w
       else if timer = RUNNING \<and> IP_SelectedMode (VI_IP v) = MAPT_MODE
       then Some (WAN_STATE_OBTAINING_IP_ADDRESSES, w)
       else if IP_RefreshDHCP (VI_IP v)
       then do {
         (_, w) \<leftarrow> refresh_dhcp e c d q w;
         Some (WAN_STATE_OBTAINING_IP_ADDRESSES, w)
       }
       else do {
         (_, w) \<leftarrow> WanMgr_MonitorDhcpApps b e c w;
         address_obtained b e c w
       }
     }) c"

text \<open>The active interface leaves the standby state: IPv6 first, then IPv4.\<close>

definition leave_standby :: "build \<Rightarrow> env \<Rightarrow> sm_ctrl \<Rightarrow> vptr \<Rightarrow> world \<Rightarrow> (eWanState_t \<times> world) option" where
  "leave_standby b e c q w = do {
     v \<leftarrow> virtif_at q w;
     (ret, w) \<leftarrow>
       (if IP_Ipv6Status (VI_IP v) = WAN_IFACE_IPV6_STATE_UP
        then do {
          (_, w) \<leftarrow> (if IP_Ipv6Changed (VI_IP v)
                     then do {
                       (_, w) \<leftarrow> setUpLanPrefixIPv6 e q w;
                       modify_virtif q (upd_IP (\<lambda>i. i\<lparr>IP_Ipv6Changed := False\<rparr>)) w
                     }
                     else Some ((), w));
          (ready, w) \<leftarrow> checkIpv6LanAddressIsReadyToUse e q w;
          if ready then wan_transition_ipv6_up b e c w else Some (WAN_STATE_STANDBY, w)
        }
        else Some (WAN_STATE_STANDBY, w));
     if IP_Ipv4Status (VI_IP v) = WAN_IFACE_IPV4_STATE_UP then wan_transition_ipv4_up b e c w else Some (ret, w)
   }"

definition wan_state_standby :: "build \<Rightarrow> env \<Rightarrow> sm_ctrl \<Rightarrow> world \<Rightarrow> (eWanState_t \<times> world) option" where
  "wan_state_standby b e c = sm_access NO_STATE (\<lambda>d q v w.
     if must_stop c d v then wan_transition_physical_interface_down b e c w
     else do {
       (_, w) \<leftarrow> WanMgr_MonitorDhcpApps b e c w;
       v \<leftarrow> virtif_at q w;
       if vlan_down v \<or> ppp_not_up v \<or>
          IP_Ipv4Status (VI_IP v) = WAN_IFACE_IPV4_STATE_DOWN \<and> IP_Ipv6Status (VI_IP v) = WAN_IFACE_IPV6_STATE_DOWN \<or>
          IP_RefreshDHCP (VI_IP v)
       then Some (WAN_STATE_OBTAINING_IP_ADDRESSES, w)
       else if Sel_Status (If_Selection d) = WAN_IFACE_ACTIVE then leave_standby b e c q w
       else do {
         (_, w) \<leftarrow> (if IP_RestartConnectivityCheck (VI_IP v) \<and>
                       IP_ConnectivityCheckType (VI_IP v) = WAN_CONNECTIVITY_TYPE_TAD
                    then WanMgr_StartConnectivityCheck e c w else Some ((), w));
         Some (WAN_STATE_STANDBY, w)
       }
     }) c"

text \<open>A renewed lease with other data: the connection is taken down and set up again.\<close>

definition reconfigure_ipv4 :: "build \<Rightarrow> env \<Rightarrow> sm_ctrl \<Rightarrow> vptr \<Rightarrow> world \<Rightarrow> (unit \<times> world) option" where
  "reconfigure_ipv4 b e c q w = do {
     (down, w) \<leftarrow> wan_tearDownIPv4 b e c w;
     if down
     then do {
       (up, w) \<leftarrow> wan_setUpIPv4 b e c w;
       if up
       then do {
         (_, w) \<leftarrow> WanMgr_SendMsgTo_ConnectivityCheck e c w;
         modify_virtif q (upd_IP (\<lambda>i. i\<lparr>IP_Ipv4Changed := False\<rparr>)) w
       }
       else Some ((), w)
     }
     else Some ((), w)
   }"

definition reconfigure_ipv6 :: "build \<Rightarrow> env \<Rightarrow> sm_ctrl \<Rightarrow> vptr \<Rightarrow> world \<Rightarrow> (unit \<times> world) option" where
  "reconfigure_ipv6 b e c q w = do {
     (down, w) \<leftarrow> wan_tearDownIPv6 b e c w;
     if down
     then do {
       (_, w) \<leftarrow> setUpLanPrefixIPv6 e q w;
       (up, w) \<leftarrow> wan_setUpIPv6 b e c w;
       if up
       then do {
         (_, w) \<leftarrow> WanMgr_SendMsgTo_ConnectivityCheck e c w;
         modify_virtif q (upd_IP (\<lambda>i. i\<lparr>IP_Ipv6Changed := False\<rparr>)) w
       }
       else Some ((), w)
     }
     else Some ((), w)
   }"

text \<open>What ends a leased state: the machine stops, a reset, the loss of the link or of the lease.\<close>

definition lease_stop :: "sm_ctrl \<Rightarrow> DML_WAN_IFACE \<Rightarrow> DML_VIRTUAL_IFACE \<Rightarrow> bool" where
  "lease_stop c d v \<longleftrightarrow> must_stop c d v \<or> VI_Reset v \<or> VLAN_Reset (VI_VLAN v)"

definition not_active :: "sm_ctrl \<Rightarrow> DML_WAN_IFACE \<Rightarrow> bool" where
  "not_active c d \<longleftrightarrow> Sel_Status (If_Selection d) \<noteq> WAN_IFACE_ACTIVE \<or> SC_DeviceNwModeChanged c"

definition ipv4_leased_body :: "build \<Rightarrow> env \<Rightarrow> sm_ctrl \<Rightarrow> world \<Rightarrow> (eWanState_t \<times> world) option" where
  "ipv4_leased_body b e c = sm_access NO_STATE (\<lambda>d q v w.
     if lease_stop c d v then wan_transition_physical_interface_down b e c w
     else if IP_Ipv4Status (VI_IP v) = WAN_IFACE_IPV4_STATE_DOWN \<or> vlan_down v \<or> ppp_not_up v \<or> ipv4_dropped v
     then wan_transition_ipv4_down b e c w
     else if not_active c d then wan_transition_standby_deconfig_ips b e c w
     else if IP_Ipv4Changed (VI_IP v)
     then do {
       (_, w) \<leftarrow> reconfigure_ipv4 b e c q w;
       Some (WAN_STATE_IPV4_LEASED, w)
     }
     else if IP_Ipv6Status (VI_IP v) = WAN_IFACE_IPV6_STATE_UP
     then (if IP_Ipv6Changed (VI_IP v)
           then do {
             (_, w) \<leftarrow> setUpLanPrefixIPv6 e q w;
             (_, w) \<leftarrow> modify_virtif q (upd_IP (\<lambda>i. i\<lparr>IP_Ipv6Changed := False\<rparr>)) w;
             Some (WAN_STATE_IPV4_LEASED, w)
           }
           else do {
             (ready, w) \<leftarrow> checkIpv6LanAddressIsReadyToUse e q w;
             if ready then wan_transition_ipv6_up b e c w else Some (WAN_STATE_IPV4_LEASED, w)
           })
     else if IP_Ipv4Renewed (VI_IP v)
     then do {
       (_, w) \<leftarrow> WanMgr_SendMsgTo_ConnectivityCheck e c w;
       (_, w) \<leftarrow> modify_virtif q (upd_IP (\<lambda>i. i\<lparr>IP_Ipv4Renewed := False\<rparr>)) w;
       Some (WAN_STATE_IPV4_LEASED, w)
     }
     else Some (WAN_STATE_IPV4_LEASED, w)) c"

definition wan_state_ipv4_leased :: "build \<Rightarrow> env \<Rightarrow> sm_ctrl \<Rightarrow> world \<Rightarrow> (eWanState_t \<times> world) option" where
  "wan_state_ipv4_leased b e c = sm_access NO_STATE (\<lambda>d q v w. do {
     (_, w) \<leftarrow> (if IP_RefreshDHCP (VI_IP v) \<and> IP_IPv6Source (VI_IP v) = DML_WAN_IP_SOURCE_DHCP \<and>
                   IP_Mode (VI_IP v) = DML_WAN_IP_MODE_DUAL_STACK \<and> IP_Dhcp6cStatus (VI_IP v) \<noteq> DHCPC_STARTED
                then WanManager_StartDhcpv6Client e q (If_IfaceType d) w else Some ((), w));
     (_, w) \<leftarrow> WanMgr_MonitorDhcpApps b e c w;
     ipv4_leased_body b e c w
   }) c"

definition ipv6_leased_body :: "build \<Rightarrow> env \<Rightarrow> sm_ctrl \<Rightarrow> world \<Rightarrow> (eWanState_t \<times> world) option" where
  "ipv6_leased_body b e c = sm_access NO_STATE (\<lambda>d q v w.
     if lease_stop c d v then wan_transition_physical_interface_down b e c w
     else if IP_Ipv6Status (VI_IP v) = WAN_IFACE_IPV6_STATE_DOWN \<or> vlan_down v \<or> ppp_not_up v \<or> ipv6_dropped v
     then wan_transition_ipv6_down b e c w
     else if not_active c d then wan_transition_standby_deconfig_ips b e c w
     else if \<not> IP_Ipv6Changed (VI_IP v) \<and> IP_Ipv4Status (VI_IP v) = WAN_IFACE_IPV4_STATE_UP
     then wan_transition_ipv4_up b e c w
     else do {
       (_, w) \<leftarrow>
         (if IP_Ipv6Changed (VI_IP v) then reconfigure_ipv6 b e c q w
          else if IP_Ipv6Renewed (VI_IP v)
          then do {
            (_, w) \<leftarrow> WanMgr_SendMsgTo_ConnectivityCheck e c w;
            modify_virtif q (upd_IP (\<lambda>i. i\<lparr>IP_Ipv6Renewed := False\<rparr>)) w
          }
          else Some ((), w));
       (_, w) \<leftarrow> WanMgr_CheckDefaultRA e q w;
       Some (WAN_STATE_IPV6_LEASED, w)
     }) c"

definition wan_state_ipv6_leased :: "build \<Rightarrow> env \<Rightarrow> sm_ctrl \<Rightarrow> world \<Rightarrow> (eWanState_t \<times> world) option" where
  "wan_state_ipv6_leased b e c = sm_access NO_STATE (\<lambda>d q v w. do {
     (_, w) \<leftarrow> (if IP_RefreshDHCP (VI_IP v) \<and> IP_IPv4Source (VI_IP v) = DML_WAN_IP_SOURCE_DHCP \<and>
                   IP_Mode (VI_IP v) = DML_WAN_IP_MODE_DUAL_STACK \<and>
                   IP_SelectedModeTimerStatus (VI_IP v) \<noteq> COMPLETE \<and> IP_Dhcp4cStatus (VI_IP v) \<noteq> DHCPC_STARTED
                then WanManager_StartDhcpv4Client e q (If_Name d) (If_IfaceType d) w else Some ((), w));
     (_, w) \<leftarrow> WanMgr_MonitorDhcpApps b e c w;
     ipv6_leased_body b e c w
   }) c"

definition wan_state_dual_stack_active :: "build \<Rightarrow> env \<Rightarrow> sm_ctrl \<Rightarrow> world \<Rightarrow> (eWanState_t \<times> world) option" where
  "wan_state_dual_stack_active b e c = sm_access NO_STATE (\<lambda>d q v w.
     if lease_stop c d v then wan_transition_physical_interface_down b e c w
     else if vlan_down v \<or> ppp_not_up v then wan_transition_dual_stack_down b e c w
     else if IP_Ipv4Status (VI_IP v) = WAN_IFACE_IPV4_STATE_DOWN \<or> ipv4_dropped v
     then wan_transition_ipv4_down b e c w
     else if not_active c d then wan_transition_standby_deconfig_ips b e c w
     else if \<not> IP_Ipv4Changed (VI_IP v) \<and>
             (IP_Ipv6Status (VI_IP v) = WAN_IFACE_IPV6_STATE_DOWN \<or> ipv6_dropped v)
     then wan_transition_ipv6_down b e c w
     else do {
       (_, w) \<leftarrow>
         (if IP_Ipv4Changed (VI_IP v) then reconfigure_ipv4 b e c q w
          else if IP_Ipv6Changed (VI_IP v) then reconfigure_ipv6 b e c q w
          else if IP_Ipv4Renewed (VI_IP v)
          then do {
            (_, w) \<leftarrow> WanMgr_SendMsgTo_ConnectivityCheck e c w;
            modify_virtif q (upd_IP (\<lambda>i. i\<lparr>IP_Ipv4Renewed := False\<rparr>)) w
          }
          else if IP_Ipv6Renewed (VI_IP v)
          then do {
            (_, w) \<leftarrow> WanMgr_SendMsgTo_ConnectivityCheck e c w;
            modify_virtif q (upd_IP (\<lambda>i. i\<lparr>IP_Ipv6Renewed := False\<rparr>)) w
          }
          else Some ((), w));
       (_, w) \<leftarrow> WanMgr_MonitorDhcpApps b e c w;
       (_, w) \<leftarrow> WanMgr_CheckDefaultRA e q w;
       Some (WAN_STATE_DUAL_STACK_ACTIVE, w)
     }) c"

text \<open>The links have to be down before they are configured anew, or the machine ends.\<close>

definition links_up :: "DML_VIRTUAL_IFACE \<Rightarrow> bool" where
  "links_up v \<longleftrightarrow> PPP_Enable (VI_PPP v) \<and> PPP_LinkStatus (VI_PPP v) \<noteq> WAN_IFACE_PPP_LINK_STATUS_DOWN \<or>
     VLAN_Enable (VI_VLAN v) \<and> VLAN_Status (VI_VLAN v) \<noteq> WAN_IFACE_LINKSTATUS_DOWN"

definition wan_state_refreshing_wan :: "build \<Rightarrow> env \<Rightarrow> sm_ctrl \<Rightarrow> world \<Rightarrow> (eWanState_t \<times> world) option" where
  "wan_state_refreshing_wan b e c = sm_access NO_STATE (\<lambda>d q v w.
     if must_stop c d v
     then do {
       (_, w) \<leftarrow> modify_virtif q (\<lambda>v. (upd_VLAN (\<lambda>l. l\<lparr>VLAN_Reset := False, VLAN_Expired := False\<rparr>) v)
                   \<lparr>VI_Reset := False\<rparr>) w;
       wan_transition_physical_interface_down b e c w
     }
     else if links_up v then Some (WAN_STATE_REFRESHING_WAN, w)
     else wan_transition_wan_refreshed e c w) c"

definition wan_state_deconfiguring_wan :: "build \<Rightarrow> env \<Rightarrow> sm_ctrl \<Rightarrow> world \<Rightarrow> (eWanState_t \<times> world) option" where
  "wan_state_deconfiguring_wan b e c = sm_access NO_STATE (\<lambda>d q v w.
     if links_up v then Some (WAN_STATE_DECONFIGURING_WAN, w) else wan_transition_exit b e c w) c"

definition wan_state_exit :: "sm_ctrl \<Rightarrow> world \<Rightarrow> (eWanState_t \<times> world) option" where
  "wan_state_exit c = sm_access NO_STATE (\<lambda>d q v w. do {
     (_, w) \<leftarrow> WanManager_ClearDHCPData q w;
     Some (WAN_STATE_EXIT, w)
   }) c"

subsection \<open>The thread\<close>

definition WanMgr_IfaceIpcMsg_handle :: "build \<Rightarrow> env \<Rightarrow> sm_ctrl \<Rightarrow> world \<Rightarrow> (unit \<times> world) option" where
  "WanMgr_IfaceIpcMsg_handle b e c = sm_access () (\<lambda>d q v w. do {
     (_, w) \<leftarrow>
       (if PPP_Enable (VI_PPP v) \<and> PPP_IPCPStatusChanged (VI_PPP v)
        then do {
          (_, w) \<leftarrow> (if IP_IPv4Source (VI_IP v) = DML_WAN_IP_SOURCE_PPP \<and>
                        IP_Mode (VI_IP v) \<in> {DML_WAN_IP_MODE_IPV4_ONLY, DML_WAN_IP_MODE_DUAL_STACK}
                     then IPCPStateChangeHandler e q w else Some ((), w));
          modify_virtif q (upd_PPP (\<lambda>p. p\<lparr>PPP_IPCPStatusChanged := False\<rparr>)) w
        }
        else Some ((), w));
     (_, w) \<leftarrow> modify_virtif q (upd_PPP (\<lambda>p. if PPP_Enable p then p\<lparr>PPP_IPV6CPStatusChanged := False\<rparr> else p)) w;
     (_, w) \<leftarrow> wanmgr_handle_dhcpv4_event_data e q w;
     wanmgr_handle_dhcpv6_event_data b e q w
   }) c"

fun ism_state :: "build \<Rightarrow> env \<Rightarrow> eWanState_t \<Rightarrow> sm_ctrl \<Rightarrow> world \<Rightarrow> (eWanState_t \<times> world) option" where
  "ism_state b e WAN_STATE_VLAN_CONFIGURING = wan_state_vlan_configuring b e"
| "ism_state b e WAN_STATE_PPP_CONFIGURING = wan_state_ppp_configuring b e"
| "ism_state b e WAN_STATE_VALIDATING_WAN = wan_state_validating_wan b e"
| "ism_state b e WAN_STATE_OBTAINING_IP_ADDRESSES = wan_state_obtaining_ip_addresses b e"
| "ism_state b e WAN_STATE_IPV4_LEASED = wan_state_ipv4_leased b e"
| "ism_state b e WAN_STATE_IPV6_LEASED = wan_state_ipv6_leased b e"
| "ism_state b e WAN_STATE_DUAL_STACK_ACTIVE = wan_state_dual_stack_active b e"
| "ism_state b e WAN_STATE_REFRESHING_WAN = wan_state_refreshing_wan b e"
| "ism_state b e WAN_STATE_DECONFIGURING_WAN = wan_state_deconfiguring_wan b e"
| "ism_state b e WAN_STATE_STANDBY = wan_state_standby b e"
| "ism_state b e _ = wan_state_exit"

definition ism_ends :: "eWanState_t \<Rightarrow> bool" where
  "ism_ends st \<longleftrightarrow> st \<in> {WAN_STATE_EXIT, WAN_STATE_MAPT_ACTIVE}"

text \<open>The thread's variables: its controller, \<open>iface_sm_state\<close>, \<open>bRunning\<close>.\<close>

record ISM =
  ISM_ctrl :: sm_ctrl
  ISM_state :: eWanState_t
  ISM_running :: bool

definition WanMgr_IfaceSM_Init :: "int \<Rightarrow> int \<Rightarrow> sm_ctrl" where
  "WanMgr_IfaceSM_Init iface_idx VirIfIdx =
     \<lparr>SC_WanEnable = False, SC_interfaceIdx = iface_idx, SC_VirIfIdx = VirIfIdx, SC_pIfaceData = None,
      SC_eCurrentState = WAN_STATE_EXIT, SC_DeviceNwMode = GATEWAY_MODE, SC_DeviceNwModeChanged = False\<rparr>"

definition ISM_start :: "build \<Rightarrow> env \<Rightarrow> sm_ctrl \<Rightarrow> world \<Rightarrow> (ISM \<times> world) option" where
  "ISM_start b e c = with_iface (idx_uint (SC_interfaceIdx c)) \<lparr>ISM_ctrl = c, ISM_state = WAN_STATE_EXIT, ISM_running = False\<rparr>
     (\<lambda>k w. do {
        let c = c\<lparr>SC_pIfaceData := Some k\<rparr>;
        (st, w) \<leftarrow> wan_transition_start b e c w;
        Some (\<lparr>ISM_ctrl = c, ISM_state = st, ISM_running = True\<rparr>, w)
      })"

definition ISM_read_config :: "sm_ctrl \<Rightarrow> world \<Rightarrow> sm_ctrl \<times> world" where
  "ISM_read_config c = with_config c (\<lambda>w.
     (c\<lparr>SC_WanEnable := Cfg_Enable (config w), SC_DeviceNwMode := Cfg_DeviceNwMode (config w),
        SC_DeviceNwModeChanged := Cfg_DeviceNwModeChanged (config w)\<rparr>,
      upd_config (\<lambda>g. g\<lparr>Cfg_DeviceNwModeChanged := False\<rparr>) w))"

text \<open>
  The part of a pass that works on the interface.  With \<open>pIfaceData\<close> NULL the messages are skipped, then
  the code looks for the virtual interface in the list of no interface.
\<close>

definition ISM_step :: "build \<Rightarrow> env \<Rightarrow> ISM \<Rightarrow> sm_ctrl \<Rightarrow> world \<Rightarrow> (ISM \<times> world) option" where
  "ISM_step b e s c w = do {
     (_, w) \<leftarrow> WanMgr_IfaceIpcMsg_handle b e c w;
     let c = c\<lparr>SC_eCurrentState := ISM_state s\<rparr>;
     (_, w) \<leftarrow> sm_deref (\<lambda>d q v. modify_virtif q (\<lambda>v. v\<lparr>VI_eCurrentState := ISM_state s\<rparr>)) c w;
     (st, w) \<leftarrow> ism_state b e (ISM_state s) c w;
     Some (\<lparr>ISM_ctrl = c, ISM_state = st, ISM_running = \<not> ism_ends (ISM_state s)\<rparr>, w)
   }"

definition ISM_pass :: "build \<Rightarrow> env \<Rightarrow> ISM \<Rightarrow> world \<Rightarrow> (ISM \<times> world) option" where
  "ISM_pass b e s w =
     (if \<not> ISM_running s then Some (s, w)
      else let c = (ISM_ctrl s)\<lparr>SC_pIfaceData := None\<rparr>
           in if \<not> select_ok e then Some (s\<lparr>ISM_ctrl := c\<rparr>, w)
              else let (c, w) = ISM_read_config c w
                   in case WanMgr_GetIfaceData_locked (idx_uint (SC_interfaceIdx c)) w of
                        (None, w) \<Rightarrow> ISM_step b e s c w
                      | (Some k, w) \<Rightarrow> do {
                          (s, w) \<leftarrow> ISM_step b e s (c\<lparr>SC_pIfaceData := Some k\<rparr>) w;
                          Some (s, WanMgrDml_GetIfaceData_release w)
                        })"

end
