(* ===== verification/WanVif.thy ===== *)
theory WanVif
  imports WanInterfaceSM
begin

text \<open>
  The calculus for the interface state machine.  A step of the machine changes one virtual interface and
  nothing else in the tables (\<open>vif_step\<close>), and the change obeys a relation \<open>chg\<close>.  The locale \<open>vif_effects\<close>
  holds the rules, one per construct of the model; they carry along what every function of the machine
  relies on (\<open>good\<close>): a well-formed data base, a controller that points to its virtual interface, and texts
  that fit the buffers of the status report.
\<close>

named_theorems tab_simps \<open>operations that leave the tables and the mutex alone\<close>
named_theorems vif_rules \<open>rules for calls of the helpers\<close>

subsection \<open>Tables\<close>

text \<open>
  Of the configuration, a machine writes the status texts it reports, takes note of a change of the networking mode, of
  the first connection after the start, and asks for a new scan of the groups.  The settings are the rest.
\<close>

definition settings :: "DML_WANMGR_CONFIG \<Rightarrow> DML_WANMGR_CONFIG" where
  "settings c = c\<lparr>Cfg_DeviceNwModeChanged := False, Cfg_ResetFailOverScan := False, Cfg_BootToWanUp := False,
     Cfg_InterfaceAvailableStatus := [], Cfg_InterfaceActiveStatus := [], Cfg_CurrentActiveInterface := [],
     Cfg_CurrentStatus := [], Cfg_CurrentStandbyInterface := [], Cfg_CurrentActiveDNS := []\<rparr>"

definition fixed_part :: "world \<Rightarrow> DML_WANMGR_CONFIG \<times> uint" where
  "fixed_part w = (settings (config w), IC_update (IfaceCtrl (gWanMgrDataBase w)))"

lemma fixed_part_simps [simp]:
  "fixed_part (emit x w) = fixed_part w" "fixed_part (mlock w) = fixed_part w"
  "fixed_part (pthread_mutex_unlock w) = fixed_part w" "fixed_part (upd_iface k g w) = fixed_part w"
  by (simp_all add: fixed_part_def mlock_def upd_iface_def upd_db_def pthread_mutex_unlock_def split: option.split nat.split)

definition tabs :: "world \<Rightarrow> DML_WAN_IFACE list option \<times> WANMGR_IFACE_GROUP list option \<times> uint \<times> uint \<times> nat option \<times>
  DML_WANMGR_CONFIG \<times> uint" where
  "tabs w = (pIface w, Groups w, total_ifaces w, total_groups w, mutex w, fixed_part w)"

lemma tabs_same_db: "gWanMgrDataBase w' = gWanMgrDataBase w \<Longrightarrow> tabs w' = tabs w"
  by (simp add: tabs_def fixed_part_def)

lemma tabs_reads:
  assumes "tabs w' = tabs w"
  shows "pIface w' = pIface w" "Groups w' = Groups w" "total_ifaces w' = total_ifaces w"
    "total_groups w' = total_groups w" "mutex w' = mutex w" "iface_at k w' = iface_at k w"
    "virtif_at q w' = virtif_at q w" "wf_db w' = wf_db w" "sel_view w' = sel_view w" "fixed_part w' = fixed_part w"
proof -
  from assms show eqs: "pIface w' = pIface w" "Groups w' = Groups w" "total_ifaces w' = total_ifaces w"
    "total_groups w' = total_groups w" "mutex w' = mutex w" "fixed_part w' = fixed_part w" by (simp_all add: tabs_def)
  then show at: "iface_at k w' = iface_at k w" for k by (simp add: iface_at_def)
  show "virtif_at q w' = virtif_at q w" by (simp add: virtif_at_def at)
  show "wf_db w' = wf_db w" by (simp only: wf_db_def eqs)
  show "sel_view w' = sel_view w" by (simp add: sel_view_def at group_at_def eqs)
qed

lemma tabs_emit [tab_simps]: "tabs (emit x w) = tabs w"
  by (simp add: tabs_def)

lemma tabs_upd_config [tab_simps]: "(\<And>c. settings (f c) = settings c) \<Longrightarrow> tabs (upd_config f w) = tabs w"
  by (simp add: tabs_def fixed_part_def) (simp add: upd_config_def upd_db_def)

lemma settings_writes [tab_simps]:
  "settings (c\<lparr>Cfg_DeviceNwModeChanged := a\<rparr>) = settings c" "settings (c\<lparr>Cfg_ResetFailOverScan := a\<rparr>) = settings c"
  "settings (c\<lparr>Cfg_BootToWanUp := a\<rparr>) = settings c" "settings (c\<lparr>Cfg_InterfaceAvailableStatus := s\<rparr>) = settings c"
  "settings (c\<lparr>Cfg_InterfaceActiveStatus := s\<rparr>) = settings c" "settings (c\<lparr>Cfg_CurrentActiveInterface := s\<rparr>) = settings c"
  "settings (c\<lparr>Cfg_CurrentStatus := s\<rparr>) = settings c" "settings (c\<lparr>Cfg_CurrentStandbyInterface := s\<rparr>) = settings c"
  "settings (c\<lparr>Cfg_CurrentActiveDNS := s\<rparr>) = settings c"
  by (simp_all add: settings_def)

lemma tabs_with_config [tab_simps]:
  assumes "\<And>w. tabs (snd (body w)) = tabs w"
  shows "tabs (snd (with_config d body w)) = tabs w"
proof (cases "mutex w")
  case None
  then show ?thesis by (simp add: with_config_def WanMgr_GetConfigData_locked_def pthread_mutex_lock_def)
next
  case (Some n)
  obtain r w' where b: "body (mlock w) = (r, w')" by fastforce
  with assms [of "mlock w"] have "tabs w' = tabs (mlock w)" by simp
  from tabs_reads(1-5,10) [OF this] Some b show ?thesis
    by (simp add: with_config_def WanMgr_GetConfigData_locked_def pthread_mutex_lock_def release_defs tabs_def)
qed

lemma tabs_fold [tab_simps]: "(\<And>x w. tabs (f x w) = tabs w) \<Longrightarrow> tabs (fold f xs w) = tabs w"
  by (induction xs arbitrary: w) auto

lemma tabs_Let_if [tab_simps]:
  "tabs (if b then w1 else w2) = (if b then tabs w1 else tabs w2)"
  "snd (if b then p else p') = (if b then snd p else snd p')"
  by simp_all

lemmas tabs_cases = prod.split option.split DEVICE_NETWORKING_MODE.split

subsection \<open>One virtual interface\<close>

definition vget :: "vptr \<Rightarrow> DML_WAN_IFACE list option \<Rightarrow> DML_VIRTUAL_IFACE option" where
  "vget q ifs = Option.bind ifs (\<lambda>l. Option.bind (nth_opt l (fst q)) (\<lambda>i. nth_opt (If_VirtIfList i) (snd q)))"

definition vput :: "vptr \<Rightarrow> DML_VIRTUAL_IFACE \<Rightarrow> DML_WAN_IFACE list option \<Rightarrow> DML_WAN_IFACE list option" where
  "vput q v = map_option (map_nth (fst q) (\<lambda>i. i\<lparr>If_VirtIfList := (If_VirtIfList i)[snd q := v]\<rparr>))"

lemma virtif_at_vget: "virtif_at q w = vget q (pIface w)"
  by (cases "pIface w") (simp_all add: virtif_at_def vget_def iface_at_def)

lemma vput_vput: "vput q x (vput q y ifs) = vput q x ifs"
  by (cases ifs) (simp_all add: vput_def)

lemma vget_vput: "vget q ifs = Some v \<Longrightarrow> vget q (vput q x ifs) = Some x"
  by (cases ifs) (auto simp: vget_def vput_def bind_eq_Some_conv)

lemma vput_same:
  assumes "vget q ifs = Some v"
  shows "vput q v ifs = ifs"
proof -
  from assms obtain l i where l: "ifs = Some l" "fst q < length l" "l ! fst q = i" "snd q < length (If_VirtIfList i)"
    "If_VirtIfList i ! snd q = v" by (auto simp: vget_def bind_eq_Some_conv)
  from l(4,5) have vs: "(If_VirtIfList i)[snd q := v] = If_VirtIfList i" by (metis list_update_id)
  have "map_nth (fst q) (\<lambda>i. i\<lparr>If_VirtIfList := (If_VirtIfList i)[snd q := v]\<rparr>) l = l[fst q := i]"
    using l(2,3) vs by (simp add: map_nth_def)
  also have "\<dots> = l" using l(3) by (metis list_update_id)
  finally show ?thesis by (simp add: l(1) vput_def)
qed

lemma pIface_upd_virtif:
  assumes "virtif_at q w = Some v"
  shows "pIface (upd_virtif q f w) = vput q (f v) (pIface w)"
proof -
  from assms obtain l i where l: "pIface w = Some l" "fst q < length l" "l ! fst q = i"
    "snd q < length (If_VirtIfList i)" "If_VirtIfList i ! snd q = v"
    by (auto simp: virtif_at_vget vget_def bind_eq_Some_conv)
  then show ?thesis by (simp add: upd_virtif_def vput_def map_nth_def)
qed

definition vif_step :: "(DML_VIRTUAL_IFACE \<Rightarrow> DML_VIRTUAL_IFACE \<Rightarrow> bool) \<Rightarrow> vptr \<Rightarrow> world \<Rightarrow> world \<Rightarrow> bool" where
  "vif_step chg q w w' \<longleftrightarrow> Groups w' = Groups w \<and> fixed_part w' = fixed_part w \<and>
     (case virtif_at q w of
        None \<Rightarrow> pIface w' = pIface w
      | Some v \<Rightarrow> \<exists>v'. chg v v' \<and> pIface w' = vput q v' (pIface w))"

lemma vif_step_virtif:
  assumes "vif_step chg q w w'" "virtif_at q w = Some v"
  obtains v' where "virtif_at q w' = Some v'" "chg v v'" "pIface w' = vput q v' (pIface w)"
  using assms by (auto simp: vif_step_def virtif_at_vget vget_vput)

lemma vif_stepI:
  "\<lbrakk>virtif_at q w = Some v; Groups w' = Groups w; fixed_part w' = fixed_part w; chg v v'; pIface w' = vput q v' (pIface w)\<rbrakk> \<Longrightarrow> vif_step chg q w w'"
  by (auto simp: vif_step_def)

lemma vif_step_tabs:
  assumes "tabs w' = tabs w" "\<And>v. chg v v"
  shows "vif_step chg q w w'"
proof (cases "virtif_at q w")
  case (Some v)
  then have "vput q v (pIface w) = pIface w" by (simp add: virtif_at_vget vput_same)
  then have "pIface w' = vput q v (pIface w)" by (simp only: tabs_reads(1) [OF assms(1)])
  with Some tabs_reads(2,10) [OF assms(1)] assms(2) show ?thesis by (rule vif_stepI)
qed (simp add: vif_step_def tabs_reads(1,2,10) [OF assms(1)])

lemma vif_step_comp:
  assumes 1: "vif_step chg1 q w w'" and 2: "vif_step chg2 q w' w''"
    and comp: "\<And>u v x. chg1 u v \<Longrightarrow> chg2 v x \<Longrightarrow> chg3 u x"
  shows "vif_step chg3 q w w''"
proof (cases "virtif_at q w")
  case None
  with 1 have "pIface w' = pIface w" by (simp add: vif_step_def)
  moreover from this None have "virtif_at q w' = None" by (simp add: virtif_at_vget)
  ultimately show ?thesis using 1 2 None by (simp add: vif_step_def)
next
  case (Some v)
  from vif_step_virtif [OF 1 Some] obtain v' where v': "virtif_at q w' = Some v'" "chg1 v v'"
    "pIface w' = vput q v' (pIface w)" .
  from vif_step_virtif [OF 2 v'(1)] obtain v'' where v'': "chg2 v' v''" "pIface w'' = vput q v'' (pIface w')" .
  then have "pIface w'' = vput q v'' (pIface w)" by (simp add: v'(3) vput_vput)
  moreover have "Groups w'' = Groups w" "fixed_part w'' = fixed_part w" using 1 2 by (simp_all add: vif_step_def)
  ultimately show ?thesis using comp [OF v'(2) v''(1)] Some by (intro vif_stepI)
qed

lemma vif_step_mono: "vif_step chg q w w' \<Longrightarrow> (\<And>u v. chg u v \<Longrightarrow> chg' u v) \<Longrightarrow> vif_step chg' q w w'"
  by (auto simp: vif_step_def split: option.splits)

lemma vif_step_upd_virtif:
  assumes "virtif_at q w = Some v" "chg v (f v)"
  shows "vif_step chg q w (upd_virtif q f w)"
  using assms by (intro vif_stepI) (simp_all add: pIface_upd_virtif, simp_all add: upd_virtif_def)

lemma vif_step_lock [simp]:
  "vif_step chg q (mlock w) w' = vif_step chg q w w'"
  "vif_step chg q w (pthread_mutex_unlock w') = vif_step chg q w w'"
  by (simp_all only: vif_step_def virtif_at_vget mlock_reads unlock_reads fixed_part_simps)

text \<open>What such a step leaves of the rest of the data base.\<close>

lemma vif_step_iface:
  assumes step: "vif_step chg q w w'" and i: "iface_at k w = Some i"
  obtains vs where "iface_at k w' = Some (i\<lparr>If_VirtIfList := vs\<rparr>)" "length vs = length (If_VirtIfList i)"
    "\<And>j. (k, j) \<noteq> q \<Longrightarrow> j < length vs \<Longrightarrow> vs ! j = If_VirtIfList i ! j"
    "\<And>j. (k, j) = q \<Longrightarrow> j < length vs \<Longrightarrow> chg (If_VirtIfList i ! j) (vs ! j)"
proof (cases "virtif_at q w")
  case None
  with step i have "iface_at k w' = Some (i\<lparr>If_VirtIfList := If_VirtIfList i\<rparr>)" by (simp add: vif_step_def iface_at_def)
  then show ?thesis
  proof (rule that)
    show "chg (If_VirtIfList i ! j) (If_VirtIfList i ! j)" if "(k, j) = q" "j < length (If_VirtIfList i)" for j
      using that None i by (auto simp: virtif_at_def)
  qed simp_all
next
  case (Some v)
  with step obtain v' where v': "chg v v'" "pIface w' = vput q v' (pIface w)" by (auto simp: vif_step_def)
  obtain l where l: "pIface w = Some l" "k < length l" "l ! k = i" using i by (auto simp: iface_at_def bind_eq_Some_conv)
  show ?thesis
  proof (cases "k = fst q")
    case True
    with v' l have "iface_at k w' = Some (i\<lparr>If_VirtIfList := (If_VirtIfList i)[snd q := v']\<rparr>)"
      by (simp add: vput_def iface_at_def)
    then show ?thesis
    proof (rule that)
      show "(If_VirtIfList i)[snd q := v'] ! j = If_VirtIfList i ! j" if "(k, j) \<noteq> q" for j
        using that True by (cases q) auto
      show "chg (If_VirtIfList i ! j) ((If_VirtIfList i)[snd q := v'] ! j)"
        if "(k, j) = q" "j < length ((If_VirtIfList i)[snd q := v'])" for j
      proof -
        from that(1) have "j = snd q" by (metis snd_conv)
        with that(2) True Some i v'(1) show ?thesis by (auto simp: virtif_at_def)
      qed
    qed simp
  next
    case False
    with v' l have "iface_at k w' = Some (i\<lparr>If_VirtIfList := If_VirtIfList i\<rparr>)" by (simp add: vput_def iface_at_def)
    then show ?thesis by (rule that) (use False in auto)
  qed
qed

subsection \<open>Texts that fit\<close>

text \<open>
  The status report concatenates the display names and the names of all interfaces in arrays of 64
  characters; the bridge name is copied into one of 16.  These are the names for which nothing overflows.
\<close>

definition name_cost :: "DML_VIRTUAL_IFACE \<Rightarrow> nat" where
  "name_cost v = max 7 (length (VI_Name v)) + 1"

definition iface_cost :: "(DML_VIRTUAL_IFACE \<Rightarrow> nat) \<Rightarrow> DML_WAN_IFACE \<Rightarrow> nat" where
  "iface_cost f i = (if Sel_Enable (If_Selection i) then sum_list (map f (If_VirtIfList i)) else 0)"

definition report_fits :: "world \<Rightarrow> bool" where
  "report_fits w \<longleftrightarrow> (case pIface w of None \<Rightarrow> True | Some l \<Rightarrow>
     let is = take (unat (total_ifaces w)) l
     in sum_list (map (\<lambda>i. iface_cost (\<lambda>_. length (If_DisplayName i) + 3) i) is) \<le> 64 \<and>
        sum_list (map (iface_cost name_cost) is) \<le> 64)"

text \<open>A virtual interface whose name is short, and whose VLAN has a first entry with the index 0.\<close>

definition vif_fits :: "DML_VIRTUAL_IFACE \<Rightarrow> bool" where
  "vif_fits v \<longleftrightarrow> length (VI_Name v) < 16 \<and>
     (VLAN_Enable (VI_VLAN v) \<longrightarrow> (case VLAN_InterfaceList (VI_VLAN v) of [] \<Rightarrow> False | x # _ \<Rightarrow> VT_Index x = 0))"

text \<open>What every change of the machine respects.\<close>

definition sane :: "DML_VIRTUAL_IFACE \<Rightarrow> DML_VIRTUAL_IFACE \<Rightarrow> bool" where
  "sane v v' \<longleftrightarrow> VI_VirIfIdx v' = VI_VirIfIdx v \<and> VI_baseIfIdx v' = VI_baseIfIdx v \<and> VI_Enable v' = VI_Enable v \<and>
     VLAN_InterfaceList (VI_VLAN v') = VLAN_InterfaceList (VI_VLAN v) \<and>
     VLAN_Enable (VI_VLAN v') = VLAN_Enable (VI_VLAN v) \<and> (VI_Name v' = VI_Name v \<or> VI_Name v' = ''wwan0'')"

lemma sane_refl: "sane v v"
  by (simp add: sane_def)

lemma sane_trans: "sane u v \<Longrightarrow> sane v x \<Longrightarrow> sane u x"
  by (auto simp: sane_def)

lemma sane_fits: "sane v v' \<Longrightarrow> vif_fits v \<Longrightarrow> vif_fits v'"
  by (auto simp: sane_def vif_fits_def)

lemma sane_cost: "sane v v' \<Longrightarrow> name_cost v' \<le> name_cost v"
  by (auto simp: sane_def name_cost_def)

lemma virtif_at_SomeD:
  assumes "virtif_at q w = Some v" "pIface w = Some l"
  shows "fst q < length l" "snd q < length (If_VirtIfList (l ! fst q))" "If_VirtIfList (l ! fst q) ! snd q = v"
  using assms by (auto simp: virtif_at_vget vget_def bind_eq_Some_conv)

lemma vput_report_fits:
  assumes l: "pIface w = Some l" and v: "virtif_at q w = Some v" and sane: "sane v v'"
    and w': "pIface w' = vput q v' (pIface w)" "total_ifaces w' = total_ifaces w" and fits: "report_fits w"
  shows "report_fits w'"
proof -
  let ?g = "\<lambda>i. i\<lparr>If_VirtIfList := (If_VirtIfList i)[snd q := v']\<rparr>"
  let ?l' = "map_nth (fst q) ?g l"
  let ?n = "unat (total_ifaces w)"
  note q = virtif_at_SomeD [OF v l]
  have cost: "iface_cost f (?l' ! k) \<le> iface_cost f (l ! k)" if "f v' \<le> f v" "k < length l" for f k
  proof (cases "k = fst q")
    case True
    have "sum_list (map f ((If_VirtIfList (l ! fst q))[snd q := v'])) \<le> sum_list (map f (If_VirtIfList (l ! fst q)))"
      using that(1) q(2,3) by (intro sum_list_mono2) (auto simp: nth_list_update)
    with True q(1) show ?thesis by (simp add: iface_cost_def)
  qed (use that(2) in simp)
  have mono: "sum_list (map h (take ?n ?l')) \<le> sum_list (map h (take ?n l))"
    if "\<And>k. k < length l \<Longrightarrow> h (?l' ! k) \<le> h (l ! k)" for h :: "DML_WAN_IFACE \<Rightarrow> nat"
    using that by (intro sum_list_mono2) auto
  let ?d = "\<lambda>i. iface_cost (\<lambda>_. length (If_DisplayName i) + 3) i"
  have "?d (?l' ! k) \<le> ?d (l ! k)" if "k < length l" for k
    using cost [of "\<lambda>_. length (If_DisplayName (l ! k)) + 3" k] that by (cases "fst q = k") simp_all
  then have a: "sum_list (map ?d (take ?n ?l')) \<le> sum_list (map ?d (take ?n l))" by (rule mono)
  have b: "sum_list (map (iface_cost name_cost) (take ?n ?l')) \<le> sum_list (map (iface_cost name_cost) (take ?n l))"
    by (rule mono) (rule cost [OF sane_cost [OF sane]])
  from fits l have "sum_list (map ?d (take ?n l)) \<le> 64" "sum_list (map (iface_cost name_cost) (take ?n l)) \<le> 64"
    by (simp_all add: report_fits_def Let_def)
  from order.trans [OF a this(1)] order.trans [OF b this(2)] w' l show ?thesis by (simp add: report_fits_def vput_def Let_def)
qed

lemma vput_wf:
  assumes v: "virtif_at q w = Some v" and sane: "sane v v'"
    and w': "pIface w' = vput q v' (pIface w)" "total_ifaces w' = total_ifaces w" "total_groups w' = total_groups w"
      "mutex w' = mutex w" "Groups w' = Groups w" and wf: "wf_db w"
  shows "wf_db w'"
proof -
  let ?g = "\<lambda>i. i\<lparr>If_VirtIfList := (If_VirtIfList i)[snd q := v']\<rparr>"
  from wf obtain l where l: "pIface w = Some l" by (auto simp: wf_db_def split: option.splits)
  note q = virtif_at_SomeD [OF v l]
  have "map VI_VirIfIdx ((If_VirtIfList (l ! fst q))[snd q := v']) = map VI_VirIfIdx (If_VirtIfList (l ! fst q))"
    using q(2,3) sane by (intro nth_equalityI) (auto simp: nth_list_update sane_def)
  then have "map iface_shape (map_nth (fst q) ?g l) = map iface_shape l"
    by (intro nth_equalityI) (auto simp: iface_shape_def)
  with wf l w' show ?thesis unfolding wf_db_def vput_def w' l option.map option.case by simp
qed

lemma sane_step_wf:
  assumes "vif_step chg q w w'" "\<And>u v. chg u v \<Longrightarrow> sane u v" "total_ifaces w' = total_ifaces w"
    "total_groups w' = total_groups w" "mutex w' = mutex w" "wf_db w"
  shows "wf_db w'"
proof (cases "virtif_at q w")
  case None
  with assms have "tabs w' = tabs w" by (simp add: tabs_def vif_step_def)
  then show ?thesis by (simp only: tabs_reads(8) assms(6))
next
  case (Some v)
  from vif_step_virtif [OF assms(1) Some] obtain v' where v': "chg v v'" "pIface w' = vput q v' (pIface w)" .
  have "Groups w' = Groups w" using assms(1) unfolding vif_step_def by (rule conjunct1)
  with vput_wf [OF Some assms(2) [OF v'(1)] v'(2) assms(3-5) _ assms(6)] show ?thesis by blast
qed

end
