(* ===== verification/WanSteps.thy ===== *)
theory WanSteps
  imports WanVif
begin

text \<open>
  The rules for the functions of the interface state machine, in the locale \<open>vif_effects\<close>: a function of the
  machine returns, leaves the data base well-formed and the mutex balanced, and changes its virtual interface
  as the relation \<open>chg\<close> of the locale allows.  The second half applies them to the helpers that change nothing
  but the environment or the state of the connectivity check.
\<close>

subsection \<open>What every function relies on\<close>

definition good :: "sm_ctrl \<Rightarrow> vptr \<Rightarrow> world \<Rightarrow> bool" where
  "good c q w \<longleftrightarrow> wf_db w \<and> report_fits w \<and> fst q < unat (total_ifaces w) \<and> SC_pIfaceData c = Some (fst q) \<and>
     idx_uint (SC_interfaceIdx c) = of_nat (fst q) \<and> idx_uint (SC_VirIfIdx c) = of_nat (snd q) \<and>
     (\<exists>v. virtif_at q w = Some v \<and> vif_fits v)"

lemma good_wf: "good c q w \<Longrightarrow> wf_db w"
  by (simp add: good_def)

lemma good_virtif:
  assumes "good c q w"
  obtains v where "virtif_at q w = Some v" "vif_fits v"
  using assms by (auto simp: good_def)

lemma good_ctrl [simp]: "good (c\<lparr>SC_eCurrentState := st\<rparr>) q w = good c q w"
  by (simp add: good_def)

lemma virtif_at_iface:
  assumes "virtif_at q w = Some v"
  obtains i where "iface_at (fst q) w = Some i" "snd q < length (If_VirtIfList i)" "If_VirtIfList i ! snd q = v"
  using assms by (auto simp: virtif_at_def bind_eq_Some_conv)

lemma wf_position:
  assumes shape: "wf_shape k (iface_shape i)" and j: "j < length (If_VirtIfList i)"
  shows "virtif_position (If_VirtIfList i) (of_nat j) = Some j"
proof -
  let ?vs = "If_VirtIfList i"
  from shape have len: "unat (If_NoOfVirtIfs i) = length ?vs" and ids: "map VI_VirIfIdx ?vs = map of_nat [0..<length ?vs]"
    by (simp_all add: iface_shape_def)
  have id: "VI_VirIfIdx (?vs ! n) = of_nat n" if "n < length ?vs" for n
    using arg_cong [OF ids, of "\<lambda>xs. xs ! n"] that by simp
  have lim: "unat (of_nat n :: uint) = n" if "n < length ?vs" for n
    using index_bound(1) [of n "If_NoOfVirtIfs i"] that len by simp
  have "VI_VirIfIdx (?vs ! n) \<noteq> of_nat j" if "n < j" for n
    using id [of n] lim [of n] lim [OF j] that j by (metis less_irrefl order.strict_trans)
  with j id [OF j] show ?thesis by (simp add: virtif_position_Some)
qed

lemma good_position:
  assumes "good c q w" "iface_at (fst q) w = Some i" "virtif_at q w = Some v"
  shows "virtif_position (If_VirtIfList i) (idx_uint (SC_VirIfIdx c)) = Some (snd q)"
proof -
  from assms(1) have g: "wf_db w" "fst q < unat (total_ifaces w)" "idx_uint (SC_VirIfIdx c) = of_nat (snd q)"
    by (simp_all add: good_def)
  from wf_db_iface_at [OF g(1,2)] obtain x where x: "iface_at (fst q) w = Some x" "wf_shape (fst q) (iface_shape x)" .
  with assms(2) have "x = i" by simp
  moreover obtain i' where "iface_at (fst q) w = Some i'" "snd q < length (If_VirtIfList i')"
    using virtif_at_iface [OF assms(3)] by blast
  ultimately show ?thesis using wf_position x g(3) assms(2) by simp
qed

lemma good_deref:
  assumes "good c q w"
  obtains i v where "iface_at (fst q) w = Some i" "virtif_at q w = Some v" "vif_fits v"
    "sm_deref body c w = body i q v w" "sm_access d body c w = body i q v w"
proof -
  from good_virtif [OF assms] obtain v where v: "virtif_at q w = Some v" "vif_fits v" .
  from virtif_at_iface [OF v(1)] obtain i where i: "iface_at (fst q) w = Some i" by blast
  have c: "SC_pIfaceData c = Some (fst q)" using assms by (simp add: good_def)
  have "sm_deref body c w = body i q v w"
    unfolding sm_deref_def c using i v(1) good_position [OF assms i v(1)] by simp
  with i v c that show ?thesis by (simp add: sm_access_def)
qed

lemma good_step:
  assumes g: "good c q w" and kp: "keeps w w'" and step: "vif_step chg q w w'"
    and sane: "\<And>u v. chg u v \<Longrightarrow> sane u v"
  shows "good c q w'"
proof -
  from good_virtif [OF g] obtain v where v: "virtif_at q w = Some v" "vif_fits v" .
  from vif_step_virtif [OF step v(1)] obtain v' where v': "virtif_at q w' = Some v'" "chg v v'"
    "pIface w' = vput q v' (pIface w)" .
  from g have "wf_db w" "report_fits w" by (simp_all add: good_def)
  then obtain l where l: "pIface w = Some l" by (auto simp: wf_db_def split: option.splits)
  have tot: "total_ifaces w' = total_ifaces w" using kp by (simp add: keeps_def)
  have "report_fits w'"
    by (rule vput_report_fits [OF l v(1) sane [OF v'(2)] v'(3) tot \<open>report_fits w\<close>])
  moreover have "vif_fits v'" by (rule sane_fits [OF sane [OF v'(2)] v(2)])
  ultimately show ?thesis using g v'(1) kp tot by (simp add: good_def keeps_def)
qed

lemma good_tabs:
  assumes "good c q w" "tabs w' = tabs w"
  shows "good c q w'" "keeps w w'" "virtif_at q w' = virtif_at q w"
proof -
  note t = tabs_reads [OF assms(2)]
  from assms(1) show "good c q w'" by (simp only: good_def t report_fits_def)
  from assms(1) show "keeps w w'" by (simp only: keeps_def t good_wf simp_thms)
  show "virtif_at q w' = virtif_at q w" by (rule t)
qed

subsection \<open>The rules\<close>

text \<open>\<open>vk chg q w m R\<close>: the computation \<open>m\<close>, started in \<open>w\<close>, does what the introduction says; its result has \<open>R\<close>.\<close>

definition vk ::
  "(DML_VIRTUAL_IFACE \<Rightarrow> DML_VIRTUAL_IFACE \<Rightarrow> bool) \<Rightarrow> vptr \<Rightarrow> world \<Rightarrow> ('r \<times> world) option \<Rightarrow>
   ('r \<Rightarrow> bool) \<Rightarrow> bool" where
  "vk chg q w m R \<longleftrightarrow> ok w m (\<lambda>r w'. vif_step chg q w w' \<and> R r)"

lemma vkE:
  assumes "vk chg q w m R"
  obtains r w' where "m = Some (r, w')" "keeps w w'" "vif_step chg q w w'" "R r"
  using assms by (auto simp: vk_def elim: okE)

lemma vkI: "\<lbrakk>m = Some (r, w'); keeps w w'; vif_step chg q w w'; R r\<rbrakk> \<Longrightarrow> vk chg q w m R"
  by (auto simp: vk_def ok_def)

lemma vk_post: "vk chg q w m R \<Longrightarrow> (\<And>r. R r \<Longrightarrow> R' r) \<Longrightarrow> vk chg q w m R'"
  unfolding vk_def by (erule ok_mono) blast

lemma vk_mono: "vk chg q w m R \<Longrightarrow> (\<And>u v. chg u v \<Longrightarrow> chg' u v) \<Longrightarrow> vk chg' q w m R"
  unfolding vk_def by (erule ok_mono) (blast intro: vif_step_mono)

lemma vk_if [vif_rules]:
  "\<lbrakk>P \<Longrightarrow> vk chg q w m R; \<not> P \<Longrightarrow> vk chg q w n R\<rbrakk> \<Longrightarrow> vk chg q w (if P then m else n) R"
  by simp

lemma vk_option [vif_rules]:
  "\<lbrakk>x = None \<Longrightarrow> vk chg q w m R; \<And>y. x = Some y \<Longrightarrow> vk chg q w (f y) R\<rbrakk> \<Longrightarrow>
   vk chg q w (case x of None \<Rightarrow> m | Some y \<Rightarrow> f y) R"
  by (simp split: option.split)

lemma vk_access [vif_rules]:
  assumes "good c q w"
    and "\<And>i v. \<lbrakk>iface_at (fst q) w = Some i; virtif_at q w = Some v; vif_fits v\<rbrakk> \<Longrightarrow> vk chg q w (body i q v w) R"
  shows "vk chg q w (sm_access d body c w) R" "vk chg q w (sm_deref body c w) R"
proof -
  from good_deref [OF assms(1)] obtain i v where "iface_at (fst q) w = Some i" "virtif_at q w = Some v" "vif_fits v"
    "sm_deref body c w = body i q v w" "sm_access d body c w = body i q v w" .
  with assms(2) show "vk chg q w (sm_access d body c w) R" "vk chg q w (sm_deref body c w) R"
    by (simp_all only:)
qed

lemma vk_virtif [vif_rules]:
  assumes "good c q w" "\<And>v. \<lbrakk>virtif_at q w = Some v; vif_fits v\<rbrakk> \<Longrightarrow> vk chg q w (f v) R"
  shows "vk chg q w (Option.bind (virtif_at q w) f) R"
proof -
  from good_virtif [OF assms(1)] obtain v where v: "virtif_at q w = Some v" "vif_fits v" .
  from assms(2) [OF v] show ?thesis unfolding v(1) by simp
qed

text \<open>Two computations with different effects.\<close>

lemma vk_seq:
  assumes g: "good c q w" and m: "vk chg1 q w m P"
    and sane: "\<And>u v. chg1 u v \<Longrightarrow> sane u v"
    and f: "\<And>r w'. good c q w' \<Longrightarrow> P r \<Longrightarrow> vk chg2 q w' (f r w') R"
    and comp: "\<And>u v x. chg1 u v \<Longrightarrow> chg2 v x \<Longrightarrow> chg3 u x"
  shows "vk chg3 q w (Option.bind m (\<lambda>(r, w'). f r w')) R"
proof -
  from m obtain r w' where m': "m = Some (r, w')" "keeps w w'" "vif_step chg1 q w w'" "P r" by (rule vkE)
  from f [OF good_step [OF g m'(2,3) sane] m'(4)] obtain s w'' where f': "f r w' = Some (s, w'')" "keeps w' w''"
    "vif_step chg2 q w' w''" "R s" by (rule vkE)
  have "Option.bind m (\<lambda>(r, w'). f r w') = Some (s, w'')" by (simp add: m' f')
  moreover have "vif_step chg3 q w w''" using m'(3) f'(3) comp by (rule vif_step_comp)
  ultimately show ?thesis using keeps_trans [OF m'(2) f'(2)] f'(4) unfolding vk_def ok_def by blast
qed

locale vif_effects =
  fixes chg :: "DML_VIRTUAL_IFACE \<Rightarrow> DML_VIRTUAL_IFACE \<Rightarrow> bool"
  assumes chg_refl: "chg v v"
    and chg_trans: "chg u v \<Longrightarrow> chg v x \<Longrightarrow> chg u x"
    and chg_sane: "chg u v \<Longrightarrow> sane u v"
begin

lemma vk_return:
  assumes "good c q w" "tabs w' = tabs w" "R r"
  shows "vk chg q w (Some (r, w')) R"
proof -
  have "vif_step chg q w w'" using assms(2) chg_refl by (rule vif_step_tabs)
  with good_tabs(2) [OF assms(1,2)] assms(3) show ?thesis unfolding vk_def ok_def by blast
qed

lemma vk_pure [vif_rules]:
  assumes "good c q w" "tabs (snd p) = tabs w" "R (fst p)"
  shows "vk chg q w (Some p) R"
  using vk_return [where r = "fst p" and R = R, OF assms] by simp

lemma vk_bind_post:
  assumes "good c q w" "vk chg q w m P" "\<And>r w'. good c q w' \<Longrightarrow> P r \<Longrightarrow> vk chg q w' (f r w') R"
  shows "vk chg q w (Option.bind m (\<lambda>(r, w'). f r w')) R"
  using assms(1,2) chg_sane assms(3) chg_trans by (rule vk_seq)

lemma vk_bind [vif_rules]:
  assumes "good c q w" "vk chg q w m (\<lambda>_. True)" "\<And>r w'. good c q w' \<Longrightarrow> vk chg q w' (f r w') R"
  shows "vk chg q w (Option.bind m (\<lambda>(r, w'). f r w')) R"
  using assms by (rule vk_bind_post)

lemma vk_rebase:
  assumes "good c q w" "tabs w' = tabs w" "vk chg q w' m R"
  shows "vk chg q w m R"
proof -
  from assms(3) obtain r w'' where m: "m = Some (r, w'')" "keeps w' w''" "vif_step chg q w' w''" "R r" by (rule vkE)
  have "vif_step chg q w w'" using assms(2) chg_refl by (rule vif_step_tabs)
  then have "vif_step chg q w w''" using m(3) chg_trans by (rule vif_step_comp)
  then show ?thesis using m(1,4) keeps_trans [OF good_tabs(2) [OF assms(1,2)] m(2)] unfolding vk_def ok_def by blast
qed

lemma vk_world [vif_rules]:
  fixes x :: world
  assumes "good c q w" "tabs x = tabs w" "\<And>w'. \<lbrakk>good c q w'; virtif_at q w' = virtif_at q w\<rbrakk> \<Longrightarrow> vk chg q w' (f w') R"
  shows "vk chg q w (Let x f) R"
  unfolding Let_def by (rule vk_rebase [OF assms(1,2) assms(3) [OF good_tabs(1,3) [OF assms(1,2)]]])

lemma vk_pair [vif_rules]:
  fixes p :: "'a \<times> world"
  assumes "good c q w" "tabs (snd p) = tabs w"
    "\<And>a w'. \<lbrakk>good c q w'; virtif_at q w' = virtif_at q w\<rbrakk> \<Longrightarrow> vk chg q w' (f a w') R"
  shows "vk chg q w (case p of (a, w') \<Rightarrow> f a w') R" "vk chg q w (let (a, w') = p in f a w') R"
  using vk_rebase [OF assms(1,2) assms(3) [OF good_tabs(1,3) [OF assms(1,2)]]] by (simp_all add: split_beta)

lemma vk_value: "(\<And>x. vk chg q w (f x) R) \<Longrightarrow> vk chg q w (Let y f) R"
  by (simp add: Let_def)

lemma vk_values: "(\<And>a b. vk chg q w (f a b) R) \<Longrightarrow> vk chg q w (case p of (a, b) \<Rightarrow> f a b) R"
  by (simp add: split_beta)

lemma vk_upd:
  assumes "good c q w" "\<And>v. virtif_at q w = Some v \<Longrightarrow> chg v (f v)" "R r"
  shows "vk chg q w (Some (r, upd_virtif q f w)) R"
proof -
  from good_virtif [OF assms(1)] obtain v where v: "virtif_at q w = Some v" .
  then have step: "vif_step chg q w (upd_virtif q f w)" by (intro vif_step_upd_virtif assms(2))
  have tot: "total_ifaces (upd_virtif q f w) = total_ifaces w" "total_groups (upd_virtif q f w) = total_groups w"
    "mutex (upd_virtif q f w) = mutex w" by (simp_all add: upd_virtif_def)
  then have "wf_db (upd_virtif q f w)" by (intro sane_step_wf [OF step chg_sane]) (assumption | rule good_wf [OF assms(1)])+
  with tot have "keeps w (upd_virtif q f w)"
    by (simp add: keeps_def)
  with step assms(3) show ?thesis unfolding vk_def ok_def by blast
qed

lemma vk_modify [vif_rules]:
  assumes "good c q w" "tabs w' = tabs w" "\<And>v. virtif_at q w = Some v \<Longrightarrow> chg v (f v)"
  shows "vk chg q w (modify_virtif q f w') (\<lambda>_. True)"
proof (rule vk_rebase [OF assms(1,2)])
  note g = good_tabs(1,3) [OF assms(1,2)]
  show "vk chg q w' (modify_virtif q f w') (\<lambda>_. True)"
    unfolding modify_virtif_def
    by (rule vk_virtif [OF g(1)]) (rule vk_upd [OF g(1)], simp_all add: g(2) assms(3))
qed

end

subsection \<open>What only writes to the environment\<close>

lemmas tabs_bus [tab_simps] = bus_frame [THEN tabs_same_db]

lemma tabs_PrintBootEvents [tab_simps]: "tabs (WanManager_PrintBootEvents state w) = tabs w"
proof -
  have "tabs (snd (with_config False (\<lambda>w. (Cfg_BootToWanUp (config w),
      if \<not> Cfg_BootToWanUp (config w) \<and> state = WAN_INIT_COMPLETE
      then upd_config (\<lambda>c. c\<lparr>Cfg_BootToWanUp := True\<rparr>) w else w)) w)) = tabs w"
    by (rule tabs_with_config) (simp add: tab_simps)
  then show ?thesis
    by (simp add: WanManager_PrintBootEvents_def v_secure_system_def tab_simps split_beta Let_def
        split: WanBootEventState.split)
qed

lemma tabs_system [tab_simps]:
  "tabs (v_secure_system cmd w) = tabs w"
  "tabs (snd (WanManager_DoSystemActionWithStatus e cmd w)) = tabs w"
  "tabs (WanManager_DoSystemAction e cmd w) = tabs w"
  "tabs (sysctl_iface_set head ifname tail content w) = tabs w"
  "tabs (sysevents_set evs w) = tabs w"
  "tabs (wanmgr_services_restart w) = tabs w"
  "tabs (set_eth_wan_mac e ifname w) = tabs w"
  "tabs (set_DefaultGatewayAdded w) = tabs w"
  "tabs (set_PrevWanStatus st w) = tabs w"
  "tabs (publish_vif v param val w) = tabs w"
  "tabs (t2_event b marker w) = tabs w"
  by (simp_all add: v_secure_system_def WanManager_DoSystemActionWithStatus_def WanManager_DoSystemAction_def
      sysctl_iface_set_def sysevents_set_def wanmgr_services_restart_def set_eth_wan_mac_def
      set_DefaultGatewayAdded_def set_PrevWanStatus_def publish_vif_def t2_event_def tab_simps Let_def split_beta
      split: option.split) (simp_all add: tabs_def fixed_part_def)

lemma tabs_bus_queries [tab_simps]:
  "tabs (snd (WanMgr_RdkBus_GetParamValueFromAnyComp e p w)) = tabs w"
  "tabs (snd (WanMgr_isBridgeModeEnabled e w)) = tabs w"
  "tabs (snd (CheckV6DefaultRule e ifname w)) = tabs w"
  "tabs (Force_IPv6_toggle ifname w) = tabs w"
proof -
  show "tabs (snd (WanMgr_isBridgeModeEnabled e w)) = tabs w"
    using tabs_bus by (auto simp: WanMgr_isBridgeModeEnabled_def split_beta split: option.split)
qed (simp_all add: WanMgr_RdkBus_GetParamValueFromAnyComp_def CheckV6DefaultRule_def Force_IPv6_toggle_def
    tab_simps Let_def)

lemma tabs_routes [tab_simps]:
  "tabs (WanManager_AddDefaultGatewayRoute e mode d w) = tabs w"
  "tabs (WanManager_DelDefaultGatewayRoute e mode changed w) = tabs w"
  "tabs (WanManager_AddGatewayRoute e d w) = tabs w"
  by (simp_all add: WanManager_AddDefaultGatewayRoute_def WanManager_DelDefaultGatewayRoute_def
      WanManager_AddGatewayRoute_def tab_simps Let_def split: DEVICE_NETWORKING_MODE.split)

lemma tabs_lease [tab_simps]:
  "tabs (wanmgr_set_Ipv4Sysevent b e d mode w) = tabs w"
  "tabs (wanmgr_sysevents_ipv4Info_set m ifname w) = tabs w"
  "tabs (wanmgr_sysevents_ipv4Info_init b e ifname mode w) = tabs w"
  "tabs (wanmgr_sysevents_ipv6Info_init w) = tabs w"
  "tabs (ipv4_renewed_events m w) = tabs w"
  "tabs (snd (ipv6_address d6 m6 w)) = tabs w"
  "tabs (ipv6_prefix_add d6 m6 w) = tabs w"
  by (simp_all add: wanmgr_set_Ipv4Sysevent_def wanmgr_sysevents_ipv4Info_set_def
      wanmgr_sysevents_ipv4Info_init_def wanmgr_sysevents_ipv6Info_init_def ipv4_renewed_events_def
      ipv6_address_def ipv6_prefix_add_def tab_simps Let_def)

lemma tabs_slaac [tab_simps]: "tabs (snd (ipv6_slaac e Name d m new w)) = tabs w"
  by (auto simp: ipv6_slaac_def tab_simps Let_def split: option.split)

lemma tabs_cellular_ipv6 [tab_simps]: "tabs (cellular_ipv6 e base w) = tabs w"
  using tabs_bus by (auto simp: cellular_ipv6_def tab_simps split_beta split: option.split)

lemma tabs_dad_wait [tab_simps]: "tabs (dad_wait e ifname n w) = tabs w"
  by (induction e ifname n w rule: dad_wait.induct) (simp_all add: Let_def tab_simps split: option.split)

lemma tabs_connection [tab_simps]:
  "tabs (snd (dns_ipv4 e v add w)) = tabs w"
  "tabs (snd (dns_ipv6_server e field server add w)) = tabs w"
  "tabs (write_resolv_conf opened contents w) = tabs w"
  "tabs (touch_wan_started e w) = tabs w"
  "tabs (set_wan_physical_ifname ifname w) = tabs w"
  "tabs (stop_wan_status e down w) = tabs w"
  "tabs (start_wan_service e d w) = tabs w"
  by (simp_all add: dns_ipv4_def dns_ipv6_server_def write_resolv_conf_def touch_wan_started_def
      set_wan_physical_ifname_def stop_wan_status_def start_wan_service_def tab_simps Let_def)

lemma tabs_store_summary [tab_simps]: "tabs (snd (store_summary b s dns w)) = tabs w"
  unfolding store_summary_def by (rule tabs_with_config) (simp add: tab_simps Let_def)

lemma tabs_total [tab_simps]: "wf_db w \<Longrightarrow> tabs (snd (WanMgr_IfaceData_GetTotalWanIface w)) = tabs w"
  by simp

end
