(* ===== verification/WanStatusLemmas.thy ===== *)
theory WanStatusLemmas
  imports WanSteps "HOL-Library.Multiset"
begin

text \<open>
  \<open>Update_Interface_Status\<close> against a reference: the entries of all virtual interfaces of the enabled
  interfaces, sorted by priority, joined with a separator; and when the buffers are long enough for it.
\<close>

subsection \<open>Sorting\<close>

lemma SortedInsert_insort: "SortedInsert l x = insort_key II_Priority x l"
  by (induction l) auto

text \<open>The list is sorted by priority; among equals the one met last comes first.\<close>

lemma SortedInsert_sorts: "foldl SortedInsert [] xs = sort_key II_Priority (rev xs)"
  by (simp add: SortedInsert_insort sort_key_def foldl_conv_foldr)

subsection \<open>Joining in a buffer of 64 characters\<close>

text \<open>The texts with a separator between them, leaving out the empty ones.\<close>

fun join :: "string \<Rightarrow> string list \<Rightarrow> string" where
  "join sep [] = []"
| "join sep [s] = s"
| "join sep (s # ss) = s @ sep @ join sep ss"

definition nonempty :: "string list \<Rightarrow> string list" where
  "nonempty = filter (\<lambda>s. s \<noteq> [])"

lemma join_Cons: "join sep (s # ss) = (if ss = [] then s else s @ sep @ join sep ss)"
  by (cases ss) simp_all

lemma strcat_all_go:
  "buf \<noteq> [] \<Longrightarrow> strcat_all sep ss buf =
     (let r = join sep (buf # nonempty ss) in if length r < 64 \<or> ss = [] then Some r else None)"
proof (induction ss arbitrary: buf)
  case Nil
  then show ?case by (simp add: nonempty_def)
next
  case (Cons s ss)
  show ?case
  proof (cases "s = []")
    case True
    with Cons show ?thesis by (cases ss) (auto simp: nonempty_def join_Cons Let_def)
  next
    case False
    with Cons.IH [of "buf @ sep @ s"] Cons.prems show ?thesis
      by (cases ss) (auto simp: nonempty_def join_Cons Let_def)
  qed
qed

lemma strcat_all_join:
  "strcat_all sep ss [] = (let r = join sep (nonempty ss) in if length r < 64 then Some r else None)"
proof (induction ss)
  case Nil
  then show ?case by (simp add: nonempty_def)
next
  case (Cons s ss)
  then show ?case by (cases "s = []"; cases ss) (auto simp: strcat_all_go nonempty_def join_Cons Let_def)
qed

lemma length_join:
  "ss \<noteq> [] \<Longrightarrow> length (join sep ss) + length sep = sum_list (map (\<lambda>s. length s + length sep) ss)"
  by (induction sep ss rule: join.induct) auto

lemma strcat_all_fits:
  assumes "length sep = 1" "sum_list (map (\<lambda>s. length s + 1) ss) \<le> 64"
  shows "strcat_all sep ss [] = Some (join sep (nonempty ss))"
proof -
  have le: "sum_list (map (\<lambda>s. length s + 1) (nonempty ss)) \<le> sum_list (map (\<lambda>s. length s + 1) ss)"
    unfolding nonempty_def by (induction ss) auto
  have "length (join sep (nonempty ss)) < 64"
    using assms le length_join [of "nonempty ss" sep] by (cases "nonempty ss = []") auto
  then show ?thesis by (simp add: strcat_all_join)
qed

subsection \<open>The entries\<close>

definition enabled_ifaces :: "world \<Rightarrow> DML_WAN_IFACE list" where
  "enabled_ifaces w = (case pIface w of None \<Rightarrow> []
     | Some l \<Rightarrow> filter (\<lambda>d. Sel_Enable (If_Selection d)) (take (unat (total_ifaces w)) l))"

definition iface_entries :: "DEVICE_NETWORKING_MODE \<Rightarrow> DML_WAN_IFACE \<Rightarrow> IFACE_INFO list" where
  "iface_entries devMode d = map (iface_info devMode d) (If_VirtIfList d)"

definition sorted_entries :: "DEVICE_NETWORKING_MODE \<Rightarrow> world \<Rightarrow> IFACE_INFO list" where
  "sorted_entries devMode w = sort_key II_Priority (rev (concat (map (iface_entries devMode) (enabled_ifaces w))))"

text \<open>The overall status is the one of the last virtual interface of the last active interface.\<close>

definition iface_wan_status :: "DML_WAN_IFACE \<Rightarrow> string \<Rightarrow> string" where
  "iface_wan_status d st =
     (if Sel_Status (If_Selection d) = WAN_IFACE_ACTIVE
      then (if VI_Status (last (If_VirtIfList d)) = WAN_IFACE_STATUS_UP then ''Up'' else ''Down'') else st)"

definition overall_status :: "world \<Rightarrow> string" where
  "overall_status w = fold iface_wan_status (enabled_ifaces w) ''Down''"

lemma add_virtifs_entries:
  assumes ids: "map VI_VirIfIdx (If_VirtIfList d) = map of_nat [0..<length (If_VirtIfList d)]"
    and pos: "\<And>j. j < length (If_VirtIfList d) \<Longrightarrow> virtif_position (If_VirtIfList d) (of_nat j) = Some j"
    and n: "i + n = length (If_VirtIfList d)"
  shows "add_virtifs devMode d [i..<i + n] (head, st) =
    Some (foldl SortedInsert head (map (iface_info devMode d) (drop i (If_VirtIfList d))),
          if n = 0 then st else iface_wan_status d st)"
  using n
proof (induction n arbitrary: i head st)
  case 0
  then show ?case by simp
next
  case (Suc n)
  let ?vs = "If_VirtIfList d"
  from Suc.prems have i: "i < length ?vs" by simp
  define js where "js = [Suc i..<Suc i + n]"
  have up: "[i..<i + Suc n] = i # js" using upt_conv_Cons [of i "i + Suc n"] by (simp add: js_def)
  have ih: "add_virtifs devMode d js (h, t) =
      Some (foldl SortedInsert h (map (iface_info devMode d) (drop (Suc i) ?vs)),
            if n = 0 then t else iface_wan_status d t)" for h t
    unfolding js_def by (rule Suc.IH) (use Suc.prems in simp)
  have last: "n = 0 \<Longrightarrow> last ?vs = ?vs ! i"
  proof -
    assume "n = 0"
    with Suc.prems have "i = length ?vs - 1" by simp
    moreover have "?vs \<noteq> []" using i by auto
    ultimately show "last ?vs = ?vs ! i" using last_conv_nth [of ?vs] by simp
  qed
  have "WanMgr_getVirtualIfaceById ?vs (of_nat i) = Some (?vs ! i)"
    using pos [OF i] i by (simp add: WanMgr_getVirtualIfaceById_def)
  moreover have "drop i ?vs = ?vs ! i # drop (Suc i) ?vs" using i by (simp add: Cons_nth_drop_Suc)
  ultimately show ?case
    unfolding up by (simp add: ih iface_wan_status_def) (auto simp: last)
qed

lemma fold_take: "n \<le> length l \<Longrightarrow> fold (\<lambda>i. f (l ! i)) [0..<n] s = fold f (take n l) s"
proof -
  assume "n \<le> length l"
  then have "map ((!) l) [0..<n] = take n l" by (intro nth_equalityI) simp_all
  moreover have "fold (\<lambda>i. f (l ! i)) [0..<n] s = fold (f \<circ> (!) l) [0..<n] s" by (simp add: comp_def)
  ultimately show ?thesis by (simp only: fold_map [symmetric])
qed

text \<open>The loop over the interfaces.\<close>

lemma iface_infos_entries:
  assumes wf: "wf_db w" and mem: "\<And>h. malloc_ok e h"
  shows "iface_infos e devMode (total_ifaces w) w =
    Some ((foldl SortedInsert [] (concat (map (iface_entries devMode) (enabled_ifaces w))), overall_status w), w)"
proof -
  let ?n = "unat (total_ifaces w)"
  from wf obtain l where l: "pIface w = Some l" by (auto simp: wf_db_def split: option.splits)
  have len: "?n \<le> length l" using wf l by (simp add: wf_db_def wf_ifaces_def)
  let ?add = "\<lambda>d (head, st). if Sel_Enable (If_Selection d)
    then (foldl SortedInsert head (iface_entries devMode d), iface_wan_status d st) else (head, st)"
  have body: "with_iface (of_nat i) s (\<lambda>k w. do {
       d \<leftarrow> iface_at k w;
       if Sel_Enable (If_Selection d)
       then (if malloc_ok e (out w)
             then do {
               s \<leftarrow> add_virtifs devMode d [0..<unat (If_NoOfVirtIfs d)] s;
               Some (s, w)
             }
             else None)
       else Some (s, w)
     }) w = Some (?add (l ! i) s, w)" if "i \<in> set [0..<?n]" for i s
  proof -
    from that have i: "i < ?n" by simp
    from wf_db_iface_at [OF wf this] obtain d where d: "iface_at i w = Some d" "wf_shape i (iface_shape d)" .
    have li: "l ! i = d" using d(1) l by (simp add: iface_at_def)
    have "unat (If_NoOfVirtIfs d) = length (If_VirtIfList d)" "If_VirtIfList d \<noteq> []"
      "map VI_VirIfIdx (If_VirtIfList d) = map of_nat [0..<length (If_VirtIfList d)]"
      using d(2) by (auto simp: iface_shape_def)
    moreover have "virtif_position (If_VirtIfList d) (of_nat j) = Some j" if "j < length (If_VirtIfList d)" for j
      using d(2) that by (rule wf_position)
    ultimately have "add_virtifs devMode d [0..<unat (If_NoOfVirtIfs d)] s =
        Some (foldl SortedInsert (fst s) (iface_entries devMode d), iface_wan_status d (snd s))"
      using add_virtifs_entries [of d 0 "length (If_VirtIfList d)" devMode "fst s" "snd s"]
      by (simp add: iface_entries_def)
    with i d(1) mem show ?thesis
      by (cases s) (simp add: with_wf(2) [OF wf] index_bound li)
  qed
  have "iface_infos e devMode (total_ifaces w) w = Some (fold (\<lambda>i. ?add (l ! i)) [0..<?n] ([], ''Down''), w)"
    unfolding iface_infos_def by (rule for_loop_fold) (simp only: body continue_Some)
  also have "fold (\<lambda>i. ?add (l ! i)) [0..<?n] ([], ''Down'') = fold ?add (take ?n l) ([], ''Down'')"
    by (rule fold_take [OF len])
  also have "fold ?add ds (head, st) =
      (foldl SortedInsert head (concat (map (iface_entries devMode) (filter (\<lambda>d. Sel_Enable (If_Selection d)) ds))),
       fold iface_wan_status (filter (\<lambda>d. Sel_Enable (If_Selection d)) ds) st)" for ds head st
    by (induction ds arbitrary: head st) simp_all
  finally show ?thesis by (simp add: enabled_ifaces_def overall_status_def l)
qed

definition report_of :: "DEVICE_NETWORKING_MODE \<Rightarrow> world \<Rightarrow> summary" where
  "report_of devMode w =
     (let es = sorted_entries devMode w; join_all = (\<lambda>sep f. join sep (nonempty (map f es)))
      in \<lparr>S_Available = join_all ''|'' II_AvailableStatus, S_Active = join_all ''|'' II_ActiveStatus,
          S_CurrentActive = join_all '','' II_CurrentActive, S_CurrentStandby = join_all '','' II_CurrentStandby,
          S_Status = overall_status w\<rparr>)"

definition report_short :: "summary \<Rightarrow> bool" where
  "report_short r \<longleftrightarrow> length (S_CurrentActive r) < 64 \<and> length (S_CurrentStandby r) < 64 \<and>
     length (S_Available r) < 64 \<and> length (S_Active r) < 64"

lemma summarise_report:
  "summarise (foldl SortedInsert [] (concat (map (iface_entries devMode) (enabled_ifaces w))), overall_status w) =
     (if report_short (report_of devMode w) then Some (report_of devMode w) else None)"
  by (simp add: summarise_def SortedInsert_sorts strcat_all_join report_of_def sorted_entries_def report_short_def
      Let_def)

subsection \<open>Names short enough\<close>

lemma sum_entries:
  fixes f :: "IFACE_INFO \<Rightarrow> nat"
  assumes "\<And>d v. f (iface_info devMode d v) \<le> h d v"
    and l: "pIface w = Some l"
  shows "sum_list (map f (sorted_entries devMode w)) \<le>
    sum_list (map (\<lambda>d. iface_cost (h d) d) (take (unat (total_ifaces w)) l))"
proof -
  let ?es = "concat (map (iface_entries devMode) (enabled_ifaces w))"
  have "mset (sorted_entries devMode w) = mset ?es" by (simp add: sorted_entries_def)
  then have "sum_list (map f (sorted_entries devMode w)) = sum_list (map f ?es)"
    by (metis mset_map sum_mset_sum_list)
  also have "\<dots> \<le> sum_list (map (\<lambda>d. iface_cost (h d) d) (take (unat (total_ifaces w)) l))"
  proof -
    have "sum_list (map f (concat (map (iface_entries devMode) (filter (\<lambda>d. Sel_Enable (If_Selection d)) ds)))) \<le>
        sum_list (map (\<lambda>d. iface_cost (h d) d) ds)" for ds
    proof (induction ds)
      case Nil
      then show ?case by simp
    next
      case (Cons d ds)
      have "sum_list (map f (iface_entries devMode d)) \<le> sum_list (map (h d) (If_VirtIfList d))"
        unfolding iface_entries_def by (simp add: comp_def assms(1) sum_list_mono)
      with Cons show ?case by (simp add: iface_cost_def)
    qed
    then show ?thesis by (simp add: enabled_ifaces_def l)
  qed
  finally show ?thesis .
qed

lemma report_fits_short:
  assumes fits: "report_fits w"
  shows "report_short (report_of devMode w)"
proof (cases "pIface w")
  case None
  then have "sorted_entries devMode w = []" by (simp add: sorted_entries_def enabled_ifaces_def)
  then show ?thesis by (simp add: report_short_def report_of_def nonempty_def)
next
  case (Some l)
  let ?ds = "take (unat (total_ifaces w)) l"
  from fits Some have names: "sum_list (map (\<lambda>d. iface_cost (\<lambda>_. length (If_DisplayName d) + 3) d) ?ds) \<le> 64"
    "sum_list (map (\<lambda>d. iface_cost name_cost d) ?ds) \<le> 64" by (simp_all add: report_fits_def Let_def)
  have short: "length (join sep (nonempty (map f (sorted_entries devMode w)))) < 64"
    if "length sep = 1" "\<And>d v. length (f (iface_info devMode d v)) + 1 \<le> h d v"
      "sum_list (map (\<lambda>d. iface_cost (h d) d) ?ds) \<le> 64" for sep f h
  proof -
    have "sum_list (map (\<lambda>s. length (f s) + 1) (sorted_entries devMode w)) \<le> 64"
      by (rule order.trans [OF sum_entries [where f = "\<lambda>s. length (f s) + 1" and h = h, OF that(2) Some] that(3)])
    then have "strcat_all sep (map f (sorted_entries devMode w)) [] =
        Some (join sep (nonempty (map f (sorted_entries devMode w))))"
      by (intro strcat_all_fits that(1)) (simp add: comp_def)
    then show ?thesis by (simp add: strcat_all_join Let_def split: if_splits)
  qed
  show ?thesis
    unfolding report_short_def report_of_def Let_def summary.select_convs
    by (intro conjI short [OF _ _ names(1)] short [OF _ _ names(2)])
      (auto simp: iface_info_def Let_def name_cost_def)
qed

subsection \<open>The environment\<close>

text \<open>
  What the machine relies on in the environment: \<open>malloc\<close> does not fail, \<open>resolv.conf\<close> parses (each line has
  a first word, each \<open>nameserver\<close> an address, and the addresses fit the buffer), and \<open>rdisc6\<close> prints no
  address longer than its buffer.
\<close>

definition env_ok :: "env \<Rightarrow> bool" where
  "env_ok e \<longleftrightarrow> (\<forall>h. malloc_ok e h) \<and>
     (\<forall>h s. read_file e h RESOLV_CONF_FILE = Some s \<longrightarrow> dns_lines (fgets_lines 64 s) [] \<noteq> None) \<and>
     (\<forall>h ifname ls l r. popen_lines e h (take 255 (''rdisc6 '' @ ifname)) = Some ls \<longrightarrow> l \<in> set ls \<longrightarrow>
        scan_router l r \<noteq> None)"

lemma env_ok_malloc: "env_ok e \<Longrightarrow> malloc_ok e h"
  by (simp add: env_ok_def)

lemma env_ok_dns: "env_ok e \<Longrightarrow> \<exists>dns. Update_Current_ActiveDNS e w = Some dns"
  by (auto simp: env_ok_def Update_Current_ActiveDNS_def split: option.split)

lemma env_ok_rs:
  assumes "env_ok e" "popen_lines e h (take 255 (''rdisc6 '' @ ifname)) = Some ls"
  shows "rs_scan e ls r \<noteq> None"
proof -
  from assms have ok: "\<And>l r. l \<in> set ls \<Longrightarrow> scan_router l r \<noteq> None" by (auto simp: env_ok_def)
  then show ?thesis
  proof (induction ls arbitrary: r)
    case Nil
    then show ?case by simp
  next
    case (Cons l ls)
    obtain r' where "scan_router l (scan_lifetime l r) = Some r'" using Cons.prems [of l] by auto
    moreover have "rs_scan e ls r \<noteq> None" for r by (rule Cons.IH) (use Cons.prems in simp)
    ultimately show ?case by (simp only: rs_scan.simps Let_def option.case split: if_split) blast
  qed
qed

text \<open>What \<open>Update_Interface_Status\<close> does, up to the events it publishes.\<close>

definition published :: "(string \<times> string) list \<Rightarrow> world \<Rightarrow> world" where
  "published = fold (\<lambda>(name, val). emit (RbusPublish name val))"

lemma published_reads:
  "gWanMgrDataBase (published evs w) = gWanMgrDataBase w" "tabs (published evs w) = tabs w"
proof -
  show db: "gWanMgrDataBase (published evs w) = gWanMgrDataBase w"
    unfolding published_def by (induction evs arbitrary: w) auto
  show "tabs (published evs w) = tabs w" by (rule tabs_same_db [OF db])
qed

lemma Update_Interface_Status_eq:
  assumes wf: "wf_db w" and mem: "\<And>h. malloc_ok e h" and dns: "Update_Current_ActiveDNS e w = Some dns"
  shows "Update_Interface_Status b e w =
    (let r = report_of (Cfg_DeviceNwMode (config w)) w
     in if report_short r
        then Some ((), case store_summary b r dns w of (evs, w) \<Rightarrow> published evs w) else None)"
  using wf_db_mutex [OF wf] dns
  by (simp add: Update_Interface_Status_def with_config_wf [OF wf] total_wf [OF wf] iface_infos_entries [OF wf mem]
      summarise_report published_def Let_def split_beta)

end
