(* ===== verification/WanReportProps.thy ===== *)
theory WanReportProps
  imports WanStatusLemmas WanSamples
begin

text \<open>
  Properties of what the WAN manager reports to the bus: the summary of all interfaces is equal to a reference
  that sorts and joins, it overflows its buffers exactly when one of the joined texts is too long, and the status
  of the single interfaces is compared with the one reported last for any interface.
\<close>

subsection \<open>The summary\<close>

text \<open>
  C24. \<open>Update_Interface_Status\<close> computes the reference report: the entries of the virtual interfaces of all
  enabled interfaces, sorted by the priority of their interfaces (among equals the later one first), each of the
  four texts joined with its separator, empty entries left out, and the status of the last active interface.  It
  stores them and publishes those that changed; if one of the texts has 64 characters or more it runs over the
  end of a buffer.
\<close>

theorem status_report_exact:
  assumes "wf_db w" "\<And>h. malloc_ok e h" "Update_Current_ActiveDNS e w = Some dns"
  shows "Update_Interface_Status b e w =
    (let es = sort_key II_Priority (rev (concat (map (\<lambda>d. map (iface_info (Cfg_DeviceNwMode (config w)) d) (If_VirtIfList d))
                (enabled_ifaces w))));
         text = (\<lambda>sep f. join sep (filter (\<lambda>s. s \<noteq> []) (map f es)));
         r = \<lparr>S_Available = text ''|'' II_AvailableStatus, S_Active = text ''|'' II_ActiveStatus,
              S_CurrentActive = text '','' II_CurrentActive, S_CurrentStandby = text '','' II_CurrentStandby,
              S_Status = overall_status w\<rparr>
     in if length (S_CurrentActive r) < 64 \<and> length (S_CurrentStandby r) < 64 \<and>
           length (S_Available r) < 64 \<and> length (S_Active r) < 64
        then let (events, w') = store_summary b r dns w
             in Some ((), fold (\<lambda>(name, val). emit (RbusPublish name val)) events w')
        else None)"
proof -
  have report: "report_of m w =
    (let es = sort_key II_Priority (rev (concat (map (\<lambda>d. map (iface_info m d) (If_VirtIfList d)) (enabled_ifaces w))));
         text = (\<lambda>sep f. join sep (filter (\<lambda>s. s \<noteq> []) (map f es)))
     in \<lparr>S_Available = text ''|'' II_AvailableStatus, S_Active = text ''|'' II_ActiveStatus,
         S_CurrentActive = text '','' II_CurrentActive, S_CurrentStandby = text '','' II_CurrentStandby,
         S_Status = overall_status w\<rparr>)" for m
    unfolding report_of_def sorted_entries_def iface_entries_def nonempty_def Let_def ..
  show ?thesis
    unfolding Update_Interface_Status_eq [OF assms] report report_short_def Let_def published_def case_prod_beta ..
qed

theorem status_report_exact_witness:
  "Update_Interface_Status sample_build sample_env sample_world \<noteq> None"
proof -
  have "report_short (report_of (Cfg_DeviceNwMode (config sample_world)) sample_world)"
  proof (rule report_fits_short)
    have "pIface sample_world = Some (docsis WAN_IFACE_SELECTED WAN_IFACE_STATUS_STANDBY #
        ethwan WAN_IFACE_SELECTED WAN_IFACE_STATUS_STANDBY # replicate 30 blank_iface)"
      by (simp add: sample_world_def mk_world_def)
    then show "report_fits sample_world"
      by (simp add: report_fits_def sample_reads docsis_def ethwan_def sample_iface_def blank_iface_def iface_cost_def name_cost_def)
  qed
  moreover have "malloc_ok sample_env h" "Update_Current_ActiveDNS sample_env sample_world = Some None" for h
    by (simp_all add: sample_env_def Update_Current_ActiveDNS_def)
  ultimately show ?thesis
    using status_report_exact [OF wf_sample_world, of sample_env None sample_build]
    by (simp add: report_short_def report_of_def sorted_entries_def iface_entries_def [abs_def] nonempty_def Let_def split_beta)
qed

subsection \<open>Names that are too long\<close>

definition long_name :: string where
  "long_name = replicate 40 (CHR ''x'')"

definition long_names_world :: world where
  "long_names_world = mk_world
     [(docsis WAN_IFACE_SELECTED WAN_IFACE_STATUS_STANDBY)\<lparr>If_DisplayName := long_name\<rparr>,
      (ethwan WAN_IFACE_SELECTED WAN_IFACE_STATUS_STANDBY)\<lparr>If_DisplayName := long_name\<rparr>]
     [sample_group 0 1, sample_group 1 2]"

text \<open>
  The buffers of the report overflow for names every single one of which fits: two enabled interfaces, each
  with a display name of 40 characters (the field takes 63), make the list of available interfaces longer than
  its buffer of 64 characters, and \<open>strcat\<close> writes behind it.
\<close>

theorem long_names_overflow:
  "wf_db long_names_world \<and> Update_Interface_Status sample_build sample_env long_names_world = None"
proof -
  let ?w = long_names_world
  have wf: "wf_db ?w"
    unfolding long_names_world_def docsis_def ethwan_def
    by (rule wf_db_mk_world) (auto simp: less_Suc_eq iface_shape_def sample_iface_def blank_virtif_def)
  have en: "enabled_ifaces ?w =
     [(docsis WAN_IFACE_SELECTED WAN_IFACE_STATUS_STANDBY)\<lparr>If_DisplayName := long_name\<rparr>,
      (ethwan WAN_IFACE_SELECTED WAN_IFACE_STATUS_STANDBY)\<lparr>If_DisplayName := long_name\<rparr>]"
    by (simp add: enabled_ifaces_def long_names_world_def mk_world_reads mk_world_def docsis_def ethwan_def sample_iface_def)
  have "\<not> report_short (report_of (Cfg_DeviceNwMode (config ?w)) ?w)"
    by (simp add: report_short_def report_of_def sorted_entries_def en iface_entries_def docsis_def ethwan_def sample_iface_def
        blank_iface_def iface_info_def nonempty_def join_Cons long_name_def Let_def)
  moreover have "malloc_ok sample_env h" "Update_Current_ActiveDNS sample_env ?w = Some None" for h
    by (simp_all add: sample_env_def Update_Current_ActiveDNS_def)
  ultimately have "Update_Interface_Status sample_build sample_env ?w = None"
    using Update_Interface_Status_eq [OF wf, of sample_env None sample_build] by (simp add: Let_def)
  with wf show ?thesis ..
qed

subsection \<open>The status of one interface\<close>

lemma Publish_WanStatus_eq:
  assumes wf: "wf_db w" and i: "i < total_ifaces w" and d: "iface_at (unat i) w = Some d"
    and v: "WanMgr_getVirtualIfaceById (If_VirtIfList d) n = Some v"
  shows "WanMgr_Publish_WanStatus i n w = Some ((),
    if Some (VI_Status v) = PrevWanStatus w then w
    else (if If_WanStatusSub d \<noteq> 0 then announce_status i n (VI_Status v) else (\<lambda>w. w))
           (set_PrevWanStatus (VI_Status v) w))"
  using wf_db_mutex [OF wf] i d v
  by (auto simp: WanMgr_Publish_WanStatus_def with_wf(2) [OF wf] Let_def)

text \<open>
  The status of an interface is compared with the one published last for any interface (one \<open>static\<close>
  variable serves all of them), so a change is not reported when another interface has just reported the same
  status: of two subscribed interfaces that both come to a status nobody has reported yet, one after the other,
  only the first is reported.
\<close>

theorem second_status_not_published:
  assumes "wf_db w" "i < total_ifaces w" "j < total_ifaces w"
    and "iface_at (unat i) w = Some d" "WanMgr_getVirtualIfaceById (If_VirtIfList d) n = Some v"
    and "iface_at (unat j) w = Some d'" "WanMgr_getVirtualIfaceById (If_VirtIfList d') n' = Some v'"
    and "If_WanStatusSub d \<noteq> 0" "If_WanStatusSub d' \<noteq> 0"
    and "VI_Status v = st" "VI_Status v' = st" "PrevWanStatus w \<noteq> Some st"
  shows "Option.bind (WanMgr_Publish_WanStatus i n w) (\<lambda>(_, w). WanMgr_Publish_WanStatus j n' w) =
    Some ((), announce_status i n st (set_PrevWanStatus st w))"
proof -
  let ?w = "announce_status i n st (set_PrevWanStatus st w)"
  have first: "WanMgr_Publish_WanStatus i n w = Some ((), ?w)"
    using Publish_WanStatus_eq [OF assms(1,2,4,5)] assms(8,10,12) by auto
  have db: "gWanMgrDataBase ?w = gWanMgrDataBase w" by (simp add: set_PrevWanStatus_def)
  have reads: "wf_db ?w" "j < total_ifaces ?w" "iface_at (unat j) ?w = Some d'"
    using assms(1,3,6) same_db_reads [OF db] wf_db_same [OF db] by simp_all
  have "PrevWanStatus ?w = Some st" by (simp add: set_PrevWanStatus_def)
  then have "WanMgr_Publish_WanStatus j n' ?w = Some ((), ?w)"
    using Publish_WanStatus_eq [OF reads assms(7)] assms(11) by simp
  with first show ?thesis by simp
qed

definition subscribed_world :: world where
  "subscribed_world = mk_world
     [(docsis WAN_IFACE_SELECTED WAN_IFACE_STATUS_STANDBY)\<lparr>If_WanStatusSub := 1\<rparr>,
      (ethwan WAN_IFACE_SELECTED WAN_IFACE_STATUS_STANDBY)\<lparr>If_WanStatusSub := 1\<rparr>]
     [sample_group 0 1, sample_group 1 2]"

theorem second_status_not_published_witness:
  "Option.bind (WanMgr_Publish_WanStatus 0 0 subscribed_world) (\<lambda>(_, w). WanMgr_Publish_WanStatus 1 0 w) =
    Some ((), announce_status 0 0 WAN_IFACE_STATUS_STANDBY
      (set_PrevWanStatus WAN_IFACE_STATUS_STANDBY subscribed_world))"
proof -
  let ?d = "(docsis WAN_IFACE_SELECTED WAN_IFACE_STATUS_STANDBY)\<lparr>If_WanStatusSub := 1\<rparr>"
  let ?e = "(ethwan WAN_IFACE_SELECTED WAN_IFACE_STATUS_STANDBY)\<lparr>If_WanStatusSub := 1\<rparr>"
  have wf: "wf_db subscribed_world"
    unfolding subscribed_world_def docsis_def ethwan_def
    by (rule wf_db_mk_world) (auto simp: less_Suc_eq iface_shape_def sample_iface_def blank_virtif_def)
  have reads: "(0 :: uint) < total_ifaces subscribed_world" "(1 :: uint) < total_ifaces subscribed_world"
    "iface_at (unat (0 :: uint)) subscribed_world = Some ?d" "iface_at (unat (1 :: uint)) subscribed_world = Some ?e"
    "PrevWanStatus subscribed_world \<noteq> Some WAN_IFACE_STATUS_STANDBY"
    by (simp_all add: subscribed_world_def mk_world_reads) (simp add: mk_world_def)
  have v: "WanMgr_getVirtualIfaceById (If_VirtIfList ?d) 0 = Some (hd (If_VirtIfList ?d))"
    "WanMgr_getVirtualIfaceById (If_VirtIfList ?e) 0 = Some (hd (If_VirtIfList ?e))"
    by (simp_all add: docsis_def ethwan_def sample_iface_def blank_virtif_def WanMgr_getVirtualIfaceById_def)
  show ?thesis
    by (rule second_status_not_published [OF wf reads(1,2,3) v(1) reads(4) v(2)])
      (use reads(5) in \<open>simp_all add: docsis_def ethwan_def sample_iface_def\<close>)
qed

end
