(* ===== verification/WanHelpers.thy ===== *)
theory WanHelpers
  imports WanStatusLemmas
begin

text \<open>
  The helpers of the interface state machine under the rules of \<open>vif_effects\<close>: they all return, and most of
  them change nothing of their virtual interface but the timer of the VLAN discovery and the state of the
  connectivity check.
\<close>

subsection \<open>Helpers that change no table\<close>

context vif_effects begin

lemma vk_publish_status [vif_rules]:
  assumes g: "good c q w"
  shows "vk chg q w (publish_status c w) (\<lambda>_. True)"
proof -
  from good_virtif [OF g] obtain v where v: "virtif_at q w = Some v" by blast
  from virtif_at_iface [OF v] obtain i where i: "iface_at (fst q) w = Some i" "snd q < length (If_VirtIfList i)"
    "If_VirtIfList i ! snd q = v" .
  have k: "fst q < unat (total_ifaces w)" "idx_uint (SC_interfaceIdx c) = of_nat (fst q)" using g by (simp_all add: good_def)
  have id: "WanMgr_getVirtualIfaceById (If_VirtIfList i) (idx_uint (SC_VirIfIdx c)) = Some v"
    using good_position [OF g i(1) v] i(2,3) by (simp add: WanMgr_getVirtualIfaceById_def)
  obtain w' where w': "WanMgr_Publish_WanStatus (of_nat (fst q)) (idx_uint (SC_VirIfIdx c)) w = Some ((), w')" "tabs w' = tabs w"
    using index_bound(1,2) [OF k(1)]
    by (auto simp: WanMgr_Publish_WanStatus_def with_wf(2) [OF good_wf [OF g]] i(1) id tab_simps announce_status_def Let_def)
  from w' g show ?thesis unfolding publish_status_def k(2) by (auto intro: vk_return)
qed

lemma vk_Update_Interface_Status [vif_rules]:
  assumes g: "good c q w" and env: "env_ok e"
  shows "vk chg q w (Update_Interface_Status b e w) (\<lambda>_. True)"
proof -
  from env_ok_dns [OF env] obtain dns where "Update_Current_ActiveDNS e w = Some dns" by blast
  moreover have "report_short (report_of mode w)" for mode
    by (rule report_fits_short) (use g in \<open>simp add: good_def\<close>)
  ultimately have "Update_Interface_Status b e w =
      Some ((), case store_summary b (report_of (Cfg_DeviceNwMode (config w)) w) dns w of (evs, w) \<Rightarrow> published evs w)"
    using Update_Interface_Status_eq [OF good_wf [OF g] env_ok_malloc [OF env]] by (simp add: Let_def)
  then show ?thesis
    by (simp only:) (rule vk_return [OF g], simp_all add: split_beta published_reads tab_simps)
qed

lemma vk_accept_ra [vif_rules]:
  "good c q w \<Longrightarrow> vk chg q w (WanMgr_Configure_accept_ra q enable w) (\<lambda>_. True)"
  unfolding WanMgr_Configure_accept_ra_def
  by (rule vif_rules vk_value | assumption | simp add: tab_simps)+

lemma vk_ConfigurePPPSession [vif_rules]:
  "good c q w \<Longrightarrow> vk chg q w (WanManager_ConfigurePPPSession e q enable w) (\<lambda>_. True)"
  unfolding WanManager_ConfigurePPPSession_def
  by (rule vif_rules | assumption | simp add: tab_simps)+

lemma vk_SetVLANInUse [vif_rules]:
  "good c q w \<Longrightarrow> vk chg q w (DmlSetVLANInUseToPSMDB e q w) (\<lambda>_. True)"
  unfolding DmlSetVLANInUseToPSMDB_def
  by (rule vif_rules | assumption | simp add: tab_simps)+

lemma vk_setUpLanPrefixIPv6 [vif_rules]:
  "good c q w \<Longrightarrow> vk chg q w (setUpLanPrefixIPv6 e q w) (\<lambda>_. True)"
  unfolding setUpLanPrefixIPv6_def
  by (rule vif_rules vk_value | assumption | simp add: tab_simps Let_def)+

lemma vk_deconfigIPv4 [vif_rules]:
  "good c q w \<Longrightarrow> vk chg q w (wan_deconfigIPv4onInterface e c w) (\<lambda>_. True)"
  unfolding wan_deconfigIPv4onInterface_def
  by (rule vif_rules | assumption | simp add: tab_simps)+

text \<open>In bridge mode the name of the interface must fit its buffer.\<close>

lemma vk_Ipv6PrefixUtil [vif_rules]:
  assumes "good c q w" "vif_fits v"
  shows "vk chg q w (WanManager_Ipv6PrefixUtil b e (VI_Name v) opr w) (\<lambda>_. True)"
proof -
  have "vk chg q w (prefix_iface e (VI_Name v) w) (\<lambda>_. True)"
    unfolding prefix_iface_def bool.case_eq_if
    using assms(2) by (intro vk_pair(1) [OF assms(1)]) (auto simp: tab_simps vif_fits_def intro: vk_return)
  with assms(1) show ?thesis
    unfolding WanManager_Ipv6PrefixUtil_def
    by - (rule vif_rules vk_value | assumption | simp add: tab_simps split: Ipv6OperType.split)+
qed

lemma vk_updateDNS [vif_rules]:
  "good c q w \<Longrightarrow> env_ok e \<Longrightarrow> vk chg q w (wan_updateDNS b e c a4 a6 w) (\<lambda>_. True)"
  unfolding wan_updateDNS_def
  by (rule vif_rules vk_value | assumption | simp add: tab_simps)+

text \<open>The search for a voice interface: every virtual interface of the list is there.\<close>

lemma no_voip_total:
  assumes "\<And>j. j \<in> set js \<Longrightarrow> virtif_position vs (of_nat j) = Some j \<and> j < length vs"
  shows "\<exists>r. no_voip vs js = Some r"
  using assms by (induction js) (auto simp: WanMgr_getVirtualIfaceById_def)

lemma vk_VoiceManager [vif_rules]:
  assumes g: "good c q w"
  shows "vk chg q w (updateInterfaceToVoiceManager e c started w) (\<lambda>_. True)"
  unfolding updateInterfaceToVoiceManager_def
proof (rule vk_access [OF g])
  fix i v
  assume i: "iface_at (fst q) w = Some i"
  from g have "wf_db w" "fst q < unat (total_ifaces w)" by (simp_all add: good_def)
  then obtain d where "iface_at (fst q) w = Some d" "wf_shape (fst q) (iface_shape d)" by (rule wf_db_iface_at)
  with i have shape: "wf_shape (fst q) (iface_shape i)" by simp
  then have len: "unat (If_NoOfVirtIfs i) = length (If_VirtIfList i)" by (simp add: iface_shape_def)
  obtain r where r: "no_voip (If_VirtIfList i) [0..<unat (If_NoOfVirtIfs i)] = Some r"
    using no_voip_total [of "[0..<unat (If_NoOfVirtIfs i)]" "If_VirtIfList i"] wf_position [OF shape] len by auto
  then have "(if VI_Alias v = ''VOIP'' then Some True
      else if VI_Alias v = ''DATA'' then no_voip (If_VirtIfList i) [0..<unat (If_NoOfVirtIfs i)] else Some False) \<noteq> None"
    by (simp del: not_None_eq)
  then obtain u where u: "(if VI_Alias v = ''VOIP'' then Some True
      else if VI_Alias v = ''DATA'' then no_voip (If_VirtIfList i) [0..<unat (If_NoOfVirtIfs i)] else Some False) = Some u"
    unfolding not_None_eq ..
  show "vk chg q w (do {
      isUpdate \<leftarrow> (if VI_Alias v = ''VOIP'' then Some True
                  else if VI_Alias v = ''DATA'' then no_voip (If_VirtIfList i) [0..<unat (If_NoOfVirtIfs i)]
                  else Some False);
      Some ((), if isUpdate
                then snd (WanMgr_RdkBus_SetParamValues e ''Device.Services.VoiceService.1.X_RDK_BoundIfName''
                       (if started then take 32 (VI_Name v) else []) w)
                else w)
    }) (\<lambda>_. True)"
    unfolding u bind.bind_lunit by (rule vk_return [OF g]) (simp_all add: tab_simps)
qed

end

subsection \<open>The timer of the VLAN discovery\<close>

locale vif_links = vif_effects +
  assumes chg_timer: "chg v (upd_VLAN (\<lambda>l. l\<lparr>VLAN_TimerStart := t\<rparr>) v)"
begin

lemma vk_ConfigureVlan [vif_rules]:
  "good c q w \<Longrightarrow> vk chg q w (WanMgr_RdkBus_ConfigureVlan e q enable w) (\<lambda>_. True)"
  unfolding WanMgr_RdkBus_ConfigureVlan_def
  by (rule vif_rules vk_return chg_timer | assumption | simp add: tab_simps)+

end

subsection \<open>The connectivity check\<close>

locale vif_checks = vif_links +
  assumes chg_check:
    "chg v (upd_IP (\<lambda>i. i\<lparr>IP_RestartConnectivityCheck := restart, IP_ConnectivityCheckRunning := run, IP_Ipv6Route := ra\<rparr>) v)"
begin

text \<open>Each of the three fields alone.\<close>

lemma chg_check_field:
  "chg v (upd_IP (\<lambda>i. i\<lparr>IP_RestartConnectivityCheck := restart\<rparr>) v)"
  "chg v (upd_IP (\<lambda>i. i\<lparr>IP_ConnectivityCheckRunning := run\<rparr>) v)"
  "chg v (upd_IP (\<lambda>i. i\<lparr>IP_Ipv6Route := ra\<rparr>) v)"
proof -
  let ?i = "VI_IP v"
  show "chg v (upd_IP (\<lambda>i. i\<lparr>IP_RestartConnectivityCheck := restart\<rparr>) v)"
    using chg_check [where v = v and restart = restart and run = "IP_ConnectivityCheckRunning ?i" and ra = "IP_Ipv6Route ?i"] by (simp add: upd_IP_def)
  show "chg v (upd_IP (\<lambda>i. i\<lparr>IP_ConnectivityCheckRunning := run\<rparr>) v)"
    using chg_check [where v = v and restart = "IP_RestartConnectivityCheck ?i" and run = run and ra = "IP_Ipv6Route ?i"] by (simp add: upd_IP_def)
  show "chg v (upd_IP (\<lambda>i. i\<lparr>IP_Ipv6Route := ra\<rparr>) v)"
    using chg_check [where v = v and restart = "IP_RestartConnectivityCheck ?i" and run = "IP_ConnectivityCheckRunning ?i" and ra = ra] by (simp add: upd_IP_def)
qed

lemma vk_router_solicitation [vif_rules]:
  assumes g: "good c q w" and env: "env_ok e"
  shows "vk chg q w (WanManager_send_and_receive_rs e q w) (\<lambda>_. True)"
  unfolding WanManager_send_and_receive_rs_def
proof (rule vk_virtif [OF g])
  fix v
  assume v: "virtif_at q w = Some v"
  let ?cmd = "take 255 (''rdisc6 '' @ VI_Name v)"
  let ?w = "emit (System ?cmd) w"
  have g': "good c q ?w" by (rule good_tabs(1) [OF g]) (simp add: tab_simps)
  have "vk chg q ?w (case popen_lines e (out ?w) ?cmd of
        None \<Rightarrow> Some (False, ?w)
      | Some lines \<Rightarrow> do {
          (ok, r) \<leftarrow> rs_scan e lines (IP_Ipv6Route (VI_IP v));
          Some (ok, upd_virtif q (upd_IP (\<lambda>i. i\<lparr>IP_Ipv6Route := r\<rparr>)) ?w)
        }) (\<lambda>_. True)"
  proof (rule vk_option)
    fix lines
    assume "popen_lines e (out ?w) ?cmd = Some lines"
    then have "rs_scan e lines (IP_Ipv6Route (VI_IP v)) \<noteq> None" by (rule env_ok_rs [OF env])
    then obtain a r where "rs_scan e lines (IP_Ipv6Route (VI_IP v)) = Some (a, r)" by fast
    then show "vk chg q ?w (do {
          (ok, r) \<leftarrow> rs_scan e lines (IP_Ipv6Route (VI_IP v));
          Some (ok, upd_virtif q (upd_IP (\<lambda>i. i\<lparr>IP_Ipv6Route := r\<rparr>)) ?w)
        }) (\<lambda>_. True)"
      by (simp only: bind.bind_lunit prod.case) (rule vk_upd [OF g'], simp_all add: chg_check_field)
  qed (rule vk_return [OF g'], simp_all)
  then show "vk chg q w (let cmd = ?cmd; w = emit (System cmd) w
      in case popen_lines e (out w) cmd of
        None \<Rightarrow> Some (False, w)
      | Some lines \<Rightarrow> do {
          (ok, r) \<leftarrow> rs_scan e lines (IP_Ipv6Route (VI_IP v));
          Some (ok, upd_virtif q (upd_IP (\<lambda>i. i\<lparr>IP_Ipv6Route := r\<rparr>)) w)
        }) (\<lambda>_. True)"
    unfolding Let_def by (rule vk_rebase [OF g tabs_emit])
qed

lemma vk_CheckDefaultRA [vif_rules]:
  "good c q w \<Longrightarrow> env_ok e \<Longrightarrow> vk chg q w (WanMgr_CheckDefaultRA e q w) (\<lambda>_. True)"
  unfolding WanMgr_CheckDefaultRA_def
  by (rule vif_rules vk_value | assumption | simp add: tab_simps)+

lemma vk_LanAddressReady [vif_rules]:
  "good c q w \<Longrightarrow> env_ok e \<Longrightarrow> vk chg q w (checkIpv6LanAddressIsReadyToUse e q w) (\<lambda>_. True)"
  unfolding checkIpv6LanAddressIsReadyToUse_def
  by (rule vif_rules vk_value | assumption | simp add: tab_simps)+

lemma vk_Configure_TAD [vif_rules]:
  "good c q w \<Longrightarrow> env_ok e \<Longrightarrow> vk chg q w (WanMgr_Configure_TAD_WCC e q event w) (\<lambda>_. True)"
  unfolding WanMgr_Configure_TAD_WCC_def
  by (rule vif_rules vk_value chg_check_field | assumption | simp add: tab_simps env_ok_malloc)+

lemma vk_StartConnectivityCheck [vif_rules]:
  "good c q w \<Longrightarrow> env_ok e \<Longrightarrow> vk chg q w (WanMgr_StartConnectivityCheck e c w) (\<lambda>_. True)"
  unfolding WanMgr_StartConnectivityCheck_def
  by (rule vif_rules vk_value chg_check_field | assumption | simp add: tab_simps)+

lemma vk_StopConnectivityCheck [vif_rules]:
  "good c q w \<Longrightarrow> env_ok e \<Longrightarrow> vk chg q w (WanMgr_StopConnectivityCheck e c w) (\<lambda>_. True)"
  unfolding WanMgr_StopConnectivityCheck_def
  by (rule vif_rules vk_value chg_check_field | assumption | simp add: tab_simps)+

lemma vk_SendMsg [vif_rules]:
  "good c q w \<Longrightarrow> env_ok e \<Longrightarrow> vk chg q w (WanMgr_SendMsgTo_ConnectivityCheck e c w) (\<lambda>_. True)"
  unfolding WanMgr_SendMsgTo_ConnectivityCheck_def
  by (rule vif_rules vk_value | assumption | simp add: tab_simps)+

lemma vk_setUp [vif_rules]:
  "good c q w \<Longrightarrow> env_ok e \<Longrightarrow> vk chg q w (wan_setUpIPv4 b e c w) (\<lambda>_. True)"
  "good c q w \<Longrightarrow> env_ok e \<Longrightarrow> vk chg q w (wan_setUpIPv6 b e c w) (\<lambda>_. True)"
  unfolding wan_setUpIPv4_def wan_setUpIPv6_def
  by (rule vif_rules vk_value | assumption | simp add: tab_simps Let_def)+

lemma vk_tearDown [vif_rules]:
  "good c q w \<Longrightarrow> env_ok e \<Longrightarrow> vk chg q w (wan_tearDownIPv4 b e c w) (\<lambda>_. True)"
  "good c q w \<Longrightarrow> env_ok e \<Longrightarrow> vk chg q w (wan_tearDownIPv6 b e c w) (\<lambda>_. True)"
  unfolding wan_tearDownIPv4_def wan_tearDownIPv6_def
  by (rule vif_rules vk_value | assumption | simp add: tab_simps)+

end

end
