(* ===== verification/WanMachine.thy ===== *)
theory WanMachine
  imports WanHelpers
begin

text \<open>
  The interface state machine under the rules: every transition, every state and every pass of the thread
  returns and changes only the virtual interface of the machine (\<open>sane\<close>).  The result of a transition or a
  state is tracked as a set of states the machine may go to next.
\<close>

lemmas upd_defs = upd_IP_def upd_VLAN_def upd_PPP_def upd_MAP_def set_VI_Status_def

subsection \<open>The DHCP clients and their messages\<close>

text \<open>
  The messages, the clients and the loss of an address change neither the links of the interface nor the flags
  that ask for a reset; the locale covers every effect that allows as much.
\<close>

definition links_kept :: "DML_VIRTUAL_IFACE \<Rightarrow> DML_VIRTUAL_IFACE \<Rightarrow> bool" where
  "links_kept v v' \<longleftrightarrow> sane v v' \<and> PPP_Enable (VI_PPP v') = PPP_Enable (VI_PPP v) \<and>
     PPP_LinkStatus (VI_PPP v') = PPP_LinkStatus (VI_PPP v) \<and> VLAN_Status (VI_VLAN v') = VLAN_Status (VI_VLAN v) \<and>
     VI_Reset v' = VI_Reset v \<and> VLAN_Reset (VI_VLAN v') = VLAN_Reset (VI_VLAN v) \<and>
     VLAN_Expired (VI_VLAN v') = VLAN_Expired (VI_VLAN v)"

lemma vk_values_at [vif_rules]:
  "(\<And>a b. vk chg q w (f a b w') R) \<Longrightarrow> vk chg q w ((case p of (a, b) \<Rightarrow> f a b) w') R"
  by (simp add: split_beta)

text \<open>Starting and stopping a client changes its status and its process identifier.\<close>

locale vif_clients = vif_checks +
  assumes chg_client: "chg v (upd_IP (\<lambda>i. i\<lparr>IP_Dhcp4cStatus := s, IP_Dhcp4cPid := p, IP_Dhcp6cStatus := t, IP_Dhcp6cPid := r\<rparr>) v)"
begin

lemma chg_client_fields:
  "chg v (upd_IP (\<lambda>i. i\<lparr>IP_Dhcp4cStatus := s, IP_Dhcp4cPid := p\<rparr>) v)"
  "chg v (upd_IP (\<lambda>i. i\<lparr>IP_Dhcp6cStatus := s, IP_Dhcp6cPid := p\<rparr>) v)"
proof -
  let ?i = "VI_IP v"
  show "chg v (upd_IP (\<lambda>i. i\<lparr>IP_Dhcp4cStatus := s, IP_Dhcp4cPid := p\<rparr>) v)"
    using chg_client [where v = v and s = s and p = p and t = "IP_Dhcp6cStatus ?i" and r = "IP_Dhcp6cPid ?i"]
    by (simp add: upd_IP_def)
  show "chg v (upd_IP (\<lambda>i. i\<lparr>IP_Dhcp6cStatus := s, IP_Dhcp6cPid := p\<rparr>) v)"
    using chg_client [where v = v and s = "IP_Dhcp4cStatus ?i" and p = "IP_Dhcp4cPid ?i" and t = s and r = p]
    by (simp add: upd_IP_def)
qed

lemma chg_start_client:
  "chg v (upd_IP (\<lambda>i. if pid = 0 then i\<lparr>IP_Dhcp4cPid := -1, IP_Dhcp4cStatus := DHCPC_FAILED\<rparr>
                       else i\<lparr>IP_Dhcp4cStatus := DHCPC_STARTED, IP_Dhcp4cPid := pid\<rparr>) v)"
  "chg v (upd_IP (\<lambda>i. if pid = 0 then i\<lparr>IP_Dhcp6cStatus := DHCPC_FAILED, IP_Dhcp6cPid := -1\<rparr>
                       else i\<lparr>IP_Dhcp6cPid := pid, IP_Dhcp6cStatus := DHCPC_STARTED\<rparr>) v)"
proof -
  have swap: "i\<lparr>IP_Dhcp4cPid := p, IP_Dhcp4cStatus := s\<rparr> = i\<lparr>IP_Dhcp4cStatus := s, IP_Dhcp4cPid := p\<rparr>"
    "i\<lparr>IP_Dhcp6cPid := p, IP_Dhcp6cStatus := s\<rparr> = i\<lparr>IP_Dhcp6cStatus := s, IP_Dhcp6cPid := p\<rparr>" for i s p
    by (cases i; simp)+
  have "chg v (upd_IP (\<lambda>i. i\<lparr>IP_Dhcp4cStatus := s, IP_Dhcp4cPid := p\<rparr>) v)"
    "chg v (upd_IP (\<lambda>i. i\<lparr>IP_Dhcp4cPid := p, IP_Dhcp4cStatus := s\<rparr>) v)"
    "chg v (upd_IP (\<lambda>i. i\<lparr>IP_Dhcp6cStatus := s, IP_Dhcp6cPid := p\<rparr>) v)"
    "chg v (upd_IP (\<lambda>i. i\<lparr>IP_Dhcp6cPid := p, IP_Dhcp6cStatus := s\<rparr>) v)" for s p
    using chg_client_fields [where v = v and s = s and p = p] by (simp_all only: swap)
  then show "chg v (upd_IP (\<lambda>i. if pid = 0 then i\<lparr>IP_Dhcp4cPid := -1, IP_Dhcp4cStatus := DHCPC_FAILED\<rparr>
                       else i\<lparr>IP_Dhcp4cStatus := DHCPC_STARTED, IP_Dhcp4cPid := pid\<rparr>) v)"
    "chg v (upd_IP (\<lambda>i. if pid = 0 then i\<lparr>IP_Dhcp6cStatus := DHCPC_FAILED, IP_Dhcp6cPid := -1\<rparr>
                       else i\<lparr>IP_Dhcp6cPid := pid, IP_Dhcp6cStatus := DHCPC_STARTED\<rparr>) v)"
    by (cases "pid = 0"; simp only: if_True if_False)+
qed

lemma vk_clients [vif_rules]:
  "good c q w \<Longrightarrow> vk chg q w (WanManager_StartDhcpv4Client e q base ty w) (\<lambda>_. True)"
  "good c q w \<Longrightarrow> vk chg q w (WanManager_StopDhcpv4Client e q release w) (\<lambda>_. True)"
  "good c q w \<Longrightarrow> env_ok e \<Longrightarrow> vk chg q w (WanManager_StartDhcpv6Client e q ty w) (\<lambda>_. True)"
  "good c q w \<Longrightarrow> vk chg q w (WanManager_StopDhcpv6Client e q release w) (\<lambda>_. True)"
  unfolding WanManager_StartDhcpv4Client_def WanManager_StopDhcpv4Client_def WanManager_StartDhcpv6Client_def
    WanManager_StopDhcpv6Client_def
  by (rule vif_rules chg_client_fields chg_start_client vk_value | assumption | simp add: tab_simps)+

end

locale vif_leases = vif_checks +
  assumes chg_lease: "links_kept v v' \<Longrightarrow> chg v v'"
begin

sublocale clients: vif_clients chg
  by unfold_locales (rule chg_lease, simp add: links_kept_def sane_def upd_defs)

lemmas [vif_rules] = clients.vk_clients

lemma chg_msg [vif_rules]:
  "chg v (free_msg4 v)" "chg v (free_msg6 v)" "chg v (upd_msg4 m v)"
  "chg v (upd_IP f v)" "chg v (upd_MAP g v)" "chg v (set_VI_Status st v)"
  by (rule chg_lease, simp add: links_kept_def sane_def free_msg4_def free_msg6_def upd_msg4_def upd_defs)+

lemma vk_UpdateInterfaceStatus [vif_rules]:
  "good c q w \<Longrightarrow> vk chg q w (WanManager_UpdateInterfaceStatus q st w) (\<lambda>_. True)"
  unfolding WanManager_UpdateInterfaceStatus_def
  by (cases st; simp only: wanmgr_iface_status_t.case)
    (rule vif_rules chg_lease | assumption | simp add: tab_simps links_kept_def sane_def connection_down_def connection_ipv6_down_def upd_defs)+

lemma vk_ipv4_assigned [vif_rules]:
  "good c q w \<Longrightarrow> vk chg q w (ipv4_assigned e q m changed up w) (\<lambda>_. True)"
  unfolding ipv4_assigned_def
  by (rule vif_rules chg_lease vk_value | assumption | simp add: tab_simps links_kept_def sane_def upd_defs)+

lemma vk_dhcpv4_event [vif_rules]:
  "good c q w \<Longrightarrow> vk chg q w (wanmgr_handle_dhcpv4_event_data e q w) (\<lambda>_. True)"
  unfolding wanmgr_handle_dhcpv4_event_data_def
  by (rule vif_rules chg_lease vk_value | assumption | simp add: tab_simps links_kept_def sane_def free_msg4_def upd_defs Let_def)+

lemma vk_fill_message [vif_rules]:
  "good c q w \<Longrightarrow> vk chg q w (fill_message e q qs w) (\<lambda>_. True)"
proof (induction qs arbitrary: w)
  case Nil
  then show ?case unfolding fill_message.simps by (rule vk_return) simp_all
next
  case (Cons m qs)
  obtain param store blank where m: "m = (param, store, blank)" by (cases m)
  show ?case unfolding m fill_message.simps
    by (rule vif_rules chg_lease Cons | assumption | simp add: tab_simps links_kept_def sane_def upd_defs)+
qed

lemma vk_cellular [vif_rules]:
  "good c q w \<Longrightarrow> vk chg q w (WanMgr_UpdateIpFromCellularMgr e c w) (\<lambda>_. True)"
  unfolding WanMgr_UpdateIpFromCellularMgr_def
  by (rule vif_rules chg_lease | assumption | simp add: tab_simps links_kept_def sane_def upd_defs)+

lemma vk_IPCP [vif_rules]:
  "good c q w \<Longrightarrow> env_ok e \<Longrightarrow> vk chg q w (IPCPStateChangeHandler e q w) (\<lambda>_. True)"
  unfolding IPCPStateChangeHandler_def
  by (rule vif_rules chg_lease vk_value | assumption | simp add: tab_simps links_kept_def sane_def upd_defs env_ok_malloc)+

lemma vk_ipv6_prefix [vif_rules]:
  "good c q w \<Longrightarrow> vk chg q w (ipv6_prefix q d m w) (\<lambda>_. True)"
  unfolding ipv6_prefix_def
  by (rule vif_rules chg_lease | assumption | simp add: tab_simps links_kept_def sane_def upd_defs)+

lemma vk_ipv6_connected [vif_rules]:
  "good c q w \<Longrightarrow> vk chg q w (ipv6_connected b e q m new w) (\<lambda>_. True)"
  unfolding ipv6_connected_def
  by (rule vif_rules chg_lease | assumption | simp add: tab_simps links_kept_def sane_def upd_defs)+

lemma vk_dhcpv6_event [vif_rules]:
  "good c q w \<Longrightarrow> vk chg q w (wanmgr_handle_dhcpv6_event_data b e q w) (\<lambda>_. True)"
  unfolding wanmgr_handle_dhcpv6_event_data_def
  by (rule vif_rules chg_lease vk_value vk_values | assumption | simp add: tab_simps links_kept_def sane_def upd_defs)+

lemma vk_messages [vif_rules]:
  "good c q w \<Longrightarrow> env_ok e \<Longrightarrow> vk chg q w (WanMgr_IfaceIpcMsg_handle b e c w) (\<lambda>_. True)"
  unfolding WanMgr_IfaceIpcMsg_handle_def
  by (rule vif_rules chg_lease | assumption | simp add: tab_simps links_kept_def sane_def upd_defs)+

text \<open>The DHCP clients, and the loss of an address.\<close>

lemma vk_change_check [vif_rules]:
  "good c q w \<Longrightarrow> env_ok e \<Longrightarrow> vk chg q w (change_connectivity_check e c q w) (\<lambda>_. True)"
  unfolding change_connectivity_check_def
  by (rule vif_rules chg_lease | assumption | simp add: tab_simps links_kept_def sane_def upd_defs)+

lemma vk_MonitorDhcpApps [vif_rules]:
  "good c q w \<Longrightarrow> env_ok e \<Longrightarrow> vk chg q w (WanMgr_MonitorDhcpApps b e c w) (\<lambda>_. True)"
  unfolding WanMgr_MonitorDhcpApps_def
  by (rule vif_rules chg_lease vk_return | assumption | simp add: tab_simps links_kept_def sane_def upd_defs)+

lemma vk_transition_down [vif_rules]:
  "\<lbrakk>good c q w; env_ok e; Q WAN_STATE_IPV6_LEASED; Q WAN_STATE_OBTAINING_IP_ADDRESSES\<rbrakk> \<Longrightarrow>
   vk chg q w (wan_transition_ipv4_down b e c w) Q"
  "\<lbrakk>good c q w; env_ok e; Q WAN_STATE_IPV4_LEASED; Q WAN_STATE_OBTAINING_IP_ADDRESSES\<rbrakk> \<Longrightarrow>
   vk chg q w (wan_transition_ipv6_down b e c w) Q"
  unfolding wan_transition_ipv4_down_def wan_transition_ipv6_down_def
  by (rule vif_rules chg_lease vk_value | assumption | simp add: tab_simps links_kept_def sane_def upd_defs)+

lemma vk_lose_addresses [vif_rules]:
  "good c q w \<Longrightarrow> env_ok e \<Longrightarrow> vk chg q w (lose_addresses b e c v w) (\<lambda>_. True)"
  unfolding lose_addresses_def
  by (rule vif_rules | assumption | simp)+

lemma vk_stop_clients [vif_rules]:
  "good c q w \<Longrightarrow> env_ok e \<Longrightarrow> vk chg q w (stop_clients e c q v w) (\<lambda>_. True)"
  unfolding stop_clients_def
  by (rule vif_rules | assumption | simp)+

end

interpretation sn: vif_leases sane
  by unfold_locales (auto simp: sane_def upd_VLAN_def upd_IP_def links_kept_def)

interpretation ln: vif_leases links_kept
  by unfold_locales (auto simp: sane_def upd_VLAN_def upd_IP_def links_kept_def)

lemma sane_upd [vif_rules]:
  "sane v (upd_IP f v)" "sane v (upd_PPP g v)" "sane v (upd_MAP h v)" "sane v (set_VI_Status st v)"
  by (simp_all add: sane_def upd_defs)

subsection \<open>Links\<close>

lemma vk_FindExistingLink [vif_rules]:
  "good c q w \<Longrightarrow> vk sane q w (WanMgr_RestartFindExistingLink e c w) (\<lambda>_. True)"
  unfolding WanMgr_RestartFindExistingLink_def
  by (rule vif_rules | assumption | simp add: tab_simps sane_def upd_defs)+

lemma vk_GetSelectedIPMode [vif_rules]:
  "good c q w \<Longrightarrow> vk sane q w (WanMgr_GetSelectedIPMode q w) (\<lambda>_. True)"
  unfolding WanMgr_GetSelectedIPMode_def
  by (rule vif_rules | assumption | simp add: tab_simps)+

lemma vk_ClearDHCPData [vif_rules]:
  "good c q w \<Longrightarrow> vk sane q w (WanManager_ClearDHCPData q w) (\<lambda>_. True)"
  unfolding WanManager_ClearDHCPData_def
  by (rule vif_rules | assumption | simp add: tab_simps)+

lemma vk_start_dhcp [vif_rules]:
  "good c q w \<Longrightarrow> env_ok e \<Longrightarrow> vk sane q w (start_dhcp_clients e d q w) (\<lambda>_. True)"
  unfolding start_dhcp_clients_def
  by (rule vif_rules | assumption | simp add: tab_simps)+

lemma vk_refresh_dhcp [vif_rules]:
  "good c q w \<Longrightarrow> env_ok e \<Longrightarrow> vk sane q w (refresh_dhcp e c d q w) (\<lambda>_. True)"
  unfolding refresh_dhcp_def
  by (rule vif_rules | assumption | simp add: tab_simps)+

lemma vk_small [vif_rules]:
  "good c q w \<Longrightarrow> vk sane q w (remote_ula e q w) (\<lambda>_. True)"
  "good c q w \<Longrightarrow> vk sane q w (tell_voice_manager e c v w) (\<lambda>_. True)"
  unfolding remote_ula_def tell_voice_manager_def
  by (rule vif_rules | assumption | simp add: tab_simps)+

lemma vk_reconfigure [vif_rules]:
  "good c q w \<Longrightarrow> env_ok e \<Longrightarrow> vk sane q w (reconfigure_ipv4 b e c q w) (\<lambda>_. True)"
  "good c q w \<Longrightarrow> env_ok e \<Longrightarrow> vk sane q w (reconfigure_ipv6 b e c q w) (\<lambda>_. True)"
  unfolding reconfigure_ipv4_def reconfigure_ipv6_def
  by (rule vif_rules | assumption | simp add: tab_simps)+

subsection \<open>Transitions\<close>

lemma vif_fits_vlan: "vif_fits v \<Longrightarrow> vlan_down v \<Longrightarrow> \<exists>x xs. VLAN_InterfaceList (VI_VLAN v) = x # xs \<and> VT_Index x = 0"
  by (auto simp: vif_fits_def vlan_down_def split: list.splits)

text \<open>The first entry of the list of VLANs, and the next one to be tried.\<close>

lemma next_vlan_total: "VLAN_InterfaceList l = y # ys \<Longrightarrow> next_vlan l \<noteq> None"
  by (simp add: next_vlan_def Let_def split: option.split)

lemma vk_vlan [vif_rules]:
  assumes "vif_fits v" "vlan_down v" "\<And>x. vk chg q w (f x) R"
  shows "vk chg q w (Option.bind (WanMgr_getVirtVlanIfById (VLAN_InterfaceList (VI_VLAN v)) 0) f) R"
    and "vk chg q w (Option.bind (next_vlan (VI_VLAN v)) f) R"
proof -
  from vif_fits_vlan [OF assms(1,2)] obtain x xs where x: "VLAN_InterfaceList (VI_VLAN v) = x # xs" "VT_Index x = 0"
    by blast
  show "vk chg q w (Option.bind (WanMgr_getVirtVlanIfById (VLAN_InterfaceList (VI_VLAN v)) 0) f) R"
    unfolding x(1) using x(2) assms(3) by simp
  from next_vlan_total [OF x(1)] obtain y where "next_vlan (VI_VLAN v) = Some y" by blast
  then show "vk chg q w (Option.bind (next_vlan (VI_VLAN v)) f) R" using assms(3) by simp
qed

lemma vk_transition_start [vif_rules]:
  "good c q w \<Longrightarrow> env_ok e \<Longrightarrow> Q WAN_STATE_VLAN_CONFIGURING \<Longrightarrow> vk sane q w (wan_transition_start b e c w) Q"
  unfolding wan_transition_start_def
  by (rule vif_rules | assumption | simp add: tab_simps sane_def upd_defs)+

lemma vk_transition_links [vif_rules]:
  "good c q w \<Longrightarrow> Q WAN_STATE_PPP_CONFIGURING \<Longrightarrow> vk sane q w (wan_transition_ppp_configure e c w) Q"
  "good c q w \<Longrightarrow> Q WAN_STATE_VALIDATING_WAN \<Longrightarrow> vk sane q w (wan_transition_wan_up c w) Q"
  "good c q w \<Longrightarrow> Q WAN_STATE_VLAN_CONFIGURING \<Longrightarrow> vk sane q w (wan_transition_wan_refreshed e c w) Q"
  unfolding wan_transition_ppp_configure_def wan_transition_wan_up_def wan_transition_wan_refreshed_def
  by (rule vif_rules | assumption | simp add: tab_simps sane_def upd_defs)+

lemma vk_transition_validated [vif_rules]:
  "good c q w \<Longrightarrow> env_ok e \<Longrightarrow> Q WAN_STATE_OBTAINING_IP_ADDRESSES \<Longrightarrow>
   vk sane q w (wan_transition_wan_validated e c w) Q"
  unfolding wan_transition_wan_validated_def
  by (rule vif_rules | assumption | simp add: tab_simps)+

lemma vk_transition_up [vif_rules]:
  "\<lbrakk>good c q w; env_ok e; Q WAN_STATE_DUAL_STACK_ACTIVE; Q WAN_STATE_IPV4_LEASED\<rbrakk> \<Longrightarrow>
   vk sane q w (wan_transition_ipv4_up b e c w) Q"
  "\<lbrakk>good c q w; env_ok e; Q WAN_STATE_DUAL_STACK_ACTIVE; Q WAN_STATE_IPV6_LEASED\<rbrakk> \<Longrightarrow>
   vk sane q w (wan_transition_ipv6_up b e c w) Q"
  unfolding wan_transition_ipv4_up_def wan_transition_ipv6_up_def
  by (rule vif_rules | assumption | simp add: tab_simps)+

lemma vk_transition_dual_stack_down [vif_rules]:
  "\<lbrakk>good c q w; env_ok e; Q WAN_STATE_OBTAINING_IP_ADDRESSES\<rbrakk> \<Longrightarrow>
   vk sane q w (wan_transition_dual_stack_down b e c w) Q"
  unfolding wan_transition_dual_stack_down_def
  by (rule vif_rules | assumption | simp add: tab_simps)+

lemma vk_stop_links [vif_rules]:
  "good c q w \<Longrightarrow> vk sane q w (stop_links e q d v w) (\<lambda>_. True)"
  unfolding stop_links_def
  by (rule vif_rules | assumption | simp add: sane_def upd_defs)+

lemma vk_transition_physical_down [vif_rules]:
  "\<lbrakk>good c q w; env_ok e; Q WAN_STATE_REFRESHING_WAN; Q WAN_STATE_DECONFIGURING_WAN\<rbrakk> \<Longrightarrow>
   vk sane q w (wan_transition_physical_interface_down b e c w) Q"
  unfolding wan_transition_physical_interface_down_def
  by (rule vif_rules | assumption | simp add: tab_simps sane_def upd_defs)+

lemma vk_transition_standby [vif_rules]:
  "good c q w \<Longrightarrow> env_ok e \<Longrightarrow> Q WAN_STATE_EXIT \<Longrightarrow> vk sane q w (wan_transition_exit b e c w) Q"
  "good c q w \<Longrightarrow> env_ok e \<Longrightarrow> Q WAN_STATE_STANDBY \<Longrightarrow> vk sane q w (wan_transition_standby b e c w) Q"
  "good c q w \<Longrightarrow> env_ok e \<Longrightarrow> Q WAN_STATE_STANDBY \<Longrightarrow>
   vk sane q w (wan_transition_standby_deconfig_ips b e c w) Q"
  unfolding wan_transition_exit_def wan_transition_standby_def wan_transition_standby_deconfig_ips_def
  by (rule vif_rules | assumption | simp add: tab_simps sane_def upd_defs)+

subsection \<open>States\<close>

text \<open>The diagram of the machine: the states a state may be followed by.\<close>

fun ism_next :: "eWanState_t \<Rightarrow> eWanState_t set" where
  "ism_next WAN_STATE_VLAN_CONFIGURING =
     {WAN_STATE_VLAN_CONFIGURING, WAN_STATE_PPP_CONFIGURING, WAN_STATE_REFRESHING_WAN, WAN_STATE_DECONFIGURING_WAN}"
| "ism_next WAN_STATE_PPP_CONFIGURING =
     {WAN_STATE_PPP_CONFIGURING, WAN_STATE_VALIDATING_WAN, WAN_STATE_REFRESHING_WAN, WAN_STATE_DECONFIGURING_WAN}"
| "ism_next WAN_STATE_VALIDATING_WAN =
     {WAN_STATE_OBTAINING_IP_ADDRESSES, WAN_STATE_REFRESHING_WAN, WAN_STATE_DECONFIGURING_WAN}"
| "ism_next WAN_STATE_OBTAINING_IP_ADDRESSES =
     {WAN_STATE_OBTAINING_IP_ADDRESSES, WAN_STATE_STANDBY, WAN_STATE_IPV4_LEASED, WAN_STATE_IPV6_LEASED,
      WAN_STATE_DUAL_STACK_ACTIVE, WAN_STATE_REFRESHING_WAN, WAN_STATE_DECONFIGURING_WAN}"
| "ism_next WAN_STATE_STANDBY =
     {WAN_STATE_STANDBY, WAN_STATE_OBTAINING_IP_ADDRESSES, WAN_STATE_IPV4_LEASED, WAN_STATE_IPV6_LEASED,
      WAN_STATE_DUAL_STACK_ACTIVE, WAN_STATE_REFRESHING_WAN, WAN_STATE_DECONFIGURING_WAN}"
| "ism_next WAN_STATE_IPV4_LEASED =
     {WAN_STATE_IPV4_LEASED, WAN_STATE_IPV6_LEASED, WAN_STATE_DUAL_STACK_ACTIVE, WAN_STATE_STANDBY,
      WAN_STATE_OBTAINING_IP_ADDRESSES, WAN_STATE_REFRESHING_WAN, WAN_STATE_DECONFIGURING_WAN}"
| "ism_next WAN_STATE_IPV6_LEASED =
     {WAN_STATE_IPV4_LEASED, WAN_STATE_IPV6_LEASED, WAN_STATE_DUAL_STACK_ACTIVE, WAN_STATE_STANDBY,
      WAN_STATE_OBTAINING_IP_ADDRESSES, WAN_STATE_REFRESHING_WAN, WAN_STATE_DECONFIGURING_WAN}"
| "ism_next WAN_STATE_DUAL_STACK_ACTIVE =
     {WAN_STATE_DUAL_STACK_ACTIVE, WAN_STATE_IPV4_LEASED, WAN_STATE_IPV6_LEASED, WAN_STATE_STANDBY,
      WAN_STATE_OBTAINING_IP_ADDRESSES, WAN_STATE_REFRESHING_WAN, WAN_STATE_DECONFIGURING_WAN}"
| "ism_next WAN_STATE_REFRESHING_WAN =
     {WAN_STATE_REFRESHING_WAN, WAN_STATE_VLAN_CONFIGURING, WAN_STATE_DECONFIGURING_WAN}"
| "ism_next WAN_STATE_DECONFIGURING_WAN = {WAN_STATE_DECONFIGURING_WAN, WAN_STATE_EXIT}"
| "ism_next _ = {WAN_STATE_EXIT}"

lemma vk_link_state [vif_rules]:
  assumes g: "good c q w" and env: "env_ok e" and down: "Q WAN_STATE_REFRESHING_WAN" "Q WAN_STATE_DECONFIGURING_WAN"
    and go_on: "\<And>v w. good c q w \<Longrightarrow> vk sane q w (go_on v w) Q"
  shows "vk sane q w (link_state b e c go_on w) Q"
  unfolding link_state_def using g env down
  by - (rule vif_rules go_on | assumption | simp add: tab_simps sane_def upd_defs)+

lemma vk_link_states [vif_rules]:
  "\<lbrakk>good c q w; env_ok e; \<And>st. st \<in> ism_next WAN_STATE_VLAN_CONFIGURING \<Longrightarrow> Q st\<rbrakk> \<Longrightarrow>
   vk sane q w (wan_state_vlan_configuring b e c w) Q"
  "\<lbrakk>good c q w; env_ok e; \<And>st. st \<in> ism_next WAN_STATE_PPP_CONFIGURING \<Longrightarrow> Q st\<rbrakk> \<Longrightarrow>
   vk sane q w (wan_state_ppp_configuring b e c w) Q"
  "\<lbrakk>good c q w; env_ok e; \<And>st. st \<in> ism_next WAN_STATE_VALIDATING_WAN \<Longrightarrow> Q st\<rbrakk> \<Longrightarrow>
   vk sane q w (wan_state_validating_wan b e c w) Q"
  unfolding wan_state_vlan_configuring_def wan_state_ppp_configuring_def wan_state_validating_wan_def
  by (rule vif_rules | assumption | simp)+

lemma vk_address_obtained [vif_rules]:
  "\<lbrakk>good c q w; env_ok e; \<And>st. st \<in> ism_next WAN_STATE_OBTAINING_IP_ADDRESSES \<Longrightarrow> Q st\<rbrakk> \<Longrightarrow>
   vk sane q w (address_obtained b e c w) Q"
  unfolding address_obtained_def
  by (rule vif_rules sn.vk_values | assumption | simp)+

lemma vk_obtaining [vif_rules]:
  "\<lbrakk>good c q w; env_ok e; \<And>st. st \<in> ism_next WAN_STATE_OBTAINING_IP_ADDRESSES \<Longrightarrow> Q st\<rbrakk> \<Longrightarrow>
   vk sane q w (wan_state_obtaining_ip_addresses b e c w) Q"
  unfolding wan_state_obtaining_ip_addresses_def
  by (rule vif_rules sn.vk_value | assumption | simp add: sane_def upd_defs)+

lemma vk_leave_standby [vif_rules]:
  assumes "good c q w" "env_ok e" "\<And>st. st \<in> ism_next WAN_STATE_STANDBY \<Longrightarrow> Q st"
  shows "vk sane q w (leave_standby b e c q w) Q"
  unfolding leave_standby_def
proof (rule vk_virtif [OF assms(1)], rule sn.vk_bind_post [where P = Q, OF assms(1)])
  fix v
  show "vk sane q w
      (if IP_Ipv6Status (VI_IP v) = WAN_IFACE_IPV6_STATE_UP
       then do {
         (_, w) \<leftarrow> (if IP_Ipv6Changed (VI_IP v)
                    then do {
                      (_, w) \<leftarrow> setUpLanPrefixIPv6 e q w;
                      modify_virtif q (upd_IP (\<lambda>i. i\<lparr>IP_Ipv6Changed := False\<rparr>)) w
                    }
                    else Some ((), w));
         (ready, w) \<leftarrow> checkIpv6LanAddressIsReadyToUse e q w;
         if ready then wan_transition_ipv6_up b e c w else Some (WAN_STATE_STANDBY, w)
       }
       else Some (WAN_STATE_STANDBY, w)) Q"
    using assms by - (rule vif_rules | assumption | simp)+
  show "vk sane q w' (if IP_Ipv4Status (VI_IP v) = WAN_IFACE_IPV4_STATE_UP then wan_transition_ipv4_up b e c w'
      else Some (ret, w')) Q" if "good c q w'" "Q ret" for ret w'
    using assms(2,3) that by - (rule vif_rules | assumption | simp)+
qed

lemma vk_standby [vif_rules]:
  "\<lbrakk>good c q w; env_ok e; \<And>st. st \<in> ism_next WAN_STATE_STANDBY \<Longrightarrow> Q st\<rbrakk> \<Longrightarrow>
   vk sane q w (wan_state_standby b e c w) Q"
  unfolding wan_state_standby_def
  by (rule vif_rules | assumption | simp)+

lemma vk_leased [vif_rules]:
  "\<lbrakk>good c q w; env_ok e; \<And>st. st \<in> ism_next WAN_STATE_IPV4_LEASED \<Longrightarrow> Q st\<rbrakk> \<Longrightarrow>
   vk sane q w (wan_state_ipv4_leased b e c w) Q"
  "\<lbrakk>good c q w; env_ok e; \<And>st. st \<in> ism_next WAN_STATE_IPV6_LEASED \<Longrightarrow> Q st\<rbrakk> \<Longrightarrow>
   vk sane q w (wan_state_ipv6_leased b e c w) Q"
  "\<lbrakk>good c q w; env_ok e; \<And>st. st \<in> ism_next WAN_STATE_DUAL_STACK_ACTIVE \<Longrightarrow> Q st\<rbrakk> \<Longrightarrow>
   vk sane q w (wan_state_dual_stack_active b e c w) Q"
  unfolding wan_state_ipv4_leased_def wan_state_ipv6_leased_def ipv4_leased_body_def ipv6_leased_body_def
    wan_state_dual_stack_active_def
  by (rule vif_rules | assumption | simp)+

lemma vk_ending [vif_rules]:
  "\<lbrakk>good c q w; env_ok e; \<And>st. st \<in> ism_next WAN_STATE_REFRESHING_WAN \<Longrightarrow> Q st\<rbrakk> \<Longrightarrow>
   vk sane q w (wan_state_refreshing_wan b e c w) Q"
  "\<lbrakk>good c q w; env_ok e; \<And>st. st \<in> ism_next WAN_STATE_DECONFIGURING_WAN \<Longrightarrow> Q st\<rbrakk> \<Longrightarrow>
   vk sane q w (wan_state_deconfiguring_wan b e c w) Q"
  "\<lbrakk>good c q w; Q WAN_STATE_EXIT\<rbrakk> \<Longrightarrow> vk sane q w (wan_state_exit c w) Q"
  unfolding wan_state_refreshing_wan_def wan_state_deconfiguring_wan_def wan_state_exit_def
  by (rule vif_rules | assumption | simp add: sane_def upd_defs)+

lemma vk_state [vif_rules]:
  assumes "good c q w" "env_ok e"
  shows "vk sane q w (ism_state b e st c w) (\<lambda>st'. st' \<in> ism_next st)"
  using assms by (cases st; simp only: ism_state.simps) (rule vif_rules | assumption | simp)+

subsection \<open>A pass\<close>

lemma vk_step [vif_rules]:
  assumes "good c q w" "env_ok e"
  shows "vk sane q w (ISM_step b e s c w) (\<lambda>s'. ISM_ctrl s' = c\<lparr>SC_eCurrentState := ISM_state s\<rparr> \<and>
    ISM_state s' \<in> ism_next (ISM_state s) \<and> ISM_running s' = (\<not> ism_ends (ISM_state s)))"
  unfolding ISM_step_def
proof (rule sn.vk_bind [OF assms(1) sn.vk_messages [OF assms]])
  fix w'
  let ?c = "c\<lparr>SC_eCurrentState := ISM_state s\<rparr>"
  assume "good c q w'"
  then have g: "good ?c q w'" by simp
  show "vk sane q w'
      (let c = ?c
       in do {
         (_, w) \<leftarrow> sm_deref (\<lambda>d q v. modify_virtif q (\<lambda>v. v\<lparr>VI_eCurrentState := ISM_state s\<rparr>)) c w';
         (st, w) \<leftarrow> ism_state b e (ISM_state s) c w;
         Some (\<lparr>ISM_ctrl = c, ISM_state = st, ISM_running = \<not> ism_ends (ISM_state s)\<rparr>, w)
       }) (\<lambda>s'. ISM_ctrl s' = ?c \<and> ISM_state s' \<in> ism_next (ISM_state s) \<and>
          ISM_running s' = (\<not> ism_ends (ISM_state s)))"
    unfolding Let_def
  proof (rule sn.vk_bind [OF g])
    show "vk sane q w' (sm_deref (\<lambda>d q v. modify_virtif q (\<lambda>v. v\<lparr>VI_eCurrentState := ISM_state s\<rparr>)) ?c w') (\<lambda>_. True)"
      using g by - (rule vif_rules | assumption | simp add: sane_def)+
    show "vk sane q w'' (do {
         (st, w) \<leftarrow> ism_state b e (ISM_state s) ?c w'';
         Some (\<lparr>ISM_ctrl = ?c, ISM_state = st, ISM_running = \<not> ism_ends (ISM_state s)\<rparr>, w)
       }) (\<lambda>s'. ISM_ctrl s' = ?c \<and> ISM_state s' \<in> ism_next (ISM_state s) \<and>
          ISM_running s' = (\<not> ism_ends (ISM_state s)))" if g': "good ?c q w''" for w''
      by (rule sn.vk_bind_post [OF g' vk_state [OF g' assms(2)]]) (rule sn.vk_return, simp_all)
  qed
qed

end
