(* ===== verification/WanMachineThread.thy ===== *)
theory WanMachineThread
  imports WanMachine
begin

text \<open>
  The thread of an interface state machine: its invariant, what it relies on, a pass under the rules, and the
  measure that every pass lowers once the machine is told to stop and its links are down.
\<close>

subsection \<open>The thread\<close>

text \<open>The machine's place in the data base, and the indices with which its controller finds it.\<close>

definition machine_at :: "vptr \<Rightarrow> world \<Rightarrow> bool" where
  "machine_at q w \<longleftrightarrow> fst q < unat (total_ifaces w) \<and> report_fits w \<and> (\<exists>v. virtif_at q w = Some v \<and> vif_fits v)"

definition points_to :: "sm_ctrl \<Rightarrow> vptr \<Rightarrow> bool" where
  "points_to c q \<longleftrightarrow> idx_uint (SC_interfaceIdx c) = of_nat (fst q) \<and> idx_uint (SC_VirIfIdx c) = of_nat (snd q)"

definition ISM_inv :: "vptr \<Rightarrow> ISM \<Rightarrow> world \<Rightarrow> bool" where
  "ISM_inv q s w \<longleftrightarrow> points_to (ISM_ctrl s) q \<and> machine_at q w"

text \<open>The others neither remove the virtual interface nor give it or another one an overlong name.\<close>

definition ISM_rely :: "vptr \<Rightarrow> world \<Rightarrow> world \<Rightarrow> bool" where
  "ISM_rely q w w' \<longleftrightarrow> interference w w' \<and> (machine_at q w \<longrightarrow> machine_at q w')"

lemma good_iff: "good c q w \<longleftrightarrow> wf_db w \<and> machine_at q w \<and> points_to c q \<and> SC_pIfaceData c = Some (fst q)"
  by (auto simp: good_def machine_at_def points_to_def)

lemma goodI: "\<lbrakk>wf_db w; machine_at q w; points_to c q\<rbrakk> \<Longrightarrow> good (c\<lparr>SC_pIfaceData := Some (fst q)\<rparr>) q w"
  by (simp add: good_iff points_to_def)

lemma machine_mlock [simp]: "machine_at q (mlock w) = machine_at q w"
  by (simp only: machine_at_def report_fits_def virtif_at_vget mlock_reads)

lemma vk_machine_at:
  assumes "vk sane q w m R" "good c q w" "m = Some (r, w')"
  shows "machine_at q w'"
proof -
  from assms(1,3) have "keeps w w'" "vif_step sane q w w'" by (auto elim: vkE)
  from good_step [OF assms(2) this] show ?thesis by (simp add: good_iff)
qed

lemma vk_locked:
  assumes "wf_db w" "vk chg q (mlock w) m R"
  shows "vk chg q w (map_option (apsnd pthread_mutex_unlock) m) R"
proof -
  from assms(2) obtain r w' where m: "m = Some (r, w')" "keeps (mlock w) w'" "vif_step chg q (mlock w) w'" "R r"
    by (rule vkE)
  then have "keeps w (pthread_mutex_unlock w')" using wf_db_mutex [OF assms(1)] by (blast intro: keeps_unlock)
  with m show ?thesis by (simp add: vk_def ok_def)
qed

lemma points_to_valid:
  assumes "wf_db w" "machine_at q w" "points_to c q"
  shows "valid_iface (idx_uint (SC_interfaceIdx c)) w" "unat (idx_uint (SC_interfaceIdx c)) = fst q"
    "idx_uint (SC_interfaceIdx c) < total_ifaces w"
proof -
  from assms(2,3) have q: "fst q < unat (total_ifaces w)" "idx_uint (SC_interfaceIdx c) = of_nat (fst q)"
    by (simp_all add: machine_at_def points_to_def)
  from index_bound [OF q(1)] q(2) show "unat (idx_uint (SC_interfaceIdx c)) = fst q"
    and "idx_uint (SC_interfaceIdx c) < total_ifaces w" by simp_all
  with wf_db_valid_iface [OF assms(1)] show "valid_iface (idx_uint (SC_interfaceIdx c)) w" by simp
qed

text \<open>Reading the configuration changes neither table.\<close>

lemma read_config_frame:
  assumes "ISM_read_config c w = (c', w')"
  shows "tabs w' = tabs w" "points_to c' q = points_to c q" "SC_pIfaceData c' = SC_pIfaceData c"
proof -
  have "tabs (snd (ISM_read_config c w)) = tabs w"
    unfolding ISM_read_config_def by (rule tabs_with_config) (simp add: tab_simps)
  with assms show "tabs w' = tabs w" by simp
  from assms show "points_to c' q = points_to c q" "SC_pIfaceData c' = SC_pIfaceData c"
    by (auto simp: ISM_read_config_def with_config_def points_to_def split: prod.splits bool.splits)
qed

text \<open>The part of a pass that works on the interface, when it is reached.\<close>

lemma ISM_pass_steps:
  assumes wf: "wf_db w" and inv: "ISM_inv q s w" and run: "ISM_running s" "select_ok e"
  obtains c w1 where "tabs w1 = tabs w" "good c q (mlock w1)" "SC_WanEnable c = Cfg_Enable (config w)"
    "ISM_pass b e s w = map_option (apsnd pthread_mutex_unlock) (ISM_step b e s c (mlock w1))"
proof -
  let ?c = "(ISM_ctrl s)\<lparr>SC_pIfaceData := None\<rparr>"
  obtain c w1 where rd: "ISM_read_config ?c w = (c, w1)" by fastforce
  note fr = read_config_frame [OF rd]
  from inv have at: "machine_at q w" and "points_to ?c q" by (simp_all add: ISM_inv_def points_to_def)
  then have c: "points_to c q" by (simp only: fr(2))
  from inv have "good ((ISM_ctrl s)\<lparr>SC_pIfaceData := Some (fst q)\<rparr>) q w" by (simp add: ISM_inv_def goodI wf)
  from good_tabs(1) [OF this fr(1)] have w1: "wf_db w1" "machine_at q w1" by (simp_all add: good_iff)
  note valid = points_to_valid [OF w1 c]
  let ?c2 = "c\<lparr>SC_pIfaceData := Some (fst q)\<rparr>"
  from wf_db_mutex [OF w1(1)] valid(1,2)
  have get: "WanMgr_GetIfaceData_locked (idx_uint (SC_interfaceIdx c)) w1 = (Some (fst q), mlock w1)"
    by (auto simp: WanMgr_GetIfaceData_locked_def pthread_mutex_lock_def valid_iface_def)
  have "ISM_pass b e s w = map_option (apsnd pthread_mutex_unlock) (ISM_step b e s ?c2 (mlock w1))"
    using run by (cases "ISM_step b e s ?c2 (mlock w1)") (auto simp: ISM_pass_def rd get release_defs)
  moreover have "good ?c2 q (mlock w1)" using w1 c by (intro goodI) simp_all
  moreover have "SC_WanEnable ?c2 = Cfg_Enable (config w)"
    using rd wf by (auto simp: ISM_read_config_def)
  ultimately show thesis using fr(1) that by blast
qed

text \<open>A pass: a step of the diagram, a pause of the loop, or nothing once the machine has ended.\<close>

definition ism_moves :: "env \<Rightarrow> ISM \<Rightarrow> ISM \<Rightarrow> bool" where
  "ism_moves e s s' \<longleftrightarrow>
     (if ISM_running s \<and> select_ok e
      then ISM_state s' \<in> ism_next (ISM_state s) \<and> ISM_running s' = (\<not> ism_ends (ISM_state s))
      else ISM_state s' = ISM_state s \<and> ISM_running s' = ISM_running s)"

lemma vk_pass:
  assumes wf: "wf_db w" and inv: "ISM_inv q s w" and env: "env_ok e"
  shows "vk sane q w (ISM_pass b e s w) (\<lambda>s'. points_to (ISM_ctrl s') q \<and> ism_moves e s s')"
proof (cases "ISM_running s \<and> select_ok e")
  case True
  then have run: "ISM_running s" "select_ok e" by simp_all
  from ISM_pass_steps [OF wf inv run] obtain c w1 where c: "tabs w1 = tabs w" "good c q (mlock w1)"
    "ISM_pass b e s w = map_option (apsnd pthread_mutex_unlock) (ISM_step b e s c (mlock w1))" by blast
  have w1: "wf_db w1" using wf by (simp only: tabs_reads(8) [OF c(1)])
  from vk_locked [OF w1 vk_step [OF c(2) env]] have "vk sane q w1 (ISM_pass b e s w)
    (\<lambda>s'. ISM_ctrl s' = c\<lparr>SC_eCurrentState := ISM_state s\<rparr> \<and>
      ISM_state s' \<in> ism_next (ISM_state s) \<and> ISM_running s' = (\<not> ism_ends (ISM_state s)))" by (simp only: c(3))
  then have v: "vk sane q w1 (ISM_pass b e s w) (\<lambda>s'. points_to (ISM_ctrl s') q \<and> ism_moves e s s')"
    using c(2) True by - (erule vk_post, simp add: ism_moves_def good_iff points_to_def)
  have "good ((ISM_ctrl s)\<lparr>SC_pIfaceData := Some (fst q)\<rparr>) q w" using inv wf by (simp add: ISM_inv_def goodI)
  then show ?thesis using c(1) v by (rule sn.vk_rebase)
next
  case False
  let ?s = "if ISM_running s then s\<lparr>ISM_ctrl := (ISM_ctrl s)\<lparr>SC_pIfaceData := None\<rparr>\<rparr> else s"
  from False have p: "ISM_pass b e s w = Some (?s, w)" by (simp add: ISM_pass_def)
  have "points_to (ISM_ctrl ?s) q \<and> ism_moves e s ?s" using inv False by (simp add: ism_moves_def points_to_def ISM_inv_def)
  moreover have "good ((ISM_ctrl s)\<lparr>SC_pIfaceData := Some (fst q)\<rparr>) q w" using inv wf by (simp add: ISM_inv_def goodI)
  ultimately show ?thesis unfolding p by (intro sn.vk_return) simp_all
qed

lemma ISM_pass_inv:
  assumes "wf_db w" "ISM_inv q s w" "env_ok e"
  shows "ok w (ISM_pass b e s w) (ISM_inv q)"
proof -
  from vk_pass [OF assms, of b] obtain s' w' where p: "ISM_pass b e s w = Some (s', w')" "keeps w w'"
    "vif_step sane q w w'" "points_to (ISM_ctrl s') q" by (auto elim: vkE)
  from assms have "good ((ISM_ctrl s)\<lparr>SC_pIfaceData := Some (fst q)\<rparr>) q w" by (simp add: ISM_inv_def goodI)
  from good_step [OF this p(2,3)] p show ?thesis by (simp add: ok_def ISM_inv_def good_iff)
qed

interpretation ism: wan_env_thread "ISM_pass b" "ISM_rely q" "ISM_inv q" env_ok for b q
proof unfold_locales
  fix w s e w'
  show "ok w (ISM_pass b e s w) (ISM_inv q)" if "wf_db w" "ISM_inv q s w" "env_ok e"
    using that by (rule ISM_pass_inv)
  show "interference w w'" if "ISM_rely q w w'" using that by (simp add: ISM_rely_def)
  show "ISM_inv q s w'" if "ISM_inv q s w" "ISM_rely q w w'" using that by (simp add: ISM_inv_def ISM_rely_def)
qed

lemma ISM_start_step:
  assumes wf: "wf_db w" and at: "machine_at q w" and c: "points_to c q" and env: "env_ok e"
  shows "vk sane q w (ISM_start b e c w)
    (\<lambda>s. ISM_ctrl s = c\<lparr>SC_pIfaceData := Some (fst q)\<rparr> \<and> ISM_state s = WAN_STATE_VLAN_CONFIGURING \<and> ISM_running s)"
proof -
  let ?c = "c\<lparr>SC_pIfaceData := Some (fst q)\<rparr>"
  note valid = points_to_valid [OF wf at c]
  have g: "good ?c q (mlock w)" using assms by (intro goodI) simp_all
  have "vk sane q (mlock w) (do {
      (st, w) \<leftarrow> wan_transition_start b e ?c (mlock w);
      Some (\<lparr>ISM_ctrl = ?c, ISM_state = st, ISM_running = True\<rparr>, w)
    }) (\<lambda>s. ISM_ctrl s = ?c \<and> ISM_state s = WAN_STATE_VLAN_CONFIGURING \<and> ISM_running s)"
    by (rule sn.vk_bind_post [OF g vk_transition_start [OF g env, where Q = "\<lambda>st. st = WAN_STATE_VLAN_CONFIGURING"]])
      (rule refl | rule sn.vk_return, simp_all)+
  from vk_locked [OF wf this] show ?thesis
    using valid by (simp add: ISM_start_def with_wf(2) [OF wf] Let_def)
qed

lemma ISM_start_ok:
  assumes wf: "wf_db w" and at: "machine_at q w" and c: "points_to c q" and env: "env_ok e"
  shows "ok w (ISM_start b e c w) (\<lambda>s w'. ISM_inv q s w' \<and> ISM_state s = WAN_STATE_VLAN_CONFIGURING \<and> ISM_running s)"
proof -
  let ?c = "c\<lparr>SC_pIfaceData := Some (fst q)\<rparr>"
  from ISM_start_step [OF assms, of b] obtain s w' where s: "ISM_start b e c w = Some (s, w')" "keeps w w'" "vif_step sane q w w'"
    "ISM_ctrl s = ?c \<and> ISM_state s = WAN_STATE_VLAN_CONFIGURING \<and> ISM_running s" by (rule vkE)
  from good_step [OF goodI [OF wf at c] s(2,3)] s c show ?thesis
    by (simp add: ok_def ISM_inv_def good_iff points_to_def)
qed

subsection \<open>The end of the machine\<close>

text \<open>A machine that is told to stop and whose links are down; it stays so during a pass.\<close>

definition stopping :: "sm_ctrl \<Rightarrow> vptr \<Rightarrow> world \<Rightarrow> bool" where
  "stopping c q w \<longleftrightarrow> (\<exists>d v. iface_at (fst q) w = Some d \<and> virtif_at q w = Some v \<and> must_stop c d v \<and> \<not> links_up v)"

lemma links_kept_links_up: "links_kept v v' \<Longrightarrow> links_up v' = links_up v"
  by (simp add: links_kept_def sane_def links_up_def)

lemma stopping_step:
  assumes "stopping c q w" "vif_step links_kept q w w'"
  shows "stopping c q w'"
proof -
  from assms(1) obtain d v where dv: "iface_at (fst q) w = Some d" "virtif_at q w = Some v" "must_stop c d v" "\<not> links_up v"
    by (auto simp: stopping_def)
  from vif_step_virtif [OF assms(2) dv(2)] obtain v' where v': "virtif_at q w' = Some v'" "links_kept v v'" .
  from vif_step_iface [OF assms(2) dv(1)] obtain vs where "iface_at (fst q) w' = Some (d\<lparr>If_VirtIfList := vs\<rparr>)" .
  moreover have "must_stop c (d\<lparr>If_VirtIfList := vs\<rparr>) v'"
    using dv(3) v'(2) by (simp add: must_stop_def links_kept_def sane_def)
  moreover have "\<not> links_up v'" using dv(4) links_kept_links_up [OF v'(2)] by simp
  ultimately show ?thesis using v'(1) by (auto simp: stopping_def)
qed

lemma stopping_tabs: "stopping c q w \<Longrightarrow> tabs w' = tabs w \<Longrightarrow> stopping c q w'"
  using tabs_reads(6,7) [of w' w] unfolding stopping_def by simp

lemma stopping_lock [simp]: "stopping c q (mlock w) = stopping c q w"
  by (simp only: stopping_def virtif_at_vget iface_at_def mlock_reads)

text \<open>A computation whose result is known, then the rest.\<close>

lemma vk_chain:
  assumes "m = Some (r, w')" "keeps w w'" "vif_step sane q w w'" "vk sane q w' (f r w') R"
  shows "vk sane q w (Option.bind m (\<lambda>(r, w'). f r w')) R"
proof -
  from assms(4) obtain s w'' where f: "f r w' = Some (s, w'')" "keeps w' w''" "vif_step sane q w' w''" "R s" by (rule vkE)
  have "vif_step sane q w w''" using assms(3) f(3) sane_trans by (rule vif_step_comp)
  then show ?thesis using assms(1) f keeps_trans [OF assms(2) f(2)] by (simp add: vk_def ok_def)
qed

lemma links_step_sane: "vif_step links_kept q w w' \<Longrightarrow> vif_step sane q w w'"
  by (erule vif_step_mono) (rule ln.chg_sane)

text \<open>Sequencing while the machine stays told to stop.\<close>

lemma vk_stopping_bind:
  assumes g: "good c q w" and st: "stopping c q w" and m: "vk links_kept q w m (\<lambda>_. True)"
    and f: "\<And>r w'. \<lbrakk>good c q w'; stopping c q w'\<rbrakk> \<Longrightarrow> vk sane q w' (f r w') R"
  shows "vk sane q w (Option.bind m (\<lambda>(r, w'). f r w')) R"
proof -
  from m obtain r w' where m': "m = Some (r, w')" "keeps w w'" "vif_step links_kept q w w'" by (auto elim: vkE)
  from m'(1,2) links_step_sane [OF m'(3)] f [OF good_step [OF g m'(2,3) ln.chg_sane] stopping_step [OF st m'(3)]]
  show ?thesis by (rule vk_chain)
qed

lemma vk_stopping_access:
  assumes "good c q w" "stopping c q w"
    and "\<And>d v. \<lbrakk>virtif_at q w = Some v; must_stop c d v; \<not> links_up v\<rbrakk> \<Longrightarrow> vk chg q w (body d q v w) R"
  shows "vk chg q w (sm_access x body c w) R"
proof (rule vk_access(1) [OF assms(1)])
  fix i v
  assume "iface_at (fst q) w = Some i" and v: "virtif_at q w = Some v"
  with assms(2) have "must_stop c i v" "\<not> links_up v" by (auto simp: stopping_def)
  with v show "vk chg q w (body i q v w) R" by (rule assms(3))
qed

text \<open>The flags of a reset decide where the loss of the physical interface leads.\<close>

definition no_reset :: "DML_VIRTUAL_IFACE \<Rightarrow> bool" where
  "no_reset v \<longleftrightarrow> \<not> VI_Reset v \<and> \<not> VLAN_Reset (VI_VLAN v) \<and> \<not> VLAN_Expired (VI_VLAN v)"

text \<open>A piece of the transition that keeps the flags, then the rest.\<close>

lemma vk_no_reset_bind:
  assumes g: "good c q w" and v: "virtif_at q w = Some v" "no_reset v" and m: "vk links_kept q w m (\<lambda>_. True)"
    and f: "\<And>r w' v. \<lbrakk>good c q w'; virtif_at q w' = Some v; no_reset v\<rbrakk> \<Longrightarrow> vk sane q w' (f r w') R"
  shows "vk sane q w (Option.bind m (\<lambda>(r, w'). f r w')) R"
proof -
  from m obtain r w' where m': "m = Some (r, w')" "keeps w w'" "vif_step links_kept q w w'" by (auto elim: vkE)
  from vif_step_virtif [OF m'(3) v(1)] obtain v' where v': "virtif_at q w' = Some v'" "links_kept v v'" .
  with v(2) have "no_reset v'" by (simp add: links_kept_def no_reset_def)
  from m'(1,2) links_step_sane [OF m'(3)] f [OF good_step [OF g m'(2,3) ln.chg_sane] v'(1) \<open>no_reset v'\<close>]
  show ?thesis by (rule vk_chain)
qed

lemma vk_physical_down_ends:
  assumes g: "good c q w" and env: "env_ok e" and v: "virtif_at q w = Some v" "no_reset v"
  shows "vk sane q w (wan_transition_physical_interface_down b e c w) (\<lambda>st. st = WAN_STATE_DECONFIGURING_WAN)"
  unfolding wan_transition_physical_interface_down_def
proof (rule vk_access(1) [OF g], rule vk_no_reset_bind [OF g v ln.vk_lose_addresses [OF g env]])
  fix d r w' v
  assume g: "good c q w'" and v: "virtif_at q w' = Some v" "no_reset v"
  from v(2) have "(if VI_Reset v \<or> VLAN_Reset (VI_VLAN v) \<or> VLAN_Expired (VI_VLAN v) then WAN_STATE_REFRESHING_WAN
      else WAN_STATE_DECONFIGURING_WAN) = WAN_STATE_DECONFIGURING_WAN" by (simp add: no_reset_def)
  with g env v(1) show "vk sane q w' (do {
      v \<leftarrow> virtif_at q w';
      (_, w) \<leftarrow> stop_clients e c q v w';
      (_, w) \<leftarrow> stop_links e q d v w;
      (_, w) \<leftarrow> Update_Interface_Status b e w;
      Some (if VI_Reset v \<or> VLAN_Reset (VI_VLAN v) \<or> VLAN_Expired (VI_VLAN v) then WAN_STATE_REFRESHING_WAN
            else WAN_STATE_DECONFIGURING_WAN, w)
    }) (\<lambda>st. st = WAN_STATE_DECONFIGURING_WAN)"
    unfolding v(1) bind.bind_lunit by - (rule vif_rules | assumption | simp)+
qed

text \<open>How many passes are left at most.\<close>

definition state_left :: "eWanState_t \<Rightarrow> nat" where
  "state_left st = (if ism_ends st then 1 else if st = WAN_STATE_DECONFIGURING_WAN then 2
                    else if st = WAN_STATE_REFRESHING_WAN then 3 else 4)"

definition passes_left :: "ISM \<Rightarrow> nat" where
  "passes_left s = (if ISM_running s then state_left (ISM_state s) else 0)"

lemma state_left_simps [simp]:
  "state_left WAN_STATE_DECONFIGURING_WAN = 2" "state_left WAN_STATE_REFRESHING_WAN = 3" "state_left WAN_STATE_EXIT = 1"
  by (simp_all add: state_left_def ism_ends_def)

lemma vk_stopping_state:
  assumes g: "good c q w" and env: "env_ok e" and st: "stopping c q w"
  shows "vk sane q w (ism_state b e s c w) (\<lambda>s'. \<not> ism_ends s \<longrightarrow> state_left s' \<le> state_left s - 1)"
proof -
  let ?Q = "\<lambda>s'. state_left s' \<le> 3"
  have down: "vk sane q w (wan_transition_physical_interface_down b e c w) ?Q" if "good c q w" for w
    using that env by - (rule vif_rules | assumption | simp)+
  have link: "vk sane q w (link_state b e c go_on w) ?Q" if "good c q w" "stopping c q w" for go_on w
    unfolding link_state_def by (rule vk_stopping_access [OF that]) (simp add: down that)
  have body: "vk sane q w (ipv4_leased_body b e c w) ?Q" "vk sane q w (ipv6_leased_body b e c w) ?Q"
    if "good c q w" "stopping c q w" for w
    unfolding ipv4_leased_body_def ipv6_leased_body_def
    by (rule vk_stopping_access [OF that], simp add: down that lease_stop_def)+
  have early: "vk sane q w (ism_state b e s c w) ?Q" if "s \<notin> {WAN_STATE_REFRESHING_WAN, WAN_STATE_DECONFIGURING_WAN,
      WAN_STATE_EXIT, WAN_STATE_MAPT_ACTIVE}"
  proof -
    have start: "vk links_kept q w (if P then WanManager_StartDhcpv6Client e q ty w else Some ((), w)) (\<lambda>_. True)"
      "vk links_kept q w (if P then WanManager_StartDhcpv4Client e q nm ty w else Some ((), w)) (\<lambda>_. True)" for P ty nm
      using g env by - (rule vif_rules | assumption | simp)+
    have monitor: "vk sane q w (do {(_, w) \<leftarrow> WanMgr_MonitorDhcpApps b e c w; f w}) ?Q"
      if "good c q w" "stopping c q w" "\<And>w. good c q w \<Longrightarrow> stopping c q w \<Longrightarrow> vk sane q w (f w) ?Q" for f w
      using that by (intro vk_stopping_bind [OF that(1,2) ln.vk_MonitorDhcpApps [OF that(1) env]])
    have leased: "vk sane q w (wan_state_ipv4_leased b e c w) ?Q" "vk sane q w (wan_state_ipv6_leased b e c w) ?Q"
      unfolding wan_state_ipv4_leased_def wan_state_ipv6_leased_def
      by (rule vk_access(1) [OF g], rule vk_stopping_bind [OF g st], rule start, rule monitor, assumption+, rule body, assumption+)+
    have others: "vk sane q w (wan_state_standby b e c w) ?Q" "vk sane q w (wan_state_dual_stack_active b e c w) ?Q"
      unfolding wan_state_standby_def wan_state_dual_stack_active_def
      by (rule vk_stopping_access [OF g st], simp add: down g lease_stop_def)+
    have obtaining: "vk sane q w (wan_state_obtaining_ip_addresses b e c w) ?Q"
      unfolding wan_state_obtaining_ip_addresses_def
      by (rule vk_stopping_access [OF g st], simp, rule sn.vk_bind [OF g vk_small(2) [OF g]], rule down)
    show ?thesis
      using that
    proof (cases s)
      case WAN_STATE_VLAN_CONFIGURING
      show ?thesis unfolding WAN_STATE_VLAN_CONFIGURING ism_state.simps wan_state_vlan_configuring_def by (rule link [OF g st])
    next
      case WAN_STATE_PPP_CONFIGURING
      show ?thesis unfolding WAN_STATE_PPP_CONFIGURING ism_state.simps wan_state_ppp_configuring_def by (rule link [OF g st])
    next
      case WAN_STATE_VALIDATING_WAN
      show ?thesis unfolding WAN_STATE_VALIDATING_WAN ism_state.simps wan_state_validating_wan_def by (rule link [OF g st])
    qed (simp_all only: ism_state.simps leased others obtaining insert_iff simp_thms)
  qed
  show ?thesis
  proof (cases "s \<in> {WAN_STATE_REFRESHING_WAN, WAN_STATE_DECONFIGURING_WAN, WAN_STATE_EXIT, WAN_STATE_MAPT_ACTIVE}")
    case False
    then have "state_left s = 4" "\<not> ism_ends s" by (simp_all add: state_left_def ism_ends_def)
    with early [OF False] show ?thesis by simp
  next
    case True
    then consider "s = WAN_STATE_REFRESHING_WAN" | "s = WAN_STATE_DECONFIGURING_WAN" | "ism_ends s"
      by (auto simp: ism_ends_def)
    then show ?thesis
    proof cases
      case 1
      let ?f = "\<lambda>v. (upd_VLAN (\<lambda>l. l\<lparr>VLAN_Reset := False, VLAN_Expired := False\<rparr>) v)\<lparr>VI_Reset := False\<rparr>"
      show ?thesis unfolding 1 ism_state.simps wan_state_refreshing_wan_def
      proof (rule vk_stopping_access [OF g st])
        fix d v
        assume v: "virtif_at q w = Some v" and stop: "must_stop c d v"
        have "vk sane q w (modify_virtif q ?f w) (\<lambda>_. True)"
          by (rule sn.vk_modify [OF g refl]) (simp add: sane_def upd_defs)
        then obtain r w' where m: "modify_virtif q ?f w = Some (r, w')" "keeps w w'" "vif_step sane q w w'"
          by (auto elim: vkE)
        have "virtif_at q w' = Some (?f v)"
          using m(1) v by (auto simp: modify_virtif_def virtif_at_vget pIface_upd_virtif vget_vput)
        moreover have "no_reset (?f v)" by (simp add: no_reset_def upd_defs)
        moreover have "good c q w'" using good_step [OF g m(2,3)] .
        ultimately have "vk sane q w' (wan_transition_physical_interface_down b e c w') (\<lambda>st. st = WAN_STATE_DECONFIGURING_WAN)"
          by (intro vk_physical_down_ends [OF _ env])
        then have "vk sane q w (do {(_, w) \<leftarrow> modify_virtif q ?f w; wan_transition_physical_interface_down b e c w})
            (\<lambda>st. st = WAN_STATE_DECONFIGURING_WAN)"
          using m by (intro vk_chain [OF m(1,2,3)])
        with stop show "vk sane q w
            (if must_stop c d v
             then do {(_, w) \<leftarrow> modify_virtif q ?f w; wan_transition_physical_interface_down b e c w}
             else if links_up v then Some (WAN_STATE_REFRESHING_WAN, w) else wan_transition_wan_refreshed e c w)
            (\<lambda>s'. \<not> ism_ends WAN_STATE_REFRESHING_WAN \<longrightarrow> state_left s' \<le> state_left WAN_STATE_REFRESHING_WAN - 1)"
          by (simp) (erule vk_post, simp)
      qed
    next
      case 2
      show ?thesis unfolding 2 ism_state.simps wan_state_deconfiguring_wan_def
        by (rule vk_stopping_access [OF g st]) (use g env in \<open>simp, (rule vif_rules | assumption | simp)+\<close>)
    next
      case 3
      with vk_state [OF g env, of b s] show ?thesis by - (erule vk_post, simp)
    qed
  qed
qed

lemma stopping_cong: "SC_WanEnable c' = SC_WanEnable c \<Longrightarrow> stopping c' q w = stopping c q w"
  by (simp add: stopping_def must_stop_def)

lemma vk_stopping_step:
  assumes g: "good c q w" and env: "env_ok e" and st: "stopping c q w" and run: "ISM_running s"
  shows "vk sane q w (ISM_step b e s c w) (\<lambda>s'. passes_left s' \<le> passes_left s - 1)"
  unfolding ISM_step_def
proof (rule vk_stopping_bind [OF g st ln.vk_messages [OF g env]])
  fix w'
  let ?c = "c\<lparr>SC_eCurrentState := ISM_state s\<rparr>"
  assume g': "good c q w'" and st': "stopping c q w'"
  then have g1: "good ?c q w'" and st1: "stopping ?c q w'" by (simp_all add: stopping_def must_stop_def)
  have "vk links_kept q w' (sm_deref (\<lambda>d q v. modify_virtif q (\<lambda>v. v\<lparr>VI_eCurrentState := ISM_state s\<rparr>)) ?c w') (\<lambda>_. True)"
    using g1 by - (rule vif_rules | assumption | simp add: links_kept_def sane_def)+
  then show "vk sane q w'
      (let c = ?c
       in do {
         (_, w) \<leftarrow> sm_deref (\<lambda>d q v. modify_virtif q (\<lambda>v. v\<lparr>VI_eCurrentState := ISM_state s\<rparr>)) c w';
         (st, w) \<leftarrow> ism_state b e (ISM_state s) c w;
         Some (\<lparr>ISM_ctrl = c, ISM_state = st, ISM_running = \<not> ism_ends (ISM_state s)\<rparr>, w)
       }) (\<lambda>s'. passes_left s' \<le> passes_left s - 1)"
    unfolding Let_def
  proof (rule vk_stopping_bind [OF g1 st1])
    fix w''
    assume g2: "good ?c q w''" and st2: "stopping ?c q w''"
    show "vk sane q w'' (do {
         (st, w) \<leftarrow> ism_state b e (ISM_state s) ?c w'';
         Some (\<lparr>ISM_ctrl = ?c, ISM_state = st, ISM_running = \<not> ism_ends (ISM_state s)\<rparr>, w)
       }) (\<lambda>s'. passes_left s' \<le> passes_left s - 1)"
      by (rule sn.vk_bind_post [OF g2 vk_stopping_state [OF g2 env st2]])
        (rule sn.vk_return, simp_all add: passes_left_def run)
  qed
qed

definition ISM_calm :: "vptr \<Rightarrow> env \<Rightarrow> world \<Rightarrow> bool" where
  "ISM_calm q e w \<longleftrightarrow> select_ok e \<and>
     stopping ((WanMgr_IfaceSM_Init 0 0)\<lparr>SC_WanEnable := Cfg_Enable (config w)\<rparr>) q w"

lemma ISM_pass_left:
  assumes wf: "wf_db w" and inv: "ISM_inv q s w" and env: "env_ok e" and calm: "ISM_calm q e w"
  shows "\<exists>s' w'. ISM_pass b e s w = Some (s', w') \<and> passes_left s' \<le> passes_left s - 1"
proof (cases "ISM_running s")
  case True
  from calm have "select_ok e" by (simp add: ISM_calm_def)
  from ISM_pass_steps [OF wf inv True this] obtain c w1 where c: "tabs w1 = tabs w" "good c q (mlock w1)"
    "SC_WanEnable c = Cfg_Enable (config w)"
    "ISM_pass b e s w = map_option (apsnd pthread_mutex_unlock) (ISM_step b e s c (mlock w1))" by blast
  have "stopping c q w = stopping ((WanMgr_IfaceSM_Init 0 0)\<lparr>SC_WanEnable := Cfg_Enable (config w)\<rparr>) q w"
    by (rule stopping_cong) (simp add: c(3))
  with calm have "stopping c q w" by (simp add: ISM_calm_def)
  with c(1) have "stopping c q (mlock w1)" by (simp only: stopping_lock) (rule stopping_tabs)
  from vk_stopping_step [OF c(2) env this True] obtain s' w' where "ISM_step b e s c (mlock w1) = Some (s', w')"
    "passes_left s' \<le> passes_left s - 1" by (rule vkE)
  with c(4) show ?thesis by simp
qed (simp add: ISM_pass_def passes_left_def)

end
