(* ===== verification/WanMachineLoss.thy ===== *)
theory WanMachineLoss
  imports WanMachineThread
begin

text \<open>
  What the loss of the physical interface leaves of its virtual interface.  The transition is followed piece by
  piece, each piece under the effect that fits it: \<open>keep_down\<close> (no address comes up), \<open>keep_stopped\<close> (no client
  is started either), \<open>keep_ip\<close> (the IP part does not change).
\<close>

definition v4_up :: "DML_VIRTUAL_IFACE \<Rightarrow> bool" where
  "v4_up v \<longleftrightarrow> IP_Ipv4Status (VI_IP v) = WAN_IFACE_IPV4_STATE_UP"

definition v6_up :: "DML_VIRTUAL_IFACE \<Rightarrow> bool" where
  "v6_up v \<longleftrightarrow> IP_Ipv6Status (VI_IP v) = WAN_IFACE_IPV6_STATE_UP"

definition c4_runs :: "DML_VIRTUAL_IFACE \<Rightarrow> bool" where
  "c4_runs v \<longleftrightarrow> IP_Dhcp4cStatus (VI_IP v) = DHCPC_STARTED"

definition c6_runs :: "DML_VIRTUAL_IFACE \<Rightarrow> bool" where
  "c6_runs v \<longleftrightarrow> IP_Dhcp6cStatus (VI_IP v) = DHCPC_STARTED"

lemmas runs_defs = v4_up_def v6_up_def c4_runs_def c6_runs_def

definition keep_down :: "DML_VIRTUAL_IFACE \<Rightarrow> DML_VIRTUAL_IFACE \<Rightarrow> bool" where
  "keep_down u v \<longleftrightarrow> sane u v \<and> (v4_up v \<longrightarrow> v4_up u) \<and> (v6_up v \<longrightarrow> v6_up u)"

definition keep_stopped :: "DML_VIRTUAL_IFACE \<Rightarrow> DML_VIRTUAL_IFACE \<Rightarrow> bool" where
  "keep_stopped u v \<longleftrightarrow> keep_down u v \<and> (c4_runs v \<longrightarrow> c4_runs u) \<and> (c6_runs v \<longrightarrow> c6_runs u) \<and>
     IP_SelectedModeTimerStatus (VI_IP v) = IP_SelectedModeTimerStatus (VI_IP u)"

definition keep_ip :: "DML_VIRTUAL_IFACE \<Rightarrow> DML_VIRTUAL_IFACE \<Rightarrow> bool" where
  "keep_ip u v \<longleftrightarrow> sane u v \<and> VI_IP v = VI_IP u"

lemma keep_trans:
  "keep_down u v \<Longrightarrow> keep_down v x \<Longrightarrow> keep_down u x"
  "keep_stopped u v \<Longrightarrow> keep_stopped v x \<Longrightarrow> keep_stopped u x"
  "keep_ip u v \<Longrightarrow> keep_ip v x \<Longrightarrow> keep_ip u x"
  using sane_trans [of u v x] by (simp_all add: keep_down_def keep_stopped_def keep_ip_def)

lemma keep_sane: "keep_down u v \<Longrightarrow> sane u v" "keep_stopped u v \<Longrightarrow> sane u v" "keep_ip u v \<Longrightarrow> sane u v"
  by (simp_all add: keep_down_def keep_stopped_def keep_ip_def)

lemma keep_refl: "keep_down v v" "keep_stopped v v" "keep_ip v v"
  by (simp_all add: keep_down_def keep_stopped_def keep_ip_def sane_refl)

interpretation kd: vif_clients keep_down
  by unfold_locales
    (erule keep_sane keep_trans keep_refl | assumption | simp add: keep_refl | simp add: keep_down_def sane_def upd_defs runs_defs)+

interpretation ks: vif_checks keep_stopped
  by unfold_locales
    (erule keep_sane keep_trans | assumption | simp add: keep_refl | simp add: keep_stopped_def keep_down_def sane_def upd_defs runs_defs)+

interpretation ki: vif_links keep_ip
  by unfold_locales (erule keep_sane keep_trans | assumption | simp add: keep_refl | simp add: keep_ip_def sane_def upd_defs)+

lemma keep_down_upd [vif_rules]:
  "keep_down v (set_VI_Status st v)" "keep_down v (connection_down v)" "keep_down v (connection_ipv6_down v)"
  by (simp_all add: keep_down_def sane_def upd_defs runs_defs connection_down_def connection_ipv6_down_def)

subsection \<open>Sequencing\<close>

text \<open>The second piece knows what the first one did to the virtual interface.\<close>

lemma vk_seq_at:
  assumes g: "good c q w" and v: "virtif_at q w = Some v" and m: "vk first q w m (\<lambda>_. True)"
    and sane: "\<And>u v. first u v \<Longrightarrow> sane u v"
    and f: "\<And>r w' v'. \<lbrakk>good c q w'; virtif_at q w' = Some v'; first v v'\<rbrakk> \<Longrightarrow> vk (\<lambda>_. whole v) q w' (f r w') R"
  shows "vk whole q w (Option.bind m (\<lambda>(r, w'). f r w')) R"
proof -
  from m obtain r w' where m': "m = Some (r, w')" "keeps w w'" "vif_step first q w w'" by (auto elim: vkE)
  from vif_step_virtif [OF m'(3) v] obtain v' where v': "virtif_at q w' = Some v'" "first v v'" "pIface w' = vput q v' (pIface w)" .
  from f [OF good_step [OF g m'(2,3) sane] v'(1,2)] obtain s w'' where f': "f r w' = Some (s, w'')" "keeps w' w''"
    "vif_step (\<lambda>_. whole v) q w' w''" "R s" by (rule vkE)
  from vif_step_virtif [OF f'(3) v'(1)] obtain v'' where v'': "whole v v''" "pIface w'' = vput q v'' (pIface w')" .
  then have "pIface w'' = vput q v'' (pIface w)" by (simp add: v'(3) vput_vput)
  moreover have "Groups w'' = Groups w" "fixed_part w'' = fixed_part w" using m'(3) f'(3) by (simp_all add: vif_step_def)
  ultimately have "vif_step whole q w w''" using v v''(1) by (intro vif_stepI)
  then show ?thesis using m'(1) f'(1,4) keeps_trans [OF m'(2) f'(2)] by (simp add: vk_def ok_def)
qed

lemma vk_here:
  assumes g: "good c q w" and v: "virtif_at q w = Some v" and "chg v v" "R r"
  shows "vk chg q w (Some (r, w)) R"
proof -
  have "pIface w = vput q v (pIface w)" using v by (simp add: virtif_at_vget vput_same)
  with v assms(3) have "vif_step chg q w w" by (intro vif_stepI) simp_all
  with good_wf [OF g] assms(4) show ?thesis by (simp add: vk_def ok_def keeps_refl)
qed

text \<open>An effect that is judged at the virtual interface the computation starts with.\<close>

lemma vk_at:
  assumes "vk chg q w m R" "virtif_at q w = Some v" "\<And>x. chg v x \<Longrightarrow> chg' v x"
  shows "vk chg' q w m R"
proof -
  from assms(1) obtain r w' where m: "m = Some (r, w')" "keeps w w'" "vif_step chg q w w'" "R r" by (rule vkE)
  from vif_step_virtif [OF m(3) assms(2)] obtain v' where "chg v v'" "pIface w' = vput q v' (pIface w)" .
  with assms(2,3) m show ?thesis by (auto simp: vk_def ok_def vif_step_def)
qed

text \<open>A call whose result is dropped.\<close>

lemma vk_unit: "vk chg q w m P \<Longrightarrow> vk chg q w (do {(_, w) \<leftarrow> m; Some ((), w)}) (\<lambda>_. True)"
  by (auto simp: vk_def ok_def)

subsection \<open>The addresses\<close>

definition down4 :: "DML_VIRTUAL_IFACE \<Rightarrow> DML_VIRTUAL_IFACE \<Rightarrow> bool" where
  "down4 u v \<longleftrightarrow> keep_down u v \<and> \<not> v4_up v"

definition down6 :: "DML_VIRTUAL_IFACE \<Rightarrow> DML_VIRTUAL_IFACE \<Rightarrow> bool" where
  "down6 u v \<longleftrightarrow> keep_down u v \<and> \<not> v6_up v"

lemma down_seq:
  "keep_down u v \<Longrightarrow> down4 v x \<Longrightarrow> down4 u x" "down4 u v \<Longrightarrow> keep_down v x \<Longrightarrow> down4 u x"
  "keep_down u v \<Longrightarrow> down6 v x \<Longrightarrow> down6 u x" "down6 u v \<Longrightarrow> keep_down v x \<Longrightarrow> down6 u x"
  by (auto simp: down4_def down6_def keep_down_def intro: sane_trans)

lemma down_sane: "down4 u v \<Longrightarrow> sane u v" "down6 u v \<Longrightarrow> sane u v"
  by (simp_all add: down4_def down6_def keep_down_def)

lemma vk_modify_here:
  assumes g: "good c q w" and v: "virtif_at q w = Some v" and chg: "chg v (f v)" and sane: "sane v (f v)"
  shows "vk chg q w (modify_virtif q f w) (\<lambda>_. True)"
proof -
  have m: "modify_virtif q f w = Some ((), upd_virtif q f w)" using v by (simp add: modify_virtif_def)
  have "vk sane q w (Some ((), upd_virtif q f w)) (\<lambda>_. True)"
    by (rule sn.vk_upd [OF g]) (use v sane in simp_all)
  then have "keeps w (upd_virtif q f w)" by (auto elim: vkE)
  from vif_step_upd_virtif [of q w v chg f, OF v chg] vkI [OF m this, of chg q "\<lambda>_. True"] show ?thesis by simp
qed

lemma vk_from_tabs:
  assumes g: "good c q w" and t: "tabs w' = tabs w" and m: "vk chg q w' m R"
  shows "vk chg q w m R"
proof -
  from m obtain r w'' where m': "m = Some (r, w'')" "keeps w' w''" "vif_step chg q w' w''" "R r" by (rule vkE)
  have "vif_step chg q w w''" using m'(3) by (simp only: vif_step_def tabs_reads [OF t])
  with m'(1,4) keeps_trans [OF good_tabs(2) [OF g t] m'(2)] show ?thesis by (simp add: vk_def ok_def)
qed

lemma vk_let_world:
  fixes x :: world
  assumes "good c q w" "tabs x = tabs w" "\<And>w'. good c q w' \<Longrightarrow> vk chg q w' (f w') R"
  shows "vk chg q w (Let x f) R"
  unfolding Let_def by (rule vk_from_tabs [OF assms(1,2) assms(3) [OF good_tabs(1) [OF assms(1,2)]]])

text \<open>One address goes down: pieces before and after keep it down.\<close>

lemma vk_before_down:
  assumes "good c q w" "vk keep_down q w m (\<lambda>_. True)" "\<And>r w'. good c q w' \<Longrightarrow> vk down q w' (f r w') R"
    and "down = down4 \<or> down = down6"
  shows "vk down q w (Option.bind m (\<lambda>(r, w'). f r w')) R"
  using assms(1,2)
proof (rule vk_seq)
  show "sane u v" if "keep_down u v" for u v using that by (rule keep_sane)
  show "vk down q w' (f r w') R" if "good c q w'" for r w' using that by (rule assms(3))
  show "down u x" if "keep_down u v" "down v x" for u v x using assms(4) down_seq that by blast
qed

lemma vk_after_down:
  assumes "good c q w" "vk down q w m (\<lambda>_. True)" "\<And>r w'. good c q w' \<Longrightarrow> vk keep_down q w' (f r w') R"
    and "down = down4 \<or> down = down6"
  shows "vk down q w (Option.bind m (\<lambda>(r, w'). f r w')) R"
  using assms(1,2)
proof (rule vk_seq)
  show "sane u v" if "down u v" for u v using assms(4) down_sane that by blast
  show "vk keep_down q w' (f r w') R" if "good c q w'" for r w' using that by (rule assms(3))
  show "down u x" if "down u v" "keep_down v x" for u v x using assms(4) down_seq that by blast
qed

lemma vk_UpdateInterfaceStatus_down:
  assumes g: "good c q w"
  shows "vk down4 q w (WanManager_UpdateInterfaceStatus q WANMGR_IFACE_CONNECTION_DOWN w) (\<lambda>_. True)"
    and "vk down6 q w (WanManager_UpdateInterfaceStatus q WANMGR_IFACE_CONNECTION_IPV6_DOWN w) (\<lambda>_. True)"
proof -
  from good_virtif [OF g] obtain v where v: "virtif_at q w = Some v" by blast
  have d: "down4 v (connection_down v)" "down6 v (connection_ipv6_down v)"
    by (simp_all add: down4_def down6_def keep_down_def sane_def upd_defs runs_defs connection_down_def connection_ipv6_down_def)
  have m: "vk down4 q w (modify_virtif q connection_down w) (\<lambda>_. True)"
    "vk down6 q w (modify_virtif q connection_ipv6_down w) (\<lambda>_. True)"
    using d down_sane by (auto intro!: vk_modify_here [OF g v])
  show "vk down4 q w (WanManager_UpdateInterfaceStatus q WANMGR_IFACE_CONNECTION_DOWN w) (\<lambda>_. True)"
    unfolding WanManager_UpdateInterfaceStatus_def wanmgr_iface_status_t.case by (rule m)
  show "vk down6 q w (WanManager_UpdateInterfaceStatus q WANMGR_IFACE_CONNECTION_IPV6_DOWN w) (\<lambda>_. True)"
    unfolding WanManager_UpdateInterfaceStatus_def wanmgr_iface_status_t.case
    by (rule vk_after_down [OF g m(2)]) (rule kd.vk_return, assumption, simp_all add: tab_simps)
qed

lemma vk_addresses_down:
  assumes g: "good c q w" and env: "env_ok e"
  shows "vk down4 q w (wan_transition_ipv4_down b e c w) (\<lambda>_. True)"
    and "vk down6 q w (wan_transition_ipv6_down b e c w) (\<lambda>_. True)"
proof -
  show "vk down4 q w (wan_transition_ipv4_down b e c w) (\<lambda>_. True)"
    unfolding wan_transition_ipv4_down_def
    apply (rule vk_access(1) [OF g])
    apply (rule vk_before_down [OF g])
    subgoal using g env by - (rule vif_rules | assumption | simp)+
    subgoal
      apply (rule vk_after_down, assumption, erule vk_UpdateInterfaceStatus_down)
      subgoal using env by - (rule vif_rules | assumption | simp add: tab_simps)+
      subgoal by simp
      done
    subgoal by simp
    done
  show "vk down6 q w (wan_transition_ipv6_down b e c w) (\<lambda>_. True)"
    unfolding wan_transition_ipv6_down_def
    apply (rule vk_access(1) [OF g])
    apply (rule vk_before_down [OF g])
    subgoal using g env by - (rule vif_rules | assumption | simp)+
    subgoal
      apply (rule vk_let_world, assumption, simp add: tab_simps)
      apply (rule vk_after_down, assumption, erule vk_UpdateInterfaceStatus_down)
      subgoal using env by - (rule vif_rules kd.vk_value | assumption | simp add: tab_simps)+
      subgoal by simp
      done
    subgoal by simp
    done
qed

lemma vk_lose_addresses_down:
  assumes g: "good c q w" and env: "env_ok e" and v: "virtif_at q w = Some v"
  shows "vk (\<lambda>u x. keep_down u x \<and> \<not> v4_up x \<and> \<not> v6_up x) q w (lose_addresses b e c v w) (\<lambda>_. True)"
proof -
  have v4: "vk down4 q w (if IP_Ipv4Status (VI_IP v) = WAN_IFACE_IPV4_STATE_UP
      then do { (_, w) \<leftarrow> wan_transition_ipv4_down b e c w; Some ((), w) } else Some ((), w)) (\<lambda>_. True)"
    using vk_unit [OF vk_addresses_down(1) [OF g env]] vk_here [OF g v, of down4 "\<lambda>_. True" "()"]
    by (auto simp: down4_def keep_refl v4_up_def)
  have v6: "vk (\<lambda>_ x. keep_down v x \<and> \<not> v4_up x \<and> \<not> v6_up x) q w'
      (if IP_Ipv6Status (VI_IP v) = WAN_IFACE_IPV6_STATE_UP
       then do { (_, w) \<leftarrow> wan_transition_ipv6_down b e c w'; Some ((), w) } else Some ((), w')) (\<lambda>_. True)"
    if g': "good c q w'" and v': "virtif_at q w' = Some v'" "down4 v v'" for w' v'
  proof -
    have "vk down6 q w' (do { (_, w) \<leftarrow> wan_transition_ipv6_down b e c w'; Some ((), w) }) (\<lambda>_. True)"
      by (rule vk_unit [OF vk_addresses_down(2) [OF g' env]])
    then have "vk (\<lambda>_ x. keep_down v x \<and> \<not> v4_up x \<and> \<not> v6_up x) q w'
        (do { (_, w) \<leftarrow> wan_transition_ipv6_down b e c w'; Some ((), w) }) (\<lambda>_. True)"
      using v'(1) by (rule vk_at) (use v'(2) keep_trans(1) in \<open>auto simp: down4_def down6_def keep_down_def\<close>)
    moreover have "vk (\<lambda>_ x. keep_down v x \<and> \<not> v4_up x \<and> \<not> v6_up x) q w' (Some ((), w')) (\<lambda>_. True)"
      if "IP_Ipv6Status (VI_IP v) \<noteq> WAN_IFACE_IPV6_STATE_UP"
      by (rule vk_here [OF g' v'(1)]) (use v'(2) that in \<open>auto simp: down4_def keep_down_def v6_up_def\<close>)
    ultimately show ?thesis by simp
  qed
  show ?thesis
    unfolding lose_addresses_def by (rule vk_seq_at [OF g v v4 down_sane(1)], assumption, rule v6)
qed

subsection \<open>The clients and the check\<close>

definition stops4 :: "DML_VIRTUAL_IFACE \<Rightarrow> DML_VIRTUAL_IFACE \<Rightarrow> bool" where
  "stops4 u v \<longleftrightarrow> keep_stopped u v \<and> \<not> c4_runs v"

definition stops6 :: "DML_VIRTUAL_IFACE \<Rightarrow> DML_VIRTUAL_IFACE \<Rightarrow> bool" where
  "stops6 u v \<longleftrightarrow> keep_stopped u v \<and> \<not> c6_runs v"

definition stops_check :: "DML_VIRTUAL_IFACE \<Rightarrow> DML_VIRTUAL_IFACE \<Rightarrow> bool" where
  "stops_check u v \<longleftrightarrow> keep_stopped u v \<and> \<not> IP_ConnectivityCheckRunning (VI_IP v)"

definition stops_timer :: "DML_VIRTUAL_IFACE \<Rightarrow> DML_VIRTUAL_IFACE \<Rightarrow> bool" where
  "stops_timer u v \<longleftrightarrow> keep_down u v \<and> c4_runs v = c4_runs u \<and> c6_runs v = c6_runs u \<and>
     IP_SelectedModeTimerStatus (VI_IP v) = NOTSTARTED"

lemma stops_sane: "stops4 u v \<Longrightarrow> sane u v" "stops6 u v \<Longrightarrow> sane u v" "stops_check u v \<Longrightarrow> sane u v" "stops_timer u v \<Longrightarrow> sane u v"
  by (simp_all add: stops4_def stops6_def stops_check_def stops_timer_def keep_sane)

lemma vk_stop_client:
  assumes g: "good c q w"
  shows "vk stops4 q w (WanManager_StopDhcpv4Client e q release w) (\<lambda>_. True)"
    and "vk stops6 q w (WanManager_StopDhcpv6Client e q release w) (\<lambda>_. True)"
proof -
  have ret: "vk chg q w (do {(_, w) \<leftarrow> modify_virtif q f w; Some (r, w)}) (\<lambda>_. True)"
    if "good c q w" "\<And>v. chg v (f v)" "\<And>v. sane v (f v)" for chg f w and r :: ANSC_STATUS
  proof -
    from good_virtif [OF that(1)] obtain v where v: "virtif_at q w = Some v" by blast
    have "vk chg q w (modify_virtif q f w) (\<lambda>_. True)"
      using that(1) v by (rule vk_modify_here) (rule that)+
    then show ?thesis by (auto simp: vk_def ok_def)
  qed
  show "vk stops4 q w (WanManager_StopDhcpv4Client e q release w) (\<lambda>_. True)"
    unfolding WanManager_StopDhcpv4Client_def
    by (rule vk_virtif [OF g], rule vk_let_world [OF g], simp add: tab_simps, unfold Let_def, erule ret)
      (simp_all add: stops4_def keep_stopped_def keep_down_def sane_def upd_defs runs_defs)
  show "vk stops6 q w (WanManager_StopDhcpv6Client e q release w) (\<lambda>_. True)"
    unfolding WanManager_StopDhcpv6Client_def
    by (rule vk_virtif [OF g], rule vk_let_world [OF g], simp add: tab_simps, rule vk_let_world, assumption,
        simp add: tab_simps, unfold Let_def, erule ret)
      (simp_all add: stops6_def keep_stopped_def keep_down_def sane_def upd_defs runs_defs)
qed

lemma vk_stop_check:
  assumes g: "good c q w" and env: "env_ok e"
  shows "vk stops_check q w (WanMgr_StopConnectivityCheck e c w) (\<lambda>_. True)"
  unfolding WanMgr_StopConnectivityCheck_def
proof (rule vk_access(1) [OF g], rule vk_if)
  fix v
  assume "virtif_at q w = Some v" "\<not> IP_ConnectivityCheckRunning (VI_IP v)"
  then show "vk stops_check q w (Some ((), w)) (\<lambda>_. True)"
    by (intro vk_here [OF g]) (simp_all add: stops_check_def keep_refl)
next
  fix v
  show "vk stops_check q w (do {
       (_, w) \<leftarrow> (if IP_ConnectivityCheckType (VI_IP v) = WAN_CONNECTIVITY_TYPE_TAD
                  then do { (_, w) \<leftarrow> WanMgr_Configure_TAD_WCC e q WCC_STOP w; Some ((), w) }
                  else Some ((), w));
       modify_virtif q (upd_IP (\<lambda>i. i\<lparr>IP_ConnectivityCheckRunning := False\<rparr>)) w
     }) (\<lambda>_. True)"
  proof (rule vk_seq [where ?chg1.0 = keep_stopped and ?chg2.0 = stops_check, OF g])
    show "vk keep_stopped q w (if IP_ConnectivityCheckType (VI_IP v) = WAN_CONNECTIVITY_TYPE_TAD
        then do { (_, w) \<leftarrow> WanMgr_Configure_TAD_WCC e q WCC_STOP w; Some ((), w) } else Some ((), w)) (\<lambda>_. True)"
      using g env by - (rule vif_rules | assumption | simp)+
    show "vk stops_check q w' (modify_virtif q (upd_IP (\<lambda>i. i\<lparr>IP_ConnectivityCheckRunning := False\<rparr>)) w') (\<lambda>_. True)"
      if "good c q w'" for w'
    proof -
      from good_virtif [OF that] obtain v where "virtif_at q w' = Some v" by blast
      with that show ?thesis
        by (rule vk_modify_here) (simp_all add: stops_check_def keep_stopped_def keep_down_def sane_def upd_defs runs_defs)
    qed
  qed (auto simp: keep_sane stops_check_def intro: keep_trans)
qed

definition all_stopped :: "DML_VIRTUAL_IFACE \<Rightarrow> bool" where
  "all_stopped v \<longleftrightarrow> \<not> c4_runs v \<and> \<not> c6_runs v \<and> \<not> IP_ConnectivityCheckRunning (VI_IP v) \<and>
     IP_SelectedModeTimerStatus (VI_IP v) = NOTSTARTED"

lemma vk_stop_clients_stopped:
  assumes g: "good c q w" and env: "env_ok e" and v: "virtif_at q w = Some v"
  shows "vk (\<lambda>u x. keep_down u x \<and> all_stopped x) q w (stop_clients e c q v w) (\<lambda>_. True)"
  unfolding stop_clients_def
proof (rule vk_seq_at [where first = stops4, OF g v])
  show "vk stops4 q w (if IP_Dhcp4cStatus (VI_IP v) = DHCPC_STARTED
      then do { (_, w) \<leftarrow> WanManager_StopDhcpv4Client e q False w; Some ((), w) } else Some ((), w)) (\<lambda>_. True)"
    using vk_unit [OF vk_stop_client(1) [OF g]] vk_here [OF g v, of stops4 "\<lambda>_. True" "()"]
    by (auto simp: stops4_def keep_refl c4_runs_def)
  fix r :: unit and w1 v1
  assume g1: "good c q w1" and v1: "virtif_at q w1 = Some v1" "stops4 v v1"
  show "vk (\<lambda>_ x. keep_down v x \<and> all_stopped x) q w1 (do {
      (_, w) \<leftarrow> (if IP_Dhcp6cStatus (VI_IP v) = DHCPC_STARTED
                 then do { (_, w) \<leftarrow> WanManager_StopDhcpv6Client e q False w1; Some ((), w) } else Some ((), w1));
      (_, w) \<leftarrow> modify_virtif q (upd_IP (\<lambda>i. i\<lparr>IP_SelectedModeTimerStatus := NOTSTARTED\<rparr>)) w;
      WanMgr_StopConnectivityCheck e c w
    }) (\<lambda>_. True)"
  proof (rule vk_seq_at [where first = stops6, OF g1 v1(1)])
    show "vk stops6 q w1 (if IP_Dhcp6cStatus (VI_IP v) = DHCPC_STARTED
        then do { (_, w) \<leftarrow> WanManager_StopDhcpv6Client e q False w1; Some ((), w) } else Some ((), w1)) (\<lambda>_. True)"
      using vk_unit [OF vk_stop_client(2) [OF g1]] vk_here [OF g1 v1(1), of stops6 "\<lambda>_. True" "()"] v1(2)
      by (auto simp: stops4_def stops6_def keep_refl keep_stopped_def c6_runs_def)
    fix r :: unit and w2 v2
    assume g2: "good c q w2" and v2: "virtif_at q w2 = Some v2" "stops6 v1 v2"
    show "vk (\<lambda>_ x. keep_down v x \<and> all_stopped x) q w2 (do {
        (_, w) \<leftarrow> modify_virtif q (upd_IP (\<lambda>i. i\<lparr>IP_SelectedModeTimerStatus := NOTSTARTED\<rparr>)) w2;
        WanMgr_StopConnectivityCheck e c w
      }) (\<lambda>_. True)"
    proof (rule vk_seq_at [where first = stops_timer, OF g2 v2(1)])
      show "vk stops_timer q w2 (modify_virtif q (upd_IP (\<lambda>i. i\<lparr>IP_SelectedModeTimerStatus := NOTSTARTED\<rparr>)) w2) (\<lambda>_. True)"
        using g2 v2(1) by (rule vk_modify_here) (simp_all add: stops_timer_def keep_down_def sane_def upd_defs runs_defs)
      fix r :: unit and w3 v3
      assume g3: "good c q w3" and v3: "virtif_at q w3 = Some v3" "stops_timer v2 v3"
      show "vk (\<lambda>_ x. keep_down v x \<and> all_stopped x) q w3 (WanMgr_StopConnectivityCheck e c w3) (\<lambda>_. True)"
        using vk_stop_check [OF g3 env] v3(1)
      proof (rule vk_at)
        fix x
        assume x: "stops_check v3 x"
        with v1(2) v2(2) v3(2) have "keep_down v v1" "keep_down v1 v2" "keep_down v2 v3" "keep_down v3 x"
          by (simp_all add: stops4_def stops6_def stops_check_def stops_timer_def keep_stopped_def)
        then have "keep_down v x" by (blast intro: keep_trans)
        moreover have "all_stopped x" using v1(2) v2(2) v3(2) x
          by (auto simp: all_stopped_def stops4_def stops6_def stops_check_def stops_timer_def keep_stopped_def)
        ultimately show "keep_down v x \<and> all_stopped x" ..
      qed
    qed (rule stops_sane)
  qed (rule stops_sane)
qed (rule stops_sane)

subsection \<open>The transition\<close>

definition lost :: "DML_VIRTUAL_IFACE \<Rightarrow> bool" where
  "lost v \<longleftrightarrow> \<not> v4_up v \<and> \<not> v6_up v \<and> all_stopped v"

lemma vk_physical_down_lost:
  assumes g: "good c q w" and env: "env_ok e"
  shows "vk (\<lambda>_. lost) q w (wan_transition_physical_interface_down b e c w)
    (\<lambda>st. st \<in> {WAN_STATE_REFRESHING_WAN, WAN_STATE_DECONFIGURING_WAN})"
  unfolding wan_transition_physical_interface_down_def
proof (rule vk_access(1) [OF g])
  fix d v
  assume v: "virtif_at q w = Some v"
  let ?A = "\<lambda>u x. keep_down u x \<and> \<not> v4_up x \<and> \<not> v6_up x"
  let ?B = "\<lambda>u x. keep_down u x \<and> all_stopped x"
  let ?R = "\<lambda>st. st \<in> {WAN_STATE_REFRESHING_WAN, WAN_STATE_DECONFIGURING_WAN}"
  show "vk (\<lambda>_. lost) q w (do {
      (_, w) \<leftarrow> lose_addresses b e c v w;
      v \<leftarrow> virtif_at q w;
      (_, w) \<leftarrow> stop_clients e c q v w;
      (_, w) \<leftarrow> stop_links e q d v w;
      (_, w) \<leftarrow> Update_Interface_Status b e w;
      Some (if VI_Reset v \<or> VLAN_Reset (VI_VLAN v) \<or> VLAN_Expired (VI_VLAN v) then WAN_STATE_REFRESHING_WAN
            else WAN_STATE_DECONFIGURING_WAN, w)
    }) ?R"
  proof (rule vk_seq_at [where first = ?A, OF g v vk_lose_addresses_down [OF g env v]])
    show "sane u x" if "?A u x" for u x using that by (simp add: keep_sane)
    fix r :: unit and w1 v1
    assume g1: "good c q w1" and v1: "virtif_at q w1 = Some v1" "?A v v1"
    show "vk (\<lambda>_. lost) q w1 (do {
        v \<leftarrow> virtif_at q w1;
        (_, w) \<leftarrow> stop_clients e c q v w1;
        (_, w) \<leftarrow> stop_links e q d v w;
        (_, w) \<leftarrow> Update_Interface_Status b e w;
        Some (if VI_Reset v \<or> VLAN_Reset (VI_VLAN v) \<or> VLAN_Expired (VI_VLAN v) then WAN_STATE_REFRESHING_WAN
              else WAN_STATE_DECONFIGURING_WAN, w)
      }) ?R"
      unfolding v1(1) bind.bind_lunit
    proof (rule vk_seq_at [where first = ?B, OF g1 v1(1) vk_stop_clients_stopped [OF g1 env v1(1)]])
      show "sane u x" if "?B u x" for u x using that by (simp add: keep_sane)
      fix r :: unit and w2 v2
      assume g2: "good c q w2" and v2: "virtif_at q w2 = Some v2" "?B v1 v2"
      have links: "vk keep_ip q w (stop_links e q d v1 w) (\<lambda>_. True)" if "good c q w" for w
        unfolding stop_links_def using that
        by - (rule vif_rules | assumption | simp add: keep_ip_def sane_def upd_defs)+
      have "vk keep_ip q w2 (do {
          (_, w) \<leftarrow> stop_links e q d v1 w2;
          (_, w) \<leftarrow> Update_Interface_Status b e w;
          Some (if VI_Reset v1 \<or> VLAN_Reset (VI_VLAN v1) \<or> VLAN_Expired (VI_VLAN v1) then WAN_STATE_REFRESHING_WAN
                else WAN_STATE_DECONFIGURING_WAN, w)
        }) ?R"
        using g2 env by - (rule links vif_rules | assumption | simp)+
      then show "vk (\<lambda>_. lost) q w2 (do {
          (_, w) \<leftarrow> stop_links e q d v1 w2;
          (_, w) \<leftarrow> Update_Interface_Status b e w;
          Some (if VI_Reset v1 \<or> VLAN_Reset (VI_VLAN v1) \<or> VLAN_Expired (VI_VLAN v1) then WAN_STATE_REFRESHING_WAN
                else WAN_STATE_DECONFIGURING_WAN, w)
        }) ?R"
        using v2(1)
      proof (rule vk_at)
        show "lost x" if "keep_ip v2 x" for x
          using that v1(2) v2(2) by (auto simp: keep_ip_def keep_down_def lost_def all_stopped_def runs_defs)
      qed
    qed
  qed
qed

end
