(* ===== verification/WanMachineProps.thy ===== *)
theory WanMachineProps
  imports WanMachineLoss WanFailoverLemmas WanSamples
begin

text \<open>
  Properties of the interface state machine: its thread is safe whatever the others do to the data base within
  their limits, a pass follows the state diagram and touches nothing of the tables but the machine's virtual interface, so
  the machine keeps the promises the fail-over controller and the other machines rely on; the machine ends when it is
  told to and its links are down; nothing is left behind when the physical interface goes down.
\<close>

subsection \<open>A machine on concrete data\<close>

lemma sample_machine: "machine_at (0, 0) sample_world"
proof -
  have "pIface sample_world = Some (docsis WAN_IFACE_SELECTED WAN_IFACE_STATUS_STANDBY #
      ethwan WAN_IFACE_SELECTED WAN_IFACE_STATUS_STANDBY # replicate 30 blank_iface)"
    by (simp add: sample_world_def mk_world_def)
  then have "report_fits sample_world"
    by (simp add: report_fits_def sample_reads docsis_def ethwan_def sample_iface_def blank_iface_def iface_cost_def name_cost_def)
  then show ?thesis
    by (simp add: machine_at_def virtif_at_def sample_reads docsis_def sample_iface_def blank_virtif_def vif_fits_def)
qed

lemma sample_points: "points_to (WanMgr_IfaceSM_Init 0 0) (0, 0)"
  by (simp add: points_to_def WanMgr_IfaceSM_Init_def idx_uint_def)

lemma sample_env_ok: "env_ok sample_env"
  by (simp add: env_ok_def sample_env_def)

definition sample_machine :: ISM where
  "sample_machine = \<lparr>ISM_ctrl = WanMgr_IfaceSM_Init 0 0, ISM_state = WAN_STATE_VLAN_CONFIGURING, ISM_running = True\<rparr>"

lemma sample_machine_inv: "ISM_inv (0, 0) sample_machine sample_world"
  using sample_machine sample_points by (simp add: ISM_inv_def sample_machine_def)

subsection \<open>Safety\<close>

text \<open>
  C19. The thread of an interface state machine is safe: started on a virtual interface of the data base, it
  returns from every pass, dereferences no bad pointer and overflows no buffer, and gives the mutex back, in
  every run, whatever the other threads do between its passes, as long as they keep the virtual interface and
  give no interface an overlong name, memory does not run out, and \<open>resolv.conf\<close> and the answers of \<open>rdisc6\<close>
  have the form the code expects.
\<close>

theorem machine_thread_safe:
  assumes "wf_db w" "machine_at q w" "points_to c q" "env_ok e"
    and others: "\<And>others e' u. \<lbrakk>(others, e') \<in> set script; wf_db u; machine_at q u\<rbrakk> \<Longrightarrow>
      ISM_rely q u (others u) \<and> env_ok e'"
  shows "\<exists>s w'. Option.bind (ISM_start b e c w) (\<lambda>(s, w). run_thread (ISM_pass b) script s w) = Some (s, w') \<and>
    wf_db w' \<and> mutex w' = mutex w \<and> ISM_inv q s w'"
proof -
  from ISM_start_ok [OF assms(1-4), of b] obtain s w1 where i: "ISM_start b e c w = Some (s, w1)" "keeps w w1"
    "ISM_inv q s w1" by (auto elim: okE)
  from i(2) have k: "wf_db w1" "mutex w1 = mutex w" by (simp_all add: keeps_def)
  have "\<exists>s' w'. run_thread (ISM_pass b) script s w1 = Some (s', w') \<and> wf_db w' \<and> ISM_inv q s' w' \<and> mutex w' = mutex w1"
    by (rule ism.run_ok [OF k(1) i(3)]) (use others in \<open>simp add: ISM_inv_def\<close>)
  then obtain s' w' where
    "run_thread (ISM_pass b) script s w1 = Some (s', w')" "wf_db w'" "ISM_inv q s' w'" "mutex w' = mutex w1" by blast
  with i(1) k(2) show ?thesis by simp
qed

theorem machine_thread_safe_witness:
  "\<exists>s w'. Option.bind (ISM_start sample_build sample_env (WanMgr_IfaceSM_Init 0 0) sample_world)
      (\<lambda>(s, w). run_thread (ISM_pass sample_build) [(id, sample_env), (id, sample_env)] s w) = Some (s, w') \<and>
    wf_db w' \<and> mutex w' = mutex sample_world \<and> ISM_inv (0, 0) s w'"
proof (rule machine_thread_safe [OF wf_sample_world sample_machine sample_points sample_env_ok])
  fix others :: "world \<Rightarrow> world" and e' u
  assume "(others, e') \<in> set [(id, sample_env), (id, sample_env)]" "wf_db u"
  then show "ISM_rely (0, 0) u (others u) \<and> env_ok e'"
    by (auto simp: ISM_rely_def interference_def sample_env_ok)
qed

subsection \<open>The diagram\<close>

text \<open>
  C20. A pass implements the state diagram \<open>ism_next\<close>: the machine goes to one of the states that may follow its
  present one, it stops running after a pass in the state EXIT, and only then; it does not move while the
  \<open>select\<close> of its loop fails or after it has ended.
\<close>

theorem machine_follows_diagram:
  assumes "wf_db w" "ISM_inv q s w" "env_ok e"
  shows "\<exists>s' w'. ISM_pass b e s w = Some (s', w') \<and>
    (if ISM_running s \<and> select_ok e
     then ISM_state s' \<in> ism_next (ISM_state s) \<and> ISM_running s' = (\<not> ism_ends (ISM_state s))
     else ISM_state s' = ISM_state s \<and> ISM_running s' = ISM_running s)"
  using vk_pass [OF assms, of b] by (auto elim!: vkE simp: ism_moves_def)

theorem machine_follows_diagram_witness:
  "\<exists>s' w'. ISM_pass sample_build sample_env sample_machine sample_world = Some (s', w') \<and>
    ISM_state s' \<in> ism_next WAN_STATE_VLAN_CONFIGURING \<and> ISM_running s'"
  using machine_follows_diagram [OF wf_sample_world sample_machine_inv sample_env_ok, of sample_build]
  by (auto simp: sample_machine_def sample_env_def ism_ends_def simp del: ism_next.simps)

subsection \<open>The machine keeps to itself\<close>

lemma vif_step_sel_view:
  assumes step: "vif_step chg q w w'"
  shows "sel_view w' = sel_view w"
proof -
  have "map_option (\<lambda>x. Sel_Status (If_Selection x)) (iface_at k w') = map_option (\<lambda>x. Sel_Status (If_Selection x)) (iface_at k w)"
    for k
  proof (cases "iface_at k w")
    case (Some i)
    from vif_step_iface [OF step Some] obtain vs where "iface_at k w' = Some (i\<lparr>If_VirtIfList := vs\<rparr>)" .
    with Some show ?thesis by simp
  next
    case None
    have "iface_at k w' = None"
    proof (cases "pIface w")
      case (Some l)
      with None have "length l \<le> k" by (simp add: iface_at_def)
      moreover have "\<exists>l'. pIface w' = Some l' \<and> length l' = length l"
        using step Some by (auto simp: vif_step_def vput_def split: option.splits)
      ultimately show ?thesis by (auto simp: iface_at_def)
    qed (use step in \<open>auto simp: vif_step_def vput_def iface_at_def split: option.splits\<close>)
    with None show ?thesis by simp
  qed
  moreover have "Groups w' = Groups w" using step unfolding vif_step_def by blast
  ultimately show ?thesis by (simp add: sel_view_def group_at_def)
qed

lemma machine_step_rely: "\<lbrakk>vif_step chg q w w'; keeps w w'\<rbrakk> \<Longrightarrow> FO_rely w w'"
  using active_frame [OF vif_step_sel_view] by (simp add: FO_rely_def keeps_interference)

lemma machine_leaves_others:
  assumes wf: "wf_db w" and step: "vif_step sane q w w'" and kp: "keeps w w'" and at: "machine_at q w" "machine_at q' w"
  shows "machine_at q' w'"
proof -
  have g: "good ((WanMgr_IfaceSM_Init (int (fst q)) (int (snd q)))\<lparr>SC_pIfaceData := Some (fst q)\<rparr>) q w"
    by (rule goodI [OF wf at(1)]) (simp add: points_to_def WanMgr_IfaceSM_Init_def idx_uint_def)
  from good_step [OF g kp step] have q: "machine_at q w'" by (simp add: good_iff)
  show ?thesis
  proof (cases "q' = q")
    case True
    with q show ?thesis by simp
  next
    case False
    from at(2) obtain v where v: "virtif_at q' w = Some v" "vif_fits v" "fst q' < unat (total_ifaces w)"
      by (auto simp: machine_at_def)
    from virtif_at_iface [OF v(1)] obtain i where i: "iface_at (fst q') w = Some i" "snd q' < length (If_VirtIfList i)"
      "If_VirtIfList i ! snd q' = v" .
    from vif_step_iface [OF step i(1)] obtain vs where vs: "iface_at (fst q') w' = Some (i\<lparr>If_VirtIfList := vs\<rparr>)"
      "length vs = length (If_VirtIfList i)" "\<And>j. (fst q', j) \<noteq> q \<Longrightarrow> j < length vs \<Longrightarrow> vs ! j = If_VirtIfList i ! j" by metis
    have "(fst q', snd q') \<noteq> q" using False by simp
    from vs(3) [OF this] vs(1,2) i have "virtif_at q' w' = Some v" by (simp add: virtif_at_def)
    with v(2,3) kp q show ?thesis by (simp add: machine_at_def keeps_def)
  qed
qed

text \<open>
  C21. A pass of the machine changes nothing of the tables of the data base but its own virtual interface: the groups,
  every base interface (but for its list) and every other virtual interface are as before, and so are the sizes of the
  tables and the mark of an update.  Of the configuration it may write what it reports and notes there (the six status
  texts, the change of the networking mode, the first connection, the request for a new scan of the groups); every
  setting is as before (\<open>settings\<close>).  So the machine keeps the promise the fail-over controller relies on, and the one
  every other machine relies on, and the three kinds of threads can run together.
\<close>

theorem machine_keeps_to_itself:
  assumes wf: "wf_db w" and inv: "ISM_inv q s w" and env: "env_ok e"
  shows "\<exists>s' w'. ISM_pass b e s w = Some (s', w') \<and> Groups w' = Groups w \<and>
    total_groups w' = total_groups w \<and> total_ifaces w' = total_ifaces w \<and> mutex w' = mutex w \<and>
    settings (config w') = settings (config w) \<and>
    IC_update (IfaceCtrl (gWanMgrDataBase w')) = IC_update (IfaceCtrl (gWanMgrDataBase w)) \<and>
    (\<forall>k i. iface_at k w = Some i \<longrightarrow> (\<exists>vs. iface_at k w' = Some (i\<lparr>If_VirtIfList := vs\<rparr>) \<and>
       length vs = length (If_VirtIfList i) \<and> (\<forall>j < length vs. (k, j) \<noteq> q \<longrightarrow> vs ! j = If_VirtIfList i ! j))) \<and>
    FO_rely w w' \<and> (\<forall>q'. ISM_rely q' w w')"
proof -
  from vk_pass [OF assms, of b] obtain s' w' where p: "ISM_pass b e s w = Some (s', w')" "keeps w w'"
    "vif_step sane q w w'" by (auto elim: vkE)
  have "\<exists>vs. iface_at k w' = Some (i\<lparr>If_VirtIfList := vs\<rparr>) \<and> length vs = length (If_VirtIfList i) \<and>
      (\<forall>j < length vs. (k, j) \<noteq> q \<longrightarrow> vs ! j = If_VirtIfList i ! j)" if "iface_at k w = Some i" for k i
    using vif_step_iface [OF p(3) that] by metis
  moreover have "FO_rely w w'"
    using machine_step_rely [OF p(3,2)] .
  moreover have "ISM_rely q' w w'" for q'
    using machine_leaves_others [OF wf p(3,2)] inv keeps_interference [OF p(2)] by (simp add: ISM_rely_def ISM_inv_def)
  moreover have "Groups w' = Groups w" "fixed_part w' = fixed_part w" using p(3) unfolding vif_step_def by blast+
  moreover have "total_groups w' = total_groups w" "total_ifaces w' = total_ifaces w" "mutex w' = mutex w"
    using p(2) by (simp_all add: keeps_def)
  ultimately show ?thesis using p(1) by (intro exI [of _ s'] exI [of _ w']) (simp add: fixed_part_def)
qed

theorem machine_keeps_to_itself_witness:
  "\<exists>s' w'. ISM_pass sample_build sample_env sample_machine sample_world = Some (s', w') \<and>
    Groups w' = Groups sample_world \<and> settings (config w') = settings sample_config \<and> FO_rely sample_world w' \<and> ISM_rely (1, 0) sample_world w'"
  using machine_keeps_to_itself [OF wf_sample_world sample_machine_inv sample_env_ok, of sample_build]
  by (auto simp: sample_world_def mk_world_reads)

subsection \<open>The machine ends\<close>

text \<open>
  C22. Liveness: a machine that is told to stop (WAN is disabled, the interface or the virtual interface is
  disabled or not selected, or the physical link is lost) ends after at most four passes, if its PPP and VLAN
  links are down when the passes begin; it does not wait for the DHCP clients, for an address or for a timer.
\<close>

theorem machine_ends:
  assumes "wf_db w" "ISM_inv q s w" "4 \<le> length script"
    and others: "\<And>others e u. \<lbrakk>(others, e) \<in> set script; wf_db u; machine_at q u\<rbrakk> \<Longrightarrow>
      ISM_rely q u (others u) \<and> env_ok e \<and> ISM_calm q e (others u)"
  shows "\<exists>s' w'. run_thread (ISM_pass b) script s w = Some (s', w') \<and> \<not> ISM_running s' \<and> wf_db w' \<and> mutex w' = mutex w"
proof -
  have "\<exists>s' w'. run_thread (ISM_pass b) script s w = Some (s', w') \<and> wf_db w' \<and> ISM_inv q s' w' \<and> mutex w' = mutex w \<and>
      passes_left s' \<le> passes_left s - length script"
  proof (rule ism.run_rank [where calm = "\<lambda>e w. env_ok e \<and> ISM_calm q e w" and left = passes_left, OF _ assms(1,2)])
    show "\<exists>s' w'. ISM_pass b e s w = Some (s', w') \<and> passes_left s' \<le> passes_left s - 1"
      if "wf_db w" "ISM_inv q s w" "env_ok e \<and> ISM_calm q e w" for e s w using ISM_pass_left [of w q s e b] that by simp
    show "ISM_rely q u (others u) \<and> env_ok e \<and> env_ok e \<and> ISM_calm q e (others u)"
      if "(others, e) \<in> set script" "wf_db u" "ISM_inv q s' u" for others e s' u
      using others [OF that(1,2)] that(3) by (simp add: ISM_inv_def)
  qed
  then obtain s' w' where r: "run_thread (ISM_pass b) script s w = Some (s', w')" "wf_db w'" "mutex w' = mutex w"
    "passes_left s' \<le> passes_left s - length script" by blast
  moreover have "passes_left s \<le> 4" by (simp add: passes_left_def state_left_def)
  ultimately have "passes_left s' = 0" using assms(3) by linarith
  then have "\<not> ISM_running s'" by (auto simp: passes_left_def state_left_def split: if_splits)
  with r show ?thesis by blast
qed

text \<open>The others disable WAN and take down the links of the machine.\<close>

definition switch_off :: "vptr \<Rightarrow> world \<Rightarrow> world" where
  "switch_off q w = upd_config (\<lambda>c. c\<lparr>Cfg_Enable := False\<rparr>) (upd_virtif q (\<lambda>v.
     upd_PPP (\<lambda>p. p\<lparr>PPP_LinkStatus := WAN_IFACE_PPP_LINK_STATUS_DOWN\<rparr>)
       (upd_VLAN (\<lambda>l. l\<lparr>VLAN_Status := WAN_IFACE_LINKSTATUS_DOWN\<rparr>) v)) w)"

lemma switch_off:
  assumes wf: "wf_db u" and at: "machine_at q u"
  shows "ISM_rely q u (switch_off q u) \<and> ISM_calm q sample_env (switch_off q u)"
proof -
  let ?f = "\<lambda>v. upd_PPP (\<lambda>p. p\<lparr>PPP_LinkStatus := WAN_IFACE_PPP_LINK_STATUS_DOWN\<rparr>)
       (upd_VLAN (\<lambda>l. l\<lparr>VLAN_Status := WAN_IFACE_LINKSTATUS_DOWN\<rparr>) v)"
  let ?c = "(WanMgr_IfaceSM_Init (int (fst q)) (int (snd q)))\<lparr>SC_pIfaceData := Some (fst q)\<rparr>"
  have g: "good ?c q u"
    by (rule goodI [OF wf at]) (simp add: points_to_def WanMgr_IfaceSM_Init_def idx_uint_def)
  have vk: "vk sane q u (Some ((), upd_virtif q ?f u)) (\<lambda>_. True)"
    by (rule sn.vk_upd [OF g]) (simp_all add: sane_def upd_defs)
  from vk_machine_at [OF vk g refl] have at': "machine_at q (upd_virtif q ?f u)" .
  from vk have kp: "keeps u (upd_virtif q ?f u)" by (auto simp: vk_def ok_def)
  let ?w = "switch_off q u"
  have ifs: "pIface ?w = pIface (upd_virtif q ?f u)" "total_ifaces ?w = total_ifaces (upd_virtif q ?f u)"
    by (simp_all add: switch_off_def)
  from at' have "machine_at q ?w" by (simp only: machine_at_def report_fits_def virtif_at_vget ifs)
  moreover have "keeps u ?w" using kp by (simp add: switch_off_def keeps_upd_config)
  ultimately have "ISM_rely q u ?w" by (simp add: ISM_rely_def keeps_interference)
  moreover have "ISM_calm q sample_env ?w"
  proof -
    from at obtain v where v: "virtif_at q u = Some v" by (auto simp: machine_at_def)
    then have v': "virtif_at q ?w = Some (?f v)"
      by (simp add: virtif_at_vget ifs pIface_upd_virtif vget_vput)
    from virtif_at_iface [OF v'] obtain d where "iface_at (fst q) ?w = Some d" .
    moreover have "\<not> Cfg_Enable (config ?w)" by (simp add: switch_off_def)
    moreover have "\<not> links_up (?f v)" by (simp add: links_up_def upd_defs)
    ultimately show ?thesis using v' by (simp add: ISM_calm_def stopping_def must_stop_def sample_env_def)
  qed
  ultimately show ?thesis ..
qed

theorem machine_ends_witness:
  "\<exists>s' w'. run_thread (ISM_pass sample_build) (replicate 4 (switch_off (0, 0), sample_env)) sample_machine sample_world =
     Some (s', w') \<and> \<not> ISM_running s' \<and> wf_db w' \<and> mutex w' = mutex sample_world"
  by (rule machine_ends [OF wf_sample_world sample_machine_inv]) (use switch_off sample_env_ok in \<open>auto simp: set_replicate_conv_if\<close>)

subsection \<open>The loss of the physical interface\<close>

text \<open>
  C23. When the machine stops, whatever state it stops in, nothing is left behind: after the transition that takes
  the physical interface down, neither IP connection is up, neither DHCP client is running, the connectivity check
  is not running, the timer of the preferred mode is reset, and the machine goes on to refresh or to deconfigure.
\<close>

theorem nothing_left_behind:
  assumes "good c q w" "env_ok e"
  shows "\<exists>st w' v'. wan_transition_physical_interface_down b e c w = Some (st, w') \<and> virtif_at q w' = Some v' \<and>
    IP_Ipv4Status (VI_IP v') \<noteq> WAN_IFACE_IPV4_STATE_UP \<and> IP_Ipv6Status (VI_IP v') \<noteq> WAN_IFACE_IPV6_STATE_UP \<and>
    IP_Dhcp4cStatus (VI_IP v') \<noteq> DHCPC_STARTED \<and> IP_Dhcp6cStatus (VI_IP v') \<noteq> DHCPC_STARTED \<and>
    \<not> IP_ConnectivityCheckRunning (VI_IP v') \<and> IP_SelectedModeTimerStatus (VI_IP v') = NOTSTARTED \<and>
    st \<in> {WAN_STATE_REFRESHING_WAN, WAN_STATE_DECONFIGURING_WAN}"
proof -
  from good_virtif [OF assms(1)] obtain v where v: "virtif_at q w = Some v" by blast
  from vk_physical_down_lost [OF assms, of b] obtain st w' where t:
    "wan_transition_physical_interface_down b e c w = Some (st, w')" "vif_step (\<lambda>_. lost) q w w'"
    "st \<in> {WAN_STATE_REFRESHING_WAN, WAN_STATE_DECONFIGURING_WAN}" by (rule vkE)
  from vif_step_virtif [OF t(2) v] obtain v' where "virtif_at q w' = Some v'" "lost v'" .
  with t show ?thesis by (auto simp: lost_def all_stopped_def runs_defs)
qed

definition running_world :: world where
  "running_world = upd_virtif (0, 0) (upd_IP (\<lambda>i. i\<lparr>IP_Ipv4Status := WAN_IFACE_IPV4_STATE_UP,
     IP_Dhcp4cStatus := DHCPC_STARTED, IP_Dhcp6cStatus := DHCPC_STARTED, IP_ConnectivityCheckRunning := True\<rparr>)) sample_world"

theorem nothing_left_behind_witness:
  "\<exists>st w' v'. wan_transition_physical_interface_down sample_build sample_env
      ((WanMgr_IfaceSM_Init 0 0)\<lparr>SC_pIfaceData := Some 0\<rparr>) running_world = Some (st, w') \<and>
    virtif_at (0, 0) w' = Some v' \<and> IP_Ipv4Status (VI_IP v') \<noteq> WAN_IFACE_IPV4_STATE_UP \<and>
    IP_Dhcp4cStatus (VI_IP v') \<noteq> DHCPC_STARTED \<and> \<not> IP_ConnectivityCheckRunning (VI_IP v')"
proof -
  let ?c = "(WanMgr_IfaceSM_Init 0 0)\<lparr>SC_pIfaceData := Some 0\<rparr>"
  have g: "good ?c (0, 0) sample_world"
    using goodI [OF wf_sample_world sample_machine sample_points] by simp
  have "vk sane (0, 0) sample_world (Some ((), running_world)) (\<lambda>_. True)"
    unfolding running_world_def by (rule sn.vk_upd [OF g]) (simp_all add: sane_upd)
  then have "keeps sample_world running_world" "vif_step sane (0, 0) sample_world running_world"
    by (auto simp: vk_def ok_def)
  from nothing_left_behind [OF good_step [OF g this] sample_env_ok, of sample_build] show ?thesis by blast
qed

end
