(* ===== verification/WanLeaseProps.thy ===== *)
theory WanLeaseProps
  imports WanMachineProps
begin

text \<open>
  Properties of the messages and of the VLAN discovery: what a DHCPv4 message does to its virtual interface, that
  the same message again only renews the lease, what becomes of an interface whose cellular manager does not
  answer, and the order in which VLANs are tried.
\<close>

subsection \<open>Reading back what was written\<close>

lemma virtif_at_upd [simp]:
  "virtif_at q w = Some v \<Longrightarrow> virtif_at q (upd_virtif q f w) = Some (f v)"
  by (simp add: virtif_at_vget pIface_upd_virtif vget_vput)

lemma modify_virtif_eq: "virtif_at q w = Some v \<Longrightarrow> modify_virtif q f w = Some ((), upd_virtif q f w)"
  by (simp add: modify_virtif_def)

lemma virtif_at_tabs: "tabs w' = tabs w \<Longrightarrow> virtif_at q w' = virtif_at q w"
  by (rule tabs_reads(7))

subsection \<open>A lease\<close>

text \<open>The virtual interface after a message that assigns an address.\<close>

definition leased :: "ipc_dhcpv4_data_t \<Rightarrow> nat \<Rightarrow> DML_VIRTUAL_IFACE \<Rightarrow> DML_VIRTUAL_IFACE" where
  "leased m up v =
     (let changed = ipv4_config_changed (IP_Ipv4Data (VI_IP v)) m
      in upd_IP (\<lambda>i. i\<lparr>IP_Ipv4Status := WAN_IFACE_IPV4_STATE_UP,
           IP_Ipv4Changed := changed \<or> IP_Ipv4Changed i, IP_Ipv4Renewed := \<not> changed \<or> IP_Ipv4Renewed i,
           IP_RestartConnectivityCheck := changed \<or> IP_RestartConnectivityCheck i,
           IP_Ipv4Data := (wanmgr_dchpv4_get_ipc_msg_info (IP_Ipv4Data i) m)\<lparr>V4_leaseReceivedTime := of_nat up\<rparr>,
           IP_pIpcIpv4Data := None\<rparr>) v)"

text \<open>A change of the virtual interface after steps that leave the tables alone.\<close>

lemma modify_after:
  assumes "virtif_at q w = Some v" "tabs w1 = tabs w"
  shows "\<exists>w'. modify_virtif q f w1 = Some ((), w') \<and> virtif_at q w' = Some (f v)"
proof -
  have v: "virtif_at q w1 = Some v" using assms(1) by (simp only: virtif_at_tabs [OF assms(2)])
  then show ?thesis using virtif_at_upd [OF v, of f] by (simp add: modify_virtif_eq [OF v])
qed

lemma ipv4_assigned_eq:
  assumes v: "virtif_at q w = Some v"
  shows "\<exists>w'. ipv4_assigned e q m changed up w = Some ((), w') \<and> virtif_at q w' = Some (upd_IP (\<lambda>i. i
     \<lparr>IP_Ipv4Status := WAN_IFACE_IPV4_STATE_UP, IP_Ipv4Changed := changed \<or> IP_Ipv4Changed i,
      IP_Ipv4Renewed := \<not> changed \<or> IP_Ipv4Renewed i,
      IP_Ipv4Data := (wanmgr_dchpv4_get_ipc_msg_info (IP_Ipv4Data i) m)\<lparr>V4_leaseReceivedTime := of_nat up\<rparr>\<rparr>) v)"
proof -
  let ?f = "upd_IP (\<lambda>i. i\<lparr>IP_Ipv4Changed := changed \<or> IP_Ipv4Changed i, IP_Ipv4Renewed := \<not> changed \<or> IP_Ipv4Renewed i\<rparr>)"
  let ?g = "upd_IP (\<lambda>i. i\<lparr>IP_Ipv4Data := (wanmgr_dchpv4_get_ipc_msg_info (IP_Ipv4Data i) m)\<lparr>V4_leaseReceivedTime := of_nat up\<rparr>\<rparr>)"
  let ?h = "upd_IP (\<lambda>i. i\<lparr>IP_Ipv4Status := WAN_IFACE_IPV4_STATE_UP\<rparr>)"
  have "\<exists>w1. (if changed
      then modify_virtif q (upd_IP (\<lambda>i. i\<lparr>IP_Ipv4Changed := True\<rparr>)) (wanmgr_sysevents_ipv4Info_set m (I4_dhcpcInterface m) w)
      else modify_virtif q (upd_IP (\<lambda>i. i\<lparr>IP_Ipv4Renewed := True\<rparr>)) (ipv4_renewed_events m w)) = Some ((), w1) \<and>
      virtif_at q w1 = Some (?f v)"
  proof (cases changed)
    case True
    from modify_after [OF v, of "wanmgr_sysevents_ipv4Info_set m (I4_dhcpcInterface m) w"
        "upd_IP (\<lambda>i. i\<lparr>IP_Ipv4Changed := True\<rparr>)"]
    show ?thesis using True by (simp add: tab_simps upd_IP_def)
  next
    case False
    from modify_after [OF v, of "ipv4_renewed_events m w" "upd_IP (\<lambda>i. i\<lparr>IP_Ipv4Renewed := True\<rparr>)"]
    show ?thesis using False by (simp add: tab_simps upd_IP_def)
  qed
  then obtain w1 where 1: "(if changed
      then modify_virtif q (upd_IP (\<lambda>i. i\<lparr>IP_Ipv4Changed := True\<rparr>)) (wanmgr_sysevents_ipv4Info_set m (I4_dhcpcInterface m) w)
      else modify_virtif q (upd_IP (\<lambda>i. i\<lparr>IP_Ipv4Renewed := True\<rparr>)) (ipv4_renewed_events m w)) = Some ((), w1)"
    "virtif_at q w1 = Some (?f v)" by blast
  from modify_after [OF 1(2) refl, of ?g] obtain w2 where 2: "modify_virtif q ?g w1 = Some ((), w2)"
    "virtif_at q w2 = Some (?g (?f v))" by blast
  let ?w3 = "WanManager_DoSystemAction e (ifconfig_ipv4 e (IP_Ipv4Data (VI_IP (?g (?f v))))) w2"
  let ?w4 = "if PPP_Enable (VI_PPP (?g (?f v))) then WanManager_AddGatewayRoute e (IP_Ipv4Data (VI_IP (?g (?f v)))) ?w3 else ?w3"
  have "tabs ?w4 = tabs w2" by (simp add: tab_simps)
  from modify_after [OF 2(2) this, of ?h] obtain w' where 3: "modify_virtif q ?h ?w4 = Some ((), w')"
    "virtif_at q w' = Some (?h (?g (?f v)))" by blast
  have "ipv4_assigned e q m changed up w = Some ((), w')"
    unfolding ipv4_assigned_def 1(1) bind.bind_lunit prod.case 2 Let_def WanManager_UpdateInterfaceStatus_def
      wanmgr_iface_status_t.case by (rule 3(1))
  moreover have "?h (?g (?f v)) = upd_IP (\<lambda>i. i
     \<lparr>IP_Ipv4Status := WAN_IFACE_IPV4_STATE_UP, IP_Ipv4Changed := changed \<or> IP_Ipv4Changed i,
      IP_Ipv4Renewed := \<not> changed \<or> IP_Ipv4Renewed i,
      IP_Ipv4Data := (wanmgr_dchpv4_get_ipc_msg_info (IP_Ipv4Data i) m)\<lparr>V4_leaseReceivedTime := of_nat up\<rparr>\<rparr>) v"
    by (simp add: upd_IP_def)
  ultimately show ?thesis using 3(2) by simp
qed

lemma handle_lease_eq:
  assumes v: "virtif_at q w = Some v" "IP_pIpcIpv4Data (VI_IP v) = Some m"
    and m: "I4_gateway m \<noteq> ''0.0.0.0''" "I4_addressAssigned m"
  shows "\<exists>w'. wanmgr_handle_dhcpv4_event_data e q w = Some ((), w') \<and>
    virtif_at q w' = Some (leased m (WanManager_getUpTime e (upd_virtif q (upd_IP (\<lambda>i.
      if ipv4_config_changed (IP_Ipv4Data (VI_IP v)) m then i\<lparr>IP_RestartConnectivityCheck := True\<rparr> else i)) w)) v)"
proof -
  let ?ch = "ipv4_config_changed (IP_Ipv4Data (VI_IP v)) m"
  let ?f = "upd_IP (\<lambda>i. if ?ch then i\<lparr>IP_RestartConnectivityCheck := True\<rparr> else i)"
  let ?w1 = "upd_virtif q ?f w"
  let ?up = "WanManager_getUpTime e ?w1"
  let ?w2 = "sysevent_set (ipv4_key 64 (I4_dhcpcInterface m) ''start_time'') (show_nat ?up) ?w1"
  have "tabs ?w2 = tabs ?w1" by (simp add: tab_simps)
  then have "virtif_at q ?w2 = virtif_at q ?w1" by (rule virtif_at_tabs)
  then have v2: "virtif_at q ?w2 = Some (?f v)" using virtif_at_upd [OF v(1)] by simp
  from ipv4_assigned_eq [OF v2, of e m ?ch ?up] obtain w3 where 3: "ipv4_assigned e q m ?ch ?up ?w2 = Some ((), w3)"
    "virtif_at q w3 = Some (upd_IP (\<lambda>i. i
     \<lparr>IP_Ipv4Status := WAN_IFACE_IPV4_STATE_UP, IP_Ipv4Changed := ?ch \<or> IP_Ipv4Changed i,
      IP_Ipv4Renewed := \<not> ?ch \<or> IP_Ipv4Renewed i,
      IP_Ipv4Data := (wanmgr_dchpv4_get_ipc_msg_info (IP_Ipv4Data i) m)\<lparr>V4_leaseReceivedTime := of_nat ?up\<rparr>\<rparr>) (?f v))"
    (is "_ = Some ?v3") by blast
  let ?w4 = "if ?ch then publish_vif ?v3 ''.IP.IPv4Address'' (V4_ip (IP_Ipv4Data (VI_IP ?v3))) w3 else w3"
  have "tabs ?w4 = tabs w3" by (simp add: tab_simps)
  from modify_after [OF 3(2) this, of free_msg4] obtain w' where 5: "modify_virtif q free_msg4 ?w4 = Some ((), w')"
    "virtif_at q w' = Some (free_msg4 ?v3)" by blast
  have "wanmgr_handle_dhcpv4_event_data e q w = Some ((), w')"
    unfolding wanmgr_handle_dhcpv4_event_data_def v(1) bind.bind_lunit v(2) option.case if_not_P [OF m(1)]
      modify_virtif_eq [OF v(1)] Let_def prod.case if_P [OF m(2)] 3 by (rule 5(1))
  moreover have "free_msg4 ?v3 = leased m ?up v"
    by (simp add: leased_def free_msg4_def upd_IP_def Let_def)
  ultimately show ?thesis using 5(2) by simp
qed

text \<open>
  C25. A DHCPv4 message that assigns an address is consumed.  When it names a gateway it connects the virtual interface:
  the IPv4 connection is up, the address, mask, gateway and name servers of the message are stored, and the interface is
  marked as changed when one of them differs from the stored one, as renewed otherwise; the same message
  once more is therefore only a renewal.  When its gateway is \<open>0.0.0.0\<close> the address is not taken: the lease and the
  state of the connection stay as they are, and the interface becomes VALID unless it is in standby or up.
\<close>

theorem dhcpv4_lease_stored:
  assumes "virtif_at q w = Some v" "IP_pIpcIpv4Data (VI_IP v) = Some m"
    and "I4_addressAssigned m"
  shows "\<exists>w' v' i. wanmgr_handle_dhcpv4_event_data e q w = Some ((), w') \<and> virtif_at q w' = Some v' \<and>
    VI_IP v' = i \<and> IP_pIpcIpv4Data i = None \<and>
    (if I4_gateway m = ''0.0.0.0''
     then v' = v\<lparr>VI_IP := (VI_IP v)\<lparr>IP_pIpcIpv4Data := None\<rparr>,
             VI_Status := (if VI_Status v \<in> {WAN_IFACE_STATUS_STANDBY, WAN_IFACE_STATUS_UP} then VI_Status v
                           else WAN_IFACE_STATUS_VALID)\<rparr>
     else v' = v\<lparr>VI_IP := i\<rparr> \<and> IP_Ipv4Status i = WAN_IFACE_IPV4_STATE_UP \<and>
       V4_ip (IP_Ipv4Data i) = I4_ip m \<and> V4_mask (IP_Ipv4Data i) = I4_mask m \<and> V4_gateway (IP_Ipv4Data i) = I4_gateway m \<and>
       (let changed = ipv4_config_changed (IP_Ipv4Data (VI_IP v)) m
        in IP_Ipv4Changed i = (changed \<or> IP_Ipv4Changed (VI_IP v)) \<and>
           IP_Ipv4Renewed i = (\<not> changed \<or> IP_Ipv4Renewed (VI_IP v))) \<and>
       \<not> ipv4_config_changed (IP_Ipv4Data i) m)"
proof (cases "I4_gateway m = ''0.0.0.0''")
  case True
  with assms(1,2) show ?thesis
    by (auto simp: wanmgr_handle_dhcpv4_event_data_def modify_virtif_eq free_msg4_def upd_IP_def Let_def)
next
  case False
  from handle_lease_eq [OF assms(1,2) False assms(3), of e] obtain w' up where
    "wanmgr_handle_dhcpv4_event_data e q w = Some ((), w')" "virtif_at q w' = Some (leased m up v)" by blast
  with False show ?thesis
    by (intro exI [of _ w'] exI [of _ "leased m up v"] exI [of _ "VI_IP (leased m up v)"])
      (simp add: leased_def upd_IP_def Let_def wanmgr_dchpv4_get_ipc_msg_info_def ipv4_config_changed_def)
qed

definition sample_lease :: ipc_dhcpv4_data_t where
  "sample_lease = zero_ipc4\<lparr>I4_dhcpcInterface := ''erouter0'', I4_ip := ''10.0.0.2'', I4_mask := ''255.255.255.0'',
     I4_gateway := ''10.0.0.1'', I4_addressAssigned := True\<rparr>"

definition message_world :: world where
  "message_world = upd_virtif (0, 0) (upd_IP (\<lambda>i. i\<lparr>IP_pIpcIpv4Data := Some sample_lease\<rparr>)) sample_world"

lemma sample_virtif: "virtif_at (0, 0) sample_world = Some (hd (If_VirtIfList (docsis WAN_IFACE_SELECTED WAN_IFACE_STATUS_STANDBY)))"
  by (simp add: virtif_at_def sample_reads docsis_def sample_iface_def)

theorem dhcpv4_lease_stored_witness:
  "\<exists>w' v'. wanmgr_handle_dhcpv4_event_data sample_env (0, 0) message_world = Some ((), w') \<and>
    virtif_at (0, 0) w' = Some v' \<and> IP_Ipv4Status (VI_IP v') = WAN_IFACE_IPV4_STATE_UP \<and>
    V4_ip (IP_Ipv4Data (VI_IP v')) = ''10.0.0.2'' \<and> IP_Ipv4Changed (VI_IP v')"
proof -
  let ?v = "hd (If_VirtIfList (docsis WAN_IFACE_SELECTED WAN_IFACE_STATUS_STANDBY))"
  let ?v' = "upd_IP (\<lambda>i. i\<lparr>IP_pIpcIpv4Data := Some sample_lease\<rparr>) ?v"
  have v: "virtif_at (0, 0) message_world = Some ?v'"
    unfolding message_world_def by (rule virtif_at_upd [OF sample_virtif])
  have m: "IP_pIpcIpv4Data (VI_IP ?v') = Some sample_lease" "I4_gateway sample_lease \<noteq> ''0.0.0.0''"
    "I4_addressAssigned sample_lease" "I4_ip sample_lease = ''10.0.0.2''"
    by (simp_all add: upd_IP_def sample_lease_def)
  have "ipv4_config_changed (IP_Ipv4Data (VI_IP ?v')) sample_lease"
    by (simp add: ipv4_config_changed_def upd_IP_def docsis_def sample_iface_def blank_virtif_def zero_Ipv4Data_def sample_lease_def)
  with dhcpv4_lease_stored [OF v m(1,3), of sample_env] m(2,4) show ?thesis
    by (fastforce simp: Let_def)
qed

subsection \<open>The cellular manager\<close>

text \<open>
  C26. When the cellular manager does not answer, the interface comes up without an address: the first failing
  query ends \<open>WanMgr_UpdateIpFromCellularMgr\<close>, but the message it has begun to fill, marked as an assigned
  address, stays behind, and the next pass of the machine takes it for a lease.
\<close>

theorem silent_cellular_manager_gives_lease:
  assumes "good c q w" "virtif_at q w = Some v"
    and "IP_pIpcIpv4Data (VI_IP v) = None" "IP_Ipv4Status (VI_IP v) = WAN_IFACE_IPV4_STATE_DOWN"
    and "\<And>h. malloc_ok e h" "\<And>h p. bus_get e h p = None"
  shows "\<exists>w1 w2 v2. WanMgr_UpdateIpFromCellularMgr e c w = Some ((), w1) \<and>
    wanmgr_handle_dhcpv4_event_data e' q w1 = Some ((), w2) \<and> virtif_at q w2 = Some v2 \<and>
    IP_Ipv4Status (VI_IP v2) = WAN_IFACE_IPV4_STATE_UP \<and> V4_ip (IP_Ipv4Data (VI_IP v2)) = []"
proof -
  let ?m = "zero_ipc4\<lparr>I4_addressAssigned := True\<rparr>"
  let ?f = "upd_IP (\<lambda>i. i\<lparr>IP_pIpcIpv4Data := Some ?m\<rparr>)"
  from virtif_at_iface [OF assms(2)] obtain d where d: "iface_at (fst q) w = Some d" by blast
  have c: "SC_pIfaceData c = Some (fst q)" using assms(1) by (simp add: good_def)
  have run: "sm_deref body c w = body d q v w" for body :: "DML_WAN_IFACE \<Rightarrow> vptr \<Rightarrow> DML_VIRTUAL_IFACE \<Rightarrow> world \<Rightarrow> (unit \<times> world) option"
    unfolding sm_deref_def c using d assms(2) good_position [OF assms(1) d assms(2)] by simp
  obtain param st bl rest where q0: "cellular_queries (If_BaseInterface d) (take 63 (VI_Name v)) = (param, st, bl) # rest"
    by (simp add: cellular_queries_def Let_def)
  let ?w0 = "upd_virtif q ?f w"
  let ?w1 = "emit (BusGet param) ?w0"
  have upd: "WanMgr_UpdateIpFromCellularMgr e c w = Some ((), ?w1)"
    unfolding WanMgr_UpdateIpFromCellularMgr_def run using assms(3-6)
    by (simp add: modify_virtif_eq [OF assms(2)] q0 WanMgr_RdkBus_GetParamValues_def)
  have "virtif_at q ?w1 = virtif_at q ?w0" by (rule virtif_at_tabs) (simp add: tab_simps)
  then have v1: "virtif_at q ?w1 = Some (?f v)" using virtif_at_upd [OF assms(2)] by simp
  have m: "IP_pIpcIpv4Data (VI_IP (?f v)) = Some ?m" "I4_gateway ?m \<noteq> ''0.0.0.0''" "I4_addressAssigned ?m" "I4_ip ?m = []"
    by (simp_all add: upd_IP_def zero_ipc4_def)
  from handle_lease_eq [OF v1 m(1-3), of e'] obtain w2 up where
    "wanmgr_handle_dhcpv4_event_data e' q ?w1 = Some ((), w2)" "virtif_at q w2 = Some (leased ?m up (?f v))" by blast
  moreover have "IP_Ipv4Status (VI_IP (leased ?m up (?f v))) = WAN_IFACE_IPV4_STATE_UP"
    "V4_ip (IP_Ipv4Data (VI_IP (leased ?m up (?f v)))) = []"
    by (simp_all add: leased_def upd_IP_def Let_def wanmgr_dchpv4_get_ipc_msg_info_def m(4))
  ultimately show ?thesis using upd by blast
qed

definition silent_env :: env where
  "silent_env = sample_env\<lparr>bus_get := (\<lambda>_ _. None)\<rparr>"

theorem silent_cellular_manager_gives_lease_witness:
  "\<exists>w1 w2 v2. WanMgr_UpdateIpFromCellularMgr silent_env ((WanMgr_IfaceSM_Init 0 0)\<lparr>SC_pIfaceData := Some 0\<rparr>) sample_world =
      Some ((), w1) \<and>
    wanmgr_handle_dhcpv4_event_data sample_env (0, 0) w1 = Some ((), w2) \<and> virtif_at (0, 0) w2 = Some v2 \<and>
    IP_Ipv4Status (VI_IP v2) = WAN_IFACE_IPV4_STATE_UP \<and> V4_ip (IP_Ipv4Data (VI_IP v2)) = []"
proof -
  have "good ((WanMgr_IfaceSM_Init 0 0)\<lparr>SC_pIfaceData := Some 0\<rparr>) (0, 0) sample_world"
    using goodI [OF wf_sample_world sample_machine sample_points] by simp
  from silent_cellular_manager_gives_lease [OF this sample_virtif] show ?thesis
    by (simp add: docsis_def sample_iface_def blank_virtif_def silent_env_def sample_env_def)
qed

subsection \<open>The VLAN discovery\<close>

lemma vlan_after_next:
  assumes "map VT_Index xs = [k..<k + length xs]" "k + length xs < 2 ^ 32" "k \<le> i" "i < k + length xs"
  shows "vlan_after xs (of_nat i) = (if Suc i < k + length xs then Some (xs ! (Suc i - k)) else None)"
  using assms
proof (induction xs arbitrary: k)
  case Nil
  then show ?case by simp
next
  case (Cons x xs)
  have i: "unat (of_nat i :: uint) = i" using Cons.prems by (simp add: unat_of_nat)
  have up: "[k..<k + length (x # xs)] = k # [Suc k..<Suc k + length xs]" by (simp add: upt_rec)
  with Cons.prems(1) have x: "VT_Index x = k" "map VT_Index xs = [Suc k..<Suc k + length xs]" by simp_all
  show ?case
  proof (cases "i = k")
    case True
    then show ?thesis using x(1) i by (cases xs) simp_all
  next
    case False
    then have "Suc k \<le> i" using Cons.prems(3) by simp
    from Cons.IH [OF x(2) _ this] Cons.prems False i x(1) show ?thesis
      by (simp add: Suc_diff_le nth_Cons')
  qed
qed

text \<open>
  The VLAN discovery tries the VLANs of an interface in turn: with the entries numbered from 0, the entry
  tried after number \<open>i\<close> of \<open>n\<close> is number \<open>(i + 1) mod n\<close>; after a reset, and when none is active, it is the
  first.
\<close>

theorem vlan_discovery_cycles:
  assumes "map VT_Index (VLAN_InterfaceList l) = [0..<n]" "0 < n" "n < 2 ^ 32"
    and "VLAN_Reset l \<or> VLAN_ActiveIndex l = -1 \<or> unat (VLAN_ActiveIndex l) < n"
  shows "\<exists>x \<in> set (VLAN_InterfaceList l). next_vlan l = Some x \<and>
    VT_Index x = (if VLAN_Reset l \<or> VLAN_ActiveIndex l = -1 then 0 else (unat (VLAN_ActiveIndex l) + 1) mod n)"
proof -
  let ?vs = "VLAN_InterfaceList l" and ?i = "unat (VLAN_ActiveIndex l)"
  have len: "length ?vs = n" using arg_cong [OF assms(1), of length] by simp
  have idx: "VT_Index (?vs ! j) = j" if "j < n" for j
    using arg_cong [OF assms(1), of "\<lambda>xs. xs ! j"] that len by simp
  obtain y ys where y: "?vs = y # ys" using assms(2) len by (cases ?vs) auto
  have first: "VT_Index y = 0" "y \<in> set ?vs" using idx [OF assms(2)] y by simp_all
  show ?thesis
  proof (cases "VLAN_Reset l \<or> VLAN_ActiveIndex l = -1")
    case True
    then have "next_vlan l = Some y" by (simp add: next_vlan_def y)
    with True first show ?thesis by (intro bexI [of _ y]) simp_all
  next
    case False
    with assms(4) have i: "?i < n" by simp
    have a: "vlan_after ?vs (VLAN_ActiveIndex l) = (if Suc ?i < n then Some (?vs ! Suc ?i) else None)"
      using vlan_after_next [of ?vs 0 ?i] assms(1,3) len i by simp
    show ?thesis
    proof (cases "Suc ?i < n")
      case True
      then have "next_vlan l = Some (?vs ! Suc ?i)" using False a by (simp add: next_vlan_def)
      moreover have "?vs ! Suc ?i \<in> set ?vs" using len True by simp
      ultimately show ?thesis using True False idx [OF True] by (intro bexI [of _ "?vs ! Suc ?i"]) simp_all
    next
      case last: False
      with i have "Suc ?i = n" by simp
      moreover have "next_vlan l = Some y" using False last a by (simp add: next_vlan_def y)
      ultimately show ?thesis using first False by (intro bexI [of _ y]) simp_all
    qed
  qed
qed

definition sample_vlans :: DML_VIRTUALIF_VLAN where
  "sample_vlans = (VI_VLAN blank_virtif)\<lparr>VLAN_Enable := True, VLAN_ActiveIndex := 1,
     VLAN_InterfaceList := map (\<lambda>k. \<lparr>VT_Index = k, VT_VirIfIdx = 0, VT_baseIfIdx = 0, VT_Interface = []\<rparr>) [0..<2]\<rparr>"

theorem vlan_discovery_cycles_witness:
  "\<exists>x \<in> set (VLAN_InterfaceList sample_vlans). next_vlan sample_vlans = Some x \<and> VT_Index x = 0"
  using vlan_discovery_cycles [of sample_vlans 2]
  by (simp add: sample_vlans_def blank_virtif_def comp_def)

end
