(* ===== verification/WanParallelPolicy.thy ===== *)
theory WanParallelPolicy
  imports WanAutoPolicy
begin

text \<open>
  The parallel scan policy of \<open>wanmgr_policy_parallel_scan_impl.c\<close>: the thread of a group starts the state
  machines of all its interfaces as their links come up, selects the best interface once it is known to
  work or a timer has run out, reconfigures the platform for it, and watches it until it is told to stop
  or to scan again.  The static functions of the file carry the prefix \<open>PS_\<close>.

  In contrast to the AutoWAN policy, the index of the selected interface is none (-1) while the policy
  scans, and the pointer to the selected interface is taken at the start of a pass only when there is an
  index.  A pass reads the clock at most once (\<open>clock e 0\<close>).  A local variable that may be read before it
  is written has the value \<open>junk\<close> gives it.
\<close>

datatype WcPsPolicyState_t =
    STATE_PARALLEL_SCAN_SCANNING_INTERFACE | STATE_PARALLEL_SCAN_CHECK_RECONFIGURATION
  | STATE_PARALLEL_SCAN_RECONFIGURE_PLATFORM | STATE_PARALLEL_SCAN_REBOOT
  | STATE_PARALLEL_SCAN_SELECTED_INTERFACE_UP | STATE_PARALLEL_SCAN_SELECTED_INTERFACE_DOWN
  | STATE_PARALLEL_SCAN_INTERFACE_TEAR_DOWN | STATE_PARALLEL_SCAN_POLICY_EXIT
  | STATE_PARALLEL_SCAN_POLICY_ERROR

type_synonym PS_step = "((WcPsPolicyState_t \<times> WanMgr_Policy_Controller_t) \<times> world) option"

subsection \<open>Helpers\<close>

text \<open>The body of \<open>WanMgr_UpdateControllerData\<close> is, statement for statement, that of the AutoWAN policy.\<close>

definition PS_UpdateControllerData :: "policy_ctrl \<Rightarrow> world \<Rightarrow> (policy_ctrl \<times> world) option" where
  "PS_UpdateControllerData c w = AW_UpdateControllerData c w"

text \<open>
  \<open>sscanf(path, "%*[^0-9]%d", &index)\<close>: without a part free of digits, or without a number after it, the
  variable keeps its value.
\<close>

definition scan_index :: "string \<Rightarrow> uint option" where
  "scan_index path =
     (let digits = dropWhile (\<lambda>ch. \<not> isdigit_c ch) path
      in if digits = path then None else map_option word_of_int (sscanf_d digits))"

definition ETH_HW_CONFIGURATION_DM :: "uint \<Rightarrow> string" where
  "ETH_HW_CONFIGURATION_DM index = ''Device.Ethernet.Interface.'' @ show_int (sint index) @ ''.Upstream''"

text \<open>\<open>strncasecmp(value, "true", 5) == 0\<close> compares the end of the strings too.\<close>

definition is_true :: "string \<Rightarrow> bool" where
  "is_true v \<longleftrightarrow> map lower_c v = ''true''"

text \<open>Is \<open>uiLoopCount\<close> the index of the selected interface?\<close>

definition PS_selected :: "policy_ctrl \<Rightarrow> nat \<Rightarrow> bool" where
  "PS_selected c i \<longleftrightarrow> of_nat i = idx_uint (PC_activeInterfaceIdx c)"

text \<open>The loop state: the variable \<open>index\<close>, which survives an iteration, and the result.\<close>

definition PS_CheckIfPlatformReconfiguringRequired ::
  "env \<Rightarrow> policy_ctrl \<Rightarrow> world \<Rightarrow> (bool \<times> world) option" where
  "PS_CheckIfPlatformReconfiguringRequired e c w = do {
     ((_, required), w) \<leftarrow> for_loop [0..<unat (PC_TotalIfaces c)] (\<lambda>i s.
       with_iface (of_nat i) (Continue s) (\<lambda>k w. do {
         d \<leftarrow> iface_at k w;
         Some (if PC_GroupInst c = Sel_Group (If_Selection d) \<and> strstr (If_BaseInterface d) ''Ethernet''
               then let index = (case scan_index (If_BaseInterface d) of None \<Rightarrow> fst s | Some v \<Rightarrow> v)
                    in case WanMgr_RdkBus_GetParamValues e (ETH_HW_CONFIGURATION_DM index) w of
                         (None, w) \<Rightarrow> (Break (index, False), w)
                       | (Some dmValue, w) \<Rightarrow>
                           let w = (if \<not> PS_selected c i
                                    then snd (WanMgr_RdkBus_AddIntfToLanBridge e (If_BaseInterface d) True w) else w)
                           in (if PS_selected c i \<and> \<not> is_true dmValue then Break (index, True)
                               else if \<not> PS_selected c i \<and> is_true dmValue then Break (index, True)
                               else Continue (index, False), w)
               else (Continue s, w))
       })) (0, False) w;
     Some (required, w)
   }"

definition PS_CheckRescanRequired :: "policy_ctrl \<Rightarrow> world \<Rightarrow> ((bool \<times> policy_ctrl) \<times> world) option" where
  "PS_CheckRescanRequired c w = do {
     k \<leftarrow> PC_pWanActiveIfaceData c;
     a \<leftarrow> iface_at k w;
     down \<leftarrow> (if If_BaseInterfaceStatus a \<noteq> WAN_IFACE_PHY_STATUS_UP then Some True
              else do { v \<leftarrow> head_virtif a; Some (VI_Status v \<noteq> WAN_IFACE_STATUS_UP) });
     if down then Some ((True, c), w)
     else do {
       (higher, w) \<leftarrow> for_loop [0..<unat (PC_TotalIfaces c)] (\<lambda>i s.
         with_iface (of_nat i) (Continue s) (\<lambda>k w. do {
           d \<leftarrow> iface_at k w;
           Some (if PC_GroupInst c = Sel_Group (If_Selection d) \<and> Sel_Enable (If_Selection d) \<and>
                    \<not> PS_selected c i \<and> Sel_Priority (If_Selection d) < Sel_Priority (If_Selection a)
                 then Break True else Continue s, w)
         })) False w;
       if higher then Some ((True, c), w)
       else do {
         (c, w) \<leftarrow> with_group (PC_GroupInst c - 1) c (\<lambda>g w.
           Some (c\<lparr>PC_ResetSelectedInterface := False\<rparr>,
                 upd_group g (\<lambda>g. g\<lparr>G_ResetSelectedInterface := False\<rparr>) w)) w;
         Some ((False, c), w)
       }
     }
   }"

subsection \<open>Transitions\<close>

text \<open>The longest time-out so far.\<close>

definition max_timeout :: "DML_WAN_IFACE \<Rightarrow> policy_ctrl \<Rightarrow> policy_ctrl" where
  "max_timeout d c =
     (if PC_InterfaceSelectionTimeOut c < Sel_Timeout (If_Selection d)
      then c\<lparr>PC_InterfaceSelectionTimeOut := Sel_Timeout (If_Selection d)\<rparr> else c)"

definition remove_from_bridge :: "env \<Rightarrow> DML_WAN_IFACE \<Rightarrow> world \<Rightarrow> world" where
  "remove_from_bridge e d w =
     (if strstr (If_BaseInterface d) ''Ethernet''
      then snd (WanMgr_RdkBus_AddIntfToLanBridge e (If_BaseInterface d) False w) else w)"

text \<open>
  \<open>Transition_Start\<close>.  The statement that is meant to reset \<open>ActiveLink\<close> of a disabled interface is a
  comparison, so only the persistent store is written.
\<close>

definition PS_Transition_Start :: "env \<Rightarrow> policy_ctrl \<Rightarrow> world \<Rightarrow> PS_step" where
  "PS_Transition_Start e c w = do {
     (c, w) \<leftarrow> for_loop [0..<unat (PC_TotalIfaces c)] (\<lambda>i c w. continue (with_iface (of_nat i) c (\<lambda>k w. do {
       d \<leftarrow> iface_at k w;
       Some (if PC_GroupInst c = Sel_Group (If_Selection d)
             then (if Sel_Enable (If_Selection d) then max_timeout d c else c,
                   remove_from_bridge e d
                     (if \<not> Sel_Enable (If_Selection d) \<and> Sel_ActiveLink (If_Selection d)
                      then snd (DmlSetWanActiveLinkInPSMDB e (of_nat i) False w) else w))
             else (c, w))
     }) w)) c w;
     (_, w) \<leftarrow> set_InitialScanComplete (PC_GroupInst c) w;
     Some ((STATE_PARALLEL_SCAN_SCANNING_INTERFACE, c\<lparr>PC_SelectionTimeOutStart := clock e 0\<rparr>), w)
   }"

text \<open>
  \<open>Transition_NewInterfaceConnected\<close>: when a machine cannot be started the function returns with the
  mutex held.
\<close>

definition PS_Transition_NewInterfaceConnected :: "env \<Rightarrow> nat \<Rightarrow> world \<Rightarrow> (WcPsPolicyState_t \<times> world) option" where
  "PS_Transition_NewInterfaceConnected e IfaceId w =
     (case WanMgr_GetIfaceData_locked (of_nat IfaceId) w of
        (None, w) \<Rightarrow> Some (STATE_PARALLEL_SCAN_SCANNING_INTERFACE, w)
      | (Some k, w) \<Rightarrow> do {
          d \<leftarrow> iface_at k w;
          let w = set_VirtIfChanged k False (set_status k WAN_IFACE_VALIDATING w);
          (started, w) \<leftarrow> for_loop [0..<unat (If_NoOfVirtIfs d)] (AW_start_virtif e (int IfaceId)) True w;
          Some (STATE_PARALLEL_SCAN_SCANNING_INTERFACE, if started then WanMgrDml_GetIfaceData_release w else w)
        })"

definition PS_mark_selected :: "env \<Rightarrow> nat \<Rightarrow> nat \<Rightarrow> bool \<Rightarrow> world \<Rightarrow> world" where
  "PS_mark_selected e i k sel w =
     snd (DmlSetWanActiveLinkInPSMDB e (of_nat i) sel
       (set_ActiveLink k sel (set_status k (if sel then WAN_IFACE_SELECTED else WAN_IFACE_NOT_SELECTED) w)))"

definition PS_Transition_SelectingInterface :: "env \<Rightarrow> policy_ctrl \<Rightarrow> world \<Rightarrow> PS_step" where
  "PS_Transition_SelectingInterface e c w = do {
     let c = c\<lparr>PC_SelectionTimeOutStart := 0\<rparr>;
     (_, w) \<leftarrow> for_loop [0..<unat (PC_TotalIfaces c)] (\<lambda>i u w. continue (with_iface (of_nat i) () (\<lambda>k w. do {
       d \<leftarrow> iface_at k w;
       Some ((), if PC_GroupInst c = Sel_Group (If_Selection d) \<and> Sel_Enable (If_Selection d)
                 then PS_mark_selected e i k (PS_selected c i) w else w)
     }) w)) () w;
     (_, w) \<leftarrow> WanMgr_SetGroupSelectedIface (PC_GroupInst c) (idx_uint (PC_activeInterfaceIdx c + 1)) w;
     Some ((STATE_PARALLEL_SCAN_CHECK_RECONFIGURATION, c), w)
   }"

text \<open>
  \<open>Transition_ReconfiguringPlatfrom\<close> keeps the port and the value of the last Ethernet interface of the
  group; the result of the bus call is only logged.
\<close>

definition PS_Transition_ReconfiguringPlatfrom :: "(world \<Rightarrow> uint) \<Rightarrow> policy_ctrl \<Rightarrow> world \<Rightarrow> PS_step" where
  "PS_Transition_ReconfiguringPlatfrom junk c w = do {
     ((ethWanPort, paramValue), w) \<leftarrow> for_loop [0..<unat (PC_TotalIfaces c)] (\<lambda>i s w. continue
       (with_iface (of_nat i) s (\<lambda>k w. do {
          d \<leftarrow> iface_at k w;
          Some (if PC_GroupInst c = Sel_Group (If_Selection d) \<and> strstr (If_BaseInterface d) ''Ethernet''
                then (case scan_index (If_BaseInterface d) of None \<Rightarrow> fst s | Some v \<Rightarrow> v,
                      if PS_selected c i then ''true'' else ''false'')
                else s, w)
        }) w)) (junk w, []) w;
     Some ((STATE_PARALLEL_SCAN_RECONFIGURE_PLATFORM, c),
           emit (BusSet (ETH_HW_CONFIGURATION_DM ethWanPort) paramValue) w)
   }"

definition PS_Transition_InterfaceSelected :: "policy_ctrl \<Rightarrow> world \<Rightarrow> PS_step" where
  "PS_Transition_InterfaceSelected c w = Some ((STATE_PARALLEL_SCAN_SELECTED_INTERFACE_UP, c), w)"

definition PS_Transition_SelectedInterfaceDown :: "policy_ctrl \<Rightarrow> world \<Rightarrow> PS_step" where
  "PS_Transition_SelectedInterfaceDown c w = Some ((STATE_PARALLEL_SCAN_SELECTED_INTERFACE_DOWN, c), w)"

definition PS_Transition_SelectedInterfaceUp :: "env \<Rightarrow> policy_ctrl \<Rightarrow> world \<Rightarrow> PS_step" where
  "PS_Transition_SelectedInterfaceUp e c w =
     (case PC_pWanActiveIfaceData c of
        None \<Rightarrow> Some ((STATE_PARALLEL_SCAN_POLICY_ERROR, c), w)
      | Some k \<Rightarrow> do {
          d \<leftarrow> iface_at k w;
          (started, w) \<leftarrow> for_loop [0..<unat (If_NoOfVirtIfs d)] (AW_start_virtif e (PC_activeInterfaceIdx c)) True w;
          Some (if started then ((STATE_PARALLEL_SCAN_SELECTED_INTERFACE_UP, c), set_VirtIfChanged k False w)
                else ((STATE_PARALLEL_SCAN_SELECTED_INTERFACE_DOWN, c), w))
        })"

definition PS_Transition_RestartScan :: "env \<Rightarrow> policy_ctrl \<Rightarrow> world \<Rightarrow> PS_step" where
  "PS_Transition_RestartScan e c w =
     (case PC_pWanActiveIfaceData c of
        None \<Rightarrow> Some ((STATE_PARALLEL_SCAN_POLICY_ERROR, c), w)
      | Some k \<Rightarrow> do {
          _ \<leftarrow> iface_at k w;
          let w = set_status k WAN_IFACE_VALIDATING w;
          (_, w) \<leftarrow> WanMgr_SetGroupSelectedIface (PC_GroupInst c) 0 w;
          let c = c\<lparr>PC_InterfaceSelectionTimeOut := 0, PC_activeInterfaceIdx := -1\<rparr>;
          (c, w) \<leftarrow> for_loop [0..<unat (PC_TotalIfaces c)] (\<lambda>i c w. continue (with_iface (of_nat i) c (\<lambda>k w. do {
            d \<leftarrow> iface_at k w;
            Some (if PC_GroupInst c = Sel_Group (If_Selection d)
                  then (if Sel_Enable (If_Selection d) then max_timeout d c else c,
                        remove_from_bridge e d (snd (DmlSetWanActiveLinkInPSMDB e (of_nat i) False (set_ActiveLink k False w))))
                  else (c, w))
          }) w)) c w;
          (c, w) \<leftarrow> with_group (PC_GroupInst c - 1) c (\<lambda>g w.
            Some (c\<lparr>PC_ResetSelectedInterface := False\<rparr>,
                  upd_group g (\<lambda>g. g\<lparr>G_ResetSelectedInterface := False\<rparr>) w)) w;
          let (_, w) = with_config () (\<lambda>w. ((), upd_config (\<lambda>d. d\<lparr>Cfg_ResetFailOverScan := True\<rparr>) w)) w;
          Some ((STATE_PARALLEL_SCAN_SCANNING_INTERFACE, c\<lparr>PC_SelectionTimeOutStart := clock e 0\<rparr>), w)
        })"

definition PS_Transition_TearingDown :: "env \<Rightarrow> policy_ctrl \<Rightarrow> world \<Rightarrow> PS_step" where
  "PS_Transition_TearingDown e c w =
     (if PC_pWanActiveIfaceData c = None then Some ((STATE_PARALLEL_SCAN_POLICY_ERROR, c), w)
      else do {
        (_, w) \<leftarrow> for_loop [0..<unat (PC_TotalIfaces c)] (\<lambda>i u w. continue (with_iface (of_nat i) () (\<lambda>k w. do {
          d \<leftarrow> iface_at k w;
          if PC_GroupInst c = Sel_Group (If_Selection d)
          then do {
            let w = set_status k WAN_IFACE_NOT_SELECTED w;
            v \<leftarrow> head_virtif d;
            let w = (if VI_Status v = WAN_IFACE_STATUS_INVALID
                     then set_VirtIf_Status k WAN_IFACE_STATUS_DISABLED w else w);
            Some ((), if PC_GroupCfgChanged c
                      then snd (DmlSetWanActiveLinkInPSMDB e (of_nat i) False (set_ActiveLink k False w)) else w)
          }
          else Some ((), w)
        }) w)) () w;
        (_, w) \<leftarrow> WanMgr_SetGroupSelectedIface (PC_GroupInst c) 0 w;
        Some ((STATE_PARALLEL_SCAN_INTERFACE_TEAR_DOWN, c), w)
      })"

definition PS_Transition_Reboot :: "env \<Rightarrow> policy_ctrl \<Rightarrow> world \<Rightarrow> PS_step" where
  "PS_Transition_Reboot e c w = Some ((STATE_PARALLEL_SCAN_REBOOT, c), Wanmgr_TriggerReboot e w)"

subsection \<open>The scan\<close>

text \<open>
  The variables of the loop of \<open>State_ScanningInterface\<close>, and one of its iterations.  The priority, an
  \<open>INT\<close>, is compared as a \<open>UINT\<close>.
\<close>

record PS_scan =
  highPriorityValidIface :: uint
  highPriorityValue :: uint
  highPriorityActiveValue :: uint
  lastSelectedIfaceFound :: bool
  scan_activeIdx :: int

definition virtif_works :: "DML_VIRTUAL_IFACE \<Rightarrow> bool" where
  "virtif_works v \<longleftrightarrow>
     VI_Status v \<in> {WAN_IFACE_STATUS_UP, WAN_IFACE_STATUS_STANDBY, WAN_IFACE_STATUS_VALID}"

definition priority_uint :: "DML_WAN_IFACE \<Rightarrow> uint" where
  "priority_uint d = word_of_int (Sel_Priority (If_Selection d))"

definition PS_scan_iface :: "nat \<Rightarrow> DML_WAN_IFACE \<Rightarrow> DML_VIRTUAL_IFACE \<Rightarrow> PS_scan \<Rightarrow> PS_scan flow" where
  "PS_scan_iface i d v s =
     (let s = (if Sel_ActiveLink (If_Selection d)
               then s\<lparr>lastSelectedIfaceFound := True, highPriorityValidIface := of_nat i, highPriorityValue := -1\<rparr>
               else s)
      in if Sel_ActiveLink (If_Selection d) \<and> virtif_works v then Break (s\<lparr>scan_activeIdx := int i\<rparr>)
         else let s = (if priority_uint d \<le> highPriorityValue s
                       then s\<lparr>highPriorityValidIface := of_nat i, highPriorityValue := priority_uint d\<rparr> else s);
                  s = (if virtif_works v \<and> priority_uint d \<le> highPriorityActiveValue s
                       then s\<lparr>scan_activeIdx := int i, highPriorityActiveValue := priority_uint d\<rparr> else s)
              in Continue s)"

definition PS_candidate :: "policy_ctrl \<Rightarrow> DML_WAN_IFACE \<Rightarrow> bool" where
  "PS_candidate c d \<longleftrightarrow> PC_GroupInst c = Sel_Group (If_Selection d) \<and> Sel_Enable (If_Selection d)"

abbreviation (input) "MAX_PRIORITY_VALUE \<equiv> (255 :: uint)"

definition PS_scan_start :: "policy_ctrl \<Rightarrow> PS_scan" where
  "PS_scan_start c =
     \<lparr>highPriorityValidIface = -1, highPriorityValue = MAX_PRIORITY_VALUE,
      highPriorityActiveValue = MAX_PRIORITY_VALUE, lastSelectedIfaceFound = False,
      scan_activeIdx = PC_activeInterfaceIdx c\<rparr>"

definition PS_scan_all :: "policy_ctrl \<Rightarrow> world \<Rightarrow> (PS_scan \<times> world) option" where
  "PS_scan_all c w =
     for_loop [0..<unat (PC_TotalIfaces c)] (\<lambda>i s.
       with_iface (of_nat i) (Continue s) (\<lambda>k w. do {
         d \<leftarrow> iface_at k w;
         if PS_candidate c d then do { v \<leftarrow> head_virtif d; Some (PS_scan_iface i d v s, w) }
         else Some (Continue s, w)
       })) (PS_scan_start c) w"

text \<open>The first interface that is connected and not started yet.\<close>

definition PS_new_iface :: "policy_ctrl \<Rightarrow> bool \<Rightarrow> world \<Rightarrow> (nat option \<times> world) option" where
  "PS_new_iface c lastFound w =
     for_loop [0..<unat (PC_TotalIfaces c)] (\<lambda>i r.
       with_iface (of_nat i) (Continue r) (\<lambda>k w. do {
         d \<leftarrow> iface_at k w;
         if PS_candidate c d \<and> If_BaseInterfaceStatus d = WAN_IFACE_PHY_STATUS_UP
         then do {
           v \<leftarrow> head_virtif d;
           Some (if VI_Status v = WAN_IFACE_STATUS_DISABLED \<and>
                    \<not> (PC_GroupPersistSelectedIface c \<and> lastFound \<and> \<not> Sel_ActiveLink (If_Selection d))
                 then Break (Some i) else Continue r, w)
         }
         else Some (Continue r, w)
       })) None w"

subsection \<open>States\<close>

definition PS_State_ScanningInterface :: "env \<Rightarrow> policy_ctrl \<Rightarrow> world \<Rightarrow> PS_step" where
  "PS_State_ScanningInterface e c w =
     (if \<not> PC_WanEnable c \<or> PC_GroupCfgChanged c then PS_Transition_TearingDown e c w
      else do {
        (s, w) \<leftarrow> PS_scan_all c w;
        let c = c\<lparr>PC_activeInterfaceIdx := scan_activeIdx s\<rparr>;
        let found = (highPriorityValidIface s \<noteq> -1 \<and> PC_activeInterfaceIdx c \<noteq> -1);
        if found \<and> (highPriorityValidIface s = idx_uint (PC_activeInterfaceIdx c) \<or>
                    int (unat (PC_InterfaceSelectionTimeOut c)) < clock e 0 - PC_SelectionTimeOutStart c)
        then PS_Transition_SelectingInterface e c w
        else do {
          let c = (if found then c\<lparr>PC_activeInterfaceIdx := -1\<rparr> else c);
          (new, w) \<leftarrow> PS_new_iface c (lastSelectedIfaceFound s) w;
          (case new of
             None \<Rightarrow> Some ((STATE_PARALLEL_SCAN_SCANNING_INTERFACE, c), w)
           | Some i \<Rightarrow> do {
               (st, w) \<leftarrow> PS_Transition_NewInterfaceConnected e i w;
               Some ((st, c), w)
             })
        }
      })"

definition PS_State_CheckReconfiguration :: "(world \<Rightarrow> uint) \<Rightarrow> env \<Rightarrow> policy_ctrl \<Rightarrow> world \<Rightarrow> PS_step" where
  "PS_State_CheckReconfiguration junk e c w =
     (if \<not> PC_WanEnable c \<or> PC_GroupCfgChanged c then PS_Transition_TearingDown e c w
      else do {
        (required, w) \<leftarrow> PS_CheckIfPlatformReconfiguringRequired e c w;
        if required then PS_Transition_ReconfiguringPlatfrom junk c w
        else PS_Transition_InterfaceSelected c w
      })"

definition PS_State_ReconfigurePaltform :: "env \<Rightarrow> policy_ctrl \<Rightarrow> world \<Rightarrow> PS_step" where
  "PS_State_ReconfigurePaltform e c w =
     (case PC_pWanActiveIfaceData c of
        None \<Rightarrow> Some ((STATE_PARALLEL_SCAN_POLICY_ERROR, c), w)
      | Some k \<Rightarrow> do {
          d \<leftarrow> iface_at k w;
          if Sel_RequiresReboot (If_Selection d) then PS_Transition_Reboot e c w
          else PS_Transition_InterfaceSelected c w
        })"

definition PS_State_Reboot :: "policy_ctrl \<Rightarrow> world \<Rightarrow> PS_step" where
  "PS_State_Reboot c w = Some ((STATE_PARALLEL_SCAN_REBOOT, c), w)"

definition PS_State_SelectedInterfaceUp :: "env \<Rightarrow> policy_ctrl \<Rightarrow> world \<Rightarrow> PS_step" where
  "PS_State_SelectedInterfaceUp e c w =
     (case PC_pWanActiveIfaceData c of
        None \<Rightarrow> Some ((STATE_PARALLEL_SCAN_POLICY_ERROR, c), w)
      | Some k \<Rightarrow>
          if \<not> PC_WanEnable c \<or> PC_GroupCfgChanged c then PS_Transition_TearingDown e c w
          else do {
            ((rescan, c), w) \<leftarrow> (if PC_ResetSelectedInterface c then PS_CheckRescanRequired c w
                                else Some ((False, c), w));
            if rescan then PS_Transition_RestartScan e c w
            else do {
              d \<leftarrow> iface_at k w;
              if If_BaseInterfaceStatus d \<noteq> WAN_IFACE_PHY_STATUS_UP \<or> \<not> Sel_Enable (If_Selection d)
              then PS_Transition_SelectedInterfaceDown c w
              else if If_VirtIfChanged d
              then do {
                (_, w) \<leftarrow> for_loop [0..<unat (If_NoOfVirtIfs d)]
                   (\<lambda>VirtId u w. continue (AW_restart_virtif e c VirtId w)) () w;
                Some ((STATE_PARALLEL_SCAN_SELECTED_INTERFACE_UP, c), set_VirtIfChanged k False w)
              }
              else Some ((STATE_PARALLEL_SCAN_SELECTED_INTERFACE_UP, c), w)
            }
          })"

definition PS_State_SelectedInterfaceDown :: "env \<Rightarrow> policy_ctrl \<Rightarrow> world \<Rightarrow> PS_step" where
  "PS_State_SelectedInterfaceDown e c w =
     (case PC_pWanActiveIfaceData c of
        None \<Rightarrow> Some ((STATE_PARALLEL_SCAN_POLICY_ERROR, c), w)
      | Some k \<Rightarrow>
          if \<not> PC_WanEnable c \<or> PC_GroupCfgChanged c then PS_Transition_TearingDown e c w
          else if PC_ResetSelectedInterface c then PS_Transition_RestartScan e c w
          else do {
            d \<leftarrow> iface_at k w;
            v \<leftarrow> head_virtif d;
            if VI_Status v \<noteq> WAN_IFACE_STATUS_DISABLED
            then Some ((STATE_PARALLEL_SCAN_SELECTED_INTERFACE_DOWN, c), w)
            else if If_BaseInterfaceStatus d = WAN_IFACE_PHY_STATUS_UP \<and> Sel_Enable (If_Selection d)
            then PS_Transition_SelectedInterfaceUp e c w
            else Some ((STATE_PARALLEL_SCAN_SELECTED_INTERFACE_DOWN, c), w)
          })"

definition PS_State_InterfaceTearDown :: "policy_ctrl \<Rightarrow> world \<Rightarrow> PS_step" where
  "PS_State_InterfaceTearDown c w =
     (if PC_pWanActiveIfaceData c = None then Some ((STATE_PARALLEL_SCAN_POLICY_ERROR, c), w)
      else do {
        (InterfaceSM_Running, w) \<leftarrow> for_loop [0..<unat (PC_TotalIfaces c)] (\<lambda>i r w. continue
          (with_iface (of_nat i) r (\<lambda>k w. do {
             d \<leftarrow> iface_at k w;
             if PC_GroupInst c = Sel_Group (If_Selection d)
             then do {
               v \<leftarrow> head_virtif d;
               Some (r \<or> VI_Status v \<noteq> WAN_IFACE_STATUS_DISABLED, w)
             }
             else Some (r, w)
           }) w)) False w;
        Some ((if \<not> InterfaceSM_Running then STATE_PARALLEL_SCAN_POLICY_EXIT
               else STATE_PARALLEL_SCAN_INTERFACE_TEAR_DOWN, c), w)
      })"

subsection \<open>The thread\<close>

text \<open>
  \<open>WanMgr_ParallelScanSelectionProcess\<close>: the flag says whether the thread is still in its loop.  Leaving
  the loop and the epilogue, the same as that of the AutoWAN policy, belong to the pass that finds the
  machine in its exit or error state.
\<close>

type_synonym PS_thread = "bool \<times> WcPsPolicyState_t \<times> WanMgr_Policy_Controller_t"

definition PS_take_iface :: "policy_ctrl \<Rightarrow> world \<Rightarrow> policy_ctrl \<times> world" where
  "PS_take_iface c w =
     (if PC_activeInterfaceIdx c \<noteq> -1 \<and> PC_pWanActiveIfaceData c = None
      then let (p, w) = WanMgr_GetIfaceData_locked (idx_uint (PC_activeInterfaceIdx c)) w
           in (c\<lparr>PC_pWanActiveIfaceData := p\<rparr>, w)
      else (c, w))"

definition PS_init :: "env \<Rightarrow> uint \<Rightarrow> policy_ctrl \<Rightarrow> world \<Rightarrow> (PS_thread \<times> world) option" where
  "PS_init e arg c w = do {
     let c = (WanMgr_Controller_PolicyCtrlInit c)\<lparr>PC_GroupInst := arg\<rparr>;
     (c, w) \<leftarrow> PS_UpdateControllerData c w;
     let (c, w) = PS_take_iface c w;
     ((st, c), w) \<leftarrow> PS_Transition_Start e c w;
     Some ((True, st, c), w)
   }"

fun PS_state :: "(world \<Rightarrow> uint) \<Rightarrow> env \<Rightarrow> WcPsPolicyState_t \<Rightarrow> policy_ctrl \<Rightarrow> world \<Rightarrow> PS_step" where
  "PS_state junk e STATE_PARALLEL_SCAN_SCANNING_INTERFACE c w = PS_State_ScanningInterface e c w"
| "PS_state junk e STATE_PARALLEL_SCAN_CHECK_RECONFIGURATION c w = PS_State_CheckReconfiguration junk e c w"
| "PS_state junk e STATE_PARALLEL_SCAN_RECONFIGURE_PLATFORM c w = PS_State_ReconfigurePaltform e c w"
| "PS_state junk e STATE_PARALLEL_SCAN_REBOOT c w = PS_State_Reboot c w"
| "PS_state junk e STATE_PARALLEL_SCAN_SELECTED_INTERFACE_UP c w = PS_State_SelectedInterfaceUp e c w"
| "PS_state junk e STATE_PARALLEL_SCAN_SELECTED_INTERFACE_DOWN c w = PS_State_SelectedInterfaceDown e c w"
| "PS_state junk e STATE_PARALLEL_SCAN_INTERFACE_TEAR_DOWN c w = PS_State_InterfaceTearDown c w"
| "PS_state junk e STATE_PARALLEL_SCAN_POLICY_EXIT c w = Some ((STATE_PARALLEL_SCAN_POLICY_EXIT, c), w)"
| "PS_state junk e STATE_PARALLEL_SCAN_POLICY_ERROR c w = Some ((STATE_PARALLEL_SCAN_POLICY_ERROR, c), w)"

definition PS_stops :: "WcPsPolicyState_t \<Rightarrow> bool" where
  "PS_stops st \<longleftrightarrow> st = STATE_PARALLEL_SCAN_POLICY_EXIT \<or> st = STATE_PARALLEL_SCAN_POLICY_ERROR"

definition PS_epilogue :: "policy_ctrl \<Rightarrow> world \<Rightarrow> (unit \<times> world) option" where
  "PS_epilogue c w = AW_epilogue c w"

definition PS_release :: "policy_ctrl \<Rightarrow> world \<Rightarrow> policy_ctrl \<times> world" where
  "PS_release c w =
     (if PC_pWanActiveIfaceData c \<noteq> None
      then (c\<lparr>PC_pWanActiveIfaceData := None\<rparr>, WanMgrDml_GetIfaceData_release w) else (c, w))"

fun PS_pass :: "(world \<Rightarrow> uint) \<Rightarrow> env \<Rightarrow> PS_thread \<Rightarrow> world \<Rightarrow> (PS_thread \<times> world) option" where
  "PS_pass junk e (True, st, c) w =
     (if \<not> select_ok e then Some ((True, st, c), w)
      else do {
        (c, w) \<leftarrow> PS_UpdateControllerData c w;
        let (c, w) = PS_take_iface c w;
        ((st', c), w) \<leftarrow> PS_state junk e st c w;
        let (c, w) = PS_release c w;
        if PS_stops st
        then do {
          (_, w) \<leftarrow> PS_epilogue c w;
          Some ((False, st', c), w)
        }
        else Some ((True, st', c), w)
      })"
| "PS_pass junk e (False, st, c) w = Some ((False, st, c), w)"

end
