(* ===== verification/WanParallelScan.thy ===== *)
theory WanParallelScan
  imports WanParallelPolicy WanPolicyLemmas
begin

text \<open>
  The choice of the parallel scan.  The loop of \<open>State_ScanningInterface\<close> only reads the data base, so it
  is a fold that can be left early; its result is described by what it says about the interfaces of the
  group.
\<close>

subsection \<open>Loops that only read\<close>

fun flow_fold :: "('i \<Rightarrow> 's \<Rightarrow> 's flow) \<Rightarrow> 'i list \<Rightarrow> 's \<Rightarrow> 's" where
  "flow_fold g [] s = s"
| "flow_fold g (i # is) s = (case g i s of Continue s' \<Rightarrow> flow_fold g is s' | Break s' \<Rightarrow> s')"

lemma for_loop_reads:
  assumes "\<And>i s. i \<in> set is \<Longrightarrow> body i s w = Some (g i s, w)"
  shows "for_loop is body s w = Some (flow_fold g is s, w)"
  using assms by (induction "is" arbitrary: s) (simp_all add: for_loop_Cons split: flow.split)

text \<open>The invariant speaks about the number of iterations done; a loop left early has its postcondition.\<close>

lemma flow_fold_upt:
  assumes "I 0 s0"
    and body: "\<And>m s. \<lbrakk>m < n; I m s\<rbrakk> \<Longrightarrow> (case g m s of Continue s' \<Rightarrow> I (Suc m) s' | Break s' \<Rightarrow> Q s')"
    and exit: "\<And>s. I n s \<Longrightarrow> Q s"
  shows "Q (flow_fold g [0..<n] s0)"
proof -
  have "Q (flow_fold g [m..<n] s)" if "m \<le> n" "I m s" for m s
    using that
  proof (induction "n - m" arbitrary: m s)
    case 0
    then show ?case using exit by simp
  next
    case (Suc l)
    then have m: "m < n" "[m..<n] = m # [Suc m..<n]" by (simp_all add: upt_conv_Cons)
    have IH: "Q (flow_fold g [Suc m..<n] s')" if "I (Suc m) s'" for s'
      using Suc.hyps(1) [of "Suc m" s'] Suc.hyps(2) m(1) that by simp
    from body [OF m(1) Suc.prems(2)] IH show ?case
      unfolding m(2) by (auto split: flow.splits)
  qed
  then show ?thesis using assms(1) by blast
qed

subsection \<open>The interfaces of the group\<close>

definition scan_cand :: "policy_ctrl \<Rightarrow> world \<Rightarrow> nat \<Rightarrow> bool" where
  "scan_cand c w i \<longleftrightarrow> i < unat (total_ifaces w) \<and> (\<exists>d. iface_at i w = Some d \<and> PS_candidate c d)"

definition scan_works :: "world \<Rightarrow> nat \<Rightarrow> bool" where
  "scan_works w i \<longleftrightarrow> (\<exists>d v. iface_at i w = Some d \<and> head_virtif d = Some v \<and> virtif_works v)"

definition scan_last :: "world \<Rightarrow> nat \<Rightarrow> bool" where
  "scan_last w i \<longleftrightarrow> (\<exists>d. iface_at i w = Some d \<and> Sel_ActiveLink (If_Selection d))"

definition scan_prio :: "world \<Rightarrow> nat \<Rightarrow> uint" where
  "scan_prio w i = (case iface_at i w of None \<Rightarrow> -1 | Some d \<Rightarrow> priority_uint d)"

text \<open>One iteration, over the predicates.\<close>

definition scan_note :: "world \<Rightarrow> nat \<Rightarrow> PS_scan \<Rightarrow> PS_scan" where
  "scan_note w i s = (if scan_last w i
     then s\<lparr>lastSelectedIfaceFound := True, highPriorityValidIface := of_nat i, highPriorityValue := -1\<rparr> else s)"

definition scan_valid :: "world \<Rightarrow> nat \<Rightarrow> PS_scan \<Rightarrow> PS_scan" where
  "scan_valid w i s = (if scan_prio w i \<le> highPriorityValue s
     then s\<lparr>highPriorityValidIface := of_nat i, highPriorityValue := scan_prio w i\<rparr> else s)"

definition scan_active :: "world \<Rightarrow> nat \<Rightarrow> PS_scan \<Rightarrow> PS_scan" where
  "scan_active w i s = (if scan_works w i \<and> scan_prio w i \<le> highPriorityActiveValue s
     then s\<lparr>scan_activeIdx := int i, highPriorityActiveValue := scan_prio w i\<rparr> else s)"

definition scan_at :: "policy_ctrl \<Rightarrow> world \<Rightarrow> nat \<Rightarrow> PS_scan \<Rightarrow> PS_scan flow" where
  "scan_at c w i s =
     (if \<not> scan_cand c w i then Continue s
      else if scan_last w i \<and> scan_works w i then Break ((scan_note w i s)\<lparr>scan_activeIdx := int i\<rparr>)
      else Continue (scan_active w i (scan_valid w i (scan_note w i s))))"

lemma PS_scan_all_eq:
  assumes wf: "wf_db w" and n: "PC_TotalIfaces c = total_ifaces w"
  shows "PS_scan_all c w = Some (flow_fold (scan_at c w) [0..<unat (total_ifaces w)] (PS_scan_start c), w)"
  unfolding PS_scan_all_def n
proof (rule for_loop_reads)
  fix i s
  assume "i \<in> set [0..<unat (total_ifaces w)]"
  then have i: "i < unat (total_ifaces w)" by simp
  with wf obtain d where d: "iface_at i w = Some d" "wf_shape i (iface_shape d)" by (rule wf_db_iface_at)
  from wf_shape_head [OF d(2)] obtain v where v: "head_virtif d = Some v" by blast
  show "with_iface (of_nat i) (Continue s) (\<lambda>k w. do {
         d \<leftarrow> iface_at k w;
         if PS_candidate c d then do { v \<leftarrow> head_virtif d; Some (PS_scan_iface i d v s, w) }
         else Some (Continue s, w)
       }) w = Some (scan_at c w i s, w)"
    using wf i d v index_bound [OF i]
    by (simp add: with_wf(2) [OF wf] scan_at_def scan_cand_def scan_works_def scan_last_def PS_scan_iface_def
        scan_note_def scan_valid_def scan_active_def scan_prio_def Let_def)
qed

subsection \<open>What the scan knows\<close>

text \<open>
  After the first \<open>m\<close> entries: none of them is a working last active link (the loop would have ended); the
  interface kept as active is the best of the working ones, the last of equals; and unless a last active
  link has been seen, the interface kept as valid is the best of all.
\<close>

definition scan_inv :: "policy_ctrl \<Rightarrow> world \<Rightarrow> nat \<Rightarrow> PS_scan \<Rightarrow> bool" where
  "scan_inv c w m s \<longleftrightarrow>
     (\<forall>j < m. scan_cand c w j \<longrightarrow> \<not> (scan_last w j \<and> scan_works w j)) \<and>
     (lastSelectedIfaceFound s \<longleftrightarrow> (\<exists>j < m. scan_cand c w j \<and> scan_last w j)) \<and>
     highPriorityActiveValue s \<le> MAX_PRIORITY_VALUE \<and>
     (\<forall>j < m. scan_cand c w j \<and> scan_works w j \<and> scan_prio w j \<le> MAX_PRIORITY_VALUE \<longrightarrow>
        highPriorityActiveValue s \<le> scan_prio w j \<and> scan_activeIdx s \<noteq> -1) \<and>
     (scan_activeIdx s = -1 \<and> highPriorityActiveValue s = MAX_PRIORITY_VALUE \<or>
      (\<exists>k < m. scan_activeIdx s = int k \<and> scan_cand c w k \<and> scan_works w k \<and>
         highPriorityActiveValue s = scan_prio w k)) \<and>
     (highPriorityValidIface s = -1 \<longrightarrow> highPriorityValue s = MAX_PRIORITY_VALUE \<and> scan_activeIdx s = -1) \<and>
     (highPriorityValidIface s \<noteq> -1 \<and> \<not> lastSelectedIfaceFound s \<longrightarrow>
        (\<exists>k < m. highPriorityValidIface s = of_nat k \<and> scan_cand c w k \<and> highPriorityValue s = scan_prio w k)) \<and>
     (\<not> lastSelectedIfaceFound s \<longrightarrow> highPriorityValue s \<le> MAX_PRIORITY_VALUE \<and>
        (\<forall>j < m. scan_cand c w j \<and> scan_prio w j \<le> MAX_PRIORITY_VALUE \<longrightarrow> highPriorityValue s \<le> scan_prio w j))"

lemma scan_inv_start: "PC_activeInterfaceIdx c = -1 \<Longrightarrow> scan_inv c w 0 (PS_scan_start c)"
  by (simp add: scan_inv_def PS_scan_start_def)

text \<open>Each variable is kept by one of the three updates.\<close>

lemma scan_updates [simp]:
  "scan_activeIdx (scan_note w i s) = scan_activeIdx s" "scan_activeIdx (scan_valid w i s) = scan_activeIdx s"
  "highPriorityActiveValue (scan_note w i s) = highPriorityActiveValue s"
  "highPriorityActiveValue (scan_valid w i s) = highPriorityActiveValue s"
  "lastSelectedIfaceFound (scan_note w i s) = (scan_last w i \<or> lastSelectedIfaceFound s)"
  "lastSelectedIfaceFound (scan_valid w i s) = lastSelectedIfaceFound s"
  "lastSelectedIfaceFound (scan_active w i s) = lastSelectedIfaceFound s"
  "highPriorityValidIface (scan_active w i s) = highPriorityValidIface s"
  "highPriorityValue (scan_active w i s) = highPriorityValue s"
  by (simp_all add: scan_note_def scan_valid_def scan_active_def)

lemma scan_index_ne:
  assumes "wf_db w" "i < unat (total_ifaces w)"
  shows "(of_nat i :: uint) \<noteq> -1"
proof
  assume "(of_nat i :: uint) = -1"
  moreover have "(of_nat i :: uint) < total_ifaces w" using index_bound(2) [OF assms(2)] .
  ultimately show False using idx_uint_none [OF assms(1)] by (simp add: idx_uint_def)
qed

lemma scan_inv_skip:
  assumes "scan_inv c w m s" "\<not> scan_cand c w m"
  shows "scan_inv c w (Suc m) s"
proof -
  have m: "(\<forall>j < Suc m. scan_cand c w j \<longrightarrow> P j) \<longleftrightarrow> (\<forall>j < m. scan_cand c w j \<longrightarrow> P j)"
    "(\<forall>j < Suc m. scan_cand c w j \<and> R j \<longrightarrow> P j) \<longleftrightarrow> (\<forall>j < m. scan_cand c w j \<and> R j \<longrightarrow> P j)"
    "(\<exists>j < Suc m. scan_cand c w j \<and> P j) \<longleftrightarrow> (\<exists>j < m. scan_cand c w j \<and> P j)" for P R
    using assms(2) by (auto simp: less_Suc_eq)
  from assms(1) show ?thesis
    unfolding scan_inv_def m by (auto simp: less_Suc_eq)
qed

lemma scan_inv_step:
  assumes wf: "wf_db w" and m: "m < unat (total_ifaces w)" and inv: "scan_inv c w m s"
    and cand: "scan_cand c w m" and go: "\<not> (scan_last w m \<and> scan_works w m)"
  shows "scan_inv c w (Suc m) (scan_active w m (scan_valid w m (scan_note w m s)))"
proof -
  let ?s = "scan_active w m (scan_valid w m (scan_note w m s))"
  note ne = scan_index_ne [OF wf m]
  have max: "highPriorityActiveValue s \<le> MAX_PRIORITY_VALUE" using inv by (simp add: scan_inv_def)
  have c1: "\<forall>j < Suc m. scan_cand c w j \<longrightarrow> \<not> (scan_last w j \<and> scan_works w j)"
    using inv go by (auto simp: scan_inv_def less_Suc_eq)
  have c2: "lastSelectedIfaceFound ?s \<longleftrightarrow> (\<exists>j < Suc m. scan_cand c w j \<and> scan_last w j)"
    using inv cand by (auto simp: scan_inv_def less_Suc_eq)
  have c3: "highPriorityActiveValue ?s \<le> MAX_PRIORITY_VALUE"
    using max by (auto simp: scan_active_def)
  have c4: "\<forall>j < Suc m. scan_cand c w j \<and> scan_works w j \<and> scan_prio w j \<le> MAX_PRIORITY_VALUE \<longrightarrow>
      highPriorityActiveValue ?s \<le> scan_prio w j \<and> scan_activeIdx ?s \<noteq> -1"
    using inv max by (auto simp: scan_inv_def scan_active_def less_Suc_eq)
  have c5: "scan_activeIdx ?s = -1 \<and> highPriorityActiveValue ?s = MAX_PRIORITY_VALUE \<or>
      (\<exists>k < Suc m. scan_activeIdx ?s = int k \<and> scan_cand c w k \<and> scan_works w k \<and>
         highPriorityActiveValue ?s = scan_prio w k)"
    using inv cand by (auto simp: scan_inv_def scan_active_def less_Suc_eq)
  have c6: "highPriorityValidIface ?s = -1 \<longrightarrow> highPriorityValue ?s = MAX_PRIORITY_VALUE \<and> scan_activeIdx ?s = -1"
    using inv ne max by (auto simp: scan_inv_def scan_active_def scan_valid_def scan_note_def split: if_splits)
  have c7: "highPriorityValidIface ?s \<noteq> -1 \<and> \<not> lastSelectedIfaceFound ?s \<longrightarrow>
      (\<exists>k < Suc m. highPriorityValidIface ?s = of_nat k \<and> scan_cand c w k \<and> highPriorityValue ?s = scan_prio w k)"
    using inv cand by (auto simp: scan_inv_def scan_valid_def scan_note_def less_Suc_eq)
  have c8: "\<not> lastSelectedIfaceFound ?s \<longrightarrow> highPriorityValue ?s \<le> MAX_PRIORITY_VALUE \<and>
      (\<forall>j < Suc m. scan_cand c w j \<and> scan_prio w j \<le> MAX_PRIORITY_VALUE \<longrightarrow> highPriorityValue ?s \<le> scan_prio w j)"
    using inv by (auto simp: scan_inv_def scan_valid_def scan_note_def less_Suc_eq)
  show ?thesis
    unfolding scan_inv_def using c1 c2 c3 c4 c5 c6 c7 c8 by blast
qed

text \<open>The loop ends early at the first working last active link, or has seen every interface.\<close>

definition scan_result :: "policy_ctrl \<Rightarrow> world \<Rightarrow> PS_scan \<Rightarrow> bool" where
  "scan_result c w s \<longleftrightarrow>
     (\<exists>k. scan_activeIdx s = int k \<and> highPriorityValidIface s = of_nat k \<and> scan_cand c w k \<and> scan_last w k \<and>
        scan_works w k) \<or>
     scan_inv c w (unat (total_ifaces w)) s"

lemma scan_result:
  assumes wf: "wf_db w" and idx: "PC_activeInterfaceIdx c = -1"
  shows "scan_result c w (flow_fold (scan_at c w) [0..<unat (total_ifaces w)] (PS_scan_start c))"
proof (rule flow_fold_upt [where I = "scan_inv c w"])
  show "scan_inv c w 0 (PS_scan_start c)" by (rule scan_inv_start [OF idx])
  show "scan_result c w s" if "scan_inv c w (unat (total_ifaces w)) s" for s
    using that by (simp add: scan_result_def)
  fix m s
  assume m: "m < unat (total_ifaces w)" and inv: "scan_inv c w m s"
  show "case scan_at c w m s of Continue s' \<Rightarrow> scan_inv c w (Suc m) s' | Break s' \<Rightarrow> scan_result c w s'"
    using scan_inv_skip [OF inv] scan_inv_step [OF wf m inv]
    by (auto simp: scan_at_def scan_result_def scan_note_def)
qed

end
