(* ===== verification/WanParallelLemmas.thy ===== *)
theory WanParallelLemmas
  imports WanParallelScan WanAutoSpec
begin

text \<open>
  The operations of the parallel scan policy, judged by what they change: the thread of a group writes
  the selection status of interfaces of its own group and the selected interface of its own group, and
  nothing else of the selection.  Every step function is shown to return, to stay within that, and to
  follow the state diagram.
\<close>

subsection \<open>Keeping to a group\<close>

definition group_of :: "nat \<Rightarrow> world \<Rightarrow> uint option" where
  "group_of k w = map_option (\<lambda>d. Sel_Group (If_Selection d)) (iface_at k w)"

text \<open>
  \<open>own inst act w w'\<close>: no interface changes its group; the status of the interfaces of other groups, but
  for the interface \<open>act\<close> the thread works on, and the selected interface of other groups are as they were.
\<close>

definition own :: "uint \<Rightarrow> int \<Rightarrow> world \<Rightarrow> world \<Rightarrow> bool" where
  "own inst act w w' \<longleftrightarrow> (\<forall>k. group_of k w' = group_of k w) \<and>
     (\<forall>k. group_of k w \<noteq> Some inst \<and> int k \<noteq> act \<longrightarrow> status_of k w' = status_of k w) \<and>
     (\<forall>g. g \<noteq> unat (inst - 1) \<longrightarrow> snd (sel_view w') g = snd (sel_view w) g)"

lemma group_of_frame [simp]:
  "group_of k (mlock w) = group_of k w" "group_of k (pthread_mutex_unlock w) = group_of k w"
  "group_of k (upd_group g f w) = group_of k w" "group_of k (upd_config h w) = group_of k w"
  by (simp_all add: group_of_def)

lemma group_of_upd_iface [simp]:
  "(\<And>x. Sel_Group (If_Selection (f x)) = Sel_Group (If_Selection x)) \<Longrightarrow>
     group_of j (upd_iface k f w) = group_of j w"
  by (auto simp: group_of_def option.map_comp comp_def)

lemma group_of_writes [simp]:
  "group_of j (set_status k st w) = group_of j w" "group_of j (set_ActiveLink k v w) = group_of j w"
  "group_of j (set_VirtIf_Status k vs w) = group_of j w" "group_of j (set_VirtIfChanged k v w) = group_of j w"
  by (simp_all add: set_status_def set_ActiveLink_def set_VirtIf_Status_def set_VirtIfChanged_def)

lemma status_of_lock [simp]:
  "status_of k (mlock w) = status_of k w" "status_of k (pthread_mutex_unlock w) = status_of k w"
  by (simp_all add: status_of_def)

interpretation own: effects "own inst act" for inst act
  by unfold_locales (auto simp: own_def)

text \<open>A step that keeps the data base well-formed, the mutex as it was, and to its group.\<close>

definition mine :: "uint \<Rightarrow> int \<Rightarrow> world \<Rightarrow> world \<Rightarrow> bool" where
  "mine inst act w w' \<longleftrightarrow> keeps w w' \<and> own inst act w w'"

named_theorems mine_intros \<open>writes that keep to the group\<close>

lemma mine_refl [mine_intros]: "wf_db w \<Longrightarrow> mine inst act w w"
  by (simp add: mine_def keeps_refl own.eff_refl)

lemma mine_trans: "mine inst act w w' \<Longrightarrow> mine inst act w' w'' \<Longrightarrow> mine inst act w w''"
  by (auto simp: mine_def intro: keeps_trans own.eff_trans)

lemma mine_same_db:
  assumes db: "gWanMgrDataBase w'' = gWanMgrDataBase w'" and "mine inst act w w'"
  shows "mine inst act w w''"
  using assms(2) keeps_same_db [OF db] sel_view_same_db [OF db] same_db_reads [OF db]
  by (simp add: mine_def own_def group_of_def status_of_def)

lemma mine_tables: "\<lbrakk>mine inst act w w'; keeps w' w''; same_tables w' w''\<rbrakk> \<Longrightarrow> mine inst act w w''"
  by (rule mine_trans, assumption) (simp add: mine_def own_def group_of_def status_of_def same_tables_at)

lemma mine_bus [mine_intros]:
  assumes "mine inst act w w'"
  shows "mine inst act w (snd (DmlSetWanActiveLinkInPSMDB e i b w'))"
    "mine inst act w (snd (WanMgr_RdkBus_AddIntfToLanBridge e n b w'))"
    "mine inst act w (snd (WanMgr_RdkBus_GetParamValues e n w'))"
    "mine inst act w (emit ev w')" "mine inst act w (Wanmgr_TriggerReboot e w')"
    "mine inst act w (remove_from_bridge e d w')"
  using assms by (auto intro: mine_same_db simp: frame_simps remove_from_bridge_def)

lemma mine_config [mine_intros]: "mine inst act w w' \<Longrightarrow> mine inst act w (upd_config f w')"
  by (simp add: mine_def own_def keeps_upd_config status_of_def)

lemma mine_upd_iface:
  "\<lbrakk>mine inst act w w'; \<And>x. iface_shape (f x) = iface_shape x;
    \<And>x. Sel_Status (If_Selection (f x)) = Sel_Status (If_Selection x);
    \<And>x. Sel_Group (If_Selection (f x)) = Sel_Group (If_Selection x)\<rbrakk> \<Longrightarrow> mine inst act w (upd_iface k f w')"
  by (simp add: mine_def own_def keeps_upd_iface status_of_def)

lemma mine_writes [mine_intros]:
  assumes "mine inst act w w'"
  shows "mine inst act w (set_ActiveLink k v w')" "mine inst act w (set_VirtIfChanged k v w')"
    "mine inst act w (set_VirtIf_Status k vs w')"
  unfolding set_ActiveLink_def set_VirtIfChanged_def set_VirtIf_Status_def
  by (rule mine_upd_iface [OF assms]; (simp add: iface_shape_upd_head_virtif; fail | simp add: iface_shape_def))+

lemma mine_set_status [mine_intros]:
  "\<lbrakk>mine inst act w w'; group_of k w' = Some inst \<or> int k = act\<rbrakk> \<Longrightarrow> mine inst act w (set_status k st w')"
  by (auto simp: mine_def own_def status_of_set_status)

lemma mine_upd_group:
  "\<lbrakk>mine inst act w w'; \<And>g. G_SelectedInterface (f g) = G_SelectedInterface g\<rbrakk> \<Longrightarrow> mine inst act w (upd_group k f w')"
  by (simp add: mine_def own_def keeps_upd_group status_of_def)

lemma mine_if: "\<lbrakk>b \<Longrightarrow> mine inst act w u; \<not> b \<Longrightarrow> mine inst act w v\<rbrakk> \<Longrightarrow> mine inst act w (if b then u else v)"
  by simp

lemma own_return: "\<lbrakk>mine inst act w w'; R r\<rbrakk> \<Longrightarrow> okx (own inst act) w (Some (r, w')) R"
  by (rule own.return) (simp_all add: mine_def)

lemma own_tables: "okx same_tables w m R \<Longrightarrow> okx (own inst act) w m R"
  by (erule okx_mono) (simp_all add: own_def group_of_def status_of_def same_tables_at)

lemma own_step: "\<lbrakk>mine inst act w w'; okx (own inst act) w' m R\<rbrakk> \<Longrightarrow> okx (own inst act) w m R"
  by (rule own.step [of w w']) (simp_all add: mine_def)

lemma okx_deref: "\<lbrakk>p = Some x; okx eff w (f x) R\<rbrakk> \<Longrightarrow> okx eff w (Option.bind p f) R"
  by simp

lemma group_of_at: "iface_at k w = Some d \<Longrightarrow> group_of k w = Some (Sel_Group (If_Selection d))"
  by (simp add: group_of_def)

text \<open>The selected interface of the group itself.\<close>

lemma own_SetGroupSelectedIface:
  assumes wf: "wf_db w"
  shows "okx (own inst act) w (WanMgr_SetGroupSelectedIface inst x w) (\<lambda>_. True)"
proof -
  from SetGroupSelectedIface [OF wf, of inst x 0] obtain w' where w': "keeps w w'"
    "WanMgr_SetGroupSelectedIface inst x w = Some (ANSC_STATUS_SUCCESS, w')"
    "sel_view w' = sel_upd inst 0 (Some x) None (sel_view w)" by blast
  have "group_of k w' = group_of k w" for k
    using w'(2) unfolding WanMgr_SetGroupSelectedIface_def with_wf(1) [OF wf] by (auto split: if_splits)
  with w' show ?thesis
    by (cases "sel_view w") (auto simp: okx_def ok_def own_def status_of_def)
qed

subsection \<open>Helpers\<close>

text \<open>The start of a loop body: the entry is looked up, and it is one of the table.\<close>

lemma own_iface:
  assumes wf: "wf_db w" and null: "R d"
    and body: "\<And>x v. \<lbrakk>iface_at (unat i) w = Some x; head_virtif x = Some v;
        group_of (unat i) (mlock w) = Some (Sel_Group (If_Selection x)); wf_db (mlock w)\<rbrakk> \<Longrightarrow>
      okx (own inst act) (mlock w) (f (unat i) x (mlock w)) R"
  shows "okx (own inst act) w (with_iface i d (\<lambda>k w. do { x \<leftarrow> iface_at k w; f k x w }) w) R"
  by (rule own.iface [OF wf], rule null, rule okx_deref, simp only: lock_at, rule body)
    (simp_all add: group_of_def)

lemma own_CheckReconfiguring:
  assumes wf: "wf_db w"
  shows "okx (own inst act) w (PS_CheckIfPlatformReconfiguringRequired e c w) (\<lambda>_. True)"
  unfolding PS_CheckIfPlatformReconfiguringRequired_def
proof (rule own.bind_pair, rule own.loop [where R = "\<lambda>_. True", OF wf])
  fix i and s :: "uint \<times> bool" and u
  assume wfu: "wf_db u"
  have query: "mine inst act u' (snd (WanMgr_RdkBus_GetParamValues e q u'))" if "wf_db u'" for u' q
    using that by (intro mine_intros)
  show "okx (own inst act) u (with_iface (of_nat i) (Continue s) (\<lambda>k w. do {
         d \<leftarrow> iface_at k w;
         Some (if PC_GroupInst c = Sel_Group (If_Selection d) \<and> strstr (If_BaseInterface d) ''Ethernet''
               then let index = (case scan_index (If_BaseInterface d) of None \<Rightarrow> fst s | Some v \<Rightarrow> v)
                    in case WanMgr_RdkBus_GetParamValues e (ETH_HW_CONFIGURATION_DM index) w of
                         (None, w) \<Rightarrow> (Break (index, False), w)
                       | (Some dmValue, w) \<Rightarrow>
                           let w = (if \<not> PS_selected c i
                                    then snd (WanMgr_RdkBus_AddIntfToLanBridge e (If_BaseInterface d) True w) else w)
                           in (if PS_selected c i \<and> \<not> is_true dmValue then Break (index, True)
                               else if \<not> PS_selected c i \<and> is_true dmValue then Break (index, True)
                               else Continue (index, False), w)
               else (Continue s, w))
       }) u) (\<lambda>_. True)"
  proof (rule own_iface [OF wfu], simp, rule okx_Some_if, goal_cases)
    case (1 d v)
    let ?q = "ETH_HW_CONFIGURATION_DM (case scan_index (If_BaseInterface d) of None \<Rightarrow> fst s | Some v \<Rightarrow> v)"
    obtain r u1 where r: "WanMgr_RdkBus_GetParamValues e ?q (mlock u) = (r, u1)" by fastforce
    with query [OF 1(4), of ?q] have "mine inst act (mlock u) u1" by simp
    then show ?case by (cases r) (simp_all add: r Let_def own_return mine_intros)
  qed (rule own.return_same; simp)
qed (auto intro: own.return_same)

text \<open>The pointer of a controller that works on an interface.\<close>

lemma own_CheckRescan:
  assumes wf: "wf_db w" and a: "PC_pWanActiveIfaceData c = Some k" "iface_at k w = Some a" "head_virtif a = Some v"
  shows "okx (own inst act) w (PS_CheckRescanRequired c w)
    (\<lambda>r. snd r = c \<or> snd r = c\<lparr>PC_ResetSelectedInterface := False\<rparr>)"
proof -
  have higher: "okx (own inst act) u (with_iface (of_nat i) (Continue s) (\<lambda>k w. do {
           d \<leftarrow> iface_at k w;
           Some (if PC_GroupInst c = Sel_Group (If_Selection d) \<and> Sel_Enable (If_Selection d) \<and>
                    \<not> PS_selected c i \<and> Sel_Priority (If_Selection d) < Sel_Priority (If_Selection a)
                 then Break True else Continue s, w)
         }) u) (\<lambda>_. True)" if "wf_db u" for i s u
    by (rule own_iface [OF that], simp) (simp add: own.return_same)
  have reset: "okx (own inst act) u (with_group (PC_GroupInst c - 1) c (\<lambda>g w.
           Some (c\<lparr>PC_ResetSelectedInterface := False\<rparr>,
                 upd_group g (\<lambda>g. g\<lparr>G_ResetSelectedInterface := False\<rparr>) w)) u)
      (\<lambda>c'. c' = c \<or> c' = c\<lparr>PC_ResetSelectedInterface := False\<rparr>)" if "wf_db u" for u
    by (rule own.group [OF that], simp, rule own_return, rule mine_upd_group) (simp_all add: mine_refl)
  show ?thesis
    unfolding PS_CheckRescanRequired_def
    apply (rule okx_deref [OF a(1)], rule okx_deref [OF a(2)])
    apply (rule okx_deref [where x = "If_BaseInterfaceStatus a \<noteq> WAN_IFACE_PHY_STATUS_UP \<or> VI_Status v \<noteq> WAN_IFACE_STATUS_UP"])
     apply (simp add: a(3))
    apply (rule okx_if, rule own.return_same [OF wf], simp)
    apply (rule own.bind_pair, rule own.loop [where R = "\<lambda>_. True", OF wf], simp, simp add: higher)
    apply (rule okx_if, rule own.return_same, assumption, simp)
    apply (rule own.bind_pair, rule reset, assumption)
    apply (rule own.return_same, assumption, simp)
    done
qed

lemma own_InitialScanComplete: "wf_db w \<Longrightarrow> okx (own inst act) w (set_InitialScanComplete g w) (\<lambda>_. True)"
  unfolding set_InitialScanComplete_def
  by (rule own.group, assumption, simp, rule own_return, rule mine_upd_group) (simp_all add: mine_refl)

lemma GetIfaceData_locked_wf:
  assumes "wf_db w" "i < total_ifaces w"
  shows "WanMgr_GetIfaceData_locked i w = (Some (unat i), mlock w)"
  using assms by (auto simp: WanMgr_GetIfaceData_locked_def wf_db_def pthread_mutex_lock_def split: option.splits)

text \<open>A critical section written out: lock, run, release.\<close>

lemma own_locked:
  assumes wf: "wf_db w" and m: "okx (own inst act) (mlock w) m R"
  shows "\<exists>r w'. m = Some (r, w') \<and> R r \<and> mine inst act w (pthread_mutex_unlock w')"
proof -
  from m obtain r w' where "m = Some (r, w')" "keeps (mlock w) w'" "own inst act (mlock w) w'" "R r" by (rule okxE)
  with keeps_unlock [of w w'] wf_db_mutex [OF wf] show ?thesis
    by (auto simp: mine_def own.eff_lock)
qed

subsection \<open>Starting the machines of an interface\<close>

text \<open>The environment can start every machine it is asked to.\<close>

definition machines_start :: "env \<Rightarrow> bool" where
  "machines_start e \<longleftrightarrow> (\<forall>l. malloc_ok e l \<and> thread_create e l \<noteq> None)"

lemma start_virtif_all:
  assumes "machines_start e" "AW_start_virtif e j i r w = Some (f, w')"
  shows "f = Continue r"
proof -
  have "WanMgr_StartInterfaceStateMachine e j (int i) u =
      (True, emit (ThreadCreate (InterfaceSMThread j (int i))) u)" for u
    using assms(1) by (simp add: machines_start_def WanMgr_StartInterfaceStateMachine_def)
  with assms(2) show ?thesis
    by (auto simp: AW_start_virtif_def split: Option.bind_splits if_splits option.splits)
qed

lemma start_all:
  assumes e: "machines_start e" and wf: "wf_db w" and idx: "idx_uint j < total_ifaces w"
    and d: "iface_at (unat (idx_uint j)) w = Some d"
  shows "okx same_tables w (for_loop [0..<unat (If_NoOfVirtIfs d)] (AW_start_virtif e j) True w) (\<lambda>r. r)"
proof (rule tab.loop [OF wf])
  fix i r u
  assume i: "i \<in> set [0..<unat (If_NoOfVirtIfs d)]" and u: "wf_db u" "same_tables w u" and r: "r"
  have "okx same_tables u (AW_start_virtif e j i r u) (\<lambda>_. True)"
    by (rule start_virtif(1)) (use u i idx d in \<open>simp_all add: same_tables_at\<close>)
  then show "okx same_tables u (AW_start_virtif e j i r u) (\<lambda>f. flow_val f)"
    using start_virtif_all [OF e] r by (fastforce simp: okx_def ok_def)
qed simp

lemma NewInterfaceConnected:
  assumes e: "machines_start e" and wf: "wf_db w" and i: "i < unat (total_ifaces w)" and g: "group_of i w = Some inst"
  shows "okx (own inst act) w (PS_Transition_NewInterfaceConnected e i w) (\<lambda>st. st = STATE_PARALLEL_SCAN_SCANNING_INTERFACE)"
proof -
  note at = index_bound [OF i]
  from wf i obtain d where d: "iface_at i w = Some d" by (rule wf_db_iface_at)
  let ?w = "set_VirtIfChanged i False (set_status i WAN_IFACE_VALIDATING (mlock w))"
  let ?d = "(upd_Selection (\<lambda>s. s\<lparr>Sel_Status := WAN_IFACE_VALIDATING\<rparr>) d)\<lparr>If_VirtIfChanged := False\<rparr>"
  have m: "mine inst act (mlock w) ?w" by (intro mine_intros) (use wf g in simp_all)
  then have wf1: "wf_db ?w" and t: "total_ifaces ?w = total_ifaces w" by (simp_all add: mine_def keeps_def)
  have j: "unat (idx_uint (int i)) = i" "idx_uint (int i) < total_ifaces ?w"
    using at t by (simp_all add: idx_uint_def)
  have d1: "iface_at (unat (idx_uint (int i))) ?w = Some ?d"
    unfolding j(1) using d by (simp add: set_VirtIfChanged_def set_status_def)
  have n: "If_NoOfVirtIfs ?d = If_NoOfVirtIfs d" by (simp add: upd_Selection_def)
  from own_step [OF m own_tables [OF start_all [OF e wf1 j(2) d1]]]
  have "okx (own inst act) (mlock w) (for_loop [0..<unat (If_NoOfVirtIfs d)] (AW_start_virtif e (int i)) True ?w) (\<lambda>r. r)"
    unfolding n .
  from own_locked [OF wf this] obtain w1 where
    "for_loop [0..<unat (If_NoOfVirtIfs d)] (AW_start_virtif e (int i)) True ?w = Some (True, w1)"
    "mine inst act w (pthread_mutex_unlock w1)" by auto
  then show ?thesis
    unfolding PS_Transition_NewInterfaceConnected_def GetIfaceData_locked_wf [OF wf at(2)]
    using at d by (simp add: release_defs own_return)
qed

end
