(* ===== verification/WanParallelSpec.thy ===== *)
theory WanParallelSpec
  imports WanParallelLemmas
begin

text \<open>
  The state diagram of the parallel scan policy, and the proof that every state function follows it,
  returns, and keeps to the group of its thread.
\<close>

subsection \<open>The diagram\<close>

text \<open>
  Which states may follow a state.  The error state follows only the scan: a thread that has selected an
  interface is torn down in an orderly way, a thread that scans has no interface and cannot be.
\<close>

fun PS_next :: "WcPsPolicyState_t \<Rightarrow> WcPsPolicyState_t set" where
  "PS_next STATE_PARALLEL_SCAN_SCANNING_INTERFACE =
     {STATE_PARALLEL_SCAN_SCANNING_INTERFACE, STATE_PARALLEL_SCAN_CHECK_RECONFIGURATION, STATE_PARALLEL_SCAN_POLICY_ERROR}"
| "PS_next STATE_PARALLEL_SCAN_CHECK_RECONFIGURATION =
     {STATE_PARALLEL_SCAN_RECONFIGURE_PLATFORM, STATE_PARALLEL_SCAN_SELECTED_INTERFACE_UP,
      STATE_PARALLEL_SCAN_INTERFACE_TEAR_DOWN}"
| "PS_next STATE_PARALLEL_SCAN_RECONFIGURE_PLATFORM =
     {STATE_PARALLEL_SCAN_REBOOT, STATE_PARALLEL_SCAN_SELECTED_INTERFACE_UP}"
| "PS_next STATE_PARALLEL_SCAN_REBOOT = {STATE_PARALLEL_SCAN_REBOOT}"
| "PS_next STATE_PARALLEL_SCAN_SELECTED_INTERFACE_UP =
     {STATE_PARALLEL_SCAN_SELECTED_INTERFACE_UP, STATE_PARALLEL_SCAN_SELECTED_INTERFACE_DOWN,
      STATE_PARALLEL_SCAN_SCANNING_INTERFACE, STATE_PARALLEL_SCAN_INTERFACE_TEAR_DOWN}"
| "PS_next STATE_PARALLEL_SCAN_SELECTED_INTERFACE_DOWN =
     {STATE_PARALLEL_SCAN_SELECTED_INTERFACE_DOWN, STATE_PARALLEL_SCAN_SELECTED_INTERFACE_UP,
      STATE_PARALLEL_SCAN_SCANNING_INTERFACE, STATE_PARALLEL_SCAN_INTERFACE_TEAR_DOWN}"
| "PS_next STATE_PARALLEL_SCAN_INTERFACE_TEAR_DOWN =
     {STATE_PARALLEL_SCAN_INTERFACE_TEAR_DOWN, STATE_PARALLEL_SCAN_POLICY_EXIT}"
| "PS_next STATE_PARALLEL_SCAN_POLICY_EXIT = {STATE_PARALLEL_SCAN_POLICY_EXIT}"
| "PS_next STATE_PARALLEL_SCAN_POLICY_ERROR = {STATE_PARALLEL_SCAN_POLICY_ERROR}"

text \<open>Whether the policy has an interface in a state.\<close>

definition PS_idx_ok :: "uint \<Rightarrow> WcPsPolicyState_t \<Rightarrow> int \<Rightarrow> bool" where
  "PS_idx_ok n st i \<longleftrightarrow> valid_idx n i \<and>
     (st = STATE_PARALLEL_SCAN_SCANNING_INTERFACE \<longrightarrow> i = -1) \<and>
     (st \<notin> {STATE_PARALLEL_SCAN_SCANNING_INTERFACE, STATE_PARALLEL_SCAN_POLICY_EXIT, STATE_PARALLEL_SCAN_POLICY_ERROR}
        \<longrightarrow> i \<noteq> -1)"

text \<open>The fields of the controller that no state function changes.\<close>

definition PS_frame :: "policy_ctrl \<Rightarrow> nat option \<times> uint \<times> uint \<times> bool \<times> bool" where
  "PS_frame c = (PC_pWanActiveIfaceData c, PC_GroupInst c, PC_TotalIfaces c, PC_WanEnable c, PC_GroupCfgChanged c)"

lemma PS_frame_upd [simp]:
  "PS_frame (c\<lparr>PC_SelectionTimeOutStart := x\<rparr>) = PS_frame c"
  "PS_frame (c\<lparr>PC_InterfaceSelectionTimeOut := y\<rparr>) = PS_frame c"
  "PS_frame (c\<lparr>PC_activeInterfaceIdx := i\<rparr>) = PS_frame c"
  "PS_frame (c\<lparr>PC_ResetSelectedInterface := v\<rparr>) = PS_frame c"
  "PS_frame (max_timeout d c) = PS_frame c"
  "PC_activeInterfaceIdx (max_timeout d c) = PC_activeInterfaceIdx c"
  "PC_GroupInst (max_timeout d c) = PC_GroupInst c"
  by (simp_all add: PS_frame_def max_timeout_def)

text \<open>\<open>PS_post\<close>: what a state function started in \<open>st\<close> with controller \<open>c\<close> returns.\<close>

definition PS_post :: "uint \<Rightarrow> policy_ctrl \<Rightarrow> WcPsPolicyState_t \<Rightarrow> WcPsPolicyState_t \<times> policy_ctrl \<Rightarrow> bool" where
  "PS_post n c st r \<longleftrightarrow> fst r \<in> PS_next st \<and> PS_frame (snd r) = PS_frame c \<and>
     PS_idx_ok n (fst r) (PC_activeInterfaceIdx (snd r))"

subsection \<open>Transitions\<close>

lemma own_Start:
  assumes wf: "wf_db w"
  shows "okx (own inst act) w (PS_Transition_Start e c w) (\<lambda>r. fst r = STATE_PARALLEL_SCAN_SCANNING_INTERFACE \<and>
    PS_frame (snd r) = PS_frame c \<and> PC_activeInterfaceIdx (snd r) = PC_activeInterfaceIdx c)"
proof -
  let ?R = "\<lambda>c'. PS_frame c' = PS_frame c \<and> PC_activeInterfaceIdx c' = PC_activeInterfaceIdx c"
  have body: "okx (own inst act) u (with_iface (of_nat i) c' (\<lambda>k w. do {
       d \<leftarrow> iface_at k w;
       Some (if PC_GroupInst c' = Sel_Group (If_Selection d)
             then (if Sel_Enable (If_Selection d) then max_timeout d c' else c',
                   remove_from_bridge e d
                     (if \<not> Sel_Enable (If_Selection d) \<and> Sel_ActiveLink (If_Selection d)
                      then snd (DmlSetWanActiveLinkInPSMDB e (of_nat i) False w) else w))
             else (c', w))
     }) u) ?R" if "wf_db u" "?R c'" for i c' u
    by (rule own_iface [OF that(1)], simp add: that(2))
      (intro okx_Some_if own_return mine_intros mine_if; simp add: that(2))
  show ?thesis
    unfolding PS_Transition_Start_def
    by (rule own.bind_pair, rule own.loop_continue [where R = ?R, OF wf], simp, rule body, assumption, assumption,
        rule own.bind_pair, rule own_InitialScanComplete, assumption, rule own.return_same) simp_all
qed

lemma own_SelectingInterface:
  assumes wf: "wf_db w" and inst: "PC_GroupInst c = inst"
  shows "okx (own inst act) w (PS_Transition_SelectingInterface e c w) (\<lambda>r.
    fst r = STATE_PARALLEL_SCAN_CHECK_RECONFIGURATION \<and> snd r = c\<lparr>PC_SelectionTimeOutStart := 0\<rparr>)"
proof -
  let ?c = "c\<lparr>PC_SelectionTimeOutStart := 0\<rparr>"
  have body: "okx (own inst act) u (with_iface (of_nat i) () (\<lambda>k w. do {
       d \<leftarrow> iface_at k w;
       Some ((), if PC_GroupInst ?c = Sel_Group (If_Selection d) \<and> Sel_Enable (If_Selection d)
                 then PS_mark_selected e i k (PS_selected ?c i) w else w)
     }) u) (\<lambda>_. True)" if "wf_db u" for i u
    by (rule own_iface [OF that], simp, rule own_return, rule mine_if; (simp add: mine_refl; fail)?)
      (unfold PS_mark_selected_def, intro mine_intros; simp add: inst)
  have group: "okx (own inst act) u (WanMgr_SetGroupSelectedIface (PC_GroupInst ?c) x u) (\<lambda>_. True)"
    if "wf_db u" for x u using that by (simp add: inst own_SetGroupSelectedIface)
  show ?thesis
    unfolding PS_Transition_SelectingInterface_def Let_def
    by (rule own.bind_pair, rule own.loop_continue [where R = "\<lambda>_. True", OF wf], simp, rule body, assumption,
        rule own.bind_pair, rule group, assumption, rule own.return_same) simp_all
qed

lemma own_ReconfiguringPlatfrom:
  assumes wf: "wf_db w"
  shows "okx (own inst act) w (PS_Transition_ReconfiguringPlatfrom junk c w) (\<lambda>r.
    r = (STATE_PARALLEL_SCAN_RECONFIGURE_PLATFORM, c))"
proof -
  have body: "okx (own inst act) u (with_iface (of_nat i) s (\<lambda>k w. do {
          d \<leftarrow> iface_at k w;
          Some (if PC_GroupInst c = Sel_Group (If_Selection d) \<and> strstr (If_BaseInterface d) ''Ethernet''
                then (case scan_index (If_BaseInterface d) of None \<Rightarrow> fst s | Some v \<Rightarrow> v,
                      if PS_selected c i then ''true'' else ''false'')
                else s, w)
        }) u) (\<lambda>_. True)" if "wf_db u" for i s u
    by (rule own_iface [OF that], simp, rule own.return_same) simp_all
  have report: "okx (own inst act) u ((case s of (ethWanPort, paramValue) \<Rightarrow> \<lambda>w.
       Some ((STATE_PARALLEL_SCAN_RECONFIGURE_PLATFORM, c),
             emit (BusSet (ETH_HW_CONFIGURATION_DM ethWanPort) paramValue) w)) u)
      (\<lambda>r. r = (STATE_PARALLEL_SCAN_RECONFIGURE_PLATFORM, c))" if "wf_db u" for s u
    using that by (cases s) (auto intro!: own_return mine_intros)
  show ?thesis
    unfolding PS_Transition_ReconfiguringPlatfrom_def
    by (rule own.bind_pair [OF own.loop_continue [where R = "\<lambda>_. True", OF wf]], simp, rule body, assumption,
        rule report, assumption)
qed

text \<open>The pointer of a controller that works on an interface.\<close>

lemma AW_ready_working:
  assumes "wf_db w" "AW_ready c w" "PC_activeInterfaceIdx c \<noteq> -1"
  obtains k d v where "PC_pWanActiveIfaceData c = Some k" "iface_at k w = Some d" "head_virtif d = Some v"
    "k < unat (total_ifaces w)" "idx_uint (PC_activeInterfaceIdx c) < total_ifaces w"
    "unat (idx_uint (PC_activeInterfaceIdx c)) = k"
proof -
  from assms(2,3) obtain k where k: "PC_pWanActiveIfaceData c = Some k" by (auto simp: AW_ready_def)
  show thesis by (rule AW_ready_some [OF assms(1,2) k]) (rule that [OF k])
qed

lemma own_SelectedInterfaceUp:
  assumes wf: "wf_db w" and c: "AW_ready c w" "PC_activeInterfaceIdx c \<noteq> -1"
  shows "okx (own inst act) w (PS_Transition_SelectedInterfaceUp e c w) (\<lambda>r.
    fst r \<in> {STATE_PARALLEL_SCAN_SELECTED_INTERFACE_UP, STATE_PARALLEL_SCAN_SELECTED_INTERFACE_DOWN} \<and> snd r = c)"
proof -
  from AW_ready_working [OF wf c] obtain k d v where k: "PC_pWanActiveIfaceData c = Some k" "iface_at k w = Some d"
    "idx_uint (PC_activeInterfaceIdx c) < total_ifaces w" "unat (idx_uint (PC_activeInterfaceIdx c)) = k" by metis
  from k(2,4) have d: "iface_at (unat (idx_uint (PC_activeInterfaceIdx c))) w = Some d" by simp
  show ?thesis
    unfolding PS_Transition_SelectedInterfaceUp_def k(1) option.case
    by (rule okx_deref [OF k(2)], rule own.bind_pair, rule own_tables, rule start_loop(1) [OF wf k(3) d],
        rule okx_Some_if; rule own_return; (intro mine_intros)?; simp)
qed

lemma own_RestartScan:
  assumes wf: "wf_db w" and c: "AW_ready c w" "PC_activeInterfaceIdx c \<noteq> -1" and inst: "PC_GroupInst c = inst"
  shows "okx (own inst (PC_activeInterfaceIdx c)) w (PS_Transition_RestartScan e c w) (\<lambda>r.
    fst r = STATE_PARALLEL_SCAN_SCANNING_INTERFACE \<and> PS_frame (snd r) = PS_frame c \<and> PC_activeInterfaceIdx (snd r) = -1)"
proof -
  let ?E = "own inst (PC_activeInterfaceIdx c)"
  let ?c = "c\<lparr>PC_InterfaceSelectionTimeOut := 0, PC_activeInterfaceIdx := -1\<rparr>"
  let ?R = "\<lambda>c'. PS_frame c' = PS_frame c \<and> PC_activeInterfaceIdx c' = -1 \<and> PC_GroupInst c' = inst"
  from AW_ready_working [OF wf c] obtain k d v where k: "PC_pWanActiveIfaceData c = Some k" "iface_at k w = Some d" .
  from c k(1) have act: "int k = PC_activeInterfaceIdx c" by (auto simp: AW_ready_def valid_idx_def)
  have body: "okx ?E u (with_iface (of_nat i) c' (\<lambda>k w. do {
            d \<leftarrow> iface_at k w;
            Some (if PC_GroupInst c' = Sel_Group (If_Selection d)
                  then (if Sel_Enable (If_Selection d) then max_timeout d c' else c',
                        remove_from_bridge e d (snd (DmlSetWanActiveLinkInPSMDB e (of_nat i) False (set_ActiveLink k False w))))
                  else (c', w))
          }) u) ?R" if "wf_db u" "?R c'" for i c' u
    by (rule own_iface [OF that(1)], simp add: that(2))
      (intro okx_Some_if own_return mine_intros; simp add: that(2))
  have mark: "mine inst (PC_activeInterfaceIdx c) w (set_status k WAN_IFACE_VALIDATING w)"
    by (intro mine_intros wf) (simp add: act)
  then have wf1: "wf_db (set_status k WAN_IFACE_VALIDATING w)" by (simp add: mine_def keeps_def)
  have reset: "okx ?E u (with_group (PC_GroupInst c' - 1) c' (\<lambda>g w.
            Some (c'\<lparr>PC_ResetSelectedInterface := False\<rparr>,
                  upd_group g (\<lambda>g. g\<lparr>G_ResetSelectedInterface := False\<rparr>) w)) u) ?R" if "wf_db u" "?R c'" for c' u
    by (rule own.group [OF that(1)], simp add: that(2), rule own_return, rule mine_upd_group)
      (simp_all add: mine_refl that(2))
  have group: "okx ?E u (WanMgr_SetGroupSelectedIface (PC_GroupInst c) x u) (\<lambda>_. True)"
    if "wf_db u" for x u using that by (simp add: inst own_SetGroupSelectedIface)
  have fin: "okx ?E u (case with_config () (\<lambda>w. ((), upd_config (\<lambda>d. d\<lparr>Cfg_ResetFailOverScan := True\<rparr>) w)) u of
       (_, w) \<Rightarrow> Some ((STATE_PARALLEL_SCAN_SCANNING_INTERFACE, c'\<lparr>PC_SelectionTimeOutStart := clock e 0\<rparr>), w))
      (\<lambda>r. fst r = STATE_PARALLEL_SCAN_SCANNING_INTERFACE \<and> PS_frame (snd r) = PS_frame c \<and> PC_activeInterfaceIdx (snd r) = -1)"
    if "wf_db u" "?R c'" for c' u
    by (simp add: with_config_wf [OF that(1)], rule own_return) (intro mine_intros that(1) | simp add: that(2))+
  show ?thesis
    unfolding PS_Transition_RestartScan_def k(1) option.case Let_def
    apply (rule okx_deref [OF k(2)], rule own_step [OF mark])
    apply (rule own.bind_pair, rule group [OF wf1])
    apply (rule own.bind_pair, rule own.loop_continue [where R = ?R], assumption, simp add: inst, rule body, assumption, assumption)
    apply (rule own.bind_pair, rule reset, assumption, assumption)
    apply (rule fin, assumption, assumption)
    done
qed

lemma own_TearingDown:
  assumes wf: "wf_db w" and p: "PC_pWanActiveIfaceData c \<noteq> None" and inst: "PC_GroupInst c = inst"
  shows "okx (own inst act) w (PS_Transition_TearingDown e c w) (\<lambda>r. r = (STATE_PARALLEL_SCAN_INTERFACE_TEAR_DOWN, c))"
proof -
  have body: "okx (own inst act) u (with_iface (of_nat i) () (\<lambda>k w. do {
          d \<leftarrow> iface_at k w;
          if PC_GroupInst c = Sel_Group (If_Selection d)
          then do {
            let w = set_status k WAN_IFACE_NOT_SELECTED w;
            v \<leftarrow> head_virtif d;
            let w = (if VI_Status v = WAN_IFACE_STATUS_INVALID
                     then set_VirtIf_Status k WAN_IFACE_STATUS_DISABLED w else w);
            Some ((), if PC_GroupCfgChanged c
                      then snd (DmlSetWanActiveLinkInPSMDB e (of_nat i) False (set_ActiveLink k False w)) else w)
          }
          else Some ((), w)
        }) u) (\<lambda>_. True)" if "wf_db u" for i u
    unfolding Let_def
    by (rule own_iface [OF that], simp, rule okx_if, rule okx_deref, assumption, rule own_return)
      (auto intro!: mine_if mine_intros simp: inst simp del: mlock_set_status intro: own.return_same)
  show ?thesis
    unfolding PS_Transition_TearingDown_def if_not_P [OF p]
    by (rule own.bind_pair, rule own.loop_continue [where R = "\<lambda>_. True", OF wf], simp, rule body, assumption,
        rule own.bind_pair, simp only: inst, rule own_SetGroupSelectedIface, assumption, rule own.return_same) simp_all
qed

subsection \<open>States\<close>

text \<open>Steps that end in a state the diagram allows and leave the index alone.\<close>

lemma PS_postI:
  "\<lbrakk>st' \<in> PS_next st; PS_frame c' = PS_frame c; PS_idx_ok n st' (PC_activeInterfaceIdx c')\<rbrakk> \<Longrightarrow>
     PS_post n c st (st', c')"
  by (simp add: PS_post_def)

lemma PS_post_frame: "PS_frame c' = PS_frame c \<Longrightarrow> PS_post n c' st = PS_post n c st"
  by (simp add: PS_post_def fun_eq_iff)

lemma PS_working:
  "\<lbrakk>PS_idx_ok n st i; st \<notin> {STATE_PARALLEL_SCAN_SCANNING_INTERFACE, STATE_PARALLEL_SCAN_POLICY_EXIT, STATE_PARALLEL_SCAN_POLICY_ERROR}\<rbrakk> \<Longrightarrow>
     i \<noteq> -1 \<and> valid_idx n i"
  by (simp add: PS_idx_ok_def)

lemma own_new_iface:
  assumes wf: "wf_db w" and n: "PC_TotalIfaces c = total_ifaces w" and inst: "PC_GroupInst c = inst"
  shows "okx (own inst act) w (PS_new_iface c lf w)
    (\<lambda>r. \<forall>i. r = Some i \<longrightarrow> i < unat (total_ifaces w) \<and> group_of i w = Some inst)"
  unfolding PS_new_iface_def
proof (rule own.loop [OF wf])
  fix i r u
  let ?R = "\<lambda>r. \<forall>i. r = Some i \<longrightarrow> i < unat (total_ifaces w) \<and> group_of i w = Some inst"
  assume i: "i \<in> set [0..<unat (PC_TotalIfaces c)]" and u: "wf_db u" "own inst act w u" and r: "?R r"
  from i n have i': "i < unat (total_ifaces w)" by simp
  have found: "?R (Some i)" if "iface_at (unat (of_nat i :: uint)) u = Some d" "PS_candidate c d" for d
  proof -
    from that inst index_bound(1) [OF i'] have "group_of i u = Some inst" by (simp add: PS_candidate_def group_of_def)
    with u(2) i' show ?thesis by (simp add: own_def)
  qed
  show "okx (own inst act) u (with_iface (of_nat i) (Continue r) (\<lambda>k w. do {
         d \<leftarrow> iface_at k w;
         if PS_candidate c d \<and> If_BaseInterfaceStatus d = WAN_IFACE_PHY_STATUS_UP
         then do {
           v \<leftarrow> head_virtif d;
           Some (if VI_Status v = WAN_IFACE_STATUS_DISABLED \<and>
                    \<not> (PC_GroupPersistSelectedIface c \<and> lf \<and> \<not> Sel_ActiveLink (If_Selection d))
                 then Break (Some i) else Continue r, w)
         }
         else Some (Continue r, w)
       }) u) (\<lambda>f. ?R (flow_val f))"
    by (rule own_iface [OF u(1)], simp add: r, rule okx_if, rule okx_deref, assumption)
      (rule own.return_same, assumption, use found r in simp)+
qed simp

lemma State_ScanningInterface:
  assumes wf: "wf_db w" and c: "AW_ready c w" "PS_idx_ok (total_ifaces w) STATE_PARALLEL_SCAN_SCANNING_INTERFACE (PC_activeInterfaceIdx c)"
    and inst: "PC_GroupInst c = inst" and e: "machines_start e"
  shows "okx (own inst (PC_activeInterfaceIdx c)) w (PS_State_ScanningInterface e c w)
    (PS_post (total_ifaces w) c STATE_PARALLEL_SCAN_SCANNING_INTERFACE)"
proof -
  let ?st = "STATE_PARALLEL_SCAN_SCANNING_INTERFACE" and ?n = "total_ifaces w" and ?act = "PC_activeInterfaceIdx c"
  let ?s = "flow_fold (scan_at c w) [0..<unat ?n] (PS_scan_start c)"
  from c(2) have idx: "PC_activeInterfaceIdx c = -1" by (simp add: PS_idx_ok_def)
  from c(1) idx have n: "PC_TotalIfaces c = ?n" and p: "PC_pWanActiveIfaceData c = None" by (simp_all add: AW_ready_def)
  from scan_result [OF wf idx] have s: "valid_idx ?n (scan_activeIdx ?s)"
    "highPriorityValidIface ?s = -1 \<longrightarrow> scan_activeIdx ?s = -1"
    using scan_index_ne [OF wf] by (auto simp: scan_result_def scan_inv_def scan_cand_def)
  let ?c = "c\<lparr>PC_activeInterfaceIdx := scan_activeIdx ?s\<rparr>"
  have select: "okx (own inst ?act) w (PS_Transition_SelectingInterface e ?c w) (PS_post ?n c ?st)"
    if "scan_activeIdx ?s \<noteq> -1"
    by (rule okx_mono [OF own_SelectingInterface [OF wf, of ?c inst]])
      (use inst s(1) that in \<open>auto intro!: PS_postI simp: PS_idx_ok_def prod_eq_iff\<close>)
  have scan: "okx (own inst ?act) w (do {
          (new, w) \<leftarrow> PS_new_iface c' lf w;
          (case new of
             None \<Rightarrow> Some ((?st, c'), w)
           | Some i \<Rightarrow> do {
               (st, w) \<leftarrow> PS_Transition_NewInterfaceConnected e i w;
               Some ((st, c'), w)
             })
        }) (PS_post ?n c ?st)" if "PC_TotalIfaces c' = ?n" "PC_GroupInst c' = inst" "PS_frame c' = PS_frame c"
      "PC_activeInterfaceIdx c' = -1" for c' lf
  proof (rule own.bind_pair [OF own_new_iface [OF wf that(1,2)]])
    fix new u
    assume u: "wf_db u" "keeps w u" "own inst ?act w u"
      and new: "\<forall>i. new = Some i \<longrightarrow> i < unat ?n \<and> group_of i w = Some inst"
    have post: "PS_post ?n c ?st (?st, c')"
      by (rule PS_postI) (use that in \<open>simp_all add: PS_idx_ok_def\<close>)
    show "okx (own inst ?act) u (case new of
             None \<Rightarrow> Some ((?st, c'), u)
           | Some i \<Rightarrow> do {
               (st, w) \<leftarrow> PS_Transition_NewInterfaceConnected e i u;
               Some ((st, c'), w)
             }) (PS_post ?n c ?st)"
    proof (cases new)
      case None
      with post u show ?thesis by (simp add: own.return_same)
    next
      case (Some i)
      with new u have "i < unat (total_ifaces u)" "group_of i u = Some inst" by (simp_all add: keeps_def own_def)
      then show ?thesis
        unfolding Some option.case
        by (intro own.bind_pair [OF NewInterfaceConnected [OF e u(1)]]) (use post in \<open>simp_all add: own.return_same\<close>)
    qed
  qed
  have down: "okx (own inst ?act) w (PS_Transition_TearingDown e c w) (PS_post ?n c ?st)"
    unfolding PS_Transition_TearingDown_def p
    using wf idx by (auto intro!: own.return_same PS_postI simp: PS_idx_ok_def)
  show ?thesis
    unfolding PS_State_ScanningInterface_def
  proof (rule okx_if [OF down], unfold PS_scan_all_eq [OF wf n] Let_def, simp only: bind.simps case_prod_conv,
      rule okx_if, goal_cases)
    case 1
    then show ?case by (simp add: select)
  next
    case 2
    show ?case
      by (rule scan) (use n inst s(2) in auto)
  qed
qed

text \<open>The other states: the policy works on an interface.\<close>

lemma PS_post_stay:
  assumes "PS_idx_ok n st (PC_activeInterfaceIdx c)" "st' \<in> PS_next st" "st' \<noteq> STATE_PARALLEL_SCAN_SCANNING_INTERFACE"
    and "st \<notin> {STATE_PARALLEL_SCAN_SCANNING_INTERFACE, STATE_PARALLEL_SCAN_POLICY_EXIT, STATE_PARALLEL_SCAN_POLICY_ERROR}"
    and "PS_frame c' = PS_frame c" "PC_activeInterfaceIdx c' = PC_activeInterfaceIdx c"
  shows "PS_post n c st (st', c')"
  using assms by (auto intro!: PS_postI simp: PS_idx_ok_def)

lemma State_TearingDown:
  assumes wf: "wf_db w" and c: "AW_ready c w" "PS_idx_ok (total_ifaces w) st (PC_activeInterfaceIdx c)"
    and inst: "PC_GroupInst c = inst" and st: "STATE_PARALLEL_SCAN_INTERFACE_TEAR_DOWN \<in> PS_next st"
      "st \<notin> {STATE_PARALLEL_SCAN_SCANNING_INTERFACE, STATE_PARALLEL_SCAN_POLICY_EXIT, STATE_PARALLEL_SCAN_POLICY_ERROR}"
  shows "okx (own inst (PC_activeInterfaceIdx c)) w (PS_Transition_TearingDown e c w) (PS_post (total_ifaces w) c st)"
proof -
  from PS_working [OF c(2) st(2)] have "PC_activeInterfaceIdx c \<noteq> -1" by simp
  with AW_ready_none [OF c(1)] have "PC_pWanActiveIfaceData c \<noteq> None" by simp
  from own_TearingDown [OF wf this inst] show ?thesis
    by (rule okx_mono) (auto intro!: PS_post_stay [OF c(2) st(1) _ st(2)])
qed

lemma State_CheckReconfiguration:
  assumes wf: "wf_db w" and c: "AW_ready c w" "PS_idx_ok (total_ifaces w) STATE_PARALLEL_SCAN_CHECK_RECONFIGURATION (PC_activeInterfaceIdx c)"
    and inst: "PC_GroupInst c = inst"
  shows "okx (own inst (PC_activeInterfaceIdx c)) w (PS_State_CheckReconfiguration junk e c w)
    (PS_post (total_ifaces w) c STATE_PARALLEL_SCAN_CHECK_RECONFIGURATION)"
proof -
  have configured: "okx (own inst (PC_activeInterfaceIdx c)) u
      (if required then PS_Transition_ReconfiguringPlatfrom junk c u else PS_Transition_InterfaceSelected c u)
      (PS_post (total_ifaces w) c STATE_PARALLEL_SCAN_CHECK_RECONFIGURATION)" if "wf_db u" for required u
    by (rule okx_if, rule okx_mono [OF own_ReconfiguringPlatfrom [OF that]])
      (auto intro!: own.return_same [OF that] PS_post_stay [OF c(2)] simp: PS_Transition_InterfaceSelected_def)
  show ?thesis
    unfolding PS_State_CheckReconfiguration_def
    by (rule okx_if [OF State_TearingDown [OF wf c inst]], simp, simp, rule own.bind_pair [OF own_CheckReconfiguring [OF wf]],
        rule configured)
qed

lemma State_ReconfigurePaltform:
  assumes wf: "wf_db w" and c: "AW_ready c w" "PS_idx_ok (total_ifaces w) STATE_PARALLEL_SCAN_RECONFIGURE_PLATFORM (PC_activeInterfaceIdx c)"
  shows "okx (own inst (PC_activeInterfaceIdx c)) w (PS_State_ReconfigurePaltform e c w)
    (PS_post (total_ifaces w) c STATE_PARALLEL_SCAN_RECONFIGURE_PLATFORM)"
proof -
  from PS_working [OF c(2)] have "PC_activeInterfaceIdx c \<noteq> -1" by simp
  from AW_ready_working [OF wf c(1) this] obtain k d where
    k: "PC_pWanActiveIfaceData c = Some k" "iface_at k w = Some d" by metis
  show ?thesis
    unfolding PS_State_ReconfigurePaltform_def k(1) option.case PS_Transition_Reboot_def PS_Transition_InterfaceSelected_def
    by (rule okx_deref [OF k(2)], rule okx_if; rule own_return)
      (use wf in \<open>auto intro!: mine_intros PS_post_stay [OF c(2)]\<close>)
qed

lemma State_SelectedInterfaceUp:
  assumes wf: "wf_db w" and c: "AW_ready c w" "PS_idx_ok (total_ifaces w) STATE_PARALLEL_SCAN_SELECTED_INTERFACE_UP (PC_activeInterfaceIdx c)"
    and inst: "PC_GroupInst c = inst"
  shows "okx (own inst (PC_activeInterfaceIdx c)) w (PS_State_SelectedInterfaceUp e c w)
    (PS_post (total_ifaces w) c STATE_PARALLEL_SCAN_SELECTED_INTERFACE_UP)"
proof -
  let ?act = "PC_activeInterfaceIdx c" and ?st = "STATE_PARALLEL_SCAN_SELECTED_INTERFACE_UP" and ?n = "total_ifaces w"
  from PS_working [OF c(2)] have idx: "?act \<noteq> -1" by simp
  from AW_ready_working [OF wf c(1) idx] obtain k d v where k: "PC_pWanActiveIfaceData c = Some k" "iface_at k w = Some d"
    "head_virtif d = Some v" "k < unat ?n" "unat (idx_uint ?act) = k" "idx_uint ?act < ?n" by metis
  have rescan: "okx (own inst ?act) w (if PC_ResetSelectedInterface c then PS_CheckRescanRequired c w
      else Some ((False, c), w)) (\<lambda>r. snd r = c \<or> snd r = c\<lparr>PC_ResetSelectedInterface := False\<rparr>)"
    by (rule okx_if [OF own_CheckRescan [OF wf k(1,2,3)] own.return_same [OF wf]]) simp
  have restart: "okx (own inst ?act) u (PS_Transition_RestartScan e c' u) (PS_post ?n c ?st)"
    if "wf_db u" "AW_ready c' u" "c' = c \<or> c' = c\<lparr>PC_ResetSelectedInterface := False\<rparr>" for c' u
  proof -
    from that(3) have c': "PC_activeInterfaceIdx c' = ?act" "PC_GroupInst c' = inst" "PS_frame c' = PS_frame c"
      using inst by auto
    have "okx (own inst (PC_activeInterfaceIdx c')) u (PS_Transition_RestartScan e c' u) (PS_post ?n c ?st)"
      by (rule okx_mono [OF own_RestartScan [OF that(1,2) _ c'(2)]])
        (use idx c' in \<open>auto intro!: PS_postI simp: PS_idx_ok_def\<close>)
    with c'(1) show ?thesis by simp
  qed
  have stay: "PS_post ?n c ?st (st', c')"
    if "st' \<in> {?st, STATE_PARALLEL_SCAN_SELECTED_INTERFACE_DOWN}" "c' = c \<or> c' = c\<lparr>PC_ResetSelectedInterface := False\<rparr>" for st' c'
    by (rule PS_post_stay [OF c(2)]) (use that in auto)
  have changed: "okx (own inst ?act) u (do {
                (_, w) \<leftarrow> for_loop [0..<unat (If_NoOfVirtIfs d')]
                   (\<lambda>VirtId u w. continue (AW_restart_virtif e c' VirtId w)) () u;
                Some ((?st, c'), set_VirtIfChanged k False w)
              }) (PS_post ?n c ?st)"
    if "wf_db u" "total_ifaces u = ?n" "iface_at k u = Some d'" "c' = c \<or> c' = c\<lparr>PC_ResetSelectedInterface := False\<rparr>" for c' u d'
  proof -
    have idx': "idx_uint ?act < total_ifaces u" "iface_at (unat (idx_uint ?act)) u = Some d'" "PC_activeInterfaceIdx c' = ?act"
      using that k by auto
    show ?thesis
      by (rule own.bind_pair, rule own_tables, rule start_loop(2) [OF that(1) idx'], rule own_return)
        (auto intro!: mine_intros stay that(4))
  qed
  have watch: "okx (own inst ?act) u (do {
              d \<leftarrow> iface_at k u;
              if If_BaseInterfaceStatus d \<noteq> WAN_IFACE_PHY_STATUS_UP \<or> \<not> Sel_Enable (If_Selection d)
              then PS_Transition_SelectedInterfaceDown c' u
              else if If_VirtIfChanged d
              then do {
                (_, w) \<leftarrow> for_loop [0..<unat (If_NoOfVirtIfs d)]
                   (\<lambda>VirtId u w. continue (AW_restart_virtif e c' VirtId w)) () u;
                Some ((?st, c'), set_VirtIfChanged k False w)
              }
              else Some ((?st, c'), u)
            }) (PS_post ?n c ?st)"
    if u: "wf_db u" "total_ifaces u = ?n" and c': "c' = c \<or> c' = c\<lparr>PC_ResetSelectedInterface := False\<rparr>" for c' u
  proof -
    from u k(4) obtain d' where d': "iface_at k u = Some d'" by (metis wf_db_iface_at)
    show ?thesis
      unfolding PS_Transition_SelectedInterfaceDown_def
      by (rule okx_deref [OF d'], rule okx_if, rule own.return_same [OF u(1)], rule stay [OF _ c'], simp,
          rule okx_if, rule changed [OF u d' c'], rule own.return_same [OF u(1)], rule stay [OF _ c'], simp)
  qed
  show ?thesis
    unfolding PS_State_SelectedInterfaceUp_def k(1) option.case
  proof (rule okx_if [OF State_TearingDown [OF wf c inst]], simp, simp, rule own.bind [OF rescan], goal_cases)
    case (1 r u)
    obtain required c' where r: "r = (required, c')" by (cases r)
    from 1 r have u: "wf_db u" "total_ifaces u = ?n" and c': "c' = c \<or> c' = c\<lparr>PC_ResetSelectedInterface := False\<rparr>"
      by (simp_all add: keeps_def)
    have "AW_ready c' u" using c' AW_ready_total [OF c(1) u(2)] by (auto simp: AW_ready_def)
    from okx_if [OF restart [OF u(1) this c'] watch [OF u c']] show ?case by (simp add: r)
  qed
qed

lemma State_SelectedInterfaceDown:
  assumes wf: "wf_db w" and c: "AW_ready c w" "PS_idx_ok (total_ifaces w) STATE_PARALLEL_SCAN_SELECTED_INTERFACE_DOWN (PC_activeInterfaceIdx c)"
    and inst: "PC_GroupInst c = inst"
  shows "okx (own inst (PC_activeInterfaceIdx c)) w (PS_State_SelectedInterfaceDown e c w)
    (PS_post (total_ifaces w) c STATE_PARALLEL_SCAN_SELECTED_INTERFACE_DOWN)"
proof -
  from PS_working [OF c(2)] have idx: "PC_activeInterfaceIdx c \<noteq> -1" by simp
  from AW_ready_working [OF wf c(1) idx] obtain k d v where
    k: "PC_pWanActiveIfaceData c = Some k" "iface_at k w = Some d" "head_virtif d = Some v" by metis
  show ?thesis
    unfolding PS_State_SelectedInterfaceDown_def k(1) option.case
    by (rule okx_if [OF State_TearingDown [OF wf c inst]], simp, simp,
        rule okx_if [OF okx_mono [OF own_RestartScan [OF wf c(1) idx inst]]],
        (auto intro!: PS_postI simp: PS_idx_ok_def)[1], assumption,
        rule okx_deref [OF k(2)], rule okx_deref [OF k(3)], rule okx_if, rule own.return_same [OF wf],
        rule PS_post_stay [OF c(2)], simp, simp, simp, simp, simp,
        rule okx_if, rule okx_mono [OF own_SelectedInterfaceUp [OF wf c(1) idx]])
      (auto intro!: PS_post_stay [OF c(2)] own.return_same [OF wf])
qed

lemma State_InterfaceTearDown:
  assumes wf: "wf_db w" and c: "AW_ready c w" "PS_idx_ok (total_ifaces w) STATE_PARALLEL_SCAN_INTERFACE_TEAR_DOWN (PC_activeInterfaceIdx c)"
  shows "okx (own inst (PC_activeInterfaceIdx c)) w (PS_State_InterfaceTearDown c w)
    (PS_post (total_ifaces w) c STATE_PARALLEL_SCAN_INTERFACE_TEAR_DOWN)"
proof -
  from PS_working [OF c(2)] have idx: "PC_activeInterfaceIdx c \<noteq> -1" by simp
  with AW_ready_none [OF c(1)] have p: "PC_pWanActiveIfaceData c \<noteq> None" by simp
  have body: "okx (own inst (PC_activeInterfaceIdx c)) u (with_iface (of_nat i) r (\<lambda>k w. do {
             d \<leftarrow> iface_at k w;
             if PC_GroupInst c = Sel_Group (If_Selection d)
             then do {
               v \<leftarrow> head_virtif d;
               Some (r \<or> VI_Status v \<noteq> WAN_IFACE_STATUS_DISABLED, w)
             }
             else Some (r, w)
           }) u) (\<lambda>_. True)" if "wf_db u" for i r u
    by (rule own_iface [OF that], simp, rule okx_if, rule okx_deref, assumption)
      (rule own.return_same, assumption, simp)+
  have fin: "okx (own inst (PC_activeInterfaceIdx c)) u (Some ((if \<not> running then STATE_PARALLEL_SCAN_POLICY_EXIT
               else STATE_PARALLEL_SCAN_INTERFACE_TEAR_DOWN, c), u))
      (PS_post (total_ifaces w) c STATE_PARALLEL_SCAN_INTERFACE_TEAR_DOWN)" if "wf_db u" for running u
    by (rule own.return_same [OF that], rule PS_post_stay [OF c(2)]) simp_all
  show ?thesis
    unfolding PS_State_InterfaceTearDown_def if_not_P [OF p]
    by (rule own.bind_pair [OF own.loop_continue [where R = "\<lambda>_. True", OF wf]], simp, rule body, assumption, rule fin, assumption)
qed

text \<open>Every state function does what its state in the diagram promises.\<close>

lemma PS_state_post:
  assumes wf: "wf_db w" and c: "AW_ready c w" "PS_idx_ok (total_ifaces w) st (PC_activeInterfaceIdx c)"
    and inst: "PC_GroupInst c = inst" and e: "machines_start e"
  shows "okx (own inst (PC_activeInterfaceIdx c)) w (PS_state junk e st c w) (PS_post (total_ifaces w) c st)"
proof (cases st)
  case STATE_PARALLEL_SCAN_SCANNING_INTERFACE
  with assms show ?thesis by (simp add: State_ScanningInterface)
next
  case STATE_PARALLEL_SCAN_CHECK_RECONFIGURATION
  with assms show ?thesis by (simp add: State_CheckReconfiguration)
next
  case STATE_PARALLEL_SCAN_RECONFIGURE_PLATFORM
  with assms show ?thesis by (simp add: State_ReconfigurePaltform)
next
  case STATE_PARALLEL_SCAN_SELECTED_INTERFACE_UP
  with assms show ?thesis by (simp add: State_SelectedInterfaceUp)
next
  case STATE_PARALLEL_SCAN_SELECTED_INTERFACE_DOWN
  with assms show ?thesis by (simp add: State_SelectedInterfaceDown)
next
  case STATE_PARALLEL_SCAN_INTERFACE_TEAR_DOWN
  with assms show ?thesis by (simp add: State_InterfaceTearDown)
qed (use c wf in \<open>auto intro!: own.return_same PS_postI simp: PS_State_Reboot_def\<close>)

subsection \<open>The thread\<close>

text \<open>
  The invariant between two passes: the thread works for its group, holds no pointer, and has an
  interface of the table exactly in the states that need one.
\<close>

definition PS_inv :: "uint \<Rightarrow> PS_thread \<Rightarrow> world \<Rightarrow> bool" where
  "PS_inv inst t w \<longleftrightarrow> (case t of (_, st, c) \<Rightarrow> PC_GroupInst c = inst \<and> PC_pWanActiveIfaceData c = None \<and>
     PS_idx_ok (total_ifaces w) st (PC_activeInterfaceIdx c))"

lemma PS_take:
  assumes wf: "wf_db w" and c: "valid_idx (total_ifaces w) (PC_activeInterfaceIdx c)" "PC_TotalIfaces c = total_ifaces w"
    "PC_pWanActiveIfaceData c = None"
  obtains c' where "PS_take_iface c w = (c', if PC_activeInterfaceIdx c = -1 then w else mlock w)" "AW_ready c' w"
    "PC_activeInterfaceIdx c' = PC_activeInterfaceIdx c" "PC_GroupInst c' = PC_GroupInst c"
    "PC_GroupCfgChanged c' = PC_GroupCfgChanged c" "PC_WanEnable c' = PC_WanEnable c"
proof (cases "PC_activeInterfaceIdx c = -1")
  case True
  have "AW_ready c w" using c True by (simp add: AW_ready_def)
  with True c(3) show thesis by (intro that [of c]) (simp_all add: PS_take_iface_def)
next
  case False
  note idx = idx_uint_in [OF c(1) False]
  let ?c = "c\<lparr>PC_pWanActiveIfaceData := Some (nat (PC_activeInterfaceIdx c))\<rparr>"
  have "AW_ready ?c w" using c False by (simp add: AW_ready_def)
  moreover have "PS_take_iface c w = (?c, mlock w)"
    using False c(3) GetIfaceData_locked_wf [OF wf idx(1)] idx(2) by (simp add: PS_take_iface_def)
  ultimately show thesis using False by (intro that [of ?c]) simp_all
qed

lemma PS_update: "wf_db w \<Longrightarrow> PS_UpdateControllerData c w = Some (AW_refresh c w, w)"
  by (simp add: PS_UpdateControllerData_def UpdateControllerData_eq)

lemma AW_refresh_pointer [simp]: "PC_pWanActiveIfaceData (AW_refresh c w) = PC_pWanActiveIfaceData c"
  by (simp add: AW_refresh_def Let_def split: option.split)

lemma own_epilogue:
  assumes wf: "wf_db w" and inst: "PC_GroupInst c = inst"
  shows "okx (own inst act) w (PS_epilogue c w) (\<lambda>_. True)"
proof -
  have self: "mine inst act u (upd_group (unat (inst - 1)) f u)" if "wf_db u" for f u
    using that by (auto simp: mine_def own_def keeps_upd_group keeps_refl status_of_def sel_view_def)
  have group: "okx (own inst act) u (with_group (inst - 1) () (\<lambda>k w.
       Some ((), upd_group k (\<lambda>g. g\<lparr>G_ThreadId := 0, G_SelectedInterface := 0, G_ConfigChanged := False,
         G_State := (if G_State g \<noteq> STATE_GROUP_DEACTIVATED then STATE_GROUP_STOPPED else G_State g)\<rparr>) w)) u) (\<lambda>_. True)"
    if "wf_db u" for u
    by (rule own.group [OF that], simp, rule own_return, rule self) simp_all
  have reset: "mine inst act w (upd_config (\<lambda>d. d\<lparr>Cfg_ResetFailOverScan := True\<rparr>) w)"
    by (intro mine_intros wf)
  then have "wf_db (upd_config (\<lambda>d. d\<lparr>Cfg_ResetFailOverScan := True\<rparr>) w)" by (simp add: mine_def keeps_def)
  from own_step [OF reset group [OF this]] group [OF wf] show ?thesis
    by (cases "PC_GroupCfgChanged c") (simp_all add: PS_epilogue_def AW_epilogue_def with_config_wf [OF wf] Let_def inst)
qed

text \<open>What a pass does: it follows the diagram, keeps to its group, and ends the thread where the code does.\<close>

definition PS_follows :: "env \<Rightarrow> PS_thread \<Rightarrow> world \<Rightarrow> PS_thread \<Rightarrow> world \<Rightarrow> bool" where
  "PS_follows e t w t' w' \<longleftrightarrow> (case (t, t') of ((running, st, c), (running', st', c')) \<Rightarrow>
     if running \<and> select_ok e
     then st' \<in> PS_next st \<and> running' = (\<not> PS_stops st) \<and> own (PC_GroupInst c) (PC_activeInterfaceIdx c) w w'
     else t' = t \<and> w' = w)"

lemma PS_pass_follows:
  assumes wf: "wf_db w" and inv: "PS_inv inst (running, st, c) w" and e: "machines_start e"
  shows "ok w (PS_pass junk e (running, st, c) w)
    (\<lambda>t' w'. PS_inv inst t' w' \<and> PS_follows e (running, st, c) w t' w')"
proof (cases "running \<and> select_ok e")
  case False
  then have "PS_pass junk e (running, st, c) w = Some ((running, st, c), w)" by (cases running) auto
  with False wf inv show ?thesis by (auto simp: ok_def PS_follows_def keeps_refl)
next
  case True
  let ?c = "AW_refresh c w"
  from inv have c: "PC_GroupInst c = inst" "PC_pWanActiveIfaceData c = None"
    "PS_idx_ok (total_ifaces w) st (PC_activeInterfaceIdx c)" by (simp_all add: PS_inv_def)
  then have v: "valid_idx (total_ifaces w) (PC_activeInterfaceIdx c)" by (simp add: PS_idx_ok_def)
  define w1 where "w1 = (if PC_activeInterfaceIdx c = -1 then w else mlock w)"
  obtain c1 where c1: "PS_take_iface ?c w = (c1, w1)" "AW_ready c1 w" "PC_activeInterfaceIdx c1 = PC_activeInterfaceIdx c"
    "PC_GroupInst c1 = inst"
    using PS_take [OF wf, of ?c] v c by (auto simp: w1_def)
  have w1: "wf_db w1" "total_ifaces w1 = total_ifaces w" using wf by (simp_all add: w1_def)
  have "okx (own inst (PC_activeInterfaceIdx c)) w1 (PS_state junk e st c1 w1) (PS_post (total_ifaces w) c1 st)"
    using PS_state_post [OF w1(1) _ _ c1(4) e, of st junk] AW_ready_total [OF c1(2) w1(2)] c1(3) c(3) w1(2) by simp
  then obtain q w2 where q: "PS_state junk e st c1 w1 = Some (q, w2)" "keeps w1 w2" "own inst (PC_activeInterfaceIdx c) w1 w2"
    "PS_post (total_ifaces w) c1 st q" by (rule okxE)
  obtain st' c2 where q': "q = (st', c2)" by (cases q)
  with q(4) have st': "st' \<in> PS_next st" "PS_frame c2 = PS_frame c1" "PS_idx_ok (total_ifaces w) st' (PC_activeInterfaceIdx c2)"
    by (simp_all add: PS_post_def)
  from st'(2) AW_ready_none [OF c1(2)] c1(3,4) have p: "PC_pWanActiveIfaceData c2 = None \<longleftrightarrow> PC_activeInterfaceIdx c = -1"
    "PC_GroupInst c2 = inst" by (simp_all add: PS_frame_def)
  obtain c3 w3 where r: "PS_release c2 w2 = (c3, w3)" by (cases "PS_release c2 w2")
  have c3: "PC_GroupInst c3 = inst" "PC_pWanActiveIfaceData c3 = None" "PC_activeInterfaceIdx c3 = PC_activeInterfaceIdx c2"
    using r p by (auto simp: PS_release_def split: if_splits)
  have w3: "keeps w w3" "own inst (PC_activeInterfaceIdx c) w w3"
    using q(2,3) r p(1) wf_db_mutex [OF wf]
    by (auto simp: PS_release_def w1_def release_defs own.eff_lock split: if_splits intro: keeps_unlock)
  have t3: "total_ifaces w3 = total_ifaces w" using w3(1) by (simp add: keeps_def)
  have pass: "PS_pass junk e (running, st, c) w = (if PS_stops st then do {
          (_, w) \<leftarrow> PS_epilogue c3 w3; Some ((False, st', c3), w) } else Some ((True, st', c3), w3))"
    using True by (simp add: PS_update [OF wf] c1(1) q(1) q' r Let_def)
  show ?thesis
  proof (cases "PS_stops st")
    case False
    with True w3 t3 st' c3 c(1) show ?thesis unfolding pass by (simp add: ok_def PS_inv_def PS_follows_def)
  next
    case stop: True
    from own_epilogue [OF keeps_wf [OF w3(1)] c3(1)] obtain w4 where
      4: "PS_epilogue c3 w3 = Some ((), w4)" "keeps w3 w4" "own inst (PC_activeInterfaceIdx c) w3 w4"
      by (rule okxE) auto
    from keeps_trans [OF w3(1) 4(2)] have k4: "keeps w w4" "total_ifaces w4 = total_ifaces w" by (simp_all add: keeps_def)
    from True stop 4(1) k4 own.eff_trans [OF w3(2) 4(3)] st' c3 c(1) show ?thesis
      unfolding pass by (simp add: ok_def PS_inv_def PS_follows_def)
  qed
qed

interpretation ps: wan_env_thread "PS_pass junk" interference "PS_inv inst" machines_start for junk inst
proof
  show "ok w (PS_pass junk e s w) (PS_inv inst)" if "wf_db w" "PS_inv inst s w" "machines_start e" for w s e
    using that PS_pass_follows by (cases s) (fastforce elim: ok_mono)
  show "interference w w'" if "interference w w'" for w w' using that .
  show "PS_inv inst s w'" if "PS_inv inst s w" "interference w w'" for s w w'
    using that by (auto simp: PS_inv_def PS_idx_ok_def interference_def valid_idx_def word_le_nat_alt split: prod.splits)
qed

text \<open>The thread starts scanning, without an interface, and without touching the selection of any group.\<close>

lemma PS_init_ok:
  assumes wf: "wf_db w"
  shows "ok w (PS_init e inst c w) (\<lambda>t w'. PS_inv inst t w' \<and> fst t \<and> fst (snd t) = STATE_PARALLEL_SCAN_SCANNING_INTERFACE)"
proof -
  let ?c = "(WanMgr_Controller_PolicyCtrlInit c)\<lparr>PC_GroupInst := inst\<rparr>"
  have c: "PC_activeInterfaceIdx ?c = -1" "PC_pWanActiveIfaceData ?c = None"
    by (simp_all add: WanMgr_Controller_PolicyCtrlInit_def)
  from own_Start [OF wf, of inst "-1" e "AW_refresh ?c w"] obtain st c' w' where
    "PS_Transition_Start e (AW_refresh ?c w) w = Some ((st, c'), w')" "keeps w w'" "st = STATE_PARALLEL_SCAN_SCANNING_INTERFACE"
    "PS_frame c' = PS_frame (AW_refresh ?c w)" "PC_activeInterfaceIdx c' = -1" using c by (auto elim!: okxE)
  with c show ?thesis
    by (simp add: PS_init_def PS_update [OF wf] PS_take_iface_def ok_def PS_inv_def PS_idx_ok_def PS_frame_def Let_def)
qed

end
