(* ===== verification/WanParallelProps.thy ===== *)
theory WanParallelProps
  imports WanParallelSpec WanSamples
begin

text \<open>
  Properties of the parallel scan policy: every run of its thread is safe, every pass follows the state
  diagram and keeps to its group, and the scan selects the interface the policy promises.
\<close>

subsection \<open>The thread\<close>

text \<open>
  C27. The parallel scan thread is safe: started for a group in a well-formed data base, whatever the
  other threads do to the data base within their limits, and as long as the interface state machines can
  be started, every run returns (no NULL or stale pointer is dereferenced in any pass), leaves the data
  base well-formed and the mutex as often locked as before; the thread works for its group, on no
  interface while it scans, and on an interface of the table in every state that uses one.
\<close>

theorem parallel_thread_safe:
  assumes wf: "wf_db w"
    and others: "\<And>others e' u. (others, e') \<in> set script \<Longrightarrow> wf_db u \<Longrightarrow> interference u (others u) \<and> machines_start e'"
  shows "\<exists>running st c' w'.
    Option.bind (PS_init e inst c w) (\<lambda>(t, w). run_thread (PS_pass junk) script t w) = Some ((running, st, c'), w') \<and>
    wf_db w' \<and> mutex w' = mutex w \<and> PC_GroupInst c' = inst \<and>
    (if st = STATE_PARALLEL_SCAN_SCANNING_INTERFACE then PC_activeInterfaceIdx c' = -1
     else st \<in> {STATE_PARALLEL_SCAN_POLICY_EXIT, STATE_PARALLEL_SCAN_POLICY_ERROR} \<or>
       (\<exists>k d v. PC_activeInterfaceIdx c' = int k \<and> iface_at k w' = Some d \<and> head_virtif d = Some v))"
proof -
  from PS_init_ok [OF wf, of e inst c] obtain t w1 where
    i: "PS_init e inst c w = Some (t, w1)" "keeps w w1" "PS_inv inst t w1" by (rule okE) blast
  from i(2) have w1: "wf_db w1" "mutex w1 = mutex w" by (simp_all add: keeps_def)
  have "\<exists>t' w'. run_thread (PS_pass junk) script t w1 = Some (t', w') \<and> wf_db w' \<and> PS_inv inst t' w' \<and> mutex w' = mutex w1"
    by (rule ps.run_ok [OF w1(1) i(3)]) (rule others)
  then obtain t' w' where r: "run_thread (PS_pass junk) script t w1 = Some (t', w')" "wf_db w'" "PS_inv inst t' w'"
    "mutex w' = mutex w1" by blast
  obtain running st c' where t': "t' = (running, st, c')" by (cases t')
  have "\<exists>k d v. PC_activeInterfaceIdx c' = int k \<and> iface_at k w' = Some d \<and> head_virtif d = Some v"
    if "PC_activeInterfaceIdx c' \<noteq> -1"
  proof -
    from that r(3) t' have "0 \<le> PC_activeInterfaceIdx c'" "nat (PC_activeInterfaceIdx c') < unat (total_ifaces w')"
      by (auto simp: PS_inv_def PS_idx_ok_def valid_idx_def)
    with wf_db_iface_at [OF r(2)] wf_shape_head show ?thesis by (metis int_nat_eq)
  qed
  with i(1) r t' w1 show ?thesis by (auto simp: PS_inv_def PS_idx_ok_def)
qed

theorem parallel_thread_safe_witness:
  "\<exists>running st c' w'. Option.bind (PS_init sample_env 1 undefined sample_world)
      (\<lambda>(t, w). run_thread (PS_pass (\<lambda>_. 0)) [(id, sample_env), (id, sample_env)] t w) = Some ((running, st, c'), w') \<and>
    wf_db w' \<and> mutex w' = mutex sample_world \<and> PC_GroupInst c' = 1"
proof -
  have "interference u (others u) \<and> machines_start e'"
    if "(others, e') \<in> set [(id, sample_env), (id, sample_env)]" "wf_db u" for others e' u
    using that by (auto simp: interference_def machines_start_def sample_env_def)
  then show ?thesis
    using parallel_thread_safe [where script = "[(id, sample_env), (id, sample_env)]" and e = sample_env and
        c = undefined and inst = 1 and junk = "\<lambda>_. 0", OF wf_sample_world] by blast
qed

text \<open>
  C28. Every pass of the parallel scan thread that is not interrupted takes a step of the state diagram,
  and keeps to its group: it changes the selection status of no interface but those of its own group and
  the one it works on, and the selected interface of no other group.  The error state follows the scan
  only; in every other state a stopped policy is torn down in an orderly way.
\<close>

theorem parallel_pass_follows_diagram:
  assumes wf: "wf_db w" and inv: "PS_inv inst (True, st, c) w" and e: "machines_start e" "select_ok e"
  shows "\<exists>st' c' w'. PS_pass junk e (True, st, c) w = Some ((\<not> PS_stops st, st', c'), w') \<and>
    PS_inv inst (\<not> PS_stops st, st', c') w' \<and> mutex w' = mutex w \<and> st' \<in> PS_next st \<and>
    (st' = STATE_PARALLEL_SCAN_POLICY_ERROR \<longrightarrow>
       st \<in> {STATE_PARALLEL_SCAN_SCANNING_INTERFACE, STATE_PARALLEL_SCAN_POLICY_ERROR}) \<and>
    (\<forall>k. group_of k w \<noteq> Some inst \<and> int k \<noteq> PC_activeInterfaceIdx c \<longrightarrow> status_of k w' = status_of k w) \<and>
    (\<forall>g. g \<noteq> unat (inst - 1) \<longrightarrow> snd (sel_view w') g = snd (sel_view w) g)"
proof -
  have inst: "PC_GroupInst c = inst" using inv by (simp add: PS_inv_def)
  from PS_pass_follows [OF wf inv e(1), of junk] obtain t' w' where
    p: "PS_pass junk e (True, st, c) w = Some (t', w')" "keeps w w'" "PS_inv inst t' w'" "PS_follows e (True, st, c) w t' w'"
    by (rule okE) blast
  obtain r st' c' where t': "t' = (r, st', c')" by (cases t')
  have next_error: "STATE_PARALLEL_SCAN_POLICY_ERROR \<in> PS_next st \<longrightarrow>
      st \<in> {STATE_PARALLEL_SCAN_SCANNING_INTERFACE, STATE_PARALLEL_SCAN_POLICY_ERROR}" by (cases st) simp_all
  from p(4) t' e(2) inst have f: "st' \<in> PS_next st" "r = (\<not> PS_stops st)" "own inst (PC_activeInterfaceIdx c) w w'"
    by (simp_all add: PS_follows_def)
  from p(2) have "mutex w' = mutex w" by (simp add: keeps_def)
  with p(1,3) t' f next_error show ?thesis by (auto simp: own_def)
qed

definition sample_scan :: "int \<Rightarrow> policy_ctrl" where
  "sample_scan i = \<lparr>PC_WanEnable = True, PC_activeInterfaceIdx = i, PC_selSecondaryInterfaceIdx = -1,
     PC_pWanActiveIfaceData = None, PC_SelectionTimeOutStart = 500, PC_SelectionTimeOutEnd = 0,
     PC_InterfaceSelectionTimeOut = 20, PC_TotalIfaces = 2, PC_WanOperationalMode = -1,
     PC_GroupCfgChanged = False, PC_GroupPersistSelectedIface = False, PC_ResetSelectedInterface = False,
     PC_AllowRemoteInterfaces = False, PC_GroupIfaceList = 0, PC_GroupInst = 1\<rparr>"

theorem parallel_pass_follows_diagram_witness:
  "\<exists>st' c' w'. PS_pass (\<lambda>_. 0) sample_env (True, STATE_PARALLEL_SCAN_SELECTED_INTERFACE_UP, sample_scan 0) sample_world =
      Some ((True, st', c'), w') \<and> st' \<in> PS_next STATE_PARALLEL_SCAN_SELECTED_INTERFACE_UP \<and>
    status_of 1 w' = status_of 1 sample_world"
proof -
  have "PS_inv 1 (True, STATE_PARALLEL_SCAN_SELECTED_INTERFACE_UP, sample_scan 0) sample_world"
    by (simp add: PS_inv_def PS_idx_ok_def sample_scan_def valid_idx_def sample_reads)
  moreover have "machines_start sample_env" "select_ok sample_env" by (simp_all add: sample_env_def machines_start_def)
  moreover have "group_of 1 sample_world \<noteq> Some 1" "int 1 \<noteq> PC_activeInterfaceIdx (sample_scan 0)"
    by (simp_all add: group_of_def sample_reads ethwan_def sample_iface_reads sample_scan_def)
  moreover have "\<not> PS_stops STATE_PARALLEL_SCAN_SELECTED_INTERFACE_UP" by (simp add: PS_stops_def)
  ultimately show ?thesis
    using parallel_pass_follows_diagram [OF wf_sample_world, of 1 STATE_PARALLEL_SCAN_SELECTED_INTERFACE_UP
        "sample_scan 0" sample_env "\<lambda>_. 0"] by fastforce
qed

subsection \<open>The choice\<close>

text \<open>The scan timer has run out.\<close>

definition scan_expired :: "env \<Rightarrow> policy_ctrl \<Rightarrow> bool" where
  "scan_expired e c \<longleftrightarrow> int (unat (PC_InterfaceSelectionTimeOut c)) < clock e 0 - PC_SelectionTimeOutStart c"

text \<open>
  Interface \<open>k\<close> may be selected: it is an enabled, working interface of the group, and either the last
  active link, or there is no working last active link and no working interface has a better priority; then
  the timer has run out, or \<open>k\<close> has the best priority of all, or some interface is the last active link.
\<close>

definition PS_choice :: "env \<Rightarrow> policy_ctrl \<Rightarrow> world \<Rightarrow> nat \<Rightarrow> bool" where
  "PS_choice e c w k \<longleftrightarrow> scan_cand c w k \<and> scan_works w k \<and>
     (scan_last w k \<or>
      (\<forall>j. scan_cand c w j \<and> scan_works w j \<longrightarrow> \<not> scan_last w j \<and> scan_prio w k \<le> scan_prio w j) \<and>
      (scan_expired e c \<or> (\<forall>j. scan_cand c w j \<longrightarrow> scan_prio w k \<le> scan_prio w j) \<or>
       (\<exists>j. scan_cand c w j \<and> scan_last w j)))"

text \<open>
  The choice cannot be put off: the last active link works; or some interface with an admissible priority
  works, and the timer has run out or no other interface is as good.
\<close>

definition PS_decided :: "env \<Rightarrow> policy_ctrl \<Rightarrow> world \<Rightarrow> bool" where
  "PS_decided e c w \<longleftrightarrow> (\<exists>k. scan_cand c w k \<and> scan_works w k \<and>
     (scan_last w k \<or>
      scan_prio w k \<le> 255 \<and>
      (scan_expired e c \<or> (\<forall>j. scan_cand c w j \<longrightarrow> \<not> scan_last w j \<and> (j = k \<or> scan_prio w k < scan_prio w j)))))"

lemma scan_cand_less: "scan_cand c w k \<Longrightarrow> k < unat (total_ifaces w)"
  by (simp add: scan_cand_def)

text \<open>When the loop has ended, the conditions of the code mean the two predicates.\<close>

abbreviation (input) "scan_found s \<equiv> highPriorityValidIface s \<noteq> -1 \<and> scan_activeIdx s \<noteq> -1"
abbreviation (input) "scan_takes e c s \<equiv>
  scan_found s \<and> (highPriorityValidIface s = idx_uint (scan_activeIdx s) \<or> scan_expired e c)"

lemma scan_choice:
  assumes wf: "wf_db w" and s: "scan_result c w s" and takes: "scan_takes e c s"
  shows "\<exists>k. scan_activeIdx s = int k \<and> PS_choice e c w k"
proof (cases "\<exists>k. scan_activeIdx s = int k \<and> scan_cand c w k \<and> scan_last w k \<and> scan_works w k")
  case True
  then show ?thesis by (auto simp: PS_choice_def)
next
  case False
  let ?n = "unat (total_ifaces w)"
  from s False have inv: "scan_inv c w ?n s" by (auto simp: scan_result_def)
  with takes obtain k where k: "k < ?n" "scan_activeIdx s = int k" "scan_cand c w k" "scan_works w k"
    "highPriorityActiveValue s = scan_prio w k" "scan_prio w k \<le> 255" by (auto simp: scan_inv_def)
  have best: "\<not> scan_last w j \<and> scan_prio w k \<le> scan_prio w j" if "scan_cand c w j" "scan_works w j" for j
  proof -
    have j: "j < ?n" using that(1) by (rule scan_cand_less)
    with inv that have "\<not> scan_last w j" by (auto simp: scan_inv_def)
    moreover have "scan_prio w k \<le> scan_prio w j"
    proof (cases "scan_prio w j \<le> 255")
      case True
      with inv j that k(5) show ?thesis by (auto simp: scan_inv_def)
    next
      case False
      with k(6) show ?thesis by simp
    qed
    ultimately show ?thesis ..
  qed
  have all: "scan_prio w k \<le> scan_prio w j" if "\<not> scan_expired e c" "\<not> (\<exists>j. scan_cand c w j \<and> scan_last w j)" "scan_cand c w j" for j
  proof -
    have j: "j < ?n" using that(3) by (rule scan_cand_less)
    from inv that(2) have nl: "\<not> lastSelectedIfaceFound s" by (auto simp: scan_inv_def)
    with inv takes obtain i where i: "i < ?n" "highPriorityValidIface s = of_nat i" "highPriorityValue s = scan_prio w i"
      by (auto simp: scan_inv_def)
    from takes that(1) k(2) i(2) have "(of_nat i :: uint) = of_nat k" by (simp add: idx_uint_def)
    then have "i = k" using index_bound(1) [OF i(1)] index_bound(1) [OF k(1)] by metis
    with i have v: "highPriorityValue s = scan_prio w k" by simp
    show ?thesis
    proof (cases "scan_prio w j \<le> 255")
      case True
      with inv j that(3) nl v show ?thesis by (auto simp: scan_inv_def)
    next
      case False
      with k(6) show ?thesis by simp
    qed
  qed
  from k best all show ?thesis by (auto simp: PS_choice_def)
qed

lemma scan_decides:
  assumes wf: "wf_db w" and s: "scan_result c w s" and dec: "PS_decided e c w"
  shows "scan_takes e c s"
proof (cases "\<exists>k. scan_activeIdx s = int k \<and> highPriorityValidIface s = of_nat k \<and> scan_cand c w k")
  case True
  then obtain k where k: "scan_activeIdx s = int k" "highPriorityValidIface s = of_nat k" "scan_cand c w k" by blast
  with scan_index_ne [OF wf scan_cand_less [OF k(3)]] show ?thesis by (simp add: idx_uint_def)
next
  case False
  let ?n = "unat (total_ifaces w)"
  from s False have inv: "scan_inv c w ?n s" by (auto simp: scan_result_def)
  from dec obtain k where k: "scan_cand c w k" "scan_works w k" and why: "scan_last w k \<or> scan_prio w k \<le> 255 \<and>
      (scan_expired e c \<or> (\<forall>j. scan_cand c w j \<longrightarrow> \<not> scan_last w j \<and> (j = k \<or> scan_prio w k < scan_prio w j)))"
    by (auto simp: PS_decided_def)
  have kn: "k < ?n" using k(1) by (rule scan_cand_less)
  with inv k why have p: "scan_prio w k \<le> 255" "highPriorityActiveValue s \<le> scan_prio w k" "scan_activeIdx s \<noteq> -1"
    by (auto simp: scan_inv_def)
  from inv p(3) obtain a where a: "scan_activeIdx s = int a" "scan_cand c w a" "highPriorityActiveValue s = scan_prio w a"
    by (auto simp: scan_inv_def)
  from inv p(3) have found: "scan_found s" by (auto simp: scan_inv_def)
  show ?thesis
  proof (cases "scan_expired e c")
    case False
    with why inv k kn have only: "\<forall>j. scan_cand c w j \<longrightarrow> \<not> scan_last w j \<and> (j = k \<or> scan_prio w k < scan_prio w j)"
      by (auto simp: scan_inv_def)
    with a p(2) have ak: "a = k" by (metis not_le)
    from only inv have nl: "\<not> lastSelectedIfaceFound s" by (auto simp: scan_inv_def)
    with inv found obtain i where i: "highPriorityValidIface s = of_nat i" "scan_cand c w i" "highPriorityValue s = scan_prio w i"
      by (auto simp: scan_inv_def)
    from inv nl k(1) kn p(1) have "highPriorityValue s \<le> scan_prio w k" by (auto simp: scan_inv_def)
    with only i have "i = k" by (metis not_le)
    with i a ak found show ?thesis by (simp add: idx_uint_def)
  qed (use found in simp)
qed

text \<open>What selecting an interface writes.\<close>

definition selection_made :: "policy_ctrl \<Rightarrow> world \<Rightarrow> nat \<Rightarrow> world \<Rightarrow> bool" where
  "selection_made c w k w' \<longleftrightarrow>
     (\<forall>j. status_of j w' = (if scan_cand c w j then Some (if j = k then WAN_IFACE_SELECTED else WAN_IFACE_NOT_SELECTED)
                            else status_of j w)) \<and>
     group_selected (PC_GroupInst c) w' = Some k"

lemma mark_selected:
  assumes "wf_db w"
  shows "keeps w (PS_mark_selected e i k b w)" "snd (sel_view (PS_mark_selected e i k b w)) = snd (sel_view w)"
    "scan_cand c (PS_mark_selected e i k b w) j = scan_cand c w j"
    "status_of j (PS_mark_selected e i k b w) =
       (if j = k then map_option (\<lambda>_. if b then WAN_IFACE_SELECTED else WAN_IFACE_NOT_SELECTED) (status_of j w)
        else status_of j w)"
proof -
  let ?st = "if b then WAN_IFACE_SELECTED else WAN_IFACE_NOT_SELECTED"
  let ?u = "set_ActiveLink k b (set_status k ?st w)"
  have "gWanMgrDataBase (PS_mark_selected e i k b w) = gWanMgrDataBase ?u"
    by (simp add: PS_mark_selected_def frame_simps)
  note db = sel_view_same_db [OF this] same_db_reads [OF this] keeps_same_db [OF this]
  have u: "keeps w ?u" "sel_view ?u = sel_view (set_status k ?st w)" "total_ifaces ?u = total_ifaces w"
    using assms by (simp_all add: set_ActiveLink_def keeps_refl keeps_upd_iface)
  show "keeps w (PS_mark_selected e i k b w)" using u(1) by (rule db)
  show "snd (sel_view (PS_mark_selected e i k b w)) = snd (sel_view w)" by (simp only: db(1) u(2) set_status_simps)
  show "status_of j (PS_mark_selected e i k b w) =
       (if j = k then map_option (\<lambda>_. ?st) (status_of j w) else status_of j w)"
    unfolding status_of_def db(1) u(2) by (simp add: status_of_set_status [unfolded status_of_def])
  have "iface_at j ?u = map_option (if j = k then upd_Selection (\<lambda>s. s\<lparr>Sel_ActiveLink := b\<rparr>) \<circ>
      upd_Selection (\<lambda>s. s\<lparr>Sel_Status := ?st\<rparr>) else (\<lambda>x. x)) (iface_at j w)"
    by (auto simp: set_ActiveLink_def set_status_def option.map_comp comp_def option.map_ident)
  then show "scan_cand c (PS_mark_selected e i k b w) j = scan_cand c w j"
    using u(3) by (auto simp: scan_cand_def db PS_candidate_def)
qed

lemma mlock_mark_selected: "PS_mark_selected e i k b (mlock w) = mlock (PS_mark_selected e i k b w)"
proof -
  have psm: "snd (DmlSetWanActiveLinkInPSMDB e j v (mlock u)) = mlock (snd (DmlSetWanActiveLinkInPSMDB e j v u))" for j v u
    by (simp add: DmlSetWanActiveLinkInPSMDB_def WanMgr_RdkBus_SetParamValuesToDB_def Let_def emit_def
        mlock_def upd_db_def split: prod.split)
  show ?thesis by (simp add: PS_mark_selected_def set_ActiveLink_def psm)
qed

lemma scan_cand_upd [simp]:
  "scan_cand (c\<lparr>PC_activeInterfaceIdx := x\<rparr>) = scan_cand c" "scan_cand (c\<lparr>PC_SelectionTimeOutStart := t\<rparr>) = scan_cand c"
  by (simp_all add: scan_cand_def PS_candidate_def fun_eq_iff)

text \<open>The loop over the interfaces, as far as it has come.\<close>

lemma selecting_loop:
  assumes wf: "wf_db w" and idx: "\<And>i. i < unat (total_ifaces w) \<Longrightarrow> PS_selected c i \<longleftrightarrow> i = k"
  shows "ok w (for_loop [0..<unat (total_ifaces w)] (\<lambda>i u w. continue (with_iface (of_nat i) () (\<lambda>k w. do {
       d \<leftarrow> iface_at k w;
       Some ((), if PC_GroupInst c = Sel_Group (If_Selection d) \<and> Sel_Enable (If_Selection d)
                 then PS_mark_selected e i k (PS_selected c i) w else w)
     }) w)) () w)
     (\<lambda>_ w'. snd (sel_view w') = snd (sel_view w) \<and>
        (\<forall>j. status_of j w' = (if scan_cand c w j then Some (if j = k then WAN_IFACE_SELECTED else WAN_IFACE_NOT_SELECTED)
                               else status_of j w)))" (is "ok w (for_loop _ ?body () w) ?Q")
proof -
  define I where "I pre w' \<longleftrightarrow> snd (sel_view w') = snd (sel_view w) \<and> (\<forall>j. scan_cand c w' j = scan_cand c w j \<and>
      status_of j w' = (if j \<in> set pre \<and> scan_cand c w j
        then Some (if j = k then WAN_IFACE_SELECTED else WAN_IFACE_NOT_SELECTED) else status_of j w))" for pre w'
  show ?thesis
  proof (rule ok_for_loop [where I = "\<lambda>pre _ w'. I pre w'"])
    show "keeps w w" "I [] w" using wf by (simp_all add: keeps_refl I_def)
    show "?Q u w'" if "I [0..<unat (total_ifaces w)] w'" for u w'
      using that scan_cand_less [of c w] by (fastforce simp: I_def)
    fix pre i u w'
    assume "\<exists>todo. [0..<unat (total_ifaces w)] = pre @ i # todo" and kp: "keeps w w'" and inv: "I pre w'"
    then have i: "i < unat (total_ifaces w)" by (metis in_set_conv_decomp set_upt atLeastLessThan_iff)
    from kp have wf': "wf_db w'" and n: "total_ifaces w' = total_ifaces w" by (simp_all add: keeps_def)
    from i n wf' obtain d where d: "iface_at i w' = Some d" by (metis wf_db_iface_at)
    have at: "unat (of_nat i :: uint) = i" "(of_nat i :: uint) < total_ifaces w'"
      using index_bound [OF i] n by simp_all
    have cand: "scan_cand c w' i \<longleftrightarrow> PC_GroupInst c = Sel_Group (If_Selection d) \<and> Sel_Enable (If_Selection d)"
      using d i n by (simp add: scan_cand_def PS_candidate_def)
    define w1 where "w1 = (if scan_cand c w' i then PS_mark_selected e i i (i = k) w' else w')"
    have w1: "scan_cand c w' i \<Longrightarrow> pthread_mutex_unlock (PS_mark_selected e i i (i = k) (mlock w')) = w1"
      "\<not> scan_cand c w' i \<Longrightarrow> w' = w1"
      by (simp_all add: w1_def mlock_mark_selected)
    have run: "?body i u w' = Some (Continue (), w1)"
      using wf' d at idx [OF i] w1 by (simp add: with_wf(2) cand [symmetric])
    have st: "status_of i w' \<noteq> None" using d by (simp add: status_of_def sel_view_def)
    have k1: "keeps w' w1" "I (pre @ [i]) w1"
      using mark_selected [where e = e and i = i and k = i and b = "i = k", OF wf'] st inv keeps_refl [OF wf']
      by (auto simp: w1_def I_def)
    with run keeps_trans [OF kp k1(1)] show "ok w (?body i u w')
        (\<lambda>f w''. case f of Continue s' \<Rightarrow> I (pre @ [i]) w'' | Break s' \<Rightarrow> ?Q s' w'')"
      by (simp add: ok_def)
  qed
qed

lemma selecting_selects:
  assumes wf: "wf_db w" and n: "PC_TotalIfaces c = total_ifaces w" and g: "PC_GroupInst c - 1 < total_groups w"
    and k: "PC_activeInterfaceIdx c = int k" "k < unat (total_ifaces w)"
  shows "\<exists>w'. PS_Transition_SelectingInterface e c w =
    Some ((STATE_PARALLEL_SCAN_CHECK_RECONFIGURATION, c\<lparr>PC_SelectionTimeOutStart := 0\<rparr>), w') \<and> selection_made c w k w'"
proof -
  let ?c = "c\<lparr>PC_SelectionTimeOutStart := 0\<rparr>"
  have idx: "PS_selected ?c i \<longleftrightarrow> i = k" if "i < unat (total_ifaces w)" for i
  proof -
    have "(of_nat i :: uint) = of_nat k \<longleftrightarrow> i = k"
      using index_bound(1) [OF that] index_bound(1) [OF k(2)] by metis
    then show ?thesis by (simp add: PS_selected_def idx_uint_def k(1))
  qed
  have n': "PC_TotalIfaces ?c = total_ifaces w" using n by simp
  let ?L = "for_loop [0..<unat (total_ifaces w)] (\<lambda>i u w. continue (with_iface (of_nat i) () (\<lambda>k w. do {
       d \<leftarrow> iface_at k w;
       Some ((), if PC_GroupInst ?c = Sel_Group (If_Selection d) \<and> Sel_Enable (If_Selection d)
                 then PS_mark_selected e i k (PS_selected ?c i) w else w)
     }) w)) () w"
  have "ok w ?L (\<lambda>_ w'. snd (sel_view w') = snd (sel_view w) \<and>
        (\<forall>j. status_of j w' = (if scan_cand ?c w j then Some (if j = k then WAN_IFACE_SELECTED else WAN_IFACE_NOT_SELECTED)
                               else status_of j w)))"
    by (rule selecting_loop [OF wf idx])
  then obtain r w1 where 1: "?L = Some (r, w1)" "keeps w w1" "snd (sel_view w1) = snd (sel_view w)"
    "\<forall>j. status_of j w1 = (if scan_cand c w j then Some (if j = k then WAN_IFACE_SELECTED else WAN_IFACE_NOT_SELECTED)
                               else status_of j w)"
    unfolding scan_cand_upd by (elim okE) blast
  let ?x = "idx_uint (PC_activeInterfaceIdx ?c + 1)"
  from SetGroupSelectedIface [OF keeps_wf [OF 1(2)], of "PC_GroupInst ?c" ?x k] obtain w2 where
    2: "WanMgr_SetGroupSelectedIface (PC_GroupInst ?c) ?x w1 = Some (ANSC_STATUS_SUCCESS, w2)" "keeps w1 w2"
    "sel_view w2 = sel_upd (PC_GroupInst ?c) k (Some ?x) None (sel_view w1)" by blast
  have run: "PS_Transition_SelectingInterface e c w = Some ((STATE_PARALLEL_SCAN_CHECK_RECONFIGURATION, ?c), w2)"
    unfolding PS_Transition_SelectingInterface_def Let_def n' 1(1) by (simp only: bind.simps case_prod_conv 2(1))
  from wf_db_group_at [OF wf g] obtain gr where "group_at (unat (PC_GroupInst c - 1)) w = Some gr" by blast
  then have "snd (sel_view w1) (unat (PC_GroupInst c - 1)) = Some (G_SelectedInterface gr)"
    unfolding 1(3) by (simp add: sel_view_def)
  then have v: "snd (sel_view w2) (unat (PC_GroupInst c - 1)) = Some ?x" "status_of j w2 = status_of j w1" for j
    using 2(3) by (cases "sel_view w1", simp add: status_of_def)+
  have x: "?x = inst_of k" using idx_uint_inst [of "total_ifaces w" "int k"] k by simp
  have "inst_of k - 1 < total_ifaces w" "inst_of k \<noteq> 0" "unat (inst_of k - 1) = k"
    using index_bound [OF k(2)] by simp_all
  then have "group_selected (PC_GroupInst c) w2 = Some k"
    using v(1) x g 1(2) 2(2) by (simp add: group_selected_def keeps_def)
  with run 1(4) v(2) show ?thesis by (auto simp: selection_made_def)
qed

text \<open>
  C29. The parallel scan selects what the policy promises.  When the scan ends in a selection, the
  selected interface is an enabled, working interface of the group: the last active link if one works,
  else one with the best priority of the working ones, and this only if no enabled interface of the group
  has a better one, or the timer has run out, or there is a last active link (that does not work); the
  group records it, and all enabled interfaces of the group but it are marked as not selected.
  Conversely, the scan selects as soon as the last active link works, or some interface works and either
  the timer has run out or no other is as good.
\<close>

theorem parallel_scan_choice:
  assumes wf: "wf_db w" and c: "PC_TotalIfaces c = total_ifaces w" "PC_activeInterfaceIdx c = -1"
    and on: "PC_WanEnable c" "\<not> PC_GroupCfgChanged c" and g: "PC_GroupInst c - 1 < total_groups w"
  shows "(\<forall>c' w'. PS_State_ScanningInterface e c w = Some ((STATE_PARALLEL_SCAN_CHECK_RECONFIGURATION, c'), w') \<longrightarrow>
      (\<exists>k. PC_activeInterfaceIdx c' = int k \<and> PS_choice e c w k \<and> selection_made c w k w')) \<and>
    (PS_decided e c w \<longrightarrow>
      (\<exists>c' w'. PS_State_ScanningInterface e c w = Some ((STATE_PARALLEL_SCAN_CHECK_RECONFIGURATION, c'), w')))"
proof -
  let ?s = "flow_fold (scan_at c w) [0..<unat (total_ifaces w)] (PS_scan_start c)"
  let ?c = "c\<lparr>PC_activeInterfaceIdx := scan_activeIdx ?s\<rparr>"
  note s = scan_result [OF wf c(2)]
  note scan = PS_scan_all_eq [OF wf c(1)]
  show ?thesis
  proof (cases "scan_takes e c ?s")
    case True
    with scan_choice [OF wf s] obtain k where k: "scan_activeIdx ?s = int k" "PS_choice e c w k" by blast
    then have kn: "k < unat (total_ifaces w)" by (auto simp: PS_choice_def dest: scan_cand_less)
    from selecting_selects [OF wf, of ?c k e] c(1) g k(1) kn obtain w' where
      w': "PS_Transition_SelectingInterface e ?c w =
        Some ((STATE_PARALLEL_SCAN_CHECK_RECONFIGURATION, ?c\<lparr>PC_SelectionTimeOutStart := 0\<rparr>), w')" "selection_made ?c w k w'"
      by auto
    have "PS_State_ScanningInterface e c w = PS_Transition_SelectingInterface e ?c w"
      using True on by (simp add: PS_State_ScanningInterface_def scan Let_def scan_expired_def)
    with w' k show ?thesis by (simp add: selection_made_def)
  next
    case False
    have "\<not> PS_decided e c w" using scan_decides [OF wf s] False by blast
    moreover have "st \<noteq> STATE_PARALLEL_SCAN_CHECK_RECONFIGURATION"
      if "PS_State_ScanningInterface e c w = Some ((st, c'), w')" for st c' w'
      using that on False
      by (auto simp: PS_State_ScanningInterface_def scan Let_def scan_expired_def PS_Transition_NewInterfaceConnected_def
          split: Option.bind_splits option.splits if_splits prod.splits)
    ultimately show ?thesis by blast
  qed
qed

text \<open>Two interfaces in one group; the better one is still without an address, and the timer has run out.\<close>

definition scan_world :: world where
  "scan_world = mk_world
     [sample_iface 0 ''Device.X_RDK_CableModem'' 1 1 WAN_IFACE_VALIDATING WAN_IFACE_STATUS_INITIALISING,
      sample_iface 1 ''Device.Ethernet.Interface.1'' 1 2 WAN_IFACE_VALIDATING WAN_IFACE_STATUS_STANDBY]
     [sample_group 0 0]"

theorem parallel_scan_choice_witness:
  "\<exists>c' w'. PS_State_ScanningInterface sample_env (sample_scan (-1)) scan_world =
      Some ((STATE_PARALLEL_SCAN_CHECK_RECONFIGURATION, c'), w') \<and>
    (\<exists>k. PC_activeInterfaceIdx c' = int k \<and> PS_choice sample_env (sample_scan (-1)) scan_world k \<and>
       selection_made (sample_scan (-1)) scan_world k w')"
proof -
  have wf: "wf_db scan_world"
    unfolding scan_world_def by (rule wf_db_mk_world) (auto simp: less_Suc_eq wf_shape_sample)
  have reads: "total_ifaces scan_world = 2" "total_groups scan_world = 1"
    "iface_at (Suc 0) scan_world =
       Some (sample_iface 1 ''Device.Ethernet.Interface.1'' 1 2 WAN_IFACE_VALIDATING WAN_IFACE_STATUS_STANDBY)"
    by (simp_all add: scan_world_def mk_world_reads)
  have c: "PC_TotalIfaces (sample_scan (-1)) = total_ifaces scan_world" "PC_activeInterfaceIdx (sample_scan (-1)) = -1"
    "PC_WanEnable (sample_scan (-1))" "\<not> PC_GroupCfgChanged (sample_scan (-1))"
    "PC_GroupInst (sample_scan (-1)) - 1 < total_groups scan_world"
    by (simp_all add: sample_scan_def reads)
  have "scan_expired sample_env (sample_scan (-1))"
    by (simp add: scan_expired_def sample_env_def sample_scan_def)
  moreover have "scan_cand (sample_scan (-1)) scan_world (Suc 0)" "scan_works scan_world (Suc 0)"
    "scan_prio scan_world (Suc 0) \<le> 255"
    by (simp_all add: scan_cand_def PS_candidate_def scan_works_def virtif_works_def scan_prio_def priority_uint_def reads
        sample_iface_reads sample_scan_def) (simp_all add: sample_iface_def)
  ultimately have "PS_decided sample_env (sample_scan (-1)) scan_world" by (auto simp: PS_decided_def)
  with parallel_scan_choice [OF wf c, of sample_env] show ?thesis by metis
qed

subsection \<open>What the policy leaves behind\<close>

text \<open>
  A policy that is stopped while it scans goes to its error state at once and changes nothing: the
  interfaces it has started to validate stay as they are, and so do their machines.
\<close>

lemma stopped_scan_leaves_interfaces:
  assumes wf: "wf_db w" and inv: "PS_inv inst (True, STATE_PARALLEL_SCAN_SCANNING_INTERFACE, c) w"
    and off: "\<not> Cfg_Enable (config w)" and e: "select_ok e"
  shows "\<exists>c'. PS_pass junk e (True, STATE_PARALLEL_SCAN_SCANNING_INTERFACE, c) w =
    Some ((True, STATE_PARALLEL_SCAN_POLICY_ERROR, c'), w)"
proof -
  from inv have c: "PC_activeInterfaceIdx c = -1" "PC_pWanActiveIfaceData c = None" by (simp_all add: PS_inv_def PS_idx_ok_def)
  then show ?thesis
    using e off by (simp add: PS_update [OF wf] PS_take_iface_def PS_State_ScanningInterface_def PS_Transition_TearingDown_def
        PS_release_def PS_stops_def)
qed

text \<open>
  When the machine of a newly connected interface cannot be started, the policy goes on scanning with the
  mutex of the data base locked once more than before: no other thread gets past it again.
\<close>

lemma failed_start_keeps_mutex:
  assumes wf: "wf_db w" and i: "i < unat (total_ifaces w)" and d: "iface_at i w = Some d" "head_virtif d = Some v"
    and v: "VI_Enable v" and e: "\<And>l. \<not> malloc_ok e l"
  shows "\<exists>w'. PS_Transition_NewInterfaceConnected e i w = Some (STATE_PARALLEL_SCAN_SCANNING_INTERFACE, w') \<and>
    mutex w' = map_option Suc (mutex w)"
proof -
  note at = index_bound [OF i]
  let ?w = "set_VirtIfChanged i False (set_status i WAN_IFACE_VALIDATING (mlock w))"
  let ?d = "(upd_Selection (\<lambda>s. s\<lparr>Sel_Status := WAN_IFACE_VALIDATING\<rparr>) d)\<lparr>If_VirtIfChanged := False\<rparr>"
  have wf1: "wf_db ?w" using wf by (simp add: set_VirtIfChanged_def wf_db_upd_iface iface_shape_def)
  have d1: "iface_at i ?w = Some ?d" using d by (simp add: set_VirtIfChanged_def set_status_def)
  have t: "total_ifaces ?w = total_ifaces w" by (simp add: set_VirtIfChanged_def)
  from wf i obtain x where x: "iface_at i w = Some x" "wf_shape i (iface_shape x)" by (rule wf_db_iface_at)
  with d have sh: "wf_shape i (iface_shape d)" by simp
  have n: "0 < unat (If_NoOfVirtIfs d)"
    using sh d(2) by (auto simp: iface_shape_def head_virtif_def)
  have v0: "If_VirtIfList d ! 0 = v" using d(2) by (cases "If_VirtIfList d") (simp_all add: head_virtif_def)
  note same = upd_Selection_def
  have j: "idx_uint (int i) < total_ifaces ?w" "unat (idx_uint (int i)) = i" using at t by (simp_all add: idx_uint_def)
  have get: "WanMgr_getVirtualIface_locked (idx_uint (int i)) (of_nat 0) ?w = Some (Some (i, 0), mlock ?w)"
    "virtif_at (i, 0) (mlock ?w) = Some v"
    using getVirtualIface_locked_wf [OF wf1 j(1), of ?d 0] d1 j(2) n v0 by (simp_all add: same)
  have "AW_start_virtif e (int i) 0 True ?w = Some (Break False, ?w)"
    unfolding AW_start_virtif_def get(1) using get(2) v e
    by (simp add: release_defs WanMgr_StartInterfaceStateMachine_def)
  then have "for_loop [0..<unat (If_NoOfVirtIfs d)] (AW_start_virtif e (int i)) True ?w = Some (False, ?w)"
    using n by (simp add: upt_conv_Cons for_loop_Cons)
  then have "PS_Transition_NewInterfaceConnected e i w = Some (STATE_PARALLEL_SCAN_SCANNING_INTERFACE, ?w)"
    unfolding PS_Transition_NewInterfaceConnected_def GetIfaceData_locked_wf [OF wf at(2)]
    using at d by simp
  moreover have "mutex ?w = map_option Suc (mutex w)" by (simp add: set_VirtIfChanged_def)
  ultimately show ?thesis by blast
qed

end
