(* ===== verification/WanConfig.thy ===== *)
theory WanConfig
  imports WanSafe
begin

text \<open>
  The configuration in the persistent store (PSM): its record names, the readers and writers of
  \<open>wanmgr_rdkbus_apis.c\<close>, and the start-up of \<open>wanmgr_data.c\<close> that builds the data base from it
  (\<open>WanMgr_WanConfigInit\<close>).

  A copy of a text into an array that is too short for it, a write beyond the table of interfaces, and
  the conversion of a number that names no enumerator have no defined outcome: the result is \<open>None\<close>.
  The memory the start-up asks for is the record \<open>startup_mem\<close>.
\<close>

subsection \<open>Texts, numbers and enumerators in the store\<close>

text \<open>\<open>AnscCopyString(dst, src)\<close> into an array of \<open>n\<close> characters.\<close>

definition copy_in :: "nat \<Rightarrow> string \<Rightarrow> string option" where
  "copy_in n src = (if length src < n then Some src else None)"

abbreviation (input) "PSM_ENABLE_STRING_TRUE \<equiv> ''TRUE''"
abbreviation (input) "PSM_ENABLE_STRING_FALSE \<equiv> ''FALSE''"

definition psm_flag :: "bool \<Rightarrow> string" where
  "psm_flag b = (if b then PSM_ENABLE_STRING_TRUE else PSM_ENABLE_STRING_FALSE)"

text \<open>\<open>sprintf("%d")\<close> of an \<open>UINT\<close>: the word is read as a signed number.\<close>

definition show_uint :: "uint \<Rightarrow> string" where
  "show_uint n = show_int (sint n)"

text \<open>The enumerations that are stored: the code of an enumerator, and the enumerator with a code.\<close>

primrec type_code :: "DML_WAN_IFACE_TYPE \<Rightarrow> nat" where
  "type_code WAN_IFACE_TYPE_UNCONFIGURED = 1"
| "type_code WAN_IFACE_TYPE_PRIMARY = 2"
| "type_code WAN_IFACE_TYPE_SECONDARY = 3"

primrec ip_mode_code :: "DML_WAN_IP_MODE \<Rightarrow> nat" where
  "ip_mode_code DML_WAN_IP_MODE_IPV4_ONLY = 1"
| "ip_mode_code DML_WAN_IP_MODE_IPV6_ONLY = 2"
| "ip_mode_code DML_WAN_IP_MODE_DUAL_STACK = 3"
| "ip_mode_code DML_WAN_IP_MODE_NO_IP = 4"

primrec ip_source_code :: "DML_WAN_IP_SOURCE \<Rightarrow> nat" where
  "ip_source_code DML_WAN_IP_SOURCE_STATIC = 1"
| "ip_source_code DML_WAN_IP_SOURCE_DHCP = 2"
| "ip_source_code DML_WAN_IP_SOURCE_PPP = 3"

primrec preferred_mode_code :: "DML_WAN_IP_PREFERRED_MODE \<Rightarrow> nat" where
  "preferred_mode_code DUAL_STACK_MODE = 1"
| "preferred_mode_code MAPT_MODE = 2"
| "preferred_mode_code MAPE_MODE = 3"
| "preferred_mode_code DSLITE_MODE = 4"

definition decode :: "('a \<Rightarrow> nat) \<Rightarrow> 'a list \<Rightarrow> int \<Rightarrow> 'a option" where
  "decode code all v = find (\<lambda>x. int (code x) = v) all"

definition type_of_code :: "int \<Rightarrow> DML_WAN_IFACE_TYPE option" where
  "type_of_code = decode type_code
     [WAN_IFACE_TYPE_UNCONFIGURED, WAN_IFACE_TYPE_PRIMARY, WAN_IFACE_TYPE_SECONDARY]"

definition ip_mode_of_code :: "int \<Rightarrow> DML_WAN_IP_MODE option" where
  "ip_mode_of_code = decode ip_mode_code
     [DML_WAN_IP_MODE_IPV4_ONLY, DML_WAN_IP_MODE_IPV6_ONLY, DML_WAN_IP_MODE_DUAL_STACK,
      DML_WAN_IP_MODE_NO_IP]"

definition ip_source_of_code :: "int \<Rightarrow> DML_WAN_IP_SOURCE option" where
  "ip_source_of_code = decode ip_source_code
     [DML_WAN_IP_SOURCE_STATIC, DML_WAN_IP_SOURCE_DHCP, DML_WAN_IP_SOURCE_PPP]"

definition preferred_mode_of_code :: "int \<Rightarrow> DML_WAN_IP_PREFERRED_MODE option" where
  "preferred_mode_of_code = decode preferred_mode_code [DUAL_STACK_MODE, MAPT_MODE, MAPE_MODE, DSLITE_MODE]"

subsection \<open>Record names\<close>

definition psm_if :: "nat \<Rightarrow> string \<Rightarrow> string" where
  "psm_if i leaf = ''dmsb.wanmanager.if.'' @ show_nat i @ ''.'' @ leaf"

definition psm_virtif :: "nat \<Rightarrow> nat \<Rightarrow> string \<Rightarrow> string" where
  "psm_virtif i v leaf = psm_if i (''VirtualInterface.'' @ show_nat v @ ''.'' @ leaf)"

definition PSM_WANMANAGER_IF_VIRIF_VLAN_INTERFACE_ENTRY :: "nat \<Rightarrow> nat \<Rightarrow> nat \<Rightarrow> string" where
  "PSM_WANMANAGER_IF_VIRIF_VLAN_INTERFACE_ENTRY i v n = psm_virtif i v (''VLAN.'' @ show_nat n @ ''.Interface'')"

definition PSM_WANMANAGER_IF_VIRIF_VLAN_MARKING_ENTRY :: "nat \<Rightarrow> nat \<Rightarrow> nat \<Rightarrow> string" where
  "PSM_WANMANAGER_IF_VIRIF_VLAN_MARKING_ENTRY i v n = psm_virtif i v (''Marking.'' @ show_nat n @ ''.Entry'')"

subsection \<open>Reading records\<close>

text \<open>
  The records are read into an array of 256 characters that is cleared before: \<open>psm_value\<close> is its
  content afterwards, whether or not the record was found.
\<close>

abbreviation psm_record :: "string \<Rightarrow> world \<Rightarrow> string option" where
  "psm_record name w \<equiv> WanMgr_RdkBus_GetParamValuesFromDB name 256 w"

definition psm_value :: "string \<Rightarrow> world \<Rightarrow> string" where
  "psm_value name w = (case psm_record name w of None \<Rightarrow> [] | Some s \<Rightarrow> s)"

definition psm_true :: "string \<Rightarrow> world \<Rightarrow> bool" where
  "psm_true name w \<longleftrightarrow> psm_value name w = PSM_ENABLE_STRING_TRUE"

text \<open>A number, or what the variable held before when nothing could be scanned.\<close>

definition psm_int :: "string \<Rightarrow> int \<Rightarrow> world \<Rightarrow> int" where
  "psm_int name old w = (case sscanf_d (psm_value name w) of None \<Rightarrow> old | Some v \<Rightarrow> v)"

definition psm_uint :: "string \<Rightarrow> uint \<Rightarrow> world \<Rightarrow> uint" where
  "psm_uint name old w = (case sscanf_d (psm_value name w) of None \<Rightarrow> old | Some v \<Rightarrow> word_of_int v)"

definition psm_enum :: "string \<Rightarrow> (int \<Rightarrow> 'a option) \<Rightarrow> 'a \<Rightarrow> world \<Rightarrow> 'a option" where
  "psm_enum name of_code old w = (case sscanf_d (psm_value name w) of None \<Rightarrow> Some old | Some v \<Rightarrow> of_code v)"

text \<open>A text that is copied only if the record was found.\<close>

definition psm_text :: "string \<Rightarrow> nat \<Rightarrow> string \<Rightarrow> world \<Rightarrow> string option" where
  "psm_text name n old w = (case psm_record name w of None \<Rightarrow> Some old | Some s \<Rightarrow> copy_in n s)"

definition SELECTION_TIMEOUT_DEFAULT_MIN :: uint where
  "SELECTION_TIMEOUT_DEFAULT_MIN = 20"

definition get_Wan_Interface_ParametersFromPSM :: "nat \<Rightarrow> DML_WAN_IFACE \<Rightarrow> world \<Rightarrow> DML_WAN_IFACE option" where
  "get_Wan_Interface_ParametersFromPSM n d w = do {
     name \<leftarrow> psm_text (psm_if n ''Name'') 64 (If_Name d) w;
     display \<leftarrow> psm_text (psm_if n ''DisplayName'') 64 (If_DisplayName d) w;
     alias \<leftarrow> psm_text (psm_if n ''AliasName'') 64 (If_AliasName d) w;
     base \<leftarrow> psm_text (psm_if n ''BaseInterface'') 128 (If_BaseInterface d) w;
     type \<leftarrow> psm_enum (psm_if n ''Type'') type_of_code (If_Type d) w;
     let s = If_Selection d;
     let timeout = psm_uint (psm_if n ''Selection.Timeout'') (Sel_Timeout s) w;
     Some (d\<lparr>If_uiInstanceNumber := of_nat n, If_Name := name, If_DisplayName := display, If_AliasName := alias,
             If_BaseInterface := base, If_Type := type,
             If_Selection := s
               \<lparr>Sel_Enable := psm_true (psm_if n ''Selection.Enable'') w,
                Sel_ActiveLink := psm_true (PSM_IF_SELECTION_ACTIVELINK (of_nat n)) w,
                Sel_Priority := psm_int (psm_if n ''Selection.Priority'') (Sel_Priority s) w,
                Sel_Timeout := (if timeout < SELECTION_TIMEOUT_DEFAULT_MIN then SELECTION_TIMEOUT_DEFAULT_MIN
                                else timeout),
                Sel_Group := psm_uint (psm_if n ''Selection.Group'') (Sel_Group s) w,
                Sel_RequiresReboot := psm_true (psm_if n ''Selection.RequiresReboot'') w\<rparr>,
             If_NoOfVirtIfs := psm_uint (psm_if n ''VirtualInterfaceifcount'') (If_NoOfVirtIfs d) w\<rparr>)
   }"

abbreviation (input) "PPP_INTERFACE_TABLE \<equiv> ''Device.PPP.Interface.''"
abbreviation (input) "VLAN_TERMINATION_TABLE \<equiv> ''Device.X_RDK_Ethernet.VLANTermination.''"

text \<open>
  \<open>get_Virtual_Interface_FromPSM\<close>; the names, the interfaces and the VLAN in use become empty when
  there is no record, and flags are only ever set.
\<close>

definition get_Virtual_Interface_FromPSM ::
  "nat \<Rightarrow> nat \<Rightarrow> DML_VIRTUAL_IFACE \<Rightarrow> world \<Rightarrow> DML_VIRTUAL_IFACE option" where
  "get_Virtual_Interface_FromPSM n virtInsNum v w = do {
     let rec = psm_virtif n (virtInsNum + 1);
     let maptRfc = (case syscfg w ''MAPT_Enable'' of None \<Rightarrow> [] | Some s \<Rightarrow> take 15 s);
     name \<leftarrow> copy_in 64 (psm_value (rec ''Name'') w);
     alias \<leftarrow> copy_in 64 (psm_value (rec ''Alias'') w);
     ppp \<leftarrow> copy_in 64 (psm_value (rec ''PPPInterface'') w);
     vlan_in_use \<leftarrow> copy_in 128 (psm_value (rec ''VlanInUse'') w);
     ip_iface \<leftarrow> copy_in 64 (psm_value (rec ''IPInterface'') w);
     mode \<leftarrow> psm_enum (rec ''IP.Mode'') ip_mode_of_code (IP_Mode (VI_IP v)) w;
     v4source \<leftarrow> psm_enum (rec ''IP.IPv4Source'') ip_source_of_code (IP_IPv4Source (VI_IP v)) w;
     dhcpv4 \<leftarrow> copy_in 128 (psm_value (rec ''IP.DHCPV4Interface'') w);
     v6source \<leftarrow> psm_enum (rec ''IP.IPv6Source'') ip_source_of_code (IP_IPv6Source (VI_IP v)) w;
     dhcpv6 \<leftarrow> copy_in 128 (psm_value (rec ''IP.DHCPV6Interface'') w);
     preferred \<leftarrow> psm_enum (rec ''IP.PreferredMode'') preferred_mode_of_code (IP_PreferredMode (VI_IP v)) w;
     let entries = psm_uint (rec ''VlanCount'') (VLAN_NoOfInterfaceEntries (VI_VLAN v)) w;
     Some (v\<lparr>VI_EnableMAPT := VI_EnableMAPT v \<or> psm_true (rec ''EnableMAPT'') w \<or> maptRfc = ''true'',
             VI_EnableDSLite := VI_EnableDSLite v \<or> psm_true (rec ''EnableDSLite'') w,
             VI_Enable := VI_Enable v \<or> psm_true (rec ''Enable'') w,
             VI_Name := name, VI_Alias := alias,
             VI_PPP := (VI_PPP v)
               \<lparr>PPP_Interface := ppp, PPP_Enable := PPP_Enable (VI_PPP v) \<or> prefix PPP_INTERFACE_TABLE ppp\<rparr>,
             VI_VLAN := (VI_VLAN v)
               \<lparr>VLAN_NoOfInterfaceEntries := entries,
                VLAN_Timeout := psm_uint (rec ''Timeout'') (VLAN_Timeout (VI_VLAN v)) w,
                VLAN_VLANInUse := vlan_in_use,
                VLAN_Enable := VLAN_Enable (VI_VLAN v) \<or> prefix VLAN_TERMINATION_TABLE vlan_in_use \<or> entries > 0,
                VLAN_NoOfMarkingEntries :=
                  psm_uint (rec ''MarkingCount'') (VLAN_NoOfMarkingEntries (VI_VLAN v)) w\<rparr>,
             VI_IP := (VI_IP v)
               \<lparr>IP_Interface := ip_iface, IP_Mode := mode, IP_IPv4Source := v4source, IP_DHCPv4Iface := dhcpv4,
                IP_IPv6Source := v6source, IP_DHCPv6Iface := dhcpv6, IP_PreferredMode := preferred,
                IP_ModeForceEnable := IP_ModeForceEnable (VI_IP v) \<or> psm_true (rec ''IP.ModeForceEnable'') w,
                IP_ConnectivityCheckType := psm_int (PSM_WANMANAGER_CONNECTIVITY_CHECK_TYPE n (virtInsNum + 1))
                  (IP_ConnectivityCheckType (VI_IP v)) w\<rparr>\<rparr>)
   }"

subsection \<open>Writing records\<close>

text \<open>Several records, one after the other; the writers ignore failures.\<close>

definition psm_write :: "env \<Rightarrow> (string \<times> string) list \<Rightarrow> world \<Rightarrow> world" where
  "psm_write e = fold (\<lambda>(name, val) w. snd (WanMgr_RdkBus_SetParamValuesToDB e name val w))"

definition iface_records :: "nat \<Rightarrow> DML_WAN_IFACE \<Rightarrow> (string \<times> string) list" where
  "iface_records n d =
     [(psm_if n ''Selection.Enable'', psm_flag (Sel_Enable (If_Selection d))),
      (psm_if n ''Type'', show_nat (type_code (If_Type d))),
      (psm_if n ''Selection.Timeout'', show_uint (Sel_Timeout (If_Selection d))),
      (psm_if n ''Selection.Group'', show_uint (Sel_Group (If_Selection d))),
      (psm_if n ''Selection.RequiresReboot'', psm_flag (Sel_RequiresReboot (If_Selection d))),
      (psm_if n ''Selection.Priority'', show_int (Sel_Priority (If_Selection d))),
      (psm_if n ''BaseInterface'', If_BaseInterface d)]"

definition write_Wan_Interface_ParametersFromPSM :: "env \<Rightarrow> nat \<Rightarrow> DML_WAN_IFACE \<Rightarrow> world \<Rightarrow> ANSC_STATUS \<times> world" where
  "write_Wan_Interface_ParametersFromPSM e n d w = (ANSC_STATUS_SUCCESS, psm_write e (iface_records n d) w)"

definition virtif_records :: "nat \<Rightarrow> nat \<Rightarrow> DML_VIRTUAL_IFACE \<Rightarrow> (string \<times> string) list" where
  "virtif_records n virtInsNum v =
     (let rec = psm_virtif n (virtInsNum + 1) in
     [(rec ''EnableDSLite'', psm_flag (VI_EnableDSLite v)),
      (rec ''EnableMAPT'', psm_flag (VI_EnableMAPT v)),
      (rec ''Enable'', psm_flag (VI_Enable v)),
      (rec ''Name'', VI_Name v),
      (rec ''Alias'', VI_Alias v),
      (rec ''PPPInterface'', PPP_Interface (VI_PPP v)),
      (rec ''Timeout'', show_uint (VLAN_Timeout (VI_VLAN v))),
      (rec ''VlanCount'', show_uint (VLAN_NoOfInterfaceEntries (VI_VLAN v))),
      (rec ''MarkingCount'', show_uint (VLAN_NoOfMarkingEntries (VI_VLAN v))),
      (rec ''IPInterface'', IP_Interface (VI_IP v)),
      (rec ''IP.Mode'', show_nat (ip_mode_code (IP_Mode (VI_IP v)))),
      (rec ''IP.IPv4Source'', show_nat (ip_source_code (IP_IPv4Source (VI_IP v)))),
      (rec ''IP.DHCPV4Interface'', IP_DHCPv4Iface (VI_IP v)),
      (rec ''IP.IPv6Source'', show_nat (ip_source_code (IP_IPv6Source (VI_IP v)))),
      (rec ''IP.DHCPV6Interface'', IP_DHCPv6Iface (VI_IP v)),
      (rec ''IP.PreferredMode'', show_nat (preferred_mode_code (IP_PreferredMode (VI_IP v)))),
      (rec ''IP.ModeForceEnable'', psm_flag (IP_ModeForceEnable (VI_IP v)))])"

definition write_Virtual_Interface_ToPSM :: "env \<Rightarrow> nat \<Rightarrow> nat \<Rightarrow> DML_VIRTUAL_IFACE \<Rightarrow> world \<Rightarrow> world" where
  "write_Virtual_Interface_ToPSM e n virtInsNum v = psm_write e (virtif_records n virtInsNum v)"

definition write_VirtMarking_ParametersToPSM :: "env \<Rightarrow> DML_VIRTIF_MARKING \<Rightarrow> world \<Rightarrow> world" where
  "write_VirtMarking_ParametersToPSM e m = psm_write e
     [(PSM_WANMANAGER_IF_VIRIF_VLAN_MARKING_ENTRY (unat (VM_baseIfIdx m + 1)) (unat (VM_VirIfIdx m + 1))
         (VM_VirtMarkingInstanceNumber m + 1), show_uint (VM_Entry m))]"

text \<open>The code writes the interface of a VLAN into the record of a marking.\<close>

definition write_VlanInterface_ParametersToPSM :: "env \<Rightarrow> DML_VLAN_IFACE_TABLE \<Rightarrow> world \<Rightarrow> world" where
  "write_VlanInterface_ParametersToPSM e t = psm_write e
     [(PSM_WANMANAGER_IF_VIRIF_VLAN_MARKING_ENTRY (unat (VT_baseIfIdx t + 1)) (unat (VT_VirIfIdx t + 1))
         (VT_Index t + 1), VT_Interface t)]"

text \<open>
  \<open>DmlSetWanIfCfg\<close> writes an interface and its virtual interfaces; a missing virtual interface would be
  dereferenced.
\<close>

definition DmlSetWanIfCfg :: "env \<Rightarrow> nat \<Rightarrow> DML_WAN_IFACE \<Rightarrow> world \<Rightarrow> (ANSC_STATUS \<times> world) option" where
  "DmlSetWanIfCfg e LineIndex d w = do {
     let (ret_val, w) = write_Wan_Interface_ParametersFromPSM e LineIndex d w;
     for_loop [0..<unat (If_NoOfVirtIfs d)] (\<lambda>i ret_val w. continue (do {
       v \<leftarrow> WanMgr_getVirtualIfaceById (If_VirtIfList d) (of_nat i);
       Some (ret_val, write_Virtual_Interface_ToPSM e LineIndex i v w)
     })) ret_val w
   }"

definition WanMgr_RdkBus_setWanPolicy :: "env \<Rightarrow> int \<Rightarrow> uint \<Rightarrow> world \<Rightarrow> ANSC_STATUS \<times> world" where
  "WanMgr_RdkBus_setWanPolicy e wan_policy groupId w =
     (case WanMgr_RdkBus_SetParamValuesToDB e (PSM_WANMANAGER_GROUP_POLICY (groupId + 1)) (show_int wan_policy) w of
        (True, w') \<Rightarrow> (ANSC_STATUS_SUCCESS, w')
      | (False, w') \<Rightarrow> (ANSC_STATUS_FAILURE, w'))"

definition DmlSetVLANInUseToPSMDB :: "env \<Rightarrow> DML_VIRTUAL_IFACE \<Rightarrow> world \<Rightarrow> ANSC_STATUS \<times> world" where
  "DmlSetVLANInUseToPSMDB e v w = (ANSC_STATUS_SUCCESS, psm_write e
     [(psm_virtif (unat (VI_baseIfIdx v + 1)) (unat (VI_VirIfIdx v + 1)) ''VlanInUse'', VLAN_VLANInUse (VI_VLAN v))] w)"

definition psm_status :: "bool \<times> world \<Rightarrow> ANSC_STATUS \<times> world" where
  "psm_status p = (if fst p then ANSC_STATUS_SUCCESS else ANSC_STATUS_FAILURE, snd p)"

definition psm_bit :: "bool \<Rightarrow> string" where
  "psm_bit b = (if b then ''1'' else ''0'')"

definition WanMgr_RdkBus_setRestorationDelay :: "env \<Rightarrow> uint \<Rightarrow> world \<Rightarrow> ANSC_STATUS \<times> world" where
  "WanMgr_RdkBus_setRestorationDelay e delay w =
     psm_status (WanMgr_RdkBus_SetParamValuesToDB e ''dmsb.wanmanager.RestorationDelay'' (show_uint delay) w)"

definition WanMgr_RdkBus_setWanEnableToPsm :: "env \<Rightarrow> bool \<Rightarrow> world \<Rightarrow> ANSC_STATUS \<times> world" where
  "WanMgr_RdkBus_setWanEnableToPsm e WanEnable w =
     psm_status (WanMgr_RdkBus_SetParamValuesToDB e ''dmsb.wanmanager.wanenable'' (psm_bit WanEnable) w)"

definition WanMgr_RdkBus_setAllowRemoteIfaceToPsm :: "env \<Rightarrow> bool \<Rightarrow> world \<Rightarrow> ANSC_STATUS \<times> world" where
  "WanMgr_RdkBus_setAllowRemoteIfaceToPsm e Enable w =
     psm_status (WanMgr_RdkBus_SetParamValuesToDB e ''dmsb.wanmanager.allowremoteinterfaces'' (psm_bit Enable) w)"

definition WanMgr_SetConnectivityCheckTypeToPSM :: "env \<Rightarrow> DML_VIRTUAL_IFACE \<Rightarrow> int \<Rightarrow> world \<Rightarrow> ANSC_STATUS \<times> world" where
  "WanMgr_SetConnectivityCheckTypeToPSM e v type w =
     psm_status (WanMgr_RdkBus_SetParamValuesToDB e
       (PSM_WANMANAGER_CONNECTIVITY_CHECK_TYPE (unat (VI_baseIfIdx v + 1)) (unat (VI_VirIfIdx v + 1))) (show_int type) w)"

subsection \<open>Start-up\<close>

text \<open>
  \<open>DmlGetTotalNoOfWanInterfaces\<close>, like its counterpart for the groups, writes the caller's variable
  only when there is a number.
\<close>

definition DmlGetTotalNoOfWanInterfaces :: "uint \<Rightarrow> world \<Rightarrow> ANSC_STATUS \<times> uint" where
  "DmlGetTotalNoOfWanInterfaces wan_if_count w =
     (case WanMgr_RdkBus_GetParamValuesFromDB ''dmsb.wanmanager.wan.interfacecount'' 64 w of
        None \<Rightarrow> (ANSC_STATUS_FAILURE, wan_if_count)
      | Some s \<Rightarrow> (ANSC_STATUS_SUCCESS, case sscanf_d s of None \<Rightarrow> wan_if_count | Some v \<Rightarrow> word_of_int v))"

definition WanController_ClearWanConfigurationsInPSM :: "env \<Rightarrow> uint \<Rightarrow> world \<Rightarrow> ANSC_STATUS \<times> world" where
  "WanController_ClearWanConfigurationsInPSM e uiTotalIfaces w =
     (case DmlGetTotalNoOfWanInterfaces uiTotalIfaces w of
        (ANSC_STATUS_FAILURE, n) \<Rightarrow> (ANSC_STATUS_FAILURE, w)
      | (ANSC_STATUS_SUCCESS, n) \<Rightarrow>
          (ANSC_STATUS_SUCCESS, psm_write e
             (map (\<lambda>i. (PSM_IF_SELECTION_ACTIVELINK (of_nat i), PSM_ENABLE_STRING_FALSE)) [1..<unat n + 1]) w))"

text \<open>
  The memory of the start-up: whether the array of groups could be allocated, what the block of the
  table of interfaces and the blocks of the virtual interfaces contain (\<open>None\<close>: no memory), whether an
  entry of a VLAN list or of a list of markings could be allocated; and the two variables the code does
  not initialise.
\<close>

record startup_mem =
  SM_groups :: bool
  SM_table :: "(nat \<Rightarrow> DML_WAN_IFACE) option"
  SM_virtif :: "nat \<Rightarrow> nat \<Rightarrow> DML_VIRTUAL_IFACE option"
  SM_vlan :: "nat \<Rightarrow> nat \<Rightarrow> nat \<Rightarrow> bool"
  SM_marking :: "nat \<Rightarrow> nat \<Rightarrow> nat \<Rightarrow> bool"
  SM_uiTotalIfaces :: uint
  SM_wan_enable :: bool

text \<open>
  The bodies of the two loops of \<open>WanMgr_VirtIfConfVLAN\<close>; the flag becomes false when there is no memory
  for an entry, and the function returns.
\<close>

definition vlan_entry ::
  "startup_mem \<Rightarrow> world \<Rightarrow> nat \<Rightarrow> nat \<Rightarrow> bool \<times> DML_VIRTUAL_IFACE \<Rightarrow> (bool \<times> DML_VIRTUAL_IFACE) flow option" where
  "vlan_entry m w Ifid i = (\<lambda>(_, v).
     if \<not> SM_vlan m Ifid (unat (VI_VirIfIdx v)) i then Some (Break (False, v))
     else do {
       iface \<leftarrow> copy_in 128 (psm_value
         (PSM_WANMANAGER_IF_VIRIF_VLAN_INTERFACE_ENTRY (Ifid + 1) (unat (VI_VirIfIdx v + 1)) (i + 1)) w);
       Some (Continue (True, v\<lparr>VI_VLAN := (VI_VLAN v)\<lparr>VLAN_InterfaceList :=
         WanMgr_AddVirtVlanIfToList (VLAN_InterfaceList (VI_VLAN v))
           \<lparr>VT_Index = i, VT_VirIfIdx = VI_VirIfIdx v, VT_baseIfIdx = VI_baseIfIdx v, VT_Interface = iface\<rparr>\<rparr>\<rparr>))
     })"

definition marking_entry ::
  "startup_mem \<Rightarrow> world \<Rightarrow> nat \<Rightarrow> nat \<Rightarrow> bool \<times> DML_VIRTUAL_IFACE \<Rightarrow> (bool \<times> DML_VIRTUAL_IFACE) flow option" where
  "marking_entry m w Ifid i = (\<lambda>(_, v).
     if \<not> SM_marking m Ifid (unat (VI_VirIfIdx v)) i then Some (Break (False, v))
     else Some (Continue (True, v\<lparr>VI_VLAN := (VI_VLAN v)\<lparr>VLAN_VirtMarking :=
       WanMgr_AddVirtMarkingToList (VLAN_VirtMarking (VI_VLAN v))
         \<lparr>VM_VirtMarkingInstanceNumber = i, VM_VirIfIdx = VI_VirIfIdx v, VM_baseIfIdx = VI_baseIfIdx v,
          VM_Entry = psm_uint
            (PSM_WANMANAGER_IF_VIRIF_VLAN_MARKING_ENTRY (Ifid + 1) (unat (VI_VirIfIdx v + 1)) (i + 1)) 0 w\<rparr>\<rparr>\<rparr>)))"

definition WanMgr_VirtIfConfVLAN ::
  "startup_mem \<Rightarrow> DML_VIRTUAL_IFACE \<Rightarrow> nat \<Rightarrow> world \<Rightarrow> (bool \<times> DML_VIRTUAL_IFACE) option" where
  "WanMgr_VirtIfConfVLAN m v Ifid w = do {
     (ok, v) \<leftarrow> for_upto (unat (VLAN_NoOfInterfaceEntries (VI_VLAN v))) (vlan_entry m w Ifid) (True, v);
     if ok then for_upto (unat (VLAN_NoOfMarkingEntries (VI_VLAN v))) (marking_entry m w Ifid) (True, v)
     else Some (False, v)
   }"

text \<open>
  The table is cleared.  The enumerations in it have no enumerator 0; they keep what was there until
  \<open>WanMgr_IfaceData_Init\<close> sets every one of them.
\<close>

definition memset_iface :: "DML_WAN_IFACE \<Rightarrow> DML_WAN_IFACE" where
  "memset_iface d = d
     \<lparr>If_uiIfaceIdx := 0, If_uiInstanceNumber := 0, If_Name := [], If_DisplayName := [], If_AliasName := [],
      If_MonitorOperStatus := False, If_WanConfigEnabled := False, If_VirtIfChanged := False,
      If_CustomConfigEnable := False, If_CustomConfigPath := [], If_RemoteCPEMac := [], If_BaseInterface := [],
      If_Selection := (If_Selection d)
        \<lparr>Sel_Enable := False, Sel_Priority := 0, Sel_Timeout := 0, Sel_ActiveLink := False, Sel_Group := 0,
         Sel_RequiresReboot := False, Sel_RebootTriggerStatus := False\<rparr>,
      If_BaseInterfaceStatusSub := 0, If_WanStatusSub := 0, If_WanLinkStatusSub := 0, If_WanEnableSub := 0, If_NoOfVirtIfs := 0, If_VirtIfList := []\<rparr>"

definition new_table :: "(nat \<Rightarrow> DML_WAN_IFACE) \<Rightarrow> uint \<Rightarrow> world \<Rightarrow> world" where
  "new_table block uiTotalIfaces = upd_db (\<lambda>d. d\<lparr>IfaceCtrl := (IfaceCtrl d)
     \<lparr>IC_pIface := Some (map (\<lambda>k. memset_iface (block k)) [0..<unat MAX_WAN_INTERFACE_ENTRY]),
      IC_ulTotalNumbWanInterfaces := uiTotalIfaces\<rparr>\<rparr>)"

definition set_update :: "uint \<Rightarrow> world \<Rightarrow> world" where
  "set_update n = upd_db (\<lambda>d. d\<lparr>IfaceCtrl := (IfaceCtrl d)\<lparr>IC_update := n\<rparr>\<rparr>)"

text \<open>One virtual interface of interface \<open>idx\<close>.\<close>

definition init_virtif :: "startup_mem \<Rightarrow> nat \<Rightarrow> nat \<Rightarrow> ANSC_STATUS \<Rightarrow> world \<Rightarrow> (ANSC_STATUS flow \<times> world) option" where
  "init_virtif m idx i st w =
     (case SM_virtif m idx i of
        None \<Rightarrow> Some (Break ANSC_STATUS_FAILURE, w)
      | Some mem \<Rightarrow> do {
          let v = (WanMgr_VirtIface_Init (of_nat i) mem)\<lparr>VI_baseIfIdx := of_nat idx\<rparr>;
          v \<leftarrow> get_Virtual_Interface_FromPSM (idx + 1) i v w;
          (_, v) \<leftarrow> WanMgr_VirtIfConfVLAN m v idx w;
          Some (Continue ANSC_STATUS_SUCCESS,
            upd_iface idx (\<lambda>d. d\<lparr>If_VirtIfList := WanMgr_AddVirtualToList (If_VirtIfList d) v\<rparr>) w)
        })"

text \<open>One interface: its entry of the table, then its virtual interfaces.\<close>

definition init_iface :: "startup_mem \<Rightarrow> nat \<Rightarrow> ANSC_STATUS \<Rightarrow> world \<Rightarrow> (ANSC_STATUS flow \<times> world) option" where
  "init_iface m idx st w = do {
     d \<leftarrow> iface_at idx w;
     d \<leftarrow> get_Wan_Interface_ParametersFromPSM (idx + 1) (WanMgr_IfaceData_Init (of_nat idx) d) w;
     (st, w) \<leftarrow> for_loop [0..<unat (If_NoOfVirtIfs d)] (init_virtif m idx) ANSC_STATUS_SUCCESS
                  (upd_iface idx (\<lambda>_. d) w);
     Some (if st = ANSC_STATUS_FAILURE then Break st else Continue st, w)
   }"

definition WanMgr_WanIfaceConfInit :: "startup_mem \<Rightarrow> world \<Rightarrow> (ANSC_STATUS \<times> world) option" where
  "WanMgr_WanIfaceConfInit m w =
     (case DmlGetTotalNoOfWanInterfaces (SM_uiTotalIfaces m) w of
        (ANSC_STATUS_FAILURE, _) \<Rightarrow> Some (ANSC_STATUS_FAILURE, w)
      | (ANSC_STATUS_SUCCESS, n) \<Rightarrow>
          (case SM_table m of
             None \<Rightarrow> Some (ANSC_STATUS_FAILURE,
                 upd_db (\<lambda>d. d\<lparr>IfaceCtrl := (IfaceCtrl d)\<lparr>IC_pIface := None\<rparr>\<rparr>) w)
           | Some block \<Rightarrow> do {
               (st, w) \<leftarrow> for_loop [0..<unat n] (init_iface m) ANSC_STATUS_SUCCESS (new_table block n w);
               Some (st, if st = ANSC_STATUS_FAILURE then w else set_update 0 w)
             }))"

definition WanMgr_WanDataInit :: "startup_mem \<Rightarrow> world \<Rightarrow> (ANSC_STATUS \<times> world) option" where
  "WanMgr_WanDataInit m w =
     (case pthread_mutex_lock w of
        (False, w1) \<Rightarrow> Some (ANSC_STATUS_FAILURE, w1)
      | (True, w1) \<Rightarrow> do {
          (st, w2) \<leftarrow> WanMgr_WanIfaceConfInit m w1;
          Some (st, WanMgrDml_GetIfaceData_release w2)
        })"

text \<open>
  \<open>WanMgr_WanConfInit\<close>: the enable flag is copied from a variable that is set only when the store has a
  value.  The flags of the last five records keep their default unless the record says otherwise.
\<close>

definition psm_atoi :: "string \<Rightarrow> int \<Rightarrow> world \<Rightarrow> int" where
  "psm_atoi name old w = (if psm_value name w \<noteq> [] then strtol10 (psm_value name w) else old)"

definition WanMgr_WanConfInit :: "bool \<Rightarrow> DML_WANMGR_CONFIG \<Rightarrow> world \<Rightarrow> ANSC_STATUS \<times> DML_WANMGR_CONFIG" where
  "WanMgr_WanConfInit wan_enable c w =
     (if psm_value ''dmsb.wanmanager.wanenable'' w \<noteq> [] then ANSC_STATUS_SUCCESS else ANSC_STATUS_FAILURE,
      c\<lparr>Cfg_Enable := (if psm_value ''dmsb.wanmanager.wanenable'' w \<noteq> []
                        then strtol10 (psm_value ''dmsb.wanmanager.wanenable'' w) \<noteq> 0 else wan_enable),
        Cfg_AllowRemoteInterfaces := psm_atoi ''dmsb.wanmanager.allowremoteinterfaces'' 0 w \<noteq> 0,
        Cfg_RestorationDelay := word_of_int (psm_atoi ''dmsb.wanmanager.RestorationDelay'' 0 w),
        Cfg_BackupWanDnsSupport := Cfg_BackupWanDnsSupport c \<and>
          \<not> prefix ''FALSE'' (psm_value ''dmsb.wanmanager.BackupWanDnsSupport'' w),
        Cfg_IPv6EUI64FormatSupport := Cfg_IPv6EUI64FormatSupport c \<and>
          \<not> prefix ''FALSE'' (psm_value ''dmsb.wanmanager.IPv6EUI64FormatSupport'' w),
        Cfg_ConfigureWANIPv6OnLANBridgeSupport := Cfg_ConfigureWANIPv6OnLANBridgeSupport c \<or>
          prefix ''TRUE'' (psm_value ''dmsb.wanmanager.ConfigureWANIPv6OnLANBridgeSupport'' w),
        Cfg_UseWANMACForManagementServices := Cfg_UseWANMACForManagementServices c \<or>
          prefix ''TRUE'' (psm_value ''dmsb.wanmanager.UseWANMACForManagementServices'' w),
        Cfg_InterfaceVLANMarkingSupport := Cfg_InterfaceVLANMarkingSupport c \<or>
          prefix ''TRUE'' (psm_value ''dmsb.wanmanager.InterfaceVLANMarkingSupport'' w)\<rparr>)"

definition WanMgr_WanConfigInit :: "startup_mem \<Rightarrow> world \<Rightarrow> (ANSC_STATUS \<times> world) option" where
  "WanMgr_WanConfigInit m w =
     (let (retStatus, w1) = with_config ANSC_STATUS_FAILURE (\<lambda>w.
            let (st, c) = WanMgr_WanConfInit (SM_wan_enable m) (config w) w in (st, upd_config (\<lambda>_. c) w)) w
      in if retStatus \<noteq> ANSC_STATUS_SUCCESS then Some (retStatus, w1)
         else WanMgr_WanDataInit m (snd (WanMgr_Group_Configure (SM_groups m) w1)))"

end
