(* ===== verification/WanConfigLemmas.thy ===== *)
theory WanConfigLemmas
  imports WanConfig
begin

text \<open>
  The records do not get into each other's way: their names are injective in the numbers and the last
  part, so a record that was written is found again and no other is changed.  Numbers, flags and
  enumerators survive being printed and scanned.  Under these the readers of the configuration are shown
  to be total on a store whose texts fit and whose codes name enumerators.
\<close>

subsection \<open>Names\<close>

lemma takeWhile_show_nat:
  "takeWhile isdigit_c (show_nat a @ CHR ''.'' # s) = show_nat a"
  "dropWhile isdigit_c (show_nat a @ CHR ''.'' # s) = CHR ''.'' # s"
proof -
  have all: "\<forall>x \<in> set (show_nat a). isdigit_c x" by (simp add: isdigit_show_nat)
  have dot: "\<not> isdigit_c CHR ''.''" by (simp add: isdigit_c_def)
  from all dot show "takeWhile isdigit_c (show_nat a @ CHR ''.'' # s) = show_nat a"
    by (subst takeWhile_append2) simp_all
  from all dot show "dropWhile isdigit_c (show_nat a @ CHR ''.'' # s) = CHR ''.'' # s"
    by (subst dropWhile_append2) simp_all
qed

lemma show_nat_inject [simp]: "show_nat a = show_nat b \<longleftrightarrow> a = b"
proof
  assume "show_nat a = show_nat b"
  then have "sscanf_d (show_nat a) = sscanf_d (show_nat b)" by simp
  then show "a = b" by (simp add: sscanf_d_show_nat)
qed simp

lemma show_nat_dot [simp]:
  "show_nat a @ CHR ''.'' # s = show_nat b @ CHR ''.'' # t \<longleftrightarrow> a = b \<and> s = t"
proof
  assume eq: "show_nat a @ CHR ''.'' # s = show_nat b @ CHR ''.'' # t"
  have "show_nat a = show_nat b"
    using arg_cong [OF eq, of "takeWhile isdigit_c"] by (simp only: takeWhile_show_nat)
  moreover have "CHR ''.'' # s = CHR ''.'' # t"
    using arg_cong [OF eq, of "dropWhile isdigit_c"] by (simp only: takeWhile_show_nat)
  ultimately show "a = b \<and> s = t" by simp
qed simp

lemma psm_if_eq [simp]: "psm_if i s = psm_if j t \<longleftrightarrow> i = j \<and> s = t"
  by (simp add: psm_if_def)

lemma psm_virtif_eq [simp]: "psm_virtif i v s = psm_virtif j u t \<longleftrightarrow> i = j \<and> v = u \<and> s = t"
  by (simp add: psm_virtif_def)

lemma psm_if_virtif:
  "psm_if i s = psm_virtif j u t \<longleftrightarrow> i = j \<and> s = ''VirtualInterface.'' @ show_nat u @ ''.'' @ t"
  "psm_virtif j u t = psm_if i s \<longleftrightarrow> i = j \<and> s = ''VirtualInterface.'' @ show_nat u @ ''.'' @ t"
  by (auto simp: psm_virtif_def)

lemma check_type_name:
  "PSM_WANMANAGER_CONNECTIVITY_CHECK_TYPE i v = psm_virtif i v ''IP.ConnectivityCheckType''"
  by (simp add: PSM_WANMANAGER_CONNECTIVITY_CHECK_TYPE_def psm_virtif_def psm_if_def)

lemma active_link_name:
  "PSM_IF_SELECTION_ACTIVELINK n = psm_if (unat n) ''Selection.ActiveLink''"
  by (simp add: PSM_IF_SELECTION_ACTIVELINK_def psm_if_def)

lemma vlan_marking_name [simp]:
  "PSM_WANMANAGER_IF_VIRIF_VLAN_INTERFACE_ENTRY i v n \<noteq> PSM_WANMANAGER_IF_VIRIF_VLAN_MARKING_ENTRY j u k"
  by (simp add: PSM_WANMANAGER_IF_VIRIF_VLAN_INTERFACE_ENTRY_def PSM_WANMANAGER_IF_VIRIF_VLAN_MARKING_ENTRY_def)

subsection \<open>Printing and scanning\<close>

lemma sscanf_d_show_int: "sscanf_d (show_int n) = Some n"
proof (cases "n < 0")
  case False
  then show ?thesis by (simp add: show_int_def sscanf_d_show_nat)
next
  case True
  have all: "\<forall>x \<in> set (show_nat (nat (- n))). isdigit_c x" by (simp add: isdigit_show_nat)
  then have "takeWhile isdigit_c (show_nat (nat (- n))) = show_nat (nat (- n))"
    by (simp add: takeWhile_eq_all_conv)
  moreover have "\<not> isspace_c CHR ''-''" by (simp add: isspace_c_def)
  ultimately show ?thesis
    using True digits_value_show_nat [of "nat (- n)"] by (simp add: show_int_def sscanf_d_def Let_def del: takeWhile_eq_all_conv)
qed

lemma sscanf_d_show_uint [simp]: "sscanf_d (show_uint n) = Some (sint n)"
  by (simp add: show_uint_def sscanf_d_show_int)

text \<open>The numbers of the records are short.\<close>

lemma length_show_nat: "n < 10 ^ k \<Longrightarrow> 0 < k \<Longrightarrow> length (show_nat n) \<le> k"
proof (induction n arbitrary: k rule: show_nat.induct)
  case (1 n)
  show ?case
  proof (cases "n < 10")
    case True
    with "1.prems" show ?thesis by (subst show_nat.simps) simp
  next
    case False
    with "1.prems"(1) have "k \<noteq> 1" by auto
    with "1.prems"(2) have "0 < k - 1" by simp
    moreover have "n div 10 < 10 ^ (k - 1)"
      using "1.prems" by (simp add: less_mult_imp_div_less power_eq_if split: if_splits)
    ultimately have "length (show_nat (n div 10)) \<le> k - 1" using "1.IH" [OF False] by blast
    with False "1.prems"(2) show ?thesis by (subst show_nat.simps) simp
  qed
qed

definition int32 :: "int \<Rightarrow> bool" where
  "int32 v \<longleftrightarrow> - (2 ^ 31) \<le> v \<and> v < 2 ^ 31"

lemma length_show_int:
  assumes "int32 v"
  shows "length (show_int v) < 256"
proof -
  have "nat v < 10 ^ 10" "nat (- v) < 10 ^ 10" using assms by (auto simp: int32_def)
  from length_show_nat [OF this(1)] length_show_nat [OF this(2)] show ?thesis by (simp add: show_int_def)
qed

lemma length_show_uint [simp]: "length (show_uint n) < 256"
proof -
  have "int32 (sint n)"
    using sint_range_size [of n] by (simp add: int32_def word_size)
  then show ?thesis by (simp add: show_uint_def length_show_int)
qed

lemma length_show_code [simp]:
  "length (show_nat (type_code t)) < 256" "length (show_nat (ip_mode_code m)) < 256"
  "length (show_nat (ip_source_code s)) < 256" "length (show_nat (preferred_mode_code p)) < 256"
proof -
  have "length (show_nat k) < 256" if "k < 10" for k :: nat
    using that by (subst show_nat.simps) simp
  moreover have "type_code t < 10" by (cases t) simp_all
  moreover have "ip_mode_code m < 10" by (cases m) simp_all
  moreover have "ip_source_code s < 10" by (cases s) simp_all
  moreover have "preferred_mode_code p < 10" by (cases p) simp_all
  ultimately show "length (show_nat (type_code t)) < 256" "length (show_nat (ip_mode_code m)) < 256"
    "length (show_nat (ip_source_code s)) < 256" "length (show_nat (preferred_mode_code p)) < 256" by blast+
qed

lemma type_of_code_code [simp]: "type_of_code (int (type_code x)) = Some x"
  by (cases x) (simp_all add: type_of_code_def decode_def)

lemma ip_mode_of_code_code [simp]: "ip_mode_of_code (int (ip_mode_code x)) = Some x"
  by (cases x) (simp_all add: ip_mode_of_code_def decode_def)

lemma ip_source_of_code_code [simp]: "ip_source_of_code (int (ip_source_code x)) = Some x"
  by (cases x) (simp_all add: ip_source_of_code_def decode_def)

lemma preferred_mode_of_code_code [simp]: "preferred_mode_of_code (int (preferred_mode_code x)) = Some x"
  by (cases x) (simp_all add: preferred_mode_of_code_def decode_def)

subsection \<open>What a write leaves in the store\<close>

lemma psm_write_Nil [simp]: "psm_write e [] w = w"
  by (simp add: psm_write_def)

lemma psm_write_Cons [simp]:
  "psm_write e ((n, v) # rs) w = psm_write e rs (snd (WanMgr_RdkBus_SetParamValuesToDB e n v w))"
  by (simp add: psm_write_def)

lemma psm_write_db [simp]: "gWanMgrDataBase (psm_write e rs w) = gWanMgrDataBase w"
proof (induction rs arbitrary: w)
  case (Cons r rs)
  then show ?case by (cases r) (simp add: bus_frame)
qed simp

lemma psm_write_syscfg [simp]: "syscfg (psm_write e rs w) = syscfg w"
proof (induction rs arbitrary: w)
  case (Cons r rs)
  then show ?case by (cases r) (simp add: WanMgr_RdkBus_SetParamValuesToDB_def Let_def)
qed simp

lemma psm_write_other:
  "n \<notin> fst ` set rs \<Longrightarrow> psm (psm_write e rs w) n = psm w n"
proof (induction rs arbitrary: w)
  case (Cons r rs)
  then show ?case
    by (cases r) (simp add: WanMgr_RdkBus_SetParamValuesToDB_def Let_def)
qed simp

text \<open>A store that accepts every write.\<close>

definition psm_works :: "env \<Rightarrow> bool" where
  "psm_works e \<longleftrightarrow> (\<forall>h. psm_set_ok e h)"

lemma psm_write_found:
  assumes "psm_works e" "(n, v) \<in> set rs" "distinct (map fst rs)"
  shows "psm (psm_write e rs w) n = Some v"
  using assms(2,3)
proof (induction rs arbitrary: w)
  case (Cons r rs)
  obtain n' v' where r: "r = (n', v')" by (cases r)
  show ?case
  proof (cases "r = (n, v)")
    case True
    with Cons.prems r have "n \<notin> fst ` set rs" by simp
    then have "psm (psm_write e rs u) n = psm u n" for u by (rule psm_write_other)
    with True assms(1) show ?thesis
      by (simp add: WanMgr_RdkBus_SetParamValuesToDB_def psm_works_def Let_def)
  next
    case False
    with Cons.prems(1) have "(n, v) \<in> set rs" by auto
    moreover from Cons.prems(2) have "distinct (map fst rs)" by simp
    ultimately show ?thesis using Cons.IH r by simp
  qed
qed simp

text \<open>What the readers see of a record with a text that is not cut.\<close>

lemma psm_record_Some:
  "psm w n = Some s \<Longrightarrow> length s < 256 \<Longrightarrow> psm_record n w = Some s"
  by (simp add: WanMgr_RdkBus_GetParamValuesFromDB_def)

lemma psm_reads:
  assumes "psm w n = Some s" "length s < 256"
  shows "psm_value n w = s" "psm_true n w \<longleftrightarrow> s = PSM_ENABLE_STRING_TRUE"
    "psm_text n k old w = copy_in k s" "psm_int n i w = (case sscanf_d s of None \<Rightarrow> i | Some v \<Rightarrow> v)"
    "psm_uint n u w = (case sscanf_d s of None \<Rightarrow> u | Some v \<Rightarrow> word_of_int v)"
    "psm_enum n oc x w = (case sscanf_d s of None \<Rightarrow> Some x | Some v \<Rightarrow> oc v)"
  using psm_record_Some [OF assms]
  by (simp_all add: psm_value_def psm_true_def psm_text_def psm_int_def psm_uint_def psm_enum_def)

text \<open>The readers look at the stores only.\<close>

lemma psm_frame:
  assumes "psm w' = psm w"
  shows "psm_record n w' = psm_record n w" "psm_value n w' = psm_value n w" "psm_true n w' = psm_true n w"
    "psm_text n k old w' = psm_text n k old w" "psm_int n i w' = psm_int n i w"
    "psm_uint n u w' = psm_uint n u w" "psm_enum n oc x w' = psm_enum n oc x w"
proof -
  show r: "psm_record n w' = psm_record n w" for n
    using assms by (simp add: WanMgr_RdkBus_GetParamValuesFromDB_def)
  then show v: "psm_value n w' = psm_value n w" for n by (simp add: psm_value_def)
  from r v show "psm_true n w' = psm_true n w" "psm_text n k old w' = psm_text n k old w"
    "psm_int n i w' = psm_int n i w" "psm_uint n u w' = psm_uint n u w" "psm_enum n oc x w' = psm_enum n oc x w"
    by (simp_all add: psm_true_def psm_text_def psm_int_def psm_uint_def psm_enum_def)
qed

lemma psm_flag_simps [simp]: "psm_flag b = ''TRUE'' \<longleftrightarrow> b" "length (psm_flag b) < 256"
  by (simp_all add: psm_flag_def)

end
