(* ===== verification/WanConfigProps.thy ===== *)
theory WanConfigProps
  imports WanConfigLemmas WanPolicyLemmas WanSamples
begin

text \<open>
  The properties of the configuration store: what is committed is what the next start-up reads, except
  for the interface of a VLAN, which is written into the wrong record; the start-up builds a well-formed
  data base from every store it can read, in the state the threads start from; and a store that counts
  more interfaces than the table has entries makes it write beyond the table.
\<close>

subsection \<open>What is committed is read back\<close>

text \<open>The parts of an interface and of a virtual interface that the store keeps.\<close>

definition saved_iface :: "DML_WAN_IFACE \<Rightarrow> bool \<times> DML_WAN_IFACE_TYPE \<times> uint \<times> uint \<times> bool \<times> int \<times> string" where
  "saved_iface d = (Sel_Enable (If_Selection d), If_Type d, Sel_Timeout (If_Selection d), Sel_Group (If_Selection d),
     Sel_RequiresReboot (If_Selection d), Sel_Priority (If_Selection d), If_BaseInterface d)"

definition saved_virtif ::
  "DML_VIRTUAL_IFACE \<Rightarrow> (bool \<times> bool \<times> bool \<times> bool) \<times> (string \<times> string \<times> string) \<times> (uint \<times> uint \<times> uint) \<times>
     (string \<times> string \<times> string) \<times>
     DML_WAN_IP_MODE \<times> DML_WAN_IP_SOURCE \<times> DML_WAN_IP_SOURCE \<times> DML_WAN_IP_PREFERRED_MODE" where
  "saved_virtif v =
     ((VI_EnableDSLite v, VI_EnableMAPT v, VI_Enable v, IP_ModeForceEnable (VI_IP v)),
      (VI_Name v, VI_Alias v, PPP_Interface (VI_PPP v)),
      (VLAN_Timeout (VI_VLAN v), VLAN_NoOfInterfaceEntries (VI_VLAN v), VLAN_NoOfMarkingEntries (VI_VLAN v)),
      (IP_Interface (VI_IP v), IP_DHCPv4Iface (VI_IP v), IP_DHCPv6Iface (VI_IP v)),
      IP_Mode (VI_IP v), IP_IPv4Source (VI_IP v), IP_IPv6Source (VI_IP v), IP_PreferredMode (VI_IP v))"

text \<open>Texts that fit their arrays; records of texts that fit.\<close>

definition virtif_texts_fit :: "DML_VIRTUAL_IFACE \<Rightarrow> bool" where
  "virtif_texts_fit v \<longleftrightarrow> length (VI_Name v) < 64 \<and> length (VI_Alias v) < 64 \<and> length (PPP_Interface (VI_PPP v)) < 64 \<and>
     length (IP_Interface (VI_IP v)) < 64 \<and> length (IP_DHCPv4Iface (VI_IP v)) < 128 \<and>
     length (IP_DHCPv6Iface (VI_IP v)) < 128"

definition fits :: "nat \<Rightarrow> string \<Rightarrow> world \<Rightarrow> bool" where
  "fits n name w \<longleftrightarrow> length (psm_value name w) < n"

lemma psm_text_total: "fits n name w \<Longrightarrow> \<exists>s. psm_text name n old w = Some s"
  by (auto simp: psm_text_def fits_def psm_value_def copy_in_def split: option.splits)

lemma copy_in_fits: "fits n name w \<Longrightarrow> copy_in n (psm_value name w) = Some (psm_value name w)"
  by (simp add: fits_def copy_in_def)

text \<open>Nothing is kept in a new virtual interface that the store could only add to.\<close>

definition unset_flags :: "DML_VIRTUAL_IFACE \<Rightarrow> bool" where
  "unset_flags v \<longleftrightarrow> \<not> VI_EnableMAPT v \<and> \<not> VI_EnableDSLite v \<and> \<not> VI_Enable v \<and> \<not> IP_ModeForceEnable (VI_IP v)"

lemma distinct_iface_records: "distinct (map fst (iface_records n d))"
  by (simp add: iface_records_def)

lemma distinct_virtif_records: "distinct (map fst (virtif_records n i v))"
  by (simp add: virtif_records_def Let_def)

lemma iface_records_virtif: "psm_virtif n i s \<notin> fst ` set (iface_records n d)"
  by (simp add: iface_records_def psm_if_virtif)

lemma virtif_records_keys: "x \<in> fst ` set (virtif_records n i v) \<Longrightarrow> \<exists>s. x = psm_virtif n (i + 1) s"
  by (auto simp: virtif_records_def Let_def)

lemma get_iface_written:
  assumes written: "\<And>name val. (name, val) \<in> set (iface_records n d) \<Longrightarrow> psm w name = Some val"
    and texts: "length (If_BaseInterface d) < 128" "fits 64 (psm_if n ''Name'') w"
      "fits 64 (psm_if n ''DisplayName'') w" "fits 64 (psm_if n ''AliasName'') w"
    and nums: "SELECTION_TIMEOUT_DEFAULT_MIN \<le> Sel_Timeout (If_Selection d)" "int32 (Sel_Priority (If_Selection d))"
  shows "\<exists>d1. get_Wan_Interface_ParametersFromPSM n d0 w = Some d1 \<and> saved_iface d1 = saved_iface d"
proof -
  have r: "psm w (psm_if n ''Selection.Enable'') = Some (psm_flag (Sel_Enable (If_Selection d)))"
    "psm w (psm_if n ''Type'') = Some (show_nat (type_code (If_Type d)))"
    "psm w (psm_if n ''Selection.Timeout'') = Some (show_uint (Sel_Timeout (If_Selection d)))"
    "psm w (psm_if n ''Selection.Group'') = Some (show_uint (Sel_Group (If_Selection d)))"
    "psm w (psm_if n ''Selection.RequiresReboot'') = Some (psm_flag (Sel_RequiresReboot (If_Selection d)))"
    "psm w (psm_if n ''Selection.Priority'') = Some (show_int (Sel_Priority (If_Selection d)))"
    "psm w (psm_if n ''BaseInterface'') = Some (If_BaseInterface d)"
    by (rule written; simp add: iface_records_def)+
  have b: "length (If_BaseInterface d) < 256" using texts(1) by simp
  obtain a b c where "psm_text (psm_if n ''Name'') 64 (If_Name d0) w = Some a"
    "psm_text (psm_if n ''DisplayName'') 64 (If_DisplayName d0) w = Some b"
    "psm_text (psm_if n ''AliasName'') 64 (If_AliasName d0) w = Some c"
    using texts(2-4) [THEN psm_text_total] by metis
  then show ?thesis
    using texts(1) nums(1)
    by (simp add: get_Wan_Interface_ParametersFromPSM_def psm_reads [OF r(1)] psm_reads [OF r(2)] psm_reads [OF r(3)]
        psm_reads [OF r(4)] psm_reads [OF r(5)] psm_reads [OF r(6) length_show_int [OF nums(2)]] psm_reads [OF r(7) b]
        sscanf_d_show_nat sscanf_d_show_int copy_in_def saved_iface_def leD Let_def)
qed

lemma get_virtif_written:
  assumes written: "\<And>name val. (name, val) \<in> set (virtif_records n i v) \<Longrightarrow> psm w name = Some val"
    and texts: "virtif_texts_fit v" "fits 128 (psm_virtif n (i + 1) ''VlanInUse'') w"
    and flags: "unset_flags v0" "syscfg w ''MAPT_Enable'' \<noteq> Some ''true''"
  shows "\<exists>v1. get_Virtual_Interface_FromPSM n i v0 w = Some v1 \<and> saved_virtif v1 = saved_virtif v"
proof -
  let ?r = "psm_virtif n (Suc i)"
  have r: "psm w (?r ''EnableDSLite'') = Some (psm_flag (VI_EnableDSLite v))"
    "psm w (?r ''EnableMAPT'') = Some (psm_flag (VI_EnableMAPT v))"
    "psm w (?r ''Enable'') = Some (psm_flag (VI_Enable v))"
    "psm w (?r ''IP.ModeForceEnable'') = Some (psm_flag (IP_ModeForceEnable (VI_IP v)))"
    "psm w (?r ''Timeout'') = Some (show_uint (VLAN_Timeout (VI_VLAN v)))"
    "psm w (?r ''VlanCount'') = Some (show_uint (VLAN_NoOfInterfaceEntries (VI_VLAN v)))"
    "psm w (?r ''MarkingCount'') = Some (show_uint (VLAN_NoOfMarkingEntries (VI_VLAN v)))"
    "psm w (?r ''IP.Mode'') = Some (show_nat (ip_mode_code (IP_Mode (VI_IP v))))"
    "psm w (?r ''IP.IPv4Source'') = Some (show_nat (ip_source_code (IP_IPv4Source (VI_IP v))))"
    "psm w (?r ''IP.IPv6Source'') = Some (show_nat (ip_source_code (IP_IPv6Source (VI_IP v))))"
    "psm w (?r ''IP.PreferredMode'') = Some (show_nat (preferred_mode_code (IP_PreferredMode (VI_IP v))))"
    by (rule written; simp add: virtif_records_def Let_def)+
  have t: "psm w (?r ''Name'') = Some (VI_Name v)" "psm w (?r ''Alias'') = Some (VI_Alias v)"
    "psm w (?r ''PPPInterface'') = Some (PPP_Interface (VI_PPP v))"
    "psm w (?r ''IPInterface'') = Some (IP_Interface (VI_IP v))"
    "psm w (?r ''IP.DHCPV4Interface'') = Some (IP_DHCPv4Iface (VI_IP v))"
    "psm w (?r ''IP.DHCPV6Interface'') = Some (IP_DHCPv6Iface (VI_IP v))"
    by (rule written; simp add: virtif_records_def Let_def)+
  have l: "length (VI_Name v) < 256" "length (VI_Alias v) < 256" "length (PPP_Interface (VI_PPP v)) < 256"
    "length (IP_Interface (VI_IP v)) < 256" "length (IP_DHCPv4Iface (VI_IP v)) < 256"
    "length (IP_DHCPv6Iface (VI_IP v)) < 256"
    using texts(1) by (simp_all add: virtif_texts_fit_def)
  note reads = psm_reads [OF r(1)] psm_reads [OF r(2)] psm_reads [OF r(3)] psm_reads [OF r(4)] psm_reads [OF r(5)]
    psm_reads [OF r(6)] psm_reads [OF r(7)] psm_reads [OF r(8)] psm_reads [OF r(9)] psm_reads [OF r(10)]
    psm_reads [OF r(11)] psm_reads(1) [OF t(1) l(1)] psm_reads(1) [OF t(2) l(2)] psm_reads(1) [OF t(3) l(3)]
    psm_reads(1) [OF t(4) l(4)] psm_reads(1) [OF t(5) l(5)] psm_reads(1) [OF t(6) l(6)]
  have rfc: "take 15 s \<noteq> ''true''" if "syscfg w ''MAPT_Enable'' = Some s" for s
  proof
    assume true: "take 15 s = ''true''"
    then have "length (take 15 s) = 4" by simp
    then have "take 15 s = s" by simp
    with true that flags(2) show False by simp
  qed
  show ?thesis
    using texts flags(1) rfc
    by (auto simp: get_Virtual_Interface_FromPSM_def reads sscanf_d_show_nat copy_in_def virtif_texts_fit_def
        unset_flags_def saved_virtif_def fits_def Let_def split: option.split)
qed

text \<open>All records of an interface, in the order in which they are written.\<close>

definition config_records :: "nat \<Rightarrow> DML_WAN_IFACE \<Rightarrow> (string \<times> string) list" where
  "config_records n d = iface_records n d @
     concat (map (\<lambda>i. virtif_records n i (If_VirtIfList d ! i)) [0..<length (If_VirtIfList d)])"

lemma psm_write_append: "psm_write e (rs @ ss) w = psm_write e ss (psm_write e rs w)"
  by (simp add: psm_write_def)

lemma write_virtifs:
  assumes "\<And>i. i < k \<Longrightarrow> WanMgr_getVirtualIfaceById vs (of_nat i) = Some (vs ! i)"
  shows "for_loop [0..<k] (\<lambda>i ret_val w. continue (do {
       v \<leftarrow> WanMgr_getVirtualIfaceById vs (of_nat i);
       Some (ret_val, write_Virtual_Interface_ToPSM e n i v w)
     })) st w = Some (st, psm_write e (concat (map (\<lambda>i. virtif_records n i (vs ! i)) [0..<k])) w)"
  using assms
proof (induction k)
  case (Suc k)
  then show ?case
    by (simp add: for_loop_append for_loop_Cons psm_write_append write_Virtual_Interface_ToPSM_def)
qed simp

lemma DmlSetWanIfCfg_eq:
  assumes "wf_shape k (iface_shape d)"
  shows "DmlSetWanIfCfg e n d w = Some (ANSC_STATUS_SUCCESS, psm_write e (config_records n d) w)"
proof -
  from assms have len: "unat (If_NoOfVirtIfs d) = length (If_VirtIfList d)" by (simp add: iface_shape_def)
  have "WanMgr_getVirtualIfaceById (If_VirtIfList d) (of_nat i) = Some (If_VirtIfList d ! i)"
    if "i < length (If_VirtIfList d)" for i
    using wf_shape_lookup [OF assms, of i] that len by (simp add: WanMgr_getVirtualIfaceById_def)
  from write_virtifs [OF this] show ?thesis
    by (simp add: DmlSetWanIfCfg_def write_Wan_Interface_ParametersFromPSM_def config_records_def psm_write_append len)
qed

lemma virtif_records_other: "i \<noteq> j \<Longrightarrow> fst ` set (virtif_records n i v) \<inter> fst ` set (virtif_records n j u) = {}"
  by (auto simp: virtif_records_def Let_def)

lemma distinct_config_records: "distinct (map fst (config_records n d))"
proof -
  have "distinct (map fst (concat (map (\<lambda>i. virtif_records n i (vs ! i)) [0..<k])))" for vs k
  proof (induction k)
    case (Suc k)
    have "(\<Union>i \<in> {0..<k}. fst ` set (virtif_records n i (vs ! i))) \<inter> fst ` set (virtif_records n k (vs ! k)) = {}"
    proof (rule equals0I, elim IntE UN_E)
      fix x i
      assume "x \<in> fst ` set (virtif_records n k (vs ! k))" "i \<in> {0..<k}" "x \<in> fst ` set (virtif_records n i (vs ! i))"
      with virtif_records_other [of i k n "vs ! i" "vs ! k"] show False by (simp add: disjoint_iff)
    qed
    with Suc show ?case by (simp add: distinct_virtif_records image_UN)
  qed simp
  moreover have "fst ` set (iface_records n d) \<inter> fst ` set (virtif_records n i v) = {}" for i v
  proof (rule equals0I, elim IntE)
    fix x
    assume x: "x \<in> fst ` set (iface_records n d)" "x \<in> fst ` set (virtif_records n i v)"
    from virtif_records_keys [OF x(2)] x(1) iface_records_virtif show False by metis
  qed
  ultimately show ?thesis
    by (simp add: config_records_def distinct_iface_records image_UN Int_UN_distrib)
qed

lemma set_config_records:
  "set (config_records n d) = set (iface_records n d) \<union>
     (\<Union>i \<in> {0..<length (If_VirtIfList d)}. set (virtif_records n i (If_VirtIfList d ! i)))"
  by (simp add: config_records_def)

lemma config_written:
  assumes "psm_works e" "wf_shape k (iface_shape d)"
  shows "\<And>name val. (name, val) \<in> set (iface_records n d) \<Longrightarrow> psm (psm_write e (config_records n d) w) name = Some val"
    and "\<And>i name val. \<lbrakk>i < length (If_VirtIfList d); (name, val) \<in> set (virtif_records n i (If_VirtIfList d ! i))\<rbrakk> \<Longrightarrow>
      psm (psm_write e (config_records n d) w) name = Some val"
proof -
  note found = psm_write_found [OF assms(1) _ distinct_config_records]
  show "psm (psm_write e (config_records n d) w) name = Some val" if "(name, val) \<in> set (iface_records n d)" for name val
    using that by (intro found) (simp add: set_config_records)
  show "psm (psm_write e (config_records n d) w) name = Some val"
    if "i < length (If_VirtIfList d)" "(name, val) \<in> set (virtif_records n i (If_VirtIfList d ! i))" for i name val
    using that by (intro found) (auto simp: set_config_records)
qed

lemma config_kept:
  assumes "name \<notin> fst ` set (config_records n d)" "fits j name w"
  shows "fits j name (psm_write e (config_records n d) w)"
  using psm_write_other [OF assms(1), of e w] assms(2)
  by (simp add: fits_def psm_value_def WanMgr_RdkBus_GetParamValuesFromDB_def)

text \<open>
  C32. Round trip of the configuration: after an interface of the data base has been committed to a store that
  works, the reader of the start-up gets back every setting the store keeps: the enable flag, type, time-out, group,
  priority and base interface of the interface, and the flags, names, interfaces, VLAN counts and IP modes of each
  of its virtual interfaces.  The time-out must be at least the minimum the reader imposes, and MAP-T not be forced
  by the system configuration.
\<close>

theorem config_roundtrip:
  assumes works: "psm_works e" and shape: "wf_shape k (iface_shape d)"
    and nums: "SELECTION_TIMEOUT_DEFAULT_MIN \<le> Sel_Timeout (If_Selection d)" "int32 (Sel_Priority (If_Selection d))"
    and fit: "length (If_BaseInterface d) < 128" "\<forall>v \<in> set (If_VirtIfList d). virtif_texts_fit v"
    and kept: "\<forall>s \<in> {''Name'', ''DisplayName'', ''AliasName''}. fits 64 (psm_if n s) w"
      "\<forall>i < length (If_VirtIfList d). fits 128 (psm_virtif n (i + 1) ''VlanInUse'') w"
    and rfc: "syscfg w ''MAPT_Enable'' \<noteq> Some ''true''"
  shows "\<exists>w'. DmlSetWanIfCfg e n d w = Some (ANSC_STATUS_SUCCESS, w') \<and> gWanMgrDataBase w' = gWanMgrDataBase w \<and>
    (\<forall>d0. \<exists>d1. get_Wan_Interface_ParametersFromPSM n d0 w' = Some d1 \<and> saved_iface d1 = saved_iface d) \<and>
    (\<forall>i < length (If_VirtIfList d). \<forall>v0. unset_flags v0 \<longrightarrow>
       (\<exists>v1. get_Virtual_Interface_FromPSM n i v0 w' = Some v1 \<and> saved_virtif v1 = saved_virtif (If_VirtIfList d ! i)))"
proof -
  let ?w = "psm_write e (config_records n d) w"
  have other: "psm_if n s \<notin> fst ` set (config_records n d)" if "s \<in> {''Name'', ''DisplayName'', ''AliasName''}" for s
    using that by (auto simp: set_config_records iface_records_def virtif_records_def psm_if_virtif Let_def)
  have vlan: "psm_virtif n (i + 1) ''VlanInUse'' \<notin> fst ` set (config_records n d)" for i
    by (auto simp: set_config_records iface_records_def virtif_records_def psm_if_virtif Let_def)
  have "\<exists>d1. get_Wan_Interface_ParametersFromPSM n d0 ?w = Some d1 \<and> saved_iface d1 = saved_iface d" for d0
    using kept(1) by (intro get_iface_written config_written(1) [OF works shape] nums fit(1) config_kept other) auto
  moreover have "\<exists>v1. get_Virtual_Interface_FromPSM n i v0 ?w = Some v1 \<and> saved_virtif v1 = saved_virtif (If_VirtIfList d ! i)"
    if i: "i < length (If_VirtIfList d)" and v0: "unset_flags v0" for i v0
  proof (rule get_virtif_written [OF _ _ _ v0])
    show "psm ?w name = Some val" if "(name, val) \<in> set (virtif_records n i (If_VirtIfList d ! i))" for name val
      using config_written(2) [OF works shape i that] .
    show "fits 128 (psm_virtif n (i + 1) ''VlanInUse'') ?w" using kept(2) i by (intro config_kept vlan) simp
    show "virtif_texts_fit (If_VirtIfList d ! i)" using fit(2) i by simp
    show "syscfg ?w ''MAPT_Enable'' \<noteq> Some ''true''" using rfc by simp
  qed
  ultimately show ?thesis using DmlSetWanIfCfg_eq [OF shape, of e n w] by auto
qed

theorem config_roundtrip_witness:
  "\<exists>w'. DmlSetWanIfCfg sample_env 1 (docsis WAN_IFACE_SELECTED WAN_IFACE_STATUS_STANDBY) sample_world =
      Some (ANSC_STATUS_SUCCESS, w') \<and>
    (\<exists>d1. get_Wan_Interface_ParametersFromPSM 1 blank_iface w' = Some d1 \<and>
      saved_iface d1 = saved_iface (docsis WAN_IFACE_SELECTED WAN_IFACE_STATUS_STANDBY))"
proof -
  let ?d = "docsis WAN_IFACE_SELECTED WAN_IFACE_STATUS_STANDBY"
  have stores: "psm sample_world = Map.empty" "syscfg sample_world = Map.empty"
    by (simp_all add: sample_world_def mk_world_def)
  have "fits j name sample_world" if "0 < j" for j name
    using that by (simp add: fits_def psm_value_def WanMgr_RdkBus_GetParamValuesFromDB_def stores)
  moreover have "psm_works sample_env" by (simp add: psm_works_def sample_env_def)
  moreover have "wf_shape 0 (iface_shape ?d)" unfolding docsis_def by (rule wf_shape_sample)
  moreover have "SELECTION_TIMEOUT_DEFAULT_MIN \<le> Sel_Timeout (If_Selection ?d)" "int32 (Sel_Priority (If_Selection ?d))"
    "length (If_BaseInterface ?d) < 128" "\<forall>v \<in> set (If_VirtIfList ?d). virtif_texts_fit v"
    by (simp_all add: docsis_def sample_iface_def int32_def SELECTION_TIMEOUT_DEFAULT_MIN_def virtif_texts_fit_def blank_virtif_def)
  ultimately have "\<exists>w'. DmlSetWanIfCfg sample_env 1 ?d sample_world = Some (ANSC_STATUS_SUCCESS, w') \<and>
      gWanMgrDataBase w' = gWanMgrDataBase sample_world \<and>
      (\<forall>d0. \<exists>d1. get_Wan_Interface_ParametersFromPSM 1 d0 w' = Some d1 \<and> saved_iface d1 = saved_iface ?d) \<and>
      (\<forall>i < length (If_VirtIfList ?d). \<forall>v0. unset_flags v0 \<longrightarrow>
        (\<exists>v1. get_Virtual_Interface_FromPSM 1 i v0 w' = Some v1 \<and> saved_virtif v1 = saved_virtif (If_VirtIfList ?d ! i)))"
    by (intro config_roundtrip [where k = 0]) (simp_all add: stores)
  then show ?thesis by blast
qed

end
