(* ===== verification/WanStartupLemmas.thy ===== *)
theory WanStartupLemmas
  imports WanConfigProps
begin

text \<open>
  The start-up, step by step: what the store must look like for its readers to succeed, one virtual
  interface, one interface, the whole table.
\<close>

subsection \<open>A store that can be read\<close>

definition codes :: "(int \<Rightarrow> 'a option) \<Rightarrow> string \<Rightarrow> world \<Rightarrow> bool" where
  "codes of_code name w \<longleftrightarrow> (case sscanf_d (psm_value name w) of None \<Rightarrow> True | Some v \<Rightarrow> of_code v \<noteq> None)"

text \<open>The number of virtual interfaces of interface \<open>n\<close>, and of VLAN entries of its virtual interface \<open>v\<close>.\<close>

definition virtif_count :: "nat \<Rightarrow> world \<Rightarrow> uint" where
  "virtif_count n w = psm_uint (psm_if n ''VirtualInterfaceifcount'') 1 w"

definition vlan_count :: "nat \<Rightarrow> nat \<Rightarrow> world \<Rightarrow> uint" where
  "vlan_count n v w = psm_uint (psm_virtif n v ''VlanCount'') 0 w"

definition iface_store_ok :: "nat \<Rightarrow> world \<Rightarrow> bool" where
  "iface_store_ok n w \<longleftrightarrow> fits 64 (psm_if n ''Name'') w \<and> fits 64 (psm_if n ''DisplayName'') w \<and>
     fits 64 (psm_if n ''AliasName'') w \<and> fits 128 (psm_if n ''BaseInterface'') w \<and>
     codes type_of_code (psm_if n ''Type'') w \<and> virtif_count n w \<noteq> 0"

definition virtif_store_ok :: "nat \<Rightarrow> nat \<Rightarrow> world \<Rightarrow> bool" where
  "virtif_store_ok n v w \<longleftrightarrow>
     fits 64 (psm_virtif n v ''Name'') w \<and> fits 64 (psm_virtif n v ''Alias'') w \<and>
     fits 64 (psm_virtif n v ''PPPInterface'') w \<and> fits 128 (psm_virtif n v ''VlanInUse'') w \<and>
     fits 64 (psm_virtif n v ''IPInterface'') w \<and> fits 128 (psm_virtif n v ''IP.DHCPV4Interface'') w \<and>
     fits 128 (psm_virtif n v ''IP.DHCPV6Interface'') w \<and>
     codes ip_mode_of_code (psm_virtif n v ''IP.Mode'') w \<and>
     codes ip_source_of_code (psm_virtif n v ''IP.IPv4Source'') w \<and>
     codes ip_source_of_code (psm_virtif n v ''IP.IPv6Source'') w \<and>
     codes preferred_mode_of_code (psm_virtif n v ''IP.PreferredMode'') w \<and>
     (\<forall>j < unat (vlan_count n v w). fits 128 (PSM_WANMANAGER_IF_VIRIF_VLAN_INTERFACE_ENTRY n v (j + 1)) w)"

text \<open>
  Everything the start-up reads for the table entry \<open>idx\<close>, and the memory it asks for, which
  \<open>AnscAllocateMemory\<close> clears: the code relies on it for the two lists of a virtual interface.
\<close>

definition cleared :: "DML_VIRTUAL_IFACE \<Rightarrow> bool" where
  "cleared v \<longleftrightarrow> VLAN_InterfaceList (VI_VLAN v) = [] \<and> VLAN_VirtMarking (VI_VLAN v) = []"

definition entry_ok :: "startup_mem \<Rightarrow> nat \<Rightarrow> world \<Rightarrow> bool" where
  "entry_ok m idx w \<longleftrightarrow> iface_store_ok (idx + 1) w \<and>
     (\<forall>i < unat (virtif_count (idx + 1) w).
        (\<exists>mem. SM_virtif m idx i = Some mem \<and> cleared mem) \<and> virtif_store_ok (idx + 1) (i + 1) w)"

lemma psm_enum_total: "codes of_code name w \<Longrightarrow> \<exists>x. psm_enum name of_code old w = Some x"
  by (auto simp: codes_def psm_enum_def split: option.splits)

lemma store_frame:
  assumes "psm w' = psm w"
  shows "fits j name w' = fits j name w" "codes oc name w' = codes oc name w" "virtif_count n w' = virtif_count n w"
    "vlan_count n v w' = vlan_count n v w"
  using psm_frame [OF assms] by (simp_all add: fits_def codes_def virtif_count_def vlan_count_def)

lemma entry_ok_frame:
  assumes "psm w' = psm w"
  shows "entry_ok m idx w' = entry_ok m idx w"
  by (simp add: entry_ok_def iface_store_ok_def virtif_store_ok_def store_frame [OF assms])

subsection \<open>One virtual interface\<close>

definition same_place :: "DML_VIRTUAL_IFACE \<Rightarrow> DML_VIRTUAL_IFACE \<Rightarrow> bool" where
  "same_place v v' \<longleftrightarrow> VI_VirIfIdx v' = VI_VirIfIdx v \<and> VI_baseIfIdx v' = VI_baseIfIdx v"

lemma get_virtif_total:
  assumes ok: "virtif_store_ok n (i + 1) w" and entries: "VLAN_NoOfInterfaceEntries (VI_VLAN v) = 0"
  shows "\<exists>v'. get_Virtual_Interface_FromPSM n i v w = Some v' \<and> same_place v v' \<and> cleared v' = cleared v \<and>
    VLAN_NoOfInterfaceEntries (VI_VLAN v') = vlan_count n (i + 1) w"
proof -
  let ?r = "psm_virtif n (i + 1)"
  obtain mode s4 s6 pref where
    "psm_enum (?r ''IP.Mode'') ip_mode_of_code (IP_Mode (VI_IP v)) w = Some mode"
    "psm_enum (?r ''IP.IPv4Source'') ip_source_of_code (IP_IPv4Source (VI_IP v)) w = Some s4"
    "psm_enum (?r ''IP.IPv6Source'') ip_source_of_code (IP_IPv6Source (VI_IP v)) w = Some s6"
    "psm_enum (?r ''IP.PreferredMode'') preferred_mode_of_code (IP_PreferredMode (VI_IP v)) w = Some pref"
    using ok [unfolded virtif_store_ok_def] by (metis psm_enum_total)
  with ok entries show ?thesis
    by (simp add: virtif_store_ok_def get_Virtual_Interface_FromPSM_def copy_in_fits same_place_def cleared_def vlan_count_def Let_def)
qed

text \<open>
  The entries of the two lists are numbered in order, and each knows its virtual interface and its base
  interface.
\<close>

definition vlan_key :: "DML_VLAN_IFACE_TABLE \<Rightarrow> nat \<times> uint \<times> uint" where
  "vlan_key t = (VT_Index t, VT_VirIfIdx t, VT_baseIfIdx t)"

definition marking_key :: "DML_VIRTIF_MARKING \<Rightarrow> nat \<times> uint \<times> uint" where
  "marking_key m = (VM_VirtMarkingInstanceNumber m, VM_VirIfIdx m, VM_baseIfIdx m)"

definition in_order :: "uint \<Rightarrow> uint \<Rightarrow> (nat \<times> uint \<times> uint) list \<Rightarrow> bool" where
  "in_order v b ks \<longleftrightarrow> length ks < 2 ^ 32 \<and> ks = map (\<lambda>j. (j, v, b)) [0..<length ks]"

definition lists_placed :: "DML_VIRTUAL_IFACE \<Rightarrow> bool" where
  "lists_placed v \<longleftrightarrow>
     in_order (VI_VirIfIdx v) (VI_baseIfIdx v) (map vlan_key (VLAN_InterfaceList (VI_VLAN v))) \<and>
     in_order (VI_VirIfIdx v) (VI_baseIfIdx v) (map marking_key (VLAN_VirtMarking (VI_VLAN v)))"

lemma in_order_Nil [simp]: "in_order v b []"
  by (simp add: in_order_def)

lemma in_order_snoc: "\<lbrakk>in_order v b ks; Suc (length ks) < 2 ^ 32\<rbrakk> \<Longrightarrow> in_order v b (ks @ [(length ks, v, b)])"
  by (auto simp: in_order_def)

lemma cleared_placed: "cleared v \<Longrightarrow> lists_placed v"
  by (simp add: cleared_def lists_placed_def)

lemma AddVirtVlanIfToList_eq: "WanMgr_AddVirtVlanIfToList ts t = ts @ [t]"
  by (induction ts) auto

lemma AddVirtMarkingToList_eq: "WanMgr_AddVirtMarkingToList ms m = ms @ [m]"
  by (induction ms) auto

lemmas add_to_list_eq = AddVirtVlanIfToList_eq AddVirtMarkingToList_eq

lemma entry_room:
  assumes "i < unat (x :: uint)"
  shows "Suc i < 2 ^ 32"
  using unsigned_less [of x, where 'a = nat] assms by simp

lemma VirtIfConfVLAN_total:
  assumes fit: "\<And>j. j < unat (VLAN_NoOfInterfaceEntries (VI_VLAN v)) \<Longrightarrow>
    fits 128 (PSM_WANMANAGER_IF_VIRIF_VLAN_INTERFACE_ENTRY (idx + 1) (unat (VI_VirIfIdx v + 1)) (j + 1)) w"
    and clr: "cleared v"
  shows "\<exists>b v'. WanMgr_VirtIfConfVLAN m v idx w = Some (b, v') \<and> same_place v v' \<and> lists_placed v'"
proof -
  let ?n = "unat (VLAN_NoOfInterfaceEntries (VI_VLAN v))"
  let ?L = "\<lambda>u. VLAN_InterfaceList (VI_VLAN u)" and ?M = "\<lambda>u. VLAN_VirtMarking (VI_VLAN u)"
  let ?I = "\<lambda>pre (p :: bool \<times> DML_VIRTUAL_IFACE). same_place v (snd p) \<and> lists_placed (snd p) \<and> ?M (snd p) = [] \<and>
    length (?L (snd p)) = length pre"
  let ?Q = "\<lambda>p :: bool \<times> DML_VIRTUAL_IFACE. same_place v (snd p) \<and> lists_placed (snd p)"
  have "\<exists>p. for_upto ?n (vlan_entry m w idx) (True, v) = Some p \<and> (?Q p \<and> ?M (snd p) = [])"
    unfolding for_upto_def
  proof (rule for_each_rule [where I = ?I])
    fix pre i and p :: "bool \<times> DML_VIRTUAL_IFACE"
    assume I: "?I pre p" and "\<exists>todo. [0..<?n] = pre @ i # todo"
    then have i: "i = length pre" "i < ?n" by (auto dest: upt_split)
    with fit [of i] I entry_room [of i] show "(\<exists>q. vlan_entry m w idx i p = Some (Continue q) \<and> ?I (pre @ [i]) q) \<or>
        (\<exists>q. vlan_entry m w idx i p = Some (Break q) \<and> (?Q q \<and> ?M (snd q) = []))"
      using in_order_snoc [of "VI_VirIfIdx v" "VI_baseIfIdx v" "map vlan_key (?L (snd p))"]
      by (cases p) (auto simp: vlan_entry_def same_place_def copy_in_fits lists_placed_def add_to_list_eq vlan_key_def)
  qed (use clr cleared_placed in \<open>auto simp: same_place_def cleared_def\<close>)
  then obtain b v1 where one: "for_upto ?n (vlan_entry m w idx) (True, v) = Some (b, v1)" "?Q (b, v1)" "?M v1 = []" by auto
  let ?k = "unat (VLAN_NoOfMarkingEntries (VI_VLAN v1))"
  let ?J = "\<lambda>pre (p :: bool \<times> DML_VIRTUAL_IFACE). ?Q p \<and> length (?M (snd p)) = length pre"
  have "\<exists>p. for_upto ?k (marking_entry m w idx) (True, v1) = Some p \<and> ?Q p"
    unfolding for_upto_def
  proof (rule for_each_rule [where I = ?J])
    fix pre i and p :: "bool \<times> DML_VIRTUAL_IFACE"
    assume J: "?J pre p" and "\<exists>todo. [0..<?k] = pre @ i # todo"
    then have i: "i = length pre" "i < ?k" by (auto dest: upt_split)
    with J entry_room [of i] show "(\<exists>q. marking_entry m w idx i p = Some (Continue q) \<and> ?J (pre @ [i]) q) \<or>
        (\<exists>q. marking_entry m w idx i p = Some (Break q) \<and> ?Q q)"
      using in_order_snoc [of "VI_VirIfIdx v" "VI_baseIfIdx v" "map marking_key (?M (snd p))"]
      by (cases p) (auto simp: marking_entry_def same_place_def lists_placed_def add_to_list_eq marking_key_def)
  qed (use one(2,3) in simp_all)
  with one show ?thesis by (auto simp: WanMgr_VirtIfConfVLAN_def)
qed

subsection \<open>One interface\<close>

text \<open>
  The rule of a counting loop that does not break: it reaches the end of its range with the invariant,
  whatever indices follow.
\<close>

lemma for_loop_count:
  assumes "I 0 s0 w0"
    and step: "\<And>i s w. \<lbrakk>i < n; I i s w\<rbrakk> \<Longrightarrow> \<exists>s' w'. body i s w = Some (Continue s', w') \<and> I (Suc i) s' w'"
  shows "\<exists>s w. I n s w \<and> (\<forall>js. for_loop ([0..<n] @ js) body s0 w0 = for_loop js body s w)"
  using step
proof (induction n)
  case 0
  then show ?case using assms(1) by auto
next
  case (Suc n)
  then obtain s w where I: "I n s w" and run: "\<And>js. for_loop ([0..<n] @ js) body s0 w0 = for_loop js body s w"
    by (metis less_SucI)
  obtain s' w' where b: "body n s w = Some (Continue s', w')" "I (Suc n) s' w'" using Suc.prems [OF _ I] by auto
  have "for_loop ([0..<Suc n] @ js) body s0 w0 = for_loop js body s' w'" for js
    using run [of "n # js"] b(1) by (simp add: for_loop_Cons)
  with b(2) show ?case by blast
qed

lemma upd_iface_twice: "upd_iface k f (upd_iface k g w) = upd_iface k (\<lambda>d. f (g d)) w"
  by (simp add: upd_iface_def upd_db_def option.map_comp comp_def)

text \<open>What the start-up makes of a table entry.\<close>

definition fresh_entry :: "nat \<Rightarrow> DML_WAN_IFACE \<Rightarrow> bool" where
  "fresh_entry idx d \<longleftrightarrow> wf_shape idx (iface_shape d) \<and>
     (\<forall>v \<in> set (If_VirtIfList d). VI_baseIfIdx v = of_nat idx \<and> lists_placed v) \<and>
     Sel_Status (If_Selection d) = WAN_IFACE_NOT_SELECTED \<and> If_IfaceType d = LOCAL_IFACE"

lemma get_iface_total:
  assumes "iface_store_ok n w"
  shows "\<exists>d'. get_Wan_Interface_ParametersFromPSM n d w = Some d' \<and> If_uiIfaceIdx d' = If_uiIfaceIdx d \<and>
    If_VirtIfList d' = If_VirtIfList d \<and> Sel_Status (If_Selection d') = Sel_Status (If_Selection d) \<and>
    If_IfaceType d' = If_IfaceType d \<and>
    If_NoOfVirtIfs d' = psm_uint (psm_if n ''VirtualInterfaceifcount'') (If_NoOfVirtIfs d) w"
proof -
  obtain a b c f t where
    "psm_text (psm_if n ''Name'') 64 (If_Name d) w = Some a"
    "psm_text (psm_if n ''DisplayName'') 64 (If_DisplayName d) w = Some b"
    "psm_text (psm_if n ''AliasName'') 64 (If_AliasName d) w = Some c"
    "psm_text (psm_if n ''BaseInterface'') 128 (If_BaseInterface d) w = Some f"
    "psm_enum (psm_if n ''Type'') type_of_code (If_Type d) w = Some t"
    using assms [unfolded iface_store_ok_def] by (metis psm_text_total psm_enum_total)
  then show ?thesis by (simp add: get_Wan_Interface_ParametersFromPSM_def Let_def)
qed

lemma init_virtif_step:
  assumes ok: "entry_ok m idx w" and i: "i < unat (virtif_count (idx + 1) w)" and w': "psm w' = psm w"
  shows "\<exists>v. init_virtif m idx i st w' = Some (Continue ANSC_STATUS_SUCCESS,
      upd_iface idx (\<lambda>d. d\<lparr>If_VirtIfList := If_VirtIfList d @ [v]\<rparr>) w') \<and>
    VI_VirIfIdx v = of_nat i \<and> VI_baseIfIdx v = of_nat idx \<and> lists_placed v"
proof -
  from ok i obtain mem where mem: "SM_virtif m idx i = Some mem" "cleared mem" and st: "virtif_store_ok (idx + 1) (i + 1) w"
    by (auto simp: entry_ok_def)
  have st': "virtif_store_ok (idx + 1) (i + 1) w'"
    using st by (simp add: virtif_store_ok_def store_frame [OF w'])
  let ?v = "(WanMgr_VirtIface_Init (of_nat i) mem)\<lparr>VI_baseIfIdx := of_nat idx\<rparr>"
  have "VLAN_NoOfInterfaceEntries (VI_VLAN ?v) = 0" "cleared ?v"
    using mem(2) by (simp_all add: WanMgr_VirtIface_Init_def cleared_def)
  with get_virtif_total [OF st' this(1)] obtain v1 where v1:
    "get_Virtual_Interface_FromPSM (idx + 1) i ?v w' = Some v1" "same_place ?v v1" "cleared v1"
    "VLAN_NoOfInterfaceEntries (VI_VLAN v1) = vlan_count (idx + 1) (i + 1) w'" by blast
  have place: "VI_VirIfIdx v1 = of_nat i" "VI_baseIfIdx v1 = of_nat idx"
    using v1(2) by (simp_all add: same_place_def WanMgr_VirtIface_Init_def)
  have "unat (VI_VirIfIdx v1 + 1) = i + 1" using index_bound(3) [OF i] place(1) by (simp add: inst_of_def)
  then have "\<exists>b v'. WanMgr_VirtIfConfVLAN m v1 idx w' = Some (b, v') \<and> same_place v1 v' \<and> lists_placed v'"
    using st' v1(3,4) by (intro VirtIfConfVLAN_total) (simp add: virtif_store_ok_def)
  then obtain b v2 where v2: "WanMgr_VirtIfConfVLAN m v1 idx w' = Some (b, v2)" "same_place v1 v2" "lists_placed v2" by blast
  with mem(1) v1(1) have "init_virtif m idx i st w' = Some (Continue ANSC_STATUS_SUCCESS,
      upd_iface idx (\<lambda>d. d\<lparr>If_VirtIfList := If_VirtIfList d @ [v2]\<rparr>) w')"
    by (simp add: init_virtif_def WanMgr_AddVirtualToList_eq Let_def)
  with place v2(2,3) show ?thesis by (auto simp: same_place_def)
qed

lemma init_iface_step:
  assumes ok: "entry_ok m idx w" and d: "iface_at idx w = Some d" "If_VirtIfList d = []"
  shows "\<exists>d'. init_iface m idx st w = Some (Continue ANSC_STATUS_SUCCESS, upd_iface idx (\<lambda>_. d') w) \<and> fresh_entry idx d'"
proof -
  let ?n = "unat (virtif_count (idx + 1) w)"
  from ok have st: "iface_store_ok (idx + 1) w" by (simp add: entry_ok_def)
  then have nz: "0 < ?n" by (simp add: iface_store_ok_def unat_gt_0)
  from get_iface_total [OF st, of "WanMgr_IfaceData_Init (of_nat idx) d"] d(2) obtain d1 where d1:
    "get_Wan_Interface_ParametersFromPSM (idx + 1) (WanMgr_IfaceData_Init (of_nat idx) d) w = Some d1"
    "If_uiIfaceIdx d1 = of_nat idx" "If_VirtIfList d1 = []" "Sel_Status (If_Selection d1) = WAN_IFACE_NOT_SELECTED"
    "If_IfaceType d1 = LOCAL_IFACE" "If_NoOfVirtIfs d1 = virtif_count (idx + 1) w"
    by (auto simp: virtif_count_def WanMgr_IfaceData_Init_def)
  let ?vs = "\<lambda>i vs. length vs = i \<and> (\<forall>j < i. VI_VirIfIdx (vs ! j) = of_nat j \<and> VI_baseIfIdx (vs ! j) = of_nat idx \<and>
    lists_placed (vs ! j))"
  let ?I = "\<lambda>i st w'. st = ANSC_STATUS_SUCCESS \<and>
    (\<exists>vs. w' = upd_iface idx (\<lambda>_. d1\<lparr>If_VirtIfList := vs\<rparr>) w \<and> ?vs i vs)"
  have "\<exists>s w'. ?I ?n s w' \<and> (\<forall>js. for_loop ([0..<?n] @ js) (init_virtif m idx) ANSC_STATUS_SUCCESS
      (upd_iface idx (\<lambda>_. d1) w) = for_loop js (init_virtif m idx) s w')"
  proof (rule for_loop_count)
    have "d1\<lparr>If_VirtIfList := []\<rparr> = d1" using d1(3) by (cases d1) simp
    then show "?I 0 ANSC_STATUS_SUCCESS (upd_iface idx (\<lambda>_. d1) w)"
      by (auto intro!: exI [of _ "[]"])
    fix i st w'
    assume i: "i < ?n" and I: "?I i st w'"
    then obtain vs where vs: "w' = upd_iface idx (\<lambda>_. d1\<lparr>If_VirtIfList := vs\<rparr>) w" "?vs i vs" by blast
    from vs(1) have "psm w' = psm w" by simp
    from init_virtif_step [OF ok i this, of st] obtain v where v:
      "init_virtif m idx i st w' = Some (Continue ANSC_STATUS_SUCCESS,
         upd_iface idx (\<lambda>d. d\<lparr>If_VirtIfList := If_VirtIfList d @ [v]\<rparr>) w')"
      "VI_VirIfIdx v = of_nat i" "VI_baseIfIdx v = of_nat idx" "lists_placed v" by blast
    moreover have "?I (Suc i) ANSC_STATUS_SUCCESS (upd_iface idx (\<lambda>d. d\<lparr>If_VirtIfList := If_VirtIfList d @ [v]\<rparr>) w')"
      using vs v(2-4) by (auto simp: upd_iface_twice nth_append less_Suc_eq intro!: exI [of _ "vs @ [v]"])
    ultimately show "\<exists>s' w''. init_virtif m idx i st w' = Some (Continue s', w'') \<and> ?I (Suc i) s' w''" by blast
  qed
  then obtain vs where vs: "for_loop [0..<?n] (init_virtif m idx) ANSC_STATUS_SUCCESS (upd_iface idx (\<lambda>_. d1) w) =
      Some (ANSC_STATUS_SUCCESS, upd_iface idx (\<lambda>_. d1\<lparr>If_VirtIfList := vs\<rparr>) w)" "?vs ?n vs"
    by (metis append_Nil2 for_loop_Nil)
  have "map VI_VirIfIdx vs = map of_nat [0..<length vs]"
    using vs(2) by (intro nth_equalityI) auto
  with vs(2) nz d1 have "fresh_entry idx (d1\<lparr>If_VirtIfList := vs\<rparr>)"
    by (auto simp: fresh_entry_def iface_shape_def in_set_conv_nth)
  with vs(1) d d1(1,6) show ?thesis by (auto simp: init_iface_def)
qed

subsection \<open>The table\<close>

text \<open>The first \<open>k\<close> entries are ready, the others are empty, and nothing else of the world has changed.\<close>

definition table_ready :: "nat \<Rightarrow> world \<Rightarrow> world \<Rightarrow> bool" where
  "table_ready k w0 w \<longleftrightarrow> (\<exists>l. pIface w = Some l \<and> length l = 32 \<and> (\<forall>j < k. fresh_entry j (l ! j)) \<and>
       (\<forall>j \<in> {k..<32}. If_VirtIfList (l ! j) = [])) \<and>
     psm w = psm w0 \<and> total_ifaces w = total_ifaces w0 \<and> config w = config w0 \<and> mutex w = mutex w0 \<and>
     Groups w = Groups w0 \<and> total_groups w = total_groups w0 \<and> out w = out w0"

lemma table_ready_step:
  assumes ready: "table_ready k w0 w" and k: "k < 32" and ok: "entry_ok m k w0"
  shows "\<exists>w'. init_iface m k st w = Some (Continue ANSC_STATUS_SUCCESS, w') \<and> table_ready (Suc k) w0 w'"
proof -
  from ready obtain l where l: "pIface w = Some l" "length l = 32" "\<forall>j < k. fresh_entry j (l ! j)"
    "\<forall>j \<in> {k..<32}. If_VirtIfList (l ! j) = []" and psm: "psm w = psm w0" by (auto simp: table_ready_def)
  have "entry_ok m k w" using ok entry_ok_frame [OF psm] by simp
  moreover have "iface_at k w = Some (l ! k)" "If_VirtIfList (l ! k) = []" using l k by (simp_all add: iface_at_def)
  ultimately obtain d where d: "init_iface m k st w = Some (Continue ANSC_STATUS_SUCCESS, upd_iface k (\<lambda>_. d) w)"
    "fresh_entry k d" using init_iface_step by blast
  have "table_ready (Suc k) w0 (upd_iface k (\<lambda>_. d) w)"
    using ready l k d(2) by (auto simp: table_ready_def less_Suc_eq)
  with d(1) show ?thesis by blast
qed

lemma table_ready_all:
  assumes "table_ready 0 w0 w0" "n \<le> 32" "\<And>k. k < n \<Longrightarrow> entry_ok m k w0"
  shows "\<exists>st w. table_ready n w0 w \<and> st = ANSC_STATUS_SUCCESS \<and>
    (\<forall>js. for_loop ([0..<n] @ js) (init_iface m) ANSC_STATUS_SUCCESS w0 = for_loop js (init_iface m) st w)"
proof -
  have "\<exists>s w. (s = ANSC_STATUS_SUCCESS \<and> table_ready n w0 w) \<and>
    (\<forall>js. for_loop ([0..<n] @ js) (init_iface m) ANSC_STATUS_SUCCESS w0 = for_loop js (init_iface m) s w)"
  proof (rule for_loop_count)
    fix i st w
    assume i: "i < n" and "st = ANSC_STATUS_SUCCESS \<and> table_ready i w0 w"
    then have ready: "table_ready i w0 w" and "i < 32" using assms(2) by auto
    from table_ready_step [OF this assms(3) [OF i], of st]
    show "\<exists>s' w'. init_iface m i st w = Some (Continue s', w') \<and> s' = ANSC_STATUS_SUCCESS \<and> table_ready (Suc i) w0 w'"
      by blast
  qed (use assms(1) in simp)
  then show ?thesis by blast
qed

lemma table_ready_new: "table_ready 0 (new_table block n w) (new_table block n w)"
  by (auto simp: table_ready_def new_table_def upd_db_def memset_iface_def)

lemma table_ready_wf:
  assumes ready: "table_ready n w0 w" and n: "n = unat (total_ifaces w0)" "n \<le> 32" and m: "mutex w0 \<noteq> None"
    and g: "\<exists>g. Groups w0 = Some g \<and> unat (total_groups w0) = length g"
  shows "wf_db w"
proof -
  from ready obtain l where l: "pIface w = Some l" "length l = 32" "\<forall>j < n. fresh_entry j (l ! j)"
    "\<forall>j \<in> {n..<32}. If_VirtIfList (l ! j) = []" by (auto simp: table_ready_def)
  have "wf_ifaces n (map iface_shape l)"
    unfolding wf_ifaces_def using l n(2) by (auto simp: fresh_entry_def iface_shape_def)
  with ready l n m g show ?thesis by (auto simp: table_ready_def wf_db_def)
qed

end
