(* ===== verification/WanStartupProps.thy ===== *)
theory WanStartupProps
  imports WanStartupLemmas
begin

text \<open>
  The properties of the start-up: from every store it can read it builds a well-formed data base, in the
  state the threads start from, or, when the store counts more interfaces than the table has entries, writes
  beyond the table; and the interface of a VLAN that was committed is not there at the next start.
\<close>

subsection \<open>The configuration and the groups\<close>

abbreviation enable_record :: "world \<Rightarrow> string" where
  "enable_record w \<equiv> psm_value ''dmsb.wanmanager.wanenable'' w"

text \<open>A new group: stopped, nothing selected, its index.\<close>

definition fresh_group :: "nat \<Rightarrow> WANMGR_IFACE_GROUP \<Rightarrow> bool" where
  "fresh_group k g \<longleftrightarrow> G_State g = STATE_GROUP_STOPPED \<and> G_groupIdx g = of_nat k \<and> G_SelectedInterface g = 0 \<and>
     G_InterfaceAvailable g = 0 \<and> \<not> G_InitialScanComplete g"

lemma group_init_fresh: "fresh_group k (group_init (of_nat k) w)"
  by (simp add: fresh_group_def group_init_def WanMgr_Read_GroupConf_FromPSM_def split: option.split)

definition groups_fresh :: "world \<Rightarrow> bool" where
  "groups_fresh w \<longleftrightarrow> (\<exists>gs. Groups w = Some gs \<and> unat (total_groups w) = length gs \<and>
     (\<forall>k < length gs. fresh_group k (gs ! k)))"

lemma psm_data_init [simp]: "psm (WanMgr_Data_Init w) = psm w" "mutex (WanMgr_Data_Init w) = Some 0"
  by (simp_all add: WanMgr_Data_Init_def upd_db_def)

lemma Group_Configure_fresh:
  assumes "mutex w = Some 0"
  shows "\<exists>w'. WanMgr_Group_Configure True w = (ANSC_STATUS_SUCCESS, w') \<and> psm w' = psm w \<and> mutex w' = Some 0 \<and>
    groups_fresh w'"
  using assms
  by (simp add: WanMgr_Group_Configure_def pthread_mutex_lock_def release_defs groups_fresh_def group_init_fresh
      upd_db_def Let_def)

lemma start_of_init:
  assumes "enable_record w \<noteq> []" "SM_groups m" "mutex w = Some 0"
  shows "\<exists>w2. WanMgr_WanConfigInit m w = WanMgr_WanDataInit m w2 \<and> psm w2 = psm w \<and> mutex w2 = Some 0 \<and> groups_fresh w2"
proof -
  obtain w1 where w1: "with_config ANSC_STATUS_FAILURE (\<lambda>w.
      let (st, c) = WanMgr_WanConfInit (SM_wan_enable m) (config w) w in (st, upd_config (\<lambda>_. c) w)) w =
      (ANSC_STATUS_SUCCESS, w1)" "psm w1 = psm w" "mutex w1 = Some 0"
    using assms(1,3) by (simp add: with_config_def WanMgr_GetConfigData_locked_def pthread_mutex_lock_def release_defs
        WanMgr_WanConfInit_def psm_frame [of "mlock w" w])
  from Group_Configure_fresh [OF w1(3)] assms(2) w1 show ?thesis
    by (auto simp: WanMgr_WanConfigInit_def)
qed

subsection \<open>A well-formed data base\<close>

text \<open>
  What the start-up needs: the enable record, memory, a number of interfaces that the table can hold, and
  readable records for each of them.
\<close>

definition readable :: "startup_mem \<Rightarrow> uint \<Rightarrow> world \<Rightarrow> bool" where
  "readable m n w \<longleftrightarrow> enable_record w \<noteq> [] \<and> SM_groups m \<and> SM_table m \<noteq> None \<and>
     DmlGetTotalNoOfWanInterfaces (SM_uiTotalIfaces m) w = (ANSC_STATUS_SUCCESS, n) \<and>
     (\<forall>idx < min 32 (unat n). entry_ok m idx w)"

lemma total_frame: "psm w' = psm w \<Longrightarrow> DmlGetTotalNoOfWanInterfaces n w' = DmlGetTotalNoOfWanInterfaces n w"
  by (simp add: DmlGetTotalNoOfWanInterfaces_def WanMgr_RdkBus_GetParamValuesFromDB_def)

text \<open>The world in which the loop over the table starts.\<close>

lemma init_until_table:
  assumes r: "readable m n w" and m: "mutex w = Some 0"
  shows "\<exists>w3. psm w3 = psm w \<and> mutex w3 = Some 1 \<and> groups_fresh w3 \<and> total_ifaces w3 = n \<and> table_ready 0 w3 w3 \<and>
    WanMgr_WanConfigInit m w = Option.bind (for_loop [0..<unat n] (init_iface m) ANSC_STATUS_SUCCESS w3)
      (\<lambda>(st, w). Some (st, pthread_mutex_unlock (if st = ANSC_STATUS_FAILURE then w else set_update 0 w)))"
proof -
  from r m obtain w2 where w2: "WanMgr_WanConfigInit m w = WanMgr_WanDataInit m w2" "psm w2 = psm w" "mutex w2 = Some 0"
    "groups_fresh w2" using start_of_init [of w m] by (auto simp: readable_def)
  from r obtain block where block: "SM_table m = Some block" by (auto simp: readable_def)
  let ?w3 = "new_table block n (mlock w2)"
  have "psm (mlock w2) = psm w" using w2(2) by simp
  from total_frame [OF this] r
  have "DmlGetTotalNoOfWanInterfaces (SM_uiTotalIfaces m) (mlock w2) = (ANSC_STATUS_SUCCESS, n)"
    by (simp add: readable_def)
  then have "WanMgr_WanConfigInit m w = Option.bind (for_loop [0..<unat n] (init_iface m) ANSC_STATUS_SUCCESS ?w3)
      (\<lambda>(st, w). Some (st, pthread_mutex_unlock (if st = ANSC_STATUS_FAILURE then w else set_update 0 w)))"
    using w2(1,3) block
    by (simp add: WanMgr_WanDataInit_def pthread_mutex_lock_def WanMgr_WanIfaceConfInit_def release_defs split_def)
  moreover have "psm ?w3 = psm w" "mutex ?w3 = Some 1" "groups_fresh ?w3" "total_ifaces ?w3 = n"
    using w2(2,3,4) by (simp_all add: new_table_def upd_db_def mlock_def groups_fresh_def)
  ultimately show ?thesis using table_ready_new by blast
qed

lemma finish_reads [simp]:
  "pIface (set_update k w) = pIface w" "total_ifaces (set_update k w) = total_ifaces w" "mutex (set_update k w) = mutex w"
  "Groups (set_update k w) = Groups w" "total_groups (set_update k w) = total_groups w" "psm (set_update k w) = psm w"
  by (simp_all add: set_update_def upd_db_def)

lemma wf_db_set_update: "wf_db (set_update k w) = wf_db w"
  by (simp add: wf_db_def set_update_def upd_db_def split: option.split)

lemma startup_done:
  assumes r: "readable m n w" and m: "mutex w = Some 0" and n: "unat n \<le> 32"
  shows "\<exists>w'. WanMgr_WanConfigInit m w = Some (ANSC_STATUS_SUCCESS, w') \<and> wf_db w' \<and> mutex w' = Some 0 \<and>
    total_ifaces w' = n \<and> groups_fresh w' \<and> (\<forall>k < unat n. \<exists>d. iface_at k w' = Some d \<and> fresh_entry k d)"
proof -
  from init_until_table [OF r m] obtain w3 where w3: "psm w3 = psm w" "mutex w3 = Some 1" "groups_fresh w3"
    "total_ifaces w3 = n" "table_ready 0 w3 w3"
    "WanMgr_WanConfigInit m w = Option.bind (for_loop [0..<unat n] (init_iface m) ANSC_STATUS_SUCCESS w3)
      (\<lambda>(st, w). Some (st, pthread_mutex_unlock (if st = ANSC_STATUS_FAILURE then w else set_update 0 w)))" by blast
  have "entry_ok m k w3" if "k < unat n" for k
    using r n that entry_ok_frame [OF w3(1)] by (simp add: readable_def)
  from table_ready_all [OF w3(5) n this] obtain w4 where w4: "table_ready (unat n) w3 w4"
    "for_loop [0..<unat n] (init_iface m) ANSC_STATUS_SUCCESS w3 = Some (ANSC_STATUS_SUCCESS, w4)"
    by (metis append_Nil2 for_loop_Nil)
  let ?w' = "pthread_mutex_unlock (set_update 0 w4)"
  have "wf_db w4"
    using w3(2,3,4) n by (intro table_ready_wf [OF w4(1)]) (auto simp: groups_fresh_def)
  then have "wf_db ?w'" by (simp add: wf_db_set_update)
  moreover have "mutex ?w' = Some 0" "total_ifaces ?w' = n" "groups_fresh ?w'"
    using w3 w4(1) by (simp_all add: table_ready_def groups_fresh_def)
  moreover have "\<exists>d. iface_at k ?w' = Some d \<and> fresh_entry k d" if "k < unat n" for k
    using w4(1) that n by (auto simp: table_ready_def iface_at_def)
  ultimately show ?thesis using w3(6) w4(2) by (simp del: wf_db_lock)
qed

lemma fresh_inactive:
  assumes "\<forall>k < unat (total_ifaces w). \<exists>d. iface_at k w = Some d \<and> fresh_entry k d"
  shows "active_set w = {}"
  using assms by (auto simp: active_set_def sel_view_def fresh_entry_def)

text \<open>
  C30. The start-up is well-typed: from every store it can read (the enable record is there, the number of interfaces is
  at most that of the table, texts fit and codes name enumerators) and with enough memory, it returns success with a
  well-formed data base, the mutex free, an entry for every counted interface with as many virtual interfaces as its
  record says, each numbered by its place and knowing its interface, nothing selected and nothing active, and every
  group stopped.
\<close>

theorem startup_builds_data_base:
  assumes "readable m n w" "unat n \<le> 32"
  shows "\<exists>w'. WanMgr_WanConfigInit m (WanMgr_Data_Init w) = Some (ANSC_STATUS_SUCCESS, w') \<and> wf_db w' \<and>
    mutex w' = Some 0 \<and> total_ifaces w' = n \<and> active_set w' = {} \<and> groups_fresh w' \<and>
    (\<forall>k < unat n. \<exists>d. iface_at k w' = Some d \<and> fresh_entry k d)"
proof -
  have "readable m n (WanMgr_Data_Init w)"
    using assms(1) psm_frame [OF psm_data_init(1)] total_frame [OF psm_data_init(1)] entry_ok_frame [OF psm_data_init(1)]
    by (simp add: readable_def)
  from startup_done [OF this _ assms(2)] obtain w' where
    "WanMgr_WanConfigInit m (WanMgr_Data_Init w) = Some (ANSC_STATUS_SUCCESS, w')" "wf_db w'" "mutex w' = Some 0"
    "total_ifaces w' = n" "groups_fresh w'" "\<forall>k < unat n. \<exists>d. iface_at k w' = Some d \<and> fresh_entry k d" by auto
  then show ?thesis using fresh_inactive [of w'] by auto
qed

definition boot_mem :: startup_mem where
  "boot_mem = \<lparr>SM_groups = True, SM_table = Some (\<lambda>_. blank_iface), SM_virtif = (\<lambda>_ _. Some blank_virtif),
     SM_vlan = (\<lambda>_ _ _. True), SM_marking = (\<lambda>_ _ _. True), SM_uiTotalIfaces = 0, SM_wan_enable = False\<rparr>"

text \<open>A store with an enable record and a number of interfaces only.\<close>

definition boot_world :: "string \<Rightarrow> world" where
  "boot_world count = sample_world\<lparr>psm :=
     [''dmsb.wanmanager.wanenable'' \<mapsto> ''1'', ''dmsb.wanmanager.wan.interfacecount'' \<mapsto> count]\<rparr>"

lemma boot_record:
  "psm_record (psm_if i s) (boot_world c) = None"
  by (simp add: WanMgr_RdkBus_GetParamValuesFromDB_def boot_world_def psm_if_def)

lemma boot_readable:
  assumes "DmlGetTotalNoOfWanInterfaces 0 (boot_world c) = (ANSC_STATUS_SUCCESS, n)"
  shows "readable boot_mem n (boot_world c)"
proof -
  have none: "psm_value (psm_if i s) (boot_world c) = []" for i s by (simp add: psm_value_def boot_record)
  then have none': "psm_value (psm_virtif i v s) (boot_world c) = []" for i v s by (simp add: psm_virtif_def)
  have empty: "sscanf_d [] = None" by (simp add: sscanf_d_def)
  have "iface_store_ok i (boot_world c)" for i
    by (simp add: iface_store_ok_def fits_def codes_def virtif_count_def psm_uint_def none empty)
  moreover have "virtif_store_ok i v (boot_world c)" for i v
    by (simp add: virtif_store_ok_def fits_def codes_def vlan_count_def psm_uint_def none' empty)
  moreover have "enable_record (boot_world c) = ''1''"
    by (simp add: psm_value_def WanMgr_RdkBus_GetParamValuesFromDB_def boot_world_def)
  ultimately show ?thesis using assms by (simp add: readable_def boot_mem_def entry_ok_def cleared_def blank_virtif_def)
qed

lemma boot_count:
  "DmlGetTotalNoOfWanInterfaces 0 (boot_world ''2'') = (ANSC_STATUS_SUCCESS, 2)"
  "DmlGetTotalNoOfWanInterfaces 0 (boot_world ''33'') = (ANSC_STATUS_SUCCESS, 33)"
  by (simp_all add: DmlGetTotalNoOfWanInterfaces_def WanMgr_RdkBus_GetParamValuesFromDB_def boot_world_def
      sscanf_d_def isspace_c_def isdigit_c_def digits_value_def)

theorem startup_builds_data_base_witness:
  "\<exists>w'. WanMgr_WanConfigInit boot_mem (WanMgr_Data_Init (boot_world ''2'')) = Some (ANSC_STATUS_SUCCESS, w') \<and>
    wf_db w' \<and> total_ifaces w' = 2"
  using startup_builds_data_base [OF boot_readable [OF boot_count(1)]] by auto

text \<open>
  The start-up does not compare the number of interfaces in the store with the number of entries of the table: when
  the store counts more than 32 interfaces, even if every record is readable, the start-up writes beyond the table.
\<close>

theorem startup_overruns_table:
  assumes "readable m n w" "32 < unat n"
  shows "WanMgr_WanConfigInit m (WanMgr_Data_Init w) = None"
proof -
  have "readable m n (WanMgr_Data_Init w)"
    using assms(1) psm_frame [OF psm_data_init(1)] total_frame [OF psm_data_init(1)] entry_ok_frame [OF psm_data_init(1)]
    by (simp add: readable_def)
  from init_until_table [OF this psm_data_init(2)] obtain w3 where w3: "psm w3 = psm (WanMgr_Data_Init w)"
    "table_ready 0 w3 w3" "WanMgr_WanConfigInit m (WanMgr_Data_Init w) =
      Option.bind (for_loop [0..<unat n] (init_iface m) ANSC_STATUS_SUCCESS w3)
      (\<lambda>(st, w). Some (st, pthread_mutex_unlock (if st = ANSC_STATUS_FAILURE then w else set_update 0 w)))" by blast
  have ok: "entry_ok m k w3" if "k < 32" for k
    using \<open>readable m n (WanMgr_Data_Init w)\<close> assms(2) that entry_ok_frame [OF w3(1)] by (simp add: readable_def)
  from table_ready_all [OF w3(2) order_refl ok] obtain st w4 where w4: "table_ready 32 w3 w4"
    "\<And>js. for_loop ([0..<32] @ js) (init_iface m) ANSC_STATUS_SUCCESS w3 = for_loop js (init_iface m) st w4" by blast
  have "[0..<unat n] = [0..<32] @ 32 # [33..<unat n]"
    using assms(2) upt_add_eq_append [of 0 32 "unat n - 32"] by (simp add: upt_conv_Cons)
  moreover have "iface_at 32 w4 = None" using w4(1) by (auto simp: table_ready_def iface_at_def)
  ultimately show ?thesis using w3(3) w4(2) by (simp add: for_loop_Cons init_iface_def)
qed

theorem startup_overruns_table_witness:
  "WanMgr_WanConfigInit boot_mem (WanMgr_Data_Init (boot_world ''33'')) = None"
  using startup_overruns_table [OF boot_readable [OF boot_count(2)]] by simp

text \<open>
  C31. Committing the interface of a VLAN does not reach the start-up: the writer puts the name into the record of the
  marking entry with the same number, where it replaces the marking, and leaves every record from which the start-up
  reads the interfaces of VLANs as it was.
\<close>

theorem vlan_interface_not_saved:
  assumes "psm_works e"
  shows "psm_value (PSM_WANMANAGER_IF_VIRIF_VLAN_INTERFACE_ENTRY i v n) (write_VlanInterface_ParametersToPSM e t w) =
      psm_value (PSM_WANMANAGER_IF_VIRIF_VLAN_INTERFACE_ENTRY i v n) w \<and>
    psm (write_VlanInterface_ParametersToPSM e t w) (PSM_WANMANAGER_IF_VIRIF_VLAN_MARKING_ENTRY
      (unat (VT_baseIfIdx t + 1)) (unat (VT_VirIfIdx t + 1)) (VT_Index t + 1)) = Some (VT_Interface t)"
  using assms
  by (simp_all add: write_VlanInterface_ParametersToPSM_def psm_value_def WanMgr_RdkBus_GetParamValuesFromDB_def
      psm_works_def WanMgr_RdkBus_SetParamValuesToDB_def Let_def)

theorem vlan_interface_not_saved_witness:
  "psm (write_VlanInterface_ParametersToPSM sample_env
      \<lparr>VT_Index = 0, VT_VirIfIdx = 0, VT_baseIfIdx = 0, VT_Interface = ''Device.X_RDK_Ethernet.Link.1''\<rparr> sample_world)
    (PSM_WANMANAGER_IF_VIRIF_VLAN_MARKING_ENTRY 1 1 1) = Some ''Device.X_RDK_Ethernet.Link.1''"
  using vlan_interface_not_saved [where e = sample_env and w = sample_world and t =
      "\<lparr>VT_Index = 0, VT_VirIfIdx = 0, VT_baseIfIdx = 0, VT_Interface = ''Device.X_RDK_Ethernet.Link.1''\<rparr>"]
  by (simp add: psm_works_def sample_env_def)

end
