(* ===== verification/WanDml.thy ===== *)
theory WanDml
  imports WanConfig
begin

text \<open>
  The data-model handlers of the WAN interfaces (\<open>wanmgr_dml_iface_v2_apis.c\<close>, tables
  \<open>X_RDK_WanManager.Interface.{i}.\<close> and its \<open>Selection.\<close>): the library calls them to read, set and commit the
  parameters of the data model, from its own threads, while the threads of the program run.

  The handle of an interface is a pointer into the table, \<open>None\<close> is NULL.  A getter takes what the
  caller's variable holds and returns it with the result; the getter of a text takes the caller's buffer and its
  size.  A number that names no enumerator has no outcome here (the data-model library converts from names), nor has a
  text that is too long for its array.  The build has rbus, and no \<open>WanMgr_SetRestartWanInfo\<close>.
\<close>

subsection \<open>Numbers of enumerators\<close>

primrec selection_code :: "WANMGR_IFACE_SELECTION \<Rightarrow> nat" where
  "selection_code WAN_IFACE_UNKNOWN = 0"
| "selection_code WAN_IFACE_NOT_SELECTED = 1"
| "selection_code WAN_IFACE_VALIDATING = 2"
| "selection_code WAN_IFACE_SELECTED = 3"
| "selection_code WAN_IFACE_ACTIVE = 4"

primrec oper_code :: "DML_WAN_IFACE_OPER_STATUS \<Rightarrow> nat" where
  "oper_code WAN_OPERSTATUS_UNKNOWN = 1"
| "oper_code WAN_OPERSTATUS_OPERATIONAL = 2"
| "oper_code WAN_OPERSTATUS_NOT_OPERATIONAL = 3"

definition oper_of_code :: "int \<Rightarrow> DML_WAN_IFACE_OPER_STATUS option" where
  "oper_of_code = decode oper_code
     [WAN_OPERSTATUS_UNKNOWN, WAN_OPERSTATUS_OPERATIONAL, WAN_OPERSTATUS_NOT_OPERATIONAL]"

text \<open>The enumerator a caller's number names.\<close>

definition enum_arg :: "(int \<Rightarrow> 'a option) \<Rightarrow> uint \<Rightarrow> 'a option" where
  "enum_arg of_code uValue = of_code (int (unat uValue))"

subsection \<open>The shape of a handler\<close>

text \<open>
  \<open>WanMgr_GetIfaceData_locked(pIfaceDmlEntry->data.uiIfaceIdx)\<close> with its two tests for NULL; \<open>d\<close> is the result
  when either pointer is NULL.
\<close>

definition with_dml_iface ::
  "nat option \<Rightarrow> 'r \<Rightarrow> (nat \<Rightarrow> world \<Rightarrow> ('r \<times> world) option) \<Rightarrow> world \<Rightarrow> ('r \<times> world) option" where
  "with_dml_iface h d body w =
     (case h of
        None \<Rightarrow> Some (d, w)
      | Some j \<Rightarrow> do { x \<leftarrow> iface_at j w; with_iface (If_uiIfaceIdx x) d body w })"

text \<open>A handler that only reads the interface; a handler that changes it.\<close>

definition read_iface :: "nat option \<Rightarrow> 'r \<Rightarrow> (DML_WAN_IFACE \<Rightarrow> 'r option) \<Rightarrow> world \<Rightarrow> ('r \<times> world) option" where
  "read_iface h d get = with_dml_iface h d (\<lambda>k w. do { x \<leftarrow> iface_at k w; r \<leftarrow> get x; Some (r, w) })"

definition write_iface ::
  "nat option \<Rightarrow> (DML_WAN_IFACE \<Rightarrow> (bool \<times> DML_WAN_IFACE) option) \<Rightarrow> world \<Rightarrow> (bool \<times> world) option" where
  "write_iface h put = with_dml_iface h False (\<lambda>k w. do {
     x \<leftarrow> iface_at k w;
     (ret, y) \<leftarrow> put x;
     Some (ret, upd_iface k (\<lambda>_. y) w) })"

text \<open>
  A text of an array of \<open>n\<close> characters into the caller's buffer: 0 and the text, or 1 and the size that is
  needed.
\<close>

definition copy_out :: "nat \<Rightarrow> string \<Rightarrow> string \<times> uint \<Rightarrow> uint \<times> string \<times> uint" where
  "copy_out n s = (\<lambda>(pValue, ulSize). if n - 1 < unat ulSize then (0, s, ulSize) else (1, pValue, of_nat n))"

subsection \<open>The interface\<close>

definition WanIf_GetEntryCount :: "world \<Rightarrow> uint \<times> world" where
  "WanIf_GetEntryCount w = WanMgr_IfaceData_GetTotalWanIface w"

definition WanIf_GetEntry :: "uint \<Rightarrow> uint \<Rightarrow> world \<Rightarrow> (nat option \<times> uint) \<times> world" where
  "WanIf_GetEntry nIndex insNumber w =
     (case WanMgr_GetIfaceData_locked nIndex w of
        (None, w1) \<Rightarrow> ((None, insNumber), w1)
      | (Some k, w1) \<Rightarrow> ((Some k, nIndex + 1), WanMgrDml_GetIfaceData_release w1))"

text \<open>\<open>WanIf_IsUpdated\<close> reads and writes the flag without the mutex.\<close>

definition WanIf_IsUpdated :: "world \<Rightarrow> bool \<times> world" where
  "WanIf_IsUpdated w = (if IC_update (IfaceCtrl (gWanMgrDataBase w)) = 1 then (False, w) else (True, set_update 1 w))"

definition WanIf_GetParamStringValue ::
  "nat option \<Rightarrow> string \<Rightarrow> string \<times> uint \<Rightarrow> world \<Rightarrow> ((uint \<times> string \<times> uint) \<times> world) option" where
  "WanIf_GetParamStringValue hInsContext ParamName buf = read_iface hInsContext (-1, buf) (\<lambda>d. Some (
     if ParamName = ''Name'' then copy_out 64 (If_Name d) buf
     else if ParamName = ''AliasName'' then copy_out 64 (If_AliasName d) buf
     else if ParamName = ''DisplayName'' then copy_out 64 (If_DisplayName d) buf
     else if ParamName = ''CustomConfigPath'' then copy_out 128 (If_CustomConfigPath d) buf
     else if ParamName = ''BaseInterface'' then copy_out 128 (If_BaseInterface d) buf
     else (-1, buf)))"

definition WanIf_SetParamStringValue :: "nat option \<Rightarrow> string \<Rightarrow> string \<Rightarrow> world \<Rightarrow> (bool \<times> world) option" where
  "WanIf_SetParamStringValue hInsContext ParamName pString = write_iface hInsContext (\<lambda>d.
     if ParamName = ''Name'' then do { s \<leftarrow> copy_in 64 pString; Some (True, d\<lparr>If_Name := s\<rparr>) }
     else if ParamName = ''CustomConfigPath''
     then do { s \<leftarrow> copy_in 128 pString; Some (True, d\<lparr>If_CustomConfigPath := s\<rparr>) }
     else if ParamName = ''BaseInterface''
     then if pString \<noteq> [] then do { s \<leftarrow> copy_in 128 pString; Some (True, d\<lparr>If_BaseInterface := s\<rparr>) }
          else Some (False, d)
     else Some (False, d))"

text \<open>Whether a virtual interface is to be reset; a missing one would be dereferenced.\<close>

definition any_Reset :: "DML_WAN_IFACE \<Rightarrow> bool option" where
  "any_Reset d = for_upto (unat (If_NoOfVirtIfs d)) (\<lambda>i r. do {
     v \<leftarrow> WanMgr_getVirtualIfaceById (If_VirtIfList d) (of_nat i);
     Some (if VI_Reset v then Break True else Continue r) }) False"

definition WanIf_GetParamBoolValue ::
  "nat option \<Rightarrow> string \<Rightarrow> bool \<Rightarrow> world \<Rightarrow> ((bool \<times> bool) \<times> world) option" where
  "WanIf_GetParamBoolValue hInsContext ParamName b = read_iface hInsContext (False, b) (\<lambda>d.
     if ParamName = ''EnableOperStatusMonitor'' then Some (True, If_MonitorOperStatus d)
     else if ParamName = ''EnableCustomConfig'' then Some (True, If_CustomConfigEnable d)
     else if ParamName = ''ConfigureWanEnable'' then Some (True, If_WanConfigEnabled d)
     else if ParamName = ''Reset'' then map_option (Pair True) (any_Reset d)
     else if ParamName = ''ActiveLink'' then Some (True, Sel_Status (If_Selection d) = WAN_IFACE_ACTIVE)
     else Some (False, b))"

definition all_Reset :: "bool \<Rightarrow> DML_WAN_IFACE \<Rightarrow> DML_WAN_IFACE option" where
  "all_Reset bValue d = for_upto (unat (If_NoOfVirtIfs d)) (\<lambda>i d. do {
     j \<leftarrow> virtif_position (If_VirtIfList d) (of_nat i);
     Some (Continue (d\<lparr>If_VirtIfList := map_nth j (\<lambda>v. v\<lparr>VI_Reset := bValue\<rparr>) (If_VirtIfList d)\<rparr>)) }) d"

definition WanIf_SetParamBoolValue :: "nat option \<Rightarrow> string \<Rightarrow> bool \<Rightarrow> world \<Rightarrow> (bool \<times> world) option" where
  "WanIf_SetParamBoolValue hInsContext ParamName bValue = write_iface hInsContext (\<lambda>d.
     if ParamName = ''ConfigureWanEnable'' then Some (True, d\<lparr>If_WanConfigEnabled := bValue\<rparr>)
     else if ParamName = ''EnableCustomConfig'' then Some (True, d\<lparr>If_CustomConfigEnable := bValue\<rparr>)
     else if ParamName = ''EnableOperStatusMonitor'' then Some (True, d\<lparr>If_MonitorOperStatus := bValue\<rparr>)
     else if ParamName = ''Reset'' then map_option (Pair True) (all_Reset bValue d)
     else Some (False, d))"

definition WanIf_GetParamUlongValue ::
  "nat option \<Rightarrow> string \<Rightarrow> uint \<Rightarrow> world \<Rightarrow> ((bool \<times> uint) \<times> world) option" where
  "WanIf_GetParamUlongValue hInsContext ParamName n = read_iface hInsContext (False, n) (\<lambda>d.
     if ParamName = ''OperationalStatus''
     then do { v \<leftarrow> head_virtif d; Some (True, of_nat (oper_code (VI_OperationalStatus v))) }
     else if ParamName = ''Status'' then Some (True, of_nat (selection_code (Sel_Status (If_Selection d))))
     else Some (False, n))"

definition WanIf_SetParamUlongValue :: "nat option \<Rightarrow> string \<Rightarrow> uint \<Rightarrow> world \<Rightarrow> (bool \<times> world) option" where
  "WanIf_SetParamUlongValue hInsContext ParamName uValue = write_iface hInsContext (\<lambda>d.
     if ParamName = ''OperationalStatus''
     then do {
       _ \<leftarrow> head_virtif d;
       st \<leftarrow> enum_arg oper_of_code uValue;
       Some (True, upd_head_virtif (\<lambda>v. v\<lparr>VI_OperationalStatus := st\<rparr>) d) }
     else Some (False, d))"

definition WanIf_Commit :: "env \<Rightarrow> nat option \<Rightarrow> world \<Rightarrow> (uint \<times> world) option" where
  "WanIf_Commit e hInsContext = with_dml_iface hInsContext 0 (\<lambda>k w. do {
     d \<leftarrow> iface_at k w;
     (_, w) \<leftarrow> DmlSetWanIfCfg e (unat (If_uiInstanceNumber d)) d w;
     Some (0, w) })"

subsection \<open>Its selection\<close>

definition WanIfSelectionCfg_GetParamIntValue ::
  "nat option \<Rightarrow> string \<Rightarrow> int \<Rightarrow> world \<Rightarrow> ((bool \<times> int) \<times> world) option" where
  "WanIfSelectionCfg_GetParamIntValue hInsContext ParamName n = read_iface hInsContext (False, n) (\<lambda>d. Some (
     if ParamName = ''Priority'' then (True, Sel_Priority (If_Selection d)) else (False, n)))"

text \<open>Whether an interface other than \<open>IfIndex\<close> has the priority.\<close>

definition WanManager_CheckGivenPriorityExists ::
  "int \<Rightarrow> uint \<Rightarrow> int \<Rightarrow> world \<Rightarrow> ((ANSC_STATUS \<times> bool) \<times> world) option" where
  "WanManager_CheckGivenPriorityExists IfIndex uiTotalIfaces priority w =
     (if uiTotalIfaces \<le> 0 then Some ((ANSC_STATUS_FAILURE, False), w)
      else do {
        (Status, w) \<leftarrow> for_loop [0..<unat uiTotalIfaces] (\<lambda>i Status.
          with_iface (of_nat i) (Continue Status) (\<lambda>k w. do {
            d \<leftarrow> iface_at k w;
            Some (if int i = IfIndex then Continue Status
                  else if Sel_Priority (If_Selection d) = priority then Break True
                  else Continue Status, w) })) False w;
        Some ((ANSC_STATUS_SUCCESS, Status), w) })"

text \<open>
  The mutex is released between the look at the interface, the search for the priority, and the write.
\<close>

definition WanIfSelectionCfg_SetParamIntValue ::
  "nat option \<Rightarrow> string \<Rightarrow> int \<Rightarrow> world \<Rightarrow> (bool \<times> world) option" where
  "WanIfSelectionCfg_SetParamIntValue hInsContext ParamName iValue w = do {
     (found, w) \<leftarrow> with_dml_iface hInsContext None
       (\<lambda>k w. do { d \<leftarrow> iface_at k w; Some (Some (sint (If_uiIfaceIdx d)), w) }) w;
     case found of
       None \<Rightarrow> Some (False, w)
     | Some IfIndex \<Rightarrow>
         if ParamName = ''Priority'' then do {
           let (uiTotalIfaces, w) = WanIf_GetEntryCount w;
           ((st, Status), w) \<leftarrow> WanManager_CheckGivenPriorityExists IfIndex uiTotalIfaces iValue w;
           if st = ANSC_STATUS_SUCCESS \<and> \<not> Status
           then write_iface hInsContext (\<lambda>d. Some (True, upd_Selection (\<lambda>s. s\<lparr>Sel_Priority := iValue\<rparr>) d)) w
           else Some (False, w) }
         else Some (False, w) }"

definition WanIfSelectionCfg_GetParamUlongValue ::
  "nat option \<Rightarrow> string \<Rightarrow> uint \<Rightarrow> world \<Rightarrow> ((bool \<times> uint) \<times> world) option" where
  "WanIfSelectionCfg_GetParamUlongValue hInsContext ParamName n = read_iface hInsContext (False, n) (\<lambda>d. Some (
     let s = If_Selection d in
     if ParamName = ''Timeout'' then (True, Sel_Timeout s)
     else if ParamName = ''Status''
     then (True, of_nat (selection_code (
            if Sel_Status s = WAN_IFACE_SELECTED \<or> Sel_Status s = WAN_IFACE_ACTIVE then WAN_IFACE_SELECTED
            else if Sel_Status s = WAN_IFACE_UNKNOWN \<or> Sel_Status s = WAN_IFACE_NOT_SELECTED then WAN_IFACE_NOT_SELECTED
            else WAN_IFACE_VALIDATING)))
     else if ParamName = ''Priority'' then (True, word_of_int (Sel_Priority s))
     else if ParamName = ''Group'' then (True, Sel_Group s)
     else (False, n)))"

text \<open>
  Moving the interface to another group: it is added to the mask of the new group and taken out of that of the old
  one, and both learn that their configuration has changed.  \<open>idx\<close> is the index of the handle's interface.
\<close>

definition join_group :: "uint \<Rightarrow> WANMGR_IFACE_GROUP \<Rightarrow> WANMGR_IFACE_GROUP" where
  "join_group idx g = g
     \<lparr>G_ConfigChanged := True, G_InterfaceAvailable := G_InterfaceAvailable g OR push_bit (unat idx) 1\<rparr>"

definition leave_group :: "uint \<Rightarrow> WANMGR_IFACE_GROUP \<Rightarrow> WANMGR_IFACE_GROUP" where
  "leave_group idx g = g
     \<lparr>G_ConfigChanged := True, G_InterfaceAvailable := G_InterfaceAvailable g AND NOT (push_bit (unat idx) 1)\<rparr>"

definition change_group :: "uint \<Rightarrow> uint \<Rightarrow> nat \<Rightarrow> world \<Rightarrow> (unit \<times> world) option" where
  "change_group idx uValue k w = do {
     d \<leftarrow> iface_at k w;
     if Sel_Group (If_Selection d) \<noteq> uValue then do {
       (_, w) \<leftarrow> with_group (uValue - 1) () (\<lambda>g w. Some ((), upd_group g (join_group idx) w)) w;
       (_, w) \<leftarrow> with_group (Sel_Group (If_Selection d) - 1) () (\<lambda>g w. Some ((), upd_group g (leave_group idx) w)) w;
       Some ((), upd_iface k (upd_Selection (\<lambda>s. s\<lparr>Sel_Group := uValue\<rparr>)) w) }
     else Some ((), w) }"

definition WanIfSelectionCfg_SetParamUlongValue ::
  "nat option \<Rightarrow> string \<Rightarrow> uint \<Rightarrow> world \<Rightarrow> (bool \<times> world) option" where
  "WanIfSelectionCfg_SetParamUlongValue hInsContext ParamName uValue = with_dml_iface hInsContext False (\<lambda>k w.
     if ParamName = ''Timeout''
     then Some (True, upd_iface k (upd_Selection (\<lambda>s. s\<lparr>Sel_Timeout := uValue\<rparr>)) w)
     else if ParamName = ''Group''
     then if uValue > MAX_INTERFACE_GROUP then Some (True, w)
          else do {
            j \<leftarrow> hInsContext;
            x \<leftarrow> iface_at j w;
            (_, w) \<leftarrow> change_group (If_uiIfaceIdx x) uValue k w;
            Some (True, w) }
     else Some (False, w))"

definition WanIfSelectionCfg_GetParamBoolValue ::
  "nat option \<Rightarrow> string \<Rightarrow> bool \<Rightarrow> world \<Rightarrow> ((bool \<times> bool) \<times> world) option" where
  "WanIfSelectionCfg_GetParamBoolValue hInsContext ParamName b = read_iface hInsContext (False, b) (\<lambda>d. Some (
     if ParamName = ''RequiresReboot'' then (True, Sel_RequiresReboot (If_Selection d)) else (False, b)))"

definition WanIfSelectionCfg_SetParamBoolValue ::
  "nat option \<Rightarrow> string \<Rightarrow> bool \<Rightarrow> world \<Rightarrow> (bool \<times> world) option" where
  "WanIfSelectionCfg_SetParamBoolValue hInsContext ParamName bValue = write_iface hInsContext (\<lambda>d. Some (
     if ParamName = ''RequiresReboot'' then (True, upd_Selection (\<lambda>s. s\<lparr>Sel_RequiresReboot := bValue\<rparr>) d)
     else (False, d)))"

definition WanIfSelectionCfg_Commit :: "env \<Rightarrow> nat option \<Rightarrow> world \<Rightarrow> (uint \<times> world) option" where
  "WanIfSelectionCfg_Commit e hInsContext = with_dml_iface hInsContext (-1) (\<lambda>k w. do {
     d \<leftarrow> iface_at k w;
     (result, w) \<leftarrow> DmlSetWanIfCfg e (unat (If_uiInstanceNumber d)) d w;
     Some (if result \<noteq> ANSC_STATUS_SUCCESS then -1 else 0, w) })"

end
