(* ===== verification/WanDmlVirtual.thy ===== *)
theory WanDmlVirtual
  imports WanDml
begin

text \<open>
  The data-model handlers of the virtual interfaces (\<open>VirtualInterface.{i}.\<close> with its \<open>IP.\<close>, \<open>MAP.\<close>,
  \<open>DSLite.\<close>, \<open>PPP.\<close>, \<open>VLAN.{i}.\<close> and \<open>Marking.{i}.\<close>).

  The handle of a virtual interface is the base interface and the position in its list.  These handlers do
  not test it for NULL: they read the two indices through it and look the virtual interface up again.  The build
  has neither MAP-T nor 802.1p marking.
\<close>

subsection \<open>Numbers of enumerators\<close>

primrec ipv4_status_code :: "DML_WAN_IFACE_IPV4_STATUS \<Rightarrow> nat" where
  "ipv4_status_code WAN_IFACE_IPV4_STATE_UP = 1"
| "ipv4_status_code WAN_IFACE_IPV4_STATE_DOWN = 2"
| "ipv4_status_code WAN_IFACE_IPV4_STATE_UNKNOWN = 3"

definition ipv4_status_of_code :: "int \<Rightarrow> DML_WAN_IFACE_IPV4_STATUS option" where
  "ipv4_status_of_code = decode ipv4_status_code
     [WAN_IFACE_IPV4_STATE_UP, WAN_IFACE_IPV4_STATE_DOWN, WAN_IFACE_IPV4_STATE_UNKNOWN]"

primrec ipv6_status_code :: "DML_WAN_IFACE_IPV6_STATUS \<Rightarrow> nat" where
  "ipv6_status_code WAN_IFACE_IPV6_STATE_UP = 1"
| "ipv6_status_code WAN_IFACE_IPV6_STATE_DOWN = 2"
| "ipv6_status_code WAN_IFACE_IPV6_STATE_UNKNOWN = 3"

definition ipv6_status_of_code :: "int \<Rightarrow> DML_WAN_IFACE_IPV6_STATUS option" where
  "ipv6_status_of_code = decode ipv6_status_code
     [WAN_IFACE_IPV6_STATE_UP, WAN_IFACE_IPV6_STATE_DOWN, WAN_IFACE_IPV6_STATE_UNKNOWN]"

primrec mapt_code :: "DML_WAN_IFACE_MAPT_STATUS \<Rightarrow> nat" where
  "mapt_code WAN_IFACE_MAPT_STATE_UP = 1"
| "mapt_code WAN_IFACE_MAPT_STATE_DOWN = 2"

primrec dslite_code :: "DML_WAN_IFACE_DSLITE_STATUS \<Rightarrow> nat" where
  "dslite_code WAN_IFACE_DSLITE_STATE_UP = 1"
| "dslite_code WAN_IFACE_DSLITE_STATE_DOWN = 2"

definition dslite_of_code :: "int \<Rightarrow> DML_WAN_IFACE_DSLITE_STATUS option" where
  "dslite_of_code = decode dslite_code [WAN_IFACE_DSLITE_STATE_UP, WAN_IFACE_DSLITE_STATE_DOWN]"

primrec ipcp_code :: "DML_WAN_IFACE_IPCP_STATUS \<Rightarrow> nat" where
  "ipcp_code WAN_IFACE_IPCP_STATUS_DOWN = 1"
| "ipcp_code WAN_IFACE_IPCP_STATUS_UP = 2"

definition ipcp_of_code :: "int \<Rightarrow> DML_WAN_IFACE_IPCP_STATUS option" where
  "ipcp_of_code = decode ipcp_code [WAN_IFACE_IPCP_STATUS_DOWN, WAN_IFACE_IPCP_STATUS_UP]"

primrec ipv6cp_code :: "DML_WAN_IFACE_IPV6CP_STATUS \<Rightarrow> nat" where
  "ipv6cp_code WAN_IFACE_IPV6CP_STATUS_DOWN = 1"
| "ipv6cp_code WAN_IFACE_IPV6CP_STATUS_UP = 2"

definition ipv6cp_of_code :: "int \<Rightarrow> DML_WAN_IFACE_IPV6CP_STATUS option" where
  "ipv6cp_of_code = decode ipv6cp_code [WAN_IFACE_IPV6CP_STATUS_DOWN, WAN_IFACE_IPV6CP_STATUS_UP]"

primrec ppp_link_code :: "DML_WAN_IFACE_PPP_LINK_STATUS \<Rightarrow> nat" where
  "ppp_link_code WAN_IFACE_PPP_LINK_STATUS_DOWN = 1"
| "ppp_link_code WAN_IFACE_PPP_LINK_STATUS_CONFIGURING = 2"
| "ppp_link_code WAN_IFACE_PPP_LINK_STATUS_UP = 3"

definition ppp_link_of_code :: "int \<Rightarrow> DML_WAN_IFACE_PPP_LINK_STATUS option" where
  "ppp_link_of_code = decode ppp_link_code
     [WAN_IFACE_PPP_LINK_STATUS_DOWN, WAN_IFACE_PPP_LINK_STATUS_CONFIGURING, WAN_IFACE_PPP_LINK_STATUS_UP]"

subsection \<open>The shape of a handler\<close>

type_synonym vhandle = "(nat \<times> nat) option"

definition with_dml_virtif ::
  "vhandle \<Rightarrow> 'r \<Rightarrow> (nat \<times> nat \<Rightarrow> world \<Rightarrow> ('r \<times> world) option) \<Rightarrow> world \<Rightarrow> ('r \<times> world) option" where
  "with_dml_virtif h d body w = do {
     p \<leftarrow> h;
     v \<leftarrow> virtif_at p w;
     (q, w) \<leftarrow> WanMgr_getVirtualIface_locked (VI_baseIfIdx v) (VI_VirIfIdx v) w;
     case q of
       None \<Rightarrow> Some (d, w)
     | Some q \<Rightarrow> do { (r, w) \<leftarrow> body q w; Some (r, WanMgr_VirtualIfaceData_release w) } }"

definition read_virtif :: "vhandle \<Rightarrow> 'r \<Rightarrow> (DML_VIRTUAL_IFACE \<Rightarrow> 'r) \<Rightarrow> world \<Rightarrow> ('r \<times> world) option" where
  "read_virtif h d get = with_dml_virtif h d (\<lambda>p w. do { v \<leftarrow> virtif_at p w; Some (get v, w) })"

definition write_virtif ::
  "vhandle \<Rightarrow> (DML_VIRTUAL_IFACE \<Rightarrow> (bool \<times> DML_VIRTUAL_IFACE) option) \<Rightarrow> world \<Rightarrow> (bool \<times> world) option" where
  "write_virtif h put = with_dml_virtif h False (\<lambda>p w. do {
     v \<leftarrow> virtif_at p w;
     (ret, u) \<leftarrow> put v;
     Some (ret, upd_virtif p (\<lambda>_. u) w) })"

text \<open>The commit of the records of the virtual interface, which three of the tables share.\<close>

definition commit_virtif :: "env \<Rightarrow> vhandle \<Rightarrow> world \<Rightarrow> (uint \<times> world) option" where
  "commit_virtif e h = with_dml_virtif h (-1) (\<lambda>p w. do {
     v \<leftarrow> virtif_at p w;
     Some (0, write_Virtual_Interface_ToPSM e (unat (VI_baseIfIdx v + 1)) (unat (VI_VirIfIdx v)) v w) })"

subsection \<open>The virtual interface\<close>

definition WanVirtualIf_GetEntryCount :: "nat option \<Rightarrow> world \<Rightarrow> (uint \<times> world) option" where
  "WanVirtualIf_GetEntryCount hInsContext = read_iface hInsContext 0 (\<lambda>d. Some (If_NoOfVirtIfs d))"

text \<open>The mutex is released whether or not the lookup left it locked.\<close>

definition WanVirtualIf_GetEntry :: "nat option \<Rightarrow> uint \<Rightarrow> uint \<Rightarrow> world \<Rightarrow> ((vhandle \<times> uint) \<times> world) option" where
  "WanVirtualIf_GetEntry hInsContext nIndex insNumber w =
     (case hInsContext of
        None \<Rightarrow> Some ((None, insNumber), w)
      | Some j \<Rightarrow> do {
          x \<leftarrow> iface_at j w;
          (q, w) \<leftarrow> WanMgr_getVirtualIface_locked (If_uiIfaceIdx x) nIndex w;
          Some ((q, nIndex + 1), WanMgr_VirtualIfaceData_release w) })"

definition WanVirtualIf_GetParamBoolValue :: "vhandle \<Rightarrow> string \<Rightarrow> bool \<Rightarrow> world \<Rightarrow> ((bool \<times> bool) \<times> world) option" where
  "WanVirtualIf_GetParamBoolValue hInsContext ParamName b = read_virtif hInsContext (False, b) (\<lambda>v.
     if ParamName = ''Enable'' then (True, VI_Enable v)
     else if ParamName = ''EnableDSLite'' then (True, VI_EnableDSLite v)
     else if ParamName = ''EnableIPoEHealthCheck''
     then (True, IP_ConnectivityCheckType (VI_IP v) = WAN_CONNECTIVITY_TYPE_IHC)
     else if ParamName = ''EnableMAPT'' then (True, VI_EnableMAPT v)
     else if ParamName = ''Reset'' then (True, VLAN_Reset (VI_VLAN v))
     else (False, b))"

text \<open>The branches of \<open>WanVirtualIf_SetParamBoolValue\<close> that do more than set a field.\<close>

definition set_virtif_Enable :: "bool \<Rightarrow> nat \<times> nat \<Rightarrow> world \<Rightarrow> (bool \<times> world) option" where
  "set_virtif_Enable bValue p w = do {
     v \<leftarrow> virtif_at p w;
     if VI_Enable v \<noteq> bValue then do {
       (_, w) \<leftarrow> with_iface (VI_baseIfIdx v) () (\<lambda>k w. Some ((), upd_iface k (\<lambda>d. d\<lparr>If_VirtIfChanged := True\<rparr>) w)) w;
       Some (True, upd_virtif p (\<lambda>v. v\<lparr>VI_Enable := bValue\<rparr>) w) }
     else Some (True, w) }"

definition set_IPoE_check :: "env \<Rightarrow> bool \<Rightarrow> nat \<times> nat \<Rightarrow> world \<Rightarrow> (bool \<times> world) option" where
  "set_IPoE_check e bValue p w = do {
     v \<leftarrow> virtif_at p w;
     let type = (if bValue then WAN_CONNECTIVITY_TYPE_IHC else WAN_CONNECTIVITY_TYPE_NO_CHECK);
     let old = IP_ConnectivityCheckType (VI_IP v);
     if type \<noteq> old \<and> (type \<noteq> WAN_CONNECTIVITY_TYPE_NO_CHECK \<or> old = WAN_CONNECTIVITY_TYPE_IHC)
     then Some (True, upd_virtif p (\<lambda>v. v\<lparr>VI_IP := (VI_IP v)
            \<lparr>IP_WCC_TypeChanged := True, IP_ConnectivityCheckType := type\<rparr>\<rparr>)
            (snd (WanMgr_SetConnectivityCheckTypeToPSM e v type w)))
     else Some (False, w) }"

definition WanVirtualIf_SetParamBoolValue :: "env \<Rightarrow> vhandle \<Rightarrow> string \<Rightarrow> bool \<Rightarrow> world \<Rightarrow> (bool \<times> world) option" where
  "WanVirtualIf_SetParamBoolValue e hInsContext ParamName bValue = with_dml_virtif hInsContext False (\<lambda>p w.
     if ParamName = ''Enable'' then set_virtif_Enable bValue p w
     else if ParamName = ''EnableDSLite'' then Some (True, upd_virtif p (\<lambda>v. v\<lparr>VI_EnableDSLite := bValue\<rparr>) w)
     else if ParamName = ''EnableIPoEHealthCheck'' then set_IPoE_check e bValue p w
     else if ParamName = ''EnableMAPT'' then Some (True, upd_virtif p (\<lambda>v. v\<lparr>VI_EnableMAPT := bValue\<rparr>) w)
     else if ParamName = ''Reset''
     then Some (True, upd_virtif p (\<lambda>v. v\<lparr>VI_VLAN := (VI_VLAN v)\<lparr>VLAN_Reset := bValue\<rparr>\<rparr>) w)
     else Some (False, w))"

text \<open>The alias is reported as read even when the buffer was too small for it.\<close>

definition WanVirtualIf_GetParamStringValue ::
  "vhandle \<Rightarrow> string \<Rightarrow> string \<times> uint \<Rightarrow> world \<Rightarrow> ((uint \<times> string \<times> uint) \<times> world) option" where
  "WanVirtualIf_GetParamStringValue hInsContext ParamName buf = read_virtif hInsContext (-1, buf) (\<lambda>v.
     if ParamName = ''Name'' then copy_out 64 (VI_Name v) buf
     else if ParamName = ''Alias'' then (0, snd (copy_out 64 (VI_Alias v) buf))
     else (-1, buf))"

definition WanVirtualIf_SetParamStringValue :: "vhandle \<Rightarrow> string \<Rightarrow> string \<Rightarrow> world \<Rightarrow> (bool \<times> world) option" where
  "WanVirtualIf_SetParamStringValue hInsContext ParamName pString = write_virtif hInsContext (\<lambda>v.
     if ParamName = ''Alias'' then do { s \<leftarrow> copy_in 64 pString; Some (True, v\<lparr>VI_Alias := s\<rparr>) }
     else if ParamName = ''Name'' then do { s \<leftarrow> copy_in 64 pString; Some (True, v\<lparr>VI_Name := s\<rparr>) }
     else Some (False, v))"

definition WanVirtualIf_GetParamUlongValue :: "vhandle \<Rightarrow> string \<Rightarrow> uint \<Rightarrow> world \<Rightarrow> ((bool \<times> uint) \<times> world) option" where
  "WanVirtualIf_GetParamUlongValue hInsContext ParamName n = read_virtif hInsContext (False, n) (\<lambda>v.
     if ParamName = ''Timeout'' then (True, VLAN_Timeout (VI_VLAN v)) else (False, n))"

definition WanVirtualIf_SetParamUlongValue :: "vhandle \<Rightarrow> string \<Rightarrow> uint \<Rightarrow> world \<Rightarrow> (bool \<times> world) option" where
  "WanVirtualIf_SetParamUlongValue hInsContext ParamName uValue = write_virtif hInsContext (\<lambda>v. Some (
     if ParamName = ''Timeout'' then (True, v\<lparr>VI_VLAN := (VI_VLAN v)\<lparr>VLAN_Timeout := uValue\<rparr>\<rparr>) else (False, v)))"

definition WanVirtualIf_Commit :: "env \<Rightarrow> vhandle \<Rightarrow> world \<Rightarrow> (uint \<times> world) option" where
  "WanVirtualIf_Commit = commit_virtif"

subsection \<open>Its IP configuration\<close>

definition WanIfIpCfg_GetParamUlongValue :: "vhandle \<Rightarrow> string \<Rightarrow> uint \<Rightarrow> world \<Rightarrow> ((bool \<times> uint) \<times> world) option" where
  "WanIfIpCfg_GetParamUlongValue hInsContext ParamName n = read_virtif hInsContext (False, n) (\<lambda>v.
     let ip = VI_IP v in
     if ParamName = ''IPv4Status'' then (True, of_nat (ipv4_status_code (IP_Ipv4Status ip)))
     else if ParamName = ''IPv6Status'' then (True, of_nat (ipv6_status_code (IP_Ipv6Status ip)))
     else if ParamName = ''Mode'' then (True, of_nat (ip_mode_code (IP_Mode ip)))
     else if ParamName = ''IPv4Source'' then (True, of_nat (ip_source_code (IP_IPv4Source ip)))
     else if ParamName = ''IPv6Source'' then (True, of_nat (ip_source_code (IP_IPv6Source ip)))
     else if ParamName = ''PreferredMode'' then (True, of_nat (preferred_mode_code (IP_PreferredMode ip)))
     else (False, n))"

text \<open>A change of the mode or of a source asks for a refresh of the DHCP clients.\<close>

definition set_ip_param :: "string \<Rightarrow> uint \<Rightarrow> DML_WANIFACE_IP \<Rightarrow> (bool \<times> DML_WANIFACE_IP) option" where
  "set_ip_param ParamName uValue ip =
     (if ParamName = ''IPv4Status''
      then do { s \<leftarrow> enum_arg ipv4_status_of_code uValue; Some (True, ip\<lparr>IP_Ipv4Status := s\<rparr>) }
      else if ParamName = ''IPv6Status''
      then do { s \<leftarrow> enum_arg ipv6_status_of_code uValue; Some (True, ip\<lparr>IP_Ipv6Status := s\<rparr>) }
      else if ParamName = ''Mode''
      then do {
        m \<leftarrow> enum_arg ip_mode_of_code uValue;
        Some (True, if IP_Mode ip \<noteq> m then ip\<lparr>IP_Mode := m, IP_RefreshDHCP := True, IP_ModeForceEnable := True\<rparr> else ip) }
      else if ParamName = ''IPv4Source''
      then do {
        s \<leftarrow> enum_arg ip_source_of_code uValue;
        Some (True, if IP_IPv4Source ip \<noteq> s then ip\<lparr>IP_IPv4Source := s, IP_RefreshDHCP := True\<rparr> else ip) }
      else if ParamName = ''IPv6Source''
      then do {
        s \<leftarrow> enum_arg ip_source_of_code uValue;
        Some (True, if IP_IPv6Source ip \<noteq> s then ip\<lparr>IP_IPv6Source := s, IP_RefreshDHCP := True\<rparr> else ip) }
      else if ParamName = ''PreferredMode''
      then do {
        m \<leftarrow> enum_arg preferred_mode_of_code uValue;
        Some (True, if IP_PreferredMode ip \<noteq> m then ip\<lparr>IP_PreferredMode := m\<rparr> else ip) }
      else Some (False, ip))"

definition WanIfIpCfg_SetParamUlongValue :: "vhandle \<Rightarrow> string \<Rightarrow> uint \<Rightarrow> world \<Rightarrow> (bool \<times> world) option" where
  "WanIfIpCfg_SetParamUlongValue hInsContext ParamName uValue = write_virtif hInsContext (\<lambda>v. do {
     (ret, ip) \<leftarrow> set_ip_param ParamName uValue (VI_IP v);
     Some (ret, v\<lparr>VI_IP := ip\<rparr>) })"

definition WanIfIpCfg_GetParamStringValue ::
  "vhandle \<Rightarrow> string \<Rightarrow> string \<times> uint \<Rightarrow> world \<Rightarrow> ((uint \<times> string \<times> uint) \<times> world) option" where
  "WanIfIpCfg_GetParamStringValue hInsContext ParamName buf = read_virtif hInsContext (-1, buf) (\<lambda>v.
     if ParamName = ''Interface'' then copy_out 64 (IP_Interface (VI_IP v)) buf
     else if ParamName = ''DHCPv4Interface'' then copy_out 128 (IP_DHCPv4Iface (VI_IP v)) buf
     else if ParamName = ''DHCPv6Interface'' then copy_out 128 (IP_DHCPv6Iface (VI_IP v)) buf
     else (-1, buf))"

definition WanIfIpCfg_SetParamStringValue :: "vhandle \<Rightarrow> string \<Rightarrow> string \<Rightarrow> world \<Rightarrow> (bool \<times> world) option" where
  "WanIfIpCfg_SetParamStringValue hInsContext ParamName pString = write_virtif hInsContext (\<lambda>v.
     if ParamName = ''Interface''
     then do { s \<leftarrow> copy_in 64 pString; Some (True, v\<lparr>VI_IP := (VI_IP v)\<lparr>IP_Interface := s\<rparr>\<rparr>) }
     else if ParamName = ''DHCPv4Interface''
     then do { s \<leftarrow> copy_in 128 pString; Some (True, v\<lparr>VI_IP := (VI_IP v)\<lparr>IP_DHCPv4Iface := s\<rparr>\<rparr>) }
     else if ParamName = ''DHCPv6Interface''
     then do { s \<leftarrow> copy_in 128 pString; Some (True, v\<lparr>VI_IP := (VI_IP v)\<lparr>IP_DHCPv6Iface := s\<rparr>\<rparr>) }
     else Some (False, v))"

definition WanIfIpCfg_Commit :: "env \<Rightarrow> vhandle \<Rightarrow> world \<Rightarrow> (uint \<times> world) option" where
  "WanIfIpCfg_Commit = commit_virtif"

subsection \<open>MAP-T and DS-Lite\<close>

definition WanIfMapt_GetParamUlongValue :: "vhandle \<Rightarrow> string \<Rightarrow> uint \<Rightarrow> world \<Rightarrow> ((bool \<times> uint) \<times> world) option" where
  "WanIfMapt_GetParamUlongValue hInsContext ParamName n = read_virtif hInsContext (False, n) (\<lambda>v.
     if ParamName = ''MAPTStatus'' then (True, of_nat (mapt_code (MAP_MaptStatus (VI_MAP v)))) else (False, n))"

text \<open>Without MAP-T the setters only look the virtual interface up.\<close>

definition WanIfMapt_SetParamUlongValue :: "vhandle \<Rightarrow> string \<Rightarrow> uint \<Rightarrow> world \<Rightarrow> (bool \<times> world) option" where
  "WanIfMapt_SetParamUlongValue hInsContext ParamName uValue = with_dml_virtif hInsContext False (\<lambda>p w. Some (False, w))"

definition WanIfMapt_GetParamStringValue ::
  "vhandle \<Rightarrow> string \<Rightarrow> string \<times> uint \<Rightarrow> world \<Rightarrow> ((uint \<times> string \<times> uint) \<times> world) option" where
  "WanIfMapt_GetParamStringValue hInsContext ParamName buf = read_virtif hInsContext (-1, buf) (\<lambda>v.
     if ParamName = ''Path'' then copy_out 64 (MAP_Path (VI_MAP v)) buf else (-1, buf))"

definition WanIfMapt_SetParamStringValue :: "vhandle \<Rightarrow> string \<Rightarrow> string \<Rightarrow> world \<Rightarrow> (bool \<times> world) option" where
  "WanIfMapt_SetParamStringValue hInsContext ParamName pString = with_dml_virtif hInsContext False (\<lambda>p w. Some (False, w))"

definition WanIfDSLite_GetParamUlongValue :: "vhandle \<Rightarrow> string \<Rightarrow> uint \<Rightarrow> world \<Rightarrow> ((bool \<times> uint) \<times> world) option" where
  "WanIfDSLite_GetParamUlongValue hInsContext ParamName n = read_virtif hInsContext (False, n) (\<lambda>v.
     if ParamName = ''Status'' then (True, of_nat (dslite_code (DSL_Status (VI_DSLite v)))) else (False, n))"

definition WanIfDSLite_SetParamUlongValue :: "vhandle \<Rightarrow> string \<Rightarrow> uint \<Rightarrow> world \<Rightarrow> (bool \<times> world) option" where
  "WanIfDSLite_SetParamUlongValue hInsContext ParamName uValue = write_virtif hInsContext (\<lambda>v.
     if ParamName = ''Status''
     then do { s \<leftarrow> enum_arg dslite_of_code uValue; Some (True, v\<lparr>VI_DSLite := (VI_DSLite v)\<lparr>DSL_Status := s\<rparr>\<rparr>) }
     else Some (False, v))"

definition WanIfDSLite_GetParamStringValue ::
  "vhandle \<Rightarrow> string \<Rightarrow> string \<times> uint \<Rightarrow> world \<Rightarrow> ((uint \<times> string \<times> uint) \<times> world) option" where
  "WanIfDSLite_GetParamStringValue hInsContext ParamName buf = read_virtif hInsContext (-1, buf) (\<lambda>v.
     if ParamName = ''Path'' then copy_out 64 (DSL_Path (VI_DSLite v)) buf else (-1, buf))"

definition WanIfDSLite_SetParamStringValue :: "vhandle \<Rightarrow> string \<Rightarrow> string \<Rightarrow> world \<Rightarrow> (bool \<times> world) option" where
  "WanIfDSLite_SetParamStringValue hInsContext ParamName pString = write_virtif hInsContext (\<lambda>v.
     if ParamName = ''Path''
     then do { s \<leftarrow> copy_in 64 pString; Some (True, v\<lparr>VI_DSLite := (VI_DSLite v)\<lparr>DSL_Path := s\<rparr>\<rparr>) }
     else Some (False, v))"

subsection \<open>PPP\<close>

definition WanIfPPPCfg_GetParamUlongValue :: "vhandle \<Rightarrow> string \<Rightarrow> uint \<Rightarrow> world \<Rightarrow> ((bool \<times> uint) \<times> world) option" where
  "WanIfPPPCfg_GetParamUlongValue hInsContext ParamName n = read_virtif hInsContext (False, n) (\<lambda>v.
     let ppp = VI_PPP v in
     if ParamName = ''IPCPStatus'' then (True, of_nat (ipcp_code (PPP_IPCPStatus ppp)))
     else if ParamName = ''IPv6CPStatus'' then (True, of_nat (ipv6cp_code (PPP_IPV6CPStatus ppp)))
     else if ParamName = ''Status'' then (True, of_nat (ppp_link_code (PPP_LinkStatus ppp)))
     else (False, n))"

definition set_ppp_param :: "string \<Rightarrow> uint \<Rightarrow> DATAMODEL_PPP \<Rightarrow> (bool \<times> DATAMODEL_PPP) option" where
  "set_ppp_param ParamName uValue ppp =
     (if ParamName = ''IPCPStatus''
      then do { s \<leftarrow> enum_arg ipcp_of_code uValue; Some (True, ppp\<lparr>PPP_IPCPStatus := s, PPP_IPCPStatusChanged := True\<rparr>) }
      else if ParamName = ''IPv6CPStatus''
      then do { s \<leftarrow> enum_arg ipv6cp_of_code uValue; Some (True, ppp\<lparr>PPP_IPV6CPStatus := s, PPP_IPV6CPStatusChanged := True\<rparr>) }
      else if ParamName = ''Status''
      then do { s \<leftarrow> enum_arg ppp_link_of_code uValue; Some (True, ppp\<lparr>PPP_LinkStatus := s\<rparr>) }
      else Some (False, ppp))"

definition WanIfPPPCfg_SetParamUlongValue :: "vhandle \<Rightarrow> string \<Rightarrow> uint \<Rightarrow> world \<Rightarrow> (bool \<times> world) option" where
  "WanIfPPPCfg_SetParamUlongValue hInsContext ParamName uValue = write_virtif hInsContext (\<lambda>v. do {
     (ret, ppp) \<leftarrow> set_ppp_param ParamName uValue (VI_PPP v);
     Some (ret, v\<lparr>VI_PPP := ppp\<rparr>) })"

definition WanIfPPPCfg_GetParamStringValue ::
  "vhandle \<Rightarrow> string \<Rightarrow> string \<times> uint \<Rightarrow> world \<Rightarrow> ((uint \<times> string \<times> uint) \<times> world) option" where
  "WanIfPPPCfg_GetParamStringValue hInsContext ParamName buf = read_virtif hInsContext (-1, buf) (\<lambda>v.
     if ParamName = ''Interface'' then copy_out 64 (PPP_Interface (VI_PPP v)) buf else (-1, buf))"

definition WanIfPPPCfg_SetParamStringValue :: "vhandle \<Rightarrow> string \<Rightarrow> string \<Rightarrow> world \<Rightarrow> (bool \<times> world) option" where
  "WanIfPPPCfg_SetParamStringValue hInsContext ParamName pString = write_virtif hInsContext (\<lambda>v.
     if ParamName = ''Interface''
     then do { s \<leftarrow> copy_in 64 pString; Some (True, v\<lparr>VI_PPP := (VI_PPP v)\<lparr>PPP_Interface := s\<rparr>\<rparr>) }
     else Some (False, v))"

definition WanIfPPPCfg_Commit :: "env \<Rightarrow> vhandle \<Rightarrow> world \<Rightarrow> (uint \<times> world) option" where
  "WanIfPPPCfg_Commit = commit_virtif"

subsection \<open>The lists of VLANs and markings\<close>

text \<open>
  A pointer to an entry is its virtual interface and its place in the list.  The accessors dereference the virtual
  interface they look up, and return with the mutex held when the entry does not exist.
\<close>

definition list_entry_locked ::
  "(DML_VIRTUAL_IFACE \<Rightarrow> nat option) \<Rightarrow> uint \<Rightarrow> uint \<Rightarrow> world \<Rightarrow> (((nat \<times> nat) \<times> nat) option \<times> world) option" where
  "list_entry_locked place baseIfidx virtIfIdx w =
     (case pthread_mutex_lock w of
        (True, w1) \<Rightarrow>
          if baseIfidx < total_ifaces w1 \<and> pIface w1 \<noteq> None
          then do {
            i \<leftarrow> iface_at (unat baseIfidx) w1;
            j \<leftarrow> virtif_position (If_VirtIfList i) virtIfIdx;
            v \<leftarrow> nth_opt (If_VirtIfList i) j;
            Some (map_option (Pair (unat baseIfidx, j)) (place v), w1)
          }
          else Some (None, WanMgrDml_GetIfaceData_release w1)
      | (False, w1) \<Rightarrow> Some (None, w1))"

definition WanMgr_getVlanIface_locked ::
  "uint \<Rightarrow> uint \<Rightarrow> uint \<Rightarrow> world \<Rightarrow> (((nat \<times> nat) \<times> nat) option \<times> world) option" where
  "WanMgr_getVlanIface_locked baseIfidx virtIfIdx vlanid = list_entry_locked
     (\<lambda>v. position (\<lambda>t. VT_Index t = unat vlanid) (VLAN_InterfaceList (VI_VLAN v))) baseIfidx virtIfIdx"

definition WanMgr_getVirtualMarking_locked ::
  "uint \<Rightarrow> uint \<Rightarrow> uint \<Rightarrow> world \<Rightarrow> (((nat \<times> nat) \<times> nat) option \<times> world) option" where
  "WanMgr_getVirtualMarking_locked baseIfidx virtIfIdx Markingid = list_entry_locked
     (\<lambda>v. position (\<lambda>m. VM_VirtMarkingInstanceNumber m = unat Markingid) (VLAN_VirtMarking (VI_VLAN v)))
     baseIfidx virtIfIdx"

definition WanMgr_VlanIfaceMutex_release :: "world \<Rightarrow> world" where
  "WanMgr_VlanIfaceMutex_release = pthread_mutex_unlock"

definition WanMgr_VirtMarkingMutex_release :: "world \<Rightarrow> world" where
  "WanMgr_VirtMarkingMutex_release = pthread_mutex_unlock"

definition vlan_at :: "(nat \<times> nat) \<times> nat \<Rightarrow> world \<Rightarrow> DML_VLAN_IFACE_TABLE option" where
  "vlan_at p w = Option.bind (virtif_at (fst p) w) (\<lambda>v. nth_opt (VLAN_InterfaceList (VI_VLAN v)) (snd p))"

definition marking_at :: "(nat \<times> nat) \<times> nat \<Rightarrow> world \<Rightarrow> DML_VIRTIF_MARKING option" where
  "marking_at p w = Option.bind (virtif_at (fst p) w) (\<lambda>v. nth_opt (VLAN_VirtMarking (VI_VLAN v)) (snd p))"

type_synonym lhandle = "((nat \<times> nat) \<times> nat) option"

definition with_dml_vlan ::
  "lhandle \<Rightarrow> 'r \<Rightarrow> ((nat \<times> nat) \<times> nat \<Rightarrow> world \<Rightarrow> ('r \<times> world) option) \<Rightarrow> world \<Rightarrow> ('r \<times> world) option" where
  "with_dml_vlan h d body w = do {
     p \<leftarrow> h;
     t \<leftarrow> vlan_at p w;
     (q, w) \<leftarrow> WanMgr_getVlanIface_locked (VT_baseIfIdx t) (VT_VirIfIdx t) (of_nat (VT_Index t)) w;
     case q of
       None \<Rightarrow> Some (d, w)
     | Some q \<Rightarrow> do { (r, w) \<leftarrow> body q w; Some (r, WanMgr_VlanIfaceMutex_release w) } }"

definition with_dml_marking ::
  "lhandle \<Rightarrow> 'r \<Rightarrow> ((nat \<times> nat) \<times> nat \<Rightarrow> world \<Rightarrow> ('r \<times> world) option) \<Rightarrow> world \<Rightarrow> ('r \<times> world) option" where
  "with_dml_marking h d body w = do {
     p \<leftarrow> h;
     m \<leftarrow> marking_at p w;
     (q, w) \<leftarrow> WanMgr_getVirtualMarking_locked (VM_baseIfIdx m) (VM_VirIfIdx m)
       (of_nat (VM_VirtMarkingInstanceNumber m)) w;
     case q of
       None \<Rightarrow> Some (d, w)
     | Some q \<Rightarrow> do { (r, w) \<leftarrow> body q w; Some (r, WanMgr_VirtMarkingMutex_release w) } }"

definition upd_vlan :: "(nat \<times> nat) \<times> nat \<Rightarrow> (DML_VLAN_IFACE_TABLE \<Rightarrow> DML_VLAN_IFACE_TABLE) \<Rightarrow> world \<Rightarrow> world" where
  "upd_vlan p f = upd_virtif (fst p) (\<lambda>v. v\<lparr>VI_VLAN := (VI_VLAN v)
     \<lparr>VLAN_InterfaceList := map_nth (snd p) f (VLAN_InterfaceList (VI_VLAN v))\<rparr>\<rparr>)"

definition upd_marking :: "(nat \<times> nat) \<times> nat \<Rightarrow> (DML_VIRTIF_MARKING \<Rightarrow> DML_VIRTIF_MARKING) \<Rightarrow> world \<Rightarrow> world" where
  "upd_marking p f = upd_virtif (fst p) (\<lambda>v. v\<lparr>VI_VLAN := (VI_VLAN v)
     \<lparr>VLAN_VirtMarking := map_nth (snd p) f (VLAN_VirtMarking (VI_VLAN v))\<rparr>\<rparr>)"

definition WanIfVlanCfg_GetEntryCount :: "vhandle \<Rightarrow> world \<Rightarrow> (uint \<times> world) option" where
  "WanIfVlanCfg_GetEntryCount hInsContext = read_virtif hInsContext 0 (\<lambda>v. VLAN_NoOfInterfaceEntries (VI_VLAN v))"

text \<open>An entry of a list for the data-model library, and its instance number.\<close>

definition list_get_entry ::
  "(uint \<Rightarrow> uint \<Rightarrow> uint \<Rightarrow> world \<Rightarrow> (lhandle \<times> world) option) \<Rightarrow> (world \<Rightarrow> world) \<Rightarrow>
     vhandle \<Rightarrow> uint \<Rightarrow> uint \<Rightarrow> world \<Rightarrow> ((lhandle \<times> uint) \<times> world) option" where
  "list_get_entry lookup release h nIndex insNumber w = do {
     p \<leftarrow> h;
     v \<leftarrow> virtif_at p w;
     (q, w) \<leftarrow> lookup (VI_baseIfIdx v) (VI_VirIfIdx v) nIndex w;
     Some (if q \<noteq> None then ((q, nIndex + 1), release w) else ((None, insNumber), w)) }"

definition WanIfVlanCfg_GetEntry :: "vhandle \<Rightarrow> uint \<Rightarrow> uint \<Rightarrow> world \<Rightarrow> ((lhandle \<times> uint) \<times> world) option" where
  "WanIfVlanCfg_GetEntry = list_get_entry WanMgr_getVlanIface_locked WanMgr_VlanIfaceMutex_release"

text \<open>The name is copied whatever the size of the buffer.\<close>

definition WanIfVlanCfg_GetParamStringValue ::
  "lhandle \<Rightarrow> string \<Rightarrow> string \<times> uint \<Rightarrow> world \<Rightarrow> ((uint \<times> string \<times> uint) \<times> world) option" where
  "WanIfVlanCfg_GetParamStringValue hInsContext ParamName buf = with_dml_vlan hInsContext (-1, buf) (\<lambda>p w. do {
     t \<leftarrow> vlan_at p w;
     if ParamName = ''Interface''
     then do { s \<leftarrow> copy_in (unat (snd buf)) (VT_Interface t); Some ((0, s, snd buf), w) }
     else Some ((-1, buf), w) })"

definition WanIfVlanCfg_SetParamStringValue :: "lhandle \<Rightarrow> string \<Rightarrow> string \<Rightarrow> world \<Rightarrow> (bool \<times> world) option" where
  "WanIfVlanCfg_SetParamStringValue hInsContext ParamName pString = with_dml_vlan hInsContext False (\<lambda>p w.
     if ParamName = ''Interface''
     then do { s \<leftarrow> copy_in 128 pString; Some (True, upd_vlan p (\<lambda>t. t\<lparr>VT_Interface := s\<rparr>) w) }
     else Some (False, w))"

definition WanIfVlanCfg_Commit :: "env \<Rightarrow> lhandle \<Rightarrow> world \<Rightarrow> (uint \<times> world) option" where
  "WanIfVlanCfg_Commit e hInsContext = with_dml_vlan hInsContext (-1) (\<lambda>p w. do {
     t \<leftarrow> vlan_at p w;
     Some (0, write_VlanInterface_ParametersToPSM e t w) })"

definition WanIfVlanMarking_GetEntryCount :: "vhandle \<Rightarrow> world \<Rightarrow> (uint \<times> world) option" where
  "WanIfVlanMarking_GetEntryCount hInsContext = read_virtif hInsContext 0 (\<lambda>v. VLAN_NoOfMarkingEntries (VI_VLAN v))"

definition WanIfVlanMarking_GetEntry :: "vhandle \<Rightarrow> uint \<Rightarrow> uint \<Rightarrow> world \<Rightarrow> ((lhandle \<times> uint) \<times> world) option" where
  "WanIfVlanMarking_GetEntry = list_get_entry WanMgr_getVirtualMarking_locked WanMgr_VirtMarkingMutex_release"

definition WanIfVlanMarking_GetParamIntValue :: "lhandle \<Rightarrow> string \<Rightarrow> int \<Rightarrow> world \<Rightarrow> ((bool \<times> int) \<times> world) option" where
  "WanIfVlanMarking_GetParamIntValue hInsContext ParamName n = with_dml_marking hInsContext (False, n) (\<lambda>p w. do {
     m \<leftarrow> marking_at p w;
     Some (if ParamName = ''Entry'' then (True, sint (VM_Entry m)) else (False, n), w) })"

definition WanIfVlanMarking_SetParamIntValue :: "lhandle \<Rightarrow> string \<Rightarrow> int \<Rightarrow> world \<Rightarrow> (bool \<times> world) option" where
  "WanIfVlanMarking_SetParamIntValue hInsContext ParamName iValue = with_dml_marking hInsContext False (\<lambda>p w. Some (
     if ParamName = ''Entry'' then (True, upd_marking p (\<lambda>m. m\<lparr>VM_Entry := word_of_int iValue\<rparr>) w) else (False, w)))"

definition WanIfVlanMarking_Commit :: "env \<Rightarrow> lhandle \<Rightarrow> world \<Rightarrow> (uint \<times> world) option" where
  "WanIfVlanMarking_Commit e hInsContext = with_dml_marking hInsContext 0 (\<lambda>p w. do {
     m \<leftarrow> marking_at p w;
     Some (0, write_VirtMarking_ParametersToPSM e m w) })"

end
