(* ===== verification/WanDmlTop.thy ===== *)
theory WanDmlTop
  imports WanDmlVirtual
begin

text \<open>
  The data-model handlers of the manager itself and of its groups (\<open>wanmgr_dml_apis.c\<close>, objects
  \<open>X_RDK_WanManager.\<close>, \<open>X_RDK_WanManager.Group.{i}.\<close>, \<open>X_RDK_DNSConnectivityCheck.\<close>).  The parameters
  that carry web configuration (\<open>Data\<close>, \<open>WanFailoverData\<close>) are not modelled.  The build supports fail-over.
\<close>

subsection \<open>The manager\<close>

definition WanManager_GetParamUlongValue :: "string \<Rightarrow> uint \<Rightarrow> world \<Rightarrow> ((bool \<times> uint) \<times> world) option" where
  "WanManager_GetParamUlongValue ParamName n w =
     (case WanMgr_GetConfigData_locked w of
        (False, w) \<Rightarrow> Some ((False, n), w)
      | (True, w) \<Rightarrow> do {
          (r, w) \<leftarrow>
            (if ParamName = ''Policy''
             then with_group 0 (True, n) (\<lambda>g w. do { G \<leftarrow> group_at g w; Some ((True, word_of_int (G_Policy G)), w) }) w
             else Some (if ParamName = ''RestorationDelay'' then (True, Cfg_RestorationDelay (config w)) else (False, n), w));
          Some (r, WanMgrDml_GetConfigData_release w) })"

text \<open>The policy of a group, stored first; the group is told only when it is a different one.\<close>

definition put_policy :: "uint \<Rightarrow> WANMGR_IFACE_GROUP \<Rightarrow> WANMGR_IFACE_GROUP" where
  "put_policy uValue G =
     (if G_Policy G \<noteq> int (unat uValue) then G\<lparr>G_Policy := int (unat uValue), G_ConfigChanged := True\<rparr> else G)"

text \<open>Without the configurable WAN interface, the parallel scan is refused.\<close>

definition set_policy :: "build \<Rightarrow> env \<Rightarrow> uint \<Rightarrow> world \<Rightarrow> (bool \<times> world) option" where
  "set_policy b e uValue w =
     (if \<not> CONFIGURABLE_WAN_INTERFACE b \<and> int (unat uValue) = PARALLEL_SCAN then Some (False, w)
      else case WanMgr_RdkBus_setWanPolicy e (sint uValue) 0 w of
        (ANSC_STATUS_FAILURE, w) \<Rightarrow> Some (False, w)
      | (ANSC_STATUS_SUCCESS, w) \<Rightarrow> do {
          (_, w) \<leftarrow> with_group 0 () (\<lambda>g w. Some ((), upd_group g (put_policy uValue) w)) w;
          Some (True, w) })"

definition WanManager_SetParamUlongValue :: "build \<Rightarrow> env \<Rightarrow> string \<Rightarrow> uint \<Rightarrow> world \<Rightarrow> (bool \<times> world) option" where
  "WanManager_SetParamUlongValue b e ParamName uValue w =
     (case WanMgr_GetConfigData_locked w of
        (False, w) \<Rightarrow> Some (False, w)
      | (True, w) \<Rightarrow> do {
          (r, w) \<leftarrow>
            (if ParamName = ''Policy'' then set_policy b e uValue w
             else if ParamName = ''RestorationDelay''
             then (case WanMgr_RdkBus_setRestorationDelay e uValue w of
                     (ANSC_STATUS_SUCCESS, w) \<Rightarrow> Some (True, upd_config (\<lambda>c. c\<lparr>Cfg_RestorationDelay := uValue\<rparr>) w)
                   | (ANSC_STATUS_FAILURE, w) \<Rightarrow> Some (False, w))
             else Some (False, w));
          Some (r, WanMgrDml_GetConfigData_release w) })"

definition WanManager_GetParamBoolValue :: "string \<Rightarrow> bool \<Rightarrow> world \<Rightarrow> ((bool \<times> bool) \<times> world) option" where
  "WanManager_GetParamBoolValue ParamName b w =
     (case WanMgr_GetConfigData_locked w of
        (False, w) \<Rightarrow> Some ((False, b), w)
      | (True, w) \<Rightarrow> do {
          (r, w) \<leftarrow>
            (if ParamName = ''Enable'' then Some ((True, Cfg_Enable (config w)), w)
             else if ParamName = ''ResetActiveInterface''
             then with_group 0 (True, b) (\<lambda>g w. do { G \<leftarrow> group_at g w; Some ((True, G_ResetSelectedInterface G), w) }) w
             else if ParamName = ''AllowRemoteInterfaces'' then Some ((True, Cfg_AllowRemoteInterfaces (config w)), w)
             else if ParamName = ''ResetDefaultConfig'' then Some ((True, False), w)
             else Some ((False, b), w));
          Some (r, WanMgrDml_GetConfigData_release w) })"

text \<open>The result of \<open>unlink\<close> is not looked at; the file is gone, or there was none.\<close>

definition reset_default_config :: "world \<Rightarrow> world" where
  "reset_default_config = emit (System ''sed -i '/dmsb.wanmanager./d' /nvram/bbhm_bak_cfg.xml'')"

definition WanManager_SetParamBoolValue :: "env \<Rightarrow> string \<Rightarrow> bool \<Rightarrow> world \<Rightarrow> (bool \<times> world) option" where
  "WanManager_SetParamBoolValue e ParamName bValue w =
     (case WanMgr_GetConfigData_locked w of
        (False, w) \<Rightarrow> Some (False, w)
      | (True, w) \<Rightarrow> do {
          (r, w) \<leftarrow>
            (if ParamName = ''Enable''
             then Some (True, upd_config (\<lambda>c. c\<lparr>Cfg_Enable := bValue\<rparr>) (snd (WanMgr_RdkBus_setWanEnableToPsm e bValue w)))
             else if ParamName = ''ResetActiveInterface''
             then do {
               (_, w) \<leftarrow> with_group 0 ()
                 (\<lambda>g w. Some ((), upd_group g (\<lambda>G. G\<lparr>G_ResetSelectedInterface := bValue\<rparr>) w)) w;
               Some (True, w) }
             else if ParamName = ''AllowRemoteInterfaces''
             then Some (True, snd (WanMgr_RdkBus_setAllowRemoteIfaceToPsm e bValue
                    (upd_config (\<lambda>c. c\<lparr>Cfg_AllowRemoteInterfaces := bValue\<rparr>) w)))
             else if ParamName = ''ResetDefaultConfig'' then Some (True, if bValue then reset_default_config w else w)
             else Some (False, w));
          Some (r, WanMgrDml_GetConfigData_release w) })"

subsection \<open>The groups\<close>

text \<open>The handle of a group is not tested for NULL; its index is read through it without the mutex.\<close>

definition with_dml_group ::
  "nat option \<Rightarrow> 'r \<Rightarrow> (nat \<Rightarrow> world \<Rightarrow> ('r \<times> world) option) \<Rightarrow> world \<Rightarrow> ('r \<times> world) option" where
  "with_dml_group h d body w = do { j \<leftarrow> h; G \<leftarrow> group_at j w; with_group (G_groupIdx G) d body w }"

definition WanManagerGroup_GetEntryCount :: "world \<Rightarrow> uint \<times> world" where
  "WanManagerGroup_GetEntryCount w = WanMgr_GetTotalNoOfGroups w"

definition WanManagerGroup_GetEntry :: "uint \<Rightarrow> uint \<Rightarrow> world \<Rightarrow> (nat option \<times> uint) \<times> world" where
  "WanManagerGroup_GetEntry nIndex insNumber w =
     (case WanMgr_GetIfaceGroup_locked nIndex w of
        (None, w1) \<Rightarrow> ((None, insNumber), w1)
      | (Some k, w1) \<Rightarrow> ((Some k, nIndex + 1), WanMgrDml_GetIfaceGroup_release w1))"

definition WanManagerGroup_GetParamBoolValue ::
  "nat option \<Rightarrow> string \<Rightarrow> bool \<Rightarrow> world \<Rightarrow> ((bool \<times> bool) \<times> world) option" where
  "WanManagerGroup_GetParamBoolValue hInsContext ParamName b = with_dml_group hInsContext (False, b) (\<lambda>g w. do {
     G \<leftarrow> group_at g w;
     Some (if ParamName = ''ResetSelectedInterface'' then (True, G_ResetSelectedInterface G) else (False, b), w) })"

definition WanManagerGroup_SetParamBoolValue :: "nat option \<Rightarrow> string \<Rightarrow> bool \<Rightarrow> world \<Rightarrow> (bool \<times> world) option" where
  "WanManagerGroup_SetParamBoolValue hInsContext ParamName bValue = with_dml_group hInsContext False (\<lambda>g w. do {
     G \<leftarrow> group_at g w;
     Some (if ParamName = ''ResetSelectedInterface''
           then (True, if bValue \<and> G_SelectedInterface G = 0 then w
                       else upd_group g (\<lambda>G. G\<lparr>G_ResetSelectedInterface := bValue\<rparr>) w)
           else (False, w)) })"

definition WanManagerGroup_GetParamUlongValue ::
  "nat option \<Rightarrow> string \<Rightarrow> uint \<Rightarrow> world \<Rightarrow> ((bool \<times> uint) \<times> world) option" where
  "WanManagerGroup_GetParamUlongValue hInsContext ParamName n = with_dml_group hInsContext (False, n) (\<lambda>g w. do {
     G \<leftarrow> group_at g w;
     Some (if ParamName = ''Policy'' then (True, word_of_int (G_Policy G)) else (False, n), w) })"

definition WanManagerGroup_SetParamUlongValue :: "env \<Rightarrow> nat option \<Rightarrow> string \<Rightarrow> uint \<Rightarrow> world \<Rightarrow> (bool \<times> world) option" where
  "WanManagerGroup_SetParamUlongValue e hInsContext ParamName uValue = with_dml_group hInsContext False (\<lambda>g w. do {
     G \<leftarrow> group_at g w;
     Some (if ParamName = ''Policy''
           then (case WanMgr_RdkBus_setWanPolicy e (sint uValue) (G_groupIdx G) w of
                   (ANSC_STATUS_SUCCESS, w) \<Rightarrow> (True, upd_group g (put_policy uValue) w)
                 | (ANSC_STATUS_FAILURE, w) \<Rightarrow> (False, w))
           else (False, w)) })"

subsection \<open>The DNS connectivity check\<close>

definition WanMgr_GetDnsConnectivityCheck :: "world \<Rightarrow> (bool \<times> world) option" where
  "WanMgr_GetDnsConnectivityCheck w = do {
     let (TotalIfaces, w) = WanMgr_IfaceData_GetTotalWanIface w;
     for_loop [0..<unat TotalIfaces] (\<lambda>i ctl.
       with_iface (of_nat i) (Continue ctl) (\<lambda>k w. do {
         d \<leftarrow> iface_at k w;
         Some (if If_NoOfVirtIfs d > 0
               then (case WanMgr_getVirtualIfaceById (If_VirtIfList d) 0 of
                       None \<Rightarrow> Continue ctl
                     | Some v \<Rightarrow> Break (IP_ConnectivityCheckType (VI_IP v) = WAN_CONNECTIVITY_TYPE_TAD))
               else Continue ctl, w) })) False w }"

text \<open>One virtual interface of interface \<open>k\<close>; a missing one would be dereferenced.\<close>

definition set_dns_check :: "env \<Rightarrow> int \<Rightarrow> nat \<Rightarrow> nat \<Rightarrow> ANSC_STATUS \<Rightarrow> world \<Rightarrow> (ANSC_STATUS \<times> world) option" where
  "set_dns_check e type k i retStatus w = do {
     d \<leftarrow> iface_at k w;
     j \<leftarrow> virtif_position (If_VirtIfList d) (of_nat i);
     v \<leftarrow> nth_opt (If_VirtIfList d) j;
     let old = IP_ConnectivityCheckType (VI_IP v);
     Some (if type \<noteq> old \<and> (type \<noteq> WAN_CONNECTIVITY_TYPE_NO_CHECK \<or> old = WAN_CONNECTIVITY_TYPE_TAD)
       then (case WanMgr_SetConnectivityCheckTypeToPSM e v type w of
               (ANSC_STATUS_SUCCESS, w) \<Rightarrow> (ANSC_STATUS_SUCCESS, upd_virtif (k, j) (\<lambda>v. v\<lparr>VI_IP := (VI_IP v)
                  \<lparr>IP_ConnectivityCheckType := type, IP_WCC_TypeChanged := True\<rparr>\<rparr>) w)
             | (ANSC_STATUS_FAILURE, w) \<Rightarrow> (retStatus, w))
       else (retStatus, w)) }"

definition WanMgr_SetDnsConnectivityCheck :: "env \<Rightarrow> bool \<Rightarrow> world \<Rightarrow> (ANSC_STATUS \<times> world) option" where
  "WanMgr_SetDnsConnectivityCheck e Enable w = do {
     let (TotalIfaces, w) = WanMgr_IfaceData_GetTotalWanIface w;
     let type = (if Enable then WAN_CONNECTIVITY_TYPE_TAD else WAN_CONNECTIVITY_TYPE_NO_CHECK);
     for_loop [0..<unat TotalIfaces] (\<lambda>i retStatus w. continue
       (with_iface (of_nat i) retStatus (\<lambda>k w. do {
         d \<leftarrow> iface_at k w;
         for_loop [0..<unat (If_NoOfVirtIfs d)] (\<lambda>v retStatus w. continue (set_dns_check e type k v retStatus w))
           retStatus w }) w)) ANSC_STATUS_FAILURE w }"

definition WanMgr_DnsConnectivityCheck_GetParamBoolValue ::
  "string \<Rightarrow> bool \<Rightarrow> world \<Rightarrow> ((bool \<times> bool) \<times> world) option" where
  "WanMgr_DnsConnectivityCheck_GetParamBoolValue ParamName b w =
     (if ParamName = ''Enable'' then do { (r, w) \<leftarrow> WanMgr_GetDnsConnectivityCheck w; Some ((True, r), w) }
      else Some ((False, b), w))"

definition WanMgr_DnsConnectivityCheck_SetParamBoolValue ::
  "env \<Rightarrow> string \<Rightarrow> bool \<Rightarrow> world \<Rightarrow> (bool \<times> world) option" where
  "WanMgr_DnsConnectivityCheck_SetParamBoolValue e ParamName bValue w =
     (if ParamName = ''Enable''
      then do { (r, w) \<leftarrow> WanMgr_SetDnsConnectivityCheck e bValue w; Some (r = ANSC_STATUS_SUCCESS, w) }
      else Some (False, w))"

end
