(* ===== verification/WanDmlLemmas.thy ===== *)
theory WanDmlLemmas
  imports WanStartupLemmas WanDmlTop WanMachineThread
begin

text \<open>
  What a data-model handler may do to the data base.  \<open>kept b\<close> relates two worlds that agree on everything
  the threads rely on: the shape of the tables, the places of the virtual interfaces and of the entries of their
  lists, who is selected, and, when \<open>b\<close> holds, the names the reports are made of.  It is an effect
  in the sense of \<open>WanSafe\<close>, so the rules of that calculus carry the handlers.
\<close>

subsection \<open>What is kept\<close>

definition vif_place :: "bool \<Rightarrow> DML_VIRTUAL_IFACE \<Rightarrow>
  uint \<times> uint \<times> (nat \<times> uint \<times> uint) list \<times> (nat \<times> uint \<times> uint) list \<times> bool \<times> string" where
  "vif_place b v = (VI_VirIfIdx v, VI_baseIfIdx v, map vlan_key (VLAN_InterfaceList (VI_VLAN v)),
     map marking_key (VLAN_VirtMarking (VI_VLAN v)), VLAN_Enable (VI_VLAN v), if b then VI_Name v else [])"

definition if_place :: "bool \<Rightarrow> DML_WAN_IFACE \<Rightarrow> uint \<times> uint \<times> WANMGR_IFACE_SELECTION \<times> bool \<times> string \<times>
  (uint \<times> uint \<times> (nat \<times> uint \<times> uint) list \<times> (nat \<times> uint \<times> uint) list \<times> bool \<times> string) list" where
  "if_place b d = (If_uiIfaceIdx d, If_NoOfVirtIfs d, Sel_Status (If_Selection d), Sel_Enable (If_Selection d),
     If_DisplayName d, map (vif_place b) (If_VirtIfList d))"

definition kept :: "bool \<Rightarrow> world \<Rightarrow> world \<Rightarrow> bool" where
  "kept b w w' \<longleftrightarrow> map_option (map (if_place b)) (pIface w') = map_option (map (if_place b)) (pIface w) \<and>
     map_option (map G_SelectedInterface) (Groups w') = map_option (map G_SelectedInterface) (Groups w) \<and>
     total_ifaces w' = total_ifaces w"

interpretation dml: effects "kept b" for b
  by unfold_locales (auto simp: kept_def)

lemma kept_same_db: "gWanMgrDataBase w' = gWanMgrDataBase w \<Longrightarrow> kept b w w'"
  by (simp add: kept_def)

definition forget_names :: "bool \<Rightarrow> uint \<times> uint \<times> WANMGR_IFACE_SELECTION \<times> bool \<times> string \<times>
    (uint \<times> uint \<times> (nat \<times> uint \<times> uint) list \<times> (nat \<times> uint \<times> uint) list \<times> bool \<times> string) list \<Rightarrow>
  uint \<times> uint \<times> WANMGR_IFACE_SELECTION \<times> bool \<times> string \<times>
    (uint \<times> uint \<times> (nat \<times> uint \<times> uint) list \<times> (nat \<times> uint \<times> uint) list \<times> bool \<times> string) list" where
  "forget_names b = (\<lambda>(a, c, s, e, n, vs). (a, c, s, e, n, map (\<lambda>(a, c, d, e, f, n). (a, c, d, e, f, if b then n else [])) vs))"

lemma if_place_forget: "if_place b = forget_names b \<circ> if_place True"
  by (simp add: fun_eq_iff if_place_def forget_names_def vif_place_def)

lemma kept_weaken:
  assumes "kept True w w'"
  shows "kept b w w'"
proof -
  have "map_option (map (if_place b)) p = map_option (map (forget_names b)) (map_option (map (if_place True)) p)" for p
    by (cases p) (simp_all add: if_place_forget [of b])
  with assms show ?thesis by (simp add: kept_def)
qed

text \<open>Writes that keep the places.\<close>

lemma kept_upd_iface [intro]:
  assumes "\<And>d. if_place b (f d) = if_place b d"
  shows "kept b w (upd_iface k f w)"
  by (simp add: kept_def option.map_comp comp_def map_map_nth [of "if_place b", OF assms])

lemma kept_upd_group [intro]:
  assumes "\<And>g. G_SelectedInterface (f g) = G_SelectedInterface g"
  shows "kept b w (upd_group k f w)"
  by (simp add: kept_def option.map_comp comp_def map_map_nth [of G_SelectedInterface, OF assms])

lemma if_place_virtif:
  assumes "\<And>v. vif_place b (f v) = vif_place b v"
  shows "if_place b (d\<lparr>If_VirtIfList := map_nth j f (If_VirtIfList d)\<rparr>) = if_place b d"
  by (simp add: if_place_def map_map_nth [of "vif_place b", OF assms])

lemma kept_upd_virtif [intro]:
  assumes "\<And>v. vif_place b (f v) = vif_place b v"
  shows "kept b w (upd_virtif p f w)"
  unfolding upd_virtif_def by (intro kept_upd_iface if_place_virtif assms)

text \<open>One entry is replaced by another with the same place.\<close>

lemma kept_put_iface:
  assumes "iface_at k w = Some x" "if_place b y = if_place b x"
  shows "kept b w (upd_iface k (\<lambda>_. y) w)"
  using assms by (auto simp: kept_def iface_at_def bind_eq_Some_conv map_nth_def map_update list_update_same_conv)

lemma if_place_put:
  assumes "nth_opt (If_VirtIfList d) j = Some v" "vif_place b u = vif_place b v"
  shows "if_place b (d\<lparr>If_VirtIfList := map_nth j (\<lambda>_. u) (If_VirtIfList d)\<rparr>) = if_place b d"
  using assms by (auto simp: if_place_def map_nth_def map_update list_update_same_conv)

lemma kept_put_virtif:
  assumes "virtif_at p w = Some v" "vif_place b u = vif_place b v"
  shows "kept b w (upd_virtif p (\<lambda>_. u) w)"
proof -
  from assms(1) obtain d where d: "iface_at (fst p) w = Some d" "nth_opt (If_VirtIfList d) (snd p) = Some v"
    by (auto simp: virtif_at_def bind_eq_Some_conv)
  have "upd_virtif p (\<lambda>_. u) w = upd_iface (fst p) (\<lambda>_. d\<lparr>If_VirtIfList := map_nth (snd p) (\<lambda>_. u) (If_VirtIfList d)\<rparr>) w"
    using d(1) by (auto simp: upd_virtif_def upd_iface_def upd_db_def iface_at_def bind_eq_Some_conv map_nth_def)
  with kept_put_iface [OF d(1) if_place_put [OF d(2) assms(2)]] show ?thesis by simp
qed

subsection \<open>What follows for the threads\<close>

lemma kept_sym: "kept b w w' \<Longrightarrow> kept b w' w"
  by (auto simp: kept_def)

lemma kept_iface:
  assumes "kept b w w'" "iface_at k w = Some d"
  obtains d' where "iface_at k w' = Some d'" "if_place b d' = if_place b d"
proof -
  from assms(2) obtain l where l: "pIface w = Some l" "k < length l" "d = l ! k"
    by (auto simp: iface_at_def bind_eq_Some_conv)
  with assms(1) obtain l' where l': "pIface w' = Some l'" "map (if_place b) l' = map (if_place b) l"
    by (auto simp: kept_def)
  from l'(2) have len: "length l' = length l" by (rule map_eq_imp_length_eq)
  show thesis
  proof (rule that)
    show "iface_at k w' = Some (l' ! k)" using l l' len by (simp add: iface_at_def)
    show "if_place b (l' ! k) = if_place b d" using arg_cong [OF l'(2), of "\<lambda>x. x ! k"] l len by simp
  qed
qed

lemma kept_shape:
  assumes "kept b w w'"
  shows "map_option (map iface_shape) (pIface w') = map_option (map iface_shape) (pIface w)"
proof -
  let ?f = "\<lambda>(a :: uint, n :: uint, s :: WANMGR_IFACE_SELECTION, e :: bool, nm :: string,
    vs :: (uint \<times> uint \<times> (nat \<times> uint \<times> uint) list \<times> (nat \<times> uint \<times> uint) list \<times> bool \<times> string) list). (a, n, map fst vs)"
  have eq: "iface_shape = ?f \<circ> if_place b"
    by (simp add: fun_eq_iff iface_shape_def if_place_def vif_place_def)
  have "map_option (map iface_shape) p = map_option (map ?f) (map_option (map (if_place b)) p)" for p
    by (cases p) (simp_all add: eq)
  with assms show ?thesis by (simp add: kept_def)
qed

lemma kept_keeps:
  assumes "wf_db w" "kept b w w'" "mutex w' = mutex w" "total_groups w' = total_groups w"
  shows "keeps w w'"
proof -
  from kept_shape [OF assms(2)] have i: "(case pIface w' of None \<Rightarrow> False | Some l \<Rightarrow> wf_ifaces n (map iface_shape l)) =
      (case pIface w of None \<Rightarrow> False | Some l \<Rightarrow> wf_ifaces n (map iface_shape l))" for n
    by (auto split: option.splits)
  from assms(2) have "map_option length (Groups w') = map_option length (Groups w)"
    by (cases "Groups w"; cases "Groups w'") (auto simp: kept_def dest: map_eq_imp_length_eq)
  then have g: "(case Groups w' of None \<Rightarrow> False | Some g \<Rightarrow> n = length g) = (case Groups w of None \<Rightarrow> False | Some g \<Rightarrow> n = length g)"
    for n by (auto split: option.splits)
  have t: "total_ifaces w' = total_ifaces w" using assms(2) by (simp add: kept_def)
  have "wf_db w' = wf_db w" unfolding wf_db_def i g t assms(3,4) ..
  with assms t show ?thesis by (simp add: keeps_def)
qed

lemma kept_sel:
  assumes "kept b w w'"
  shows "sel_view w' = sel_view w"
proof -
  have "map_option (\<lambda>x. Sel_Status (If_Selection x)) (iface_at k w') = map_option (\<lambda>x. Sel_Status (If_Selection x)) (iface_at k w)" for k
  proof (cases "iface_at k w")
    case None
    with kept_iface [OF kept_sym [OF assms]] have "iface_at k w' = None" by (metis not_Some_eq)
    with None show ?thesis by simp
  next
    case (Some d)
    from kept_iface [OF assms this] obtain d' where "iface_at k w' = Some d'" "if_place b d' = if_place b d" .
    with Some show ?thesis by (simp add: if_place_def)
  qed
  moreover have "map_option G_SelectedInterface (group_at k w') = map_option G_SelectedInterface (group_at k w)" for k
  proof -
    from assms have "map_option (map G_SelectedInterface) (Groups w') = map_option (map G_SelectedInterface) (Groups w)"
      by (simp add: kept_def)
    then show ?thesis
      by (cases "Groups w"; cases "Groups w'")
        (auto simp: group_at_def nth_opt_def dest: map_eq_imp_length_eq, metis nth_map map_eq_imp_length_eq)
  qed
  ultimately show ?thesis by (simp add: sel_view_def)
qed

lemma kept_report:
  assumes "kept True w w'"
  shows "report_fits w' = report_fits w"
proof -
  have cost: "iface_cost (\<lambda>_. length (If_DisplayName i) + 3) i = (case if_place True i of (a, n, s, e, nm, vs) \<Rightarrow>
      if e then sum_list (map (\<lambda>_. length nm + 3) vs) else 0)"
    "iface_cost name_cost i = (case if_place True i of (a, n, s, e, nm, vs) \<Rightarrow>
      if e then sum_list (map (\<lambda>(_, _, _, _, _, nm). max 7 (length nm) + 1) vs) else 0)" for i
    by (simp_all add: if_place_def iface_cost_def vif_place_def name_cost_def [abs_def] comp_def)
  have eq: "(case pIface u of None \<Rightarrow> True | Some l \<Rightarrow>
      let is = take n l in sum_list (map (\<lambda>i. iface_cost (\<lambda>_. length (If_DisplayName i) + 3) i) is) \<le> 64 \<and>
        sum_list (map (iface_cost name_cost) is) \<le> 64) =
    (case map_option (map (if_place True)) (pIface u) of None \<Rightarrow> True | Some l \<Rightarrow>
      let is = take n l in sum_list (map (\<lambda>(a, n, s, e, nm, vs). if e then sum_list (map (\<lambda>_. length nm + 3) vs) else 0) is) \<le> 64 \<and>
        sum_list (map (\<lambda>(a, n, s, e, nm, vs).
          if e then sum_list (map (\<lambda>(_, _, _, _, _, nm). max 7 (length nm) + 1) vs) else 0) is) \<le> 64)" for u n
    by (cases "pIface u") (simp_all add: cost [abs_def] take_map comp_def Let_def)
  from assms have "map_option (map (if_place True)) (pIface w') = map_option (map (if_place True)) (pIface w)"
    "total_ifaces w' = total_ifaces w" by (simp_all add: kept_def)
  then show ?thesis unfolding report_fits_def eq by (simp only:)
qed

lemma kept_virtif:
  assumes "kept b w w'" "virtif_at q w = Some v"
  obtains v' where "virtif_at q w' = Some v'" "vif_place b v' = vif_place b v"
proof -
  from assms(2) obtain d where d: "iface_at (fst q) w = Some d" "snd q < length (If_VirtIfList d)" "v = If_VirtIfList d ! snd q"
    by (auto simp: virtif_at_def bind_eq_Some_conv)
  from kept_iface [OF assms(1) d(1)] obtain d' where d': "iface_at (fst q) w' = Some d'" "if_place b d' = if_place b d" .
  then have vs: "map (vif_place b) (If_VirtIfList d') = map (vif_place b) (If_VirtIfList d)" by (simp add: if_place_def)
  then have len: "length (If_VirtIfList d') = length (If_VirtIfList d)" by (rule map_eq_imp_length_eq)
  show thesis
  proof (rule that)
    show "virtif_at q w' = Some (If_VirtIfList d' ! snd q)" using d d' len by (simp add: virtif_at_def)
    show "vif_place b (If_VirtIfList d' ! snd q) = vif_place b v" using arg_cong [OF vs, of "\<lambda>x. x ! snd q"] d len by simp
  qed
qed

lemma vif_place_fits:
  assumes "vif_place True v' = vif_place True v" "vif_fits v"
  shows "vif_fits v'"
proof -
  from assms(1) have "map VT_Index (VLAN_InterfaceList (VI_VLAN v')) = map VT_Index (VLAN_InterfaceList (VI_VLAN v))"
    by (auto simp: vif_place_def vlan_key_def dest: arg_cong [where f = "map fst"] simp: comp_def)
  with assms show ?thesis
    by (cases "VLAN_InterfaceList (VI_VLAN v)"; cases "VLAN_InterfaceList (VI_VLAN v')") (auto simp: vif_fits_def vif_place_def)
qed

lemma kept_machine:
  assumes "kept True w w'" "machine_at q w"
  shows "machine_at q w'"
proof -
  from assms(2) obtain v where v: "virtif_at q w = Some v" "vif_fits v" by (auto simp: machine_at_def)
  from kept_virtif [OF assms(1) v(1)] obtain v' where "virtif_at q w' = Some v'" "vif_place True v' = vif_place True v" .
  with v(2) assms kept_report [OF assms(1)] show ?thesis
    by (auto simp: machine_at_def kept_def dest: vif_place_fits)
qed

end
