(* ===== verification/WanDmlSafe.thy ===== *)
theory WanDmlSafe
  imports WanDmlLemmas
begin

text \<open>
  Every data-model handler is safe: called with the handles the library gets from the tables and with values
  that fit, it returns, gives the mutex back and keeps what \<open>kept\<close> keeps.
\<close>

subsection \<open>Places and handles\<close>

text \<open>Every virtual interface, and every entry of its lists, knows where it is.\<close>

definition placed :: "world \<Rightarrow> bool" where
  "placed w \<longleftrightarrow> (\<forall>k < unat (total_ifaces w). \<forall>d. iface_at k w = Some d \<longrightarrow>
     (\<forall>v \<in> set (If_VirtIfList d). VI_baseIfIdx v = of_nat k \<and> lists_placed v))"

lemma vif_place_lists:
  "vif_place b v' = vif_place b v \<Longrightarrow> VI_baseIfIdx v' = VI_baseIfIdx v \<and> lists_placed v' = lists_placed v"
  by (simp add: vif_place_def lists_placed_def)

lemma kept_placed:
  assumes "kept b w w'" "placed w"
  shows "placed w'"
  unfolding placed_def
proof (intro allI impI ballI)
  fix k d' v'
  assume k: "k < unat (total_ifaces w')" and d': "iface_at k w' = Some d'" and v': "v' \<in> set (If_VirtIfList d')"
  from kept_iface [OF kept_sym [OF assms(1)] d'] obtain d where d: "iface_at k w = Some d" "if_place b d = if_place b d'" .
  then have "set (map (vif_place b) (If_VirtIfList d')) = set (map (vif_place b) (If_VirtIfList d))" by (simp add: if_place_def)
  then have "vif_place b ` set (If_VirtIfList d') = vif_place b ` set (If_VirtIfList d)" by simp
  with imageI [OF v', of "vif_place b"] have "vif_place b v' \<in> vif_place b ` set (If_VirtIfList d)" by simp
  then obtain v where v: "vif_place b v' = vif_place b v" "v \<in> set (If_VirtIfList d)" by (rule imageE)
  from k assms(1) have "k < unat (total_ifaces w)" by (simp add: kept_def)
  with assms(2) d(1) v(2) have "VI_baseIfIdx v = of_nat k \<and> lists_placed v" by (simp add: placed_def)
  with vif_place_lists [OF v(1)] show "VI_baseIfIdx v' = of_nat k \<and> lists_placed v'" by simp
qed

lemma placed_mlock [simp]: "placed (mlock w) = placed w"
  by (simp add: placed_def)

definition iface_handle :: "nat option \<Rightarrow> world \<Rightarrow> bool" where
  "iface_handle h w \<longleftrightarrow> (case h of None \<Rightarrow> True | Some j \<Rightarrow> j < unat (total_ifaces w))"

definition virtif_handle :: "vhandle \<Rightarrow> world \<Rightarrow> bool" where
  "virtif_handle h w \<longleftrightarrow> (case h of None \<Rightarrow> False | Some p \<Rightarrow> fst p < unat (total_ifaces w) \<and> virtif_at p w \<noteq> None)"

definition vlan_handle :: "lhandle \<Rightarrow> world \<Rightarrow> bool" where
  "vlan_handle h w \<longleftrightarrow> (case h of None \<Rightarrow> False | Some p \<Rightarrow> fst (fst p) < unat (total_ifaces w) \<and> vlan_at p w \<noteq> None)"

definition marking_handle :: "lhandle \<Rightarrow> world \<Rightarrow> bool" where
  "marking_handle h w \<longleftrightarrow> (case h of None \<Rightarrow> False | Some p \<Rightarrow> fst (fst p) < unat (total_ifaces w) \<and> marking_at p w \<noteq> None)"

subsection \<open>Interfaces\<close>

lemma dml_iface:
  assumes wf: "wf_db w" and h: "iface_handle h w" and null: "R d"
    and body: "\<And>j x. \<lbrakk>h = Some j; iface_at j w = Some x; j < unat (total_ifaces w); wf_shape j (iface_shape x); wf_db (mlock w)\<rbrakk> \<Longrightarrow>
      okx (kept b) (mlock w) (body j (mlock w)) R"
  shows "okx (kept b) w (with_dml_iface h d body w) R"
proof (cases h)
  case None
  then show ?thesis using wf null by (simp add: with_dml_iface_def dml.return_same)
next
  case (Some j)
  with h have j: "j < unat (total_ifaces w)" by (simp add: iface_handle_def)
  with wf obtain x where x: "iface_at j w = Some x" "wf_shape j (iface_shape x)" by (rule wf_db_iface_at)
  from index_bound [OF j] have u: "unat (of_nat j :: uint) = j" by simp
  from x(2) have "If_uiIfaceIdx x = of_nat j" by (simp add: iface_shape_def)
  with Some x(1) have "with_dml_iface h d body w = with_iface (of_nat j) d body w" by (simp add: with_dml_iface_def)
  moreover have "okx (kept b) w (with_iface (of_nat j) d body w) R"
    using wf null x j Some by (intro dml.iface) (simp_all add: u body)
  ultimately show ?thesis by simp
qed

lemma read_iface_ok:
  assumes "wf_db w" "iface_handle h w" "\<And>j x. wf_shape j (iface_shape x) \<Longrightarrow> \<exists>r. get x = Some r"
  shows "okx (kept b) w (read_iface h d get w) (\<lambda>_. True)"
  unfolding read_iface_def
proof (rule dml_iface [OF assms(1,2)])
  fix j x
  assume x: "iface_at j w = Some x" and "wf_shape j (iface_shape x)" and wf: "wf_db (mlock w)"
  then obtain r where "get x = Some r" using assms(3) by blast
  with x wf show "okx (kept b) (mlock w) (do { x \<leftarrow> iface_at j (mlock w); r \<leftarrow> get x; Some (r, mlock w) }) (\<lambda>_. True)"
    by (simp add: dml.return_same)
qed simp

lemma keeps_put_iface:
  assumes wf: "wf_db w" and x: "iface_at k w = Some x" and y: "if_place b y = if_place b x"
  shows "keeps w (upd_iface k (\<lambda>_. y) w)" "kept b w (upd_iface k (\<lambda>_. y) w)"
proof -
  show k: "kept b w (upd_iface k (\<lambda>_. y) w)" by (rule kept_put_iface [OF x y])
  show "keeps w (upd_iface k (\<lambda>_. y) w)" by (rule kept_keeps [OF wf k]) simp_all
qed

lemma write_iface_ok:
  assumes "wf_db w" "iface_handle h w"
    and "\<And>j x. wf_shape j (iface_shape x) \<Longrightarrow> \<exists>r y. put x = Some (r, y) \<and> if_place b y = if_place b x"
  shows "okx (kept b) w (write_iface h put w) (\<lambda>_. True)"
  unfolding write_iface_def
proof (rule dml_iface [OF assms(1,2)])
  fix j x
  assume x: "iface_at j w = Some x" and "wf_shape j (iface_shape x)" and wf: "wf_db (mlock w)"
  then obtain r y where y: "put x = Some (r, y)" "if_place b y = if_place b x" using assms(3) by blast
  have "iface_at j (mlock w) = Some x" using x by simp
  from keeps_put_iface [OF wf this y(2)] x y(1)
  show "okx (kept b) (mlock w) (do { x \<leftarrow> iface_at j (mlock w); (ret, y) \<leftarrow> put x; Some (ret, upd_iface j (\<lambda>_. y) (mlock w)) })
    (\<lambda>_. True)" by (simp add: okx_def ok_def)
qed simp

subsection \<open>Virtual interfaces\<close>

lemma placed_virtif:
  assumes wf: "wf_db w" and pl: "placed w" and k: "k < unat (total_ifaces w)" and v: "virtif_at (k, j) w = Some v"
  shows "WanMgr_getVirtualIface_locked (VI_baseIfIdx v) (VI_VirIfIdx v) w = Some (Some (k, j), mlock w)"
    "VI_baseIfIdx v = of_nat k" "lists_placed v"
proof -
  from wf k obtain x where x: "iface_at k w = Some x" "wf_shape k (iface_shape x)" by (rule wf_db_iface_at)
  with v have vj: "v = If_VirtIfList x ! j" "j < length (If_VirtIfList x)" by (auto simp: virtif_at_def)
  with pl k x(1) show base: "VI_baseIfIdx v = of_nat k" and "lists_placed v" by (simp_all add: placed_def)
  from x(2) have len: "unat (If_NoOfVirtIfs x) = length (If_VirtIfList x)"
    and ids: "map VI_VirIfIdx (If_VirtIfList x) = map of_nat [0..<length (If_VirtIfList x)]" by (simp_all add: iface_shape_def)
  from arg_cong [OF ids, of "\<lambda>l. l ! j"] vj have id: "VI_VirIfIdx v = of_nat j" by simp
  from index_bound [OF k] have u: "unat (of_nat k :: uint) = k" and "of_nat k < total_ifaces w" by simp_all
  with getVirtualIface_locked_wf [OF wf, of "of_nat k" x j] x(1) len vj(2)
  show "WanMgr_getVirtualIface_locked (VI_baseIfIdx v) (VI_VirIfIdx v) w = Some (Some (k, j), mlock w)"
    by (simp add: base id)
qed

lemma dml_virtif:
  assumes wf: "wf_db w" and pl: "placed w" and h: "virtif_handle h w"
    and body: "\<And>p v. \<lbrakk>h = Some p; virtif_at p (mlock w) = Some v; fst p < unat (total_ifaces w); VI_baseIfIdx v = of_nat (fst p);
        wf_db (mlock w)\<rbrakk> \<Longrightarrow> okx (kept b) (mlock w) (body p (mlock w)) R"
  shows "okx (kept b) w (with_dml_virtif h d body w) R"
proof -
  from h obtain k j v where p: "h = Some (k, j)" "k < unat (total_ifaces w)" "virtif_at (k, j) w = Some v"
    by (auto simp: virtif_handle_def split: option.splits)
  have v': "virtif_at (k, j) (mlock w) = Some v" using p(3) by (simp add: virtif_at_def)
  have m: "wf_db (mlock w)" using wf by simp
  note loc = placed_virtif [OF wf pl p(2,3)]
  have "okx (kept b) (mlock w) (body (k, j) (mlock w)) R" using body [OF p(1) v' _ _ m] p(2) loc(2) by simp
  then obtain r w' where w': "body (k, j) (mlock w) = Some (r, w')" "keeps (mlock w) w'" "kept b (mlock w) w'" "R r"
    by (rule okxE)
  from keeps_unlock [OF wf_db_mutex [OF wf] w'(2)] w'(3,4) dml.eff_lock
  show ?thesis
    using p(1,3) loc(1) w'(1) by (simp add: with_dml_virtif_def release_defs okx_def ok_def)
qed

lemma read_virtif_ok:
  assumes "wf_db w" "placed w" "virtif_handle h w"
  shows "okx (kept b) w (read_virtif h d get w) (\<lambda>_. True)"
  unfolding read_virtif_def
  by (rule dml_virtif [OF assms]) (simp add: dml.return_same)

lemma keeps_put_virtif:
  assumes wf: "wf_db w" and v: "virtif_at p w = Some v" and u: "vif_place b u = vif_place b v"
  shows "keeps w (upd_virtif p (\<lambda>_. u) w)" "kept b w (upd_virtif p (\<lambda>_. u) w)"
proof -
  show k: "kept b w (upd_virtif p (\<lambda>_. u) w)" by (rule kept_put_virtif [OF v u])
  show "keeps w (upd_virtif p (\<lambda>_. u) w)" by (rule kept_keeps [OF wf k]) (simp_all add: upd_virtif_def)
qed

lemma write_virtif_ok:
  assumes "wf_db w" "placed w" "virtif_handle h w"
    and put: "\<And>v. \<exists>r u. put v = Some (r, u) \<and> vif_place b u = vif_place b v"
  shows "okx (kept b) w (write_virtif h put w) (\<lambda>_. True)"
  unfolding write_virtif_def
proof (rule dml_virtif [OF assms(1-3)])
  fix p v
  assume v: "virtif_at p (mlock w) = Some v" and wf: "wf_db (mlock w)"
  from put obtain r u where u: "put v = Some (r, u)" "vif_place b u = vif_place b v" by blast
  from keeps_put_virtif [OF wf v u(2)] v u(1)
  show "okx (kept b) (mlock w) (do { v \<leftarrow> virtif_at p (mlock w); (ret, u) \<leftarrow> put v; Some (ret, upd_virtif p (\<lambda>_. u) (mlock w)) })
    (\<lambda>_. True)" by (simp add: okx_def ok_def)
qed

subsection \<open>The handlers of the interfaces\<close>

lemma if_place_shape: "if_place b d' = if_place b d \<Longrightarrow> iface_shape d' = iface_shape d"
proof -
  assume eq: "if_place b d' = if_place b d"
  then have "map (vif_place b) (If_VirtIfList d') = map (vif_place b) (If_VirtIfList d)" by (simp add: if_place_def)
  from arg_cong [OF this, of "map fst"] eq show ?thesis by (simp add: if_place_def iface_shape_def vif_place_def comp_def)
qed

lemma any_Reset_total:
  assumes "wf_shape k (iface_shape d)"
  shows "\<exists>r. any_Reset d = Some r"
proof -
  have "\<exists>r. any_Reset d = Some r \<and> True"
    unfolding any_Reset_def for_upto_def
  proof (rule for_each_rule [where I = "\<lambda>_ _. True"])
    fix pre i and r :: bool
    assume "\<exists>todo. [0..<unat (If_NoOfVirtIfs d)] = pre @ i # todo"
    then have "i < unat (If_NoOfVirtIfs d)" by (auto dest: upt_split)
    from wf_shape_lookup [OF assms this] show "(\<exists>s'. do {
          v \<leftarrow> WanMgr_getVirtualIfaceById (If_VirtIfList d) (of_nat i);
          Some (if VI_Reset v then Break True else Continue r) } = Some (Continue s') \<and> True) \<or>
        (\<exists>s'. do {
          v \<leftarrow> WanMgr_getVirtualIfaceById (If_VirtIfList d) (of_nat i);
          Some (if VI_Reset v then Break True else Continue r) } = Some (Break s') \<and> True)"
      by (auto simp: WanMgr_getVirtualIfaceById_def)
  qed simp_all
  then show ?thesis by simp
qed

lemma all_Reset_ok:
  assumes "wf_shape k (iface_shape d)"
  shows "\<exists>d'. all_Reset x d = Some d' \<and> if_place b d' = if_place b d"
  unfolding all_Reset_def for_upto_def
proof (rule for_each_rule [where I = "\<lambda>_ d'. if_place b d' = if_place b d"])
  fix pre i and d' :: DML_WAN_IFACE
  assume eq: "if_place b d' = if_place b d" and "\<exists>todo. [0..<unat (If_NoOfVirtIfs d)] = pre @ i # todo"
  then have i: "i < unat (If_NoOfVirtIfs d')" by (auto dest: upt_split simp: if_place_def)
  from assms if_place_shape [OF eq] have "wf_shape k (iface_shape d')" by simp
  from wf_shape_lookup [OF this i] eq show "(\<exists>s'. do {
        j \<leftarrow> virtif_position (If_VirtIfList d') (of_nat i);
        Some (Continue (d'\<lparr>If_VirtIfList := map_nth j (\<lambda>v. v\<lparr>VI_Reset := x\<rparr>) (If_VirtIfList d')\<rparr>)) } = Some (Continue s') \<and>
      if_place b s' = if_place b d) \<or> (\<exists>s'. do {
        j \<leftarrow> virtif_position (If_VirtIfList d') (of_nat i);
        Some (Continue (d'\<lparr>If_VirtIfList := map_nth j (\<lambda>v. v\<lparr>VI_Reset := x\<rparr>) (If_VirtIfList d')\<rparr>)) } = Some (Break s') \<and>
      if_place b s' = if_place b d)"
    by (simp add: if_place_virtif vif_place_def)
qed simp_all

lemma kept_emit_only:
  assumes "wf_db w" "gWanMgrDataBase w' = gWanMgrDataBase w"
  shows "keeps w w'" "kept b w w'"
  using keeps_same_db [OF assms(2) keeps_refl [OF assms(1)]] kept_same_db [OF assms(2)] by simp_all

lemma commit_iface_ok:
  assumes "wf_db w" "iface_handle h w"
  shows "okx (kept b) w (WanIf_Commit e h w) (\<lambda>_. True)" "okx (kept b) w (WanIfSelectionCfg_Commit e h w) (\<lambda>_. True)"
proof -
  show "okx (kept b) w (WanIf_Commit e h w) (\<lambda>_. True)"
    unfolding WanIf_Commit_def
  proof (rule dml_iface [OF assms])
    fix j x
    assume "iface_at j w = Some x" "wf_shape j (iface_shape x)" "wf_db (mlock w)"
    then show "okx (kept b) (mlock w) (do {
        d \<leftarrow> iface_at j (mlock w);
        (_, w) \<leftarrow> DmlSetWanIfCfg e (unat (If_uiInstanceNumber d)) d (mlock w);
        Some (0, w) }) (\<lambda>_. True)"
      by (simp add: DmlSetWanIfCfg_eq dml.return kept_emit_only)
  qed simp
  show "okx (kept b) w (WanIfSelectionCfg_Commit e h w) (\<lambda>_. True)"
    unfolding WanIfSelectionCfg_Commit_def
  proof (rule dml_iface [OF assms])
    fix j x
    assume "iface_at j w = Some x" "wf_shape j (iface_shape x)" "wf_db (mlock w)"
    then show "okx (kept b) (mlock w) (do {
        d \<leftarrow> iface_at j (mlock w);
        (result, w) \<leftarrow> DmlSetWanIfCfg e (unat (If_uiInstanceNumber d)) d (mlock w);
        Some (if result \<noteq> ANSC_STATUS_SUCCESS then -1 else 0, w) }) (\<lambda>_. True)"
      by (simp add: DmlSetWanIfCfg_eq dml.return kept_emit_only)
  qed simp
qed

subsection \<open>Priorities and groups\<close>

text \<open>The search for a priority only looks, and finds it exactly when another interface has it.\<close>

definition priority_taken :: "int \<Rightarrow> nat \<Rightarrow> int \<Rightarrow> world \<Rightarrow> bool" where
  "priority_taken IfIndex n priority w \<longleftrightarrow>
     (\<exists>i < n. int i \<noteq> IfIndex \<and> map_option (\<lambda>d. Sel_Priority (If_Selection d)) (iface_at i w) = Some priority)"

lemma check_priority_loop:
  assumes wf: "wf_db w" and n: "n \<le> unat (total_ifaces w)"
  shows "for_loop [0..<n] (\<lambda>i Status. with_iface (of_nat i) (Continue Status) (\<lambda>k w. do {
      d \<leftarrow> iface_at k w;
      Some (if int i = IfIndex then Continue Status
            else if Sel_Priority (If_Selection d) = priority then Break True else Continue Status, w) })) False w =
    Some (priority_taken IfIndex n priority w, w)"
proof -
  let ?body = "\<lambda>i Status. with_iface (of_nat i) (Continue Status) (\<lambda>k w. do {
      d \<leftarrow> iface_at k w;
      Some (if int i = IfIndex then Continue Status
            else if Sel_Priority (If_Selection d) = priority then Break True else Continue Status, w) })"
  let ?hit = "\<lambda>i. int i \<noteq> IfIndex \<and> map_option (\<lambda>d. Sel_Priority (If_Selection d)) (iface_at i w) = Some priority"
  have body: "?body i False w = Some (if ?hit i then Break True else Continue False, w)" if "i < n" for i
  proof -
    from that n have i: "i < unat (total_ifaces w)" by simp
    with wf obtain d where "iface_at i w = Some d" by (rule wf_db_iface_at)
    with index_bound [OF i] show ?thesis by (simp add: with_wf(2) [OF wf])
  qed
  have run: "for_loop is ?body False w = Some (\<exists>i \<in> set is. ?hit i, w)" if "set is \<subseteq> {..<n}" for "is"
    using that
  proof (induction "is")
    case (Cons i "is")
    then have "?body i False w = Some (if ?hit i then Break True else Continue False, w)" by (intro body) simp
    with Cons show ?case by (cases "?hit i") (simp_all only: for_loop_Cons, auto)
  qed simp
  have "set [0..<n] \<subseteq> {..<n}" "(\<exists>i \<in> set [0..<n]. ?hit i) = priority_taken IfIndex n priority w"
    by (auto simp: priority_taken_def)
  with run [of "[0..<n]"] show ?thesis by (simp only:)
qed

lemma CheckGivenPriorityExists_eq:
  assumes "wf_db w" "total_ifaces w \<noteq> 0"
  shows "WanManager_CheckGivenPriorityExists IfIndex (total_ifaces w) priority w =
    Some ((ANSC_STATUS_SUCCESS, priority_taken IfIndex (unat (total_ifaces w)) priority w), w)"
  using assms check_priority_loop [OF assms(1) order_refl]
  by (simp add: WanManager_CheckGivenPriorityExists_def word_le_0_iff)

end
