(* ===== verification/WanDmlHandlers.thy ===== *)
theory WanDmlHandlers
  imports WanDmlSafe
begin

text \<open>
  The handlers that do more than read or write one record: the priority and the group of an interface, the flags
  of a virtual interface, the lists, the manager, and the DNS connectivity check.
\<close>

subsection \<open>Priority and group of an interface\<close>

lemma handle_keeps: "\<lbrakk>iface_handle h w; keeps w w'\<rbrakk> \<Longrightarrow> iface_handle h w'"
  by (simp add: iface_handle_def keeps_def split: option.splits)

lemma set_priority_ok:
  assumes wf: "wf_db w" and h: "iface_handle h w"
  shows "okx (kept b) w (WanIfSelectionCfg_SetParamIntValue h p n w) (\<lambda>_. True)"
proof (cases h)
  case None
  then show ?thesis using wf by (simp add: WanIfSelectionCfg_SetParamIntValue_def with_dml_iface_def dml.return_same)
next
  case (Some j)
  with h have j: "j < unat (total_ifaces w)" by (simp add: iface_handle_def)
  with wf obtain x where x: "iface_at j w = Some x" "wf_shape j (iface_shape x)" by (rule wf_db_iface_at)
  from index_bound [OF j] have u: "unat (of_nat j :: uint) = j" "of_nat j < total_ifaces w" by simp_all
  from j have tot: "total_ifaces w \<noteq> 0" by auto
  have "If_uiIfaceIdx x = of_nat j" using x(2) by (simp add: iface_shape_def)
  then have find: "with_dml_iface h None (\<lambda>k w. do { d \<leftarrow> iface_at k w; Some (Some (sint (If_uiIfaceIdx d)), w) }) w =
      Some (Some (sint (of_nat j :: uint)), w)"
    using Some x(1) u by (simp add: with_dml_iface_def with_wf(2) [OF wf])
  have set: "okx (kept b) w (write_iface h (\<lambda>d. Some (True, upd_Selection (\<lambda>s. s\<lparr>Sel_Priority := n\<rparr>) d)) w) (\<lambda>_. True)"
    by (rule write_iface_ok [OF wf h]) (auto simp: if_place_def upd_Selection_def)
  show ?thesis
    using wf tot set
    by (simp add: WanIfSelectionCfg_SetParamIntValue_def find WanIf_GetEntryCount_def CheckGivenPriorityExists_eq
        dml.return_same)
qed

lemma kept_group:
  assumes "wf_db w" "\<And>g. G_SelectedInterface (f g) = G_SelectedInterface g"
  shows "keeps w (upd_group k f w)" "kept b w (upd_group k f w)"
  using assms by (auto intro: kept_upd_group keeps_upd_group keeps_refl)

lemma group_keeps:
  assumes "wf_db w" "\<And>g. G_SelectedInterface (f g) = G_SelectedInterface g"
  shows "okx (kept b) w (with_group i () (\<lambda>g w. Some ((), upd_group g f w)) w) (\<lambda>_. True)"
proof (rule dml.group [OF assms(1)])
  assume "wf_db (mlock w)"
  from kept_group [OF this assms(2)]
  show "okx (kept b) (mlock w) (Some ((), upd_group (unat i) f (mlock w))) (\<lambda>_. True)" by (intro dml.return) simp_all
qed simp

lemma kept_upd_Selection:
  assumes "wf_db w" "\<And>s. Sel_Status (f s) = Sel_Status s \<and> Sel_Enable (f s) = Sel_Enable s"
  shows "keeps w (upd_iface k (upd_Selection f) w)" "kept b w (upd_iface k (upd_Selection f) w)"
  using assms by (auto intro!: kept_upd_iface keeps_upd_iface keeps_refl simp: if_place_def upd_Selection_def iface_shape_def)

lemma change_group_ok:
  assumes wf: "wf_db w" and d: "iface_at k w = Some d"
  shows "okx (kept b) w (change_group idx n k w) (\<lambda>_. True)"
proof (cases "Sel_Group (If_Selection d) = n")
  case True
  with wf d show ?thesis by (simp add: change_group_def dml.return_same)
next
  case False
  have "okx (kept b) w (do {
      (_, w) \<leftarrow> with_group (n - 1) () (\<lambda>g w. Some ((), upd_group g (join_group idx) w)) w;
      (_, w) \<leftarrow> with_group (Sel_Group (If_Selection d) - 1) () (\<lambda>g w. Some ((), upd_group g (leave_group idx) w)) w;
      Some ((), upd_iface k (upd_Selection (\<lambda>s. s\<lparr>Sel_Group := n\<rparr>)) w) }) (\<lambda>_. True)"
    by (rule dml.bind_pair [OF group_keeps [OF wf]], simp add: join_group_def,
        rule dml.bind_pair [OF group_keeps], assumption, simp add: leave_group_def,
        rule dml.return) (simp_all add: kept_upd_Selection)
  with False d show ?thesis by (simp add: change_group_def)
qed

lemma set_selection_ok:
  assumes wf: "wf_db w" and h: "iface_handle h w"
  shows "okx (kept b) w (WanIfSelectionCfg_SetParamUlongValue h p n w) (\<lambda>_. True)"
  unfolding WanIfSelectionCfg_SetParamUlongValue_def
proof (rule dml_iface [OF wf h])
  fix j x
  assume j: "h = Some j" "iface_at j w = Some x" and wf': "wf_db (mlock w)"
  have x: "iface_at j (mlock w) = Some x" using j(2) by simp
  from change_group_ok [OF wf' x, of b "If_uiIfaceIdx x" n]
  have grp: "okx (kept b) (mlock w) (do { (_, w) \<leftarrow> change_group (If_uiIfaceIdx x) n j (mlock w); Some (True, w) }) (\<lambda>_. True)"
    by (rule dml.bind_pair) (simp add: dml.return_same)
  show "okx (kept b) (mlock w) (if p = ''Timeout''
       then Some (True, upd_iface j (upd_Selection (\<lambda>s. s\<lparr>Sel_Timeout := n\<rparr>)) (mlock w))
       else if p = ''Group''
       then if MAX_INTERFACE_GROUP < n then Some (True, mlock w)
            else do {
              i \<leftarrow> h;
              x \<leftarrow> iface_at i (mlock w);
              (_, w) \<leftarrow> change_group (If_uiIfaceIdx x) n j (mlock w);
              Some (True, w) }
       else Some (False, mlock w)) (\<lambda>_. True)"
    using j grp wf' by (auto intro!: dml.return_same dml.return simp: kept_upd_Selection simp del: lock_upd)
qed simp

subsection \<open>Virtual interfaces\<close>

text \<open>Whether or not the lookup finds the instance, the release gives the mutex back.\<close>

lemma virtif_entry_ok:
  assumes wf: "wf_db w" and h: "iface_handle h w"
  shows "okx (kept b) w (WanVirtualIf_GetEntry h n m w) (\<lambda>_. True)"
proof (cases h)
  case None
  then show ?thesis using wf by (simp add: WanVirtualIf_GetEntry_def dml.return_same)
next
  case (Some j)
  with h have j: "j < unat (total_ifaces w)" by (simp add: iface_handle_def)
  with wf obtain x where x: "iface_at j w = Some x" "wf_shape j (iface_shape x)" by (rule wf_db_iface_at)
  from index_bound [OF j] have u: "unat (of_nat j :: uint) = j" "of_nat j < total_ifaces w" by simp_all
  have "If_uiIfaceIdx x = of_nat j" using x(2) by (simp add: iface_shape_def)
  moreover have "pthread_mutex_lock w = (True, mlock w)" "pIface w \<noteq> None"
    using wf by (auto simp: wf_db_def pthread_mutex_lock_def split: option.splits)
  ultimately show ?thesis using Some x(1) u wf
    by (simp add: WanVirtualIf_GetEntry_def WanMgr_getVirtualIface_locked_def release_defs dml.return_same)
qed

lemma kept_virtif_step:
  assumes "wf_db w" "\<And>v. vif_place b (f v) = vif_place b v"
  shows "keeps w (upd_virtif p f w)" "kept b w (upd_virtif p f w)"
proof -
  show k: "kept b w (upd_virtif p f w)" by (rule kept_upd_virtif [OF assms(2)])
  show "keeps w (upd_virtif p f w)" by (rule kept_keeps [OF assms(1) k]) (simp_all add: upd_virtif_def)
qed

lemma virtif_step_ok:
  "\<lbrakk>wf_db w; \<And>v. vif_place b (f v) = vif_place b v; R r\<rbrakk> \<Longrightarrow> okx (kept b) w (Some (r, upd_virtif p f w)) R"
  by (intro dml.return kept_virtif_step)

lemma kept_iface_step:
  assumes "wf_db w" "\<And>d. if_place b (f d) = if_place b d"
  shows "keeps w (upd_iface k f w)" "kept b w (upd_iface k f w)"
proof -
  show k: "kept b w (upd_iface k f w)" by (rule kept_upd_iface [OF assms(2)])
  show "keeps w (upd_iface k f w)" by (rule kept_keeps [OF assms(1) k]) simp_all
qed

lemma set_Enable_ok:
  assumes wf: "wf_db w" and v: "virtif_at p w = Some v"
  shows "okx (kept b) w (set_virtif_Enable x p w) (\<lambda>_. True)"
proof -
  have "okx (kept b) w (with_iface (VI_baseIfIdx v) () (\<lambda>k w. Some ((), upd_iface k (\<lambda>d. d\<lparr>If_VirtIfChanged := True\<rparr>) w)) w) (\<lambda>_. True)"
  proof (rule dml.iface [OF wf])
    assume "wf_db (mlock w)"
    from kept_iface_step [OF this] show "okx (kept b) (mlock w) (Some ((), upd_iface (unat (VI_baseIfIdx v))
        (\<lambda>d. d\<lparr>If_VirtIfChanged := True\<rparr>) (mlock w))) (\<lambda>_. True)"
      by (intro dml.return) (simp_all add: if_place_def del: lock_upd)
  qed simp
  then have "okx (kept b) w (do {
      (_, w) \<leftarrow> with_iface (VI_baseIfIdx v) () (\<lambda>k w. Some ((), upd_iface k (\<lambda>d. d\<lparr>If_VirtIfChanged := True\<rparr>) w)) w;
      Some (True, upd_virtif p (\<lambda>v. v\<lparr>VI_Enable := x\<rparr>) w) }) (\<lambda>_. True)"
    by (rule dml.bind_pair) (auto intro!: dml.return kept_virtif_step simp: vif_place_def)
  with wf v show ?thesis by (simp add: set_virtif_Enable_def dml.return_same)
qed

lemma check_type_db: "gWanMgrDataBase (snd (WanMgr_SetConnectivityCheckTypeToPSM e v t w)) = gWanMgrDataBase w"
  by (simp add: WanMgr_SetConnectivityCheckTypeToPSM_def psm_status_def bus_frame)

lemma set_IPoE_ok:
  assumes wf: "wf_db w" and v: "virtif_at p w = Some v"
  shows "okx (kept b) w (set_IPoE_check e x p w) (\<lambda>_. True)"
proof -
  let ?w = "\<lambda>t. snd (WanMgr_SetConnectivityCheckTypeToPSM e v t w)"
  let ?f = "\<lambda>t v. v\<lparr>VI_IP := (VI_IP v)\<lparr>IP_WCC_TypeChanged := True, IP_ConnectivityCheckType := t\<rparr>\<rparr>"
  have k: "keeps w (?w t)" "kept b w (?w t)" for t using kept_emit_only [OF wf check_type_db] by simp_all
  have "okx (kept b) w (Some (True, upd_virtif p (?f t) (?w t))) (\<lambda>_. True)" for t
    by (rule dml.step [OF k], rule virtif_step_ok [OF keeps_wf [OF k(1)]]) (simp_all add: vif_place_def)
  with wf v show ?thesis by (simp add: set_IPoE_check_def Let_def dml.return_same)
qed

lemma set_virtif_bool_ok:
  assumes wf: "wf_db w" and pl: "placed w" and h: "virtif_handle h w"
  shows "okx (kept b) w (WanVirtualIf_SetParamBoolValue e h p x w) (\<lambda>_. True)"
  unfolding WanVirtualIf_SetParamBoolValue_def
proof (rule dml_virtif [OF assms])
  fix q v
  assume v: "virtif_at q (mlock w) = Some v" and wf: "wf_db (mlock w)"
  show "okx (kept b) (mlock w) (if p = ''Enable'' then set_virtif_Enable x q (mlock w)
     else if p = ''EnableDSLite'' then Some (True, upd_virtif q (\<lambda>v. v\<lparr>VI_EnableDSLite := x\<rparr>) (mlock w))
     else if p = ''EnableIPoEHealthCheck'' then set_IPoE_check e x q (mlock w)
     else if p = ''EnableMAPT'' then Some (True, upd_virtif q (\<lambda>v. v\<lparr>VI_EnableMAPT := x\<rparr>) (mlock w))
     else if p = ''Reset''
     then Some (True, upd_virtif q (\<lambda>v. v\<lparr>VI_VLAN := (VI_VLAN v)\<lparr>VLAN_Reset := x\<rparr>\<rparr>) (mlock w))
     else Some (False, mlock w)) (\<lambda>_. True)"
    by (intro okx_if set_Enable_ok [OF wf v] set_IPoE_ok [OF wf v] virtif_step_ok [OF wf] dml.return_same wf) (simp_all add: vif_place_def)
qed

lemma commit_virtif_ok:
  assumes "wf_db w" "placed w" "virtif_handle h w"
  shows "okx (kept b) w (commit_virtif e h w) (\<lambda>_. True)"
  unfolding commit_virtif_def
proof (rule dml_virtif [OF assms])
  fix q v
  assume v: "virtif_at q (mlock w) = Some v" and wf: "wf_db (mlock w)"
  have "gWanMgrDataBase (write_Virtual_Interface_ToPSM e i j u (mlock w)) = gWanMgrDataBase (mlock w)" for i j u
    by (simp add: write_Virtual_Interface_ToPSM_def)
  from kept_emit_only [OF wf this] v show "okx (kept b) (mlock w) (do {
      v \<leftarrow> virtif_at q (mlock w);
      Some (0, write_Virtual_Interface_ToPSM e (unat (VI_baseIfIdx v + 1)) (unat (VI_VirIfIdx v)) v (mlock w)) }) (\<lambda>_. True)"
    by (simp add: dml.return)
qed

subsection \<open>The lists\<close>

lemma list_entry_run:
  assumes wf: "wf_db w" and k: "k < unat (total_ifaces w)" and v: "virtif_at (k, j) w = Some v"
  shows "list_entry_locked place (of_nat k) (of_nat j) w = Some (map_option (Pair (k, j)) (place v), mlock w)"
proof -
  from wf k obtain x where x: "iface_at k w = Some x" "wf_shape k (iface_shape x)" by (rule wf_db_iface_at)
  with v have vj: "v = If_VirtIfList x ! j" "j < length (If_VirtIfList x)" by (auto simp: virtif_at_def)
  from x(2) have "unat (If_NoOfVirtIfs x) = length (If_VirtIfList x)" by (simp add: iface_shape_def)
  with wf_shape_lookup(1) [OF x(2), of j] vj(2) have "virtif_position (If_VirtIfList x) (of_nat j) = Some j" by simp
  moreover have "pthread_mutex_lock w = (True, mlock w)" "pIface w \<noteq> None"
    using wf by (auto simp: wf_db_def pthread_mutex_lock_def split: option.splits)
  ultimately show ?thesis using x(1) vj index_bound [OF k] by (simp add: list_entry_locked_def)
qed

lemma in_order_entry:
  assumes "in_order v b (map key L)" "i < length L"
  shows "key (L ! i) = (i, v, b)" "unat (of_nat i :: uint) = i"
proof -
  from assms have "map key L = map (\<lambda>j. (j, v, b)) [0..<length L]" by (simp add: in_order_def)
  from arg_cong [OF this, of "\<lambda>l. l ! i"] assms(2) show "key (L ! i) = (i, v, b)" by simp
  from assms have "i < 2 ^ 32" by (simp add: in_order_def)
  then show "unat (of_nat i :: uint) = i" by (simp add: unat_of_nat)
qed

lemma position_own_index:
  assumes "\<And>j. j < length L \<Longrightarrow> idx (L ! j) = j" "i < length L"
  shows "position (\<lambda>t. idx t = i) L = Some i"
  using assms by (simp add: position_Some)

lemma place_of_list:
  assumes wf: "wf_db w" and pl: "placed w" and k: "k < unat (total_ifaces w)" and v: "virtif_at (k, j) w = Some v"
  shows "i < length (VLAN_InterfaceList (VI_VLAN v)) \<Longrightarrow>
      WanMgr_getVlanIface_locked (of_nat k) (of_nat j) (of_nat i) w = Some (Some ((k, j), i), mlock w) \<and>
      vlan_key (VLAN_InterfaceList (VI_VLAN v) ! i) = (i, of_nat j, of_nat k)"
    and "i < length (VLAN_VirtMarking (VI_VLAN v)) \<Longrightarrow>
      WanMgr_getVirtualMarking_locked (of_nat k) (of_nat j) (of_nat i) w = Some (Some ((k, j), i), mlock w) \<and>
      marking_key (VLAN_VirtMarking (VI_VLAN v) ! i) = (i, of_nat j, of_nat k)"
proof -
  from wf k obtain x where x: "iface_at k w = Some x" "wf_shape k (iface_shape x)" by (rule wf_db_iface_at)
  with v have vj: "v = If_VirtIfList x ! j" "j < length (If_VirtIfList x)" by (auto simp: virtif_at_def)
  from x(2) have "map VI_VirIfIdx (If_VirtIfList x) = map of_nat [0..<length (If_VirtIfList x)]" by (simp add: iface_shape_def)
  from arg_cong [OF this, of "\<lambda>l. l ! j"] vj have id: "VI_VirIfIdx v = of_nat j" by simp
  from placed_virtif(2,3) [OF assms] have base: "VI_baseIfIdx v = of_nat k"
    and vl: "in_order (of_nat j) (of_nat k) (map vlan_key (VLAN_InterfaceList (VI_VLAN v)))"
    and ml: "in_order (of_nat j) (of_nat k) (map marking_key (VLAN_VirtMarking (VI_VLAN v)))"
    by (simp_all add: lists_placed_def id)
  note run = list_entry_run [OF wf k v]
  show "WanMgr_getVlanIface_locked (of_nat k) (of_nat j) (of_nat i) w = Some (Some ((k, j), i), mlock w) \<and>
      vlan_key (VLAN_InterfaceList (VI_VLAN v) ! i) = (i, of_nat j, of_nat k)"
    if i: "i < length (VLAN_InterfaceList (VI_VLAN v))"
  proof
    from in_order_entry(1) [OF vl i] show "vlan_key (VLAN_InterfaceList (VI_VLAN v) ! i) = (i, of_nat j, of_nat k)" .
    have "VT_Index (VLAN_InterfaceList (VI_VLAN v) ! n) = n" if "n < length (VLAN_InterfaceList (VI_VLAN v))" for n
      using in_order_entry(1) [OF vl that] by (simp add: vlan_key_def)
    from position_own_index [of _ VT_Index, OF this i] in_order_entry(2) [OF vl i]
    show "WanMgr_getVlanIface_locked (of_nat k) (of_nat j) (of_nat i) w = Some (Some ((k, j), i), mlock w)"
      by (simp add: WanMgr_getVlanIface_locked_def run del: unsigned_of_nat of_nat_take_bit)
  qed
  show "WanMgr_getVirtualMarking_locked (of_nat k) (of_nat j) (of_nat i) w = Some (Some ((k, j), i), mlock w) \<and>
      marking_key (VLAN_VirtMarking (VI_VLAN v) ! i) = (i, of_nat j, of_nat k)"
    if i: "i < length (VLAN_VirtMarking (VI_VLAN v))"
  proof
    from in_order_entry(1) [OF ml i] show "marking_key (VLAN_VirtMarking (VI_VLAN v) ! i) = (i, of_nat j, of_nat k)" .
    have "VM_VirtMarkingInstanceNumber (VLAN_VirtMarking (VI_VLAN v) ! n) = n" if "n < length (VLAN_VirtMarking (VI_VLAN v))" for n
      using in_order_entry(1) [OF ml that] by (simp add: marking_key_def)
    from position_own_index [of _ VM_VirtMarkingInstanceNumber, OF this i] in_order_entry(2) [OF ml i]
    show "WanMgr_getVirtualMarking_locked (of_nat k) (of_nat j) (of_nat i) w = Some (Some ((k, j), i), mlock w)"
      by (simp add: WanMgr_getVirtualMarking_locked_def run del: unsigned_of_nat of_nat_take_bit)
  qed
qed

text \<open>The body of a handler runs on the entry of its handle.\<close>

lemma okx_unlock:
  assumes wf: "wf_db w" and m: "okx (kept b) (mlock w) m R"
  shows "okx (kept b) w (map_option (apsnd pthread_mutex_unlock) m) R"
proof -
  from m obtain r w' where w': "m = Some (r, w')" "keeps (mlock w) w'" "kept b (mlock w) w'" "R r" by (rule okxE)
  from keeps_unlock [OF wf_db_mutex [OF wf] w'(2)] w' dml.eff_lock show ?thesis by (simp add: okx_def ok_def)
qed

lemma dml_vlan:
  assumes wf: "wf_db w" and pl: "placed w" and h: "vlan_handle h w"
    and body: "\<And>p t. \<lbrakk>h = Some p; vlan_at p (mlock w) = Some t; wf_db (mlock w)\<rbrakk> \<Longrightarrow> okx (kept b) (mlock w) (body p (mlock w)) R"
  shows "okx (kept b) w (with_dml_vlan h d body w) R"
proof -
  from h obtain k j i v where p: "h = Some ((k, j), i)" "k < unat (total_ifaces w)" "virtif_at (k, j) w = Some v"
    "i < length (VLAN_InterfaceList (VI_VLAN v))"
    by (auto simp: vlan_handle_def vlan_at_def bind_eq_Some_conv split: option.splits)
  let ?t = "VLAN_InterfaceList (VI_VLAN v) ! i"
  have t: "vlan_at ((k, j), i) w = Some ?t" using p(3,4) by (simp add: vlan_at_def)
  then have t': "vlan_at ((k, j), i) (mlock w) = Some ?t" by (simp add: vlan_at_def virtif_at_def)
  from place_of_list(1) [OF wf pl p(2-4)] have
    "WanMgr_getVlanIface_locked (VT_baseIfIdx ?t) (VT_VirIfIdx ?t) (of_nat (VT_Index ?t)) w = Some (Some ((k, j), i), mlock w)"
    by (auto simp: vlan_key_def)
  then have "with_dml_vlan h d body w = map_option (apsnd pthread_mutex_unlock) (body ((k, j), i) (mlock w))"
    using p(1) t by (cases "body ((k, j), i) (mlock w)") (auto simp: with_dml_vlan_def WanMgr_VlanIfaceMutex_release_def)
  with okx_unlock [OF wf body [OF p(1) t']] wf show ?thesis by simp
qed

lemma dml_marking:
  assumes wf: "wf_db w" and pl: "placed w" and h: "marking_handle h w"
    and body: "\<And>p m. \<lbrakk>h = Some p; marking_at p (mlock w) = Some m; wf_db (mlock w)\<rbrakk> \<Longrightarrow> okx (kept b) (mlock w) (body p (mlock w)) R"
  shows "okx (kept b) w (with_dml_marking h d body w) R"
proof -
  from h obtain k j i v where p: "h = Some ((k, j), i)" "k < unat (total_ifaces w)" "virtif_at (k, j) w = Some v"
    "i < length (VLAN_VirtMarking (VI_VLAN v))"
    by (auto simp: marking_handle_def marking_at_def bind_eq_Some_conv split: option.splits)
  let ?m = "VLAN_VirtMarking (VI_VLAN v) ! i"
  have m: "marking_at ((k, j), i) w = Some ?m" using p(3,4) by (simp add: marking_at_def)
  then have m': "marking_at ((k, j), i) (mlock w) = Some ?m" by (simp add: marking_at_def virtif_at_def)
  from place_of_list(2) [OF wf pl p(2-4)] have
    "WanMgr_getVirtualMarking_locked (VM_baseIfIdx ?m) (VM_VirIfIdx ?m) (of_nat (VM_VirtMarkingInstanceNumber ?m)) w =
      Some (Some ((k, j), i), mlock w)"
    by (auto simp: marking_key_def)
  then have "with_dml_marking h d body w = map_option (apsnd pthread_mutex_unlock) (body ((k, j), i) (mlock w))"
    using p(1) m by (cases "body ((k, j), i) (mlock w)") (auto simp: with_dml_marking_def WanMgr_VirtMarkingMutex_release_def)
  with okx_unlock [OF wf body [OF p(1) m']] wf show ?thesis by simp
qed

text \<open>The place the accessors return is that of the entry the searches of the code return.\<close>

lemma vlan_position: "WanMgr_getVirtVlanIfById ts i = Option.bind (position (\<lambda>t. VT_Index t = unat i) ts) (nth_opt ts)"
  by (induction ts) (auto simp: nth_opt_def split: bind_splits)

lemma marking_position:
  "WanMgr_getVirtMakingById ms i = Option.bind (position (\<lambda>m. VM_VirtMarkingInstanceNumber m = unat i) ms) (nth_opt ms)"
  by (induction ms) (auto simp: nth_opt_def split: bind_splits)

lemma list_entries_ok:
  assumes wf: "wf_db w" and pl: "placed w"
  shows "virtif_handle (Some p) w \<Longrightarrow> vlan_at (p, unat n) w \<noteq> None \<Longrightarrow>
      okx (kept b) w (WanIfVlanCfg_GetEntry (Some p) n m w) (\<lambda>_. True)"
    and "virtif_handle (Some p) w \<Longrightarrow> marking_at (p, unat n) w \<noteq> None \<Longrightarrow>
      okx (kept b) w (WanIfVlanMarking_GetEntry (Some p) n m w) (\<lambda>_. True)"
proof -
  have at: "virtif_at p w = Some v \<and> fst p < unat (total_ifaces w) \<Longrightarrow> VI_baseIfIdx v = of_nat (fst p) \<and> VI_VirIfIdx v = of_nat (snd p)" for v
  proof -
    assume a: "virtif_at p w = Some v \<and> fst p < unat (total_ifaces w)"
    then obtain x where x: "iface_at (fst p) w = Some x" "wf_shape (fst p) (iface_shape x)" using wf_db_iface_at [OF wf] by metis
    with a have vj: "v = If_VirtIfList x ! snd p" "snd p < length (If_VirtIfList x)" by (auto simp: virtif_at_def)
    from x(2) have "map VI_VirIfIdx (If_VirtIfList x) = map of_nat [0..<length (If_VirtIfList x)]" by (simp add: iface_shape_def)
    from arg_cong [OF this, of "\<lambda>l. l ! snd p"] vj have "VI_VirIfIdx v = of_nat (snd p)" by simp
    with placed_virtif(2) [OF wf pl, of "fst p" "snd p" v] a show ?thesis by simp
  qed
  show "okx (kept b) w (WanIfVlanCfg_GetEntry (Some p) n m w) (\<lambda>_. True)"
    if h: "virtif_handle (Some p) w" and e: "vlan_at (p, unat n) w \<noteq> None"
  proof -
    from h e obtain v where v: "virtif_at p w = Some v" "fst p < unat (total_ifaces w)"
      "unat n < length (VLAN_InterfaceList (VI_VLAN v))"
      by (auto simp: virtif_handle_def vlan_at_def bind_eq_Some_conv)
    with place_of_list(1) [OF wf pl, of "fst p" "snd p" v "unat n"] at [of v] wf show ?thesis
      by (simp add: WanIfVlanCfg_GetEntry_def list_get_entry_def WanMgr_VlanIfaceMutex_release_def dml.return_same)
  qed
  show "okx (kept b) w (WanIfVlanMarking_GetEntry (Some p) n m w) (\<lambda>_. True)"
    if h: "virtif_handle (Some p) w" and e: "marking_at (p, unat n) w \<noteq> None"
  proof -
    from h e obtain v where v: "virtif_at p w = Some v" "fst p < unat (total_ifaces w)"
      "unat n < length (VLAN_VirtMarking (VI_VLAN v))"
      by (auto simp: virtif_handle_def marking_at_def bind_eq_Some_conv)
    with place_of_list(2) [OF wf pl, of "fst p" "snd p" v "unat n"] at [of v] wf show ?thesis
      by (simp add: WanIfVlanMarking_GetEntry_def list_get_entry_def WanMgr_VirtMarkingMutex_release_def dml.return_same)
  qed
qed

lemma upd_list_place:
  assumes "\<And>t. vlan_key (f t) = vlan_key t" "\<And>m. marking_key (g m) = marking_key m"
  shows "vif_place b (v\<lparr>VI_VLAN := (VI_VLAN v)\<lparr>VLAN_InterfaceList := map_nth i f (VLAN_InterfaceList (VI_VLAN v))\<rparr>\<rparr>) = vif_place b v"
    "vif_place b (v\<lparr>VI_VLAN := (VI_VLAN v)\<lparr>VLAN_VirtMarking := map_nth i g (VLAN_VirtMarking (VI_VLAN v))\<rparr>\<rparr>) = vif_place b v"
  using map_map_nth [of vlan_key f i, OF assms(1)] map_map_nth [of marking_key g i, OF assms(2)]
  by (simp_all add: vif_place_def)

lemma list_handlers_ok:
  assumes wf: "wf_db w" and pl: "placed w"
  shows "vlan_handle h w \<Longrightarrow> (\<And>q t. h = Some q \<Longrightarrow> vlan_at q w = Some t \<Longrightarrow> length (VT_Interface t) < unat (snd buf)) \<Longrightarrow>
      okx (kept b) w (WanIfVlanCfg_GetParamStringValue h p buf w) (\<lambda>_. True)"
    "vlan_handle h w \<Longrightarrow> length s < 128 \<Longrightarrow> okx (kept b) w (WanIfVlanCfg_SetParamStringValue h p s w) (\<lambda>_. True)"
    "vlan_handle h w \<Longrightarrow> okx (kept b) w (WanIfVlanCfg_Commit e h w) (\<lambda>_. True)"
    "marking_handle h w \<Longrightarrow> okx (kept b) w (WanIfVlanMarking_GetParamIntValue h p n w) (\<lambda>_. True)"
    "marking_handle h w \<Longrightarrow> okx (kept b) w (WanIfVlanMarking_SetParamIntValue h p n w) (\<lambda>_. True)"
    "marking_handle h w \<Longrightarrow> okx (kept b) w (WanIfVlanMarking_Commit e h w) (\<lambda>_. True)"
proof -
  have at: "vlan_at q (mlock w) = vlan_at q w" for q by (simp add: vlan_at_def virtif_at_def)
  have db: "gWanMgrDataBase (write_VlanInterface_ParametersToPSM e t u) = gWanMgrDataBase u"
    "gWanMgrDataBase (write_VirtMarking_ParametersToPSM e m u) = gWanMgrDataBase u" for t m u
    by (simp_all add: write_VlanInterface_ParametersToPSM_def write_VirtMarking_ParametersToPSM_def psm_write_db del: psm_write_Cons)
  show "okx (kept b) w (WanIfVlanCfg_GetParamStringValue h p buf w) (\<lambda>_. True)"
    if "vlan_handle h w" "\<And>q t. h = Some q \<Longrightarrow> vlan_at q w = Some t \<Longrightarrow> length (VT_Interface t) < unat (snd buf)"
    unfolding WanIfVlanCfg_GetParamStringValue_def using that(2)
    by (intro dml_vlan [OF wf pl that(1)]) (simp_all add: at copy_in_def dml.return_same)
  show "okx (kept b) w (WanIfVlanCfg_SetParamStringValue h p s w) (\<lambda>_. True)" if "vlan_handle h w" "length s < 128"
    unfolding WanIfVlanCfg_SetParamStringValue_def upd_vlan_def using that(2)
    by (intro dml_vlan [OF wf pl that(1)])
      (auto intro!: dml.return_same virtif_step_ok upd_list_place(1) simp: copy_in_def vlan_key_def)
  show "okx (kept b) w (WanIfVlanCfg_Commit e h w) (\<lambda>_. True)" if "vlan_handle h w"
    unfolding WanIfVlanCfg_Commit_def
    by (intro dml_vlan [OF wf pl that]) (auto intro!: dml.return kept_emit_only simp: db)
  show "okx (kept b) w (WanIfVlanMarking_GetParamIntValue h p n w) (\<lambda>_. True)" if "marking_handle h w"
    unfolding WanIfVlanMarking_GetParamIntValue_def
    by (intro dml_marking [OF wf pl that]) (auto intro!: dml.return_same)
  show "okx (kept b) w (WanIfVlanMarking_SetParamIntValue h p n w) (\<lambda>_. True)" if "marking_handle h w"
    unfolding WanIfVlanMarking_SetParamIntValue_def upd_marking_def
    by (intro dml_marking [OF wf pl that])
      (auto intro!: dml.return_same virtif_step_ok upd_list_place(2) simp: marking_key_def)
  show "okx (kept b) w (WanIfVlanMarking_Commit e h w) (\<lambda>_. True)" if "marking_handle h w"
    unfolding WanIfVlanMarking_Commit_def
    by (intro dml_marking [OF wf pl that]) (auto intro!: dml.return kept_emit_only simp: db)
qed

subsection \<open>The manager and the groups\<close>

definition group_handle :: "nat option \<Rightarrow> world \<Rightarrow> bool" where
  "group_handle h w \<longleftrightarrow> (case h of None \<Rightarrow> False | Some j \<Rightarrow> group_at j w \<noteq> None)"

lemma group_step_ok:
  "\<lbrakk>wf_db w; \<And>g. G_SelectedInterface (f g) = G_SelectedInterface g; R r\<rbrakk> \<Longrightarrow> okx (kept b) w (Some (r, upd_group k f w)) R"
  by (intro dml.return kept_group)

lemma config_step_ok:
  assumes "wf_db w" "R r"
  shows "okx (kept b) w (Some (r, upd_config f w)) R"
  using assms by (intro dml.return keeps_upd_config keeps_refl) (simp_all add: kept_def)

lemma db_step_ok:
  assumes "wf_db w" "gWanMgrDataBase w' = gWanMgrDataBase w" "okx (kept b) w' m R"
  shows "okx (kept b) w m R"
  using assms by (intro dml.step [OF kept_emit_only [OF assms(1,2)]])

lemma dml_group:
  assumes wf: "wf_db w" and h: "group_handle h w" and null: "R d"
    and body: "\<And>k G. \<lbrakk>group_at k (mlock w) = Some G; wf_db (mlock w)\<rbrakk> \<Longrightarrow> okx (kept b) (mlock w) (body k (mlock w)) R"
  shows "okx (kept b) w (with_dml_group h d body w) R"
proof -
  from h obtain j G where "h = Some j" "group_at j w = Some G" by (auto simp: group_handle_def split: option.splits)
  then have "with_dml_group h d body w = with_group (G_groupIdx G) d body w" by (simp add: with_dml_group_def)
  moreover have "okx (kept b) w (with_group (G_groupIdx G) d body w) R"
    using wf null by (rule dml.group) (simp add: body)
  ultimately show ?thesis by simp
qed

lemma put_policy_selected: "G_SelectedInterface (put_policy n G) = G_SelectedInterface G"
  by (simp add: put_policy_def)

lemma setWanPolicy_db: "gWanMgrDataBase (snd (WanMgr_RdkBus_setWanPolicy e p g w)) = gWanMgrDataBase w"
proof -
  obtain fine w' where r: "WanMgr_RdkBus_SetParamValuesToDB e (PSM_WANMANAGER_GROUP_POLICY (g + 1)) (show_int p) w = (fine, w')"
    by (cases rule: prod.exhaust)
  with bus_frame(1) [of e "PSM_WANMANAGER_GROUP_POLICY (g + 1)" "show_int p" w]
  have "gWanMgrDataBase w' = gWanMgrDataBase w" by simp
  with r show ?thesis by (cases fine) (simp_all add: WanMgr_RdkBus_setWanPolicy_def)
qed

lemma psm_status_db:
  "WanMgr_RdkBus_setWanPolicy e p g w = (st, w') \<Longrightarrow> gWanMgrDataBase w' = gWanMgrDataBase w"
  "WanMgr_RdkBus_setRestorationDelay e n w = (st, w') \<Longrightarrow> gWanMgrDataBase w' = gWanMgrDataBase w"
  "gWanMgrDataBase (snd (WanMgr_RdkBus_setWanEnableToPsm e x w)) = gWanMgrDataBase w"
  "gWanMgrDataBase (snd (WanMgr_RdkBus_setAllowRemoteIfaceToPsm e x w)) = gWanMgrDataBase w"
  using setWanPolicy_db [of e p g w]
  by (auto simp: WanMgr_RdkBus_setRestorationDelay_def WanMgr_RdkBus_setWanEnableToPsm_def
      WanMgr_RdkBus_setAllowRemoteIfaceToPsm_def psm_status_def bus_frame)

lemma group_handlers_ok:
  assumes wf: "wf_db w" and h: "group_handle h w"
  shows "okx (kept b) w (WanManagerGroup_GetParamBoolValue h p x w) (\<lambda>_. True)"
    "okx (kept b) w (WanManagerGroup_SetParamBoolValue h p x w) (\<lambda>_. True)"
    "okx (kept b) w (WanManagerGroup_GetParamUlongValue h p n w) (\<lambda>_. True)"
    "okx (kept b) w (WanManagerGroup_SetParamUlongValue e h p n w) (\<lambda>_. True)"
proof -
  show "okx (kept b) w (WanManagerGroup_GetParamBoolValue h p x w) (\<lambda>_. True)"
    unfolding WanManagerGroup_GetParamBoolValue_def by (rule dml_group [OF wf h]) (auto intro: dml.return_same)
  show "okx (kept b) w (WanManagerGroup_SetParamBoolValue h p x w) (\<lambda>_. True)"
    unfolding WanManagerGroup_SetParamBoolValue_def
  proof (rule dml_group [OF wf h])
    fix k G
    assume G: "group_at k (mlock w) = Some G" and wf: "wf_db (mlock w)"
    note step = group_step_ok [OF wf, of "\<lambda>G. G\<lparr>G_ResetSelectedInterface := x\<rparr>" "\<lambda>_. True" True b k]
    from G wf step show "okx (kept b) (mlock w) (do {
        G \<leftarrow> group_at k (mlock w);
        Some (if p = ''ResetSelectedInterface''
              then (True, if x \<and> G_SelectedInterface G = 0 then mlock w
                          else upd_group k (\<lambda>G. G\<lparr>G_ResetSelectedInterface := x\<rparr>) (mlock w))
              else (False, mlock w)) }) (\<lambda>_. True)"
      by (simp add: dml.return_same del: lock_upd)
  qed simp
  show "okx (kept b) w (WanManagerGroup_GetParamUlongValue h p n w) (\<lambda>_. True)"
    unfolding WanManagerGroup_GetParamUlongValue_def by (rule dml_group [OF wf h]) (auto intro: dml.return_same)
  show "okx (kept b) w (WanManagerGroup_SetParamUlongValue e h p n w) (\<lambda>_. True)"
    unfolding WanManagerGroup_SetParamUlongValue_def
  proof (rule dml_group [OF wf h])
    fix k G
    assume G: "group_at k (mlock w) = Some G" and wf: "wf_db (mlock w)"
    obtain st w1 where w1: "WanMgr_RdkBus_setWanPolicy e (sint n) (G_groupIdx G) (mlock w) = (st, w1)" by (cases rule: prod.exhaust)
    note db = psm_status_db(1) [OF w1]
    have wf1: "wf_db w1" using wf wf_db_same [OF db] by simp
    have "okx (kept b) (mlock w) (Some (st = ANSC_STATUS_SUCCESS,
        if st = ANSC_STATUS_SUCCESS then upd_group k (put_policy n) w1 else w1)) (\<lambda>_. True)"
      using wf1 by (intro db_step_ok [OF wf db]) (simp add: group_step_ok put_policy_selected dml.return_same)
    with G w1 wf show "okx (kept b) (mlock w) (do {
        G \<leftarrow> group_at k (mlock w);
        Some (if p = ''Policy''
              then (case WanMgr_RdkBus_setWanPolicy e (sint n) (G_groupIdx G) (mlock w) of
                      (ANSC_STATUS_SUCCESS, w) \<Rightarrow> (True, upd_group k (put_policy n) w)
                    | (ANSC_STATUS_FAILURE, w) \<Rightarrow> (False, w))
              else (False, mlock w)) }) (\<lambda>_. True)"
      by (cases st) (simp_all add: dml.return_same)
  qed simp
qed

text \<open>The critical section of the manager's handlers.\<close>

lemma config_section_ok:
  assumes wf: "wf_db w" and body: "wf_db (mlock w) \<Longrightarrow> okx (kept b) (mlock w) (body (mlock w)) R"
  shows "okx (kept b) w (case WanMgr_GetConfigData_locked w of
      (False, w) \<Rightarrow> Some (d, w)
    | (True, w) \<Rightarrow> do { (r, w) \<leftarrow> body w; Some (r, WanMgrDml_GetConfigData_release w) }) R"
proof -
  have "pthread_mutex_lock w = (True, mlock w)" using wf_db_mutex [OF wf] by (simp add: pthread_mutex_lock_def)
  then have "(case WanMgr_GetConfigData_locked w of
      (False, w) \<Rightarrow> Some (d, w)
    | (True, w) \<Rightarrow> do { (r, w) \<leftarrow> body w; Some (r, WanMgrDml_GetConfigData_release w) }) =
      map_option (apsnd pthread_mutex_unlock) (body (mlock w))"
    by (cases "body (mlock w)") (auto simp: WanMgr_GetConfigData_locked_def release_defs)
  with okx_unlock [OF wf body] wf show ?thesis by simp
qed

lemma read_group_ok:
  assumes "wf_db w"
  shows "okx (kept b) w (with_group i d (\<lambda>g w. do { G \<leftarrow> group_at g w; Some (f G, w) }) w) (\<lambda>_. True)"
  by (rule dml.group [OF assms]) (auto intro: dml.return_same)

lemma set_policy_ok:
  assumes wf: "wf_db w"
  shows "okx (kept b) w (set_policy bd e n w) (\<lambda>_. True)"
proof -
  obtain st w1 where w1: "WanMgr_RdkBus_setWanPolicy e (sint n) 0 w = (st, w1)" by (cases rule: prod.exhaust)
  note db = psm_status_db(1) [OF w1]
  have wf1: "wf_db w1" using wf wf_db_same [OF db] by simp
  have "okx (kept b) w (do {
      (_, w) \<leftarrow> with_group 0 () (\<lambda>g w. Some ((), upd_group g (put_policy n) w)) w1;
      Some (True, w) }) (\<lambda>_. True)"
    by (rule db_step_ok [OF wf db], rule dml.bind_pair [OF group_keeps [OF wf1]])
      (simp_all add: put_policy_selected dml.return_same)
  moreover have "okx (kept b) w (Some (False, w1)) (\<lambda>_. True)"
    by (rule db_step_ok [OF wf db]) (simp add: wf1 dml.return_same)
  ultimately show ?thesis using w1 wf by (cases st) (simp_all add: set_policy_def dml.return_same)
qed

lemma manager_handlers_ok:
  assumes wf: "wf_db w"
  shows "okx (kept b) w (WanManager_GetParamUlongValue p n w) (\<lambda>_. True)"
    "okx (kept b) w (WanManager_SetParamUlongValue bd e p n w) (\<lambda>_. True)"
    "okx (kept b) w (WanManager_GetParamBoolValue p x w) (\<lambda>_. True)"
    "okx (kept b) w (WanManager_SetParamBoolValue e p x w) (\<lambda>_. True)"
proof -
  show "okx (kept b) w (WanManager_GetParamUlongValue p n w) (\<lambda>_. True)"
    unfolding WanManager_GetParamUlongValue_def
    by (rule config_section_ok [OF wf]) (intro okx_if read_group_ok dml.return_same, simp_all)
  show "okx (kept b) w (WanManager_GetParamBoolValue p x w) (\<lambda>_. True)"
    unfolding WanManager_GetParamBoolValue_def
    by (rule config_section_ok [OF wf]) (intro okx_if read_group_ok dml.return_same, simp_all)
  show "okx (kept b) w (WanManager_SetParamUlongValue bd e p n w) (\<lambda>_. True)"
    unfolding WanManager_SetParamUlongValue_def
  proof (rule config_section_ok [OF wf], intro okx_if set_policy_ok dml.return_same)
    assume wf: "wf_db (mlock w)"
    obtain st w1 where w1: "WanMgr_RdkBus_setRestorationDelay e n (mlock w) = (st, w1)" by (cases rule: prod.exhaust)
    note db = psm_status_db(2) [OF w1]
    have wf1: "wf_db w1" using wf wf_db_same [OF db] by simp
    have "okx (kept b) (mlock w) (Some (st = ANSC_STATUS_SUCCESS,
        if st = ANSC_STATUS_SUCCESS then upd_config (\<lambda>c. c\<lparr>Cfg_RestorationDelay := n\<rparr>) w1 else w1)) (\<lambda>_. True)"
      using wf1 by (intro db_step_ok [OF wf db]) (simp add: config_step_ok dml.return_same)
    with w1 show "okx (kept b) (mlock w) (case WanMgr_RdkBus_setRestorationDelay e n (mlock w) of
        (ANSC_STATUS_SUCCESS, w) \<Rightarrow> Some (True, upd_config (\<lambda>c. c\<lparr>Cfg_RestorationDelay := n\<rparr>) w)
      | (ANSC_STATUS_FAILURE, w) \<Rightarrow> Some (False, w)) (\<lambda>_. True)"
      by (cases st) simp_all
  qed simp_all
  show "okx (kept b) w (WanManager_SetParamBoolValue e p x w) (\<lambda>_. True)"
    unfolding WanManager_SetParamBoolValue_def
  proof (rule config_section_ok [OF wf], intro okx_if)
    assume wf: "wf_db (mlock w)"
    show "okx (kept b) (mlock w) (Some (True, upd_config (\<lambda>c. c\<lparr>Cfg_Enable := x\<rparr>)
        (snd (WanMgr_RdkBus_setWanEnableToPsm e x (mlock w))))) (\<lambda>_. True)"
      using wf wf_db_same [OF psm_status_db(3)]
      by (intro db_step_ok [OF wf psm_status_db(3) [of e x "mlock w"]] config_step_ok) simp_all
    show "okx (kept b) (mlock w) (do {
        (_, w) \<leftarrow> with_group 0 () (\<lambda>g w. Some ((), upd_group g (\<lambda>G. G\<lparr>G_ResetSelectedInterface := x\<rparr>) w)) (mlock w);
        Some (True, w) }) (\<lambda>_. True)"
      by (rule dml.bind_pair [OF group_keeps [OF wf]]) (simp_all add: dml.return_same)
    show "okx (kept b) (mlock w) (Some (True, snd (WanMgr_RdkBus_setAllowRemoteIfaceToPsm e x
        (upd_config (\<lambda>c. c\<lparr>Cfg_AllowRemoteInterfaces := x\<rparr>) (mlock w))))) (\<lambda>_. True)"
    proof -
      let ?u = "upd_config (\<lambda>c. c\<lparr>Cfg_AllowRemoteInterfaces := x\<rparr>) (mlock w)"
      have wfu: "wf_db ?u" using wf by simp
      have "keeps (mlock w) ?u" "kept b (mlock w) ?u"
        using wf by (auto intro!: keeps_upd_config keeps_refl simp: kept_def simp del: lock_upd)
      then show ?thesis by (rule dml.step) (rule dml.return [OF kept_emit_only [OF wfu psm_status_db(4)]], simp)
    qed
    show "okx (kept b) (mlock w) (Some (True, if x then reset_default_config (mlock w) else mlock w)) (\<lambda>_. True)"
      using wf by (intro dml.return kept_emit_only) (simp_all add: reset_default_config_def del: lock_upd)
    show "okx (kept b) (mlock w) (Some (False, mlock w)) (\<lambda>_. True)" using wf by (rule dml.return_same) simp
  qed
qed

subsection \<open>The DNS connectivity check\<close>

lemma get_dns_ok:
  assumes wf: "wf_db w"
  shows "okx (kept b) w (WanMgr_GetDnsConnectivityCheck w) (\<lambda>_. True)"
proof -
  have "okx (kept b) w (for_loop [0..<unat (total_ifaces w)] (\<lambda>i ctl.
       with_iface (of_nat i) (Continue ctl) (\<lambda>k w. do {
         d \<leftarrow> iface_at k w;
         Some (if If_NoOfVirtIfs d > 0
               then (case WanMgr_getVirtualIfaceById (If_VirtIfList d) 0 of
                       None \<Rightarrow> Continue ctl
                     | Some v \<Rightarrow> Break (IP_ConnectivityCheckType (VI_IP v) = WAN_CONNECTIVITY_TYPE_TAD))
               else Continue ctl, w) })) False w) (\<lambda>_. True)"
    by (rule dml.loop [OF wf]) (auto intro!: dml.iface dml.return_same)
  with wf show ?thesis by (simp add: WanMgr_GetDnsConnectivityCheck_def)
qed

lemma set_dns_check_ok:
  assumes wf: "wf_db w" and d: "iface_at k w = Some d" "wf_shape k (iface_shape d)" and i: "i < unat (If_NoOfVirtIfs d)"
  shows "okx (kept b) w (set_dns_check e t k i st w) (\<lambda>_. True)"
proof -
  from wf_shape_lookup [OF d(2) i] have j: "virtif_position (If_VirtIfList d) (of_nat i) = Some i" "i < length (If_VirtIfList d)" by simp_all
  let ?v = "If_VirtIfList d ! i"
  let ?f = "\<lambda>v. v\<lparr>VI_IP := (VI_IP v)\<lparr>IP_ConnectivityCheckType := t, IP_WCC_TypeChanged := True\<rparr>\<rparr>"
  obtain r w1 where w1: "WanMgr_SetConnectivityCheckTypeToPSM e ?v t w = (r, w1)" by (cases rule: prod.exhaust)
  have db: "gWanMgrDataBase w1 = gWanMgrDataBase w" using check_type_db [of e ?v t w] w1 by simp
  have wf1: "wf_db w1" using wf wf_db_same [OF db] by simp
  have "okx (kept b) w (Some (ANSC_STATUS_SUCCESS, upd_virtif (k, i) ?f w1)) (\<lambda>_. True)" "okx (kept b) w (Some (st, w1)) (\<lambda>_. True)"
    by (intro db_step_ok [OF wf db] virtif_step_ok [OF wf1]; simp add: vif_place_def)
      (intro db_step_ok [OF wf db] dml.return_same [OF wf1]; simp)
  with d(1) j w1 wf show ?thesis by (cases r) (simp_all add: set_dns_check_def Let_def dml.return_same)
qed

lemma set_dns_ok:
  assumes wf: "wf_db w"
  shows "okx (kept b) w (WanMgr_SetDnsConnectivityCheck e x w) (\<lambda>_. True)"
proof -
  let ?t = "if x then WAN_CONNECTIVITY_TYPE_TAD else WAN_CONNECTIVITY_TYPE_NO_CHECK"
  have inner: "okx (kept b) w (for_loop [0..<unat (If_NoOfVirtIfs d)]
      (\<lambda>v st w. continue (set_dns_check e t k v st w)) st w) (\<lambda>_. True)"
    if wf: "wf_db w" and d: "iface_at k w = Some d" "wf_shape k (iface_shape d)" for k d st w t
  proof (rule dml.loop_continue [OF wf])
    fix v st w'
    assume v: "v \<in> set [0..<unat (If_NoOfVirtIfs d)]" and wf': "wf_db w'" and eff: "kept b w w'"
    from kept_iface [OF eff d(1)] obtain d' where d': "iface_at k w' = Some d'" "if_place b d' = if_place b d" .
    with if_place_shape [OF d'(2)] d(2) v show "okx (kept b) w' (set_dns_check e t k v st w') (\<lambda>_. True)"
      by (intro set_dns_check_ok [OF wf' d'(1)]) (simp_all add: if_place_def)
  qed simp
  have "okx (kept b) w (for_loop [0..<unat (total_ifaces w)] (\<lambda>i st w. continue
       (with_iface (of_nat i) st (\<lambda>k w. do {
         d \<leftarrow> iface_at k w;
         for_loop [0..<unat (If_NoOfVirtIfs d)] (\<lambda>v st w. continue (set_dns_check e ?t k v st w)) st w }) w))
      ANSC_STATUS_FAILURE w) (\<lambda>_. True)"
    by (rule dml.loop_continue [OF wf]) (auto intro!: dml.iface inner)
  with wf show ?thesis by (simp add: WanMgr_SetDnsConnectivityCheck_def Let_def)
qed

lemma dns_handlers_ok:
  assumes wf: "wf_db w"
  shows "okx (kept b) w (WanMgr_DnsConnectivityCheck_GetParamBoolValue p x w) (\<lambda>_. True)"
    "okx (kept b) w (WanMgr_DnsConnectivityCheck_SetParamBoolValue e p x w) (\<lambda>_. True)"
  unfolding WanMgr_DnsConnectivityCheck_GetParamBoolValue_def WanMgr_DnsConnectivityCheck_SetParamBoolValue_def
  by (auto intro!: okx_if dml.return_same [OF wf] dml.bind_pair [OF get_dns_ok [OF wf]] dml.bind_pair [OF set_dns_ok [OF wf]]
      dml.return_same)

end
