(* ===== verification/WanDmlCalls.thy ===== *)
theory WanDmlCalls
  imports WanDmlHandlers
begin

text \<open>
  The calls of the data-model library as data: one constructor per handler, what the call does to the world, and
  when its arguments are ones the library passes: handles from the tables, texts that fit, numbers of enumerators.
  A program of the library is a list of such calls.
\<close>

datatype iface_call =
    IfGetEntryCount | IfGetEntry uint uint | IfIsUpdated
    | IfGetString "nat option" string "string \<times> uint" | IfSetString "nat option" string string
    | IfGetBool "nat option" string bool | IfSetBool "nat option" string bool
    | IfGetUlong "nat option" string uint | IfSetUlong "nat option" string uint | IfCommit "nat option"
    | SelGetInt "nat option" string int | SelSetInt "nat option" string int
    | SelGetUlong "nat option" string uint | SelSetUlong "nat option" string uint
    | SelGetBool "nat option" string bool | SelSetBool "nat option" string bool | SelCommit "nat option"
    | VifGetEntryCount "nat option" | VifGetEntry "nat option" uint uint

primrec exec_iface :: "env \<Rightarrow> iface_call \<Rightarrow> world \<Rightarrow> world option" where
  "exec_iface e IfGetEntryCount w = Some (snd (WanIf_GetEntryCount w))"
| "exec_iface e (IfGetEntry n m) w = Some (snd (WanIf_GetEntry n m w))"
| "exec_iface e IfIsUpdated w = Some (snd (WanIf_IsUpdated w))"
| "exec_iface e (IfGetString h p buf) w = map_option snd (WanIf_GetParamStringValue h p buf w)"
| "exec_iface e (IfSetString h p s) w = map_option snd (WanIf_SetParamStringValue h p s w)"
| "exec_iface e (IfGetBool h p x) w = map_option snd (WanIf_GetParamBoolValue h p x w)"
| "exec_iface e (IfSetBool h p x) w = map_option snd (WanIf_SetParamBoolValue h p x w)"
| "exec_iface e (IfGetUlong h p n) w = map_option snd (WanIf_GetParamUlongValue h p n w)"
| "exec_iface e (IfSetUlong h p n) w = map_option snd (WanIf_SetParamUlongValue h p n w)"
| "exec_iface e (IfCommit h) w = map_option snd (WanIf_Commit e h w)"
| "exec_iface e (SelGetInt h p n) w = map_option snd (WanIfSelectionCfg_GetParamIntValue h p n w)"
| "exec_iface e (SelSetInt h p n) w = map_option snd (WanIfSelectionCfg_SetParamIntValue h p n w)"
| "exec_iface e (SelGetUlong h p n) w = map_option snd (WanIfSelectionCfg_GetParamUlongValue h p n w)"
| "exec_iface e (SelSetUlong h p n) w = map_option snd (WanIfSelectionCfg_SetParamUlongValue h p n w)"
| "exec_iface e (SelGetBool h p x) w = map_option snd (WanIfSelectionCfg_GetParamBoolValue h p x w)"
| "exec_iface e (SelSetBool h p x) w = map_option snd (WanIfSelectionCfg_SetParamBoolValue h p x w)"
| "exec_iface e (SelCommit h) w = map_option snd (WanIfSelectionCfg_Commit e h w)"
| "exec_iface e (VifGetEntryCount h) w = map_option snd (WanVirtualIf_GetEntryCount h w)"
| "exec_iface e (VifGetEntry h n m) w = map_option snd (WanVirtualIf_GetEntry h n m w)"

primrec iface_call_ok :: "iface_call \<Rightarrow> world \<Rightarrow> bool" where
  "iface_call_ok IfGetEntryCount w \<longleftrightarrow> True"
| "iface_call_ok (IfGetEntry n m) w \<longleftrightarrow> True"
| "iface_call_ok IfIsUpdated w \<longleftrightarrow> True"
| "iface_call_ok (IfGetString h p buf) w \<longleftrightarrow> iface_handle h w"
| "iface_call_ok (IfSetString h p s) w \<longleftrightarrow> iface_handle h w \<and>
     length s < (if p = ''Name'' then 64 else 128)"
| "iface_call_ok (IfGetBool h p x) w \<longleftrightarrow> iface_handle h w"
| "iface_call_ok (IfSetBool h p x) w \<longleftrightarrow> iface_handle h w"
| "iface_call_ok (IfGetUlong h p n) w \<longleftrightarrow> iface_handle h w"
| "iface_call_ok (IfSetUlong h p n) w \<longleftrightarrow> iface_handle h w \<and>
     (p = ''OperationalStatus'' \<longrightarrow> enum_arg oper_of_code n \<noteq> None)"
| "iface_call_ok (IfCommit h) w \<longleftrightarrow> iface_handle h w"
| "iface_call_ok (SelGetInt h p n) w \<longleftrightarrow> iface_handle h w"
| "iface_call_ok (SelSetInt h p n) w \<longleftrightarrow> iface_handle h w"
| "iface_call_ok (SelGetUlong h p n) w \<longleftrightarrow> iface_handle h w"
| "iface_call_ok (SelSetUlong h p n) w \<longleftrightarrow> iface_handle h w"
| "iface_call_ok (SelGetBool h p x) w \<longleftrightarrow> iface_handle h w"
| "iface_call_ok (SelSetBool h p x) w \<longleftrightarrow> iface_handle h w"
| "iface_call_ok (SelCommit h) w \<longleftrightarrow> iface_handle h w"
| "iface_call_ok (VifGetEntryCount h) w \<longleftrightarrow> iface_handle h w"
| "iface_call_ok (VifGetEntry h n m) w \<longleftrightarrow> iface_handle h w"

datatype virtif_call =
    VifGetBool vhandle string bool | VifSetBool vhandle string bool
    | VifGetString vhandle string "string \<times> uint" | VifSetString vhandle string string
    | VifGetUlong vhandle string uint | VifSetUlong vhandle string uint | VifCommit vhandle
    | IpGetUlong vhandle string uint | IpSetUlong vhandle string uint
    | IpGetString vhandle string "string \<times> uint" | IpSetString vhandle string string | IpCommit vhandle
    | MaptGetUlong vhandle string uint | MaptSetUlong vhandle string uint
    | MaptGetString vhandle string "string \<times> uint" | MaptSetString vhandle string string
    | DsliteGetUlong vhandle string uint | DsliteSetUlong vhandle string uint
    | DsliteGetString vhandle string "string \<times> uint" | DsliteSetString vhandle string string
    | PppGetUlong vhandle string uint | PppSetUlong vhandle string uint
    | PppGetString vhandle string "string \<times> uint" | PppSetString vhandle string string
    | PppCommit vhandle

primrec exec_virtif :: "env \<Rightarrow> virtif_call \<Rightarrow> world \<Rightarrow> world option" where
  "exec_virtif e (VifGetBool h p x) w = map_option snd (WanVirtualIf_GetParamBoolValue h p x w)"
| "exec_virtif e (VifSetBool h p x) w = map_option snd (WanVirtualIf_SetParamBoolValue e h p x w)"
| "exec_virtif e (VifGetString h p buf) w = map_option snd (WanVirtualIf_GetParamStringValue h p buf w)"
| "exec_virtif e (VifSetString h p s) w = map_option snd (WanVirtualIf_SetParamStringValue h p s w)"
| "exec_virtif e (VifGetUlong h p n) w = map_option snd (WanVirtualIf_GetParamUlongValue h p n w)"
| "exec_virtif e (VifSetUlong h p n) w = map_option snd (WanVirtualIf_SetParamUlongValue h p n w)"
| "exec_virtif e (VifCommit h) w = map_option snd (WanVirtualIf_Commit e h w)"
| "exec_virtif e (IpGetUlong h p n) w = map_option snd (WanIfIpCfg_GetParamUlongValue h p n w)"
| "exec_virtif e (IpSetUlong h p n) w = map_option snd (WanIfIpCfg_SetParamUlongValue h p n w)"
| "exec_virtif e (IpGetString h p buf) w = map_option snd (WanIfIpCfg_GetParamStringValue h p buf w)"
| "exec_virtif e (IpSetString h p s) w = map_option snd (WanIfIpCfg_SetParamStringValue h p s w)"
| "exec_virtif e (IpCommit h) w = map_option snd (WanIfIpCfg_Commit e h w)"
| "exec_virtif e (MaptGetUlong h p n) w = map_option snd (WanIfMapt_GetParamUlongValue h p n w)"
| "exec_virtif e (MaptSetUlong h p n) w = map_option snd (WanIfMapt_SetParamUlongValue h p n w)"
| "exec_virtif e (MaptGetString h p buf) w = map_option snd (WanIfMapt_GetParamStringValue h p buf w)"
| "exec_virtif e (MaptSetString h p s) w = map_option snd (WanIfMapt_SetParamStringValue h p s w)"
| "exec_virtif e (DsliteGetUlong h p n) w = map_option snd (WanIfDSLite_GetParamUlongValue h p n w)"
| "exec_virtif e (DsliteSetUlong h p n) w = map_option snd (WanIfDSLite_SetParamUlongValue h p n w)"
| "exec_virtif e (DsliteGetString h p buf) w = map_option snd (WanIfDSLite_GetParamStringValue h p buf w)"
| "exec_virtif e (DsliteSetString h p s) w = map_option snd (WanIfDSLite_SetParamStringValue h p s w)"
| "exec_virtif e (PppGetUlong h p n) w = map_option snd (WanIfPPPCfg_GetParamUlongValue h p n w)"
| "exec_virtif e (PppSetUlong h p n) w = map_option snd (WanIfPPPCfg_SetParamUlongValue h p n w)"
| "exec_virtif e (PppGetString h p buf) w = map_option snd (WanIfPPPCfg_GetParamStringValue h p buf w)"
| "exec_virtif e (PppSetString h p s) w = map_option snd (WanIfPPPCfg_SetParamStringValue h p s w)"
| "exec_virtif e (PppCommit h) w = map_option snd (WanIfPPPCfg_Commit e h w)"

primrec virtif_call_ok :: "virtif_call \<Rightarrow> world \<Rightarrow> bool" where
  "virtif_call_ok (VifGetBool h p x) w \<longleftrightarrow> virtif_handle h w"
| "virtif_call_ok (VifSetBool h p x) w \<longleftrightarrow> virtif_handle h w"
| "virtif_call_ok (VifGetString h p buf) w \<longleftrightarrow> virtif_handle h w"
| "virtif_call_ok (VifSetString h p s) w \<longleftrightarrow> virtif_handle h w \<and> length s < 64"
| "virtif_call_ok (VifGetUlong h p n) w \<longleftrightarrow> virtif_handle h w"
| "virtif_call_ok (VifSetUlong h p n) w \<longleftrightarrow> virtif_handle h w"
| "virtif_call_ok (VifCommit h) w \<longleftrightarrow> virtif_handle h w"
| "virtif_call_ok (IpGetUlong h p n) w \<longleftrightarrow> virtif_handle h w"
| "virtif_call_ok (IpSetUlong h p n) w \<longleftrightarrow> virtif_handle h w \<and>
     (\<forall>ip. set_ip_param p n ip \<noteq> None)"
| "virtif_call_ok (IpGetString h p buf) w \<longleftrightarrow> virtif_handle h w"
| "virtif_call_ok (IpSetString h p s) w \<longleftrightarrow> virtif_handle h w \<and>
     length s < (if p = ''Interface'' then 64 else 128)"
| "virtif_call_ok (IpCommit h) w \<longleftrightarrow> virtif_handle h w"
| "virtif_call_ok (MaptGetUlong h p n) w \<longleftrightarrow> virtif_handle h w"
| "virtif_call_ok (MaptSetUlong h p n) w \<longleftrightarrow> virtif_handle h w"
| "virtif_call_ok (MaptGetString h p buf) w \<longleftrightarrow> virtif_handle h w"
| "virtif_call_ok (MaptSetString h p s) w \<longleftrightarrow> virtif_handle h w"
| "virtif_call_ok (DsliteGetUlong h p n) w \<longleftrightarrow> virtif_handle h w"
| "virtif_call_ok (DsliteSetUlong h p n) w \<longleftrightarrow> virtif_handle h w \<and>
     (p = ''Status'' \<longrightarrow> enum_arg dslite_of_code n \<noteq> None)"
| "virtif_call_ok (DsliteGetString h p buf) w \<longleftrightarrow> virtif_handle h w"
| "virtif_call_ok (DsliteSetString h p s) w \<longleftrightarrow> virtif_handle h w \<and> length s < 64"
| "virtif_call_ok (PppGetUlong h p n) w \<longleftrightarrow> virtif_handle h w"
| "virtif_call_ok (PppSetUlong h p n) w \<longleftrightarrow> virtif_handle h w \<and>
     (\<forall>ppp. set_ppp_param p n ppp \<noteq> None)"
| "virtif_call_ok (PppGetString h p buf) w \<longleftrightarrow> virtif_handle h w"
| "virtif_call_ok (PppSetString h p s) w \<longleftrightarrow> virtif_handle h w \<and> length s < 64"
| "virtif_call_ok (PppCommit h) w \<longleftrightarrow> virtif_handle h w"

datatype list_call =
    VlanGetEntryCount vhandle | VlanGetEntry vhandle uint uint
    | VlanGetString lhandle string "string \<times> uint" | VlanSetString lhandle string string
    | VlanCommit lhandle | MarkingGetEntryCount vhandle | MarkingGetEntry vhandle uint uint
    | MarkingGetInt lhandle string int | MarkingSetInt lhandle string int | MarkingCommit lhandle

primrec exec_list :: "env \<Rightarrow> list_call \<Rightarrow> world \<Rightarrow> world option" where
  "exec_list e (VlanGetEntryCount h) w = map_option snd (WanIfVlanCfg_GetEntryCount h w)"
| "exec_list e (VlanGetEntry h n m) w = map_option snd (WanIfVlanCfg_GetEntry h n m w)"
| "exec_list e (VlanGetString h p buf) w = map_option snd (WanIfVlanCfg_GetParamStringValue h p buf w)"
| "exec_list e (VlanSetString h p s) w = map_option snd (WanIfVlanCfg_SetParamStringValue h p s w)"
| "exec_list e (VlanCommit h) w = map_option snd (WanIfVlanCfg_Commit e h w)"
| "exec_list e (MarkingGetEntryCount h) w = map_option snd (WanIfVlanMarking_GetEntryCount h w)"
| "exec_list e (MarkingGetEntry h n m) w = map_option snd (WanIfVlanMarking_GetEntry h n m w)"
| "exec_list e (MarkingGetInt h p n) w = map_option snd (WanIfVlanMarking_GetParamIntValue h p n w)"
| "exec_list e (MarkingSetInt h p n) w = map_option snd (WanIfVlanMarking_SetParamIntValue h p n w)"
| "exec_list e (MarkingCommit h) w = map_option snd (WanIfVlanMarking_Commit e h w)"

primrec list_call_ok :: "list_call \<Rightarrow> world \<Rightarrow> bool" where
  "list_call_ok (VlanGetEntryCount h) w \<longleftrightarrow> virtif_handle h w"
| "list_call_ok (VlanGetEntry h n m) w \<longleftrightarrow> virtif_handle h w \<and>
     (\<exists>p. h = Some p \<and> vlan_at (p, unat n) w \<noteq> None)"
| "list_call_ok (VlanGetString h p buf) w \<longleftrightarrow> vlan_handle h w \<and>
     (\<forall>p t. h = Some p \<and> vlan_at p w = Some t \<longrightarrow> length (VT_Interface t) < unat (snd buf))"
| "list_call_ok (VlanSetString h p s) w \<longleftrightarrow> vlan_handle h w \<and> length s < 128"
| "list_call_ok (VlanCommit h) w \<longleftrightarrow> vlan_handle h w"
| "list_call_ok (MarkingGetEntryCount h) w \<longleftrightarrow> virtif_handle h w"
| "list_call_ok (MarkingGetEntry h n m) w \<longleftrightarrow> virtif_handle h w \<and>
     (\<exists>p. h = Some p \<and> marking_at (p, unat n) w \<noteq> None)"
| "list_call_ok (MarkingGetInt h p n) w \<longleftrightarrow> marking_handle h w"
| "list_call_ok (MarkingSetInt h p n) w \<longleftrightarrow> marking_handle h w"
| "list_call_ok (MarkingCommit h) w \<longleftrightarrow> marking_handle h w"

datatype manager_call =
    ManagerGetUlong string uint | ManagerSetUlong string uint | ManagerGetBool string bool
    | ManagerSetBool string bool | GroupGetEntryCount | GroupGetEntry uint uint
    | GroupGetBool "nat option" string bool | GroupSetBool "nat option" string bool
    | GroupGetUlong "nat option" string uint | GroupSetUlong "nat option" string uint | DnsGetBool string bool
    | DnsSetBool string bool

primrec exec_manager :: "build \<Rightarrow> env \<Rightarrow> manager_call \<Rightarrow> world \<Rightarrow> world option" where
  "exec_manager b e (ManagerGetUlong p n) w = map_option snd (WanManager_GetParamUlongValue p n w)"
| "exec_manager b e (ManagerSetUlong p n) w = map_option snd (WanManager_SetParamUlongValue b e p n w)"
| "exec_manager b e (ManagerGetBool p x) w = map_option snd (WanManager_GetParamBoolValue p x w)"
| "exec_manager b e (ManagerSetBool p x) w = map_option snd (WanManager_SetParamBoolValue e p x w)"
| "exec_manager b e GroupGetEntryCount w = Some (snd (WanManagerGroup_GetEntryCount w))"
| "exec_manager b e (GroupGetEntry n m) w = Some (snd (WanManagerGroup_GetEntry n m w))"
| "exec_manager b e (GroupGetBool h p x) w = map_option snd (WanManagerGroup_GetParamBoolValue h p x w)"
| "exec_manager b e (GroupSetBool h p x) w = map_option snd (WanManagerGroup_SetParamBoolValue h p x w)"
| "exec_manager b e (GroupGetUlong h p n) w = map_option snd (WanManagerGroup_GetParamUlongValue h p n w)"
| "exec_manager b e (GroupSetUlong h p n) w = map_option snd (WanManagerGroup_SetParamUlongValue e h p n w)"
| "exec_manager b e (DnsGetBool p x) w = map_option snd (WanMgr_DnsConnectivityCheck_GetParamBoolValue p x w)"
| "exec_manager b e (DnsSetBool p x) w = map_option snd (WanMgr_DnsConnectivityCheck_SetParamBoolValue e p x w)"

primrec manager_call_ok :: "manager_call \<Rightarrow> world \<Rightarrow> bool" where
  "manager_call_ok (ManagerGetUlong p n) w \<longleftrightarrow> True"
| "manager_call_ok (ManagerSetUlong p n) w \<longleftrightarrow> True"
| "manager_call_ok (ManagerGetBool p x) w \<longleftrightarrow> True"
| "manager_call_ok (ManagerSetBool p x) w \<longleftrightarrow> True"
| "manager_call_ok GroupGetEntryCount w \<longleftrightarrow> True"
| "manager_call_ok (GroupGetEntry n m) w \<longleftrightarrow> True"
| "manager_call_ok (GroupGetBool h p x) w \<longleftrightarrow> group_handle h w"
| "manager_call_ok (GroupSetBool h p x) w \<longleftrightarrow> group_handle h w"
| "manager_call_ok (GroupGetUlong h p n) w \<longleftrightarrow> group_handle h w"
| "manager_call_ok (GroupSetUlong h p n) w \<longleftrightarrow> group_handle h w"
| "manager_call_ok (DnsGetBool p x) w \<longleftrightarrow> True"
| "manager_call_ok (DnsSetBool p x) w \<longleftrightarrow> True"

subsection \<open>Every call is safe\<close>

lemma okx_exec: "okx (kept b) w m R \<Longrightarrow> \<exists>w'. map_option snd m = Some w' \<and> keeps w w' \<and> kept b w w'"
  by (auto simp: okx_def ok_def)

text \<open>What a setter makes of a record, along its branches.\<close>

lemma fine_if:
  "\<lbrakk>c \<Longrightarrow> \<exists>r y. m = Some (r, y) \<and> P y; \<not> c \<Longrightarrow> \<exists>r y. n = Some (r, y) \<and> P y\<rbrakk> \<Longrightarrow>
     \<exists>r y. (if c then m else n) = Some (r, y) \<and> P y"
  by simp

lemma fine_Some: "P y \<Longrightarrow> \<exists>r z. Some (q, y) = Some (r, z) \<and> P z"
  by simp

lemma fine_Some_if:
  "\<lbrakk>c \<Longrightarrow> P a; \<not> c \<Longrightarrow> P d\<rbrakk> \<Longrightarrow> \<exists>r z. Some (if c then (q, a) else (u, d)) = Some (r, z) \<and> P z"
  by auto

lemma fine_copy: "\<lbrakk>length s < n; P (f s)\<rbrakk> \<Longrightarrow> \<exists>r z. do { t \<leftarrow> copy_in n s; Some (q, f t) } = Some (r, z) \<and> P z"
  by (simp add: copy_in_def)

lemma fine_arg: "\<lbrakk>m \<noteq> None; \<And>x. P (f x)\<rbrakk> \<Longrightarrow> \<exists>r z. do { x \<leftarrow> m; Some (q, f x) } = Some (r, z) \<and> P z"
  by auto

lemma fine_pair: "\<lbrakk>m \<noteq> None; \<And>r x. P (f x)\<rbrakk> \<Longrightarrow> \<exists>r z. do { (r, x) \<leftarrow> m; Some (r, f x) } = Some (r, z) \<and> P z"
  by auto

lemmas fine = fine_if fine_copy fine_arg fine_pair fine_Some_if fine_Some

lemma total_Some: "\<exists>r. Some t = Some r"
  by simp

lemma total_if: "\<lbrakk>c \<Longrightarrow> \<exists>r. m = Some r; \<not> c \<Longrightarrow> \<exists>r. n = Some r\<rbrakk> \<Longrightarrow> \<exists>r. (if c then m else n) = Some r"
  by simp

lemma entry_calls:
  assumes wf: "wf_db w"
  shows "snd (WanIf_GetEntryCount w) = w" "snd (WanIf_GetEntry n m w) = w" "snd (WanManagerGroup_GetEntryCount w) = w"
    "snd (WanManagerGroup_GetEntry n m w) = w"
  using wf_db_mutex [OF wf]
  by (auto simp: WanIf_GetEntryCount_def WanIf_GetEntry_def WanManagerGroup_GetEntryCount_def WanManagerGroup_GetEntry_def
      total_wf [OF wf] WanMgr_GetIfaceData_locked_def WanMgr_GetIfaceGroup_locked_def pthread_mutex_lock_def release_defs)

lemma updated_call:
  assumes wf: "wf_db w"
  shows "keeps w (snd (WanIf_IsUpdated w))" "kept b w (snd (WanIf_IsUpdated w))"
proof -
  show k: "kept b w (snd (WanIf_IsUpdated w))" by (simp add: WanIf_IsUpdated_def kept_def set_update_def upd_db_def)
  show "keeps w (snd (WanIf_IsUpdated w))"
    by (rule kept_keeps [OF wf k]) (simp_all add: WanIf_IsUpdated_def set_update_def upd_db_def)
qed

lemma string_iface_ok:
  assumes "wf_db w" "iface_handle h w" "length s < (if p = ''Name'' then 64 else 128)"
  shows "okx (kept b) w (WanIf_SetParamStringValue h p s w) (\<lambda>_. True)"
  unfolding WanIf_SetParamStringValue_def
  by (rule write_iface_ok [OF assms(1,2)], intro fine) (use assms(3) in \<open>simp_all add: if_place_def\<close>)

lemma bool_iface_ok:
  assumes "wf_db w" "iface_handle h w"
  shows "okx (kept b) w (WanIf_GetParamBoolValue h p x w) (\<lambda>_. True)" "okx (kept b) w (WanIf_SetParamBoolValue h p x w) (\<lambda>_. True)"
proof -
  show "okx (kept b) w (WanIf_GetParamBoolValue h p x w) (\<lambda>_. True)"
    unfolding WanIf_GetParamBoolValue_def by (rule read_iface_ok [OF assms], intro total_if total_Some) (drule any_Reset_total, auto)
  show "okx (kept b) w (WanIf_SetParamBoolValue h p x w) (\<lambda>_. True)"
    unfolding WanIf_SetParamBoolValue_def
  proof (rule write_iface_ok [OF assms])
    fix j d
    assume "wf_shape j (iface_shape d)"
    from all_Reset_ok [OF this, of x b] obtain d' where "all_Reset x d = Some d'" "if_place b d' = if_place b d" by blast
    then have "\<exists>r y. map_option (Pair True) (all_Reset x d) = Some (r, y) \<and> if_place b y = if_place b d" by auto
    then show "\<exists>r y. (if p = ''ConfigureWanEnable'' then Some (True, d\<lparr>If_WanConfigEnabled := x\<rparr>)
       else if p = ''EnableCustomConfig'' then Some (True, d\<lparr>If_CustomConfigEnable := x\<rparr>)
       else if p = ''EnableOperStatusMonitor'' then Some (True, d\<lparr>If_MonitorOperStatus := x\<rparr>)
       else if p = ''Reset'' then map_option (Pair True) (all_Reset x d)
       else Some (False, d)) = Some (r, y) \<and> if_place b y = if_place b d"
      by (intro fine) (simp_all add: if_place_def)
  qed
qed

lemma number_iface_ok:
  assumes "wf_db w" "iface_handle h w"
  shows "okx (kept b) w (WanIf_GetParamUlongValue h p n w) (\<lambda>_. True)"
    "(p = ''OperationalStatus'' \<longrightarrow> enum_arg oper_of_code n \<noteq> None) \<Longrightarrow>
       okx (kept b) w (WanIf_SetParamUlongValue h p n w) (\<lambda>_. True)"
proof -
  show "okx (kept b) w (WanIf_GetParamUlongValue h p n w) (\<lambda>_. True)"
    unfolding WanIf_GetParamUlongValue_def by (rule read_iface_ok [OF assms], intro total_if total_Some) (auto dest!: wf_shape_head)
  show "okx (kept b) w (WanIf_SetParamUlongValue h p n w) (\<lambda>_. True)"
    if "p = ''OperationalStatus'' \<longrightarrow> enum_arg oper_of_code n \<noteq> None"
    unfolding WanIf_SetParamUlongValue_def
    by (rule write_iface_ok [OF assms], intro fine_if fine_Some)
      (use that in \<open>auto dest!: wf_shape_head simp: upd_head_virtif_def if_place_virtif vif_place_def\<close>)
qed

lemma selection_ok:
  assumes "wf_db w" "iface_handle h w"
  shows "okx (kept b) w (WanIfSelectionCfg_GetParamIntValue h p i w) (\<lambda>_. True)"
    "okx (kept b) w (WanIfSelectionCfg_GetParamUlongValue h p n w) (\<lambda>_. True)"
    "okx (kept b) w (WanIfSelectionCfg_GetParamBoolValue h p x w) (\<lambda>_. True)"
    "okx (kept b) w (WanIfSelectionCfg_SetParamBoolValue h p x w) (\<lambda>_. True)"
    "okx (kept b) w (WanVirtualIf_GetEntryCount h w) (\<lambda>_. True)"
    "okx (kept b) w (WanIf_GetParamStringValue h p buf w) (\<lambda>_. True)"
proof -
  note reads = WanIfSelectionCfg_GetParamIntValue_def WanIfSelectionCfg_GetParamUlongValue_def
    WanIfSelectionCfg_GetParamBoolValue_def WanVirtualIf_GetEntryCount_def WanIf_GetParamStringValue_def
  show "okx (kept b) w (WanIfSelectionCfg_GetParamIntValue h p i w) (\<lambda>_. True)"
    "okx (kept b) w (WanIfSelectionCfg_GetParamUlongValue h p n w) (\<lambda>_. True)"
    "okx (kept b) w (WanIfSelectionCfg_GetParamBoolValue h p x w) (\<lambda>_. True)"
    "okx (kept b) w (WanVirtualIf_GetEntryCount h w) (\<lambda>_. True)"
    "okx (kept b) w (WanIf_GetParamStringValue h p buf w) (\<lambda>_. True)"
    unfolding reads by (rule read_iface_ok [OF assms], rule total_Some)+
  show "okx (kept b) w (WanIfSelectionCfg_SetParamBoolValue h p x w) (\<lambda>_. True)"
    unfolding WanIfSelectionCfg_SetParamBoolValue_def
    by (rule write_iface_ok [OF assms], intro fine) (simp_all add: if_place_def upd_Selection_def)
qed

lemmas iface_ok = string_iface_ok bool_iface_ok number_iface_ok selection_ok set_priority_ok set_selection_ok
  commit_iface_ok virtif_entry_ok

lemma iface_call_safe:
  assumes wf: "wf_db w" and c: "iface_call_ok c w"
  shows "\<exists>w'. exec_iface e c w = Some w' \<and> keeps w w' \<and> kept b w w'"
  using c
  by (cases c; simp only: iface_call_ok.simps exec_iface.simps)
    ((rule okx_exec, (rule iface_ok [OF wf]; blast)
      | simp add: entry_calls [OF wf] updated_call [OF wf] keeps_refl [OF wf] dml.eff_refl)+)

lemma virtif_writes_ok:
  assumes "wf_db w" "placed w" "virtif_handle h w"
  shows "length s < 64 \<Longrightarrow> okx (kept (p \<noteq> ''Name'')) w (WanVirtualIf_SetParamStringValue h p s w) (\<lambda>_. True)"
    "okx (kept b) w (WanVirtualIf_SetParamUlongValue h p n w) (\<lambda>_. True)"
    "(\<forall>ip. set_ip_param p n ip \<noteq> None) \<Longrightarrow> okx (kept b) w (WanIfIpCfg_SetParamUlongValue h p n w) (\<lambda>_. True)"
    "length s < (if p = ''Interface'' then 64 else 128) \<Longrightarrow> okx (kept b) w (WanIfIpCfg_SetParamStringValue h p s w) (\<lambda>_. True)"
    "(p = ''Status'' \<longrightarrow> enum_arg dslite_of_code n \<noteq> None) \<Longrightarrow> okx (kept b) w (WanIfDSLite_SetParamUlongValue h p n w) (\<lambda>_. True)"
    "length s < 64 \<Longrightarrow> okx (kept b) w (WanIfDSLite_SetParamStringValue h p s w) (\<lambda>_. True)"
    "(\<forall>ppp. set_ppp_param p n ppp \<noteq> None) \<Longrightarrow> okx (kept b) w (WanIfPPPCfg_SetParamUlongValue h p n w) (\<lambda>_. True)"
    "length s < 64 \<Longrightarrow> okx (kept b) w (WanIfPPPCfg_SetParamStringValue h p s w) (\<lambda>_. True)"
  unfolding WanVirtualIf_SetParamStringValue_def WanVirtualIf_SetParamUlongValue_def WanIfIpCfg_SetParamUlongValue_def
    WanIfIpCfg_SetParamStringValue_def WanIfDSLite_SetParamUlongValue_def WanIfDSLite_SetParamStringValue_def
    WanIfPPPCfg_SetParamUlongValue_def WanIfPPPCfg_SetParamStringValue_def
  by (rule write_virtif_ok [OF assms], intro fine; (blast | simp add: vif_place_def))+

lemma mapt_writes_ok:
  assumes "wf_db w" "placed w" "virtif_handle h w"
  shows "okx (kept b) w (WanIfMapt_SetParamUlongValue h p n w) (\<lambda>_. True)"
    "okx (kept b) w (WanIfMapt_SetParamStringValue h p s w) (\<lambda>_. True)"
  unfolding WanIfMapt_SetParamUlongValue_def WanIfMapt_SetParamStringValue_def
  by (rule dml_virtif [OF assms]; simp add: dml.return_same)+

definition renames :: "virtif_call \<Rightarrow> bool" where
  "renames c = (case c of VifSetString h p s \<Rightarrow> p = ''Name'' | _ \<Rightarrow> False)"

lemmas virtif_reads = WanVirtualIf_GetParamBoolValue_def WanVirtualIf_GetParamStringValue_def
  WanVirtualIf_GetParamUlongValue_def WanIfIpCfg_GetParamUlongValue_def WanIfIpCfg_GetParamStringValue_def
  WanIfMapt_GetParamUlongValue_def WanIfMapt_GetParamStringValue_def WanIfDSLite_GetParamUlongValue_def
  WanIfDSLite_GetParamStringValue_def WanIfPPPCfg_GetParamUlongValue_def WanIfPPPCfg_GetParamStringValue_def

lemmas virtif_commits = WanVirtualIf_Commit_def WanIfIpCfg_Commit_def WanIfPPPCfg_Commit_def

lemma virtif_call_safe:
  assumes wf: "wf_db w" and pl: "placed w" and c: "virtif_call_ok c w"
  shows "\<exists>w'. exec_virtif e c w = Some w' \<and> keeps w w' \<and> kept (\<not> renames c) w w'"
  using c
  by (cases c; simp only: virtif_call_ok.simps exec_virtif.simps renames_def virtif_reads virtif_commits virtif_call.case)
    ((rule okx_exec, (rule read_virtif_ok [OF wf pl] virtif_writes_ok [OF wf pl] mapt_writes_ok [OF wf pl]
      set_virtif_bool_ok [OF wf pl] commit_virtif_ok [OF wf pl]; blast))+)

lemma list_reads_ok:
  assumes wf: "wf_db w" and pl: "placed w"
  shows "virtif_handle h w \<and> (\<exists>p. h = Some p \<and> vlan_at (p, unat n) w \<noteq> None) \<Longrightarrow>
      okx (kept b) w (WanIfVlanCfg_GetEntry h n m w) (\<lambda>_. True)"
    "virtif_handle h w \<and> (\<exists>p. h = Some p \<and> marking_at (p, unat n) w \<noteq> None) \<Longrightarrow>
      okx (kept b) w (WanIfVlanMarking_GetEntry h n m w) (\<lambda>_. True)"
    "vlan_handle l w \<and> (\<forall>p t. l = Some p \<and> vlan_at p w = Some t \<longrightarrow> length (VT_Interface t) < unat (snd buf)) \<Longrightarrow>
      okx (kept b) w (WanIfVlanCfg_GetParamStringValue l q buf w) (\<lambda>_. True)"
  by ((elim conjE exE, hypsubst, (rule list_entries_ok [OF wf pl]; assumption))+,
      elim conjE, (rule list_handlers_ok [OF wf pl]; blast))

lemma list_call_safe:
  assumes wf: "wf_db w" and pl: "placed w" and c: "list_call_ok c w"
  shows "\<exists>w'. exec_list e c w = Some w' \<and> keeps w w' \<and> kept b w w'"
  using c
  by (cases c; simp only: list_call_ok.simps exec_list.simps WanIfVlanCfg_GetEntryCount_def WanIfVlanMarking_GetEntryCount_def)
    ((rule okx_exec, (rule read_virtif_ok [OF wf pl] list_reads_ok [OF wf pl] list_handlers_ok [OF wf pl]; (assumption | blast)))+)

lemma manager_call_safe:
  assumes wf: "wf_db w" and c: "manager_call_ok c w"
  shows "\<exists>w'. exec_manager bd e c w = Some w' \<and> keeps w w' \<and> kept b w w'"
  using c
  by (cases c; simp only: manager_call_ok.simps exec_manager.simps)
    ((rule okx_exec, (rule group_handlers_ok [OF wf] manager_handlers_ok [OF wf] dns_handlers_ok [OF wf]; blast)
      | simp add: entry_calls [OF wf] keeps_refl [OF wf] dml.eff_refl)+)

end
