(* ===== verification/WanDmlProps.thy ===== *)
theory WanDmlProps
  imports WanFailoverLemmas WanStartupProps WanDmlCalls
begin

text \<open>
  The properties of the data-model handlers: every call of the library is safe for the threads, the priorities of the
  interfaces stay distinct, the masks of the groups agree with the groups of the interfaces, and a text that was set is the
  text that is read.
\<close>

subsection \<open>Calls of the library\<close>

datatype dml_call = OfIface iface_call | OfVirtif virtif_call | OfList list_call | OfManager manager_call

primrec exec_dml :: "build \<Rightarrow> env \<Rightarrow> dml_call \<Rightarrow> world \<Rightarrow> world option" where
  "exec_dml b e (OfIface c) w = exec_iface e c w"
| "exec_dml b e (OfVirtif c) w = exec_virtif e c w"
| "exec_dml b e (OfList c) w = exec_list e c w"
| "exec_dml b e (OfManager c) w = exec_manager b e c w"

primrec dml_call_ok :: "dml_call \<Rightarrow> world \<Rightarrow> bool" where
  "dml_call_ok (OfIface c) w \<longleftrightarrow> iface_call_ok c w"
| "dml_call_ok (OfVirtif c) w \<longleftrightarrow> placed w \<and> virtif_call_ok c w"
| "dml_call_ok (OfList c) w \<longleftrightarrow> placed w \<and> list_call_ok c w"
| "dml_call_ok (OfManager c) w \<longleftrightarrow> manager_call_ok c w"

definition renames_virtif :: "dml_call \<Rightarrow> bool" where
  "renames_virtif c = (case c of OfVirtif c \<Rightarrow> renames c | _ \<Rightarrow> False)"

lemma dml_call_safe:
  assumes wf: "wf_db w" and c: "dml_call_ok c w"
  shows "\<exists>w'. exec_dml b e c w = Some w' \<and> keeps w w' \<and> kept (\<not> renames_virtif c) w w'"
  using c iface_call_safe [OF wf] virtif_call_safe [OF wf] list_call_safe [OF wf] manager_call_safe [OF wf]
  by (cases c) (simp_all add: renames_virtif_def)

lemma kept_rely:
  assumes "keeps w w'" "kept b w w'"
  shows "FO_rely w w'"
  using keeps_interference [OF assms(1)] active_frame [OF kept_sel [OF assms(2)] assms(1)] by (simp add: FO_rely_def)

text \<open>
  C38. Every call of the data-model library to a handler, with arguments the library passes (handles from the tables,
  texts that fit, numbers of enumerators), returns: it dereferences no bad pointer, gives the mutex back, and leaves the
  data base well-formed and every virtual interface and list entry in its place.  It is a step the fail-over thread may
  rely on (it activates no interface and takes no selection away), and, unless it renames a virtual interface, one that
  every interface state machine may rely on.
\<close>

theorem data_model_calls_safe:
  assumes "wf_db w" "dml_call_ok c w"
  shows "\<exists>w'. exec_dml b e c w = Some w' \<and> wf_db w' \<and> mutex w' = mutex w \<and> (placed w \<longrightarrow> placed w') \<and>
    FO_rely w w' \<and> (\<not> renames_virtif c \<longrightarrow> (\<forall>q. ISM_rely q w w'))"
proof -
  from dml_call_safe [OF assms, of b e] obtain w' where w': "exec_dml b e c w = Some w'" "keeps w w'"
    "kept (\<not> renames_virtif c) w w'" by blast
  have "placed w \<longrightarrow> placed w'" using kept_placed [OF w'(3)] by blast
  moreover have "ISM_rely q w w'" if "\<not> renames_virtif c" for q
    using w' that keeps_interference [OF w'(2)] by (auto simp: ISM_rely_def intro: kept_machine)
  moreover have "wf_db w'" "mutex w' = mutex w" using w'(2) by (auto simp: keeps_def)
  ultimately show ?thesis using w'(1) kept_rely [OF w'(2,3)] by blast
qed

lemma sample_handle: "iface_handle (Some 0) sample_world"
  by (simp add: iface_handle_def sample_reads)

theorem data_model_calls_safe_witness:
  "\<exists>w'. exec_dml sample_build sample_env (OfIface (SelSetUlong (Some 0) ''Group'' 2)) sample_world = Some w' \<and>
    wf_db w' \<and> FO_rely sample_world w' \<and> (\<forall>q. ISM_rely q sample_world w')"
  using data_model_calls_safe [OF wf_sample_world, where c = "OfIface (SelSetUlong (Some 0) ''Group'' 2)"]
  by (auto simp: sample_handle renames_virtif_def)

subsection \<open>Priorities\<close>

definition priority_of :: "nat \<Rightarrow> world \<Rightarrow> int option" where
  "priority_of i w = map_option (\<lambda>d. Sel_Priority (If_Selection d)) (iface_at i w)"

definition distinct_priorities :: "world \<Rightarrow> bool" where
  "distinct_priorities w \<longleftrightarrow> inj_on (\<lambda>i. priority_of i w) {..<unat (total_ifaces w)}"

lemma own_index:
  assumes "wf_db w" "j < unat (total_ifaces w)"
  shows "\<exists>x. iface_at j w = Some x \<and> If_uiIfaceIdx x = of_nat j"
  using wf_db_iface_at [OF assms] by (auto simp: iface_shape_def)

lemma few_ifaces: "wf_db w \<Longrightarrow> unat (total_ifaces w) \<le> 32"
  by (auto simp: wf_db_def wf_ifaces_def split: option.splits)

lemma small_sint: "j < 32 \<Longrightarrow> sint (of_nat j :: uint) = int j"
  by (simp add: signed_of_nat signed_take_bit_int_eq_self)

text \<open>A handler that reads, and one that writes, on the handle of an interface that is there.\<close>

lemma read_run:
  assumes "wf_db w" "j < unat (total_ifaces w)" "iface_at j w = Some x"
  shows "read_iface (Some j) d get w = map_option (\<lambda>r. (r, w)) (get x)"
  using assms own_index [OF assms(1,2)] index_bound [OF assms(2)] wf_db_mutex [OF assms(1)]
  by (cases "get x") (auto simp: read_iface_def with_dml_iface_def with_wf(2) [OF assms(1)])

lemma write_run:
  assumes "wf_db w" "j < unat (total_ifaces w)" "iface_at j w = Some x"
  shows "write_iface (Some j) put w = map_option (\<lambda>(r, y). (r, upd_iface j (\<lambda>_. y) w)) (put x)"
  using assms own_index [OF assms(1,2)] index_bound [OF assms(2)] wf_db_mutex [OF assms(1)]
  by (cases "put x") (auto simp: write_iface_def with_dml_iface_def with_wf(2) [OF assms(1)])

lemma priority_run:
  assumes wf: "wf_db w" and j: "j < unat (total_ifaces w)"
  shows "WanIfSelectionCfg_SetParamIntValue (Some j) ''Priority'' n w =
    (if priority_taken (int j) (unat (total_ifaces w)) n w then Some (False, w)
     else Some (True, upd_iface j (upd_Selection (\<lambda>s. s\<lparr>Sel_Priority := n\<rparr>)) w))"
proof -
  from own_index [OF wf j] obtain x where x: "iface_at j w = Some x" "If_uiIfaceIdx x = of_nat j" by blast
  from j few_ifaces [OF wf] have s: "sint (of_nat j :: uint) = int j" by (intro small_sint) simp
  have find: "with_dml_iface (Some j) None (\<lambda>k w. do { d \<leftarrow> iface_at k w; Some (Some (sint (If_uiIfaceIdx d)), w) }) w =
      Some (Some (int j), w)"
    using x s index_bound [OF j] by (simp add: with_dml_iface_def with_wf(2) [OF wf])
  have same: "upd_iface j (\<lambda>_. f x) w = upd_iface j f w" for f
    using x(1) by (auto simp: upd_iface_def upd_db_def iface_at_def bind_eq_Some_conv map_nth_def)
  from j have "total_ifaces w \<noteq> 0" by auto
  with wf j x(1) show ?thesis
    by (simp add: WanIfSelectionCfg_SetParamIntValue_def find WanIf_GetEntryCount_def CheckGivenPriorityExists_eq write_run same)
qed

text \<open>
  C39. Setting the priority of an interface succeeds exactly when no other counted interface has that priority; then this
  interface has it and no other priority changes, and otherwise nothing changes: priorities that were pairwise distinct
  stay so.
\<close>

theorem priorities_stay_distinct:
  assumes "wf_db w" "j < unat (total_ifaces w)" "distinct_priorities w"
  shows "\<exists>r w'. WanIfSelectionCfg_SetParamIntValue (Some j) ''Priority'' n w = Some (r, w') \<and>
    (r \<longleftrightarrow> (\<forall>i < unat (total_ifaces w). i \<noteq> j \<longrightarrow> priority_of i w \<noteq> Some n)) \<and>
    (\<forall>i. priority_of i w' = (if r \<and> i = j then Some n else priority_of i w)) \<and>
    distinct_priorities w'"
proof -
  let ?w' = "upd_iface j (upd_Selection (\<lambda>s. s\<lparr>Sel_Priority := n\<rparr>)) w"
  have taken: "priority_taken (int j) (unat (total_ifaces w)) n w \<longleftrightarrow>
      \<not> (\<forall>i < unat (total_ifaces w). i \<noteq> j \<longrightarrow> priority_of i w \<noteq> Some n)"
    by (auto simp: priority_taken_def priority_of_def)
  from own_index [OF assms(1,2)] have new: "priority_of i ?w' = (if i = j then Some n else priority_of i w)" for i
    by (auto simp: priority_of_def upd_Selection_def)
  show ?thesis
  proof (cases "priority_taken (int j) (unat (total_ifaces w)) n w")
    case True
    with taken assms(3) show ?thesis
      by (intro exI [of _ False] exI [of _ w]) (simp only: priority_run [OF assms(1,2)] if_True if_False simp_thms)
  next
    case False
    with assms(3) taken have "distinct_priorities ?w'" by (auto simp: distinct_priorities_def inj_on_def new)
    moreover from False have "WanIfSelectionCfg_SetParamIntValue (Some j) ''Priority'' n w = Some (True, ?w')"
      by (simp add: priority_run [OF assms(1,2)])
    moreover from False taken have "\<forall>i < unat (total_ifaces w). i \<noteq> j \<longrightarrow> priority_of i w \<noteq> Some n" by blast
    ultimately show ?thesis using new by (intro exI [of _ True] exI [of _ ?w'] conjI) (simp_all only: simp_thms)
  qed
qed

lemma sample_priorities:
  "priority_of 0 sample_world = Some 1" "priority_of (Suc 0) sample_world = Some 2" "distinct_priorities sample_world"
  by (auto simp: priority_of_def distinct_priorities_def inj_on_def sample_reads docsis_def ethwan_def sample_iface_def
      dest!: lt_2_cases)

theorem priorities_stay_distinct_witness:
  "\<exists>w'. WanIfSelectionCfg_SetParamIntValue (Some 0) ''Priority'' 2 sample_world = Some (False, w') \<and>
    distinct_priorities w'"
proof -
  from priorities_stay_distinct [OF wf_sample_world _ sample_priorities(3), of 0 2] obtain r w' where
    "WanIfSelectionCfg_SetParamIntValue (Some 0) ''Priority'' 2 sample_world = Some (r, w')" "distinct_priorities w'"
    "r \<longleftrightarrow> (\<forall>i < 2. i \<noteq> 0 \<longrightarrow> priority_of i sample_world \<noteq> Some 2)"
    by (auto simp: sample_reads)
  moreover have "\<not> (\<forall>i < 2. i \<noteq> 0 \<longrightarrow> priority_of i sample_world \<noteq> Some 2)"
    using sample_priorities(2) by (auto intro!: exI [of _ "Suc 0"])
  ultimately show ?thesis by simp
qed

subsection \<open>Groups\<close>

text \<open>The mask of a group names the interface; the group of an interface.\<close>

definition in_group :: "nat \<Rightarrow> nat \<Rightarrow> world \<Rightarrow> bool" where
  "in_group j k w \<longleftrightarrow> (case group_at k w of None \<Rightarrow> False | Some g \<Rightarrow> bit (G_InterfaceAvailable g) j)"

definition group_of :: "nat \<Rightarrow> world \<Rightarrow> uint option" where
  "group_of j w = map_option (\<lambda>d. Sel_Group (If_Selection d)) (iface_at j w)"

definition groups_agree :: "world \<Rightarrow> bool" where
  "groups_agree w \<longleftrightarrow> (\<forall>j < unat (total_ifaces w). \<forall>k < unat (total_groups w).
     in_group j k w \<longleftrightarrow> group_of j w = Some (of_nat k + 1))"

definition touch :: "uint \<Rightarrow> (WANMGR_IFACE_GROUP \<Rightarrow> WANMGR_IFACE_GROUP) \<Rightarrow> world \<Rightarrow> world" where
  "touch i f w = (if i < total_groups w then upd_group (unat i) f w else w)"

lemma touch_run:
  assumes "wf_db w"
  shows "with_group i () (\<lambda>g w. Some ((), upd_group g f w)) w = Some ((), touch i f w)"
  using wf_db_mutex [OF assms] by (auto simp: with_wf(1) [OF assms] touch_def)

lemma touch_reads [simp]:
  "iface_at k (touch i f w) = iface_at k w" "total_ifaces (touch i f w) = total_ifaces w"
  "total_groups (touch i f w) = total_groups w" "mutex (touch i f w) = mutex w"
  by (simp_all add: touch_def)

lemma touch_wf: "wf_db w \<Longrightarrow> wf_db (touch i f w)"
  by (auto simp: touch_def intro: keeps_wf keeps_upd_group keeps_refl)

lemma group_there:
  assumes "wf_db w" "k < unat (total_groups w)"
  shows "\<exists>g. group_at k w = Some g"
  using wf_db_group_at [OF assms(1), of "of_nat k"] index_bound [OF assms(2)] by auto

lemma word_position: "k < unat (n :: uint) \<Longrightarrow> k = unat i \<longleftrightarrow> of_nat k = (i :: uint)"
  by (auto simp: index_bound)

lemma touch_member:
  assumes "wf_db w" "k < unat (total_groups w)"
  shows "in_group j k (touch i f w) = (if of_nat k = i
    then (case group_at k w of None \<Rightarrow> False | Some g \<Rightarrow> bit (G_InterfaceAvailable (f g)) j) else in_group j k w)"
  using group_there [OF assms] assms(2) word_position [OF assms(2), of i]
  by (auto simp: in_group_def touch_def word_less_nat_alt index_bound)

lemma join_member:
  assumes "wf_db w" "k < unat (total_groups w)" "i < 32"
  shows "in_group j k (touch n (join_group (of_nat i)) w) \<longleftrightarrow> in_group j k w \<or> of_nat k = n \<and> j = i"
  using group_there [OF assms(1,2)] assms(3)
  unfolding touch_member [OF assms(1,2)] by (auto simp: join_group_def bit_simps in_group_def unat_of_nat)

lemma leave_member:
  assumes "wf_db w" "k < unat (total_groups w)" "i < 32"
  shows "in_group j k (touch n (leave_group (of_nat i)) w) \<longleftrightarrow> in_group j k w \<and> \<not> (of_nat k = n \<and> j = i)"
  using group_there [OF assms(1,2)] assms(3)
  unfolding touch_member [OF assms(1,2)] by (auto simp: leave_group_def bit_simps in_group_def unat_of_nat dest: bit_imp_le_length [where 'a = 32, simplified])

lemma change_group_run:
  assumes "wf_db w" "iface_at k w = Some d" "Sel_Group (If_Selection d) \<noteq> n"
  shows "change_group idx n k w = Some ((), upd_iface k (upd_Selection (\<lambda>s. s\<lparr>Sel_Group := n\<rparr>))
    (touch (Sel_Group (If_Selection d) - 1) (leave_group idx) (touch (n - 1) (join_group idx) w)))"
  using assms by (simp add: change_group_def touch_run touch_wf)

text \<open>What the handler makes of the data base.\<close>

definition regrouped :: "uint \<Rightarrow> nat \<Rightarrow> world \<Rightarrow> world" where
  "regrouped n j w = (case group_of j w of None \<Rightarrow> w | Some old \<Rightarrow>
     if old = n \<or> MAX_INTERFACE_GROUP < n then w
     else upd_iface j (upd_Selection (\<lambda>s. s\<lparr>Sel_Group := n\<rparr>))
       (touch (old - 1) (leave_group (of_nat j)) (touch (n - 1) (join_group (of_nat j)) w)))"

lemma touch_lock: "touch i f (mlock w) = mlock (touch i f w)"
  by (simp add: touch_def)

lemma group_run:
  assumes wf: "wf_db w" and j: "j < unat (total_ifaces w)"
  shows "WanIfSelectionCfg_SetParamUlongValue (Some j) ''Group'' n w = Some (True, regrouped n j w)"
proof -
  from own_index [OF wf j] obtain x where x: "iface_at j w = Some x" "If_uiIfaceIdx x = of_nat j" by blast
  from x(1) have x': "iface_at j (mlock w) = Some x" by simp
  have wf': "wf_db (mlock w)" using wf by simp
  note unlock = wf_db_mutex [OF wf]
  have "with_dml_iface (Some j) False body w = with_iface (of_nat j) False body w" for body
    using x by (simp add: with_dml_iface_def)
  moreover have "with_iface (of_nat j) False body w = map_option (apsnd pthread_mutex_unlock) (body j (mlock w))" for body
    using index_bound [OF j] by (simp add: with_wf(2) [OF wf])
  ultimately show ?thesis
    using x unlock change_group_run [OF wf' x', of n "of_nat j"] change_group_def [of "of_nat j" n j "mlock w"]
    by (cases "Sel_Group (If_Selection x) = n")
      (auto simp: WanIfSelectionCfg_SetParamUlongValue_def regrouped_def group_of_def touch_lock)
qed

lemma regrouped_member:
  assumes wf: "wf_db w" and j: "j < unat (total_ifaces w)" and k: "k < unat (total_groups w)"
    and new: "group_of j w = Some old" "old \<noteq> n" "n \<le> MAX_INTERFACE_GROUP"
  shows "in_group i k (regrouped n j w) \<longleftrightarrow>
    (if i = j then of_nat k + 1 = n \<or> in_group j k w \<and> of_nat k + 1 \<noteq> old else in_group i k w)"
proof -
  have eq: "of_nat k = m - 1 \<longleftrightarrow> of_nat k + 1 = (m :: uint)" for m by (auto simp: algebra_simps)
  have j32: "j < 32" using j few_ifaces [OF wf] by simp
  let ?u = "touch (n - 1) (join_group (of_nat j)) w"
  have "in_group i k (regrouped n j w) \<longleftrightarrow> in_group i k (touch (old - 1) (leave_group (of_nat j)) ?u)"
    using new(1,2) leD [OF new(3)] by (simp add: regrouped_def in_group_def)
  also have "\<dots> \<longleftrightarrow> in_group i k ?u \<and> \<not> (of_nat k + 1 = old \<and> i = j)"
    using leave_member [OF touch_wf [OF wf] _ j32] k by (simp add: eq)
  also have "in_group i k ?u \<longleftrightarrow> in_group i k w \<or> of_nat k + 1 = n \<and> i = j"
    using join_member [OF wf k j32] by (simp add: eq)
  finally show ?thesis using new(2) by auto
qed

lemma regrouped_reads:
  "group_of i (regrouped n j w) = (if i = j \<and> n \<le> MAX_INTERFACE_GROUP \<and> group_of j w \<noteq> None then Some n else group_of i w)"
  "total_ifaces (regrouped n j w) = total_ifaces w" "total_groups (regrouped n j w) = total_groups w"
  by (auto simp: regrouped_def group_of_def upd_Selection_def split: option.split)

text \<open>
  C40. Setting the group of an interface keeps the masks of the groups in agreement with the groups the interfaces say
  they are in: after the call the mask of a group names an interface exactly when the interface names the group, if it
  was so before.  The interface names the new group (unless the number is too large, which the handler answers with
  success and ignores), the others name theirs, and no other bit of a mask changes.
\<close>

theorem groups_stay_in_agreement:
  assumes "wf_db w" "j < unat (total_ifaces w)" "groups_agree w"
  shows "\<exists>w'. WanIfSelectionCfg_SetParamUlongValue (Some j) ''Group'' n w = Some (True, w') \<and> groups_agree w' \<and>
    group_of j w' = (if n \<le> MAX_INTERFACE_GROUP then Some n else group_of j w) \<and>
    (\<forall>i. i \<noteq> j \<longrightarrow> group_of i w' = group_of i w) \<and>
    (\<forall>i k. i \<noteq> j \<and> k < unat (total_groups w) \<longrightarrow> in_group i k w' = in_group i k w)"
proof -
  from own_index [OF assms(1,2)] obtain old where old: "group_of j w = Some old" by (auto simp: group_of_def)
  show ?thesis
  proof (cases "old = n \<or> MAX_INTERFACE_GROUP < n")
    case True
    with old have "regrouped n j w = w" by (simp add: regrouped_def)
    with True old assms(3) show ?thesis by (auto simp: group_run [OF assms(1,2)])
  next
    case False
    then have n: "old \<noteq> n" "n \<le> MAX_INTERFACE_GROUP" by auto
    note member = regrouped_member [OF assms(1,2) _ old n]
    have "groups_agree (regrouped n j w)"
      using assms(2,3) old by (auto simp: groups_agree_def member regrouped_reads n)
    with n old show ?thesis by (simp add: group_run [OF assms(1,2)] regrouped_reads member)
  qed
qed

lemma sample_agrees: "groups_agree sample_world"
  by (auto simp: groups_agree_def in_group_def group_of_def sample_reads docsis_def ethwan_def sample_iface_reads
      sample_group_def dest!: lt_2_cases)

theorem groups_stay_in_agreement_witness:
  "\<exists>w'. WanIfSelectionCfg_SetParamUlongValue (Some 0) ''Group'' 2 sample_world = Some (True, w') \<and> groups_agree w' \<and>
    group_of 0 w' = Some 2"
  using groups_stay_in_agreement [OF wf_sample_world _ sample_agrees, of 0 2] by (auto simp: sample_reads)

subsection \<open>Texts\<close>

text \<open>The texts of an interface that a caller can set, and their arrays.\<close>

definition text_room :: "string \<Rightarrow> nat option" where
  "text_room p = (if p = ''Name'' then Some 64 else if p = ''CustomConfigPath'' \<or> p = ''BaseInterface'' then Some 128 else None)"

text \<open>
  A text that was set is read back: the setter stores a non-empty text that fits in its array, and the getter, given
  a buffer at least as large as the array, returns that text and leaves the world as it is.
\<close>

theorem text_parameter_roundtrip:
  assumes "wf_db w" "j < unat (total_ifaces w)" "text_room p = Some n" "s \<noteq> []" "length s < n" "n \<le> unat size'"
  shows "\<exists>w'. WanIf_SetParamStringValue (Some j) p s w = Some (True, w') \<and> wf_db w' \<and>
    WanIf_GetParamStringValue (Some j) p (buf, size') w' = Some ((0, s, size'), w')"
proof -
  from own_index [OF assms(1,2)] obtain x where x: "iface_at j w = Some x" "If_uiIfaceIdx x = of_nat j" by blast
  define y where "y = (if p = ''Name'' then x\<lparr>If_Name := s\<rparr>
    else if p = ''CustomConfigPath'' then x\<lparr>If_CustomConfigPath := s\<rparr> else x\<lparr>If_BaseInterface := s\<rparr>)"
  let ?w' = "upd_iface j (\<lambda>_. y) w"
  from assms(3) consider "p = ''Name''" "n = 64" | "p = ''CustomConfigPath''" "n = 128" | "p = ''BaseInterface''" "n = 128"
    by (auto simp: text_room_def split: if_splits)
  then have put: "WanIf_SetParamStringValue (Some j) p s w = Some (True, ?w')"
    unfolding WanIf_SetParamStringValue_def write_run [OF assms(1,2) x(1)]
    using assms(4,5) by cases (simp_all add: y_def copy_in_def)
  have stored: "(if p = ''Name'' then If_Name y else if p = ''CustomConfigPath'' then If_CustomConfigPath y else If_BaseInterface y) = s"
    by (simp add: y_def)
  then have get: "WanIf_GetParamStringValue (Some j) p (buf, size') ?w' = Some ((0, s, size'), ?w')"
    if "wf_db ?w'" "iface_at j ?w' = Some y"
  proof -
    from that assms(2) have run: "read_iface (Some j) d get ?w' = map_option (\<lambda>r. (r, ?w')) (get y)" for d :: "uint \<times> string \<times> uint" and get
      by (intro read_run) simp_all
    have room: "n - 1 < unat size'" using assms(6) \<open>length s < n\<close> by simp
    from assms(3) consider "p = ''Name''" "n = 64" | "p = ''CustomConfigPath''" "n = 128" | "p = ''BaseInterface''" "n = 128"
      by (auto simp: text_room_def split: if_splits)
    then show ?thesis
      unfolding WanIf_GetParamStringValue_def run using room stored by cases (simp_all add: copy_out_def)
  qed
  have "keeps w ?w'" by (rule keeps_put_iface(1) [OF assms(1) x(1), where b = True]) (simp add: y_def if_place_def)
  then have "wf_db ?w'" by (rule keeps_wf)
  with put get x(1) show ?thesis by simp
qed

theorem text_parameter_roundtrip_witness:
  "\<exists>w'. WanIf_SetParamStringValue (Some 0) ''Name'' ''wan0'' sample_world = Some (True, w') \<and>
    WanIf_GetParamStringValue (Some 0) ''Name'' ([], 64) w' = Some ((0, ''wan0'', 64), w')"
  using text_parameter_roundtrip [OF wf_sample_world, of 0 "''Name''" 64 "''wan0''" 64 "[]"]
  by (auto simp: sample_reads text_room_def)

lemma FO_rely_refl: "wf_db w \<Longrightarrow> FO_rely w w"
  by (simp add: FO_rely_def interference_def)

end
