(* ===== verification/WanIpc.thy ===== *)
theory WanIpc
  imports WanDhcpEvents
begin

text \<open>
  The message server of \<open>wanmgr_ipc.c\<close>, compiled without the IPoE health check: the DHCP clients send the state of
  their leases, and the server puts each message into the slot of the interface state machine that runs on the
  client's interface.  A slot that still holds a message is not overwritten; the server tries again, five times, and
  then drops the message.  Between two tries it sleeps, and the other threads change the world.
\<close>

abbreviation (input) "WANMGR_MAX_IPC_PROCCESS_TRY \<equiv> (5 :: nat)"

text \<open>
  One try: \<open>slot\<close> reads the place of the message, \<open>put\<close> writes it.  The pointer to the interface is the base
  interface and the position, as in the data base.
\<close>

definition ipc_try ::
  "env \<Rightarrow> string \<Rightarrow> (DML_VIRTUAL_IFACE \<Rightarrow> bool) \<Rightarrow> (DML_VIRTUAL_IFACE \<Rightarrow> DML_VIRTUAL_IFACE) \<Rightarrow> world \<Rightarrow> (bool \<times> world) option" where
  "ipc_try e ifname empty_slot put w =
     (case WanMgr_GetVIfByName_VISM_running_locked ifname w of
        (None, w) \<Rightarrow> Some (False, w)
      | (Some p, w) \<Rightarrow> do {
          v \<leftarrow> virtif_at p w;
          Some (if empty_slot v \<and> malloc_ok e (out w)
                then (True, WanMgr_VirtualIfaceData_release (upd_virtif p put w))
                else (False, WanMgr_VirtualIfaceData_release w))
        })"

text \<open>The loop; \<open>others\<close> are the changes of the world during the sleeps, one for each try left.\<close>

fun ipc_tries :: "(world \<Rightarrow> (bool \<times> world) option) \<Rightarrow> (world \<Rightarrow> world) list \<Rightarrow> world \<Rightarrow> (ANSC_STATUS \<times> world) option" where
  "ipc_tries attempt [] w = Some (ANSC_STATUS_FAILURE, w)"
| "ipc_tries attempt (sleep # others) w = do {
     (ok, w) \<leftarrow> attempt w;
     if ok then Some (ANSC_STATUS_SUCCESS, w) else ipc_tries attempt others (sleep w)
   }"

definition put_ipv4 :: "ipc_dhcpv4_data_t \<Rightarrow> DML_VIRTUAL_IFACE \<Rightarrow> DML_VIRTUAL_IFACE" where
  "put_ipv4 m v = v\<lparr>VI_IP := (VI_IP v)\<lparr>IP_pIpcIpv4Data := Some m\<rparr>\<rparr>"

definition put_ipv6 :: "ipc_dhcpv6_data_t \<Rightarrow> DML_VIRTUAL_IFACE \<Rightarrow> DML_VIRTUAL_IFACE" where
  "put_ipv6 m v = v\<lparr>VI_IP := (VI_IP v)\<lparr>IP_pIpcIpv6Data := Some m\<rparr>\<rparr>"

definition try_ipv4 :: "env \<Rightarrow> ipc_dhcpv4_data_t \<Rightarrow> world \<Rightarrow> (bool \<times> world) option" where
  "try_ipv4 e m = ipc_try e (I4_dhcpcInterface m) (\<lambda>v. IP_pIpcIpv4Data (VI_IP v) = None) (put_ipv4 m)"

definition try_ipv6 :: "env \<Rightarrow> ipc_dhcpv6_data_t \<Rightarrow> world \<Rightarrow> (bool \<times> world) option" where
  "try_ipv6 e m = ipc_try e (I6_ifname m) (\<lambda>v. IP_pIpcIpv6Data (VI_IP v) = None) (put_ipv6 m)"

definition WanMgr_IpcNewIpv4Msg ::
  "env \<Rightarrow> (nat \<Rightarrow> world \<Rightarrow> world) \<Rightarrow> ipc_dhcpv4_data_t \<Rightarrow> world \<Rightarrow> (ANSC_STATUS \<times> world) option" where
  "WanMgr_IpcNewIpv4Msg e others pNewIpv4Msg =
     ipc_tries (try_ipv4 e pNewIpv4Msg) (map others [0..<WANMGR_MAX_IPC_PROCCESS_TRY])"

definition WanMgr_IpcNewIpv6Msg ::
  "env \<Rightarrow> (nat \<Rightarrow> world \<Rightarrow> world) \<Rightarrow> ipc_dhcpv6_data_t \<Rightarrow> world \<Rightarrow> (ANSC_STATUS \<times> world) option" where
  "WanMgr_IpcNewIpv6Msg e others pNewIpv6Msg =
     ipc_tries (try_ipv6 e pNewIpv6Msg) (map others [0..<WANMGR_MAX_IPC_PROCCESS_TRY])"

text \<open>A message on the socket; one of another size or type is reported and dropped.\<close>

datatype ipc_msg_payload_t =
    DHCPC_STATE_CHANGED ipc_dhcpv4_data_t
  | DHCP6C_STATE_CHANGED ipc_dhcpv6_data_t
  | OTHER_MESSAGE

definition IpcServerThread_body ::
  "env \<Rightarrow> (nat \<Rightarrow> world \<Rightarrow> world) \<Rightarrow> ipc_msg_payload_t \<Rightarrow> world \<Rightarrow> world option" where
  "IpcServerThread_body e others ipc_msg w =
     (case ipc_msg of
        DHCPC_STATE_CHANGED m \<Rightarrow> map_option snd (WanMgr_IpcNewIpv4Msg e others m w)
      | DHCP6C_STATE_CHANGED m \<Rightarrow> map_option snd (WanMgr_IpcNewIpv6Msg e others m w)
      | OTHER_MESSAGE \<Rightarrow> Some w)"

definition WanMgr_SetInterfaceStatus :: "string \<Rightarrow> wanmgr_iface_status_t \<Rightarrow> world \<Rightarrow> (ANSC_STATUS \<times> world) option" where
  "WanMgr_SetInterfaceStatus ifName state w =
     (case WanMgr_GetVirtualIfaceByName_locked ifName w of
        (None, w) \<Rightarrow> Some (ANSC_STATUS_FAILURE, w)
      | (Some p, w) \<Rightarrow> do {
          (_, w) \<leftarrow> WanManager_UpdateInterfaceStatus p state w;
          Some (ANSC_STATUS_SUCCESS, WanMgr_VirtualIfaceData_release w)
        })"

end
