(* ===== verification/WanRbus.thy ===== *)
theory WanRbus
  imports WanConfig WanStatus
begin

text \<open>
  The handlers of the message bus of \<open>wanmgr_rbus_handler_apis.c\<close>, compiled with the unified data model, the
  fail-over support and the inter-device manager: subscriptions to the parameters of an interface and their counters,
  reading and writing those parameters, the events the program receives, remote devices.  The bus library is outside
  the program: what it hands to a handler (names, values, the fields of an event) is an argument, what it answers
  (\<open>rbus_ok\<close>, \<open>rbus_getUint\<close>) comes from the environment, and what the program sends goes to the log.
\<close>

subsection \<open>Names of parameters\<close>

abbreviation (input) "WANMGR_INFACE_TABLE \<equiv> ''Device.X_RDK_WanManager.Interface''"
abbreviation (input) "WANMGR_V1_INFACE_TABLE \<equiv> ''Device.X_RDK_WanManager.CPEInterface''"
abbreviation (input) "WANMGR_INFACE_PHY_STATUS_SUFFIX \<equiv> ''.BaseInterfaceStatus''"
abbreviation (input) "WANMGR_INFACE_WAN_STATUS_SUFFIX \<equiv> ''.Status''"
abbreviation (input) "WANMGR_INFACE_WAN_LINKSTATUS_SUFFIX \<equiv> ''.VlanStatus''"
abbreviation (input) "WANMGR_INFACE_WAN_ENABLE_SUFFIX \<equiv> ''.Selection.Enable''"
abbreviation (input) "WANMGR_INFACE_ALIASNAME_SUFFIX \<equiv> ''.Alias''"
abbreviation (input) "WANMGR_V1_INFACE_PHY_STATUS_SUFFIX \<equiv> ''.Phy.Status''"
abbreviation (input) "WANMGR_V1_INFACE_WAN_STATUS_SUFFIX \<equiv> ''.Wan.Status''"
abbreviation (input) "WANMGR_V1_INFACE_WAN_LINKSTATUS_SUFFIX \<equiv> ''.Wan.LinkStatus''"

definition WANMGR_PHY_STATUS_CHECK :: "string \<Rightarrow> bool" where
  "WANMGR_PHY_STATUS_CHECK name \<longleftrightarrow>
     strstr name WANMGR_INFACE_PHY_STATUS_SUFFIX \<or> strstr name WANMGR_V1_INFACE_PHY_STATUS_SUFFIX"

definition WANMGR_WAN_STATUS_CHECK :: "string \<Rightarrow> bool" where
  "WANMGR_WAN_STATUS_CHECK name \<longleftrightarrow>
     strstr name WANMGR_INFACE_WAN_STATUS_SUFFIX \<or> strstr name WANMGR_V1_INFACE_WAN_STATUS_SUFFIX"

definition WANMGR_WAN_LINKSTATUS_CHECK :: "string \<Rightarrow> bool" where
  "WANMGR_WAN_LINKSTATUS_CHECK name \<longleftrightarrow>
     strstr name WANMGR_INFACE_WAN_LINKSTATUS_SUFFIX \<or> strstr name WANMGR_V1_INFACE_WAN_LINKSTATUS_SUFFIX"

definition WANMGR_ALIASNAME_CHECK :: "string \<Rightarrow> bool" where
  "WANMGR_ALIASNAME_CHECK name \<longleftrightarrow> strstr name WANMGR_INFACE_ALIASNAME_SUFFIX \<or> strstr name ''.AliasName''"

text \<open>
  Pieces of a \<open>sscanf\<close> format: literal text, \<open>%d\<close> into an unsigned variable with what it leaves of the input, and
  \<open>%63s\<close>.
\<close>

fun scan_lit :: "string \<Rightarrow> string \<Rightarrow> string option" where
  "scan_lit [] s = Some s"
| "scan_lit (c # cs) [] = None"
| "scan_lit (c # cs) (x # xs) = (if x = c then scan_lit cs xs else None)"

definition after_d :: "string \<Rightarrow> string" where
  "after_d s =
     (let t = dropWhile isspace_c s
      in dropWhile isdigit_c (if t \<noteq> [] \<and> (hd t = CHR ''-'' \<or> hd t = CHR ''+'') then tl t else t))"

definition scan_uint :: "string \<Rightarrow> (uint \<times> string) option" where
  "scan_uint s = map_option (\<lambda>n. (of_int n, after_d s)) (sscanf_d s)"

definition scan_word :: "nat \<Rightarrow> string \<Rightarrow> string" where
  "scan_word n s = take n (takeWhile (\<lambda>c. \<not> isspace_c c) (dropWhile isspace_c s))"

text \<open>\<open>sscanf(name, table ".%d.", &index)\<close> with \<open>index\<close> 0 before.\<close>

definition row_index :: "string \<Rightarrow> string \<Rightarrow> uint" where
  "row_index table name = (case Option.bind (scan_lit (table @ ''.'') name) scan_uint of
     None \<Rightarrow> 0 | Some (n, _) \<Rightarrow> n)"

text \<open>
  \<open>sscanf(name, WANMGR_VIRTUAL_INFACE_TABLE ".%d.", &index, &VirtIfIndex)\<close>, with 0 and 1 before: the table
  contains a \<open>%d\<close> of its own.
\<close>

definition virtual_indices :: "string \<Rightarrow> uint \<times> uint" where
  "virtual_indices name =
     (case Option.bind (scan_lit (WANMGR_INFACE_TABLE @ ''.'') name) scan_uint of
        None \<Rightarrow> (0, 1)
      | Some (n, rest) \<Rightarrow>
          (case Option.bind (scan_lit ''.VirtualInterface.'' rest) scan_uint of
             None \<Rightarrow> (n, 1) | Some (v, _) \<Rightarrow> (n, v)))"

text \<open>The row may be given by the alias of the interface instead of a number.\<close>

definition row_alias :: "string \<Rightarrow> string" where
  "row_alias name = (case scan_lit (WANMGR_INFACE_TABLE @ ''.'') name of None \<Rightarrow> [] | Some s \<Rightarrow> scan_word 63 s)"

definition by_alias :: "uint \<Rightarrow> string \<Rightarrow> world \<Rightarrow> uint \<times> world" where
  "by_alias index name w = (if index = 0 then WanMgr_GetIfaceIndexByAliasName (row_alias name) w else (index, w))"

subsection \<open>Values\<close>

datatype rbusError_t = RBUS_ERROR_SUCCESS | RBUS_ERROR_BUS_ERROR | RBUS_ERROR_INVALID_INPUT

datatype rbusEventSubAction_t = RBUS_EVENT_ACTION_SUBSCRIBE | RBUS_EVENT_ACTION_UNSUBSCRIBE

text \<open>A value of the bus with its type: a text, a truth value, one of another type, or none yet.\<close>

datatype rbusValue = RBUS_STRING string | RBUS_BOOLEAN bool | RBUS_OTHER | RBUS_NONE

text \<open>\<open>WanMgr_EnumToString\<close> (the texts of the status are in \<open>WanStatus\<close>) and \<open>WanMgr_StringToEnum\<close>.\<close>

fun phy_string :: "DML_WAN_IFACE_PHY_STATUS \<Rightarrow> string" where
  "phy_string WAN_IFACE_PHY_STATUS_DOWN = ''Down''"
| "phy_string WAN_IFACE_PHY_STATUS_INITIALIZING = ''Initializing''"
| "phy_string WAN_IFACE_PHY_STATUS_UP = ''Up''"
| "phy_string WAN_IFACE_PHY_STATUS_UNKNOWN = ''Unknown''"

fun link_string :: "DML_WAN_IFACE_LINKSTATUS \<Rightarrow> string" where
  "link_string WAN_IFACE_LINKSTATUS_CONFIGURING = ''Configuring''"
| "link_string WAN_IFACE_LINKSTATUS_UP = ''Up''"
| "link_string WAN_IFACE_LINKSTATUS_DOWN = ''Down''"

definition phy_of_string :: "string \<Rightarrow> DML_WAN_IFACE_PHY_STATUS" where
  "phy_of_string s =
     (if s = ''Down'' then WAN_IFACE_PHY_STATUS_DOWN
      else if s = ''Initializing'' then WAN_IFACE_PHY_STATUS_INITIALIZING
      else if s = ''Up'' then WAN_IFACE_PHY_STATUS_UP else WAN_IFACE_PHY_STATUS_UNKNOWN)"

definition status_of_string :: "string \<Rightarrow> DML_WAN_IFACE_STATUS" where
  "status_of_string s =
     (if s = ''Initialising'' then WAN_IFACE_STATUS_INITIALISING
      else if s = ''Validating'' then WAN_IFACE_STATUS_VALIDATING
      else if s = ''Up'' then WAN_IFACE_STATUS_UP
      else if s = ''Standby'' then WAN_IFACE_STATUS_STANDBY
      else if s = ''Invalid'' then WAN_IFACE_STATUS_INVALID else WAN_IFACE_STATUS_DISABLED)"

definition link_of_string :: "string \<Rightarrow> DML_WAN_IFACE_LINKSTATUS" where
  "link_of_string s =
     (if s = ''Configuring'' then WAN_IFACE_LINKSTATUS_CONFIGURING
      else if s = ''Up'' then WAN_IFACE_LINKSTATUS_UP else WAN_IFACE_LINKSTATUS_DOWN)"

subsection \<open>Subscriptions\<close>

text \<open>A counter of subscribers; it does not go below 0.\<close>

definition count_sub :: "rbusEventSubAction_t \<Rightarrow> uint \<Rightarrow> uint" where
  "count_sub action n =
     (if action = RBUS_EVENT_ACTION_SUBSCRIBE then if n = 0 then 1 else n + 1
      else if n \<noteq> 0 then n - 1 else n)"

definition subscribe_iface :: "rbusEventSubAction_t \<Rightarrow> string \<Rightarrow> DML_WAN_IFACE \<Rightarrow> DML_WAN_IFACE" where
  "subscribe_iface action name d =
     (if WANMGR_PHY_STATUS_CHECK name
      then d\<lparr>If_BaseInterfaceStatusSub := count_sub action (If_BaseInterfaceStatusSub d)\<rparr>
      else if WANMGR_WAN_LINKSTATUS_CHECK name
      then d\<lparr>If_WanLinkStatusSub := count_sub action (If_WanLinkStatusSub d)\<rparr>
      else if WANMGR_WAN_STATUS_CHECK name
      then d\<lparr>If_WanStatusSub := count_sub action (If_WanStatusSub d)\<rparr>
      else if strstr name WANMGR_INFACE_WAN_ENABLE_SUFFIX
      then d\<lparr>If_WanEnableSub := count_sub action (If_WanEnableSub d)\<rparr>
      else d)"

definition wanMgrDmlPublishEventHandler ::
  "rbusEventSubAction_t \<Rightarrow> string option \<Rightarrow> world \<Rightarrow> (rbusError_t \<times> world) option" where
  "wanMgrDmlPublishEventHandler action name w =
     (case name of
        None \<Rightarrow> Some (RBUS_ERROR_BUS_ERROR, w)
      | Some name \<Rightarrow>
          (let table = (if strstr name WANMGR_V1_INFACE_TABLE then WANMGR_V1_INFACE_TABLE else WANMGR_INFACE_TABLE);
               (index, w) = by_alias (row_index table name) name w
           in if index = 0 then Some (RBUS_ERROR_INVALID_INPUT, w)
              else with_iface (index - 1) RBUS_ERROR_SUCCESS (\<lambda>k w. do {
                  _ \<leftarrow> iface_at k w;
                  Some (RBUS_ERROR_SUCCESS, upd_iface k (subscribe_iface action name) w)
                }) w))"

subsection \<open>Reading a parameter\<close>

definition name_indices :: "string \<Rightarrow> uint \<times> uint" where
  "name_indices name =
     (if strstr name WANMGR_V1_INFACE_TABLE then (row_index WANMGR_V1_INFACE_TABLE name, 1)
      else virtual_indices name)"

text \<open>What the handler reads; a virtual interface that is not there is dereferenced all the same.\<close>

definition interface_value :: "string \<Rightarrow> DML_WAN_IFACE \<Rightarrow> DML_VIRTUAL_IFACE option \<Rightarrow> rbusValue option" where
  "interface_value name d p_VirtIf =
     (if WANMGR_PHY_STATUS_CHECK name then Some (RBUS_STRING (phy_string (If_BaseInterfaceStatus d)))
      else if WANMGR_WAN_LINKSTATUS_CHECK name then do {
        v \<leftarrow> p_VirtIf;
        Some (RBUS_STRING (link_string (VLAN_Status (VI_VLAN v)))) }
      else if WANMGR_WAN_STATUS_CHECK name then do {
        v \<leftarrow> p_VirtIf;
        Some (RBUS_STRING (wan_status_string
          (if If_IfaceType d = REMOTE_IFACE \<and> VI_RemoteStatus v \<noteq> WAN_IFACE_STATUS_UP then VI_RemoteStatus v
           else VI_Status v))) }
      else if strstr name WANMGR_INFACE_WAN_ENABLE_SUFFIX then Some (RBUS_BOOLEAN (Sel_Enable (If_Selection d)))
      else if strstr name WANMGR_INFACE_ALIASNAME_SUFFIX then Some (RBUS_STRING (If_AliasName d))
      else if strstr name ''IP.IPv4Address'' then do { v \<leftarrow> p_VirtIf; Some (RBUS_STRING (V4_ip (IP_Ipv4Data (VI_IP v)))) }
      else if strstr name ''IP.IPv6Address'' then do { v \<leftarrow> p_VirtIf; Some (RBUS_STRING (V6_address (IP_Ipv6Data (VI_IP v)))) }
      else if strstr name ''IP.IPv6Prefix'' then do { v \<leftarrow> p_VirtIf; Some (RBUS_STRING (V6_sitePrefix (IP_Ipv6Data (VI_IP v)))) }
      else Some RBUS_NONE)"

definition WanMgr_Interface_GetHandler :: "string option \<Rightarrow> world \<Rightarrow> ((rbusError_t \<times> rbusValue) \<times> world) option" where
  "WanMgr_Interface_GetHandler name w =
     (case name of
        None \<Rightarrow> Some ((RBUS_ERROR_BUS_ERROR, RBUS_NONE), w)
      | Some name \<Rightarrow>
          (let (index, VirtIfIndex) = name_indices name;
               (index, w) = by_alias index name w
           in if index = 0 then Some ((RBUS_ERROR_INVALID_INPUT, RBUS_NONE), w)
              else do {
                (value, w) \<leftarrow> with_iface (index - 1) RBUS_NONE (\<lambda>k w. do {
                  d \<leftarrow> iface_at k w;
                  x \<leftarrow> interface_value name d (WanMgr_getVirtualIfaceById (If_VirtIfList d) (VirtIfIndex - 1));
                  Some (x, w)
                }) w;
                Some ((RBUS_ERROR_SUCCESS, value), w)
              }))"

subsection \<open>Writing a parameter\<close>

definition v1_name :: "uint \<Rightarrow> string \<Rightarrow> string" where
  "v1_name index leaf = WANMGR_V1_INFACE_TABLE @ ''.'' @ show_int (sint index) @ leaf"

text \<open>\<open>WanMgr_Rbus_EventPublishHandler\<close> of a text under both names; its result is not looked at.\<close>

definition publish_both :: "string \<Rightarrow> string \<Rightarrow> string \<Rightarrow> world \<Rightarrow> world" where
  "publish_both name v1 s w = emit (RbusPublish v1 s) (emit (RbusPublish name s) w)"

text \<open>A change of the virtual interface at a position that may be missing.\<close>

definition set_virtif :: "nat \<Rightarrow> nat option \<Rightarrow> (DML_VIRTUAL_IFACE \<Rightarrow> DML_VIRTUAL_IFACE) \<Rightarrow> world \<Rightarrow> world option" where
  "set_virtif k p f w = map_option (\<lambda>j. upd_virtif (k, j) f w) p"

definition set_selection_enable :: "env \<Rightarrow> nat \<Rightarrow> uint \<Rightarrow> string \<Rightarrow> bool \<Rightarrow> DML_WAN_IFACE \<Rightarrow> world \<Rightarrow> world" where
  "set_selection_enable e k index name x d w =
     (let w = upd_iface k (upd_Selection (\<lambda>s. s\<lparr>Sel_Enable := x\<rparr>)) w;
          (_, w) = WanMgr_RdkBus_SetParamValuesToDB e (psm_if (unat index) ''Selection.Enable'') (psm_flag x) w
      in if If_WanEnableSub d \<noteq> 0 then emit (RbusPublishBool name x) w else w)"

definition set_interface :: "env \<Rightarrow> string \<Rightarrow> rbusValue \<Rightarrow> uint \<Rightarrow> uint \<Rightarrow> nat \<Rightarrow> world \<Rightarrow> (rbusError_t \<times> world) option" where
  "set_interface e name value index VirtIfIndex k w = do {
     d \<leftarrow> iface_at k w;
     let p_VirtIf = virtif_position (If_VirtIfList d) (VirtIfIndex - 1);
     if strstr name WANMGR_INFACE_PHY_STATUS_SUFFIX
     then (case value of
         RBUS_STRING s \<Rightarrow>
           (let s = take 19 s;
                w = upd_iface k (\<lambda>d. d\<lparr>If_BaseInterfaceStatus := phy_of_string s\<rparr>) w
            in Some (RBUS_ERROR_SUCCESS,
                 if If_BaseInterfaceStatusSub d \<noteq> 0
                 then publish_both name (v1_name index WANMGR_V1_INFACE_PHY_STATUS_SUFFIX) s w else w))
       | _ \<Rightarrow> Some (RBUS_ERROR_INVALID_INPUT, w))
     else if strstr name WANMGR_INFACE_WAN_LINKSTATUS_SUFFIX
     then (case value of
         RBUS_STRING s \<Rightarrow> do {
           let s = take 19 s;
           w \<leftarrow> set_virtif k p_VirtIf (\<lambda>v. v\<lparr>VI_VLAN := (VI_VLAN v)\<lparr>VLAN_Status := link_of_string s\<rparr>\<rparr>) w;
           Some (RBUS_ERROR_SUCCESS,
             if If_WanLinkStatusSub d \<noteq> 0
             then publish_both name (v1_name index WANMGR_V1_INFACE_WAN_LINKSTATUS_SUFFIX) s w else w) }
       | _ \<Rightarrow> Some (RBUS_ERROR_INVALID_INPUT, w))
     else if strstr name WANMGR_INFACE_WAN_STATUS_SUFFIX
     then (case value of
         RBUS_STRING s \<Rightarrow> do {
           let s = take 19 s;
           w \<leftarrow> set_virtif k p_VirtIf (\<lambda>v. v\<lparr>VI_Status := status_of_string s\<rparr>) w;
           Some (RBUS_ERROR_SUCCESS,
             if If_WanStatusSub d \<noteq> 0
             then publish_both name (v1_name index WANMGR_V1_INFACE_WAN_STATUS_SUFFIX) s w else w) }
       | _ \<Rightarrow> Some (RBUS_ERROR_INVALID_INPUT, w))
     else if strstr name WANMGR_INFACE_WAN_ENABLE_SUFFIX
     then (case value of
         RBUS_BOOLEAN x \<Rightarrow> Some (RBUS_ERROR_SUCCESS, set_selection_enable e k index name x d w)
       | _ \<Rightarrow> Some (RBUS_ERROR_INVALID_INPUT, w))
     else Some (RBUS_ERROR_SUCCESS, w)
   }"

definition WanMgr_Interface_SetHandler :: "env \<Rightarrow> string option \<Rightarrow> rbusValue \<Rightarrow> world \<Rightarrow> (rbusError_t \<times> world) option" where
  "WanMgr_Interface_SetHandler e name value w =
     (case name of
        None \<Rightarrow> Some (RBUS_ERROR_BUS_ERROR, w)
      | Some name \<Rightarrow>
          (let (index, VirtIfIndex) = name_indices name;
               (index, w) = by_alias index name w
           in if index = 0 then Some (RBUS_ERROR_INVALID_INPUT, w)
              else with_iface (index - 1) RBUS_ERROR_SUCCESS (set_interface e name value index VirtIfIndex) w))"

text \<open>The parameters of the manager itself.\<close>

definition config_value :: "string \<Rightarrow> DML_WANMGR_CONFIG \<Rightarrow> string option" where
  "config_value name c =
     (if name = ''Device.X_RDK_WanManager.CurrentActiveInterface'' then Some (Cfg_CurrentActiveInterface c)
      else if name = ''Device.X_RDK_WanManager.CurrentStandbyInterface'' then Some (Cfg_CurrentStandbyInterface c)
      else if name = ''Device.X_RDK_WanManager.InterfaceAvailableStatus'' then Some (Cfg_InterfaceAvailableStatus c)
      else if name = ''Device.X_RDK_WanManager.InterfaceActiveStatus'' then Some (Cfg_InterfaceActiveStatus c)
      else if name = ''Device.X_RDK_WanManager.CurrentStatus'' then Some (Cfg_CurrentStatus c)
      else if name = ''Device.X_RDK_WanManager.CurrentActiveDNS'' then Some (Cfg_CurrentActiveDNS c)
      else None)"

definition WanMgr_Rbus_getHandler :: "string \<Rightarrow> world \<Rightarrow> (rbusError_t \<times> rbusValue) \<times> world" where
  "WanMgr_Rbus_getHandler name =
     with_config (RBUS_ERROR_SUCCESS, RBUS_NONE) (\<lambda>w.
       (case config_value name (config w) of
          Some s \<Rightarrow> (RBUS_ERROR_SUCCESS, RBUS_STRING s)
        | None \<Rightarrow> (RBUS_ERROR_INVALID_INPUT, RBUS_NONE), w))"

end
