(* ===== verification/WanRbusRemote.thy ===== *)
theory WanRbusRemote
  imports WanRbus
begin

text \<open>
  The second half of \<open>wanmgr_rbus_handler_apis.c\<close>: the events the program has subscribed to, the rows it registers,
  the remote devices (found, added by a thread of their own, questioned through the inter-device manager, whose
  answers come to an asynchronous handler), and the connectivity checker.
\<close>

subsection \<open>Start and end\<close>

text \<open>
  The handler keeps the number of interfaces in a variable of its own, \<open>uiTotalIfaces\<close>, an argument and result here.
  \<open>register_row\<close> is \<open>rbusTable_registerRow\<close>.
\<close>

definition register_row :: "env \<Rightarrow> string \<Rightarrow> nat \<Rightarrow> string \<Rightarrow> world \<Rightarrow> bool \<times> world" where
  "register_row e table inst alias w =
     (let w = emit (RbusRegisterRow table inst alias) w in (rbus_ok e (out w), w))"

definition virtual_table :: "nat \<Rightarrow> string" where
  "virtual_table inst = WANMGR_INFACE_TABLE @ ''.'' @ show_nat inst @ ''.VirtualInterface''"

definition WanMgr_GetIfaceAliasNameByIndex :: "uint \<Rightarrow> string \<Rightarrow> world \<Rightarrow> (string \<times> world) option" where
  "WanMgr_GetIfaceAliasNameByIndex iface_index AliasName w =
     (case pthread_mutex_lock w of
        (False, w1) \<Rightarrow> Some (AliasName, w1)
      | (True, w1) \<Rightarrow> do {
          a \<leftarrow> (if iface_index < total_ifaces w1 \<and> pIface w1 \<noteq> None
               then map_option If_AliasName (iface_at (unat iface_index) w1) else Some AliasName);
          Some (a, WanMgrDml_GetIfaceData_release w1)
        })"

text \<open>
  One round of the loop of \<open>WanMgr_Rbus_Init\<close>; \<open>Break\<close> returns from the function.  When the row of a virtual
  interface cannot be registered it returns with the mutex held.
\<close>

fun register_virtual_rows :: "env \<Rightarrow> string \<Rightarrow> string \<Rightarrow> nat list \<Rightarrow> world \<Rightarrow> bool \<times> world" where
  "register_virtual_rows e table alias [] w = (True, w)"
| "register_virtual_rows e table alias (VirId # ids) w =
     (case register_row e table (VirId + 1) alias w of
        (True, w) \<Rightarrow> register_virtual_rows e table alias ids w
      | (False, w) \<Rightarrow> (False, w))"

definition register_iface :: "env \<Rightarrow> nat \<Rightarrow> bool \<Rightarrow> world \<Rightarrow> (bool flow \<times> world) option" where
  "register_iface e i ret w = do {
     (alias, w) \<leftarrow> WanMgr_GetIfaceAliasNameByIndex (of_nat i) [] w;
     case register_row e WANMGR_INFACE_TABLE (i + 1) alias w of
       (False, w) \<Rightarrow> Some (Break False, w)
     | (True, w) \<Rightarrow>
        (case register_row e WANMGR_V1_INFACE_TABLE (i + 1) alias w of
           (False, w) \<Rightarrow> Some (Break False, w)
         | (True, w) \<Rightarrow>
            (case WanMgr_GetIfaceData_locked (of_nat i) w of
               (None, w) \<Rightarrow> Some (Continue ret, w)
             | (Some k, w) \<Rightarrow> do {
                 d \<leftarrow> iface_at k w;
                 case register_virtual_rows e (virtual_table (i + 1)) alias [0..<unat (If_NoOfVirtIfs d)] w of
                   (False, w) \<Rightarrow> Some (Break False, w)
                 | (True, w) \<Rightarrow> Some (Continue ret, WanMgrDml_GetIfaceData_release w)
               }))
   }"

text \<open>
  \<open>WanMgr_Rbus_Init\<close>, from \<open>DmlGetTotalNoOfWanInterfaces\<close> on: the handle was opened and the data elements
  registered, which the library does.  The result tells success.
\<close>

definition WanMgr_Rbus_Init :: "env \<Rightarrow> uint \<Rightarrow> world \<Rightarrow> ((bool \<times> uint) \<times> world) option" where
  "WanMgr_Rbus_Init e uiTotalIfaces w =
     (case DmlGetTotalNoOfWanInterfaces uiTotalIfaces w of
        (ANSC_STATUS_FAILURE, n) \<Rightarrow> Some ((False, n), w)
      | (ANSC_STATUS_SUCCESS, n) \<Rightarrow> do {
          (ok, w) \<leftarrow> for_loop [0..<unat n] (register_iface e) True w;
          Some ((ok, n), w)
        })"

text \<open>
  The loop of \<open>WanMgr_RbusExit\<close>: it builds the names of the rows but passes the name of the table for two of the
  three.
\<close>

definition unregister_row :: "env \<Rightarrow> string \<Rightarrow> world \<Rightarrow> bool \<times> world" where
  "unregister_row e name w = (let w = emit (RbusUnregisterRow name) w in (rbus_ok e (out w), w))"

fun unregister_rows :: "env \<Rightarrow> string list \<Rightarrow> world \<Rightarrow> bool \<times> world" where
  "unregister_rows e [] w = (True, w)"
| "unregister_rows e (r # rs) w =
     (case unregister_row e r w of (True, w) \<Rightarrow> unregister_rows e rs w | (False, w) \<Rightarrow> (False, w))"

definition exit_rows :: "nat \<Rightarrow> string list" where
  "exit_rows i = [WANMGR_INFACE_TABLE, virtual_table (i + 1) @ ''.1'', WANMGR_V1_INFACE_TABLE]"

abbreviation (input) "WANMGR_DEVICE_NETWORKING_MODE \<equiv> ''Device.X_RDKCENTRAL-COM_DeviceControl.DeviceNetworkingMode''"
abbreviation (input) "X_RDK_REMOTE_DEVICECHANGE \<equiv> ''Device.X_RDK_Remote.DeviceChange''"
abbreviation (input) "X_RDK_REMOTE_INVOKE \<equiv> ''Device.X_RDK_Remote.Invoke()''"

definition WanMgr_Rbus_UnSubscribeDML :: "world \<Rightarrow> world" where
  "WanMgr_Rbus_UnSubscribeDML w =
     emit (RbusUnsubscribe X_RDK_REMOTE_INVOKE) (emit (RbusUnsubscribe X_RDK_REMOTE_DEVICECHANGE)
       (emit (RbusUnsubscribe WANMGR_DEVICE_NETWORKING_MODE) w))"

definition WanMgr_RbusExit :: "env \<Rightarrow> uint \<Rightarrow> world \<Rightarrow> bool \<times> world" where
  "WanMgr_RbusExit e uiTotalIfaces w =
     (case unregister_rows e (concat (map exit_rows [0..<unat uiTotalIfaces])) w of
        (False, w) \<Rightarrow> (False, w)
      | (True, w) \<Rightarrow> (True, WanMgr_Rbus_UnSubscribeDML w))"

subsection \<open>The networking mode\<close>

definition set_DeviceNwMode :: "DEVICE_NETWORKING_MODE \<Rightarrow> world \<Rightarrow> world" where
  "set_DeviceNwMode m w = snd (with_config () (\<lambda>w. ((), upd_config (\<lambda>c. c\<lparr>Cfg_DeviceNwMode := m\<rparr>) w)) w)"

definition mode_of :: "int \<Rightarrow> DEVICE_NETWORKING_MODE" where
  "mode_of n = (if n = 1 then MODEM_MODE else GATEWAY_MODE)"

text \<open>\<open>syscfg_get\<close> leaves the buffer empty when there is no value.\<close>

definition WanMgr_Rbus_UpdateLocalWanDb :: "world \<Rightarrow> world" where
  "WanMgr_Rbus_UpdateLocalWanDb w =
     set_DeviceNwMode
       (mode_of (strtol10 (case syscfg w ''Device_Mode'' of None \<Rightarrow> [] | Some s \<Rightarrow> take 15 s))) w"

definition WanMgr_Rbus_SubscribeWanReady :: "world \<Rightarrow> world" where
  "WanMgr_Rbus_SubscribeWanReady = emit (RbusSubscribe ''wan_ready_to_go'')"

definition WanMgr_Rbus_getUintParamValue :: "env \<Rightarrow> string \<Rightarrow> world \<Rightarrow> uint option \<times> world" where
  "WanMgr_Rbus_getUintParamValue e param w = (rbus_getUint e (out w) param, emit (BusGet param) w)"

definition WanMgr_Rbus_SubscribeDML :: "env \<Rightarrow> world \<Rightarrow> world" where
  "WanMgr_Rbus_SubscribeDML e w =
     (let w = emit (RbusSubscribe WANMGR_DEVICE_NETWORKING_MODE) w;
          w = (if \<not> rbus_ok e (out w) then w
               else case WanMgr_Rbus_getUintParamValue e WANMGR_DEVICE_NETWORKING_MODE w of
                   (None, w) \<Rightarrow> w
                 | (Some m, w) \<Rightarrow> set_DeviceNwMode (mode_of (uint m)) w)
      in emit (RbusSubscribe X_RDK_REMOTE_INVOKE) (emit (RbusSubscribe X_RDK_REMOTE_DEVICECHANGE) w))"

text \<open>The event: a value other than 0 and 1 leaves the mode as it is.\<close>

definition networking_mode_event :: "uint \<Rightarrow> DML_WANMGR_CONFIG \<Rightarrow> DML_WANMGR_CONFIG" where
  "networking_mode_event newValue c =
     (let m = (if newValue = 1 then MODEM_MODE else if newValue = 0 then GATEWAY_MODE else Cfg_DeviceNwMode c)
      in c\<lparr>Cfg_DeviceNwMode := m,
           Cfg_DeviceNwModeChanged := (if m \<noteq> Cfg_DeviceNwMode c then True else Cfg_DeviceNwModeChanged c)\<rparr>)"

subsection \<open>Remote devices\<close>

text \<open>\<open>strncasecmp(a, b, n) == 0\<close>.\<close>

definition same_nocase_n :: "nat \<Rightarrow> string \<Rightarrow> string \<Rightarrow> bool" where
  "same_nocase_n n a b \<longleftrightarrow> map lower_c (take n a) = map lower_c (take n b)"

text \<open>
  \<open>WanMgr_Remote_IfaceData_index\<close>: the first remote interface with the address, or -1.  A missing address is
  dereferenced.
\<close>

definition remote_matches :: "string \<Rightarrow> DML_WAN_IFACE \<Rightarrow> bool" where
  "remote_matches mac d \<longleftrightarrow> same_nocase_n 128 (If_RemoteCPEMac d) mac \<and> If_IfaceType d = REMOTE_IFACE"

definition WanMgr_Remote_IfaceData_index :: "string option \<Rightarrow> world \<Rightarrow> (int \<times> world) option" where
  "WanMgr_Remote_IfaceData_index macAddress w =
     (case WanMgr_IfaceData_GetTotalWanIface w of
        (uiTotalIfaces, w) \<Rightarrow>
          for_loop [0..<unat uiTotalIfaces] (\<lambda>i r. with_iface (of_nat i) (Continue r) (\<lambda>k w. do {
            d \<leftarrow> iface_at k w;
            mac \<leftarrow> macAddress;
            Some (if remote_matches mac d then Break (int i) else Continue r, w)
          })) (-1) w)"

definition WanMgr_getRemoteWanParamsFromPSM :: "world \<Rightarrow> DML_VIRTUAL_IFACE \<Rightarrow> DML_VIRTUAL_IFACE" where
  "WanMgr_getRemoteWanParamsFromPSM w v =
     (let v = v\<lparr>VI_Name := (case WanMgr_RdkBus_GetParamValuesFromDB ''dmsb.Mesh.WAN.Interface.Name'' 256 w of
                              Some s \<Rightarrow> take 63 s | None \<Rightarrow> REMOTE_INTERFACE_NAME)\<rparr>
      in case WanMgr_RdkBus_GetParamValuesFromDB ''dmsb.Mesh.WAN.Interface.DHCPV4Interface'' 256 w of
           Some s \<Rightarrow> v\<lparr>VI_IP := (VI_IP v)\<lparr>IP_DHCPv4Iface := take 127 s\<rparr>\<rparr>
         | None \<Rightarrow> v)"

text \<open>
  What a reported value changes in the entry of a remote interface: the link status, with the names read from the
  store when it is up, and the remote status.  Both go through \<open>VirtIfList\<close> without a test.
\<close>

definition remote_link :: "string \<Rightarrow> nat \<Rightarrow> world \<Rightarrow> world option" where
  "remote_link s k w = do {
     d \<leftarrow> iface_at k w;
     _ \<leftarrow> head_virtif d;
     Some (upd_iface k (upd_head_virtif (\<lambda>v.
       let v = v\<lparr>VI_VLAN := (VI_VLAN v)\<lparr>VLAN_Status := link_of_string s\<rparr>\<rparr>
       in if link_of_string s = WAN_IFACE_LINKSTATUS_UP then WanMgr_getRemoteWanParamsFromPSM w v else v)) w)
   }"

definition remote_status :: "string \<Rightarrow> nat \<Rightarrow> world \<Rightarrow> world option" where
  "remote_status s k w = do {
     d \<leftarrow> iface_at k w;
     _ \<leftarrow> head_virtif d;
     Some (upd_iface k (upd_head_virtif (\<lambda>v. v\<lparr>VI_RemoteStatus := status_of_string s\<rparr>)) w)
   }"

definition remote_phy :: "string \<Rightarrow> nat \<Rightarrow> world \<Rightarrow> world" where
  "remote_phy s k = upd_iface k (\<lambda>d. d\<lparr>If_BaseInterfaceStatus := phy_of_string s\<rparr>)"

text \<open>The two functions that look up the entry release the mutex also when they got no entry.\<close>

definition with_remote :: "int \<Rightarrow> (nat \<Rightarrow> world \<Rightarrow> world option) \<Rightarrow> world \<Rightarrow> world option" where
  "with_remote cpeInterfaceIndex body w =
     (case WanMgr_GetIfaceData_locked (of_int cpeInterfaceIndex) w of
        (None, w) \<Rightarrow> Some (WanMgrDml_GetIfaceData_release w)
      | (Some k, w) \<Rightarrow> map_option WanMgrDml_GetIfaceData_release (body k w))"

text \<open>A value that the inter-device manager forwards without being asked: the fields of the event.\<close>

definition remote_invoke_event :: "string option \<Rightarrow> string option \<Rightarrow> string option \<Rightarrow> world \<Rightarrow> world option" where
  "remote_invoke_event pMac pParamName pValue w = do {
     (cpeInterfaceIndex, w) \<leftarrow> WanMgr_Remote_IfaceData_index pMac w;
     if cpeInterfaceIndex < 0 then Some w
     else with_remote cpeInterfaceIndex (\<lambda>k w. do {
       name \<leftarrow> pParamName;
       if strstr name WANMGR_INFACE_PHY_STATUS_SUFFIX
       then do { s \<leftarrow> pValue; Some (remote_phy s k w) }
       else if strstr name WANMGR_INFACE_WAN_LINKSTATUS_SUFFIX
       then do { s \<leftarrow> pValue; remote_link s k w }
       else if strstr name WANMGR_INFACE_WAN_STATUS_SUFFIX
       then do { s \<leftarrow> pValue; remote_status s k w }
       else Some w
     }) w
   }"

text \<open>
  \<open>CPEInterface_AsyncMethodHandler\<close>: the answer to a question.  A new alias is registered again, under the numbered
  row and, with its own brackets, for the virtual interfaces.
\<close>

definition remote_alias :: "env \<Rightarrow> string \<Rightarrow> nat \<Rightarrow> nat \<Rightarrow> world \<Rightarrow> world option" where
  "remote_alias e pValue inst k w = do {
     d \<leftarrow> iface_at k w;
     let AliasName = take 63 (''REMOTE_'' @ pValue);
     if AliasName = If_AliasName d then Some w
     else do {
       _ \<leftarrow> head_virtif d;
       let w = upd_iface k (\<lambda>d. upd_head_virtif (\<lambda>v. v\<lparr>VI_Alias := AliasName\<rparr>) (d\<lparr>If_AliasName := AliasName\<rparr>)) w;
       let w = emit (RbusUnregisterRow (WANMGR_INFACE_TABLE @ ''.'' @ show_nat inst)) w;
       let w = emit (RbusRegisterRow WANMGR_INFACE_TABLE inst AliasName) w;
       Some (fold (\<lambda>VirId. emit (RbusRegisterRow (WANMGR_INFACE_TABLE @ ''.['' @ AliasName @ ''].VirtualInterface'')
                                (VirId + 1) AliasName))
               [0..<unat (If_NoOfVirtIfs d)] w)
     }
   }"

definition remote_answer :: "env \<Rightarrow> string \<Rightarrow> string option \<Rightarrow> nat \<Rightarrow> nat \<Rightarrow> world \<Rightarrow> world option" where
  "remote_answer e name pValue inst k w =
     (if strstr name ''.Name'' then do { s \<leftarrow> pValue; Some (upd_iface k (\<lambda>d. d\<lparr>If_Name := take 63 s\<rparr>) w) }
      else if strstr name ''.DisplayName''
      then do { s \<leftarrow> pValue; Some (upd_iface k (\<lambda>d. d\<lparr>If_DisplayName := take 63 (''REMOTE_'' @ s)\<rparr>) w) }
      else if WANMGR_ALIASNAME_CHECK name then do { s \<leftarrow> pValue; remote_alias e s inst k w }
      else if WANMGR_PHY_STATUS_CHECK name then do { s \<leftarrow> pValue; Some (remote_phy s k w) }
      else if WANMGR_WAN_LINKSTATUS_CHECK name then do { s \<leftarrow> pValue; remote_link s k w }
      else if WANMGR_WAN_STATUS_CHECK name then do { s \<leftarrow> pValue; remote_status s k w }
      else Some w)"

definition CPEInterface_AsyncMethodHandler ::
  "env \<Rightarrow> string \<Rightarrow> bool \<Rightarrow> string option \<Rightarrow> string option \<Rightarrow> string option \<Rightarrow> world \<Rightarrow> world option" where
  "CPEInterface_AsyncMethodHandler e methodName success pMac name pValue w =
     (if \<not> success \<or> methodName \<noteq> X_RDK_REMOTE_INVOKE then Some w
      else do {
        (cpeInterfaceIndex, w) \<leftarrow> WanMgr_Remote_IfaceData_index pMac w;
        if cpeInterfaceIndex < 0 then Some w
        else with_remote cpeInterfaceIndex (\<lambda>k w. do {
          name \<leftarrow> name;
          remote_answer e name pValue (nat cpeInterfaceIndex + 1) k w
        }) w
      })"

subsection \<open>A remote device comes or goes\<close>

text \<open>
  \<open>WanMgr_WanRemoteIfaceConfigure\<close> starts the thread.  The thread's first half runs under a mutex of its own, so two of
  them do not overlap: it finds the entry of the device or adds one with its rows, and enables or disables it.
  \<open>remote_add\<close> returns -1 when the thread ends early.
\<close>

definition WanMgr_WanRemoteIfaceConfigure :: "env \<Rightarrow> string \<Rightarrow> bool \<Rightarrow> world \<Rightarrow> ANSC_STATUS \<times> world" where
  "WanMgr_WanRemoteIfaceConfigure e mac_addr available w =
     (if thread_create e (out w) = None then ANSC_STATUS_FAILURE else ANSC_STATUS_SUCCESS,
      emit (ThreadCreate (WanMgr_WanRemoteIfaceConfigure_thread mac_addr available)) w)"

definition remote_rows :: "env \<Rightarrow> nat \<Rightarrow> string \<Rightarrow> world \<Rightarrow> bool \<times> world" where
  "remote_rows e inst alias w =
     (case register_row e WANMGR_INFACE_TABLE inst alias w of
        (False, w) \<Rightarrow> (False, w)
      | (True, w) \<Rightarrow>
          (case register_row e WANMGR_V1_INFACE_TABLE inst alias w of
             (False, w) \<Rightarrow> (False, w)
           | (True, w) \<Rightarrow> register_row e (virtual_table inst) 1 alias w))"

definition remote_add :: "env \<Rightarrow> string \<Rightarrow> bool \<Rightarrow> world \<Rightarrow> (int \<times> world) option" where
  "remote_add e mac available w =
     (if \<not> available then Some (-1, w)
      else do {
        (status, newInterfaceIndex, w) \<leftarrow> WanMgr_Remote_IfaceData_configure e mac (-1) w;
        if status \<noteq> ANSC_STATUS_SUCCESS then Some (-1, w)
        else do {
          (AliasName, w) \<leftarrow> WanMgr_GetIfaceAliasNameByIndex (of_int newInterfaceIndex) [] w;
          Some (case remote_rows e (nat newInterfaceIndex + 1) AliasName w of
              (False, w) \<Rightarrow> (-1, w)
            | (True, w) \<Rightarrow> (newInterfaceIndex, w))
        }
      })"

definition remote_enable :: "bool \<Rightarrow> DML_WAN_IFACE \<Rightarrow> DML_WAN_IFACE" where
  "remote_enable available d =
     (if available then upd_Selection (\<lambda>s. s\<lparr>Sel_Enable := True\<rparr>) d
      else (upd_Selection (\<lambda>s. s\<lparr>Sel_Enable := False\<rparr>) d)\<lparr>If_BaseInterfaceStatus := WAN_IFACE_PHY_STATUS_DOWN\<rparr>)"

text \<open>
  The questions of the second half: the parameters with whether they are asked for and subscribed to, in the current
  data model and in the older one, which a device has that does not answer the question for the version.
\<close>

definition RemoteDMs :: "(string \<times> bool \<times> bool) list" where
  "RemoteDMs =
     [(''Device.X_RDK_WanManager.Interface.1.DisplayName'', True, False),
      (''Device.X_RDK_WanManager.Interface.1.Alias'', True, False),
      (''Device.X_RDK_WanManager.Interface.1.BaseInterfaceStatus'', True, True),
      (''Device.X_RDK_WanManager.Interface.1.VirtualInterface.1.Status'', True, True),
      (''Device.X_RDK_WanManager.Interface.1.VirtualInterface.1.VlanStatus'', True, True)]"

definition RemoteV1DMs :: "(string \<times> bool \<times> bool) list" where
  "RemoteV1DMs =
     [(''Device.X_RDK_WanManager.CPEInterface.1.DisplayName'', True, False),
      (''Device.X_RDK_WanManager.CPEInterface.1.AliasName'', True, False),
      (''Device.X_RDK_WanManager.CPEInterface.1.Phy.Status'', True, True),
      (''Device.X_RDK_WanManager.CPEInterface.1.Wan.Status'', True, True),
      (''Device.X_RDK_WanManager.CPEInterface.1.Wan.LinkStatus'', True, True)]"

text \<open>\<open>WanMgr_IDM_Invoke\<close> and \<open>WanMgr_IDM_InvokeSync\<close>: the fields of the request are arrays of fixed size.\<close>

definition WanMgr_IDM_Invoke :: "env \<Rightarrow> string \<Rightarrow> string \<Rightarrow> IDM_MSG_OPERATION \<Rightarrow> world \<Rightarrow> ANSC_STATUS \<times> world" where
  "WanMgr_IDM_Invoke e mac param_name operation w =
     (let w = emit (IdmInvoke (take 17 mac) (take 127 param_name) operation) w
      in (if rbus_ok e (out w) then ANSC_STATUS_SUCCESS else ANSC_STATUS_FAILURE, w))"

definition WanMgr_IDM_InvokeSync :: "env \<Rightarrow> string \<Rightarrow> string \<Rightarrow> IDM_MSG_OPERATION \<Rightarrow> world \<Rightarrow> ANSC_STATUS \<times> world" where
  "WanMgr_IDM_InvokeSync e mac param_name operation w =
     (let w = emit (IdmInvoke (take 17 mac) (take 127 param_name) operation) w
      in (if rbus_ok e (out w) then ANSC_STATUS_SUCCESS else ANSC_STATUS_FAILURE, w))"

definition ask_remote :: "env \<Rightarrow> string \<Rightarrow> IDM_MSG_OPERATION \<Rightarrow> string list \<Rightarrow> world \<Rightarrow> world" where
  "ask_remote e mac operation = fold (\<lambda>name w. snd (WanMgr_IDM_Invoke e mac name operation w))"

definition remote_questions :: "env \<Rightarrow> string \<Rightarrow> world \<Rightarrow> world" where
  "remote_questions e mac w =
     (let (version, w) = WanMgr_IDM_InvokeSync e mac ''Device.X_RDK_WanManager.Version'' IDM_GET w;
          RemoteDMsQueryList = (if version \<noteq> ANSC_STATUS_SUCCESS then RemoteV1DMs else RemoteDMs);
          w = ask_remote e mac IDM_GET (map fst (filter (\<lambda>q. fst (snd q)) RemoteDMsQueryList)) w
      in ask_remote e mac IDM_SUBS (map fst (filter (\<lambda>q. snd (snd q)) RemoteDMsQueryList)) w)"

definition WanMgr_WanRemoteIfaceConfigure_thread_body :: "env \<Rightarrow> string \<Rightarrow> bool \<Rightarrow> world \<Rightarrow> world option" where
  "WanMgr_WanRemoteIfaceConfigure_thread_body e mac available w = do {
     (cpeInterfaceIndex, w) \<leftarrow> WanMgr_Remote_IfaceData_index (Some mac) w;
     (cpeInterfaceIndex, w) \<leftarrow> (if cpeInterfaceIndex < 0 then remote_add e mac available w
                               else Some (cpeInterfaceIndex, w));
     if cpeInterfaceIndex < 0 then Some w
     else do {
       (done, w) \<leftarrow> with_iface (of_int cpeInterfaceIndex) False (\<lambda>k w. do {
         _ \<leftarrow> iface_at k w;
         Some (\<not> available, upd_iface k (remote_enable available) w)
       }) w;
       Some (if done then w else remote_questions e mac w)
     }
   }"

text \<open>
  The event that announces the device.  \<open>mem n\<close> says whether the n-th \<open>malloc\<close> of the handler succeeds.  An address of
  18 characters or more leaves its copy without an end.
\<close>

definition device_change_event ::
  "env \<Rightarrow> (nat \<Rightarrow> bool) \<Rightarrow> uint \<Rightarrow> string option \<Rightarrow> bool \<Rightarrow> world \<Rightarrow> world option" where
  "device_change_event e mem Index Mac available w =
     (if \<not> mem 0 then Some w
      else case Mac of
        None \<Rightarrow> Some w
      | Some Mac \<Rightarrow>
          if length Mac \<ge> 18 then None
          else if Index = 0 then Some w
          else Some (case with_config None (\<lambda>w. (Some (Cfg_DeviceNwMode (config w)), w)) w of
              (None, w) \<Rightarrow> w
            | (Some DeviceMode, w) \<Rightarrow>
                if DeviceMode = GATEWAY_MODE \<and> mem 1 then snd (WanMgr_WanRemoteIfaceConfigure e Mac available w) else w))"

text \<open>
  \<open>WanMgr_RestartUpdateRemoteIface\<close>: after a restart, the devices the inter-device manager knows; its first entry is
  this device.  The round for entry \<open>i\<close>; when there is no memory the loop ends.
\<close>

definition restart_remote :: "env \<Rightarrow> nat \<Rightarrow> ANSC_STATUS \<Rightarrow> world \<Rightarrow> (ANSC_STATUS flow \<times> world) option" where
  "restart_remote e i status w =
     (case WanMgr_RdkBus_GetParamValueFromAnyComp e (''Device.X_RDK_Remote.Device.'' @ show_nat i @ ''.MAC'') w of
        (None, w) \<Rightarrow> Some (Continue ANSC_STATUS_FAILURE, w)
      | (Some mac, w) \<Rightarrow>
          if \<not> malloc_ok e (out w) then Some (Break ANSC_STATUS_FAILURE, w)
          else (case WanMgr_Rbus_getUintParamValue e (''Device.X_RDK_Remote.Device.'' @ show_nat i @ ''.Status'') w of
            (deviceStatus, w) \<Rightarrow>
              Some (Continue status,
                snd (WanMgr_WanRemoteIfaceConfigure e (take 63 mac) (deviceStatus = Some 3) w))))"

definition WanMgr_RestartUpdateRemoteIface :: "env \<Rightarrow> world \<Rightarrow> (ANSC_STATUS \<times> world) option" where
  "WanMgr_RestartUpdateRemoteIface e w =
     (case with_config GATEWAY_MODE (\<lambda>w. (Cfg_DeviceNwMode (config w), w)) w of
        (MODEM_MODE, w) \<Rightarrow> Some (ANSC_STATUS_SUCCESS, w)
      | (GATEWAY_MODE, w) \<Rightarrow>
          (case WanMgr_RdkBus_GetParamValueFromAnyComp e ''Device.X_RDK_Remote.DeviceNumberOfEntries'' w of
             (None, w) \<Rightarrow> Some (ANSC_STATUS_FAILURE, w)
           | (Some n, w) \<Rightarrow>
               for_loop [2..<nat (strtol10 n + 1)] (restart_remote e) ANSC_STATUS_SUCCESS w))"

subsection \<open>The events\<close>

text \<open>
  An event: its name and what \<open>rbusValue_Get\<dots>(rbusObject_GetValue(data, key))\<close> answers for a key, \<open>None\<close> for the first
  value.
\<close>

record rbusEvent =
  Ev_name :: "string option"
  Ev_UInt32 :: "string option \<Rightarrow> uint"
  Ev_String :: "string option \<Rightarrow> string option"
  Ev_Boolean :: "string option \<Rightarrow> bool"

definition WanMgr_Rbus_EventReceiveHandler :: "env \<Rightarrow> (nat \<Rightarrow> bool) \<Rightarrow> rbusEvent \<Rightarrow> world \<Rightarrow> world option" where
  "WanMgr_Rbus_EventReceiveHandler e mem ev w =
     (case Ev_name ev of
        None \<Rightarrow> Some w
      | Some eventName \<Rightarrow>
          if eventName = WANMGR_DEVICE_NETWORKING_MODE
          then Some (snd (with_config () (\<lambda>w. ((), upd_config (networking_mode_event (Ev_UInt32 ev None)) w)) w))
          else if eventName = X_RDK_REMOTE_DEVICECHANGE
          then device_change_event e mem (Ev_UInt32 ev (Some ''Index'')) (Ev_String ev (Some ''Mac_addr''))
                 (Ev_Boolean ev (Some ''available'')) w
          else if eventName = X_RDK_REMOTE_INVOKE
          then (case with_config GATEWAY_MODE (\<lambda>w. (Cfg_DeviceNwMode (config w), w)) w of
              (DeviceMode, w) \<Rightarrow>
                if DeviceMode \<noteq> GATEWAY_MODE then Some w
                else remote_invoke_event (Ev_String ev (Some ''Mac_source'')) (Ev_String ev (Some ''param_name''))
                       (Ev_String ev (Some ''param_value'')) w)
          else if eventName = ''wan_ready_to_go'' then Some (w\<lparr>wan_ready_to_go := Ev_Boolean ev None\<rparr>)
          else Some w)"

subsection \<open>The connectivity checker\<close>

text \<open>
  \<open>WanMgr_TandD_EventHandler\<close> gets the result for the interface whose alias is in the name; a name without brackets
  leaves the alias empty.
\<close>

abbreviation (input) "TANDD_CONNECTIVITY_CHECK_TREE \<equiv> ''Device.Diagnostics.X_RDK_DNSInternet.WANInterface.''"

definition tandd_alias :: "string \<Rightarrow> string" where
  "tandd_alias eventName =
     (case scan_lit (TANDD_CONNECTIVITY_CHECK_TREE @ ''['') eventName of
        None \<Rightarrow> [] | Some s \<Rightarrow> take 63 (takeWhile (\<lambda>c. c \<noteq> CHR '']'') s))"

definition WanMgr_TandD_EventHandler :: "string option \<Rightarrow> CONNECTIVITY_STATUS \<Rightarrow> world \<Rightarrow> world" where
  "WanMgr_TandD_EventHandler eventName res w =
     (case eventName of
        None \<Rightarrow> w
      | Some n \<Rightarrow>
          if strstr n TANDD_CONNECTIVITY_CHECK_TREE \<and> strstr n ''MonitorResult''
          then (case WanMgr_GetVirtIfDataByAlias_locked (tandd_alias n) w of
              (None, w) \<Rightarrow> w
            | (Some p, w) \<Rightarrow> WanMgr_VirtualIfaceData_release (upd_virtif p (\<lambda>v. v\<lparr>VI_IP := (VI_IP v)
                \<lparr>IP_Ipv4ConnectivityStatus := res, IP_Ipv6ConnectivityStatus := res\<rparr>\<rparr>) w))
          else w)"

text \<open>
  The thread that passes an order on.  For a remote interface the addresses come from sysevent; \<open>strtok\<close> on an empty
  value gives NULL, which is printed.
\<close>

definition first_token :: "string \<Rightarrow> string option" where
  "first_token s = (case takeWhile (\<lambda>c. c \<noteq> CHR ''/'') (dropWhile (\<lambda>c. c = CHR ''/'') s) of [] \<Rightarrow> None | t \<Rightarrow> Some t)"

definition wcc_request :: "env \<Rightarrow> TAD_WCC_Event \<Rightarrow> world \<Rightarrow> TAD_WCC_Event option" where
  "wcc_request e t w =
     (if take 6 (WCC_Alias t) \<noteq> ''REMOTE'' then Some t
      else do {
        ula \<leftarrow> first_token (take 511 (sysevent_get e (out w) ''MeshWANInterface_UlaAddr''));
        Some (t\<lparr>WCC_IPv6_DNS_Servers := take 511 (ula @ '',''), WCC_IPv6_Gateway := take 255 ula\<rparr>)
      })"

definition WanMgr_Configure_WCC_Thread_body :: "env \<Rightarrow> TAD_WCC_Event \<Rightarrow> world \<Rightarrow> world option" where
  "WanMgr_Configure_WCC_Thread_body e t w = do {
     t \<leftarrow> wcc_request e t w;
     let dml = TANDD_CONNECTIVITY_CHECK_TREE @ ''['' @ WCC_Alias t @ ''].MonitorResult'';
     let w = (if WCC_Event t = WCC_STOP \<or> WCC_Event t = WCC_RESTART
              then emit (RbusInvoke ''Device.X_RDK_DNSInternet.StopConnectivityCheck()'' t) (emit (RbusUnsubscribe dml) w)
              else w);
     Some (if WCC_Event t = WCC_START \<or> WCC_Event t = WCC_RESTART
           then let w = emit (RbusInvoke ''Device.X_RDK_DNSInternet.StartConnectivityCheck()'' t) w
                in if rbus_ok e (out w) then emit (RbusSubscribe dml) w else w
           else w)
   }"

end
