(* ===== verification/WanRbusLemmas.thy ===== *)
theory WanRbusLemmas
  imports WanRbusRemote WanFailoverLemmas WanDmlCalls
begin

text \<open>
  The handlers of the message bus are safe: on a well-formed data base they return, give the mutex back and change
  nothing of the selection.  Two effects in the sense of \<open>WanSafe\<close> describe them: \<open>kept True\<close> of the data-model
  handlers, for those the interface state machines can rely on, and \<open>bus_eff\<close> for those that rename or enable an
  interface.  The thread that adds a remote interface makes the table grow and has a rule of its own.
\<close>

subsection \<open>Effects\<close>

definition bus_eff :: "world \<Rightarrow> world \<Rightarrow> bool" where
  "bus_eff w w' \<longleftrightarrow> sel_view w' = sel_view w \<and> (placed w \<longrightarrow> placed w') \<and> total_ifaces w' = total_ifaces w"

lemma placed_unlock [simp]: "placed (pthread_mutex_unlock w) = placed w"
  by (simp add: placed_def)

interpretation bus: effects bus_eff
  by unfold_locales (auto simp: bus_eff_def)

lemma kept_bus:
  assumes "kept b w w'"
  shows "bus_eff w w'"
proof -
  have "total_ifaces w' = total_ifaces w" using assms by (simp add: kept_def)
  then show ?thesis unfolding bus_eff_def using kept_sel [OF assms] kept_placed [OF assms] by blast
qed

lemma okx_bus: "okx (kept b) w m R \<Longrightarrow> okx bus_eff w m R"
  by (erule okx_mono) (auto intro: kept_bus)

lemma bus_same_db: "gWanMgrDataBase w' = gWanMgrDataBase w \<Longrightarrow> bus_eff w w'"
  by (intro kept_bus [of True] kept_same_db)

definition bus_place :: "DML_WAN_IFACE \<Rightarrow>
  (uint \<times> uint \<times> uint list) \<times> WANMGR_IFACE_SELECTION \<times> (uint \<times> bool) list" where
  "bus_place d = (iface_shape d, Sel_Status (If_Selection d),
     map (\<lambda>v. (VI_baseIfIdx v, lists_placed v)) (If_VirtIfList d))"

lemma bus_place_virtifs:
  assumes "bus_place d' = bus_place d" "v' \<in> set (If_VirtIfList d')"
  obtains v where "v \<in> set (If_VirtIfList d)" "VI_baseIfIdx v = VI_baseIfIdx v'" "lists_placed v = lists_placed v'"
proof -
  from assms(1) have eq: "map (\<lambda>v. (VI_baseIfIdx v, lists_placed v)) (If_VirtIfList d') = map (\<lambda>v. (VI_baseIfIdx v, lists_placed v)) (If_VirtIfList d)"
    by (simp add: bus_place_def)
  from assms(2) have "(VI_baseIfIdx v', lists_placed v') \<in> set (map (\<lambda>v. (VI_baseIfIdx v, lists_placed v)) (If_VirtIfList d'))"
    by (auto simp: image_iff)
  then have "(VI_baseIfIdx v', lists_placed v') \<in> set (map (\<lambda>v. (VI_baseIfIdx v, lists_placed v)) (If_VirtIfList d))"
    by (simp only: eq)
  with that show thesis by auto
qed

lemma bus_upd_iface:
  assumes wf: "wf_db w" and f: "\<And>d. bus_place (f d) = bus_place d"
  shows "keeps w (upd_iface k f w)" "bus_eff w (upd_iface k f w)"
proof -
  have shape: "iface_shape (f d) = iface_shape d" "Sel_Status (If_Selection (f d)) = Sel_Status (If_Selection d)" for d
    using f [of d] by (simp_all add: bus_place_def)
  show "keeps w (upd_iface k f w)"
    by (intro keeps_upd_iface keeps_refl wf) (rule shape)
  have "placed (upd_iface k f w)" if "placed w"
    unfolding placed_def
  proof (intro allI impI ballI)
    fix j d' v'
    assume j: "j < unat (total_ifaces (upd_iface k f w))" and d': "iface_at j (upd_iface k f w) = Some d'"
      and v': "v' \<in> set (If_VirtIfList d')"
    from d' f obtain d where d: "iface_at j w = Some d" "bus_place d' = bus_place d" by (auto split: if_splits)
    from bus_place_virtifs [OF d(2) v'] obtain v where "v \<in> set (If_VirtIfList d)" "VI_baseIfIdx v = VI_baseIfIdx v'"
      "lists_placed v = lists_placed v'" .
    with that j d(1) show "VI_baseIfIdx v' = of_nat j \<and> lists_placed v'" by (simp add: placed_def)
  qed
  then show "bus_eff w (upd_iface k f w)"
    using shape by (auto simp: bus_eff_def sel_view_def option.map_comp comp_def)
qed

lemma keeps_kept_upd:
  assumes wf: "wf_db w" and f: "\<And>d. if_place True (f d) = if_place True d"
  shows "keeps w (upd_iface k f w)" "kept True w (upd_iface k f w)"
proof -
  show k: "kept True w (upd_iface k f w)" using f by (rule kept_upd_iface)
  show "keeps w (upd_iface k f w)" by (rule kept_keeps [OF wf k]) simp_all
qed

text \<open>The same for computations without a result.\<close>

definition okw :: "(world \<Rightarrow> world \<Rightarrow> bool) \<Rightarrow> world \<Rightarrow> world option \<Rightarrow> bool" where
  "okw eff w m \<longleftrightarrow> (\<exists>w'. m = Some w' \<and> keeps w w' \<and> eff w w')"

lemma okw_iff: "okw eff w m \<longleftrightarrow> okx eff w (map_option (Pair ()) m) (\<lambda>_. True)"
  by (auto simp: okw_def okx_def ok_def)

lemma okw_Some: "\<lbrakk>keeps w w'; eff w w'\<rbrakk> \<Longrightarrow> okw eff w (Some w')"
  by (simp add: okw_def)

lemma okw_if: "\<lbrakk>c \<Longrightarrow> okw eff w m; \<not> c \<Longrightarrow> okw eff w n\<rbrakk> \<Longrightarrow> okw eff w (if c then m else n)"
  by simp

lemma okw_snd: "okx eff w m R \<Longrightarrow> okw eff w (map_option snd m)"
  by (auto simp: okw_def okx_def ok_def)

lemma okw_bus: "okw (kept b) w m \<Longrightarrow> okw bus_eff w m"
  by (auto simp: okw_def intro: kept_bus)

lemma okw_same_db:
  assumes "wf_db w" "gWanMgrDataBase w' = gWanMgrDataBase w"
  shows "okw (kept True) w (Some w')"
  using keeps_same_db [OF assms(2) keeps_refl [OF assms(1)]] kept_same_db [OF assms(2)] by (simp add: okw_def)

lemma okw_config:
  assumes "wf_db w" "\<And>w. \<exists>f. snd (body w) = upd_config f w"
  shows "okw (kept True) w (Some (snd (with_config d body w)))"
proof -
  from assms(2) [of "mlock w"] obtain f where f: "snd (body (mlock w)) = upd_config f (mlock w)" by blast
  have "pthread_mutex_unlock (upd_config f (mlock w)) = upd_config f w"
    by (cases "mutex w") (simp_all add: upd_config_def upd_db_def pthread_mutex_unlock_def mlock_def)
  with assms(1) f have "snd (with_config d body w) = upd_config f w" by (cases "body (mlock w)") simp
  moreover have "keeps w (upd_config f w)" "kept True w (upd_config f w)"
    using assms(1) by (auto simp: kept_def intro: keeps_upd_config keeps_refl)
  ultimately show ?thesis by (simp add: okw_def)
qed

subsection \<open>Names\<close>

lemma by_alias_world: "wf_db w \<Longrightarrow> by_alias i n w = (fst (by_alias i n w), w)"
  by (auto simp: by_alias_def WanMgr_GetIfaceIndexByAliasName_def pthread_mutex_lock_def release_defs
      split: option.split)

text \<open>The virtual interface that a name selects is there.\<close>

definition row_there :: "string \<Rightarrow> world \<Rightarrow> bool" where
  "row_there name w \<longleftrightarrow>
     (let (index, VirtIfIndex) = name_indices name;
          i = fst (by_alias index name w)
      in case (if i \<noteq> 0 \<and> i - 1 < total_ifaces w then iface_at (unat (i - 1)) w else None) of
           None \<Rightarrow> True | Some d \<Rightarrow> VirtIfIndex - 1 < If_NoOfVirtIfs d)"

lemma row_there_position:
  assumes "wf_shape k (iface_shape d)" "(v :: uint) < If_NoOfVirtIfs d"
  obtains j where "virtif_position (If_VirtIfList d) v = Some j" "j < length (If_VirtIfList d)"
proof -
  from assms(2) have "unat v < unat (If_NoOfVirtIfs d)" by (simp add: word_less_nat_alt)
  from wf_shape_lookup [OF assms(1) this] that show thesis by simp
qed

subsection \<open>Subscribing, reading and writing\<close>

lemma subscribe_ok:
  assumes wf: "wf_db w"
  shows "okx (kept True) w (wanMgrDmlPublishEventHandler action name w) (\<lambda>_. True)"
proof (cases name)
  case None
  with wf show ?thesis by (simp add: wanMgrDmlPublishEventHandler_def dml.return_same)
next
  case (Some n)
  define table where "table = (if strstr n WANMGR_V1_INFACE_TABLE then WANMGR_V1_INFACE_TABLE else WANMGR_INFACE_TABLE)"
  obtain x where x: "by_alias (row_index table n) n w = (x, w)" using by_alias_world [OF wf] by blast
  have "okx (kept True) w (with_iface (x - 1) RBUS_ERROR_SUCCESS (\<lambda>k w. do {
      _ \<leftarrow> iface_at k w; Some (RBUS_ERROR_SUCCESS, upd_iface k (subscribe_iface action n) w) }) w) (\<lambda>_. True)"
  proof (rule dml.iface [OF wf])
    fix d
    assume d: "iface_at (unat (x - 1)) w = Some d" and m: "wf_db (mlock w)"
    have "if_place True (subscribe_iface action n y) = if_place True y" for y
      by (simp add: subscribe_iface_def if_place_def)
    from keeps_kept_upd [OF m this] d show "okx (kept True) (mlock w) (do {
        _ \<leftarrow> iface_at (unat (x - 1)) (mlock w);
        Some (RBUS_ERROR_SUCCESS, upd_iface (unat (x - 1)) (subscribe_iface action n) (mlock w)) }) (\<lambda>_. True)"
      by (simp add: dml.return)
  qed simp
  with wf Some x show ?thesis
    by (simp add: wanMgrDmlPublishEventHandler_def Let_def table_def [symmetric] dml.return_same)
qed

text \<open>The name's numbers, as the handlers compute them.\<close>

lemma row_there_at:
  assumes "row_there name w" "name_indices name = (i, v)" "fst (by_alias i name w) = x"
    "x - 1 < total_ifaces w" "x \<noteq> 0" "iface_at (unat (x - 1)) w = Some d"
  shows "v - 1 < If_NoOfVirtIfs d"
  using assms by (simp add: row_there_def)

lemma interface_value_total: "p \<noteq> None \<Longrightarrow> \<exists>x. interface_value name d p = Some x"
  by (cases p) (auto simp: interface_value_def)

lemma get_handler_ok:
  assumes wf: "wf_db w" and there: "\<And>n. name = Some n \<Longrightarrow> row_there n w"
  shows "okx (kept True) w (WanMgr_Interface_GetHandler name w) (\<lambda>_. True)"
proof (cases name)
  case None
  with wf show ?thesis by (simp add: WanMgr_Interface_GetHandler_def dml.return_same)
next
  case (Some n)
  obtain i v where iv: "name_indices n = (i, v)" by (cases "name_indices n")
  obtain x where x: "by_alias i n w = (x, w)" using by_alias_world [OF wf] by blast
  have "okx (kept True) w (with_iface (x - 1) RBUS_NONE (\<lambda>k w. do {
      d \<leftarrow> iface_at k w;
      r \<leftarrow> interface_value n d (WanMgr_getVirtualIfaceById (If_VirtIfList d) (v - 1));
      Some (r, w) }) w) (\<lambda>_. True)" if nz: "x \<noteq> 0"
  proof (rule dml.iface [OF wf])
    fix d
    assume d: "x - 1 < total_ifaces w" "iface_at (unat (x - 1)) w = Some d" "wf_shape (unat (x - 1)) (iface_shape d)"
      and m: "wf_db (mlock w)"
    from there [OF Some] iv x d(1,2) nz have "v - 1 < If_NoOfVirtIfs d" by (intro row_there_at [of n w i v x]) simp_all
    from row_there_position [OF d(3) this] obtain j where "virtif_position (If_VirtIfList d) (v - 1) = Some j"
      "j < length (If_VirtIfList d)" .
    then have "WanMgr_getVirtualIfaceById (If_VirtIfList d) (v - 1) \<noteq> None" by (simp add: WanMgr_getVirtualIfaceById_def)
    from interface_value_total [OF this] obtain r where
      "interface_value n d (WanMgr_getVirtualIfaceById (If_VirtIfList d) (v - 1)) = Some r" ..
    with d(2) m show "okx (kept True) (mlock w) (do {
        d \<leftarrow> iface_at (unat (x - 1)) (mlock w);
        r \<leftarrow> interface_value n d (WanMgr_getVirtualIfaceById (If_VirtIfList d) (v - 1));
        Some (r, mlock w) }) (\<lambda>_. True)" by (simp add: dml.return_same)
  qed simp
  then have "okx (kept True) w (do {
      (value, w) \<leftarrow> with_iface (x - 1) RBUS_NONE (\<lambda>k w. do {
        d \<leftarrow> iface_at k w;
        r \<leftarrow> interface_value n d (WanMgr_getVirtualIfaceById (If_VirtIfList d) (v - 1));
        Some (r, w) }) w;
      Some ((RBUS_ERROR_SUCCESS, value), w) }) (\<lambda>_. True)" if "x \<noteq> 0"
    using that by (intro dml.bind_pair [where P = "\<lambda>_. True"]) (auto intro: dml.return_same)
  with wf Some iv x show ?thesis
    by (simp add: WanMgr_Interface_GetHandler_def dml.return_same)
qed

text \<open>A write to the interface or to one of its virtual interfaces that keeps the places, and then publications.\<close>

lemma publish_reads [simp]:
  "gWanMgrDataBase (publish_both n v s w) = gWanMgrDataBase w"
  by (simp add: publish_both_def)

lemma psm_set_db [simp]: "gWanMgrDataBase (snd (WanMgr_RdkBus_SetParamValuesToDB e n v w)) = gWanMgrDataBase w"
  by (simp add: WanMgr_RdkBus_SetParamValuesToDB_def Let_def)

lemma set_enable_db:
  "gWanMgrDataBase (set_selection_enable e k i name x d w) =
     gWanMgrDataBase (upd_iface k (upd_Selection (\<lambda>s. s\<lparr>Sel_Enable := x\<rparr>)) w)"
proof -
  let ?u = "upd_iface k (upd_Selection (\<lambda>s. s\<lparr>Sel_Enable := x\<rparr>)) w"
  obtain r w' where w': "WanMgr_RdkBus_SetParamValuesToDB e (psm_if (unat i) ''Selection.Enable'') (psm_flag x) ?u = (r, w')"
    by (cases rule: prod.exhaust)
  with psm_set_db [of e "psm_if (unat i) ''Selection.Enable''" "psm_flag x" ?u] have "gWanMgrDataBase w' = gWanMgrDataBase ?u" by simp
  with w' show ?thesis by (simp add: set_selection_enable_def Let_def)
qed

lemma same_db_okx:
  assumes "okx (kept b) w (Some (r, w')) R" "gWanMgrDataBase w'' = gWanMgrDataBase w'"
  shows "okx (kept b) w (Some (r, w'')) R"
proof -
  from assms(1) have "keeps w w'" "kept b w w'" "R r" by (auto simp: okx_def ok_def)
  with keeps_same_db [OF assms(2)] dml.eff_trans kept_same_db [OF assms(2)] show ?thesis
    by (auto simp: okx_def ok_def)
qed

lemma upd_virtif_ok:
  assumes wf: "wf_db w" and f: "\<And>v. vif_place True (f v) = vif_place True v"
  shows "okx (kept True) w (Some (r, upd_virtif p f w)) (\<lambda>_. True)"
  unfolding upd_virtif_def
  by (rule dml.return [OF keeps_kept_upd [OF wf]]) (simp_all add: if_place_virtif f)

text \<open>Enabling an interface is seen in the reports, so it is \<open>bus_eff\<close> only.\<close>

definition enables :: "string option \<Rightarrow> bool" where
  "enables name \<longleftrightarrow> (case name of None \<Rightarrow> False | Some n \<Rightarrow> strstr n WANMGR_INFACE_WAN_ENABLE_SUFFIX)"

lemma set_interface_ok:
  assumes wf: "wf_db w" and d: "iface_at k w = Some d" and v: "v - 1 < If_NoOfVirtIfs d"
    and shape: "wf_shape k (iface_shape d)"
  shows "okx bus_eff w (set_interface e name value i v k w) (\<lambda>_. True)"
    "\<not> enables (Some name) \<Longrightarrow> okx (kept True) w (set_interface e name value i v k w) (\<lambda>_. True)"
proof -
  from row_there_position [OF shape v] obtain j where j: "virtif_position (If_VirtIfList d) (v - 1) = Some j"
    "j < length (If_VirtIfList d)" .
  note bad = dml.return_same [OF wf, where b = True and R = "\<lambda>_. True" and r = RBUS_ERROR_INVALID_INPUT, simplified]
  have rest: "okx (kept True) w (if strstr name WANMGR_INFACE_PHY_STATUS_SUFFIX \<or> strstr name WANMGR_INFACE_WAN_LINKSTATUS_SUFFIX \<or>
      strstr name WANMGR_INFACE_WAN_STATUS_SUFFIX \<or> \<not> strstr name WANMGR_INFACE_WAN_ENABLE_SUFFIX
    then set_interface e name value i v k w else Some (RBUS_ERROR_SUCCESS, w)) (\<lambda>_. True)"
  proof -
    have phy: "okx (kept True) w (Some (RBUS_ERROR_SUCCESS, upd_iface k (\<lambda>d. d\<lparr>If_BaseInterfaceStatus := s\<rparr>) w)) (\<lambda>_. True)" for s
      by (rule dml.return [OF keeps_kept_upd [OF wf]]) (simp_all add: if_place_def)
    have link: "okx (kept True) w (Some (RBUS_ERROR_SUCCESS, upd_virtif (k, j)
        (\<lambda>v. v\<lparr>VI_VLAN := (VI_VLAN v)\<lparr>VLAN_Status := s\<rparr>\<rparr>) w)) (\<lambda>_. True)" for s
      by (rule upd_virtif_ok [OF wf]) (simp add: vif_place_def)
    have status: "okx (kept True) w (Some (RBUS_ERROR_SUCCESS, upd_virtif (k, j) (\<lambda>v. v\<lparr>VI_Status := s\<rparr>) w)) (\<lambda>_. True)" for s
      by (rule upd_virtif_ok [OF wf]) (simp add: vif_place_def)
    show ?thesis
      using phy link status same_db_okx [OF phy] same_db_okx [OF link] same_db_okx [OF status] bad
        dml.return_same [OF wf, where b = True and R = "\<lambda>_. True" and r = RBUS_ERROR_SUCCESS, simplified]
      by (cases "value") (simp_all add: set_interface_def d j set_virtif_def Let_def)
  qed
  show kept: "okx (kept True) w (set_interface e name value i v k w) (\<lambda>_. True)" if "\<not> enables (Some name)"
    using rest that by (simp add: enables_def)
  have en: "okx bus_eff w (Some (RBUS_ERROR_SUCCESS, set_selection_enable e k i name x d w)) (\<lambda>_. True)" for x
  proof -
    have "bus_place (upd_Selection (\<lambda>s. s\<lparr>Sel_Enable := x\<rparr>) d) = bus_place d" for d by (simp add: bus_place_def)
    note u = bus_upd_iface [OF wf this, where k = k]
    have db: "gWanMgrDataBase (set_selection_enable e k i name x d w) =
        gWanMgrDataBase (upd_iface k (upd_Selection (\<lambda>s. s\<lparr>Sel_Enable := x\<rparr>)) w)"
      by (rule set_enable_db)
    show ?thesis
      by (rule bus.return [OF keeps_same_db [OF db u(1)] bus.eff_trans [OF u(2) bus_same_db [OF db]]]) simp
  qed
  show "okx bus_eff w (set_interface e name value i v k w) (\<lambda>_. True)"
  proof (cases "strstr name WANMGR_INFACE_PHY_STATUS_SUFFIX \<or> strstr name WANMGR_INFACE_WAN_LINKSTATUS_SUFFIX \<or>
      strstr name WANMGR_INFACE_WAN_STATUS_SUFFIX \<or> \<not> strstr name WANMGR_INFACE_WAN_ENABLE_SUFFIX")
    case True
    with rest show ?thesis by (simp only: if_True okx_bus)
  next
    case False
    with en okx_bus [OF bad] show ?thesis by (cases "value") (simp_all add: set_interface_def d Let_def)
  qed
qed

lemma set_handler_eff:
  assumes eff: "effects eff" and wf: "wf_db w" and there: "\<And>n. name = Some n \<Longrightarrow> row_there n w"
    and body: "\<And>n i v k d w. \<lbrakk>name = Some n; wf_db w; iface_at k w = Some d; v - 1 < If_NoOfVirtIfs d; wf_shape k (iface_shape d)\<rbrakk> \<Longrightarrow>
      okx eff w (set_interface e n value i v k w) (\<lambda>_. True)"
  shows "okx eff w (WanMgr_Interface_SetHandler e name value w) (\<lambda>_. True)"
proof (cases name)
  case None
  with wf eff show ?thesis by (simp add: WanMgr_Interface_SetHandler_def effects.return_same)
next
  case (Some n)
  obtain i v where iv: "name_indices n = (i, v)" by (cases "name_indices n")
  obtain x where x: "by_alias i n w = (x, w)" using by_alias_world [OF wf] by blast
  have "okx eff w (with_iface (x - 1) RBUS_ERROR_SUCCESS (set_interface e n value x v) w) (\<lambda>_. True)" if nz: "x \<noteq> 0"
  proof (rule effects.iface [OF eff wf])
    fix d
    assume d: "x - 1 < total_ifaces w" "iface_at (unat (x - 1)) w = Some d" "wf_shape (unat (x - 1)) (iface_shape d)"
      and m: "wf_db (mlock w)"
    from there [OF Some] iv x d(1,2) nz have "v - 1 < If_NoOfVirtIfs d" by (intro row_there_at [of n w i v x]) simp_all
    with body [OF Some m _ this d(3)] d(2)
    show "okx eff (mlock w) (set_interface e n value x v (unat (x - 1)) (mlock w)) (\<lambda>_. True)" by simp
  qed simp
  with wf eff Some iv x show ?thesis by (simp add: WanMgr_Interface_SetHandler_def effects.return_same)
qed

lemma set_handler_ok:
  assumes "wf_db w" "\<And>n. name = Some n \<Longrightarrow> row_there n w"
  shows "okx bus_eff w (WanMgr_Interface_SetHandler e name value w) (\<lambda>_. True)"
    "\<not> enables name \<Longrightarrow> okx (kept True) w (WanMgr_Interface_SetHandler e name value w) (\<lambda>_. True)"
proof -
  show "okx bus_eff w (WanMgr_Interface_SetHandler e name value w) (\<lambda>_. True)"
    by (rule set_handler_eff [OF bus.effects_axioms assms]) (simp_all add: set_interface_ok(1))
  show "okx (kept True) w (WanMgr_Interface_SetHandler e name value w) (\<lambda>_. True)" if "\<not> enables name"
    by (rule set_handler_eff [OF dml.effects_axioms assms]) (use that in \<open>simp_all add: set_interface_ok(2)\<close>)
qed

lemma get_config_same: "wf_db w \<Longrightarrow> snd (WanMgr_Rbus_getHandler name w) = w"
  by (simp add: WanMgr_Rbus_getHandler_def)

subsection \<open>Looking for a remote interface\<close>

definition remote_hit :: "string \<Rightarrow> nat \<Rightarrow> world \<Rightarrow> bool" where
  "remote_hit mac i w \<longleftrightarrow> (case iface_at i w of None \<Rightarrow> False | Some d \<Rightarrow> remote_matches mac d)"

definition find_remote :: "string \<Rightarrow> world \<Rightarrow> int" where
  "find_remote mac w = (case find (\<lambda>i. remote_hit mac i w) [0..<unat (total_ifaces w)] of None \<Rightarrow> -1 | Some i \<Rightarrow> int i)"

lemma remote_index_eq:
  assumes wf: "wf_db w"
  shows "WanMgr_Remote_IfaceData_index (Some mac) w = Some (find_remote mac w, w)"
proof -
  let ?body = "\<lambda>i r. with_iface (of_nat i) (Continue r) (\<lambda>k w. do {
      d \<leftarrow> iface_at k w; mac \<leftarrow> Some mac; Some (if remote_matches mac d then Break (int i) else Continue r, w) })"
  have body: "?body i r w = Some (if remote_hit mac i w then Break (int i) else Continue r, w)"
    if "i < unat (total_ifaces w)" for i and r :: int
  proof -
    from wf that obtain d where "iface_at i w = Some d" by (rule wf_db_iface_at)
    with index_bound [OF that] show ?thesis by (simp add: with_wf(2) [OF wf] remote_hit_def)
  qed
  have "for_loop is ?body r w = Some (case find (\<lambda>i. remote_hit mac i w) is of None \<Rightarrow> r | Some i \<Rightarrow> int i, w)"
    if "set is \<subseteq> {..<unat (total_ifaces w)}" for "is" and r :: int
    using that
  proof (induction "is")
    case (Cons i "is")
    then have "?body i r w = Some (if remote_hit mac i w then Break (int i) else Continue r, w)" by (intro body) simp
    with Cons show ?case by (cases "remote_hit mac i w") (simp_all add: for_loop_Cons)
  qed simp
  from this [of "[0..<unat (total_ifaces w)]"] wf show ?thesis
    by (simp add: WanMgr_Remote_IfaceData_index_def find_remote_def atLeast0LessThan)
qed

lemma remote_index_frame:
  "\<lbrakk>wf_db w; wf_db w'; total_ifaces w' = total_ifaces w; \<And>i. remote_hit mac i w' = remote_hit mac i w\<rbrakk> \<Longrightarrow>
   find_remote mac w' = find_remote mac w"
  by (simp add: find_remote_def)

lemma find_remote_cases:
  obtains (none) "find_remote mac w = -1" "\<And>i. i < unat (total_ifaces w) \<Longrightarrow> \<not> remote_hit mac i w"
  | (some) i where "find_remote mac w = int i" "i < unat (total_ifaces w)" "remote_hit mac i w"
      "\<And>j. j < i \<Longrightarrow> \<not> remote_hit mac j w"
proof (cases "find (\<lambda>i. remote_hit mac i w) [0..<unat (total_ifaces w)]")
  case None
  then have "find_remote mac w = -1" by (simp add: find_remote_def)
  moreover from None have "\<not> remote_hit mac i w" if "i < unat (total_ifaces w)" for i
    using that by (auto simp: find_None_iff)
  ultimately show thesis by (rule none)
next
  case (Some i)
  then obtain n where n: "n < unat (total_ifaces w)" "i = n" "remote_hit mac i w" "\<forall>j < n. \<not> remote_hit mac j w"
    by (auto simp: find_Some_iff)
  with Some show thesis by (intro some [of i]) (simp_all add: find_remote_def)
qed

lemma with_remote_ok:
  assumes wf: "wf_db w" and i: "i < unat (total_ifaces w)"
    and body: "\<And>d. \<lbrakk>iface_at i (mlock w) = Some d; head_virtif d \<noteq> None; wf_shape i (iface_shape d); wf_db (mlock w)\<rbrakk> \<Longrightarrow>
      okw eff (mlock w) (body i (mlock w))"
    and eff: "effects eff"
  shows "okw eff w (with_remote (int i) body w)"
proof -
  from i index_bound [OF i] have u: "unat (of_nat i :: uint) = i" "of_nat i < total_ifaces w" by simp_all
  have "with_remote (int i) body w = map_option snd (with_iface (of_nat i) () (\<lambda>k w. map_option (Pair ()) (body k w)) w)"
    using u(2) wf wf_db_mutex [OF wf] u(1)
    by (cases "body i (mlock w)")
      (auto simp: with_remote_def with_wf(2) [OF wf] WanMgr_GetIfaceData_locked_def pthread_mutex_lock_def release_defs wf_db_def
        split: option.splits)
  moreover have "okx eff w (with_iface (of_nat i) () (\<lambda>k w. map_option (Pair ()) (body k w)) w) (\<lambda>_. True)"
    by (rule effects.iface [OF eff wf]) (use body u in \<open>auto simp: okw_iff\<close>)
  ultimately show ?thesis using okw_snd by metis
qed

subsection \<open>Remote devices\<close>

lemma bus_place_virtif:
  assumes "\<And>v. vif_place False (f v) = vif_place False v"
  shows "bus_place (upd_head_virtif f d) = bus_place d"
proof -
  have "VI_VirIfIdx (f v) = VI_VirIfIdx v" "(VI_baseIfIdx (f v), lists_placed (f v)) = (VI_baseIfIdx v, lists_placed v)" for v
    using assms [of v] vif_place_lists [OF assms [of v]] by (simp_all add: vif_place_def)
  then show ?thesis by (simp add: bus_place_def iface_shape_def map_map_nth)
qed

lemma remote_writes_ok:
  assumes wf: "wf_db w" and d: "iface_at k w = Some d" "head_virtif d \<noteq> None"
  shows "okw bus_eff w (remote_link s k w)" "okw (kept True) w (remote_status s k w)"
    "okw (kept True) w (Some (remote_phy s k w))"
proof -
  obtain v where v: "head_virtif d = Some v" using d(2) by blast
  have "bus_place (upd_head_virtif (\<lambda>v.
       let v = v\<lparr>VI_VLAN := (VI_VLAN v)\<lparr>VLAN_Status := link_of_string s\<rparr>\<rparr>
       in if link_of_string s = WAN_IFACE_LINKSTATUS_UP then WanMgr_getRemoteWanParamsFromPSM w v else v) y) = bus_place y" for y
    by (rule bus_place_virtif) (simp add: vif_place_def WanMgr_getRemoteWanParamsFromPSM_def Let_def split: option.split)
  from bus_upd_iface [OF wf this] show "okw bus_eff w (remote_link s k w)" by (simp add: remote_link_def d(1) v okw_def)
  have "if_place True (upd_head_virtif (\<lambda>v. v\<lparr>VI_RemoteStatus := status_of_string s\<rparr>) y) = if_place True y" for y
    unfolding upd_head_virtif_def by (rule if_place_virtif) (simp add: vif_place_def)
  from keeps_kept_upd [OF wf this] show "okw (kept True) w (remote_status s k w)" by (simp add: remote_status_def d(1) v okw_def)
  show "okw (kept True) w (Some (remote_phy s k w))" unfolding remote_phy_def
    by (rule okw_Some; rule keeps_kept_upd [OF wf]) (simp_all add: if_place_def)
qed

lemma fold_emit_db: "gWanMgrDataBase (fold (\<lambda>i. emit (f i)) is w) = gWanMgrDataBase w"
  by (induction "is" arbitrary: w) simp_all

lemma okw_then_db:
  assumes "keeps w w'" "bus_eff w w'" "gWanMgrDataBase w'' = gWanMgrDataBase w'"
  shows "okw bus_eff w (Some w'')"
  using keeps_same_db [OF assms(3,1)] bus.eff_trans [OF assms(2) bus_same_db [OF assms(3)]] by (simp add: okw_def)

lemma remote_alias_ok:
  assumes wf: "wf_db w" and d: "iface_at k w = Some d" "head_virtif d \<noteq> None"
  shows "okw bus_eff w (remote_alias e s inst k w)"
proof -
  let ?a = "take 63 (''REMOTE_'' @ s)"
  let ?f = "\<lambda>d. upd_head_virtif (\<lambda>v. v\<lparr>VI_Alias := ?a\<rparr>) (d\<lparr>If_AliasName := ?a\<rparr>)"
  obtain v where v: "head_virtif d = Some v" using d(2) by blast
  have "bus_place (?f y) = bus_place (y\<lparr>If_AliasName := ?a\<rparr>)" for y by (rule bus_place_virtif) (simp add: vif_place_def)
  then have "bus_place (?f y) = bus_place y" for y by (simp add: bus_place_def iface_shape_def)
  note u = bus_upd_iface [OF wf this, where k = k]
  have "okw bus_eff w (Some w)" using wf by (intro okw_Some keeps_refl bus.eff_refl)
  with okw_then_db [OF u] show ?thesis by (simp add: remote_alias_def d(1) v Let_def fold_emit_db)
qed

lemma remote_answer_ok:
  assumes wf: "wf_db w" and d: "iface_at k w = Some d" "head_virtif d \<noteq> None" and s: "pValue \<noteq> None"
  shows "okw bus_eff w (remote_answer e name pValue inst k w)"
proof -
  obtain s where "pValue = Some s" using s by blast
  have "okw bus_eff w (Some w)" using wf by (intro okw_Some keeps_refl bus.eff_refl)
  moreover have "okw bus_eff w (Some (upd_iface k (\<lambda>d. d\<lparr>If_Name := a\<rparr>) w))"
    "okw bus_eff w (Some (upd_iface k (\<lambda>d. d\<lparr>If_DisplayName := a\<rparr>) w))" for a
    by (rule okw_Some; rule bus_upd_iface [OF wf]; simp add: bus_place_def iface_shape_def)+
  moreover note remote_alias_ok [OF wf d] okw_bus [OF remote_writes_ok(2) [OF wf d]] okw_bus [OF remote_writes_ok(3) [OF wf d]]
    remote_writes_ok(1) [OF wf d]
  ultimately show ?thesis using \<open>pValue = Some s\<close> by (simp add: remote_answer_def)
qed

lemma answer_handler_ok:
  assumes wf: "wf_db w" and some: "success \<Longrightarrow> pMac \<noteq> None \<and> name \<noteq> None \<and> pValue \<noteq> None"
  shows "okw bus_eff w (CPEInterface_AsyncMethodHandler e m success pMac name pValue w)"
proof (cases "success \<and> m = X_RDK_REMOTE_INVOKE")
  case False
  then show ?thesis using wf by (auto simp: CPEInterface_AsyncMethodHandler_def intro: okw_Some keeps_refl bus.eff_refl)
next
  case True
  with some obtain mac n where mac: "pMac = Some mac" "name = Some n" "pValue \<noteq> None" by auto
  note idx = remote_index_eq [OF wf, of mac]
  show ?thesis
  proof (cases rule: find_remote_cases [of mac w])
    case none
    with idx mac True show ?thesis
      using wf by (simp add: CPEInterface_AsyncMethodHandler_def okw_Some keeps_refl bus.eff_refl)
  next
    case (some i)
    have "okw bus_eff w (with_remote (int i) (\<lambda>k w. do { name \<leftarrow> name; remote_answer e name pValue (nat (int i) + 1) k w }) w)"
      by (rule with_remote_ok [OF wf some(2) _ bus.effects_axioms]) (simp add: mac(2) remote_answer_ok mac(3))
    with idx mac(1) True some(1) show ?thesis by (simp add: CPEInterface_AsyncMethodHandler_def)
  qed
qed

lemma remote_invoke_ok:
  assumes wf: "wf_db w" and some: "pMac \<noteq> None" "pParamName \<noteq> None" "pValue \<noteq> None"
  shows "okw bus_eff w (remote_invoke_event pMac pParamName pValue w)"
proof -
  from some obtain mac n s where mac: "pMac = Some mac" "pParamName = Some n" "pValue = Some s" by blast
  note idx = remote_index_eq [OF wf, of mac]
  show ?thesis
  proof (cases rule: find_remote_cases [of mac w])
    case none
    with idx mac show ?thesis using wf by (simp add: remote_invoke_event_def okw_Some keeps_refl bus.eff_refl)
  next
    case (some i)
    have "okw bus_eff w (with_remote (int i) (\<lambda>k w. do {
         name \<leftarrow> Some n;
         if strstr name WANMGR_INFACE_PHY_STATUS_SUFFIX then do { s \<leftarrow> Some s; Some (remote_phy s k w) }
         else if strstr name WANMGR_INFACE_WAN_LINKSTATUS_SUFFIX then do { s \<leftarrow> Some s; remote_link s k w }
         else if strstr name WANMGR_INFACE_WAN_STATUS_SUFFIX then do { s \<leftarrow> Some s; remote_status s k w }
         else Some w }) w)"
    proof (rule with_remote_ok [OF wf some(2) _ bus.effects_axioms])
      fix d
      assume d: "iface_at i (mlock w) = Some d" "head_virtif d \<noteq> None" and m: "wf_db (mlock w)"
      have "okw bus_eff (mlock w) (Some (mlock w))" using m by (intro okw_Some keeps_refl bus.eff_refl)
      with remote_writes_ok(1) [OF m d] okw_bus [OF remote_writes_ok(2) [OF m d]] okw_bus [OF remote_writes_ok(3) [OF m d]]
      show "okw bus_eff (mlock w) (do {
         name \<leftarrow> Some n;
         if strstr name WANMGR_INFACE_PHY_STATUS_SUFFIX then do { s \<leftarrow> Some s; Some (remote_phy s i (mlock w)) }
         else if strstr name WANMGR_INFACE_WAN_LINKSTATUS_SUFFIX then do { s \<leftarrow> Some s; remote_link s i (mlock w) }
         else if strstr name WANMGR_INFACE_WAN_STATUS_SUFFIX then do { s \<leftarrow> Some s; remote_status s i (mlock w) }
         else Some (mlock w) })" by simp
    qed
    with idx mac some(1) show ?thesis by (simp add: remote_invoke_event_def)
  qed
qed

subsection \<open>The thread that adds a remote interface\<close>

lemma register_db [simp]: "gWanMgrDataBase (snd (register_row e t i a w)) = gWanMgrDataBase w"
  by (simp add: register_row_def Let_def)

lemma remote_rows_db: "gWanMgrDataBase (snd (remote_rows e inst a w)) = gWanMgrDataBase w"
proof -
  have "gWanMgrDataBase w' = gWanMgrDataBase u" if "register_row e t i a u = (r, w')" for t i r u w'
    using register_db [of e t i a u] that by simp
  then show ?thesis by (auto simp: remote_rows_def split: prod.split bool.split)
qed

lemma ask_remote_db: "gWanMgrDataBase (ask_remote e mac op ns w) = gWanMgrDataBase w"
  by (induction ns arbitrary: w) (simp_all add: ask_remote_def WanMgr_IDM_Invoke_def Let_def)

lemma remote_questions_db: "gWanMgrDataBase (remote_questions e mac w) = gWanMgrDataBase w"
  by (simp add: remote_questions_def WanMgr_IDM_InvokeSync_def Let_def ask_remote_db)

lemma remote_enable_place: "bus_place (remote_enable av d) = bus_place d"
  by (simp add: remote_enable_def bus_place_def iface_shape_def)

text \<open>The last section of the first half: the entry is enabled or disabled.\<close>

lemma remote_enable_run:
  assumes wf: "wf_db w" and i: "i < unat (total_ifaces w)"
  shows "with_iface (of_int (int i)) False (\<lambda>k w. do {
      _ \<leftarrow> iface_at k w; Some (\<not> av, upd_iface k (remote_enable av) w) }) w = Some (\<not> av, upd_iface i (remote_enable av) w)"
proof -
  from wf i obtain d where "iface_at i w = Some d" by (rule wf_db_iface_at)
  with index_bound [OF i] wf_db_mutex [OF wf] show ?thesis by (simp add: with_wf(2) [OF wf])
qed

definition grown :: "string \<Rightarrow> DML_VIRTUAL_IFACE \<Rightarrow> world \<Rightarrow> world \<Rightarrow> bool" where
  "grown mac mem w w' \<longleftrightarrow> wf_db w' \<and> mutex w' = mutex w \<and> total_groups w' = total_groups w \<and>
     total_ifaces w' = total_ifaces w + 1 \<and>
     (\<forall>k. iface_at k w' = (if k = unat (total_ifaces w) then map_option (new_remote_iface mac mem w) (iface_at k w)
        else iface_at k w)) \<and>
     map_option (map G_SelectedInterface) (Groups w') = map_option (map G_SelectedInterface) (Groups w)"

lemma grown_same_db: "\<lbrakk>grown mac mem w w'; gWanMgrDataBase w'' = gWanMgrDataBase w'\<rbrakk> \<Longrightarrow> grown mac mem w w''"
  unfolding grown_def using wf_db_same [of w'' w'] same_db_reads [of w'' w'] by simp

lemma remote_configure_grown:
  assumes wf: "wf_db w" and room: "total_ifaces w < MAX_WAN_INTERFACE_ENTRY" and mem: "alloc_VirtIf e 0 = Some mem"
  shows "\<exists>w'. WanMgr_Remote_IfaceData_configure e mac idx w = Some (ANSC_STATUS_SUCCESS, int (unat (total_ifaces w)), w') \<and>
    grown mac mem w w'"
proof -
  let ?n = "unat (total_ifaces w)"
  from remote_configure_effect [OF wf room mem, of mac idx] obtain w' where w':
    "WanMgr_Remote_IfaceData_configure e mac idx w = Some (ANSC_STATUS_SUCCESS, int ?n, w')"
    "total_ifaces w' = total_ifaces w + 1" "mutex w' = mutex w" "total_groups w' = total_groups w"
    "pIface w' = map_option (map_nth ?n (new_remote_iface mac mem w)) (pIface w)"
    "Groups w' = (if valid_group 1 w then map_option (map_nth 1 (remote_group (total_ifaces w))) (Groups w) else Groups w)" by blast
  have "G_SelectedInterface (remote_group i g) = G_SelectedInterface g" for i g by (simp add: remote_group_def)
  from map_map_nth [of G_SelectedInterface "remote_group (total_ifaces w)", OF this] w'(6)
  have sel: "map_option (map G_SelectedInterface) (Groups w') = map_option (map G_SelectedInterface) (Groups w)"
    by (simp add: option.map_comp comp_def)
  have len: "map_option length (Groups w') = map_option length (Groups w)" using w'(6) by (simp add: option.map_comp comp_def)
  have at: "iface_at k w' = (if k = ?n then map_option (new_remote_iface mac mem w) (iface_at k w) else iface_at k w)" for k
    using w'(5) by (cases "pIface w") (auto simp: iface_at_def)
  have "wf_db w'" by (rule remote_configure_wf [OF wf room w'(2-5) len])
  with w' sel at show ?thesis by (auto simp: grown_def)
qed

lemma grown_new:
  assumes g: "grown mac mem w w'" and wf: "wf_db w" and room: "total_ifaces w < MAX_WAN_INTERFACE_ENTRY"
  obtains d where "iface_at (unat (total_ifaces w)) w' = Some (new_remote_iface mac mem w d)" "If_VirtIfList d = []"
    "unat (total_ifaces w') = Suc (unat (total_ifaces w))"
proof -
  from wf_db_slot [OF wf room] obtain d where d: "iface_at (unat (total_ifaces w)) w = Some d" "If_VirtIfList d = []" .
  from room have "unat (total_ifaces w) < 32" by (simp add: word_less_nat_alt)
  then have "unat (total_ifaces w + 1) = Suc (unat (total_ifaces w))" by (simp add: unat_word_ariths)
  with d g that show thesis by (simp add: grown_def)
qed

lemma new_remote_fields [simp]:
  "If_RemoteCPEMac (new_remote_iface mac mem w d) = mac" "If_IfaceType (new_remote_iface mac mem w d) = REMOTE_IFACE"
  "If_AliasName (new_remote_iface mac mem w d) = []" "Sel_Enable (If_Selection (new_remote_iface mac mem w d)) = True"
  "Sel_Status (If_Selection (new_remote_iface mac mem w d)) = WAN_IFACE_NOT_SELECTED"
  "Sel_Group (If_Selection (new_remote_iface mac mem w d)) = REMOTE_INTERFACE_GROUP"
  by (simp_all add: new_remote_iface_def remote_entry_def WanMgr_IfaceData_Init_def)

lemma remote_enable_new: "remote_enable True (new_remote_iface mac mem w d) = new_remote_iface mac mem w d"
  by (simp add: remote_enable_def upd_Selection_def new_remote_iface_def remote_entry_def)

lemma grown_enable:
  assumes "grown mac mem w w'" "wf_db w" "total_ifaces w < MAX_WAN_INTERFACE_ENTRY"
  shows "grown mac mem w (upd_iface (unat (total_ifaces w)) (remote_enable True) w')"
proof -
  from grown_new [OF assms] obtain d where d: "iface_at (unat (total_ifaces w)) w' = Some (new_remote_iface mac mem w d)" .
  let ?u = "upd_iface (unat (total_ifaces w)) (remote_enable True) w'"
  from d have at: "iface_at k ?u = iface_at k w'" for k by (simp add: remote_enable_new)
  have "iface_shape (remote_enable True y) = iface_shape y" for y
    using remote_enable_place [of True y] by (simp add: bus_place_def)
  then have "wf_db ?u = wf_db w'" by (rule wf_db_upd_iface)
  with assms(1) at show ?thesis by (simp add: grown_def del: iface_at_upd_iface)
qed

text \<open>A device that is not known yet becomes a new entry, whatever the bus says of its rows.\<close>

lemma remote_thread_new:
  assumes wf: "wf_db w" and room: "total_ifaces w < MAX_WAN_INTERFACE_ENTRY" and mem: "alloc_VirtIf e 0 = Some mem"
    and new: "find_remote mac w = -1"
  shows "\<exists>w'. WanMgr_WanRemoteIfaceConfigure_thread_body e mac True w = Some w' \<and> grown mac mem w w'"
proof -
  let ?n = "unat (total_ifaces w)"
  from remote_configure_grown [OF wf room mem] obtain w1 where
    w1: "WanMgr_Remote_IfaceData_configure e mac (-1) w = Some (ANSC_STATUS_SUCCESS, int ?n, w1)" "grown mac mem w w1" by blast
  from grown_new [OF w1(2) wf room] obtain d where
    d: "iface_at ?n w1 = Some (new_remote_iface mac mem w d)" "unat (total_ifaces w1) = Suc ?n" .
  have wf1: "wf_db w1" using w1(2) by (simp add: grown_def)
  then obtain k where m: "mutex w1 = Some k" by (auto dest: wf_db_mutex)
  have "total_ifaces w < total_ifaces w1" using d(2) by (simp add: word_less_nat_alt)
  then have named: "WanMgr_GetIfaceAliasNameByIndex (of_int (int ?n)) [] w1 = Some ([], w1)"
    using wf1 m d(1) by (auto simp: WanMgr_GetIfaceAliasNameByIndex_def pthread_mutex_lock_def release_defs wf_db_def split: option.splits)
  obtain ok w2 where w2: "remote_rows e (?n + 1) [] w1 = (ok, w2)" by (cases "remote_rows e (?n + 1) [] w1")
  have db2: "gWanMgrDataBase w2 = gWanMgrDataBase w1" using remote_rows_db [of e "?n + 1" "[]" w1] w2 by simp
  from grown_same_db [OF w1(2) db2] have g2: "grown mac mem w w2" .
  have add: "remote_add e mac True w = Some (if ok then int ?n else -1, w2)"
    using w1(1) named w2 by (simp add: remote_add_def split: bool.split)
  show ?thesis
  proof (cases ok)
    case False
    with add new g2 show ?thesis
      by (simp add: WanMgr_WanRemoteIfaceConfigure_thread_body_def remote_index_eq [OF wf])
  next
    case True
    have "?n < unat (total_ifaces w2)" using d(2) same_db_reads(4) [OF db2] by simp
    from remote_enable_run [OF _ this, of True] g2 True add new
    have "WanMgr_WanRemoteIfaceConfigure_thread_body e mac True w =
        Some (remote_questions e mac (upd_iface ?n (remote_enable True) w2))"
      by (simp add: WanMgr_WanRemoteIfaceConfigure_thread_body_def remote_index_eq [OF wf] grown_def)
    with grown_same_db [OF grown_enable [OF g2 wf room] remote_questions_db] show ?thesis by blast
  qed
qed

text \<open>A device that is known is enabled or disabled; one that is not and goes away is not added.\<close>

lemma remote_thread_known:
  assumes wf: "wf_db w" and k: "find_remote mac w = int i" "i < unat (total_ifaces w)"
  shows "\<exists>w'. WanMgr_WanRemoteIfaceConfigure_thread_body e mac av w = Some w' \<and>
    gWanMgrDataBase w' = gWanMgrDataBase (upd_iface i (remote_enable av) w)"
  using remote_enable_run [OF wf k(2), of av] k(1)
  by (simp add: WanMgr_WanRemoteIfaceConfigure_thread_body_def remote_index_eq [OF wf] remote_questions_db)

lemma remote_thread_unknown:
  assumes "wf_db w" "find_remote mac w = -1"
  shows "WanMgr_WanRemoteIfaceConfigure_thread_body e mac False w = Some w"
  using assms by (simp add: WanMgr_WanRemoteIfaceConfigure_thread_body_def remote_index_eq remote_add_def)

subsection \<open>What the other threads see of a new interface\<close>

lemma grown_rely:
  assumes g: "grown mac mem w w'" and wf: "wf_db w" and room: "total_ifaces w < MAX_WAN_INTERFACE_ENTRY"
  shows "FO_rely w w'"
proof -
  let ?n = "unat (total_ifaces w)"
  from grown_new [OF g wf room] obtain d where d: "iface_at ?n w' = Some (new_remote_iface mac mem w d)"
    "unat (total_ifaces w') = Suc ?n" .
  have old: "fst (sel_view w') k = fst (sel_view w) k" if "k < ?n" for k using g that by (simp add: grown_def sel_view_def)
  have "fst (sel_view w') ?n = Some WAN_IFACE_NOT_SELECTED" using d(1) by (simp add: sel_view_def)
  with old d(2) have active: "active_set w' \<subseteq> active_set w" by (auto simp: active_set_def less_Suc_eq)
  have sel: "snd (sel_view w') = snd (sel_view w)"
  proof
    fix k
    from g have "map_option (map G_SelectedInterface) (Groups w') = map_option (map G_SelectedInterface) (Groups w)"
      by (simp add: grown_def)
    then have "map_option G_SelectedInterface (group_at k w') = map_option G_SelectedInterface (group_at k w)"
      by (cases "Groups w"; cases "Groups w'")
        (auto simp: group_at_def nth_opt_def dest: map_eq_imp_length_eq, metis nth_map map_eq_imp_length_eq)
    then show "snd (sel_view w') k = snd (sel_view w) k" by (simp add: sel_view_def)
  qed
  have grp: "total_groups w' = total_groups w" and le: "total_ifaces w \<le> total_ifaces w'"
    using g d(2) by (simp_all add: grown_def word_le_nat_alt)
  have "group_selected i w' = Some k" if "group_selected i w = Some k" for i k
    using that le unfolding group_selected_def sel grp by (auto split: if_splits option.splits)
  with active g le show ?thesis by (auto simp: FO_rely_def interference_def grown_def)
qed

lemma grown_placed:
  assumes g: "grown mac mem w w'" and wf: "wf_db w" and room: "total_ifaces w < MAX_WAN_INTERFACE_ENTRY"
    and mem: "cleared mem" and pl: "placed w"
  shows "placed w'"
  unfolding placed_def
proof (intro allI impI ballI)
  fix k d' v
  assume k: "k < unat (total_ifaces w')" and d': "iface_at k w' = Some d'" and v: "v \<in> set (If_VirtIfList d')"
  let ?n = "unat (total_ifaces w)"
  from grown_new [OF g wf room] obtain d where d: "iface_at ?n w' = Some (new_remote_iface mac mem w d)"
    "If_VirtIfList d = []" "unat (total_ifaces w') = Suc ?n" .
  show "VI_baseIfIdx v = of_nat k \<and> lists_placed v"
  proof (cases "k = ?n")
    case True
    with d(1) d' have "d' = new_remote_iface mac mem w d" by simp
    with d(2) v have "v = get_Remote_Virtual_Interface_FromPSM 1 0 (remote_virtif (total_ifaces w) mem) w"
      by (simp add: new_remote_iface_def remote_entry_def)
    with mem True show ?thesis
      by (simp add: get_Remote_Virtual_Interface_FromPSM_def remote_virtif_def Let_def WanMgr_VirtIface_Init_def lists_placed_def
          cleared_def split: option.split)
  next
    case False
    with k d(3) have "k < ?n" by simp
    with g d' have "iface_at k w = Some d'" by (simp add: grown_def)
    with pl \<open>k < ?n\<close> v show ?thesis by (simp add: placed_def)
  qed
qed

subsection \<open>Events\<close>

lemma device_change_db:
  assumes "wf_db w" "length Mac < 18"
  shows "\<exists>w'. device_change_event e mem Index (Some Mac) av w = Some w' \<and> gWanMgrDataBase w' = gWanMgrDataBase w"
  using assms by (auto simp: device_change_event_def WanMgr_WanRemoteIfaceConfigure_def)

definition event_ok :: "rbusEvent \<Rightarrow> bool" where
  "event_ok ev \<longleftrightarrow>
     (Ev_name ev = Some X_RDK_REMOTE_DEVICECHANGE \<longrightarrow>
        (case Ev_String ev (Some ''Mac_addr'') of None \<Rightarrow> True | Some mac \<Rightarrow> length mac < 18)) \<and>
     (Ev_name ev = Some X_RDK_REMOTE_INVOKE \<longrightarrow>
        Ev_String ev (Some ''Mac_source'') \<noteq> None \<and> Ev_String ev (Some ''param_name'') \<noteq> None \<and>
        Ev_String ev (Some ''param_value'') \<noteq> None)"

lemma event_handler_ok:
  assumes wf: "wf_db w" and ev: "event_ok ev"
  shows "okw bus_eff w (WanMgr_Rbus_EventReceiveHandler e mem ev w)"
proof -
  have same: "okw bus_eff w (Some w')" if "gWanMgrDataBase w' = gWanMgrDataBase w" for w'
    using okw_bus [OF okw_same_db [OF wf that]] .
  have mode: "okw bus_eff w (Some (snd (with_config () (\<lambda>w. ((), upd_config f w)) w)))" for f
    by (rule okw_bus [OF okw_config [OF wf]]) auto
  show ?thesis
  proof (cases "Ev_name ev")
    case None
    with same show ?thesis by (simp add: WanMgr_Rbus_EventReceiveHandler_def)
  next
    case (Some n)
    consider "n = WANMGR_DEVICE_NETWORKING_MODE" | "n = X_RDK_REMOTE_DEVICECHANGE" | "n = X_RDK_REMOTE_INVOKE"
      | "n \<noteq> WANMGR_DEVICE_NETWORKING_MODE" "n \<noteq> X_RDK_REMOTE_DEVICECHANGE" "n \<noteq> X_RDK_REMOTE_INVOKE" by blast
    then show ?thesis
    proof cases
      case 1
      with Some mode show ?thesis by (simp add: WanMgr_Rbus_EventReceiveHandler_def)
    next
      case 2
      have "\<exists>w'. device_change_event e mem i mac av w = Some w' \<and> gWanMgrDataBase w' = gWanMgrDataBase w"
        if "case mac of None \<Rightarrow> True | Some mac \<Rightarrow> length mac < 18" for i mac av
        using that device_change_db [OF wf] by (cases mac) (auto simp: device_change_event_def)
      moreover from ev Some 2 have "case Ev_String ev (Some ''Mac_addr'') of None \<Rightarrow> True | Some mac \<Rightarrow> length mac < 18"
        by (simp add: event_ok_def)
      ultimately obtain w' where "device_change_event e mem (Ev_UInt32 ev (Some ''Index'')) (Ev_String ev (Some ''Mac_addr''))
          (Ev_Boolean ev (Some ''available'')) w = Some w'" "gWanMgrDataBase w' = gWanMgrDataBase w" by blast
      with Some 2 same show ?thesis by (simp add: WanMgr_Rbus_EventReceiveHandler_def)
    next
      case 3
      with ev Some have "okw bus_eff w (remote_invoke_event (Ev_String ev (Some ''Mac_source'')) (Ev_String ev (Some ''param_name''))
          (Ev_String ev (Some ''param_value'')) w)" by (intro remote_invoke_ok [OF wf]) (simp_all add: event_ok_def)
      with Some 3 same wf show ?thesis by (simp add: WanMgr_Rbus_EventReceiveHandler_def)
    next
      case 4
      with Some same show ?thesis by (simp add: WanMgr_Rbus_EventReceiveHandler_def)
    qed
  qed
qed

text \<open>The search for a virtual interface, as a critical section.\<close>

lemma find_virtif_wf:
  assumes "wf_db w"
  shows "\<exists>r. find_virtif_locked P w = (r, if r = None then w else mlock w) \<and>
    (\<forall>p. r = Some p \<longrightarrow> fst p < unat (total_ifaces w) \<and> (\<exists>v. virtif_at p w = Some v \<and> P v))"
proof -
  from assms obtain l where l: "pIface w = Some l" "wf_ifaces (unat (total_ifaces w)) (map iface_shape l)"
    by (auto simp: wf_db_def split: option.splits)
  let ?l = "take (unat (total_ifaces w)) l"
  show ?thesis
  proof (cases "search_virtif P 0 ?l")
    case None
    with l wf_db_mutex [OF assms] show ?thesis
      by (intro exI [of _ None]) (auto simp: find_virtif_locked_def pthread_mutex_lock_def release_defs)
  next
    case (Some p)
    obtain a j where p: "p = (a, j)" by (cases p)
    from search_virtif_Some [OF Some [unfolded p]] have a: "a < length ?l" and pos: "position P (If_VirtIfList (?l ! a)) = Some j"
      by (simp_all del: nth_take)
    from a have "?l ! a = l ! a" by simp
    with pos have a': "position P (If_VirtIfList (l ! a)) = Some j" by (simp only:)
    have "virtif_at p w = Some (If_VirtIfList (l ! a) ! j)" "P (If_VirtIfList (l ! a) ! j)" "a < unat (total_ifaces w)"
      using l(1) a a' by (auto simp: p virtif_at_def iface_at_def position_Some)
    with Some l(1) wf_db_mutex [OF assms] p show ?thesis
      by (intro exI [of _ "Some p"]) (auto simp: find_virtif_locked_def pthread_mutex_lock_def)
  qed
qed

lemma unlock_upd_virtif: "pthread_mutex_unlock (upd_virtif p f (mlock w)) = upd_virtif p f w"
  by (simp add: upd_virtif_def)

lemma connectivity_ok:
  assumes wf: "wf_db w"
  shows "okw (kept True) w (Some (WanMgr_TandD_EventHandler name res w))"
proof (cases "\<exists>n. name = Some n \<and> strstr n TANDD_CONNECTIVITY_CHECK_TREE \<and> strstr n ''MonitorResult''")
  case False
  then have "WanMgr_TandD_EventHandler name res w = w" by (auto simp: WanMgr_TandD_EventHandler_def split: option.split)
  with okw_same_db [OF wf, of w] show ?thesis by simp
next
  case True
  then obtain n where n: "name = Some n" "strstr n TANDD_CONNECTIVITY_CHECK_TREE" "strstr n ''MonitorResult''" by blast
  let ?f = "\<lambda>v. v\<lparr>VI_IP := (VI_IP v)\<lparr>IP_Ipv4ConnectivityStatus := res, IP_Ipv6ConnectivityStatus := res\<rparr>\<rparr>"
  from find_virtif_wf [OF wf, of "\<lambda>v. VI_Alias v = tandd_alias n"] obtain r where
    r: "WanMgr_GetVirtIfDataByAlias_locked (tandd_alias n) w = (r, if r = None then w else mlock w)"
    by (auto simp: WanMgr_GetVirtIfDataByAlias_locked_def)
  have "okx (kept True) w (Some ((), upd_virtif p ?f w)) (\<lambda>_. True)" for p
    by (rule upd_virtif_ok [OF wf]) (simp add: vif_place_def)
  from okw_snd [OF this] have "okw (kept True) w (Some (upd_virtif p ?f w))" for p by simp
  with n r okw_same_db [OF wf, of w] show ?thesis
    by (cases r) (simp_all add: WanMgr_TandD_EventHandler_def release_defs unlock_upd_virtif)
qed

end
