(* ===== verification/WanIpcLemmas.thy ===== *)
theory WanIpcLemmas
  imports WanIpc WanRbusLemmas
begin

text \<open>
  The message server: a try delivers exactly when the first machine that runs on the interface has an empty slot, and
  the loop delivers in the first such try.
\<close>

definition accepting :: "env \<Rightarrow> string \<Rightarrow> (DML_VIRTUAL_IFACE \<Rightarrow> bool) \<Rightarrow> nat \<times> nat \<Rightarrow> world \<Rightarrow> bool" where
  "accepting e ifname empty_slot p w \<longleftrightarrow>
     fst (WanMgr_GetVIfByName_VISM_running_locked ifname w) = Some p \<and>
     (case virtif_at p w of None \<Rightarrow> False | Some v \<Rightarrow> empty_slot v) \<and> malloc_ok e (out w)"

lemma ipc_try_run:
  assumes wf: "wf_db w"
  shows "(\<exists>p. accepting e n em p w \<and> ipc_try e n em put w = Some (True, upd_virtif p put w)) \<or>
    ((\<forall>p. \<not> accepting e n em p w) \<and> ipc_try e n em put w = Some (False, w))"
proof -
  let ?P = "\<lambda>v. VI_Name v = n \<and> VI_Interface_SM_Running v"
  from find_virtif_wf [OF wf, of ?P] obtain s where s: "find_virtif_locked ?P w = (s, if s = None then w else mlock w)"
    "\<And>p. s = Some p \<Longrightarrow> \<exists>v. virtif_at p w = Some v" by blast
  define r where "r = (if n = [] then None else s)"
  have r: "WanMgr_GetVIfByName_VISM_running_locked n w = (r, if r = None then w else mlock w)"
    "\<And>p. r = Some p \<Longrightarrow> \<exists>v. virtif_at p w = Some v"
    using s by (auto simp: r_def WanMgr_GetVIfByName_VISM_running_locked_def split: if_splits)
  show ?thesis
  proof (cases r)
    case None
    with r(1) show ?thesis by (simp add: ipc_try_def accepting_def)
  next
    case (Some p)
    with r(2) obtain v where v: "virtif_at p w = Some v" by blast
    then have "virtif_at p (mlock w) = Some v" by (simp add: virtif_at_def)
    with r(1) Some v show ?thesis
      by (cases "em v \<and> malloc_ok e (out w)")
        (auto simp: ipc_try_def accepting_def release_defs unlock_upd_virtif split: option.splits)
  qed
qed

text \<open>The world before try \<open>k\<close>, when no try has delivered.\<close>

definition ipc_world :: "(nat \<Rightarrow> world \<Rightarrow> world) \<Rightarrow> nat \<Rightarrow> world \<Rightarrow> world" where
  "ipc_world others k = fold others [0..<k]"

lemma ipc_world_Suc: "ipc_world others (Suc k) w = others k (ipc_world others k w)"
  by (simp add: ipc_world_def)

lemma ipc_world_wf:
  assumes "wf_db w" "\<And>i u. wf_db u \<Longrightarrow> wf_db (others i u)"
  shows "wf_db (ipc_world others k w)"
  by (induction k) (simp_all add: ipc_world_Suc assms ipc_world_def [of others 0])

lemma ipc_tries_run:
  assumes wf: "wf_db w" "\<And>i u. wf_db u \<Longrightarrow> wf_db (others i u)"
  shows "(\<exists>k < n. \<exists>p. accepting e f em p (ipc_world others k w) \<and>
      (\<forall>j < k. \<forall>p. \<not> accepting e f em p (ipc_world others j w)) \<and>
      ipc_tries (ipc_try e f em put) (map others [0..<n]) w =
        Some (ANSC_STATUS_SUCCESS, upd_virtif p put (ipc_world others k w))) \<or>
    ((\<forall>k < n. \<forall>p. \<not> accepting e f em p (ipc_world others k w)) \<and>
      ipc_tries (ipc_try e f em put) (map others [0..<n]) w = Some (ANSC_STATUS_FAILURE, ipc_world others n w))"
  using wf
proof (induction n arbitrary: others w)
  case 0
  then show ?case by (simp add: ipc_world_def)
next
  case (Suc n)
  let ?attempt = "ipc_try e f em put" and ?later = "\<lambda>i. others (Suc i)"
  have list: "map others [0..<Suc n] = others 0 # map ?later [0..<n]"
    by (simp add: upt_conv_Cons map_Suc_upt [symmetric] comp_def del: upt_Suc)
  have world: "ipc_world others (Suc k) w = ipc_world ?later k (others 0 w)" for k
    by (induction k) (simp_all add: ipc_world_Suc, simp_all add: ipc_world_def)
  have zero: "ipc_world others 0 w = w" by (simp add: ipc_world_def)
  show ?case
  proof (cases "\<exists>p. accepting e f em p w")
    case True
    with ipc_try_run [OF Suc.prems(1), of e f em put] obtain p where
      "accepting e f em p w" "?attempt w = Some (True, upd_virtif p put w)" by blast
    then show ?thesis unfolding list by (intro disjI1 exI [of _ "0 :: nat"] exI [of _ p] conjI) (simp_all add: zero)
  next
    case False
    with ipc_try_run [OF Suc.prems(1), of e f em put] have "?attempt w = Some (False, w)" by blast
    then have run: "ipc_tries ?attempt (map others [0..<Suc n]) w = ipc_tries ?attempt (map ?later [0..<n]) (others 0 w)"
      unfolding list by simp
    have split: "(\<forall>k < Suc m. \<forall>p. \<not> accepting e f em p (ipc_world others k w)) \<longleftrightarrow>
        (\<forall>k < m. \<forall>p. \<not> accepting e f em p (ipc_world ?later k (others 0 w)))" for m
      using False by (auto simp: less_Suc_eq_0_disj zero world)
    have "wf_db (others 0 w)" using Suc.prems by simp
    moreover have "\<And>i u. wf_db u \<Longrightarrow> wf_db (?later i u)" by (rule Suc.prems)
    ultimately have "(\<exists>k < n. \<exists>p. accepting e f em p (ipc_world ?later k (others 0 w)) \<and>
        (\<forall>j < k. \<forall>p. \<not> accepting e f em p (ipc_world ?later j (others 0 w))) \<and>
        ipc_tries ?attempt (map ?later [0..<n]) (others 0 w) =
          Some (ANSC_STATUS_SUCCESS, upd_virtif p put (ipc_world ?later k (others 0 w)))) \<or>
      ((\<forall>k < n. \<forall>p. \<not> accepting e f em p (ipc_world ?later k (others 0 w))) \<and>
        ipc_tries ?attempt (map ?later [0..<n]) (others 0 w) = Some (ANSC_STATUS_FAILURE, ipc_world ?later n (others 0 w)))"
      by (rule Suc.IH)
    then show ?thesis
    proof (elim disjE exE conjE)
      fix k p
      assume k: "k < n" "accepting e f em p (ipc_world ?later k (others 0 w))"
        "\<forall>j < k. \<forall>p. \<not> accepting e f em p (ipc_world ?later j (others 0 w))"
        "ipc_tries ?attempt (map ?later [0..<n]) (others 0 w) =
           Some (ANSC_STATUS_SUCCESS, upd_virtif p put (ipc_world ?later k (others 0 w)))"
      have "\<forall>j < Suc k. \<forall>p. \<not> accepting e f em p (ipc_world others j w)" using split k(3) by blast
      with k run show ?thesis by (intro disjI1 exI [of _ "Suc k"] conjI exI [of _ p]) (simp_all add: world)
    next
      assume "\<forall>k < n. \<forall>p. \<not> accepting e f em p (ipc_world ?later k (others 0 w))"
        "ipc_tries ?attempt (map ?later [0..<n]) (others 0 w) = Some (ANSC_STATUS_FAILURE, ipc_world ?later n (others 0 w))"
      with split run show ?thesis by (intro disjI2 conjI) (simp_all only: world)
    qed
  qed
qed

text \<open>A try is a step the threads can rely on.\<close>

lemma ipc_try_ok:
  assumes wf: "wf_db w" and put: "\<And>v. vif_place True (put v) = vif_place True v"
  shows "okx (kept True) w (ipc_try e n em put w) (\<lambda>_. True)"
  using ipc_try_run [OF wf, of e n em put]
proof (elim disjE exE conjE)
  fix p
  assume "ipc_try e n em put w = Some (True, upd_virtif p put w)"
  with upd_virtif_ok [OF wf put] show ?thesis by simp
next
  assume "ipc_try e n em put w = Some (False, w)"
  with wf show ?thesis by (simp add: dml.return_same)
qed

end
