(* ===== verification/WanProgram.thy ===== *)
theory WanProgram
  imports WanIpcLemmas WanDmlProps WanAutoProps WanMachineProps
begin

text \<open>
  The program as one transition system.  Its calls, of the data-model library and of the message bus (with the thread of
  a remote device, the results of the connectivity checker and the messages of the DHCP clients), are data here, with
  their execution and the condition under which they are valid.  Its threads, the fail-over thread, the AutoWAN threads of
  the groups and the state machines of the virtual interfaces, run over the shared data base; a step of the program is a
  pass or the start of one thread, or one valid call.
\<close>

subsection \<open>Calls of the message bus\<close>

datatype bus_call =
    BusSubscription rbusEventSubAction_t "string option"
  | BusRead "string option"
  | BusWrite "string option" rbusValue
  | BusReadConfig string
  | BusEvent rbusEvent
  | BusAnswer string bool "string option" "string option" "string option"
      \<comment> \<open>method, success, address, name and value\<close>
  | RemoteDevice string bool           \<comment> \<open>the thread of a remote device\<close>
  | ConnectivityResult "string option" CONNECTIVITY_STATUS
  | ClientMessage ipc_msg_payload_t    \<comment> \<open>one try to deliver a message of a DHCP client\<close>

text \<open>One try of the message server.\<close>

definition ipc_deliver :: "env \<Rightarrow> ipc_msg_payload_t \<Rightarrow> world \<Rightarrow> (bool \<times> world) option" where
  "ipc_deliver e m w =
     (case m of DHCPC_STATE_CHANGED m \<Rightarrow> try_ipv4 e m w | DHCP6C_STATE_CHANGED m \<Rightarrow> try_ipv6 e m w
      | OTHER_MESSAGE \<Rightarrow> Some (True, w))"

primrec exec_bus :: "env \<Rightarrow> bus_call \<Rightarrow> world \<Rightarrow> world option" where
  "exec_bus e (BusSubscription a n) w = map_option snd (wanMgrDmlPublishEventHandler a n w)"
| "exec_bus e (BusRead n) w = map_option snd (WanMgr_Interface_GetHandler n w)"
| "exec_bus e (BusWrite n v) w = map_option snd (WanMgr_Interface_SetHandler e n v w)"
| "exec_bus e (BusReadConfig n) w = Some (snd (WanMgr_Rbus_getHandler n w))"
| "exec_bus e (BusEvent ev) w = WanMgr_Rbus_EventReceiveHandler e (\<lambda>_. malloc_ok e (out w)) ev w"
| "exec_bus e (BusAnswer m success mac n v) w = CPEInterface_AsyncMethodHandler e m success mac n v w"
| "exec_bus e (RemoteDevice mac av) w = WanMgr_WanRemoteIfaceConfigure_thread_body e mac av w"
| "exec_bus e (ConnectivityResult n r) w = Some (WanMgr_TandD_EventHandler n r w)"
| "exec_bus e (ClientMessage m) w = map_option snd (ipc_deliver e m w)"

text \<open>
  The bus asks for rows that were registered, its events and answers have their fields and an address of a device has
  at most 17 characters; a remote device finds a free entry and memory without lists.
\<close>

primrec bus_call_ok :: "env \<Rightarrow> bus_call \<Rightarrow> world \<Rightarrow> bool" where
  "bus_call_ok e (BusSubscription a n) w \<longleftrightarrow> True"
| "bus_call_ok e (BusRead n) w \<longleftrightarrow> (case n of None \<Rightarrow> True | Some n \<Rightarrow> row_there n w)"
| "bus_call_ok e (BusWrite n v) w \<longleftrightarrow> (case n of None \<Rightarrow> True | Some n \<Rightarrow> row_there n w)"
| "bus_call_ok e (BusReadConfig n) w \<longleftrightarrow> True"
| "bus_call_ok e (BusEvent ev) w \<longleftrightarrow> event_ok ev"
| "bus_call_ok e (BusAnswer m success mac n v) w \<longleftrightarrow> (success \<longrightarrow> mac \<noteq> None \<and> n \<noteq> None \<and> v \<noteq> None)"
| "bus_call_ok e (RemoteDevice mac av) w \<longleftrightarrow> total_ifaces w < MAX_WAN_INTERFACE_ENTRY \<and>
     (case alloc_VirtIf e 0 of None \<Rightarrow> False | Some mem \<Rightarrow> cleared mem)"
| "bus_call_ok e (ConnectivityResult n r) w \<longleftrightarrow> True"
| "bus_call_ok e (ClientMessage m) w \<longleftrightarrow> True"

text \<open>Calls that rename or enable an interface, or add one: the reports of the status see them.\<close>

definition renames_bus :: "bus_call \<Rightarrow> bool" where
  "renames_bus c = (case c of BusWrite n v \<Rightarrow> enables n | BusEvent ev \<Rightarrow> True | BusAnswer m success mac n v \<Rightarrow> True
     | RemoteDevice mac av \<Rightarrow> True | _ \<Rightarrow> False)"

definition adds_iface :: "bus_call \<Rightarrow> bool" where
  "adds_iface c = (case c of RemoteDevice mac av \<Rightarrow> True | _ \<Rightarrow> False)"

lemma ipc_deliver_ok:
  assumes "wf_db w"
  shows "okx (kept True) w (ipc_deliver e m w) (\<lambda>_. True)"
proof (cases m)
  case (DHCPC_STATE_CHANGED x)
  have "okx (kept True) w (try_ipv4 e x w) (\<lambda>_. True)"
    unfolding try_ipv4_def by (rule ipc_try_ok [OF assms]) (simp add: put_ipv4_def vif_place_def)
  with DHCPC_STATE_CHANGED show ?thesis by (simp add: ipc_deliver_def)
next
  case (DHCP6C_STATE_CHANGED x)
  have "okx (kept True) w (try_ipv6 e x w) (\<lambda>_. True)"
    unfolding try_ipv6_def by (rule ipc_try_ok [OF assms]) (simp add: put_ipv6_def vif_place_def)
  with DHCP6C_STATE_CHANGED show ?thesis by (simp add: ipc_deliver_def)
next
  case OTHER_MESSAGE
  with assms show ?thesis by (simp add: ipc_deliver_def dml.return_same)
qed

lemma bus_call_kept:
  assumes wf: "wf_db w" and ok: "bus_call_ok e c w" and c: "\<not> renames_bus c"
  shows "okw (kept True) w (exec_bus e c w)"
  using ok c
proof (cases c)
  case (BusSubscription a n)
  with okw_snd [OF subscribe_ok [OF wf]] show ?thesis by simp
next
  case (BusRead n)
  with ok have "\<And>m. n = Some m \<Longrightarrow> row_there m w" by simp
  from okw_snd [OF get_handler_ok [OF wf this]] BusRead show ?thesis by simp
next
  case (BusWrite n v)
  with ok have "\<And>m. n = Some m \<Longrightarrow> row_there m w" by simp
  from okw_snd [OF set_handler_ok(2) [OF wf this]] BusWrite c show ?thesis by (simp add: renames_bus_def)
next
  case (BusReadConfig n)
  with okw_same_db [OF wf, of w] get_config_same [OF wf] show ?thesis by simp
next
  case (ConnectivityResult n r)
  with connectivity_ok [OF wf] show ?thesis by simp
next
  case (ClientMessage m)
  with okw_snd [OF ipc_deliver_ok [OF wf]] show ?thesis by simp
qed (simp_all add: renames_bus_def)

lemma bus_call_eff:
  assumes wf: "wf_db w" and ok: "bus_call_ok e c w" and c: "\<not> adds_iface c"
  shows "okw bus_eff w (exec_bus e c w)"
proof (cases "renames_bus c")
  case False
  from okw_bus [OF bus_call_kept [OF wf ok False]] show ?thesis .
next
  case True
  then show ?thesis
  proof (cases c)
    case (BusWrite n v)
    with ok have "\<And>m. n = Some m \<Longrightarrow> row_there m w" by simp
    from okw_snd [OF set_handler_ok(1) [OF wf this]] BusWrite show ?thesis by simp
  next
    case (BusEvent ev)
    with ok event_handler_ok [OF wf] show ?thesis by simp
  next
    case (BusAnswer m s mac n v)
    with ok show ?thesis by (auto intro: answer_handler_ok [OF wf])
  next
    case (RemoteDevice mac av)
    with c show ?thesis by (simp add: adds_iface_def)
  qed (simp_all add: renames_bus_def)
qed

lemma remote_device_step:
  assumes wf: "wf_db w" and room: "total_ifaces w < MAX_WAN_INTERFACE_ENTRY" and mem: "alloc_VirtIf e 0 = Some mem" "cleared mem"
  shows "\<exists>w'. WanMgr_WanRemoteIfaceConfigure_thread_body e mac av w = Some w' \<and> FO_rely w w' \<and> (placed w \<longrightarrow> placed w')"
proof (cases rule: find_remote_cases [of mac w])
  case (some i)
  from remote_thread_known [OF wf some(1,2), of e av] obtain w' where
    w': "WanMgr_WanRemoteIfaceConfigure_thread_body e mac av w = Some w'"
    "gWanMgrDataBase w' = gWanMgrDataBase (upd_iface i (remote_enable av) w)" by blast
  note u = bus_upd_iface [OF wf remote_enable_place, where k = i]
  from okw_then_db [OF u w'(2)] have k: "keeps w w'" "bus_eff w w'" by (simp_all add: okw_def)
  then have "FO_rely w w'" using keeps_interference [OF k(1)] active_frame [OF _ k(1)] by (simp add: FO_rely_def bus_eff_def)
  with w' k(2) show ?thesis by (auto simp: bus_eff_def)
next
  case none
  show ?thesis
  proof (cases av)
    case True
    with remote_thread_new [OF wf room mem(1) none(1)] obtain w' where
      "WanMgr_WanRemoteIfaceConfigure_thread_body e mac av w = Some w'" "grown mac mem w w'" by auto
    with grown_rely [OF _ wf room] grown_placed [OF _ wf room mem(2)] show ?thesis by blast
  next
    case False
    with remote_thread_unknown [OF wf none(1)] wf show ?thesis by (auto simp: FO_rely_refl)
  qed
qed

lemma bus_call_step:
  assumes wf: "wf_db w" and ok: "bus_call_ok e c w"
  shows "\<exists>w'. exec_bus e c w = Some w' \<and> FO_rely w w' \<and> (placed w \<longrightarrow> placed w')"
proof (cases "adds_iface c")
  case False
  from bus_call_eff [OF wf ok False] obtain w' where w': "exec_bus e c w = Some w'" "keeps w w'" "bus_eff w w'"
    by (auto simp: okw_def)
  then have "FO_rely w w'" using keeps_interference [OF w'(2)] active_frame [OF _ w'(2)] by (simp add: FO_rely_def bus_eff_def)
  with w' show ?thesis by (auto simp: bus_eff_def)
next
  case True
  then obtain mac av where c: "c = RemoteDevice mac av" by (cases c) (auto simp: adds_iface_def)
  with ok obtain mem where "alloc_VirtIf e 0 = Some mem" "cleared mem" "total_ifaces w < MAX_WAN_INTERFACE_ENTRY"
    by (auto split: option.splits)
  with remote_device_step [OF wf] c show ?thesis by simp
qed

subsection \<open>All calls\<close>

datatype program_call = DmlCall dml_call | BusCall bus_call

primrec exec_call :: "build \<Rightarrow> env \<Rightarrow> program_call \<Rightarrow> world \<Rightarrow> world option" where
  "exec_call b e (DmlCall c) w = exec_dml b e c w"
| "exec_call b e (BusCall c) w = exec_bus e c w"

primrec call_ok :: "env \<Rightarrow> program_call \<Rightarrow> world \<Rightarrow> bool" where
  "call_ok e (DmlCall c) w \<longleftrightarrow> dml_call_ok c w"
| "call_ok e (BusCall c) w \<longleftrightarrow> bus_call_ok e c w"

lemma FO_rely_wf: "FO_rely w w' \<Longrightarrow> wf_db w'"
  by (simp add: FO_rely_def interference_def)

lemma FO_rely_trans:
  assumes "FO_rely u v" "FO_rely v w"
  shows "FO_rely u w"
  using assms interference_trans [of u v w] unfolding FO_rely_def by blast

lemma call_step:
  assumes "wf_db w" "call_ok e c w"
  shows "\<exists>w'. exec_call b e c w = Some w' \<and> FO_rely w w'"
proof (cases c)
  case (DmlCall x)
  with dml_call_safe [OF assms(1), of x b e] assms(2) kept_rely show ?thesis by auto
next
  case (BusCall x)
  with bus_call_step [OF assms(1), of e x] assms(2) show ?thesis by auto
qed

subsection \<open>The threads together\<close>

text \<open>
  The fail-over thread, the AutoWAN thread of each group that has one, the state machine of each virtual interface that
  has one, and the world they share.  The threads of the parallel scan policy are not part of this system.
\<close>

record program =
  P_world :: world
  P_failover :: FO_thread
  P_policy :: "uint \<Rightarrow> AW_thread option"
  P_machine :: "vptr \<Rightarrow> ISM option"

definition program_start :: "FO_thread \<Rightarrow> world \<Rightarrow> program" where
  "program_start t w = \<lparr>P_world = w, P_failover = t, P_policy = Map.empty, P_machine = Map.empty\<rparr>"

datatype move =
    FailoverPass env
  | PolicyStart env uint policy_ctrl
  | PolicyPass env uint
  | MachineStart env vptr sm_ctrl
  | MachinePass env vptr
  | Call env program_call

primrec exec_move :: "build \<Rightarrow> move \<Rightarrow> program \<Rightarrow> program option" where
  "exec_move b (FailoverPass e) s = map_option (\<lambda>(t, w). s\<lparr>P_failover := t, P_world := w\<rparr>)
     (FO_pass b e (P_failover s) (P_world s))"
| "exec_move b (PolicyStart e i c) s = map_option (\<lambda>(t, w). s\<lparr>P_policy := (P_policy s)(i \<mapsto> t), P_world := w\<rparr>)
     (AW_init b e i c (P_world s))"
| "exec_move b (PolicyPass e i) s = Option.bind (P_policy s i) (\<lambda>t.
     map_option (\<lambda>(t, w). s\<lparr>P_policy := (P_policy s)(i \<mapsto> t), P_world := w\<rparr>) (AW_pass b e t (P_world s)))"
| "exec_move b (MachineStart e q c) s = map_option (\<lambda>(t, w). s\<lparr>P_machine := (P_machine s)(q \<mapsto> t), P_world := w\<rparr>)
     (ISM_start b e c (P_world s))"
| "exec_move b (MachinePass e q) s = Option.bind (P_machine s q) (\<lambda>t.
     map_option (\<lambda>(t, w). s\<lparr>P_machine := (P_machine s)(q \<mapsto> t), P_world := w\<rparr>) (ISM_pass b e t (P_world s)))"
| "exec_move b (Call e c) s = map_option (\<lambda>w. s\<lparr>P_world := w\<rparr>) (exec_call b e c (P_world s))"

text \<open>
  When a step is taken.  The fail-over thread is not restricted.  A thread is started for a group or a virtual interface
  none runs for; the AutoWAN thread of a group makes a pass while the selected interface of the group is SELECTED or ACTIVE
  only if the thread works on it (\<open>AW_sel_ok\<close>); a state machine starts and makes a pass while its virtual
  interface is there, the names fit their buffers and its environment has the form the code expects (\<open>machine_at\<close>,
  \<open>env_ok\<close>); a call is made when it is valid (\<open>call_ok\<close>).
\<close>

primrec move_ok :: "move \<Rightarrow> program \<Rightarrow> bool" where
  "move_ok (FailoverPass e) s \<longleftrightarrow> True"
| "move_ok (PolicyStart e i c) s \<longleftrightarrow> i \<noteq> 0 \<and> (case P_policy s i of None \<Rightarrow> True | Some t \<Rightarrow> \<not> fst t)"
| "move_ok (PolicyPass e i) s \<longleftrightarrow> (case P_policy s i of None \<Rightarrow> False | Some t \<Rightarrow> AW_sel_ok t (P_world s))"
| "move_ok (MachineStart e q c) s \<longleftrightarrow> machine_at q (P_world s) \<and> points_to c q \<and> env_ok e \<and>
     (case P_machine s q of None \<Rightarrow> True | Some t \<Rightarrow> \<not> ISM_running t)"
| "move_ok (MachinePass e q) s \<longleftrightarrow> P_machine s q \<noteq> None \<and> machine_at q (P_world s) \<and> env_ok e"
| "move_ok (Call e c) s \<longleftrightarrow> call_ok e c (P_world s)"

inductive program_step :: "build \<Rightarrow> program \<Rightarrow> program \<Rightarrow> bool" for b where
  step: "\<lbrakk>move_ok mv s; exec_move b mv s = Some s'\<rbrakk> \<Longrightarrow> program_step b s s'"

text \<open>The invariant of the whole: that of every thread, over a well-formed data base whose mutex is free.\<close>

definition program_inv :: "program \<Rightarrow> bool" where
  "program_inv s \<longleftrightarrow> wf_db (P_world s) \<and> mutex (P_world s) = Some 0 \<and> FO_thread_inv (P_failover s) (P_world s) \<and>
     (\<forall>i t. P_policy s i = Some t \<longrightarrow> AW_inv i t (P_world s)) \<and>
     (\<forall>q t. P_machine s q = Some t \<longrightarrow> points_to (ISM_ctrl t) q)"

lemma program_inv_start:
  "\<lbrakk>wf_db w; mutex w = Some 0; FO_thread_inv t w\<rbrakk> \<Longrightarrow> program_inv (program_start t w)"
  by (simp add: program_inv_def program_start_def)

text \<open>What one thread does within the limits of the others leaves the invariants of the others alone.\<close>

lemma program_inv_failover:
  assumes "program_inv s" "keeps (P_world s) w" "FO_thread_inv t w"
  shows "program_inv (s\<lparr>P_failover := t, P_world := w\<rparr>)"
  using assms aw.inv_stable [OF _ keeps_interference [OF assms(2)]] by (auto simp: program_inv_def keeps_def)

lemma program_inv_world:
  assumes inv: "program_inv s" and rely: "FO_rely (P_world s) w"
  shows "program_inv (s\<lparr>P_world := w\<rparr>)"
proof -
  from rely have i: "interference (P_world s) w" by (simp add: FO_rely_def)
  then show ?thesis
    using inv fo.inv_stable [OF _ rely] aw.inv_stable [OF _ i] by (auto simp: program_inv_def interference_def)
qed

lemma program_inv_policy:
  assumes inv: "program_inv s" and rely: "FO_rely (P_world s) w" and own: "AW_inv i t w"
  shows "program_inv (s\<lparr>P_policy := (P_policy s)(i \<mapsto> t), P_world := w\<rparr>)"
  using program_inv_world [OF inv rely] own by (auto simp: program_inv_def)

lemma program_inv_machine:
  assumes inv: "program_inv s" and rely: "FO_rely (P_world s) w" and own: "points_to (ISM_ctrl t) q"
  shows "program_inv (s\<lparr>P_machine := (P_machine s)(q \<mapsto> t), P_world := w\<rparr>)"
  using program_inv_world [OF inv rely] own by (auto simp: program_inv_def)

lemmas program_inv_intros = program_inv_failover program_inv_world program_inv_policy program_inv_machine

text \<open>Every step the program takes returns and keeps the invariant.\<close>

lemma move_safe:
  assumes inv: "program_inv s" and ok: "move_ok mv s"
  shows "\<exists>s'. exec_move b mv s = Some s' \<and> program_inv s'"
proof (cases mv)
  case (FailoverPass e)
  from inv have "ok (P_world s) (FO_pass b e (P_failover s) (P_world s)) FO_thread_inv"
    by (intro FO_pass_ok) (simp_all add: program_inv_def)
  with FailoverPass show ?thesis by (auto elim!: okE intro: program_inv_intros [OF inv])
next
  case (PolicyStart e i c)
  with inv ok have "ok (P_world s) (AW_init b e i c (P_world s)) (\<lambda>t w. AW_inv i t w \<and> sel_view w = sel_view (P_world s))"
    by (intro AW_init_ok) (simp_all add: program_inv_def)
  then obtain t w where w: "AW_init b e i c (P_world s) = Some (t, w)" "keeps (P_world s) w" "AW_inv i t w"
    "sel_view w = sel_view (P_world s)" by (auto elim: okE)
  then have "FO_rely (P_world s) w" using active_frame [OF w(4,2)] by (simp add: FO_rely_def keeps_interference)
  with w(1,3) PolicyStart show ?thesis by (auto intro: program_inv_intros [OF inv])
next
  case (PolicyPass e i)
  with ok obtain r st c where t: "P_policy s i = Some (r, st, c)" "AW_sel_ok (r, st, c) (P_world s)"
    by (auto split: option.splits)
  with inv have "wf_db (P_world s)" "AW_inv i (r, st, c) (P_world s)" by (simp_all add: program_inv_def)
  from auto_pass_promise [OF this t(2), of b e] t(1) PolicyPass show ?thesis by (auto intro: program_inv_intros [OF inv])
next
  case (MachineStart e q c)
  with inv ok have "wf_db (P_world s)" "machine_at q (P_world s)" "points_to c q" "env_ok e" by (simp_all add: program_inv_def)
  from vkE [OF ISM_start_step [OF this, of b]] obtain t w where w: "ISM_start b e c (P_world s) = Some (t, w)"
    "keeps (P_world s) w" "vif_step sane q (P_world s) w" "ISM_ctrl t = c\<lparr>SC_pIfaceData := Some (fst q)\<rparr>" by metis
  moreover from MachineStart ok w(4) have "points_to (ISM_ctrl t) q" by (simp add: points_to_def)
  ultimately show ?thesis
    using MachineStart machine_step_rely [OF w(3,2)] by (auto intro: program_inv_intros [OF inv])
next
  case (MachinePass e q)
  with ok obtain t where t: "P_machine s q = Some t" by auto
  moreover from inv t have "points_to (ISM_ctrl t) q" unfolding program_inv_def by blast
  ultimately have "wf_db (P_world s)" "ISM_inv q t (P_world s)" "env_ok e"
    using MachinePass inv ok by (simp_all add: program_inv_def ISM_inv_def)
  from vkE [OF vk_pass [OF this, of b]] obtain t' w where w: "ISM_pass b e t (P_world s) = Some (t', w)"
    "keeps (P_world s) w" "vif_step sane q (P_world s) w" "points_to (ISM_ctrl t') q" by metis
  with t MachinePass machine_step_rely [OF w(3,2)] show ?thesis by (auto intro: program_inv_intros [OF inv])
next
  case (Call e c)
  with inv ok have "wf_db (P_world s)" "call_ok e c (P_world s)" by (simp_all add: program_inv_def)
  from call_step [OF this, of b] Call show ?thesis by (auto intro: program_inv_intros [OF inv])
qed

lemma program_reach_inv:
  assumes "(program_step b)\<^sup>*\<^sup>* s s'" "program_inv s"
  shows "program_inv s'"
  using assms
proof induction
  case (step s' s'')
  from step.hyps(2) obtain mv where "move_ok mv s'" "exec_move b mv s' = Some s''" by (auto elim: program_step.cases)
  with move_safe [OF step.IH [OF step.prems], of mv b] show ?case by simp
qed

lemma program_inv_one_active:
  assumes "program_inv s"
  shows "card (active_set (P_world s)) \<le> 1"
proof -
  from assms obtain g where "active_set (P_world s) \<subseteq> set_option (group_selected g (P_world s))"
    by (auto simp: program_inv_def FO_thread_inv_def FO_inv_def split: prod.splits)
  then have "card (active_set (P_world s)) \<le> card (set_option (group_selected g (P_world s)))" by (intro card_mono) auto
  also have "\<dots> \<le> 1" by (cases "group_selected g (P_world s)") auto
  finally show ?thesis .
qed

end
