(* ===== verification/WanBusProps.thy ===== *)
theory WanBusProps
  imports WanProgram WanConfigLemmas
begin

text \<open>
  The properties of the message bus and of the whole program: every call of the bus is a step the threads can rely on;
  what is written to an interface is told to the subscribers and read back under both names; an event of the older data
  model changes the wrong field; a remote device joins and leaves; a message of a DHCP client is delivered in the first
  try that finds room; and at most one interface is active in every reachable state of the program.
\<close>

subsection \<open>Safety\<close>

text \<open>
  C34. The valid calls of the message bus are safe.  A call is valid (\<open>bus_call_ok\<close>) when a parameter of an interface
  is read or written under a name whose row is there, the event of a changed device has an address of at most 17
  characters or none, the event of a device's parameter has its source, name and value, the answer of a method that succeeded has an address, a name and a value, and the table has a free entry
  and memory without lists for the thread of a remote device; nothing is asked of a subscription, of reading the
  configuration, of a result of the connectivity checker or of a try to deliver a message of a DHCP client.  A valid call
  returns: it dereferences no bad pointer, gives the mutex back, leaves the data base well-formed and every virtual
  interface in its place.  It is a step the fail-over thread may rely on, and, unless it renames, enables or adds an
  interface, one that every interface state machine may rely on.  Of calls that are not valid this says nothing.
\<close>

theorem bus_calls_safe:
  assumes "wf_db w" "bus_call_ok e c w"
  shows "\<exists>w'. exec_bus e c w = Some w' \<and> wf_db w' \<and> mutex w' = mutex w \<and> (placed w \<longrightarrow> placed w') \<and>
    FO_rely w w' \<and> (\<not> renames_bus c \<longrightarrow> (\<forall>q. ISM_rely q w w'))"
proof -
  from bus_call_step [OF assms] obtain w' where w': "exec_bus e c w = Some w'" "FO_rely w w'" "placed w \<longrightarrow> placed w'" by blast
  have "ISM_rely q w w'" if "\<not> renames_bus c" for q
    using bus_call_kept [OF assms that] w'(1) by (auto simp: okw_def ISM_rely_def intro: kept_machine keeps_interference)
  with w' show ?thesis by (auto simp: FO_rely_def interference_def)
qed

lemma cleared_blank: "cleared blank_virtif"
  by (simp add: cleared_def blank_virtif_def)

theorem bus_calls_safe_witness:
  "\<exists>w'. exec_bus sample_env (RemoteDevice ''00:11:22:33:44:55'' True) sample_world = Some w' \<and> wf_db w' \<and>
    FO_rely sample_world w'"
  using bus_calls_safe [OF wf_sample_world, of sample_env "RemoteDevice ''00:11:22:33:44:55'' True"]
  by (auto simp: sample_reads cleared_blank sample_env_def)

subsection \<open>A parameter of an interface\<close>

text \<open>The names under which row \<open>n\<close> of the interfaces publishes its physical status.\<close>

definition status_name :: "nat \<Rightarrow> string" where
  "status_name n = WANMGR_INFACE_TABLE @ ''.'' @ show_nat n @ WANMGR_INFACE_PHY_STATUS_SUFFIX"

definition v1_status_name :: "nat \<Rightarrow> string" where
  "v1_status_name n = WANMGR_V1_INFACE_TABLE @ ''.'' @ show_nat n @ WANMGR_V1_INFACE_PHY_STATUS_SUFFIX"

lemma scan_lit_append [simp]: "scan_lit a (a @ s) = Some s"
  by (induction a) simp_all

lemma scan_uint_show [simp]:
  "scan_uint (show_nat n @ CHR ''.'' # s) = Some (of_nat n, CHR ''.'' # s)"
proof -
  obtain c cs where c: "show_nat n = c # cs" by (cases "show_nat n") auto
  have digit: "isdigit_c c" using isdigit_show_nat [of c n] c by simp
  have sign: "c \<noteq> CHR ''-'' \<and> c \<noteq> CHR ''+''" using digit by (auto simp: isdigit_c_def)
  have space: "dropWhile isspace_c (show_nat n @ CHR ''.'' # s) = show_nat n @ CHR ''.'' # s"
    using c isdigit_not_space [OF digit] by simp
  have "sscanf_d (show_nat n @ CHR ''.'' # s) = Some (int n)"
    using c sign digits_value_show_nat [of n] takeWhile_show_nat(1) [of n s] space by (simp add: sscanf_d_def Let_def)
  moreover have "after_d (show_nat n @ CHR ''.'' # s) = CHR ''.'' # s"
    using c sign takeWhile_show_nat(2) [of n s] space by (simp add: after_d_def Let_def)
  ultimately show ?thesis by (simp add: scan_uint_def)
qed

lemma strstr_part [simp]: "strstr (a @ b @ c) b" "strstr (b @ c) b" "strstr (a @ b) b"
  unfolding strstr_def by (rule sublist_appendI sublist_append_rightI sublist_append_leftI)+

lemma strstr_missing: "\<lbrakk>c \<in> set b; c \<notin> set a\<rbrakk> \<Longrightarrow> \<not> strstr a b"
  by (auto simp: strstr_def sublist_def)

lemma status_name_scan:
  "name_indices (status_name n) = (of_nat n, 1)" "strstr (status_name n) WANMGR_INFACE_PHY_STATUS_SUFFIX"
proof -
  have "CHR ''P'' \<notin> set (show_nat n)" using isdigit_show_nat [of "CHR ''P''" n] by (auto simp: isdigit_c_def)
  then have new: "\<not> strstr (status_name n) WANMGR_V1_INFACE_TABLE"
    by (intro strstr_missing [of "CHR ''P''"]) (simp_all add: status_name_def)
  have "scan_lit (WANMGR_INFACE_TABLE @ ''.'') (status_name n) = Some (show_nat n @ WANMGR_INFACE_PHY_STATUS_SUFFIX)"
    using scan_lit_append [of "WANMGR_INFACE_TABLE @ ''.''"] by (simp add: status_name_def del: scan_lit_append)
  with new show "name_indices (status_name n) = (of_nat n, 1)" by (simp add: name_indices_def virtual_indices_def)
  show "strstr (status_name n) WANMGR_INFACE_PHY_STATUS_SUFFIX"
    unfolding status_name_def append_assoc [symmetric] by (rule strstr_part)
qed

lemma v1_status_name_scan:
  "name_indices (v1_status_name n) = (of_nat n, 1)" "strstr (v1_status_name n) WANMGR_V1_INFACE_PHY_STATUS_SUFFIX"
proof -
  have old: "strstr (v1_status_name n) WANMGR_V1_INFACE_TABLE" unfolding v1_status_name_def by (rule strstr_part)
  have "scan_lit (WANMGR_V1_INFACE_TABLE @ ''.'') (v1_status_name n) = Some (show_nat n @ WANMGR_V1_INFACE_PHY_STATUS_SUFFIX)"
    using scan_lit_append [of "WANMGR_V1_INFACE_TABLE @ ''.''"] by (simp add: v1_status_name_def del: scan_lit_append)
  with old show "name_indices (v1_status_name n) = (of_nat n, 1)" by (simp add: name_indices_def row_index_def)
  show "strstr (v1_status_name n) WANMGR_V1_INFACE_PHY_STATUS_SUFFIX"
    unfolding v1_status_name_def append_assoc [symmetric] by (rule strstr_part)
qed

lemma phy_strings: "phy_of_string (phy_string p) = p" "length (phy_string p) \<le> 19"
  by (cases p; simp add: phy_of_string_def)+

text \<open>Row \<open>j + 1\<close> of a data base as a number of the bus.\<close>

lemma bus_row:
  assumes "wf_db w" "j < unat (total_ifaces w)"
  shows "(of_nat (Suc j) :: uint) \<noteq> 0" "(of_nat (Suc j) :: uint) - 1 = of_nat j" "unat (of_nat j :: uint) = j"
    "(of_nat j :: uint) < total_ifaces w" "v1_name (of_nat (Suc j)) WANMGR_V1_INFACE_PHY_STATUS_SUFFIX = v1_status_name (Suc j)"
    "by_alias (of_nat (Suc j)) n w = (of_nat (Suc j), w)"
proof -
  from index_bound [OF assms(2)] show u: "unat (of_nat j :: uint) = j" "(of_nat j :: uint) < total_ifaces w"
    "(of_nat (Suc j) :: uint) \<noteq> 0" by (simp_all add: inst_of_def add.commute)
  show "(of_nat (Suc j) :: uint) - 1 = of_nat j" by simp
  from wf_db_total_le [OF assms(1)] assms(2) have j: "int (Suc j) < 2 ^ 31" by simp
  then have "sint (of_nat (Suc j) :: uint) = int (Suc j)"
    by (simp add: signed_take_bit_int_eq_self_iff signed_of_nat del: of_nat_Suc)
  then show "v1_name (of_nat (Suc j)) WANMGR_V1_INFACE_PHY_STATUS_SUFFIX = v1_status_name (Suc j)"
    by (simp add: v1_name_def v1_status_name_def show_int_def del: of_nat_Suc)
  from u(3) show "by_alias (of_nat (Suc j)) n w = (of_nat (Suc j), w)" by (simp add: by_alias_def)
qed

lemma read_status:
  assumes wf: "wf_db w" and j: "j < unat (total_ifaces w)" and d: "iface_at j w = Some d"
    and name: "name_indices n = (of_nat (Suc j), v)" "WANMGR_PHY_STATUS_CHECK n"
  shows "WanMgr_Interface_GetHandler (Some n) w =
    Some ((RBUS_ERROR_SUCCESS, RBUS_STRING (phy_string (If_BaseInterfaceStatus d))), w)"
  using bus_row [OF wf j] d name wf_db_mutex [OF wf]
  by (simp add: WanMgr_Interface_GetHandler_def with_wf(2) [OF wf] interface_value_def del: of_nat_Suc)

text \<open>
  C36. The physical status of an interface, written over the bus under the name of its row by the component that drives
  the line, is stored, changes nothing else in the data base, is told to the subscribers under the current name and under
  the name of the older data model exactly when there are subscribers, and is read back under either name.
\<close>

theorem base_status_roundtrip:
  assumes wf: "wf_db w" and j: "j < unat (total_ifaces w)" and d: "iface_at j w = Some d"
  shows "\<exists>w'. WanMgr_Interface_SetHandler e (Some (status_name (Suc j))) (RBUS_STRING (phy_string p)) w =
      Some (RBUS_ERROR_SUCCESS, w') \<and>
    (\<forall>k. iface_at k w' = (if k = j then Some (d\<lparr>If_BaseInterfaceStatus := p\<rparr>) else iface_at k w)) \<and>
    config w' = config w \<and> Groups w' = Groups w \<and> mutex w' = mutex w \<and>
    out w' = (if If_BaseInterfaceStatusSub d \<noteq> 0
              then [RbusPublish (v1_status_name (Suc j)) (phy_string p), RbusPublish (status_name (Suc j)) (phy_string p)]
              else []) @ out w \<and>
    WanMgr_Interface_GetHandler (Some (status_name (Suc j))) w' =
      Some ((RBUS_ERROR_SUCCESS, RBUS_STRING (phy_string p)), w') \<and>
    WanMgr_Interface_GetHandler (Some (v1_status_name (Suc j))) w' =
      Some ((RBUS_ERROR_SUCCESS, RBUS_STRING (phy_string p)), w')"
proof -
  let ?u = "upd_iface j (\<lambda>d. d\<lparr>If_BaseInterfaceStatus := p\<rparr>) w"
  let ?w = "if If_BaseInterfaceStatusSub d \<noteq> 0 then publish_both (status_name (Suc j)) (v1_status_name (Suc j)) (phy_string p) ?u else ?u"
  note row = bus_row [OF wf j]
  have set_run: "WanMgr_Interface_SetHandler e (Some (status_name (Suc j))) (RBUS_STRING (phy_string p)) w = Some (RBUS_ERROR_SUCCESS, ?w)"
    using row d j status_name_scan [of "Suc j"] phy_strings [of p] wf_db_mutex [OF wf]
    by (simp add: WanMgr_Interface_SetHandler_def with_wf(2) [OF wf] set_interface_def publish_both_def del: of_nat_Suc)
  have reads: "iface_at k ?w = (if k = j then Some (d\<lparr>If_BaseInterfaceStatus := p\<rparr>) else iface_at k w)"
    "total_ifaces ?w = total_ifaces w" "mutex ?w = mutex w" "config ?w = config w" "Groups ?w = Groups w" for k
    using d by (auto simp: publish_both_def)
  have "wf_db ?u" by (rule iffD2 [OF wf_db_upd_iface wf]) (simp add: iface_shape_def)
  then have wf': "wf_db ?w" by (auto intro: iffD2 [OF wf_db_same] simp: publish_both_def)
  have check: "WANMGR_PHY_STATUS_CHECK (status_name n)" "WANMGR_PHY_STATUS_CHECK (v1_status_name n)" for n
    using status_name_scan(2) v1_status_name_scan(2) by (simp_all add: WANMGR_PHY_STATUS_CHECK_def)
  from j have j': "j < unat (total_ifaces ?w)" by (simp only: reads)
  have d': "iface_at j ?w = Some (d\<lparr>If_BaseInterfaceStatus := p\<rparr>)" by (subst reads(1)) simp
  show ?thesis
    using set_run reads read_status [OF wf' j' d' status_name_scan(1) check(1)]
      read_status [OF wf' j' d' v1_status_name_scan(1) check(2)]
    by (intro exI [of _ ?w] conjI) (simp_all add: publish_both_def)
qed

definition subscribed_wan :: world where
  "subscribed_wan = upd_iface (Suc 0) (\<lambda>d. d\<lparr>If_BaseInterfaceStatusSub := 3\<rparr>) sample_world"

theorem base_status_roundtrip_witness:
  "\<exists>w'. WanMgr_Interface_SetHandler sample_env (Some (status_name 2)) (RBUS_STRING (phy_string WAN_IFACE_PHY_STATUS_INITIALIZING))
      subscribed_wan = Some (RBUS_ERROR_SUCCESS, w') \<and>
    out w' = [RbusPublish (v1_status_name 2) ''Initializing'', RbusPublish (status_name 2) ''Initializing''] \<and>
    WanMgr_Interface_GetHandler (Some (v1_status_name 2)) w' = Some ((RBUS_ERROR_SUCCESS, RBUS_STRING ''Initializing''), w')"
proof -
  have "wf_db subscribed_wan" unfolding subscribed_wan_def
    by (rule iffD2 [OF wf_db_upd_iface wf_sample_world]) (simp add: iface_shape_def)
  moreover have "Suc 0 < unat (total_ifaces subscribed_wan)" by (simp add: subscribed_wan_def sample_reads)
  moreover have "iface_at (Suc 0) subscribed_wan =
      Some ((ethwan WAN_IFACE_SELECTED WAN_IFACE_STATUS_STANDBY)\<lparr>If_BaseInterfaceStatusSub := 3\<rparr>)"
    by (simp add: subscribed_wan_def sample_reads)
  ultimately obtain w' where "WanMgr_Interface_SetHandler sample_env (Some (status_name (Suc (Suc 0))))
      (RBUS_STRING (phy_string WAN_IFACE_PHY_STATUS_INITIALIZING)) subscribed_wan = Some (RBUS_ERROR_SUCCESS, w')"
    "out w' = [RbusPublish (v1_status_name (Suc (Suc 0))) ''Initializing'', RbusPublish (status_name (Suc (Suc 0))) ''Initializing'']"
    "WanMgr_Interface_GetHandler (Some (v1_status_name (Suc (Suc 0)))) w' = Some ((RBUS_ERROR_SUCCESS, RBUS_STRING ''Initializing''), w')"
    using base_status_roundtrip [of subscribed_wan "Suc 0" _ sample_env WAN_IFACE_PHY_STATUS_INITIALIZING]
    by (auto simp: subscribed_wan_def sample_reads)
  then show ?thesis by (simp add: numeral_2_eq_2)
qed

subsection \<open>Remote devices\<close>

lemma find_remote_last:
  assumes "\<And>i. i < n \<Longrightarrow> \<not> remote_hit mac i w" "remote_hit mac n w" "n < unat (total_ifaces w)"
  shows "find_remote mac w = int n"
proof (cases rule: find_remote_cases [of mac w])
  case none
  with assms(2,3) show ?thesis by blast
next
  case (some i)
  from some(3) assms(1) have "n \<le> i" by (meson not_le)
  moreover from some(4) assms(2) have "i \<le> n" by (meson not_le)
  ultimately show ?thesis using some(1) by simp
qed

lemma remote_hit_enable [simp]: "remote_hit mac i (upd_iface n (remote_enable av) w) = remote_hit mac i w"
proof -
  have "remote_matches mac (remote_enable av d) = remote_matches mac d" for d
    by (cases av) (simp_all add: remote_matches_def remote_enable_def upd_Selection_def)
  then show ?thesis by (cases "i = n"; cases "iface_at n w") (simp_all add: remote_hit_def)
qed

lemma remote_hit_db: "gWanMgrDataBase w' = gWanMgrDataBase w \<Longrightarrow> remote_hit mac i w' = remote_hit mac i w"
  using same_db_reads [of w' w] by (simp add: remote_hit_def)

text \<open>A device that is known goes and comes back: its entry is disabled and enabled, and nothing else changes.\<close>

lemma remote_thread_toggles:
  assumes wf: "wf_db w" and k: "find_remote mac w = int n" "n < unat (total_ifaces w)"
  shows "\<exists>w'. WanMgr_WanRemoteIfaceConfigure_thread_body e mac av w = Some w' \<and> wf_db w' \<and>
    total_ifaces w' = total_ifaces w \<and> find_remote mac w' = int n \<and>
    (\<forall>k. iface_at k w' = (if k = n then map_option (remote_enable av) (iface_at n w) else iface_at k w))"
proof -
  from remote_thread_known [OF wf k, of e av] obtain w' where
    w': "WanMgr_WanRemoteIfaceConfigure_thread_body e mac av w = Some w'"
    "gWanMgrDataBase w' = gWanMgrDataBase (upd_iface n (remote_enable av) w)" by blast
  have u: "wf_db (upd_iface n (remote_enable av) w)"
    by (rule iffD2 [OF wf_db_upd_iface wf]) (use remote_enable_place in \<open>simp add: bus_place_def\<close>)
  note reads = same_db_reads [OF w'(2)]
  have "find_remote mac w' = int n"
    using k remote_hit_db [OF w'(2), of mac] reads by (simp add: find_remote_def)
  with w'(1) u wf_db_same [OF w'(2)] reads show ?thesis by auto
qed

text \<open>
  C35. A remote device that comes for the first time becomes the next entry of the table: a remote interface of group 2
  with the address of the device, enabled and not selected, and its address is found again there.  When the device goes,
  that entry is disabled and its physical status is down; when it comes back, the same entry is enabled again, and no
  second one is made.  The other entries keep their contents throughout, whatever the bus answers.
\<close>

theorem remote_device_joins_and_leaves:
  assumes wf: "wf_db w" and room: "total_ifaces w < MAX_WAN_INTERFACE_ENTRY" and mem: "alloc_VirtIf e 0 = Some mem"
    and new: "find_remote mac w = -1"
  shows "\<exists>w1 w2 w3 d. let n = unat (total_ifaces w) in
    WanMgr_WanRemoteIfaceConfigure_thread_body e mac True w = Some w1 \<and>
    WanMgr_WanRemoteIfaceConfigure_thread_body e2 mac False w1 = Some w2 \<and>
    WanMgr_WanRemoteIfaceConfigure_thread_body e3 mac True w2 = Some w3 \<and>
    (\<forall>u \<in> {w1, w2, w3}. wf_db u \<and> total_ifaces u = total_ifaces w + 1 \<and> find_remote mac u = int n \<and>
       (\<forall>k. k \<noteq> n \<longrightarrow> iface_at k u = iface_at k w)) \<and>
    If_RemoteCPEMac d = mac \<and> If_IfaceType d = REMOTE_IFACE \<and> Sel_Group (If_Selection d) = 2 \<and>
    Sel_Enable (If_Selection d) \<and> Sel_Status (If_Selection d) = WAN_IFACE_NOT_SELECTED \<and>
    iface_at n w1 = Some d \<and>
    iface_at n w2 = Some ((upd_Selection (\<lambda>s. s\<lparr>Sel_Enable := False\<rparr>) d)\<lparr>If_BaseInterfaceStatus := WAN_IFACE_PHY_STATUS_DOWN\<rparr>) \<and>
    iface_at n w3 = Some (d\<lparr>If_BaseInterfaceStatus := WAN_IFACE_PHY_STATUS_DOWN\<rparr>)"
proof -
  let ?n = "unat (total_ifaces w)"
  from remote_thread_new [OF wf room mem new] obtain w1 where
    w1: "WanMgr_WanRemoteIfaceConfigure_thread_body e mac True w = Some w1" "grown mac mem w w1" by blast
  from grown_new [OF w1(2) wf room] obtain b where
    b: "iface_at ?n w1 = Some (new_remote_iface mac mem w b)" "unat (total_ifaces w1) = Suc ?n" .
  let ?d = "new_remote_iface mac mem w b"
  have g: "wf_db w1" "total_ifaces w1 = total_ifaces w + 1" "\<And>k. k \<noteq> ?n \<Longrightarrow> iface_at k w1 = iface_at k w"
    using w1(2) by (simp_all add: grown_def)
  have old: "\<not> remote_hit mac i w" if "i < ?n" for i
    using new that by (cases rule: find_remote_cases [of mac w]) simp_all
  have n1: "find_remote mac w1 = int ?n"
  proof (rule find_remote_last)
    show "\<not> remote_hit mac i w1" if "i < ?n" for i using old [OF that] that g(3) [of i] by (simp add: remote_hit_def)
    show "remote_hit mac ?n w1" using b(1) by (simp add: remote_hit_def remote_matches_def same_nocase_n_def)
    show "?n < unat (total_ifaces w1)" using b(2) by simp
  qed
  from b(2) have "?n < unat (total_ifaces w1)" by simp
  from remote_thread_toggles [OF g(1) n1 this, of e2 False] obtain w2 where
    w2: "WanMgr_WanRemoteIfaceConfigure_thread_body e2 mac False w1 = Some w2" "wf_db w2" "total_ifaces w2 = total_ifaces w1"
      "find_remote mac w2 = int ?n"
      "\<And>k. iface_at k w2 = (if k = ?n then map_option (remote_enable False) (iface_at ?n w1) else iface_at k w1)" by blast
  with b(2) have "?n < unat (total_ifaces w2)" by simp
  from remote_thread_toggles [OF w2(2,4) this, of e3 True] obtain w3 where
    w3: "WanMgr_WanRemoteIfaceConfigure_thread_body e3 mac True w2 = Some w3" "wf_db w3" "total_ifaces w3 = total_ifaces w2"
      "find_remote mac w3 = int ?n"
      "\<And>k. iface_at k w3 = (if k = ?n then map_option (remote_enable True) (iface_at ?n w2) else iface_at k w2)" by blast
  have returned: "remote_enable True (remote_enable False ?d) = ?d\<lparr>If_BaseInterfaceStatus := WAN_IFACE_PHY_STATUS_DOWN\<rparr>"
    by (simp add: remote_enable_def upd_Selection_def new_remote_iface_def remote_entry_def)
  show ?thesis unfolding Let_def
    using w1(1) w2 w3 g n1 b(1) returned
    by (intro exI [of _ w1] exI [of _ w2] exI [of _ w3] exI [of _ ?d] conjI) (simp_all add: remote_enable_def)
qed

theorem remote_device_joins_and_leaves_witness:
  "\<exists>w1 w2. WanMgr_WanRemoteIfaceConfigure_thread_body sample_env ''00:11:22:33:44:55'' True sample_world = Some w1 \<and>
    WanMgr_WanRemoteIfaceConfigure_thread_body sample_env ''00:11:22:33:44:55'' False w1 = Some w2 \<and>
    total_ifaces w2 = 3 \<and> find_remote ''00:11:22:33:44:55'' w2 = 2"
proof -
  have "\<not> remote_hit mac i sample_world" if "i < 2" for mac i
    using lt_2_cases [OF that]
    by (auto simp: remote_hit_def sample_reads remote_matches_def docsis_def ethwan_def sample_iface_reads)
  then have "find_remote mac sample_world = -1" for mac
    by (cases rule: find_remote_cases [of mac sample_world]) (auto simp: sample_reads)
  from remote_device_joins_and_leaves [OF wf_sample_world _ _ this, of sample_env blank_virtif "''00:11:22:33:44:55''" sample_env sample_env]
  show ?thesis by (auto simp: sample_reads sample_env_def Let_def)
qed

text \<open>
  An event of the older data model, to which the program has subscribed: the suffix of its name is that of the current
  model's WAN status, so the physical status is written to the remote status of the virtual interface.
\<close>

theorem v1_phy_event_taken_for_status:
  assumes wf: "wf_db w" and i: "find_remote mac w = int i" "i < unat (total_ifaces w)"
    and mode: "Cfg_DeviceNwMode (config w) = GATEWAY_MODE" and ev: "Ev_name ev = Some X_RDK_REMOTE_INVOKE"
    "Ev_String ev (Some ''Mac_source'') = Some mac"
    "Ev_String ev (Some ''param_name'') = Some ''Device.X_RDK_WanManager.CPEInterface.1.Phy.Status''"
    "Ev_String ev (Some ''param_value'') = Some s"
  shows "\<exists>w'. WanMgr_Rbus_EventReceiveHandler e alloc ev w = Some w' \<and>
    (\<forall>k. iface_at k w' = (if k = i then map_option (upd_head_virtif (\<lambda>v. v\<lparr>VI_RemoteStatus := status_of_string s\<rparr>)) (iface_at k w)
      else iface_at k w)) \<and>
    (''Device.X_RDK_WanManager.CPEInterface.1.Phy.Status'', True, True) \<in> set RemoteV1DMs"
proof -
  let ?n = "''Device.X_RDK_WanManager.CPEInterface.1.Phy.Status''"
  let ?f = "upd_head_virtif (\<lambda>v. v\<lparr>VI_RemoteStatus := status_of_string s\<rparr>)"
  have names: "\<not> strstr ?n WANMGR_INFACE_PHY_STATUS_SUFFIX" "\<not> strstr ?n WANMGR_INFACE_WAN_LINKSTATUS_SUFFIX"
    by (rule strstr_missing [of "CHR ''B''"]; simp) (rule strstr_missing [of "CHR ''V''"]; simp)
  have status: "strstr ?n WANMGR_INFACE_WAN_STATUS_SUFFIX"
    using sublist_append_leftI [of WANMGR_INFACE_WAN_STATUS_SUFFIX "''Device.X_RDK_WanManager.CPEInterface.1.Phy''"]
    by (simp add: strstr_def)
  from wf i(2) obtain d where d: "iface_at i w = Some d" "wf_shape i (iface_shape d)" by (rule wf_db_iface_at)
  obtain m where m: "mutex w = Some m" using wf_db_mutex [OF wf] by blast
  from wf_shape_head [OF d(2)] obtain v where v: "head_virtif d = Some v" ..
  from i(2) index_bound [OF i(2)] have u: "unat (of_nat i :: uint) = i" "of_nat i < total_ifaces w" by simp_all
  have "remote_invoke_event (Some mac) (Some ?n) (Some s) w = Some (upd_iface i ?f w)"
    using remote_index_eq [OF wf, of mac] i(1) u wf d(1) v m
    by (auto simp: remote_invoke_event_def with_remote_def WanMgr_GetIfaceData_locked_def pthread_mutex_lock_def names status
        remote_status_def release_defs wf_db_def split: option.splits)
  then have "WanMgr_Rbus_EventReceiveHandler e alloc ev w = Some (upd_iface i ?f w)"
    using ev mode wf by (simp add: WanMgr_Rbus_EventReceiveHandler_def)
  moreover have "(?n, True, True) \<in> set RemoteV1DMs" by (simp add: RemoteV1DMs_def)
  ultimately show ?thesis by auto
qed

subsection \<open>Messages of the DHCP clients\<close>

definition no_ipv4_message :: "DML_VIRTUAL_IFACE \<Rightarrow> bool" where
  "no_ipv4_message v \<longleftrightarrow> IP_pIpcIpv4Data (VI_IP v) = None"

definition no_ipv6_message :: "DML_VIRTUAL_IFACE \<Rightarrow> bool" where
  "no_ipv6_message v \<longleftrightarrow> IP_pIpcIpv6Data (VI_IP v) = None"

lemmas no_message_defs = no_ipv4_message_def [abs_def] no_ipv6_message_def [abs_def]

definition machine_world :: world where
  "machine_world = upd_virtif (1, 0) (\<lambda>v. v\<lparr>VI_Interface_SM_Running := True\<rparr>) sample_world"

text \<open>
  C37. A message of a DHCPv4 client is delivered in the first of five tries in which an interface state machine that runs
  on the client's interface (the first one in the table, \<open>accepting\<close>) has no message waiting, and memory is found: it is in that machine's slot then, and nothing
  else has changed in that try.  When there is no such try, the message is dropped, and the server has changed nothing; a
  waiting message is never overwritten.  The other threads may change the data base between the tries as they like, as
  long as it stays well-formed.  The same holds for the DHCPv6 client.
\<close>

theorem lease_message_delivered:
  assumes wf: "wf_db w" "\<And>i u. wf_db u \<Longrightarrow> wf_db (others i u)"
  shows "((\<exists>k < 5. \<exists>p. accepting e (I4_dhcpcInterface m) no_ipv4_message p (ipc_world others k w) \<and>
          (\<forall>j < k. \<forall>q. \<not> accepting e (I4_dhcpcInterface m) no_ipv4_message q (ipc_world others j w)) \<and>
          WanMgr_IpcNewIpv4Msg e others m w = Some (ANSC_STATUS_SUCCESS,
            upd_virtif p (\<lambda>v. v\<lparr>VI_IP := (VI_IP v)\<lparr>IP_pIpcIpv4Data := Some m\<rparr>\<rparr>) (ipc_world others k w))) \<or>
        (\<forall>k < 5. \<forall>p. \<not> accepting e (I4_dhcpcInterface m) no_ipv4_message p (ipc_world others k w)) \<and>
          WanMgr_IpcNewIpv4Msg e others m w = Some (ANSC_STATUS_FAILURE, ipc_world others 5 w)) \<and>
      ((\<exists>k < 5. \<exists>p. accepting e (I6_ifname m6) no_ipv6_message p (ipc_world others k w) \<and>
          (\<forall>j < k. \<forall>q. \<not> accepting e (I6_ifname m6) no_ipv6_message q (ipc_world others j w)) \<and>
          WanMgr_IpcNewIpv6Msg e others m6 w = Some (ANSC_STATUS_SUCCESS,
            upd_virtif p (\<lambda>v. v\<lparr>VI_IP := (VI_IP v)\<lparr>IP_pIpcIpv6Data := Some m6\<rparr>\<rparr>) (ipc_world others k w))) \<or>
        (\<forall>k < 5. \<forall>p. \<not> accepting e (I6_ifname m6) no_ipv6_message p (ipc_world others k w)) \<and>
          WanMgr_IpcNewIpv6Msg e others m6 w = Some (ANSC_STATUS_FAILURE, ipc_world others 5 w))"
  unfolding WanMgr_IpcNewIpv4Msg_def try_ipv4_def put_ipv4_def [abs_def] WanMgr_IpcNewIpv6Msg_def try_ipv6_def
    put_ipv6_def [abs_def] no_message_defs
  by (intro conjI ipc_tries_run [where n = 5] wf)

theorem lease_message_delivered_witness:
  "\<exists>p. WanMgr_IpcNewIpv4Msg sample_env (\<lambda>i w. w) (zero_ipc4\<lparr>I4_dhcpcInterface := ''erouter0''\<rparr>) machine_world =
    Some (ANSC_STATUS_SUCCESS, upd_virtif p (\<lambda>v. v\<lparr>VI_IP := (VI_IP v)
      \<lparr>IP_pIpcIpv4Data := Some (zero_ipc4\<lparr>I4_dhcpcInterface := ''erouter0''\<rparr>)\<rparr>\<rparr>) machine_world)"
proof -
  have wf: "wf_db machine_world" unfolding machine_world_def upd_virtif_def
    by (rule iffD2 [OF wf_db_upd_iface wf_sample_world]) (simp add: iface_shape_def map_map_nth)
  have same: "ipc_world (\<lambda>i w. w) k w = w" for k w by (induction k) (simp_all add: ipc_world_def)
  have "accepting sample_env ''erouter0'' no_ipv4_message (1, 0) machine_world"
    by (simp add: accepting_def WanMgr_GetVIfByName_VISM_running_locked_def find_virtif_locked_def machine_world_def
        upd_virtif_def sample_defs mk_world_def pthread_mutex_lock_def upd_iface_def upd_db_def map_nth_def virtif_at_def
        iface_at_def sample_iface_def blank_iface_def blank_virtif_def no_ipv4_message_def sample_env_def)
  moreover have "(0 :: nat) < 5" by simp
  moreover note conjunct1 [OF lease_message_delivered [OF wf, of "\<lambda>i w. w" sample_env
      "zero_ipc4\<lparr>I4_dhcpcInterface := ''erouter0''\<rparr>"]]
  ultimately show ?thesis unfolding same by fastforce
qed

subsection \<open>The whole program\<close>

text \<open>
  C33. The fail-over thread, the AutoWAN threads, the interface state machines and the calls together
  (\<open>program_step\<close>).  The program starts from any store it can read whose number of interfaces the table can hold;
  the start-up succeeds and the fail-over thread starts.  Then come, in any order and any number: passes of the fail-over
  thread; starts and passes of AutoWAN threads, a pass only while \<open>AW_sel_ok\<close> holds (the premise of C14: the selected
  interface of the group is SELECTED or ACTIVE only if the thread works on it); starts and passes of interface state
  machines, each while \<open>machine_at\<close> and \<open>env_ok\<close> hold (the premises of C19); and valid calls of the
  data-model library, the message bus, remote devices, the connectivity checker and the DHCP clients
  (\<open>call_ok\<close>, the premises of C34 and C38).  In every state reached this way the data base is well-formed, its
  mutex is free, at most one interface is active, and every such step returns.  Calls that are not valid, steps outside
  these conditions and the threads of the parallel scan policy are not part of it.
\<close>

theorem program_one_active:
  assumes "readable m n w" "unat n \<le> 32"
  shows "\<exists>w0 t w1. WanMgr_WanConfigInit m (WanMgr_Data_Init w) = Some (ANSC_STATUS_SUCCESS, w0) \<and>
    FO_init b e c w0 = Some (t, w1) \<and>
    (\<forall>s. (program_step b)\<^sup>*\<^sup>* (program_start t w1) s \<longrightarrow>
       wf_db (P_world s) \<and> mutex (P_world s) = Some 0 \<and> card (active_set (P_world s)) \<le> 1 \<and>
       (\<forall>mv. move_ok mv s \<longrightarrow> (\<exists>s'. exec_move b mv s = Some s')))"
proof -
  have "readable m n (WanMgr_Data_Init w)"
    using assms(1) psm_frame [OF psm_data_init(1)] total_frame [OF psm_data_init(1)] entry_ok_frame [OF psm_data_init(1)]
    by (simp add: readable_def)
  from startup_done [OF this _ assms(2)] obtain w0 where w0:
    "WanMgr_WanConfigInit m (WanMgr_Data_Init w) = Some (ANSC_STATUS_SUCCESS, w0)" "wf_db w0" "mutex w0 = Some 0"
    "active_set w0 = {}" using fresh_inactive by auto
  from FO_init_ok [OF w0(2,4), of b e c] obtain t w1 where
    i: "FO_init b e c w0 = Some (t, w1)" "keeps w0 w1" "FO_thread_inv t w1" by (rule okE)
  from i(2,3) w0(3) have start: "program_inv (program_start t w1)" by (intro program_inv_start) (simp_all add: keeps_def)
  have "wf_db (P_world s) \<and> mutex (P_world s) = Some 0 \<and> card (active_set (P_world s)) \<le> 1 \<and>
      (\<forall>mv. move_ok mv s \<longrightarrow> (\<exists>s'. exec_move b mv s = Some s'))"
    if "(program_step b)\<^sup>*\<^sup>* (program_start t w1) s" for s
  proof -
    from program_reach_inv [OF that start] have inv: "program_inv s" .
    have "\<exists>s'. exec_move b mv s = Some s'" if "move_ok mv s" for mv using move_safe [OF inv that, of b] by blast
    moreover have "wf_db (P_world s)" "mutex (P_world s) = Some 0" using inv by (simp_all add: program_inv_def)
    ultimately show ?thesis using program_inv_one_active [OF inv] by blast
  qed
  with w0(1) i(1) show ?thesis by blast
qed

text \<open>A pass of the fail-over thread, the start of the AutoWAN thread of group 1, a subscription, a message, another pass.\<close>

definition sample_moves :: "move list" where
  "sample_moves = [FailoverPass sample_env, PolicyStart sample_env 1 (sample_policy 0),
     Call sample_env (BusCall (BusSubscription RBUS_EVENT_ACTION_SUBSCRIBE (Some (status_name 1)))),
     Call sample_env (BusCall (ClientMessage OTHER_MESSAGE)), FailoverPass sample_env]"

theorem program_one_active_witness:
  "\<forall>c. \<exists>w0 t w1 s. WanMgr_WanConfigInit boot_mem (WanMgr_Data_Init (boot_world ''2'')) = Some (ANSC_STATUS_SUCCESS, w0) \<and>
    FO_init sample_build sample_env c w0 = Some (t, w1) \<and>
    fold (\<lambda>mv s. Option.bind s (exec_move sample_build mv)) sample_moves (Some (program_start t w1)) = Some s \<and>
    (program_step sample_build)\<^sup>*\<^sup>* (program_start t w1) s \<and> P_policy s 1 \<noteq> None \<and> card (active_set (P_world s)) \<le> 1"
proof
  fix c
  have "unat (2 :: uint) \<le> 32" by simp
  from program_one_active [OF boot_readable [OF boot_count(1)] this, where b = sample_build and e = sample_env and c = c]
  obtain w0 t w1 where start: "WanMgr_WanConfigInit boot_mem (WanMgr_Data_Init (boot_world ''2'')) = Some (ANSC_STATUS_SUCCESS, w0)"
    "FO_init sample_build sample_env c w0 = Some (t, w1)"
    and all: "\<And>s. (program_step sample_build)\<^sup>*\<^sup>* (program_start t w1) s \<Longrightarrow> card (active_set (P_world s)) \<le> 1 \<and>
      (\<forall>mv. move_ok mv s \<longrightarrow> (\<exists>s'. exec_move sample_build mv s = Some s'))" by blast
  have go: "\<exists>s'. exec_move sample_build mv s = Some s' \<and> (program_step sample_build)\<^sup>*\<^sup>* (program_start t w1) s'"
    if "(program_step sample_build)\<^sup>*\<^sup>* (program_start t w1) s" "move_ok mv s" for mv s
    using all [OF that(1)] that program_step.step [OF that(2)] by (meson rtranclp.rtrancl_into_rtrancl)
  obtain s1 where 1: "exec_move sample_build (FailoverPass sample_env) (program_start t w1) = Some s1"
    "(program_step sample_build)\<^sup>*\<^sup>* (program_start t w1) s1" using go [OF rtranclp.rtrancl_refl, of "FailoverPass sample_env"] by auto
  then have "P_policy s1 1 = None" by (auto simp: program_start_def)
  then obtain s2 where 2: "exec_move sample_build (PolicyStart sample_env 1 (sample_policy 0)) s1 = Some s2"
    "(program_step sample_build)\<^sup>*\<^sup>* (program_start t w1) s2" using go [OF 1(2), of "PolicyStart sample_env 1 (sample_policy 0)"] by auto
  then have p: "P_policy s2 1 \<noteq> None" by auto
  let ?sub = "BusCall (BusSubscription RBUS_EVENT_ACTION_SUBSCRIBE (Some (status_name 1)))"
  obtain s3 where 3: "exec_move sample_build (Call sample_env ?sub) s2 = Some s3"
    "(program_step sample_build)\<^sup>*\<^sup>* (program_start t w1) s3" using go [OF 2(2), of "Call sample_env ?sub"] by auto
  let ?msg = "BusCall (ClientMessage OTHER_MESSAGE)"
  obtain s4 where 4: "exec_move sample_build (Call sample_env ?msg) s3 = Some s4"
    "(program_step sample_build)\<^sup>*\<^sup>* (program_start t w1) s4" using go [OF 3(2), of "Call sample_env ?msg"] by auto
  obtain s5 where 5: "exec_move sample_build (FailoverPass sample_env) s4 = Some s5"
    "(program_step sample_build)\<^sup>*\<^sup>* (program_start t w1) s5" using go [OF 4(2), of "FailoverPass sample_env"] by auto
  from p 3(1) 4(1) 5(1) have "P_policy s5 1 \<noteq> None" by (auto simp del: exec_call.simps)
  with start 1 2 3 4 5 all [OF 5(2)] show "\<exists>w0 t w1 s. WanMgr_WanConfigInit boot_mem (WanMgr_Data_Init (boot_world ''2'')) =
      Some (ANSC_STATUS_SUCCESS, w0) \<and> FO_init sample_build sample_env c w0 = Some (t, w1) \<and>
    fold (\<lambda>mv s. Option.bind s (exec_move sample_build mv)) sample_moves (Some (program_start t w1)) = Some s \<and>
    (program_step sample_build)\<^sup>*\<^sup>* (program_start t w1) s \<and> P_policy s 1 \<noteq> None \<and> card (active_set (P_world s)) \<le> 1"
    by (intro exI [of _ w0] exI [of _ t] exI [of _ w1] exI [of _ s5]) (simp add: sample_moves_def del: exec_move.simps)
qed

end
