(* ===== verification/Spec2Isabelle.thy ===== *)
theory Spec2Isabelle
  imports WanDataProps WanFailoverProps WanAutoChoice WanReportProps WanLeaseProps
    WanParallelProps WanDmlProps WanBusProps
begin

text \<open>
  A model of the RDK WAN Manager (\<open>source/WanManager\<close> and \<open>source/TR-181\<close> under \<open>src\<close>): the daemon of a
  router that decides which of its WAN interfaces carries the traffic, brings the chosen interface up,
  and falls back to another one when it fails.

  The program.  One process holds a data base (\<open>wanmgr_data.c\<close>) of base interfaces, each with a list of
  virtual interfaces, and of groups of interfaces, behind one recursive mutex.  The fail-over controller
  (\<open>wanmgr_wan_failover.c\<close>) is a thread that starts a selection thread for every group, watches the
  interface each of them selects, and makes the selected interface of the best group ACTIVE.  A selection
  thread (\<open>wanmgr_policy_auto_impl.c\<close>) tries the interfaces of its group in the order of their priority
  and starts an interface state machine (\<open>wanmgr_interface_sm.c\<close>) for each virtual interface of the one it
  tries; the selection thread of the other policy (\<open>wanmgr_policy_parallel_scan_impl.c\<close>) starts them for all of its
  interfaces and selects the best that works.  The threads talk through the data base only: the policy writes the selected interface of its
  group and the selection status SELECTED, the controller turns SELECTED into ACTIVE and back, the
  interface state machines read the selection status and report connectivity.

  The theories, in the order of the program's layers:
  \<^item> \<open>WanPrelude\<close>: C integers, loops with \<open>break\<close>, tables read by index, instance numbers.
  \<^item> \<open>WanTypes\<close>: the data model of \<open>wanmgr_dml.h\<close>, the world the threads share, the environment that
    answers the calls that leave the program, the compile-time switches.
  \<^item> \<open>WanBus\<close>: the persistent store, the message bus, syscfg, sysevents and lamps
    (\<open>wanmgr_rdkbus_utils.c\<close>, \<open>wanmgr_rdkbus_apis.c\<close>, \<open>wanmgr_net_utils.c\<close>, \<open>wanmgr_sysevents.c\<close>), as far
    as the modelled components use them.
  \<^item> \<open>WanData\<close>: the data base, its accessors, the lists of virtual interfaces, remote interfaces; its
    well-formedness \<open>wf_db\<close>, and the interface (\<open>locale\<close>) of a guarded access to a table.
  \<^item> \<open>WanSafe\<close>: the calculus \<open>ok\<close>/\<open>okx\<close> of safe computations, the contract of a thread (\<open>wan_thread\<close>), and
    the part of the data base the threads negotiate over (\<open>sel_view\<close>).
  \<^item> \<open>WanFailover\<close>, \<open>WanFailoverLemmas\<close>, \<open>WanFailoverProps\<close>: the fail-over controller.
  \<^item> \<open>WanPolicy\<close>, \<open>WanPolicyLemmas\<close>: what the selection policies share: the controller record and the start
    of a state machine.
  \<^item> \<open>WanAutoPolicy\<close>, \<open>WanAutoLemmas\<close>, \<open>WanAutoSpec\<close>, \<open>WanAutoProps\<close>, \<open>WanAutoChoice\<close>: the AutoWAN policy, its
    state diagram as an abstract specification, and its properties.
  \<^item> \<open>WanParallelPolicy\<close>, \<open>WanParallelScan\<close>, \<open>WanParallelLemmas\<close>, \<open>WanParallelSpec\<close>, \<open>WanParallelProps\<close>: the parallel scan
    policy (\<open>wanmgr_policy_parallel_scan_impl.c\<close>), its choice as predicates on the interfaces of the group, the
    effect \<open>own\<close> of keeping to a group, its state diagram, and its properties.
  \<^item> \<open>WanNet\<close>, \<open>WanStatus\<close>: what the interface state machine calls: routes, DNS, the DHCP clients, the
    connectivity checker, router solicitations (\<open>wanmgr_net_utils.c\<close>, \<open>wanmgr_utils.c\<close>,
    \<open>wanmgr_rbus_handler_apis.c\<close>), and the reports of the status to the bus (\<open>wanmgr_rdkbus_apis.c\<close>).
  \<^item> \<open>WanDhcpEvents\<close>: the messages of the DHCPv4, DHCPv6 and PPP clients and of the cellular manager
    (\<open>wanmgr_dhcpv4_apis.c\<close>, \<open>wanmgr_dhcpv6_apis.c\<close>).
  \<^item> \<open>WanConnection\<close>, \<open>WanInterfaceSM\<close>: the interface state machine (\<open>wanmgr_interface_sm.c\<close>): its helpers,
    transitions, states and its thread.
  \<^item> \<open>WanVif\<close>, \<open>WanSteps\<close>, \<open>WanStatusLemmas\<close>, \<open>WanHelpers\<close>, \<open>WanMachine\<close>, \<open>WanMachineThread\<close>, \<open>WanMachineLoss\<close>:
    the calculus \<open>vk\<close> of computations that change one virtual interface within a relation, its rules (locales
    \<open>vif_effects\<close>, \<open>vif_links\<close>, \<open>vif_checks\<close>, \<open>vif_clients\<close>, \<open>vif_leases\<close>, interpreted at the relations the
    properties need), the state diagram \<open>ism_next\<close>, the thread, and the loss of the physical interface.
  \<^item> \<open>WanMachineProps\<close>, \<open>WanReportProps\<close>, \<open>WanLeaseProps\<close>: the properties of the interface state machine, of the
    reports and of the messages.
  \<^item> \<open>WanConfig\<close>, \<open>WanConfigLemmas\<close>, \<open>WanConfigProps\<close>: the persistent configuration (the readers and writers of
    \<open>wanmgr_rdkbus_apis.c\<close> and \<open>wanmgr_rdkbus_utils.c\<close>) and the start-up of the data base (\<open>wanmgr_data.c\<close>); what is
    written is read back.
  \<^item> \<open>WanStartupLemmas\<close>, \<open>WanStartupProps\<close>: the loops of the start-up, and the data base it builds.
  \<^item> \<open>WanDml\<close>, \<open>WanDmlVirtual\<close>, \<open>WanDmlTop\<close>: the data-model handlers (\<open>wanmgr_dml_iface_v2_apis.c\<close>,
    \<open>wanmgr_dml_apis.c\<close>): of the interfaces and their selection, of the virtual interfaces and their lists, of the
    manager and the groups.
  \<^item> \<open>WanDmlLemmas\<close>, \<open>WanDmlSafe\<close>, \<open>WanDmlHandlers\<close>, \<open>WanDmlCalls\<close>, \<open>WanDmlProps\<close>: the effect \<open>kept\<close>, which keeps what
    the threads rely on; every handler is safe and has it; the calls of the data-model library as data; the properties of the
    handlers.
  \<^item> \<open>WanRbus\<close>, \<open>WanRbusRemote\<close>, \<open>WanRbusLemmas\<close>: the handlers of the message bus
    (\<open>wanmgr_rbus_handler_apis.c\<close>): subscriptions, reading and writing the parameters of an interface, the events,
    the registration of the rows, the interfaces of remote devices with the thread that adds them, the connectivity
    checker; every handler is safe, and the effect it has.
  \<^item> \<open>WanIpc\<close>, \<open>WanIpcLemmas\<close>: the message server (\<open>wanmgr_ipc.c\<close>), which brings the messages of the DHCP clients to
    the interface state machines; the try in which a message is delivered.
  \<^item> \<open>WanProgram\<close>, \<open>WanBusProps\<close>: the calls of the bus and of the server as data beside those of the data-model library,
    and the program as one transition system (\<open>program_step\<close>): the fail-over thread, the AutoWAN threads, the interface
    state machines and the valid calls over one data base; the properties of the bus, and of the program from the start-up on.
  \<^item> \<open>WanDataProps\<close>: properties of the data base.  \<open>WanSamples\<close>: concrete data bases for the witnesses.

  Conventions.  A function of the code is a function on an explicit \<open>world\<close>; it returns \<open>None\<close> in the one
  case C has no branch for, a dereference of NULL or of an element beyond a table, and error codes are
  ordinary values.  A pointer into a table is the index of its element.  The mutex is the number of times
  the running thread holds it; the accessors called \<open>_locked\<close> return with it held when they return a
  pointer, as in the code.  What the program emits (sysevents, writes to the stores, bus calls, created
  threads) is appended to a log, newest first; what it is told (clock, results of calls) comes from the
  \<open>env\<close> record and may depend on that log.  Numbers read from the persistent store and machine integers
  keep their width (\<open>uint\<close> is a 32-bit word).  Compile-time switches are fields of \<open>build\<close>.

  Threads.  One iteration of a thread's loop is one \<open>pass\<close>, a function.  Between two passes the other
  threads may change the world in any way their contracts allow (\<open>interference\<close>, \<open>FO_rely\<close>, \<open>ISM_rely\<close>): a run
  (\<open>run_thread\<close>) is a list of such changes, each followed by a pass with its own environment.  A pass is
  treated as atomic.  The interface state machine does hold the mutex for the whole of a pass; the other
  threads release it between the critical sections of one pass, so for them this is an abstraction, and
  interleavings inside a pass are not modelled.  No fuel is used; every loop of the modelled code is bounded by
  the size of a table, the length of an answer, or, where an address is awaited, by its 15 attempts.

  The build.  The switches that change the modelled code are fields of \<open>build\<close> or fixed: the model is that of a
  gateway with rbus and the unified data model (\<open>WAN_MANAGER_UNIFICATION_ENABLED\<close>), without MAP-T, NAT46, 464XLAT,
  IPoE health check and the DHCP manager.  The start-up and the handlers are those of a build with fail-over that is
  neither for XB6, CBR2 nor Raspberry Pi (these rewrite the persistent records of the older data model first, and
  restart the WAN on some settings), without 802.1p markings.  Traces are left out, unless they dereference a pointer.

  The start-up takes what memory it is given (\<open>startup_mem\<close>): which allocations succeed, and what the blocks and the
  two variables the code does not initialise contain.  A number from the store or from the data-model library that
  names no enumerator, and a text that does not fit its array, have no outcome (\<open>None\<close>), like a bad dereference: the
  code checks neither.  The bus library is outside too: the properties hold for the calls, events and answers that are
  valid (\<open>bus_call_ok\<close>): they name rows of the tables and carry their fields, with an address of at most 17
  characters, and a remote device finds a free entry and cleared memory.  The data-model library is not modelled either: the
  properties hold for calls whose arguments are of the kind it passes (\<open>dml_call_ok\<close>): handles it got from the tables,
  texts that fit, numbers of enumerators.  Other calls are not covered: on some of them the code dereferences NULL, writes
  beyond an array or returns with the mutex held.

  What is assumed of the environment of the interface state machine (\<open>env_ok\<close>): memory does not run out, the
  lines of \<open>resolv.conf\<close> have the tokens the code takes for granted, and so have the answers of \<open>rdisc6\<close>; and
  of the data (\<open>machine_at\<close>): the names of the interfaces fit the buffers of the report and of the bridge
  name, and an interface with VLANs has a first entry.  Each of these is needed: without it the code
  dereferences NULL or overflows a buffer.

  What the lemmas show.  Safety: every run of the fail-over thread, of the two policy threads and of an interface state
  machine returns, keeps the data base well-formed and gives the mutex back.  The fail-over controller has at most
  one interface ACTIVE at any time, relying on what the others promise; the AutoWAN policy is shown to keep that
  promise, but for one way out of its scanning state, which is stated; the parallel scan keeps to its own group;
  and an interface state machine keeps it
  without exception: of the tables a pass changes nothing but its own virtual interface, and no setting of the
  configuration.  Every pass of the policy threads and of
  the interface state machine is a step of its state diagram.  Decisions (which group, which interface under either policy, when to
  restore, what a swap type stops, which VLAN is tried next) and the report of the status are equal to reference
  definitions.  The threads stop when they are told to: the fail-over controller when WAN is disabled, the interfaces are
  down and no group is running any more, the AutoWAN policy when WAN is disabled, the interface state machine after four passes once its links are down, with no address, client or
  check left behind.  The start-up makes a well-formed data base of every store it can read, and overruns the table
  when the store counts too many interfaces; a committed interface is read back as it was.  Every valid call of the
  data-model library, and every valid call, event and answer of the message bus, is safe; it is a step the fail-over thread may
  rely on and, unless it renames, enables or adds an interface, the interface state machines too; priorities stay distinct, the masks of the groups agree with the groups of
  the interfaces, and together: from the start-up on, in every state the fail-over thread, the AutoWAN threads, the interface
  state machines and valid calls reach, each within the conditions of its own safety (\<open>move_ok\<close>), at most one interface is
  active and the next step returns; the threads of the parallel scan are not part of that system.  The
  accessors and searches of the data base are sound, and where they leave the mutex locked
  this is proved too.

  Not modelled: the older selection policies, which the fail-over controller does not start, the tables of the DHCP
  clients of the data model, web configuration, the handlers of the build without
  the unified data model (\<open>wanmgr_dml_iface_apis.c\<close>), and the operating-system layer (\<open>wanmgr_core.c\<close>, the
  sockets of the message server, the netlink monitor), which is input and output with no decisions of its own.
\<close>

end
